(* ===== verification/Prelude.thy ===== *)
theory Prelude
  imports Complex_Main "HOL-Library.Code_Target_Nat"
    "HOL-Library.Word"
    "HOL-Library.List_Lexorder"
    "HOL-Library.Char_ord"
    "HOL-Library.Multiset"
begin

text \<open>
  Shared vocabulary of the development: the Python values the sources handle and the small part
  of the Python standard library they call.

  \<^item> A \<open>str\<close> is a \<^typ>\<open>string\<close>: code points below 256.  A \<open>bytes\<close> object is a list of
    8-bit words.
  \<^item> An exception is a value: \<open>'a res\<close> is \<open>pyerr + 'a\<close>, sequenced by \<open>bindR\<close> and mapped
    over a list by \<open>mapR\<close> (the first exception wins, as in the loop it stands for).
  \<^item> String methods (\<open>startswith\<close>, \<open>split\<close>, \<open>partition\<close>, \<open>strip\<close>, \<open>isdigit\<close>), the
    decimal printer \<open>str(n)\<close> and \<open>int(s)\<close> are defined here once, with the facts the
    components use (what \<open>str\<close> prints is read back by \<open>int\<close>, splitting inverts joining).
  \<^item> \<open>sorted\<close> of a dict's keys is \<open>sort\<close> of a duplicate-free list; \<open>bisect_right\<close> is the
    library's loop, proved to find the insertion point.
  \<^item> A \<open>float\<close> is a \<^typ>\<open>real\<close>; rounding of floating-point arithmetic is not modelled.
\<close>

unbundle bit_operations_syntax

named_theorems py_simps \<open>unfolding rules of the Python library model\<close>
named_theorems res_simps \<open>rules that push \<open>bindR\<close> and \<open>mapR\<close> through a computation\<close>

section \<open>Exceptions as values\<close>

datatype pyerr = BERError | ValueError | KeyError | AssertionError | SystemExit

type_synonym 'a res = "pyerr + 'a"
type_synonym byte = "8 word"
type_synonym bytes = "byte list"

definition bindR :: "'a res \<Rightarrow> ('a \<Rightarrow> 'b res) \<Rightarrow> 'b res" where
  "bindR m f = (case m of Inl e \<Rightarrow> Inl e | Inr x \<Rightarrow> f x)"

fun mapR :: "('a \<Rightarrow> 'b res) \<Rightarrow> 'a list \<Rightarrow> 'b list res" where
  "mapR f [] = Inr []"
| "mapR f (x # xs) = bindR (f x) (\<lambda>y. bindR (mapR f xs) (\<lambda>ys. Inr (y # ys)))"

lemma bindR_Inr [simp, res_simps]: "bindR (Inr x) f = f x"
  by (simp add: bindR_def)

lemma bindR_Inl [simp, res_simps]: "bindR (Inl e) f = Inl e"
  by (simp add: bindR_def)

lemma bindR_eq_Inr [res_simps]: "bindR m f = Inr y \<longleftrightarrow> (\<exists>x. m = Inr x \<and> f x = Inr y)"
  by (cases m) simp_all

lemma bindR_cong [fundef_cong]:
  "m = m' \<Longrightarrow> (\<And>x. m' = Inr x \<Longrightarrow> f x = g x) \<Longrightarrow> bindR m f = bindR m' g"
  by (cases m') simp_all

lemma bindR_assoc: "bindR (bindR m f) g = bindR m (\<lambda>x. bindR (f x) g)"
  by (cases m) simp_all

lemma mapR_all_Inr [res_simps]: "(\<And>x. x \<in> set xs \<Longrightarrow> f x = Inr (g x)) \<Longrightarrow> mapR f xs = Inr (map g xs)"
  by (induction xs) simp_all

lemma mapR_append:
  "mapR f (xs @ ys) = bindR (mapR f xs) (\<lambda>as. bindR (mapR f ys) (\<lambda>bs. Inr (as @ bs)))"
  by (induction xs) (simp_all add: bindR_assoc, auto simp: bindR_def split: sum.splits)

lemma mapR_eq_Inr_length: "mapR f xs = Inr ys \<Longrightarrow> length ys = length xs"
  by (induction xs arbitrary: ys) (auto simp: bindR_eq_Inr)

section \<open>Strings\<close>

definition startswith :: "string \<Rightarrow> string \<Rightarrow> bool" where
  "startswith s p \<longleftrightarrow> take (length p) s = p"

text \<open>\<open>s.split(c)\<close> for a one-character separator: always at least one piece.\<close>

fun split_on :: "char \<Rightarrow> string \<Rightarrow> string list" where
  "split_on c [] = [[]]"
| "split_on c (x # xs) =
     (case split_on c xs of
        [] \<Rightarrow> [[x]]
      | w # ws \<Rightarrow> if x = c then [] # w # ws else (x # w) # ws)"

text \<open>\<open>c.join(ws)\<close>.\<close>

fun join_with :: "string \<Rightarrow> string list \<Rightarrow> string" where
  "join_with sep [] = []"
| "join_with sep [w] = w"
| "join_with sep (w # v # ws) = w @ sep @ join_with sep (v # ws)"

text \<open>\<open>s.partition(c)\<close>: what precedes the first \<open>c\<close> and what follows it.\<close>

definition partition_at :: "char \<Rightarrow> string \<Rightarrow> string \<times> string" where
  "partition_at c s = (takeWhile (\<lambda>x. x \<noteq> c) s, tl (dropWhile (\<lambda>x. x \<noteq> c) s))"

definition strip_by :: "(char \<Rightarrow> bool) \<Rightarrow> string \<Rightarrow> string" where
  "strip_by p s = rev (dropWhile p (rev (dropWhile p s)))"

definition rstrip_by :: "(char \<Rightarrow> bool) \<Rightarrow> string \<Rightarrow> string" where
  "rstrip_by p s = rev (dropWhile p (rev s))"

text \<open>The ASCII and Latin-1 characters \<open>str.strip()\<close> removes.\<close>

definition is_space :: "char \<Rightarrow> bool" where
  "is_space c \<longleftrightarrow> (of_char c :: nat) \<in> {9, 10, 11, 12, 13, 28, 29, 30, 31, 32, 133, 160}"

definition strip :: "string \<Rightarrow> string" where
  "strip = strip_by is_space"

definition digit_char :: "char \<Rightarrow> bool" where
  "digit_char c \<longleftrightarrow> 48 \<le> (of_char c :: nat) \<and> (of_char c :: nat) \<le> 57"

definition isdigit :: "string \<Rightarrow> bool" where
  "isdigit s \<longleftrightarrow> s \<noteq> [] \<and> list_all digit_char s"

definition BS :: string where "BS = [CHR 0x5C]"
definition TAB :: string where "TAB = [CHR 0x09]"

lemma split_on_ne [simp]: "split_on c s \<noteq> []"
  by (induction s) (auto split: list.splits)

lemma startswith_append [simp]: "startswith (p @ s) p"
  by (simp add: startswith_def)

lemma startswith_iff: "startswith s p \<longleftrightarrow> (\<exists>t. s = p @ t)"
  by (metis append_eq_conv_conj append_take_drop_id startswith_def)

lemma split_on_no_sep: "c \<notin> set w \<Longrightarrow> split_on c w = [w]"
  by (induction w) auto

lemma split_on_sep: "c \<notin> set w \<Longrightarrow> split_on c (w @ c # s) = w # split_on c s"
proof (induction w)
  case Nil
  then show ?case by (auto split: list.splits)
next
  case (Cons x w)
  then show ?case by (auto split: list.splits)
qed

lemma split_on_join:
  "ws \<noteq> [] \<Longrightarrow> (\<And>w. w \<in> set ws \<Longrightarrow> c \<notin> set w) \<Longrightarrow> split_on c (join_with [c] ws) = ws"
proof (induction ws rule: induct_list012)
  case (3 w v ws)
  have "split_on c (w @ c # join_with [c] (v # ws)) = w # split_on c (join_with [c] (v # ws))"
    using 3 by (intro split_on_sep) simp
  then show ?case using 3 by simp
qed (simp_all add: split_on_no_sep)

lemma join_split_on [simp]: "join_with [c] (split_on c s) = s"
proof (induction s)
  case (Cons x s)
  obtain w ws where "split_on c s = w # ws" by (cases "split_on c s") auto
  with Cons show ?case by (cases ws) auto
qed simp

lemma split_on_pieces: "w \<in> set (split_on c s) \<Longrightarrow> c \<notin> set w"
proof (induction s arbitrary: w)
  case (Cons x s)
  obtain v vs where "split_on c s = v # vs" by (cases "split_on c s") auto
  with Cons show ?case by (auto split: if_splits)
qed simp

lemma partition_at_first: "c \<notin> set w \<Longrightarrow> partition_at c (w @ c # s) = (w, s)"
  by (auto simp: partition_at_def takeWhile_append dropWhile_append)

lemma partition_at_none: "c \<notin> set w \<Longrightarrow> partition_at c w = (w, [])"
proof -
  assume "c \<notin> set w"
  then have "takeWhile (\<lambda>x. x \<noteq> c) w = w" and d: "dropWhile (\<lambda>x. x \<noteq> c) w = []"
    by (auto simp: takeWhile_eq_all_conv dropWhile_eq_Nil_conv)
  then show ?thesis unfolding partition_at_def by (simp only: d list.sel)
qed

lemma strip_by_id: "s = [] \<or> (\<not> p (hd s) \<and> \<not> p (last s)) \<Longrightarrow> strip_by p s = s"
proof -
  assume h: "s = [] \<or> (\<not> p (hd s) \<and> \<not> p (last s))"
  then have "dropWhile p s = s" "dropWhile p (rev s) = rev s"
    by (auto simp: dropWhile_eq_self_iff hd_rev)
  then show ?thesis by (simp add: strip_by_def)
qed

section \<open>Decimal numbers\<close>

definition digit :: "nat \<Rightarrow> char" where
  "digit d = char_of (48 + d)"

fun nat_str :: "nat \<Rightarrow> string" where
  "nat_str n = (if n < 10 then [digit n] else nat_str (n div 10) @ [digit (n mod 10)])"

declare nat_str.simps [simp del]

definition int_str :: "int \<Rightarrow> string" where
  "int_str i = (if i < 0 then CHR ''-'' # nat_str (nat (- i)) else nat_str (nat i))"

text \<open>\<open>f"{n:02d}"\<close> of a number that is not negative.\<close>

definition pad2 :: "nat \<Rightarrow> string" where
  "pad2 n = (if n < 10 then CHR ''0'' # nat_str n else nat_str n)"

definition digits_val :: "string \<Rightarrow> nat" where
  "digits_val s = foldl (\<lambda>a c. 10 * a + (of_char c - 48)) 0 s"

text \<open>
  \<open>int(s)\<close> in base 10: surrounding white space, one sign, digits with single underscores between
  them; anything else raises \<open>ValueError\<close>.
\<close>

definition py_int :: "string \<Rightarrow> int res" where
  "py_int s =
     (let t = strip s;
          neg = startswith t ''-'';
          body = (if neg \<or> startswith t ''+'' then tl t else t);
          parts = split_on (CHR ''_'') body
      in if list_all isdigit parts
         then Inr ((if neg then - 1 else 1) * int (digits_val (concat parts)))
         else Inl ValueError)"

lemma digit_code [simp]: "d < 10 \<Longrightarrow> (of_char (digit d) :: nat) = 48 + d"
  by (simp add: digit_def)

lemma digits_val_snoc: "digits_val (s @ [c]) = 10 * digits_val s + (of_char c - 48)"
  by (simp add: digits_val_def)

lemma digits_val_nat_str [simp]: "digits_val (nat_str n) = n"
proof (induction n rule: nat_str.induct)
  case (1 n)
  show ?case
  proof (cases "n < 10")
    case True
    then show ?thesis by (subst nat_str.simps) (simp add: digits_val_def)
  next
    case False
    with 1 have "digits_val (nat_str (n div 10)) = n div 10" by simp
    with False show ?thesis by (subst nat_str.simps) (simp add: digits_val_snoc)
  qed
qed

lemma nat_str_inj [simp]: "nat_str m = nat_str n \<longleftrightarrow> m = n"
  by (metis digits_val_nat_str)

lemma nat_str_digits: "list_all digit_char (nat_str n)"
proof (induction n rule: nat_str.induct)
  case (1 n)
  have d: "digit_char (digit d)" if "d < 10" for d
    using that by (simp add: digit_char_def)
  from 1 show ?case
    by (subst nat_str.simps) (simp add: d)
qed

lemma nat_str_ne [simp]: "nat_str n \<noteq> []"
  by (subst nat_str.simps) simp

lemma isdigit_nat_str [simp]: "isdigit (nat_str n)"
  by (simp add: isdigit_def nat_str_digits)

lemma nat_str_chars: "c \<in> set (nat_str n) \<Longrightarrow> digit_char c"
  using nat_str_digits [of n] by (auto simp: list_all_iff)

lemma digit_char_distinct [simp]:
  "\<not> digit_char (CHR ''.'')" "\<not> digit_char (CHR ''_'')" "\<not> digit_char (CHR ''-'')"
  "\<not> digit_char (CHR ''+'')" "\<not> digit_char (CHR '' '')" "\<not> digit_char (CHR '':'')"
  "\<not> digit_char (CHR ''~'')" "\<not> digit_char (CHR ''/'')"
  by (simp_all add: digit_char_def)

lemma digit_char_not_space: "digit_char c \<Longrightarrow> \<not> is_space c"
  by (auto simp: digit_char_def is_space_def)

lemma isdigit_strip: "isdigit s \<Longrightarrow> strip s = s"
  unfolding strip_def isdigit_def
  by (rule strip_by_id) (auto simp: list_all_iff dest: digit_char_not_space)

lemma isdigit_hd: "isdigit s \<Longrightarrow> digit_char (hd s)"
  by (cases s) (auto simp: isdigit_def)

lemma py_int_digits: "isdigit s \<Longrightarrow> py_int s = Inr (int (digits_val s))"
proof -
  assume s: "isdigit s"
  have h: "hd s \<noteq> CHR ''-''" "hd s \<noteq> CHR ''+''" "s \<noteq> []"
    using isdigit_hd [OF s] s by (auto simp: isdigit_def)
  have "CHR ''_'' \<notin> set s" using s by (auto simp: isdigit_def list_all_iff)
  then have "split_on (CHR ''_'') s = [s]" by (rule split_on_no_sep)
  with s h show ?thesis
    by (cases s) (simp_all add: py_int_def isdigit_strip startswith_def)
qed

lemma py_int_nat_str [simp]: "py_int (nat_str n) = Inr (int n)"
  by (simp add: py_int_digits)

lemma pad2_ne [simp]: "pad2 n \<noteq> []"
  by (simp add: pad2_def)

lemma digits_val_pad2 [simp]: "digits_val (pad2 n) = n"
proof -
  have "digits_val (CHR ''0'' # s) = digits_val s" for s by (simp add: digits_val_def)
  then show ?thesis by (simp add: pad2_def)
qed

lemma pad2_inj [simp]: "pad2 m = pad2 n \<longleftrightarrow> m = n"
  by (metis digits_val_pad2)

lemma pad2_chars: "c \<in> set (pad2 n) \<Longrightarrow> digit_char c"
  using nat_str_chars [of c n] by (auto simp: pad2_def digit_char_def split: if_splits)

text \<open>A name and an index: both can be read off when the name does not end in a digit.\<close>

lemma name_inj:
  assumes "p \<noteq> []" "\<not> digit_char (last p)" "q \<noteq> []" "\<not> digit_char (last q)" and "p @ pad2 n = q @ pad2 m"
  shows "p = q \<and> n = m"
proof -
  have tw: "takeWhile digit_char (rev (r @ pad2 k)) = rev (pad2 k)"
    if r: "r \<noteq> []" "\<not> digit_char (last r)" for r k
  proof -
    obtain r' where "r = r' @ [last r]" using r by (metis append_butlast_last_id)
    then have rr: "rev r = last r # rev r'" by (metis rev_eq_Cons_iff rev_rev_ident)
    have "takeWhile digit_char (rev r) = []" using r(2) by (subst rr) simp
    with pad2_chars [of _ k] show ?thesis by (auto simp: takeWhile_append)
  qed
  have "rev (pad2 n) = rev (pad2 m)" using tw [OF assms(1,2), of n] tw [OF assms(3,4), of m] assms(5) by simp
  then have "pad2 n = pad2 m" by simp
  with assms(5) show ?thesis by simp
qed

section \<open>Dictionaries\<close>

text \<open>A dict in insertion order: a key already there keeps its place and gets the new value.\<close>

definition dict_put :: "'k \<Rightarrow> 'v \<Rightarrow> ('k \<times> 'v) list \<Rightarrow> ('k \<times> 'v) list" where
  "dict_put k v d =
     (if k \<in> fst ` set d then map (\<lambda>(k', v'). if k' = k then (k', v) else (k', v')) d else d @ [(k, v)])"

lemma map_of_dict_put: "map_of (dict_put k v d) = (map_of d)(k \<mapsto> v)"
proof (cases "k \<in> fst ` set d")
  case True
  have "map_of (map (\<lambda>(k', v'). if k' = k then (k', v) else (k', v')) d) x
      = (if x = k then (if map_of d k = None then None else Some v) else map_of d x)" for x
    by (induction d) auto
  moreover have "map_of d k \<noteq> None" using True by (simp add: map_of_eq_None_iff)
  ultimately show ?thesis using True by (auto simp: dict_put_def)
next
  case False
  then have "map_of d k = None" by (simp add: map_of_eq_None_iff)
  with False show ?thesis by (auto simp: dict_put_def map_add_def split: option.splits)
qed

lemma dict_put_map_keys: "map fst (map (\<lambda>(k', v'). if k' = k then (k', v) else (k', v')) d) = map fst d"
  by (induction d) auto

lemma dict_put_fst: "map fst (dict_put k v d) = map fst d @ (if k \<in> fst ` set d then [] else [k])"
  unfolding dict_put_def by (simp only: dict_put_map_keys if_distrib [of "map fst"]) simp

lemma dict_put_keys: "fst ` set (dict_put k v d) = insert k (fst ` set d)"
  using arg_cong [OF dict_put_fst [of k v d], of set] by (auto simp del: map_map)

lemma dict_put_distinct: "distinct (map fst d) \<Longrightarrow> distinct (map fst (dict_put k v d))"
  unfolding dict_put_fst by simp

lemma dict_put_length: "length (dict_put k v d) = (if k \<in> fst ` set d then length d else Suc (length d))"
  by (simp add: dict_put_def)

section \<open>Rounding of floats\<close>

text \<open>\<open>int(x)\<close> of a float truncates towards zero; \<open>round(x)\<close> rounds half to even.\<close>

definition py_trunc :: "real \<Rightarrow> int" where
  "py_trunc x = (if 0 \<le> x then \<lfloor>x\<rfloor> else \<lceil>x\<rceil>)"

definition py_round :: "real \<Rightarrow> int" where
  "py_round x =
     (let f = \<lfloor>x\<rfloor>; d = x - of_int f
      in if d < 1 / 2 then f
         else if d > 1 / 2 then f + 1
         else if even f then f else f + 1)"

lemma py_trunc_mono: "x \<le> y \<Longrightarrow> py_trunc x \<le> py_trunc y"
proof -
  assume h: "x \<le> y"
  have "\<lceil>x\<rceil> \<le> \<lfloor>y\<rfloor>" if "x < 0" "0 \<le> y"
  proof -
    have "\<lceil>x\<rceil> \<le> 0" using that by (simp add: ceiling_le_iff)
    also have "0 \<le> \<lfloor>y\<rfloor>" using that by simp
    finally show ?thesis .
  qed
  with h show ?thesis by (auto simp: py_trunc_def floor_mono ceiling_mono)
qed

lemma py_trunc_of_int [simp]: "py_trunc (of_int i) = i"
  by (simp add: py_trunc_def)

lemma py_trunc_nonneg: "0 \<le> x \<Longrightarrow> 0 \<le> py_trunc x"
  by (simp add: py_trunc_def)

lemma py_round_bounds: "x - 1 / 2 \<le> of_int (py_round x)" "of_int (py_round x) \<le> x + 1 / 2"
  unfolding py_round_def Let_def
  by (auto, (linarith | simp add: not_less)+)

lemma py_round_between:
  assumes "of_int a \<le> x" and "x \<le> of_int b"
  shows "a \<le> py_round x \<and> py_round x \<le> b"
proof -
  have "of_int a - 1 / 2 \<le> (of_int (py_round x) :: real)"
    and "(of_int (py_round x) :: real) \<le> of_int b + 1 / 2"
    using py_round_bounds [of x] assms by linarith+
  then have "(of_int a :: real) < of_int (py_round x) + 1" "(of_int (py_round x) :: real) < of_int b + 1"
    by linarith+
  then show ?thesis by linarith
qed

section \<open>\<open>bisect.bisect_right\<close>\<close>

text \<open>The loop of the library, over indices \<open>lo\<close> and \<open>hi\<close>.\<close>

function bisect_loop :: "'a::linorder list \<Rightarrow> 'a \<Rightarrow> nat \<Rightarrow> nat \<Rightarrow> nat" where
  "bisect_loop xs x lo hi =
     (if lo < hi
      then let mid = (lo + hi) div 2
           in if x < xs ! mid then bisect_loop xs x lo mid else bisect_loop xs x (mid + 1) hi
      else lo)"
  by pat_completeness auto
termination by (relation "measure (\<lambda>(xs, x, lo, hi). hi - lo)") auto

declare bisect_loop.simps [simp del]

definition bisect_right :: "'a::linorder list \<Rightarrow> 'a \<Rightarrow> nat" where
  "bisect_right xs x = bisect_loop xs x 0 (length xs)"

lemma bisect_loop_correct:
  assumes "sorted xs" and "lo \<le> hi" and "hi \<le> length xs"
    and "\<forall>i<lo. xs ! i \<le> x" and "\<forall>i. hi \<le> i \<longrightarrow> i < length xs \<longrightarrow> x < xs ! i"
    and "r = bisect_loop xs x lo hi"
  shows "r \<le> length xs \<and> (\<forall>i<r. xs ! i \<le> x) \<and> (\<forall>i. r \<le> i \<longrightarrow> i < length xs \<longrightarrow> x < xs ! i)"
  using assms
proof (induction xs x lo hi rule: bisect_loop.induct)
  case (1 xs x lo hi)
  let ?m = "(lo + hi) div 2"
  show ?case
  proof (cases "lo < hi")
    case False
    have "bisect_loop xs x lo hi = lo" using False by (subst bisect_loop.simps) simp
    with "1.prems" have "r = lo" by simp
    with False "1.prems" show ?thesis by auto
  next
    case True
    then have m: "lo \<le> ?m" "?m < hi" by auto
    with "1.prems" have ml: "?m < length xs" by simp
    note mono = sorted_nth_mono [OF \<open>sorted xs\<close>]
    show ?thesis
    proof (cases "x < xs ! ?m")
      case less: True
      have r: "r = bisect_loop xs x lo ?m"
        using True less "1.prems" by (simp add: bisect_loop.simps [of xs x lo hi] Let_def)
      have up: "\<forall>i. ?m \<le> i \<longrightarrow> i < length xs \<longrightarrow> x < xs ! i"
        using less mono by (meson less_le_trans)
      show ?thesis
        by (rule "1.IH"(1)) (use True less m ml up r "1.prems" in auto)
    next
      case notless: False
      have r: "r = bisect_loop xs x (?m + 1) hi"
        using True notless "1.prems" by (simp add: bisect_loop.simps [of xs x lo hi] Let_def)
      have lowr: "\<forall>i<?m + 1. xs ! i \<le> x"
      proof (intro allI impI)
        fix i assume "i < ?m + 1"
        then have "xs ! i \<le> xs ! ?m" using ml mono [of i ?m] by simp
        with notless show "xs ! i \<le> x" by simp
      qed
      show ?thesis
        by (rule "1.IH"(2)) (use True notless m lowr r "1.prems" in auto)
    qed
  qed
qed

lemma bisect_right_correct:
  assumes "sorted xs"
  shows "bisect_right xs x \<le> length xs" and "i < bisect_right xs x \<Longrightarrow> xs ! i \<le> x"
    and "bisect_right xs x \<le> i \<Longrightarrow> i < length xs \<Longrightarrow> x < xs ! i"
  using bisect_loop_correct [OF assms, of 0 "length xs" x "bisect_right xs x"]
  by (auto simp: bisect_right_def)

end
