(* ===== verification/Physics.thy ===== *)
theory Physics
  imports Prelude "HOL-Library.State_Monad"
begin

text \<open>
  The moving values of a device: the wobble, named gauges and integrating counters of
  \<open>snmp/netsim.py\<close> (and the counter of \<open>fleet/serve.py\<close>, which has no cap), and the incident
  state machine \<open>DeviceState\<close>.  Python floats are reals here: the statements are about the
  arithmetic the code intends, rounding of doubles is not modelled.

  What a call reads from outside, \<open>time.time()\<close> and \<open>random.gauss(0.0, 0.25)\<close>, is an input: of the
  single step, or, for the device code that makes many such calls in a row, of the environment
  record \<open>sim\<close> which also holds the two module-wide registries \<open>_GAUGES\<close> and \<open>_ALL_COUNTERS\<close>.

  The locale \<open>sampler\<close> is the contract of a counter: it never runs backwards.  It is interpreted on
  both counters.
\<close>

section \<open>Wobble\<close>

record wobble =
  wphase :: real
  womega :: real
  wnoise :: real

definition wobble_init :: "real \<Rightarrow> real \<Rightarrow> wobble" where
  "wobble_init phase period = \<lparr>wphase = phase, womega = 2 * pi / period, wnoise = 0\<rparr>"

definition clampr :: "real \<Rightarrow> real \<Rightarrow> real \<Rightarrow> real" where
  "clampr lo hi x = max lo (min hi x)"

definition wobble_step :: "wobble \<Rightarrow> real \<Rightarrow> real \<Rightarrow> real \<times> wobble" where
  "wobble_step w now gauss =
     (let harm = 0.60 * sin (womega w * now + wphase w)
               + 0.28 * sin (womega w * 2.7 * now + wphase w * 1.7)
               + 0.18 * sin (womega w * 0.41 * now + wphase w * 0.5);
          noise = clampr (- 1.5) 1.5 (wnoise w * 0.9 + gauss)
      in (clampr (- 1) 1 ((harm + 0.45 * noise) / 1.8), w\<lparr>wnoise := noise\<rparr>))"

lemma clampr_bounds [simp]: "lo \<le> hi \<Longrightarrow> lo \<le> clampr lo hi x" "lo \<le> hi \<Longrightarrow> clampr lo hi x \<le> hi"
  by (auto simp: clampr_def)

lemma wobble_step_bounds: "- 1 \<le> fst (wobble_step w now g)" "fst (wobble_step w now g) \<le> 1"
  by (simp_all add: wobble_step_def Let_def)

lemma wobble_step_noise: "\<bar>wnoise (snd (wobble_step w now g))\<bar> \<le> 1.5"
proof -
  have "\<bar>clampr (- 1.5) 1.5 x\<bar> \<le> (1.5 :: real)" for x by (auto simp: clampr_def)
  then show ?thesis by (simp add: wobble_step_def Let_def)
qed

section \<open>Counters\<close>

record counter =
  acc :: real
  clast :: real
  camp :: real
  cwob :: wobble

definition counter_init :: "real \<Rightarrow> real \<Rightarrow> real \<Rightarrow> real \<Rightarrow> real \<Rightarrow> counter" where
  "counter_init phase amp period start now =
     \<lparr>acc = start, clast = now, camp = amp, cwob = wobble_init phase period\<rparr>"

definition counter_sample :: "counter \<Rightarrow> real \<Rightarrow> real option \<Rightarrow> real \<Rightarrow> real \<Rightarrow> int \<times> counter" where
  "counter_sample c rate_per_s cap now gauss =
     (let dt = max 0 (now - clast c);
          (d, wob) = wobble_step (cwob c) now gauss;
          inst = rate_per_s * (1 + camp c * d);
          inst = (case cap of None \<Rightarrow> inst | Some k \<Rightarrow> min inst k);
          c' = c\<lparr>acc := acc c + inst * dt, clast := now, cwob := wob\<rparr>
      in (py_trunc (acc c'), c'))"

text \<open>\<open>fleet/serve.py\<close>: no cap, and the caller may pass the time.\<close>

definition fleet_sample :: "counter \<Rightarrow> real \<Rightarrow> real option \<Rightarrow> real \<Rightarrow> real \<Rightarrow> int \<times> counter" where
  "fleet_sample c rate_per_s now_arg clock gauss =
     (let now = (case now_arg of None \<Rightarrow> clock | Some t \<Rightarrow> t);
          dt = max 0 (now - clast c);
          (d, wob) = wobble_step (cwob c) now gauss;
          inst = rate_per_s * (1 + camp c * d);
          c' = c\<lparr>acc := acc c + inst * dt, clast := now, cwob := wob\<rparr>
      in (py_trunc (acc c'), c'))"

text \<open>A run of samples, each with its request, clock reading and Gaussian sample.\<close>

fun readings :: "('c \<Rightarrow> 'r \<Rightarrow> real \<Rightarrow> real \<Rightarrow> int \<times> 'c) \<Rightarrow> 'c \<Rightarrow> ('r \<times> real \<times> real) list \<Rightarrow> int list" where
  "readings f c [] = []"
| "readings f c ((r, now, g) # reqs) = (let (n, c') = f c r now g in n # readings f c' reqs)"

locale sampler =
  fixes sample :: "'c \<Rightarrow> 'r \<Rightarrow> real \<Rightarrow> real \<Rightarrow> int \<times> 'c"
    and total :: "'c \<Rightarrow> real"
    and inv :: "'c \<Rightarrow> bool"
    and req_ok :: "'r \<Rightarrow> bool"
  assumes inv_kept: "inv c \<Longrightarrow> inv (snd (sample c r now g))"
    and total_mono: "inv c \<Longrightarrow> req_ok r \<Longrightarrow> total c \<le> total (snd (sample c r now g))"
    and shows_total: "fst (sample c r now g) = py_trunc (total (snd (sample c r now g)))"
begin

lemma readings_lower:
  assumes "inv c" and "\<forall>r \<in> set reqs. req_ok (fst r)" and "n \<in> set (readings sample c reqs)"
  shows "py_trunc (total c) \<le> n"
  using assms
proof (induction reqs arbitrary: c)
  case (Cons q reqs)
  obtain r now g where q: "q = (r, now, g)" by (cases q)
  obtain m c' where s: "sample c r now g = (m, c')" by (cases "sample c r now g")
  have m: "py_trunc (total c) \<le> py_trunc (total c')" and mt: "m = py_trunc (total c')" and i: "inv c'"
    using py_trunc_mono [OF total_mono [of c r now g]] shows_total [of c r now g] inv_kept [of c r now g]
      Cons.prems q s by auto
  show ?case using Cons.IH [OF i] Cons.prems m mt q s by (auto intro: order_trans)
qed simp

lemma readings_sorted:
  assumes "inv c" and "\<forall>r \<in> set reqs. req_ok (fst r)"
  shows "sorted (readings sample c reqs)"
  using assms
proof (induction reqs arbitrary: c)
  case (Cons q reqs)
  obtain r now g where q: "q = (r, now, g)" by (cases q)
  obtain m c' where s: "sample c r now g = (m, c')" by (cases "sample c r now g")
  have mt: "m = py_trunc (total c')" and i: "inv c'"
    using shows_total [of c r now g] inv_kept [of c r now g] Cons.prems q s by auto
  have "sorted (readings sample c' reqs)" using Cons.IH [OF i] Cons.prems by simp
  moreover have "\<forall>n \<in> set (readings sample c' reqs). m \<le> n"
    using readings_lower [OF i _] Cons.prems mt by auto
  ultimately show ?case using q s by simp
qed simp

end

text \<open>A wobbled rate stays non-negative while the amplitude is at most 1.\<close>

definition counter_ok :: "counter \<Rightarrow> bool" where
  "counter_ok c \<longleftrightarrow> 0 \<le> camp c \<and> camp c \<le> 1"

lemma wobbled_nonneg:
  assumes "0 \<le> a" "a \<le> 1" "0 \<le> rate" "- 1 \<le> d"
  shows "0 \<le> rate * (1 + a * d :: real)"
proof -
  have "a * (- 1) \<le> a * d" using assms by (intro mult_left_mono) auto
  then have "0 \<le> 1 + a * d" using assms by linarith
  then show ?thesis using assms by simp
qed

lemma sample_parts:
  "snd (counter_sample c rate cap now g) = c\<lparr>acc := acc c
     + (case cap of None \<Rightarrow> rate * (1 + camp c * fst (wobble_step (cwob c) now g))
        | Some k \<Rightarrow> min (rate * (1 + camp c * fst (wobble_step (cwob c) now g))) k) * max 0 (now - clast c),
     clast := now, cwob := snd (wobble_step (cwob c) now g)\<rparr>"
  "fst (counter_sample c rate cap now g) = py_trunc (acc (snd (counter_sample c rate cap now g)))"
  by (simp_all add: counter_sample_def Let_def case_prod_unfold)

definition sample_req_ok :: "real \<times> real option \<Rightarrow> bool" where
  "sample_req_ok r \<longleftrightarrow> 0 \<le> fst r \<and> (case snd r of None \<Rightarrow> True | Some k \<Rightarrow> 0 \<le> k)"

lemma sample_mono:
  assumes "counter_ok c" and "sample_req_ok r"
  shows "acc c \<le> acc (snd (counter_sample c (fst r) (snd r) now g))"
  using assms wobbled_nonneg [of "camp c" "fst r" "fst (wobble_step (cwob c) now g)"] wobble_step_bounds(1)
  by (auto simp: sample_parts counter_ok_def sample_req_ok_def split: option.splits)

interpretation ctr: sampler "\<lambda>c r. counter_sample c (fst r) (snd r)" acc counter_ok sample_req_ok
  by unfold_locales (simp_all add: sample_mono, simp_all add: sample_parts counter_ok_def)

lemma fleet_sample_eq:
  "fleet_sample c rate now_arg clock g = counter_sample c rate None (case now_arg of None \<Rightarrow> clock | Some t \<Rightarrow> t) g"
  by (simp add: fleet_sample_def counter_sample_def Let_def)

interpretation fctr: sampler "\<lambda>c r. fleet_sample c (fst r) (snd r)" acc counter_ok "\<lambda>r. 0 \<le> fst r"
proof unfold_locales
  fix c r now g assume "counter_ok c" and "0 \<le> fst (r :: real \<times> real option)"
  then show "acc c \<le> acc (snd (fleet_sample c (fst r) (snd r) now g))"
    using ctr.total_mono [of c "(fst r, None)"] by (simp add: fleet_sample_eq sample_req_ok_def)
qed (simp_all add: fleet_sample_eq sample_parts counter_ok_def)

lemma counter_cap:
  assumes "0 \<le> cap"
  shows "acc (snd (counter_sample c rate (Some cap) now g)) - acc c \<le> cap * max 0 (now - clast c)"
proof -
  have "min x cap * max 0 y \<le> cap * max 0 (y :: real)" for x y
    by (rule mult_right_mono) auto
  then show ?thesis by (simp add: sample_parts)
qed

section \<open>The environment of the device code\<close>

text \<open>
  \<open>clock k\<close> is the k-th reading of \<open>time.time()\<close> from now on, \<open>noise k\<close> the k-th Gaussian sample.
\<close>

record sim =
  clock :: "nat \<Rightarrow> real"
  noise :: "nat \<Rightarrow> real"
  gauges :: "string \<rightharpoonup> wobble"
  counters :: "string \<rightharpoonup> counter"

definition get_time :: "(sim, real) state" where
  "get_time = State (\<lambda>s. (clock s 0, s\<lparr>clock := \<lambda>k. clock s (Suc k)\<rparr>))"

definition get_gauss :: "(sim, real) state" where
  "get_gauss = State (\<lambda>s. (noise s 0, s\<lparr>noise := \<lambda>k. noise s (Suc k)\<rparr>))"

definition step_gauge :: "string \<Rightarrow> real \<Rightarrow> real \<Rightarrow> real \<Rightarrow> real \<Rightarrow> (sim, real) state" where
  "step_gauge name phase period now g = State (\<lambda>s.
     let w = (case gauges s name of None \<Rightarrow> wobble_init phase period | Some w \<Rightarrow> w);
         (d, w') = wobble_step w now g
     in (d, s\<lparr>gauges := (gauges s)(name \<mapsto> w')\<rparr>))"

definition gauge :: "string \<Rightarrow> real \<Rightarrow> real option \<Rightarrow> real option \<Rightarrow> real \<Rightarrow> real \<Rightarrow> (sim, real) state" where
  "gauge name base amp_abs amp_frac phase period =
     do { now \<leftarrow> get_time;
          g \<leftarrow> get_gauss;
          d \<leftarrow> step_gauge name phase period now g;
          State_Monad.return (case amp_abs of
             Some a \<Rightarrow> base + a * d
           | None \<Rightarrow> base * (1 + (case amp_frac of None \<Rightarrow> 0 | Some f \<Rightarrow> f) * d)) }"

definition new_counter :: "string \<Rightarrow> real \<Rightarrow> real \<Rightarrow> real \<Rightarrow> (sim, unit) state" where
  "new_counter name phase amp start =
     do { now \<leftarrow> get_time;
          State (\<lambda>s. ((), s\<lparr>counters := (counters s)(name \<mapsto> counter_init phase amp 1200 start now)\<rparr>)) }"

text \<open>A device reaches its counters through the registry: every counter has one stable name.  Sampling
  a name that was never created has no counterpart in the code and reads 0.\<close>

definition sample_named :: "string \<Rightarrow> real \<Rightarrow> real option \<Rightarrow> real \<Rightarrow> real \<Rightarrow> (sim, int) state" where
  "sample_named name rate cap now g = State (\<lambda>s.
     case counters s name of
       None \<Rightarrow> (0, s)
     | Some c \<Rightarrow> (let (n, c') = counter_sample c rate cap now g
                  in (n, s\<lparr>counters := (counters s)(name \<mapsto> c')\<rparr>)))"

definition sample :: "string \<Rightarrow> real \<Rightarrow> real option \<Rightarrow> (sim, int) state" where
  "sample name rate cap =
     do { now \<leftarrow> get_time; g \<leftarrow> get_gauss; sample_named name rate cap now g }"


section \<open>The incident state machine\<close>

text \<open>
  \<open>DeviceState\<close>.  The state is the string the code stores (\<open>restore\<close> takes whatever the saved file
  holds).  \<open>set\<close> reads the clock up to three times, in this order: \<open>t1\<close>, \<open>t2\<close>, \<open>t3\<close>.
\<close>

record dstate =
  st :: string
  st_since :: real
  degraded_since :: "real option"
  broken_since :: "real option"

definition HEALTHY :: string where "HEALTHY = ''healthy''"
definition DEGRADED :: string where "DEGRADED = ''degraded''"
definition BROKEN :: string where "BROKEN = ''broken''"

lemmas state_names = HEALTHY_def DEGRADED_def BROKEN_def

lemma states_distinct [simp]:
  "HEALTHY \<noteq> DEGRADED" "HEALTHY \<noteq> BROKEN" "DEGRADED \<noteq> BROKEN"
  "DEGRADED \<noteq> HEALTHY" "BROKEN \<noteq> HEALTHY" "BROKEN \<noteq> DEGRADED"
  by (simp_all add: state_names)

definition STATES :: "string list" where
  "STATES = [HEALTHY, DEGRADED, BROKEN]"

definition action_to_state :: "string \<Rightarrow> string option" where
  "action_to_state = [''heal'' \<mapsto> HEALTHY, ''degrade'' \<mapsto> DEGRADED, ''break'' \<mapsto> BROKEN]"

definition ds_init :: "real \<Rightarrow> dstate" where
  "ds_init start = \<lparr>st = HEALTHY, st_since = start, degraded_since = None, broken_since = None\<rparr>"

definition ds_set :: "string \<Rightarrow> real \<Rightarrow> real \<Rightarrow> real \<Rightarrow> dstate \<Rightarrow> dstate" where
  "ds_set value t1 t2 t3 d =
     (let d = (if value \<noteq> st d then d\<lparr>st_since := t1\<rparr> else d);
          d = d\<lparr>st := value\<rparr>;
          d = (if value = HEALTHY then d\<lparr>degraded_since := None\<rparr>
               else if degraded_since d = None then d\<lparr>degraded_since := Some t2\<rparr> else d)
      in if value = BROKEN
         then (if broken_since d = None then d\<lparr>broken_since := Some t3\<rparr> else d)
         else d\<lparr>broken_since := None\<rparr>)"

definition since_seconds :: "real \<Rightarrow> dstate \<Rightarrow> real" where
  "since_seconds now d = now - st_since d"

definition degraded_minutes :: "real \<Rightarrow> dstate \<Rightarrow> real" where
  "degraded_minutes now d = (case degraded_since d of None \<Rightarrow> 0 | Some t \<Rightarrow> (now - t) / 60)"

definition broken_seconds :: "real \<Rightarrow> dstate \<Rightarrow> real" where
  "broken_seconds now d = (case broken_since d of None \<Rightarrow> 0 | Some t \<Rightarrow> now - t)"

definition ramp :: "real \<Rightarrow> real \<Rightarrow> dstate \<Rightarrow> real" where
  "ramp minutes now d =
     (let bs = broken_seconds now d in if minutes \<le> 0 then 1 else min 1 (bs / (minutes * 60)))"

text \<open>The saved form: a JSON object, in which a key may be absent.\<close>

record snapshot =
  sn_state :: "string option"
  sn_state_since :: "real option"
  sn_degraded_since :: "real option"
  sn_broken_since :: "real option"

definition ds_dump :: "dstate \<Rightarrow> snapshot" where
  "ds_dump d = \<lparr>sn_state = Some (st d), sn_state_since = Some (st_since d),
     sn_degraded_since = degraded_since d, sn_broken_since = broken_since d\<rparr>"

definition ds_restore :: "snapshot \<Rightarrow> real \<Rightarrow> dstate \<Rightarrow> dstate" where
  "ds_restore data now d =
     d\<lparr>st := (case sn_state data of None \<Rightarrow> HEALTHY | Some v \<Rightarrow> v),
       st_since := (case sn_state_since data of None \<Rightarrow> now | Some t \<Rightarrow> t),
       degraded_since := sn_degraded_since data,
       broken_since := sn_broken_since data\<rparr>"

definition lerp :: "real \<Rightarrow> real \<Rightarrow> real \<Rightarrow> real" where
  "lerp a b r = a + (b - a) * r"

lemma lerp_bounds:
  assumes "0 \<le> r" "r \<le> 1" "a \<le> b"
  shows "a \<le> lerp a b r" "lerp a b r \<le> b"
proof -
  have "(b - a) * r \<le> (b - a) * 1" using assms by (intro mult_left_mono) auto
  then show "lerp a b r \<le> b" by (simp add: lerp_def)
qed (use assms in \<open>simp add: lerp_def\<close>)

text \<open>The states a device reaches: set at times that do not go back, saved and restored.\<close>

inductive ds_reach :: "real \<Rightarrow> real \<Rightarrow> dstate \<Rightarrow> bool" for start :: real where
  init: "ds_reach start start (ds_init start)"
| set: "ds_reach start t d \<Longrightarrow> t \<le> t1 \<Longrightarrow> t1 \<le> t2 \<Longrightarrow> t2 \<le> t3 \<Longrightarrow> v \<in> set STATES
        \<Longrightarrow> ds_reach start t3 (ds_set v t1 t2 t3 d)"
| restart: "ds_reach start t d \<Longrightarrow> t \<le> t' \<Longrightarrow> ds_reach start t' (ds_restore (ds_dump d) t' (ds_init t'))"

inductive_cases ds_reach_cases: "ds_reach start t d"

text \<open>What the incident stories rely on.\<close>

definition ds_wf :: "real \<Rightarrow> dstate \<Rightarrow> bool" where
  "ds_wf now d \<longleftrightarrow> st d \<in> set STATES \<and> st_since d \<le> now
     \<and> (degraded_since d = None \<longleftrightarrow> st d = HEALTHY)
     \<and> (broken_since d = None \<longleftrightarrow> st d \<noteq> BROKEN)
     \<and> (\<forall>t. degraded_since d = Some t \<longrightarrow> t \<le> now)
     \<and> (\<forall>t. broken_since d = Some t \<longrightarrow> t \<le> now \<and> (\<exists>u. degraded_since d = Some u \<and> u \<le> t))"

lemma restore_dump: "ds_restore (ds_dump d) now d' = d"
  by (simp add: ds_restore_def ds_dump_def)

lemma ds_wf_later: "ds_wf t d \<Longrightarrow> t \<le> t' \<Longrightarrow> ds_wf t' d"
  by (fastforce simp: ds_wf_def)

lemma ds_set_wf:
  assumes "ds_wf t d" and "t \<le> t1" "t1 \<le> t2" "t2 \<le> t3" and "v \<in> set STATES"
  shows "ds_wf t3 (ds_set v t1 t2 t3 d)"
proof -
  have le: "t \<le> t3" "t1 \<le> t3" using assms by auto
  obtain a b c e where d: "d = \<lparr>st = a, st_since = b, degraded_since = c, broken_since = e\<rparr>"
    by (cases d)
  have v: "v = HEALTHY \<or> v = DEGRADED \<or> v = BROKEN" using assms(5) by (simp add: STATES_def)
  have wf: "a = HEALTHY \<or> a = DEGRADED \<or> a = BROKEN" "b \<le> t" "c = None \<longleftrightarrow> a = HEALTHY"
    "e = None \<longleftrightarrow> a \<noteq> BROKEN" "\<And>x. c = Some x \<Longrightarrow> x \<le> t" "\<And>x. e = Some x \<Longrightarrow> x \<le> t \<and> (\<exists>u. c = Some u \<and> u \<le> x)"
    using assms(1) by (auto simp: d ds_wf_def STATES_def)
  have out: "ds_set v t1 t2 t3 d = \<lparr>st = v, st_since = (if v \<noteq> a then t1 else b),
      degraded_since = (if v = HEALTHY then None else if c = None then Some t2 else c),
      broken_since = (if v = BROKEN then if e = None then Some t3 else e else None)\<rparr>"
    by (simp add: ds_set_def d Let_def)
  have b: "(if v \<noteq> a then t1 else b) \<le> t3" using wf(2) le by simp
  have c: "c = Some x \<Longrightarrow> x \<le> t3" for x using wf(5) [of x] le by simp
  have e: "e = Some x \<Longrightarrow> x \<le> t3 \<and> (\<exists>u. c = Some u \<and> u \<le> x)" for x using wf(6) [of x] le by auto
  show ?thesis
    unfolding out ds_wf_def dstate.simps using v b c e assms(4)
    by (auto simp: STATES_def)
qed

lemma ds_reach_wf: "ds_reach start t d \<Longrightarrow> ds_wf t d"
proof (induction rule: ds_reach.induct)
  case init
  then show ?case by (simp add: ds_wf_def ds_init_def STATES_def state_names)
next
  case (set t d t1 t2 t3 v)
  then show ?case by (intro ds_set_wf) auto
next
  case (restart t d t')
  then show ?case using ds_wf_later by (simp add: restore_dump)
qed

lemma ramp_bounds: "ds_wf now d \<Longrightarrow> 0 < m \<Longrightarrow> 0 \<le> ramp m now d \<and> ramp m now d \<le> 1"
  by (auto simp: ramp_def broken_seconds_def Let_def ds_wf_def split: option.splits)

lemma ramp_mono: "ds_wf now d \<Longrightarrow> 0 < m \<Longrightarrow> now \<le> now' \<Longrightarrow> ramp m now d \<le> ramp m now' d"
  by (auto simp: ramp_def broken_seconds_def Let_def divide_right_mono min_le_iff_disj split: option.splits)

lemma ramp_not_broken: "ds_wf now d \<Longrightarrow> 0 < m \<Longrightarrow> st d \<noteq> BROKEN \<Longrightarrow> ramp m now' d = 0"
  by (simp add: ramp_def broken_seconds_def Let_def ds_wf_def)

section \<open>Properties\<close>

text \<open>C8. The state machine of a device keeps its invariant along every run of sets (at times that do
  not go back) and restarts: the state is one of the three, \<open>degraded_since\<close> is set exactly
  outside \<open>healthy\<close>, \<open>broken_since\<close> exactly in \<open>broken\<close> and not before \<open>degraded_since\<close>; so the
  ramp of an incident is between 0 and 1, grows with time, and is 0 unless the device is broken.\<close>

theorem device_state_invariant:
  assumes "ds_reach start t d" and "0 < m"
  shows "ds_wf t d \<and> (\<forall>now \<ge> t. 0 \<le> ramp m now d \<and> ramp m now d \<le> 1)
     \<and> (\<forall>now \<ge> t. \<forall>now' \<ge> now. ramp m now d \<le> ramp m now' d)
     \<and> (st d \<noteq> BROKEN \<longrightarrow> (\<forall>now. ramp m now d = 0))"
  using ds_reach_wf [OF assms(1)] assms(2) ds_wf_later ramp_bounds ramp_mono ramp_not_broken by blast

theorem device_state_invariant_witness:
  "ds_wf 160 (ds_set BROKEN 160 160 160 (ds_set DEGRADED 100 100 100 (ds_init 0)))
   \<and> ramp 3 340 (ds_set BROKEN 160 160 160 (ds_set DEGRADED 100 100 100 (ds_init 0))) = 1"
proof -
  have "ds_reach 0 160 (ds_set BROKEN 160 160 160 (ds_set DEGRADED 100 100 100 (ds_init 0)))"
    by (rule ds_reach.set [where t = 100], rule ds_reach.set [where t = 0], rule ds_reach.init) (simp_all add: STATES_def)
  from device_state_invariant [OF this, of 3] show ?thesis
    by (simp add: ramp_def broken_seconds_def ds_set_def ds_init_def state_names)
qed

text \<open>Escalating keeps the story's start, healing ends it: after \<open>degrade\<close> the time of degradation
  survives a later \<open>break\<close>, a repeated set of the same state keeps all three times, and \<open>heal\<close>
  clears both incident times.\<close>

theorem incident_story:
  assumes "ds_wf t d"
  shows "(st d \<noteq> HEALTHY \<longrightarrow> degraded_since (ds_set BROKEN t1 t2 t3 d) = degraded_since d)
    \<and> ds_set (st d) t1 t2 t3 d = d
    \<and> degraded_since (ds_set HEALTHY t1 t2 t3 d) = None \<and> broken_since (ds_set HEALTHY t1 t2 t3 d) = None"
  using assms by (auto simp: ds_set_def Let_def ds_wf_def state_names)

theorem incident_story_witness:
  "degraded_since (ds_set BROKEN 160 160 160 (ds_set DEGRADED 100 100 100 (ds_init 0))) = Some 100"
proof -
  have "ds_wf 100 (ds_set DEGRADED 100 100 100 (ds_init 0))"
    by (simp add: ds_wf_def ds_set_def ds_init_def STATES_def state_names)
  from incident_story [OF this, of 160 160 160] show ?thesis
    by (simp add: ds_set_def ds_init_def state_names)
qed

text \<open>Saving and restoring a device state gives the same state back.\<close>

theorem dump_restore_roundtrip: "ds_restore (ds_dump d) now d' = d"
  by (rule restore_dump)

text \<open>C7. A counter never runs backwards: for any sequence of samples with non-negative rates and
  caps, whatever the clock and the noise do (a clock stepping back included), the readings are
  non-decreasing; and one sample with a cap adds at most the cap times the elapsed time.\<close>

theorem counter_never_backwards:
  assumes "counter_ok c" and "\<forall>q \<in> set reqs. sample_req_ok (fst q)" and "0 \<le> cap"
  shows "sorted (readings (\<lambda>c r. counter_sample c (fst r) (snd r)) c reqs)
     \<and> acc (snd (counter_sample c rate (Some cap) now g)) - acc c \<le> cap * max 0 (now - clast c)"
  using ctr.readings_sorted [OF assms(1,2)] counter_cap [OF assms(3)] by blast

theorem counter_never_backwards_witness:
  "sorted (readings (\<lambda>c r. counter_sample c (fst r) (snd r)) (counter_init 0 (3/10) 1200 5 0)
     [((10, None), 30, 1), ((20, Some 15), 20, -1)])
   \<and> acc (snd (counter_sample (counter_init 0 (3/10) 1200 5 0) 20 (Some 15) 10 0)) - 5 \<le> 150"
  using counter_never_backwards [of "counter_init 0 (3/10) 1200 5 0" "[((10, None), 30, 1), ((20, Some 15), 20, -1)]" 15 20 10 0]
  by (simp add: counter_ok_def counter_init_def sample_req_ok_def)

text \<open>The wobble stays in \<open>[-1, 1]\<close> and its noise term in \<open>[-1.5, 1.5]\<close>, for any noise input, so a
  gauge with an absolute amplitude stays within that amplitude of its base.\<close>

theorem gauge_within_amplitude:
  assumes "0 \<le> amp"
  shows "\<bar>fst (run_state (gauge name base (Some amp) ampf phase period) s) - base\<bar> \<le> amp"
proof -
  let ?w = "case gauges s name of None \<Rightarrow> wobble_init phase period | Some w \<Rightarrow> w"
  let ?d = "fst (wobble_step ?w (clock s 0) (noise s 0))"
  have "\<bar>amp * ?d\<bar> \<le> amp * 1"
    using assms wobble_step_bounds [of ?w] by (simp only: abs_mult) (intro mult_mono; simp add: abs_le_iff)
  then show ?thesis
    by (simp add: gauge_def get_time_def get_gauss_def step_gauge_def State_Monad.bind_def State_Monad.return_def
        Let_def case_prod_unfold)
qed

theorem gauge_within_amplitude_witness:
  "\<bar>fst (run_state (gauge ''ups.temp'' 25 (Some (3/2)) None 0 1800)
      \<lparr>clock = \<lambda>k. real k, noise = \<lambda>k. 100, gauges = Map.empty, counters = Map.empty\<rparr>) - 25\<bar> \<le> 3/2"
  by (rule gauge_within_amplitude) simp

end
