(* ===== verification/Ber.thy ===== *)
theory Ber
  imports Prelude
begin

text \<open>
  The BER codec of \<open>snmp/snmpserver.py\<close>: definite-length TLVs, INTEGER, OCTET STRING, NULL and
  OBJECT IDENTIFIER, with their decoders.  A tag is a byte; a Python \<open>int\<close> is an \<^typ>\<open>int\<close> or,
  where the code has just checked or built it as non-negative, a \<^typ>\<open>nat\<close>; an OID is the tuple
  of its arcs.  The encoders that build a byte out of a number (\<open>bytes([n])\<close>) raise on a
  negative one, so they have a result type.

  The lemmas show that every encoder is inverted by its decoder, also in the middle of a longer
  message, which is what the protocol layer needs; the locale \<open>tlv_codec\<close> states that contract
  once and lifts it to sequences of fields.
\<close>

unbundle bit_operations_syntax

type_synonym oid = "int list"

named_theorems ber_defs \<open>definitions of the codec\<close>

section \<open>Tags\<close>

definition T_INT :: byte where "T_INT = 0x02"
definition T_OCTETSTR :: byte where "T_OCTETSTR = 0x04"
definition T_NULL :: byte where "T_NULL = 0x05"
definition T_OID :: byte where "T_OID = 0x06"
definition T_SEQ :: byte where "T_SEQ = 0x30"
definition T_GET :: byte where "T_GET = 0xA0"
definition T_GETNEXT :: byte where "T_GETNEXT = 0xA1"
definition T_RESPONSE :: byte where "T_RESPONSE = 0xA2"
definition T_GETBULK :: byte where "T_GETBULK = 0xA5"
definition T_NOSUCHOBJECT :: byte where "T_NOSUCHOBJECT = 0x80"
definition T_NOSUCHINSTANCE :: byte where "T_NOSUCHINSTANCE = 0x81"
definition T_ENDOFMIBVIEW :: byte where "T_ENDOFMIBVIEW = 0x82"

lemmas tag_defs =
  T_INT_def T_OCTETSTR_def T_NULL_def T_OID_def T_SEQ_def T_GET_def T_GETNEXT_def T_RESPONSE_def
  T_GETBULK_def T_NOSUCHOBJECT_def T_NOSUCHINSTANCE_def T_ENDOFMIBVIEW_def

section \<open>Encoders\<close>

text \<open>\<open>while n: body.append(n & 0xFF); n >>= 8\<close>: the base-256 digits, lowest first.\<close>

fun le_bytes :: "nat \<Rightarrow> bytes" where
  "le_bytes n = (if n = 0 then [] else word_of_nat (n AND 0xFF) # le_bytes (n div 256))"

declare le_bytes.simps [simp del]

text \<open>The same loop run a fixed number of times.\<close>

fun le_bytes_n :: "nat \<Rightarrow> nat \<Rightarrow> bytes" where
  "le_bytes_n 0 n = []"
| "le_bytes_n (Suc k) n = word_of_nat (n AND 0xFF) # le_bytes_n k (n div 256)"

definition enc_len :: "nat \<Rightarrow> bytes" where
  "enc_len n =
     (if n < 0x80 then [word_of_nat n]
      else let body = rev (le_bytes n) in word_of_nat (0x80 OR length body) # body)"

definition tlv :: "byte \<Rightarrow> bytes \<Rightarrow> bytes" where
  "tlv tag body = [tag] @ enc_len (length body) @ body"

text \<open>\<open>int.bit_length\<close> of a non-negative number.\<close>

fun bit_length :: "nat \<Rightarrow> nat" where
  "bit_length n = (if n = 0 then 0 else Suc (bit_length (n div 2)))"

declare bit_length.simps [simp del]

definition enc_int_body :: "int \<Rightarrow> bytes" where
  "enc_int_body value =
     (if value = 0 then [0]
      else if 0 < value
      then let body = le_bytes (nat value)
           in rev (if last body AND 0x80 \<noteq> 0 then body @ [0] else body)
      else let bits = bit_length (nat (- value)) + 1;
               nbytes = (bits + 7) div 8;
               val = 2 ^ (8 * nbytes) + value
           in rev (le_bytes_n nbytes (nat val)))"

definition enc_int :: "int \<Rightarrow> bytes" where
  "enc_int value = tlv T_INT (enc_int_body value)"

definition enc_octetstr :: "bytes \<Rightarrow> bytes" where
  "enc_octetstr data = tlv T_OCTETSTR data"

definition enc_null :: bytes where
  "enc_null = tlv T_NULL []"

text \<open>\<open>_subid\<close>: base-128 digits, all but the last with the high bit set.\<close>

fun subid_chunks :: "nat \<Rightarrow> bytes" where
  "subid_chunks n =
     (if n = 0 then [] else word_of_nat ((n AND 0x7F) OR 0x80) # subid_chunks (n div 128))"

declare subid_chunks.simps [simp del]

definition subid :: "int \<Rightarrow> bytes res" where
  "subid n =
     (if n < 0x80
      then (if n < 0 then Inl ValueError else Inr [word_of_int n])
      else Inr (rev (word_of_nat (nat n AND 0x7F) # subid_chunks (nat n div 128))))"

definition oid_to_bytes :: "oid \<Rightarrow> bytes res" where
  "oid_to_bytes oid =
     (if length oid < 2 then Inl BERError
      else let first = 40 * oid ! 0 + oid ! 1
           in bindR (subid first) (\<lambda>h. bindR (mapR subid (drop 2 oid)) (\<lambda>ts. Inr (h @ concat ts))))"

definition enc_oid :: "oid \<Rightarrow> bytes res" where
  "enc_oid oid = bindR (oid_to_bytes oid) (\<lambda>b. Inr (tlv T_OID b))"

section \<open>Decoders\<close>

definition be_val :: "bytes \<Rightarrow> nat" where
  "be_val bs = foldl (\<lambda>a b. 256 * a + unat b) 0 bs"

text \<open>\<open>_read_tlv(buf, pos)\<close>: tag, body and the position after them.\<close>

definition read_tlv :: "bytes \<Rightarrow> nat \<Rightarrow> (byte \<times> bytes \<times> nat) res" where
  "read_tlv buf pos =
     (if pos + 1 > length buf then Inl BERError
      else let tag = buf ! pos; pos = pos + 1
      in if pos \<ge> length buf then Inl BERError
      else let first = buf ! pos; pos = pos + 1
      in bindR
          (if first < 0x80 then Inr (unat first, pos)
           else let nbytes = unat (first AND 0x7F)
                in if nbytes = 0 \<or> pos + nbytes > length buf then Inl BERError
                   else Inr (be_val (take nbytes (drop pos buf)), pos + nbytes))
          (\<lambda>(len, pos).
             if pos + len > length buf then Inl BERError
             else Inr (tag, take len (drop pos buf), pos + len)))"

definition dec_int :: "bytes \<Rightarrow> int" where
  "dec_int body =
     (if body = [] then 0
      else if hd body AND 0x80 \<noteq> 0
      then int (be_val body) - 256 ^ length body
      else int (be_val body))"

fun sub_ids :: "nat \<Rightarrow> bytes \<Rightarrow> oid" where
  "sub_ids n [] = []"
| "sub_ids n (b # bs) =
     (let n = (n * 128) OR unat (b AND 0x7F)
      in if b AND 0x80 = 0 then int n # sub_ids 0 bs else sub_ids n bs)"

definition bytes_to_oid :: "bytes \<Rightarrow> oid res" where
  "bytes_to_oid body =
     (if body = [] then Inl BERError
      else let first = unat (hd body)
           in Inr (int (first div 40) # int (first mod 40) # sub_ids 0 (tl body)))"

section \<open>Bytes and bits\<close>

lemma unat_byte_less [simp]: "unat (b :: byte) < 256"
  using unsigned_less [of b] by simp

lemma nat_and_255 [simp]: "(n::nat) AND 255 = n mod 256"
  using take_bit_eq_mask [of 8 n] by (simp add: mask_eq_exp_minus_1 take_bit_eq_mod)

lemma nat_and_127 [simp]: "(n::nat) AND 127 = n mod 128"
  using take_bit_eq_mask [of 7 n] by (simp add: mask_eq_exp_minus_1 take_bit_eq_mod)

lemma unat_and_127 [simp]: "unat ((b :: byte) AND 127) = unat b mod 128"
  using take_bit_eq_mask [of 7 "unat b"]
  by (simp add: unsigned_and_eq mask_eq_exp_minus_1 take_bit_eq_mod)

lemma byte_and_128 [simp]: "(b :: byte) AND 128 = 0 \<longleftrightarrow> unat b < 128"
proof -
  have "b AND 128 = 0 \<longleftrightarrow> \<not> bit b 7"
    using and_exp_eq_0_iff_not_bit [of b 7] by simp
  also have "\<dots> \<longleftrightarrow> \<not> bit (unat b) 7"
    by (simp add: bit_unsigned_iff)
  also have "\<dots> \<longleftrightarrow> even (unat b div 128)"
    by (simp add: bit_iff_odd)
  also have "\<dots> \<longleftrightarrow> unat b < 128"
  proof -
    have "unat b div 128 = 0 \<or> unat b div 128 = 1" using unat_byte_less [of b] by arith
    then show ?thesis by (auto simp: div_eq_0_iff)
  qed
  finally show ?thesis .
qed

lemma or_128_mult:
  assumes "n < 128"
  shows "(m * 128 :: nat) OR n = m * 128 + n"
proof -
  have "push_bit 7 m AND n = 0"
  proof (rule bit_eqI)
    fix k
    have "k < 7" if "bit n k"
    proof (rule ccontr)
      assume "\<not> k < 7"
      then have "(2::nat) ^ 7 \<le> 2 ^ k" by (intro power_increasing) auto
      with assms have "n < 2 ^ k" by simp
      with that show False by (simp add: bit_iff_odd)
    qed
    then show "bit (push_bit 7 m AND n) k \<longleftrightarrow> bit (0::nat) k"
      by (auto simp: bit_and_iff bit_push_bit_iff)
  qed
  then have "push_bit 7 m + n = push_bit 7 m OR n" by (rule disjunctive_add_eq_or)
  then show ?thesis by (simp add: push_bit_eq_mult)
qed

lemma or_128 [simp]:
  "n < 128 \<Longrightarrow> (128::nat) OR n = 128 + n" "n < 128 \<Longrightarrow> n OR (128::nat) = 128 + n"
  using or_128_mult [of n 1] by (simp_all add: or.commute)

lemma unat_high [simp]:
  "unat (word_of_nat (m mod 128) + 128 :: byte) = m mod 128 + 128"
  "unat (128 + word_of_nat (m mod 128) :: byte) = m mod 128 + 128"
  by (simp_all add: unat_word_ariths unat_of_nat)

lemma unat_small [simp]: "0 \<le> n \<Longrightarrow> n < 128 \<Longrightarrow> unat (word_of_int n :: byte) = nat n"
  by (simp add: unat_eq_nat_uint uint_word_of_int)

lemma unat_of_nat_byte [simp]: "unat (word_of_nat n :: byte) = n mod 256"
  by (simp add: unat_of_nat)

lemma byte_less_128 [simp]: "(b :: byte) < 128 \<longleftrightarrow> unat b < 128"
  by (simp add: word_less_nat_alt)

section \<open>Base-256 numbers\<close>

lemma be_val_Nil [simp]: "be_val [] = 0"
  by (simp add: be_val_def)

lemma be_val_snoc [simp]: "be_val (bs @ [b]) = 256 * be_val bs + unat b"
  by (simp add: be_val_def)

lemma be_val_less: "be_val bs < 256 ^ length bs"
proof (induction bs rule: rev_induct)
  case (snoc b bs)
  then have "256 * be_val bs + 256 \<le> 256 * 256 ^ length bs" by simp
  then have "256 * be_val bs + unat b < 256 * 256 ^ length bs"
    using unat_byte_less [of b] by linarith
  then show ?case by simp
qed simp

lemma be_val_Cons: "be_val (b # bs) = unat b * 256 ^ length bs + be_val bs"
  by (induction bs rule: rev_induct) (simp_all flip: append_Cons add: be_val_def)

lemma be_val_le_bytes [simp]: "be_val (rev (le_bytes n)) = n"
proof (induction n rule: le_bytes.induct)
  case (1 n)
  then show ?case by (subst le_bytes.simps) (auto simp: be_val_def)
qed

lemma be_val_le_bytes_n [simp]: "be_val (rev (le_bytes_n k n)) = n mod 256 ^ k"
proof (induction k arbitrary: n)
  case (Suc k)
  have "n mod 256 ^ Suc k = 256 * (n div 256 mod 256 ^ k) + n mod 256"
    by (simp add: mod_mult2_eq)
  with Suc show ?case by (simp add: be_val_def)
qed simp

lemma length_le_bytes_n [simp]: "length (le_bytes_n k n) = k"
  by (induction k arbitrary: n) simp_all

lemma le_bytes_eq_Nil [simp]: "le_bytes n = [] \<longleftrightarrow> n = 0"
  by (subst le_bytes.simps) simp

lemma length_le_bytes: "n < 256 ^ k \<Longrightarrow> length (le_bytes n) \<le> k"
proof (induction n arbitrary: k rule: le_bytes.induct)
  case (1 n)
  show ?case
  proof (cases "n = 0")
    case False
    with "1.prems" obtain k' where k: "k = Suc k'" by (cases k) auto
    with "1.prems" have "n div 256 < 256 ^ k'"
      by (simp add: less_mult_imp_div_less mult.commute)
    with False "1.IH" [of k'] k show ?thesis by (subst le_bytes.simps) simp
  qed (subst le_bytes.simps, simp)
qed

lemma sign_bit: "bs \<noteq> [] \<Longrightarrow> hd bs AND 0x80 = 0 \<longleftrightarrow> 2 * be_val bs < 256 ^ length bs"
proof (cases bs)
  case (Cons b xs)
  let ?p = "256 ^ length xs :: nat"
  have v: "be_val xs < ?p" by (rule be_val_less)
  have gen: "2 * (x + y) < 256 * p" if "y < p" "x + p \<le> 128 * p" for x y p :: nat
    using that by presburger
  have "2 * (unat b * ?p + be_val xs) < 256 * ?p \<longleftrightarrow> unat b < 128"
  proof
    assume "unat b < 128"
    then have "(unat b + 1) * ?p \<le> 128 * ?p" by (intro mult_right_mono) auto
    then have "unat b * ?p + ?p \<le> 128 * ?p" by (simp only: add_mult_distrib mult_1)
    then show "2 * (unat b * ?p + be_val xs) < 256 * ?p" using v gen by blast
  next
    assume h: "2 * (unat b * ?p + be_val xs) < 256 * ?p"
    show "unat b < 128"
    proof (rule ccontr)
      assume "\<not> unat b < 128"
      then have "128 * ?p \<le> unat b * ?p" by (intro mult_right_mono) auto
      with h show False by simp
    qed
  qed
  with Cons show ?thesis by (simp add: be_val_Cons)
qed simp

section \<open>Round trips\<close>

text \<open>A body whose length fits the long form: every object that exists in memory.\<close>

definition fits :: "bytes \<Rightarrow> bool" where
  "fits b \<longleftrightarrow> length b < 256 ^ 127"

lemma enc_len_long:
  assumes "128 \<le> n" and "n < 256 ^ 127"
  shows "\<exists>f body. enc_len n = f # body \<and> unat f = 128 + length body \<and> be_val body = n
           \<and> 0 < length body \<and> length body < 128"
proof (intro exI conjI)
  let ?b = "rev (le_bytes n)"
  have "length ?b \<le> 127" using length_le_bytes [OF assms(2)] by simp
  then show l: "length ?b < 128" by simp
  show "enc_len n = word_of_nat (128 OR length ?b) # ?b"
    using assms by (simp add: enc_len_def Let_def)
  show "unat (word_of_nat (128 OR length ?b) :: byte) = 128 + length ?b"
    using l by (simp only: or_128 unat_of_nat_byte) simp
  show "be_val ?b = n" by simp
  show "0 < length ?b" using assms by auto
qed

text \<open>The central fact: a TLV written into a message is read back, whatever surrounds it.\<close>

lemma read_tlv_tlv:
  assumes "fits body"
  shows "read_tlv (pre @ tlv t body @ rest) (length pre)
           = Inr (t, body, length pre + length (tlv t body))"
proof (cases "length body < 128")
  case True
  then show ?thesis
    by (simp add: read_tlv_def tlv_def enc_len_def nth_append Let_def)
next
  case False
  then obtain f lb where lb: "enc_len (length body) = f # lb" "unat f = 128 + length lb"
    "be_val lb = length body" "0 < length lb" "length lb < 128"
    using enc_len_long [of "length body"] assms by (auto simp: fits_def)
  then have "unat f mod 128 = length lb" by simp
  with lb show ?thesis
    by (simp add: read_tlv_def tlv_def nth_append Let_def)
qed

lemma read_tlv_0:
  "fits body \<Longrightarrow> read_tlv (tlv t body @ rest) 0 = Inr (t, body, length (tlv t body))"
  using read_tlv_tlv [of body "[]" t rest] by simp

lemma tlv_ne [simp]: "tlv t b \<noteq> []"
  by (simp add: tlv_def)

lemma bit_length_bound: "n < 2 ^ bit_length n"
proof (induction n rule: bit_length.induct)
  case (1 n)
  then show ?case by (subst bit_length.simps) auto
qed

lemma dec_int_sign:
  "bs \<noteq> [] \<Longrightarrow> dec_int bs = int (be_val bs) - (if 2 * be_val bs < 256 ^ length bs then 0 else 256 ^ length bs)"
  using sign_bit [of bs] by (simp add: dec_int_def)

lemma dec_int_pos:
  assumes "0 < value"
  shows "dec_int (enc_int_body value) = value"
proof -
  let ?body = "le_bytes (nat value)"
  have ne: "?body \<noteq> []" using assms by simp
  then have h: "hd (rev ?body) = last ?body" by (simp add: hd_rev)
  show ?thesis
  proof (cases "last ?body AND 0x80 \<noteq> 0")
    case True
    then have "enc_int_body value = 0 # rev ?body" using assms by (simp add: enc_int_body_def)
    with assms show ?thesis by (simp add: dec_int_def be_val_Cons)
  next
    case False
    then have "enc_int_body value = rev ?body" using assms by (simp add: enc_int_body_def)
    with assms False ne h show ?thesis by (simp add: dec_int_def)
  qed
qed

lemma neg_width:
  assumes "value < 0" and "k = (bit_length (nat (- value)) + 1 + 7) div 8"
  shows "0 < k" and "- 2 * value < 256 ^ k"
proof -
  let ?L = "bit_length (nat (- value))"
  show "0 < k" using assms(2) by presburger
  have k: "?L + 1 \<le> 8 * k" using assms(2) by presburger
  have "2 * nat (- value) < 2 ^ (?L + 1)" using bit_length_bound [of "nat (- value)"] by simp
  also have "\<dots> \<le> (2::nat) ^ (8 * k)" using k by (intro power_increasing) auto
  also have "\<dots> = 256 ^ k" by (simp add: power_mult)
  finally have "int (2 * nat (- value)) < int (256 ^ k)" by (simp only: of_nat_less_iff)
  then show "- 2 * value < 256 ^ k" using assms(1) by simp
qed

lemma dec_int_neg:
  assumes "value < 0"
  shows "dec_int (enc_int_body value) = value"
proof -
  define k where "k = (bit_length (nat (- value)) + 1 + 7) div 8"
  define m where "m = nat (2 ^ (8 * k) + value)"
  note w = neg_width [OF assms k_def]
  have m: "int m = 256 ^ k + value" using w assms by (simp add: m_def power_mult)
  have "int m < int (256 ^ k)" using m assms by simp
  then have mlt: "m < 256 ^ k" by (simp only: of_nat_less_iff)
  have big: "\<not> 2 * m < 256 ^ k"
  proof
    assume "2 * m < 256 ^ k"
    then have "int (2 * m) < int (256 ^ k)" by (simp only: of_nat_less_iff)
    with m w show False by simp
  qed
  have e: "enc_int_body value = rev (le_bytes_n k m)"
    using assms by (simp add: enc_int_body_def Let_def k_def m_def)
  have l: "length (enc_int_body value) = k" and v: "be_val (enc_int_body value) = m"
    using mlt by (simp_all add: e)
  then have ne: "enc_int_body value \<noteq> []" using w by auto
  show ?thesis using m big by (simp add: dec_int_sign [OF ne] v l)
qed

lemma dec_enc_int [simp]: "dec_int (enc_int_body value) = value"
  by (cases "value = 0"; cases "0 < value")
    (auto simp: dec_int_pos dec_int_neg, simp add: enc_int_body_def dec_int_def be_val_def)

lemma sub_ids_high:
  "unat b = 128 + r \<Longrightarrow> r < 128 \<Longrightarrow> sub_ids acc (b # rest) = sub_ids (acc * 128 + r) rest"
  by (simp add: Let_def or_128_mult)

lemma sub_ids_low:
  "unat b < 128 \<Longrightarrow> sub_ids acc (b # rest) = int (acc * 128 + unat b) # sub_ids 0 rest"
  by (simp add: Let_def or_128_mult)

lemma sub_ids_chunks:
  "sub_ids acc (rev (subid_chunks m) @ rest)
     = sub_ids (acc * 128 ^ length (subid_chunks m) + m) rest"
proof (induction m arbitrary: rest rule: subid_chunks.induct)
  case (1 m)
  show ?case
  proof (cases "m = 0")
    case True
    then show ?thesis by (simp add: subid_chunks.simps)
  next
    case False
    let ?l = "length (subid_chunks (m div 128))"
    have c: "subid_chunks m = word_of_nat (m mod 128 + 128) # subid_chunks (m div 128)"
      using False by (subst subid_chunks.simps) simp
    have "sub_ids acc (rev (subid_chunks m) @ rest)
        = sub_ids (acc * 128 ^ ?l + m div 128) (word_of_nat (m mod 128 + 128) # rest)"
      using "1.IH" [OF False] by (simp add: c)
    also have "\<dots> = sub_ids ((acc * 128 ^ ?l + m div 128) * 128 + m mod 128) rest"
      by (rule sub_ids_high) simp_all
    also have "(acc * 128 ^ ?l + m div 128) * 128 + m mod 128 = acc * 128 ^ Suc ?l + m"
      by (simp add: algebra_simps)
    finally show ?thesis by (simp add: c)
  qed
qed

lemma subid_ok: "0 \<le> n \<Longrightarrow> \<exists>bs. subid n = Inr bs \<and> bs \<noteq> [] \<and> (\<forall>rest. sub_ids 0 (bs @ rest) = n # sub_ids 0 rest)"
proof (cases "n < 128")
  case True
  assume n: "0 \<le> n"
  with True have "unat (word_of_int n :: byte) = nat n" by simp
  with n True show ?thesis by (simp add: subid_def sub_ids_low del: sub_ids.simps)
next
  case False
  let ?c = "subid_chunks (nat n div 128)"
  assume "0 \<le> n"
  have "sub_ids 0 ((rev ?c @ [word_of_nat (nat n mod 128)]) @ rest) = n # sub_ids 0 rest" for rest
    using False sub_ids_chunks [of 0 "nat n div 128"] by (simp add: sub_ids_low del: sub_ids.simps)
  with False show ?thesis by (simp add: subid_def)
qed

lemma sub_ids_concat:
  assumes "\<forall>x \<in> set xs. 0 \<le> x"
  shows "\<exists>bss. mapR subid xs = Inr bss \<and> sub_ids 0 (concat bss) = xs"
  using assms
proof (induction xs)
  case (Cons x xs)
  then obtain bss where b: "mapR subid xs = Inr bss" "sub_ids 0 (concat bss) = xs" by auto
  from Cons.prems obtain bs where "subid x = Inr bs" "\<forall>rest. sub_ids 0 (bs @ rest) = x # sub_ids 0 rest"
    using subid_ok [of x] by auto
  with b show ?case by simp
qed simp

text \<open>The OIDs the codec writes and reads back: two arcs at least, and a first pair in one byte.\<close>

definition arcs_ok :: "oid \<Rightarrow> bool" where
  "arcs_ok oid \<longleftrightarrow> 2 \<le> length oid \<and> (\<forall>a \<in> set oid. 0 \<le> a)"

definition single_byte_head :: "oid \<Rightarrow> bool" where
  "single_byte_head oid \<longleftrightarrow> oid ! 1 < 40 \<and> 40 * oid ! 0 + oid ! 1 < 128"

lemma arcs_ok_cases:
  "arcs_ok oid \<Longrightarrow> \<exists>a b os. oid = a # b # os \<and> 0 \<le> a \<and> 0 \<le> b \<and> (\<forall>x \<in> set os. 0 \<le> x)"
  by (cases oid; cases "tl oid") (auto simp: arcs_ok_def)

lemma enc_oid_total: "arcs_ok oid \<Longrightarrow> \<exists>bs. oid_to_bytes oid = Inr bs"
proof -
  assume "arcs_ok oid"
  then obtain a b os where o: "oid = a # b # os" "0 \<le> a" "0 \<le> b" "\<forall>x \<in> set os. 0 \<le> x"
    using arcs_ok_cases by blast
  obtain h where "subid (40 * a + b) = Inr h" using subid_ok [of "40 * a + b"] o by auto
  moreover obtain ts where "mapR subid os = Inr ts" using sub_ids_concat [of os] o by auto
  ultimately show ?thesis using o by (simp add: oid_to_bytes_def Let_def)
qed

lemma subid_head:
  assumes "subid n = Inr (h # t)" and "0 \<le> n"
  shows "if n < 128 then unat h = nat n \<and> t = [] else 128 \<le> unat h \<and> t \<noteq> []"
proof (cases "n < 128")
  case True
  with assms have "h = word_of_int n \<and> t = []" by (simp add: subid_def)
  with True assms show ?thesis by simp
next
  case False
  let ?m = "nat n div 128"
  have c: "subid_chunks ?m \<noteq> []" using False by (subst subid_chunks.simps) auto
  have high: "\<forall>b \<in> set (subid_chunks k). 128 \<le> unat b" for k
    by (induction k rule: subid_chunks.induct) (subst subid_chunks.simps, auto)
  have e: "h # t = rev (subid_chunks ?m) @ [word_of_nat (nat n mod 128)]"
    using False assms by (simp add: subid_def)
  with c have "h \<in> set (subid_chunks ?m)"
    by (metis hd_append hd_in_set list.sel(1) rev_is_Nil_conv set_rev)
  moreover have "t \<noteq> []" using e c by (cases t) auto
  ultimately show ?thesis using high False by auto
qed

lemma sub_ids_ne: "bs \<noteq> [] \<Longrightarrow> unat (last bs) < 128 \<Longrightarrow> sub_ids acc bs \<noteq> []"
  by (induction acc bs rule: sub_ids.induct) (auto simp: Let_def split: if_splits)

lemma sub_ids_append:
  "unat (last bs) < 128 \<Longrightarrow> bs \<noteq> [] \<Longrightarrow> sub_ids acc (bs @ rest) = sub_ids acc bs @ sub_ids 0 rest"
  by (induction acc bs rule: sub_ids.induct) (auto simp: Let_def split: if_splits)

lemma subid_last: "subid n = Inr bs \<Longrightarrow> bs \<noteq> [] \<and> unat (last bs) < 128"
  by (auto simp: subid_def split: if_splits)

lemma oid_head_decodes:
  assumes "oid_to_bytes (a # b # os) = Inr bs" "0 \<le> a" "0 \<le> b" "\<forall>x \<in> set os. 0 \<le> x"
  shows "if 40 * a + b < 128
         then bytes_to_oid bs = Inr ((40 * a + b) div 40 # (40 * a + b) mod 40 # os)
         else \<exists>x y zs. bytes_to_oid bs = Inr (x # y # zs) \<and> length zs > length os"
proof -
  let ?n = "40 * a + b"
  obtain ts where ts: "mapR subid os = Inr ts" "sub_ids 0 (concat ts) = os"
    using sub_ids_concat assms(4) by blast
  obtain h where h: "subid ?n = Inr h" "bs = h @ concat ts"
    using assms(1) ts by (auto simp: oid_to_bytes_def Let_def bindR_eq_Inr)
  then obtain f t where f: "h = f # t" using subid_last [OF h(1)] by (cases h) auto
  note hd = subid_head [of ?n f t]
  show ?thesis
  proof (cases "?n < 128")
    case True
    then have "unat f = nat ?n" "t = []" using hd h f assms by auto
    with True ts h f assms show ?thesis
      by (simp add: bytes_to_oid_def Let_def nat_div_distrib nat_mod_distrib zdiv_int zmod_int)
  next
    case False
    then have t: "t \<noteq> []" using hd h f assms by auto
    with subid_last [OF h(1)] f have l: "unat (last t) < 128" by auto
    have "bytes_to_oid bs = Inr (int (unat f div 40) # int (unat f mod 40) # (sub_ids 0 t @ os))"
      using h f ts sub_ids_append [OF l t] by (simp add: bytes_to_oid_def Let_def)
    moreover have "length (sub_ids 0 t @ os) > length os" using sub_ids_ne [OF t l] by simp
    ultimately show ?thesis using False by auto
  qed
qed

lemma oid_roundtrip_iff:
  assumes "arcs_ok oid" and "oid_to_bytes oid = Inr bs"
  shows "bytes_to_oid bs = Inr oid \<longleftrightarrow> single_byte_head oid"
proof -
  obtain a b os where o: "oid = a # b # os" "0 \<le> a" "0 \<le> b" "\<forall>x \<in> set os. 0 \<le> x"
    using arcs_ok_cases [OF assms(1)] by blast
  note dec = oid_head_decodes [of a b os bs]
  show ?thesis
  proof (cases "40 * a + b < 128")
    case True
    have "(40 * a + b) div 40 = a \<and> (40 * a + b) mod 40 = b \<longleftrightarrow> b < 40"
    proof
      assume "b < 40"
      then have "b div 40 = 0" "b mod 40 = b" using o by simp_all
      then show "(40 * a + b) div 40 = a \<and> (40 * a + b) mod 40 = b" by simp
    next
      assume h: "(40 * a + b) div 40 = a \<and> (40 * a + b) mod 40 = b"
      have "(40 * a + b) mod 40 < 40" by (rule pos_mod_bound) simp
      with h show "b < 40" by linarith
    qed
    with True dec o assms show ?thesis by (auto simp: single_byte_head_def)
  next
    case False
    with dec o assms show ?thesis by (auto simp: single_byte_head_def)
  qed
qed

section \<open>Fields of a message\<close>

text \<open>
  A field is a TLV with a fixed tag whose body the decoder inverts.  The contract of an
  encoder/decoder pair, and what a reader of a message gets from it: the field is found where it
  was written, and a run of fields is read back one by one.
\<close>

fun read_fields :: "byte \<Rightarrow> (bytes \<Rightarrow> 'a res) \<Rightarrow> nat \<Rightarrow> bytes \<Rightarrow> nat \<Rightarrow> 'a list res" where
  "read_fields t dec 0 buf pos = Inr []"
| "read_fields t dec (Suc k) buf pos =
     bindR (read_tlv buf pos) (\<lambda>(tag, body, next).
       if tag \<noteq> t then Inl BERError
       else bindR (dec body) (\<lambda>x. bindR (read_fields t dec k buf next) (\<lambda>xs. Inr (x # xs))))"

locale tlv_codec =
  fixes tag :: byte
    and enc :: "'a \<Rightarrow> bytes res"
    and dec :: "bytes \<Rightarrow> 'a res"
    and ok :: "'a \<Rightarrow> bool"
  assumes enc_dec: "ok x \<Longrightarrow> \<exists>body. enc x = Inr (tlv tag body) \<and> fits body \<and> dec body = Inr x"
begin

lemma enc_total: "ok x \<Longrightarrow> \<exists>bs. enc x = Inr bs"
  using enc_dec by blast

lemma read_field:
  assumes "ok x" and "enc x = Inr bs"
  shows "\<exists>body. read_tlv (pre @ bs @ rest) (length pre) = Inr (tag, body, length pre + length bs)
           \<and> dec body = Inr x"
  using enc_dec [OF assms(1)] assms(2) read_tlv_tlv by auto

lemma read_field_0:
  assumes "ok x" and "enc x = Inr bs"
  shows "\<exists>body. read_tlv (bs @ rest) 0 = Inr (tag, body, length bs) \<and> dec body = Inr x"
  using read_field [OF assms, of "[]" rest] by simp

lemma read_fields_written:
  assumes "\<forall>x \<in> set xs. ok x" and "mapR enc xs = Inr bss"
  shows "read_fields tag dec (length xs) (pre @ concat bss @ rest) (length pre) = Inr xs"
  using assms
proof (induction xs arbitrary: pre bss)
  case (Cons x xs)
  then obtain bs bss' where e: "enc x = Inr bs" "mapR enc xs = Inr bss'" "bss = bs # bss'"
    by (auto simp: bindR_eq_Inr)
  obtain body where b: "read_tlv (pre @ bs @ concat bss' @ rest) (length pre)
      = Inr (tag, body, length pre + length bs)" "dec body = Inr x"
    using read_field [of x bs pre "concat bss' @ rest"] Cons.prems e by auto
  have "read_fields tag dec (length xs) ((pre @ bs) @ concat bss' @ rest) (length (pre @ bs)) = Inr xs"
    by (rule Cons.IH) (use Cons.prems e in auto)
  with b e show ?case by simp
qed simp

end

definition int_ok :: "int \<Rightarrow> bool" where
  "int_ok v \<longleftrightarrow> fits (enc_int_body v)"

definition oid_ok :: "oid \<Rightarrow> bool" where
  "oid_ok oid \<longleftrightarrow> arcs_ok oid \<and> single_byte_head oid \<and> (\<forall>bs. oid_to_bytes oid = Inr bs \<longrightarrow> fits bs)"

interpretation int_field: tlv_codec T_INT "\<lambda>v. Inr (enc_int v)" "\<lambda>b. Inr (dec_int b)" int_ok
  by unfold_locales (auto simp: enc_int_def int_ok_def)

interpretation str_field: tlv_codec T_OCTETSTR "\<lambda>b. Inr (enc_octetstr b)" Inr fits
  by unfold_locales (simp add: enc_octetstr_def)

interpretation oid_field: tlv_codec T_OID enc_oid bytes_to_oid oid_ok
proof unfold_locales
  fix oid assume "oid_ok oid"
  moreover from this obtain bs where "oid_to_bytes oid = Inr bs"
    using enc_oid_total by (auto simp: oid_ok_def)
  ultimately show "\<exists>body. enc_oid oid = Inr (tlv T_OID body) \<and> fits body \<and> bytes_to_oid body = Inr oid"
    by (auto simp: enc_oid_def oid_ok_def oid_roundtrip_iff)
qed

end
