(* ===== verification/Snmp_Table.thy ===== *)
theory Snmp_Table
  imports Ber
begin

text \<open>
  The OID space of a device, \<open>snmpserver.Table\<close>: a dict from OIDs to encoded values and the
  sorted list of its keys, with exact lookup, lexicographic successor (\<open>bisect_right\<close>) and the
  in-place refresh of some values.  The walk-value decoder \<open>encode_value\<close> and the OID parser are
  here too.

  The locale \<open>oid_view\<close> is the contract the protocol code relies on: \<open>next\<close> is the least
  greater key.  Its client lemma says that repeated \<open>next\<close> lists the keys in order; the
  interpretation \<open>tab\<close> proves the contract for the code's table.
\<close>

unbundle bit_operations_syntax

section \<open>Walk values\<close>

definition parse_oid :: "string \<Rightarrow> oid res" where
  "parse_oid text = mapR py_int (split_on (CHR ''.'') (strip_by (\<lambda>c. c = CHR ''.'') (strip text)))"

definition hex_char :: "char \<Rightarrow> bool" where
  "hex_char c \<longleftrightarrow> (let n = (of_char c :: nat) in
     (48 \<le> n \<and> n \<le> 57) \<or> (65 \<le> n \<and> n \<le> 70) \<or> (97 \<le> n \<and> n \<le> 102))"

definition hex_val :: "char \<Rightarrow> nat" where
  "hex_val c = (let n = (of_char c :: nat) in
     if n \<le> 57 then n - 48 else if n \<le> 70 then n - 55 else n - 87)"

text \<open>\<open>(?:[0-9A-Fa-f]{2} )*\<close>\<close>

fun hex_groups :: "string \<Rightarrow> bool" where
  "hex_groups [] = True"
| "hex_groups (a # b # c # s) = (hex_char a \<and> hex_char b \<and> c = CHR '' '' \<and> hex_groups s)"
| "hex_groups _ = False"

text \<open>The bytes of a run of such groups: \<open>bytes(int(h, 16) for h in hexpart.split())\<close>.\<close>

fun hex_pairs :: "string \<Rightarrow> bytes" where
  "hex_pairs (a # b # c # s) = word_of_nat (16 * hex_val a + hex_val b) # hex_pairs s"
| "hex_pairs _ = []"

text \<open>\<open>_HEX_VALUE.match\<close>: group 1; \<open>$\<close> also matches before one final newline.\<close>

definition hex_value :: "string \<Rightarrow> string option" where
  "hex_value v =
     (let v = (if v \<noteq> [] \<and> last v = CHR 10 then butlast v else v)
      in case v of
           [] \<Rightarrow> None
         | q # r \<Rightarrow> if q = CHR 34 \<and> r \<noteq> [] \<and> last r = CHR 34 \<and> hex_groups (butlast r)
                    then Some (butlast r) else None)"

definition utf8_char :: "char \<Rightarrow> bytes" where
  "utf8_char c =
     (let n = (of_char c :: nat)
      in if n < 0x80 then [word_of_nat n]
         else [word_of_nat (0xC0 + n div 64), word_of_nat (0x80 + n mod 64)])"

definition encode_value :: "string \<Rightarrow> bytes" where
  "encode_value walk_value =
     (case hex_value walk_value of
        Some hexpart \<Rightarrow> hex_pairs hexpart
      | None \<Rightarrow> concat (map utf8_char walk_value))"

section \<open>The table\<close>

record table =
  oids :: "oid list"
  tvalue :: "oid \<rightharpoonup> bytes"

fun put_rows :: "(oid \<rightharpoonup> bytes) \<Rightarrow> (string \<times> string) list \<Rightarrow> (oid \<rightharpoonup> bytes) res" where
  "put_rows m [] = Inr m"
| "put_rows m ((oid_s, val_s) # rows) =
     bindR (parse_oid oid_s) (\<lambda>oid. put_rows (m(oid \<mapsto> enc_octetstr (encode_value val_s))) rows)"

definition table_init :: "(string \<times> string) list \<Rightarrow> table res" where
  "table_init rows =
     bindR (put_rows Map.empty rows) (\<lambda>pairs.
     bindR (mapR (\<lambda>r. parse_oid (fst r)) rows) (\<lambda>keys.
       Inr \<lparr>oids = sort (remdups keys), tvalue = pairs\<rparr>))"

definition table_patch :: "table \<Rightarrow> (string \<times> string) list \<Rightarrow> table res" where
  "table_patch t rows = bindR (put_rows (tvalue t) rows) (\<lambda>m. Inr (t\<lparr>tvalue := m\<rparr>))"

definition table_get :: "table \<Rightarrow> oid \<Rightarrow> bytes option" where
  "table_get t oid = tvalue t oid"

definition table_next :: "table \<Rightarrow> oid \<Rightarrow> oid option" where
  "table_next t oid =
     (let i = bisect_right (oids t) oid
      in if i < length (oids t) then Some (oids t ! i) else None)"

text \<open>The invariant the constructor establishes: sorted keys, exactly those of the dict, and every
  value an encoded OCTET STRING.\<close>

definition table_wf :: "table \<Rightarrow> bool" where
  "table_wf t \<longleftrightarrow> sorted (oids t) \<and> distinct (oids t) \<and> set (oids t) = dom (tvalue t)
     \<and> (\<forall>v \<in> ran (tvalue t). \<exists>d. v = enc_octetstr d)"

lemma put_rows_dom:
  "put_rows m rows = Inr m' \<Longrightarrow> mapR (\<lambda>r. parse_oid (fst r)) rows = Inr ks \<Longrightarrow> dom m' = dom m \<union> set ks"
proof (induction m rows arbitrary: ks rule: put_rows.induct)
  case (2 m oid_s val_s rows)
  then obtain k ks' where "parse_oid oid_s = Inr k" "ks = k # ks'"
    "mapR (\<lambda>r. parse_oid (fst r)) rows = Inr ks'"
    by (auto simp: bindR_eq_Inr)
  moreover from this have "put_rows (m(k \<mapsto> enc_octetstr (encode_value val_s))) rows = Inr m'"
    using "2.prems" by simp
  ultimately have "dom m' = dom (m(k \<mapsto> enc_octetstr (encode_value val_s))) \<union> set ks'"
    using "2.IH" by blast
  with \<open>ks = k # ks'\<close> show ?case by auto
qed simp

lemma put_rows_keys: "put_rows m rows = Inr m' \<Longrightarrow> \<exists>ks. mapR (\<lambda>r. parse_oid (fst r)) rows = Inr ks"
  by (induction m rows rule: put_rows.induct) (auto simp: bindR_eq_Inr)

lemma put_rows_ran:
  "put_rows m rows = Inr m' \<Longrightarrow> \<forall>v \<in> ran m. \<exists>d. v = enc_octetstr d \<Longrightarrow> \<forall>v \<in> ran m'. \<exists>d. v = enc_octetstr d"
proof (induction m rows rule: put_rows.induct)
  case (2 m oid_s val_s rows)
  then obtain k where k: "parse_oid oid_s = Inr k" by (auto simp: bindR_eq_Inr)
  have "\<forall>v \<in> ran (m(k \<mapsto> enc_octetstr (encode_value val_s))). \<exists>d. v = enc_octetstr d"
    using 2(3) by (auto simp: ran_def)
  moreover have "put_rows (m(k \<mapsto> enc_octetstr (encode_value val_s))) rows = Inr m'"
    using "2.prems" k by simp
  ultimately show ?case using "2.IH" [OF k] by blast
qed simp

lemma table_init_wf: "table_init rows = Inr t \<Longrightarrow> table_wf t"
proof -
  assume "table_init rows = Inr t"
  then obtain m ks where h: "put_rows Map.empty rows = Inr m"
    "mapR (\<lambda>r. parse_oid (fst r)) rows = Inr ks" "t = \<lparr>oids = sort (remdups ks), tvalue = m\<rparr>"
    by (auto simp: table_init_def bindR_eq_Inr)
  with put_rows_dom [OF h(1,2)] put_rows_ran [OF h(1)] show ?thesis
    by (simp add: table_wf_def)
qed

lemma table_patch_wf:
  assumes "table_wf t" and "table_patch t rows = Inr t'"
    and "\<forall>r \<in> set rows. \<forall>oid. parse_oid (fst r) = Inr oid \<longrightarrow> oid \<in> set (oids t)"
  shows "table_wf t' \<and> oids t' = oids t"
proof -
  obtain m where m: "put_rows (tvalue t) rows = Inr m" "t' = t\<lparr>tvalue := m\<rparr>"
    using assms(2) by (auto simp: table_patch_def bindR_eq_Inr)
  obtain ks where ks: "mapR (\<lambda>r. parse_oid (fst r)) rows = Inr ks" using put_rows_keys [OF m(1)] ..
  have "set ks \<subseteq> set (oids t)"
    using ks assms(3) by (induction rows arbitrary: ks) (auto simp: bindR_eq_Inr)
  with put_rows_dom [OF m(1) ks] put_rows_ran [OF m(1)] assms(1) m(2) show ?thesis
    by (auto simp: table_wf_def)
qed

lemma put_rows_total: "\<forall>r \<in> set rows. \<exists>k. parse_oid (fst r) = Inr k \<Longrightarrow> \<exists>m'. put_rows m rows = Inr m'"
proof (induction m rows rule: put_rows.induct)
  case (2 m oid_s val_s rows)
  then obtain k where k: "parse_oid oid_s = Inr k" by force
  from "2.prems" have "\<forall>r \<in> set rows. \<exists>k. parse_oid (fst r) = Inr k" by simp
  from "2.IH" [OF k this] obtain m' where "put_rows (m(k \<mapsto> enc_octetstr (encode_value val_s))) rows = Inr m'"
    by blast
  then show ?case by (simp only: put_rows.simps k bindR_Inr) blast
qed simp

lemma mapR_total: "\<forall>x \<in> set xs. \<exists>y. f x = Inr y \<Longrightarrow> \<exists>ys. mapR f xs = Inr ys"
  by (induction xs) auto

lemma mapR_each: "mapR f xs = Inr ys \<Longrightarrow> set ys = {y. \<exists>x \<in> set xs. f x = Inr y} \<and> (\<forall>x \<in> set xs. \<exists>y. f x = Inr y)"
proof (induction xs arbitrary: ys)
  case (Cons x xs)
  then obtain y ys' where "f x = Inr y" "mapR f xs = Inr ys'" "ys = y # ys'" by (auto simp: bindR_eq_Inr)
  with Cons.IH [of ys'] show ?case by auto
qed simp

lemma table_init_total: "\<forall>r \<in> set rows. \<exists>k. parse_oid (fst r) = Inr k \<Longrightarrow> \<exists>t. table_init rows = Inr t"
  using put_rows_total [of rows Map.empty] mapR_total [of rows "\<lambda>r. parse_oid (fst r)"]
  by (auto simp: table_init_def)

text \<open>A check that can be evaluated.\<close>

definition parses :: "string \<Rightarrow> bool" where
  "parses s = (case parse_oid s of Inl _ \<Rightarrow> False | Inr _ \<Rightarrow> True)"

lemma table_init_parses:
  assumes "list_all parses (map fst rows)"
  shows "\<exists>t. table_init rows = Inr t"
proof (rule table_init_total, intro ballI)
  fix r assume "r \<in> set rows"
  then have "parses (fst r)" using assms by (auto simp: list_all_iff)
  then show "\<exists>k. parse_oid (fst r) = Inr k" by (cases "parse_oid (fst r)") (simp_all add: parses_def)
qed

text \<open>A cheaper check that is enough: a dot, then digits and dots with no empty piece.\<close>

definition digits10 :: "char set" where
  "digits10 = set ''0123456789''"

definition plain_oid :: "string \<Rightarrow> bool" where
  "plain_oid s = (case s of [] \<Rightarrow> False | c # r \<Rightarrow> c = CHR ''.'' \<and> r \<noteq> [] \<and> hd r \<in> digits10 \<and> last r \<in> digits10
     \<and> list_all (\<lambda>w. w \<noteq> [] \<and> list_all (\<lambda>x. x \<in> digits10) w) (split_on (CHR ''.'') r))"

lemma digits10_char: "c \<in> digits10 \<Longrightarrow> digit_char c"
  by (auto simp: digits10_def digit_char_def)

lemma plain_strip:
  assumes "plain_oid s"
  shows "strip s = s"
proof -
  obtain r where "s = CHR ''.'' # r" "r \<noteq> []" "digit_char (last r)"
    using assms digits10_char by (auto simp: plain_oid_def split: list.splits)
  then show ?thesis
    unfolding strip_def by (intro strip_by_id) (use digit_char_not_space in \<open>auto simp: is_space_def\<close>)
qed

lemma plain_oid_parses:
  assumes "plain_oid s"
  shows "parses s"
proof -
  obtain r where s: "s = CHR ''.'' # r" and r: "r \<noteq> []" "digit_char (hd r)" "digit_char (last r)"
    and w: "\<forall>w \<in> set (split_on (CHR ''.'') r). isdigit w"
    using assms digits10_char by (auto simp: plain_oid_def isdigit_def list_all_iff split: list.splits)
  have "strip s = s" by (rule plain_strip [OF assms])
  moreover have "strip_by (\<lambda>c. c = CHR ''.'') s = strip_by (\<lambda>c. c = CHR ''.'') r"
    by (simp add: s strip_by_def)
  moreover have "strip_by (\<lambda>c. c = CHR ''.'') r = r"
    by (rule strip_by_id) (use r in auto)
  moreover have "mapR py_int (split_on (CHR ''.'') r) = Inr (map (int \<circ> digits_val) (split_on (CHR ''.'') r))"
    by (rule mapR_all_Inr) (use w py_int_digits in auto)
  ultimately show ?thesis by (simp add: parses_def parse_oid_def)
qed

lemma plain_oids_parse: "list_all plain_oid os \<Longrightarrow> list_all parses os"
  by (auto simp: list_all_iff intro: plain_oid_parses)

lemma table_init_keys:
  assumes "table_init rows = Inr t"
  shows "set (oids t) = {k. \<exists>r \<in> set rows. parse_oid (fst r) = Inr k}"
    and "\<forall>r \<in> set rows. \<exists>k. parse_oid (fst r) = Inr k"
proof -
  obtain ks m where ks: "mapR (\<lambda>r. parse_oid (fst r)) rows = Inr ks" and t: "t = \<lparr>oids = sort (remdups ks), tvalue = m\<rparr>"
    using assms by (auto simp: table_init_def bindR_eq_Inr)
  note each = mapR_each [OF ks]
  have "set (oids t) = set ks" by (simp add: t)
  with conjunct1 [OF each] show "set (oids t) = {k. \<exists>r \<in> set rows. parse_oid (fst r) = Inr k}" by (rule trans [rotated])
  show "\<forall>r \<in> set rows. \<exists>k. parse_oid (fst r) = Inr k" by (rule conjunct2 [OF each])
qed

text \<open>Refreshing with rows whose OIDs the table was built from.\<close>

lemma table_refresh_subset:
  assumes "table_init rows = Inr t" and "fst ` set dyn \<subseteq> fst ` set rows"
  shows "\<exists>t'. table_patch t dyn = Inr t' \<and> table_wf t' \<and> oids t' = oids t"
proof -
  note k = table_init_keys [OF assms(1)]
  have in_rows: "\<exists>r' \<in> set rows. fst r' = fst r" if "r \<in> set dyn" for r
    using subsetD [OF assms(2) imageI [OF that]] by (auto simp only: image_iff)
  have "\<forall>r \<in> set dyn. \<exists>k. parse_oid (fst r) = Inr k"
    using in_rows k(2) by metis
  then obtain m where "put_rows (tvalue t) dyn = Inr m" using put_rows_total by blast
  then have t': "table_patch t dyn = Inr (t\<lparr>tvalue := m\<rparr>)" by (simp add: table_patch_def)
  have "\<forall>r \<in> set dyn. \<forall>oid. parse_oid (fst r) = Inr oid \<longrightarrow> oid \<in> set (oids t)"
  proof (intro ballI allI impI)
    fix r oid assume "r \<in> set dyn" and o: "parse_oid (fst r) = Inr oid"
    then obtain r' where "r' \<in> set rows" "fst r' = fst r" using in_rows by metis
    with o show "oid \<in> set (oids t)" unfolding k(1) by (metis (mono_tags, lifting) mem_Collect_eq)
  qed
  from table_patch_wf [OF table_init_wf [OF assms(1)] t' this] t' show ?thesis by blast
qed

lemma table_refresh:
  assumes "table_init rows = Inr t" and "map fst rows = map fst dyn"
  shows "\<exists>t'. table_patch t dyn = Inr t' \<and> table_wf t' \<and> oids t' = oids t"
proof (rule table_refresh_subset [OF assms(1)])
  have "set (map fst dyn) = set (map fst rows)" by (simp only: assms(2))
  then show "fst ` set dyn \<subseteq> fst ` set rows" by simp
qed

lemma table_wf_get: "table_wf t \<Longrightarrow> k \<in> set (oids t) \<Longrightarrow> \<exists>d. table_get t k = Some (enc_octetstr d)"
  by (force simp: table_wf_def table_get_def ran_def dom_def)

section \<open>Walking a table\<close>

text \<open>Repeated GETNEXT: at most \<open>n\<close> successors of \<open>oid\<close>.\<close>

fun walk_from :: "(oid \<Rightarrow> oid option) \<Rightarrow> nat \<Rightarrow> oid \<Rightarrow> oid list" where
  "walk_from nxt 0 oid = []"
| "walk_from nxt (Suc n) oid =
     (case nxt oid of None \<Rightarrow> [] | Some k \<Rightarrow> k # walk_from nxt n k)"

locale oid_view =
  fixes get :: "'t \<Rightarrow> oid \<Rightarrow> bytes option"
    and nxt :: "'t \<Rightarrow> oid \<Rightarrow> oid option"
    and keys :: "'t \<Rightarrow> oid set"
    and inv :: "'t \<Rightarrow> bool"
  assumes finite_keys: "inv t \<Longrightarrow> finite (keys t)"
    and get_keys: "inv t \<Longrightarrow> get t k \<noteq> None \<longleftrightarrow> k \<in> keys t"
    and next_Some: "inv t \<Longrightarrow> nxt t a = Some k \<Longrightarrow> k \<in> keys t \<and> a < k \<and> (\<forall>j \<in> keys t. a < j \<longrightarrow> k \<le> j)"
    and next_None: "inv t \<Longrightarrow> nxt t a = None \<Longrightarrow> \<forall>j \<in> keys t. j \<le> a"
begin

lemma next_stored: "inv t \<Longrightarrow> nxt t a = Some k \<Longrightarrow> \<exists>v. get t k = Some v"
  using next_Some get_keys by (metis not_None_eq)

lemma next_iff: "inv t \<Longrightarrow> nxt t a = None \<longleftrightarrow> (\<forall>j \<in> keys t. j \<le> a)"
  using next_None next_Some by (metis not_None_eq not_le)

lemma next_Min:
  assumes "inv t" and "nxt t a = Some k"
  shows "Min {j \<in> keys t. a < j} = k" and "{j \<in> keys t. a < j} - {k} = {j \<in> keys t. k < j}"
proof -
  note s = next_Some [OF assms]
  show "Min {j \<in> keys t. a < j} = k"
    by (rule Min_eqI) (use s finite_keys [OF assms(1)] in auto)
  show "{j \<in> keys t. a < j} - {k} = {j \<in> keys t. k < j}"
    using s by force
qed

lemma walk_sorted:
  assumes "inv t"
  shows "walk_from (nxt t) n a = take n (sorted_list_of_set {k \<in> keys t. a < k})"
proof (induction n arbitrary: a)
  case (Suc n)
  let ?S = "{k \<in> keys t. a < k}"
  show ?case
  proof (cases "nxt t a")
    case None
    then have "?S = {}" using next_None [OF assms None] by force
    then have "sorted_list_of_set ?S = []" by (simp only: sorted_list_of_set_empty)
    with None show ?thesis by simp
  next
    case (Some k)
    have "k \<in> ?S" using next_Some [OF assms Some] by simp
    then have "sorted_list_of_set ?S = Min ?S # sorted_list_of_set (?S - {Min ?S})"
      using finite_keys [OF assms] by (intro sorted_list_of_set_nonempty) auto
    with next_Min [OF assms Some] Some Suc show ?thesis by simp
  qed
qed simp

end

lemma sorted_list_of_set_filter:
  "sorted xs \<Longrightarrow> distinct xs \<Longrightarrow> sorted_list_of_set {k \<in> set xs. P k} = filter P xs"
  by (rule sorted_distinct_set_unique) (auto simp: sorted_wrt_filter)

interpretation tab: oid_view table_get table_next "\<lambda>t. set (oids t)" table_wf
proof unfold_locales
  fix t k show "table_wf t \<Longrightarrow> table_get t k \<noteq> None \<longleftrightarrow> k \<in> set (oids t)"
    by (auto simp: table_wf_def table_get_def)
next
  fix t a k assume wf: "table_wf t" and n: "table_next t a = Some k"
  then have srt: "sorted (oids t)" by (simp add: table_wf_def)
  note b = bisect_right_correct [OF srt, where x = a]
  have k: "bisect_right (oids t) a < length (oids t)" "k = oids t ! bisect_right (oids t) a"
    using n by (auto simp: table_next_def Let_def split: if_splits)
  have "k \<le> j" if "j \<in> set (oids t)" "a < j" for j
  proof -
    obtain i where i: "i < length (oids t)" "j = oids t ! i" using \<open>j \<in> set (oids t)\<close> by (auto simp: in_set_conv_nth)
    then have "bisect_right (oids t) a \<le> i" using b(2) [where i = i] \<open>a < j\<close> by (meson not_le)
    then show ?thesis using i k srt by (simp add: sorted_nth_mono)
  qed
  with b(3) k show "k \<in> set (oids t) \<and> a < k \<and> (\<forall>j \<in> set (oids t). a < j \<longrightarrow> k \<le> j)" by auto
next
  fix t a assume wf: "table_wf t" and n: "table_next t a = None"
  then have srt: "sorted (oids t)" by (simp add: table_wf_def)
  have "\<not> bisect_right (oids t) a < length (oids t)"
    using n by (auto simp: table_next_def Let_def split: if_splits)
  then show "\<forall>j \<in> set (oids t). j \<le> a"
    using bisect_right_correct(2) [OF srt, where x = a] by (auto simp: in_set_conv_nth)
qed simp

lemmas table_walk = tab.walk_sorted

end
