(* ===== verification/Snmp_Pdu.thy ===== *)
theory Snmp_Pdu
  imports Snmp_Table
begin

text \<open>
  The SNMP v2c responder of \<open>snmpserver.py\<close>: request parsing, GET / GETNEXT / GETBULK, the
  response encoder, the community peek and one turn of the server loop \<open>SnmpServer._serve\<close>.
  \<open>build_request\<close> and \<open>resp_varbinds\<close> are the client the module's self-test uses.

  The lemmas decode a built request, so that \<open>handle_message\<close> on it becomes \<open>answer\<close> and
  \<open>encode_response\<close>, and decode the response again; the properties compose the two with the
  table's contract \<open>tab\<close> into what a client observes.
\<close>

unbundle bit_operations_syntax

section \<open>PDU handling\<close>

record varbind =
  vb_oid :: oid
  value_tlv :: bytes

definition encode_varbind :: "varbind \<Rightarrow> bytes res" where
  "encode_varbind vb = bindR (enc_oid (vb_oid vb)) (\<lambda>o_tlv. Inr (tlv T_SEQ (o_tlv @ value_tlv vb)))"

text \<open>\<open>while pos < len(body)\<close>: read TLVs to the end, \<open>f\<close> handling each.\<close>

lemma read_tlv_advances: "read_tlv buf pos = Inr (t, b, q) \<Longrightarrow> pos < q \<and> q \<le> length buf"
  by (auto simp: read_tlv_def Let_def bindR_eq_Inr split: if_splits)

function read_all :: "(byte \<Rightarrow> bytes \<Rightarrow> 'a res) \<Rightarrow> bytes \<Rightarrow> nat \<Rightarrow> 'a list res" where
  "read_all f body pos =
     (if pos < length body
      then bindR (read_tlv body pos) (\<lambda>(tag, vb, next).
           bindR (f tag vb) (\<lambda>x. bindR (read_all f body next) (\<lambda>xs. Inr (x # xs))))
      else Inr [])"
  by pat_completeness auto
termination
  by (relation "measure (\<lambda>(f, body, pos). length body - pos)")
    (auto dest: read_tlv_advances)

declare read_all.simps [simp del]

definition parse_varbind :: "byte \<Rightarrow> bytes \<Rightarrow> oid res" where
  "parse_varbind tag vb =
     (if tag \<noteq> T_SEQ then Inl BERError
      else bindR (read_tlv vb 0) (\<lambda>(otag, obody, _).
           if otag \<noteq> T_OID then Inl BERError else bytes_to_oid obody))"

definition parse_varbinds :: "bytes \<Rightarrow> oid list res" where
  "parse_varbinds body = read_all parse_varbind body 0"

definition latin1 :: "bytes \<Rightarrow> string" where
  "latin1 bs = map (\<lambda>b. char_of (unat b)) bs"

definition peek_fields :: "bytes \<Rightarrow> string option res" where
  "peek_fields data =
     bindR (read_tlv data 0) (\<lambda>(_, body, _).
     bindR (read_tlv body 0) (\<lambda>(vtag, vbody, pos).
       if vtag \<noteq> T_INT \<or> dec_int vbody \<noteq> 1 then Inr None
       else bindR (read_tlv body pos) (\<lambda>(ctag, cbody, _).
         if ctag \<noteq> T_OCTETSTR then Inr None else Inr (Some (latin1 cbody)))))"

text \<open>\<open>except BERError: return None\<close> (nothing else can be raised here).\<close>

definition peek_community :: "bytes \<Rightarrow> string option" where
  "peek_community data = (case peek_fields data of Inl _ \<Rightarrow> None | Inr r \<Rightarrow> r)"

definition next_vb :: "table \<Rightarrow> oid \<Rightarrow> varbind res" where
  "next_vb t oid =
     (case table_next t oid of
        None \<Rightarrow> Inr \<lparr>vb_oid = oid, value_tlv = tlv T_ENDOFMIBVIEW []\<rparr>
      | Some nxt \<Rightarrow>
          (case table_get t nxt of
             None \<Rightarrow> Inl AssertionError
           | Some val \<Rightarrow> Inr \<lparr>vb_oid = nxt, value_tlv = val\<rparr>))"

definition get_vb :: "table \<Rightarrow> oid \<Rightarrow> varbind" where
  "get_vb t oid =
     \<lparr>vb_oid = oid,
      value_tlv = (case table_get t oid of
                     None \<Rightarrow> tlv T_NOSUCHINSTANCE []
                   | Some v \<Rightarrow> if v = [] then tlv T_NOSUCHINSTANCE [] else v)\<rparr>"

text \<open>The inner loop of GETBULK for one repeater.\<close>

fun bulk_loop :: "table \<Rightarrow> nat \<Rightarrow> oid \<Rightarrow> varbind list res" where
  "bulk_loop t 0 cur = Inr []"
| "bulk_loop t (Suc n) cur =
     bindR (next_vb t cur) (\<lambda>vb.
       if value_tlv vb = tlv T_ENDOFMIBVIEW [] then Inr [vb]
       else bindR (bulk_loop t n (vb_oid vb)) (\<lambda>vbs. Inr (vb # vbs)))"

definition answer :: "table \<Rightarrow> byte \<Rightarrow> int \<Rightarrow> int \<Rightarrow> oid list \<Rightarrow> varbind list res" where
  "answer t ptag n1 n2 os =
     (if ptag = T_GET then Inr (map (get_vb t) os)
      else if ptag = T_GETNEXT then mapR (next_vb t) os
      else let non_rep = nat (max 0 n1); max_rep = nat (max 0 n2)
           in bindR (mapR (next_vb t) (take non_rep os)) (\<lambda>xs.
              bindR (mapR (bulk_loop t max_rep) (drop non_rep os)) (\<lambda>yss.
                Inr (xs @ concat yss))))"

definition encode_response :: "int \<Rightarrow> bytes \<Rightarrow> varbind list \<Rightarrow> bytes res" where
  "encode_response request_id cbody out =
     bindR (mapR encode_varbind out) (\<lambda>vbs.
       let resp_pdu = enc_int request_id @ enc_int 0 @ enc_int 0 @ tlv T_SEQ (concat vbs)
       in Inr (tlv T_SEQ (enc_int 1 @ enc_octetstr cbody @ tlv T_RESPONSE resp_pdu)))"

definition handle_pdu :: "table \<Rightarrow> bytes \<Rightarrow> byte \<Rightarrow> bytes \<Rightarrow> bytes option res" where
  "handle_pdu t cbody ptag pbody =
     bindR (read_tlv pbody 0) (\<lambda>(_, rbody, p).
     bindR (read_tlv pbody p) (\<lambda>(_, n1body, p).
     bindR (read_tlv pbody p) (\<lambda>(_, n2body, p).
     bindR (read_tlv pbody p) (\<lambda>(_, vbbody, _).
     bindR (parse_varbinds vbbody) (\<lambda>os.
     bindR (answer t ptag (dec_int n1body) (dec_int n2body) os) (\<lambda>out.
     bindR (encode_response (dec_int rbody) cbody out) (\<lambda>r. Inr (Some r))))))))"

definition handle_message :: "bytes \<Rightarrow> table \<Rightarrow> string option \<Rightarrow> bytes option res" where
  "handle_message data t community =
     bindR (read_tlv data 0) (\<lambda>(tag, body, _).
       if tag \<noteq> T_SEQ then Inr None
       else bindR (read_tlv body 0) (\<lambda>(vtag, vbody, pos).
         if vtag \<noteq> T_INT \<or> dec_int vbody \<noteq> 1 then Inr None
         else bindR (read_tlv body pos) (\<lambda>(ctag, cbody, pos).
           if ctag \<noteq> T_OCTETSTR then Inr None
           else if community \<noteq> None \<and> Some (latin1 cbody) \<noteq> community then Inr None
           else bindR (read_tlv body pos) (\<lambda>(ptag, pbody, _).
             if ptag \<notin> {T_GET, T_GETNEXT, T_GETBULK} then Inr None
             else handle_pdu t cbody ptag pbody))))"

text \<open>
  One turn of \<open>SnmpServer._serve\<close> on a received datagram: the reply to send, if any.  \<open>table_for\<close>
  is the caller's routing function; it may update its own state (a cache).
\<close>

definition serve_datagram ::
    "('s \<Rightarrow> string \<Rightarrow> table option res \<times> 's) \<Rightarrow> 's \<Rightarrow> bytes \<Rightarrow> bytes option \<times> 's" where
  "serve_datagram table_for s data =
     (case peek_community data of
        None \<Rightarrow> (None, s)
      | Some community \<Rightarrow>
          if community = [] then (None, s)
          else (case table_for s community of
                  (Inl _, s') \<Rightarrow> (None, s')
                | (Inr None, s') \<Rightarrow> (None, s')
                | (Inr (Some t), s') \<Rightarrow>
                    (case handle_message data t None of
                       Inl _ \<Rightarrow> (None, s')
                     | Inr reply \<Rightarrow> (reply, s'))))"

section \<open>The self-test's client\<close>

definition build_request :: "byte \<Rightarrow> int \<Rightarrow> int \<Rightarrow> int \<Rightarrow> bytes \<Rightarrow> oid list \<Rightarrow> bytes res" where
  "build_request pdu_tag rid n1 n2 community os =
     bindR (mapR (\<lambda>o1. bindR (enc_oid o1) (\<lambda>e. Inr (tlv T_SEQ (e @ enc_null)))) os) (\<lambda>vbs.
       let pdu = enc_int rid @ enc_int n1 @ enc_int n2 @ tlv T_SEQ (concat vbs)
       in Inr (tlv T_SEQ (enc_int 1 @ enc_octetstr community @ tlv pdu_tag pdu)))"

definition resp_varbind :: "byte \<Rightarrow> bytes \<Rightarrow> (oid \<times> byte \<times> bytes) res" where
  "resp_varbind _ vb =
     bindR (read_tlv vb 0) (\<lambda>(_, ob, r).
     bindR (read_tlv vb r) (\<lambda>(vt, vbody, _).
     bindR (bytes_to_oid ob) (\<lambda>oid. Inr (oid, vt, vbody))))"

definition resp_varbinds :: "bytes \<Rightarrow> (oid \<times> byte \<times> bytes) list res" where
  "resp_varbinds reply =
     bindR (read_tlv reply 0) (\<lambda>(_, body, _).
     bindR (read_tlv body 0) (\<lambda>(_, _, p).
     bindR (read_tlv body p) (\<lambda>(_, _, p).
     bindR (read_tlv body p) (\<lambda>(_, pdu, _).
     bindR (read_tlv pdu 0) (\<lambda>(_, _, pp).
     bindR (read_tlv pdu pp) (\<lambda>(_, _, pp).
     bindR (read_tlv pdu pp) (\<lambda>(_, _, pp).
     bindR (read_tlv pdu pp) (\<lambda>(_, vbl, _).
       read_all resp_varbind vbl 0))))))))"

section \<open>Reading messages back\<close>

lemma fits_append [dest]: "fits (a @ b) \<Longrightarrow> fits a" "fits (a @ b) \<Longrightarrow> fits b"
  by (simp_all add: fits_def)

lemma fits_tlv: "fits (tlv t b) \<Longrightarrow> fits b"
  by (simp add: fits_def tlv_def)

text \<open>Reading at the start, and after one, two or three fields.\<close>

lemma read_tlv_1: "fits b \<Longrightarrow> read_tlv (tlv t b) 0 = Inr (t, b, length (tlv t b))"
  using read_tlv_0 [of b t "[]"] by (simp only: append_Nil2)

lemma read_tlv_after2:
  assumes "fits b"
  shows "read_tlv (p @ q @ tlv t b @ r) (length p + length q)
     = Inr (t, b, length p + length q + length (tlv t b))"
  using read_tlv_tlv [OF assms, of "p @ q" t r] by (simp only: append_assoc length_append)

lemma read_tlv_after3:
  assumes "fits b"
  shows "read_tlv (p @ q @ s @ tlv t b @ r) (length p + length q + length s)
     = Inr (t, b, length p + length q + length s + length (tlv t b))"
  using read_tlv_tlv [OF assms, of "p @ q @ s" t r] by (simp only: append_assoc length_append add.assoc)

lemma read_tlv_last: "fits b \<Longrightarrow> read_tlv (p @ tlv t b) (length p) = Inr (t, b, length p + length (tlv t b))"
  using read_tlv_tlv [of b p t "[]"] by (simp only: append_Nil2)

lemma read_tlv_last2:
  "fits b \<Longrightarrow> read_tlv (p @ q @ tlv t b) (length p + length q)
     = Inr (t, b, length p + length q + length (tlv t b))"
  using read_tlv_after2 [of b p q t "[]"] by (simp only: append_Nil2)

lemma read_tlv_last3:
  "fits b \<Longrightarrow> read_tlv (p @ q @ s @ tlv t b) (length p + length q + length s)
     = Inr (t, b, length p + length q + length s + length (tlv t b))"
  using read_tlv_after3 [of b p q s t "[]"] by (simp only: append_Nil2)

lemmas read_tlvs =
  read_tlv_0 read_tlv_1 read_tlv_tlv read_tlv_after2 read_tlv_after3
  read_tlv_last read_tlv_last2 read_tlv_last3

lemma read_all_written:
  assumes "\<forall>(t, b) \<in> set items. fits b \<and> f t b = Inr (g (t, b))"
  shows "read_all f (pre @ concat (map (\<lambda>(t, b). tlv t b) items)) (length pre) = Inr (map g items)"
  using assms
proof (induction items arbitrary: pre)
  case Nil
  then show ?case by (simp add: read_all.simps)
next
  case (Cons x items)
  obtain t b where x: "x = (t, b)" by (cases x)
  let ?rest = "concat (map (\<lambda>(t, b). tlv t b) items)"
  have r: "read_tlv (pre @ tlv t b @ ?rest) (length pre) = Inr (t, b, length pre + length (tlv t b))"
    using Cons.prems x by (intro read_tlv_tlv) auto
  have "read_all f ((pre @ tlv t b) @ ?rest) (length (pre @ tlv t b)) = Inr (map g items)"
    by (rule Cons.IH) (use Cons.prems in simp)
  then have "read_all f (pre @ tlv t b @ ?rest) (length pre + length (tlv t b)) = Inr (map g items)"
    by (simp only: append_assoc length_append)
  moreover have "f t b = Inr (g x)" using Cons.prems x by simp
  ultimately show ?case using r x by (subst read_all.simps) simp
qed

lemma read_all_written0:
  assumes "\<forall>(t, b) \<in> set items. fits b \<and> f t b = Inr (g (t, b))"
  shows "read_all f (concat (map (\<lambda>(t, b). tlv t b) items)) 0 = Inr (map g items)"
  using read_all_written [OF assms, of "[]"] by simp

definition oid_body :: "oid \<Rightarrow> bytes" where
  "oid_body oid = (case oid_to_bytes oid of Inl _ \<Rightarrow> [] | Inr b \<Rightarrow> b)"

lemma oid_ok_enc:
  "oid_ok oid \<Longrightarrow> enc_oid oid = Inr (tlv T_OID (oid_body oid)) \<and> fits (oid_body oid)
     \<and> bytes_to_oid (oid_body oid) = Inr oid"
  using oid_field.enc_dec [of oid] enc_oid_total [of oid]
  by (auto simp: oid_body_def oid_ok_def enc_oid_def oid_roundtrip_iff)

lemma map_tlv_items: "map (\<lambda>x. tlv t (h x)) xs = map (\<lambda>(t, b). tlv t b) (map (\<lambda>x. (t, h x)) xs)"
  by simp

lemma concat_fits: "fits (concat (map f xs)) \<Longrightarrow> x \<in> set xs \<Longrightarrow> fits (f x)"
  by (induction xs) auto

lemma parse_varbinds_written:
  assumes "\<forall>oid \<in> set os. oid_ok oid"
    and "vbl = concat (map (\<lambda>oid. tlv T_SEQ (tlv T_OID (oid_body oid) @ enc_null)) os)" and "fits vbl"
  shows "parse_varbinds vbl = Inr os"
proof -
  let ?items = "map (\<lambda>oid. (T_SEQ, tlv T_OID (oid_body oid) @ enc_null)) os"
  have f: "fits (tlv T_OID (oid_body oid) @ enc_null)" if "oid \<in> set os" for oid
    using concat_fits [of _ os oid] assms(2,3) that by (auto dest: fits_tlv)
  have "parse_varbind T_SEQ (tlv T_OID (oid_body oid) @ enc_null) = Inr oid" if "oid \<in> set os" for oid
    using oid_ok_enc [of oid] assms(1) that by (simp add: parse_varbind_def read_tlv_0)
  then have "\<forall>(t, b) \<in> set ?items. fits b \<and> parse_varbind t b = Inr ((\<lambda>(t, b). case parse_varbind t b of Inr x \<Rightarrow> x) (t, b))"
    using f by auto
  from read_all_written0 [OF this]
  have "parse_varbinds vbl = Inr (map (\<lambda>(t, b). case parse_varbind t b of Inr x \<Rightarrow> x) ?items)"
    unfolding parse_varbinds_def assms(2) map_tlv_items .
  also have "map (\<lambda>(t, b). case parse_varbind t b of Inr x \<Rightarrow> x) ?items = os"
    using \<open>\<And>oid. oid \<in> set os \<Longrightarrow> parse_varbind T_SEQ _ = Inr oid\<close> by (simp add: map_idI)
  finally show ?thesis .
qed


section \<open>A built request, handled\<close>

lemma mapR_fun: "(\<And>x. x \<in> set xs \<Longrightarrow> f x = Inr (g x)) \<Longrightarrow> mapR f xs = Inr (map g xs)"
  by (rule mapR_all_Inr)

definition request_vbl :: "oid list \<Rightarrow> bytes" where
  "request_vbl os = concat (map (\<lambda>oid. tlv T_SEQ (tlv T_OID (oid_body oid) @ enc_null)) os)"

lemma build_request_eq:
  assumes "\<forall>oid \<in> set os. oid_ok oid"
  shows "build_request ptag rid n1 n2 comm os
    = Inr (tlv T_SEQ (enc_int 1 @ enc_octetstr comm @ tlv ptag
        (enc_int rid @ enc_int n1 @ enc_int n2 @ tlv T_SEQ (request_vbl os))))"
proof -
  have "mapR (\<lambda>o1. bindR (enc_oid o1) (\<lambda>e. Inr (tlv T_SEQ (e @ enc_null)))) os
      = Inr (map (\<lambda>oid. tlv T_SEQ (tlv T_OID (oid_body oid) @ enc_null)) os)"
    using assms oid_ok_enc by (intro mapR_fun) auto
  then show ?thesis by (simp add: build_request_def request_vbl_def)
qed

lemma fits_tlv_app: "fits (tlv t b @ r) \<Longrightarrow> fits b" "fits (p @ tlv t b @ r) \<Longrightarrow> fits b" "fits (p @ tlv t b) \<Longrightarrow> fits b"
  by (auto simp: fits_def tlv_def)

lemma read_msg:
  assumes "fits (tlv ta a @ tlv tb b @ tlv tc c)"
  shows "read_tlv (tlv ta a @ tlv tb b @ tlv tc c) 0 = Inr (ta, a, length (tlv ta a))"
    and "read_tlv (tlv ta a @ tlv tb b @ tlv tc c) (length (tlv ta a)) = Inr (tb, b, length (tlv ta a) + length (tlv tb b))"
    and "read_tlv (tlv ta a @ tlv tb b @ tlv tc c) (length (tlv ta a) + length (tlv tb b))
      = Inr (tc, c, length (tlv ta a) + length (tlv tb b) + length (tlv tc c))"
proof -
  have f: "fits a" "fits b" "fits c" using assms by (auto simp: fits_def tlv_def)
  show "read_tlv (tlv ta a @ tlv tb b @ tlv tc c) 0 = Inr (ta, a, length (tlv ta a))"
    using f(1) by (rule read_tlv_0)
  show "read_tlv (tlv ta a @ tlv tb b @ tlv tc c) (length (tlv ta a)) = Inr (tb, b, length (tlv ta a) + length (tlv tb b))"
    using f(2) by (rule read_tlv_tlv)
  show "read_tlv (tlv ta a @ tlv tb b @ tlv tc c) (length (tlv ta a) + length (tlv tb b))
      = Inr (tc, c, length (tlv ta a) + length (tlv tb b) + length (tlv tc c))"
    using f(3) by (rule read_tlv_last2)
qed

lemma read_pdu:
  assumes "fits (tlv ta a @ tlv tb b @ tlv tc c @ tlv td d)"
  shows "read_tlv (tlv ta a @ tlv tb b @ tlv tc c @ tlv td d) 0 = Inr (ta, a, length (tlv ta a))"
    and "read_tlv (tlv ta a @ tlv tb b @ tlv tc c @ tlv td d) (length (tlv ta a))
      = Inr (tb, b, length (tlv ta a) + length (tlv tb b))"
    and "read_tlv (tlv ta a @ tlv tb b @ tlv tc c @ tlv td d) (length (tlv ta a) + length (tlv tb b))
      = Inr (tc, c, length (tlv ta a) + length (tlv tb b) + length (tlv tc c))"
    and "read_tlv (tlv ta a @ tlv tb b @ tlv tc c @ tlv td d) (length (tlv ta a) + length (tlv tb b) + length (tlv tc c))
      = Inr (td, d, length (tlv ta a) + length (tlv tb b) + length (tlv tc c) + length (tlv td d))"
proof -
  have f: "fits a" "fits b" "fits c" "fits d" using assms by (auto simp: fits_def tlv_def)
  show "read_tlv (tlv ta a @ tlv tb b @ tlv tc c @ tlv td d) 0 = Inr (ta, a, length (tlv ta a))"
    using f(1) by (rule read_tlv_0)
  show "read_tlv (tlv ta a @ tlv tb b @ tlv tc c @ tlv td d) (length (tlv ta a))
      = Inr (tb, b, length (tlv ta a) + length (tlv tb b))"
    using f(2) by (rule read_tlv_tlv)
  show "read_tlv (tlv ta a @ tlv tb b @ tlv tc c @ tlv td d) (length (tlv ta a) + length (tlv tb b))
      = Inr (tc, c, length (tlv ta a) + length (tlv tb b) + length (tlv tc c))"
    using f(3) by (rule read_tlv_after2)
  show "read_tlv (tlv ta a @ tlv tb b @ tlv tc c @ tlv td d) (length (tlv ta a) + length (tlv tb b) + length (tlv tc c))
      = Inr (td, d, length (tlv ta a) + length (tlv tb b) + length (tlv tc c) + length (tlv td d))"
    using f(4) by (rule read_tlv_last3)
qed

lemma handle_pdu_built:
  assumes "\<forall>oid \<in> set os. oid_ok oid"
    and "fits (enc_int rid @ enc_int n1 @ enc_int n2 @ tlv T_SEQ (request_vbl os))"
  shows "handle_pdu t comm ptag (enc_int rid @ enc_int n1 @ enc_int n2 @ tlv T_SEQ (request_vbl os))
    = bindR (answer t ptag n1 n2 os) (\<lambda>out. bindR (encode_response rid comm out) (\<lambda>r. Inr (Some r)))"
proof -
  have "fits (request_vbl os)" using assms(2) by (auto simp: fits_def tlv_def)
  then have p: "parse_varbinds (request_vbl os) = Inr os"
    by (rule parse_varbinds_written [OF assms(1) request_vbl_def])
  note r = read_pdu [OF assms(2) [unfolded enc_int_def]]
  show ?thesis
    by (simp only: handle_pdu_def enc_int_def r bindR_Inr prod.case dec_enc_int p)
qed

lemma handle_built:
  assumes "\<forall>oid \<in> set os. oid_ok oid" and "ptag \<in> {T_GET, T_GETNEXT, T_GETBULK}"
    and "build_request ptag rid n1 n2 comm os = Inr req" and "fits req"
  shows "handle_message req t community =
     (if community \<noteq> None \<and> community \<noteq> Some (latin1 comm) then Inr None
      else bindR (answer t ptag n1 n2 os) (\<lambda>out. bindR (encode_response rid comm out) (\<lambda>r. Inr (Some r))))"
proof -
  let ?pdu = "enc_int rid @ enc_int n1 @ enc_int n2 @ tlv T_SEQ (request_vbl os)"
  let ?msg = "enc_int 1 @ enc_octetstr comm @ tlv ptag ?pdu"
  have req: "req = tlv T_SEQ ?msg"
    using assms(3) by (simp only: build_request_eq [OF assms(1)] sum.inject)
  have f: "fits ?msg" using assms(4) fits_tlv req by blast
  then have "fits ?pdu" by (auto simp: fits_def tlv_def)
  note h = handle_pdu_built [OF assms(1) this]
  note r = read_msg [OF f [unfolded enc_int_def enc_octetstr_def], folded enc_int_def enc_octetstr_def]
  have "handle_message req t community =
      (if community \<noteq> None \<and> Some (latin1 comm) \<noteq> community then Inr None
       else handle_pdu t comm ptag ?pdu)"
    unfolding handle_message_def req read_tlv_1 [OF f] bindR_Inr prod.case r dec_enc_int
    using assms(2) by (simp only: bindR_Inr r prod.case dec_enc_int simp_thms if_True if_False)
  with h show ?thesis by auto
qed


section \<open>The response, read by the client\<close>

definition mk_vb :: "oid \<times> byte \<times> bytes \<Rightarrow> varbind" where
  "mk_vb item = (case item of (oid, t, b) \<Rightarrow> \<lparr>vb_oid = oid, value_tlv = tlv t b\<rparr>)"

definition vb_body :: "oid \<times> byte \<times> bytes \<Rightarrow> bytes" where
  "vb_body item = (case item of (oid, t, b) \<Rightarrow> tlv T_OID (oid_body oid) @ tlv t b)"

definition item_ok :: "oid \<times> byte \<times> bytes \<Rightarrow> bool" where
  "item_ok item \<longleftrightarrow> oid_ok (fst item)"

lemma encode_varbind_item: "item_ok item \<Longrightarrow> encode_varbind (mk_vb item) = Inr (tlv T_SEQ (vb_body item))"
  using oid_ok_enc [of "fst item"]
  by (cases item) (simp add: encode_varbind_def mk_vb_def vb_body_def item_ok_def)

lemma encode_response_eq:
  assumes "\<forall>item \<in> set items. item_ok item"
  shows "encode_response rid comm (map mk_vb items)
    = Inr (tlv T_SEQ (enc_int 1 @ enc_octetstr comm @ tlv T_RESPONSE
        (enc_int rid @ enc_int 0 @ enc_int 0 @ tlv T_SEQ (concat (map (\<lambda>i. tlv T_SEQ (vb_body i)) items)))))"
proof -
  have "mapR encode_varbind (map mk_vb items) = Inr (map (\<lambda>i. tlv T_SEQ (vb_body i)) items)"
    using assms by (induction items) (auto simp: encode_varbind_item)
  then show ?thesis by (simp add: encode_response_def)
qed

lemma resp_varbind_item:
  assumes "item_ok item" and "fits (vb_body item)"
  shows "resp_varbind T_SEQ (vb_body item) = Inr item"
proof -
  obtain oid t b where i: "item = (oid, t, b)" by (cases item)
  have f: "fits (oid_body oid)" "fits b" using assms(2) by (auto simp: i vb_body_def fits_def tlv_def)
  have "bytes_to_oid (oid_body oid) = Inr oid" using oid_ok_enc [of oid] assms(1) by (simp add: i item_ok_def)
  with read_tlv_0 [OF f(1)] read_tlv_last [OF f(2)] show ?thesis
    by (simp add: i vb_body_def resp_varbind_def)
qed

lemma resp_varbinds_eq:
  assumes "\<forall>item \<in> set items. item_ok item"
    and "encode_response rid comm (map mk_vb items) = Inr reply" and "fits reply"
  shows "resp_varbinds reply = Inr items"
proof -
  let ?vbl = "concat (map (\<lambda>i. tlv T_SEQ (vb_body i)) items)"
  let ?pdu = "enc_int rid @ enc_int 0 @ enc_int 0 @ tlv T_SEQ ?vbl"
  let ?msg = "enc_int 1 @ enc_octetstr comm @ tlv T_RESPONSE ?pdu"
  have reply: "reply = tlv T_SEQ ?msg"
    using assms(2) by (simp only: encode_response_eq [OF assms(1)] sum.inject)
  have fm: "fits ?msg" using assms(3) fits_tlv reply by blast
  then have fp: "fits ?pdu" by (auto simp: fits_def tlv_def)
  then have fv: "fits ?vbl" by (auto simp: fits_def tlv_def)
  have fb: "fits (vb_body i)" if "i \<in> set items" for i
    using concat_fits [OF fv that] by (rule fits_tlv)
  have *: "\<forall>(t, b) \<in> set (map (\<lambda>i. (T_SEQ, vb_body i)) items). fits b \<and> resp_varbind t b
      = Inr ((\<lambda>(t, b). case resp_varbind t b of Inr x \<Rightarrow> x) (t, b))"
    using fb assms(1) resp_varbind_item by auto
  have all: "read_all resp_varbind ?vbl 0 = Inr items"
    using read_all_written0 [OF *] fb assms(1) resp_varbind_item
    unfolding map_tlv_items by (simp add: map_idI cong: map_cong)
  note rm = read_msg [OF fm [unfolded enc_int_def enc_octetstr_def], folded enc_int_def enc_octetstr_def]
  note rp = read_pdu [OF fp [unfolded enc_int_def], folded enc_int_def]
  show ?thesis
    unfolding resp_varbinds_def reply read_tlv_1 [OF fm]
    by (simp only: bindR_Inr prod.case rm rp all)
qed

section \<open>The device as the client sees it\<close>

text \<open>The data stored at an OID, and a table whose content the codec can carry.\<close>

definition mib :: "table \<Rightarrow> oid \<Rightarrow> bytes option" where
  "mib t oid = (case table_get t oid of None \<Rightarrow> None
     | Some v \<Rightarrow> (case read_tlv v 0 of Inl _ \<Rightarrow> None | Inr (_, body, _) \<Rightarrow> Some body))"

definition table_ok :: "table \<Rightarrow> bool" where
  "table_ok t \<longleftrightarrow> table_wf t \<and> (\<forall>k \<in> set (oids t). oid_ok k
     \<and> (\<exists>d. fits d \<and> table_get t k = Some (enc_octetstr d)))"

definition get_item :: "table \<Rightarrow> oid \<Rightarrow> oid \<times> byte \<times> bytes" where
  "get_item t oid = (case mib t oid of None \<Rightarrow> (oid, T_NOSUCHINSTANCE, []) | Some d \<Rightarrow> (oid, T_OCTETSTR, d))"

definition next_item :: "table \<Rightarrow> oid \<Rightarrow> oid \<times> byte \<times> bytes" where
  "next_item t oid = (case [k \<leftarrow> oids t. oid < k] of
      [] \<Rightarrow> (oid, T_ENDOFMIBVIEW, []) | k # _ \<Rightarrow> get_item t k)"

text \<open>GETBULK, one repeater: the next \<open>m\<close> OIDs, and \<open>endOfMibView\<close> when there are fewer.\<close>

definition bulk_items :: "table \<Rightarrow> nat \<Rightarrow> oid \<Rightarrow> (oid \<times> byte \<times> bytes) list" where
  "bulk_items t m oid = (let ks = take m [k \<leftarrow> oids t. oid < k]
     in map (get_item t) ks @ (if length ks < m then [(last (oid # ks), T_ENDOFMIBVIEW, [])] else []))"

lemma table_ok_get:
  assumes "table_ok t"
  shows "(k \<in> set (oids t) \<and> oid_ok k \<and> (\<exists>d. fits d \<and> table_get t k = Some (enc_octetstr d) \<and> mib t k = Some d))
    \<or> (k \<notin> set (oids t) \<and> table_get t k = None \<and> mib t k = None)"
proof (cases "k \<in> set (oids t)")
  case True
  with assms obtain d where "oid_ok k" "fits d" "table_get t k = Some (enc_octetstr d)"
    by (auto simp: table_ok_def)
  with True show ?thesis by (auto simp: mib_def enc_octetstr_def read_tlv_1)
next
  case False
  then have "table_get t k = None" using assms tab.get_keys [of t k] by (auto simp: table_ok_def)
  with False show ?thesis by (simp add: mib_def)
qed

lemma get_vb_item: "table_ok t \<Longrightarrow> get_vb t oid = mk_vb (get_item t oid)"
  using table_ok_get [of t oid]
  by (auto simp: get_vb_def mk_vb_def get_item_def enc_octetstr_def)

lemma stored_item:
  assumes "table_ok t" and "k \<in> set (oids t)"
  shows "oid_ok k" and "table_get t k = Some (value_tlv (mk_vb (get_item t k)))"
    and "vb_oid (mk_vb (get_item t k)) = k" and "fst (get_item t k) = k"
    and "fst (snd (get_item t k)) = T_OCTETSTR"
  using table_ok_get [OF assms(1), of k] assms(2)
  by (auto simp: mk_vb_def get_item_def enc_octetstr_def)

lemma filter_ConsD: "filter P xs = k # ks \<Longrightarrow> k \<in> set xs"
proof -
  assume "filter P xs = k # ks"
  then have "k \<in> set (filter P xs)" by simp
  then show ?thesis by simp
qed

lemma table_next_filter:
  assumes "table_wf t"
  shows "table_next t oid = (case [k \<leftarrow> oids t. oid < k] of [] \<Rightarrow> None | k # _ \<Rightarrow> Some k)"
proof -
  have "walk_from (table_next t) 1 oid = take 1 [k \<leftarrow> oids t. oid < k]"
    using table_walk [OF assms, of 1 oid] assms sorted_list_of_set_filter [of "oids t" "(<) oid"]
    by (simp add: table_wf_def)
  then show ?thesis by (auto split: option.splits list.splits)
qed

lemma next_vb_item:
  assumes "table_ok t"
  shows "next_vb t oid = Inr (mk_vb (next_item t oid))"
proof -
  have wf: "table_wf t" using assms by (simp add: table_ok_def)
  show ?thesis
  proof (cases "[k \<leftarrow> oids t. oid < k]")
    case Nil
    then show ?thesis by (simp add: next_vb_def table_next_filter [OF wf] next_item_def mk_vb_def)
  next
    case (Cons k ks)
    then have "k \<in> set (oids t)" by (rule filter_ConsD)
    note s = stored_item [OF assms this]
    have "\<lparr>vb_oid = k, value_tlv = value_tlv (mk_vb (get_item t k))\<rparr> = mk_vb (get_item t k)"
      using s(3) by simp
    with s Cons show ?thesis
      by (simp add: next_vb_def table_next_filter [OF wf] next_item_def)
  qed
qed

lemma next_item_ok: "table_ok t \<Longrightarrow> oid_ok oid \<Longrightarrow> item_ok (next_item t oid)"
proof (cases "[k \<leftarrow> oids t. oid < k]")
  case (Cons k ks)
  assume "table_ok t"
  from stored_item(1,4) [OF this filter_ConsD [OF Cons]] Cons show ?thesis
    by (simp add: item_ok_def next_item_def)
qed (simp add: item_ok_def next_item_def)

lemma get_item_ok: "oid_ok oid \<Longrightarrow> item_ok (get_item t oid)"
  by (auto simp: item_ok_def get_item_def split: option.splits)


lemma filter_next:
  assumes "sorted xs" and "distinct xs" and "[k \<leftarrow> xs. a < k] = k # ks"
  shows "[j \<leftarrow> xs. k < j] = ks"
proof -
  have ka: "a < k" 
  proof -
    have "k \<in> set [k \<leftarrow> xs. a < k]" by (simp only: assms(3)) simp
    then show ?thesis by simp
  qed
  have s: "sorted (k # ks)" "distinct (k # ks)" 
    using assms(1,2) unfolding assms(3) [symmetric] by (simp_all add: sorted_wrt_filter)
  have "[j \<leftarrow> xs. k < j] = [j \<leftarrow> [j \<leftarrow> xs. a < j]. k < j]"
    using ka by (auto simp: conj_commute intro: filter_cong)
  also have "\<dots> = ks" using assms(3) s by (auto intro!: filter_True simp: order_le_less)
  finally show ?thesis .
qed

lemma bulk_loop_items:
  assumes "table_ok t"
  shows "bulk_loop t n cur = Inr (map mk_vb (bulk_items t n cur))"
proof (induction n arbitrary: cur)
  case 0
  then show ?case by (simp add: bulk_items_def)
next
  case (Suc n)
  have srt: "sorted (oids t)" "distinct (oids t)" using assms by (auto simp: table_ok_def table_wf_def)
  show ?case
  proof (cases "[k \<leftarrow> oids t. cur < k]")
    case Nil
    then have "next_item t cur = (cur, T_ENDOFMIBVIEW, [])" by (simp add: next_item_def)
    with Nil show ?thesis by (simp add: next_vb_item [OF assms] bulk_items_def mk_vb_def)
  next
    case (Cons k ks)
    have k: "k \<in> set (oids t)" using filter_ConsD [OF Cons] .
    have n: "next_item t cur = get_item t k" using Cons by (simp add: next_item_def)
    note f = filter_next [OF srt Cons]
    have "value_tlv (mk_vb (get_item t k)) \<noteq> tlv T_ENDOFMIBVIEW []"
      using stored_item(5) [OF assms k] by (cases "get_item t k") (simp add: mk_vb_def tlv_def tag_defs)
    then show ?thesis
      using Suc.IH [of k] Cons f stored_item(3) [OF assms k]
      by (simp add: next_vb_item [OF assms] n bulk_items_def Let_def)
  qed
qed

lemma bulk_items_ok:
  assumes "table_ok t" and "oid_ok oid" and "item \<in> set (bulk_items t n oid)"
  shows "item_ok item"
proof -
  define ks where "ks = take n [k \<leftarrow> oids t. oid < k]"
  have k: "\<forall>k \<in> set ks. oid_ok k" using assms(1) by (auto simp: table_ok_def ks_def dest!: in_set_takeD)
  have "oid_ok (last (oid # ks))" using k assms(2) by (cases ks rule: rev_cases) auto
  with k assms(3) show ?thesis
    unfolding bulk_items_def Let_def ks_def [symmetric]
    by (auto simp: item_ok_def get_item_ok [unfolded item_ok_def] split: if_splits)
qed

text \<open>What each of the three requests answers, on a table the codec can carry.\<close>

definition reply_items :: "table \<Rightarrow> byte \<Rightarrow> int \<Rightarrow> int \<Rightarrow> oid list \<Rightarrow> (oid \<times> byte \<times> bytes) list" where
  "reply_items t ptag n1 n2 os =
     (if ptag = T_GET then map (get_item t) os
      else if ptag = T_GETNEXT then map (next_item t) os
      else map (next_item t) (take (nat n1) os) @ concat (map (bulk_items t (nat n2)) (drop (nat n1) os)))"

lemma answer_items:
  assumes "table_ok t"
  shows "answer t ptag n1 n2 os = Inr (map mk_vb (reply_items t ptag n1 n2 os))"
proof -
  have n: "mapR (next_vb t) xs = Inr (map (mk_vb \<circ> next_item t) xs)" for xs
    using mapR_fun [of xs "next_vb t" "mk_vb \<circ> next_item t"] next_vb_item [OF assms] by simp
  have b: "mapR (bulk_loop t m) xs = Inr (map (map mk_vb \<circ> bulk_items t m) xs)" for m xs
    using mapR_fun [of xs "bulk_loop t m" "map mk_vb \<circ> bulk_items t m"] bulk_loop_items [OF assms] by simp
  have z: "nat (max 0 i) = nat i" for i by simp
  show ?thesis
    by (simp add: answer_def reply_items_def n b z get_vb_item [OF assms] Let_def map_concat comp_def)
qed

lemma reply_items_ok:
  assumes "table_ok t" and "\<forall>oid \<in> set os. oid_ok oid"
  shows "\<forall>item \<in> set (reply_items t ptag n1 n2 os). item_ok item"
  using assms(2) get_item_ok next_item_ok [OF assms(1)] bulk_items_ok [OF assms(1)]
  unfolding reply_items_def
  by (auto dest: in_set_takeD in_set_dropD simp del: split_paired_All) (meson in_set_dropD)+

text \<open>A request from the wire to the reply on the wire, and what the client decodes from it.\<close>

lemma snmp_exchange:
  assumes "table_ok t" and "\<forall>oid \<in> set os. oid_ok oid" and "ptag \<in> {T_GET, T_GETNEXT, T_GETBULK}"
    and "build_request ptag rid n1 n2 comm os = Inr req" and "fits req"
    and "community = None \<or> community = Some (latin1 comm)"
  shows "\<exists>reply. handle_message req t community = Inr (Some reply)
    \<and> (fits reply \<longrightarrow> resp_varbinds reply = Inr (reply_items t ptag n1 n2 os))"
proof -
  note ok = reply_items_ok [OF assms(1,2), of ptag n1 n2]
  obtain reply where r: "encode_response rid comm (map mk_vb (reply_items t ptag n1 n2 os)) = Inr reply"
    using encode_response_eq [OF ok] by blast
  have "handle_message req t community = Inr (Some reply)"
    using handle_built [OF assms(2,3,4,5), of t community] assms(6) r answer_items [OF assms(1)] by auto
  with resp_varbinds_eq [OF ok r] show ?thesis by blast
qed


section \<open>Routing by community\<close>

lemma peek_built:
  assumes "\<forall>oid \<in> set os. oid_ok oid"
    and "build_request ptag rid n1 n2 comm os = Inr req" and "fits req"
  shows "peek_community req = Some (latin1 comm)"
proof -
  let ?msg = "enc_int 1 @ enc_octetstr comm @ tlv ptag
        (enc_int rid @ enc_int n1 @ enc_int n2 @ tlv T_SEQ (request_vbl os))"
  have req: "req = tlv T_SEQ ?msg"
    using assms(2) by (simp only: build_request_eq [OF assms(1)] sum.inject)
  have f: "fits ?msg" using assms(3) fits_tlv req by blast
  note r = read_msg [OF f [unfolded enc_int_def enc_octetstr_def], folded enc_int_def enc_octetstr_def]
  have "peek_fields req = Inr (Some (latin1 comm))"
    unfolding peek_fields_def req read_tlv_1 [OF f] bindR_Inr prod.case r dec_enc_int
    by (simp only: bindR_Inr r prod.case dec_enc_int simp_thms if_True if_False)
  then show ?thesis by (simp add: peek_community_def)
qed

section \<open>Properties\<close>

text \<open>A one-row device and a request to it, for the witnesses.\<close>

definition wit_table :: table where
  "wit_table = \<lparr>oids = [[1, 3, 6]], tvalue = [[1, 3, 6] \<mapsto> enc_octetstr [65]]\<rparr>"

definition wit_req :: bytes where
  "wit_req = (case build_request T_GETNEXT 7 0 0 [112] [[1, 3]] of Inr r \<Rightarrow> r | Inl _ \<Rightarrow> [])"

lemma wit_oid_ok: "oid_ok [1, 3]" "oid_ok [1, 3, 6]"
  by (simp_all add: oid_ok_def arcs_ok_def single_byte_head_def oid_to_bytes_def subid_def fits_def)

lemma wit_table_wf: "table_wf wit_table"
  by (auto simp: table_wf_def wit_table_def)

lemma wit_table_ok: "table_ok wit_table"
  using wit_oid_ok wit_table_wf
  by (auto simp: table_ok_def wit_table_def table_get_def fits_def intro!: exI [of _ "[65]"])

lemma wit_request:
  "build_request T_GETNEXT 7 0 0 [112] [[1, 3]] = Inr wit_req" "length wit_req = 28"
  by code_simp+

lemma wit_fits: "fits wit_req"
  using wit_request(2) by (simp add: fits_def)

text \<open>Any INTEGER the encoder writes, anywhere in a message, is found there by the TLV reader
  and decodes to the number written.\<close>

theorem int_field_roundtrip:
  assumes "int_ok v"
  shows "\<exists>body. read_tlv (pre @ enc_int v @ rest) (length pre)
      = Inr (T_INT, body, length pre + length (enc_int v)) \<and> dec_int body = v"
  using int_field.read_field [OF assms refl, of pre rest] by simp

theorem int_field_roundtrip_witness:
  "\<exists>body. read_tlv ([0x30] @ enc_int (- 128) @ [5, 0]) (length [0x30::byte])
      = Inr (T_INT, body, length [0x30::byte] + length (enc_int (- 128))) \<and> dec_int body = - 128"
proof (rule int_field_roundtrip)
  have "length (enc_int_body (- 128)) = 2"
    by (simp add: enc_int_body_def Let_def bit_length.simps)
  then show "int_ok (- 128)" by (simp add: int_ok_def fits_def)
qed

text \<open>C4. An OBJECT IDENTIFIER with at least two non-negative arcs is always encoded, and the
  decoder returns it if and only if its second arc is below 40 and its first pair fits one byte
  (\<open>40 * a + b < 128\<close>): \<open>bytes_to_oid\<close> splits a single byte.\<close>

theorem oid_roundtrip_exactly:
  assumes "arcs_ok oid"
  shows "\<exists>bs. oid_to_bytes oid = Inr bs \<and> (bytes_to_oid bs = Inr oid \<longleftrightarrow> single_byte_head oid)"
  using enc_oid_total [OF assms] oid_roundtrip_iff [OF assms] by blast

theorem oid_roundtrip_exactly_witness:
  "\<exists>bs. oid_to_bytes [2, 999, 3] = Inr bs \<and> (bytes_to_oid bs = Inr [2, 999, 3] \<longleftrightarrow> single_byte_head [2, 999, 3])"
  by (rule oid_roundtrip_exactly) (simp add: arcs_ok_def)

lemma slice_len: "\<not> length buf < p + n \<Longrightarrow> length (take n (drop p buf)) = n"
  "\<not> length buf < Suc (Suc (p + n)) \<Longrightarrow> min (length buf - Suc (Suc p)) n = n"
  by auto


text \<open>A table built from the rows of a walk keeps its invariant when values are refreshed in
  place, with the same OID list, so it is walked in the same order as before.\<close>

theorem patch_keeps_walk:
  assumes "table_init rows = Inr t" and "table_patch t dyn = Inr t'"
    and "\<forall>r \<in> set dyn. \<forall>oid. parse_oid (fst r) = Inr oid \<longrightarrow> oid \<in> set (oids t)"
  shows "table_wf t' \<and> oids t' = oids t \<and> walk_from (table_next t') n a = walk_from (table_next t) n a"
proof -
  have wf: "table_wf t" by (rule table_init_wf [OF assms(1)])
  have "table_wf t' \<and> oids t' = oids t" by (rule table_patch_wf [OF wf assms(2,3)])
  then show ?thesis using wf table_walk by metis
qed

theorem patch_keeps_walk_witness:
  "table_wf \<lparr>oids = [[1, 3]], tvalue = [[1, 3] \<mapsto> enc_octetstr [66]]\<rparr> \<and> [[1, 3]] = [[1, 3::int]] \<and>
   walk_from (table_next \<lparr>oids = [[1, 3]], tvalue = [[1, 3] \<mapsto> enc_octetstr [66]]\<rparr>) 2 [1]
     = walk_from (table_next \<lparr>oids = [[1, 3]], tvalue = [[1, 3] \<mapsto> enc_octetstr [65]]\<rparr>) 2 [1]"
proof -
  have p: "parse_oid ''.1.3'' = Inr [1, 3]" by code_simp
  have v: "encode_value ''A'' = [65]" "encode_value ''B'' = [66]" by code_simp+
  have "table_init [(''.1.3'', ''A'')] = Inr \<lparr>oids = [[1, 3]], tvalue = [[1, 3] \<mapsto> enc_octetstr [65]]\<rparr>"
    by (simp add: table_init_def p v)
  from patch_keeps_walk [OF this, of "[(''.1.3'', ''B'')]" _ 2 "[1]"] show ?thesis
    by (simp add: table_patch_def p v)
qed

text \<open>C3. Repeated GETNEXT over a device's table lists every OID after the start exactly once, in
  lexicographic order, and stops after the last: from the empty OID it is the whole table.\<close>

theorem walk_lists_table:
  assumes "table_init rows = Inr t" and "length (oids t) \<le> n"
  shows "walk_from (table_next t) n a = [k \<leftarrow> oids t. a < k]
    \<and> sorted (oids t) \<and> distinct (oids t) \<and> set (oids t) = dom (tvalue t)"
proof -
  have wf: "table_wf t" by (rule table_init_wf [OF assms(1)])
  then have inv: "sorted (oids t) \<and> distinct (oids t) \<and> set (oids t) = dom (tvalue t)"
    by (simp add: table_wf_def)
  then have "walk_from (table_next t) n a = take n [k \<leftarrow> oids t. a < k]"
    unfolding table_walk [OF wf] by (metis sorted_list_of_set_filter)
  moreover have "length [k \<leftarrow> oids t. a < k] \<le> n"
    using assms(2) length_filter_le [of "(<) a" "oids t"] by linarith
  ultimately show ?thesis using inv by simp
qed

theorem walk_lists_table_witness:
  "walk_from (table_next \<lparr>oids = [[1, 3]], tvalue = [[1, 3] \<mapsto> enc_octetstr [65]]\<rparr>) 2 [] = [[1, 3]]"
proof -
  have p: "parse_oid ''.1.3'' = Inr [1, 3]" by code_simp
  have v: "encode_value ''A'' = [65]" by code_simp
  have "table_init [(''.1.3'', ''A'')] = Inr \<lparr>oids = [[1, 3]], tvalue = [[1, 3] \<mapsto> enc_octetstr [65]]\<rparr>"
    by (simp add: table_init_def p v)
  from walk_lists_table [OF this, of 2 "[]"] show ?thesis by simp
qed

text \<open>C1. End to end: a GET, GETNEXT or GETBULK request encoded by a client and handled against a
  device's table is always answered, and the client decodes from the reply exactly the specified
  items: the stored data or \<open>noSuchInstance\<close> for GET, the least greater OID or
  \<open>endOfMibView\<close> for GETNEXT, and for GETBULK the non-repeaters' successors, then for each repeater
  its next OIDs in order with a closing \<open>endOfMibView\<close> when the table runs out.\<close>

theorem snmp_request_answered:
  assumes "table_ok t" and "\<forall>oid \<in> set os. oid_ok oid" and "ptag \<in> {T_GET, T_GETNEXT, T_GETBULK}"
    and "build_request ptag rid n1 n2 comm os = Inr req" and "fits req"
  shows "\<exists>reply. handle_message req t (Some (latin1 comm)) = Inr (Some reply)
    \<and> (fits reply \<longrightarrow> resp_varbinds reply = Inr (reply_items t ptag n1 n2 os))"
  using snmp_exchange [OF assms] by blast

theorem snmp_request_answered_witness:
  "\<exists>reply. handle_message wit_req wit_table (Some (latin1 [112])) = Inr (Some reply)
    \<and> (fits reply \<longrightarrow> resp_varbinds reply = Inr (reply_items wit_table T_GETNEXT 0 0 [[1, 3]]))"
  by (rule snmp_request_answered [OF wit_table_ok _ _ wit_request(1) wit_fits]) (simp_all add: wit_oid_ok)

text \<open>C2. One shared port serves every device: a request with a non-empty community is answered
  from the table the router has for exactly that community, and one whose community the router
  does not know is dropped without a reply.\<close>

theorem serve_routes_by_community:
  assumes "\<forall>oid \<in> set os. oid_ok oid" and "ptag \<in> {T_GET, T_GETNEXT, T_GETBULK}"
    and "build_request ptag rid n1 n2 comm os = Inr req" and "fits req" and "comm \<noteq> []"
    and "table_for s (latin1 comm) = (Inr found, s')" and "found = Some t \<longrightarrow> table_ok t"
    and "found = None \<or> found = Some t"
  shows "case found of
      None \<Rightarrow> serve_datagram table_for s req = (None, s')
    | Some t \<Rightarrow> \<exists>reply. serve_datagram table_for s req = (Some reply, s')
        \<and> (fits reply \<longrightarrow> resp_varbinds reply = Inr (reply_items t ptag n1 n2 os))"
proof (cases found)
  case None
  then show ?thesis
    using assms(5,6) peek_built [OF assms(1,3,4)] by (simp add: serve_datagram_def latin1_def)
next
  case (Some t')
  then have "table_ok t" "t' = t" using assms(7,8) by auto
  with snmp_exchange [OF this(1) assms(1,2,3,4), of None] Some show ?thesis
    using assms(5,6) peek_built [OF assms(1,3,4)] by (auto simp: serve_datagram_def latin1_def)
qed

theorem serve_routes_by_community_witness:
  "\<exists>reply. serve_datagram (\<lambda>s c. (Inr (if c = ''p'' then Some wit_table else None), s)) () wit_req = (Some reply, ())
        \<and> (fits reply \<longrightarrow> resp_varbinds reply = Inr (reply_items wit_table T_GETNEXT 0 0 [[1, 3]]))"
proof -
  have l: "latin1 [112] = ''p''" by code_simp
  show ?thesis
    using serve_routes_by_community [OF _ _ wit_request(1) wit_fits, where found = "Some wit_table" and t = wit_table
        and s = "()" and s' = "()" and table_for = "\<lambda>s c. (Inr (if c = ''p'' then Some wit_table else None), s)"]
    by (simp add: wit_oid_ok wit_table_ok l)
qed

end
