(* ===== verification/Netsim_Devices.thy ===== *)
theory Netsim_Devices
  imports Physics Snmp_Pdu
begin

text \<open>
  The synthetic network devices of \<open>snmp/netsim.py\<close>: interfaces with their twelve counters, the
  system, environment and platform rows, and the four device classes with their incident stories
  (\<open>SwCore\<close>, \<open>SwAccess\<close>, \<open>RtWan\<close>, \<open>Ups\<close>), up to the rendered walk.  Calls that read the clock, the
  noise or a registry are in the state monad over \<open>sim\<close>; \<open>rows\<close> also updates the device, whose
  interfaces it re-tunes to the incident state.  The process configuration (\<open>DOMAIN\<close>, \<open>START\<close>, the
  local date of a time stamp) is the record \<open>cfg\<close>.

  The lemmas show that the OIDs of a device's rows never depend on state, time or noise, which is
  what the responder's cached tables rely on, and that octet counters stay below the line rate.
\<close>

type_synonym row = "string \<times> string"

section \<open>Walk rendering helpers\<close>

definition hex_upper :: "nat \<Rightarrow> char" where
  "hex_upper n = (if n < 10 then char_of (48 + n) else char_of (55 + n))"

text \<open>\<open>f"{b:02X} "\<close>\<close>

definition byte_hex :: "byte \<Rightarrow> string" where
  "byte_hex b = [hex_upper (unat b div 16), hex_upper (unat b mod 16), CHR '' '']"

definition hex_bytes :: "bytes \<Rightarrow> string" where
  "hex_bytes raw = [CHR 34] @ concat (map byte_hex raw) @ [CHR 34]"

definition mac :: "nat \<Rightarrow> nat \<Rightarrow> string" where
  "mac dev_seed index = hex_bytes [0x00, 0x1B, 0x2C, word_of_nat dev_seed,
     word_of_nat (index div 256), word_of_nat index]"

definition oid_key :: "string \<Rightarrow> oid res" where
  "oid_key oid = mapR py_int (split_on (CHR ''.'') (strip_by (\<lambda>c. c = CHR ''.'') oid))"

definition walk_line :: "row \<Rightarrow> string" where
  "walk_line r = fst r @ '' '' @ snd r @ [CHR 10]"

text \<open>The stable sort by numeric OID, then one line per row.\<close>

definition render_walk :: "row list \<Rightarrow> string res" where
  "render_walk rows =
     bindR (mapR (\<lambda>r. bindR (oid_key (fst r)) (\<lambda>k. Inr (k, r))) rows) (\<lambda>keyed.
       Inr (concat (map (walk_line \<circ> snd) (sort_key fst keyed))))"

definition U32 :: int where "U32 = 2 ^ 32"

lemma hex_upper_code: "n < 16 \<Longrightarrow> (of_char (hex_upper n) :: nat) = (if n < 10 then 48 + n else 55 + n)"
  by (simp add: hex_upper_def)

lemma hex_upper_val: "n < 16 \<Longrightarrow> hex_char (hex_upper n) \<and> hex_val (hex_upper n) = n"
  by (auto simp: hex_char_def hex_val_def hex_upper_code Let_def)

lemma byte_div16: "unat (b :: byte) div 16 < 16"
  using unat_byte_less [of b] by linarith

lemma hex_groups_bytes: "hex_groups (concat (map byte_hex raw)) \<and> hex_pairs (concat (map byte_hex raw)) = raw"
proof (induction raw)
  case (Cons b raw)
  have "word_of_nat (16 * (unat b div 16) + unat b mod 16) = b" by simp
  with Cons show ?case using hex_upper_val byte_div16 [of b] by (simp add: byte_hex_def)
qed simp

section \<open>Interfaces\<close>

record netcfg =
  cfg_domain :: string
  cfg_start :: real
  cfg_date :: "real \<Rightarrow> string"

record iface =
  if_key :: string
  if_index :: nat
  if_name :: string
  if_descr :: string
  if_alias :: string
  if_mbit :: int
  if_in_bps :: real
  if_out_bps :: real
  if_oper :: nat
  if_seed :: nat
  if_rate_factor :: real
  if_err_rate :: real
  if_disc_rate :: real

definition iface_fields ::
    "string \<Rightarrow> nat \<Rightarrow> string \<Rightarrow> string \<Rightarrow> string \<Rightarrow> int \<Rightarrow> real \<Rightarrow> real \<Rightarrow> nat \<Rightarrow> iface" where
  "iface_fields dev index nm descr alias mbit in_bps out_bps seed =
     \<lparr>if_key = dev @ ''.if'' @ nat_str index, if_index = index, if_name = nm, if_descr = descr,
      if_alias = alias, if_mbit = mbit, if_in_bps = in_bps, if_out_bps = out_bps, if_oper = 1,
      if_seed = seed, if_rate_factor = 1, if_err_rate = 0, if_disc_rate = 0\<rparr>"

text \<open>\<open>%\<close> on floats with a positive divisor.\<close>

definition fmodr :: "real \<Rightarrow> real \<Rightarrow> real" where
  "fmodr x y = x - y * of_int \<lfloor>x / y\<rfloor>"

definition iface_counters :: "iface \<Rightarrow> (string \<times> real \<times> real \<times> real) list" where
  "iface_counters it =
     (let ph = fmodr (real (if_index it) * 0.73) 6.28; aged = 87 * 86400;
          ib = if_in_bps it; ob = if_out_bps it
      in [(''in_oct'', ph, 0.30, ib * aged), (''out_oct'', ph + 0.5, 0.30, ob * aged),
          (''in_ucast'', ph + 1.0, 0.30, ib / 700 * aged), (''out_ucast'', ph + 1.5, 0.30, ob / 700 * aged),
          (''in_mcast'', ph + 2.0, 0.30, 2 * aged), (''in_bcast'', ph + 2.5, 0.30, 0.5 * aged),
          (''out_mcast'', ph + 3.0, 0.30, 1 * aged), (''out_bcast'', ph + 3.5, 0.30, 0.2 * aged),
          (''in_disc'', ph + 4.0, 0.30, 0), (''in_err'', ph + 4.2, 0.15, 0),
          (''out_disc'', ph + 4.4, 0.30, 0), (''out_err'', ph + 4.6, 0.30, 0)])"

definition counter_name :: "iface \<Rightarrow> string \<Rightarrow> string" where
  "counter_name it k = if_key it @ ''.'' @ k"

fun create_counters :: "(string \<times> real \<times> real \<times> real) list \<Rightarrow> (sim, unit) state" where
  "create_counters [] = State_Monad.return ()"
| "create_counters ((name, phase, amp, start) # cs) =
     do { new_counter name phase amp start; create_counters cs }"

definition new_iface ::
    "string \<Rightarrow> nat \<Rightarrow> string \<Rightarrow> string \<Rightarrow> string \<Rightarrow> int \<Rightarrow> real \<Rightarrow> real \<Rightarrow> nat \<Rightarrow> (sim, iface) state" where
  "new_iface dev index nm descr alias mbit in_bps out_bps seed =
     (let it = iface_fields dev index nm descr alias mbit in_bps out_bps seed
      in do { create_counters (map (\<lambda>(k, r). (counter_name it k, r)) (iface_counters it));
              State_Monad.return it })"

text \<open>The samples of \<open>Iface.rows\<close>, in the order the code takes them: key, rate and cap.\<close>

definition line_cap :: "iface \<Rightarrow> real" where
  "line_cap it = 0.85 * of_int (if_mbit it) * 1000000 / 8"

definition iface_samples :: "iface \<Rightarrow> (string \<times> real \<times> real option) list" where
  "iface_samples it =
     (let up = if_oper it = 1; f = (if up then if_rate_factor it else 0);
          in_bps = if_in_bps it * f; out_bps = if_out_bps it * f; cap = line_cap it
      in [(''in_oct'', in_bps, Some cap), (''out_oct'', out_bps, Some cap),
          (''in_ucast'', in_bps / 700, None), (''out_ucast'', out_bps / 700, None),
          (''in_mcast'', 2 * f, None), (''in_bcast'', 0.5 * f, None),
          (''out_mcast'', 1 * f, None), (''out_bcast'', 0.2 * f, None),
          (''in_disc'', 0, None), (''in_err'', if up then if_err_rate it else 0, None),
          (''out_disc'', if up then if_disc_rate it else 0, None), (''out_err'', 0, None)])"

fun sample_all :: "iface \<Rightarrow> (string \<times> real \<times> real option) list \<Rightarrow> (sim, (string \<times> int) list) state" where
  "sample_all it [] = State_Monad.return []"
| "sample_all it ((k, rate, cap) # qs) =
     do { v \<leftarrow> sample (counter_name it k) rate cap;
          vs \<leftarrow> sample_all it qs;
          State_Monad.return ((k, v) # vs) }"

definition val_of :: "(string \<times> int) list \<Rightarrow> string \<Rightarrow> int" where
  "val_of vals k = (case map_of vals k of Some v \<Rightarrow> v | None \<Rightarrow> 0)"

definition iface_table :: "iface \<Rightarrow> (string \<times> int) list \<Rightarrow> row list" where
  "iface_table it vals =
     (let i = nat_str (if_index it); v = (\<lambda>k. int_str (val_of vals k));
          v32 = (\<lambda>k. int_str (val_of vals k mod U32));
          if_speed = min (if_mbit it * 1000000) (U32 - 1)
      in [(''.1.3.6.1.2.1.2.2.1.1.'' @ i, i),
          (''.1.3.6.1.2.1.2.2.1.2.'' @ i, if_descr it),
          (''.1.3.6.1.2.1.2.2.1.3.'' @ i, ''6''),
          (''.1.3.6.1.2.1.2.2.1.5.'' @ i, int_str if_speed),
          (''.1.3.6.1.2.1.2.2.1.6.'' @ i, mac (if_seed it) (if_index it)),
          (''.1.3.6.1.2.1.2.2.1.8.'' @ i, nat_str (if_oper it)),
          (''.1.3.6.1.2.1.2.2.1.13.'' @ i, v32 ''in_disc''),
          (''.1.3.6.1.2.1.2.2.1.14.'' @ i, v32 ''in_err''),
          (''.1.3.6.1.2.1.2.2.1.19.'' @ i, v32 ''out_disc''),
          (''.1.3.6.1.2.1.2.2.1.20.'' @ i, v32 ''out_err''),
          (''.1.3.6.1.2.1.2.2.1.21.'' @ i, ''0''),
          (''.1.3.6.1.2.1.31.1.1.1.1.'' @ i, if_name it),
          (''.1.3.6.1.2.1.31.1.1.1.6.'' @ i, v ''in_oct''),
          (''.1.3.6.1.2.1.31.1.1.1.7.'' @ i, v ''in_ucast''),
          (''.1.3.6.1.2.1.31.1.1.1.8.'' @ i, v ''in_mcast''),
          (''.1.3.6.1.2.1.31.1.1.1.9.'' @ i, v ''in_bcast''),
          (''.1.3.6.1.2.1.31.1.1.1.10.'' @ i, v ''out_oct''),
          (''.1.3.6.1.2.1.31.1.1.1.11.'' @ i, v ''out_ucast''),
          (''.1.3.6.1.2.1.31.1.1.1.12.'' @ i, v ''out_mcast''),
          (''.1.3.6.1.2.1.31.1.1.1.13.'' @ i, v ''out_bcast''),
          (''.1.3.6.1.2.1.31.1.1.1.15.'' @ i, int_str (if_mbit it)),
          (''.1.3.6.1.2.1.31.1.1.1.18.'' @ i, if_alias it)])"

definition iface_rows :: "iface \<Rightarrow> (sim, row list) state" where
  "iface_rows it = do { vals \<leftarrow> sample_all it (iface_samples it); State_Monad.return (iface_table it vals) }"

fun ifaces_rows :: "iface list \<Rightarrow> (sim, row list) state" where
  "ifaces_rows [] = State_Monad.return []"
| "ifaces_rows (it # its) =
     do { r \<leftarrow> iface_rows it; rs \<leftarrow> ifaces_rows its; State_Monad.return (r @ rs) }"


section \<open>Devices\<close>

record device =
  short :: string
  uptime_offset :: real
  sys_descr :: string
  sys_objectid :: string
  location :: string
  incident :: bool
  role :: string
  parent :: "string option"
  ifaces :: "iface list"
  dev_state :: dstate

definition fqdn :: "netcfg \<Rightarrow> 'a device_scheme \<Rightarrow> string" where
  "fqdn cfg d = short d @ ''.'' @ cfg_domain cfg"

definition system_rows :: "netcfg \<Rightarrow> device \<Rightarrow> real \<Rightarrow> row list" where
  "system_rows cfg d now =
     (let ticks = py_trunc ((now - cfg_start cfg + uptime_offset d) * 100) mod U32
      in [(''.1.3.6.1.2.1.1.1.0'', sys_descr d),
          (''.1.3.6.1.2.1.1.2.0'', sys_objectid d),
          (''.1.3.6.1.2.1.1.3.0'', int_str ticks),
          (''.1.3.6.1.2.1.1.4.0'', ''netops@meridian-retail.com''),
          (''.1.3.6.1.2.1.1.5.0'', fqdn cfg d),
          (''.1.3.6.1.2.1.1.6.0'', location d)])"

definition envmon_temp_rows :: "string \<Rightarrow> real \<Rightarrow> int \<Rightarrow> row list" where
  "envmon_temp_rows descr celsius threshold =
     [(''.1.3.6.1.4.1.9.9.13.1.3.1.2.1'', descr),
      (''.1.3.6.1.4.1.9.9.13.1.3.1.3.1'', int_str (py_round celsius)),
      (''.1.3.6.1.4.1.9.9.13.1.3.1.4.1'', int_str threshold),
      (''.1.3.6.1.4.1.9.9.13.1.3.1.6.1'', ''1'')]"

definition envmon_fan_psu_rows :: "string list \<Rightarrow> string list \<Rightarrow> row list" where
  "envmon_fan_psu_rows fans psus =
     concat (map (\<lambda>(n, nm). [(''.1.3.6.1.4.1.9.9.13.1.4.1.2.'' @ nat_str n, nm),
                             (''.1.3.6.1.4.1.9.9.13.1.4.1.3.'' @ nat_str n, ''1'')])
        (enumerate 1 fans))
   @ concat (map (\<lambda>(n, nm). [(''.1.3.6.1.4.1.9.9.13.1.5.1.2.'' @ nat_str n, nm),
                             (''.1.3.6.1.4.1.9.9.13.1.5.1.3.'' @ nat_str n, ''1''),
                             (''.1.3.6.1.4.1.9.9.13.1.5.1.4.'' @ nat_str n, ''2'')])
        (enumerate 1 psus))"

definition catalyst_platform_rows :: "real \<Rightarrow> real \<Rightarrow> int \<Rightarrow> int \<Rightarrow> row list" where
  "catalyst_platform_rows cpu_pct temp_c mem_used mem_free =
     [(''.1.3.6.1.2.1.47.1.1.1.1.4.1'', ''0''),
      (''.1.3.6.1.2.1.47.1.1.1.1.4.1001'', ''1''),
      (''.1.3.6.1.2.1.47.1.1.1.1.4.1010'', ''1''),
      (''.1.3.6.1.2.1.47.1.1.1.1.5.1'', ''3''),
      (''.1.3.6.1.2.1.47.1.1.1.1.5.1001'', ''12''),
      (''.1.3.6.1.2.1.47.1.1.1.1.5.1010'', ''8''),
      (''.1.3.6.1.2.1.47.1.1.1.1.7.1'', ''Switch 1 Chassis''),
      (''.1.3.6.1.2.1.47.1.1.1.1.7.1001'', ''Switch 1 CPU''),
      (''.1.3.6.1.2.1.47.1.1.1.1.7.1010'', ''Switch 1 - Temp Sensor 0''),
      (''.1.3.6.1.4.1.9.9.109.1.1.1.1.2.7'', ''1001''),
      (''.1.3.6.1.4.1.9.9.109.1.1.1.1.8.7'', int_str (py_round cpu_pct)),
      (''.1.3.6.1.4.1.9.9.221.1.1.1.1.3.2.1'', ''Processor''),
      (''.1.3.6.1.4.1.9.9.221.1.1.1.1.18.2.1'', int_str mem_used),
      (''.1.3.6.1.4.1.9.9.221.1.1.1.1.20.2.1'', int_str mem_free),
      (''.1.3.6.1.4.1.9.9.91.1.1.1.1.1.1010'', ''8''),
      (''.1.3.6.1.4.1.9.9.91.1.1.1.1.2.1010'', ''9''),
      (''.1.3.6.1.4.1.9.9.91.1.1.1.1.3.1010'', ''0''),
      (''.1.3.6.1.4.1.9.9.91.1.1.1.1.4.1010'', int_str (py_round temp_c)),
      (''.1.3.6.1.4.1.9.9.91.1.1.1.1.5.1010'', ''1''),
      (''.1.3.6.1.4.1.9.9.91.1.2.1.1.2.1010.1'', ''10''),
      (''.1.3.6.1.4.1.9.9.91.1.2.1.1.3.1010.1'', ''4''),
      (''.1.3.6.1.4.1.9.9.91.1.2.1.1.4.1010.1'', ''65''),
      (''.1.3.6.1.4.1.9.9.91.1.2.1.1.2.1010.2'', ''20''),
      (''.1.3.6.1.4.1.9.9.91.1.2.1.1.3.1010.2'', ''4''),
      (''.1.3.6.1.4.1.9.9.91.1.2.1.1.4.1010.2'', ''75'')]
     @ envmon_fan_psu_rows [''Switch 1 - FAN 1'', ''Switch 1 - FAN 2'']
         [''Switch 1 - Power Supply A, Normal'', ''Switch 1 - Power Supply B, Normal'']"

section \<open>Device classes\<close>

definition sw_core_peers :: "(string \<times> real \<times> real) list" where
  "sw_core_peers = [
     (''link sw-dc-dist-01 (DC distribution)'', 210000000, 240000000),
     (''link sw-dc-dist-02 (DC distribution)'', 205000000, 232000000),
     (''link sw-hq-dist-01 (HQ distribution)'', 120000000, 90000000),
     (''link rt-wan-01 Gi0/0 (WAN head-end)'', 21000000, 24000000),
     (''link rt-inet-01 (internet edge)'', 34000000, 28000000),
     (''link fw-01 (edge firewall HA, active)'', 30000000, 26000000),
     (''link fw-02 (edge firewall HA, passive)'', 600000, 500000),
     (''link fw-dmz-01 (DMZ)'', 6000000, 5000000),
     (''link sw-access-01 Te1/1/1'', 17000000, 11000000),
     (''link sw-access-01 Te1/1/2'', 16000000, 11000000),
     (''(spare)'', 500000, 400000),
     (''(spare)'', 400000, 300000)]"

fun new_ifaces :: "(string \<times> nat \<times> string \<times> string \<times> string \<times> int \<times> real \<times> real \<times> nat) list \<Rightarrow> (sim, iface list) state" where
  "new_ifaces [] = State_Monad.return []"
| "new_ifaces ((dev, n, nm, descr, alias, mbit, ib, ob, seed) # specs) =
     do { it \<leftarrow> new_iface dev n nm descr alias mbit ib ob seed;
          its \<leftarrow> new_ifaces specs;
          State_Monad.return (it # its) }"

definition sw_core_init :: "netcfg \<Rightarrow> (sim, device) state" where
  "sw_core_init cfg =
     do { its \<leftarrow> new_ifaces (map (\<lambda>(n, alias, base_in, base_out).
            (''sw-core-01'', n, ''Te1/0/'' @ nat_str n, ''TenGigabitEthernet1/0/'' @ nat_str n, alias,
             10000, base_in, base_out, 1)) (enumerate 1 sw_core_peers));
          State_Monad.return
            \<lparr>short = ''sw-core-01'', uptime_offset = 214 * 86400,
             sys_descr = ''Cisco IOS Software [Amsterdam], Catalyst L3 Switch Software (CAT9K_IOSXE), Version 17.3.4, RELEASE SOFTWARE (fc2), Copyright (c) 1986-2021 by Cisco Systems, Inc.'',
             sys_objectid = ''.1.3.6.1.4.1.9.1.2494'', location = ''DC comms room, network row'',
             incident = False, role = ''net_switches'', parent = None, ifaces = its,
             dev_state = ds_init (cfg_start cfg)\<rparr> }"

definition sw_core_rows :: "netcfg \<Rightarrow> device \<Rightarrow> real \<Rightarrow> (sim, row list) state" where
  "sw_core_rows cfg d now =
     do { ifs \<leftarrow> ifaces_rows (ifaces d);
          cpu \<leftarrow> gauge ''core.cpu'' 14 (Some 4) None 0 900;
          temp \<leftarrow> gauge ''core.temp'' 39 (Some 1.5) None 0 1800;
          State_Monad.return (system_rows cfg d now
            @ [(''.1.3.6.1.2.1.2.1.0'', nat_str (length (ifaces d)))] @ ifs
            @ catalyst_platform_rows cpu temp 1912602624 6275072000) }"

text \<open>
  \<open>SwAccess\<close>: \<open>draw k\<close> is the k-th value of \<open>random.Random(42 + num).random()\<close>; \<open>uniform(a, b)\<close> is
  \<open>a + (b - a) * random()\<close>.
\<close>

definition uniform :: "real \<Rightarrow> real \<Rightarrow> real \<Rightarrow> real" where
  "uniform a b u = a + (b - a) * u"

definition access_load :: "(nat \<Rightarrow> real) \<Rightarrow> nat \<Rightarrow> real \<times> real" where
  "access_load draw k =
     (let base_in = (if draw (3 * k) < 0.70 then uniform 100000 3000000 (draw (3 * k + 1)) / 8
                     else uniform 5000000 25000000 (draw (3 * k + 1)) / 8);
          base_out = base_in * uniform 0.3 1.0 (draw (3 * k + 2))
      in (base_in, base_out))"

definition sw_access_init :: "netcfg \<Rightarrow> (nat \<Rightarrow> real) \<Rightarrow> nat \<Rightarrow> (sim, device) state" where
  "sw_access_init cfg draw num =
     (let sh = ''sw-access-'' @ pad2 num;
          mac_seed = (if num = 1 then 2 else 16 + num);
          loads = map (access_load draw) [0..<48];
          acc_in = sum_list (map fst loads);
          acc_out = sum_list (map snd loads)
      in do { its \<leftarrow> new_ifaces (map (\<lambda>(n, base_in, base_out).
                (sh, n, ''Gi1/0/'' @ nat_str n, ''GigabitEthernet1/0/'' @ nat_str n, [], 1000,
                 base_in, base_out, mac_seed)) (enumerate 1 loads));
              up1 \<leftarrow> new_iface sh 49 ''Te1/1/1'' ''TenGigabitEthernet1/1/1'' ''uplink sw-core-01'' 10000
                (acc_out * 0.51) (acc_in * 0.50) mac_seed;
              up2 \<leftarrow> new_iface sh 50 ''Te1/1/2'' ''TenGigabitEthernet1/1/2'' ''uplink sw-core-01'' 10000
                (acc_out * 0.49) (acc_in * 0.50) mac_seed;
              State_Monad.return
                \<lparr>short = sh, uptime_offset = (87 - 3 * real num) * 86400,
                 sys_descr = ''Cisco IOS Software [Amsterdam], Catalyst L3 Switch Software (CAT9K_LITE_IOSXE), Version 17.3.4, RELEASE SOFTWARE (fc2), Copyright (c) 1986-2021 by Cisco Systems, Inc.'',
                 sys_objectid = ''.1.3.6.1.4.1.9.1.2695'',
                 location = ''DC row '' @ nat_str num @ '', server access'',
                 incident = (num = 1), role = ''net_switches'', parent = Some ''sw-core-01'',
                 ifaces = its @ [up1, up2], dev_state = ds_init (cfg_start cfg)\<rparr> })"

definition read_degraded_minutes :: "device \<Rightarrow> (sim, real) state" where
  "read_degraded_minutes d = do { now \<leftarrow> get_time; State_Monad.return (degraded_minutes now (dev_state d)) }"

definition read_ramp :: "device \<Rightarrow> real \<Rightarrow> (sim, real) state" where
  "read_ramp d minutes = do { now \<leftarrow> get_time; State_Monad.return (ramp minutes now (dev_state d)) }"

text \<open>The two uplinks are the last two interfaces.\<close>

definition tune_access :: "device \<Rightarrow> (sim, device) state" where
  "tune_access d =
     (let up1 = ifaces d ! 48; up2 = ifaces d ! 49; pps_in = if_in_bps up1 / 700;
          put = (\<lambda>a b. d\<lparr>ifaces := (ifaces d)[48 := a, 49 := b]\<rparr>)
      in if st (dev_state d) = HEALTHY
         then State_Monad.return (put (up1\<lparr>if_oper := 1, if_err_rate := 0, if_rate_factor := 1\<rparr>)
                                      (up2\<lparr>if_rate_factor := 1\<rparr>))
         else if st (dev_state d) = DEGRADED
         then do { dm \<leftarrow> read_degraded_minutes d;
                   State_Monad.return (put
                     (up1\<lparr>if_oper := 1, if_err_rate := 0.0004 * pps_in * min 1 (dm / 2), if_rate_factor := 1\<rparr>)
                     (up2\<lparr>if_rate_factor := 1\<rparr>)) }
         else do { r \<leftarrow> read_ramp d 2;
                   State_Monad.return (put (up1\<lparr>if_oper := 2, if_err_rate := 0\<rparr>)
                                           (up2\<lparr>if_rate_factor := 1 + 0.95 * r\<rparr>)) })"

definition ord_sum :: "string \<Rightarrow> nat" where
  "ord_sum s = sum_list (map of_char s)"

definition sw_access_rows :: "netcfg \<Rightarrow> device \<Rightarrow> real \<Rightarrow> (sim, row list \<times> device) state" where
  "sw_access_rows cfg d0 now =
     do { d \<leftarrow> tune_access d0;
          ifs \<leftarrow> ifaces_rows (ifaces d);
          cpu \<leftarrow> gauge (short d @ ''.cpu'') 9 (Some 3) None (real (ord_sum (short d) mod 6)) 1100;
          temp \<leftarrow> gauge (short d @ ''.temp'') 43 (Some 1.5) None (real (ord_sum (short d) mod 5)) 2000;
          State_Monad.return (system_rows cfg d now
            @ [(''.1.3.6.1.2.1.2.1.0'', nat_str (length (ifaces d)))] @ ifs
            @ catalyst_platform_rows cpu temp 1204570112 2890137600, d) }"

definition rt_wan_init :: "netcfg \<Rightarrow> (sim, device) state" where
  "rt_wan_init cfg =
     do { its \<leftarrow> new_ifaces [
            (''rt-wan-01'', 1, ''Gi0/0'', ''GigabitEthernet0/0'', ''LAN to sw-core-01 Te1/0/4'', 1000,
             24000000, 21000000, 3),
            (''rt-wan-01'', 2, ''Gi0/1'', ''GigabitEthernet0/1'',
             ''WAN leased lines to warehouses (rt-wh1/rt-wh2)'', 1000, 22500000, 19000000, 3)];
          State_Monad.return
            \<lparr>short = ''rt-wan-01'', uptime_offset = 391 * 86400,
             sys_descr = ''Cisco IOS Software, C2900 Software (C2900-UNIVERSALK9-M), Version 15.7(3)M5, RELEASE SOFTWARE (fc1), Copyright (c) 1986-2019 by Cisco Systems, Inc.'',
             sys_objectid = ''.1.3.6.1.4.1.9.1.1639'', location = ''DC rack A2'', incident = True,
             role = ''net_routers'', parent = Some ''sw-core-01'', ifaces = its,
             dev_state = ds_init (cfg_start cfg)\<rparr> }"

definition factor_cpu :: "device \<Rightarrow> (sim, real \<times> real) state" where
  "factor_cpu d =
     (if st (dev_state d) = HEALTHY
      then do { c \<leftarrow> gauge ''wan.cpu'' 22 (Some 5) None 0 1000; State_Monad.return (1, c) }
      else if st (dev_state d) = DEGRADED
      then do { dm \<leftarrow> read_degraded_minutes d;
                let m = min 1 (dm / 3);
                c \<leftarrow> gauge ''wan.cpu'' (lerp 25 68 m) (Some 4) None 0 800;
                State_Monad.return (lerp 1 3.3 m, c) }
      else do { r \<leftarrow> read_ramp d 3;
                c \<leftarrow> gauge ''wan.cpu'' (lerp 68 93 r) (Some 2) None 0 700;
                State_Monad.return (lerp 3.3 5.2 r, c) })"

definition tune_wan :: "device \<Rightarrow> real \<Rightarrow> device" where
  "tune_wan d factor =
     (let lan = ifaces d ! 0; wan = ifaces d ! 1
      in d\<lparr>ifaces := (ifaces d)
          [0 := lan\<lparr>if_rate_factor := lerp 1 1.15 (min 1 (factor / 5))\<rparr>,
           1 := wan\<lparr>if_rate_factor := factor,
                    if_disc_rate := (if factor < 4.5 then 0 else (factor - 4.5) * 120)\<rparr>]\<rparr>)"

definition rt_wan_rows :: "netcfg \<Rightarrow> device \<Rightarrow> real \<Rightarrow> (sim, row list \<times> device) state" where
  "rt_wan_rows cfg d0 now =
     do { (factor, cpu) \<leftarrow> factor_cpu d0;
          let d = tune_wan d0 factor;
          ifs \<leftarrow> ifaces_rows (ifaces d);
          temp \<leftarrow> gauge ''wan.temp'' (46 + (cpu - 22) * 0.12) (Some 1.2) None 0 1600;
          State_Monad.return (system_rows cfg d now
            @ [(''.1.3.6.1.2.1.2.1.0'', nat_str (length (ifaces d)))] @ ifs
            @ [(''.1.3.6.1.4.1.9.9.109.1.1.1.1.8.1'', int_str (py_round cpu)),
               (''.1.3.6.1.4.1.9.9.48.1.1.1.2.1'', ''Processor''),
               (''.1.3.6.1.4.1.9.9.48.1.1.1.5.1'', ''231972864''),
               (''.1.3.6.1.4.1.9.9.48.1.1.1.6.1'', ''289406976''),
               (''.1.3.6.1.4.1.9.9.48.1.1.1.2.2'', ''I/O''),
               (''.1.3.6.1.4.1.9.9.48.1.1.1.5.2'', ''35651584''),
               (''.1.3.6.1.4.1.9.9.48.1.1.1.6.2'', ''31457280'')]
            @ envmon_temp_rows ''chassis'' temp 65
            @ envmon_fan_psu_rows [''Fan 1''] [''PS1 Normal''], d) }"

definition ups_init :: "netcfg \<Rightarrow> device" where
  "ups_init cfg =
     \<lparr>short = ''ups-01'', uptime_offset = 402 * 86400,
      sys_descr = ''APC Web/SNMP Management Card (MB:v4.1.0 PF:v6.9.6 PN:apc_hw05_aos_696.bin AF1:v6.9.6 AN1:apc_hw05_sumx_696.bin MN:AP9631 HR:05) (Embedded PowerNet SNMP Agent SW v2.2 compatible)'',
      sys_objectid = ''.1.3.6.1.4.1.318.1.3.27'', location = ''DC rack A2, bottom'',
      incident = False, role = ''net_ups'', parent = Some ''sw-access-01'', ifaces = [],
      dev_state = ds_init (cfg_start cfg)\<rparr>"

definition ups_rows :: "netcfg \<Rightarrow> device \<Rightarrow> real \<Rightarrow> (sim, row list) state" where
  "ups_rows cfg d now =
     do { g1 \<leftarrow> gauge ''ups.cap'' 99.4 (Some 0.7) None 0 2400;
          g2 \<leftarrow> gauge ''ups.temp'' 25 (Some 1.5) None 0 1800;
          g3 \<leftarrow> gauge ''ups.load'' 37 (Some 4) None 0 1300;
          _ \<leftarrow> gauge ''ups.vout'' 231 (Some 2) None 0 1600;
          g4 \<leftarrow> gauge ''ups.vin'' 230 (Some 2) None 0 1900;
          g5 \<leftarrow> gauge ''ups.runtime'' 7200 (Some 350) None 0 2100;
          let cap = min 100 (py_round g1); temp = py_round g2; load = py_round g3; volt_in = py_round g4;
              runtime_ticks = py_trunc g5 * 100; amps = max 1 (py_round (of_int load / 9));
              diag = cfg_date cfg (now - 37 * 86400);
              state_bits = ''0001010000000000001000000000000000000000000000000000000000000000''
          in State_Monad.return (system_rows cfg d now
            @ [(''.1.3.6.1.4.1.318.1.1.1.2.1.1.0'', ''2''),
               (''.1.3.6.1.4.1.318.1.1.1.2.2.1.0'', int_str cap),
               (''.1.3.6.1.4.1.318.1.1.1.2.2.2.0'', int_str temp),
               (''.1.3.6.1.4.1.318.1.1.1.2.2.3.0'', int_str runtime_ticks),
               (''.1.3.6.1.4.1.318.1.1.1.2.2.4.0'', ''1''),
               (''.1.3.6.1.4.1.318.1.1.1.2.2.6.0'', ''1''),
               (''.1.3.6.1.4.1.318.1.1.1.2.2.9.0'', int_str amps),
               (''.1.3.6.1.4.1.318.1.1.1.3.2.1.0'', int_str volt_in),
               (''.1.3.6.1.4.1.318.1.1.1.4.1.1.0'', ''2''),
               (''.1.3.6.1.4.1.318.1.1.1.7.2.3.0'', ''1''),
               (''.1.3.6.1.4.1.318.1.1.1.7.2.4.0'', diag),
               (''.1.3.6.1.4.1.318.1.1.1.7.2.6.0'', ''1''),
               (''.1.3.6.1.4.1.318.1.1.1.8.1.0'', ''1''),
               (''.1.3.6.1.4.1.318.1.1.1.11.1.1.0'', state_bits)]) }"

text \<open>The classes of the synthetic devices, and \<open>rows\<close> by class.\<close>

datatype dclass = SwCore | SwAccess | RtWan | Ups

definition dev_rows :: "netcfg \<Rightarrow> dclass \<Rightarrow> device \<Rightarrow> real \<Rightarrow> (sim, row list \<times> device) state" where
  "dev_rows cfg cls d now =
     (case cls of
        SwCore \<Rightarrow> do { r \<leftarrow> sw_core_rows cfg d now; State_Monad.return (r, d) }
      | SwAccess \<Rightarrow> sw_access_rows cfg d now
      | RtWan \<Rightarrow> rt_wan_rows cfg d now
      | Ups \<Rightarrow> do { r \<leftarrow> ups_rows cfg d now; State_Monad.return (r, d) })"


section \<open>The OIDs of a device never change\<close>

text \<open>\<open>outs m P\<close>: every result of the stateful computation \<open>m\<close> satisfies \<open>P\<close>.\<close>

definition outs :: "('s, 'a) state \<Rightarrow> ('a \<Rightarrow> bool) \<Rightarrow> bool" where
  "outs m P \<longleftrightarrow> (\<forall>s. P (fst (run_state m s)))"

named_theorems outs_rules \<open>introduction rules for results\<close>

lemma outs_return [outs_rules]: "P x \<Longrightarrow> outs (State_Monad.return x) P"
  by (simp add: outs_def State_Monad.return_def)

lemma outs_bind [outs_rules]: "(\<And>x. outs (f x) P) \<Longrightarrow> outs (State_Monad.bind m f) P"
  by (simp add: outs_def State_Monad.bind_def case_prod_unfold)

lemma outs_bind_via: "outs m Q \<Longrightarrow> (\<And>x. Q x \<Longrightarrow> outs (f x) P) \<Longrightarrow> outs (State_Monad.bind m f) P"
  by (simp add: outs_def State_Monad.bind_def case_prod_unfold)

lemma outsD: "outs m P \<Longrightarrow> P (fst (run_state m s))"
  by (simp add: outs_def)

definition iface_oids :: "nat \<Rightarrow> string list" where
  "iface_oids i = map (\<lambda>p. p @ nat_str i) [''.1.3.6.1.2.1.2.2.1.1.'', ''.1.3.6.1.2.1.2.2.1.2.'', ''.1.3.6.1.2.1.2.2.1.3.'', ''.1.3.6.1.2.1.2.2.1.5.'', ''.1.3.6.1.2.1.2.2.1.6.'', ''.1.3.6.1.2.1.2.2.1.8.'', ''.1.3.6.1.2.1.2.2.1.13.'', ''.1.3.6.1.2.1.2.2.1.14.'', ''.1.3.6.1.2.1.2.2.1.19.'', ''.1.3.6.1.2.1.2.2.1.20.'', ''.1.3.6.1.2.1.2.2.1.21.'', ''.1.3.6.1.2.1.31.1.1.1.1.'', ''.1.3.6.1.2.1.31.1.1.1.6.'', ''.1.3.6.1.2.1.31.1.1.1.7.'', ''.1.3.6.1.2.1.31.1.1.1.8.'', ''.1.3.6.1.2.1.31.1.1.1.9.'', ''.1.3.6.1.2.1.31.1.1.1.10.'', ''.1.3.6.1.2.1.31.1.1.1.11.'', ''.1.3.6.1.2.1.31.1.1.1.12.'', ''.1.3.6.1.2.1.31.1.1.1.13.'', ''.1.3.6.1.2.1.31.1.1.1.15.'', ''.1.3.6.1.2.1.31.1.1.1.18.'']"

lemma iface_table_oids: "map fst (iface_table it vals) = iface_oids (if_index it)"
  by (simp add: iface_table_def iface_oids_def Let_def)

lemma iface_rows_oids: "outs (iface_rows it) (\<lambda>rows. map fst rows = iface_oids (if_index it))"
  unfolding iface_rows_def by (intro outs_rules iface_table_oids)

lemma ifaces_rows_oids: "outs (ifaces_rows its) (\<lambda>rows. map fst rows = concat (map (iface_oids \<circ> if_index) its))"
proof (induction its)
  case (Cons it its)
  show ?case
    unfolding ifaces_rows.simps
    by (rule outs_bind_via [OF iface_rows_oids], rule outs_bind_via [OF Cons.IH], rule outs_return) simp
qed (auto intro: outs_rules)

definition system_oids :: "string list" where
  "system_oids = map (\<lambda>k. ''.1.3.6.1.2.1.1.'' @ k @ ''.0'') [''1'', ''2'', ''3'', ''4'', ''5'', ''6'']"

lemma system_rows_oids: "map fst (system_rows cfg d now) = system_oids"
  by (simp add: system_rows_def system_oids_def Let_def digit_def)

definition catalyst_oids :: "string list" where
  "catalyst_oids = map fst (catalyst_platform_rows 0 0 0 0)"

lemma catalyst_rows_oids: "map fst (catalyst_platform_rows cpu temp mu mf) = catalyst_oids"
  by (simp add: catalyst_oids_def catalyst_platform_rows_def)

definition switch_oids :: "nat list \<Rightarrow> string list" where
  "switch_oids idx = system_oids @ [''.1.3.6.1.2.1.2.1.0''] @ concat (map iface_oids idx) @ catalyst_oids"

definition wan_oids :: "nat list \<Rightarrow> string list" where
  "wan_oids idx = system_oids @ [''.1.3.6.1.2.1.2.1.0''] @ concat (map iface_oids idx)
     @ [''.1.3.6.1.4.1.9.9.109.1.1.1.1.8.1'', ''.1.3.6.1.4.1.9.9.48.1.1.1.2.1'', ''.1.3.6.1.4.1.9.9.48.1.1.1.5.1'',
        ''.1.3.6.1.4.1.9.9.48.1.1.1.6.1'', ''.1.3.6.1.4.1.9.9.48.1.1.1.2.2'', ''.1.3.6.1.4.1.9.9.48.1.1.1.5.2'',
        ''.1.3.6.1.4.1.9.9.48.1.1.1.6.2'']
     @ map fst (envmon_temp_rows [] 0 0) @ map fst (envmon_fan_psu_rows [[]] [[]])"

definition ups_oids :: "string list" where
  "ups_oids = system_oids @ map (\<lambda>p. ''.1.3.6.1.4.1.318.1.1.1.'' @ p)
     [''2.1.1.0'', ''2.2.1.0'', ''2.2.2.0'', ''2.2.3.0'', ''2.2.4.0'', ''2.2.6.0'', ''2.2.9.0'', ''3.2.1.0'',
      ''4.1.1.0'', ''7.2.3.0'', ''7.2.4.0'', ''7.2.6.0'', ''8.1.0'', ''11.1.1.0'']"

text \<open>The OIDs of a class, given the indices of the device's interfaces.\<close>

definition dev_oids :: "dclass \<Rightarrow> nat list \<Rightarrow> string list" where
  "dev_oids cls idx = (case cls of SwCore \<Rightarrow> switch_oids idx | SwAccess \<Rightarrow> switch_oids idx
     | RtWan \<Rightarrow> wan_oids idx | Ups \<Rightarrow> ups_oids)"

definition indices :: "device \<Rightarrow> nat list" where
  "indices d = map if_index (ifaces d)"

lemma concat_indices: "concat (map (iface_oids \<circ> if_index) (ifaces d)) = concat (map iface_oids (indices d))"
  by (simp add: indices_def)

lemma sw_core_oids: "outs (sw_core_rows cfg d now) (\<lambda>rows. map fst rows = switch_oids (indices d))"
  unfolding sw_core_rows_def
  by (rule outs_bind_via [OF ifaces_rows_oids], intro outs_rules)
    (simp add: system_rows_oids catalyst_rows_oids switch_oids_def concat_indices)

lemma indices_update:
  assumes "k < length (ifaces d)" "if_index a = if_index (ifaces d ! k)"
  shows "map if_index ((ifaces d)[k := a]) = indices d"
proof -
  have "(map if_index (ifaces d))[k := map if_index (ifaces d) ! k] = map if_index (ifaces d)"
    by (rule list_update_id)
  with assms show ?thesis by (simp add: indices_def map_update)
qed

definition dev_shape :: "dclass \<Rightarrow> device \<Rightarrow> bool" where
  "dev_shape cls d \<longleftrightarrow> (case cls of SwAccess \<Rightarrow> length (ifaces d) = 50 | RtWan \<Rightarrow> length (ifaces d) = 2 | _ \<Rightarrow> True)"

lemma tune_access_indices:
  assumes "length (ifaces d) = 50"
  shows "outs (tune_access d) (\<lambda>d'. indices d' = indices d \<and> length (ifaces d') = 50)"
proof -
  have put: "indices (d\<lparr>ifaces := (ifaces d)[48 := a, 49 := b]\<rparr>) = indices d
      \<and> length (ifaces (d\<lparr>ifaces := (ifaces d)[48 := a, 49 := b]\<rparr>)) = 50"
    if "if_index a = if_index (ifaces d ! 48)" "if_index b = if_index (ifaces d ! 49)" for a b
    using indices_update [of 48 d a] indices_update [of 49 "d\<lparr>ifaces := (ifaces d)[48 := a]\<rparr>" b] that assms
    by (simp add: indices_def)
  show ?thesis
    unfolding tune_access_def Let_def if_distrib [of "\<lambda>m. outs m _"]
    by (auto intro!: outs_rules put split del: if_split split: if_splits)
qed

lemma sw_access_oids:
  assumes "length (ifaces d) = 50"
  shows "outs (sw_access_rows cfg d now)
    (\<lambda>(rows, d'). map fst rows = switch_oids (indices d) \<and> indices d' = indices d \<and> length (ifaces d') = 50)"
  unfolding sw_access_rows_def
  by (rule outs_bind_via [OF tune_access_indices [OF assms]], rule outs_bind_via [OF ifaces_rows_oids], intro outs_rules)
    (simp add: system_rows_oids catalyst_rows_oids switch_oids_def concat_indices)

lemma tune_wan_indices:
  assumes "length (ifaces d) = 2"
  shows "indices (tune_wan d f) = indices d \<and> length (ifaces (tune_wan d f)) = 2"
proof -
  obtain a b where "ifaces d = [a, b]" using assms by (auto simp: length_Suc_conv numeral_2_eq_2)
  then show ?thesis by (simp add: tune_wan_def indices_def Let_def)
qed

lemma rt_wan_oids:
  assumes "length (ifaces d) = 2"
  shows "outs (rt_wan_rows cfg d now)
    (\<lambda>(rows, d'). map fst rows = wan_oids (indices d) \<and> indices d' = indices d \<and> length (ifaces d') = 2)"
proof -
  have temp: "map fst (envmon_temp_rows a b c) = map fst (envmon_temp_rows [] 0 0)" for a b c
    by (simp add: envmon_temp_rows_def)
  have fan: "map fst (envmon_fan_psu_rows [a] [b]) = map fst (envmon_fan_psu_rows [[]] [[]])" for a b
    by (simp add: envmon_fan_psu_rows_def)
  show ?thesis
    unfolding rt_wan_rows_def case_prod_unfold Let_def
    by (rule outs_bind, rule outs_bind_via [OF ifaces_rows_oids], intro outs_rules)
      (use tune_wan_indices [OF assms] in
        \<open>simp add: system_rows_oids wan_oids_def temp [of "''chassis''"] fan [of "''Fan 1''"] concat_indices\<close>)
qed

lemma ups_rows_oids: "outs (ups_rows cfg d now) (\<lambda>rows. map fst rows = ups_oids)"
  unfolding ups_rows_def Let_def by (intro outs_rules) (simp add: system_rows_oids ups_oids_def)

text \<open>All classes at once, for any state, time and noise; the device keeps its shape.\<close>

lemma dev_rows_oids:
  assumes "dev_shape cls d"
  shows "outs (dev_rows cfg cls d now)
    (\<lambda>(rows, d'). map fst rows = dev_oids cls (indices d) \<and> indices d' = indices d \<and> dev_shape cls d')"
proof (cases cls)
  case SwCore
  then show ?thesis
    by (simp add: dev_rows_def dev_oids_def dev_shape_def)
      (rule outs_bind_via [OF sw_core_oids], intro outs_rules, simp)
next
  case SwAccess
  then show ?thesis
    using assms sw_access_oids [of d] by (simp add: dev_rows_def dev_oids_def dev_shape_def)
next
  case RtWan
  then show ?thesis
    using assms rt_wan_oids [of d] by (simp add: dev_rows_def dev_oids_def dev_shape_def)
next
  case Ups
  then show ?thesis
    by (simp add: dev_rows_def dev_oids_def dev_shape_def)
      (rule outs_bind_via [OF ups_rows_oids], intro outs_rules, simp)
qed


section \<open>Octet counters stay below the line rate\<close>

lemma run_sample:
  "run_state (sample name rate cap) s =
     (let s1 = s\<lparr>clock := \<lambda>k. clock s (Suc k), noise := \<lambda>k. noise s (Suc k)\<rparr>
      in case counters s name of None \<Rightarrow> (0, s1)
         | Some c \<Rightarrow> (fst (counter_sample c rate cap (clock s 0) (noise s 0)),
                      s1\<lparr>counters := (counters s)(name \<mapsto> snd (counter_sample c rate cap (clock s 0) (noise s 0)))\<rparr>))"
  by (simp add: sample_def get_time_def get_gauss_def sample_named_def State_Monad.bind_def Let_def case_prod_unfold
      split: option.splits)

lemma run_sample_other:
  "name' \<noteq> name \<Longrightarrow> counters (snd (run_state (sample name rate cap) s)) name' = counters s name'"
  by (simp add: run_sample Let_def split: option.splits)

lemma sample_all_keys: "map fst (fst (run_state (sample_all it qs) s)) = map fst qs"
  by (induction qs arbitrary: s)
    (auto simp: State_Monad.bind_def State_Monad.return_def case_prod_unfold)

lemma sample_all_other:
  "k \<notin> fst ` set qs \<Longrightarrow> counters (snd (run_state (sample_all it qs) s)) (counter_name it k) = counters s (counter_name it k)"
proof (induction qs arbitrary: s)
  case (Cons q qs)
  obtain k' rate cap where q: "q = (k', rate, cap)" by (cases q)
  have "counter_name it k \<noteq> counter_name it k'" using Cons.prems q by (simp add: counter_name_def)
  then show ?case using Cons q run_sample_other
    by (simp add: State_Monad.bind_def State_Monad.return_def case_prod_unfold)
qed (simp add: State_Monad.return_def)

lemma sample_all_counter:
  assumes "distinct (map fst qs)" and "(k, rate, cap) \<in> set qs" and "counters s (counter_name it k) = Some c"
  shows "\<exists>now g. counters (snd (run_state (sample_all it qs) s)) (counter_name it k)
            = Some (snd (counter_sample c rate cap now g))
         \<and> map_of (fst (run_state (sample_all it qs) s)) k = Some (fst (counter_sample c rate cap now g))"
  using assms
proof (induction qs arbitrary: s)
  case (Cons q qs)
  obtain k' rate' cap' where q: "q = (k', rate', cap')" by (cases q)
  let ?s = "snd (run_state (sample (counter_name it k') rate' cap') s)"
  have run: "run_state (sample_all it (q # qs)) s
      = (let (vs, s') = run_state (sample_all it qs) ?s
         in ((k', fst (run_state (sample (counter_name it k') rate' cap') s)) # vs, s'))"
    by (simp add: q State_Monad.bind_def State_Monad.return_def case_prod_unfold Let_def)
  show ?case
  proof (cases "k = k'")
    case True
    then have "(rate, cap) = (rate', cap')" using Cons.prems q by force
    moreover have "k \<notin> fst ` set qs" using Cons.prems q True by force
    ultimately show ?thesis
      using True Cons.prems(3) sample_all_other [of k qs it ?s] unfolding run
      by (simp add: case_prod_unfold Let_def run_sample) blast
  next
    case False
    then have "counter_name it k \<noteq> counter_name it k'" by (simp add: counter_name_def)
    then have "counters ?s (counter_name it k) = Some c" using Cons.prems(3) run_sample_other by simp
    from Cons.IH [OF _ _ this] Cons.prems q False show ?thesis
      unfolding run by (simp add: case_prod_unfold Let_def)
  qed
qed simp

section \<open>Properties\<close>

text \<open>Whatever the state of the incident, the clock and the noise, a synthetic device's rows carry
  the same OIDs in the same order: so refreshing the table cached from an earlier rendering with a
  later one always succeeds, keeps the table's invariant and keeps its OID list.\<close>

theorem synthetic_refresh_keeps_table:
  assumes "dev_shape cls d" and "dev_shape cls d2" and "indices d2 = indices d"
    and "table_init (fst (fst (run_state (dev_rows cfg cls d now) s))) = Inr t"
  shows "\<exists>t'. table_patch t (fst (fst (run_state (dev_rows cfg cls d2 now2) s2))) = Inr t'
    \<and> table_wf t' \<and> oids t' = oids t"
proof -
  let ?r1 = "fst (fst (run_state (dev_rows cfg cls d now) s))"
  let ?r2 = "fst (fst (run_state (dev_rows cfg cls d2 now2) s2))"
  have same: "map fst ?r1 = map fst ?r2"
    using outsD [OF dev_rows_oids [OF assms(1)], of cfg now s] outsD [OF dev_rows_oids [OF assms(2)], of cfg now2 s2] assms(3)
    by (simp add: case_prod_unfold)
  show ?thesis by (rule table_refresh [OF assms(4) same])
qed

theorem synthetic_refresh_keeps_table_witness:
  "\<exists>t t'. table_init (fst (fst (run_state (dev_rows \<lparr>cfg_domain = ''x'', cfg_start = 0, cfg_date = \<lambda>_. ''d''\<rparr> Ups
        (ups_init \<lparr>cfg_domain = ''x'', cfg_start = 0, cfg_date = \<lambda>_. ''d''\<rparr>) 5)
        \<lparr>clock = \<lambda>k. 5, noise = \<lambda>k. 0, gauges = Map.empty, counters = Map.empty\<rparr>))) = Inr t
     \<and> table_patch t (fst (fst (run_state (dev_rows \<lparr>cfg_domain = ''x'', cfg_start = 0, cfg_date = \<lambda>_. ''d''\<rparr> Ups
        (ups_init \<lparr>cfg_domain = ''x'', cfg_start = 0, cfg_date = \<lambda>_. ''d''\<rparr>) 9)
        \<lparr>clock = \<lambda>k. 9, noise = \<lambda>k. 1, gauges = Map.empty, counters = Map.empty\<rparr>))) = Inr t'
     \<and> oids t' = oids t"
proof -
  let ?cfg = "\<lparr>cfg_domain = ''x'', cfg_start = 0, cfg_date = \<lambda>_. ''d''\<rparr>"
  let ?s = "\<lparr>clock = \<lambda>k. 5, noise = \<lambda>k. 0, gauges = Map.empty, counters = Map.empty\<rparr> :: sim"
  let ?r = "fst (fst (run_state (dev_rows ?cfg Ups (ups_init ?cfg) 5) ?s))"
  have sh: "dev_shape Ups (ups_init ?cfg)" by (simp add: dev_shape_def)
  have parse: "list_all parses ups_oids" by (rule plain_oids_parse) code_simp
  have "map fst ?r = ups_oids"
    using outsD [OF dev_rows_oids [OF sh], of ?cfg 5 ?s] by (simp add: case_prod_unfold dev_oids_def)
  with parse obtain t where t: "table_init ?r = Inr t" using table_init_parses [of ?r] by metis
  obtain t' where "table_patch t (fst (fst (run_state (dev_rows ?cfg Ups (ups_init ?cfg) 9)
      \<lparr>clock = \<lambda>k. 9, noise = \<lambda>k. 1, gauges = Map.empty, counters = Map.empty\<rparr>))) = Inr t'"
    "oids t' = oids t"
    using synthetic_refresh_keeps_table [OF sh sh refl t] by blast
  with t show ?thesis by blast
qed

text \<open>C6. The octet counters of an interface can never imply more than 85 percent of the line rate: in
  one rendering each of them grows by at most that rate times the time since its last sample, in
  every incident state and for every noise, and the row served is the counter's integer value.\<close>

theorem octets_below_line_rate:
  assumes "0 \<le> if_mbit it" and "k \<in> {''in_oct'', ''out_oct''}"
    and "counters s (counter_name it k) = Some c"
  shows "\<exists>c'. counters (snd (run_state (iface_rows it) s)) (counter_name it k) = Some c'
     \<and> acc c' - acc c \<le> line_cap it * max 0 (clast c' - clast c)
     \<and> ((if k = ''in_oct'' then ''.1.3.6.1.2.1.31.1.1.1.6.'' else ''.1.3.6.1.2.1.31.1.1.1.10.'') @ nat_str (if_index it),
         int_str (py_trunc (acc c'))) \<in> set (fst (run_state (iface_rows it) s))"
proof -
  let ?qs = "iface_samples it"
  have d: "distinct (map fst ?qs)" by (simp add: iface_samples_def Let_def)
  obtain rate where q: "(k, rate, Some (line_cap it)) \<in> set ?qs"
    using assms(2) by (auto simp: iface_samples_def Let_def)
  obtain now g where
    c': "counters (snd (run_state (sample_all it ?qs) s)) (counter_name it k)
           = Some (snd (counter_sample c rate (Some (line_cap it)) now g))"
    and v: "map_of (fst (run_state (sample_all it ?qs) s)) k = Some (fst (counter_sample c rate (Some (line_cap it)) now g))"
    using sample_all_counter [OF d q assms(3)] by blast
  let ?c' = "snd (counter_sample c rate (Some (line_cap it)) now g)"
  have run: "run_state (iface_rows it) s = (iface_table it (fst (run_state (sample_all it ?qs) s)), snd (run_state (sample_all it ?qs) s))"
    by (simp add: iface_rows_def State_Monad.bind_def State_Monad.return_def case_prod_unfold)
  have "clast ?c' = now" by (simp add: sample_parts)
  moreover have "0 \<le> line_cap it" using assms(1) by (simp add: line_cap_def)
  ultimately have "acc ?c' - acc c \<le> line_cap it * max 0 (clast ?c' - clast c)" by (metis counter_cap)
  moreover have "val_of (fst (run_state (sample_all it ?qs) s)) k = py_trunc (acc ?c')"
    using v sample_parts(2) by (simp add: val_of_def)
  then have "((if k = ''in_oct'' then ''.1.3.6.1.2.1.31.1.1.1.6.'' else ''.1.3.6.1.2.1.31.1.1.1.10.'') @ nat_str (if_index it),
         int_str (py_trunc (acc ?c'))) \<in> set (iface_table it (fst (run_state (sample_all it ?qs) s)))"
    using assms(2) by (auto simp: iface_table_def Let_def)
  ultimately show ?thesis using c' run by auto
qed

theorem octets_below_line_rate_witness:
  "\<exists>c'. counters (snd (run_state (iface_rows (iface_fields ''sw'' 1 [] [] [] 1000 5 5 1))
      \<lparr>clock = \<lambda>k. 60, noise = \<lambda>k. 0, gauges = Map.empty,
       counters = [''sw.if1.in_oct'' \<mapsto> counter_init 0 (3/10) 1200 7 0]\<rparr>)) ''sw.if1.in_oct'' = Some c'
     \<and> acc c' - 7 \<le> 106250000 * max 0 (clast c' - 0)"
proof -
  let ?it = "iface_fields ''sw'' 1 [] [] [] 1000 5 5 1"
  let ?c = "counter_init 0 (3/10) 1200 7 0"
  have n: "counter_name ?it ''in_oct'' = ''sw.if1.in_oct''" by code_simp
  have c: "acc ?c = 7" "clast ?c = 0" by (simp_all add: counter_init_def)
  have l: "line_cap ?it = 106250000" "0 \<le> if_mbit ?it" by (simp_all add: line_cap_def iface_fields_def)
  show ?thesis
    using octets_below_line_rate [OF l(2), of "''in_oct''"
        "\<lparr>clock = \<lambda>k. 60, noise = \<lambda>k. 0, gauges = Map.empty, counters = [''sw.if1.in_oct'' \<mapsto> ?c]\<rparr>" ?c]
    unfolding n c l(1) by auto
qed

text \<open>A binary value written into a walk by \<open>hex_bytes\<close> is served as exactly those bytes by the
  responder's \<open>encode_value\<close>; in particular a MAC address keeps its six bytes.\<close>

theorem hex_value_roundtrip: "encode_value (hex_bytes raw) = raw"
  using hex_groups_bytes [of raw] by (simp add: encode_value_def hex_bytes_def hex_value_def Let_def)

end
