(* ===== verification/Replay.thy ===== *)
theory Replay
  imports Netsim_Devices "HOL-Library.AList"
begin

text \<open>
  The replay layer of \<open>snmp/netsim.py\<close>: a recorded walk is parsed once into static text and dynamic
  slots (\<open>ReplayModel\<close>), and each instance renders it with its own identity, uptime and live counters
  (\<open>ReplayDevice\<close>).  Slot kinds are a datatype with the code's names as constructors; a Python
  exception (a malformed number in a walk) is a value of the result type, and rendering threads the
  environment \<open>sim\<close>, the identity cache and the per-rendering sample cache explicitly.

  \<open>random.Random(seed)\<close>, \<open>zlib.crc32\<close> and the local date are parameters: \<open>pick seed i alphabet\<close> is the
  i-th \<open>choice\<close> of the generator seeded with that string.  Walk text is taken as Latin-1; Python's
  notions of digits and letters beyond ASCII, and \<open>float\<close> literals other than plain decimals, are
  outside the model.
\<close>

section \<open>Number formats of the walks\<close>

definition is_upper :: "char \<Rightarrow> bool" where
  "is_upper c \<longleftrightarrow> 65 \<le> (of_char c :: nat) \<and> (of_char c :: nat) \<le> 90"

definition is_lower :: "char \<Rightarrow> bool" where
  "is_lower c \<longleftrightarrow> 97 \<le> (of_char c :: nat) \<and> (of_char c :: nat) \<le> 122"

definition is_alnum :: "char \<Rightarrow> bool" where
  "is_alnum c \<longleftrightarrow> digit_char c \<or> is_upper c \<or> is_lower c"

text \<open>\<open>int(s, base)\<close> for base 16 and 36: one sign, for base 16 an optional \<open>0x\<close>, digits with single
  underscores between them.\<close>

definition base_digit :: "nat \<Rightarrow> char \<Rightarrow> nat option" where
  "base_digit b c =
     (let n = (of_char c :: nat);
          v = (if digit_char c then n - 48 else if is_upper c then n - 55 else if is_lower c then n - 87 else b)
      in if v < b then Some v else None)"

definition int_base :: "nat \<Rightarrow> string \<Rightarrow> int res" where
  "int_base b s =
     (let t = strip s;
          neg = startswith t ''-'';
          body = (if neg \<or> startswith t ''+'' then tl t else t);
          body = (if b = 16 \<and> (startswith body ''0x'' \<or> startswith body ''0X'')
                  then (let r = drop 2 body in if startswith r ''_'' then tl r else r) else body);
          parts = split_on (CHR ''_'') body
      in if list_all (\<lambda>p. p \<noteq> [] \<and> list_all (\<lambda>c. base_digit b c \<noteq> None) p) parts
         then Inr ((if neg then - 1 else 1)
                * int (foldl (\<lambda>a c. b * a + (case base_digit b c of Some v \<Rightarrow> v | None \<Rightarrow> 0)) 0 (concat parts)))
         else Inl ValueError)"

text \<open>\<open>s.split()\<close>: maximal runs of characters that are not white space.\<close>

fun words :: "string \<Rightarrow> string list" where
  "words [] = []"
| "words (c # s) =
     (if is_space c then words s
      else (case s of
              [] \<Rightarrow> [[c]]
            | d # _ \<Rightarrow> if is_space d then [c] # words s
                       else (case words s of [] \<Rightarrow> [[c]] | w # ws \<Rightarrow> (c # w) # ws)))"

definition parse_hex_value :: "string \<Rightarrow> bytes option" where
  "parse_hex_value value =
     (let v = strip value
      in if 2 \<le> length v \<and> hd v = CHR 34 \<and> last v = CHR 34
         then (case mapR (\<lambda>tok. bindR (int_base 16 tok) (\<lambda>n.
                      if 0 \<le> n \<and> n < 256 then Inr (word_of_int n) else Inl ValueError))
                    (words (butlast (tl v)))
               of Inl _ \<Rightarrow> None | Inr bs \<Rightarrow> Some bs)
         else None)"

text \<open>\<open>float(s)\<close> of a plain decimal.\<close>

definition py_float :: "string \<Rightarrow> real res" where
  "py_float s =
     (let t = strip s;
          neg = startswith t ''-'';
          body = (if neg \<or> startswith t ''+'' then tl t else t);
          (w, f) = partition_at (CHR ''.'') body
      in if list_all digit_char w \<and> list_all digit_char f \<and> w @ f \<noteq> []
         then Inr ((if neg then - 1 else 1)
                * (real (digits_val w) + real (digits_val f) / 10 ^ length f))
         else Inl ValueError)"

definition ticks :: "string \<Rightarrow> int res" where
  "ticks value0 =
     (let value = strip value0; parts = split_on (CHR '':'') value
      in if isdigit value then py_int value
         else if length parts = 4
         then bindR (mapR py_int (take 3 parts)) (\<lambda>dhm.
              bindR (py_float (parts ! 3)) (\<lambda>s.
                Inr (py_trunc ((((of_int (dhm ! 0) * 24 + of_int (dhm ! 1)) * 60 + of_int (dhm ! 2)) * 60 + s) * 100))))
         else Inr 0)"

section \<open>Instance identity\<close>

text \<open>The index positions of \<open>chars\<close> that are alphanumeric, and the last four of them.\<close>

definition last_alnum :: "string \<Rightarrow> nat list" where
  "last_alnum cs =
     (let is = filter (\<lambda>i. is_alnum (cs ! i)) [0..<length cs] in drop (length is - 4) is)"

definition class_alphabet :: "char \<Rightarrow> string" where
  "class_alphabet c =
     (if digit_char c then ''0123456789''
      else if is_upper c then ''ABCDEFGHJKLMNPQRSTUVWXYZ''
      else ''abcdefghjkmnpqrstuvwxyz'')"

definition mutate_serial :: "(string \<Rightarrow> nat \<Rightarrow> string \<Rightarrow> char) \<Rightarrow> string \<Rightarrow> string \<Rightarrow> string" where
  "mutate_serial pick sh value =
     (let seed = sh @ '':'' @ value @ '':ident-v1''
      in fold (\<lambda>(k, i) chars. chars[i := pick seed k (class_alphabet (chars ! i))])
           (enumerate 0 (last_alnum value)) value)"

section \<open>The walk model\<close>

datatype skind = Sysname | Syslocation | Uptime | Hrcpu | Ctr32 | Ctr64 | Apcdate
  | Ifmac | Serial | Svctag | Svccode

datatype segment = Static string | Slot skind string string int

record rmodel =
  segments :: "segment list"
  rates :: "string \<rightharpoonup> real"
  seeds :: "(string \<times> int) list"
  linerate :: "string \<rightharpoonup> real"
  caps :: "string \<rightharpoonup> real"
  dell_svctag :: "string option"
  uptime_rec :: real

definition UPTIME_OID :: string where "UPTIME_OID = ''.1.3.6.1.2.1.1.3.0''"
definition HRUPTIME_OID :: string where "HRUPTIME_OID = ''.1.3.6.1.2.1.25.1.1.0''"
definition HP_CPU_OID :: string where "HP_CPU_OID = ''.1.3.6.1.4.1.11.2.14.11.5.1.9.6.1.0''"
definition APC_DIAG_DATE_OID :: string where "APC_DIAG_DATE_OID = ''.1.3.6.1.4.1.318.1.1.1.7.2.4.0''"
definition IFSPEED_PREFIX :: string where "IFSPEED_PREFIX = ''.1.3.6.1.2.1.2.2.1.5.''"
definition IFMAC_PREFIX :: string where "IFMAC_PREFIX = ''.1.3.6.1.2.1.2.2.1.6.''"
definition IFHIGHSPEED_PREFIX :: string where "IFHIGHSPEED_PREFIX = ''.1.3.6.1.2.1.31.1.1.1.15.''"
definition ENT_SERIAL_PREFIX :: string where "ENT_SERIAL_PREFIX = ''.1.3.6.1.2.1.47.1.1.1.1.11.''"
definition DELL_SVCTAG_PREFIXES :: "string list" where
  "DELL_SVCTAG_PREFIXES = [''.1.3.6.1.4.1.674.10892.1.300.10.1.11.'',
     ''.1.3.6.1.4.1.674.10892.1.300.10.1.50.'', ''.1.3.6.1.4.1.674.10892.1.1400.90.1.6.'']"
definition DELL_SVCCODE_PREFIX :: string where "DELL_SVCCODE_PREFIX = ''.1.3.6.1.4.1.674.10892.1.300.10.1.49.''"
definition HRCPU_PREFIX :: string where "HRCPU_PREFIX = ''.1.3.6.1.2.1.25.3.3.1.2.''"
definition PAGES_PREFIX :: string where "PAGES_PREFIX = ''.1.3.6.1.2.1.43.10.2.1.4.''"

definition IF32 :: "string \<rightharpoonup> string" where
  "IF32 = [''10'' \<mapsto> ''ifin'', ''11'' \<mapsto> ''ifinu'', ''16'' \<mapsto> ''ifout'', ''17'' \<mapsto> ''ifoutu'']"

definition IFHC :: "string \<rightharpoonup> string" where
  "IFHC = [''6'' \<mapsto> ''ifin'', ''7'' \<mapsto> ''ifinu'', ''10'' \<mapsto> ''ifout'', ''11'' \<mapsto> ''ifoutu'']"

text \<open>\<open>oid.rsplit(".", 1)[1]\<close> and \<open>oid.split(".")[-2]\<close> of an OID that has a dot.\<close>

definition last_part :: "string \<Rightarrow> string" where
  "last_part oid = last (split_on (CHR ''.'') oid)"

definition col_part :: "string \<Rightarrow> string" where
  "col_part oid = last (butlast (split_on (CHR ''.'') oid))"

definition note_counter :: "string \<Rightarrow> int \<Rightarrow> string option \<Rightarrow> rmodel \<Rightarrow> rmodel" where
  "note_counter key recorded ifidx m =
     (let prev_seed = (case map_of (seeds m) key of None \<Rightarrow> 0 | Some v \<Rightarrow> v);
          line = (case ifidx of
                    Some i \<Rightarrow> if startswith key ''ifin.'' \<or> startswith key ''ifout.'' then linerate m i else None
                  | None \<Rightarrow> None);
          (cap, new_caps) = (case line of
                    Some l \<Rightarrow> if l \<noteq> 0 then (0.60 * l / 8, (caps m)(key \<mapsto> 0.85 * l / 8)) else (25000000, caps m)
                  | None \<Rightarrow> (25000000, caps m));
          rate = min cap (of_int recorded / uptime_rec m)
      in m\<lparr>seeds := AList.update key (max prev_seed recorded) (seeds m),
           caps := new_caps,
           rates := (rates m)(key \<mapsto> (case rates m key of Some p \<Rightarrow> max p rate | None \<Rightarrow> rate))\<rparr>)"

definition noted :: "skind \<Rightarrow> string \<Rightarrow> string \<Rightarrow> string \<Rightarrow> string option \<Rightarrow> rmodel \<Rightarrow> (segment option \<times> rmodel) res" where
  "noted kind oid key value ifidx m =
     bindR (py_int value) (\<lambda>v. Inr (Some (Slot kind oid key v), note_counter key v ifidx m))"

definition classify_tail :: "string \<Rightarrow> string \<Rightarrow> rmodel \<Rightarrow> (segment option \<times> rmodel) res" where
  "classify_tail oid value m =
     (let col = col_part oid; index = last_part oid; digits = isdigit value
      in if startswith oid ''.1.3.6.1.2.1.2.2.1.'' \<and> IF32 col \<noteq> None \<and> digits
         then noted Ctr32 oid (the (IF32 col) @ ''.'' @ index) value (Some index) m
         else if startswith oid ''.1.3.6.1.2.1.31.1.1.1.'' \<and> IFHC col \<noteq> None \<and> digits
         then noted Ctr64 oid (the (IFHC col) @ ''.'' @ index) value (Some index) m
         else if startswith oid HRCPU_PREFIX \<and> digits
         then bindR (py_int value) (\<lambda>v. Inr (Some (Slot Hrcpu oid (drop (length HRCPU_PREFIX) oid) v), m))
         else if startswith oid PAGES_PREFIX \<and> digits
         then noted Ctr32 oid (''pages.'' @ drop (length PAGES_PREFIX) oid) value None m
         else Inr (None, m))"

definition ucd_column :: "string \<Rightarrow> bool" where
  "ucd_column col \<longleftrightarrow> isdigit col \<and> 50 \<le> digits_val col \<and> digits_val col \<le> 66"

definition classify :: "string \<Rightarrow> string \<Rightarrow> rmodel \<Rightarrow> (segment option \<times> rmodel) res" where
  "classify oid value m =
     (if oid = ''.1.3.6.1.2.1.1.5.0'' then Inr (Some (Slot Sysname oid [] 0), m)
      else if oid = ''.1.3.6.1.2.1.1.6.0'' then Inr (Some (Slot Syslocation oid [] 0), m)
      else if oid = UPTIME_OID \<or> oid = HRUPTIME_OID
      then bindR (ticks value) (\<lambda>t. Inr (Some (Slot Uptime oid [] t), m))
      else if oid = HP_CPU_OID \<and> isdigit value
      then bindR (py_int value) (\<lambda>v. Inr (Some (Slot Hrcpu oid ''hp'' v), m))
      else if startswith oid ''.1.3.6.1.4.1.2021.11.'' \<and> isdigit value \<and> ucd_column (col_part oid)
      then noted Ctr32 oid (''ucd.'' @ col_part oid) value None m
      else if oid = APC_DIAG_DATE_OID then Inr (Some (Slot Apcdate oid [] 0), m)
      else if startswith oid IFMAC_PREFIX \<and> (case parse_hex_value value of Some raw \<Rightarrow> length raw = 6 | None \<Rightarrow> False)
      then Inr (Some (Slot Ifmac oid value 0), m)
      else if startswith oid ENT_SERIAL_PREFIX \<and> strip value \<noteq> []
      then Inr (Some (Slot Serial oid value 0), m)
      else if list_ex (startswith oid) DELL_SVCTAG_PREFIXES \<and> strip value \<noteq> []
      then Inr (Some (Slot Svctag oid (strip value) 0),
                if dell_svctag m = None then m\<lparr>dell_svctag := Some (strip value)\<rparr> else m)
      else if startswith oid DELL_SVCCODE_PREFIX \<and> isdigit (strip value)
      then Inr (Some (Slot Svccode oid (strip value) 0), m)
      else classify_tail oid value m)"

text \<open>First pass: recorded uptime and line rates.\<close>

definition put_max :: "string \<Rightarrow> real \<Rightarrow> rmodel \<Rightarrow> rmodel" where
  "put_max idx v m = m\<lparr>linerate := (linerate m)(idx \<mapsto>
     max (case linerate m idx of None \<Rightarrow> 0 | Some l \<Rightarrow> l) v)\<rparr>"

fun scan_rates :: "row list \<Rightarrow> rmodel \<Rightarrow> rmodel res" where
  "scan_rates [] m = Inr m"
| "scan_rates ((oid, value) # rows) m =
     bindR (if oid = UPTIME_OID
            then bindR (ticks value) (\<lambda>t. Inr (m\<lparr>uptime_rec := max (7 * 86400) (of_int t / 100)\<rparr>))
            else if startswith oid IFHIGHSPEED_PREFIX \<and> isdigit (strip value)
            then bindR (py_int value) (\<lambda>v. Inr (put_max (last_part oid) (of_int v * 1000000) m))
            else if startswith oid IFSPEED_PREFIX \<and> isdigit (strip value)
            then bindR (py_int value) (\<lambda>v. Inr (if 0 < v \<and> v < U32 - 1 then put_max (last_part oid) (of_int v) m else m))
            else Inr m)
       (scan_rates rows)"

text \<open>Second pass: static text is collected in \<open>static\<close> and flushed before each slot.\<close>

definition flush :: "string list \<Rightarrow> segment list" where
  "flush static = (if static = [] then [] else [Static (concat static)])"

fun split_rows :: "row list \<Rightarrow> string list \<Rightarrow> rmodel \<Rightarrow> rmodel res" where
  "split_rows [] static m = Inr (m\<lparr>segments := segments m @ flush static\<rparr>)"
| "split_rows ((oid, value) # rows) static m =
     bindR (classify oid value m) (\<lambda>(slot, m).
       case slot of
         None \<Rightarrow> split_rows rows (static @ [walk_line (oid, value)]) m
       | Some s \<Rightarrow> split_rows rows [] (m\<lparr>segments := segments m @ flush static @ [s]\<rparr>))"

definition empty_model :: rmodel where
  "empty_model = \<lparr>segments = [], rates = Map.empty, seeds = [], linerate = Map.empty, caps = Map.empty,
     dell_svctag = None, uptime_rec = 90 * 86400\<rparr>"

text \<open>The lines of the file, without their newlines.\<close>

definition model_init :: "string list \<Rightarrow> rmodel res" where
  "model_init lines =
     (let rows = map (partition_at (CHR '' '')) lines
      in bindR (scan_rates rows empty_model) (split_rows rows []))"


section \<open>Instances\<close>

record rdevice = device +
  rd_model :: rmodel
  rate_jit :: real
  uptime_extra :: real
  rd_phase :: real
  mac_off :: nat
  ident :: "string \<rightharpoonup> string"

text \<open>What the instance code takes from outside the program.\<close>

record renv =
  e_cfg :: netcfg
  e_pick :: "string \<Rightarrow> nat \<Rightarrow> string \<Rightarrow> char"
  e_crc :: "string \<Rightarrow> nat"

definition rd_counter_name :: "rdevice \<Rightarrow> string \<Rightarrow> string" where
  "rd_counter_name d key = short d @ ''.'' @ key"

text \<open>\<open>_counter\<close>: create it unless the instance has it; the instance's dict and the registry agree, since
  an instance registers its counters under its own unique name.\<close>

definition rd_counter :: "renv \<Rightarrow> rdevice \<Rightarrow> string \<Rightarrow> int \<Rightarrow> (sim, unit) state" where
  "rd_counter e d key recorded =
     do { s \<leftarrow> State_Monad.get;
          if counters s (rd_counter_name d key) = None
          then new_counter (rd_counter_name d key) (rd_phase d + real (e_crc e key mod 63) / 10) 0.30
                 (case map_of (seeds (rd_model d)) key of Some v \<Rightarrow> of_int v | None \<Rightarrow> of_int recorded)
          else State_Monad.return () }"

fun rd_counters :: "renv \<Rightarrow> rdevice \<Rightarrow> (string \<times> int) list \<Rightarrow> (sim, unit) state" where
  "rd_counters e d [] = State_Monad.return ()"
| "rd_counters e d ((key, rec) # ks) = do { rd_counter e d key rec; rd_counters e d ks }"

text \<open>The constructor; \<open>draw\<close> and \<open>mac_draw\<close> come from \<open>random.Random(f"{short}:replay-v1")\<close>.\<close>

definition rdevice_fields ::
    "netcfg \<Rightarrow> (nat \<Rightarrow> real) \<Rightarrow> nat \<Rightarrow> string \<Rightarrow> rmodel \<Rightarrow> string \<Rightarrow> string \<Rightarrow> string option \<Rightarrow> rdevice" where
  "rdevice_fields cfg draw mac_draw sh m rl loc par =
     \<lparr>short = sh, uptime_offset = 87 * 86400, sys_descr = [], sys_objectid = [], location = loc,
      incident = False, role = rl, parent = par, ifaces = [], dev_state = ds_init (cfg_start cfg),
      rd_model = m, rate_jit = uniform 0.7 1.3 (draw 0), uptime_extra = uniform 0 120 (draw 1) * 86400,
      rd_phase = uniform 0 6.28 (draw 2), mac_off = mac_draw, ident = Map.empty\<rparr>"

definition rdevice_init ::
    "renv \<Rightarrow> (nat \<Rightarrow> real) \<Rightarrow> nat \<Rightarrow> string \<Rightarrow> rmodel \<Rightarrow> string \<Rightarrow> string \<Rightarrow> string option \<Rightarrow> (sim, rdevice) state" where
  "rdevice_init e draw mac_draw sh m rl loc par =
     (let d = rdevice_fields (e_cfg e) draw mac_draw sh m rl loc par
      in do { rd_counters e d (seeds m); State_Monad.return d })"

subsection \<open>Rendering\<close>

text \<open>
  Rendering may raise (a service tag that is no base-36 number): an action returns a result and the
  state it left, also when it raised.
\<close>

record rst =
  rs_sim :: sim
  rs_ident :: "string \<rightharpoonup> string"
  rs_sampled :: "string \<rightharpoonup> int"

type_synonym 'a act = "rst \<Rightarrow> 'a res \<times> rst"

definition retA :: "'a \<Rightarrow> 'a act" where
  "retA x s = (Inr x, s)"

definition bindA :: "'a act \<Rightarrow> ('a \<Rightarrow> 'b act) \<Rightarrow> 'b act" where
  "bindA m f s = (case m s of (Inl e, s') \<Rightarrow> (Inl e, s') | (Inr x, s') \<Rightarrow> f x s')"

definition liftS :: "(sim, 'a) state \<Rightarrow> 'a act" where
  "liftS m s = (let (x, sim') = run_state m (rs_sim s) in (Inr x, s\<lparr>rs_sim := sim'\<rparr>))"

fun mapA :: "('b \<Rightarrow> 'a act) \<Rightarrow> 'b list \<Rightarrow> 'a list act" where
  "mapA f [] = retA []"
| "mapA f (x # xs) = bindA (f x) (\<lambda>y. bindA (mapA f xs) (\<lambda>ys. retA (y # ys)))"

text \<open>\<open>low.to_bytes(3, "big")\<close>\<close>

definition bytes3 :: "nat \<Rightarrow> bytes" where
  "bytes3 n = [word_of_nat (n div 65536), word_of_nat (n div 256), word_of_nat n]"

definition shifted_mac :: "nat \<Rightarrow> string \<Rightarrow> string" where
  "shifted_mac off recorded =
     (let raw = (case parse_hex_value recorded of Some r \<Rightarrow> if r = [] then replicate 6 0 else r | None \<Rightarrow> replicate 6 0);
          low = (be_val (drop 3 raw) + off) mod 2 ^ 24
      in hex_bytes (take 3 raw @ bytes3 low))"

definition new_identity :: "renv \<Rightarrow> rdevice \<Rightarrow> skind \<Rightarrow> string \<Rightarrow> string res" where
  "new_identity e d kind recorded =
     (if kind = Ifmac then Inr (shifted_mac (mac_off d) recorded)
      else if kind = Svccode
      then (case dell_svctag (rd_model d) of
              None \<Rightarrow> Inr recorded
            | Some tag \<Rightarrow> if tag = [] then Inr recorded
                          else bindR (int_base 36 (mutate_serial (e_pick e) (short d) tag)) (\<lambda>n. Inr (int_str n)))
      else Inr (mutate_serial (e_pick e) (short d) recorded))"

definition identity :: "renv \<Rightarrow> rdevice \<Rightarrow> skind \<Rightarrow> string \<Rightarrow> string \<Rightarrow> string act" where
  "identity e d kind oid recorded s =
     (case rs_ident s oid of
        Some v \<Rightarrow> (Inr v, s)
      | None \<Rightarrow> (case new_identity e d kind recorded of
                   Inl err \<Rightarrow> (Inl err, s)
                 | Inr v \<Rightarrow> (Inr v, s\<lparr>rs_ident := (rs_ident s)(oid \<mapsto> v)\<rparr>)))"

definition DYNAMIC_KINDS :: "skind set" where
  "DYNAMIC_KINDS = {Uptime, Hrcpu, Apcdate, Ctr32, Ctr64}"

definition sampled_value :: "renv \<Rightarrow> rdevice \<Rightarrow> string \<Rightarrow> int \<Rightarrow> int act" where
  "sampled_value e d key rec s =
     (case rs_sampled s key of
        Some v \<Rightarrow> (Inr v, s)
      | None \<Rightarrow>
          bindA (liftS (do { rd_counter e d key rec;
                             sample (rd_counter_name d key)
                               ((case rates (rd_model d) key of Some r \<Rightarrow> r | None \<Rightarrow> 0) * rate_jit d)
                               (caps (rd_model d) key) }))
            (\<lambda>v s. (Inr v, s\<lparr>rs_sampled := (rs_sampled s)(key \<mapsto> v)\<rparr>)) s)"

definition slot_value :: "renv \<Rightarrow> rdevice \<Rightarrow> skind \<Rightarrow> string \<Rightarrow> string \<Rightarrow> int \<Rightarrow> real \<Rightarrow> real \<Rightarrow> string act" where
  "slot_value e d kind oid key rec elapsed now =
     (case kind of
        Sysname \<Rightarrow> retA (fqdn (e_cfg e) d)
      | Syslocation \<Rightarrow> retA (location d)
      | Uptime \<Rightarrow> retA (int_str (py_trunc (of_int rec + elapsed * 100) mod U32))
      | Hrcpu \<Rightarrow> bindA (liftS (gauge (short d @ ''.hrcpu.'' @ key) (of_int rec) (Some 3) None (rd_phase d) 900))
                   (\<lambda>v. retA (int_str (max 1 (min 97 (py_round v)))))
      | Apcdate \<Rightarrow> retA (cfg_date (e_cfg e) (now - 37 * 86400))
      | Ctr32 \<Rightarrow> bindA (sampled_value e d key rec) (\<lambda>v. retA (int_str (v mod U32)))
      | Ctr64 \<Rightarrow> bindA (sampled_value e d key rec) (\<lambda>v. retA (int_str v))
      | _ \<Rightarrow> identity e d kind oid key)"

definition seg_text :: "renv \<Rightarrow> rdevice \<Rightarrow> real \<Rightarrow> real \<Rightarrow> segment \<Rightarrow> string act" where
  "seg_text e d elapsed now seg =
     (case seg of
        Static t \<Rightarrow> retA t
      | Slot kind oid key rec \<Rightarrow>
          bindA (slot_value e d kind oid key rec elapsed now) (\<lambda>v. retA (walk_line (oid, v))))"

definition rd_elapsed :: "renv \<Rightarrow> rdevice \<Rightarrow> real \<Rightarrow> real" where
  "rd_elapsed e d now = now - cfg_start (e_cfg e) + uptime_extra d"

text \<open>\<open>walk\<close> and \<open>dynamic_rows\<close>: the result, the environment and the instance with its identity cache.\<close>

definition rendering :: "'a act \<Rightarrow> rdevice \<Rightarrow> sim \<Rightarrow> 'a res \<times> sim \<times> rdevice" where
  "rendering act d s =
     (let (r, st) = act \<lparr>rs_sim = s, rs_ident = ident d, rs_sampled = Map.empty\<rparr>
      in (r, rs_sim st, d\<lparr>ident := rs_ident st\<rparr>))"

definition rd_walk :: "renv \<Rightarrow> rdevice \<Rightarrow> real \<Rightarrow> sim \<Rightarrow> string res \<times> sim \<times> rdevice" where
  "rd_walk e d now =
     rendering (bindA (mapA (seg_text e d (rd_elapsed e d now) now) (segments (rd_model d)))
       (\<lambda>parts. retA (concat parts))) d"

definition dynamic_slots :: "segment list \<Rightarrow> (skind \<times> string \<times> string \<times> int) list" where
  "dynamic_slots segs = concat (map (\<lambda>seg. case seg of Static _ \<Rightarrow> []
     | Slot kind oid key rec \<Rightarrow> if kind \<in> DYNAMIC_KINDS then [(kind, oid, key, rec)] else []) segs)"

definition rd_dynamic_rows :: "renv \<Rightarrow> rdevice \<Rightarrow> real \<Rightarrow> sim \<Rightarrow> row list res \<times> sim \<times> rdevice" where
  "rd_dynamic_rows e d now =
     rendering (mapA (\<lambda>(kind, oid, key, rec).
         bindA (slot_value e d kind oid key rec (rd_elapsed e d now) now) (\<lambda>v. retA (oid, v)))
       (dynamic_slots (segments (rd_model d)))) d"


section \<open>A model keeps every row of its file\<close>

text \<open>The segments spell out the rows in order: runs of rows as text, and slots; a slot that carries a
  recorded identity carries characters of the recorded value.\<close>

definition ID_KINDS :: "skind set" where
  "ID_KINDS = {Serial, Svctag, Svccode}"

inductive seg_of :: "row list \<Rightarrow> segment list \<Rightarrow> bool" where
  nil: "seg_of [] []"
| static: "seg_of rows segs \<Longrightarrow> seg_of (block @ rows) (Static (concat (map walk_line block)) # segs)"
| slot: "seg_of rows segs \<Longrightarrow> oid \<noteq> [] \<Longrightarrow> (kind \<in> ID_KINDS \<longrightarrow> set key \<subseteq> set v) \<Longrightarrow> seg_of ((oid, v) # rows) (Slot kind oid key rec # segs)"

lemma seg_of_append: "seg_of rows segs \<Longrightarrow> seg_of rows' segs' \<Longrightarrow> seg_of (rows @ rows') (segs @ segs')"
  by (induction rule: seg_of.induct) (auto intro: seg_of.intros)

lemma seg_of_flush: "seg_of block (flush (map walk_line block))"
  using seg_of.static [OF seg_of.nil, of block] by (cases block) (auto simp: flush_def intro: seg_of.nil)

lemma noted_slot:
  "noted kind oid key vl i m = Inr (s, m') \<Longrightarrow> \<exists>rec. s = Some (Slot kind oid key rec) \<and> segments m' = segments m"
  by (auto simp: noted_def bindR_eq_Inr note_counter_def Let_def split: option.splits prod.splits if_splits)

definition slot_result :: "string \<Rightarrow> string \<Rightarrow> rmodel \<Rightarrow> (segment option \<times> rmodel) res \<Rightarrow> bool" where
  "slot_result oid vl m r \<longleftrightarrow> (case r of Inl _ \<Rightarrow> True | Inr (s, m') \<Rightarrow> segments m' = segments m
     \<and> (s = None \<or> (\<exists>kind key rec. s = Some (Slot kind oid key rec) \<and> (kind \<in> ID_KINDS \<longrightarrow> set key \<subseteq> set vl))))"

lemma slot_result_simps:
  "slot_result oid vl m (Inr (None, m))"
  "kind \<notin> ID_KINDS \<or> set key \<subseteq> set vl \<Longrightarrow> slot_result oid vl m (Inr (Some (Slot kind oid key rec), m))"
  "set key \<subseteq> set vl \<Longrightarrow> slot_result oid vl m (Inr (Some (Slot kind oid key rec), if b then m\<lparr>dell_svctag := z\<rparr> else m))"
  by (auto simp: slot_result_def)

lemma slot_result_bind:
  "kind \<notin> ID_KINDS \<Longrightarrow> slot_result oid vl m (bindR x (\<lambda>v. Inr (Some (Slot kind oid key (g v)), m)))"
  by (cases x) (simp_all add: slot_result_def)

lemma slot_result_noted: "kind \<notin> ID_KINDS \<Longrightarrow> slot_result oid vl m (noted kind oid key vl i m)"
proof (cases "noted kind oid key vl i m")
  case (Inr r)
  assume k: "kind \<notin> ID_KINDS"
  obtain s m' where r: "r = (s, m')" by (cases r)
  from noted_slot [OF Inr [unfolded r]] k show ?thesis by (auto simp: Inr r slot_result_def)
qed (simp add: slot_result_def)

lemmas slot_result_intros = slot_result_simps slot_result_bind slot_result_noted

lemma kinds_not_id [simp]:
  "Sysname \<notin> ID_KINDS" "Syslocation \<notin> ID_KINDS" "Uptime \<notin> ID_KINDS" "Hrcpu \<notin> ID_KINDS" "Ctr32 \<notin> ID_KINDS"
  "Ctr64 \<notin> ID_KINDS" "Apcdate \<notin> ID_KINDS" "Ifmac \<notin> ID_KINDS"
  by (simp_all add: ID_KINDS_def)

lemma set_strip: "set (strip v) \<subseteq> set v"
  by (auto simp: strip_def strip_by_def dest!: set_dropWhileD)

lemma classify_tail_slot: "slot_result oid vl m (classify_tail oid vl m)"
  unfolding classify_tail_def Let_def by (simp add: slot_result_intros)

lemma classify_slot: "slot_result oid vl m (classify oid vl m)"
  unfolding classify_def by (simp add: slot_result_intros classify_tail_slot set_strip del: if_split split: if_split)

lemma classify_empty: "classify [] vl m = Inr (None, m)"
  by (simp add: classify_def classify_tail_def startswith_def UPTIME_OID_def HRUPTIME_OID_def HP_CPU_OID_def
      APC_DIAG_DATE_OID_def IFMAC_PREFIX_def ENT_SERIAL_PREFIX_def DELL_SVCTAG_PREFIXES_def
      DELL_SVCCODE_PREFIX_def HRCPU_PREFIX_def PAGES_PREFIX_def)

lemma split_rows_segs:
  assumes "split_rows rows (map walk_line block) m = Inr m'"
  shows "\<exists>segs. segments m' = segments m @ segs \<and> seg_of (block @ rows) segs"
  using assms
proof (induction rows arbitrary: block m)
  case Nil
  then show ?case using seg_of_flush [of block] by auto
next
  case (Cons r rows)
  obtain oid vl where r: "r = (oid, vl)" by (cases r)
  from Cons.prems obtain s m1 where c: "classify oid vl m = Inr (s, m1)"
    and n: "(case s of None \<Rightarrow> split_rows rows (map walk_line block @ [walk_line (oid, vl)]) m1
       | Some s \<Rightarrow> split_rows rows [] (m1\<lparr>segments := segments m1 @ flush (map walk_line block) @ [s]\<rparr>)) = Inr m'"
    by (auto simp: r bindR_eq_Inr)
  have sg: "segments m1 = segments m" and sl: "s = None \<or> (\<exists>kind key rec. s = Some (Slot kind oid key rec) \<and> (kind \<in> ID_KINDS \<longrightarrow> set key \<subseteq> set vl))"
    using classify_slot [of oid vl m] by (auto simp: c slot_result_def)
  show ?case
  proof (cases s)
    case None
    with n have "split_rows rows (map walk_line (block @ [(oid, vl)])) m1 = Inr m'" by simp
    from Cons.IH [OF this] sg show ?thesis by (simp add: r)
  next
    case (Some x)
    with sl obtain kind key rec where x: "x = Slot kind oid key rec" "kind \<in> ID_KINDS \<longrightarrow> set key \<subseteq> set vl" by blast
    have ne: "oid \<noteq> []" using c Some classify_empty [of vl m] by auto
    from n Some have "split_rows rows (map walk_line []) (m1\<lparr>segments := segments m1 @ flush (map walk_line block) @ [x]\<rparr>) = Inr m'"
      by simp
    from Cons.IH [OF this] obtain segs where
      segs: "segments m' = (segments m1 @ flush (map walk_line block) @ [x]) @ segs" "seg_of rows segs" by auto
    have "seg_of (block @ (oid, vl) # rows) (flush (map walk_line block) @ x # segs)"
      unfolding x(1) by (rule seg_of_append [OF seg_of_flush seg_of.slot [OF segs(2) ne x(2)]])
    with segs(1) sg show ?thesis by (simp add: r)
  qed
qed

lemma scan_rates_segs: "scan_rates rows m = Inr m' \<Longrightarrow> segments m' = segments m"
proof (induction rows arbitrary: m)
  case (Cons r rows)
  obtain oid vl where r: "r = (oid, vl)" by (cases r)
  from Cons.prems obtain m1 where "scan_rates rows m1 = Inr m'" "segments m1 = segments m"
    by (auto simp: r bindR_eq_Inr put_max_def split: if_splits)
  with Cons.IH [of m1] show ?case by simp
qed simp

lemma model_init_segs:
  assumes "model_init lines = Inr m"
  shows "seg_of (map (partition_at (CHR '' '')) lines) (segments m)"
proof -
  obtain m1 where m1: "scan_rates (map (partition_at (CHR '' '')) lines) empty_model = Inr m1"
    and m: "split_rows (map (partition_at (CHR '' '')) lines) (map walk_line []) m1 = Inr m"
    using assms by (auto simp: model_init_def Let_def bindR_eq_Inr)
  have "segments m1 = []" using scan_rates_segs [OF m1] by (simp add: empty_model_def)
  with split_rows_segs [OF m] show ?thesis by simp
qed

section \<open>Rendering a model\<close>

lemma bindA_Inr: "bindA m f s = (Inr y, s'') \<longleftrightarrow> (\<exists>x s'. m s = (Inr x, s') \<and> f x s' = (Inr y, s''))"
  by (auto simp: bindA_def split: prod.splits sum.splits)

lemma retA_Inr: "retA x s = (Inr y, s') \<longleftrightarrow> y = x \<and> s' = s"
  by (auto simp: retA_def)

lemma mapA_all2:
  assumes "\<And>x s y s'. x \<in> set xs \<Longrightarrow> I s \<Longrightarrow> f x s = (Inr y, s') \<Longrightarrow> P x y \<and> I s'"
    and "I s" and "mapA f xs s = (Inr ys, s')"
  shows "list_all2 P xs ys \<and> I s'"
  using assms
proof (induction xs arbitrary: s ys)
  case (Cons x xs)
  then obtain y s1 ys1 where y: "f x s = (Inr y, s1)" "mapA f xs s1 = (Inr ys1, s')" "ys = y # ys1"
    by (auto simp: bindA_Inr retA_def)
  have p: "P x y \<and> I s1" using Cons.prems(1) [OF _ Cons.prems(2) y(1)] by simp
  have "list_all2 P xs ys1 \<and> I s'"
  proof (rule Cons.IH [OF _ _ y(2)])
    show "I s1" using p ..
  qed (use Cons.prems(1) in auto)
  with p y(3) show ?case by simp
qed (simp add: retA_def)

lemma mapA_total:
  assumes "\<And>x s. x \<in> set xs \<Longrightarrow> \<exists>y s'. f x s = (Inr y, s')"
  shows "\<exists>ys s'. mapA f xs s = (Inr ys, s')"
  using assms
proof (induction xs arbitrary: s)
  case (Cons x xs)
  obtain y s1 where y: "f x s = (Inr y, s1)" using Cons.prems by (metis list.set_intros(1))
  obtain ys s2 where "mapA f xs s1 = (Inr ys, s2)" using Cons by (metis list.set_intros(2))
  with y show ?case by (auto simp: bindA_def retA_def)
qed (simp add: retA_def)

text \<open>The rows a rendering spells, for values with a property \<open>Q\<close>.\<close>

lemma seg_of_rendered:
  assumes "seg_of rows segs"
    and "list_all2 (\<lambda>seg p. case seg of Static t \<Rightarrow> p = t | Slot _ oid _ _ \<Rightarrow> \<exists>v. Q v \<and> p = walk_line (oid, v)) segs parts"
  shows "\<exists>rows'. concat parts = concat (map walk_line rows') \<and> map fst rows' = map fst rows
    \<and> set rows' \<subseteq> set rows \<union> {r. Q (snd r)}"
  using assms
proof (induction arbitrary: parts rule: seg_of.induct)
  case (static rows segs block)
  then obtain parts' where p: "parts = concat (map walk_line block) # parts'"
    and l: "list_all2 (\<lambda>seg p. case seg of Static t \<Rightarrow> p = t | Slot _ oid _ _ \<Rightarrow> \<exists>v. Q v \<and> p = walk_line (oid, v)) segs parts'"
    by (auto simp: list_all2_Cons1)
  obtain rows' where "concat parts' = concat (map walk_line rows')" "map fst rows' = map fst rows"
    "set rows' \<subseteq> set rows \<union> {r. Q (snd r)}" using static.IH [OF l] by blast
  then show ?case using p by (intro exI [of _ "block @ rows'"]) auto
next
  case (slot rows segs oid v kind key rec)
  then obtain parts' w where p: "parts = walk_line (oid, w) # parts'" "Q w"
    and l: "list_all2 (\<lambda>seg p. case seg of Static t \<Rightarrow> p = t | Slot _ oid _ _ \<Rightarrow> \<exists>v. Q v \<and> p = walk_line (oid, v)) segs parts'"
    by (auto simp: list_all2_Cons1)
  obtain rows' where "concat parts' = concat (map walk_line rows')" "map fst rows' = map fst rows"
    "set rows' \<subseteq> set rows \<union> {r. Q (snd r)}" using slot.IH [OF l] by blast
  then show ?case using p by (intro exI [of _ "(oid, w) # rows'"]) auto
qed simp

lemma dynamic_slots_oids: "seg_of rows segs \<Longrightarrow> (kind, oid, key, rec) \<in> set (dynamic_slots segs)
    \<Longrightarrow> oid \<noteq> [] \<and> oid \<in> fst ` set rows \<and> kind \<in> DYNAMIC_KINDS"
  by (induction rule: seg_of.induct) (auto simp: dynamic_slots_def split: if_splits)


section \<open>Reading a rendered walk back\<close>

text \<open>\<open>str.splitlines()\<close> on Latin-1 text, and the rows the SNMP transport builds a table from.\<close>

definition line_break :: "char \<Rightarrow> bool" where
  "line_break c \<longleftrightarrow> (of_char c :: nat) \<in> {10, 11, 12, 13, 28, 29, 30, 133}"

fun lines_of :: "string \<Rightarrow> string \<Rightarrow> string list" where
  "lines_of cur [] = (if cur = [] then [] else [cur])"
| "lines_of cur (c # s) =
     (if c = CHR 13 \<and> startswith s [CHR 10] then cur # lines_of [] (drop 1 s)
      else if line_break c then cur # lines_of [] s
      else lines_of (cur @ [c]) s)"

definition walk_rows :: "string \<Rightarrow> row list" where
  "walk_rows text = filter (\<lambda>(oid, _). oid \<noteq> []) (map (partition_at (CHR '' '')) (lines_of [] text))"

definition clean :: "string \<Rightarrow> bool" where
  "clean s \<longleftrightarrow> (\<forall>c \<in> set s. \<not> line_break c)"

lemma clean_append [simp]: "clean (a @ b) \<longleftrightarrow> clean a \<and> clean b"
  by (auto simp: clean_def)

lemma clean_subset: "set a \<subseteq> set b \<Longrightarrow> clean b \<Longrightarrow> clean a"
  by (auto simp: clean_def)

lemma lines_of_line: "clean l \<Longrightarrow> lines_of cur (l @ CHR 10 # s) = (cur @ l) # lines_of [] s"
proof (induction l arbitrary: cur)
  case (Cons c l)
  then have "\<not> line_break c" "c \<noteq> CHR 13" by (auto simp: clean_def line_break_def)
  with Cons show ?case by (simp add: clean_def)
qed (simp add: line_break_def)

definition row_ok :: "row \<Rightarrow> bool" where
  "row_ok r \<longleftrightarrow> clean (fst r) \<and> clean (snd r) \<and> CHR '' '' \<notin> set (fst r)"

lemma walk_rows_text:
  assumes "\<forall>r \<in> set rows. row_ok r"
  shows "walk_rows (concat (map walk_line rows)) = filter (\<lambda>r. fst r \<noteq> []) rows"
  using assms
proof (induction rows)
  case (Cons r rows)
  then have r: "clean (fst r @ '' '' @ snd r)" "CHR '' '' \<notin> set (fst r)"
    by (auto simp: row_ok_def clean_def line_break_def)
  have l: "lines_of [] (concat (map walk_line (r # rows)))
      = (fst r @ '' '' @ snd r) # lines_of [] (concat (map walk_line rows))"
    using lines_of_line [OF r(1), of "[]" "concat (map walk_line rows)"] by (simp add: walk_line_def)
  have "partition_at (CHR '' '') (fst r @ '' '' @ snd r) = r"
    using partition_at_first [OF r(2), of "snd r"] by simp
  with Cons show ?case unfolding walk_rows_def l by (simp add: case_prod_unfold)
qed (simp add: walk_rows_def)

lemma int_str_chars: "c \<in> set (int_str i) \<Longrightarrow> digit_char c \<or> c = CHR ''-''"
  by (auto simp: int_str_def dest: nat_str_chars split: if_splits)

lemma clean_int_str: "clean (int_str i)"
  by (auto simp: clean_def line_break_def digit_char_def dest!: int_str_chars)

lemma clean_hex_bytes: "clean (hex_bytes raw)"
proof -
  have h: "\<not> line_break (hex_upper n)" if "n < 16" for n
    using that by (simp add: line_break_def hex_upper_code)
  have "clean (byte_hex b)" for b
    using h byte_div16 [of b] by (simp add: clean_def byte_hex_def) (simp add: line_break_def)
  then have "clean (concat (map byte_hex raw))" by (induction raw) (simp_all, simp add: clean_def)
  then show ?thesis by (simp add: hex_bytes_def) (simp add: clean_def line_break_def)
qed

text \<open>What a value of an instance needs to be one line: its own names, the date, the generator.\<close>

definition env_ok :: "renv \<Rightarrow> rdevice \<Rightarrow> bool" where
  "env_ok e d \<longleftrightarrow> clean (fqdn (e_cfg e) d) \<and> clean (location d) \<and> (\<forall>t. clean (cfg_date (e_cfg e) t))
     \<and> (\<forall>seed i a. a \<noteq> [] \<longrightarrow> e_pick e seed i a \<in> set a) \<and> (\<forall>v \<in> ran (ident d). clean v)"

lemma alphabets:
  "list_all digit_char ''0123456789''"
  "list_all is_upper ''ABCDEFGHJKLMNPQRSTUVWXYZ''"
  "list_all is_lower ''abcdefghjkmnpqrstuvwxyz''"
  by code_simp+

lemma char_classes:
  "digit_char c \<Longrightarrow> \<not> is_upper c" "is_lower c \<Longrightarrow> \<not> is_upper c" "is_lower c \<Longrightarrow> \<not> digit_char c"
  "is_upper c \<Longrightarrow> \<not> digit_char c"
  by (auto simp: digit_char_def is_upper_def is_lower_def)

text \<open>A rewritten character keeps its class, and only letters and digits are rewritten.\<close>

definition same_class :: "char \<Rightarrow> char \<Rightarrow> bool" where
  "same_class a b \<longleftrightarrow> digit_char a = digit_char b \<and> is_upper a = is_upper b \<and> is_alnum a = is_alnum b
     \<and> (is_alnum a \<or> a = b)"

definition same_format :: "string \<Rightarrow> string \<Rightarrow> bool" where
  "same_format a b \<longleftrightarrow> list_all2 same_class a b"

lemma class_alphabet_class:
  assumes "x \<in> set (class_alphabet c)" and "is_alnum c"
  shows "same_class c x"
proof -
  note al = alphabets [unfolded list_all_iff]
  consider "digit_char c" | "is_upper c" "\<not> digit_char c" | "is_lower c" "\<not> digit_char c" "\<not> is_upper c"
    using assms(2) by (auto simp: is_alnum_def)
  then show ?thesis
  proof cases
    case 1
    then have "digit_char x" using assms(1) al(1) by (simp only: class_alphabet_def if_True)
    with 1 show ?thesis using char_classes(1) by (simp add: same_class_def is_alnum_def)
  next
    case 2
    then have "is_upper x" using assms(1) al(2) by (simp only: class_alphabet_def if_True if_False)
    with 2 show ?thesis using char_classes(4) by (simp add: same_class_def is_alnum_def)
  next
    case 3
    then have "is_lower x" using assms(1) al(3) by (simp only: class_alphabet_def if_True if_False)
    with 3 show ?thesis using char_classes(2,3) by (simp add: same_class_def is_alnum_def)
  qed
qed

lemma class_alphabet_ne: "class_alphabet c \<noteq> []"
  by (simp add: class_alphabet_def)

lemma same_format_refl: "same_format a a"
  by (auto simp: same_format_def same_class_def intro: list_all2_refl)

lemma same_format_trans: "same_format a b \<Longrightarrow> same_format b c \<Longrightarrow> same_format a c"
  unfolding same_format_def by (rule list_all2_trans [of same_class same_class]) (auto simp: same_class_def)

lemma same_format_update: "same_class (a ! i) x \<Longrightarrow> same_format a (a[i := x])"
  using list_all2_update_cong [of same_class a a "a ! i" x i] same_format_refl [of a]
  by (simp add: same_format_def)

lemma same_formatD: "same_format a b \<Longrightarrow> length b = length a \<and> (\<forall>i < length a. same_class (a ! i) (b ! i))"
  by (auto simp: same_format_def list_all2_conv_all_nth)

lemma mutate_format:
  assumes "\<forall>seed i a. a \<noteq> [] \<longrightarrow> pick seed i a \<in> set a"
  shows "same_format v (mutate_serial pick sh v)"
proof -
  have al: "\<forall>i \<in> set (last_alnum v). is_alnum (v ! i) \<and> i < length v"
    by (auto simp: last_alnum_def Let_def dest!: in_set_dropD)
  have step: "same_format v (fold (\<lambda>(k, i) chars. chars[i := pick seed k (class_alphabet (chars ! i))]) ps w)"
    if "same_format v w" "\<forall>(k, i) \<in> set ps. is_alnum (v ! i) \<and> i < length v" for ps w seed
    using that
  proof (induction ps arbitrary: w)
    case (Cons p ps)
    obtain k i where p: "p = (k, i)" by (cases p)
    have "same_class (v ! i) (w ! i)" "is_alnum (v ! i)"
      using Cons.prems p same_formatD by fastforce+
    then have "is_alnum (w ! i)" by (simp add: same_class_def)
    moreover have "pick seed k (class_alphabet (w ! i)) \<in> set (class_alphabet (w ! i))"
      using assms class_alphabet_ne by blast
    ultimately have "same_format w (w[i := pick seed k (class_alphabet (w ! i))])"
      by (intro same_format_update class_alphabet_class)
    with Cons.prems have "same_format v (w[i := pick seed k (class_alphabet (w ! i))])"
      using same_format_trans by blast
    with Cons p show ?case by simp
  qed simp
  have "\<forall>(k, i) \<in> set (enumerate 0 (last_alnum v)). is_alnum (v ! i) \<and> i < length v"
    using al by (auto simp: in_set_enumerate_eq)
  then show ?thesis unfolding mutate_serial_def Let_def by (intro step same_format_refl)
qed

lemma alnum_no_break: "is_alnum c \<Longrightarrow> \<not> line_break c"
  by (auto simp: is_alnum_def digit_char_def is_upper_def is_lower_def line_break_def)

lemma clean_format:
  assumes "same_format a b" and "clean a"
  shows "clean b"
  unfolding clean_def
proof
  fix c assume "c \<in> set b"
  then obtain i where i: "i < length b" "c = b ! i" by (auto simp: in_set_conv_nth)
  then have "same_class (a ! i) c" "a ! i \<in> set a" using same_formatD [OF assms(1)] by auto
  then show "\<not> line_break c" using assms(2) alnum_no_break by (auto simp: same_class_def clean_def)
qed


section \<open>Values of a rendering\<close>

lemma liftS_eq: "liftS m s = (Inr (fst (run_state m (rs_sim s))), s\<lparr>rs_sim := snd (run_state m (rs_sim s))\<rparr>)"
  by (simp add: liftS_def case_prod_unfold Let_def)

lemma sampled_value_total:
  "\<exists>v s'. sampled_value e d key rec s = (Inr v, s') \<and> rs_ident s' = rs_ident s
     \<and> rs_sampled s' = (rs_sampled s)(key \<mapsto> v)"
proof (cases "rs_sampled s key")
  case None
  then show ?thesis by (simp add: sampled_value_def bindA_def liftS_eq)
next
  case (Some v)
  then have "(rs_sampled s)(key \<mapsto> v) = rs_sampled s" by (auto simp: fun_upd_def)
  with Some show ?thesis by (simp add: sampled_value_def)
qed

text \<open>The dynamic kinds never raise and never touch the identity cache.\<close>

lemma dynamic_slot_total:
  assumes "kind \<in> DYNAMIC_KINDS"
  shows "\<exists>v s'. slot_value e d kind oid key rec el now s = (Inr v, s') \<and> rs_ident s' = rs_ident s"
proof (cases "kind = Ctr32 \<or> kind = Ctr64")
  case True
  obtain v s' where "sampled_value e d key rec s = (Inr v, s')" "rs_ident s' = rs_ident s"
    using sampled_value_total by metis
  with True show ?thesis by (auto simp: slot_value_def bindA_def retA_def)
next
  case False
  then show ?thesis
    using assms by (auto simp: DYNAMIC_KINDS_def slot_value_def bindA_def retA_def liftS_eq)
qed

lemma identity_clean:
  assumes "env_ok e d" and "\<forall>v \<in> ran (rs_ident s). clean v" and "kind \<in> ID_KINDS \<longrightarrow> clean key"
    and "kind \<in> {Ifmac, Serial, Svctag, Svccode}"
    and "identity e d kind oid key s = (Inr v, s')" and "kind = Svccode \<Longrightarrow> clean key"
  shows "clean v \<and> (\<forall>v \<in> ran (rs_ident s'). clean v)"
proof (cases "rs_ident s oid")
  case None
  then have n: "new_identity e d kind key = Inr v" and s': "s' = s\<lparr>rs_ident := (rs_ident s)(oid \<mapsto> v)\<rparr>"
    using assms(5) by (auto simp: identity_def split: sum.splits)
  have pick: "\<forall>seed i a. a \<noteq> [] \<longrightarrow> e_pick e seed i a \<in> set a" using assms(1) by (simp add: env_ok_def)
  have "clean v"
  proof (cases "kind = Ifmac")
    case True
    then show ?thesis using n clean_hex_bytes by (auto simp: new_identity_def shifted_mac_def Let_def)
  next
    case False
    then have key: "clean key" using assms(3,4) by (auto simp: ID_KINDS_def)
    show ?thesis
    proof (cases "kind = Svccode")
      case True
      then show ?thesis using n key clean_int_str
        by (auto simp: new_identity_def bindR_eq_Inr split: option.splits if_splits)
    next
      case other: False
      with False have "v = mutate_serial (e_pick e) (short d) key" using n by (simp add: new_identity_def)
      then show ?thesis using clean_format [OF mutate_format [OF pick] key] by simp
    qed
  qed
  then show ?thesis using assms(2) by (auto simp: s' ran_def)
next
  case (Some w)
  then have "v = w" "s' = s" using assms(5) by (auto simp: identity_def)
  with Some assms(2) show ?thesis by (auto simp: ran_def)
qed

lemma slot_value_clean:
  assumes "env_ok e d" and "\<forall>v \<in> ran (rs_ident s). clean v" and "kind \<in> ID_KINDS \<longrightarrow> clean key"
    and "slot_value e d kind oid key rec el now s = (Inr v, s')"
  shows "clean v \<and> (\<forall>v \<in> ran (rs_ident s'). clean v)"
proof (cases "kind \<in> {Ifmac, Serial, Svctag, Svccode}")
  case True
  then have "identity e d kind oid key s = (Inr v, s')" using assms(4) by (auto simp: slot_value_def)
  with identity_clean [OF assms(1-3) True] assms(3) show ?thesis by (auto simp: ID_KINDS_def)
next
  case False
  have "clean v"
    using assms(1,4) False clean_int_str
    by (cases kind) (auto simp: slot_value_def bindA_Inr retA_def env_ok_def)
  moreover have "rs_ident s' = rs_ident s"
  proof (cases "kind \<in> DYNAMIC_KINDS")
    case True
    from dynamic_slot_total [OF this, of e d oid key rec el now s] assms(4) show ?thesis by auto
  next
    case notdyn: False
    with False assms(4) show ?thesis by (cases kind) (auto simp: DYNAMIC_KINDS_def slot_value_def retA_def)
  qed
  ultimately show ?thesis using assms(2) by simp
qed

lemma seg_of_id_keys:
  "seg_of rows segs \<Longrightarrow> \<forall>r \<in> set rows. clean (snd r) \<Longrightarrow> Slot kind oid key rec \<in> set segs \<Longrightarrow> kind \<in> ID_KINDS \<Longrightarrow> clean key"
  by (induction rule: seg_of.induct) (auto intro: clean_subset)

text \<open>A rendered walk has the rows of the recorded file, with new values in the slots only.\<close>

lemma rd_walk_rows:
  assumes "model_init lines = Inr (rd_model d)" and "\<forall>l \<in> set lines. clean l" and "env_ok e d"
    and "rd_walk e d now s = (Inr text, rest)"
  shows "\<exists>rows'. walk_rows text = filter (\<lambda>r. fst r \<noteq> []) rows'
    \<and> map fst rows' = map (fst \<circ> partition_at (CHR '' '')) lines"
proof -
  let ?rows = "map (partition_at (CHR '' '')) lines"
  let ?f = "seg_text e d (rd_elapsed e d now) now"
  let ?I = "\<lambda>st. \<forall>v \<in> ran (rs_ident st). clean v"
  let ?P = "\<lambda>seg p. case seg of Static t \<Rightarrow> p = t | Slot _ oid _ _ \<Rightarrow> \<exists>v. clean v \<and> p = walk_line (oid, v)"
  note so = model_init_segs [OF assms(1)]
  have rows: "\<forall>r \<in> set ?rows. row_ok r"
  proof
    fix r assume "r \<in> set ?rows"
    then obtain l where l: "l \<in> set lines" "r = partition_at (CHR '' '') l" by auto
    have "set (tl (dropWhile (\<lambda>x. x \<noteq> CHR '' '') l)) \<subseteq> set l" "set (takeWhile (\<lambda>x. x \<noteq> CHR '' '') l) \<subseteq> set l"
    proof -
      have "set (tl xs) \<subseteq> set xs" for xs :: string by (cases xs) auto
      moreover have "set (dropWhile P l) \<subseteq> set l" "set (takeWhile P l) \<subseteq> set l" for P
        by (auto dest: set_dropWhileD set_takeWhileD)
      ultimately show "set (tl (dropWhile (\<lambda>x. x \<noteq> CHR '' '') l)) \<subseteq> set l"
        "set (takeWhile (\<lambda>x. x \<noteq> CHR '' '') l) \<subseteq> set l" by blast+
    qed
    with l assms(2) show "row_ok r"
      by (auto simp: row_ok_def partition_at_def intro: clean_subset dest: set_takeWhileD)
  qed
  then have rc: "\<forall>r \<in> set ?rows. clean (snd r)" by (simp add: row_ok_def)
  obtain parts st where m: "mapA ?f (segments (rd_model d)) \<lparr>rs_sim = s, rs_ident = ident d, rs_sampled = Map.empty\<rparr> = (Inr parts, st)"
    and tx: "text = concat parts"
    using assms(4) by (auto simp: rd_walk_def rendering_def bindA_Inr retA_def Let_def split: prod.splits)
  have "list_all2 ?P (segments (rd_model d)) parts \<and> ?I st"
  proof (rule mapA_all2 [OF _ _ m, of ?I])
    fix seg s1 p s2 assume seg: "seg \<in> set (segments (rd_model d))" and i: "?I s1" and f: "?f seg s1 = (Inr p, s2)"
    show "?P seg p \<and> ?I s2"
    proof (cases seg)
      case (Static t)
      with f i show ?thesis by (simp add: seg_text_def retA_def)
    next
      case (Slot kind oid key rec)
      with f obtain v where v: "slot_value e d kind oid key rec (rd_elapsed e d now) now s1 = (Inr v, s2)"
        "p = walk_line (oid, v)" by (auto simp: seg_text_def bindA_Inr retA_def)
      have "kind \<in> ID_KINDS \<longrightarrow> clean key" using seg_of_id_keys [OF so rc] seg Slot by blast
      from slot_value_clean [OF assms(3) i this v(1)] v(2) Slot show ?thesis by auto
    qed
  qed (use assms(3) in \<open>simp add: env_ok_def\<close>)
  then have l: "list_all2 ?P (segments (rd_model d)) parts" ..
  obtain rows' where r: "concat parts = concat (map walk_line rows')" "map fst rows' = map fst ?rows"
    "set rows' \<subseteq> set ?rows \<union> {r. clean (snd r)}"
    using seg_of_rendered [OF so, of clean parts] l by (auto simp: case_prod_unfold)
  have "\<forall>r \<in> set rows'. row_ok r"
  proof
    fix r assume r': "r \<in> set rows'"
    then have "fst r \<in> fst ` set ?rows" using r(2) by (metis image_eqI set_map)
    then have "clean (fst r)" "CHR '' '' \<notin> set (fst r)" using rows by (auto simp: row_ok_def)
    moreover have "clean (snd r)" using r' r(3) rc by auto
    ultimately show "row_ok r" by (simp add: row_ok_def)
  qed
  from walk_rows_text [OF this] r show ?thesis by (auto simp: tx)
qed

lemma all2_map_fst: "list_all2 (\<lambda>x y. fst y = g x) xs ys \<Longrightarrow> map fst ys = map g xs"
  by (induction rule: list_all2_induct) auto

lemma rd_dynamic_total:
  "\<exists>dyn rest. rd_dynamic_rows e d now s = (Inr dyn, rest)
     \<and> map fst dyn = map (\<lambda>(kind, oid, key, rec). oid) (dynamic_slots (segments (rd_model d)))"
proof -
  let ?f = "\<lambda>(kind, oid, key, rec). bindA (slot_value e d kind oid key rec (rd_elapsed e d now) now) (\<lambda>v. retA (oid, v))"
  let ?xs = "dynamic_slots (segments (rd_model d))" and ?s = "\<lparr>rs_sim = s, rs_ident = ident d, rs_sampled = Map.empty\<rparr>"
  have k: "kind \<in> DYNAMIC_KINDS" if "(kind, oid, key, rec) \<in> set ?xs" for kind oid key rec
    using that by (auto simp: dynamic_slots_def split: segment.splits if_splits)
  have tot: "\<exists>y s'. ?f x s = (Inr y, s')" if "x \<in> set ?xs" for x s
  proof -
    obtain kind oid key rec where x: "x = (kind, oid, key, rec)" by (cases x)
    have "kind \<in> DYNAMIC_KINDS" using k that x by blast
    from dynamic_slot_total [OF this, of e d oid key rec "rd_elapsed e d now" now s]
    obtain v s' where "slot_value e d kind oid key rec (rd_elapsed e d now) now s = (Inr v, s')" by blast
    then show ?thesis by (simp add: x bindA_def retA_def)
  qed
  obtain ys s' where m: "mapA ?f ?xs ?s = (Inr ys, s')"
    using mapA_total [of ?xs ?f ?s, OF tot] by blast
  have "list_all2 (\<lambda>x y. fst y = (\<lambda>(kind, oid, key, rec). oid) x) ?xs ys \<and> True"
  proof (rule mapA_all2 [where I = "\<lambda>_. True", OF _ _ m])
    fix x s y s' assume f: "?f x s = (Inr y, s')"
    obtain kind oid key rec where x: "x = (kind, oid, key, rec)" by (cases x)
    from f show "fst y = (\<lambda>(kind, oid, key, rec). oid) x \<and> True" by (auto simp: x bindA_Inr retA_def)
  qed simp
  then have "map fst ys = map (\<lambda>(kind, oid, key, rec). oid) ?xs"
    using all2_map_fst by blast
  with m show ?thesis by (simp add: rd_dynamic_rows_def rendering_def)
qed


section \<open>One sample per key\<close>

lemma slot_sampled:
  assumes "slot_value e d kind oid key rec el now s = (Inr v, s')"
  shows "rs_sampled s \<subseteq>\<^sub>m rs_sampled s'"
    and "kind = Ctr32 \<Longrightarrow> \<exists>n. rs_sampled s' key = Some n \<and> v = int_str (n mod U32)"
    and "kind = Ctr64 \<Longrightarrow> \<exists>n. rs_sampled s' key = Some n \<and> v = int_str n"
proof -
  obtain n s1 where n: "sampled_value e d key rec s = (Inr n, s1)" "rs_sampled s1 = (rs_sampled s)(key \<mapsto> n)"
    "rs_sampled s key = None \<or> rs_sampled s key = Some n"
    using sampled_value_total [of e d key rec s] by (auto simp: sampled_value_def split: option.splits)
  show c32: "kind = Ctr32 \<Longrightarrow> \<exists>n. rs_sampled s' key = Some n \<and> v = int_str (n mod U32)"
    and c64: "kind = Ctr64 \<Longrightarrow> \<exists>n. rs_sampled s' key = Some n \<and> v = int_str n"
    using assms n by (auto simp: slot_value_def bindA_def retA_def)
  show "rs_sampled s \<subseteq>\<^sub>m rs_sampled s'"
  proof (cases "kind = Ctr32 \<or> kind = Ctr64")
    case True
    then have "s' = s1" using assms n by (auto simp: slot_value_def bindA_def retA_def)
    with n show ?thesis by (auto simp: map_le_def)
  next
    case False
    then have "rs_sampled s' = rs_sampled s" using assms
      by (cases kind) (auto simp: slot_value_def bindA_def retA_def liftS_eq identity_def split: option.splits sum.splits)
    then show ?thesis by simp
  qed
qed

lemma counter_columns:
  assumes "mapA (\<lambda>(kind, oid, key, rec). bindA (slot_value e d kind oid key rec el now) (\<lambda>v. retA (oid, v))) xs s = (Inr ys, s')"
  shows "rs_sampled s \<subseteq>\<^sub>m rs_sampled s' \<and> list_all2 (\<lambda>(kind, oid, key, rec) row.
      (kind = Ctr32 \<longrightarrow> row = (oid, int_str (the (rs_sampled s' key) mod U32)))
      \<and> (kind = Ctr64 \<longrightarrow> row = (oid, int_str (the (rs_sampled s' key))))) xs ys"
  using assms
proof (induction xs arbitrary: s ys)
  case (Cons x xs)
  obtain kind oid key rec where x: "x = (kind, oid, key, rec)" by (cases x)
  obtain v s1 ys1 where v: "slot_value e d kind oid key rec el now s = (Inr v, s1)"
    and r: "mapA (\<lambda>(kind, oid, key, rec). bindA (slot_value e d kind oid key rec el now) (\<lambda>v. retA (oid, v))) xs s1 = (Inr ys1, s')"
    and ys: "ys = (oid, v) # ys1"
    using Cons.prems by (auto simp: x bindA_Inr retA_Inr)
  note sl = slot_sampled [OF v]
  note ih = Cons.IH [OF r]
  have keep: "rs_sampled s1 k = Some n \<Longrightarrow> rs_sampled s' k = Some n" for k n
    using ih by (force simp: map_le_def)
  have "kind = Ctr32 \<longrightarrow> v = int_str (the (rs_sampled s' key) mod U32)"
    and "kind = Ctr64 \<longrightarrow> v = int_str (the (rs_sampled s' key))"
    using sl(2,3) keep by fastforce+
  with ih sl(1) show ?case unfolding x ys by (auto intro: map_le_trans)
qed (simp add: retA_def)

section \<open>Properties\<close>

text \<open>Serving a replayed device from a cached table is safe: build the table from the rendered walk of
  a recorded file (whatever it holds, as long as its lines contain no further line breaks), then any
  later refresh from \<open>dynamic_rows\<close> returns without an exception, only overwrites OIDs the table
  already has, and leaves a well-formed table with the same OID list.\<close>

theorem replay_refresh_keeps_table:
  assumes "model_init lines = Inr (rd_model d)" and "\<forall>l \<in> set lines. clean l" and "env_ok e d"
    and "rd_walk e d now s = (Inr tx, rest)" and "table_init (walk_rows tx) = Inr t"
    and "rd_model d2 = rd_model d"
  shows "\<exists>dyn rest2 t'. rd_dynamic_rows e d2 now2 s2 = (Inr dyn, rest2)
    \<and> table_patch t dyn = Inr t' \<and> table_wf t' \<and> oids t' = oids t"
proof -
  let ?rows = "map (partition_at (CHR '' '')) lines"
  obtain rows' where w: "walk_rows tx = filter (\<lambda>r. fst r \<noteq> []) rows'" "map fst rows' = map fst ?rows"
    using rd_walk_rows [OF assms(1-4)] by auto
  obtain dyn rest2 where d: "rd_dynamic_rows e d2 now2 s2 = (Inr dyn, rest2)"
    "map fst dyn = map (\<lambda>(kind, oid, key, rec). oid) (dynamic_slots (segments (rd_model d)))"
    using rd_dynamic_total [of e d2 now2 s2] assms(6) by auto
  have "fst ` set dyn \<subseteq> fst ` set (walk_rows tx)"
  proof
    fix oid assume "oid \<in> fst ` set dyn"
    then have "oid \<in> set (map (\<lambda>(kind, oid, key, rec). oid) (dynamic_slots (segments (rd_model d))))"
      unfolding d(2) [symmetric] by simp
    then obtain kind key rec where "(kind, oid, key, rec) \<in> set (dynamic_slots (segments (rd_model d)))" by auto
    from dynamic_slots_oids [OF model_init_segs [OF assms(1)] this] have "oid \<noteq> []" "oid \<in> set (map fst ?rows)" by auto
    then have "oid \<in> set (map fst rows')" by (simp only: w(2))
    with \<open>oid \<noteq> []\<close> show "oid \<in> fst ` set (walk_rows tx)" by (auto simp: w(1))
  qed
  from table_refresh_subset [OF assms(5) this] d(1) show ?thesis by blast
qed

text \<open>C10. A rewritten serial number or service tag keeps the vendor's format: same length, every digit,
  upper-case and other letter stays in its class, and everything that is not a letter or digit
  stays as recorded.\<close>

theorem serial_keeps_format:
  assumes "\<forall>seed i a. a \<noteq> [] \<longrightarrow> pick seed i a \<in> set a"
  shows "same_format value (mutate_serial pick sh value)"
  by (rule mutate_format [OF assms])

theorem serial_keeps_format_witness: "same_format ''SN-12ab'' (mutate_serial (\<lambda>seed i a. hd a) ''x'' ''SN-12ab'')"
  by (rule serial_keeps_format) simp

text \<open>Within one rendering the 32-bit and the 64-bit column of a counter agree: every slot of a key
  shows the same sample, the 32-bit slots modulo \<open>2^32\<close>.\<close>

theorem counter_columns_agree:
  "\<exists>dyn rest v. rd_dynamic_rows e d now s = (Inr dyn, rest) \<and>
     list_all2 (\<lambda>(kind, oid, key, rec) row. case kind of
         Ctr32 \<Rightarrow> row = (oid, int_str (v key mod 2 ^ 32)) | Ctr64 \<Rightarrow> row = (oid, int_str (v key)) | _ \<Rightarrow> True)
       (dynamic_slots (segments (rd_model d))) dyn"
proof -
  let ?f = "\<lambda>(kind, oid, key, rec). bindA (slot_value e d kind oid key rec (rd_elapsed e d now) now) (\<lambda>v. retA (oid, v))"
  let ?s = "\<lparr>rs_sim = s, rs_ident = ident d, rs_sampled = Map.empty\<rparr>"
  let ?P = "\<lambda>v (kind, oid, key, rec) row. case kind of
      Ctr32 \<Rightarrow> row = (oid, int_str (v key mod 2 ^ 32)) | Ctr64 \<Rightarrow> row = (oid, int_str (v key)) | _ \<Rightarrow> True"
  obtain dyn rest where d: "rd_dynamic_rows e d now s = (Inr dyn, rest)" using rd_dynamic_total by blast
  then obtain st where m: "mapA ?f (dynamic_slots (segments (rd_model d))) ?s = (Inr dyn, st)"
    by (auto simp: rd_dynamic_rows_def rendering_def Let_def split: prod.splits)
  have "list_all2 (?P (\<lambda>k. the (rs_sampled st k))) (dynamic_slots (segments (rd_model d))) dyn"
    by (rule list_all2_mono [OF conjunct2 [OF counter_columns [OF m]]])
      (auto simp: U32_def split: skind.splits)
  then show ?thesis using d by (intro exI conjI)
qed

lemma rd_walk_total:
  assumes "\<forall>seg \<in> set (segments (rd_model d)). case seg of Static _ \<Rightarrow> True | Slot kind _ _ _ \<Rightarrow> kind \<noteq> Svccode"
  shows "\<exists>tx rest. rd_walk e d now s = (Inr tx, rest)"
proof -
  let ?f = "seg_text e d (rd_elapsed e d now) now"
  have tot: "\<exists>y s'. ?f seg s = (Inr y, s')" if "seg \<in> set (segments (rd_model d))" for seg s
  proof (cases seg)
    case (Slot kind oid key rec)
    then have k: "kind \<noteq> Svccode" using assms that by fastforce
    have "\<exists>y s'. slot_value e d kind oid key rec (rd_elapsed e d now) now s = (Inr y, s')"
    proof (cases "kind \<in> DYNAMIC_KINDS")
      case False
      with k show ?thesis
        by (cases kind) (auto simp: DYNAMIC_KINDS_def slot_value_def retA_def identity_def new_identity_def split: option.splits)
    qed (use dynamic_slot_total in blast)
    then show ?thesis by (auto simp: Slot seg_text_def bindA_def retA_def)
  qed (simp add: seg_text_def retA_def)
  obtain ys st where "mapA ?f (segments (rd_model d)) \<lparr>rs_sim = s, rs_ident = ident d, rs_sampled = Map.empty\<rparr> = (Inr ys, st)"
    using mapA_total [of "segments (rd_model d)" ?f, OF tot] by blast
  then show ?thesis by (simp add: rd_walk_def rendering_def bindA_def retA_def)
qed

text \<open>A small recorded device for the witness.\<close>

definition wit_lines :: "string list" where
  "wit_lines = [''.1.3.6.1.2.1.1.1.0 Switch'', ''.1.3.6.1.2.1.1.3.0 8640000'', ''.1.3.6.1.2.1.1.5.0 x'']"

lemma wit_rows:
  "map (partition_at (CHR '' '')) wit_lines = [(''.1.3.6.1.2.1.1.1.0'', ''Switch''),
     (''.1.3.6.1.2.1.1.3.0'', ''8640000''), (''.1.3.6.1.2.1.1.5.0'', ''x'')]"
  by code_simp

lemma wit_ticks: "ticks ''8640000'' = Inr 8640000"
proof -
  have d: "isdigit ''8640000''" "digits_val ''8640000'' = 8640000"
    by (simp_all add: isdigit_def digit_char_def digits_val_def)
  then show ?thesis by (simp add: ticks_def isdigit_strip py_int_digits del: split_on.simps)
qed

lemma wit_model:
  "\<exists>m. model_init wit_lines = Inr m \<and> segments m =
     [Static (''.1.3.6.1.2.1.1.1.0 Switch'' @ [CHR 10]), Slot Uptime ''.1.3.6.1.2.1.1.3.0'' [] 8640000,
      Slot Sysname ''.1.3.6.1.2.1.1.5.0'' [] 0]"
proof -
  have "classify ''.1.3.6.1.2.1.1.1.0'' ''Switch'' m = Inr (None, m)" for m
    by (simp add: classify_def classify_tail_def startswith_def UPTIME_OID_def HRUPTIME_OID_def HP_CPU_OID_def
      APC_DIAG_DATE_OID_def IFMAC_PREFIX_def ENT_SERIAL_PREFIX_def DELL_SVCTAG_PREFIXES_def
      DELL_SVCCODE_PREFIX_def HRCPU_PREFIX_def PAGES_PREFIX_def)
  moreover have "classify ''.1.3.6.1.2.1.1.3.0'' ''8640000'' m = Inr (Some (Slot Uptime ''.1.3.6.1.2.1.1.3.0'' [] 8640000), m)" for m
    by (simp add: classify_def UPTIME_OID_def wit_ticks)
  moreover have "classify ''.1.3.6.1.2.1.1.5.0'' ''x'' m = Inr (Some (Slot Sysname ''.1.3.6.1.2.1.1.5.0'' [] 0), m)" for m
    by (simp add: classify_def)
  moreover have "\<exists>m. scan_rates [(''.1.3.6.1.2.1.1.1.0'', ''Switch''), (''.1.3.6.1.2.1.1.3.0'', ''8640000''),
      (''.1.3.6.1.2.1.1.5.0'', ''x'')] empty_model = Inr m \<and> segments m = []"
    by (simp add: UPTIME_OID_def wit_ticks startswith_def IFHIGHSPEED_PREFIX_def IFSPEED_PREFIX_def empty_model_def)
  ultimately show ?thesis
    unfolding model_init_def wit_rows Let_def
    by (force simp: flush_def walk_line_def)
qed

lemma replay_refresh_keeps_table_witness:
  "\<exists>e d s s2 tx rest t dyn rest2 t'. rd_walk e d 5 s = (Inr tx, rest) \<and> table_init (walk_rows tx) = Inr t
    \<and> rd_dynamic_rows e d 99 s2 = (Inr dyn, rest2) \<and> table_patch t dyn = Inr t' \<and> oids t' = oids t"
proof -
  obtain m where m: "model_init wit_lines = Inr m" "segments m =
     [Static (''.1.3.6.1.2.1.1.1.0 Switch'' @ [CHR 10]), Slot Uptime ''.1.3.6.1.2.1.1.3.0'' [] 8640000,
      Slot Sysname ''.1.3.6.1.2.1.1.5.0'' [] 0]" using wit_model by blast
  define cfg where "cfg = \<lparr>cfg_domain = ''d'', cfg_start = 0, cfg_date = \<lambda>_. ''x''\<rparr>"
  define e where "e = \<lparr>e_cfg = cfg, e_pick = \<lambda>s i a. hd a, e_crc = \<lambda>_. 0\<rparr>"
  define d where "d = rdevice_fields cfg (\<lambda>_. 0) 1 ''sw'' m ''r'' ''l'' None"
  have rm: "rd_model d = m" by (simp add: d_def rdevice_fields_def)
  have c: "clean ''sw.d''" "clean ''l''" "clean ''x''" by code_simp+
  then have env: "env_ok e d" by (simp add: env_ok_def e_def d_def cfg_def rdevice_fields_def fqdn_def)
  have ls: "\<forall>l \<in> set wit_lines. clean l" unfolding wit_lines_def by code_simp
  obtain tx rest where w: "rd_walk e d 5 s = (Inr tx, rest)"
    using rd_walk_total [of d e 5 s] m(2) by (auto simp: rm)
  note m1 = m(1) [folded rm]
  obtain rows' where r: "walk_rows tx = filter (\<lambda>r. fst r \<noteq> []) rows'"
    "map fst rows' = map (fst \<circ> partition_at (CHR '' '')) wit_lines"
    using rd_walk_rows [OF m1 ls env w] by blast
  have "list_all plain_oid (map (fst \<circ> partition_at (CHR '' '')) wit_lines)" by code_simp
  then have "list_all plain_oid (map fst rows')" by (simp only: r(2))
  then have "list_all plain_oid (map fst (walk_rows tx))" by (auto simp: r(1) list_all_iff)
  then obtain t where t: "table_init (walk_rows tx) = Inr t"
    using table_init_parses plain_oids_parse by blast
  obtain dyn rest2 t' where "rd_dynamic_rows e d 99 s = (Inr dyn, rest2)" "table_patch t dyn = Inr t'" "oids t' = oids t"
    using replay_refresh_keeps_table [OF m1 ls env w t refl, of 99 s] by blast
  with w t show ?thesis by (intro exI conjI)
qed

end
