(* ===== verification/Replay_Roster.thy ===== *)
theory Replay_Roster
  imports Prelude
begin

text \<open>
  The roster of the replayed devices (\<open>REPLAY_ROSTER\<close> of \<open>snmp/netsim.py\<close>) and its expansion
  \<open>build_replay_devices\<close>: names, locations and parents by string substitution, with a running index
  per name prefix.  Loading a model from disk is the parameter \<open>load\<close>; a model that cannot be
  opened skips its whole entry without advancing the index.

  The facts about the roster as shipped are evaluated from the data: the number of devices, unique
  names, and parents that exist.
\<close>

section \<open>String substitution\<close>

text \<open>\<open>s.replace(old, new)\<close> for a non-empty \<open>old\<close>: left to right, not overlapping.\<close>

function replace_str :: "string \<Rightarrow> string \<Rightarrow> string \<Rightarrow> string" where
  "replace_str old new s =
     (if s = [] \<or> old = [] then s
      else if startswith s old then new @ replace_str old new (drop (length old) s)
      else hd s # replace_str old new (tl s))"
  by pat_completeness auto
termination
  by (relation "measure (\<lambda>(old, new, s). length s)") auto

declare replace_str.simps [simp del]

section \<open>The roster\<close>

record replay_entry =
  re_count :: nat
  re_pattern :: string
  re_model :: string
  re_role :: string
  re_location :: string
  re_parent :: "string option"

definition entry :: "nat \<times> string \<times> string \<times> string \<times> string \<times> string option \<Rightarrow> replay_entry" where
  "entry e = (case e of (c, p, m, r, l, par) \<Rightarrow>
     \<lparr>re_count = c, re_pattern = p, re_model = m, re_role = r, re_location = l, re_parent = par\<rparr>)"

definition REPLAY_ROSTER :: "replay_entry list" where
  "REPLAY_ROSTER = map entry [
     (2, ''sw-dc-dist-{n:02d}'', ''hp-5406r'', ''net_switches'', ''DC row {n}, end of row (distribution)'', Some ''sw-core-01''),
     (6, ''sw-dc-tor-{n:02d}'', ''aruba-6200f'', ''net_switches'', ''DC rack A{n}, top of rack'', Some ''sw-dc-dist-01''),
     (2, ''sw-dc-tor-{nn:02d}'', ''huawei-s6730'', ''net_switches'', ''DC rack B{n}, top of rack'', Some ''sw-dc-dist-02''),
     (1, ''sw-dc-oob-{n:02d}'', ''hp-2530'', ''net_switches'', ''DC comms room, OOB management'', Some ''sw-dc-dist-01''),
     (2, ''fw-{n:02d}'', ''fortigate'', ''net_firewalls'', ''DC rack A1 (HA pair, unit {n})'', Some ''sw-core-01''),
     (1, ''fw-dmz-{n:02d}'', ''cisco-asa'', ''net_firewalls'', ''DC rack A1, DMZ tier'', Some ''sw-core-01''),
     (2, ''lb-{n:02d}'', ''kemp-lb'', ''net_loadbalancers'', ''DC rack A2 (HA pair, unit {n})'', Some ''sw-dc-dist-01''),
     (2, ''nas-{n:02d}'', ''synology-nas'', ''storage'', ''DC rack B1'', Some ''sw-dc-dist-02''),
     (2, ''san-fc-{n:02d}'', ''brocade-fc'', ''storage'', ''DC rack B2, SAN fabric {n}'', Some ''sw-dc-dist-02''),
     (16, ''oob-idrac-{n:02d}'', ''idrac'', ''mgmt'', ''DC rack A{n} (iDRAC)'', Some ''sw-dc-oob-01''),
     (1, ''ntp-gps-{n:02d}'', ''meinberg-ntp'', ''infrastructure'', ''DC comms room, GPS antenna on roof'', Some ''sw-dc-dist-02''),
     (3, ''ups-dc-{n:02d}'', ''apc-symmetra'', ''net_ups'', ''DC power room, feed {n}'', Some ''sw-dc-oob-01''),
     (4, ''pdu-dc-{n:02d}'', ''apc-pdu'', ''net_ups'', ''DC rack A{n}, rack PDU'', Some ''sw-dc-oob-01''),
     (2, ''pdu-dc-{nn:02d}'', ''raritan-pdu'', ''net_ups'', ''DC rack B{n}, rack PDU'', Some ''sw-dc-oob-01''),
     (2, ''pdu-dc-{nnn:02d}'', ''gude-pdu'', ''net_ups'', ''DC rack C{n}, rack PDU'', Some ''sw-dc-oob-01''),
     (6, ''env-dc-{n:02d}'', ''akcp-sensor'', ''net_ups'', ''DC row {n}, hot aisle'', Some ''sw-dc-oob-01''),
     (2, ''env-dc-{nn:02d}'', ''avtech-ra3s'', ''net_ups'', ''DC comms room {n}'', Some ''sw-dc-oob-01''),
     (1, ''sw-hq-dist-{n:02d}'', ''hp-5406r'', ''net_switches'', ''HQ comms room, distribution'', Some ''sw-core-01''),
     (7, ''sw-hq-f{n:02d}'', ''aruba-2930f'', ''net_switches'', ''HQ floor {n}, IDF {n}A'', Some ''sw-hq-dist-01''),
     (7, ''sw-hq-f{nn:02d}'', ''hp-2530'', ''net_switches'', ''HQ floor {n}, IDF {n}B'', Some ''sw-hq-dist-01''),
     (2, ''wlc-{n:02d}'', ''extreme-wlc'', ''net_wifi'', ''HQ comms room (controller {n})'', Some ''sw-hq-dist-01''),
     (6, ''prt-hq-{n:02d}'', ''printer-ricoh'', ''printers'', ''HQ floor {n}, print room'', Some ''sw-hq-f{n:02d}''),
     (6, ''prt-hq-{nn:02d}'', ''printer-canon'', ''printers'', ''HQ floor {n}, print room'', Some ''sw-hq-f{n:02d}''),
     (1, ''ups-hq-{n:02d}'', ''apc-symmetra'', ''net_ups'', ''HQ comms room'', Some ''sw-hq-dist-01''),
     (2, ''pdu-hq-{n:02d}'', ''gude-pdu'', ''net_ups'', ''HQ comms room, rack {n}'', Some ''sw-hq-dist-01''),
     (1, ''env-hq-{n:02d}'', ''avtech-ra3s'', ''net_ups'', ''HQ comms room'', Some ''sw-hq-dist-01''),
     (1, ''rt-wh1-{n:02d}'', ''lancom-router'', ''net_routers'', ''warehouse 1, comms room'', Some ''rt-wan-01''),
     (3, ''wh1-sw-{n:02d}'', ''procurve-2510'', ''net_switches'', ''warehouse 1, hall {n}'', Some ''rt-wh1-01''),
     (2, ''wh1-sw-{nn:02d}'', ''hp-2530'', ''net_switches'', ''warehouse 1, mezzanine {n}'', Some ''wh1-sw-01''),
     (4, ''wh1-prt-{n:02d}'', ''printer-zebra'', ''printers'', ''warehouse 1, packing line {n}'', Some ''wh1-sw-{n:02d}''),
     (1, ''wh1-ups-{n:02d}'', ''apc-symmetra'', ''net_ups'', ''warehouse 1, comms room'', Some ''wh1-sw-01''),
     (1, ''wh1-pdu-{n:02d}'', ''raritan-pdu'', ''net_ups'', ''warehouse 1, comms room'', Some ''wh1-sw-01''),
     (1, ''wh1-env-{n:02d}'', ''akcp-sensor'', ''net_ups'', ''warehouse 1, comms room'', Some ''wh1-sw-01''),
     (1, ''rt-wh2-{n:02d}'', ''lancom-router'', ''net_routers'', ''warehouse 2, comms room'', Some ''rt-wan-01''),
     (3, ''wh2-sw-{n:02d}'', ''procurve-2510'', ''net_switches'', ''warehouse 2, hall {n}'', Some ''rt-wh2-01''),
     (2, ''wh2-sw-{nn:02d}'', ''hp-2530'', ''net_switches'', ''warehouse 2, mezzanine {n}'', Some ''wh2-sw-01''),
     (4, ''wh2-prt-{n:02d}'', ''printer-zebra'', ''printers'', ''warehouse 2, packing line {n}'', Some ''wh2-sw-{n:02d}''),
     (1, ''wh2-ups-{n:02d}'', ''apc-symmetra'', ''net_ups'', ''warehouse 2, comms room'', Some ''wh2-sw-01''),
     (1, ''wh2-pdu-{n:02d}'', ''raritan-pdu'', ''net_ups'', ''warehouse 2, comms room'', Some ''wh2-sw-01''),
     (1, ''wh2-env-{n:02d}'', ''akcp-sensor'', ''net_ups'', ''warehouse 2, comms room'', Some ''wh2-sw-01''),
     (1, ''rt-inet-{n:02d}'', ''lancom-router'', ''net_routers'', ''DC rack A1, internet backup line'', Some ''sw-core-01'')]"

section \<open>Expansion\<close>

text \<open>The constructor arguments of one instance.\<close>

record 'm replay_spec =
  rs_short :: string
  rs_model :: 'm
  rs_role :: string
  rs_location :: string
  rs_parent :: "string option"

definition NN :: string where "NN = ''{n:02d}''"

definition pattern_prefix :: "string \<Rightarrow> string" where
  "pattern_prefix p = hd (split_on (CHR ''{'') p)"

definition expand_one :: "replay_entry \<Rightarrow> 'm \<Rightarrow> nat \<Rightarrow> 'm replay_spec" where
  "expand_one e m n =
     \<lparr>rs_short = replace_str ''{nnn:02d}'' (pad2 n) (replace_str ''{nn:02d}'' (pad2 n) (replace_str NN (pad2 n) (re_pattern e))),
      rs_model = m, rs_role = re_role e,
      rs_location = replace_str ''{n}'' (nat_str n) (re_location e),
      rs_parent = (case re_parent e of
                     None \<Rightarrow> None
                   | Some p \<Rightarrow> if p = [] then Some p else Some (replace_str NN (pad2 n) p))\<rparr>"

fun build_replay :: "(string \<Rightarrow> 'm option) \<Rightarrow> replay_entry list \<Rightarrow> (string \<rightharpoonup> nat) \<Rightarrow> 'm replay_spec list" where
  "build_replay load [] next_index = []"
| "build_replay load (e # es) next_index =
     (let prefix = pattern_prefix (re_pattern e);
          start = (case next_index prefix of Some n \<Rightarrow> n | None \<Rightarrow> 1)
      in case load (re_model e) of
           None \<Rightarrow> build_replay load es next_index
         | Some m \<Rightarrow> map (\<lambda>i. expand_one e m (start + i)) [0..<re_count e]
                     @ build_replay load es (next_index(prefix \<mapsto> start + re_count e)))"

definition build_replay_devices :: "(string \<Rightarrow> 'm option) \<Rightarrow> 'm replay_spec list" where
  "build_replay_devices load = build_replay load REPLAY_ROSTER Map.empty"


section \<open>Names\<close>

lemma replace_str_Nil [simp]: "replace_str old new [] = []"
  by (simp add: replace_str.simps)

lemma replace_str_skip:
  "CHR ''{'' \<notin> set p \<Longrightarrow> replace_str (CHR ''{'' # old) new (p @ s) = p @ replace_str (CHR ''{'' # old) new s"
proof (induction p)
  case (Cons c p)
  then have "\<not> startswith ((c # p) @ s) (CHR ''{'' # old)" by (auto simp: startswith_def)
  with Cons show ?case by (subst replace_str.simps) simp
qed simp

lemma replace_str_none: "CHR ''{'' \<notin> set p \<Longrightarrow> replace_str (CHR ''{'' # old) new p = p"
  using replace_str_skip [of p old new "[]"] by simp

lemma replace_str_hit: "replace_str (CHR ''{'' # old) new ((CHR ''{'' # old) @ s) = new @ replace_str (CHR ''{'' # old) new s"
  by (subst replace_str.simps) (simp add: startswith_def)

lemma replace_str_miss:
  "\<not> startswith (CHR ''{'' # s) (CHR ''{'' # old)
    \<Longrightarrow> replace_str (CHR ''{'' # old) new (CHR ''{'' # s) = CHR ''{'' # replace_str (CHR ''{'' # old) new s"
  by (subst replace_str.simps) simp

definition placeholders :: "string list" where
  "placeholders = [''{n:02d}'', ''{nn:02d}'', ''{nnn:02d}'']"

text \<open>The shape of the name patterns: a prefix that does not end in a digit, and one placeholder.\<close>

definition pattern_ok :: "string \<Rightarrow> bool" where
  "pattern_ok pat \<longleftrightarrow> (let p = pattern_prefix pat in p \<noteq> [] \<and> \<not> digit_char (last p) \<and> CHR ''{'' \<notin> set p
     \<and> pat \<in> set (map (\<lambda>ph. p @ ph) placeholders))"

lemma pad2_no_brace: "CHR ''{'' \<notin> set (pad2 n)"
  using pad2_chars [of "CHR ''{''" n] by (auto simp: digit_char_def)

lemma expand_short:
  assumes "pattern_ok (re_pattern e)"
  shows "rs_short (expand_one e m n) = pattern_prefix (re_pattern e) @ pad2 n"
proof -
  define p where "p = pattern_prefix (re_pattern e)"
  have p: "CHR ''{'' \<notin> set p" and pat: "re_pattern e = p @ ''{n:02d}'' \<or> re_pattern e = p @ ''{nn:02d}'' \<or> re_pattern e = p @ ''{nnn:02d}''"
    using assms by (auto simp: pattern_ok_def placeholders_def Let_def p_def)
  have "CHR ''{'' \<notin> set (p @ pad2 n)" using p pad2_no_brace by simp
  note none = replace_str_none [OF this]
  have h: "replace_str (CHR ''{'' # old) (pad2 n) (p @ CHR ''{'' # old) = p @ pad2 n" for old
    using replace_str_hit [of old "pad2 n" "[]"] replace_str_skip [OF p, of old] by simp
  have miss: "replace_str (CHR ''{'' # old) new (p @ CHR ''{'' # s) = p @ CHR ''{'' # s"
    if "\<not> startswith (CHR ''{'' # s) (CHR ''{'' # old)" "CHR ''{'' \<notin> set s" for old new s
    using replace_str_miss [OF that(1)] replace_str_none [OF that(2)] replace_str_skip [OF p] by simp
  show ?thesis
    using pat unfolding p_def [symmetric]
    by (elim disjE) (simp_all add: expand_one_def NN_def h miss none startswith_def)
qed

text \<open>Every name built after \<open>next_index\<close> is a prefix with an index at or above that prefix's entry.\<close>

definition fresh_name :: "(string \<rightharpoonup> nat) \<Rightarrow> string \<Rightarrow> bool" where
  "fresh_name ni s \<longleftrightarrow> (\<exists>p n. s = p @ pad2 n \<and> p \<noteq> [] \<and> \<not> digit_char (last p)
     \<and> (case ni p of Some k \<Rightarrow> k \<le> n | None \<Rightarrow> True))"

lemma build_replay_names:
  assumes "\<forall>e \<in> set es. pattern_ok (re_pattern e)"
  shows "distinct (map rs_short (build_replay load es ni))
    \<and> (\<forall>s \<in> set (map rs_short (build_replay load es ni)). fresh_name ni s)"
  using assms
proof (induction es arbitrary: ni)
  case (Cons e es)
  let ?p = "pattern_prefix (re_pattern e)" and ?start = "case ni (pattern_prefix (re_pattern e)) of Some n \<Rightarrow> n | None \<Rightarrow> 1"
  have pat: "?p \<noteq> []" "\<not> digit_char (last ?p)" and ok: "pattern_ok (re_pattern e)"
    using Cons.prems by (auto simp: pattern_ok_def Let_def)
  show ?case
  proof (cases "load (re_model e)")
    case None
    then show ?thesis using Cons by simp
  next
    case (Some m)
    let ?ni = "ni(?p \<mapsto> ?start + re_count e)"
    let ?rest = "map rs_short (build_replay load es ?ni)"
    let ?new = "map (\<lambda>i. ?p @ pad2 (?start + i)) [0..<re_count e]"
    have names: "map rs_short (build_replay load (e # es) ni) = ?new @ ?rest"
      using Some by (simp add: Let_def expand_short [OF ok] comp_def)
    have ih: "distinct ?rest" "\<forall>s \<in> set ?rest. fresh_name ?ni s" using Cons by auto
    have "distinct ?new" by (auto simp: distinct_map inj_on_def)
    moreover have "\<forall>s \<in> set ?new. fresh_name ni s"
    proof
      fix s assume "s \<in> set ?new"
      then obtain i where "s = ?p @ pad2 (?start + i)" by auto
      moreover have "case ni ?p of Some k \<Rightarrow> k \<le> ?start + i | None \<Rightarrow> True" by (simp split: option.splits)
      ultimately show "fresh_name ni s" unfolding fresh_name_def using pat by blast
    qed
    moreover have "fresh_name ni s" if s: "s \<in> set ?rest" for s
    proof -
      obtain q k where q: "s = q @ pad2 k" "q \<noteq> []" "\<not> digit_char (last q)" "case ?ni q of Some j \<Rightarrow> j \<le> k | None \<Rightarrow> True"
        using bspec [OF ih(2) s] unfolding fresh_name_def by blast
      have "case ni q of Some j \<Rightarrow> j \<le> k | None \<Rightarrow> True"
        using q(4) by (cases "q = ?p") (auto split: option.splits)
      with q show ?thesis unfolding fresh_name_def by blast
    qed
    moreover have "set ?new \<inter> set ?rest = {}"
    proof -
      have False if i: "i < re_count e" and mem: "?p @ pad2 (?start + i) \<in> set ?rest" for i
      proof -
        obtain q k where q: "?p @ pad2 (?start + i) = q @ pad2 k" "q \<noteq> []" "\<not> digit_char (last q)"
          "case ?ni q of Some j \<Rightarrow> j \<le> k | None \<Rightarrow> True"
          using bspec [OF ih(2) mem] unfolding fresh_name_def by blast
        from name_inj [OF pat q(2,3,1)] q(4) i show False by auto
      qed
      then show ?thesis by (intro equals0I) (metis (no_types, lifting) IntE atLeastLessThan_iff image_iff list.set_map set_upt)
    qed
    ultimately show ?thesis using ih(1) unfolding names by auto
  qed
qed simp

lemma roster_patterns_ok: "list_all (\<lambda>e. pattern_ok (re_pattern e)) REPLAY_ROSTER"
  by code_simp

lemma build_replay_length:
  "(\<And>m. load m \<noteq> None) \<Longrightarrow> length (build_replay load es ni) = sum_list (map re_count es)"
proof (induction es arbitrary: ni)
  case (Cons e es)
  then obtain m where "load (re_model e) = Some m" by blast
  with Cons show ?case by (simp add: Let_def)
qed simp


section \<open>Parents\<close>

text \<open>The index ranges an expansion builds, with all models available.\<close>

fun ranges :: "replay_entry list \<Rightarrow> (string \<rightharpoonup> nat) \<Rightarrow> (string \<times> nat \<times> nat \<times> string option) list" where
  "ranges [] ni = []"
| "ranges (e # es) ni =
     (let p = pattern_prefix (re_pattern e); s = (case ni p of Some n \<Rightarrow> n | None \<Rightarrow> 1)
      in (p, s, s + re_count e, re_parent e) # ranges es (ni(p \<mapsto> s + re_count e)))"

definition parent_name :: "string \<Rightarrow> nat \<Rightarrow> string" where
  "parent_name p n = (if p = [] then p else replace_str NN (pad2 n) p)"

lemma build_replay_mem:
  assumes "\<forall>e \<in> set es. pattern_ok (re_pattern e)" and "\<And>m. load m \<noteq> None"
  shows "(\<lambda>d. (rs_short d, rs_parent d)) ` set (build_replay load es ni)
    = {(p @ pad2 n, map_option (\<lambda>q. parent_name q n) par) | p s f par n. (p, s, f, par) \<in> set (ranges es ni) \<and> s \<le> n \<and> n < f}"
  using assms
proof (induction es arbitrary: ni)
  case (Cons e es)
  let ?p = "pattern_prefix (re_pattern e)" and ?s = "case ni (pattern_prefix (re_pattern e)) of Some n \<Rightarrow> n | None \<Rightarrow> 1"
  obtain m where m: "load (re_model e) = Some m" using Cons.prems(2) by blast
  have ok: "pattern_ok (re_pattern e)" using Cons.prems by simp
  have par: "rs_parent (expand_one e m n) = map_option (\<lambda>q. parent_name q n) (re_parent e)" for n
    by (simp add: expand_one_def parent_name_def split: option.splits)
  have new: "(\<lambda>d. (rs_short d, rs_parent d)) ` set (map (\<lambda>i. expand_one e m (?s + i)) [0..<re_count e])
      = {(?p @ pad2 n, map_option (\<lambda>q. parent_name q n) (re_parent e)) | n. ?s \<le> n \<and> n < ?s + re_count e}"
    (is "_ = ?R")
  proof
    show "?R \<subseteq> (\<lambda>d. (rs_short d, rs_parent d)) ` set (map (\<lambda>i. expand_one e m (?s + i)) [0..<re_count e])"
    proof
      fix x assume "x \<in> ?R"
      then obtain n where n: "?s \<le> n" "n < ?s + re_count e" "x = (?p @ pad2 n, map_option (\<lambda>q. parent_name q n) (re_parent e))"
        by blast
      have "?s + (n - ?s) = n" using n(1) by simp
      then have "expand_one e m n \<in> set (map (\<lambda>i. expand_one e m (?s + i)) [0..<re_count e])"
        using n(2) by (simp only: set_map set_upt) (rule image_eqI [where x = "n - ?s"], simp, simp)
      then show "x \<in> (\<lambda>d. (rs_short d, rs_parent d)) ` set (map (\<lambda>i. expand_one e m (?s + i)) [0..<re_count e])"
        unfolding n(3) by (intro image_eqI [where x = "expand_one e m n"]) (simp_all only: expand_short [OF ok] par)
    qed
  qed (auto simp: expand_short [OF ok] par)
  show ?case
    using Cons m new by (simp add: Let_def image_Un) blast
qed simp

text \<open>A parent is one of the two synthetic devices, or has an index in some range.\<close>

definition covered :: "(string \<times> nat \<times> nat \<times> string option) list \<Rightarrow> string \<Rightarrow> bool" where
  "covered rs q \<longleftrightarrow> q \<in> {''sw-core-01'', ''rt-wan-01''}
     \<or> list_ex (\<lambda>(p, s, f, _). startswith q p \<and>
          (let d = drop (length p) q; n = digits_val d in s \<le> n \<and> n < f \<and> d = pad2 n)) rs"

definition parents_covered :: "(string \<times> nat \<times> nat \<times> string option) list \<Rightarrow> bool" where
  "parents_covered rs \<longleftrightarrow> list_all (\<lambda>(p, s, f, par). case par of None \<Rightarrow> True
     | Some q \<Rightarrow> (if CHR ''{'' \<in> set q then list_all (\<lambda>n. covered rs (parent_name q n)) [s..<f]
                  else covered rs q)) rs"

lemma roster_parents: "parents_covered (ranges REPLAY_ROSTER Map.empty)"
  by code_simp

lemma roster_has_parents: "list_all (\<lambda>(p, s, f, par). par \<noteq> None) (ranges REPLAY_ROSTER Map.empty)"
  by code_simp

lemma parent_plain: "CHR ''{'' \<notin> set q \<Longrightarrow> parent_name q n = q"
  by (simp add: parent_name_def NN_def replace_str_none)

lemma covered_name: "covered rs q \<Longrightarrow> q \<in> {''sw-core-01'', ''rt-wan-01''} \<union> {p @ pad2 n | p s f par n. (p, s, f, par) \<in> set rs \<and> s \<le> n \<and> n < f}"
proof -
  assume "covered rs q"
  then consider "q \<in> {''sw-core-01'', ''rt-wan-01''}"
    | p s f par where "(p, s, f, par) \<in> set rs" "startswith q p" "s \<le> digits_val (drop (length p) q)"
      "digits_val (drop (length p) q) < f" "drop (length p) q = pad2 (digits_val (drop (length p) q))"
    by (auto simp: covered_def list_ex_iff Let_def)
  then show ?thesis
  proof cases
    case 2
    then have "q = p @ pad2 (digits_val (drop (length p) q))" by (metis append_take_drop_id startswith_def)
    with 2 show ?thesis by blast
  qed blast
qed

lemma roster_names:
  "rs_short ` set (build_replay_devices (\<lambda>m. Some m))
     = {p @ pad2 n | p s f par n. (p, s, f, par) \<in> set (ranges REPLAY_ROSTER Map.empty) \<and> s \<le> n \<and> n < f}"
proof -
  let ?D = "build_replay_devices (\<lambda>m. Some m)" and ?rs = "ranges REPLAY_ROSTER Map.empty"
  have ok: "\<forall>e \<in> set REPLAY_ROSTER. pattern_ok (re_pattern e)"
    using roster_patterns_ok by (simp add: list_all_iff)
  have mem: "(\<lambda>d. (rs_short d, rs_parent d)) ` set ?D
    = {(p @ pad2 n, map_option (\<lambda>q. parent_name q n) par) | p s f par n. (p, s, f, par) \<in> set ?rs \<and> s \<le> n \<and> n < f}"
    unfolding build_replay_devices_def by (rule build_replay_mem [OF ok]) simp
  show "rs_short ` set ?D = {p @ pad2 n | p s f par n. (p, s, f, par) \<in> set ?rs \<and> s \<le> n \<and> n < f}"
  proof -
    have "rs_short ` set ?D = fst ` ((\<lambda>d. (rs_short d, rs_parent d)) ` set ?D)" by (simp add: image_image)
    also have "\<dots> = {p @ pad2 n | p s f par n. (p, s, f, par) \<in> set ?rs \<and> s \<le> n \<and> n < f}" (is "_ = ?N")
      unfolding mem
    proof
      show "?N \<subseteq> fst ` {(p @ pad2 n, map_option (\<lambda>q. parent_name q n) par) | p s f par n. (p, s, f, par) \<in> set ?rs \<and> s \<le> n \<and> n < f}"
        by (force intro: rev_image_eqI)
    qed (auto, blast)
    finally show ?thesis .
  qed
qed

section \<open>Properties\<close>

text \<open>Whatever walk models can be opened, the replayed devices have pairwise different names, as the
  community of each must be unique on the shared port; with all models there are exactly 116 of them
  (the documentation says 112).\<close>

theorem roster_names_distinct:
  "distinct (map rs_short (build_replay_devices load))
   \<and> length (build_replay_devices (\<lambda>m. Some m)) = 116"
proof -
  have "\<forall>e \<in> set REPLAY_ROSTER. pattern_ok (re_pattern e)"
    using roster_patterns_ok by (simp add: list_all_iff)
  then have "distinct (map rs_short (build_replay_devices load))"
    unfolding build_replay_devices_def using build_replay_names by blast
  moreover have "length (build_replay_devices (\<lambda>m. Some m)) = 116"
    unfolding build_replay_devices_def by (simp add: build_replay_length) (simp add: REPLAY_ROSTER_def entry_def)
  ultimately show ?thesis ..
qed

text \<open>With all walk models available, every device's parent is the core switch, the WAN router or
  another device of the roster: the topology handed to Checkmk has no dangling parent.\<close>

theorem roster_parents_exist:
  "rs_parent ` set (build_replay_devices (\<lambda>m. Some m))
     \<subseteq> Some ` ({''sw-core-01'', ''rt-wan-01''} \<union> rs_short ` set (build_replay_devices (\<lambda>m. Some m)))"
proof -
  let ?D = "build_replay_devices (\<lambda>m. Some m)" and ?rs = "ranges REPLAY_ROSTER Map.empty"
  have ok: "\<forall>e \<in> set REPLAY_ROSTER. pattern_ok (re_pattern e)"
    using roster_patterns_ok by (simp add: list_all_iff)
  have mem: "(\<lambda>d. (rs_short d, rs_parent d)) ` set ?D
    = {(p @ pad2 n, map_option (\<lambda>q. parent_name q n) par) | p s f par n. (p, s, f, par) \<in> set ?rs \<and> s \<le> n \<and> n < f}"
    unfolding build_replay_devices_def by (rule build_replay_mem [OF ok]) simp
  note names = roster_names
  show ?thesis
  proof (rule image_subsetI)
    fix d assume "d \<in> set ?D"
    then have "(rs_short d, rs_parent d) \<in> (\<lambda>d. (rs_short d, rs_parent d)) ` set ?D" by blast
    then obtain p s f par n where r: "(p, s, f, par) \<in> set ?rs" "s \<le> n" "n < f"
      "rs_parent d = map_option (\<lambda>q. parent_name q n) par" unfolding mem by blast
    obtain q where q: "par = Some q" using roster_has_parents r(1) by (auto simp: list_all_iff)
    have "covered ?rs (parent_name q n)"
      using roster_parents r(1-3) by (auto simp: parents_covered_def list_all_iff q parent_plain split: if_splits dest!: bspec [OF _ r(1)])
    from covered_name [OF this] show "rs_parent d \<in> Some ` ({''sw-core-01'', ''rt-wan-01''} \<union> rs_short ` set ?D)"
      unfolding names r(4) q option.map by (rule imageI)
  qed
qed

end
