(* ===== verification/Netsim_Ctl.thy ===== *)
theory Netsim_Ctl
  imports Replay Replay_Roster
begin

text \<open>
  The devices of \<open>snmp/netsim.py\<close> of both kinds and \<open>table_for\<close>, the cache between the SNMP responder
  and the devices.  The state is the record \<open>proc\<close>: the devices, the environment with the counter registry and the
  table cache.

  The locale \<open>table_feed\<close> is what the cache relies on: a device's dynamic rows name only OIDs of its
  walk, which never change.  It is interpreted on the replayed devices and on devices of both kinds; its client lemma is that a
  table, once served, is refreshed for ever with the same OID list.
\<close>

section \<open>Devices of both kinds\<close>

datatype ndev = Synth dclass device | Repl rdevice

primrec nd_short :: "ndev \<Rightarrow> string" where
  "nd_short (Synth _ d) = short d"
| "nd_short (Repl d) = short d"

primrec nd_fqdn :: "netcfg \<Rightarrow> ndev \<Rightarrow> string" where
  "nd_fqdn cfg (Synth _ d) = fqdn cfg d"
| "nd_fqdn cfg (Repl d) = fqdn cfg d"

primrec nd_incident :: "ndev \<Rightarrow> bool" where
  "nd_incident (Synth _ d) = incident d"
| "nd_incident (Repl d) = incident d"

primrec nd_state :: "ndev \<Rightarrow> dstate" where
  "nd_state (Synth _ d) = dev_state d"
| "nd_state (Repl d) = dev_state d"

primrec nd_update :: "(dstate \<Rightarrow> dstate) \<Rightarrow> ndev \<Rightarrow> ndev" where
  "nd_update f (Synth c d) = Synth c (d\<lparr>dev_state := f (dev_state d)\<rparr>)"
| "nd_update f (Repl d) = Repl (d\<lparr>dev_state := f (dev_state d)\<rparr>)"

text \<open>\<open>walk\<close> and \<open>dynamic_rows\<close> of a device: the result, the environment and the device afterwards.\<close>

primrec nd_walk :: "renv \<Rightarrow> ndev \<Rightarrow> real \<Rightarrow> sim \<Rightarrow> string res \<times> sim \<times> ndev" where
  "nd_walk e (Synth c d) now s =
     (let ((rows, d'), s') = run_state (dev_rows (e_cfg e) c d now) s in (render_walk rows, s', Synth c d'))"
| "nd_walk e (Repl d) now s = (let (r, s', d') = rd_walk e d now s in (r, s', Repl d'))"

primrec nd_dynamic_rows :: "renv \<Rightarrow> ndev \<Rightarrow> real \<Rightarrow> sim \<Rightarrow> row list res \<times> sim \<times> ndev" where
  "nd_dynamic_rows e (Synth c d) now s =
     (let ((rows, d'), s') = run_state (dev_rows (e_cfg e) c d now) s in (Inr rows, s', Synth c d'))"
| "nd_dynamic_rows e (Repl d) now s = (let (r, s', d') = rd_dynamic_rows e d now s in (r, s', Repl d'))"

section \<open>The table cache\<close>

record 'd proc =
  devs :: "'d list"
  psim :: sim
  cache :: "string \<rightharpoonup> real \<times> table"

definition TABLE_TTL :: real where "TABLE_TTL = 15"

text \<open>Replace the k-th device; \<open>by_comm\<close> maps a short name to the last device that has it.\<close>

definition dev_index :: "('d \<Rightarrow> string) \<Rightarrow> 'd list \<Rightarrow> string \<Rightarrow> nat option" where
  "dev_index nm ds c = (case filter (\<lambda>i. nm (ds ! i) = c) [0..<length ds] of [] \<Rightarrow> None | is \<Rightarrow> Some (last is))"

text \<open>
  \<open>table_for\<close>, over any kind of device with a walk and dynamic rows.  \<open>now\<close> is the reading of the
  clock; an exception is caught by the server loop, which drops the datagram, but the devices and the
  environment stay as the rendering left them.  (A refresh that raised half way would also leave the
  rows before the bad one in the cached table; the model keeps the old table there, a case the
  contract below excludes.)
\<close>

definition table_for ::
    "('d \<Rightarrow> string) \<Rightarrow> ('d \<Rightarrow> real \<Rightarrow> sim \<Rightarrow> string res \<times> sim \<times> 'd) \<Rightarrow> ('d \<Rightarrow> real \<Rightarrow> sim \<Rightarrow> row list res \<times> sim \<times> 'd)
     \<Rightarrow> 'd proc \<Rightarrow> real \<Rightarrow> string \<Rightarrow> table option res \<times> 'd proc" where
  "table_for nm walk dynamic p now community =
     (case dev_index nm (devs p) community of
        None \<Rightarrow> (Inr None, p)
      | Some i \<Rightarrow>
          (case cache p community of
             None \<Rightarrow>
               (let (tx, s', d') = walk (devs p ! i) now (psim p);
                    p' = p\<lparr>devs := (devs p)[i := d'], psim := s'\<rparr>
                in case bindR tx (\<lambda>tx. table_init (walk_rows tx)) of
                     Inl err \<Rightarrow> (Inl err, p')
                   | Inr t \<Rightarrow> (Inr (Some t), p'\<lparr>cache := (cache p)(community \<mapsto> (now, t))\<rparr>))
           | Some (ts, t) \<Rightarrow>
               if now - ts \<ge> TABLE_TTL
               then (let (rows, s', d') = dynamic (devs p ! i) now (psim p);
                         p' = p\<lparr>devs := (devs p)[i := d'], psim := s'\<rparr>
                     in case bindR rows (table_patch t) of
                          Inl err \<Rightarrow> (Inl err, p')
                        | Inr t' \<Rightarrow> (Inr (Some t'), p'\<lparr>cache := (cache p)(community \<mapsto> (now, t'))\<rparr>))
               else (Inr (Some t), p)))"

text \<open>A sequence of requests, each with its time.\<close>

fun serve_all ::
    "('d \<Rightarrow> string) \<Rightarrow> ('d \<Rightarrow> real \<Rightarrow> sim \<Rightarrow> string res \<times> sim \<times> 'd) \<Rightarrow> ('d \<Rightarrow> real \<Rightarrow> sim \<Rightarrow> row list res \<times> sim \<times> 'd)
     \<Rightarrow> (real \<times> string) list \<Rightarrow> 'd proc \<Rightarrow> 'd proc" where
  "serve_all nm walk dynamic [] p = p"
| "serve_all nm walk dynamic ((now, c) # reqs) p =
     serve_all nm walk dynamic reqs (snd (table_for nm walk dynamic p now c))"

text \<open>The contract: \<open>ok\<close> devices keep their OIDs, and their dynamic rows never raise and stay inside.\<close>

locale table_feed =
  fixes nm :: "'d \<Rightarrow> string"
    and walk :: "'d \<Rightarrow> real \<Rightarrow> sim \<Rightarrow> string res \<times> sim \<times> 'd"
    and dynamic :: "'d \<Rightarrow> real \<Rightarrow> sim \<Rightarrow> row list res \<times> sim \<times> 'd"
    and ok :: "'d \<Rightarrow> bool"
    and oid_names :: "'d \<Rightarrow> string set"
  assumes walk_keeps: "ok d \<Longrightarrow> walk d now s = (r, s', d') \<Longrightarrow> ok d' \<and> nm d' = nm d \<and> oid_names d' = oid_names d"
    and walk_oids: "ok d \<Longrightarrow> walk d now s = (Inr tx, s', d') \<Longrightarrow> fst ` set (walk_rows tx) = oid_names d"
    and dynamic_keeps: "ok d \<Longrightarrow> dynamic d now s = (q, s', d') \<Longrightarrow> ok d' \<and> nm d' = nm d \<and> oid_names d' = oid_names d"
    and dynamic_inside: "ok d \<Longrightarrow> \<exists>rows s' d'. dynamic d now s = (Inr rows, s', d') \<and> fst ` set rows \<subseteq> oid_names d"
begin

text \<open>Every cached table is well formed and holds exactly its device's OIDs.\<close>

definition good_table :: "'d \<Rightarrow> table \<Rightarrow> bool" where
  "good_table d t \<longleftrightarrow> table_wf t \<and> set (oids t) = {k. \<exists>o' \<in> oid_names d. parse_oid o' = Inr k}
     \<and> (\<forall>o' \<in> oid_names d. \<exists>k. parse_oid o' = Inr k)"

definition cache_ok :: "'d proc \<Rightarrow> bool" where
  "cache_ok p \<longleftrightarrow> (\<forall>d \<in> set (devs p). ok d) \<and>
     (\<forall>c ts t i. cache p c = Some (ts, t) \<longrightarrow> dev_index nm (devs p) c = Some i \<longrightarrow> good_table (devs p ! i) t)"

lemma index_valid: "dev_index nm ds c = Some i \<Longrightarrow> i < length ds \<and> nm (ds ! i) = c"
  using last_in_set [of "filter (\<lambda>i. nm (ds ! i) = c) [0..<length ds]"]
  by (auto simp: dev_index_def split: list.splits)

lemma index_update: "i < length ds \<Longrightarrow> nm d' = nm (ds ! i) \<Longrightarrow> dev_index nm (ds[i := d']) c = dev_index nm ds c"
proof -
  assume a: "i < length ds" "nm d' = nm (ds ! i)"
  then have "nm (ds[i := d'] ! j) = nm (ds ! j)" for j by (cases "i = j") auto
  then show ?thesis by (simp add: dev_index_def)
qed

lemma good_init:
  assumes "ok d" and "walk d now s = (Inr tx, s', d')" and "table_init (walk_rows tx) = Inr t"
  shows "good_table d t"
proof -
  have o: "fst ` set (walk_rows tx) = oid_names d" by (rule walk_oids [OF assms(1,2)])
  from table_init_keys [OF assms(3)] table_init_wf [OF assms(3)] show ?thesis
    unfolding good_table_def o [symmetric] by simp
qed

lemma good_patch:
  assumes "ok d" and "good_table d t" and "dynamic d now s = (Inr rows, s', d')"
  shows "\<exists>t'. table_patch t rows = Inr t' \<and> good_table d t' \<and> oids t' = oids t"
proof -
  have sub: "fst ` set rows \<subseteq> oid_names d" using dynamic_inside [OF assms(1), of now s] assms(3) by auto
  have "\<forall>r \<in> set rows. \<exists>k. parse_oid (fst r) = Inr k" using sub assms(2) by (auto simp: good_table_def)
  then obtain m where "put_rows (tvalue t) rows = Inr m" using put_rows_total by blast
  then have t': "table_patch t rows = Inr (t\<lparr>tvalue := m\<rparr>)" by (simp add: table_patch_def)
  have wf: "table_wf t" using assms(2) by (simp add: good_table_def)
  have "\<forall>r \<in> set rows. \<forall>oid. parse_oid (fst r) = Inr oid \<longrightarrow> oid \<in> set (oids t)"
    using sub assms(2) by (auto simp: good_table_def)
  from table_patch_wf [OF wf t' this] t' assms(2) show ?thesis by (auto simp: good_table_def)
qed

lemma good_same: "oid_names d' = oid_names d \<Longrightarrow> good_table d' t = good_table d t"
  by (simp add: good_table_def)

lemma cache_ok_update:
  assumes "cache_ok p" and "i < length (devs p)" and "ok d'" "nm d' = nm (devs p ! i)"
    and "oid_names d' = oid_names (devs p ! i)"
  shows "cache_ok (p\<lparr>devs := (devs p)[i := d'], psim := s'\<rparr>)"
proof -
  have same: "oid_names ((devs p)[i := d'] ! j) = oid_names (devs p ! j)" for j
    using assms(2,5) by (cases "i = j") auto
  have "\<forall>d \<in> set ((devs p)[i := d']). ok d"
    using assms(1,3) set_update_subset_insert [of "devs p" i d'] by (auto simp: cache_ok_def)
  with assms(1) same show ?thesis
    by (simp add: cache_ok_def index_update [OF assms(2,4)] good_same [OF same])
qed

lemma cache_ok_put:
  assumes "cache_ok p" and "dev_index nm (devs p) c = Some i" and "good_table (devs p ! i) t"
  shows "cache_ok (p\<lparr>cache := (cache p)(c \<mapsto> (ts, t))\<rparr>)"
  using assms by (auto simp: cache_ok_def)

text \<open>One call: the invariant is kept, and once a table is cached the call cannot fail and serves a
  table with the same OIDs.\<close>

lemma table_for_keeps:
  assumes "cache_ok p" and "table_for nm walk dynamic p now c = (r, p')"
  shows "cache_ok p' \<and> map nm (devs p') = map nm (devs p) \<and>
    (\<forall>ts t. cache p c = Some (ts, t) \<longrightarrow> dev_index nm (devs p) c \<noteq> None \<longrightarrow>
       (\<exists>t' ts'. r = Inr (Some t') \<and> oids t' = oids t \<and> table_wf t' \<and> cache p' c = Some (ts', t')))"
proof (cases "dev_index nm (devs p) c")
  case None
  then show ?thesis using assms by (auto simp: table_for_def)
next
  case (Some i)
  note iv = index_valid [OF Some]
  have okd: "ok (devs p ! i)" using assms(1) iv by (auto simp: cache_ok_def)
  show ?thesis
  proof (cases "cache p c")
    case None
    obtain tx s' d' where w: "walk (devs p ! i) now (psim p) = (tx, s', d')" by (cases "walk (devs p ! i) now (psim p)")
    note k = walk_keeps [OF okd w]
    let ?p = "p\<lparr>devs := (devs p)[i := d'], psim := s'\<rparr>"
    have c0: "cache_ok ?p" using cache_ok_update [OF assms(1)] iv k by simp
    have nms: "map nm (devs ?p) = map nm (devs p)"
      using iv k by (simp add: map_update) (metis list_update_id nth_map)
    show ?thesis
    proof (cases "bindR tx (\<lambda>tx. table_init (walk_rows tx))")
      case (Inl err)
      then have "p' = ?p" using assms(2) Some None w by (simp add: table_for_def)
      with c0 nms None show ?thesis by simp
    next
      case (Inr t)
      then have p': "p' = ?p\<lparr>cache := (cache p)(c \<mapsto> (now, t))\<rparr>"
        using assms(2) Some None w by (simp add: table_for_def)
      obtain tx' where "tx = Inr tx'" "table_init (walk_rows tx') = Inr t" using Inr by (auto simp: bindR_eq_Inr)
      then have "good_table (devs p ! i) t" using good_init okd w by blast
      then have g: "good_table (devs ?p ! i) t" using good_same [of d' "devs p ! i" t] k iv by simp
      have "dev_index nm (devs ?p) c = Some i" using Some index_update iv k by simp
      from cache_ok_put [OF c0 this g, of now] nms None show ?thesis by (simp add: p')
    qed
  next
    case (Some tt)
    obtain ts t where tt: "cache p c = Some (ts, t)" using \<open>cache p c = Some tt\<close> by (cases tt) simp
    note ix = \<open>dev_index nm (devs p) c = Some i\<close>
    have gt: "good_table (devs p ! i) t" using assms(1) tt ix unfolding cache_ok_def by blast
    show ?thesis
    proof (cases "now - ts \<ge> TABLE_TTL")
      case False
      then have "p' = p" "r = Inr (Some t)" using assms(2) ix tt by (auto simp: table_for_def)
      with assms(1) gt tt show ?thesis by (auto simp: good_table_def)
    next
      case True
      obtain rows s' d' where w: "dynamic (devs p ! i) now (psim p) = (rows, s', d')"
        by (cases "dynamic (devs p ! i) now (psim p)")
      obtain rows' where rows: "rows = Inr rows'" using dynamic_inside [OF okd, of now "psim p"] w by auto
      obtain t' where t': "table_patch t rows' = Inr t'" "good_table (devs p ! i) t'" "oids t' = oids t"
        using good_patch [OF okd gt] w rows by blast
      note k = dynamic_keeps [OF okd w]
      let ?p = "p\<lparr>devs := (devs p)[i := d'], psim := s'\<rparr>"
      have c0: "cache_ok ?p" using cache_ok_update [OF assms(1)] iv k by simp
      have nms: "map nm (devs ?p) = map nm (devs p)"
        using iv k by (simp add: map_update) (metis list_update_id nth_map)
      have p': "p' = ?p\<lparr>cache := (cache p)(c \<mapsto> (now, t'))\<rparr>" "r = Inr (Some t')"
        using assms(2) ix tt True w rows t'(1) by (auto simp: table_for_def)
      have g: "good_table (devs ?p ! i) t'" using t'(2) good_same [of d' "devs p ! i" t'] k iv by simp
      have "dev_index nm (devs ?p) c = Some i" using ix index_update iv k by simp
      from cache_ok_put [OF c0 this g, of now] nms t'(2,3) tt show ?thesis
        by (auto simp: p' good_table_def)
    qed
  qed
qed

lemma table_for_cached:
  assumes "cache_ok p" and "table_for nm walk dynamic p now c = (Inr (Some t), p')"
  shows "\<exists>ts. cache p' c = Some (ts, t)" and "dev_index nm (devs p) c \<noteq> None"
  using assms(2)
  by (auto simp: table_for_def Let_def split: option.splits prod.splits sum.splits if_splits)

lemma index_names: "map nm ds = map nm ds' \<Longrightarrow> dev_index nm ds c = dev_index nm ds' c"
proof -
  assume h: "map nm ds = map nm ds'"
  then have l: "length ds = length ds'" by (rule map_eq_imp_length_eq)
  have "filter (\<lambda>i. nm (ds ! i) = c) [0..<length ds] = filter (\<lambda>i. nm (ds' ! i) = c) [0..<length ds']"
    unfolding l
  proof (rule filter_cong)
    fix i assume "i \<in> set [0..<length ds']"
    then have "nm (ds ! i) = nm (ds' ! i)" using h l by (metis atLeastLessThan_iff nth_map set_upt)
    then show "(nm (ds ! i) = c) = (nm (ds' ! i) = c)" by simp
  qed simp
  then show ?thesis by (simp only: dev_index_def)
qed

lemma serve_all_keeps:
  assumes "cache_ok p" and "cache p c = Some (ts, t)" and "dev_index nm (devs p) c \<noteq> None"
  shows "cache_ok (serve_all nm walk dynamic reqs p) \<and> dev_index nm (devs (serve_all nm walk dynamic reqs p)) c \<noteq> None
    \<and> (\<exists>ts' t'. cache (serve_all nm walk dynamic reqs p) c = Some (ts', t') \<and> oids t' = oids t)"
  using assms
proof (induction reqs arbitrary: p ts t)
  case (Cons q reqs)
  obtain now c' where q: "q = (now, c')" by (cases q)
  obtain r p' where f: "table_for nm walk dynamic p now c' = (r, p')" by (cases "table_for nm walk dynamic p now c'")
  note k = table_for_keeps [OF Cons.prems(1) f]
  have ix: "dev_index nm (devs p') c \<noteq> None" using Cons.prems(3) index_names [of "devs p'" "devs p"] k by simp
  have "\<exists>ts' t'. cache p' c = Some (ts', t') \<and> oids t' = oids t"
  proof (cases "c = c'")
    case True
    show ?thesis using k Cons.prems(2,3) unfolding True by auto
  next
    case False
    have "cache p' c = cache p c" using f False
      by (auto simp: table_for_def Let_def split: option.splits prod.splits sum.splits if_splits)
    with Cons.prems(2) show ?thesis by simp
  qed
  then obtain ts' t' where c': "cache p' c = Some (ts', t')" "oids t' = oids t" by blast
  from Cons.IH [OF conjunct1 [OF k] c'(1) ix] c'(2) show ?case by (simp add: q f)
qed auto

lemma serve_all_ok: "cache_ok p \<Longrightarrow> cache_ok (serve_all nm walk dynamic reqs p)"
proof (induction reqs arbitrary: p)
  case (Cons q reqs)
  obtain now c where q: "q = (now, c)" by (cases q)
  obtain r p' where "table_for nm walk dynamic p now c = (r, p')" by (cases "table_for nm walk dynamic p now c")
  with table_for_keeps [OF Cons.prems this] Cons.IH show ?case by (simp add: q)
qed simp

text \<open>Once a community has been served, it is served for ever, always with the same OIDs.\<close>

lemma served_for_ever:
  assumes "cache_ok p" and "table_for nm walk dynamic p now c = (Inr (Some t), p1)"
  shows "\<exists>t' p3. table_for nm walk dynamic (serve_all nm walk dynamic reqs p1) now2 c = (Inr (Some t'), p3)
    \<and> table_wf t' \<and> oids t' = oids t"
proof -
  note k = table_for_keeps [OF assms]
  obtain ts where "cache p1 c = Some (ts, t)" using table_for_cached(1) [OF assms] by blast
  moreover have "dev_index nm (devs p1) c \<noteq> None"
    using table_for_cached(2) [OF assms] index_names [of "devs p1" "devs p"] k by simp
  ultimately obtain ts' t' where s: "cache_ok (serve_all nm walk dynamic reqs p1)"
    "dev_index nm (devs (serve_all nm walk dynamic reqs p1)) c \<noteq> None"
    "cache (serve_all nm walk dynamic reqs p1) c = Some (ts', t')" "oids t' = oids t"
    using serve_all_keeps [of p1 c ts t reqs] k by blast
  obtain r p3 where f: "table_for nm walk dynamic (serve_all nm walk dynamic reqs p1) now2 c = (r, p3)"
    by (cases "table_for nm walk dynamic (serve_all nm walk dynamic reqs p1) now2 c")
  obtain t2 where "r = Inr (Some t2)" "oids t2 = oids t'" "table_wf t2"
    using table_for_keeps [OF s(1) f] s(2,3) by blast
  with f s(4) show ?thesis by simp
qed

end


section \<open>Replayed devices feed the cache\<close>

lemma mapA_inv:
  assumes "\<And>x s r s'. x \<in> set xs \<Longrightarrow> I s \<Longrightarrow> f x s = (r, s') \<Longrightarrow> I s'" and "I s" and "mapA f xs s = (r, s')"
  shows "I s'"
  using assms
proof (induction xs arbitrary: s r s')
  case (Cons x xs)
  obtain y s1 where y: "f x s = (y, s1)" by (cases "f x s")
  then have i1: "I s1" using Cons.prems by auto
  show ?case
  proof (cases y)
    case (Inl err)
    then show ?thesis using Cons.prems(3) y i1 by (simp add: bindA_def)
  next
    case (Inr v)
    obtain ys s2 where ys: "mapA f xs s1 = (ys, s2)" by (cases "mapA f xs s1")
    have "I s2" using Cons.IH [OF _ i1 ys] Cons.prems(1) by auto
    moreover have "s' = s2" using Cons.prems(3) y Inr ys by (cases ys) (simp_all add: bindA_def retA_def)
    ultimately show ?thesis by simp
  qed
qed (simp add: retA_def)

definition skeleton :: "segment list \<Rightarrow> string" where
  "skeleton segs = concat (map (\<lambda>seg. case seg of Static t \<Rightarrow> t | Slot _ oid _ _ \<Rightarrow> walk_line (oid, [])) segs)"

definition rd_oids :: "rdevice \<Rightarrow> string set" where
  "rd_oids d = fst ` set (walk_rows (skeleton (segments (rd_model d))))"

definition rd_ok :: "renv \<Rightarrow> rdevice \<Rightarrow> bool" where
  "rd_ok e d \<longleftrightarrow> env_ok e d \<and> (\<exists>ls. model_init ls = Inr (rd_model d) \<and> (\<forall>l \<in> set ls. clean l))"

lemma model_rows_ok:
  assumes "\<forall>l \<in> set ls. clean l"
  shows "\<forall>r \<in> set (map (partition_at (CHR '' '')) ls). row_ok r"
proof
  fix r assume "r \<in> set (map (partition_at (CHR '' '')) ls)"
  then obtain l where l: "l \<in> set ls" "r = partition_at (CHR '' '') l" by auto
  have "set (tl xs) \<subseteq> set xs" for xs :: string by (cases xs) auto
  moreover have "set (dropWhile P l) \<subseteq> set l" "set (takeWhile P l) \<subseteq> set l" for P
    by (auto dest: set_dropWhileD set_takeWhileD)
  ultimately have "set (snd r) \<subseteq> set l" "set (fst r) \<subseteq> set l"
    unfolding l(2) partition_at_def fst_conv snd_conv by blast+
  with l assms show "row_ok r"
    by (auto simp: row_ok_def partition_at_def intro: clean_subset dest: set_takeWhileD)
qed

lemma skeleton_oids:
  assumes "model_init ls = Inr m" and "\<forall>l \<in> set ls. clean l"
  shows "fst ` set (walk_rows (skeleton (segments m))) = {o' \<in> fst ` set (map (partition_at (CHR '' '')) ls). o' \<noteq> []}"
proof -
  let ?rows = "map (partition_at (CHR '' '')) ls"
  let ?txt = "\<lambda>seg. case seg of Static t \<Rightarrow> t | Slot _ oid _ _ \<Rightarrow> walk_line (oid, [])"
  have "list_all2 (\<lambda>seg p. case seg of Static t \<Rightarrow> p = t | Slot _ oid _ _ \<Rightarrow> \<exists>v. v = [] \<and> p = walk_line (oid, v))
      (segments m) (map ?txt (segments m))"
    by (auto simp: list_all2_conv_all_nth split: segment.splits)
  from seg_of_rendered [OF model_init_segs [OF assms(1)] this]
  obtain rows' where r: "skeleton (segments m) = concat (map walk_line rows')" "map fst rows' = map fst ?rows"
    "set rows' \<subseteq> set ?rows \<union> {r. snd r = []}"
    unfolding skeleton_def by blast
  have "\<forall>r \<in> set rows'. row_ok r"
  proof
    fix r assume r': "r \<in> set rows'"
    then have "fst r \<in> set (map fst rows')" by simp
    then have "fst r \<in> fst ` set ?rows" unfolding r(2) set_map .
    then obtain q where q: "q \<in> set ?rows" "fst q = fst r" by (metis imageE)
    have "clean (snd r)" using r(3) r' model_rows_ok [OF assms(2)] by (auto simp: row_ok_def clean_def)
    with model_rows_ok [OF assms(2)] q show "row_ok r" by (metis row_ok_def)
  qed
  then have w: "walk_rows (skeleton (segments m)) = filter (\<lambda>r. fst r \<noteq> []) rows'"
    unfolding r(1) by (rule walk_rows_text)
  have "fst ` set (filter (\<lambda>r. fst r \<noteq> []) rows') = {o' \<in> set (map fst rows'). o' \<noteq> []}" by auto
  then show ?thesis unfolding w r(2) by (simp add: image_image)
qed

text \<open>Rendering keeps the identity cache one-line, whether it returns or raises.\<close>

lemma slot_value_inv:
  assumes "env_ok e d" and "\<forall>v \<in> ran (rs_ident s). clean v" and "kind \<in> ID_KINDS \<longrightarrow> clean key"
    and "slot_value e d kind oid key rec el now s = (r, s')"
  shows "\<forall>v \<in> ran (rs_ident s'). clean v"
proof (cases r)
  case (Inr v)
  from slot_value_clean [OF assms(1-3) assms(4) [unfolded Inr]] show ?thesis by simp
next
  case (Inl err)
  have "kind \<notin> DYNAMIC_KINDS"
    using dynamic_slot_total [of kind e d oid key rec el now s] assms(4) Inl by auto
  then have "s' = s" using assms(4) Inl
    by (cases kind) (auto simp: DYNAMIC_KINDS_def slot_value_def retA_def identity_def split: option.splits sum.splits)
  with assms(2) show ?thesis by simp
qed

lemma rd_walk_keeps:
  assumes "rd_ok e d" and "rd_walk e d now s = (r, s', d')"
  shows "rd_ok e d' \<and> short d' = short d \<and> rd_oids d' = rd_oids d"
proof -
  let ?f = "seg_text e d (rd_elapsed e d now) now" and ?I = "\<lambda>st. \<forall>v \<in> ran (rs_ident st). clean v"
  let ?s0 = "\<lparr>rs_sim = s, rs_ident = ident d, rs_sampled = Map.empty\<rparr>"
  obtain ls where ls: "model_init ls = Inr (rd_model d)" "\<forall>l \<in> set ls. clean l" and env: "env_ok e d"
    using assms(1) by (auto simp: rd_ok_def)
  have rc: "\<forall>r \<in> set (map (partition_at (CHR '' '')) ls). clean (snd r)"
    using model_rows_ok [OF ls(2)] by (simp add: row_ok_def)
  obtain parts st where m: "mapA ?f (segments (rd_model d)) ?s0 = (parts, st)"
    by (cases "mapA ?f (segments (rd_model d)) ?s0")
  then have d': "d' = d\<lparr>ident := rs_ident st\<rparr>"
    using assms(2) by (cases parts) (auto simp: rd_walk_def rendering_def bindA_def retA_def)
  have "?I st"
  proof (rule mapA_inv [OF _ _ m, of ?I])
    fix seg s1 p s2 assume seg: "seg \<in> set (segments (rd_model d))" and i: "?I s1" and f: "?f seg s1 = (p, s2)"
    show "?I s2"
    proof (cases seg)
      case (Static t)
      with f i show ?thesis by (simp add: seg_text_def retA_def)
    next
      case (Slot kind oid key rec)
      obtain v s3 where v: "slot_value e d kind oid key rec (rd_elapsed e d now) now s1 = (v, s3)"
        by (cases "slot_value e d kind oid key rec (rd_elapsed e d now) now s1")
      have "s2 = s3" using f v Slot by (cases v) (auto simp: seg_text_def bindA_def retA_def)
      moreover have "kind \<in> ID_KINDS \<longrightarrow> clean key" using seg_of_id_keys [OF model_init_segs [OF ls(1)] rc] seg Slot by blast
      ultimately show ?thesis using slot_value_inv [OF env i _ v] by simp
    qed
  qed (use env in \<open>simp add: env_ok_def\<close>)
  then have "env_ok e d'" using env by (simp add: d' env_ok_def fqdn_def)
  moreover have "rd_model d' = rd_model d" "short d' = short d" by (simp_all add: d')
  ultimately show ?thesis using ls by (auto simp: rd_ok_def rd_oids_def)
qed

lemma rd_dynamic_keeps:
  assumes "rd_ok e d" and "rd_dynamic_rows e d now s = (r, s', d')"
  shows "rd_ok e d' \<and> short d' = short d \<and> rd_oids d' = rd_oids d"
proof -
  let ?f = "\<lambda>(kind, oid, key, rec). bindA (slot_value e d kind oid key rec (rd_elapsed e d now) now) (\<lambda>v. retA (oid, v))"
  let ?s0 = "\<lparr>rs_sim = s, rs_ident = ident d, rs_sampled = Map.empty\<rparr>"
  obtain ys st where m: "mapA ?f (dynamic_slots (segments (rd_model d))) ?s0 = (ys, st)"
    by (cases "mapA ?f (dynamic_slots (segments (rd_model d))) ?s0")
  then have d': "d' = d\<lparr>ident := rs_ident st\<rparr>"
    using assms(2) by (auto simp: rd_dynamic_rows_def rendering_def)
  have "rs_ident st = ident d"
  proof (rule mapA_inv [OF _ _ m, of "\<lambda>st. rs_ident st = ident d"])
    fix x s1 p s2 assume x: "x \<in> set (dynamic_slots (segments (rd_model d)))" and i: "rs_ident s1 = ident d" and f: "?f x s1 = (p, s2)"
    obtain kind oid key rec where q: "x = (kind, oid, key, rec)" by (cases x)
    have "kind \<in> DYNAMIC_KINDS" using x by (auto simp: q dynamic_slots_def split: segment.splits if_splits)
    from dynamic_slot_total [OF this, of e d oid key rec "rd_elapsed e d now" now s1] f i
    show "rs_ident s2 = ident d" by (auto simp: q bindA_def retA_def)
  qed simp
  then have "d' = d" by (simp add: d')
  with assms(1) show ?thesis by simp
qed

interpretation rfeed: table_feed short "rd_walk e" "rd_dynamic_rows e" "rd_ok e" rd_oids for e
proof unfold_locales
  fix d now s r s' d' assume "rd_ok e d" "rd_walk e d now s = (r, s', d')"
  then show "rd_ok e d' \<and> short d' = short d \<and> rd_oids d' = rd_oids d" by (rule rd_walk_keeps)
next
  fix d now s tx s' d' assume ok: "rd_ok e d" and w: "rd_walk e d now s = (Inr tx, s', d')"
  obtain ls where ls: "model_init ls = Inr (rd_model d)" "\<forall>l \<in> set ls. clean l" and env: "env_ok e d"
    using ok by (auto simp: rd_ok_def)
  obtain rows' where r: "walk_rows tx = filter (\<lambda>r. fst r \<noteq> []) rows'"
    "map fst rows' = map (fst \<circ> partition_at (CHR '' '')) ls"
    using rd_walk_rows [OF ls env w] by blast
  have "fst ` set (filter (\<lambda>r. fst r \<noteq> []) rows') = {o' \<in> set (map fst rows'). o' \<noteq> []}" by auto
  then show "fst ` set (walk_rows tx) = rd_oids d"
    unfolding r rd_oids_def skeleton_oids [OF ls] by (simp add: image_image)
next
  fix d now s q s' d' assume "rd_ok e d" "rd_dynamic_rows e d now s = (q, s', d')"
  then show "rd_ok e d' \<and> short d' = short d \<and> rd_oids d' = rd_oids d" by (rule rd_dynamic_keeps)
next
  fix d now s assume "rd_ok e d"
  then obtain ls where ls: "model_init ls = Inr (rd_model d)" "\<forall>l \<in> set ls. clean l" by (auto simp: rd_ok_def)
  obtain dyn s' d' where d: "rd_dynamic_rows e d now s = (Inr dyn, s', d')"
    "map fst dyn = map (\<lambda>(kind, oid, key, rec). oid) (dynamic_slots (segments (rd_model d)))"
    using rd_dynamic_total [of e d now s] by auto
  have "fst ` set dyn \<subseteq> rd_oids d"
  proof
    fix oid assume "oid \<in> fst ` set dyn"
    then have "oid \<in> set (map (\<lambda>(kind, oid, key, rec). oid) (dynamic_slots (segments (rd_model d))))"
      unfolding d(2) [symmetric] by simp
    then obtain kind key rec where "(kind, oid, key, rec) \<in> set (dynamic_slots (segments (rd_model d)))" by auto
    from dynamic_slots_oids [OF model_init_segs [OF ls(1)] this] show "oid \<in> rd_oids d"
      unfolding rd_oids_def skeleton_oids [OF ls] by simp
  qed
  with d show "\<exists>rows s' d'. rd_dynamic_rows e d now s = (Inr rows, s', d') \<and> fst ` set rows \<subseteq> rd_oids d" by blast
qed


section \<open>Synthetic devices feed the cache\<close>

lemma split_on_append: "split_on c (a @ c # b) = split_on c a @ split_on c b"
proof (induction a)
  case Nil
  show ?case by (cases "split_on c b") simp_all
next
  case (Cons x a)
  obtain w ws where w: "split_on c a = w # ws" by (cases "split_on c a") auto
  with Cons show ?case by simp
qed

lemma digits10_iff: "c \<in> digits10 \<longleftrightarrow> digit_char c"
proof
  assume "digit_char c"
  then have "(of_char c :: nat) \<in> {48, 49, 50, 51, 52, 53, 54, 55, 56, 57}"
    unfolding digit_char_def insert_iff empty_iff by presburger
  moreover have "c = char_of (of_char c :: nat)" by simp
  ultimately have "c \<in> char_of ` {48, 49, 50, 51, 52, 53, 54, 55, 56, 57 :: nat}" by blast
  moreover have "char_of ` {48, 49, 50, 51, 52, 53, 54, 55, 56, 57 :: nat} = digits10" by code_simp
  ultimately show "c \<in> digits10" by (simp only:)
qed (rule digits10_char)

lemma plain_iface_oid:
  assumes "plain_oid p"
  shows "plain_oid (p @ ''.'' @ nat_str i)"
proof -
  obtain r where p: "p = CHR ''.'' # r" "r \<noteq> []" "hd r \<in> digits10"
    and w: "list_all (\<lambda>w. w \<noteq> [] \<and> list_all (\<lambda>x. x \<in> digits10) w) (split_on (CHR ''.'') r)"
    using assms by (auto simp: plain_oid_def split: list.splits)
  have n: "\<forall>c \<in> set (nat_str i). c \<in> digits10" using nat_str_chars digits10_iff by blast
  have "CHR ''.'' \<notin> set (nat_str i)" using nat_str_chars [of "CHR ''.''" i] by (auto simp: digit_char_def)
  then have "split_on (CHR ''.'') (r @ ''.'' @ nat_str i) = split_on (CHR ''.'') r @ [nat_str i]"
    using split_on_append [of "CHR ''.''" r "nat_str i"] split_on_no_sep by simp
  moreover have "last (r @ ''.'' @ nat_str i) \<in> digits10" using n by simp
  ultimately show ?thesis
    using p w n by (simp add: plain_oid_def list_all_iff)
qed

lemma iface_oids_plain: "list_all plain_oid (iface_oids i)"
proof -
  have cut: "p @ nat_str i = butlast p @ ''.'' @ nat_str i" if "p \<noteq> []" "last p = CHR ''.''" for p
    using that append_butlast_last_id [of p] by simp
  have "list_all (\<lambda>p. p \<noteq> [] \<and> last p = CHR ''.'' \<and> plain_oid (butlast p))
      (map (\<lambda>o'. butlast o') (iface_oids 0))" by code_simp
  moreover have "iface_oids i = map (\<lambda>p. p @ nat_str i) (map (\<lambda>o'. butlast o') (iface_oids 0))"
    by (simp add: iface_oids_def nat_str.simps [of 0] digit_def)
  ultimately show ?thesis using plain_iface_oid by (auto simp: list_all_iff cut)
qed

lemma dev_oids_plain: "list_all plain_oid (dev_oids cls idx)"
proof -
  have i: "list_all plain_oid (concat (map iface_oids idx))"
    using iface_oids_plain by (induction idx) (auto simp: list_all_iff)
  have s: "list_all plain_oid system_oids" "list_all plain_oid catalyst_oids" "list_all plain_oid ups_oids"
    "list_all plain_oid (wan_oids [])" "plain_oid ''.1.3.6.1.2.1.2.1.0''" by code_simp+
  then have "list_all plain_oid (wan_oids idx)" using i by (auto simp: wan_oids_def)
  with s i show ?thesis by (auto simp: dev_oids_def switch_oids_def split: dclass.splits)
qed


text \<open>The strings a synthetic device serves are one line each.\<close>

definition iface_clean :: "iface \<Rightarrow> bool" where
  "iface_clean it \<longleftrightarrow> clean (if_name it) \<and> clean (if_descr it) \<and> clean (if_alias it)"

definition dev_clean :: "netcfg \<Rightarrow> device \<Rightarrow> bool" where
  "dev_clean cfg d \<longleftrightarrow> clean (sys_descr d) \<and> clean (sys_objectid d) \<and> clean (location d) \<and> clean (fqdn cfg d)
     \<and> (\<forall>t. clean (cfg_date cfg t)) \<and> (\<forall>it \<in> set (ifaces d). iface_clean it)"

definition vals_clean :: "row list \<Rightarrow> bool" where
  "vals_clean rows \<longleftrightarrow> (\<forall>r \<in> set rows. clean (snd r))"

lemma vals_clean_simps [simp]:
  "vals_clean []" "vals_clean (r # rs) \<longleftrightarrow> clean (snd r) \<and> vals_clean rs"
  "vals_clean (a @ b) \<longleftrightarrow> vals_clean a \<and> vals_clean b"
  by (auto simp: vals_clean_def)

lemma clean_nat_str [simp]: "clean (nat_str n)"
  using clean_int_str [of "int n"] by (simp add: int_str_def)

declare clean_int_str [simp] clean_hex_bytes [simp]

lemma clean_lit:
  "clean []" "clean (c # s) \<longleftrightarrow> \<not> line_break c \<and> clean s"
  by (auto simp: clean_def)

lemma iface_table_clean: "iface_clean it \<Longrightarrow> vals_clean (iface_table it vals)"
  by (simp add: iface_table_def iface_clean_def Let_def mac_def) (simp add: clean_lit line_break_def)

lemma ifaces_rows_clean:
  "\<forall>it \<in> set its. iface_clean it \<Longrightarrow> outs (ifaces_rows its) vals_clean"
proof (induction its)
  case (Cons it its)
  have a: "outs (iface_rows it) vals_clean"
    unfolding iface_rows_def using Cons.prems by (intro outs_rules iface_table_clean) simp
  have b: "outs (ifaces_rows its) vals_clean" using Cons by simp
  show ?case
    unfolding ifaces_rows.simps by (rule outs_bind_via [OF a], rule outs_bind_via [OF b], rule outs_return) simp
qed (auto intro: outs_rules)

lemma system_rows_clean: "dev_clean cfg d \<Longrightarrow> vals_clean (system_rows cfg d now)"
  by (simp add: system_rows_def dev_clean_def Let_def) (simp add: clean_lit line_break_def)

lemma envmon_clean:
  "clean a \<Longrightarrow> vals_clean (envmon_temp_rows a b c)" "\<forall>x \<in> set fs \<union> set ps. clean x \<Longrightarrow> vals_clean (envmon_fan_psu_rows fs ps)"
  by (auto simp: envmon_temp_rows_def envmon_fan_psu_rows_def vals_clean_def clean_lit line_break_def
      in_set_enumerate_eq)

lemma catalyst_clean: "vals_clean (catalyst_platform_rows cpu temp mu mf)"
proof -
  have "vals_clean (envmon_fan_psu_rows [''Switch 1 - FAN 1'', ''Switch 1 - FAN 2'']
         [''Switch 1 - Power Supply A, Normal'', ''Switch 1 - Power Supply B, Normal''])" by code_simp
  then show ?thesis
    by (simp add: catalyst_platform_rows_def) (simp add: clean_lit line_break_def)
qed

lemma tune_access_clean:
  assumes "dev_clean cfg d" and "length (ifaces d) = 50"
  shows "outs (tune_access d) (\<lambda>d'. dev_clean cfg d' \<and> short d' = short d)"
proof -
  have c: "iface_clean (ifaces d ! 48)" "iface_clean (ifaces d ! 49)"
    using assms by (auto simp: dev_clean_def)
  have put: "dev_clean cfg (d\<lparr>ifaces := (ifaces d)[48 := a, 49 := b]\<rparr>)" if "iface_clean a" "iface_clean b" for a b
  proof -
    have "set ((ifaces d)[48 := a, 49 := b]) \<subseteq> insert b (insert a (set (ifaces d)))"
      by (meson insert_mono order_trans set_update_subset_insert)
    with assms(1) that show ?thesis by (auto simp: dev_clean_def fqdn_def)
  qed
  show ?thesis
    unfolding tune_access_def Let_def if_distrib [of "\<lambda>m. outs m _"]
    by (auto intro!: outs_rules put split del: if_split split: if_splits) (use c in \<open>auto simp: iface_clean_def\<close>)
qed

lemma tune_wan_clean:
  assumes "dev_clean cfg d" and "length (ifaces d) = 2"
  shows "dev_clean cfg (tune_wan d f) \<and> short (tune_wan d f) = short d"
proof -
  obtain a b where "ifaces d = [a, b]" using assms by (auto simp: length_Suc_conv numeral_2_eq_2)
  then show ?thesis using assms(1) by (auto simp: tune_wan_def dev_clean_def iface_clean_def fqdn_def Let_def)
qed


lemma synth_clean:
  assumes "dev_clean cfg d" and "dev_shape cls d"
  shows "outs (dev_rows cfg cls d now) (\<lambda>(rows, d'). vals_clean rows \<and> dev_clean cfg d' \<and> short d' = short d)"
proof -
  have ifs: "outs (ifaces_rows (ifaces d')) vals_clean" if "dev_clean cfg d'" for d'
    using ifaces_rows_clean that by (simp add: dev_clean_def)
  show ?thesis
  proof (cases cls)
    case SwCore
    then show ?thesis
      unfolding dev_rows_def sw_core_rows_def dclass.case
      by (simp only: SwCore dclass.case)
        (rule outs_bind_via [where Q = vals_clean], rule outs_bind_via [OF ifs [OF assms(1)]], intro outs_rules,
          use assms(1) in \<open>simp_all add: system_rows_clean catalyst_clean\<close>, intro outs_rules, simp)
  next
    case SwAccess
    then have l: "length (ifaces d) = 50" using assms(2) by (simp add: dev_shape_def)
    show ?thesis
      unfolding dev_rows_def sw_access_rows_def SwAccess dclass.case
    proof (rule outs_bind_via [OF tune_access_clean [OF assms(1) l]])
      fix d' assume "dev_clean cfg d' \<and> short d' = short d"
      then show "outs (ifaces_rows (ifaces d') \<bind> (\<lambda>ifs. gauge (short d' @ ''.cpu'') 9 (Some 3) None (real (ord_sum (short d') mod 6)) 1100
          \<bind> (\<lambda>cpu. gauge (short d' @ ''.temp'') 43 (Some 1.5) None (real (ord_sum (short d') mod 5)) 2000
          \<bind> (\<lambda>temp. State_Monad.return (system_rows cfg d' now @ [(''.1.3.6.1.2.1.2.1.0'', nat_str (length (ifaces d')))] @ ifs
            @ catalyst_platform_rows cpu temp 1204570112 2890137600, d')))))
        (\<lambda>(rows, d'). vals_clean rows \<and> dev_clean cfg d' \<and> short d' = short d)"
        by (intro outs_bind_via [OF ifs] outs_rules) (auto simp: system_rows_clean catalyst_clean)
    qed
  next
    case RtWan
    then have l: "length (ifaces d) = 2" using assms(2) by (simp add: dev_shape_def)
    note tw = tune_wan_clean [OF assms(1) l]
    show ?thesis
      unfolding dev_rows_def rt_wan_rows_def RtWan dclass.case case_prod_unfold Let_def
      by (rule outs_bind, rule outs_bind_via [OF ifs [OF conjunct1 [OF tw]]], intro outs_rules)
        (use tw in \<open>simp add: system_rows_clean envmon_clean clean_lit line_break_def\<close>)
  next
    case Ups
    show ?thesis
      unfolding dev_rows_def ups_rows_def Ups dclass.case Let_def
      by (rule outs_bind_via [where Q = vals_clean], intro outs_rules,
          use assms(1) in \<open>simp add: system_rows_clean\<close>, use assms(1) in \<open>simp add: dev_clean_def clean_lit line_break_def\<close>,
          intro outs_rules) (use assms(1) in simp)
  qed
qed


lemma plain_chars:
  assumes "plain_oid s" and "c \<in> set s"
  shows "c = CHR ''.'' \<or> digit_char c"
proof -
  obtain r where s: "s = CHR ''.'' # r"
    and w: "list_all (\<lambda>w. w \<noteq> [] \<and> list_all (\<lambda>x. x \<in> digits10) w) (split_on (CHR ''.'') r)"
    using assms(1) by (auto simp: plain_oid_def split: list.splits)
  have "c \<in> set (join_with ''.'' ws) \<Longrightarrow> c = CHR ''.'' \<or> (\<exists>w \<in> set ws. c \<in> set w)" for ws
    by (induction "''.''" ws rule: join_with.induct) auto
  from this [of "split_on (CHR ''.'') r"] s assms(2) w show ?thesis
    by (auto simp: list_all_iff digits10_iff)
qed

lemma plain_row_ok:
  assumes "plain_oid (fst r)" and "clean (snd r)"
  shows "row_ok r \<and> fst r \<noteq> []"
proof -
  have "\<not> line_break c \<and> c \<noteq> CHR '' ''" if "c \<in> set (fst r)" for c
    using plain_chars [OF assms(1) that] by (auto simp: line_break_def digit_char_def)
  moreover have "fst r \<noteq> []" using assms(1) by (auto simp: plain_oid_def)
  ultimately show ?thesis using assms(2) by (auto simp: row_ok_def clean_def)
qed

lemma render_walk_rows:
  assumes "list_all plain_oid (map fst rows)" and "vals_clean rows"
  shows "\<exists>tx. render_walk rows = Inr tx \<and> set (walk_rows tx) = set rows"
proof -
  have key: "\<exists>k. oid_key (fst r) = Inr k" if "r \<in> set rows" for r
  proof -
    have p: "plain_oid (fst r)" using assms(1) that by (auto simp: list_all_iff)
    then have "parse_oid (fst r) = oid_key (fst r)" by (simp add: parse_oid_def oid_key_def plain_strip)
    with plain_oid_parses [OF p] show ?thesis by (cases "oid_key (fst r)") (auto simp: parses_def)
  qed
  define f :: "row \<Rightarrow> oid \<times> row" where "f r = (case oid_key (fst r) of Inr k \<Rightarrow> (k, r) | Inl _ \<Rightarrow> ([], r))" for r
  have "mapR (\<lambda>r. bindR (oid_key (fst r)) (\<lambda>k. Inr (k, r))) rows = Inr (map f rows)"
  proof (rule mapR_all_Inr)
    fix r assume "r \<in> set rows"
    then obtain k where "oid_key (fst r) = Inr k" using key by blast
    then show "bindR (oid_key (fst r)) (\<lambda>k. Inr (k, r)) = Inr (f r)" by (simp add: f_def)
  qed
  then have tx: "render_walk rows = Inr (concat (map walk_line (map snd (sort_key fst (map f rows)))))"
    by (simp add: render_walk_def)
  let ?s = "map snd (sort_key fst (map f rows))"
  have fs: "snd (f r) = r" for r by (simp add: f_def split: sum.splits)
  have set: "set ?s = set rows" by (simp add: image_image fs)
  have ok: "\<forall>r \<in> set ?s. row_ok r \<and> fst r \<noteq> []"
    unfolding set using assms plain_row_ok by (auto simp: list_all_iff vals_clean_def)
  then have "walk_rows (concat (map walk_line ?s)) = filter (\<lambda>r. fst r \<noteq> []) ?s"
    by (intro walk_rows_text) blast
  also have "\<dots> = ?s" using ok by (auto intro: filter_True)
  finally show ?thesis using tx set by auto
qed

section \<open>The process's own devices\<close>

definition nd_ok :: "renv \<Rightarrow> ndev \<Rightarrow> bool" where
  "nd_ok e nd = (case nd of Synth c d \<Rightarrow> dev_shape c d \<and> dev_clean (e_cfg e) d | Repl d \<Rightarrow> rd_ok e d)"

definition nd_oids :: "ndev \<Rightarrow> string set" where
  "nd_oids nd = (case nd of Synth c d \<Rightarrow> set (dev_oids c (indices d)) | Repl d \<Rightarrow> rd_oids d)"

lemma synth_run:
  assumes "nd_ok e (Synth c d)" and "run_state (dev_rows (e_cfg e) c d now) s = ((rows, d'), s')"
  shows "map fst rows = dev_oids c (indices d) \<and> vals_clean rows \<and> nd_ok e (Synth c d')
    \<and> short d' = short d \<and> nd_oids (Synth c d') = nd_oids (Synth c d)"
proof -
  have ok: "dev_shape c d" "dev_clean (e_cfg e) d" using assms(1) by (auto simp: nd_ok_def)
  have "(\<lambda>(rows, d'). map fst rows = dev_oids c (indices d) \<and> indices d' = indices d \<and> dev_shape c d') (rows, d')"
    using outsD [OF dev_rows_oids [OF ok(1)], of "e_cfg e" now s] by (simp add: assms(2))
  moreover have "(\<lambda>(rows, d'). vals_clean rows \<and> dev_clean (e_cfg e) d' \<and> short d' = short d) (rows, d')"
    using outsD [OF synth_clean [OF ok(2,1)], of now s] by (simp add: assms(2))
  ultimately show ?thesis by (simp add: nd_ok_def nd_oids_def)
qed

interpretation nfeed: table_feed nd_short "nd_walk e" "nd_dynamic_rows e" "nd_ok e" nd_oids for e
proof unfold_locales
  fix d now s r s' d' assume ok: "nd_ok e d" and w: "nd_walk e d now s = (r, s', d')"
  show "nd_ok e d' \<and> nd_short d' = nd_short d \<and> nd_oids d' = nd_oids d"
  proof (cases d)
    case (Synth c x)
    obtain rows x' s1 where r: "run_state (dev_rows (e_cfg e) c x now) s = ((rows, x'), s1)"
      by (metis surj_pair)
    have "d' = Synth c x'" using w by (simp add: Synth r)
    with synth_run [OF ok [unfolded Synth] r] show ?thesis by (simp add: Synth)
  next
    case (Repl x)
    have okx: "rd_ok e x" using ok by (simp add: Repl nd_ok_def)
    obtain r1 s1 x' where r: "rd_walk e x now s = (r1, s1, x')" by (metis surj_pair)
    have "d' = Repl x'" using w by (simp add: Repl r)
    with rfeed.walk_keeps [OF okx r] show ?thesis by (simp add: Repl nd_ok_def nd_oids_def)
  qed
next
  fix d now s tx s' d' assume ok: "nd_ok e d" and w: "nd_walk e d now s = (Inr tx, s', d')"
  show "fst ` set (walk_rows tx) = nd_oids d"
  proof (cases d)
    case (Synth c x)
    obtain rows x' s1 where r: "run_state (dev_rows (e_cfg e) c x now) s = ((rows, x'), s1)"
      by (metis surj_pair)
    note sr = synth_run [OF ok [unfolded Synth] r]
    have "render_walk rows = Inr tx" using w by (simp add: Synth r)
    moreover have "list_all plain_oid (map fst rows)" using sr dev_oids_plain by simp
    ultimately have "set (walk_rows tx) = set rows" using render_walk_rows sr by fastforce
    then have "fst ` set (walk_rows tx) = set (map fst rows)" by simp
    with sr show ?thesis by (simp add: Synth nd_oids_def)
  next
    case (Repl x)
    have okx: "rd_ok e x" using ok by (simp add: Repl nd_ok_def)
    obtain r1 s1 x' where r: "rd_walk e x now s = (r1, s1, x')" by (metis surj_pair)
    have "r1 = Inr tx" using w by (simp add: Repl r)
    with rfeed.walk_oids [OF okx] r show ?thesis by (simp add: Repl nd_oids_def)
  qed
next
  fix d now s q s' d' assume ok: "nd_ok e d" and w: "nd_dynamic_rows e d now s = (q, s', d')"
  show "nd_ok e d' \<and> nd_short d' = nd_short d \<and> nd_oids d' = nd_oids d"
  proof (cases d)
    case (Synth c x)
    obtain rows x' s1 where r: "run_state (dev_rows (e_cfg e) c x now) s = ((rows, x'), s1)"
      by (metis surj_pair)
    have "d' = Synth c x'" using w by (simp add: Synth r)
    with synth_run [OF ok [unfolded Synth] r] show ?thesis by (simp add: Synth)
  next
    case (Repl x)
    have okx: "rd_ok e x" using ok by (simp add: Repl nd_ok_def)
    obtain r1 s1 x' where r: "rd_dynamic_rows e x now s = (r1, s1, x')" by (metis surj_pair)
    have "d' = Repl x'" using w by (simp add: Repl r)
    with rfeed.dynamic_keeps [OF okx r] show ?thesis by (simp add: Repl nd_ok_def nd_oids_def)
  qed
next
  fix d now s assume ok: "nd_ok e d"
  show "\<exists>rows s' d'. nd_dynamic_rows e d now s = (Inr rows, s', d') \<and> fst ` set rows \<subseteq> nd_oids d"
  proof (cases d)
    case (Synth c x)
    obtain rows x' s1 where r: "run_state (dev_rows (e_cfg e) c x now) s = ((rows, x'), s1)"
      by (metis surj_pair)
    have "fst ` set rows = set (map fst rows)" by simp
    with synth_run [OF ok [unfolded Synth] r] r show ?thesis by (simp add: Synth nd_oids_def)
  next
    case (Repl x)
    then have "rd_ok e x" using ok by (simp add: nd_ok_def)
    from rfeed.dynamic_inside [OF this, of now s] obtain rows s1 x'
      where r: "rd_dynamic_rows e x now s = (Inr rows, s1, x')" "fst ` set rows \<subseteq> rd_oids x" by blast
    then have "nd_dynamic_rows e d now s = (Inr rows, s1, Repl x')" "fst ` set rows \<subseteq> nd_oids d"
      by (simp_all add: Repl nd_oids_def)
    then show ?thesis by blast
  qed
qed

text \<open>A synthetic device always gets its first table.\<close>

lemma synth_first_table:
  assumes "nd_ok e (Synth c d)"
  shows "\<exists>tx s' d' t. nd_walk e (Synth c d) now s = (Inr tx, s', d') \<and> table_init (walk_rows tx) = Inr t"
proof -
  obtain rows d' s1 where r: "run_state (dev_rows (e_cfg e) c d now) s = ((rows, d'), s1)"
    by (metis surj_pair)
  note sr = synth_run [OF assms r]
  have p: "list_all plain_oid (map fst rows)" using sr dev_oids_plain by simp
  from render_walk_rows [OF p] sr obtain tx
    where tx: "render_walk rows = Inr tx" "set (walk_rows tx) = set rows" by blast
  have "list_all plain_oid (map fst (walk_rows tx))" using p tx(2) by (simp add: list_all_iff)
  then obtain t where "table_init (walk_rows tx) = Inr t" using table_init_parses plain_oids_parse by blast
  with tx r show ?thesis by simp
qed

text \<open>C9. The table cache of the live SNMP transport, over any mix of synthetic and replayed devices, from an
  empty cache: once a poll of a community has been given a table, every later poll of it, after any
  sequence of requests at any times, is given a well-formed table with the same OIDs; so a poll is
  never dropped by an exception in a refresh and a walk in progress never loses its place.\<close>

theorem served_table_stays:
  assumes "\<forall>d \<in> set (devs p). nd_ok e d" and "cache p = Map.empty"
    and "table_for nd_short (nd_walk e) (nd_dynamic_rows e)
           (serve_all nd_short (nd_walk e) (nd_dynamic_rows e) before p) now c = (Inr (Some t), p1)"
  shows "\<exists>t' p2. table_for nd_short (nd_walk e) (nd_dynamic_rows e)
           (serve_all nd_short (nd_walk e) (nd_dynamic_rows e) reqs p1) later c = (Inr (Some t'), p2)
         \<and> table_wf t' \<and> oids t' = oids t"
proof -
  have "nfeed.cache_ok e p" using assms(1,2) by (simp add: nfeed.cache_ok_def)
  then have "nfeed.cache_ok e (serve_all nd_short (nd_walk e) (nd_dynamic_rows e) before p)"
    by (rule nfeed.serve_all_ok)
  from nfeed.served_for_ever [OF this assms(3)] show ?thesis by blast
qed

text \<open>A process with the UPS alone, polled at 5 s, then at 40 s and 100 s.\<close>

definition wit_env :: renv where
  "wit_env = \<lparr>e_cfg = \<lparr>cfg_domain = ''x'', cfg_start = 0, cfg_date = \<lambda>_. ''d''\<rparr>, e_pick = \<lambda>s i a. hd a, e_crc = \<lambda>_. 0\<rparr>"

definition wit_proc :: "ndev proc" where
  "wit_proc = \<lparr>devs = [Synth Ups (ups_init (e_cfg wit_env))],
     psim = \<lparr>clock = \<lambda>k. 5, noise = \<lambda>k. 0, gauges = Map.empty, counters = Map.empty\<rparr>, cache = Map.empty\<rparr>"

lemma wit_ups_ok: "nd_ok wit_env (Synth Ups (ups_init (e_cfg wit_env)))"
proof -
  have "clean ''d''" "clean ''ups-01''" "clean ''.x''" "clean ''DC rack A2, bottom''" "clean ''.1.3.6.1.4.1.318.1.3.27''"
    "clean (sys_descr (ups_init (e_cfg wit_env)))"
    by code_simp+
  then show ?thesis
    by (simp add: nd_ok_def dev_shape_def dev_clean_def wit_env_def ups_init_def fqdn_def)
qed

theorem served_table_stays_witness:
  "\<exists>t p1 t' p2. table_for nd_short (nd_walk wit_env) (nd_dynamic_rows wit_env) wit_proc 5 ''ups-01'' = (Inr (Some t), p1)
    \<and> table_for nd_short (nd_walk wit_env) (nd_dynamic_rows wit_env)
        (serve_all nd_short (nd_walk wit_env) (nd_dynamic_rows wit_env) [(40, ''ups-01''), (41, ''nobody'')] p1)
        100 ''ups-01'' = (Inr (Some t'), p2)
    \<and> table_wf t' \<and> oids t' = oids t"
proof -
  have i: "dev_index nd_short (devs wit_proc) ''ups-01'' = Some 0"
    by (simp add: dev_index_def wit_proc_def ups_init_def)
  obtain tx s' d' t where w: "nd_walk wit_env (devs wit_proc ! 0) 5 (psim wit_proc) = (Inr tx, s', d')"
    "table_init (walk_rows tx) = Inr t"
    using synth_first_table [OF wit_ups_ok, of 5 "psim wit_proc"] by (auto simp: wit_proc_def)
  then obtain p1 where p1: "table_for nd_short (nd_walk wit_env) (nd_dynamic_rows wit_env) wit_proc 5 ''ups-01''
      = (Inr (Some t), p1)"
    by (simp only: table_for_def i) (simp add: wit_proc_def)
  have ok: "\<forall>d \<in> set (devs wit_proc). nd_ok wit_env d" "cache wit_proc = Map.empty"
    using wit_ups_ok by (simp_all add: wit_proc_def)
  show ?thesis
    using served_table_stays [OF ok, of "[]" 5 "''ups-01''" t p1 "[(40, ''ups-01''), (41, ''nobody'')]" 100] p1
    by auto
qed

end
