(* ===== verification/Py_Json.thy ===== *)
theory Py_Json
  imports Prelude
begin

text \<open>
  JSON values as the \<open>json\<close> module reads and writes them: a dict is an association list in insertion
  order; numbers are the integers the programs exchange.  \<open>dumps\<close> is \<open>json.dumps(x, separators=(",", ":"))\<close>
  with the module's default \<open>ensure_ascii\<close>.
\<close>

datatype json = JNull | JBool bool | JNum int | JStr string | JArr "json list" | JObj "(string \<times> json) list"

section \<open>Compact output\<close>

definition hex_lower :: "nat \<Rightarrow> char" where
  "hex_lower n = (if n < 10 then char_of (48 + n) else char_of (87 + n))"

text \<open>The escapes: the two structural characters, the five short escapes, \<open>\u00XX\<close> for every other
  character outside printable ASCII.\<close>

definition esc_char :: "char \<Rightarrow> string" where
  "esc_char c = (let n = (of_char c :: nat); b = CHR 0x5C in
     if c = CHR 0x22 \<or> c = b then [b, c]
     else if n = 10 then [b, CHR ''n''] else if n = 13 then [b, CHR ''r''] else if n = 9 then [b, CHR ''t'']
     else if n = 12 then [b, CHR ''f''] else if n = 8 then [b, CHR ''b'']
     else if n < 32 \<or> 126 < n then b # ''u00'' @ [hex_lower (n div 16), hex_lower (n mod 16)]
     else [c])"

definition quoted :: "string \<Rightarrow> string" where
  "quoted s = CHR 0x22 # concat (map esc_char s) @ [CHR 0x22]"

fun dumps :: "json \<Rightarrow> string" where
  "dumps JNull = ''null''"
| "dumps (JBool b) = (if b then ''true'' else ''false'')"
| "dumps (JNum i) = int_str i"
| "dumps (JStr s) = quoted s"
| "dumps (JArr xs) = ''['' @ join_with '','' (map dumps xs) @ '']''"
| "dumps (JObj kvs) = ''{'' @ join_with '','' (map (\<lambda>(k, v). quoted k @ '':'' @ dumps v) kvs) @ ''}''"

text \<open>No escape is a line break, so a dumped value is one line of an agent output.\<close>

lemma hex_lower_plain: "n < 16 \<Longrightarrow> hex_lower n \<noteq> CHR 0x0A"
  unfolding hex_lower_def by (rule notI) (drule arg_cong [where f = "of_char :: char \<Rightarrow> nat"], simp split: if_splits)

lemma esc_char_plain: "CHR 0x0A \<notin> set (esc_char c)"
proof -
  have "(of_char c :: nat) div 16 < 16" using nat_of_char_less_256 [of c] by linarith
  then have h: "CHR 0x0A \<noteq> hex_lower (of_char c div 16)" "CHR 0x0A \<noteq> hex_lower (of_char c mod 16)"
    using hex_lower_plain [of "of_char c div 16"] hex_lower_plain [of "of_char c mod 16"] by auto
  show ?thesis
  proof (cases "c = CHR 0x0A")
    case True
    then show ?thesis by (simp add: esc_char_def)
  next
    case False
    then show ?thesis using h unfolding esc_char_def Let_def by (simp split: if_split)
  qed
qed

lemma quoted_plain: "CHR 0x0A \<notin> set (quoted s)"
  using esc_char_plain by (auto simp: quoted_def)

lemma int_str_plain: "CHR 0x0A \<notin> set (int_str i)"
  using nat_str_chars [of "CHR 0x0A"] by (auto simp: int_str_def digit_char_def)

lemma join_with_plain: "(\<And>x. x \<in> set xs \<Longrightarrow> c \<notin> set x) \<Longrightarrow> c \<notin> set sep \<Longrightarrow> c \<notin> set (join_with sep xs)"
  by (induction sep xs rule: join_with.induct) auto

lemma dumps_plain: "CHR 0x0A \<notin> set (dumps j)"
proof (induction j rule: dumps.induct)
  case (5 xs)
  have "CHR 0x0A \<notin> set (join_with '','' (map dumps xs))" by (rule join_with_plain) (use 5 in auto)
  then show ?case by simp
next
  case (6 kvs)
  have "CHR 0x0A \<notin> set (join_with '','' (map (\<lambda>(k, v). quoted k @ '':'' @ dumps v) kvs))"
  proof (rule join_with_plain)
    fix x assume "x \<in> set (map (\<lambda>(k, v). quoted k @ '':'' @ dumps v) kvs)"
    then obtain k v where "(k, v) \<in> set kvs" "x = quoted k @ '':'' @ dumps v" by auto
    then show "CHR 0x0A \<notin> set x" using 6 [of "(k, v)" k v] quoted_plain [of k] by simp
  qed simp
  then show ?case by simp
qed (simp_all add: int_str_plain quoted_plain)

end
