(* ===== verification/Agent_Text.thy ===== *)
theory Agent_Text
  imports Physics Py_Json
begin

text \<open>
  What the agent outputs of \<open>fleet/serve.py\<close> and \<open>hosts/*/serve.py\<close> are written with: the format
  specifications of f-strings, rounding of floats to decimals, \<open>time.gmtime\<close> and \<open>time.strftime\<close>
  (proleptic Gregorian calendar, UTC), loops over lists in the state monad, and the process record
  of an agent program.

  The last part is the logic of the renderers: \<open>pred_state P m\<close> says that every result of \<open>m\<close>, from any
  state (any clock, any noise, any registry), satisfies \<open>P\<close>.
\<close>

section \<open>Substrings\<close>

text \<open>\<open>pat in s\<close>\<close>

definition contains :: "string \<Rightarrow> string \<Rightarrow> bool" where
  "contains pat s \<longleftrightarrow> list_ex (\<lambda>i. startswith (drop i s) pat) [0..<Suc (length s)]"

section \<open>Format specifications\<close>

text \<open>\<open>f"{x:+d}"\<close>\<close>

definition signed_str :: "int \<Rightarrow> string" where
  "signed_str x = (if x < 0 then int_str x else ''+'' @ int_str x)"

text \<open>\<open>f"{x:02d}"\<close>: the sign counts towards the width.\<close>

definition int_pad2 :: "int \<Rightarrow> string" where
  "int_pad2 x = (if x < 0 then int_str x else pad2 (nat x))"

text \<open>\<open>f"{n:0wd}"\<close> of a natural number.\<close>

definition zpad :: "nat \<Rightarrow> nat \<Rightarrow> string" where
  "zpad w n = replicate (w - length (nat_str n)) (CHR ''0'') @ nat_str n"

text \<open>\<open>round(x, d)\<close>: the nearest multiple of \<open>10 ^ -d\<close>.\<close>

definition round_dec :: "nat \<Rightarrow> real \<Rightarrow> real" where
  "round_dec d x = of_int (py_round (x * 10 ^ d)) / 10 ^ d"

text \<open>\<open>f"{x:.df}"\<close>: \<open>d\<close> digits after the point.\<close>

definition fixed_str :: "nat \<Rightarrow> real \<Rightarrow> string" where
  "fixed_str d x =
     (let i = py_round (x * 10 ^ d); n = nat \<bar>i\<bar>
      in (if x < 0 then ''-'' else []) @ nat_str (n div 10 ^ d) @ ''.'' @ zpad d (n mod 10 ^ d))"

text \<open>\<open>str(x)\<close> of a float that is a multiple of \<open>10 ^ -d\<close>: the shortest decimal, with at least one
  digit after the point.\<close>

definition float_str :: "nat \<Rightarrow> real \<Rightarrow> string" where
  "float_str d x =
     (let i = py_round (x * 10 ^ d); n = nat \<bar>i\<bar>;
          ds = rev (dropWhile (\<lambda>c. c = CHR ''0'') (rev (zpad d (n mod 10 ^ d))))
      in (if x < 0 then ''-'' else []) @ nat_str (n div 10 ^ d) @ ''.'' @ (if ds = [] then ''0'' else ds))"

text \<open>\<open>x % y\<close> of floats: the sign of the divisor.\<close>

definition real_mod :: "real \<Rightarrow> real \<Rightarrow> real" where
  "real_mod x y = x - y * of_int \<lfloor>x / y\<rfloor>"

lemma real_mod_bounds: "0 < y \<Longrightarrow> 0 \<le> real_mod x y \<and> real_mod x y < y"
  using floor_divide_lower [of y x] floor_divide_upper [of y x] by (simp add: real_mod_def algebra_simps)

text \<open>\<open>s.upper()\<close> on ASCII.\<close>

definition upper_char :: "char \<Rightarrow> char" where
  "upper_char c = (let n = (of_char c :: nat) in if 97 \<le> n \<and> n \<le> 122 then char_of (n - 32) else c)"

definition upper :: "string \<Rightarrow> string" where
  "upper s = map upper_char s"

section \<open>Calendar\<close>

record tm =
  tm_year :: int
  tm_mon :: nat
  tm_mday :: nat
  tm_secs :: nat
  tm_wday :: nat

text \<open>\<open>time.gmtime(t)\<close>; the seconds of the day stay one number, Monday is day 0.\<close>

definition gmtime :: "int \<Rightarrow> tm" where
  "gmtime t =
     (let days = t div 86400;
          z = days + 719468;
          era = z div 146097;
          doe = z mod 146097;
          yoe = (doe - doe div 1460 + doe div 36524 - doe div 146096) div 365;
          doy = doe - (365 * yoe + yoe div 4 - yoe div 100);
          mp = (5 * doy + 2) div 153;
          m = (if mp < 10 then mp + 3 else mp - 9)
      in \<lparr>tm_year = yoe + era * 400 + (if m \<le> 2 then 1 else 0), tm_mon = nat m,
          tm_mday = nat (doy - (153 * mp + 2) div 5 + 1), tm_secs = nat (t mod 86400),
          tm_wday = nat ((days + 3) mod 7)\<rparr>)"

definition WDAYS :: "string list" where
  "WDAYS = [''Mon'', ''Tue'', ''Wed'', ''Thu'', ''Fri'', ''Sat'', ''Sun'']"

definition MONTHS :: "string list" where
  "MONTHS = [''Jan'', ''Feb'', ''Mar'', ''Apr'', ''May'', ''Jun'', ''Jul'', ''Aug'', ''Sep'', ''Oct'', ''Nov'', ''Dec'']"

text \<open>\<open>time.strftime(fmt, tm)\<close> for the directives the programs use.\<close>

fun strftime :: "string \<Rightarrow> tm \<Rightarrow> string" where
  "strftime (CHR ''%'' # c # fmt) tm =
     (if c = CHR ''a'' then WDAYS ! tm_wday tm
      else if c = CHR ''b'' then MONTHS ! (tm_mon tm - 1)
      else if c = CHR ''d'' then pad2 (tm_mday tm)
      else if c = CHR ''m'' then pad2 (tm_mon tm)
      else if c = CHR ''Y'' then int_str (tm_year tm)
      else if c = CHR ''H'' then pad2 (tm_secs tm div 3600)
      else if c = CHR ''M'' then pad2 (tm_secs tm div 60 mod 60)
      else if c = CHR ''S'' then pad2 (tm_secs tm mod 60)
      else [CHR ''%'', c]) @ strftime fmt tm"
| "strftime (c # fmt) tm = c # strftime fmt tm"
| "strftime [] tm = []"

lemma calendar_checks:
  "strftime ''%a, %d %b %Y %H:%M:%S +0000'' (gmtime 1748942084) = ''Tue, 03 Jun 2025 09:14:44 +0000''"
  "strftime ''%Y-%m-%d'' (gmtime 951782400) = ''2000-02-29''"
  by code_simp+

section \<open>The process\<close>

text \<open>What every agent program reads from its environment, and its start time.\<close>

record host_cfg =
  hc_hostname :: string
  hc_version :: string
  hc_start :: real

section \<open>Loops and samples in the state monad\<close>

primrec forM :: "'a list \<Rightarrow> ('a \<Rightarrow> ('s, 'b) state) \<Rightarrow> ('s, 'b list) state" where
  "forM [] f = State_Monad.return []"
| "forM (x # xs) f = do { y \<leftarrow> f x; ys \<leftarrow> forM xs f; State_Monad.return (y # ys) }"

text \<open>\<open>counter.sample(rate)\<close> of the agent programs, reached through the registry by its name.\<close>

definition fsample :: "string \<Rightarrow> real \<Rightarrow> (sim, int) state" where
  "fsample name rate =
     do { now \<leftarrow> get_time; g \<leftarrow> get_gauss;
          State (\<lambda>s. case counters s name of
            None \<Rightarrow> (0, s)
          | Some c \<Rightarrow> (let (n, c') = fleet_sample c rate None now g
                       in (n, s\<lparr>counters := (counters s)(name \<mapsto> c')\<rparr>))) }"

section \<open>Every result\<close>

lemma rets_return: "P x \<Longrightarrow> pred_state P (State_Monad.return x)"
  by (rule pred_stateI) simp

lemma rets_bind: "pred_state Q m \<Longrightarrow> (\<And>x. Q x \<Longrightarrow> pred_state P (f x)) \<Longrightarrow> pred_state P (m \<bind> f)"
proof (rule pred_stateI)
  fix a s s'
  assume m: "pred_state Q m" and f: "\<And>x. Q x \<Longrightarrow> pred_state P (f x)" and r: "run_state (m \<bind> f) s = (a, s')"
  obtain x t where x: "run_state m s = (x, t)" by (cases "run_state m s")
  then have "run_state (f x) t = (a, s')" using r by (simp add: State_Monad.bind_def)
  then show "P a" using m f x by (metis pred_stateD)
qed

lemma rets_any: "(\<And>x. P x) \<Longrightarrow> pred_state P m"
  by (rule pred_stateI) simp

lemma rets_weaken: "pred_state P m \<Longrightarrow> (\<And>x. P x \<Longrightarrow> Q x) \<Longrightarrow> pred_state Q m"
  by (metis pred_stateI pred_stateD)

lemma rets_forM: "(\<And>x. x \<in> set xs \<Longrightarrow> pred_state (P x) (f x)) \<Longrightarrow> pred_state (list_all2 P xs) (forM xs f)"
proof (induction xs)
  case (Cons x xs)
  have "pred_state (P x) (f x)" "pred_state (list_all2 P xs) (forM xs f)" using Cons by auto
  then show ?case by (auto intro!: rets_bind [where Q = "P x"] rets_bind [where Q = "list_all2 P xs"] rets_return)
qed (simp add: rets_return)

text \<open>A gauge stays within its amplitude, whatever the noise.\<close>

lemma rets_gauge_abs:
  assumes "0 \<le> a"
  shows "pred_state (\<lambda>v. base - a \<le> v \<and> v \<le> base + a) (gauge name base (Some a) ampf phase period)"
proof (rule pred_stateI)
  fix v s s'
  assume "run_state (gauge name base (Some a) ampf phase period) s = (v, s')"
  then have v: "v = base + a * fst (wobble_step (case gauges s name of None \<Rightarrow> wobble_init phase period | Some w \<Rightarrow> w) (clock s 0) (noise s 0))"
    by (auto simp: gauge_def get_time_def get_gauss_def step_gauge_def State_Monad.bind_def State_Monad.return_def
        Let_def case_prod_unfold)
  show "base - a \<le> v \<and> v \<le> base + a"
    unfolding v using wobble_step_bounds mult_left_mono [OF wobble_step_bounds(1) assms] mult_left_mono [OF wobble_step_bounds(2) assms]
    by (smt (verit, best))
qed

lemma rets_gauge_frac:
  assumes "0 \<le> f" "0 \<le> base"
  shows "pred_state (\<lambda>v. base * (1 - f) \<le> v \<and> v \<le> base * (1 + f)) (gauge name base None (Some f) phase period)"
proof (rule pred_stateI)
  fix v s s'
  assume "run_state (gauge name base None (Some f) phase period) s = (v, s')"
  then have v: "v = base * (1 + f * fst (wobble_step (case gauges s name of None \<Rightarrow> wobble_init phase period | Some w \<Rightarrow> w) (clock s 0) (noise s 0)))"
    by (auto simp: gauge_def get_time_def get_gauss_def step_gauge_def State_Monad.bind_def State_Monad.return_def
        Let_def case_prod_unfold)
  show "base * (1 - f) \<le> v \<and> v \<le> base * (1 + f)"
    unfolding v
    by (intro conjI mult_left_mono assms(2))
       (use mult_left_mono [OF wobble_step_bounds(1) assms(1)] mult_left_mono [OF wobble_step_bounds(2) assms(1)] in \<open>simp_all\<close>)
qed

lemma rets_gauge_pos:
  assumes "0 \<le> f" "f \<le> 1" "0 \<le> base"
  shows "pred_state (\<lambda>v. 0 \<le> v \<and> v \<le> base * (1 + f)) (gauge name base None (Some f) phase period)"
proof (rule rets_weaken [OF rets_gauge_frac [OF assms(1,3)]])
  fix v assume v: "base * (1 - f) \<le> v \<and> v \<le> base * (1 + f)"
  have "0 \<le> base * (1 - f)" using assms by simp
  with v show "0 \<le> v \<and> v \<le> base * (1 + f)" by linarith
qed

lemma trunc_below:
  assumes "0 \<le> n" "x \<le> n"
  shows "real_of_int (py_trunc x) \<le> n"
proof (cases "0 \<le> x")
  case True
  with assms show ?thesis by (simp add: py_trunc_def) linarith
next
  case False
  have "real_of_int \<lceil>x\<rceil> \<le> n" by (rule order_trans [OF _ assms(1)]) (use False in simp)
  with False show ?thesis by (simp add: py_trunc_def)
qed

end
