(* ===== verification/Netsim_Process.thy ===== *)
theory Netsim_Process
  imports Netsim_Ctl Agent_Text
begin

text \<open>
  The process of \<open>snmp/netsim.py\<close> around the devices: how the device list is assembled from the flags, the
  state file, the walk writer, the control URLs and the escalation thread.  The process state is the record
  \<open>net\<close>; the parameters that stand for the operating system are the record \<open>net_io\<close>: which calls on which path
  fail, and how much of a text a failing write leaves.
\<close>

section \<open>The device list\<close>

record net_args =
  a_access :: int
  a_fleet :: bool
  a_devices :: string

text \<open>
  \<open>adraw n\<close> are the outcomes of the generator seeded for the \<open>n\<close>-th access switch, \<open>draw s\<close> and \<open>moff s\<close> those of
  the replayed device \<open>s\<close>; \<open>load\<close> opens a walk model.
\<close>

definition assemble_devices :: "renv \<Rightarrow> (nat \<Rightarrow> nat \<Rightarrow> real) \<Rightarrow> (string \<Rightarrow> nat \<Rightarrow> real) \<Rightarrow> (string \<Rightarrow> nat) \<Rightarrow> (string \<Rightarrow> rmodel option)
     \<Rightarrow> net_args \<Rightarrow> (sim, ndev list res) state" where
  "assemble_devices e adraw draw moff load a = do {
     core \<leftarrow> sw_core_init (e_cfg e);
     acc \<leftarrow> forM [1..<nat (max 1 (a_access a)) + 1] (\<lambda>n. sw_access_init (e_cfg e) (adraw n) n);
     wan \<leftarrow> rt_wan_init (e_cfg e);
     replay \<leftarrow> (if a_fleet a
       then forM (build_replay_devices load) (\<lambda>sp. rdevice_init e (draw (rs_short sp)) (moff (rs_short sp)) (rs_short sp)
              (rs_model sp) (rs_role sp) (rs_location sp) (rs_parent sp))
       else State_Monad.return []);
     let devs = [Synth SwCore core] @ map (Synth SwAccess) acc @ [Synth RtWan wan, Synth Ups (ups_init (e_cfg e))] @ map Repl replay;
     State_Monad.return
       (if strip (a_devices a) \<noteq> []
        then (let wants = filter (\<lambda>d. d \<noteq> []) (map strip (split_on (CHR '','') (a_devices a)));
                  devs = filter (\<lambda>d. nd_short d \<in> set wants) devs
              in if devs = [] then Inl SystemExit else Inr devs)
        else Inr devs) }"

text \<open>\<open>os.path.join\<close>, and the directory of the walk files.\<close>

definition path_join :: "string \<Rightarrow> string \<Rightarrow> string" where
  "path_join a b = (if startswith b ''/'' then b else if a = [] \<or> last a = CHR ''/'' then a @ b else a @ ''/'' @ b)"

definition resolve_walks_dir :: "string option \<Rightarrow> string option \<Rightarrow> string option \<Rightarrow> string res" where
  "resolve_walks_dir walks_dir site omd_root =
     (if walks_dir \<notin> {None, Some []} then Inr (the walks_dir)
      else if site \<notin> {None, Some []} then Inr (''/omd/sites/'' @ the site @ ''/var/check_mk/snmpwalks'')
      else if omd_root \<notin> {None, Some []} then Inr (path_join (the omd_root) ''var/check_mk/snmpwalks'')
      else Inl SystemExit)"

section \<open>The process and its state file\<close>

text \<open>The keys \<open>load_state\<close> reads with a default are options; a missing table of devices or counters is an empty one.\<close>

record net_snap =
  ns_start :: "real option"
  ns_devices :: "string \<rightharpoonup> snapshot"
  ns_counters :: "string \<rightharpoonup> real \<times> real"

record net =
  nt_env :: renv
  nt_devs :: "ndev list"
  nt_sim :: sim
  nt_files :: "string \<rightharpoonup> string"
  nt_saved :: "net_snap option"

record net_io =
  io_bad :: "string \<Rightarrow> string \<Rightarrow> bool"
  io_part :: "string \<Rightarrow> string"
  io_save :: bool

definition net_dump :: "net \<Rightarrow> net_snap" where
  "net_dump n = \<lparr>ns_start = Some (cfg_start (e_cfg (nt_env n))),
     ns_devices = map_of (rev (map (\<lambda>d. (nd_short d, ds_dump (nd_state d))) (nt_devs n))),
     ns_counters = (\<lambda>k. map_option (\<lambda>c. (acc c, clast c)) (counters (nt_sim n) k))\<rparr>"

definition net_save :: "net_io \<Rightarrow> net \<Rightarrow> net" where
  "net_save io n = (if io_save io then n\<lparr>nt_saved := Some (net_dump n)\<rparr> else n)"

definition restore_device :: "net_snap \<Rightarrow> ndev \<Rightarrow> (sim, ndev) state" where
  "restore_device f d = (case ns_devices f (nd_short d) of
     None \<Rightarrow> State_Monad.return d
   | Some data \<Rightarrow> do { now \<leftarrow> get_time; State_Monad.return (nd_update (ds_restore data now) d) })"

text \<open>\<open>None\<close>: no file, or one that cannot be read or parsed.\<close>

definition net_load :: "net_snap option \<Rightarrow> net \<Rightarrow> net" where
  "net_load f n = (case f of None \<Rightarrow> n | Some f \<Rightarrow>
     (let cfg = e_cfg (nt_env n);
          cfg = cfg\<lparr>cfg_start := (case ns_start f of None \<Rightarrow> cfg_start cfg | Some t \<Rightarrow> t)\<rparr>;
          (devs, s) = run_state (forM (nt_devs n) (restore_device f)) (nt_sim n);
          s = s\<lparr>counters := (\<lambda>k. case counters s k of None \<Rightarrow> None
                | Some c \<Rightarrow> (case ns_counters f k of None \<Rightarrow> Some c | Some (a, l) \<Rightarrow> Some (c\<lparr>acc := a, clast := l\<rparr>)))\<rparr>
      in n\<lparr>nt_env := (nt_env n)\<lparr>e_cfg := cfg\<rparr>, nt_devs := devs, nt_sim := s\<rparr>))"

section \<open>The walk writer\<close>

text \<open>How a call ends that may raise: \<open>IOFailed\<close> is an \<open>OSError\<close>, \<open>Raised\<close> an exception of the rendering.\<close>

datatype ended = Fine | IOFailed | Raised pyerr

definition write_device :: "net_io \<Rightarrow> string \<Rightarrow> real \<Rightarrow> ndev \<Rightarrow> net \<Rightarrow> ended \<times> ndev \<times> net" where
  "write_device io dir now d n =
     (let path = path_join dir (nd_fqdn (e_cfg (nt_env n)) d);
          tmp = path @ ''.tmp''
      in if io_bad io ''open'' tmp then (IOFailed, d, n)
         else (let n = n\<lparr>nt_files := (nt_files n)(tmp \<mapsto> [])\<rparr>;
                   (r, s, d) = nd_walk (nt_env n) d now (nt_sim n);
                   n = n\<lparr>nt_sim := s\<rparr>
               in case r of
                    Inl err \<Rightarrow> (Raised err, d, n)
                  | Inr tx \<Rightarrow>
                      (if io_bad io ''write'' tmp then (IOFailed, d, n\<lparr>nt_files := (nt_files n)(tmp \<mapsto> io_part io tx)\<rparr>)
                       else if io_bad io ''replace'' path then (IOFailed, d, n\<lparr>nt_files := (nt_files n)(tmp \<mapsto> tx)\<rparr>)
                       else (Fine, d, n\<lparr>nt_files := (nt_files n)(path \<mapsto> tx, tmp := None)\<rparr>))))"

text \<open>The devices from the \<open>k\<close>-th on; the first exception ends the pass.\<close>

fun write_from :: "net_io \<Rightarrow> string \<Rightarrow> real \<Rightarrow> ndev list \<Rightarrow> net \<Rightarrow> ended \<times> ndev list \<times> net" where
  "write_from io dir now [] n = (Fine, [], n)"
| "write_from io dir now (d # ds) n =
     (case write_device io dir now d n of
        (Fine, d, n) \<Rightarrow> (let (x, ds, n) = write_from io dir now ds n in (x, d # ds, n))
      | (x, d, n) \<Rightarrow> (x, d # ds, n))"

definition write_walks :: "net_io \<Rightarrow> string \<Rightarrow> net \<Rightarrow> ended \<times> net" where
  "write_walks io dir n =
     (let (now, s) = run_state get_time (nt_sim n);
          (x, ds, n) = write_from io dir now (nt_devs n) (n\<lparr>nt_sim := s\<rparr>)
      in (x, n\<lparr>nt_devs := ds\<rparr>))"

section \<open>Control URLs and escalation\<close>

text \<open>\<open>DeviceState.set\<close> with its readings of the clock, each only where the code takes it.\<close>

definition clocked_set :: "string \<Rightarrow> dstate \<Rightarrow> (sim, dstate) state" where
  "clocked_set v d = do {
     t1 \<leftarrow> (if v \<noteq> st d then get_time else State_Monad.return 0);
     t2 \<leftarrow> (if v \<noteq> HEALTHY \<and> degraded_since d = None then get_time else State_Monad.return 0);
     t3 \<leftarrow> (if v = BROKEN \<and> broken_since d = None then get_time else State_Monad.return 0);
     State_Monad.return (ds_set v t1 t2 t3 d) }"

definition set_device :: "nat \<Rightarrow> string \<Rightarrow> net \<Rightarrow> net" where
  "set_device i v n =
     (let (d', s) = run_state (clocked_set v (nd_state (nt_devs n ! i))) (nt_sim n)
      in n\<lparr>nt_devs := (nt_devs n)[i := nd_update (\<lambda>_. d') (nt_devs n ! i)], nt_sim := s\<rparr>)"

datatype net_reply = NetPage | NetShutdown | UnknownDevice string | UnknownAction | SeeOther | DeviceSet string string
  | NetStatus | NetCrash ended

fun first_index :: "('a \<Rightarrow> bool) \<Rightarrow> 'a list \<Rightarrow> nat option" where
  "first_index p [] = None"
| "first_index p (x # xs) = (if p x then Some 0 else map_option Suc (first_index p xs))"

definition net_get :: "net_io \<Rightarrow> string \<Rightarrow> string \<Rightarrow> net \<Rightarrow> net_reply \<times> net" where
  "net_get io dir url n =
     (let (path, query) = partition_at (CHR ''?'') url;
          path = rstrip_by (\<lambda>c. c = CHR ''/'') path;
          path = (if path = [] then ''/'' else path)
      in if path = ''/admin'' then (NetPage, n)
         else if path = ''/admin/shutdown'' then (NetShutdown, net_save io n)
         else if startswith path ''/admin/''
         then (let parts = split_on (CHR ''/'') (drop 7 path)
               in if length parts = 2 \<and> action_to_state (parts ! 1) \<noteq> None
                  then (case first_index (\<lambda>d. nd_short d = parts ! 0) (nt_devs n) of
                          None \<Rightarrow> (UnknownDevice (parts ! 0), n)
                        | Some i \<Rightarrow>
                            (if \<not> nd_incident (nt_devs n ! i) then (UnknownDevice (parts ! 0), n)
                             else (let (x, n) = write_walks io dir (set_device i (the (action_to_state (parts ! 1))) n)
                                   in if x \<noteq> Fine then (NetCrash x, n)
                                      else (let n = net_save io n
                                            in (if contains ''ui=1'' query then SeeOther
                                                else DeviceSet (parts ! 0) (st (nd_state (nt_devs n ! i))), n)))))
                  else (UnknownAction, n))
         else (NetStatus, n))"

text \<open>One round of \<open>auto_break_watchdog\<close> from the \<open>i\<close>-th device on; an exception ends the thread.\<close>

fun net_watchdog :: "net_io \<Rightarrow> string \<Rightarrow> real \<Rightarrow> nat list \<Rightarrow> net \<Rightarrow> ended \<times> net" where
  "net_watchdog io dir minutes [] n = (Fine, n)"
| "net_watchdog io dir minutes (i # is) n =
     (if nd_incident (nt_devs n ! i) \<and> st (nd_state (nt_devs n ! i)) = DEGRADED
      then (let (now, s) = run_state get_time (nt_sim n);
                n = n\<lparr>nt_sim := s\<rparr>
            in if since_seconds now (nd_state (nt_devs n ! i)) \<ge> minutes * 60
               then (case write_walks io dir (set_device i BROKEN n) of
                       (Fine, n) \<Rightarrow> net_watchdog io dir minutes is n
                     | (x, n) \<Rightarrow> (x, n))
               else net_watchdog io dir minutes is n)
      else net_watchdog io dir minutes is n)"

definition auto_break_round :: "net_io \<Rightarrow> string \<Rightarrow> real \<Rightarrow> net \<Rightarrow> ended \<times> net" where
  "auto_break_round io dir minutes n = net_watchdog io dir minutes [0..<length (nt_devs n)] n"

text \<open>One round of \<open>render_loop\<close>: an \<open>OSError\<close> is reported, any other exception ends the thread.\<close>

definition render_round :: "net_io \<Rightarrow> string \<Rightarrow> net \<Rightarrow> ended \<times> net" where
  "render_round io dir n =
     (case write_walks io dir n of
        (Fine, n) \<Rightarrow> (Fine, net_save io n)
      | (IOFailed, n) \<Rightarrow> (Fine, n)
      | (Raised err, n) \<Rightarrow> (Raised err, n))"

section \<open>The names of the devices\<close>

lemma outs_forM:
  assumes "\<And>x. x \<in> set xs \<Longrightarrow> outs (f x) (\<lambda>y. g y = h x)"
  shows "outs (forM xs f) (\<lambda>ys. map g ys = map h xs)"
  using assms
proof (induction xs)
  case Nil
  then show ?case by (simp add: outs_def State_Monad.return_def)
next
  case (Cons x xs)
  show ?case
    unfolding forM.simps
    by (rule outs_bind_via [OF Cons.prems], simp, rule outs_bind_via [OF Cons.IH [OF Cons.prems]], simp, rule outs_return) simp
qed

lemma sw_core_short: "outs (sw_core_init cfg) (\<lambda>d. short d = ''sw-core-'' @ pad2 1)"
proof -
  have n: "''01'' = pad2 (Suc 0)" by code_simp
  show ?thesis unfolding sw_core_init_def by (rule outs_bind, rule outs_return) (simp add: n)
qed

lemma sw_access_short: "outs (sw_access_init cfg draw n) (\<lambda>d. short d = ''sw-access-'' @ pad2 n)"
  unfolding sw_access_init_def Let_def by (rule outs_bind, rule outs_bind, rule outs_bind, rule outs_return) simp

lemma rt_wan_short: "outs (rt_wan_init cfg) (\<lambda>d. short d = ''rt-wan-'' @ pad2 1)"
proof -
  have n: "''01'' = pad2 (Suc 0)" by code_simp
  show ?thesis unfolding rt_wan_init_def by (intro outs_bind outs_return) (simp add: n)
qed

lemma ups_short: "short (ups_init cfg) = ''ups-'' @ pad2 1"
proof -
  have n: "''01'' = pad2 (Suc 0)" by code_simp
  show ?thesis by (simp add: ups_init_def n)
qed

lemma rdevice_short: "outs (rdevice_init e draw k sh m rl loc par) (\<lambda>d. short d = sh)"
  unfolding rdevice_init_def Let_def by (rule outs_bind, rule outs_return) (simp add: rdevice_fields_def)

text \<open>A name is a prefix that does not end in a digit and a number; the prefixes of the synthetic devices are not
  used by the roster.\<close>

definition roster_prefixes :: "string list" where
  "roster_prefixes = map (\<lambda>e. pattern_prefix (re_pattern e)) REPLAY_ROSTER"

lemma synthetic_prefixes_free:
  "list_all (\<lambda>q. q \<noteq> [] \<and> \<not> digit_char (last q) \<and> q \<notin> {''sw-core-'', ''sw-access-'', ''rt-wan-'', ''ups-''}) roster_prefixes"
  by code_simp

lemma build_replay_prefixed:
  assumes "\<forall>e \<in> set es. pattern_ok (re_pattern e)" "s \<in> set (map rs_short (build_replay load es ni))"
  shows "\<exists>e \<in> set es. \<exists>k. s = pattern_prefix (re_pattern e) @ pad2 k"
  using assms
proof (induction es arbitrary: ni)
  case (Cons e es)
  then show ?case by (fastforce simp: Let_def expand_short split: option.splits)
qed simp

lemma roster_name_other:
  assumes "s \<in> set (map rs_short (build_replay_devices load))" "p \<in> {''sw-core-'', ''sw-access-'', ''rt-wan-'', ''ups-''}"
  shows "s \<noteq> p @ pad2 n"
proof
  assume s: "s = p @ pad2 n"
  have "\<forall>e \<in> set REPLAY_ROSTER. pattern_ok (re_pattern e)" using roster_patterns_ok by (simp add: list_all_iff)
  from build_replay_prefixed [OF this] assms(1) obtain e k where e: "e \<in> set REPLAY_ROSTER" "s = pattern_prefix (re_pattern e) @ pad2 k"
    unfolding build_replay_devices_def by blast
  have q: "pattern_prefix (re_pattern e) \<noteq> []" "\<not> digit_char (last (pattern_prefix (re_pattern e)))" "pattern_prefix (re_pattern e) \<noteq> p"
    using synthetic_prefixes_free e(1) assms(2) by (auto simp: list_all_iff roster_prefixes_def)
  have p: "p \<noteq> []" "\<not> digit_char (last p)" using assms(2) by (auto simp: digit_char_def)
  show False using name_inj [OF q(1,2) p] s e(2) q(3) by auto
qed

lemma roster_names_apart: "distinct (map rs_short (build_replay_devices load))"
proof -
  have "\<forall>e \<in> set REPLAY_ROSTER. pattern_ok (re_pattern e)" using roster_patterns_ok by (simp add: list_all_iff)
  then show ?thesis unfolding build_replay_devices_def using build_replay_names by blast
qed

lemma all_names_distinct:
  "distinct ([''sw-core-'' @ pad2 1] @ map (\<lambda>n. ''sw-access-'' @ pad2 n) [1..<N] @ [''rt-wan-'' @ pad2 1, ''ups-'' @ pad2 1]
     @ map rs_short (build_replay_devices load))"
proof -
  define R where R: "R = map rs_short (build_replay_devices load)"
  define C A W U where d: "C = ''sw-core-'' @ pad2 1" "A = (\<lambda>n. ''sw-access-'' @ pad2 n)" "W = ''rt-wan-'' @ pad2 1" "U = ''ups-'' @ pad2 1"
  have other: "p @ pad2 n \<noteq> q @ pad2 m"
    if "p \<in> {''sw-core-'', ''sw-access-'', ''rt-wan-'', ''ups-''}" "q \<in> {''sw-core-'', ''sw-access-'', ''rt-wan-'', ''ups-''}" "p \<noteq> q" for p q n m
    using that name_inj [of p q n m] by (auto simp: digit_char_def)
  have ne: "C \<noteq> W" "C \<noteq> U" "W \<noteq> U" "C \<noteq> A n" "W \<noteq> A n" "U \<noteq> A n" for n unfolding d by (rule other; simp)+
  have out: "C \<notin> set R" "A n \<notin> set R" "W \<notin> set R" "U \<notin> set R" for n
    unfolding d R using roster_name_other [of _ load] by blast+
  have "inj_on A S" for S by (auto simp: inj_on_def d(2))
  then have "distinct (map A [1..<N])" "distinct R" using roster_names_apart [of load] by (simp_all add: distinct_map R)
  then have "distinct ([C] @ map A [1..<N] @ [W, U] @ R)"
    using ne ne [symmetric] out by auto
  then show ?thesis unfolding d R .
qed

lemma distinct_front: "distinct (a @ b @ c @ d) \<Longrightarrow> distinct (a @ b @ c @ [])"
  by auto

lemma selection_distinct:
  "distinct (map nd_short ds) \<Longrightarrow> case (if c then if filter P ds = [] then Inl SystemExit else Inr (filter P ds) else Inr ds) of
     Inl err \<Rightarrow> err = SystemExit | Inr ds \<Rightarrow> distinct (map nd_short ds)"
  by (simp add: distinct_map_filter)

text \<open>C27. Whatever flags the simulator is started with (any number of access switches, the replayed fleet or not, any
  selection of devices) and whatever walk models can be opened, the assembled devices have pairwise different short names, so
  routing a request by its community, which is the short name, reaches every device.\<close>

theorem assembled_names_unique:
  "case fst (run_state (assemble_devices e adraw draw moff load a) s) of
     Inl err \<Rightarrow> err = SystemExit
   | Inr ds \<Rightarrow> distinct (map nd_short ds)"
proof -
  have "outs (assemble_devices e adraw draw moff load a) (\<lambda>r. case r of Inl err \<Rightarrow> err = SystemExit | Inr ds \<Rightarrow> distinct (map nd_short ds))"
    unfolding assemble_devices_def Let_def
  proof (rule outs_bind_via [OF sw_core_short], rule outs_bind_via [OF outs_forM [OF sw_access_short]],
      rule outs_bind_via [OF rt_wan_short], rule outs_bind_via [where Q = "\<lambda>rs. map short rs = [] \<or> map short rs = map rs_short (build_replay_devices load)"])
    show "outs (if a_fleet a
        then forM (build_replay_devices load) (\<lambda>sp. rdevice_init e (draw (rs_short sp)) (moff (rs_short sp)) (rs_short sp)
              (rs_model sp) (rs_role sp) (rs_location sp) (rs_parent sp))
        else State_Monad.return []) (\<lambda>rs. map short rs = [] \<or> map short rs = map rs_short (build_replay_devices load))"
      using outsD [OF outs_forM [OF rdevice_short, where xs = "build_replay_devices load"]]
      by (auto simp: outs_def State_Monad.return_def)
    fix core wan :: device and acc :: "device list" and rs :: "rdevice list"
    assume h: "short core = ''sw-core-'' @ pad2 1" "map short acc = map (\<lambda>n. ''sw-access-'' @ pad2 n) [1..<nat (max 1 (a_access a)) + 1]"
      "short wan = ''rt-wan-'' @ pad2 1" "map short rs = [] \<or> map short rs = map rs_short (build_replay_devices load)"
    have "distinct (map nd_short ([Synth SwCore core] @ map (Synth SwAccess) acc @ [Synth RtWan wan, Synth Ups (ups_init (e_cfg e))] @ map Repl rs))"
      (is "distinct (map nd_short ?devs)")
    proof -
      have "map nd_short ?devs = [short core] @ map short acc @ [short wan, short (ups_init (e_cfg e))] @ map short rs"
        by (simp add: comp_def)
      also have "... = [''sw-core-'' @ pad2 1] @ map (\<lambda>n. ''sw-access-'' @ pad2 n) [1..<nat (max 1 (a_access a)) + 1]
          @ [''rt-wan-'' @ pad2 1, ''ups-'' @ pad2 1] @ map short rs"
        unfolding h(1-3) ups_short ..
      finally show ?thesis
        using h(4) all_names_distinct [of "nat (max 1 (a_access a)) + 1" load] distinct_front by metis
    qed
    then show "outs (State_Monad.return (if strip (a_devices a) \<noteq> []
        then if filter (\<lambda>d. nd_short d \<in> set (filter (\<lambda>d. d \<noteq> []) (map strip (split_on (CHR '','') (a_devices a))))) ?devs = [] then Inl SystemExit
             else Inr (filter (\<lambda>d. nd_short d \<in> set (filter (\<lambda>d. d \<noteq> []) (map strip (split_on (CHR '','') (a_devices a))))) ?devs)
        else Inr ?devs)) (\<lambda>r. case r of Inl err \<Rightarrow> err = SystemExit | Inr ds \<Rightarrow> distinct (map nd_short ds))"
      by (intro outs_return selection_distinct)
  qed
  then show ?thesis by (rule outsD)
qed

section \<open>The restart\<close>

lemma nd_update_simps [simp]:
  "nd_state (nd_update f d) = f (nd_state d)" "nd_short (nd_update f d) = nd_short d" "nd_incident (nd_update f d) = nd_incident d"
  by (cases d; simp)+

lemma dump_devices:
  assumes "distinct (map nd_short ds)" "d \<in> set ds"
  shows "map_of (rev (map (\<lambda>d. (nd_short d, ds_dump (nd_state d))) ds)) (nd_short d) = Some (ds_dump (nd_state d))"
proof -
  let ?xs = "rev (map (\<lambda>d. (nd_short d, ds_dump (nd_state d))) ds)"
  have "distinct (map fst ?xs)" using assms(1) by (simp add: rev_map [symmetric] comp_def)
  then show ?thesis using assms(2) by (intro map_of_is_SomeI) auto
qed

lemma restore_outs:
  assumes "ns_devices f (nd_short d) = Some (ds_dump x)"
  shows "outs (restore_device f d) (\<lambda>d'. (nd_short d', nd_state d') = (nd_short d, x))"
  unfolding restore_device_def using assms by (auto simp: restore_dump intro!: outs_bind outs_return)

lemma restore_counters: "counters (snd (run_state (forM ds (restore_device f)) s)) = counters s"
  by (induction ds arbitrary: s)
     (auto simp: restore_device_def get_time_def State_Monad.bind_def State_Monad.return_def case_prod_unfold split: option.split)

lemma restored_devices:
  assumes "map nd_short qs = map nd_short ps" "distinct (map nd_short ps)" "ns_devices f = ns_devices (net_dump n)" "nt_devs n = ps"
  shows "outs (forM qs (restore_device f)) (\<lambda>rs. map (\<lambda>d. (nd_short d, nd_state d)) rs = map (\<lambda>d. (nd_short d, nd_state d)) ps)"
proof -
  let ?st = "\<lambda>s. nd_state (the (find (\<lambda>d. nd_short d = s) ps))"
  have fnd: "find (\<lambda>e. nd_short e = nd_short d) ps = Some d" if "d \<in> set ps" for d
    using that assms(2) by (induction ps) auto
  have "outs (forM qs (restore_device f)) (\<lambda>rs. map (\<lambda>d. (nd_short d, nd_state d)) rs = map (\<lambda>d. (nd_short d, ?st (nd_short d))) qs)"
  proof (rule outs_forM)
    fix q assume "q \<in> set qs"
    then have "nd_short q \<in> nd_short ` set ps" using assms(1) by (metis image_eqI list.set_map)
    then obtain d where d: "d \<in> set ps" "nd_short d = nd_short q" by (metis imageE)
    then have "ns_devices f (nd_short q) = Some (ds_dump (?st (nd_short q)))"
      using dump_devices [OF assms(2) d(1)] fnd [OF d(1)] assms(3,4) by (simp add: net_dump_def)
    then show "outs (restore_device f q) (\<lambda>y. (nd_short y, nd_state y) = (nd_short q, ?st (nd_short q)))" by (rule restore_outs)
  qed
  moreover have "map (\<lambda>d. (nd_short d, ?st (nd_short d))) qs = map (\<lambda>d. (nd_short d, nd_state d)) ps"
  proof -
    have "map (\<lambda>d. (nd_short d, ?st (nd_short d))) qs = map (\<lambda>s. (s, ?st s)) (map nd_short qs)" by simp
    also have "... = map (\<lambda>s. (s, ?st s)) (map nd_short ps)" unfolding assms(1) ..
    also have "... = map (\<lambda>d. (nd_short d, nd_state d)) ps" using fnd by simp
    finally show ?thesis .
  qed
  ultimately show ?thesis by (simp only:)
qed

text \<open>C28. A restart of the simulator: a process assembled with the same devices that loads the state the old process
  saved has the old start time, so no uptime falls; every device has its old incident record; and every counter both
  processes have stands where it stood with its last reading, so no counter falls either.\<close>

theorem netsim_restart_invisible:
  assumes "map nd_short (nt_devs q) = map nd_short (nt_devs p)" "distinct (map nd_short (nt_devs p))"
    and "r = net_load (Some (net_dump p)) q"
  shows "map (\<lambda>d. (nd_short d, nd_state d)) (nt_devs r) = map (\<lambda>d. (nd_short d, nd_state d)) (nt_devs p)
    \<and> cfg_start (e_cfg (nt_env r)) = cfg_start (e_cfg (nt_env p))
    \<and> dom (counters (nt_sim r)) = dom (counters (nt_sim q))
    \<and> (\<forall>k c c'. counters (nt_sim q) k = Some c \<longrightarrow> counters (nt_sim p) k = Some c' \<longrightarrow>
         counters (nt_sim r) k = Some (c\<lparr>acc := acc c', clast := clast c'\<rparr>))"
proof -
  have c: "counters (nt_sim r) = (\<lambda>k. case counters (nt_sim q) k of None \<Rightarrow> None
      | Some c \<Rightarrow> (case ns_counters (net_dump p) k of None \<Rightarrow> Some c | Some (a, l) \<Rightarrow> Some (c\<lparr>acc := a, clast := l\<rparr>)))"
    using assms(3) restore_counters [of "nt_devs q" "net_dump p" "nt_sim q"] by (simp add: net_load_def Let_def case_prod_unfold)
  have "nt_devs r = fst (run_state (forM (nt_devs q) (restore_device (net_dump p))) (nt_sim q))"
    using assms(3) by (simp add: net_load_def Let_def case_prod_unfold)
  then have "map (\<lambda>d. (nd_short d, nd_state d)) (nt_devs r) = map (\<lambda>d. (nd_short d, nd_state d)) (nt_devs p)"
    using outsD [OF restored_devices [OF assms(1,2) refl refl]] by simp
  moreover have "cfg_start (e_cfg (nt_env r)) = cfg_start (e_cfg (nt_env p))"
    using assms(3) by (simp add: net_load_def net_dump_def Let_def case_prod_unfold)
  moreover have "dom (counters (nt_sim r)) = dom (counters (nt_sim q))"
    unfolding c by (auto simp: dom_def split: option.splits)
  ultimately show ?thesis unfolding c by (simp add: net_dump_def)
qed

section \<open>The walk files\<close>

text \<open>A rendering changes neither the name nor the incident of a device.\<close>

definition nd_core :: "ndev \<Rightarrow> string \<times> bool \<times> dstate" where
  "nd_core d = (nd_short d, nd_incident d, nd_state d)"

lemma tune_access_core: "outs (tune_access d) (\<lambda>d'. (short d', incident d', dev_state d') = (short d, incident d, dev_state d))"
  unfolding tune_access_def Let_def by (auto intro!: outs_bind outs_return)

lemma dev_rows_core: "outs (dev_rows cfg c d now) (\<lambda>(rows, d'). (short d', incident d', dev_state d') = (short d, incident d, dev_state d))"
proof (cases c)
  case SwAccess
  then show ?thesis
    unfolding dev_rows_def sw_access_rows_def dclass.case
    by (simp only: dclass.case) (rule outs_bind_via [OF tune_access_core], (rule outs_bind)+, rule outs_return, simp)
qed (auto simp: dev_rows_def rt_wan_rows_def tune_wan_def Let_def case_prod_unfold intro!: outs_bind outs_return)

lemma nd_walk_core: "nd_core (snd (snd (nd_walk e d now s))) = nd_core d"
proof (cases d)
  case (Synth c dv)
  then show ?thesis using outsD [OF dev_rows_core [of "e_cfg e" c dv now], of s] by (simp add: nd_core_def case_prod_unfold Let_def)
next
  case (Repl dv)
  then show ?thesis by (simp add: nd_core_def case_prod_unfold Let_def rd_walk_def rendering_def)
qed

lemma write_device_core:
  "nd_core (fst (snd (write_device io dir now d n))) = nd_core d \<and> nt_devs (snd (snd (write_device io dir now d n))) = nt_devs n
   \<and> nt_env (snd (snd (write_device io dir now d n))) = nt_env n \<and> nt_saved (snd (snd (write_device io dir now d n))) = nt_saved n"
  using nd_walk_core [of "nt_env n" d now "nt_sim n"]
  by (auto simp: write_device_def Let_def case_prod_unfold split: sum.split)

lemma write_from_core:
  "map nd_core (fst (snd (write_from io dir now ds n))) = map nd_core ds \<and> nt_env (snd (snd (write_from io dir now ds n))) = nt_env n"
proof (induction ds arbitrary: n)
  case (Cons d ds)
  then show ?case
    using write_device_core [of io dir now d n] by (auto simp: case_prod_unfold Let_def split: ended.split prod.split)
qed simp

lemma write_walks_core:
  "map nd_core (nt_devs (snd (write_walks io dir n))) = map nd_core (nt_devs n) \<and> nt_env (snd (write_walks io dir n)) = nt_env n"
  using write_from_core [of io dir _ "nt_devs n"] by (simp add: write_walks_def case_prod_unfold Let_def)

text \<open>One device written: its path has a whole text or what it had, and only its temporary file is touched besides.\<close>

definition walk_path :: "renv \<Rightarrow> string \<Rightarrow> ndev \<Rightarrow> string" where
  "walk_path e dir d = path_join dir (nd_fqdn (e_cfg e) d)"

definition whole_walk :: "renv \<Rightarrow> string \<Rightarrow> real \<Rightarrow> ndev list \<Rightarrow> string \<Rightarrow> string option \<Rightarrow> bool" where
  "whole_walk e dir now ds path f \<longleftrightarrow> (\<exists>d \<in> set ds. \<exists>s tx. walk_path e dir d = path \<and> fst (nd_walk e d now s) = Inr tx \<and> f = Some tx)"

lemma write_device_files:
  assumes "path \<noteq> walk_path (nt_env n) dir d @ ''.tmp''"
  shows "nt_files (snd (snd (write_device io dir now d n))) path = nt_files n path
    \<or> whole_walk (nt_env n) dir now [d] path (nt_files (snd (snd (write_device io dir now d n))) path)"
  using assms
  by (auto simp: write_device_def Let_def case_prod_unfold walk_path_def whole_walk_def split: sum.split intro: exI [of _ "nt_sim n"])

lemma write_device_fine:
  assumes "fst (write_device io dir now d n) = Fine"
  shows "whole_walk (nt_env n) dir now [d] (walk_path (nt_env n) dir d) (nt_files (snd (snd (write_device io dir now d n))) (walk_path (nt_env n) dir d))"
  using assms
  by (auto simp: write_device_def Let_def case_prod_unfold walk_path_def whole_walk_def split: sum.splits if_splits intro: exI [of _ "nt_sim n"])

lemma whole_walk_more: "whole_walk e dir now ds path f \<Longrightarrow> set ds \<subseteq> set es \<Longrightarrow> whole_walk e dir now es path f"
  by (auto simp: whole_walk_def)

lemma write_from_files:
  assumes "\<forall>d \<in> set ds. path \<noteq> walk_path (nt_env n) dir d @ ''.tmp''"
  shows "(nt_files (snd (snd (write_from io dir now ds n))) path = nt_files n path
      \<or> whole_walk (nt_env n) dir now ds path (nt_files (snd (snd (write_from io dir now ds n))) path))
    \<and> (fst (write_from io dir now ds n) = Fine \<and> path \<in> walk_path (nt_env n) dir ` set ds \<longrightarrow>
      whole_walk (nt_env n) dir now ds path (nt_files (snd (snd (write_from io dir now ds n))) path))"
  using assms
proof (induction ds arbitrary: n)
  case (Cons d ds)
  obtain x d' n' where w: "write_device io dir now d n = (x, d', n')" by (cases "write_device io dir now d n")
  have env: "nt_env n' = nt_env n" using write_device_core [of io dir now d n] w by simp
  have f: "nt_files n' path = nt_files n path \<or> whole_walk (nt_env n) dir now [d] path (nt_files n' path)"
    using write_device_files [of path n dir d io now] Cons.prems w by simp
  have g: "x = Fine \<Longrightarrow> path = walk_path (nt_env n) dir d \<Longrightarrow> whole_walk (nt_env n) dir now [d] path (nt_files n' path)"
    using write_device_fine [of io dir now d n] w by simp
  note more = whole_walk_more [of "nt_env n" dir now _ path _ "d # ds"]
  show ?case
  proof (cases x)
    case Fine
    have ih: "(nt_files (snd (snd (write_from io dir now ds n'))) path = nt_files n' path
        \<or> whole_walk (nt_env n) dir now ds path (nt_files (snd (snd (write_from io dir now ds n'))) path))
      \<and> (fst (write_from io dir now ds n') = Fine \<and> path \<in> walk_path (nt_env n) dir ` set ds \<longrightarrow>
        whole_walk (nt_env n) dir now ds path (nt_files (snd (snd (write_from io dir now ds n'))) path))"
      using Cons.IH [of n'] Cons.prems by (simp add: env)
    have "write_from io dir now (d # ds) n
        = (fst (write_from io dir now ds n'), d' # fst (snd (write_from io dir now ds n')), snd (snd (write_from io dir now ds n')))"
      using w Fine by (simp add: case_prod_unfold Let_def)
    moreover have "whole_walk (nt_env n) dir now [d] path k \<Longrightarrow> whole_walk (nt_env n) dir now (d # ds) path k"
      "whole_walk (nt_env n) dir now ds path k \<Longrightarrow> whole_walk (nt_env n) dir now (d # ds) path k" for k
      using more [of "[d]" k] more [of ds k] by auto
    ultimately show ?thesis using ih f g [OF Fine] by (simp only: fst_conv snd_conv list.set image_insert insert_iff) metis
  qed (use f w more [of "[d]"] in auto)
qed simp

text \<open>C29. The walk writer, wherever an \<open>OSError\<close> or a failing rendering stops it: a file other than the temporary files has
  what it had before or the whole walk of the device it belongs to; and a pass that ends well has put a whole walk under the
  path of every device.\<close>

theorem walk_files_whole:
  assumes "\<forall>d \<in> set (nt_devs n). path \<noteq> walk_path (nt_env n) dir d @ ''.tmp''"
    and "write_walks io dir n = (x, n')"
  shows "(nt_files n' path = nt_files n path \<or> whole_walk (nt_env n) dir (clock (nt_sim n) 0) (nt_devs n) path (nt_files n' path))
    \<and> (x = Fine \<and> path \<in> walk_path (nt_env n) dir ` set (nt_devs n) \<longrightarrow>
      whole_walk (nt_env n) dir (clock (nt_sim n) 0) (nt_devs n) path (nt_files n' path))"
proof -
  define n0 where "n0 = n\<lparr>nt_sim := snd (run_state get_time (nt_sim n))\<rparr>"
  have n0: "nt_env n0 = nt_env n" "nt_files n0 = nt_files n" by (simp_all add: n0_def)
  have "x = fst (write_from io dir (clock (nt_sim n) 0) (nt_devs n) n0)"
    "nt_files n' = nt_files (snd (snd (write_from io dir (clock (nt_sim n) 0) (nt_devs n) n0)))"
    using assms(2) by (auto simp: write_walks_def get_time_def case_prod_unfold Let_def n0_def)
  then show ?thesis
    using write_from_files [of "nt_devs n" path n0 dir io "clock (nt_sim n) 0"] assms(1) unfolding n0 by simp
qed

definition sample_net :: net where
  "sample_net = \<lparr>nt_env = wit_env,
     nt_devs = [Synth Ups (ups_init (e_cfg wit_env))],
     nt_sim = \<lparr>clock = (\<lambda>k. 9), noise = (\<lambda>k. 0), gauges = Map.empty, counters = Map.empty\<rparr>,
     nt_files = Map.empty, nt_saved = None\<rparr>"

definition quiet_io :: net_io where
  "quiet_io = \<lparr>io_bad = (\<lambda>op path. False), io_part = (\<lambda>tx. []), io_save = True\<rparr>"

theorem walk_files_whole_witness:
  "whole_walk (nt_env sample_net) ''/w'' 9 (nt_devs sample_net) (walk_path (nt_env sample_net) ''/w'' (Synth Ups (ups_init (e_cfg wit_env))))
     (nt_files (snd (write_walks quiet_io ''/w'' sample_net)) (walk_path (nt_env sample_net) ''/w'' (Synth Ups (ups_init (e_cfg wit_env)))))"
proof -
  let ?p = "walk_path (nt_env sample_net) ''/w'' (Synth Ups (ups_init (e_cfg wit_env)))"
  obtain x n' where w: "write_walks quiet_io ''/w'' sample_net = (x, n')" by (cases "write_walks quiet_io ''/w'' sample_net")
  define s1 where "s1 = nt_sim sample_net\<lparr>clock := \<lambda>k. clock (nt_sim sample_net) (Suc k)\<rparr>"
  obtain tx s' d' where "nd_walk wit_env (Synth Ups (ups_init (e_cfg wit_env))) 9 s1 = (Inr tx, s', d')"
    using synth_first_table [OF wit_ups_ok, of 9 s1] by blast
  then have "x = Fine"
    using w by (auto simp: write_walks_def get_time_def write_device_def quiet_io_def Let_def sample_net_def s1_def simp del: nd_walk.simps)
  moreover have "\<forall>d \<in> set (nt_devs sample_net). ?p \<noteq> walk_path (nt_env sample_net) ''/w'' d @ ''.tmp''"
    by (simp add: sample_net_def)
  ultimately show ?thesis using walk_files_whole [OF _ w, of ?p] w by (simp add: sample_net_def)
qed

section \<open>The control URLs\<close>

lemma first_index_Some: "first_index p xs = Some i \<Longrightarrow> i < length xs \<and> p (xs ! i)"
  by (induction xs arbitrary: i) (auto split: if_splits)

lemma clocked_set_run: "\<exists>t1 t2 t3. fst (run_state (clocked_set v d) s) = ds_set v t1 t2 t3 d"
  by (auto simp: clocked_set_def get_time_def State_Monad.bind_def State_Monad.return_def)

lemma set_device_core:
  assumes "i < length (nt_devs n)"
  shows "\<exists>t1 t2 t3. map nd_core (nt_devs (set_device i v n))
    = (map nd_core (nt_devs n))[i := (nd_short (nt_devs n ! i), nd_incident (nt_devs n ! i), ds_set v t1 t2 t3 (nd_state (nt_devs n ! i)))]"
proof -
  obtain t1 t2 t3 where "fst (run_state (clocked_set v (nd_state (nt_devs n ! i))) (nt_sim n)) = ds_set v t1 t2 t3 (nd_state (nt_devs n ! i))"
    using clocked_set_run by blast
  then show ?thesis
    by (intro exI [of _ t1] exI [of _ t2] exI [of _ t3]) (simp add: set_device_def case_prod_unfold Let_def map_update nd_core_def)
qed

lemma action_states: "action_to_state a = Some v \<Longrightarrow> v \<in> set STATES"
  by (auto simp: action_to_state_def STATES_def split: if_splits)

text \<open>The path of a URL, as the handler cuts it.\<close>

definition url_path :: "string \<Rightarrow> string" where
  "url_path url = (let path = rstrip_by (\<lambda>c. c = CHR ''/'') (fst (partition_at (CHR ''?'') url)) in if path = [] then ''/'' else path)"

text \<open>C30. A request to the control server changes the incident of at most one device: the first one of the short
  name in the URL, which must be an incident device, and only by setting one of the three states; no device changes
  its name, and a confirmed change is in the saved state whenever that can be written.\<close>

theorem control_url_isolated:
  assumes "net_get io dir url n = (reply, n')"
  shows "map nd_core (nt_devs n') = map nd_core (nt_devs n)
    \<or> (\<exists>i a v t1 t2 t3. split_on (CHR ''/'') (drop 7 (url_path url)) = [nd_short (nt_devs n ! i), a] \<and> action_to_state a = Some v
        \<and> v \<in> set STATES \<and> i < length (nt_devs n) \<and> nd_incident (nt_devs n ! i)
        \<and> map nd_core (nt_devs n') = (map nd_core (nt_devs n))
            [i := (nd_short (nt_devs n ! i), True, ds_set v t1 t2 t3 (nd_state (nt_devs n ! i)))]
        \<and> (reply = SeeOther \<or> (\<exists>s. reply = DeviceSet (nd_short (nt_devs n ! i)) s) \<longrightarrow> io_save io \<longrightarrow> nt_saved n' = Some (net_dump n')))"
proof (cases "map nd_core (nt_devs n') = map nd_core (nt_devs n)")
  case False
  let ?parts = "split_on (CHR ''/'') (drop 7 (url_path url))"
  have g: "(reply, n') = net_get io dir url n" using assms by simp
  have saved: "nt_devs (net_save io m) = nt_devs m" "io_save io \<Longrightarrow> nt_saved (net_save io m) = Some (net_dump (net_save io m))" for m
    by (simp_all add: net_save_def net_dump_def)
  obtain i v where i: "length ?parts = 2" "action_to_state (?parts ! 1) = Some v" "first_index (\<lambda>d. nd_short d = ?parts ! 0) (nt_devs n) = Some i"
    "nd_incident (nt_devs n ! i)"
    and r: "(reply, n') = (let (x, n) = write_walks io dir (set_device i v n)
        in if x \<noteq> Fine then (NetCrash x, n)
           else (let n = net_save io n
                 in (if contains ''ui=1'' (snd (partition_at (CHR ''?'') url)) then SeeOther
                     else DeviceSet (?parts ! 0) (st (nd_state (nt_devs n ! i))), n)))"
    using g False saved by (auto simp: net_get_def url_path_def Let_def case_prod_unfold split: if_splits option.splits)
  note f = first_index_Some [OF i(3)]
  have a: "?parts = [nd_short (nt_devs n ! i), ?parts ! 1]"
    using i(1) f by (auto simp: numeral_2_eq_2 length_Suc_conv)
  obtain t1 t2 t3 where u: "map nd_core (nt_devs (set_device i v n))
      = (map nd_core (nt_devs n))[i := (nd_short (nt_devs n ! i), nd_incident (nt_devs n ! i), ds_set v t1 t2 t3 (nd_state (nt_devs n ! i)))]"
    using set_device_core [of i n v] f by blast
  have "nt_devs n' = nt_devs (snd (write_walks io dir (set_device i v n)))"
    using r saved by (auto simp: Let_def case_prod_unfold split: if_splits)
  then have core: "map nd_core (nt_devs n')
      = (map nd_core (nt_devs n))[i := (nd_short (nt_devs n ! i), True, ds_set v t1 t2 t3 (nd_state (nt_devs n ! i)))]"
    using write_walks_core [of io dir "set_device i v n"] u i(4) by simp
  have "(reply = SeeOther \<or> (\<exists>s. reply = DeviceSet (nd_short (nt_devs n ! i)) s) \<longrightarrow> io_save io \<longrightarrow> nt_saved n' = Some (net_dump n'))"
    using r saved by (auto simp: Let_def case_prod_unfold split: if_splits)
  with a i f action_states [OF i(2)] core show ?thesis by blast
qed simp

theorem control_url_isolated_witness:
  "map nd_core (nt_devs (snd (net_get quiet_io ''/w'' ''/admin/ups-01/break'' sample_net))) = map nd_core (nt_devs sample_net)"
proof -
  obtain reply n' where r: "net_get quiet_io ''/w'' ''/admin/ups-01/break'' sample_net = (reply, n')"
    by (cases "net_get quiet_io ''/w'' ''/admin/ups-01/break'' sample_net")
  have "\<not> nd_incident (nt_devs sample_net ! i)" if "i < length (nt_devs sample_net)" for i
    using that by (simp add: sample_net_def ups_init_def)
  then show ?thesis using control_url_isolated [OF r] r by auto
qed

definition counting_net :: "real \<Rightarrow> real \<Rightarrow> real \<Rightarrow> net" where
  "counting_net ph a now = sample_net\<lparr>nt_sim := (nt_sim sample_net)\<lparr>counters := [''wan.in'' \<mapsto> (counter_init ph (3 / 10) 1200 a now)]\<rparr>\<rparr>"

theorem netsim_restart_invisible_witness:
  "counters (nt_sim (net_load (Some (net_dump (counting_net 0 50 9))) (counting_net 1 0 20))) ''wan.in''
    = Some (counter_init 1 (3 / 10) 1200 50 9)"
proof -
  have c: "counters (nt_sim (counting_net ph a t)) = [''wan.in'' \<mapsto> (counter_init ph (3 / 10) 1200 a t)]"
    "nt_devs (counting_net ph a t) = nt_devs sample_net" for ph a t
    by (simp_all add: counting_net_def)
  have d: "distinct (map nd_short (nt_devs (counting_net 0 50 9)))" by (simp add: c sample_net_def)
  have "counters (nt_sim (net_load (Some (net_dump (counting_net 0 50 9))) (counting_net 1 0 20))) ''wan.in''
      = Some ((counter_init 1 (3 / 10) 1200 0 20)\<lparr>acc := acc (counter_init 0 (3 / 10) 1200 50 9), clast := clast (counter_init 0 (3 / 10) 1200 50 9)\<rparr>)"
    using netsim_restart_invisible [OF _ d refl, of "counting_net 1 0 20"] unfolding c by simp
  then show ?thesis by (simp add: counter_init_def)
qed

end
