(* ===== verification/Shell.thy ===== *)
theory Shell
  imports Prelude
begin

text \<open>
  The delivery shell of \<open>deploy/piggyback/serve.py\<close>: the configuration read from the environment, the
  estate registry and the roster stamped out of it, the child processes with their ports and
  environment, the fleet hosts, the two ways of delivery (piggyback blocks in one stream of bytes, and
  one file per host), the panel's data.  What a child answers is a parameter, a function from the
  host to its agent output; an agent output is a \<open>string\<close>, a list of bytes.
\<close>

section \<open>Configuration\<close>

type_synonym osenv = "string \<rightharpoonup> string"

definition env_get :: "osenv \<Rightarrow> string \<Rightarrow> string \<Rightarrow> string" where
  "env_get env k d = (case env k of None \<Rightarrow> d | Some v \<Rightarrow> v)"

definition ESTATE_DOMAIN :: "osenv \<Rightarrow> string" where
  "ESTATE_DOMAIN env = env_get env ''ESTATE_DOMAIN'' ''corp.meridian-retail.com''"

definition DELIVERY_HOSTNAME :: "osenv \<Rightarrow> string" where
  "DELIVERY_HOSTNAME env = env_get env ''DELIVERY_HOSTNAME'' (''cmk-demo-gateway.'' @ ESTATE_DOMAIN env)"

definition AGENT_PORT :: "osenv \<Rightarrow> int res" where
  "AGENT_PORT env = py_int (env_get env ''AGENT_PORT'' ''6556'')"

definition HTTP_PORT :: "osenv \<Rightarrow> int res" where
  "HTTP_PORT env = py_int (env_get env ''HTTP_PORT'' ''8080'')"

definition AGENT_VERSION :: "osenv \<Rightarrow> string" where
  "AGENT_VERSION env = env_get env ''AGENT_VERSION'' ''2.5.0-2026.04.03''"

definition CHILD_AGENT_BASE :: "osenv \<Rightarrow> int res" where
  "CHILD_AGENT_BASE env = py_int (env_get env ''CHILD_AGENT_BASE'' ''7600'')"

definition DELIVERY_MODE :: "osenv \<Rightarrow> string" where
  "DELIVERY_MODE env = env_get env ''DELIVERY_MODE'' ''piggyback''"

definition AGENT_OUTPUT_DIR :: "osenv \<Rightarrow> string" where
  "AGENT_OUTPUT_DIR env = env_get env ''AGENT_OUTPUT_DIR'' ''/var/tmp/cmk-demo-agent-output''"

definition ESTATE_FLEET :: "osenv \<Rightarrow> bool" where
  "ESTATE_FLEET env \<longleftrightarrow> env_get env ''ESTATE_FLEET'' ''0'' = ''1''"

definition FLEET_HTTP_PORT :: "osenv \<Rightarrow> int res" where
  "FLEET_HTTP_PORT env = py_int (env_get env ''FLEET_HTTP_PORT'' ''8102'')"

section \<open>Registry and roster\<close>

record host_spec =
  hs_name :: string
  hs_directory :: string
  hs_actions :: "string list"
  hs_env :: "(string \<times> string) list"
  hs_parent :: "string option"
  hs_replicable :: bool

definition A_TOGGLES :: "string list" where
  "A_TOGGLES = [''degrade'', ''break'', ''heal'']"

definition HEALTHY_ENV :: "(string \<times> string) list" where
  "HEALTHY_ENV = [(''START_STATE'', ''healthy'')]"

definition spec_of :: "string \<Rightarrow> string list \<Rightarrow> (string \<times> string) list \<Rightarrow> bool \<Rightarrow> host_spec" where
  "spec_of nm acts extra rep = \<lparr>hs_name = nm, hs_directory = nm, hs_actions = acts, hs_env = extra,
     hs_parent = Some ''sw-access-01'', hs_replicable = rep\<rparr>"

definition REGISTRY :: "host_spec list" where
  "REGISTRY =
    [spec_of ''web-frontend-01'' [] HEALTHY_ENV True,
     spec_of ''payment-api'' [''break'', ''heal''] [(''START_BROKEN'', ''0'')] False,
     spec_of ''app-worker-01'' A_TOGGLES HEALTHY_ENV True,
     spec_of ''app-redis-01'' A_TOGGLES HEALTHY_ENV True,
     spec_of ''db-postgres-01'' A_TOGGLES HEALTHY_ENV False,
     spec_of ''db-postgres-02'' A_TOGGLES HEALTHY_ENV True,
     spec_of ''mail-relay-01'' A_TOGGLES HEALTHY_ENV True,
     spec_of ''fileserver-01'' A_TOGGLES HEALTHY_ENV True,
     spec_of ''backup-01'' [] HEALTHY_ENV False,
     spec_of ''win-dc-01'' A_TOGGLES HEALTHY_ENV True]"

definition endswith :: "string \<Rightarrow> string \<Rightarrow> bool" where
  "endswith s p \<longleftrightarrow> length p \<le> length s \<and> drop (length s - length p) s = p"

definition replica_stem :: "string \<Rightarrow> string" where
  "replica_stem base = (if endswith base ''-01'' then take (length base - 3) base else base)"

definition replica_name :: "string \<Rightarrow> nat \<Rightarrow> string" where
  "replica_name base n = replica_stem base @ ''-'' @ pad2 n"

definition replica :: "host_spec \<Rightarrow> nat \<Rightarrow> host_spec" where
  "replica spec n = \<lparr>hs_name = replica_name (hs_name spec) n, hs_directory = hs_directory spec, hs_actions = [],
     hs_env = dict_put ''START_BROKEN'' ''0'' (dict_put ''START_STATE'' ''healthy'' (hs_env spec)),
     hs_parent = hs_parent spec, hs_replicable = False\<rparr>"

text \<open>\<open>_wanted\<close>: \<open>None\<close> is the whole estate.\<close>

definition wanted :: "osenv \<Rightarrow> string set option" where
  "wanted env = (let sel = strip (env_get env ''ESTATE_HOSTS'' [])
     in if sel = [] then None else Some (set (filter (\<lambda>h. h \<noteq> []) (map strip (split_on (CHR '','') sel)))))"

definition replicas :: "osenv \<Rightarrow> int res" where
  "replicas env = (let v = env_get env ''ESTATE_REPLICAS'' ''1''
     in bindR (py_int (if v = [] then ''1'' else v)) (\<lambda>n. Inr (max 1 n)))"

fun expand_registry :: "string set option \<Rightarrow> int \<Rightarrow> host_spec list \<Rightarrow> host_spec list" where
  "expand_registry w r [] = []"
| "expand_registry w r (spec # specs) =
     (if (case w of None \<Rightarrow> False | Some hs \<Rightarrow> hs_name spec \<notin> hs) then expand_registry w r specs
      else spec # (if hs_replicable spec then map (replica spec) [2..<nat r + 1] else [])
         @ expand_registry w r specs)"

section \<open>Children\<close>

record child =
  c_name :: string
  c_directory :: string
  c_actions :: "string list"
  c_env :: "(string \<times> string) list"
  c_parent :: "string option"
  c_agent_port :: int
  c_http_port :: int

definition child_init :: "int \<Rightarrow> int \<Rightarrow> nat \<Rightarrow> host_spec \<Rightarrow> child" where
  "child_init agent_base http_base idx s = \<lparr>c_name = hs_name s, c_directory = hs_directory s,
     c_actions = hs_actions s, c_env = hs_env s, c_parent = hs_parent s,
     c_agent_port = agent_base + int idx, c_http_port = http_base + int idx\<rparr>"

definition CHILD_HTTP_BASE :: "osenv \<Rightarrow> int \<Rightarrow> nat \<Rightarrow> int res" where
  "CHILD_HTTP_BASE env agent_base n =
     (case env ''CHILD_HTTP_BASE'' of
        None \<Rightarrow> Inr (agent_base + int (max 100 (n + 10)))
      | Some v \<Rightarrow> py_int v)"

text \<open>The module body, up to \<open>CHILDREN\<close>.\<close>

definition boot_children :: "osenv \<Rightarrow> child list res" where
  "boot_children env =
     bindR (CHILD_AGENT_BASE env) (\<lambda>agent_base.
     bindR (replicas env) (\<lambda>r.
       let roster = expand_registry (wanted env) r REGISTRY
       in bindR (CHILD_HTTP_BASE env agent_base (length roster)) (\<lambda>http_base.
            Inr (map (\<lambda>(i, s). child_init agent_base http_base i s) (enumerate 0 roster)))))"

text \<open>The environment a child is spawned with: the operator's, the shell's settings on top, the
  registry's defaults underneath.\<close>

definition spawn_env :: "osenv \<Rightarrow> string \<Rightarrow> child \<Rightarrow> osenv" where
  "spawn_env env fq c =
     (let env1 = env(''CMK_HOSTNAME'' \<mapsto> fq, ''AGENT_PORT'' \<mapsto> int_str (c_agent_port c),
                     ''HTTP_PORT'' \<mapsto> int_str (c_http_port c),
                     ''STATE_FILE'' \<mapsto> ''/var/tmp/cmk-demo-pb-'' @ c_name c @ ''.json'')
      in foldl (\<lambda>e (k, v). case e k of None \<Rightarrow> e(k \<mapsto> v) | Some _ \<Rightarrow> e) env1 (c_env c))"

record fleet_host =
  f_name :: string
  f_fqdn :: string
  f_parent :: "string option"
  f_role :: "string option"
  f_os :: "string option"
  f_descr :: string

datatype carried = Own child | Fleet fleet_host

primrec ch_name :: "carried \<Rightarrow> string" where
  "ch_name (Own c) = c_name c"
| "ch_name (Fleet h) = f_name h"

primrec ch_fqdn :: "osenv \<Rightarrow> carried \<Rightarrow> string" where
  "ch_fqdn env (Own c) = c_name c @ ''.'' @ ESTATE_DOMAIN env"
| "ch_fqdn env (Fleet h) = f_fqdn h"

primrec ch_actions :: "carried \<Rightarrow> string list" where
  "ch_actions (Own c) = c_actions c"
| "ch_actions (Fleet h) = []"

primrec ch_parent :: "carried \<Rightarrow> string option" where
  "ch_parent (Own c) = c_parent c"
| "ch_parent (Fleet h) = f_parent h"

text \<open>\<open>main\<close>: the fleet's hosts join the list and the name table, which keeps the last of a name.\<close>

definition boot :: "osenv \<Rightarrow> fleet_host list \<Rightarrow> carried list res" where
  "boot env fleet_roster =
     bindR (boot_children env) (\<lambda>cs. Inr (map Own cs @ (if ESTATE_FLEET env then map Fleet fleet_roster else [])))"

definition by_name :: "carried list \<Rightarrow> string \<Rightarrow> carried option" where
  "by_name cs n = (case filter (\<lambda>c. ch_name c = n) cs of [] \<Rightarrow> None | ds \<Rightarrow> Some (last ds))"

text \<open>\<open>child_state\<close> asks two endpoints; \<open>get\<close> is the \<open>state\<close> a child's URL reports, \<open>None\<close> on any failure.\<close>

definition child_state :: "(int \<Rightarrow> string \<Rightarrow> string option) \<Rightarrow> carried \<Rightarrow> string option" where
  "child_state get ch = (case ch of
       Fleet _ \<Rightarrow> Some ''healthy''
     | Own c \<Rightarrow> (case filter (\<lambda>s. s \<noteq> None \<and> s \<noteq> Some []) (map (get (c_http_port c)) [''/'', ''/admin/status'']) of
                 [] \<Rightarrow> None | s # _ \<Rightarrow> s))"

text \<open>\<open>toggle\<close>: \<open>hit\<close> is whether the child's URL answers; a fleet host has no toggle.\<close>

definition toggle :: "(int \<Rightarrow> string \<Rightarrow> bool) \<Rightarrow> carried \<Rightarrow> string \<Rightarrow> bool" where
  "toggle hit ch action = (case ch of Fleet _ \<Rightarrow> False | Own c \<Rightarrow> hit (c_http_port c) (''/admin/'' @ action))"

section \<open>Delivery by piggyback\<close>

definition py_lines :: "string list \<Rightarrow> string" where
  "py_lines ls = join_with [CHR 10] ls @ [CHR 10]"

text \<open>\<open>_delivery_minimal\<close> at the time \<open>now\<close>, \<open>start\<close> being the boot time; \<open>gmt\<close> is
  \<open>strftime\<close> of \<open>gmtime\<close> with the format of the certificate dates.\<close>

definition ctl_status :: "osenv \<Rightarrow> string \<Rightarrow> string" where
  \<open>ctl_status env cert_to =
     ''{"version":"'' @ AGENT_VERSION env @
     ''","agent_socket_operational":true,"ip_allowlist":[],"allow_legacy_pull":false,"connections":[{"site_id":"monitoring/prod","receiver_port":8000,"uuid":"0e5a2c11-9d44-4a7b-bf01-7c2e9a3d6e10","local":{"connection_mode":"pull-agent","cert_info":{"issuer":"Site 'prod' local CA","from":"Tue, 03 Jun 2025 09:12:44 +0000","to":"'' @
     cert_to @ ''"}},"remote":"remote_query_disabled"}]}''\<close>

definition delivery_minimal :: "osenv \<Rightarrow> (int \<Rightarrow> string) \<Rightarrow> real \<Rightarrow> real \<Rightarrow> string" where
  "delivery_minimal env gmt start now =
     (let secs = py_trunc now; uptime = py_trunc (now - start) + 3 * 86400
      in py_lines
          [''<<<check_mk>>>'', ''Version: '' @ AGENT_VERSION env, ''AgentOS: linux'',
           ''Hostname: '' @ DELIVERY_HOSTNAME env, ''OSType: linux'', ''OSName: Ubuntu'', ''OSVersion: 24.04'',
           ''OSPlatform: ubuntu'', ''FailedPythonReason: '', ''SSHClient: '',
           ''<<<cmk_agent_ctl_status:sep(0)>>>'', ctl_status env (gmt (secs + 320 * 86400)),
           ''<<<uptime>>>'', int_str uptime @ ''.00 '' @ int_str (py_trunc (of_int uptime * 3)) @ ''.00''])"

definition nl :: string where "nl = [CHR 10]"

definition block :: "string \<Rightarrow> string \<Rightarrow> string" where
  "block fq payload =
     (if payload = [] then []
      else ''<<<<'' @ fq @ ''>>>>'' @ nl @ payload @ (if endswith payload nl then [] else nl) @ ''<<<<>>>>'' @ nl)"

text \<open>\<open>build_delivery_output\<close>: the shell's own section, then a block for each child that answered.\<close>

definition build_delivery_output :: "osenv \<Rightarrow> string \<Rightarrow> (carried \<Rightarrow> string) \<Rightarrow> carried list \<Rightarrow> string" where
  "build_delivery_output env own fetch cs =
     (if DELIVERY_MODE env = ''datasource'' then own
      else own @ concat (map (\<lambda>c. block (ch_fqdn env c) (fetch c)) cs))"

section \<open>Delivery by files\<close>

text \<open>A file is its bytes and whether the world may read it.\<close>

type_synonym files = "string \<rightharpoonup> string \<times> bool"

definition path_join :: "string \<Rightarrow> string \<Rightarrow> string" where
  "path_join a b = (if startswith b ''/'' then b else if a = [] \<or> endswith a ''/'' then a @ b else a @ ''/'' @ b)"

text \<open>Where an \<open>OSError\<close> strikes, if it does; a failing write leaves the bytes before it.\<close>

datatype fault = NoFault | AtOpen | AtWrite nat | AtChmod | AtReplace

text \<open>\<open>_write_file\<close>: its result and the file system after each system call.  A new file's mode is
  the process's \<open>umask\<close>; a left-over one keeps its own.\<close>

definition write_file :: "string \<Rightarrow> bool \<Rightarrow> string \<Rightarrow> string \<Rightarrow> fault \<Rightarrow> files \<Rightarrow> bool \<times> files list" where
  "write_file dir umask nm payload fault fs =
     (if payload = [] then (False, [])
      else let path = path_join dir nm; tmp = path_join dir (''.'' @ nm @ ''.tmp'');
               mode = (case fs tmp of None \<Rightarrow> umask | Some (_, m) \<Rightarrow> m);
               opened = fs(tmp \<mapsto> ([], mode)); written = fs(tmp \<mapsto> (payload, mode));
               readable = fs(tmp \<mapsto> (payload, True))
           in case fault of
                AtOpen \<Rightarrow> (False, [])
              | AtWrite n \<Rightarrow> (False, [opened, fs(tmp \<mapsto> (take n payload, mode))])
              | AtChmod \<Rightarrow> (False, [opened, written])
              | AtReplace \<Rightarrow> (False, [opened, written, readable])
              | NoFault \<Rightarrow> (True, [opened, written, readable, (readable(path \<mapsto> (payload, True)))(tmp := None)]))"

definition last_state :: "'a \<Rightarrow> 'a list \<Rightarrow> 'a" where
  "last_state s ss = last (s # ss)"

text \<open>A pass over (name, payload, fault) in order: how many were written, all states passed through.\<close>

fun write_pass :: "string \<Rightarrow> bool \<Rightarrow> (string \<times> string \<times> fault) list \<Rightarrow> files \<Rightarrow> nat \<times> files list" where
  "write_pass dir umask [] fs = (0, [])"
| "write_pass dir umask ((nm, payload, fault) # jobs) fs =
     (let (ok, ss) = write_file dir umask nm payload fault fs;
          (n, ss') = write_pass dir umask jobs (last_state fs ss)
      in ((if ok then 1 else 0) + n, ss @ ss'))"

definition write_jobs :: "osenv \<Rightarrow> string \<Rightarrow> (carried \<Rightarrow> string) \<Rightarrow> (string \<Rightarrow> fault) \<Rightarrow> carried list
    \<Rightarrow> (string \<times> string \<times> fault) list" where
  "write_jobs env own fetch faults cs =
     (DELIVERY_HOSTNAME env, own, faults (DELIVERY_HOSTNAME env))
      # map (\<lambda>c. (ch_fqdn env c, fetch c, faults (ch_fqdn env c))) cs"

definition write_agent_files :: "osenv \<Rightarrow> bool \<Rightarrow> string \<Rightarrow> (carried \<Rightarrow> string) \<Rightarrow> (string \<Rightarrow> fault) \<Rightarrow> carried list
    \<Rightarrow> files \<Rightarrow> nat \<times> files list" where
  "write_agent_files env umask own fetch faults cs fs =
     write_pass (AGENT_OUTPUT_DIR env) umask (write_jobs env own fetch faults cs) fs"

section \<open>The panel's JSON\<close>

record carried_info =
  ci_name :: string
  ci_fqdn :: string
  ci_state :: "string option"
  ci_actions :: "string list"
  ci_parent :: "string option"
  ci_role :: "string option"
  ci_os :: "string option"

definition carried_hosts :: "osenv \<Rightarrow> (int \<Rightarrow> string \<Rightarrow> string option) \<Rightarrow> carried list \<Rightarrow> carried_info list" where
  "carried_hosts env get cs = map (\<lambda>c.
     \<lparr>ci_name = ch_name c, ci_fqdn = ch_fqdn env c, ci_state = child_state get c, ci_actions = ch_actions c,
      ci_parent = (case ch_parent c of None \<Rightarrow> None
                   | Some p \<Rightarrow> if p = [] then None else Some (p @ ''.'' @ ESTATE_DOMAIN env)),
      ci_role = (case c of Own _ \<Rightarrow> None | Fleet h \<Rightarrow> f_role h),
      ci_os = (case c of Own _ \<Rightarrow> None | Fleet h \<Rightarrow> f_os h)\<rparr>) cs"

section \<open>The roster's names\<close>

lemma replica_names:
  assumes "hs_replicable s" and "s \<in> set REGISTRY"
  shows "replica_stem (hs_name s) @ ''-'' \<in>
    {''web-frontend-'', ''app-worker-'', ''app-redis-'', ''db-postgres-02-'', ''mail-relay-'', ''fileserver-'', ''win-dc-''}"
  using assms by (auto simp: REGISTRY_def spec_of_def replica_stem_def endswith_def)

text \<open>A spec's own names: itself and its replicas.\<close>

fun names_of :: "int \<Rightarrow> host_spec \<Rightarrow> string list" where
  "names_of r s = hs_name s # (if hs_replicable s then map (replica_name (hs_name s)) [2..<nat r + 1] else [])"

lemma expand_registry_names:
  "map hs_name (expand_registry w r specs) =
     concat (map (names_of r) (filter (\<lambda>s. case w of None \<Rightarrow> True | Some hs \<Rightarrow> hs_name s \<in> hs) specs))"
  by (induction specs) (auto simp: replica_def split: option.splits)

definition indexed :: "string \<times> nat \<Rightarrow> string" where
  "indexed = (\<lambda>(p, n). p @ pad2 n)"

lemma indexed_inj: "inj_on indexed {(p, n). p \<noteq> [] \<and> \<not> digit_char (last p)}"
  by (auto simp: inj_on_def indexed_def dest: name_inj)

lemma indexed_no: "\<not> digit_char (last s) \<Longrightarrow> indexed x \<noteq> s"
  using pad2_chars [of "last s" "snd x"] by (auto simp: indexed_def split: prod.splits)

text \<open>The indices of a class: the original and, if it is stamped out, the replicas.\<close>

definition class_indices :: "int \<Rightarrow> string \<Rightarrow> nat list \<Rightarrow> (string \<times> nat) list" where
  "class_indices r p first = map (Pair p) (first @ [2..<nat r + 1])"

lemma distinct_filtered: "distinct (concat (map f xs)) \<Longrightarrow> distinct (concat (map f (filter P xs)))"
  by (induction xs) auto

lemma replica_name_indexed:
  "replica_name ''web-frontend-01'' n = indexed (''web-frontend-'', n)"
  "replica_name ''app-worker-01'' n = indexed (''app-worker-'', n)"
  "replica_name ''app-redis-01'' n = indexed (''app-redis-'', n)"
  "replica_name ''db-postgres-02'' n = indexed (''db-postgres-02-'', n)"
  "replica_name ''mail-relay-01'' n = indexed (''mail-relay-'', n)"
  "replica_name ''fileserver-01'' n = indexed (''fileserver-'', n)"
  "replica_name ''win-dc-01'' n = indexed (''win-dc-'', n)"
  by (simp_all add: replica_name_def replica_stem_def endswith_def indexed_def)

lemma originals_indexed:
  "''web-frontend-01'' = indexed (''web-frontend-'', 1)" "''app-worker-01'' = indexed (''app-worker-'', 1)"
  "''app-redis-01'' = indexed (''app-redis-'', 1)" "''db-postgres-01'' = indexed (''db-postgres-'', 1)"
  "''db-postgres-02'' = indexed (''db-postgres-'', 2)" "''mail-relay-01'' = indexed (''mail-relay-'', 1)"
  "''fileserver-01'' = indexed (''fileserver-'', 1)" "''backup-01'' = indexed (''backup-'', 1)"
  "''win-dc-01'' = indexed (''win-dc-'', 1)"
proof -
  have "pad2 1 = ''01''" "pad2 2 = ''02''" by code_simp+
  then show "''web-frontend-01'' = indexed (''web-frontend-'', 1)" "''app-worker-01'' = indexed (''app-worker-'', 1)"
    "''app-redis-01'' = indexed (''app-redis-'', 1)" "''db-postgres-01'' = indexed (''db-postgres-'', 1)"
    "''db-postgres-02'' = indexed (''db-postgres-'', 2)" "''mail-relay-01'' = indexed (''mail-relay-'', 1)"
    "''fileserver-01'' = indexed (''fileserver-'', 1)" "''backup-01'' = indexed (''backup-'', 1)"
    "''win-dc-01'' = indexed (''win-dc-'', 1)"
    by (simp_all add: indexed_def)
qed

lemma registry_names:
  "concat (map (names_of r) REGISTRY) =
     map indexed (class_indices r ''web-frontend-'' [1]) @ ''payment-api'' #
     map indexed (class_indices r ''app-worker-'' [1] @ class_indices r ''app-redis-'' [1] @ [(''db-postgres-'', 1), (''db-postgres-'', 2)]
        @ class_indices r ''db-postgres-02-'' [] @ class_indices r ''mail-relay-'' [1] @ class_indices r ''fileserver-'' [1]
        @ [(''backup-'', 1)] @ class_indices r ''win-dc-'' [1])"
  by (simp add: REGISTRY_def spec_of_def replica_name_indexed class_indices_def comp_def
      originals_indexed [symmetric] del: upt_Suc One_nat_def)

lemma class_indices_simps:
  "distinct (class_indices r p fs) \<longleftrightarrow> distinct (fs @ [2..<nat r + 1])"
  "set (class_indices r p fs) = Pair p ` (set fs \<union> {2..<nat r + 1})"
  by (auto simp: class_indices_def distinct_map inj_on_def simp del: upt_Suc)

lemma distinct_between: "distinct (xs @ ys) \<Longrightarrow> y \<notin> set xs \<Longrightarrow> y \<notin> set ys \<Longrightarrow> distinct (xs @ y # ys)"
  by auto

lemma registry_distinct: "distinct (concat (map (names_of r) REGISTRY))"
proof -
  let ?P = "class_indices r ''web-frontend-'' [1]"
  let ?Q = "class_indices r ''app-worker-'' [1] @ class_indices r ''app-redis-'' [1] @ [(''db-postgres-'', 1), (''db-postgres-'', 2)]
        @ class_indices r ''db-postgres-02-'' [] @ class_indices r ''mail-relay-'' [1] @ class_indices r ''fileserver-'' [1]
        @ [(''backup-'', 1)] @ class_indices r ''win-dc-'' [1]"
  have d: "distinct (?P @ ?Q)" by (simp add: class_indices_simps) auto
  have "set (?P @ ?Q) \<subseteq> {(p, n). p \<noteq> [] \<and> \<not> digit_char (last p)}"
    by (auto simp: class_indices_simps digit_char_def)
  then have "inj_on indexed (set (?P @ ?Q))" by (rule inj_on_subset [OF indexed_inj])
  with d have m: "distinct (map indexed (?P @ ?Q))" by (simp only: distinct_map)
  have pay: "indexed x \<noteq> ''payment-api''" for x by (rule indexed_no) (simp add: digit_char_def)
  have no: "''payment-api'' \<notin> set (map indexed ps)" for ps using pay by (metis imageE set_map)
  show ?thesis
    unfolding registry_names using m [unfolded map_append [of indexed ?P ?Q]] no [of ?P] no [of ?Q]
    by (rule distinct_between)
qed

text \<open>Whatever hosts are selected and however many replicas are asked for, the names of the carried
  roster are pairwise distinct, so that no child shadows another in the name table, the state files
  or the site.\<close>

theorem estate_names_distinct: "distinct (map hs_name (expand_registry w r REGISTRY))"
  unfolding expand_registry_names by (rule distinct_filtered [OF registry_distinct])

section \<open>Ports and environments\<close>

lemma boot_children_ports:
  assumes "boot_children env = Inr cs"
  obtains ab hb where "CHILD_AGENT_BASE env = Inr ab" "CHILD_HTTP_BASE env ab (length cs) = Inr hb"
    "map c_agent_port cs = map (\<lambda>i. ab + int i) [0..<length cs]"
    "map c_http_port cs = map (\<lambda>i. hb + int i) [0..<length cs]"
proof -
  obtain ab r hb where ab: "CHILD_AGENT_BASE env = Inr ab" and r: "replicas env = Inr r"
    and hb: "CHILD_HTTP_BASE env ab (length (expand_registry (wanted env) r REGISTRY)) = Inr hb"
    and cs: "cs = map (\<lambda>(i, s). child_init ab hb i s) (enumerate 0 (expand_registry (wanted env) r REGISTRY))"
    using assms by (auto simp: boot_children_def bindR_eq_Inr Let_def)
  have "map c_agent_port cs = map (\<lambda>i. ab + int i) (map fst (enumerate 0 (expand_registry (wanted env) r REGISTRY)))"
    "map c_http_port cs = map (\<lambda>i. hb + int i) (map fst (enumerate 0 (expand_registry (wanted env) r REGISTRY)))"
    unfolding cs by (simp_all add: child_init_def case_prod_unfold del: map_fst_enumerate)
  with ab hb cs show ?thesis using that by simp
qed

text \<open>Unless the operator sets the base of the admin ports, no two ports of the children coincide:
  the agent ports and the admin ports of all children are pairwise distinct however big the estate is.\<close>

theorem child_ports_distinct:
  assumes "boot_children env = Inr cs" and "env ''CHILD_HTTP_BASE'' = None"
  shows "distinct (map c_agent_port cs @ map c_http_port cs)"
proof -
  obtain ab hb where p: "CHILD_HTTP_BASE env ab (length cs) = Inr hb"
    "map c_agent_port cs = map (\<lambda>i. ab + int i) [0..<length cs]"
    "map c_http_port cs = map (\<lambda>i. hb + int i) [0..<length cs]"
    by (rule boot_children_ports [OF assms(1)])
  then have "hb = ab + int (max 100 (length cs + 10))" using assms(2) by (simp add: CHILD_HTTP_BASE_def)
  then show ?thesis unfolding p by (auto simp: distinct_map inj_on_def)
qed

theorem child_ports_distinct_witness:
  "\<exists>cs. boot_children [''ESTATE_REPLICAS'' \<mapsto> ''30''] = Inr cs \<and> distinct (map c_agent_port cs @ map c_http_port cs)"
proof -
  have "py_int ''7600'' = Inr 7600" "py_int ''30'' = Inr 30" by code_simp+
  then have "\<exists>cs. boot_children [''ESTATE_REPLICAS'' \<mapsto> ''30''] = Inr cs"
    by (simp add: boot_children_def CHILD_AGENT_BASE_def replicas_def CHILD_HTTP_BASE_def env_get_def Let_def)
  then obtain cs where cs: "boot_children [''ESTATE_REPLICAS'' \<mapsto> ''30''] = Inr cs" by blast
  moreover have "distinct (map c_agent_port cs @ map c_http_port cs)"
    by (rule child_ports_distinct [OF cs]) simp
  ultimately show ?thesis by blast
qed

lemma py_int_error: "py_int s = Inl e \<Longrightarrow> e = ValueError"
  by (auto simp: py_int_def Let_def split: if_splits)

text \<open>The boot of the shell fails exactly when one of its numbers does not parse: the base of the
  agent ports, the replica count (where the empty string counts as one) or a given base of the admin
  ports; the error is then \<open>ValueError\<close>.\<close>

theorem boot_error_exactly:
  "(\<forall>cs. boot_children env \<noteq> Inr cs) = (boot_children env = Inl ValueError)
   \<and> (boot_children env = Inl ValueError) =
      (py_int (env_get env ''CHILD_AGENT_BASE'' ''7600'') = Inl ValueError
       \<or> py_int (let v = env_get env ''ESTATE_REPLICAS'' ''1'' in if v = [] then ''1'' else v) = Inl ValueError
       \<or> (\<exists>v. env ''CHILD_HTTP_BASE'' = Some v \<and> py_int v = Inl ValueError))"
proof -
  have c: "py_int s = Inl ValueError \<or> (\<exists>i. py_int s = Inr i)" for s
    using py_int_error [of s] by (cases "py_int s") auto
  show ?thesis
    using c [of "env_get env ''CHILD_AGENT_BASE'' ''7600''"]
      c [of "let v = env_get env ''ESTATE_REPLICAS'' ''1'' in if v = [] then ''1'' else v"]
      c [of "the (env ''CHILD_HTTP_BASE'')"]
    by (elim disjE exE; cases "env ''CHILD_HTTP_BASE''")
       (simp_all add: boot_children_def CHILD_AGENT_BASE_def replicas_def CHILD_HTTP_BASE_def Let_def)
qed

lemma setdefaults:
  "foldl (\<lambda>e (k, v). case e k of None \<Rightarrow> e(k \<mapsto> v) | Some _ \<Rightarrow> e) env kvs x =
     (case env x of Some v \<Rightarrow> Some v | None \<Rightarrow> map_of kvs x)"
  by (induction kvs arbitrary: env) (auto split: option.splits)

text \<open>A replica is spawned under its own name, ports and state file whatever the operator's
  environment says; but its healthy start is only a default: a \<open>START_STATE\<close> or \<open>START_BROKEN\<close> in the
  operator's environment reaches the replicas too.\<close>

theorem replica_environment:
  "spawn_env env fq (child_init ab hb i (replica spec n)) ''CMK_HOSTNAME'' = Some fq
   \<and> spawn_env env fq (child_init ab hb i (replica spec n)) ''AGENT_PORT'' = Some (int_str (ab + int i))
   \<and> spawn_env env fq (child_init ab hb i (replica spec n)) ''HTTP_PORT'' = Some (int_str (hb + int i))
   \<and> spawn_env env fq (child_init ab hb i (replica spec n)) ''STATE_FILE''
       = Some (''/var/tmp/cmk-demo-pb-'' @ replica_name (hs_name spec) n @ ''.json'')
   \<and> spawn_env env fq (child_init ab hb i (replica spec n)) ''START_STATE''
       = Some (env_get env ''START_STATE'' ''healthy'')
   \<and> spawn_env env fq (child_init ab hb i (replica spec n)) ''START_BROKEN''
       = Some (env_get env ''START_BROKEN'' ''0'')"
  by (simp add: spawn_env_def setdefaults child_init_def replica_def map_of_dict_put env_get_def split: option.splits)

end
