(* ===== verification/Shell_Delivery.thy ===== *)
theory Shell_Delivery
  imports Shell
begin

text \<open>
  What the two ways of delivery promise: the piggyback stream gives every host its own lines back, and
  the agent files are replaced atomically.  \<open>attribute\<close> is the reading of the stream the protocol
  comment of \<open>deploy/piggyback/serve.py\<close> describes, the reference the framing is checked against.
\<close>

section \<open>Reading the piggyback stream\<close>

text \<open>
  How the stream is read, by the protocol the module's comment describes: a line that is a marker
  switches to the named host, the empty name back to the delivering host; every other line belongs to
  the current host.
\<close>

definition text_lines :: "string \<Rightarrow> string list" where
  "text_lines s = (let ps = split_on (CHR 10) s in if last ps = [] then butlast ps else ps)"

definition marker :: "string \<Rightarrow> string option" where
  "marker l = (if startswith l ''<<<<'' \<and> endswith (drop 4 l) ''>>>>'' then Some (take (length l - 8) (drop 4 l)) else None)"

fun attribute :: "string \<Rightarrow> string list \<Rightarrow> (string \<times> string) list" where
  "attribute cur [] = []"
| "attribute cur (l # ls) = (case marker l of Some h \<Rightarrow> attribute h ls | None \<Rightarrow> (cur, l) # attribute cur ls)"

definition no_marker :: "string \<Rightarrow> bool" where
  "no_marker s \<longleftrightarrow> list_all (\<lambda>l. marker l = None) (text_lines s)"

lemma marker_of [simp]: "marker (''<<<<'' @ h @ ''>>>>'') = Some h"
  by (simp add: marker_def startswith_def endswith_def)

lemma attribute_plain:
  "list_all (\<lambda>l. marker l = None) ls \<Longrightarrow> attribute cur (ls @ ls') = map (Pair cur) ls @ attribute cur ls'"
  by (induction ls) auto

lemma text_lines_Nil [simp]: "text_lines [] = []"
  by (simp add: text_lines_def)

lemma split_on_nl: "split_on c (a @ c # b) = split_on c a @ split_on c b"
proof (induction a)
  case Nil
  show ?case by (cases "split_on c b") simp_all
next
  case (Cons x a)
  obtain w ws where w: "split_on c a = w # ws" by (cases "split_on c a") auto
  with Cons show ?case by simp
qed

lemma text_lines_snoc: "text_lines (a @ [CHR 10]) = split_on (CHR 10) a"
  using split_on_nl [of "CHR 10" a "[]"] by (simp add: text_lines_def)

lemma text_lines_append: "text_lines ((a @ [CHR 10]) @ b) = text_lines (a @ [CHR 10]) @ text_lines b"
proof -
  have "split_on (CHR 10) ((a @ [CHR 10]) @ b) = split_on (CHR 10) a @ split_on (CHR 10) b"
    using split_on_nl [of "CHR 10" a b] by simp
  then show ?thesis by (simp add: text_lines_snoc) (simp add: text_lines_def Let_def butlast_append)
qed

lemma text_lines_end: "\<not> endswith a nl \<Longrightarrow> a \<noteq> [] \<Longrightarrow> text_lines a = text_lines (a @ nl)"
proof -
  assume a: "\<not> endswith a nl" "a \<noteq> []"
  have "last (split_on (CHR 10) a) \<noteq> []"
  proof
    assume l: "last (split_on (CHR 10) a) = []"
    show False
    proof (cases "butlast (split_on (CHR 10) a) = []")
      case True
      then have "split_on (CHR 10) a = [[]]" using l split_on_ne by (metis append_butlast_last_id append_Nil)
      with join_split_on [of "CHR 10" a] a(2) show False by simp
    next
      case False
      have "split_on (CHR 10) a = butlast (split_on (CHR 10) a) @ [[]]"
        using l split_on_ne by (metis append_butlast_last_id)
      moreover have "join_with [c] (us @ [[]]) = join_with [c] us @ [c]" if "us \<noteq> []" for c :: char and us
        using that by (induction "[c]" us rule: join_with.induct) auto
      ultimately have "a = join_with [CHR 10] (butlast (split_on (CHR 10) a)) @ [CHR 10]"
        using False join_split_on [of "CHR 10" a] by metis
      then have "endswith a nl" by (metis endswith_def nl_def length_append append_eq_conv_conj add_diff_cancel_right' le_add2)
      with a show False by blast
    qed
  qed
  then show ?thesis by (simp add: nl_def text_lines_snoc) (simp add: text_lines_def Let_def)
qed

lemma ends_nl: "endswith a nl \<Longrightarrow> \<exists>b. a = b @ [CHR 10]"
  by (metis append_take_drop_id endswith_def nl_def)

lemma one_line: "CHR 10 \<notin> set l \<Longrightarrow> text_lines ((l @ [CHR 10]) @ b) = l # text_lines b"
  unfolding text_lines_append by (simp add: text_lines_snoc split_on_no_sep)

lemma block_lines:
  assumes "payload \<noteq> []" and "CHR 10 \<notin> set fq"
  shows "text_lines (block fq payload @ tl') = (''<<<<'' @ fq @ ''>>>>'') # text_lines payload @ ''<<<<>>>>'' # text_lines tl'"
proof -
  define body where "body = payload @ (if endswith payload nl then [] else nl)"
  have "\<exists>b. body = b @ [CHR 10]"
  proof (cases "endswith payload nl")
    case True
    then show ?thesis using ends_nl [of payload] by (simp add: body_def)
  qed (simp add: body_def nl_def)
  then obtain b where b: "body = b @ [CHR 10]" by blast
  have tlb: "text_lines payload = text_lines body"
    using text_lines_end [of payload] assms(1) by (auto simp: body_def)
  have 1: "CHR 10 \<notin> set (''<<<<'' @ fq @ ''>>>>'')" using assms(2) by simp
  have 2: "CHR 10 \<notin> set ''<<<<>>>>''" by simp
  have "block fq payload @ tl' = ((''<<<<'' @ fq @ ''>>>>'') @ [CHR 10]) @ body @ (''<<<<>>>>'' @ [CHR 10]) @ tl'"
    using assms(1) by (simp add: block_def body_def nl_def)
  then have "text_lines (block fq payload @ tl') =
      (''<<<<'' @ fq @ ''>>>>'') # text_lines (body @ (''<<<<>>>>'' @ [CHR 10]) @ tl')"
    by (simp only: one_line [OF 1])
  also have "text_lines (body @ (''<<<<>>>>'' @ [CHR 10]) @ tl') = text_lines body @ ''<<<<>>>>'' # text_lines tl'"
    by (simp only: b text_lines_append [of b] one_line [OF 2])
  finally show ?thesis unfolding tlb .
qed

lemma blocks_attributed:
  assumes "\<forall>(fq, payload) \<in> set bs. CHR 10 \<notin> set fq \<and> no_marker payload"
  shows "attribute [] (text_lines (concat (map (\<lambda>(fq, payload). block fq payload) bs))) =
    concat (map (\<lambda>(fq, payload). map (Pair fq) (text_lines payload)) bs)"
  using assms
proof (induction bs)
  case (Cons x bs)
  obtain fq payload where x: "x = (fq, payload)" by (cases x)
  have ok: "CHR 10 \<notin> set fq" "list_all (\<lambda>l. marker l = None) (text_lines payload)"
    using Cons.prems by (auto simp: x no_marker_def)
  have e: "marker ''<<<<>>>>'' = Some []" using marker_of [of "[]"] by simp
  show ?case
  proof (cases "payload = []")
    case True
    with Cons show ?thesis by (simp add: x block_def)
  next
    case False
    have m: "marker (''<<<<'' @ fq @ ''>>>>'') = Some fq" by (rule marker_of)
    have "attribute [] (text_lines (concat (map (\<lambda>(fq, payload). block fq payload) (x # bs)))) =
        attribute fq (text_lines payload @ ''<<<<>>>>'' # text_lines (concat (map (\<lambda>(fq, payload). block fq payload) bs)))"
      using block_lines [OF False ok(1)] m by (simp add: x del: append.simps)
    then show ?thesis using attribute_plain [OF ok(2)] Cons by (simp add: x e)
  qed
qed simp

lemma delivery_minimal_lines:
  assumes "CHR 10 \<notin> set (AGENT_VERSION env)" and "CHR 10 \<notin> set (DELIVERY_HOSTNAME env)" and "\<forall>t. CHR 10 \<notin> set (gmt t)"
  shows "no_marker (delivery_minimal env gmt start now) \<and> (\<exists>b. delivery_minimal env gmt start now = b @ [CHR 10])"
proof -
  define secs where "secs = py_trunc now"
  define up where "up = py_trunc (now - start) + 3 * 86400"
  define ls where "ls = [''<<<check_mk>>>'', ''Version: '' @ AGENT_VERSION env, ''AgentOS: linux'',
           ''Hostname: '' @ DELIVERY_HOSTNAME env, ''OSType: linux'', ''OSName: Ubuntu'', ''OSVersion: 24.04'',
           ''OSPlatform: ubuntu'', ''FailedPythonReason: '', ''SSHClient: '',
           ''<<<cmk_agent_ctl_status:sep(0)>>>'', ctl_status env (gmt (secs + 320 * 86400)),
           ''<<<uptime>>>'', int_str up @ ''.00 '' @ int_str (py_trunc (of_int up * 3)) @ ''.00'']"
  have d: "delivery_minimal env gmt start now = join_with [CHR 10] ls @ [CHR 10]"
    by (simp only: delivery_minimal_def ls_def secs_def up_def py_lines_def Let_def)
  have ns: "CHR 10 \<notin> set (nat_str n)" for n using nat_str_chars [of "CHR 10" n] by (auto simp: digit_char_def)
  then have i: "CHR 10 \<notin> set (int_str k)" for k by (simp add: int_str_def)
  have nonl: "\<forall>l \<in> set ls. CHR 10 \<notin> set l" unfolding ls_def using assms i by (auto simp: ctl_status_def)
  have "split_on (CHR 10) (join_with [CHR 10] ls) = ls"
    by (rule split_on_join) (use nonl in \<open>auto simp: ls_def\<close>)
  then have tl: "text_lines (delivery_minimal env gmt start now) = ls" unfolding d text_lines_snoc .
  have "startswith l ''<<<<'' = (take 4 l = ''<<<<'')" for l by (simp add: startswith_def numeral_eq_Suc)
  then have mk: "marker l = None" if "take 4 l \<noteq> ''<<<<''" for l using that by (simp add: marker_def)
  have "\<not> hd (int_str k) = CHR ''<''" "int_str k \<noteq> []" for k
    using nat_str_chars [of "hd (nat_str (nat (abs k)))" "nat (abs k)"]
    by (auto simp: int_str_def digit_char_def split: if_splits)
  then have "marker (int_str k @ x) = None" for k x
  proof -
    obtain c r where "int_str k = c # r" "c \<noteq> CHR ''<''"
      using \<open>int_str k \<noteq> []\<close> \<open>\<not> hd (int_str k) = CHR ''<''\<close> by (cases "int_str k") auto
    then show ?thesis by (intro mk) simp
  qed
  then have "\<forall>l \<in> set ls. marker l = None" unfolding ls_def by (auto simp: ctl_status_def intro!: mk)
  then have "no_marker (delivery_minimal env gmt start now)" unfolding no_marker_def tl by (simp add: list_all_iff)
  with d show ?thesis by blast
qed

text \<open>C14. Reading the shell's output in piggyback mode gives every child exactly the lines of its own agent
  output, and the shell the lines of its own section, in order, for any children's outputs that hold no
  marker line of their own; a child without output has no lines.\<close>

theorem piggyback_lines_attributed:
  assumes "DELIVERY_MODE env \<noteq> ''datasource''"
    and "list_all (\<lambda>c. CHR 10 \<notin> set (ch_fqdn env c) \<and> no_marker (fetch c)) cs"
    and "CHR 10 \<notin> set (AGENT_VERSION env)" and "CHR 10 \<notin> set (DELIVERY_HOSTNAME env)" and "\<forall>t. CHR 10 \<notin> set (gmt t)"
  shows "attribute [] (text_lines (build_delivery_output env (delivery_minimal env gmt start now) fetch cs))
    = map (Pair []) (text_lines (delivery_minimal env gmt start now))
      @ concat (map (\<lambda>c. map (Pair (ch_fqdn env c)) (text_lines (fetch c))) cs)"
proof -
  let ?own = "delivery_minimal env gmt start now"
  let ?bs = "map (\<lambda>c. (ch_fqdn env c, fetch c)) cs"
  obtain b where own: "no_marker ?own" "?own = b @ [CHR 10]" using delivery_minimal_lines [OF assms(3-5)] by blast
  have bs: "attribute [] (text_lines (concat (map (\<lambda>c. block (ch_fqdn env c) (fetch c)) cs)))
      = concat (map (\<lambda>c. map (Pair (ch_fqdn env c)) (text_lines (fetch c))) cs)"
    using blocks_attributed [of ?bs] assms(2) by (simp add: list_all_iff comp_def)
  have "text_lines (?own @ concat (map (\<lambda>c. block (ch_fqdn env c) (fetch c)) cs))
      = text_lines ?own @ text_lines (concat (map (\<lambda>c. block (ch_fqdn env c) (fetch c)) cs))"
    by (simp only: own(2) text_lines_append [of b])
  then show ?thesis
    using assms(1) own(1) attribute_plain bs by (simp add: build_delivery_output_def no_marker_def)
qed

definition wit_fleet :: "string \<Rightarrow> carried" where
  "wit_fleet nm = Fleet \<lparr>f_name = nm, f_fqdn = nm @ ''.x'', f_parent = None, f_role = None, f_os = None, f_descr = []\<rparr>"

theorem piggyback_lines_attributed_witness:
  "attribute [] (text_lines (build_delivery_output Map.empty (delivery_minimal Map.empty (\<lambda>t. ''d'') 0 7)
      (\<lambda>c. if ch_name c = ''a'' then ''<<<uptime>>>'' else ch_name c @ [CHR 10] @ ''2'' @ [CHR 10]) [wit_fleet ''a'', wit_fleet ''b'']))
   = map (Pair []) (text_lines (delivery_minimal Map.empty (\<lambda>t. ''d'') 0 7))
     @ [(''a.x'', ''<<<uptime>>>''), (''b.x'', ''b''), (''b.x'', ''2'')]"
proof -
  have l: "text_lines ''<<<uptime>>>'' = [''<<<uptime>>>'']" "text_lines (''b'' @ [CHR 10] @ ''2'' @ [CHR 10]) = [''b'', ''2'']"
    by code_simp+
  have m: "no_marker ''<<<uptime>>>''" "no_marker (''b'' @ [CHR 10] @ ''2'' @ [CHR 10])" by code_simp+
  have e: "DELIVERY_MODE Map.empty \<noteq> ''datasource''" "CHR 10 \<notin> set (AGENT_VERSION Map.empty)"
    "CHR 10 \<notin> set (DELIVERY_HOSTNAME Map.empty)"
    by (simp_all add: DELIVERY_MODE_def AGENT_VERSION_def DELIVERY_HOSTNAME_def ESTATE_DOMAIN_def env_get_def)
  have "list_all (\<lambda>c. CHR 10 \<notin> set (ch_fqdn Map.empty c) \<and> no_marker
      (if ch_name c = ''a'' then ''<<<uptime>>>'' else ch_name c @ [CHR 10] @ ''2'' @ [CHR 10])) [wit_fleet ''a'', wit_fleet ''b'']"
    using m by (simp add: wit_fleet_def)
  from piggyback_lines_attributed [OF e(1) this e(2,3), of "\<lambda>t. ''d''" 0 7] l show ?thesis
    by (simp add: wit_fleet_def)
qed

section \<open>Reading the files\<close>

definition plain_name :: "string \<Rightarrow> bool" where
  "plain_name s \<longleftrightarrow> s \<noteq> [] \<and> hd s \<noteq> CHR ''.'' \<and> hd s \<noteq> CHR ''/''"

lemma path_join_eq:
  "a \<noteq> [] \<Longrightarrow> hd a \<noteq> CHR ''/'' \<Longrightarrow> b \<noteq> [] \<Longrightarrow> hd b \<noteq> CHR ''/'' \<Longrightarrow> path_join d a = path_join d b \<longleftrightarrow> a = b"
  by (cases a; cases b) (auto simp: path_join_def startswith_def)

lemma tmp_other: "plain_name n \<Longrightarrow> plain_name m \<Longrightarrow> path_join d (''.'' @ n @ ''.tmp'') \<noteq> path_join d m"
  using path_join_eq [of "''.'' @ n @ ''.tmp''" m d] by (auto simp: plain_name_def)

lemma path_same: "plain_name n \<Longrightarrow> plain_name m \<Longrightarrow> path_join d n = path_join d m \<longleftrightarrow> n = m"
  by (rule path_join_eq) (auto simp: plain_name_def)

text \<open>What a reader may find in a host's file while one file is written.\<close>

lemma write_file_atomic:
  assumes "plain_name nm" and "plain_name m" and "write_file d umask nm payload fault fs = (ok, ss)"
    and "fs' \<in> set ss"
  shows "fs' (path_join d m) = fs (path_join d m) \<or> (m = nm \<and> payload \<noteq> [] \<and> fs' (path_join d m) = Some (payload, True))"
  using assms(3,4) tmp_other [OF assms(1,2), of d] tmp_other [OF assms(1,1), of d] path_same [OF assms(1,2), of d]
  by (auto simp: write_file_def Let_def split: if_splits fault.splits)

lemma write_file_last:
  assumes "plain_name nm" and "plain_name m" and "write_file d umask nm payload fault fs = (ok, ss)"
  shows "last_state fs ss (path_join d m) =
      (if m = nm \<and> ok then Some (payload, True) else fs (path_join d m)) \<and> (ok \<longleftrightarrow> payload \<noteq> [] \<and> fault = NoFault)"
  using assms(3) tmp_other [OF assms(1,2), of d] tmp_other [OF assms(1,1), of d] path_same [OF assms(1,2), of d]
  by (auto simp: write_file_def Let_def last_state_def split: if_splits fault.splits)

lemma write_pass_atomic:
  assumes "\<forall>(nm, p, f) \<in> set jobs. plain_name nm" and "plain_name m" and "fs' \<in> set (snd (write_pass d umask jobs fs))"
  shows "fs' (path_join d m) = fs (path_join d m)
    \<or> (\<exists>p f. (m, p, f) \<in> set jobs \<and> p \<noteq> [] \<and> fs' (path_join d m) = Some (p, True))"
  using assms
proof (induction jobs arbitrary: fs)
  case (Cons j jobs)
  obtain nm p f where j: "j = (nm, p, f)" by (cases j)
  obtain ok ss where w: "write_file d umask nm p f fs = (ok, ss)" by (metis surj_pair)
  have nm: "plain_name nm" using Cons.prems(1) by (simp add: j)
  note la = write_file_last [OF nm Cons.prems(2) w]
  from Cons.prems(3) consider "fs' \<in> set ss" | "fs' \<in> set (snd (write_pass d umask jobs (last_state fs ss)))"
    by (auto simp: j w split: prod.splits)
  then show ?case
  proof cases
    case 1
    with write_file_atomic [OF nm Cons.prems(2) w] show ?thesis by (auto simp: j)
  next
    case 2
    from Cons.IH [OF _ Cons.prems(2) this] Cons.prems(1) la show ?thesis by (auto simp: j split: if_splits)
  qed
qed simp

lemma write_pass_result:
  assumes "\<forall>(nm, p, f) \<in> set jobs. plain_name nm" and "distinct (map fst jobs)"
  shows "fst (write_pass d umask jobs fs) = length (filter (\<lambda>(nm, p, f). p \<noteq> [] \<and> f = NoFault) jobs)
    \<and> (\<forall>(nm, p, f) \<in> set jobs. last_state fs (snd (write_pass d umask jobs fs)) (path_join d nm)
          = (if p \<noteq> [] \<and> f = NoFault then Some (p, True) else fs (path_join d nm)))
    \<and> (\<forall>m. plain_name m \<longrightarrow> m \<notin> fst ` set jobs \<longrightarrow>
          last_state fs (snd (write_pass d umask jobs fs)) (path_join d m) = fs (path_join d m))"
  using assms
proof (induction jobs arbitrary: fs)
  case Nil
  show ?case by (simp add: last_state_def)
next
  case (Cons j jobs)
  obtain nm p f where j: "j = (nm, p, f)" by (cases j)
  obtain ok ss where w: "write_file d umask nm p f fs = (ok, ss)" by (metis surj_pair)
  obtain n ss' where r: "write_pass d umask jobs (last_state fs ss) = (n, ss')" by (metis surj_pair)
  have nm: "plain_name nm" and others: "\<forall>(nm, p, f) \<in> set jobs. plain_name nm" and fresh: "nm \<notin> fst ` set jobs"
    and dj: "distinct (map fst jobs)"
    using Cons.prems by (auto simp: j)
  note la = write_file_last [OF nm _ w]
  have ls: "last_state fs (ss @ ss') = last_state (last_state fs ss) ss'" by (simp add: last_state_def last_append)
  note ih = Cons.IH [OF others dj, of "last_state fs ss", unfolded r snd_conv fst_conv]
  have wp: "write_pass d umask (j # jobs) fs = ((if ok then 1 else 0) + n, ss @ ss')" by (simp add: j w r)
  have ok: "ok \<longleftrightarrow> p \<noteq> [] \<and> f = NoFault" using la [OF nm] by blast
  have "last_state fs (ss @ ss') (path_join d nm) = (if p \<noteq> [] \<and> f = NoFault then Some (p, True) else fs (path_join d nm))"
    unfolding ls using ih nm fresh la [OF nm] ok by auto
  moreover have "last_state fs (ss @ ss') (path_join d nm') = (if p' \<noteq> [] \<and> f' = NoFault then Some (p', True) else fs (path_join d nm'))"
    if "(nm', p', f') \<in> set jobs" for nm' p' f'
  proof -
    have "plain_name nm'" "nm' \<noteq> nm" using others fresh that by (auto simp: image_iff)
    then have "last_state fs ss (path_join d nm') = fs (path_join d nm')" using la by simp
    with ih that show ?thesis unfolding ls by auto
  qed
  moreover have "last_state fs (ss @ ss') (path_join d m) = fs (path_join d m)"
    if "plain_name m" "m \<notin> fst ` set (j # jobs)" for m
    unfolding ls using ih la [OF that(1)] that by (auto simp: j)
  moreover have "fst (write_pass d umask (j # jobs) fs) = length (filter (\<lambda>(nm, p, f). p \<noteq> [] \<and> f = NoFault) (j # jobs))"
    unfolding wp fst_conv using ih ok by (simp add: j)
  ultimately show ?case unfolding wp snd_conv by (auto simp: j)
qed

text \<open>C15. Datasource mode: at every moment of a pass, whichever system calls fail, the file of each host is
  either what it was before the pass or the complete, world-readable output of that host; and at the
  end it is the new output exactly for the hosts that answered and whose writes did not fail, the
  count returned being their number.  A host that did not answer keeps its last good file.\<close>

theorem agent_files_atomic:
  assumes "list_all plain_name (map fst (write_jobs env own fetch faults cs))"
    and "distinct (map fst (write_jobs env own fetch faults cs))"
    and "write_agent_files env umask own fetch faults cs fs = (n, ss)"
  shows "list_all (\<lambda>(nm, p, f). list_all (\<lambda>fs'. fs' (path_join (AGENT_OUTPUT_DIR env) nm)
            \<in> {fs (path_join (AGENT_OUTPUT_DIR env) nm), Some (p, True)}) ss)
          (write_jobs env own fetch faults cs)
    \<and> list_all (\<lambda>(nm, p, f). last_state fs ss (path_join (AGENT_OUTPUT_DIR env) nm)
            = (if p \<noteq> [] \<and> f = NoFault then Some (p, True) else fs (path_join (AGENT_OUTPUT_DIR env) nm)))
          (write_jobs env own fetch faults cs)
    \<and> n = length (filter (\<lambda>(nm, p, f). p \<noteq> [] \<and> f = NoFault) (write_jobs env own fetch faults cs))"
proof -
  let ?d = "AGENT_OUTPUT_DIR env" and ?jobs = "write_jobs env own fetch faults cs"
  have p: "\<forall>(nm, p, f) \<in> set ?jobs. plain_name nm" using assms(1) by (auto simp: list_all_iff)
  have w: "write_pass ?d umask ?jobs fs = (n, ss)" using assms(3) by (simp only: write_agent_files_def)
  have one: "p = p'" if "(nm, p, f) \<in> set ?jobs" "(nm, p', f') \<in> set ?jobs" for nm p f p' f'
    using that assms(2) by (metis eq_key_imp_eq_value prod.inject)
  have at: "fs' (path_join ?d nm) = fs (path_join ?d nm) \<or> fs' (path_join ?d nm) = Some (p, True)"
    if j: "(nm, p, f) \<in> set ?jobs" and s: "fs' \<in> set ss" for nm p f fs'
  proof -
    have pn: "plain_name nm" using p j by blast
    have "fs' \<in> set (snd (write_pass ?d umask ?jobs fs))" using s by (simp add: w)
    from write_pass_atomic [OF p pn this] one [OF j] show ?thesis by auto
  qed
  have "list_all (\<lambda>(nm, p, f). list_all (\<lambda>fs'. fs' (path_join ?d nm) \<in> {fs (path_join ?d nm), Some (p, True)}) ss) ?jobs"
    unfolding list_all_iff using at by blast
  then show ?thesis using write_pass_result [OF p assms(2), of ?d umask fs] unfolding w by (auto simp: list_all_iff)
qed

theorem agent_files_atomic_witness:
  "fst (write_agent_files Map.empty True ''own'' (\<lambda>c. ''out'') (\<lambda>nm. if nm = ''b.x'' then AtWrite 1 else NoFault)
      [wit_fleet ''a'', wit_fleet ''b''] Map.empty) = 2
   \<and> last_state Map.empty (snd (write_agent_files Map.empty True ''own'' (\<lambda>c. ''out'')
      (\<lambda>nm. if nm = ''b.x'' then AtWrite 1 else NoFault) [wit_fleet ''a'', wit_fleet ''b''] Map.empty))
      (path_join (AGENT_OUTPUT_DIR Map.empty) ''a.x'') = Some (''out'', True)
   \<and> last_state Map.empty (snd (write_agent_files Map.empty True ''own'' (\<lambda>c. ''out'')
      (\<lambda>nm. if nm = ''b.x'' then AtWrite 1 else NoFault) [wit_fleet ''a'', wit_fleet ''b''] Map.empty))
      (path_join (AGENT_OUTPUT_DIR Map.empty) ''b.x'') = None"
proof -
  let ?faults = "\<lambda>nm. if nm = ''b.x'' then AtWrite 1 else NoFault"
  let ?jobs = "write_jobs Map.empty ''own'' (\<lambda>c. ''out'') ?faults [wit_fleet ''a'', wit_fleet ''b'']"
  have j: "?jobs = [(''cmk-demo-gateway.corp.meridian-retail.com'', ''own'', NoFault), (''a.x'', ''out'', NoFault), (''b.x'', ''out'', AtWrite 1)]"
    by (simp add: write_jobs_def wit_fleet_def DELIVERY_HOSTNAME_def ESTATE_DOMAIN_def env_get_def)
  have "list_all plain_name (map fst ?jobs)" "distinct (map fst ?jobs)" unfolding j by (simp_all add: plain_name_def)
  from agent_files_atomic [OF this prod.collapse [symmetric], where umask = True and fs = Map.empty, unfolded j] show ?thesis by simp
qed

end
