(* ===== verification/Cascade.thy ===== *)
theory Cascade
  imports Shell
begin

text \<open>
  The cross-host cascade of \<open>deploy/piggyback/serve.py\<close> (class \<open>Cascade\<close>) and the panel's routes.
  The scheduler state is the record \<open>cascade\<close>; an operation works on a world that also has the log of
  the toggles sent to the children and the state file.  First the operations as the code runs them one
  at a time; then, for the threads the code really has, a step relation that interleaves the scheduler
  with the handler threads at the points where the lock is released.
\<close>

section \<open>Steps\<close>

record cstep =
  delay_s :: int
  st_host :: string
  st_action :: string
  st_why :: string

definition em_dash :: string where "em_dash = [CHR 0xE2, CHR 0x80, CHR 0x94]"

definition mk_step :: "int \<Rightarrow> string \<Rightarrow> string \<Rightarrow> string \<Rightarrow> cstep" where
  "mk_step d h a w = \<lparr>delay_s = d, st_host = h, st_action = a, st_why = w\<rparr>"

definition CASCADE_STEPS :: "cstep list" where
  "CASCADE_STEPS =
    [mk_step 0 ''db-postgres-01'' ''degrade''
       (''SATA SSD read-retry/ECC storms begin '' @ em_dash @ '' intermittent latency spikes, SMART still PASSED (root cause, quiet)''),
     mk_step 120 ''db-postgres-02'' ''degrade''
       ''standby replication lag grows as the primary's I/O stalls'',
     mk_step 180 ''app-worker-01'' ''degrade''
       ''settlement commits to the primary slow down; job queue backs up, JVM heap starts filling'',
     mk_step 300 ''db-postgres-01'' ''break''
       (''primary disk fully fails-slow: iowait pegged, query-latency cliff '' @ em_dash @ '' the storage collapse''),
     mk_step 360 ''payment-api'' ''break''
       (''DB writes time out -> payment API returns errors '' @ em_dash @ '' the customer-facing symptom''),
     mk_step 420 ''app-worker-01'' ''break''
       ''buffered jobs overflow the heap -> OOM-killed, order-worker.service flaps'']"

definition applies :: "carried list \<Rightarrow> cstep \<Rightarrow> bool" where
  "applies cs s = (case by_name cs (st_host s) of
       None \<Rightarrow> False
     | Some ch \<Rightarrow> ch_actions ch = [] \<or> st_action s \<in> set (ch_actions ch))"

definition cascade_steps :: "carried list \<Rightarrow> cstep list" where
  "cascade_steps cs = filter (applies cs) CASCADE_STEPS"

definition cascade_skipped :: "carried list \<Rightarrow> cstep list" where
  "cascade_skipped cs = filter (\<lambda>s. \<not> applies cs s) CASCADE_STEPS"

definition step_key :: "nat \<Rightarrow> cstep \<Rightarrow> string" where
  "step_key i s = nat_str i @ '':'' @ st_host s @ '':'' @ st_action s"

definition participants :: "cstep list \<Rightarrow> string list" where
  "participants ss = foldl (\<lambda>seen s. if st_host s \<in> set seen then seen else seen @ [st_host s]) [] ss"

definition scaled_delay :: "real \<Rightarrow> cstep \<Rightarrow> real" where
  "scaled_delay scale s = of_int (delay_s s) * scale"

section \<open>The scheduler\<close>

record cascade =
  active :: bool
  started_at :: "real option"
  fired :: "(string \<times> real) list"
  complete_logged :: bool

definition cascade_init :: cascade where
  "cascade_init = \<lparr>active = False, started_at = None, fired = [], complete_logged = False\<rparr>"

datatype saved = Saved bool "real option" "(string \<times> real) list"

text \<open>What the environment of the scheduler fixes: the time scale, the steps of this estate, whether the
  state file is configured and can be written.\<close>

record cenv =
  scale :: real
  steps :: "cstep list"
  persist :: bool

record cworld =
  casc :: cascade
  toggles :: "(string \<times> string) list"
  disk :: "saved option"

definition c_save :: "cenv \<Rightarrow> cworld \<Rightarrow> cworld" where
  "c_save e w = (if persist e
     then w\<lparr>disk := Some (Saved (active (casc w)) (started_at (casc w)) (fired (casc w)))\<rparr> else w)"

definition c_start :: "cenv \<Rightarrow> real \<Rightarrow> cworld \<Rightarrow> cworld" where
  "c_start e now w = c_save e
     (w\<lparr>casc := \<lparr>active = True, started_at = Some now, fired = [], complete_logged = False\<rparr>\<rparr>)"

definition c_heal :: "cenv \<Rightarrow> cworld \<Rightarrow> cworld" where
  "c_heal e w = c_save e
     (w\<lparr>casc := \<lparr>active = False, started_at = None, fired = [], complete_logged = False\<rparr>,
        toggles := toggles w @ map (\<lambda>h. (h, ''heal'')) (participants (steps e))\<rparr>)"

definition c_fire :: "cenv \<Rightarrow> (string \<Rightarrow> real) \<Rightarrow> cworld \<Rightarrow> string \<times> cstep \<Rightarrow> cworld" where
  "c_fire e stamp w ks = c_save e
     (w\<lparr>casc := (casc w)\<lparr>fired := dict_put (fst ks) (stamp (fst ks)) (fired (casc w))\<rparr>,
        toggles := toggles w @ [(st_host (snd ks), st_action (snd ks))]\<rparr>)"

definition keyed :: "cstep list \<Rightarrow> (string \<times> cstep) list" where
  "keyed ss = map (\<lambda>(i, s). (step_key i s, s)) (enumerate 0 ss)"

definition due :: "cenv \<Rightarrow> real \<Rightarrow> cascade \<Rightarrow> (string \<times> cstep) list" where
  "due e elapsed c = filter (\<lambda>(k, s). k \<notin> fst ` set (fired c) \<and> elapsed \<ge> scaled_delay (scale e) s) (keyed (steps e))"

definition all_fired :: "cenv \<Rightarrow> cascade \<Rightarrow> bool" where
  "all_fired e c \<longleftrightarrow> active c \<and> steps e \<noteq> [] \<and> length (fired c) \<ge> length (steps e)"

text \<open>\<open>_tick\<close> at time \<open>now\<close>; \<open>stamp\<close> is the clock when a step is marked.\<close>

definition c_tick :: "cenv \<Rightarrow> (string \<Rightarrow> real) \<Rightarrow> real \<Rightarrow> cworld \<Rightarrow> cworld" where
  "c_tick e stamp now w =
     (case started_at (casc w) of
        None \<Rightarrow> w
      | Some t0 \<Rightarrow>
          if \<not> active (casc w) then w
          else let w' = foldl (c_fire e stamp) w (due e (now - t0) (casc w))
               in if all_fired e (casc w') \<and> \<not> complete_logged (casc w')
                  then w'\<lparr>casc := (casc w')\<lparr>complete_logged := True\<rparr>\<rparr> else w')"

text \<open>\<open>load\<close> into the cascade of a new process; a file that is missing or does not parse is \<open>None\<close>.\<close>

definition c_load :: "cenv \<Rightarrow> cworld \<Rightarrow> cworld" where
  "c_load e w = (case disk w of
       None \<Rightarrow> w
     | Some (Saved a t f) \<Rightarrow> w\<lparr>casc := (casc w)\<lparr>active := a, started_at := t, fired := f\<rparr>\<rparr>)"

definition restart :: "cenv \<Rightarrow> cworld \<Rightarrow> cworld" where
  "restart e w = c_load e (w\<lparr>casc := cascade_init\<rparr>)"

section \<open>Status\<close>

record step_status =
  ss_at :: int
  ss_host :: string
  ss_action :: string
  ss_why :: string
  ss_fired :: "bool option"
  ss_eta :: "int option"

record cstatus =
  cs_active :: bool
  cs_complete :: bool
  cs_elapsed :: real
  cs_scale :: real
  cs_total :: int
  cs_participants :: "string list"
  cs_steps :: "step_status list"

definition c_elapsed :: "cascade \<Rightarrow> real \<Rightarrow> real" where
  "c_elapsed c now = (case started_at c of None \<Rightarrow> 0 | Some t0 \<Rightarrow> if active c \<and> t0 \<noteq> 0 then now - t0 else 0)"

text \<open>A skipped step has neither the entry \<open>fired\<close> nor \<open>eta_s\<close>.\<close>

definition c_status :: "cenv \<Rightarrow> cstep list \<Rightarrow> cascade \<Rightarrow> real \<Rightarrow> cstatus" where
  "c_status e skipped c now =
     \<lparr>cs_active = active c, cs_complete = all_fired e c,
      cs_elapsed = of_int (py_round (c_elapsed c now * 10)) / 10, cs_scale = scale e,
      cs_total = (if steps e = [] then 0 else py_round (scaled_delay (scale e) (last (steps e)))),
      cs_participants = participants (steps e),
      cs_steps =
        map (\<lambda>(k, s). \<lparr>ss_at = py_round (scaled_delay (scale e) s), ss_host = st_host s, ss_action = st_action s,
               ss_why = st_why s, ss_fired = Some (k \<in> fst ` set (fired c)),
               ss_eta = (if k \<in> fst ` set (fired c) \<or> \<not> active c then None
                         else Some (py_round (scaled_delay (scale e) s - c_elapsed c now)))\<rparr>) (keyed (steps e))
        @ map (\<lambda>s. \<lparr>ss_at = py_round (scaled_delay (scale e) s), ss_host = st_host s, ss_action = st_action s,
               ss_why = st_why s, ss_fired = None, ss_eta = None\<rparr>) skipped\<rparr>"

section \<open>The panel's routes\<close>

datatype effect = NoEffect | StartCascade | HealCascade | ToggleChild carried string

datatype reply = OverviewPage | InfoPage carried | CascadeStatus | EstateStatus | Redirect string | NotFound string

definition rstrip_slash :: "string \<Rightarrow> string" where
  "rstrip_slash = rstrip_by (\<lambda>c. c = CHR ''/'')"

fun infix_of :: "string \<Rightarrow> string \<Rightarrow> bool" where
  "infix_of p [] = (p = [])"
| "infix_of p (c # s) = (startswith (c # s) p \<or> infix_of p s)"

definition panel_get :: "carried list \<Rightarrow> string \<Rightarrow> reply \<times> effect" where
  "panel_get cs url =
     (let (path0, query) = partition_at (CHR ''?'') url;
          path = (if rstrip_slash path0 = [] then ''/'' else rstrip_slash path0)
      in if path = ''/admin'' then (OverviewPage, NoEffect)
         else if path = ''/admin/cascade'' \<or> startswith path ''/admin/cascade/''
         then let sub = dropWhile (\<lambda>c. c = CHR ''/'') (drop 14 path)
              in if sub = ''status'' then (CascadeStatus, NoEffect)
                 else if sub \<in> {[], ''start'', ''trigger''} then (Redirect ''/admin'', StartCascade)
                 else if sub \<in> {''heal'', ''stop''} then (Redirect ''/admin'', HealCascade)
                 else (NotFound sub, NoEffect)
         else if startswith path ''/admin/''
         then (case split_on (CHR ''/'') (drop 7 path) of
                 [h, a] \<Rightarrow>
                   (case by_name cs h of
                      None \<Rightarrow> (EstateStatus, NoEffect)
                    | Some ch \<Rightarrow>
                        if a = ''info'' then (InfoPage ch, NoEffect)
                        else (Redirect (if infix_of ''back=info'' query then ''/admin/'' @ ch_name ch @ ''/info'' else ''/admin''),
                              ToggleChild ch a))
               | _ \<Rightarrow> (EstateStatus, NoEffect))
         else (EstateStatus, NoEffect))"

text \<open>Serving one request: the effect on the cascade's world.  A toggle is logged under the child's name.\<close>

definition panel_serve :: "cenv \<Rightarrow> carried list \<Rightarrow> real \<Rightarrow> string \<Rightarrow> cworld \<Rightarrow> reply \<times> cworld" where
  "panel_serve e cs now url w =
     (case panel_get cs url of
        (r, NoEffect) \<Rightarrow> (r, w)
      | (r, StartCascade) \<Rightarrow> (r, c_start e now w)
      | (r, HealCascade) \<Rightarrow> (r, c_heal e w)
      | (r, ToggleChild ch a) \<Rightarrow> (r, w\<lparr>toggles := toggles w @ [(ch_name ch, a)]\<rparr>))"

section \<open>The timeline\<close>

lemma step_key_index: "partition_at (CHR '':'') (step_key i s) = (nat_str i, st_host s @ '':'' @ st_action s)"
proof -
  have "CHR '':'' \<notin> set (nat_str i)" using nat_str_chars [of "CHR '':''" i] by (auto simp: digit_char_def)
  from partition_at_first [OF this] show ?thesis by (simp add: step_key_def)
qed

lemma keyed_nth: "i < length ss \<Longrightarrow> keyed ss ! i = (step_key i (ss ! i), ss ! i)"
  by (simp add: keyed_def nth_enumerate_eq)

lemma keyed_length [simp]: "length (keyed ss) = length ss"
  by (simp add: keyed_def)

lemma keyed_snd [simp]: "map snd (keyed ss) = ss"
  by (rule nth_equalityI) (simp_all add: keyed_nth)

lemma keyed_distinct: "distinct (map fst (keyed ss))"
  unfolding distinct_conv_nth
proof (intro allI impI)
  fix i j assume "i < length (map fst (keyed ss))" "j < length (map fst (keyed ss))" "i \<noteq> j"
  then show "map fst (keyed ss) ! i \<noteq> map fst (keyed ss) ! j"
    using step_key_index [of i "ss ! i"] step_key_index [of j "ss ! j"] by (auto simp: keyed_nth)
qed

text \<open>A condition that, along the list, once false stays false.\<close>

definition downward :: "('a \<Rightarrow> bool) \<Rightarrow> 'a list \<Rightarrow> bool" where
  "downward P xs \<longleftrightarrow> sorted_wrt (\<lambda>a b. P b \<longrightarrow> P a) xs"

lemma downward_filter: "downward P xs \<Longrightarrow> filter P (drop n xs) = takeWhile P (drop n xs)"
proof (induction xs arbitrary: n)
  case (Cons x xs)
  have d: "downward P xs" and x: "\<forall>y \<in> set xs. P y \<longrightarrow> P x" using Cons.prems by (auto simp: downward_def)
  show ?case
  proof (cases n)
    case 0
    have "filter P xs = takeWhile P xs" using Cons.IH [OF d, of 0] by simp
    moreover have "filter P xs = []" if "\<not> P x" using x that by (auto simp: filter_empty_conv)
    ultimately show ?thesis using 0 by simp
  next
    case (Suc k)
    with Cons.IH [OF d, of k] show ?thesis by simp
  qed
qed simp

lemma downward_reach:
  "downward P xs \<Longrightarrow> n \<le> length xs \<Longrightarrow> n + length (takeWhile P (drop n xs)) = max n (length (takeWhile P xs))"
proof (induction xs arbitrary: n)
  case (Cons x xs)
  have d: "downward P xs" and x: "\<forall>y \<in> set xs. P y \<longrightarrow> P x" using Cons.prems by (auto simp: downward_def)
  show ?case
  proof (cases n)
    case (Suc k)
    have "takeWhile P (drop k xs) = []" if "\<not> P x"
      using x that by (metis in_set_dropD list.exhaust_sel list.set_sel(1) takeWhile.simps takeWhile_eq_Nil_iff)
    then show ?thesis using Cons.IH [OF d, of k] Cons.prems(2) Suc by auto
  qed simp
qed simp

text \<open>How many steps a given elapsed time has reached, and the world after \<open>n\<close> steps of an armed run.\<close>

definition reached :: "cenv \<Rightarrow> real \<Rightarrow> nat" where
  "reached e elapsed = length (takeWhile (\<lambda>s. scaled_delay (scale e) s \<le> elapsed) (steps e))"

definition orders :: "cstep list \<Rightarrow> (string \<times> string) list" where
  "orders ss = map (\<lambda>s. (st_host s, st_action s)) ss"

definition at_step :: "cenv \<Rightarrow> real \<Rightarrow> (string \<times> string) list \<Rightarrow> nat \<Rightarrow> cworld \<Rightarrow> bool" where
  "at_step e t0 base n w \<longleftrightarrow> n \<le> length (steps e) \<and> active (casc w) \<and> started_at (casc w) = Some t0
     \<and> map fst (fired (casc w)) = map fst (take n (keyed (steps e))) \<and> toggles w = base @ orders (take n (steps e))
     \<and> (persist e \<longrightarrow> disk w = Some (Saved True (Some t0) (fired (casc w))))"

definition timed :: "cenv \<Rightarrow> bool" where
  "timed e \<longleftrightarrow> 0 \<le> scale e \<and> sorted (map delay_s (steps e))"

lemma timed_downward: "timed e \<Longrightarrow> downward (\<lambda>s. scaled_delay (scale e) s \<le> x) (steps e)"
  unfolding downward_def timed_def sorted_map
  by (rule sorted_wrt_mono_rel [of _ "\<lambda>a b. delay_s a \<le> delay_s b"])
     (auto simp: scaled_delay_def, meson mult_right_mono of_int_le_iff order_trans)

lemma fire_one:
  assumes "at_step e t0 base n w" and "n < length (steps e)"
  shows "at_step e t0 base (Suc n) (c_fire e stamp w (keyed (steps e) ! n))"
proof -
  let ?k = "keyed (steps e) ! n"
  have n: "n < length (keyed (steps e))" using assms(2) by simp
  have "fst ?k \<notin> fst ` set (fired (casc w))"
  proof
    assume "fst ?k \<in> fst ` set (fired (casc w))"
    then have "fst ?k \<in> set (map fst (take n (keyed (steps e))))" using assms(1) by (metis at_step_def list.set_map)
    then have "map fst (keyed (steps e)) ! n \<in> set (take n (map fst (keyed (steps e))))" using n by (simp add: take_map)
    with keyed_distinct [of "steps e"] n show False
      by (metis distinct_take id_take_nth_drop length_map not_distinct_conv_prefix distinct_append disjoint_insert(2) list.set(2))
  qed
  then have "map fst (dict_put (fst ?k) (stamp (fst ?k)) (fired (casc w))) = map fst (take (Suc n) (keyed (steps e)))"
    using assms(1) n by (simp add: dict_put_fst at_step_def take_Suc_conv_app_nth)
  moreover have "toggles w @ [(st_host (snd ?k), st_action (snd ?k))] = base @ orders (take (Suc n) (steps e))"
    using assms by (simp add: at_step_def orders_def take_Suc_conv_app_nth keyed_nth)
  ultimately show ?thesis using assms by (simp add: at_step_def c_fire_def c_save_def)
qed

lemma fire_many:
  assumes "at_step e t0 base n w" and "n + k \<le> length (steps e)"
  shows "at_step e t0 base (n + k) (foldl (c_fire e stamp) w (take k (drop n (keyed (steps e)))))"
  using assms(2)
proof (induction k)
  case 0
  then show ?case using assms(1) by simp
next
  case (Suc k)
  then have "take (Suc k) (drop n (keyed (steps e))) = take k (drop n (keyed (steps e))) @ [keyed (steps e) ! (n + k)]"
    by (simp add: take_Suc_conv_app_nth)
  with fire_one [of e t0 base "n + k"] Suc show ?case by simp
qed

lemma due_next:
  assumes "at_step e t0 base n w" and "timed e"
  shows "due e x (casc w) = take (length (takeWhile (\<lambda>s. scaled_delay (scale e) s \<le> x) (drop n (steps e)))) (drop n (keyed (steps e)))"
proof -
  let ?ks = "keyed (steps e)" and ?P = "\<lambda>s. scaled_delay (scale e) s \<le> x"
  let ?K = "fst ` set (fired (casc w))"
  have K: "?K = set (map fst (take n ?ks))" using assms(1) by (metis at_step_def list.set_map)
  have "distinct (map fst (take n ?ks) @ map fst (drop n ?ks))"
    using keyed_distinct [of "steps e"] by (metis append_take_drop_id map_append)
  then have new: "\<forall>k \<in> set (drop n ?ks). fst k \<notin> ?K" unfolding K by auto
  have old: "\<forall>k \<in> set (take n ?ks). fst k \<in> ?K" unfolding K by auto
  have "due e x (casc w) = filter (\<lambda>k. fst k \<notin> ?K \<and> ?P (snd k)) (take n ?ks @ drop n ?ks)"
    by (simp add: due_def case_prod_unfold)
  also have "\<dots> = filter (\<lambda>k. ?P (snd k)) (drop n ?ks)"
    using new old by (simp add: filter_empty_conv del: append_take_drop_id cong: filter_cong)
  also have "\<dots> = takeWhile (\<lambda>k. ?P (snd k)) (drop n ?ks)"
  proof (rule downward_filter)
    have "downward ?P (map snd ?ks)" using timed_downward [OF assms(2)] by simp
    then show "downward (\<lambda>k. ?P (snd k)) ?ks" by (simp only: downward_def sorted_wrt_map)
  qed
  also have "\<dots> = take (length (takeWhile ?P (map snd (drop n ?ks)))) (drop n ?ks)"
    by (simp add: takeWhile_map comp_def flip: takeWhile_eq_take)
  also have "map snd (drop n ?ks) = drop n (steps e)" by (simp flip: drop_map)
  finally show ?thesis .
qed

lemma tick_reach:
  assumes "at_step e t0 base n w" and "timed e"
  shows "at_step e t0 base (max n (reached e (now - t0))) (c_tick e stamp now w)"
proof -
  let ?k = "length (takeWhile (\<lambda>s. scaled_delay (scale e) s \<le> now - t0) (drop n (steps e)))"
  have n: "n \<le> length (steps e)" and a: "active (casc w)" "started_at (casc w) = Some t0"
    using assms(1) by (auto simp: at_step_def)
  have k: "n + ?k = max n (reached e (now - t0))"
    using downward_reach [OF timed_downward [OF assms(2)] n] by (simp add: reached_def)
  have "n + ?k \<le> length (steps e)" using length_takeWhile_le [of _ "drop n (steps e)"] n by (metis add.commute le_diff_conv2 length_drop)
  from fire_many [OF assms(1) this] due_next [OF assms]
  have f: "at_step e t0 base (n + ?k) (foldl (c_fire e stamp) w (due e (now - t0) (casc w)))" by simp
  have "at_step e t0 base (n + ?k) (w'\<lparr>casc := (casc w')\<lparr>complete_logged := b\<rparr>\<rparr>)" if "at_step e t0 base (n + ?k) w'" for w' b
    using that by (simp add: at_step_def)
  with f a show ?thesis by (simp add: c_tick_def Let_def k)
qed

lemma restart_same: "at_step e t0 base n w \<Longrightarrow> persist e \<Longrightarrow> at_step e t0 base n (restart e w)"
  by (simp add: at_step_def restart_def c_load_def cascade_init_def)

text \<open>What happens to an armed shell: ticks at given times, and restarts of the process.\<close>

datatype event = Tick real | Restart

primrec c_event :: "cenv \<Rightarrow> (string \<Rightarrow> real) \<Rightarrow> event \<Rightarrow> cworld \<Rightarrow> cworld" where
  "c_event e stamp (Tick now) w = c_tick e stamp now w"
| "c_event e stamp Restart w = restart e w"

definition tick_times :: "event list \<Rightarrow> real list" where
  "tick_times evs = concat (map (\<lambda>ev. case ev of Tick t \<Rightarrow> [t] | Restart \<Rightarrow> []) evs)"

text \<open>The abstract timeline: how far the run has come after these events.\<close>

definition progress :: "cenv \<Rightarrow> real \<Rightarrow> event list \<Rightarrow> nat" where
  "progress e t0 evs = foldl max 0 (map (\<lambda>t. reached e (t - t0)) (tick_times evs))"

lemma run_reach:
  assumes "timed e" and "persist e" and "at_step e t0 base n w"
  shows "at_step e t0 base (foldl max n (map (\<lambda>t. reached e (t - t0)) (tick_times evs))) (foldl (\<lambda>w ev. c_event e stamp ev w) w evs)"
  using assms(3)
proof (induction evs arbitrary: n w)
  case Nil
  then show ?case by (simp add: tick_times_def)
next
  case (Cons ev evs)
  show ?case
  proof (cases ev)
    case (Tick t)
    with Cons.IH [OF tick_reach [OF Cons.prems assms(1)]] show ?thesis by (simp add: tick_times_def)
  next
    case Restart
    with Cons.IH [OF restart_same [OF Cons.prems assms(2)]] show ?thesis by (simp add: tick_times_def)
  qed
qed

lemma start_at_step: "at_step e t0 (toggles w) 0 (c_start e t0 w)"
  by (simp add: at_step_def c_start_def c_save_def orders_def)

definition shell_env :: "real \<Rightarrow> carried list \<Rightarrow> bool \<Rightarrow> cenv" where
  "shell_env sc cs p = \<lparr>scale = sc, steps = cascade_steps cs, persist = p\<rparr>"

lemma timeline_sorted: "sorted (map delay_s CASCADE_STEPS)"
  by (simp only: CASCADE_STEPS_def mk_step_def list.map cstep.select_convs) simp

lemma shell_timed: "0 \<le> sc \<Longrightarrow> timed (shell_env sc cs p)"
  by (simp add: timed_def shell_env_def cascade_steps_def sorted_filter timeline_sorted)

text \<open>C11. The scheduler implements the timeline: armed at \<open>t0\<close> and then run through any ticks, in any number
  and at any times, and any restarts of the shell, it has sent exactly the first \<open>n\<close> steps' toggles,
  each once and in the order of the story, where \<open>n\<close> is the number of steps whose delay the latest tick
  had reached; the fired keys it shows and saves are those steps'.\<close>

theorem cascade_refines_timeline:
  assumes "0 \<le> sc" and "e = shell_env sc cs True" and "n = progress e t0 evs"
    and "w' = foldl (\<lambda>w ev. c_event e stamp ev w) (c_start e t0 w) evs"
  shows "toggles w' = toggles w @ map (\<lambda>s. (st_host s, st_action s)) (take n (cascade_steps cs))
    \<and> map fst (fired (casc w')) = map (\<lambda>(i, s). step_key i s) (enumerate 0 (take n (cascade_steps cs)))
    \<and> active (casc w') \<and> disk w' = Some (Saved True (Some t0) (fired (casc w')))"
proof -
  have e: "timed e" "persist e" "steps e = cascade_steps cs"
    using shell_timed [OF assms(1), of cs True] by (simp_all add: assms(2) shell_env_def)
  have r: "at_step e t0 (toggles w) n w'"
    using run_reach [OF e(1,2) start_at_step] by (simp add: assms(3,4) progress_def)
  have "map fst (take n (keyed ss)) = map (\<lambda>(i, s). step_key i s) (enumerate 0 (take n ss))" for ss
    by (rule nth_equalityI) (auto simp: keyed_nth nth_enumerate_eq)
  with r e show ?thesis by (simp add: at_step_def orders_def)
qed

definition wit_child :: "string \<Rightarrow> string list \<Rightarrow> carried" where
  "wit_child nm acts = Own \<lparr>c_name = nm, c_directory = nm, c_actions = acts, c_env = [], c_parent = None,
     c_agent_port = 7600, c_http_port = 7700\<rparr>"

definition wit_estate :: "carried list" where
  "wit_estate = [wit_child ''db-postgres-01'' A_TOGGLES, wit_child ''app-worker-01'' A_TOGGLES, wit_child ''payment-api'' [''heal'']]"

lemma wit_steps: "map delay_s (cascade_steps wit_estate) = [0, 180, 300, 420]"
  "map (\<lambda>s. (st_host s, st_action s)) (cascade_steps wit_estate) =
     [(''db-postgres-01'', ''degrade''), (''app-worker-01'', ''degrade''), (''db-postgres-01'', ''break''), (''app-worker-01'', ''break'')]"
  by (simp_all add: cascade_steps_def CASCADE_STEPS_def mk_step_def applies_def by_name_def wit_estate_def wit_child_def A_TOGGLES_def)

definition wit_world :: cworld where
  "wit_world = \<lparr>casc = cascade_init, toggles = [], disk = None\<rparr>"

lemma wit_reached:
  "reached (shell_env 1 wit_estate True) x = length (takeWhile (\<lambda>d. of_int d \<le> x) [0, 180, 300, 420])"
proof -
  have "takeWhile (\<lambda>s. scaled_delay 1 s \<le> x) ss = takeWhile (\<lambda>s. of_int (delay_s s) \<le> x) ss" for ss
    by (simp add: scaled_delay_def)
  moreover have "length (takeWhile (\<lambda>s. of_int (delay_s s) \<le> x) ss) = length (takeWhile (\<lambda>d. of_int d \<le> x) (map delay_s ss))" for ss
    by (simp add: takeWhile_map comp_def)
  ultimately show ?thesis
    unfolding reached_def shell_env_def cenv.select_convs wit_steps(1) [symmetric] by simp
qed

theorem cascade_refines_timeline_witness:
  "toggles (foldl (\<lambda>w ev. c_event (shell_env 1 wit_estate True) (\<lambda>k. 7) ev w)
      (c_start (shell_env 1 wit_estate True) 1000 wit_world) [Tick 1001, Restart, Tick 1200, Tick 1100])
   = [(''db-postgres-01'', ''degrade''), (''app-worker-01'', ''degrade'')]"
proof -
  have p: "progress (shell_env 1 wit_estate True) 1000 [Tick 1001, Restart, Tick 1200, Tick 1100] = 2"
    by (simp add: progress_def tick_times_def wit_reached)
  have "map (\<lambda>s. (st_host s, st_action s)) (take 2 (cascade_steps wit_estate)) =
      [(''db-postgres-01'', ''degrade''), (''app-worker-01'', ''degrade'')]"
    by (simp only: take_map [symmetric] wit_steps) simp
  with conjunct1 [OF cascade_refines_timeline [OF zero_le_one refl p [symmetric] refl, where w = wit_world and stamp = "\<lambda>k. 7"]]
  show ?thesis by (simp only: wit_world_def cworld.select_convs append_Nil)
qed

lemma le_foldl_max: "(m :: nat) \<in> set xs \<or> m \<le> a \<Longrightarrow> m \<le> foldl max a xs"
  by (induction xs arbitrary: a) (auto simp: le_max_iff_disj)

text \<open>The story always reaches its end: an armed cascade that is ticked once at or after the last delay
  (seven minutes, scaled) has sent every applicable step and its status says complete, whatever ticks
  and restarts came before or after.\<close>

theorem cascade_completes:
  assumes "0 \<le> sc" and "e = shell_env sc cs True" and "Tick t \<in> set evs" and "t0 + 420 * sc \<le> t"
    and "w' = foldl (\<lambda>w ev. c_event e stamp ev w) (c_start e t0 w) evs"
  shows "toggles w' = toggles w @ map (\<lambda>s. (st_host s, st_action s)) (cascade_steps cs)
    \<and> cs_complete (c_status e (cascade_skipped cs) (casc w') now) = (cascade_steps cs \<noteq> [])"
proof -
  have e: "timed e" "persist e" "steps e = cascade_steps cs" "scale e = sc"
    using shell_timed [OF assms(1), of cs True] by (simp_all add: assms(2) shell_env_def)
  have "\<forall>s \<in> set CASCADE_STEPS. delay_s s \<le> 420" by (simp add: CASCADE_STEPS_def mk_step_def)
  then have "scaled_delay sc s \<le> 420 * sc" if "s \<in> set (steps e)" for s
    using that assms(1) e(3) by (auto simp: cascade_steps_def scaled_delay_def intro!: mult_right_mono)
  then have all: "takeWhile (\<lambda>s. scaled_delay (scale e) s \<le> t - t0) (steps e) = steps e"
    using assms(4) e(4) by (intro takeWhile_eq_all_conv [THEN iffD2]) fastforce
  have "t \<in> set (tick_times evs)" using assms(3) by (force simp: tick_times_def)
  then have "reached e (t - t0) \<in> set (map (\<lambda>t. reached e (t - t0)) (tick_times evs))" by simp
  then have "reached e (t - t0) \<le> progress e t0 evs" unfolding progress_def by (rule le_foldl_max [OF disjI1])
  moreover have "reached e (t - t0) = length (steps e)" by (simp only: reached_def all)
  ultimately have ge: "length (steps e) \<le> progress e t0 evs" by simp
  have r: "at_step e t0 (toggles w) (progress e t0 evs) w'"
    using run_reach [OF e(1,2) start_at_step] by (simp add: assms(5) progress_def)
  then have n: "progress e t0 evs = length (steps e)" using ge by (simp add: at_step_def)
  have "length (fired (casc w')) = length (steps e)"
    using r n by (metis at_step_def keyed_length length_map order_refl take_all)
  with r n e show ?thesis by (simp add: at_step_def orders_def c_status_def all_fired_def)
qed

theorem cascade_completes_witness:
  "toggles (foldl (\<lambda>w ev. c_event (shell_env 1 wit_estate True) (\<lambda>k. 7) ev w)
      (c_start (shell_env 1 wit_estate True) 1000 wit_world) [Tick 1001, Restart, Tick 1421])
   = [(''db-postgres-01'', ''degrade''), (''app-worker-01'', ''degrade''), (''db-postgres-01'', ''break''), (''app-worker-01'', ''break'')]"
  using cascade_completes [OF _ refl _ _ refl, where sc = 1 and cs = wit_estate and t = 1421 and ?t0.0 = 1000
      and evs = "[Tick 1001, Restart, Tick 1421]" and stamp = "\<lambda>k. 7" and w = wit_world] wit_steps(2)
  by (simp add: wit_world_def)

section \<open>Healing\<close>

lemma participants_snoc:
  "participants (ss @ [s]) = (if st_host s \<in> set (participants ss) then participants ss else participants ss @ [st_host s])"
  by (simp add: participants_def)

lemma participants_hosts: "set (participants ss) = st_host ` set ss \<and> distinct (participants ss)"
proof (induction ss rule: rev_induct)
  case (snoc s ss)
  then show ?case by (auto simp: participants_snoc)
qed (simp add: participants_def)

definition idle :: "cenv \<Rightarrow> cworld \<Rightarrow> bool" where
  "idle e w \<longleftrightarrow> \<not> active (casc w) \<and> fired (casc w) = [] \<and> disk w = Some (Saved False None [])"

lemma idle_event: "persist e \<Longrightarrow> idle e w \<Longrightarrow> idle e (c_event e stamp ev w) \<and> toggles (c_event e stamp ev w) = toggles w"
  by (cases ev) (auto simp: idle_def c_tick_def restart_def c_load_def cascade_init_def split: option.splits)

lemma idle_run: "persist e \<Longrightarrow> idle e w \<Longrightarrow> toggles (foldl (\<lambda>w ev. c_event e stamp ev w) w evs) = toggles w"
proof (induction evs arbitrary: w)
  case (Cons ev evs)
  with idle_event [of e w stamp ev] show ?case by simp
qed simp

text \<open>C12. With the scheduler between two ticks, healing is final: it sends one heal to every host the cascade
  touches, each host once, and no later tick or restart sends anything more.\<close>

theorem heal_is_final:
  assumes "e = shell_env sc cs True"
  shows "toggles (foldl (\<lambda>w ev. c_event e stamp ev w) (c_heal e w) evs) = toggles w @ map (\<lambda>h. (h, ''heal'')) (participants (steps e))
    \<and> set (participants (steps e)) = st_host ` set (cascade_steps cs) \<and> distinct (participants (steps e))"
proof -
  have p: "persist e" "steps e = cascade_steps cs" by (simp_all add: assms shell_env_def)
  have "idle e (c_heal e w)" using p by (simp add: idle_def c_heal_def c_save_def)
  from idle_run [OF p(1) this] participants_hosts [of "steps e"] p show ?thesis
    by (simp add: c_heal_def c_save_def)
qed

lemma heal_parts: "participants (cascade_steps wit_estate) = [''db-postgres-01'', ''app-worker-01'']"
proof -
  have "participants (cascade_steps wit_estate) = foldl (\<lambda>seen h. if h \<in> set seen then seen else seen @ [h]) []
      (map fst (map (\<lambda>s. (st_host s, st_action s)) (cascade_steps wit_estate)))"
    by (simp add: participants_def foldl_map comp_def)
  then show ?thesis unfolding wit_steps(2) by simp
qed

theorem heal_is_final_witness:
  "toggles (foldl (\<lambda>w ev. c_event (shell_env 1 wit_estate True) (\<lambda>k. 7) ev w)
      (c_heal (shell_env 1 wit_estate True) wit_world) [Tick 1001, Restart, Tick 1421])
   = [(''db-postgres-01'', ''heal''), (''app-worker-01'', ''heal'')]"
proof -
  from heal_parts heal_is_final [OF refl, where sc = 1 and cs = wit_estate and w = wit_world
      and stamp = "\<lambda>k. 7" and evs = "[Tick 1001, Restart, Tick 1421]"] show ?thesis
    by (simp add: wit_world_def shell_env_def)
qed

section \<open>The threads\<close>

text \<open>
  The scheduler thread collects the due steps under the lock, then for each of them sends the toggle
  and, under the lock again, marks it; a handler thread arms the cascade, or disarms it under the lock
  and then sends the heals one by one.  Between these points any other thread may run.
\<close>

record istate =
  i_casc :: cascade
  i_log :: "(string \<times> string) list"
  i_queue :: "(string \<times> cstep) list"
  i_mark :: "string option"
  i_heals :: "string list list"

datatype ilabel = LStart | LHeal | LHealOne | LCollect | LToggle | LMark

inductive istep :: "cenv \<Rightarrow> ilabel \<Rightarrow> istate \<Rightarrow> istate \<Rightarrow> bool" for e where
  start: "istep e LStart s (s\<lparr>i_casc := \<lparr>active = True, started_at = Some now, fired = [], complete_logged = False\<rparr>\<rparr>)"
| heal: "istep e LHeal s (s\<lparr>i_casc := \<lparr>active = False, started_at = None, fired = [], complete_logged = False\<rparr>,
           i_heals := participants (steps e) # i_heals s\<rparr>)"
| heal_one: "i_heals s = xs @ (h # hs) # ys \<Longrightarrow>
     istep e LHealOne s (s\<lparr>i_log := i_log s @ [(h, ''heal'')], i_heals := xs @ hs # ys\<rparr>)"
| collect: "i_queue s = [] \<Longrightarrow> i_mark s = None \<Longrightarrow> active (i_casc s) \<Longrightarrow> started_at (i_casc s) = Some t0 \<Longrightarrow>
     istep e LCollect s (s\<lparr>i_queue := due e (now - t0) (i_casc s)\<rparr>)"
| toggle: "i_queue s = ks # q \<Longrightarrow> i_mark s = None \<Longrightarrow>
     istep e LToggle s (s\<lparr>i_log := i_log s @ [(st_host (snd ks), st_action (snd ks))], i_queue := q, i_mark := Some (fst ks)\<rparr>)"
| mark: "i_mark s = Some k \<Longrightarrow>
     istep e LMark s (s\<lparr>i_casc := (i_casc s)\<lparr>fired := dict_put k now (fired (i_casc s))\<rparr>, i_mark := None\<rparr>)"

inductive_cases istep_cases: "istep e l s s'"

inductive isteps :: "cenv \<Rightarrow> ilabel set \<Rightarrow> istate \<Rightarrow> istate \<Rightarrow> bool" for e ls where
  stay: "isteps e ls s s"
| go: "isteps e ls s s' \<Longrightarrow> l \<in> ls \<Longrightarrow> istep e l s' s'' \<Longrightarrow> isteps e ls s s''"

definition i_init :: istate where
  "i_init = \<lparr>i_casc = cascade_init, i_log = [], i_queue = [], i_mark = None, i_heals = []\<rparr>"

definition i_ok :: "cenv \<Rightarrow> istate \<Rightarrow> bool" where
  "i_ok e s \<longleftrightarrow> set (i_log s) \<subseteq> set (orders (steps e)) \<union> (\<lambda>h. (h, ''heal'')) ` st_host ` set (steps e)
     \<and> set (i_queue s) \<subseteq> set (keyed (steps e)) \<and> set_option (i_mark s) \<subseteq> fst ` set (keyed (steps e))
     \<and> fst ` set (fired (i_casc s)) \<subseteq> fst ` set (keyed (steps e)) \<and> \<Union> (set ` set (i_heals s)) \<subseteq> st_host ` set (steps e)"

lemma i_ok_step: "istep e l s s' \<Longrightarrow> i_ok e s \<Longrightarrow> i_ok e s'"
proof (induction rule: istep.induct)
  case (collect s t0 now)
  then show ?case by (auto simp: i_ok_def due_def)
next
  case (toggle s ks q)
  have "snd ks \<in> set (steps e)" if "ks \<in> set (keyed (steps e))" using that keyed_snd by (metis imageI list.set_map)
  with toggle show ?case by (auto simp: i_ok_def orders_def)
next
  case (mark s k now)
  then show ?case by (auto simp: i_ok_def dict_put_keys)
qed (auto simp: i_ok_def participants_hosts)

lemma i_ok_steps: "isteps e ls s s' \<Longrightarrow> i_ok e s \<Longrightarrow> i_ok e s'"
  by (induction rule: isteps.induct) (auto dest: i_ok_step)

text \<open>Whatever the interleaving of the scheduler with any number of panel requests, the shell only ever
  sends toggles of the story's steps or heals of its hosts, and only ever records steps of the story as fired.\<close>

theorem interleaved_toggles_known:
  assumes "isteps (shell_env sc cs p) UNIV i_init s"
  shows "set (i_log s) \<subseteq> set (map (\<lambda>s. (st_host s, st_action s)) (cascade_steps cs))
      \<union> (\<lambda>s. (st_host s, ''heal'')) ` set (cascade_steps cs)
    \<and> fst ` set (fired (i_casc s)) \<subseteq> set (map (\<lambda>(i, s). step_key i s) (enumerate 0 (cascade_steps cs)))"
proof -
  have "i_ok (shell_env sc cs p) i_init" by (simp add: i_ok_def i_init_def cascade_init_def)
  with i_ok_steps [OF assms] have "i_ok (shell_env sc cs p) s" by blast
  moreover have "fst ` set (keyed ss) = set (map (\<lambda>(i, s). step_key i s) (enumerate 0 ss))" for ss
    by (auto simp: keyed_def image_image case_prod_unfold)
  ultimately show ?thesis by (auto simp: i_ok_def orders_def shell_env_def)
qed

text \<open>A state in which the scheduler is between two ticks and the cascade is off.\<close>

definition quiet :: "istate \<Rightarrow> bool" where
  "quiet s \<longleftrightarrow> \<not> active (i_casc s) \<and> i_queue s = [] \<and> i_mark s = None"

lemma quiet_step:
  "istep e l s s' \<Longrightarrow> l \<noteq> LStart \<Longrightarrow> quiet s \<Longrightarrow> quiet s' \<and> (\<exists>hs. i_log s' = i_log s @ map (\<lambda>h. (h, ''heal'')) hs)"
  by (induction rule: istep.induct) (auto simp: quiet_def intro: exI [of _ "[]"] exI [of _ "[_]"])

text \<open>Once the cascade is off and the scheduler is between two ticks, no interleaving without a new start
  sends anything but heals: stop-and-heal leaves the estate healed.\<close>

theorem heal_holds_between_ticks:
  assumes "quiet s" and "isteps e (- {LStart}) s s'"
  shows "\<exists>hs. i_log s' = i_log s @ map (\<lambda>h. (h, ''heal'')) hs"
proof -
  have "quiet s' \<and> (\<exists>hs. i_log s' = i_log s @ map (\<lambda>h. (h, ''heal'')) hs)"
    using assms(2,1)
  proof induction
    case stay
    then show ?case by (auto intro: exI [of _ "[]"])
  next
    case (go s s' l s'')
    from go.IH [OF go.prems] obtain hs where h: "quiet s'" "i_log s' = i_log s @ map (\<lambda>h. (h, ''heal'')) hs" by blast
    from quiet_step [OF go.hyps(3) _ h(1)] go.hyps(2) obtain hs'
      where "quiet s''" "i_log s'' = i_log s' @ map (\<lambda>h. (h, ''heal'')) hs'" by auto
    with h(2) show ?case by (auto intro!: exI [of _ "hs @ hs'"])
  qed
  then show ?thesis by blast
qed

definition wit_healed :: istate where
  "wit_healed = i_init\<lparr>i_heals := [[''db-postgres-01'']]\<rparr>"

theorem heal_holds_between_ticks_witness:
  "quiet wit_healed \<and> isteps (shell_env 1 wit_estate True) (- {LStart}) wit_healed
      (wit_healed\<lparr>i_log := [(''db-postgres-01'', ''heal'')], i_heals := [[]]\<rparr>)
   \<and> (\<exists>hs. i_log (wit_healed\<lparr>i_log := [(''db-postgres-01'', ''heal'')], i_heals := [[]]\<rparr>)
       = i_log wit_healed @ map (\<lambda>h. (h, ''heal'')) hs)"
proof -
  let ?e = "shell_env 1 wit_estate True"
  let ?s = "wit_healed\<lparr>i_log := [(''db-postgres-01'', ''heal'')], i_heals := [[]]\<rparr>"
  have q: "quiet wit_healed" by (simp add: quiet_def wit_healed_def i_init_def cascade_init_def)
  have "istep ?e LHealOne wit_healed (wit_healed\<lparr>i_log := i_log wit_healed @ [(''db-postgres-01'', ''heal'')], i_heals := [] @ [] # []\<rparr>)"
    by (rule heal_one) (simp add: wit_healed_def)
  then have "istep ?e LHealOne wit_healed ?s" by (simp add: wit_healed_def i_init_def)
  then have r: "isteps ?e (- {LStart}) wit_healed ?s" by (intro go [OF stay]) auto
  from heal_holds_between_ticks [OF q r] q r show ?thesis by blast
qed

theorem interleaved_toggles_known_witness:
  "isteps (shell_env 1 wit_estate True) UNIV i_init
      (i_init\<lparr>i_casc := \<lparr>active = True, started_at = Some 5, fired = [], complete_logged = False\<rparr>\<rparr>)
   \<and> fst ` set (fired (i_casc (i_init\<lparr>i_casc := \<lparr>active = True, started_at = Some 5, fired = [], complete_logged = False\<rparr>\<rparr>)))
      \<subseteq> set (map (\<lambda>(i, s). step_key i s) (enumerate 0 (cascade_steps wit_estate)))"
proof -
  have r: "isteps (shell_env 1 wit_estate True) UNIV i_init
      (i_init\<lparr>i_casc := \<lparr>active = True, started_at = Some 5, fired = [], complete_logged = False\<rparr>\<rparr>)"
    by (rule go [OF stay _ istep.start]) simp
  from interleaved_toggles_known [OF r] r show ?thesis by blast
qed

text \<open>C13. But a heal that arrives while a tick is in progress is not final: there is an interleaving in which
  the panel's stop-and-heal has sent its heal to the database and is finished, and the tick in progress
  then degrades the database again, with the cascade shown as off and the step recorded as fired.\<close>

theorem heal_races_with_tick:
  "\<exists>s. isteps (shell_env 1 wit_estate True) UNIV i_init s
     \<and> quiet s \<and> i_heals s = [[]] \<and> map fst (fired (i_casc s)) = [''0:db-postgres-01:degrade'']
     \<and> i_log s = [(''db-postgres-01'', ''heal''), (''app-worker-01'', ''heal''), (''db-postgres-01'', ''degrade'')]"
proof -
  let ?e = "shell_env 1 wit_estate True"
  obtain s0 ss where c: "cascade_steps wit_estate = s0 # ss" and d: "delay_s s0 = 0" "st_host s0 = ''db-postgres-01''" "st_action s0 = ''degrade''"
    and ds: "map delay_s ss = [180, 300, 420]"
    using wit_steps by (cases "cascade_steps wit_estate") auto
  let ?K = "''0:db-postgres-01:degrade''"
  let ?c1 = "\<lparr>active = True, started_at = Some 0, fired = [], complete_logged = False\<rparr>"
  let ?c2 = "\<lparr>active = False, started_at = None, fired = [], complete_logged = False\<rparr>"
  have nz: "nat_str 0 = ''0''" by code_simp
  have k0: "step_key 0 s0 = ?K" using d nz by (simp add: step_key_def)
  define rest where "rest = map (\<lambda>(i, s). (step_key i s, s)) (enumerate (Suc 0) ss)"
  have k: "keyed (steps ?e) = (?K, s0) # rest" by (simp add: keyed_def shell_env_def c k0 rest_def)
  have "\<forall>x \<in> set (map delay_s ss). 0 < x" by (simp only: ds) simp
  then have "\<forall>s \<in> set ss. 0 < delay_s s" by simp
  then have "\<forall>ks \<in> set rest. 0 < delay_s (snd ks)" by (auto simp: rest_def in_set_enumerate_eq)
  then have "filter (\<lambda>(k, s). 0 \<ge> scaled_delay 1 s) rest = []" by (force simp: filter_empty_conv scaled_delay_def)
  then have due: "due ?e (0 - 0) ?c1 = [(?K, s0)]"
    by (simp add: due_def k) (simp add: shell_env_def scaled_delay_def d)
  have p: "participants (steps ?e) = [''db-postgres-01'', ''app-worker-01'']"
    using heal_parts by (simp add: shell_env_def)
  let ?s1 = "i_init\<lparr>i_casc := ?c1\<rparr>"
  let ?s2 = "?s1\<lparr>i_queue := [(?K, s0)]\<rparr>"
  let ?s3 = "?s2\<lparr>i_casc := ?c2, i_heals := [[''db-postgres-01'', ''app-worker-01'']]\<rparr>"
  let ?s4 = "?s3\<lparr>i_log := [(''db-postgres-01'', ''heal'')], i_heals := [[''app-worker-01'']]\<rparr>"
  let ?s5 = "?s4\<lparr>i_log := [(''db-postgres-01'', ''heal''), (''app-worker-01'', ''heal'')], i_heals := [[]]\<rparr>"
  let ?s6 = "?s5\<lparr>i_log := [(''db-postgres-01'', ''heal''), (''app-worker-01'', ''heal''), (''db-postgres-01'', ''degrade'')],
      i_queue := [], i_mark := Some ?K\<rparr>"
  let ?s7 = "?s6\<lparr>i_casc := ?c2\<lparr>fired := [(?K, 0)]\<rparr>, i_mark := None\<rparr>"
  have 1: "istep ?e LStart i_init ?s1" by (rule istep.start)
  have 2: "istep ?e LCollect ?s1 ?s2"
    using istep.collect [of ?s1 0 ?e 0] due by (simp add: i_init_def)
  have 3: "istep ?e LHeal ?s2 ?s3" using istep.heal [of ?e ?s2] by (simp add: p i_init_def)
  have 4: "istep ?e LHealOne ?s3 ?s4"
    using istep.heal_one [of ?s3 "[]" "''db-postgres-01''" "[''app-worker-01'']" "[]" ?e] by (simp add: i_init_def)
  have 5: "istep ?e LHealOne ?s4 ?s5"
    using istep.heal_one [of ?s4 "[]" "''app-worker-01''" "[]" "[]" ?e] by (simp add: i_init_def)
  have 6: "istep ?e LToggle ?s5 ?s6"
    using istep.toggle [of ?s5 "(?K, s0)" "[]" ?e] by (simp add: i_init_def d)
  have 7: "istep ?e LMark ?s6 ?s7"
    using istep.mark [of ?s6 ?K ?e 0] by (simp add: i_init_def dict_put_def)
  have "isteps ?e UNIV i_init ?s7"
    by (rule go [OF go [OF go [OF go [OF go [OF go [OF go [OF stay _ 1] _ 2] _ 3] _ 4] _ 5] _ 6] _ 7]) simp_all
  then show ?thesis by (rule exI [where x = ?s7, OF conjI]) (simp add: quiet_def)
qed

section \<open>The panel's buttons\<close>

lemma boot_children_specs:
  assumes "boot_children env = Inr cs"
  obtains r where "map c_name cs = map hs_name (expand_registry (wanted env) r REGISTRY)"
    "map c_actions cs = map hs_actions (expand_registry (wanted env) r REGISTRY)"
proof -
  obtain ab r hb where "cs = map (\<lambda>(i, s). child_init ab hb i s) (enumerate 0 (expand_registry (wanted env) r REGISTRY))"
    using assms by (auto simp: boot_children_def bindR_eq_Inr Let_def)
  then have "map c_name cs = map hs_name (map snd (enumerate 0 (expand_registry (wanted env) r REGISTRY)))"
    "map c_actions cs = map hs_actions (map snd (enumerate 0 (expand_registry (wanted env) r REGISTRY)))"
    by (simp_all add: child_init_def case_prod_unfold del: map_snd_enumerate)
  then show ?thesis using that by simp
qed

text \<open>What the panel's URLs rely on: a name is one path segment, and is not \<open>cascade\<close>.\<close>

definition segment_name :: "string \<Rightarrow> bool" where
  "segment_name s \<longleftrightarrow> CHR ''/'' \<notin> set s \<and> CHR ''?'' \<notin> set s \<and> CHR ''-'' \<in> set s"

lemma expand_registry_ok:
  "s \<in> set (expand_registry w r REGISTRY) \<Longrightarrow> segment_name (hs_name s) \<and> set (hs_actions s) \<subseteq> set A_TOGGLES"
proof -
  have reg: "list_all (\<lambda>s. segment_name (hs_name s) \<and> list_all (\<lambda>a. a \<in> set A_TOGGLES) (hs_actions s)) REGISTRY" by code_simp
  have "segment_name (replica_name n i)" if "segment_name n" for n i
  proof -
    have "CHR ''/'' \<notin> set (pad2 i)" "CHR ''?'' \<notin> set (pad2 i)"
      using pad2_chars [of "CHR ''/''" i] pad2_chars [of "CHR ''?''" i] by (auto simp: digit_char_def)
    then show ?thesis
      using that in_set_takeD [of _ "length n - 3" n] by (auto simp: segment_name_def replica_name_def replica_stem_def)
  qed
  moreover have "s \<in> set (expand_registry w r specs) \<Longrightarrow> \<exists>s0 \<in> set specs. s = s0 \<or> (\<exists>i. s = replica s0 i)" for specs
    by (induction specs) (auto split: if_splits)
  ultimately show "s \<in> set (expand_registry w r REGISTRY) \<Longrightarrow> segment_name (hs_name s) \<and> set (hs_actions s) \<subseteq> set A_TOGGLES"
    using reg by (fastforce simp: list_all_iff replica_def)
qed

lemma by_name_distinct: "distinct (map ch_name cs) \<Longrightarrow> c \<in> set cs \<Longrightarrow> by_name cs (ch_name c) = Some c"
proof -
  assume d: "distinct (map ch_name cs)" and c: "c \<in> set cs"
  have "filter (\<lambda>x. ch_name x = ch_name c) cs = [c]"
    using d c by (induction cs) (auto simp: filter_empty_conv image_iff)
  then show ?thesis by (simp add: by_name_def)
qed

lemma route_name:
  assumes "segment_name n" and "CHR ''/'' \<notin> set a" and "CHR ''?'' \<notin> set a" and "a \<noteq> []" and "last a \<noteq> CHR ''/''"
    and "by_name cs n = Some ch"
  shows "panel_get cs (''/admin/'' @ n @ ''/'' @ a) =
      (if a = ''info'' then (InfoPage ch, NoEffect) else (Redirect ''/admin'', ToggleChild ch a))"
    and "a \<noteq> ''info'' \<Longrightarrow> panel_get cs (''/admin/'' @ n @ ''/'' @ a @ ''?back=info'') =
      (Redirect (''/admin/'' @ ch_name ch @ ''/info''), ToggleChild ch a)"
proof -
  let ?p = "''/admin/'' @ n @ ''/'' @ a"
  have n: "CHR ''/'' \<notin> set n" "CHR ''?'' \<notin> set n" "n \<noteq> ''cascade''" using assms(1) by (auto simp: segment_name_def)
  have q: "CHR ''?'' \<notin> set ?p" using n assms(3) by simp
  have part: "partition_at (CHR ''?'') ?p = (?p, [])" "partition_at (CHR ''?'') (?p @ CHR ''?'' # ''back=info'') = (?p, ''back=info'')"
    by (rule partition_at_none [OF q], rule partition_at_first [OF q])
  have rs: "rstrip_slash ?p = ?p"
  proof -
    obtain b x where a: "a = b @ [x]" "x \<noteq> CHR ''/''" using assms(4,5) by (metis append_butlast_last_id)
    show ?thesis by (simp add: rstrip_slash_def rstrip_by_def a)
  qed
  have "takeWhile (\<lambda>c. c \<noteq> CHR ''/'') (n @ ''/'' @ a) = n"
    using partition_at_first [OF n(1)] by (simp add: partition_at_def)
  then have nc: "\<not> startswith (n @ ''/'' @ a) ''cascade/''"
    using n(3) by (auto simp: startswith_iff)
  have "n @ ''/'' @ a \<noteq> ''cascade''"
  proof
    assume "n @ ''/'' @ a = ''cascade''"
    then have "CHR ''/'' \<in> set ''cascade''" by (metis append_Cons in_set_conv_decomp)
    then show False by simp
  qed
  then have c1: "?p \<noteq> ''/admin''" "?p \<noteq> ''/admin/cascade''" "\<not> startswith ?p ''/admin/cascade/''" "startswith ?p ''/admin/''"
    using nc assms(4) n(1) by (auto simp: startswith_def)
  have sp: "split_on (CHR ''/'') (drop 7 ?p) = [n, a]"
    using split_on_sep [OF n(1)] split_on_no_sep [OF assms(2)] by simp
  show "panel_get cs ?p = (if a = ''info'' then (InfoPage ch, NoEffect) else (Redirect ''/admin'', ToggleChild ch a))"
    unfolding panel_get_def part Let_def prod.case rs using c1 sp assms(6) by simp
  show "panel_get cs (''/admin/'' @ n @ ''/'' @ a @ ''?back=info'') =
      (Redirect (''/admin/'' @ ch_name ch @ ''/info''), ToggleChild ch a)" if "a \<noteq> ''info''"
  proof -
    have u: "''/admin/'' @ n @ ''/'' @ a @ ''?back=info'' = ?p @ CHR ''?'' # ''back=info''" by simp
    have i: "infix_of ''back=info'' ''back=info''" by code_simp
    show ?thesis unfolding u panel_get_def part Let_def prod.case rs using c1 sp assms(6) that i by simp
  qed
qed

text \<open>Every button the panel offers for a host of the roster reaches that host: the URL of each of its
  toggles answers with a redirect and toggles exactly that child (returning to its info tab when pressed
  there), and its info link shows that host; for every estate selection and replica count.\<close>

theorem panel_buttons_reach_host:
  assumes "boot_children env = Inr cs" and "c \<in> set cs" and "a \<in> set (c_actions c)"
  shows "panel_get (map Own cs) (''/admin/'' @ c_name c @ ''/'' @ a) = (Redirect ''/admin'', ToggleChild (Own c) a)
    \<and> panel_get (map Own cs) (''/admin/'' @ c_name c @ ''/'' @ a @ ''?back=info'')
        = (Redirect (''/admin/'' @ c_name c @ ''/info''), ToggleChild (Own c) a)
    \<and> panel_get (map Own cs) (''/admin/'' @ c_name c @ ''/info'') = (InfoPage (Own c), NoEffect)"
proof -
  obtain r where r: "map c_name cs = map hs_name (expand_registry (wanted env) r REGISTRY)"
    "map c_actions cs = map hs_actions (expand_registry (wanted env) r REGISTRY)"
    by (rule boot_children_specs [OF assms(1)])
  have "distinct (map c_name cs)" unfolding r expand_registry_names by (rule distinct_filtered [OF registry_distinct])
  then have "distinct (map ch_name (map Own cs))" by (simp add: comp_def)
  from by_name_distinct [OF this, of "Own c"] assms(2) have b: "by_name (map Own cs) (c_name c) = Some (Own c)" by simp
  obtain i where i: "i < length cs" "cs ! i = c" using assms(2) by (metis in_set_conv_nth)
  let ?s = "expand_registry (wanted env) r REGISTRY ! i"
  have len: "i < length (expand_registry (wanted env) r REGISTRY)" using i(1) r(1) by (metis length_map)
  have "c_name c = hs_name ?s" "c_actions c = hs_actions ?s" using r i len by (metis nth_map)+
  moreover have "segment_name (hs_name ?s) \<and> set (hs_actions ?s) \<subseteq> set A_TOGGLES"
    using nth_mem [OF len] by (rule expand_registry_ok)
  ultimately have s: "segment_name (c_name c)" "a \<in> set A_TOGGLES" using assms(3) by auto
  have ok: "CHR ''/'' \<notin> set a \<and> CHR ''?'' \<notin> set a \<and> a \<noteq> [] \<and> last a \<noteq> CHR ''/'' \<and> a \<noteq> ''info''"
    using s(2) by (auto simp: A_TOGGLES_def)
  have info: "panel_get (map Own cs) (''/admin/'' @ c_name c @ ''/info'') = (InfoPage (Own c), NoEffect)"
    using route_name(1) [OF s(1), of "''info''"] b by simp
  show ?thesis
    using route_name(1) [OF s(1), of a "map Own cs"] route_name(2) [OF s(1), of a "map Own cs"] ok b info by simp
qed

theorem panel_buttons_reach_host_witness:
  "\<exists>cs c. boot_children (\<lambda>k. None) = Inr cs \<and> c \<in> set cs \<and> c_name c = ''app-worker-01''
    \<and> panel_get (map Own cs) ''/admin/app-worker-01/break'' = (Redirect ''/admin'', ToggleChild (Own c) ''break'')"
proof -
  have n: "py_int ''7600'' = Inr 7600" "py_int ''1'' = Inr 1" "strip [] = []" by code_simp+
  have b: "boot_children (\<lambda>k. None) = Inr (map (\<lambda>(i, s). child_init 7600 7700 i s) (enumerate 0 (expand_registry None 1 REGISTRY)))"
    by (simp add: boot_children_def CHILD_AGENT_BASE_def replicas_def CHILD_HTTP_BASE_def env_get_def Let_def wanted_def n)
       (simp add: REGISTRY_def spec_of_def)
  let ?c = "child_init 7600 7700 2 (spec_of ''app-worker-01'' A_TOGGLES HEALTHY_ENV True)"
  have m: "?c \<in> set (map (\<lambda>(i, s). child_init 7600 7700 i s) (enumerate 0 (expand_registry None 1 REGISTRY)))"
    by (simp add: REGISTRY_def spec_of_def numeral_2_eq_2)
  have a: "''break'' \<in> set (c_actions ?c)" "c_name ?c = ''app-worker-01''" by (simp_all add: child_init_def spec_of_def A_TOGGLES_def)
  have "panel_get (map Own (map (\<lambda>(i, s). child_init 7600 7700 i s) (enumerate 0 (expand_registry None 1 REGISTRY))))
      ''/admin/app-worker-01/break'' = (Redirect ''/admin'', ToggleChild (Own ?c) ''break'')"
    using panel_buttons_reach_host [OF b m a(1)] a(2) by simp
  with b m a(2) show ?thesis by blast
qed

end
