(* ===== verification/Cmk_Client.thy ===== *)
theory Cmk_Client
  imports Shell Py_Json
begin

text \<open>
  The Setup objects of \<open>deploy/cmk_setup.py\<close> over the REST interface of a Checkmk site: folders, hosts,
  rules.  The site is not part of the repository: it is the parameter \<open>api\<close>, a function from a request
  and the site's state to a response and the next state (\<open>None\<close>: unreachable).  A flow of the script
  is a function on a \<open>world\<close>, which keeps the site's state, the trace of all requests sent, the hosts
  healed through the panels and the cache of leaf folders; it ends with a value, or with \<open>SystemExit\<close> where the script calls \<open>die\<close>.  What is proved of the trace holds for
  every site.  A JSON value is a \<open>json\<close> (\<open>Py_Json\<close>).
\<close>

section \<open>JSON values\<close>

text \<open>\<open>x.get(k)\<close> where \<open>x\<close> is an object or one of the empty fallbacks.\<close>

fun jget :: "json \<Rightarrow> string \<Rightarrow> json" where
  "jget (JObj kvs) k = (case map_of kvs k of Some v \<Rightarrow> v | None \<Rightarrow> JNull)"
| "jget _ k = JNull"

fun jitems :: "json \<Rightarrow> json list" where
  "jitems (JArr xs) = xs"
| "jitems _ = []"

fun jstr :: "json \<Rightarrow> string" where
  "jstr (JStr s) = s"
| "jstr _ = []"

text \<open>Equality of Python values: dicts compare as maps.\<close>

fun jeq :: "json \<Rightarrow> json \<Rightarrow> bool" where
  "jeq JNull b = (b = JNull)"
| "jeq (JBool x) b = (b = JBool x)"
| "jeq (JNum x) b = (b = JNum x)"
| "jeq (JStr x) b = (b = JStr x)"
| "jeq (JArr xs) b = (case b of JArr ys \<Rightarrow> list_all2 jeq xs ys | _ \<Rightarrow> False)"
| "jeq (JObj xs) b = (case b of
      JObj ys \<Rightarrow> list_all (\<lambda>(k, v). case map_of ys k of Some v' \<Rightarrow> jeq v v' | None \<Rightarrow> False) xs
                 \<and> fst ` set ys \<subseteq> fst ` set xs
    | _ \<Rightarrow> False)"

section \<open>Requests\<close>

record req =
  r_method :: string
  r_path :: string
  r_body :: "json option"
  r_query :: "(string \<times> string) list"
  r_etag :: "string option"

record resp =
  status :: int
  payload :: json
  location :: string

record 's world =
  site :: 's
  trace :: "req list"
  healed :: "string list"
  leafs :: "(string \<times> string) list"

type_synonym ('s, 'a) flow = "'s world \<Rightarrow> 'a res \<times> 's world"
type_synonym 's api = "req \<Rightarrow> 's \<Rightarrow> resp option \<times> 's"

definition ret :: "'a \<Rightarrow> ('s, 'a) flow" where
  "ret x w = (Inr x, w)"

definition die :: "('s, 'a) flow" where
  "die w = (Inl SystemExit, w)"

definition bnd :: "('s, 'a) flow \<Rightarrow> ('a \<Rightarrow> ('s, 'b) flow) \<Rightarrow> ('s, 'b) flow" where
  "bnd m f w = (case m w of (Inr x, w') \<Rightarrow> f x w' | (Inl e, w') \<Rightarrow> (Inl e, w'))"

fun mapF :: "('a \<Rightarrow> ('s, 'b) flow) \<Rightarrow> 'a list \<Rightarrow> ('s, 'b list) flow" where
  "mapF f [] = ret []"
| "mapF f (x # xs) = bnd (f x) (\<lambda>y. bnd (mapF f xs) (\<lambda>ys. ret (y # ys)))"

text \<open>\<open>CmkApi.request\<close>: an HTTP error is a response like any other; an unreachable site ends the script.\<close>

definition request :: "'s api \<Rightarrow> req \<Rightarrow> ('s, resp) flow" where
  "request api r w =
     (case api r (site w) of
        (None, s') \<Rightarrow> (Inl SystemExit, w\<lparr>site := s', trace := trace w @ [r]\<rparr>)
      | (Some p, s') \<Rightarrow> (Inr p, w\<lparr>site := s', trace := trace w @ [r]\<rparr>))"

definition get_req :: "string \<Rightarrow> req" where
  "get_req p = \<lparr>r_method = ''GET'', r_path = p, r_body = None, r_query = [], r_etag = None\<rparr>"

definition post_req :: "string \<Rightarrow> json \<Rightarrow> req" where
  "post_req p b = \<lparr>r_method = ''POST'', r_path = p, r_body = Some b, r_query = [], r_etag = None\<rparr>"

definition put_req :: "string \<Rightarrow> json \<Rightarrow> req" where
  "put_req p b = \<lparr>r_method = ''PUT'', r_path = p, r_body = Some b, r_query = [], r_etag = Some ''*''\<rparr>"

definition delete_req :: "string \<Rightarrow> req" where
  "delete_req p = \<lparr>r_method = ''DELETE'', r_path = p, r_body = None, r_query = [], r_etag = Some ''*''\<rparr>"

definition HOSTS_ALL :: string where "HOSTS_ALL = ''/domain-types/host_config/collections/all''"
definition RULES_ALL :: string where "RULES_ALL = ''/domain-types/rule/collections/all''"
definition FOLDERS_ALL :: string where "FOLDERS_ALL = ''/domain-types/folder_config/collections/all''"

section \<open>Folders\<close>

definition folder_segs :: "string \<Rightarrow> string list" where
  "folder_segs folder = filter (\<lambda>s. s \<noteq> []) (split_on (CHR ''/'') (map (\<lambda>c. if c = CHR ''~'' then CHR ''/'' else c) folder))"

definition folder_ident :: "string list \<Rightarrow> string" where
  "folder_ident parts =
     (let segs = concat (map folder_segs parts)
      in if segs \<noteq> [] then ''~'' @ join_with ''~'' segs else ''~'')"

definition folder_id :: "string \<Rightarrow> string" where
  "folder_id folder_name = folder_ident [folder_name]"

text \<open>\<open>ident.rsplit("~", 1)[-1]\<close>.\<close>

definition last_seg :: "string \<Rightarrow> string" where
  "last_seg s = last (split_on (CHR ''~'') s)"

definition ensure_folder :: "'s api \<Rightarrow> string \<Rightarrow> string \<Rightarrow> string \<Rightarrow> ('s, string) flow" where
  "ensure_folder api ident title parent =
     (if ident = ''~'' then ret ident
      else bnd (request api (get_req (''/objects/folder_config/'' @ ident))) (\<lambda>r.
        if status r = 200 then ret ident
        else bnd (request api (post_req FOLDERS_ALL
                    (JObj [(''name'', JStr (last_seg ident)), (''title'', JStr title), (''parent'', JStr parent)]))) (\<lambda>r.
          if status r \<noteq> 200 then die else ret ident)))"

fun ensure_chain :: "'s api \<Rightarrow> string \<Rightarrow> (string \<times> string) list \<Rightarrow> ('s, string) flow" where
  "ensure_chain api parent [] = ret parent"
| "ensure_chain api parent ((nm, title) # chain) =
     (let ident = folder_ident [parent, nm]
      in bnd (ensure_folder api ident title parent) (\<lambda>_. ensure_chain api ident chain))"

section \<open>Hosts\<close>

definition host_path :: "string \<Rightarrow> string" where
  "host_path nm = ''/objects/host_config/'' @ nm"

definition get_host :: "'s api \<Rightarrow> string \<Rightarrow> ('s, json option) flow" where
  "get_host api nm = bnd (request api (get_req (host_path nm))) (\<lambda>r.
     ret (if status r = 200 then Some (payload r) else None))"

definition host_attrs :: "json \<Rightarrow> json" where
  "host_attrs h = jget (jget h ''extensions'') ''attributes''"

definition RECONCILED :: "string list" where
  "RECONCILED = [''parents'', ''tag_agent'', ''tag_piggyback'', ''tag_address_family'', ''ipaddress'', ''snmp_community'']"

definition attr_fix :: "json \<Rightarrow> (string \<times> json) list \<Rightarrow> (string \<times> json) list" where
  "attr_fix current attributes =
     concat (map (\<lambda>k. case map_of attributes k of
         None \<Rightarrow> [] | Some v \<Rightarrow> if jeq (jget current k) v then [] else [(k, v)]) RECONCILED)"

definition create_host_req :: "string \<Rightarrow> string \<Rightarrow> (string \<times> json) list \<Rightarrow> req" where
  "create_host_req nm folder attributes = post_req HOSTS_ALL
     (JObj [(''host_name'', JStr nm), (''folder'', JStr folder), (''attributes'', JObj attributes)])"

definition update_host_req :: "string \<Rightarrow> (string \<times> json) list \<Rightarrow> req" where
  "update_host_req nm fixes = put_req (host_path nm) (JObj [(''update_attributes'', JObj fixes)])"

definition ensure_host :: "'s api \<Rightarrow> string \<Rightarrow> string \<Rightarrow> (string \<times> json) list \<Rightarrow> ('s, unit) flow" where
  "ensure_host api nm folder attributes =
     bnd (get_host api nm) (\<lambda>existing. case existing of
        None \<Rightarrow> bnd (request api (create_host_req nm folder attributes)) (\<lambda>r.
                  if status r \<noteq> 200 then die else ret ())
      | Some h \<Rightarrow> (let fx = attr_fix (host_attrs h) attributes
                  in if fx \<noteq> [] then bnd (request api (update_host_req nm fx)) (\<lambda>r.
                       if status r \<noteq> 200 then die else ret ())
                     else ret ()))"

definition in_subtree :: "string \<Rightarrow> string list \<Rightarrow> bool" where
  "in_subtree host_folder root_segs \<longleftrightarrow>
     root_segs \<noteq> [] \<and> take (length root_segs) (folder_segs host_folder) = root_segs"

definition host_folder :: "json \<Rightarrow> string" where
  "host_folder h = jstr (jget (jget h ''extensions'') ''folder'')"

text \<open>The deletions are best effort: their status is not looked at.\<close>

fun delete_hosts :: "'s api \<Rightarrow> string list \<Rightarrow> ('s, unit) flow" where
  "delete_hosts api [] = ret ()"
| "delete_hosts api (nm # nms) = bnd (request api (delete_req (host_path nm))) (\<lambda>_. delete_hosts api nms)"

definition prune_subtree :: "'s api \<Rightarrow> string \<Rightarrow> string set \<Rightarrow> ('s, unit) flow" where
  "prune_subtree api root_ident keep =
     (let root_segs = folder_segs root_ident
      in if root_segs = [] then ret ()
         else bnd (request api (get_req HOSTS_ALL)) (\<lambda>r.
           if status r \<noteq> 200 then ret ()
           else delete_hosts api (map (\<lambda>h. jstr (jget h ''id''))
                  (filter (\<lambda>h. jstr (jget h ''id'') \<notin> keep \<and> in_subtree (host_folder h) root_segs)
                     (jitems (jget (payload r) ''value''))))))"

section \<open>Rules\<close>

definition rule_desc :: "json \<Rightarrow> json" where
  "rule_desc rule = jget (jget (jget rule ''extensions'') ''properties'') ''description''"

definition rule_hosts :: "json \<Rightarrow> string list" where
  "rule_hosts rule = map jstr (jitems (jget (jget (jget (jget rule ''extensions'') ''conditions'') ''host_name'') ''match_on''))"

definition rule_value :: "json \<Rightarrow> json" where
  "rule_value rule = jget (jget rule ''extensions'') ''value_raw''"

definition rule_segs :: "json \<Rightarrow> string list" where
  "rule_segs rule = folder_segs (jstr (jget (jget rule ''extensions'') ''folder''))"

definition rule_path :: "json \<Rightarrow> string" where
  "rule_path rule = ''/objects/rule/'' @ jstr (jget rule ''id'')"

definition marked_rules :: "'s api \<Rightarrow> string \<Rightarrow> string \<Rightarrow> ('s, json list) flow" where
  "marked_rules api ruleset description =
     bnd (request api \<lparr>r_method = ''GET'', r_path = RULES_ALL, r_body = None,
            r_query = [(''ruleset_name'', ruleset)], r_etag = None\<rparr>) (\<lambda>r.
       if status r \<noteq> 200 then die
       else ret (filter (\<lambda>rule. rule_desc rule = JStr description) (jitems (jget (payload r) ''value''))))"

definition create_rule :: "'s api \<Rightarrow> string \<Rightarrow> string \<Rightarrow> string \<Rightarrow> string \<Rightarrow> json \<Rightarrow> ('s, unit) flow" where
  "create_rule api ruleset folder description value_raw conditions =
     bnd (request api (post_req RULES_ALL
        (JObj [(''ruleset'', JStr ruleset), (''folder'', JStr folder),
               (''properties'', JObj [(''description'', JStr description), (''disabled'', JBool False)]),
               (''value_raw'', JStr value_raw), (''conditions'', conditions)]))) (\<lambda>r.
       if status r \<noteq> 200 then die else ret ())"

definition on_hosts :: "string list \<Rightarrow> json" where
  "on_hosts hs = JObj [(''host_name'', JObj [(''match_on'', JArr (map JStr hs)), (''operator'', JStr ''one_of'')])]"

text \<open>
  The loops of \<open>ensure_port_rule\<close>, \<open>ensure_usewalk_rule\<close> and \<open>ensure_datasource_rule\<close>: skip the
  rules of others, stop at a rule that is as wanted, delete every other of ours on the way.  The
  result says whether the wanted rule was found.
\<close>

fun sweep_rules :: "'s api \<Rightarrow> (json \<Rightarrow> bool) \<Rightarrow> (json \<Rightarrow> bool) \<Rightarrow> json list \<Rightarrow> ('s, bool) flow" where
  "sweep_rules api ours asked [] = ret False"
| "sweep_rules api ours asked (rule # rules) =
     (if \<not> ours rule then sweep_rules api ours asked rules
      else if asked rule then ret True
      else bnd (request api (delete_req (rule_path rule))) (\<lambda>_. sweep_rules api ours asked rules))"

definition RULE_DESCRIPTION :: string where
  "RULE_DESCRIPTION = ''Meridian Retail demo: agent port of the piggyback delivery shell''"
definition BI_RULE_DESCRIPTION :: string where
  "BI_RULE_DESCRIPTION = ''Meridian Retail demo: payments platform business service''"
definition SNMP_RULE_DESCRIPTION :: string where
  "SNMP_RULE_DESCRIPTION = ''Meridian Retail demo: stored SNMP walks (snmp/netsim.py)''"
definition SNMP_COMMUNITY_RULE_DESCRIPTION :: string where
  "SNMP_COMMUNITY_RULE_DESCRIPTION = ''Meridian Retail demo: SNMP community (netsim responder)''"
definition SNMP_PORT_RULE_DESCRIPTION :: string where
  "SNMP_PORT_RULE_DESCRIPTION = ''Meridian Retail demo: SNMP port (netsim responder)''"
definition DATASOURCE_RULE_DESCRIPTION :: string where
  "DATASOURCE_RULE_DESCRIPTION = ''Meridian Retail demo: agent output via datasource program (cat $HOSTNAME$)''"
definition RESIDUAL_RULE_DESCRIPTION :: string where
  "RESIDUAL_RULE_DESCRIPTION = ''Meridian Retail demo: PDUs without residual-current sensors stay OK''"

definition ensure_port_rule :: "'s api \<Rightarrow> string \<Rightarrow> int \<Rightarrow> ('s, unit) flow" where
  "ensure_port_rule api delivery_host port =
     bnd (marked_rules api ''agent_ports'' RULE_DESCRIPTION) (\<lambda>rules.
     bnd (sweep_rules api (\<lambda>rule. rule_hosts rule = [delivery_host])
            (\<lambda>rule. rule_value rule = JStr (int_str port)) rules) (\<lambda>found.
       if found then ret ()
       else create_rule api ''agent_ports'' ''/'' RULE_DESCRIPTION (int_str port) (on_hosts [delivery_host])))"

definition ensure_usewalk_rule :: "'s api \<Rightarrow> string list \<Rightarrow> ('s, unit) flow" where
  "ensure_usewalk_rule api fqdns =
     bnd (marked_rules api ''usewalk_hosts'' SNMP_RULE_DESCRIPTION) (\<lambda>rules.
     bnd (sweep_rules api (\<lambda>_. True) (\<lambda>rule. sort (rule_hosts rule) = sort fqdns) rules) (\<lambda>found.
       if found then ret ()
       else create_rule api ''usewalk_hosts'' ''/'' SNMP_RULE_DESCRIPTION ''True'' (on_hosts (sort fqdns))))"

definition first_of_folder :: "string list \<Rightarrow> json list \<Rightarrow> json option" where
  "first_of_folder root_segs rules = (case filter (\<lambda>rule. rule_segs rule = root_segs) rules of [] \<Rightarrow> None | r # _ \<Rightarrow> Some r)"

definition ensure_snmp_port_rule :: "'s api \<Rightarrow> string \<Rightarrow> int \<Rightarrow> ('s, unit) flow" where
  "ensure_snmp_port_rule api root_ident port =
     bnd (marked_rules api ''snmp_ports'' SNMP_PORT_RULE_DESCRIPTION) (\<lambda>rules.
       case first_of_folder (folder_segs root_ident) rules of
         Some rule \<Rightarrow>
           if rule_value rule = JStr (int_str port) then ret ()
           else bnd (request api (delete_req (rule_path rule))) (\<lambda>_.
             create_rule api ''snmp_ports'' root_ident SNMP_PORT_RULE_DESCRIPTION (int_str port) (JObj []))
       | None \<Rightarrow> create_rule api ''snmp_ports'' root_ident SNMP_PORT_RULE_DESCRIPTION (int_str port) (JObj []))"

definition datasource_command :: "string \<Rightarrow> string" where
  "datasource_command dir = ''cat '' @ rstrip_by (\<lambda>c. c = CHR ''/'') dir @ ''/$HOSTNAME$''"

text \<open>\<open>repr\<close> of a string: single quotes unless it has single but no double ones; backslashes, the quote
  and the control characters escaped.\<close>

definition lower_hex :: "nat \<Rightarrow> char" where
  "lower_hex d = ''0123456789abcdef'' ! d"

definition repr_char :: "char \<Rightarrow> char \<Rightarrow> string" where
  "repr_char q c =
     (if c = q \<or> c = CHR 92 then [CHR 92, c]
      else if c = CHR 10 then [CHR 92, CHR ''n''] else if c = CHR 13 then [CHR 92, CHR ''r'']
      else if c = CHR 9 then [CHR 92, CHR ''t'']
      else if (of_char c :: nat) < 32 \<or> (127 \<le> (of_char c :: nat) \<and> (of_char c :: nat) \<le> 160) \<or> (of_char c :: nat) = 173
      then [CHR 92, CHR ''x'', lower_hex (of_char c div 16), lower_hex (of_char c mod 16)] else [c])"

definition py_repr :: "string \<Rightarrow> string" where
  "py_repr s = (let q = (if CHR 39 \<in> set s \<and> CHR 34 \<notin> set s then CHR 34 else CHR 39)
     in [q] @ concat (map (repr_char q) s) @ [q])"

definition ensure_datasource_rule :: "'s api \<Rightarrow> string \<Rightarrow> string \<Rightarrow> ('s, unit) flow" where
  "ensure_datasource_rule api root_ident dir =
     bnd (marked_rules api ''datasource_programs'' DATASOURCE_RULE_DESCRIPTION) (\<lambda>rules.
     bnd (sweep_rules api (\<lambda>rule. rule_segs rule = folder_segs root_ident)
            (\<lambda>rule. rule_value rule = JStr (py_repr (datasource_command dir))) rules) (\<lambda>found.
       if found then ret ()
       else create_rule api ''datasource_programs'' root_ident DATASOURCE_RULE_DESCRIPTION
              (py_repr (datasource_command dir)) (JObj [])))"

definition ensure_residual_current_rule :: "'s api \<Rightarrow> string \<Rightarrow> ('s, unit) flow" where
  "ensure_residual_current_rule api root_ident =
     bnd (marked_rules api ''checkgroup_parameters:residual_current'' RESIDUAL_RULE_DESCRIPTION) (\<lambda>rules.
       case first_of_folder (folder_segs root_ident) rules of
         Some _ \<Rightarrow> ret ()
       | None \<Rightarrow> create_rule api ''checkgroup_parameters:residual_current'' root_ident RESIDUAL_RULE_DESCRIPTION
           ''{'warn_missing_data': False, 'warn_missing_levels': False}'' (JObj []))"

fun delete_rules :: "'s api \<Rightarrow> json list \<Rightarrow> ('s, unit) flow" where
  "delete_rules api [] = ret ()"
| "delete_rules api (rule # rules) = bnd (request api (delete_req (rule_path rule))) (\<lambda>_. delete_rules api rules)"

text \<open>The deletions by folder and marker, of the three kinds of rule on the estate's root folder.\<close>

definition delete_folder_rules :: "'s api \<Rightarrow> string \<Rightarrow> string \<Rightarrow> string \<Rightarrow> ('s, unit) flow" where
  "delete_folder_rules api root_ident ruleset description =
     bnd (marked_rules api ruleset description) (\<lambda>rules.
       delete_rules api (filter (\<lambda>rule. rule_segs rule = folder_segs root_ident) rules))"

definition delete_residual_current_rule :: "'s api \<Rightarrow> string \<Rightarrow> ('s, unit) flow" where
  "delete_residual_current_rule api root_ident =
     delete_folder_rules api root_ident ''checkgroup_parameters:residual_current'' RESIDUAL_RULE_DESCRIPTION"

definition delete_snmp_access_rules :: "'s api \<Rightarrow> string \<Rightarrow> ('s, unit) flow" where
  "delete_snmp_access_rules api root_ident =
     bnd (delete_folder_rules api root_ident ''snmp_communities'' SNMP_COMMUNITY_RULE_DESCRIPTION) (\<lambda>_.
       delete_folder_rules api root_ident ''snmp_ports'' SNMP_PORT_RULE_DESCRIPTION)"

definition delete_datasource_rule :: "'s api \<Rightarrow> string \<Rightarrow> ('s, unit) flow" where
  "delete_datasource_rule api root_ident =
     delete_folder_rules api root_ident ''datasource_programs'' DATASOURCE_RULE_DESCRIPTION"

text \<open>\<open>_delete_marked_rules\<close>: only those scoped to hosts of this estate.\<close>

definition delete_marked_rules :: "'s api \<Rightarrow> string \<Rightarrow> string \<Rightarrow> string set \<Rightarrow> ('s, unit) flow" where
  "delete_marked_rules api ruleset description estate_hosts =
     bnd (marked_rules api ruleset description) (\<lambda>rules.
       delete_rules api (filter (\<lambda>rule. rule_hosts rule \<noteq> [] \<and> set (rule_hosts rule) \<subseteq> estate_hosts) rules))"

end
