(* ===== verification/Cmk_Setup.thy ===== *)
theory Cmk_Setup
  imports Cmk_Client
begin

text \<open>
  The flows of \<open>deploy/cmk_setup.py\<close>: the folder taxonomy and roles, the SNMP devices in parents-first
  order, the BI pack, discovery and activation with their polling loops, the fingerprint, \<open>setup\<close> and
  \<open>teardown\<close>.  The answers of the two control panels are arguments; a polling loop has the number of
  polls that fit before its deadline as its fuel; SHA-256 is a parameter.
\<close>

section \<open>Roles\<close>

definition FOLDER_TAXONOMY :: "(string \<times> (string \<times> string) list) list" where
  "FOLDER_TAXONOMY =
    [(''applications'', [(''applications'', ''Applications'')]),
     (''databases'', [(''databases'', ''Databases'')]),
     (''storage'', [(''storage'', ''Storage'')]),
     (''infrastructure'', [(''infrastructure'', ''Infrastructure'')]),
     (''virtualization'', [(''virtualization'', ''Hypervisors'')]),
     (''windows'', [(''windows'', ''Windows servers'')]),
     (''printers'', [(''printers'', ''Printers'')]),
     (''mgmt'', [(''oob'', ''Out-of-band management'')]),
     (''net_switches'', [(''network'', ''Network''), (''switches'', ''Switches'')]),
     (''net_routers'', [(''network'', ''Network''), (''routers'', ''Routers & WAN'')]),
     (''net_firewalls'', [(''network'', ''Network''), (''firewalls'', ''Firewalls'')]),
     (''net_loadbalancers'', [(''network'', ''Network''), (''loadbalancers'', ''Load balancers'')]),
     (''net_wifi'', [(''network'', ''Network''), (''wireless'', ''Wireless'')]),
     (''net_ups'', [(''network'', ''Network''), (''ups'', ''UPS & power'')]),
     (''network'', [(''network'', ''Network'')])]"

definition known_role :: "string \<Rightarrow> bool" where
  "known_role r \<longleftrightarrow> r \<in> fst ` set FOLDER_TAXONOMY"

definition AGENT_ROLE_PREFIXES :: "(string \<times> string) list" where
  "AGENT_ROLE_PREFIXES =
    [(''web-frontend'', ''applications''), (''payment-api'', ''applications''), (''app-worker'', ''applications''),
     (''app-redis'', ''applications''), (''db-postgres'', ''databases''), (''fileserver'', ''storage''),
     (''backup'', ''storage''), (''mail-relay'', ''infrastructure''), (''win-dc'', ''windows'')]"

definition agent_role :: "string \<Rightarrow> string" where
  "agent_role short = (case filter (\<lambda>(p, r). startswith short p) AGENT_ROLE_PREFIXES of
     [] \<Rightarrow> ''infrastructure'' | (p, r) # _ \<Rightarrow> r)"

definition host_role :: "carried_info \<Rightarrow> string" where
  "host_role h = (case ci_role h of Some r \<Rightarrow> if known_role r then r else agent_role (ci_name h)
                                  | None \<Rightarrow> agent_role (ci_name h))"

definition snmp_role :: "string \<Rightarrow> string" where
  "snmp_role short =
     (if startswith short ''sw-'' then ''net_switches''
      else if startswith short ''wan'' \<or> startswith short ''router'' \<or> startswith short ''rtr'' then ''net_routers''
      else if startswith short ''ups'' then ''net_ups'' else ''network'')"

section \<open>Settings and panels\<close>

record args =
  a_self_hosted :: bool
  a_snmp :: string
  a_force :: bool
  a_force_foreign :: bool
  a_folder :: string
  a_agent_ip :: string
  a_agent_port :: int
  a_output_dir :: string

record dev_info =
  d_fqdn :: string
  d_state :: string
  d_incident :: bool
  d_role :: "string option"
  d_parent :: "string option"
  d_community :: "string option"

type_synonym devices = "(string \<times> dev_info) list"

record netsim_info =
  n_devices :: devices
  n_transport :: "string option"
  n_port :: "int option"

record shell_info =
  s_delivery :: string
  s_carried :: "carried_info list"

text \<open>Healing through a panel: \<open>up nm\<close> is whether the panel's heal URL of \<open>nm\<close> answers.\<close>

fun heal_all :: "(string \<Rightarrow> bool) \<Rightarrow> string list \<Rightarrow> ('s, unit) flow" where
  "heal_all up [] w = (Inr (), w)"
| "heal_all up (nm # nms) w =
     (if up nm then heal_all up nms (w\<lparr>healed := healed w @ [nm]\<rparr>) else (Inl SystemExit, w))"

definition heal_estate :: "(string \<Rightarrow> bool) \<Rightarrow> carried_info list \<Rightarrow> ('s, unit) flow" where
  "heal_estate up hosts = heal_all up (map ci_name
     (filter (\<lambda>h. ci_state h \<noteq> Some ''healthy'' \<and> ''heal'' \<in> set (ci_actions h)) hosts))"

text \<open>\<open>leaf_for\<close>: a role's leaf folder, made once.\<close>

definition leaf_for :: "'s api \<Rightarrow> string \<Rightarrow> string \<Rightarrow> ('s, string) flow" where
  "leaf_for api root_ident role w =
     (case map_of (leafs w) role of
        Some ident \<Rightarrow> (Inr ident, w)
      | None \<Rightarrow>
          (case map_of FOLDER_TAXONOMY role of
             None \<Rightarrow> (Inl KeyError, w)
           | Some chain \<Rightarrow>
               bnd (ensure_chain api root_ident chain) (\<lambda>ident w. (Inr ident, w\<lparr>leafs := dict_put role ident (leafs w)\<rparr>)) w))"

section \<open>SNMP devices\<close>

definition falsy :: "string option \<Rightarrow> bool" where
  "falsy x \<longleftrightarrow> x = None \<or> x = Some []"

definition topo_ready :: "devices \<Rightarrow> string list" where
  "topo_ready remaining =
     sort (map fst (filter (\<lambda>(s, d). falsy (d_parent d) \<or> the (d_parent d) \<notin> fst ` set remaining) remaining))"

definition topo_round :: "devices \<Rightarrow> string list" where
  "topo_round remaining = (if topo_ready remaining = [] then sort (map fst remaining) else topo_ready remaining)"

lemma topo_round_ne: "remaining \<noteq> [] \<Longrightarrow> topo_round remaining \<noteq> []"
  by (simp add: topo_round_def) (metis length_0_conv length_map length_sort)

lemma topo_round_sub: "set (topo_round remaining) \<subseteq> fst ` set remaining"
  by (auto simp: topo_round_def topo_ready_def)

function topo_order :: "devices \<Rightarrow> devices" where
  "topo_order remaining =
     (if remaining = [] then []
      else map (\<lambda>s. (s, the (map_of remaining s))) (topo_round remaining)
           @ topo_order (filter (\<lambda>(s, d). s \<notin> set (topo_round remaining)) remaining))"
  by pat_completeness auto

termination
proof (relation "measure length")
  fix remaining :: devices assume "remaining \<noteq> []"
  then obtain s where "s \<in> set (topo_round remaining)" using topo_round_ne by (metis last_in_set)
  then obtain d where "(s, d) \<in> set remaining" "s \<in> set (topo_round remaining)" using topo_round_sub by fastforce
  then have "length (filter (\<lambda>(s, d). s \<notin> set (topo_round remaining)) remaining) < length remaining"
    by (intro length_filter_less) auto
  then show "(filter (\<lambda>(s, d). s \<notin> set (topo_round remaining)) remaining, remaining) \<in> measure length" by simp
qed simp

declare topo_order.simps [simp del]

definition core_of :: "devices \<Rightarrow> string option" where
  "core_of devices = (case filter (\<lambda>(s, d). startswith s ''sw-core'') devices of [] \<Rightarrow> None | (s, d) # _ \<Rightarrow> Some (d_fqdn d))"

text \<open>\<open>fqdn_of.get(parent or "") or core_fqdn\<close>, empty strings counting as nothing.\<close>

definition parent_fqdn :: "devices \<Rightarrow> dev_info \<Rightarrow> string option" where
  "parent_fqdn devices dev =
     (let p = (case d_parent dev of None \<Rightarrow> [] | Some s \<Rightarrow> s);
          f = map_option d_fqdn (map_of devices p)
      in if falsy f then core_of devices else f)"

definition device_role :: "string \<Rightarrow> dev_info \<Rightarrow> string" where
  "device_role short dev = (case d_role dev of Some r \<Rightarrow> if known_role r then r else snmp_role short
                                             | None \<Rightarrow> snmp_role short)"

definition device_parents :: "devices \<Rightarrow> dev_info \<Rightarrow> string list" where
  "device_parents devices dev =
     (case parent_fqdn devices dev of
        None \<Rightarrow> []
      | Some p \<Rightarrow> if p \<noteq> [] \<and> d_fqdn dev \<noteq> p then [p] else [])"

definition device_attrs :: "bool \<Rightarrow> devices \<Rightarrow> string \<Rightarrow> dev_info \<Rightarrow> (string \<times> json) list" where
  "device_attrs live devices short dev =
     [(''tag_snmp_ds'', JStr ''snmp-v2''), (''tag_agent'', JStr ''no-agent'')]
     @ (if live
        then [(''ipaddress'', JStr ''127.0.0.1''), (''tag_address_family'', JStr ''ip-v4-only''),
              (''snmp_community'', JObj [(''type'', JStr ''v1_v2_community''),
                 (''community'', JStr (if falsy (d_community dev) then short else the (d_community dev)))])]
        else [(''tag_address_family'', JStr ''no-ip'')])
     @ (case device_parents devices dev of [] \<Rightarrow> [] | ps \<Rightarrow> [(''parents'', JArr (map JStr ps))])"

fun ensure_devices :: "'s api \<Rightarrow> string \<Rightarrow> bool \<Rightarrow> devices \<Rightarrow> devices \<Rightarrow> ('s, string list) flow" where
  "ensure_devices api root_ident live devices [] = ret []"
| "ensure_devices api root_ident live devices ((short, dev) # ds) =
     bnd (leaf_for api root_ident (device_role short dev)) (\<lambda>folder.
     bnd (ensure_host api (d_fqdn dev) folder (device_attrs live devices short dev)) (\<lambda>_.
     bnd (ensure_devices api root_ident live devices ds) (\<lambda>fqdns. ret (d_fqdn dev # fqdns))))"

definition setup_snmp :: "'s api \<Rightarrow> args \<Rightarrow> netsim_info option \<Rightarrow> (string \<Rightarrow> bool) \<Rightarrow> string \<Rightarrow> ('s, string list) flow" where
  "setup_snmp api args netsim up root_ident =
     (case netsim of
        None \<Rightarrow> if a_snmp args = ''on'' then die else ret []
      | Some info \<Rightarrow>
          (let devices = n_devices info; live = (n_transport info = Some ''snmp'')
           in bnd (heal_all up (map fst (filter (\<lambda>(s, d). d_incident d \<and> d_state d \<noteq> ''healthy'') devices))) (\<lambda>_.
              bnd (ensure_devices api root_ident live devices (topo_order devices)) (\<lambda>fqdns.
              bnd (if live
                   then ensure_snmp_port_rule api root_ident (case n_port info of None \<Rightarrow> 161 | Some p \<Rightarrow> if p = 0 then 161 else p)
                   else ensure_usewalk_rule api fqdns) (\<lambda>_. ret fqdns)))))"

type_synonym plan_row = "string \<times> string option \<times> string option"

definition plan_device :: "devices \<Rightarrow> dev_info \<Rightarrow> plan_row" where
  "plan_device devices d =
     (d_fqdn d, (if parent_fqdn devices d = Some (d_fqdn d) then None else parent_fqdn devices d), d_role d)"

definition planned_snmp :: "args \<Rightarrow> netsim_info option \<Rightarrow> plan_row list res" where
  "planned_snmp args netsim =
     (if a_snmp args = ''off'' then Inr []
      else case netsim of
        None \<Rightarrow> if a_snmp args = ''on'' then Inl SystemExit else Inr []
      | Some info \<Rightarrow> Inr (map (\<lambda>(s, d). plan_device (n_devices info) d) (n_devices info)))"

definition snmp_teardown_names :: "netsim_info option \<Rightarrow> string list" where
  "snmp_teardown_names netsim = (case netsim of None \<Rightarrow> []
     | Some info \<Rightarrow> map (\<lambda>(s, d). d_fqdn d) (rev (topo_order (n_devices info))))"

end
