(* ===== verification/Cmk_Flow.thy ===== *)
theory Cmk_Flow
  imports Cmk_Setup
begin

text \<open>
  The BI pack, discovery, activation, the fingerprint, and the top-level flows \<open>setup\<close> and \<open>teardown\<close>
  of \<open>deploy/cmk_setup.py\<close>.
\<close>

section \<open>The BI pack\<close>

definition BI_PACK_ID :: string where "BI_PACK_ID = ''meridian_demo''"
definition BI_PACK_TITLE :: string where "BI_PACK_TITLE = ''Meridian Retail demo''"
definition BI_TOP_RULE_ID :: string where "BI_TOP_RULE_ID = ''meridian_payments_platform''"
definition BI_AGGR_ID :: string where "BI_AGGR_ID = ''meridian_payments_platform''"
definition BI_AGGR_TITLE :: string where "BI_AGGR_TITLE = ''Payments platform''"
definition BI_GROUP :: string where "BI_GROUP = ''Meridian Retail''"

definition BI_TIERS :: "(string \<times> string \<times> (string \<times> string) list) list" where
  "BI_TIERS =
    [(''meridian_network_path'', ''Network path'',
        [(''sw-core-01'', ''Interface''), (''sw-core-01'', ''CPU utilization'')]),
     (''meridian_customer_entry'', ''Customer entry'',
        [(''web-frontend-01'', ''Interface''), (''web-frontend-01'', ''CPU utilization''), (''web-frontend-01'', ''Memory'')]),
     (''meridian_payment_api'', ''Payment API'',
        [(''payment-api'', ''Systemd Service Summary''), (''payment-api'', ''CPU load''), (''payment-api'', ''Memory''),
         (''payment-api'', ''TCP Connections'')]),
     (''meridian_processing'', ''Processing & cache'',
        [(''app-worker-01'', ''Memory''), (''app-worker-01'', ''Systemd Service Summary''), (''app-worker-01'', ''CPU load''),
         (''app-redis-01'', ''Redis MERIDIAN_CACHE''), (''app-redis-01'', ''Memory'')]),
     (''meridian_data_layer'', ''Data layer'',
        [(''db-postgres-01'', ''PostgreSQL''), (''db-postgres-01'', ''Disk IO SUMMARY''), (''db-postgres-01'', ''CPU load''),
         (''db-postgres-02'', ''PostgreSQL Connections''), (''db-postgres-02'', ''PostgreSQL Instance'')]),
     (''meridian_storage'', ''Storage'', [(''fileserver-01'', ''Filesystem /srv/shares'')])]"

definition bi_leaf :: "string \<Rightarrow> string \<Rightarrow> json" where
  "bi_leaf fq service_regex =
     JObj [(''search'', JObj [(''type'', JStr ''empty'')]),
           (''action'', JObj [(''type'', JStr ''state_of_service''), (''host_regex'', JStr fq), (''service_regex'', JStr service_regex)])]"

definition bi_call :: "string \<Rightarrow> json" where
  "bi_call rule_id =
     JObj [(''search'', JObj [(''type'', JStr ''empty'')]),
           (''action'', JObj [(''type'', JStr ''call_a_rule''), (''rule_id'', JStr rule_id), (''params'', JObj [(''arguments'', JArr [])])])]"

definition bi_path :: "string \<Rightarrow> string \<Rightarrow> string" where
  "bi_path kind ident = ''/objects/'' @ kind @ ''/'' @ ident"

definition ensure_bi_object :: "'s api \<Rightarrow> string \<Rightarrow> string \<Rightarrow> json \<Rightarrow> ('s, unit) flow" where
  "ensure_bi_object api kind ident body =
     bnd (request api (get_req (bi_path kind ident))) (\<lambda>r.
       if status r = 200 then ret ()
       else bnd (request api (post_req (bi_path kind ident) body)) (\<lambda>r. if status r \<noteq> 200 then die else ret ()))"

definition bi_rule_body :: "string \<Rightarrow> string \<Rightarrow> json list \<Rightarrow> json" where
  "bi_rule_body rule_id title nodes =
     JObj [(''id'', JStr rule_id), (''pack_id'', JStr BI_PACK_ID), (''nodes'', JArr nodes),
           (''params'', JObj [(''arguments'', JArr [])]),
           (''node_visualization'', JObj [(''type'', JStr ''none''), (''style_config'', JObj [])]),
           (''properties'', JObj [(''title'', JStr title), (''comment'', JStr []), (''docu_url'', JStr []),
                                  (''icon'', JStr []), (''state_messages'', JObj [])]),
           (''aggregation_function'', JObj [(''type'', JStr ''worst''), (''count'', JNum 1), (''restrict_state'', JNum 2)]),
           (''computation_options'', JObj [(''disabled'', JBool False)])]"

type_synonym fqdns = "string \<rightharpoonup> string"

definition tier_nodes :: "fqdns \<Rightarrow> (string \<times> string) list \<Rightarrow> json list" where
  "tier_nodes by_short leaves = concat (map (\<lambda>(short, svc). case by_short short of None \<Rightarrow> [] | Some fq \<Rightarrow> [bi_leaf fq svc]) leaves)"

fun ensure_tiers :: "'s api \<Rightarrow> fqdns \<Rightarrow> (string \<times> string \<times> (string \<times> string) list) list \<Rightarrow> ('s, json list) flow" where
  "ensure_tiers api by_short [] = ret []"
| "ensure_tiers api by_short ((rule_id, title, leaves) # tiers) =
     (let nodes = tier_nodes by_short leaves
      in if nodes = [] then ensure_tiers api by_short tiers
         else bnd (ensure_bi_object api ''bi_rule'' rule_id (bi_rule_body rule_id title nodes)) (\<lambda>_.
              bnd (ensure_tiers api by_short tiers) (\<lambda>calls. ret (bi_call rule_id # calls))))"

definition bi_aggregation_body :: json where
  "bi_aggregation_body =
     JObj [(''id'', JStr BI_AGGR_ID), (''pack_id'', JStr BI_PACK_ID),
           (''groups'', JObj [(''names'', JArr [JStr BI_GROUP]), (''paths'', JArr [])]),
           (''node'', bi_call BI_TOP_RULE_ID),
           (''aggregation_visualization'', JObj [(''ignore_rule_styles'', JBool False), (''layout_id'', JStr ''builtin_default''),
                                                 (''line_style'', JStr ''round'')]),
           (''computation_options'', JObj [(''disabled'', JBool False), (''escalate_downtimes_as_warn'', JBool False),
                                           (''use_hard_states'', JBool False)]),
           (''comment'', JStr []), (''customer'', JNull)]"

definition ensure_bi_pack :: "'s api \<Rightarrow> fqdns \<Rightarrow> ('s, unit) flow" where
  "ensure_bi_pack api by_short =
     bnd (ensure_bi_object api ''bi_pack'' BI_PACK_ID
        (JObj [(''title'', JStr BI_PACK_TITLE), (''contact_groups'', JArr []), (''public'', JBool True)])) (\<lambda>_.
     bnd (ensure_tiers api by_short BI_TIERS) (\<lambda>top_nodes.
       if top_nodes = [] then ret ()
       else bnd (ensure_bi_object api ''bi_rule'' BI_TOP_RULE_ID (bi_rule_body BI_TOP_RULE_ID BI_AGGR_TITLE top_nodes)) (\<lambda>_.
              ensure_bi_object api ''bi_aggregation'' BI_AGGR_ID bi_aggregation_body)))"

definition ensure_bi_service_rule :: "'s api \<Rightarrow> string \<Rightarrow> ('s, unit) flow" where
  "ensure_bi_service_rule api delivery_host =
     bnd (marked_rules api ''special_agents:bi'' BI_RULE_DESCRIPTION) (\<lambda>rules.
       if list_ex (\<lambda>rule. rule_hosts rule = [delivery_host]) rules then ret ()
       else create_rule api ''special_agents:bi'' ''/'' BI_RULE_DESCRIPTION
          ''{'options': [{'site': ('local', None), 'filter': {'aggr_name': ['Payments platform']}}]}'' (on_hosts [delivery_host]))"

definition bi_objects :: "(string \<times> string) list" where
  "bi_objects = [(''bi_aggregation'', BI_AGGR_ID), (''bi_rule'', BI_TOP_RULE_ID)]
     @ map (\<lambda>(rid, _, _). (''bi_rule'', rid)) BI_TIERS @ [(''bi_pack'', BI_PACK_ID)]"

fun delete_all :: "'s api \<Rightarrow> string list \<Rightarrow> ('s, unit) flow" where
  "delete_all api [] = ret ()"
| "delete_all api (p # ps) = bnd (request api (delete_req p)) (\<lambda>_. delete_all api ps)"

definition delete_bi_objects :: "'s api \<Rightarrow> ('s, unit) flow" where
  "delete_bi_objects api = delete_all api (map (\<lambda>(kind, ident). bi_path kind ident) bi_objects)"

section \<open>Discovery and activation\<close>

definition start_run :: "string \<Rightarrow> string \<Rightarrow> req" where
  "start_run host mode = post_req ''/domain-types/service_discovery_run/actions/start/invoke''
     (JObj [(''host_name'', JStr host), (''mode'', JStr mode)])"

text \<open>The polling loops: the fuel is the number of polls before the deadline.\<close>

fun wait_for_discovery :: "'s api \<Rightarrow> string \<Rightarrow> nat \<Rightarrow> ('s, unit) flow" where
  "wait_for_discovery api host 0 = die"
| "wait_for_discovery api host (Suc n) =
     bnd (request api (get_req (''/objects/service_discovery_run/'' @ host @ ''/actions/wait-for-completion/invoke''))) (\<lambda>r.
       if status r = 204 then ret ()
       else if status r \<notin> {302, 303} then die
       else wait_for_discovery api host n)"

fun jvalues :: "json \<Rightarrow> json list" where
  "jvalues (JObj kvs) = map snd kvs"
| "jvalues _ = []"

definition monitored_service_count :: "'s api \<Rightarrow> string \<Rightarrow> ('s, nat option) flow" where
  "monitored_service_count api host =
     bnd (request api (get_req (''/objects/service_discovery/'' @ host))) (\<lambda>r.
       ret (if status r \<noteq> 200 then None
            else Some (length (filter (\<lambda>v. jget (jget v ''extensions'') ''service_phase'' = JStr ''monitored'')
                   (jvalues (jget (jget (payload r) ''extensions'') ''check_table''))))))"

definition has_services :: "nat option \<Rightarrow> bool" where
  "has_services n \<longleftrightarrow> n \<noteq> None \<and> n \<noteq> Some 0"

definition discover :: "'s api \<Rightarrow> nat \<Rightarrow> string \<Rightarrow> bool \<Rightarrow> ('s, unit) flow" where
  "discover api polls host allow_skip =
     bnd (if allow_skip then monitored_service_count api host else ret None) (\<lambda>n.
       if has_services n then ret ()
       else bnd (request api (start_run host ''refresh'')) (\<lambda>r.
            bnd (if status r \<in> {302, 303, 409} then wait_for_discovery api host polls
                 else if status r \<noteq> 200 then die else ret ()) (\<lambda>_.
            bnd (request api (start_run host ''fix_all'')) (\<lambda>r.
              if status r \<noteq> 200 then die else ret ()))))"

fun truthy :: "json \<Rightarrow> bool" where
  "truthy JNull = False"
| "truthy (JBool b) = b"
| "truthy (JNum n) = (n \<noteq> 0)"
| "truthy (JStr s) = (s \<noteq> [])"
| "truthy (JArr xs) = (xs \<noteq> [])"
| "truthy (JObj xs) = (xs \<noteq> [])"

text \<open>\<open>ext.get("active", True)\<close>.\<close>

definition job_active :: "json \<Rightarrow> bool" where
  "job_active ext = (case ext of
      JObj kvs \<Rightarrow> (case map_of kvs ''active'' of None \<Rightarrow> True | Some v \<Rightarrow> truthy v)
    | _ \<Rightarrow> True)"

fun wait_for_job :: "'s api \<Rightarrow> string \<Rightarrow> nat \<Rightarrow> ('s, unit) flow" where
  "wait_for_job api job 0 = die"
| "wait_for_job api job (Suc n) =
     bnd (request api (get_req (''/objects/background_job/'' @ job))) (\<lambda>r.
       if status r = 200 \<and> \<not> job_active (jget (payload r) ''extensions'') then ret ()
       else wait_for_job api job n)"

definition job_of :: "string \<Rightarrow> string" where
  "job_of loc = (let j = last (split_on (CHR ''/'') (rstrip_by (\<lambda>c. c = CHR ''/'') loc)) in if j = [] then ''bulk_discovery'' else j)"

definition bulk_discover :: "'s api \<Rightarrow> nat \<Rightarrow> string list \<Rightarrow> ('s, unit) flow" where
  "bulk_discover api polls hostnames =
     bnd (request api (post_req ''/domain-types/discovery_run/actions/bulk-discovery-start/invoke''
        (JObj [(''hostnames'', JArr (map JStr hostnames)),
               (''options'', JObj [(''monitor_undecided_services'', JBool True), (''remove_vanished_services'', JBool True),
                  (''update_service_labels'', JBool True), (''update_service_parameters'', JBool True), (''update_host_labels'', JBool True)]),
               (''do_full_scan'', JBool True), (''bulk_size'', JNum 10), (''ignore_errors'', JBool True)]))) (\<lambda>r.
       if status r \<notin> {200, 303} then die
       else wait_for_job api (job_of (location r)) polls)"

fun poll_activation :: "'s api \<Rightarrow> string \<Rightarrow> nat \<Rightarrow> ('s, unit) flow" where
  "poll_activation api run 0 = ret ()"
| "poll_activation api run (Suc n) =
     bnd (request api (get_req (''/objects/activation_run/'' @ run @ ''/actions/wait-for-completion/invoke''))) (\<lambda>r.
       if status r = 204 then ret ()
       else if status r \<notin> {302, 303} then die
       else poll_activation api run n)"

definition activate :: "'s api \<Rightarrow> nat \<Rightarrow> bool \<Rightarrow> ('s, unit) flow" where
  "activate api polls force_foreign =
     bnd (request api ((post_req ''/domain-types/activation_run/actions/activate-changes/invoke''
        (JObj [(''redirect'', JBool False), (''sites'', JArr []), (''force_foreign_changes'', JBool force_foreign)]))\<lparr>r_etag := Some ''*''\<rparr>)) (\<lambda>r.
       if status r = 422 then ret ()
       else if status r \<noteq> 200 then die
       else if truthy (jget (payload r) ''id'') then poll_activation api (jstr (jget (payload r) ''id'')) polls else ret ())"

section \<open>The fingerprint\<close>

definition SCHEMA_VERSION :: int where "SCHEMA_VERSION = 12"
definition FINGERPRINT_LABEL :: string where "FINGERPRINT_LABEL = ''meridian_demo/fingerprint''"

text \<open>\<open>json.dumps\<close> with sorted keys and compact separators.\<close>

definition json_char :: "char \<Rightarrow> string" where
  "json_char c =
     (if c = CHR 34 then [CHR 92, CHR 34] else if c = CHR 92 then [CHR 92, CHR 92]
      else if c = CHR 10 then [CHR 92, CHR ''n''] else if c = CHR 13 then [CHR 92, CHR ''r'']
      else if c = CHR 9 then [CHR 92, CHR ''t''] else if c = CHR 8 then [CHR 92, CHR ''b'']
      else if c = CHR 12 then [CHR 92, CHR ''f'']
      else if (of_char c :: nat) < 32 \<or> 127 < (of_char c :: nat)
      then [CHR 92, CHR ''u'', CHR ''0'', CHR ''0'', lower_hex (of_char c div 16), lower_hex (of_char c mod 16)] else [c])"

definition json_str :: "string \<Rightarrow> string" where
  "json_str s = [CHR 34] @ concat (map json_char s) @ [CHR 34]"

fun dumps :: "json \<Rightarrow> string" where
  "dumps JNull = ''null''"
| "dumps (JBool b) = (if b then ''true'' else ''false'')"
| "dumps (JNum n) = int_str n"
| "dumps (JStr s) = json_str s"
| "dumps (JArr xs) = ''['' @ join_with '','' (map dumps xs) @ '']''"
| "dumps (JObj kvs) = ''{'' @ join_with '','' (map snd (sort_key fst (map (\<lambda>(k, v). (k, json_str k @ '':'' @ dumps v)) kvs))) @ ''}''"

definition jopt :: "string option \<Rightarrow> json" where
  "jopt x = (case x of None \<Rightarrow> JNull | Some s \<Rightarrow> JStr s)"

definition short_of :: "string \<Rightarrow> string" where
  "short_of fq = hd (split_on (CHR ''.'') fq)"

definition plan_role :: "plan_row \<Rightarrow> string" where
  "plan_role row = (case row of (f, p, r) \<Rightarrow> (case r of Some x \<Rightarrow> if known_role x then x else snmp_role (short_of f)
                                                 | None \<Rightarrow> snmp_role (short_of f)))"

definition all_fqdns :: "carried_info list \<Rightarrow> string list \<Rightarrow> fqdns" where
  "all_fqdns hosts snmp = map_of (map (\<lambda>h. (ci_name h, ci_fqdn h)) (rev hosts)) ++ map_of (map (\<lambda>f. (short_of f, f)) (rev snmp))"

definition effective_parent :: "carried_info list \<Rightarrow> string list \<Rightarrow> carried_info \<Rightarrow> string option" where
  "effective_parent hosts snmp h =
     (case ci_parent h of None \<Rightarrow> None
      | Some p \<Rightarrow> if p \<in> set (map ci_fqdn hosts) \<union> set snmp then Some p else None)"

definition applicable_tiers :: "fqdns \<Rightarrow> string list" where
  "applicable_tiers by_short =
     sort (map fst (filter (\<lambda>(rid, _, leaves). list_ex (\<lambda>(short, _). by_short short \<noteq> None) leaves) BI_TIERS))"

definition fingerprint_canon :: "args \<Rightarrow> string \<Rightarrow> carried_info list \<Rightarrow> plan_row list \<Rightarrow> json" where
  "fingerprint_canon args delivery hosts plan =
     JObj [(''schema'', JNum SCHEMA_VERSION),
           (''mode'', JStr (if a_self_hosted args then ''self-hosted'' else ''cloud'')),
           (''folder'', JStr (folder_id (a_folder args))),
           (''delivery'', JArr [JStr delivery, JStr (a_agent_ip args), JNum (a_agent_port args)]),
           (''hosts'', JArr (map (\<lambda>h. JArr [JStr (ci_fqdn h), jopt (effective_parent hosts (map fst plan) h), JStr (host_role h)])
                               (sort_key ci_fqdn hosts))),
           (''snmp'', JArr (map (\<lambda>row. JArr [JStr (fst row), jopt (fst (snd row)), JStr (plan_role row)]) (sort_key fst plan))),
           (''bi_tiers'', JArr (map JStr (applicable_tiers (all_fqdns hosts (map fst plan))))),
           (''datasource'', if a_self_hosted args then JStr (datasource_command (a_output_dir args)) else JNull)]"

definition estate_fingerprint :: "(string \<Rightarrow> string) \<Rightarrow> args \<Rightarrow> string \<Rightarrow> carried_info list \<Rightarrow> plan_row list \<Rightarrow> string" where
  "estate_fingerprint sha args delivery hosts plan =
     ''v'' @ int_str SCHEMA_VERSION @ ''-'' @ take 16 (sha (dumps (fingerprint_canon args delivery hosts plan)))"

definition read_fingerprint :: "'s api \<Rightarrow> string \<Rightarrow> ('s, json) flow" where
  "read_fingerprint api delivery = bnd (get_host api delivery) (\<lambda>host.
     ret (case host of None \<Rightarrow> JNull | Some h \<Rightarrow> jget (jget (host_attrs h) ''labels'') FINGERPRINT_LABEL))"

fun jentries :: "json \<Rightarrow> (string \<times> json) list" where
  "jentries (JObj kvs) = kvs"
| "jentries _ = []"

definition write_fingerprint :: "'s api \<Rightarrow> string \<Rightarrow> string \<Rightarrow> ('s, unit) flow" where
  "write_fingerprint api delivery fp =
     bnd (get_host api delivery) (\<lambda>host.
       (let labels = (case host of None \<Rightarrow> [] | Some h \<Rightarrow> jentries (jget (host_attrs h) ''labels''))
        in if map_of labels FINGERPRINT_LABEL = Some (JStr fp) then ret ()
           else bnd (request api (update_host_req delivery [(''labels'', JObj (dict_put FINGERPRINT_LABEL (JStr fp) labels))])) (\<lambda>r.
             if status r \<noteq> 200 then die else ret ())))"

section \<open>Setup\<close>

text \<open>What surrounds a run: the site, the two panels' answers, which heal URLs answer, how many polls fit
  before each deadline, and the digest.\<close>

record 's around =
  e_api :: "'s api"
  e_shell :: "shell_info option"
  e_netsim :: "netsim_info option"
  e_up :: "string \<Rightarrow> bool"
  e_up_snmp :: "string \<Rightarrow> bool"
  e_disc_polls :: nat
  e_bulk_polls :: nat
  e_act_polls :: nat
  e_sha :: "string \<Rightarrow> string"

definition first_named :: "string \<Rightarrow> string list \<Rightarrow> string option" where
  "first_named prefix fqdns = (case filter (\<lambda>f. startswith (short_of f) prefix) fqdns of [] \<Rightarrow> None | f # _ \<Rightarrow> Some f)"

definition shell_attrs :: "args \<Rightarrow> string \<Rightarrow> string list \<Rightarrow> (string \<times> json) list" where
  "shell_attrs args delivery snmp =
     (if a_self_hosted args
      then [(''tag_agent'', JStr ''all-agents''), (''tag_address_family'', JStr ''no-ip''), (''tag_piggyback'', JStr ''no-piggyback'')]
      else [(''ipaddress'', JStr (a_agent_ip args)), (''tag_agent'', JStr ''all-agents'')])
     @ (let p = (if falsy (first_named ''sw-access'' snmp) then first_named ''sw-core'' snmp else first_named ''sw-access'' snmp)
        in if \<not> falsy p \<and> p \<noteq> Some delivery then [(''parents'', JArr [JStr (the p)])] else [])"

definition carried_attrs :: "args \<Rightarrow> carried_info list \<Rightarrow> string list \<Rightarrow> carried_info \<Rightarrow> (string \<times> json) list" where
  "carried_attrs args hosts snmp h =
     (if a_self_hosted args
      then [(''tag_agent'', JStr ''cmk-agent''), (''tag_address_family'', JStr ''no-ip''), (''tag_piggyback'', JStr ''no-piggyback'')]
      else [(''tag_agent'', JStr ''no-agent''), (''tag_piggyback'', JStr ''piggyback''), (''tag_address_family'', JStr ''no-ip'')])
     @ (case effective_parent hosts snmp h of None \<Rightarrow> [] | Some p \<Rightarrow> [(''parents'', JArr [JStr p])])"

text \<open>Hosts whose parent is another carried host come last; the sort is stable.\<close>

definition carried_order :: "carried_info list \<Rightarrow> carried_info list" where
  "carried_order hosts = sort_key (\<lambda>h. \<exists>p \<in> set_option (ci_parent h). p \<in> set (map ci_fqdn hosts)) hosts"

fun ensure_carried :: "'s api \<Rightarrow> args \<Rightarrow> string \<Rightarrow> carried_info list \<Rightarrow> string list \<Rightarrow> carried_info list \<Rightarrow> ('s, unit) flow" where
  "ensure_carried api args root_ident hosts snmp [] = ret ()"
| "ensure_carried api args root_ident hosts snmp (h # hs) =
     bnd (leaf_for api root_ident (host_role h)) (\<lambda>folder.
     bnd (ensure_host api (ci_fqdn h) folder (carried_attrs args hosts snmp h)) (\<lambda>_.
       ensure_carried api args root_ident hosts snmp hs))"

fun pending_hosts :: "'s api \<Rightarrow> bool \<Rightarrow> string list \<Rightarrow> ('s, string list) flow" where
  "pending_hosts api skip [] = ret []"
| "pending_hosts api skip (f # fs) =
     bnd (if skip then monitored_service_count api f else ret None) (\<lambda>n.
     bnd (pending_hosts api skip fs) (\<lambda>ps. ret (if has_services n then ps else f # ps)))"

fun discover_each :: "'s api \<Rightarrow> nat \<Rightarrow> string list \<Rightarrow> ('s, unit) flow" where
  "discover_each api polls [] = ret ()"
| "discover_each api polls (f # fs) = bnd (discover api polls f False) (\<lambda>_. discover_each api polls fs)"

text \<open>The Setup objects, from the folder tree to the BI service rule; the devices' names are the result.\<close>

definition setup_objects :: "'s around \<Rightarrow> args \<Rightarrow> string \<Rightarrow> carried_info list \<Rightarrow> ('s, string list) flow" where
  "setup_objects e args delivery hosts =
     (let api = e_api e; root = folder_ident [a_folder args]
      in bnd (ensure_folder api root ''Meridian Retail demo'' ''~'') (\<lambda>_.
         bnd (if a_snmp args = ''off'' then ret []
              else bnd (setup_snmp api args (e_netsim e) (e_up_snmp e) root) (\<lambda>snmp.
                   bnd (ensure_residual_current_rule api root) (\<lambda>_. ret snmp))) (\<lambda>snmp.
         bnd (ensure_host api delivery root (shell_attrs args delivery snmp)) (\<lambda>_.
         bnd (if a_self_hosted args then ret () else ensure_port_rule api delivery (a_agent_port args)) (\<lambda>_.
         bnd (ensure_carried api args root hosts snmp (carried_order hosts)) (\<lambda>_.
         bnd (prune_subtree api root ({delivery} \<union> set (map ci_fqdn hosts) \<union> set snmp)) (\<lambda>_.
         bnd (if a_self_hosted args then ensure_datasource_rule api root (a_output_dir args) else ret ()) (\<lambda>_.
         bnd (ensure_bi_pack api (all_fqdns hosts snmp)) (\<lambda>_.
         bnd (ensure_bi_service_rule api delivery) (\<lambda>_. ret snmp))))))))))"

definition discover_estate :: "'s around \<Rightarrow> args \<Rightarrow> string \<Rightarrow> string list \<Rightarrow> ('s, unit) flow" where
  "discover_estate e args delivery fqdns =
     bnd (discover (e_api e) (e_disc_polls e) delivery False) (\<lambda>_.
     bnd (pending_hosts (e_api e) (\<not> a_force args) fqdns) (\<lambda>todo.
       if length todo \<ge> 10 then bulk_discover (e_api e) (e_bulk_polls e) todo
       else discover_each (e_api e) (e_disc_polls e) todo))"

text \<open>\<open>setup\<close>; the result says whether the estate was reconfigured.\<close>

definition setup_flow :: "'s around \<Rightarrow> args \<Rightarrow> ('s, bool) flow" where
  "setup_flow e args =
     (case e_shell e of
        None \<Rightarrow> die
      | Some info \<Rightarrow>
          (let delivery = s_delivery info; hosts = s_carried info
           in if list_ex (\<lambda>h. ci_state h = None) hosts then die
              else case planned_snmp args (e_netsim e) of
                Inl err \<Rightarrow> die
              | Inr plan \<Rightarrow>
                  (let fp = estate_fingerprint (e_sha e) args delivery hosts plan
                   in bnd (if a_force args then ret JNull else read_fingerprint (e_api e) delivery) (\<lambda>stored.
                        if stored = JStr fp then ret False
                        else bnd (heal_estate (e_up e) hosts) (\<lambda>_.
                             bnd (setup_objects e args delivery hosts) (\<lambda>snmp.
                             bnd (discover_estate e args delivery (map ci_fqdn hosts @ snmp)) (\<lambda>_.
                             bnd (activate (e_api e) (e_act_polls e) (a_force_foreign args)) (\<lambda>_.
                             bnd (discover (e_api e) (e_disc_polls e) delivery False) (\<lambda>_.
                             bnd (write_fingerprint (e_api e) delivery fp) (\<lambda>_.
                             bnd (activate (e_api e) (e_act_polls e) (a_force_foreign args)) (\<lambda>_. ret True))))))))))) "

section \<open>Teardown\<close>

definition subtree_names :: "'s api \<Rightarrow> string list \<Rightarrow> ('s, string list) flow" where
  "subtree_names api root_segs =
     bnd (request api (get_req HOSTS_ALL)) (\<lambda>r.
       ret (if status r \<noteq> 200 then []
            else map (\<lambda>h. jstr (jget h ''id'')) (filter (\<lambda>h. in_subtree (host_folder h) root_segs) (jitems (jget (payload r) ''value'')))))"

definition teardown_names :: "'s around \<Rightarrow> args \<Rightarrow> ('s, string list) flow" where
  "teardown_names e args =
     (case e_shell e of
        Some info \<Rightarrow> ret (map ci_fqdn (rev (s_carried info)) @ snmp_teardown_names (e_netsim e) @ [s_delivery info])
      | None \<Rightarrow> subtree_names (e_api e) (folder_segs (folder_ident [a_folder args])))"

definition teardown :: "'s around \<Rightarrow> args \<Rightarrow> ('s, unit) flow" where
  "teardown e args =
     (let api = e_api e; root = folder_ident [a_folder args]
      in bnd (teardown_names e args) (\<lambda>names.
         bnd (delete_bi_objects api) (\<lambda>_.
         bnd (delete_marked_rules api ''usewalk_hosts'' SNMP_RULE_DESCRIPTION (set names)) (\<lambda>_.
         bnd (delete_marked_rules api ''special_agents:bi'' BI_RULE_DESCRIPTION (set names)) (\<lambda>_.
         bnd (delete_datasource_rule api root) (\<lambda>_.
         bnd (delete_residual_current_rule api root) (\<lambda>_.
         bnd (delete_snmp_access_rules api root) (\<lambda>_.
         bnd (delete_hosts api names) (\<lambda>_.
         bnd (delete_marked_rules api ''agent_ports'' RULE_DESCRIPTION (set names)) (\<lambda>_.
         bnd (if root = ''~'' then ret ()
              else bnd (request api ((delete_req (''/objects/folder_config/'' @ root))\<lparr>r_query := [(''delete_mode'', ''recursive'')]\<rparr>))
                     (\<lambda>_. ret ())) (\<lambda>_.
           activate api (e_act_polls e) (a_force_foreign args))))))))))))"

end
