(* ===== verification/Cmk_Order.thy ===== *)
theory Cmk_Order
  imports Cmk_Setup
begin

text \<open>
  The order in which the SNMP devices are created: \<open>topo_order\<close> is a permutation that puts parents
  first, the flow follows it for every site, and the read-only preview used by the fingerprint plans
  exactly the hosts the flow creates.
\<close>

section \<open>Rounds\<close>

lemma map_of_mem: "distinct (map fst ds) \<Longrightarrow> s \<in> fst ` set ds \<Longrightarrow> (s, the (map_of ds s)) \<in> set ds"
  by (metis (no_types, lifting) eq_fst_iff imageE map_of_eq_Some_iff option.sel)

lemma topo_round_distinct: "distinct (map fst ds) \<Longrightarrow> distinct (topo_round ds)"
  by (simp add: topo_round_def topo_ready_def distinct_map_filter)

lemma distinct_keys_filter: "distinct (map fst ds) \<Longrightarrow> distinct (map fst (filter P ds))"
  by (simp add: distinct_map_filter)

lemma round_mset:
  assumes "distinct (map fst ds)" and "set rs \<subseteq> fst ` set ds" and "distinct rs"
  shows "mset (map (\<lambda>s. (s, the (map_of ds s))) rs) = mset (filter (\<lambda>(s, d). s \<in> set rs) ds)"
proof (rule set_eq_iff_mset_eq_distinct [THEN iffD1])
  show "distinct (map (\<lambda>s. (s, the (map_of ds s))) rs)" using assms(3) by (simp add: distinct_map inj_on_def)
  show "distinct (filter (\<lambda>(s, d). s \<in> set rs) ds)" using assms(1) by (simp add: distinct_map)
  show "set (map (\<lambda>s. (s, the (map_of ds s))) rs) = set (filter (\<lambda>(s, d). s \<in> set rs) ds)"
    using map_of_mem [OF assms(1)] assms(1,2) by (auto simp: map_of_eq_Some_iff)
qed

lemma topo_perm: "distinct (map fst ds) \<Longrightarrow> mset (topo_order ds) = mset ds"
proof (induction ds rule: topo_order.induct)
  case (1 ds)
  show ?case
  proof (cases "ds = []")
    case False
    let ?R = "topo_round ds" and ?rest = "filter (\<lambda>(s, d). s \<notin> set (topo_round ds)) ds"
    have "mset (topo_order ds) = mset (map (\<lambda>s. (s, the (map_of ds s))) ?R) + mset (topo_order ?rest)"
      using False by (subst topo_order.simps) simp
    also have "mset (topo_order ?rest) = mset ?rest" by (rule 1(1) [OF False distinct_keys_filter [OF 1(2)]])
    also have "mset (map (\<lambda>s. (s, the (map_of ds s))) ?R) = mset (filter (\<lambda>(s, d). s \<in> set ?R) ds)"
      by (rule round_mset [OF 1(2) topo_round_sub topo_round_distinct [OF 1(2)]])
    finally show ?thesis by (simp add: case_prod_unfold)
  qed (simp add: topo_order.simps)
qed

section \<open>Parents first\<close>

text \<open>A device set without a parent cycle: some rank grows from parent to child inside the set.\<close>

definition ranked :: "(string \<Rightarrow> nat) \<Rightarrow> devices \<Rightarrow> bool" where
  "ranked rank ds \<longleftrightarrow> list_all (\<lambda>(s, d). falsy (d_parent d) \<or> the (d_parent d) \<notin> fst ` set ds \<or> rank (the (d_parent d)) < rank s) ds"

definition in_set_parent :: "devices \<Rightarrow> dev_info \<Rightarrow> string option" where
  "in_set_parent ds d = (if falsy (d_parent d) \<or> the (d_parent d) \<notin> fst ` set ds then None else d_parent d)"

text \<open>A list in which every device's parent, when it is in the set, stands before it.\<close>

fun parents_first :: "devices \<Rightarrow> string list \<Rightarrow> devices \<Rightarrow> bool" where
  "parents_first ds seen [] = True"
| "parents_first ds seen ((s, d) # rest) =
     ((case in_set_parent ds d of None \<Rightarrow> True | Some p \<Rightarrow> p \<in> set seen) \<and> parents_first ds (s # seen) rest)"

lemma parents_first_mono: "parents_first ds seen xs \<Longrightarrow> set seen \<subseteq> set seen' \<Longrightarrow> parents_first ds seen' xs"
proof (induction xs arbitrary: seen seen')
  case (Cons x xs)
  obtain s d where x: "x = (s, d)" by (cases x)
  with Cons.prems have "parents_first ds (s # seen) xs" "set (s # seen) \<subseteq> set (s # seen')" by auto
  from Cons.IH [OF this] Cons.prems x show ?case by (auto split: option.splits)
qed simp

lemma parents_first_append:
  "parents_first ds seen (xs @ ys) \<longleftrightarrow> parents_first ds seen xs \<and> parents_first ds (rev (map fst xs) @ seen) ys"
proof (induction xs arbitrary: seen)
  case (Cons x xs)
  obtain s d where "x = (s, d)" by (cases x)
  with Cons show ?case by simp
qed simp

lemma ranked_ready:
  assumes "ranked rank ds" and "ds \<noteq> []"
  shows "topo_ready ds \<noteq> []"
proof -
  obtain x where x: "x \<in> set ds" "\<forall>y \<in> set ds. rank (fst x) \<le> rank (fst y)"
    using ex_has_least_nat [of "\<lambda>x. x \<in> set ds" "hd ds" "\<lambda>x. rank (fst x)"] assms(2)
    by (metis hd_in_set)
  have "falsy (d_parent (snd x)) \<or> the (d_parent (snd x)) \<notin> fst ` set ds \<or> rank (the (d_parent (snd x))) < rank (fst x)"
    using assms(1) x(1) by (auto simp: ranked_def list_all_iff case_prod_unfold)
  moreover have "\<not> rank p < rank (fst x)" if "p \<in> fst ` set ds" for p using x(2) that by fastforce
  ultimately have "falsy (d_parent (snd x)) \<or> the (d_parent (snd x)) \<notin> fst ` set ds" by blast
  then have "x \<in> set (filter (\<lambda>(s, d). falsy (d_parent d) \<or> the (d_parent d) \<notin> fst ` set ds) ds)"
    using x(1) by (simp add: case_prod_unfold)
  then have "fst x \<in> set (topo_ready ds)" unfolding topo_ready_def set_sort set_map by (rule imageI)
  then show ?thesis by auto
qed

lemma ranked_filter: "ranked rank ds \<Longrightarrow> ranked rank (filter P ds)"
  by (fastforce simp: ranked_def list_all_iff)

text \<open>The rounds, inside the full device set \<open>all\<close>, of which \<open>ds\<close> is what remains.\<close>

lemma topo_parents_first:
  assumes "distinct (map fst ds)" and "ranked rank ds" and "set ds \<subseteq> set all" and "fst ` set all \<subseteq> set seen \<union> fst ` set ds"
  shows "parents_first all seen (topo_order ds)"
  using assms
proof (induction ds arbitrary: seen rule: topo_order.induct)
  case (1 ds)
  show ?case
  proof (cases "ds = []")
    case False
    let ?R = "topo_round ds" and ?rest = "filter (\<lambda>(s, d). s \<notin> set (topo_round ds)) ds"
    let ?em = "map (\<lambda>s. (s, the (map_of ds s))) ?R"
    have R: "?R = topo_ready ds" using ranked_ready [OF 1(3) False] by (simp add: topo_round_def)
    have em: "fst ` set ?em = set ?R" by (simp add: image_image)
    have ready: "case in_set_parent all d of None \<Rightarrow> True | Some p \<Rightarrow> p \<in> set seen" if "(s, d) \<in> set ?em" for s d
    proof -
      have s: "s \<in> set (topo_ready ds)" "d = the (map_of ds s)" using that R by auto
      have sin: "s \<in> fst ` set ds" using s(1) topo_round_sub [of ds] by (metis R subsetD)
      from map_of_mem [OF 1(2) sin] have sd: "(s, d) \<in> set ds" by (simp add: s(2))
      obtain d' where d': "(s, d') \<in> set ds" "falsy (d_parent d') \<or> the (d_parent d') \<notin> fst ` set ds"
        using s(1) by (auto simp: topo_ready_def)
      have "d' = d" using d'(1) sd 1(2) by (meson eq_key_imp_eq_value)
      with d'(2) 1(5) show ?thesis
        by (auto simp: in_set_parent_def falsy_def split: option.splits) (metis UnE fst_conv image_eqI subsetD)
    qed
    have pf: "parents_first all seen' xs" if "\<forall>(s, d) \<in> set xs. case in_set_parent all d of None \<Rightarrow> True | Some p \<Rightarrow> p \<in> set seen"
      "set seen \<subseteq> set seen'" for xs seen'
      using that
    proof (induction xs arbitrary: seen')
      case (Cons y ys)
      obtain s d where y: "y = (s, d)" by (cases y)
      have "parents_first all (s # seen') ys" by (rule Cons.IH) (use Cons.prems in auto)
      with Cons.prems show ?case by (auto simp: y split: option.splits)
    qed simp
    have "parents_first all seen ?em" by (rule pf) (use ready in blast, simp)
    moreover have "parents_first all (rev (map fst ?em) @ seen) (topo_order ?rest)"
    proof (rule 1(1) [OF False distinct_keys_filter [OF 1(2)] ranked_filter [OF 1(3)]])
      show "set ?rest \<subseteq> set all" using 1(4) by auto
      show "fst ` set all \<subseteq> set (rev (map fst ?em) @ seen) \<union> fst ` set ?rest"
      proof -
        have "fst ` set ds \<subseteq> set ?R \<union> fst ` set ?rest" by force
        moreover have "set (rev (map fst ?em) @ seen) = set ?R \<union> set seen" by (simp add: image_image)
        ultimately show ?thesis using 1(5) by blast
      qed
    qed
    ultimately show ?thesis using False by (subst topo_order.simps) (simp add: parents_first_append)
  qed (simp add: topo_order.simps)
qed

text \<open>C18. \<open>_topo_order\<close> emits every device exactly once, whatever the parents; and when the parents have no
  cycle, every device comes after its parent if that is in the set, which the site demands at creation.\<close>

theorem topo_order_parents_first:
  assumes "distinct (map fst ds)" and "ranked rank ds"
  shows "mset (topo_order ds) = mset ds \<and> parents_first ds [] (topo_order ds)"
  using topo_perm [OF assms(1)] topo_parents_first [OF assms, of ds "[]"] by simp

definition wit_dev :: "string \<Rightarrow> string option \<Rightarrow> dev_info" where
  "wit_dev nm par = \<lparr>d_fqdn = nm @ ''.x'', d_state = ''healthy'', d_incident = False, d_role = None, d_parent = par, d_community = None\<rparr>"

definition wit_devices :: devices where
  "wit_devices = [(''prt-1'', wit_dev ''prt-1'' (Some ''sw-f1'')), (''sw-f1'', wit_dev ''sw-f1'' (Some ''sw-core-01'')),
     (''sw-core-01'', wit_dev ''sw-core-01'' None)]"

theorem topo_order_parents_first_witness:
  "mset (topo_order wit_devices) = mset wit_devices \<and> parents_first wit_devices [] (topo_order wit_devices)"
proof (rule topo_order_parents_first)
  show "distinct (map fst wit_devices)" by (simp add: wit_devices_def)
  show "ranked (\<lambda>s. if s = ''sw-core-01'' then 0 else if s = ''sw-f1'' then 1 else 2) wit_devices"
    by (simp add: ranked_def wit_devices_def wit_dev_def falsy_def)
qed

end
