(* ===== verification/Cmk_Trace.thy ===== *)
theory Cmk_Trace
  imports Cmk_Flow Cmk_Order
begin

text \<open>
  What the flows send to the site, for every site.  \<open>emits P f\<close>: every request of the flow \<open>f\<close>
  satisfies \<open>P\<close>, however it ends; \<open>visits f L\<close>: when it
  ends well, the hosts it looked up are those of \<open>L\<close>, in order.
\<close>

section \<open>Requests of a flow\<close>

named_theorems emits_rules

definition emits :: "(req \<Rightarrow> bool) \<Rightarrow> ('s, 'a) flow \<Rightarrow> bool" where
  "emits P f \<longleftrightarrow> (\<forall>w. \<exists>new. trace (snd (f w)) = trace w @ new \<and> list_all P new)"

lemma emits_ret [emits_rules]: "emits P (ret x)"
  by (simp add: emits_def ret_def)

lemma emits_die [emits_rules]: "emits P die"
  by (simp add: emits_def die_def)

lemma emits_bnd [emits_rules]: "emits P m \<Longrightarrow> (\<And>x. emits P (f x)) \<Longrightarrow> emits P (bnd m f)"
proof -
  assume m: "emits P m" and f: "\<And>x. emits P (f x)"
  have "\<exists>new. trace (snd (bnd m f w)) = trace w @ new \<and> list_all P new" for w
  proof -
    obtain r w1 where r: "m w = (r, w1)" by (metis surj_pair)
    obtain n1 where n1: "trace w1 = trace w @ n1" "list_all P n1" using m r by (metis emits_def snd_conv)
    show ?thesis
    proof (cases r)
      case (Inr x)
      obtain n2 where "trace (snd (f x w1)) = trace w1 @ n2" "list_all P n2" using f by (metis emits_def)
      with n1 r Inr show ?thesis by (simp add: bnd_def)
    qed (use n1 r in \<open>simp add: bnd_def\<close>)
  qed
  then show "emits P (bnd m f)" by (simp add: emits_def)
qed

lemma emits_request [emits_rules]: "P r \<Longrightarrow> emits P (request api r)"
  by (auto simp: emits_def request_def split: prod.splits option.splits)

lemma emits_if [emits_rules]: "(b \<Longrightarrow> emits P f) \<Longrightarrow> (\<not> b \<Longrightarrow> emits P g) \<Longrightarrow> emits P (if b then f else g)"
  by simp

lemma emits_option [emits_rules]: "(x = None \<Longrightarrow> emits P f) \<Longrightarrow> (\<And>y. x = Some y \<Longrightarrow> emits P (g y)) \<Longrightarrow> emits P (case x of None \<Rightarrow> f | Some y \<Rightarrow> g y)"
  by (cases x) auto

lemma emits_sum [emits_rules]: "(\<And>e. x = Inl e \<Longrightarrow> emits P (f e)) \<Longrightarrow> (\<And>y. x = Inr y \<Longrightarrow> emits P (g y)) \<Longrightarrow> emits P (case x of Inl e \<Rightarrow> f e | Inr y \<Rightarrow> g y)"
  by (cases x) auto

lemma emits_let [emits_rules]: "emits P (f x) \<Longrightarrow> emits P (let y = x in f y)"
  by simp

lemma emitsD: "emits P f \<Longrightarrow> f w = (r, w') \<Longrightarrow> \<exists>new. trace w' = trace w @ new \<and> list_all P new"
  by (metis emits_def snd_conv)

section \<open>Nothing of the estate is deleted\<close>

text \<open>A request that deletes nothing but rules, or hosts outside \<open>keep\<close>.\<close>

definition spares :: "string set \<Rightarrow> req \<Rightarrow> bool" where
  "spares keep r \<longleftrightarrow> r_method r = ''DELETE'' \<longrightarrow>
     (\<exists>rule. r_path r = rule_path rule) \<or> (\<exists>nm. nm \<notin> keep \<and> r_path r = host_path nm)"

lemma spares_reqs [emits_rules]:
  "spares keep (get_req p)" "spares keep (post_req p b)" "spares keep (put_req p b)" "spares keep (delete_req (rule_path rule))"
  "spares keep (update_host_req nm fs)" "spares keep (create_host_req nm fo at')" "spares keep (start_run h m)"
  "spares keep ((post_req p b)\<lparr>r_etag := et\<rparr>)"
  "spares keep \<lparr>r_method = ''GET'', r_path = p, r_body = b', r_query = q, r_etag = et\<rparr>"
  by (auto simp: spares_def get_req_def post_req_def put_req_def delete_req_def update_host_req_def create_host_req_def start_run_def)

lemma spares_delete_host: "nm \<notin> keep \<Longrightarrow> spares keep (delete_req (host_path nm))"
  by (auto simp: spares_def delete_req_def)

lemma marked_rules_spares [emits_rules]: "emits (spares keep) (marked_rules api ruleset description)"
  unfolding marked_rules_def by (intro emits_rules)

lemma create_rule_spares [emits_rules]: "emits (spares keep) (create_rule api ruleset folder description v c)"
  unfolding create_rule_def by (intro emits_rules)

lemma sweep_rules_spares [emits_rules]: "emits (spares keep) (sweep_rules api ours asked rules)"
  by (induction rules) (auto intro!: emits_rules)

lemma rule_flows_spare [emits_rules]:
  "emits (spares keep) (ensure_port_rule api d p)" "emits (spares keep) (ensure_usewalk_rule api fs)"
  "emits (spares keep) (ensure_snmp_port_rule api rt p)" "emits (spares keep) (ensure_datasource_rule api rt dir)"
  "emits (spares keep) (ensure_residual_current_rule api rt)" "emits (spares keep) (ensure_bi_service_rule api d)"
  unfolding ensure_port_rule_def ensure_usewalk_rule_def ensure_snmp_port_rule_def ensure_datasource_rule_def
    ensure_residual_current_rule_def ensure_bi_service_rule_def
  by (intro emits_rules)+

lemma ensure_folder_spares [emits_rules]: "emits (spares keep) (ensure_folder api ident title parent)"
  unfolding ensure_folder_def by (intro emits_rules)

lemma ensure_chain_spares [emits_rules]: "emits (spares keep) (ensure_chain api parent chain)"
  by (induction chain arbitrary: parent) (auto intro!: emits_rules)

lemma get_host_spares [emits_rules]: "emits (spares keep) (get_host api nm)"
  unfolding get_host_def by (intro emits_rules)

lemma ensure_host_spares [emits_rules]: "emits (spares keep) (ensure_host api nm folder attrs)"
  unfolding ensure_host_def by (intro emits_rules)

lemma leaf_for_emits:
  assumes "\<And>chain. emits P (ensure_chain api rt chain)"
  shows "emits P (leaf_for api rt role)"
proof -
  have "\<exists>new. trace (snd (leaf_for api rt role w)) = trace w @ new \<and> list_all P new" for w
  proof (cases "map_of (leafs w) role")
    case None
    show ?thesis
    proof (cases "map_of FOLDER_TAXONOMY role")
      case (Some chain)
      obtain r w1 where r: "ensure_chain api rt chain w = (r, w1)" by (metis surj_pair)
      with emitsD [OF assms r] None Some show ?thesis
        by (cases r) (simp_all add: leaf_for_def bnd_def)
    qed (use None in \<open>simp add: leaf_for_def\<close>)
  qed (simp add: leaf_for_def)
  then show ?thesis by (simp add: emits_def)
qed

lemma leaf_for_spares [emits_rules]: "emits (spares keep) (leaf_for api rt role)"
  by (rule leaf_for_emits) (rule emits_rules)

lemma heal_all_emits [emits_rules]: "emits P (heal_all up nms)"
proof -
  have "trace (snd (heal_all up nms w)) = trace w" for w by (induction nms arbitrary: w) auto
  then have "trace (snd (heal_all up nms w)) = trace w @ [] \<and> list_all P []" for w by simp
  then show ?thesis unfolding emits_def by blast
qed

lemma heal_estate_emits [emits_rules]: "emits P (heal_estate up hosts)"
  unfolding heal_estate_def by (rule emits_rules)

lemma ensure_devices_spares [emits_rules]: "emits (spares keep) (ensure_devices api rt live devices ds)"
  by (induction api rt live devices ds rule: ensure_devices.induct) (auto intro!: emits_rules)

lemma setup_snmp_spares [emits_rules]: "emits (spares keep) (setup_snmp api args netsim up rt)"
  unfolding setup_snmp_def Let_def by (intro emits_rules)

lemma ensure_carried_spares [emits_rules]: "emits (spares keep) (ensure_carried api args rt hosts snmp hs)"
  by (induction hs) (auto intro!: emits_rules)

lemma bi_object_spares [emits_rules]: "emits (spares keep) (ensure_bi_object api kind ident body)"
  unfolding ensure_bi_object_def by (intro emits_rules)

lemma tiers_spares [emits_rules]: "emits (spares keep) (ensure_tiers api by_short tiers)"
  by (induction api by_short tiers rule: ensure_tiers.induct) (auto simp: Let_def intro!: emits_rules)

lemma bi_pack_spares [emits_rules]: "emits (spares keep) (ensure_bi_pack api by_short)"
  unfolding ensure_bi_pack_def by (intro emits_rules)

lemma waits_spare [emits_rules]:
  "emits (spares keep) (wait_for_discovery api host n)" "emits (spares keep) (wait_for_job api job n)"
  "emits (spares keep) (poll_activation api run n)"
  by (induction n) (auto intro!: emits_rules)

lemma count_spares [emits_rules]: "emits (spares keep) (monitored_service_count api host)"
  unfolding monitored_service_count_def by (intro emits_rules)

lemma discover_spares [emits_rules]: "emits (spares keep) (discover api polls host skip)"
  unfolding discover_def by (intro emits_rules)

lemma bulk_spares [emits_rules]: "emits (spares keep) (bulk_discover api polls hosts)"
  unfolding bulk_discover_def by (intro emits_rules)

lemma pending_spares [emits_rules]: "emits (spares keep) (pending_hosts api skip fs)"
  by (induction fs) (auto intro!: emits_rules)

lemma discover_each_spares [emits_rules]: "emits (spares keep) (discover_each api polls fs)"
  by (induction fs) (auto intro!: emits_rules)

lemma discover_estate_spares [emits_rules]: "emits (spares keep) (discover_estate e args delivery fs)"
  unfolding discover_estate_def by (intro emits_rules)

lemma activate_spares [emits_rules]: "emits (spares keep) (activate api polls ff)"
  unfolding activate_def by (intro emits_rules)

lemma fingerprint_spares [emits_rules]:
  "emits (spares keep) (read_fingerprint api d)" "emits (spares keep) (write_fingerprint api d fp)"
  unfolding read_fingerprint_def write_fingerprint_def by (intro emits_rules)+

lemma delete_hosts_spares: "\<forall>nm \<in> set nms. nm \<notin> keep \<Longrightarrow> emits (spares keep) (delete_hosts api nms)"
  by (induction nms) (auto intro!: emits_rules spares_delete_host)

lemma prune_spares: "keep \<subseteq> kept \<Longrightarrow> emits (spares keep) (prune_subtree api rt kept)"
  unfolding prune_subtree_def Let_def by (intro emits_rules delete_hosts_spares) auto

text \<open>The names the devices of a netsim panel have in the site.\<close>

definition device_fqdns :: "netsim_info option \<Rightarrow> string set" where
  "device_fqdns netsim = (case netsim of None \<Rightarrow> {} | Some info \<Rightarrow> (\<lambda>(s, d). d_fqdn d) ` set (n_devices info))"

lemma ensure_devices_result: "ensure_devices api rt live devices ds w = (Inr fqdns, w') \<Longrightarrow> fqdns = map (\<lambda>(s, d). d_fqdn d) ds"
proof (induction ds arbitrary: w fqdns)
  case (Cons x ds)
  obtain s d where x: "x = (s, d)" by (cases x)
  with Cons show ?case by (auto simp: bnd_def ret_def split: prod.splits sum.splits)
qed (simp add: ret_def)

lemma setup_snmp_result:
  assumes "setup_snmp api args netsim up rt w = (Inr fqdns, w')"
  shows "fqdns = (case netsim of None \<Rightarrow> [] | Some info \<Rightarrow> map (\<lambda>(s, d). d_fqdn d) (topo_order (n_devices info)))"
proof (cases netsim)
  case (Some info)
  then show ?thesis using assms ensure_devices_result
    by (fastforce simp: setup_snmp_def Let_def bnd_def ret_def split: prod.splits sum.splits if_splits)
qed (use assms in \<open>auto simp: setup_snmp_def ret_def die_def split: if_splits\<close>)

lemma bnd_emits_if:
  assumes "emits P m" and "\<And>w x w'. m w = (Inr x, w') \<Longrightarrow> emits P (f x)"
  shows "emits P (bnd m f)"
proof -
  have "\<exists>new. trace (snd (bnd m f w)) = trace w @ new \<and> list_all P new" for w
  proof -
    obtain r w1 where r: "m w = (r, w1)" by (metis surj_pair)
    obtain n1 where n1: "trace w1 = trace w @ n1" "list_all P n1" using emitsD [OF assms(1) r] by blast
    show ?thesis
    proof (cases r)
      case (Inr x)
      obtain n2 where "trace (snd (f x w1)) = trace w1 @ n2" "list_all P n2"
        using assms(2) r Inr by (metis emits_def)
      with n1 r Inr show ?thesis by (simp add: bnd_def)
    qed (use n1 r in \<open>simp add: bnd_def\<close>)
  qed
  then show ?thesis by (simp add: emits_def)
qed

lemma setup_objects_spares:
  assumes "distinct (map fst (case e_netsim e of None \<Rightarrow> [] | Some info \<Rightarrow> n_devices info))"
    and "keep = {delivery} \<union> set (map ci_fqdn hosts) \<union> (if a_snmp args = ''off'' then {} else device_fqdns (e_netsim e))"
  shows "emits (spares keep) (setup_objects e args delivery hosts)"
proof -
  let ?rt = "folder_ident [a_folder args]"
  let ?snmp = "if a_snmp args = ''off'' then ret []
      else bnd (setup_snmp (e_api e) args (e_netsim e) (e_up_snmp e) ?rt) (\<lambda>snmp.
           bnd (ensure_residual_current_rule (e_api e) ?rt) (\<lambda>_. ret snmp))"
  have kept: "keep \<subseteq> {delivery} \<union> set (map ci_fqdn hosts) \<union> set snmp" if k: "?snmp w = (Inr snmp, w')" for snmp w w'
  proof (cases "a_snmp args = ''off''")
    case False
    then obtain w1 where "setup_snmp (e_api e) args (e_netsim e) (e_up_snmp e) ?rt w = (Inr snmp, w1)"
      using k by (auto simp: bnd_def ret_def split: prod.splits sum.splits)
    from setup_snmp_result [OF this] have snmp: "set snmp = device_fqdns (e_netsim e)"
    proof (cases "e_netsim e")
      case (Some info)
      then have "set (topo_order (n_devices info)) = set (n_devices info)"
        using topo_perm [of "n_devices info"] assms(1) by (metis mset_eq_setD option.case(2))
      with \<open>snmp = _\<close> Some show ?thesis by (simp add: device_fqdns_def)
    qed (simp add: device_fqdns_def)
    with False show ?thesis by (auto simp: assms(2))
  qed (auto simp: assms(2))
  show ?thesis
    unfolding setup_objects_def Let_def
    by (intro emits_bnd [OF ensure_folder_spares] bnd_emits_if [of _ ?snmp] bnd_emits_if [OF prune_spares] emits_rules)
       (use kept in auto)
qed

text \<open>C17. Setup never deletes a host of the estate, for every behaviour of the site: whatever the site answers
  and wherever the run ends, every deletion it sends is of a rule, or of a host that is neither the
  shell, nor a carried host, nor a device of the panel.\<close>

theorem setup_spares_estate:
  assumes "distinct (map fst (case e_netsim e of None \<Rightarrow> [] | Some info \<Rightarrow> n_devices info))"
    and "setup_flow e args w = (r, w')"
  shows "\<exists>new. trace w' = trace w @ new
    \<and> list_all (\<lambda>q. r_method q = ''DELETE'' \<longrightarrow> (\<exists>rule. r_path q = rule_path rule)
        \<or> (\<exists>nm. r_path q = host_path nm
             \<and> nm \<notin> (case e_shell e of None \<Rightarrow> {} | Some info \<Rightarrow> {s_delivery info} \<union> set (map ci_fqdn (s_carried info)))
             \<and> nm \<notin> (if a_snmp args = ''off'' then {} else device_fqdns (e_netsim e)))) new"
proof -
  define estate where "estate = (case e_shell e of None \<Rightarrow> {} | Some info \<Rightarrow> {s_delivery info} \<union> set (map ci_fqdn (s_carried info)))"
  define keep where "keep = estate \<union> (if a_snmp args = ''off'' then {} else device_fqdns (e_netsim e))"
  have "emits (spares keep) (setup_flow e args)"
  proof (cases "e_shell e")
    case None
    then show ?thesis by (simp add: setup_flow_def emits_die)
  next
    case (Some info)
    have o': "emits (spares keep) (setup_objects e args (s_delivery info) (s_carried info))"
      by (rule setup_objects_spares [OF assms(1)]) (simp add: keep_def estate_def Some)
    show ?thesis unfolding setup_flow_def Some option.case Let_def by (intro emits_rules o')
  qed
  from emitsD [OF this assms(2)] obtain new where "trace w' = trace w @ new" "list_all (spares keep) new" by blast
  moreover have "r_method q = ''DELETE'' \<longrightarrow> (\<exists>rule. r_path q = rule_path rule)
      \<or> (\<exists>nm. r_path q = host_path nm \<and> nm \<notin> estate \<and> nm \<notin> (if a_snmp args = ''off'' then {} else device_fqdns (e_netsim e)))"
    if "spares keep q" for q
    using that unfolding spares_def keep_def by blast
  ultimately show ?thesis unfolding estate_def by (intro exI [of _ new]) (auto simp: list_all_iff)
qed

section \<open>Hosts in order\<close>

text \<open>The hosts looked up, in order: every host the flow makes sure of is looked up first.\<close>

definition host_lookups :: "req list \<Rightarrow> string list" where
  "host_lookups rs = map (drop 21) (map r_path (filter (\<lambda>r. r_method r = ''GET'' \<and> startswith (r_path r) ''/objects/host_config/'') rs))"

definition visits :: "('s, 'a) flow \<Rightarrow> string list \<Rightarrow> bool" where
  "visits f L \<longleftrightarrow> (\<forall>w x w'. f w = (Inr x, w') \<longrightarrow> (\<exists>new. trace w' = trace w @ new \<and> host_lookups new = L))"

lemma host_lookups_append [simp]: "host_lookups (a @ b) = host_lookups a @ host_lookups b"
  by (simp add: host_lookups_def)

lemma visits_ret: "visits (ret x) []"
  by (simp add: visits_def ret_def host_lookups_def)

lemma visits_die: "visits die L"
  by (simp add: visits_def die_def)

lemma visits_bnd: "visits m L \<Longrightarrow> (\<And>x. visits (f x) M) \<Longrightarrow> visits (bnd m f) (L @ M)"
proof -
  assume m: "visits m L" and f: "\<And>x. visits (f x) M"
  show ?thesis
    unfolding visits_def
  proof (intro allI impI)
    fix w x w' assume b: "bnd m f w = (Inr x, w')"
    obtain y w1 where y: "m w = (Inr y, w1)" "f y w1 = (Inr x, w')"
      using b by (auto simp: bnd_def split: prod.splits sum.splits)
    obtain n1 n2 where "trace w1 = trace w @ n1" "host_lookups n1 = L" "trace w' = trace w1 @ n2" "host_lookups n2 = M"
      using m f y unfolding visits_def by meson
    then show "\<exists>new. trace w' = trace w @ new \<and> host_lookups new = L @ M" by (intro exI [of _ "n1 @ n2"]) simp
  qed
qed

lemma visits_request: "host_lookups [r] = L \<Longrightarrow> visits (request api r) L"
  by (auto simp: visits_def request_def split: prod.splits option.splits)

lemma visits_nothing: "emits (\<lambda>r. host_lookups [r] = []) f \<Longrightarrow> visits f []"
proof -
  assume e: "emits (\<lambda>r. host_lookups [r] = []) f"
  have "host_lookups new = []" if "list_all (\<lambda>r. host_lookups [r] = []) new" for new
    using that by (induction new) (auto simp: host_lookups_def split: if_splits)
  with e show ?thesis unfolding visits_def by (meson emitsD)
qed

lemma no_lookup_reqs:
  "host_lookups [get_req (''/objects/folder_config/'' @ p)] = []" "host_lookups [post_req q b] = []"
  "host_lookups [put_req q b] = []" "host_lookups [delete_req q] = []"
  "host_lookups [\<lparr>r_method = ''GET'', r_path = RULES_ALL, r_body = b', r_query = qs, r_etag = et\<rparr>] = []"
  "host_lookups [create_host_req nm fo at'] = []" "host_lookups [update_host_req nm fx] = []"
  by (simp_all add: host_lookups_def get_req_def post_req_def put_req_def delete_req_def create_host_req_def update_host_req_def
      RULES_ALL_def startswith_def)

lemma chain_no_lookup: "emits (\<lambda>r. host_lookups [r] = []) (ensure_chain api rt chain)"
proof (induction chain arbitrary: rt)
  case Nil
  show ?case by (simp add: emits_ret)
next
  case (Cons x chain)
  obtain nm title where x: "x = (nm, title)" by (cases x)
  show ?case unfolding x ensure_chain.simps ensure_folder_def Let_def by (intro emits_rules no_lookup_reqs Cons.IH)
qed

lemma leaf_visits: "visits (leaf_for api rt role) []"
  by (intro visits_nothing leaf_for_emits chain_no_lookup)

lemma rules_visit:
  "visits (ensure_snmp_port_rule api rt p) []" "visits (ensure_usewalk_rule api fs) []"
proof -
  have s: "emits (\<lambda>r. host_lookups [r] = []) (sweep_rules api ours asked rules)" for ours asked rules
    by (induction rules) (auto simp: no_lookup_reqs intro!: emits_rules)
  show "visits (ensure_snmp_port_rule api rt p) []" "visits (ensure_usewalk_rule api fs) []"
    unfolding ensure_snmp_port_rule_def ensure_usewalk_rule_def marked_rules_def create_rule_def
    by (intro visits_nothing emits_rules s no_lookup_reqs)+
qed

lemma ensure_host_visits: "visits (ensure_host api nm folder attrs) [nm]"
proof -
  have g: "visits (get_host api nm) ([nm] @ [])"
    unfolding get_host_def by (intro visits_bnd visits_request visits_ret)
      (simp add: host_lookups_def get_req_def host_path_def startswith_def)
  have "visits (ensure_host api nm folder attrs) ([nm] @ [])"
    unfolding ensure_host_def Let_def
    by (intro visits_bnd [OF g [unfolded append_Nil2]] visits_nothing emits_rules no_lookup_reqs)
  then show ?thesis by simp
qed

lemma ensure_devices_visits: "visits (ensure_devices api rt live devices ds) (map (\<lambda>(s, d). d_fqdn d) ds)"
proof (induction ds)
  case Nil
  show ?case by (simp add: visits_ret)
next
  case (Cons x ds)
  obtain s d where x: "x = (s, d)" by (cases x)
  have "visits (ensure_devices api rt live devices (x # ds)) ([] @ [d_fqdn d] @ map (\<lambda>(s, d). d_fqdn d) ds @ [])"
    unfolding x ensure_devices.simps by (intro visits_bnd leaf_visits ensure_host_visits Cons.IH visits_ret)
  then show ?case by (simp add: x)
qed

text \<open>For every site: a run of the SNMP part that ends well has made sure of exactly the devices of the
  panel, one after the other in the parents-first order, and returns their names in that order.\<close>

theorem snmp_hosts_in_order:
  assumes "setup_snmp api args (Some info) up rt w = (Inr fqdns, w')"
  shows "\<exists>new. trace w' = trace w @ new \<and> host_lookups new = fqdns
    \<and> fqdns = map (\<lambda>(s, d). d_fqdn d) (topo_order (n_devices info))"
proof -
  have h: "visits (heal_all up nms) []" for nms by (intro visits_nothing emits_rules)
  have "visits (setup_snmp api args (Some info) up rt) ([] @ map (\<lambda>(s, d). d_fqdn d) (topo_order (n_devices info)) @ [] @ [])"
    unfolding setup_snmp_def option.case Let_def
    by (intro visits_bnd h ensure_devices_visits visits_ret) (auto intro: rules_visit)
  with assms setup_snmp_result [OF assms] show ?thesis unfolding visits_def by auto
qed


section \<open>A site that grants everything\<close>

text \<open>For concrete runs: a site that answers every request with 200; a flow on it that ends well.\<close>

named_theorems ends_rules

definition grants :: "'s api \<Rightarrow> bool" where
  "grants api \<longleftrightarrow> (\<forall>r s. \<exists>p s'. api r s = (Some p, s') \<and> status p = 200
     \<and> (startswith (r_path r) ''/objects/host_config/'' \<or> payload p = JNull))"

definition ends :: "('s, 'a) flow \<Rightarrow> ('a \<Rightarrow> bool) \<Rightarrow> bool" where
  "ends f Q \<longleftrightarrow> (\<forall>w. \<exists>x w'. f w = (Inr x, w') \<and> Q x)"

abbreviation finishes :: "('s, 'a) flow \<Rightarrow> bool" where
  "finishes f \<equiv> ends f (\<lambda>_. True)"

lemma ends_ret: "Q x \<Longrightarrow> ends (ret x) Q"
  by (simp add: ends_def ret_def)

lemma ends_bnd: "ends m R \<Longrightarrow> (\<And>x. R x \<Longrightarrow> ends (f x) Q) \<Longrightarrow> ends (bnd m f) Q"
  unfolding ends_def bnd_def by (metis (no_types, lifting) case_prod_conv sum.case(2))

lemma ends_request: "grants api \<Longrightarrow> ends (request api r) (\<lambda>p. status p = 200 \<and> (startswith (r_path r) ''/objects/host_config/'' \<or> payload p = JNull))"
  unfolding ends_def
proof
  fix w :: "'a world"
  assume "grants api"
  then obtain p s' where "api r (site w) = (Some p, s')" "status p = 200"
    "startswith (r_path r) ''/objects/host_config/'' \<or> payload p = JNull" unfolding grants_def by blast
  then show "\<exists>p w'. request api r w = (Inr p, w') \<and> status p = 200 \<and> (startswith (r_path r) ''/objects/host_config/'' \<or> payload p = JNull)"
    by (simp add: request_def)
qed

lemma ends_if: "(b \<Longrightarrow> ends f Q) \<Longrightarrow> (\<not> b \<Longrightarrow> ends g Q) \<Longrightarrow> ends (if b then f else g) Q"
  by simp

lemma folder_ends: "grants api \<Longrightarrow> finishes (ensure_folder api ident title parent)"
  unfolding ensure_folder_def by (intro ends_if ends_ret ends_bnd [OF ends_request]) auto

lemma chain_ends: "grants api \<Longrightarrow> finishes (ensure_chain api rt chain)"
proof (induction chain arbitrary: rt)
  case (Cons x chain)
  then show ?case by (cases x) (auto intro!: ends_bnd [OF folder_ends] simp: Let_def)
qed (simp add: ends_ret)

lemma leaf_ends: "grants api \<Longrightarrow> known_role role \<Longrightarrow> finishes (leaf_for api rt role)"
proof -
  assume g: "grants api" and k: "known_role role"
  obtain chain where c: "map_of FOLDER_TAXONOMY role = Some chain"
    using k by (metis known_role_def map_of_eq_None_iff not_Some_eq)
  show ?thesis
    unfolding ends_def
  proof
    fix w
    obtain x w' where "ensure_chain api rt chain w = (Inr x, w')" using chain_ends [OF g] unfolding ends_def by blast
    then show "\<exists>x w'. leaf_for api rt role w = (Inr x, w') \<and> True"
      by (auto simp: leaf_for_def c bnd_def split: option.splits)
  qed
qed

lemma host_ends: "grants api \<Longrightarrow> finishes (ensure_host api nm folder attrs)"
proof -
  assume g: "grants api"
  have "ends (get_host api nm) (\<lambda>h. h \<noteq> None)"
    unfolding get_host_def by (intro ends_bnd [OF ends_request [OF g]] ends_ret) auto
  then show ?thesis
    unfolding ensure_host_def Let_def
    by (rule ends_bnd) (auto intro!: ends_if ends_ret ends_bnd [OF ends_request [OF g]] split: option.splits)
qed

lemma device_role_known: "known_role (device_role s d)"
proof -
  have "known_role (snmp_role s)" by (simp add: snmp_role_def known_role_def FOLDER_TAXONOMY_def)
  then show ?thesis by (simp add: device_role_def split: option.splits)
qed

lemma devices_end: "grants api \<Longrightarrow> finishes (ensure_devices api rt live devices ds)"
proof (induction ds)
  case (Cons x ds)
  then show ?case
    by (cases x) (auto intro!: ends_bnd [OF leaf_ends] device_role_known ends_bnd [OF host_ends] ends_bnd [OF Cons.IH] ends_ret)
qed (simp add: ends_ret)

lemma marked_ends: "grants api \<Longrightarrow> ends (marked_rules api rs desc) (\<lambda>rules. rules = [])"
  unfolding marked_rules_def by (intro ends_bnd [OF ends_request]) (auto simp: RULES_ALL_def startswith_def intro: ends_ret)

lemma create_rule_ends: "grants api \<Longrightarrow> finishes (create_rule api rs fo desc v c)"
  unfolding create_rule_def by (intro ends_bnd [OF ends_request]) (auto intro: ends_ret)

lemma rules_end:
  assumes "grants api"
  shows "finishes (ensure_snmp_port_rule api rt p)" "finishes (ensure_usewalk_rule api fs)" "finishes (ensure_port_rule api d p)"
    "finishes (ensure_datasource_rule api rt dir)" "finishes (ensure_residual_current_rule api rt)" "finishes (ensure_bi_service_rule api d)"
  unfolding ensure_snmp_port_rule_def ensure_usewalk_rule_def ensure_port_rule_def ensure_datasource_rule_def
    ensure_residual_current_rule_def ensure_bi_service_rule_def
  by (rule ends_bnd [OF marked_ends [OF assms]];
      auto simp: first_of_folder_def intro!: create_rule_ends [OF assms] ends_bnd [OF ends_ret [where Q = "\<lambda>b. \<not> b"]])+

lemma heal_ends: "(\<And>nm. up nm) \<Longrightarrow> finishes (heal_all up nms)"
  unfolding ends_def
proof
  fix w :: "'s world" assume u: "\<And>nm. up nm"
  show "\<exists>x w'. heal_all up nms w = (Inr x, w') \<and> True" using u by (induction nms arbitrary: w) auto
qed

lemma setup_snmp_ends: "grants api \<Longrightarrow> (\<And>nm. up nm) \<Longrightarrow> finishes (setup_snmp api args (Some info) up rt)"
  unfolding setup_snmp_def option.case Let_def
  by (intro ends_bnd [OF heal_ends] ends_bnd [OF devices_end] ends_if ends_bnd [where R = "\<lambda>_. True"] rules_end ends_ret TrueI) auto

definition wit_api :: "unit api" where
  "wit_api r s = (Some \<lparr>status = 200, payload = JNull, location = []\<rparr>, s)"

lemma wit_grants: "grants wit_api"
  by (simp add: grants_def wit_api_def)

definition wit_net :: netsim_info where
  "wit_net = \<lparr>n_devices = wit_devices, n_transport = Some ''snmp'', n_port = Some 1161\<rparr>"

definition wit_args :: args where
  "wit_args = \<lparr>a_self_hosted = True, a_snmp = ''on'', a_force = False, a_force_foreign = False, a_folder = ''demo'',
     a_agent_ip = ''127.0.0.1'', a_agent_port = 6559, a_output_dir = ''/tmp''\<rparr>"

definition wit_w :: "unit world" where
  "wit_w = \<lparr>site = (), trace = [], healed = [], leafs = []\<rparr>"

theorem snmp_hosts_in_order_witness:
  "\<exists>fqdns w'. setup_snmp wit_api wit_args (Some wit_net) (\<lambda>_. True) ''~demo'' wit_w = (Inr fqdns, w')
    \<and> host_lookups (trace w') = fqdns \<and> fqdns = map (\<lambda>(s, d). d_fqdn d) (topo_order wit_devices)"
proof -
  obtain fqdns w' where r: "setup_snmp wit_api wit_args (Some wit_net) (\<lambda>_. True) ''~demo'' wit_w = (Inr fqdns, w')"
    using setup_snmp_ends [OF wit_grants, of "\<lambda>_. True"] unfolding ends_def by blast
  from snmp_hosts_in_order [OF r] r show ?thesis by (auto simp: wit_w_def wit_net_def)
qed


end
