(* ===== verification/Cmk_Stamp.thy ===== *)
theory Cmk_Stamp
  imports Cmk_Trace
begin

text \<open>
  The fingerprint label: a run that reconfigured the estate leaves its own fingerprint on the shell
  host, so that the same configuration is recognised next time and nothing but one lookup is sent.
  What is asked of the site is that labels read back as they were written and that activating
  changes leaves them alone (\<open>label_store\<close>).  Bounds on the polling loops; the folder names.
\<close>

section \<open>Labels of the site\<close>

definition labels_req :: "string \<Rightarrow> json \<Rightarrow> req" where
  "labels_req nm v = update_host_req nm [(''labels'', v)]"

definition activation_req :: "req \<Rightarrow> bool" where
  "activation_req r \<longleftrightarrow> r_method r \<in> {''GET'', ''POST''}
     \<and> (startswith (r_path r) ''/domain-types/activation_run/'' \<or> startswith (r_path r) ''/objects/activation_run/'')"

text \<open>\<open>lab s nm\<close> is the labels attribute the site in state \<open>s\<close> has for the host \<open>nm\<close>.\<close>

definition label_store :: "'s api \<Rightarrow> ('s \<Rightarrow> string \<Rightarrow> json) \<Rightarrow> bool" where
  "label_store api lab \<longleftrightarrow>
     (\<forall>nm s p s'. api (get_req (host_path nm)) s = (Some p, s') \<longrightarrow>
        lab s' = lab s \<and> lab s nm = (if status p = 200 then jget (host_attrs (payload p)) ''labels'' else JNull))
   \<and> (\<forall>nm v s p s'. api (labels_req nm v) s = (Some p, s') \<longrightarrow> status p = 200 \<longrightarrow> lab s' nm = v)
   \<and> (\<forall>r s. activation_req r \<longrightarrow> lab (snd (api r s)) = lab s)"

definition stamped :: "('s \<Rightarrow> string \<Rightarrow> json) \<Rightarrow> string \<Rightarrow> string \<Rightarrow> 's world \<Rightarrow> bool" where
  "stamped lab d fp w \<longleftrightarrow> jget (lab (site w) d) FINGERPRINT_LABEL = JStr fp"

definition preserves :: "('s world \<Rightarrow> bool) \<Rightarrow> ('s, 'a) flow \<Rightarrow> bool" where
  "preserves I f \<longleftrightarrow> (\<forall>w. I w \<longrightarrow> I (snd (f w)))"

lemma preserves_ret: "preserves I (ret x)" "preserves I die"
  by (simp_all add: preserves_def ret_def die_def)

lemma preserves_bnd: "preserves I m \<Longrightarrow> (\<And>x. preserves I (f x)) \<Longrightarrow> preserves I (bnd m f)"
proof -
  assume m: "preserves I m" and f: "\<And>x. preserves I (f x)"
  show "preserves I (bnd m f)"
    unfolding preserves_def
  proof (intro allI impI)
    fix w assume i: "I w"
    obtain r w1 where r: "m w = (r, w1)" by (metis surj_pair)
    have "I w1" using m i r by (metis preserves_def snd_conv)
    with f r show "I (snd (bnd m f w))" by (cases r) (simp_all add: bnd_def preserves_def)
  qed
qed

lemma preserves_if: "preserves I f \<Longrightarrow> preserves I g \<Longrightarrow> preserves I (if b then f else g)"
  by simp

lemma activation_preserves:
  assumes "label_store api lab" and "activation_req r"
  shows "preserves (stamped lab d fp) (request api r)"
proof -
  have "lab (snd (api r s)) = lab s" for s using assms unfolding label_store_def by blast
  then show ?thesis
    by (auto simp: preserves_def stamped_def request_def split: prod.splits option.splits) (metis snd_conv)+
qed

lemma activate_preserves: "label_store api lab \<Longrightarrow> preserves (stamped lab d fp) (activate api n ff)"
proof -
  assume l: "label_store api lab"
  have p: "preserves (stamped lab d fp) (poll_activation api run n)" for run
    by (induction n) (auto intro!: preserves_ret preserves_bnd activation_preserves [OF l] simp: activation_req_def get_req_def startswith_def)
  show ?thesis
    unfolding activate_def
    by (intro preserves_bnd activation_preserves [OF l] preserves_if preserves_ret p)
       (simp add: activation_req_def post_req_def startswith_def)
qed

lemma jget_jentries: "map_of (jentries j) k = Some v \<Longrightarrow> jget j k = v"
  by (cases j) auto

lemma write_stamps:
  assumes l: "label_store api lab" and w: "write_fingerprint api d fp w = (Inr x, w')"
  shows "stamped lab d fp w'"
proof -
  obtain p s1 where g: "api (get_req (host_path d)) (site w) = (Some p, s1)"
    using w by (auto simp: write_fingerprint_def get_host_def bnd_def request_def split: prod.splits option.splits sum.splits)
  let ?labels = "jentries (if status p = 200 then jget (host_attrs (payload p)) ''labels'' else JNull)"
  have lab: "lab s1 d = (if status p = 200 then jget (host_attrs (payload p)) ''labels'' else JNull)"
    using l g unfolding label_store_def by metis
  let ?w1 = "w\<lparr>site := s1, trace := trace w @ [get_req (host_path d)]\<rparr>"
  have eq: "write_fingerprint api d fp w =
      (if map_of ?labels FINGERPRINT_LABEL = Some (JStr fp) then (Inr (), ?w1)
       else bnd (request api (labels_req d (JObj (dict_put FINGERPRINT_LABEL (JStr fp) ?labels))))
              (\<lambda>r. if status r \<noteq> 200 then die else ret ()) ?w1)"
    using g by (cases "status p = 200") (simp_all add: write_fingerprint_def get_host_def bnd_def request_def ret_def Let_def labels_req_def)
  show ?thesis
  proof (cases "map_of ?labels FINGERPRINT_LABEL = Some (JStr fp)")
    case True
    moreover have "jget (lab s1 d) FINGERPRINT_LABEL = JStr fp"
      using True unfolding lab [symmetric] by (rule jget_jentries)
    ultimately show ?thesis using eq w by (auto simp: stamped_def)
  next
    case False
    obtain q s2 where q: "api (labels_req d (JObj (dict_put FINGERPRINT_LABEL (JStr fp) ?labels))) s1 = (Some q, s2)" "status q = 200"
      "site w' = s2"
      using eq w False by (auto simp: bnd_def request_def ret_def die_def split: prod.splits option.splits if_splits)
    have "lab s2 d = JObj (dict_put FINGERPRINT_LABEL (JStr fp) ?labels)"
      using l q(1,2) unfolding label_store_def by metis
    then show ?thesis by (simp add: stamped_def q(3) map_of_dict_put)
  qed
qed

lemma read_stamped:
  assumes l: "label_store api lab" and s: "stamped lab d fp w"
  shows "(\<exists>w'. read_fingerprint api d w = (Inr (JStr fp), w') \<and> trace w' = trace w @ [get_req (host_path d)] \<and> healed w' = healed w)
    \<or> (\<exists>w'. read_fingerprint api d w = (Inl SystemExit, w') \<and> trace w' = trace w @ [get_req (host_path d)] \<and> healed w' = healed w)"
proof (cases "api (get_req (host_path d)) (site w)")
  case (Pair q s1)
  show ?thesis
  proof (cases q)
    case None
    with Pair show ?thesis by (simp add: read_fingerprint_def get_host_def bnd_def request_def)
  next
    case (Some p)
    have "lab (site w) d = (if status p = 200 then jget (host_attrs (payload p)) ''labels'' else JNull)"
      using l Pair Some unfolding label_store_def by metis
    with s Pair Some show ?thesis
      by (auto simp: read_fingerprint_def get_host_def bnd_def request_def ret_def stamped_def split: if_splits)
  qed
qed

lemma bnd_Inr: "bnd m f w = (Inr y, w') \<Longrightarrow> \<exists>x w1. m w = (Inr x, w1) \<and> f x w1 = (Inr y, w')"
  by (auto simp: bnd_def split: prod.splits sum.splits)

lemma setup_ends_stamped:
  assumes l: "label_store (e_api e) lab" and i: "e_shell e = Some info"
    and p: "planned_snmp args (e_netsim e) = Inr plan" and r: "setup_flow e args w = (Inr True, w')"
  shows "stamped lab (s_delivery info) (estate_fingerprint (e_sha e) args (s_delivery info) (s_carried info) plan) w'
    \<and> list_all (\<lambda>h. ci_state h \<noteq> None) (s_carried info)"
proof -
  let ?d = "s_delivery info" and ?fp = "estate_fingerprint (e_sha e) args (s_delivery info) (s_carried info) plan"
  have up: "\<not> list_ex (\<lambda>h. ci_state h = None) (s_carried info)"
    using r by (auto simp: setup_flow_def i Let_def die_def split: if_splits)
  have "\<exists>w1 w2. write_fingerprint (e_api e) ?d ?fp w1 = (Inr (), w2)
      \<and> activate (e_api e) (e_act_polls e) (a_force_foreign args) w2 = (Inr (), w')"
    using r up unfolding setup_flow_def i option.case p sum.case Let_def
    by (auto simp: ret_def split: if_splits dest!: bnd_Inr) blast+
  then obtain w1 w2 where w2: "write_fingerprint (e_api e) ?d ?fp w1 = (Inr (), w2)"
    "activate (e_api e) (e_act_polls e) (a_force_foreign args) w2 = (Inr (), w')" by blast
  have "preserves (stamped lab ?d ?fp) (activate (e_api e) (e_act_polls e) (a_force_foreign args))"
    by (rule activate_preserves [OF l])
  with write_stamps [OF l w2(1)] w2(2) have "stamped lab ?d ?fp w'" unfolding preserves_def by (metis snd_conv)
  with up show ?thesis by (simp add: list_ex_iff list_all_iff)
qed

text \<open>C16. Setup is idempotent: after a run that reconfigured the estate, a run with the same panels' answers
  sends a single lookup of the shell host, changes nothing, heals nothing and reports that the estate
  is in sync (or stops there, if the site does not answer).\<close>

theorem setup_is_idempotent:
  assumes "label_store (e_api e) lab" and "e_shell e = Some info" and "planned_snmp args (e_netsim e) = Inr plan"
    and "setup_flow e args w = (Inr True, w')"
  shows "\<exists>r w''. setup_flow e (args\<lparr>a_force := False\<rparr>) w' = (r, w'') \<and> (r = Inr False \<or> r = Inl SystemExit)
    \<and> trace w'' = trace w' @ [get_req (host_path (s_delivery info))] \<and> healed w'' = healed w'"
proof -
  let ?d = "s_delivery info" and ?fp = "estate_fingerprint (e_sha e) args (s_delivery info) (s_carried info) plan"
  let ?args = "args\<lparr>a_force := False\<rparr>"
  have s: "stamped lab ?d ?fp w'" "list_all (\<lambda>h. ci_state h \<noteq> None) (s_carried info)"
    using setup_ends_stamped [OF assms] by blast+
  have same: "estate_fingerprint (e_sha e) ?args ?d (s_carried info) plan = ?fp" "planned_snmp ?args (e_netsim e) = Inr plan"
    using assms(3) by (simp_all add: estate_fingerprint_def fingerprint_canon_def planned_snmp_def split: option.splits if_splits)
  have nl: "\<not> list_ex (\<lambda>h. ci_state h = None) (s_carried info)" using s(2) by (simp add: list_ex_iff list_all_iff)
  from read_stamped [OF assms(1) s(1)] show ?thesis
    by (elim disjE exE; simp add: setup_flow_def assms(2) Let_def nl same bnd_def ret_def)
qed

text \<open>A site with the labels of its hosts as its state, and a run of a shell that carries no host.\<close>

definition written_labels :: "req \<Rightarrow> json" where
  "written_labels r = jget (jget (case r_body r of None \<Rightarrow> JNull | Some b \<Rightarrow> b) ''update_attributes'') ''labels''"

definition host_page :: "json \<Rightarrow> json" where
  "host_page labels = JObj [(''extensions'', JObj [(''attributes'', JObj [(''labels'', labels)])])]"

definition answer :: "json \<Rightarrow> resp option" where
  "answer p = Some \<lparr>status = 200, payload = p, location = []\<rparr>"

definition label_api :: "(string \<Rightarrow> json) api" where
  "label_api r s =
     (let nm = drop 21 (r_path r)
      in if r_method r = ''PUT'' then (answer JNull, s(nm := written_labels r))
         else if startswith (r_path r) ''/objects/host_config/'' then (answer (host_page (s nm)), s)
         else (answer JNull, s))"

lemma label_api_ok: "label_store label_api (\<lambda>s. s)"
  by (auto simp: label_store_def label_api_def get_req_def host_path_def labels_req_def update_host_req_def put_req_def
      startswith_def host_attrs_def activation_req_def answer_def host_page_def written_labels_def Let_def)

lemma label_api_grants: "grants label_api"
  by (simp add: grants_def label_api_def answer_def Let_def)

lemma more_ends:
  assumes g: "grants api"
  shows "finishes (ensure_bi_object api kind ident body)" "finishes (ensure_tiers api by_short tiers)"
    "finishes (ensure_bi_pack api by_short)" "finishes (prune_subtree api rt keep)" "finishes (activate api n ff)"
    "finishes (discover api n h False)" "finishes (write_fingerprint api d fp)" "finishes (read_fingerprint api d)"
proof -
  show o': "finishes (ensure_bi_object api kind ident body)" for kind ident body
    unfolding ensure_bi_object_def by (rule ends_bnd [OF ends_request [OF g]]) (auto intro: ends_ret)
  show t: "finishes (ensure_tiers api by_short tiers)" for tiers
  proof (induction tiers)
    case (Cons x tiers)
    obtain i n ls where x: "x = (i, n, ls)" by (cases x)
    show ?case
      unfolding x ensure_tiers.simps Let_def
      by (intro ends_if Cons.IH ends_bnd [OF o'] ends_bnd [OF Cons.IH] ends_ret TrueI)
  qed (simp add: ends_ret)
  show "finishes (ensure_bi_pack api by_short)"
    unfolding ensure_bi_pack_def by (intro ends_bnd [OF o'] ends_bnd [OF t] ends_if ends_ret o' TrueI)
  show "finishes (prune_subtree api rt keep)"
    unfolding prune_subtree_def Let_def
    by (intro ends_if ends_ret TrueI ends_bnd [OF ends_request [OF g]]) (auto simp: HOSTS_ALL_def get_req_def startswith_def intro: ends_ret)
  show "finishes (activate api n ff)"
    unfolding activate_def by (rule ends_bnd [OF ends_request [OF g]]) (auto simp: post_req_def startswith_def intro: ends_ret)
  show "finishes (discover api n h False)"
    unfolding discover_def
    by (simp, rule ends_bnd [OF ends_ret [where Q = "\<lambda>n. n = None"]])
       (auto simp: has_services_def intro!: ends_bnd [OF ends_request [OF g]] ends_bnd [OF ends_ret [where Q = "\<lambda>_. True"]] ends_ret)
  show "finishes (write_fingerprint api d fp)"
    unfolding write_fingerprint_def get_host_def
    by (rule ends_bnd [where R = "\<lambda>_. True"]; auto simp: Let_def intro!: ends_bnd [OF ends_request [OF g]] ends_ret)
  show "finishes (read_fingerprint api d)"
    unfolding read_fingerprint_def get_host_def
    by (intro ends_bnd [where R = "\<lambda>_. True"] ends_bnd [OF ends_request [OF g]] ends_ret TrueI)
qed

definition wit_around :: "(string \<Rightarrow> json) around" where
  "wit_around = \<lparr>e_api = label_api, e_shell = Some \<lparr>s_delivery = ''gw'', s_carried = []\<rparr>, e_netsim = None, e_up = \<lambda>_. True,
     e_up_snmp = \<lambda>_. True, e_disc_polls = 3, e_bulk_polls = 3, e_act_polls = 3, e_sha = \<lambda>s. s\<rparr>"

definition wit_plain_args :: args where
  "wit_plain_args = wit_args\<lparr>a_snmp := ''off'', a_force := True\<rparr>"

definition wit_world0 :: "(string \<Rightarrow> json) world" where
  "wit_world0 = \<lparr>site = \<lambda>_. JNull, trace = [], healed = [], leafs = []\<rparr>"

lemma wit_run: "\<exists>w'. setup_flow wit_around wit_plain_args wit_world0 = (Inr True, w')"
proof -
  have g: "grants (e_api wit_around)" using label_api_grants by (simp add: wit_around_def)
  have p: "ends (pending_hosts api b []) (\<lambda>x. x = [])" for api b by (simp add: ends_ret)
  have d: "finishes (discover_estate wit_around wit_plain_args ''gw'' [])"
    unfolding discover_estate_def
    by (rule ends_bnd [OF more_ends(6) [OF g]], rule ends_bnd [OF p]) (simp add: ends_ret)
  have off: "a_snmp wit_plain_args = ''off''" "a_self_hosted wit_plain_args" "a_force wit_plain_args"
    by (simp_all add: wit_plain_args_def wit_args_def)
  have n: "ends (ret []) (\<lambda>x. x = [])" "finishes (ret ())" by (simp_all add: ends_ret)
  have c: "carried_order [] = []" by (simp add: carried_order_def)
  have s: "ends (setup_objects wit_around wit_plain_args ''gw'' []) (\<lambda>snmp. snmp = [])"
    unfolding setup_objects_def Let_def off(1) if_P [OF refl] if_P [OF off(2)] c ensure_carried.simps
    apply (rule ends_bnd [OF folder_ends [OF g]])
    apply (rule ends_bnd [OF n(1)])
    apply (rule ends_bnd [OF host_ends [OF g]])
    apply (rule ends_bnd [OF n(2)])
    apply (rule ends_bnd [OF n(2)])
    apply (rule ends_bnd [OF more_ends(4) [OF g]])
    apply (rule ends_bnd [OF rules_end(4) [OF g]])
    apply (rule ends_bnd [OF more_ends(3) [OF g]])
    apply (rule ends_bnd [OF rules_end(6) [OF g]])
    apply (simp add: ends_ret)
    done
  have sh: "e_shell wit_around = Some \<lparr>s_delivery = ''gw'', s_carried = []\<rparr>" by (simp add: wit_around_def)
  have pl: "planned_snmp wit_plain_args (e_netsim wit_around) = Inr []" using off by (simp add: planned_snmp_def)
  have le: "list_ex (\<lambda>h :: carried_info. ci_state h = None) [] = False" by simp
  have j: "ends (ret JNull) (\<lambda>x. x = JNull)" by (simp add: ends_ret)
  have h: "finishes (heal_estate (e_up wit_around) [])" by (simp add: heal_estate_def ends_def)
  have "ends (setup_flow wit_around wit_plain_args) (\<lambda>b. b)"
    unfolding setup_flow_def sh option.case Let_def shell_info.select_convs le if_False pl sum.case if_P [OF off(3)]
    by (rule ends_bnd [OF j], rule ends_if, simp, rule ends_bnd [OF h], rule ends_bnd [OF s], simp only: list.map append_Nil,
        rule ends_bnd [OF d], rule ends_bnd [OF more_ends(5) [OF g]], rule ends_bnd [OF more_ends(6) [OF g]],
        rule ends_bnd [OF more_ends(7) [OF g]], rule ends_bnd [OF more_ends(5) [OF g]])
       (simp add: ends_ret)
  then obtain x w' where "setup_flow wit_around wit_plain_args wit_world0 = (Inr x, w')" "x" unfolding ends_def by blast
  then show ?thesis by simp
qed

theorem setup_is_idempotent_witness:
  "\<exists>w' r w''. setup_flow wit_around wit_plain_args wit_world0 = (Inr True, w')
    \<and> setup_flow wit_around (wit_plain_args\<lparr>a_force := False\<rparr>) w' = (r, w'') \<and> (r = Inr False \<or> r = Inl SystemExit)
    \<and> trace w'' = trace w' @ [get_req (host_path ''gw'')]"
proof -
  obtain w' where w: "setup_flow wit_around wit_plain_args wit_world0 = (Inr True, w')" using wit_run by blast
  have l: "label_store (e_api wit_around) (\<lambda>s. s)" using label_api_ok by (simp add: wit_around_def)
  have sh: "e_shell wit_around = Some \<lparr>s_delivery = ''gw'', s_carried = []\<rparr>" by (simp add: wit_around_def)
  have pl: "planned_snmp wit_plain_args (e_netsim wit_around) = Inr []" by (simp add: planned_snmp_def wit_plain_args_def)
  from setup_is_idempotent [OF l sh pl w] w show ?thesis by auto
qed

theorem setup_spares_estate_witness:
  "\<exists>new. trace (snd (setup_flow wit_around wit_plain_args wit_world0)) = [] @ new
    \<and> list_all (\<lambda>q. r_method q = ''DELETE'' \<longrightarrow> (\<exists>rule. r_path q = rule_path rule) \<or> (\<exists>nm. r_path q = host_path nm \<and> nm \<noteq> ''gw'')) new"
proof -
  have "distinct (map fst (case e_netsim wit_around of None \<Rightarrow> [] | Some info \<Rightarrow> n_devices info))" by (simp add: wit_around_def)
  from setup_spares_estate [OF this prod.collapse [symmetric], of wit_plain_args wit_world0] obtain new
    where n: "trace (snd (setup_flow wit_around wit_plain_args wit_world0)) = trace wit_world0 @ new"
      "list_all (\<lambda>q. r_method q = ''DELETE'' \<longrightarrow> (\<exists>rule. r_path q = rule_path rule)
        \<or> (\<exists>nm. r_path q = host_path nm
             \<and> nm \<notin> (case e_shell wit_around of None \<Rightarrow> {} | Some info \<Rightarrow> {s_delivery info} \<union> set (map ci_fqdn (s_carried info)))
             \<and> nm \<notin> (if a_snmp wit_plain_args = ''off'' then {} else device_fqdns (e_netsim wit_around)))) new"
    by blast
  have "e_shell wit_around = Some \<lparr>s_delivery = ''gw'', s_carried = []\<rparr>" by (simp add: wit_around_def)
  with n show ?thesis by (intro exI [of _ new]) (auto simp: wit_world0_def list_all_iff)
qed

section \<open>Bounds, folder names, tiers\<close>

definition sends_atmost :: "nat \<Rightarrow> ('s, 'a) flow \<Rightarrow> bool" where
  "sends_atmost n f \<longleftrightarrow> (\<forall>w. length (trace (snd (f w))) \<le> length (trace w) + n)"

lemma atmost_ret: "sends_atmost n (ret x)" "sends_atmost n die"
  by (simp_all add: sends_atmost_def ret_def die_def)

lemma atmost_request: "sends_atmost 1 (request api r)"
  by (auto simp: sends_atmost_def request_def split: prod.splits option.splits)

lemma atmost_bnd: "sends_atmost a m \<Longrightarrow> (\<And>x. sends_atmost b (f x)) \<Longrightarrow> sends_atmost (a + b) (bnd m f)"
proof -
  assume m: "sends_atmost a m" and f: "\<And>x. sends_atmost b (f x)"
  have "length (trace (snd (bnd m f w))) \<le> length (trace w) + (a + b)" for w
  proof -
    obtain r w1 where r: "m w = (r, w1)" by (metis surj_pair)
    have 1: "length (trace w1) \<le> length (trace w) + a" using m r by (metis sends_atmost_def snd_conv)
    show ?thesis
    proof (cases r)
      case (Inr x)
      have "length (trace (snd (f x w1))) \<le> length (trace w1) + b" using f by (simp add: sends_atmost_def)
      with 1 r Inr show ?thesis by (simp add: bnd_def)
    qed (use 1 r in \<open>simp add: bnd_def\<close>)
  qed
  then show "sends_atmost (a + b) (bnd m f)" by (simp add: sends_atmost_def)
qed

lemma atmost_mono: "sends_atmost a f \<Longrightarrow> a \<le> b \<Longrightarrow> sends_atmost b f"
  unfolding sends_atmost_def by (meson add_left_mono order_trans)

lemma atmost_if: "sends_atmost n f \<Longrightarrow> sends_atmost n g \<Longrightarrow> sends_atmost n (if b then f else g)"
  by simp

lemma atmost_step: "(\<And>x. sends_atmost n (f x)) \<Longrightarrow> sends_atmost (Suc n) (bnd (request api r) f)"
  using atmost_bnd [OF atmost_request, of n f api r] by simp

lemma waits_atmost:
  "sends_atmost n (wait_for_discovery api host n)" "sends_atmost n (wait_for_job api job n)" "sends_atmost n (poll_activation api run n)"
  by (induction n) (auto intro!: atmost_step atmost_if atmost_ret)


lemma filter_segments: "split_on c s = ws \<Longrightarrow> w \<in> set (filter (\<lambda>w. w \<noteq> []) ws) \<Longrightarrow> w \<noteq> [] \<and> c \<notin> set w"
  using split_on_pieces by auto

lemma tilde_slash_split:
  assumes "ws \<noteq> []" and "\<forall>w \<in> set ws. CHR ''~'' \<notin> set w \<and> CHR ''/'' \<notin> set w"
  shows "split_on (CHR ''/'') (map (\<lambda>c. if c = CHR ''~'' then CHR ''/'' else c) (join_with ''~'' ws)) = ws"
proof -
  have m: "map (\<lambda>c. if c = CHR ''~'' then CHR ''/'' else c) w = w" if "CHR ''~'' \<notin> set w" for w
    using that by (induction w) auto
  have "map (\<lambda>c. if c = CHR ''~'' then CHR ''/'' else c) (join_with ''~'' ws) = join_with ''/'' ws"
    using assms(2) by (induction "''~''" ws rule: join_with.induct) (auto simp: m)
  with assms show ?thesis using split_on_join [of ws "CHR ''/''"] by simp
qed

lemma folder_segs_clean: "w \<in> set (folder_segs f) \<Longrightarrow> w \<noteq> [] \<and> CHR ''~'' \<notin> set w \<and> CHR ''/'' \<notin> set w"
proof -
  let ?g = "map (\<lambda>c. if c = CHR ''~'' then CHR ''/'' else c) f"
  assume w: "w \<in> set (folder_segs f)"
  then have p: "w \<in> set (split_on (CHR ''/'') ?g)" "w \<noteq> []" by (auto simp: folder_segs_def)
  have "set w \<subseteq> set ?g"
  proof -
    have "x \<in> set u \<Longrightarrow> u \<in> set us \<Longrightarrow> x \<in> set (join_with [c] us)" for x :: char and u us c
      by (induction "[c]" us rule: join_with.induct) auto
    from this [of _ w "split_on (CHR ''/'') ?g" "CHR ''/''"] p(1) show ?thesis by auto
  qed
  moreover have "CHR ''~'' \<notin> set ?g" by auto
  ultimately show ?thesis using split_on_pieces [OF p(1)] p(2) by blast
qed

text \<open>Folder names: the segments of an identifier built from parts are the segments of the parts, in
  every notation (\<open>~a~b\<close>, \<open>/a/b\<close>, \<open>a/b\<close>), so a folder named in any notation is recognised as the same one.\<close>

theorem folder_ident_segments: "folder_segs (folder_ident parts) = concat (map folder_segs parts)"
proof (cases "concat (map folder_segs parts) = []")
  case True
  have "folder_segs ''~'' = []" by code_simp
  with True show ?thesis by (simp add: folder_ident_def Let_def)
next
  case False
  let ?ws = "concat (map folder_segs parts)"
  have c: "\<forall>w \<in> set ?ws. w \<noteq> [] \<and> CHR ''~'' \<notin> set w \<and> CHR ''/'' \<notin> set w" using folder_segs_clean by auto
  have sep: "split_on (CHR ''/'') ([] @ CHR ''/'' # x) = [] # split_on (CHR ''/'') x" for x
    by (rule split_on_sep) simp
  have sw: "split_on (CHR ''/'') (map (\<lambda>c. if c = CHR ''~'' then CHR ''/'' else c) (join_with ''~'' ?ws)) = ?ws"
    by (rule tilde_slash_split [OF False]) (use c in blast)
  have "map (\<lambda>c. if c = CHR ''~'' then CHR ''/'' else c) (''~'' @ join_with ''~'' ?ws)
      = [] @ CHR ''/'' # map (\<lambda>c. if c = CHR ''~'' then CHR ''/'' else c) (join_with ''~'' ?ws)" by simp
  then have "split_on (CHR ''/'') (map (\<lambda>c. if c = CHR ''~'' then CHR ''/'' else c) (''~'' @ join_with ''~'' ?ws)) = [] # ?ws"
    by (simp only: sep sw)
  then have "folder_segs (''~'' @ join_with ''~'' ?ws) = filter (\<lambda>s. s \<noteq> []) ([] # ?ws)" unfolding folder_segs_def by (rule arg_cong)
  also have "\<dots> = ?ws" using c by (simp add: filter_id_conv)
  finally show ?thesis using False by (simp add: folder_ident_def Let_def)
qed

lemma tier_nodes_empty: "tier_nodes by_short leaves = [] \<longleftrightarrow> \<not> list_ex (\<lambda>(short, _). by_short short \<noteq> None) leaves"
  by (auto simp: tier_nodes_def list_ex_iff split: option.splits)

lemma ensure_tiers_calls:
  "ensure_tiers api by_short tiers w = (Inr calls, w') \<Longrightarrow>
   calls = map bi_call (map fst (filter (\<lambda>(rid, _, leaves). list_ex (\<lambda>(short, _). by_short short \<noteq> None) leaves) tiers))"
proof (induction tiers arbitrary: w calls)
  case (Cons x tiers)
  obtain i n ls where x: "x = (i, n, ls)" by (cases x)
  show ?case
  proof (cases "tier_nodes by_short ls = []")
    case True
    with Cons tier_nodes_empty [of by_short ls] show ?thesis by (simp add: x)
  next
    case False
    with Cons tier_nodes_empty [of by_short ls] show ?thesis by (auto simp: x Let_def ret_def dest!: bnd_Inr)
  qed
qed (simp add: ret_def)

text \<open>The BI tiers the fingerprint lists are exactly the rules the top BI rule calls: for every site, when
  the tier rules have been made sure of, the calls of the top rule name the applicable tiers.\<close>

theorem tiers_match_fingerprint:
  assumes "ensure_tiers api by_short BI_TIERS w = (Inr calls, w')"
  shows "\<exists>ids. calls = map bi_call ids \<and> sort ids = applicable_tiers by_short"
  using ensure_tiers_calls [OF assms] unfolding applicable_tiers_def by blast

theorem tiers_match_fingerprint_witness:
  "\<exists>calls w' ids. ensure_tiers wit_api [''payment-api'' \<mapsto> ''payment-api.x''] BI_TIERS wit_w = (Inr calls, w')
    \<and> calls = map bi_call ids \<and> sort ids = applicable_tiers [''payment-api'' \<mapsto> ''payment-api.x'']"
proof -
  obtain calls w' where c: "ensure_tiers wit_api [''payment-api'' \<mapsto> ''payment-api.x''] BI_TIERS wit_w = (Inr calls, w')"
    using more_ends(2) [OF wit_grants] unfolding ends_def by blast
  from tiers_match_fingerprint [OF c] c show ?thesis by blast
qed

section \<open>A device that names a missing parent\<close>

text \<open>A device whose parent is not in the panel's set falls back to the core switch as its parent, but
  is put into the first round with it: in name order the printer is created before the core that its
  attributes already name, which the site refuses.\<close>

theorem core_fallback_too_late:
  "map fst (topo_order [(''prt-1'', wit_dev ''prt-1'' (Some ''sw-gone'')), (''sw-core-01'', wit_dev ''sw-core-01'' None)])
     = [''prt-1'', ''sw-core-01'']
   \<and> device_parents [(''prt-1'', wit_dev ''prt-1'' (Some ''sw-gone'')), (''sw-core-01'', wit_dev ''sw-core-01'' None)]
       (wit_dev ''prt-1'' (Some ''sw-gone'')) = [''sw-core-01.x'']"
proof -
  let ?ds = "[(''prt-1'', wit_dev ''prt-1'' (Some ''sw-gone'')), (''sw-core-01'', wit_dev ''sw-core-01'' None)]"
  have s: "sort [''prt-1'', ''sw-core-01''] = [''prt-1'', ''sw-core-01'']" by code_simp
  have r: "topo_round ?ds = [''prt-1'', ''sw-core-01'']"
    by (simp add: topo_round_def topo_ready_def wit_dev_def falsy_def s)
  have "map fst (topo_order ?ds) = [''prt-1'', ''sw-core-01'']"
    by (subst topo_order.simps, unfold r) (simp add: topo_order.simps [of "[]"])
  then show ?thesis
    by (simp add: device_parents_def parent_fqdn_def core_of_def startswith_def wit_dev_def falsy_def)
qed

end
