(* ===== verification/Fleet_Profiles.thy ===== *)
theory Fleet_Profiles
  imports Prelude Complex_Main
begin

text \<open>
  \<open>fleet/profiles.py\<close>: the host classes of the steady-green fleet, as the source lists them.  A class
  is a dict whose optional keys have different defaults at the places that read them, so an optional
  key is an option (a list-valued key that is absent is the empty list everywhere it is read).  The
  class lists are split where a single definition would be too long to read.
\<close>

section \<open>Host classes\<close>

record host_class =
  hc_prefix :: string
  hc_count :: nat
  hc_first :: "nat option"
  hc_os :: "string option"
  hc_role :: string
  hc_descr :: string
  hc_parent :: "string option"
  hc_site :: "string option"
  hc_vm :: "bool option"
  hc_hypervisor :: bool
  hc_ncpu :: "nat option"
  hc_mem_mb :: "nat option"
  hc_load1 :: "real option"
  hc_net_mbs :: "(real \<times> real) option"
  hc_disk :: "(string \<times> nat) option"
  hc_fs :: "(string \<times> nat \<times> real) list"
  hc_units :: "(string \<times> string) list"
  hc_procs :: "(string \<times> nat \<times> nat \<times> string) list"
  hc_services :: "(string \<times> string \<times> string) list"
  hc_win_procs :: "(string \<times> nat \<times> nat \<times> string) list"
  hc_c_used :: "real option"
  hc_d_drive :: "(nat \<times> real) option"
  hc_uptime_days :: "(real \<times> real) option"
  hc_mem_profile :: "(real \<times> real \<times> real) option"

text \<open>The four keys every class has; every other key is absent until it is set.\<close>

definition host_class :: "string \<Rightarrow> nat \<Rightarrow> string \<Rightarrow> string \<Rightarrow> host_class" where
  "host_class prefix n role descr =
     \<lparr>hc_prefix = prefix, hc_count = n, hc_first = None, hc_os = None, hc_role = role, hc_descr = descr,
      hc_parent = None, hc_site = None, hc_vm = None, hc_hypervisor = False, hc_ncpu = None,
      hc_mem_mb = None, hc_load1 = None, hc_net_mbs = None, hc_disk = None, hc_fs = [], hc_units = [],
      hc_procs = [], hc_services = [], hc_win_procs = [], hc_c_used = None, hc_d_drive = None,
      hc_uptime_days = None, hc_mem_profile = None\<rparr>"

text \<open>The account names under \<open>NT AUTHORITY\<close>.\<close>

definition nt_authority :: "string \<Rightarrow> string" where
  "nt_authority account = BS @ BS @ ''NT AUTHORITY'' @ BS @ account"

definition DC :: string where "DC = ''sw-core-01''"
definition WH1 :: string where "WH1 = ''wh1''"
definition WH2 :: string where "WH2 = ''wh2''"

section \<open>The classes\<close>

definition LINUX_CLASSES_1 :: "host_class list" where
  "LINUX_CLASSES_1 = [
   (host_class ''svc-catalog'' 4 ''applications'' ''Product catalog service (gunicorn)'')
    \<lparr>hc_parent := Some DC,
     hc_ncpu := Some 4,
     hc_mem_mb := Some 8192,
     hc_load1 := Some 0.8,
     hc_net_mbs := Some (3.0, 4.5),
     hc_units := [(''catalog.service'', ''Meridian catalog API'')],
     hc_procs := [(''catalog'', 1310720, 480000, ''/opt/meridian/catalog/bin/gunicorn -w 4 catalog.wsgi:app''),
       (''catalog'', 1310720, 465000, ''/opt/meridian/catalog/bin/gunicorn -w 4 catalog.wsgi:app''),
       (''catalog'', 1310720, 472000, ''/opt/meridian/catalog/bin/gunicorn -w 4 catalog.wsgi:app'')]\<rparr>,
   (host_class ''svc-checkout'' 4 ''applications'' ''Checkout / basket service (gunicorn)'')
    \<lparr>hc_parent := Some DC,
     hc_ncpu := Some 4,
     hc_mem_mb := Some 8192,
     hc_load1 := Some 0.9,
     hc_net_mbs := Some (2.5, 2.0),
     hc_units := [(''checkout.service'', ''Meridian checkout API'')],
     hc_procs := [(''checkout'', 1228800, 512000, ''/opt/meridian/checkout/bin/gunicorn -w 4 checkout.wsgi:app''),
       (''checkout'', 1228800, 505000, ''/opt/meridian/checkout/bin/gunicorn -w 4 checkout.wsgi:app'')]\<rparr>,
   (host_class ''svc-order'' 4 ''applications'' ''Order management service (Java)'')
    \<lparr>hc_parent := Some DC,
     hc_ncpu := Some 4,
     hc_mem_mb := Some 16384,
     hc_load1 := Some 1.1,
     hc_net_mbs := Some (2.0, 2.4),
     hc_mem_profile := Some (0.42, 0.28, 0.02),
     hc_units := [(''order-svc.service'', ''Meridian order management'')],
     hc_procs := [(''orders'', 9400000, 5100000, ''java -Xmx6g -jar /opt/meridian/order-svc/order-svc.jar'')]\<rparr>,
   (host_class ''svc-account'' 3 ''applications'' ''Customer account service (gunicorn)'')
    \<lparr>hc_parent := Some DC,
     hc_ncpu := Some 2,
     hc_mem_mb := Some 4096,
     hc_load1 := Some 0.4,
     hc_net_mbs := Some (1.2, 1.4),
     hc_units := [(''account.service'', ''Meridian account API'')],
     hc_procs := [(''account'', 980000, 310000, ''/opt/meridian/account/bin/gunicorn -w 3 account.wsgi:app'')]\<rparr>,
   (host_class ''svc-inventory'' 3 ''applications'' ''Inventory availability service (Java)'')
    \<lparr>hc_parent := Some DC,
     hc_ncpu := Some 4,
     hc_mem_mb := Some 8192,
     hc_load1 := Some 0.7,
     hc_net_mbs := Some (1.8, 1.5),
     hc_mem_profile := Some (0.4, 0.3, 0.02),
     hc_units := [(''inventory-svc.service'', ''Meridian inventory service'')],
     hc_procs := [(''inventory'', 6800000, 3400000, ''java -Xmx3g -jar /opt/meridian/inventory/inventory-svc.jar'')]\<rparr>,
   (host_class ''api-gw'' 2 ''applications'' ''API gateway (nginx + lua)'')
    \<lparr>hc_parent := Some DC,
     hc_ncpu := Some 4,
     hc_mem_mb := Some 8192,
     hc_load1 := Some 0.5,
     hc_net_mbs := Some (9.0, 8.5),
     hc_units := [(''nginx.service'', ''A high performance web server and a reverse proxy server'')],
     hc_procs := [(''root'', 8200, 4100, ''nginx: master process /usr/sbin/nginx''),
       (''www-data'', 1150000, 160000, ''nginx: worker process''),
       (''www-data'', 1150000, 158000, ''nginx: worker process''),
       (''www-data'', 1150000, 162000, ''nginx: worker process''),
       (''www-data'', 1150000, 156000, ''nginx: worker process'')]\<rparr>]"

definition LINUX_CLASSES_2 :: "host_class list" where
  "LINUX_CLASSES_2 = [
   (host_class ''shop-search'' 3 ''applications'' ''Product search (Elasticsearch)'')
    \<lparr>hc_parent := Some DC,
     hc_ncpu := Some 8,
     hc_mem_mb := Some 32768,
     hc_load1 := Some 1.6,
     hc_net_mbs := Some (4.0, 5.0),
     hc_mem_profile := Some (0.55, 0.3, 0.01),
     hc_fs := [(''/var/lib/elasticsearch'', 500, 0.46)],
     hc_units := [(''elasticsearch.service'', ''Elasticsearch'')],
     hc_procs := [(''elasticsearch'', 21000000, 17200000, ''/usr/share/elasticsearch/jdk/bin/java -Xms16g -Xmx16g org.elasticsearch.bootstrap.Elasticsearch'')]\<rparr>,
   (host_class ''shop-media'' 3 ''applications'' ''Media / image resize service'')
    \<lparr>hc_parent := Some DC,
     hc_ncpu := Some 4,
     hc_mem_mb := Some 8192,
     hc_load1 := Some 1.0,
     hc_net_mbs := Some (12.0, 18.0),
     hc_fs := [(''/srv/media-cache'', 400, 0.52)],
     hc_units := [(''imgproxy.service'', ''Meridian image proxy'')],
     hc_procs := [(''imgproxy'', 2400000, 900000, ''/usr/local/bin/imgproxy'')]\<rparr>,
   (host_class ''queue'' 3 ''applications'' ''Message broker (RabbitMQ)'')
    \<lparr>hc_parent := Some DC,
     hc_ncpu := Some 4,
     hc_mem_mb := Some 8192,
     hc_load1 := Some 0.6,
     hc_net_mbs := Some (2.2, 2.2),
     hc_units := [(''rabbitmq-server.service'', ''RabbitMQ Messaging Server'')],
     hc_procs := [(''rabbitmq'', 4900000, 1350000, ''/usr/lib/erlang/erts-13.2/bin/beam.smp -W w -MBas ageffcbf -- -root /usr/lib/erlang -progname erl -- rabbit'')]\<rparr>,
   (host_class ''cache'' 3 ''applications'' ''Object cache (memcached)'')
    \<lparr>hc_parent := Some DC,
     hc_ncpu := Some 2,
     hc_mem_mb := Some 8192,
     hc_load1 := Some 0.3,
     hc_net_mbs := Some (5.0, 6.0),
     hc_mem_profile := Some (0.55, 0.25, 0.01),
     hc_units := [(''memcached.service'', ''memcached daemon'')],
     hc_procs := [(''memcache'', 4600000, 4200000, ''/usr/bin/memcached -m 4096 -p 11211 -u memcache'')]\<rparr>,
   (host_class ''stg-web'' 3 ''applications'' ''Staging web frontend (nginx)'')
    \<lparr>hc_parent := Some DC,
     hc_ncpu := Some 2,
     hc_mem_mb := Some 4096,
     hc_load1 := Some 0.15,
     hc_net_mbs := Some (0.4, 0.35),
     hc_uptime_days := Some (5, 40),
     hc_units := [(''nginx.service'', ''A high performance web server and a reverse proxy server'')],
     hc_procs := [(''root'', 8200, 4000, ''nginx: master process /usr/sbin/nginx''),
       (''www-data'', 240000, 45000, ''nginx: worker process''),
       (''www-data'', 240000, 44000, ''nginx: worker process'')]\<rparr>,
   (host_class ''stg-app'' 4 ''applications'' ''Staging app server (gunicorn)'')
    \<lparr>hc_parent := Some DC,
     hc_ncpu := Some 2,
     hc_mem_mb := Some 4096,
     hc_load1 := Some 0.2,
     hc_net_mbs := Some (0.3, 0.3),
     hc_uptime_days := Some (5, 40),
     hc_units := [(''meridian-stg.service'', ''Meridian staging app'')],
     hc_procs := [(''deploy'', 900000, 280000, ''/opt/meridian/stg/bin/gunicorn -w 2 app.wsgi:app'')]\<rparr>,
   (host_class ''stg-db'' 1 ''databases'' ''Staging PostgreSQL (no plugin deployed)'')
    \<lparr>hc_parent := Some DC,
     hc_ncpu := Some 2,
     hc_mem_mb := Some 8192,
     hc_load1 := Some 0.3,
     hc_net_mbs := Some (0.5, 0.4),
     hc_uptime_days := Some (5, 40),
     hc_mem_profile := Some (0.2, 0.48, 0.12),
     hc_fs := [(''/var/lib/postgresql'', 200, 0.31)],
     hc_units := [(''postgresql@16-main.service'', ''PostgreSQL Cluster 16-main'')],
     hc_procs := [(''postgres'', 2500000, 620000, ''/usr/lib/postgresql/16/bin/postgres -D /var/lib/postgresql/16/main''),
       (''postgres'', 2500000, 180000, ''postgres: 16/main: checkpointer''),
       (''postgres'', 2500000, 95000, ''postgres: 16/main: walwriter'')]\<rparr>,
   (host_class ''erp-app'' 3 ''applications'' ''ERP application server (Java)'')
    \<lparr>hc_parent := Some DC,
     hc_ncpu := Some 8,
     hc_mem_mb := Some 32768,
     hc_load1 := Some 1.8,
     hc_net_mbs := Some (1.5, 1.8),
     hc_mem_profile := Some (0.52, 0.28, 0.02),
     hc_units := [(''erp-app.service'', ''Meridian ERP application server'')],
     hc_procs := [(''erp'', 18500000, 13800000, ''java -Xmx12g -jar /opt/erp/app-server.jar'')]\<rparr>]"

definition LINUX_CLASSES_3 :: "host_class list" where
  "LINUX_CLASSES_3 = [
   (host_class ''erp-db'' 2 ''databases'' ''ERP database (MariaDB, no plugin deployed)'')
    \<lparr>hc_parent := Some DC,
     hc_ncpu := Some 8,
     hc_mem_mb := Some 32768,
     hc_load1 := Some 1.4,
     hc_net_mbs := Some (2.0, 3.5),
     hc_mem_profile := Some (0.55, 0.3, 0.02),
     hc_fs := [(''/var/lib/mysql'', 800, 0.48)],
     hc_units := [(''mariadb.service'', ''MariaDB 10.11 database server'')],
     hc_procs := [(''mysql'', 19800000, 15200000, ''/usr/sbin/mariadbd --basedir=/usr --datadir=/var/lib/mysql'')]\<rparr>,
   (host_class ''bi-app'' 1 ''applications'' ''BI / reporting server (Metabase)'')
    \<lparr>hc_parent := Some DC,
     hc_ncpu := Some 4,
     hc_mem_mb := Some 16384,
     hc_load1 := Some 0.9,
     hc_net_mbs := Some (0.8, 1.6),
     hc_mem_profile := Some (0.45, 0.28, 0.02),
     hc_units := [(''metabase.service'', ''Metabase analytics'')],
     hc_procs := [(''metabase'', 8900000, 5600000, ''java -Xmx4g -jar /opt/metabase/metabase.jar'')]\<rparr>,
   (host_class ''bi-db'' 1 ''databases'' ''BI warehouse (PostgreSQL, no plugin deployed)'')
    \<lparr>hc_parent := Some DC,
     hc_ncpu := Some 8,
     hc_mem_mb := Some 65536,
     hc_load1 := Some 2.2,
     hc_net_mbs := Some (1.5, 4.0),
     hc_mem_profile := Some (0.18, 0.55, 0.14),
     hc_fs := [(''/var/lib/postgresql'', 2000, 0.57)],
     hc_units := [(''postgresql@16-main.service'', ''PostgreSQL Cluster 16-main'')],
     hc_procs := [(''postgres'', 18400000, 3100000, ''/usr/lib/postgresql/16/bin/postgres -D /var/lib/postgresql/16/main''),
       (''postgres'', 18400000, 2400000, ''postgres: 16/main: parallel worker''),
       (''postgres'', 18400000, 890000, ''postgres: 16/main: checkpointer'')]\<rparr>,
   (host_class ''wms-app'' 2 ''applications'' ''Warehouse management system (Java)'')
    \<lparr>hc_parent := Some DC,
     hc_ncpu := Some 8,
     hc_mem_mb := Some 16384,
     hc_load1 := Some 1.2,
     hc_net_mbs := Some (1.8, 1.8),
     hc_mem_profile := Some (0.48, 0.28, 0.02),
     hc_units := [(''wms.service'', ''Meridian WMS application'')],
     hc_procs := [(''wms'', 10200000, 7400000, ''java -Xmx6g -jar /opt/wms/wms-server.jar'')]\<rparr>,
   (host_class ''wms-db'' 2 ''databases'' ''WMS database (PostgreSQL, no plugin deployed)'')
    \<lparr>hc_parent := Some DC,
     hc_ncpu := Some 8,
     hc_mem_mb := Some 32768,
     hc_load1 := Some 1.5,
     hc_net_mbs := Some (1.2, 2.6),
     hc_mem_profile := Some (0.18, 0.52, 0.13),
     hc_fs := [(''/var/lib/postgresql'', 500, 0.44)],
     hc_units := [(''postgresql@16-main.service'', ''PostgreSQL Cluster 16-main'')],
     hc_procs := [(''postgres'', 9800000, 1900000, ''/usr/lib/postgresql/16/bin/postgres -D /var/lib/postgresql/16/main''),
       (''postgres'', 9800000, 640000, ''postgres: 16/main: checkpointer''),
       (''postgres'', 9800000, 210000, ''postgres: 16/main: walwriter'')]\<rparr>,
   (host_class ''k8s-ctl'' 3 ''applications'' ''Kubernetes control-plane node'')
    \<lparr>hc_parent := Some DC,
     hc_ncpu := Some 4,
     hc_mem_mb := Some 16384,
     hc_load1 := Some 1.0,
     hc_net_mbs := Some (2.5, 2.5),
     hc_mem_profile := Some (0.4, 0.3, 0.02),
     hc_fs := [(''/var/lib/etcd'', 100, 0.18)],
     hc_units := [(''kubelet.service'', ''kubelet: The Kubernetes Node Agent''),
       (''containerd.service'', ''containerd container runtime'')],
     hc_procs := [(''root'', 2900000, 320000, ''/usr/bin/kubelet --config=/var/lib/kubelet/config.yaml''),
       (''root'', 3400000, 480000, ''/usr/bin/containerd''),
       (''root'', 11200000, 1450000, ''kube-apiserver --etcd-servers=https://127.0.0.1:2379''),
       (''root'', 10800000, 720000, ''etcd --data-dir=/var/lib/etcd''),
       (''root'', 5600000, 260000, ''kube-controller-manager''),
       (''root'', 4800000, 145000, ''kube-scheduler'')]\<rparr>]"

definition LINUX_CLASSES_4 :: "host_class list" where
  "LINUX_CLASSES_4 = [
   (host_class ''k8s-node'' 18 ''applications'' ''Kubernetes worker node (containerd)'')
    \<lparr>hc_parent := Some DC,
     hc_ncpu := Some 8,
     hc_mem_mb := Some 32768,
     hc_load1 := Some 2.4,
     hc_net_mbs := Some (6.0, 5.0),
     hc_mem_profile := Some (0.55, 0.25, 0.02),
     hc_fs := [(''/var/lib/containerd'', 300, 0.41)],
     hc_units := [(''kubelet.service'', ''kubelet: The Kubernetes Node Agent''),
       (''containerd.service'', ''containerd container runtime'')],
     hc_procs := [(''root'', 3100000, 340000, ''/usr/bin/kubelet --config=/var/lib/kubelet/config.yaml''),
       (''root'', 4200000, 610000, ''/usr/bin/containerd''),
       (''root'', 1800000, 92000, ''/opt/cni/bin/cilium-agent''),
       (''app'', 6400000, 3900000, ''containerd-shim-runc-v2 -namespace k8s.io''),
       (''app'', 5100000, 2800000, ''containerd-shim-runc-v2 -namespace k8s.io''),
       (''app'', 4400000, 2200000, ''containerd-shim-runc-v2 -namespace k8s.io'')]\<rparr>,
   (host_class ''git'' 1 ''applications'' ''GitLab (omnibus)'')
    \<lparr>hc_parent := Some DC,
     hc_ncpu := Some 8,
     hc_mem_mb := Some 32768,
     hc_load1 := Some 1.6,
     hc_net_mbs := Some (2.5, 3.5),
     hc_mem_profile := Some (0.52, 0.28, 0.04),
     hc_fs := [(''/var/opt/gitlab'', 500, 0.49)],
     hc_units := [(''gitlab-runsvdir.service'', ''GitLab Runit supervision process'')],
     hc_procs := [(''git'', 4200000, 1450000, ''puma 6.4.0 (unix:///var/opt/gitlab/gitlab-rails/sockets/gitlab.socket)''),
       (''git'', 3800000, 1180000, ''sidekiq 7.1.6 queues:default,mailers''),
       (''git'', 2600000, 480000, ''/opt/gitlab/embedded/bin/gitaly serve''),
       (''gitlab-psql'', 1900000, 340000, ''/opt/gitlab/embedded/bin/postgres -D /var/opt/gitlab/postgresql/data'')]\<rparr>,
   (host_class ''ci-runner'' 6 ''applications'' ''GitLab CI runner (docker executor)'')
    \<lparr>hc_parent := Some DC,
     hc_ncpu := Some 8,
     hc_mem_mb := Some 16384,
     hc_load1 := Some 2.8,
     hc_net_mbs := Some (3.0, 1.5),
     hc_uptime_days := Some (3, 30),
     hc_units := [(''gitlab-runner.service'', ''GitLab Runner''),
       (''docker.service'', ''Docker Application Container Engine'')],
     hc_procs := [(''root'', 1900000, 110000, ''/usr/bin/gitlab-runner run --working-directory /home/gitlab-runner''),
       (''root'', 3600000, 320000, ''/usr/bin/dockerd -H fd://''),
       (''root'', 2800000, 190000, ''containerd'')]\<rparr>,
   (host_class ''registry'' 1 ''applications'' ''Container image registry (Harbor)'')
    \<lparr>hc_parent := Some DC,
     hc_ncpu := Some 4,
     hc_mem_mb := Some 8192,
     hc_load1 := Some 0.5,
     hc_net_mbs := Some (6.0, 9.0),
     hc_fs := [(''/srv/registry'', 800, 0.55)],
     hc_units := [(''docker.service'', ''Docker Application Container Engine'')],
     hc_procs := [(''root'', 3400000, 300000, ''/usr/bin/dockerd -H fd://''),
       (''10000'', 1600000, 240000, ''registry serve /etc/registry/config.yml'')]\<rparr>,
   (host_class ''dev'' 4 ''applications'' ''Developer sandbox VM'')
    \<lparr>hc_parent := Some DC,
     hc_ncpu := Some 4,
     hc_mem_mb := Some 16384,
     hc_load1 := Some 0.4,
     hc_net_mbs := Some (0.3, 0.2),
     hc_uptime_days := Some (2, 25),
     hc_units := [(''docker.service'', ''Docker Application Container Engine'')],
     hc_procs := [(''root'', 3200000, 280000, ''/usr/bin/dockerd -H fd://'')]\<rparr>,
   (host_class ''dns'' 3 ''infrastructure'' ''Internal DNS resolver (BIND 9)'')
    \<lparr>hc_parent := Some DC,
     hc_ncpu := Some 2,
     hc_mem_mb := Some 4096,
     hc_load1 := Some 0.1,
     hc_net_mbs := Some (0.4, 0.4),
     hc_uptime_days := Some (60, 200),
     hc_units := [(''named.service'', ''BIND Domain Name Server'')],
     hc_procs := [(''bind'', 1450000, 210000, ''/usr/sbin/named -f -u bind'')]\<rparr>,
   (host_class ''proxy'' 2 ''infrastructure'' ''Egress web proxy (Squid)'')
    \<lparr>hc_parent := Some DC,
     hc_ncpu := Some 4,
     hc_mem_mb := Some 8192,
     hc_load1 := Some 0.4,
     hc_net_mbs := Some (7.0, 7.5),
     hc_fs := [(''/var/spool/squid'', 200, 0.62)],
     hc_units := [(''squid.service'', ''Squid Web Proxy Server'')],
     hc_procs := [(''proxy'', 2100000, 950000, ''(squid-1) --kid squid-1 -f /etc/squid/squid.conf''),
       (''root'', 120000, 14000, ''/usr/sbin/squid -f /etc/squid/squid.conf'')]\<rparr>]"

definition LINUX_CLASSES_5 :: "host_class list" where
  "LINUX_CLASSES_5 = [
   (host_class ''ldap'' 2 ''infrastructure'' ''LDAP directory (OpenLDAP)'')
    \<lparr>hc_parent := Some DC,
     hc_ncpu := Some 2,
     hc_mem_mb := Some 4096,
     hc_load1 := Some 0.1,
     hc_net_mbs := Some (0.2, 0.3),
     hc_uptime_days := Some (90, 300),
     hc_units := [(''slapd.service'', ''OpenLDAP standalone server'')],
     hc_procs := [(''openldap'', 1800000, 380000, ''/usr/sbin/slapd -h ldap:/// ldaps:/// -u openldap'')]\<rparr>,
   (host_class ''vpn'' 1 ''infrastructure'' ''Remote-access VPN (WireGuard concentrator)'')
    \<lparr>hc_parent := Some DC,
     hc_ncpu := Some 2,
     hc_mem_mb := Some 4096,
     hc_load1 := Some 0.2,
     hc_net_mbs := Some (4.0, 4.0),
     hc_units := [(''wg-quick@wg0.service'', ''WireGuard via wg-quick(8) for wg0'')],
     hc_procs := []\<rparr>,
   (host_class ''bastion'' 2 ''infrastructure'' ''SSH jump host'')
    \<lparr>hc_parent := Some DC,
     hc_ncpu := Some 2,
     hc_mem_mb := Some 2048,
     hc_load1 := Some 0.05,
     hc_net_mbs := Some (0.1, 0.1),
     hc_uptime_days := Some (60, 250),
     hc_procs := []\<rparr>,
   (host_class ''sftp'' 1 ''infrastructure'' ''B2B file exchange (SFTP)'')
    \<lparr>hc_parent := Some DC,
     hc_ncpu := Some 2,
     hc_mem_mb := Some 4096,
     hc_load1 := Some 0.1,
     hc_net_mbs := Some (1.5, 1.0),
     hc_fs := [(''/srv/sftp'', 500, 0.38)],
     hc_procs := []\<rparr>,
   (host_class ''repo'' 1 ''infrastructure'' ''APT mirror / package repo'')
    \<lparr>hc_parent := Some DC,
     hc_ncpu := Some 2,
     hc_mem_mb := Some 4096,
     hc_load1 := Some 0.1,
     hc_net_mbs := Some (1.0, 3.0),
     hc_fs := [(''/srv/mirror'', 1000, 0.66)],
     hc_units := [(''nginx.service'', ''A high performance web server and a reverse proxy server'')],
     hc_procs := [(''root'', 8200, 4000, ''nginx: master process /usr/sbin/nginx''),
       (''www-data'', 240000, 40000, ''nginx: worker process'')]\<rparr>,
   (host_class ''log'' 4 ''infrastructure'' ''Central log cluster (OpenSearch)'')
    \<lparr>hc_parent := Some DC,
     hc_ncpu := Some 8,
     hc_mem_mb := Some 32768,
     hc_load1 := Some 1.8,
     hc_net_mbs := Some (8.0, 3.0),
     hc_mem_profile := Some (0.55, 0.3, 0.01),
     hc_fs := [(''/var/lib/opensearch'', 1500, 0.58)],
     hc_units := [(''opensearch.service'', ''OpenSearch'')],
     hc_procs := [(''opensearch'', 21500000, 17400000, ''/usr/share/opensearch/jdk/bin/java -Xms16g -Xmx16g org.opensearch.bootstrap.OpenSearch'')]\<rparr>,
   (host_class ''monitoring'' 1 ''infrastructure'' ''Checkmk monitoring server (this site)'')
    \<lparr>hc_parent := Some DC,
     hc_ncpu := Some 8,
     hc_mem_mb := Some 32768,
     hc_load1 := Some 1.4,
     hc_net_mbs := Some (5.0, 2.0),
     hc_mem_profile := Some (0.35, 0.4, 0.05),
     hc_fs := [(''/omd'', 500, 0.34)],
     hc_units := [(''omd.service'', ''Checkmk sites''),
       (''apache2.service'', ''The Apache HTTP Server'')],
     hc_procs := [(''prod'', 1400000, 260000, ''/omd/sites/prod/bin/cmc /omd/sites/prod/var/check_mk/core/config.pb''),
       (''prod'', 980000, 310000, ''/omd/sites/prod/lib/cmc/checkhelper''),
       (''prod'', 980000, 305000, ''/omd/sites/prod/lib/cmc/checkhelper''),
       (''prod'', 2100000, 480000, ''/usr/sbin/apache2 -k start'')]\<rparr>,
   (host_class ''automation'' 1 ''infrastructure'' ''Ansible / AWX automation controller'')
    \<lparr>hc_parent := Some DC,
     hc_ncpu := Some 4,
     hc_mem_mb := Some 16384,
     hc_load1 := Some 0.5,
     hc_net_mbs := Some (0.8, 1.2),
     hc_units := [(''docker.service'', ''Docker Application Container Engine'')],
     hc_procs := [(''root'', 3300000, 290000, ''/usr/bin/dockerd -H fd://''),
       (''awx'', 2800000, 1100000, ''python3 /usr/bin/awx-manage run_dispatcher'')]\<rparr>]"

definition LINUX_CLASSES_6 :: "host_class list" where
  "LINUX_CLASSES_6 = [
   (host_class ''vault'' 1 ''infrastructure'' ''Secrets management (HashiCorp Vault)'')
    \<lparr>hc_parent := Some DC,
     hc_ncpu := Some 2,
     hc_mem_mb := Some 8192,
     hc_load1 := Some 0.15,
     hc_net_mbs := Some (0.3, 0.3),
     hc_uptime_days := Some (60, 200),
     hc_units := [(''vault.service'', ''HashiCorp Vault'')],
     hc_procs := [(''vault'', 2200000, 410000, ''/usr/bin/vault server -config=/etc/vault.d/vault.hcl'')]\<rparr>,
   (host_class ''ntp'' 3 ''infrastructure'' ''Internal NTP server (chrony)'')
    \<lparr>hc_parent := Some DC,
     hc_ncpu := Some 2,
     hc_mem_mb := Some 2048,
     hc_load1 := Some 0.05,
     hc_net_mbs := Some (0.05, 0.05),
     hc_uptime_days := Some (120, 380),
     hc_units := [(''chrony.service'', ''chrony, an NTP client/server'')],
     hc_procs := [(''_chrony'', 85000, 4800, ''/usr/sbin/chronyd -F 1'')]\<rparr>,
   (host_class ''wh1-edge'' 3 ''infrastructure'' ''Warehouse 1 edge server (scanner gateway + WMS cache)'')
    \<lparr>hc_site := Some ''wh1'',
     hc_parent := Some WH1,
     hc_ncpu := Some 4,
     hc_mem_mb := Some 8192,
     hc_load1 := Some 0.5,
     hc_net_mbs := Some (1.5, 1.5),
     hc_units := [(''wms-edge.service'', ''Meridian WMS edge gateway'')],
     hc_procs := [(''wms'', 2600000, 780000, ''java -Xmx2g -jar /opt/wms-edge/edge-gateway.jar'')]\<rparr>,
   (host_class ''wh2-edge'' 3 ''infrastructure'' ''Warehouse 2 edge server (scanner gateway + WMS cache)'')
    \<lparr>hc_site := Some ''wh2'',
     hc_parent := Some WH2,
     hc_ncpu := Some 4,
     hc_mem_mb := Some 8192,
     hc_load1 := Some 0.5,
     hc_net_mbs := Some (1.5, 1.5),
     hc_units := [(''wms-edge.service'', ''Meridian WMS edge gateway'')],
     hc_procs := [(''wms'', 2600000, 780000, ''java -Xmx2g -jar /opt/wms-edge/edge-gateway.jar'')]\<rparr>]"

definition LINUX_CLASSES :: "host_class list" where
  "LINUX_CLASSES = LINUX_CLASSES_1 @ LINUX_CLASSES_2 @ LINUX_CLASSES_3 @ LINUX_CLASSES_4 @ LINUX_CLASSES_5 @ LINUX_CLASSES_6"

definition KVM_CLASSES :: "host_class list" where
  "KVM_CLASSES = [
   (host_class ''kvm'' 12 ''virtualization'' ''KVM hypervisor (physical, Dell R760)'')
    \<lparr>hc_site := Some ''dc'',
     hc_os := Some ''linux'',
     hc_vm := Some False,
     hc_hypervisor := True,
     hc_ncpu := Some 48,
     hc_mem_mb := Some 393216,
     hc_load1 := Some 6.0,
     hc_net_mbs := Some (45.0, 45.0),
     hc_mem_profile := Some (0.62, 0.12, 0.01),
     hc_disk := Some (''Micron 7450 MTFDKBG3T8TFR'', 3840),
     hc_fs := [(''/var/lib/libvirt/images'', 3500, 0.55)],
     hc_uptime_days := Some (150, 420),
     hc_units := [(''libvirtd.service'', ''Virtualization daemon''),
       (''virtlogd.service'', ''Virtual machine log manager'')],
     hc_procs := [(''root'', 2900000, 120000, ''/usr/sbin/libvirtd --timeout 120'')]\<rparr>,
   (host_class ''wh1-kvm'' 1 ''virtualization'' ''Warehouse 1 KVM hypervisor (physical, Dell R660)'')
    \<lparr>hc_site := Some ''wh1'',
     hc_os := Some ''linux'',
     hc_vm := Some False,
     hc_hypervisor := True,
     hc_ncpu := Some 16,
     hc_mem_mb := Some 131072,
     hc_load1 := Some 1.5,
     hc_net_mbs := Some (6.0, 6.0),
     hc_mem_profile := Some (0.55, 0.12, 0.01),
     hc_disk := Some (''Micron 7450 MTFDKBG1T9TFR'', 1920),
     hc_fs := [(''/var/lib/libvirt/images'', 1500, 0.4)],
     hc_uptime_days := Some (120, 360),
     hc_units := [(''libvirtd.service'', ''Virtualization daemon''),
       (''virtlogd.service'', ''Virtual machine log manager'')],
     hc_procs := [(''root'', 2900000, 120000, ''/usr/sbin/libvirtd --timeout 120'')]\<rparr>,
   (host_class ''wh2-kvm'' 1 ''virtualization'' ''Warehouse 2 KVM hypervisor (physical, Dell R660)'')
    \<lparr>hc_site := Some ''wh2'',
     hc_os := Some ''linux'',
     hc_vm := Some False,
     hc_hypervisor := True,
     hc_ncpu := Some 16,
     hc_mem_mb := Some 131072,
     hc_load1 := Some 1.5,
     hc_net_mbs := Some (6.0, 6.0),
     hc_mem_profile := Some (0.55, 0.12, 0.01),
     hc_disk := Some (''Micron 7450 MTFDKBG1T9TFR'', 1920),
     hc_fs := [(''/var/lib/libvirt/images'', 1500, 0.4)],
     hc_uptime_days := Some (120, 360),
     hc_units := [(''libvirtd.service'', ''Virtualization daemon''),
       (''virtlogd.service'', ''Virtual machine log manager'')],
     hc_procs := [(''root'', 2900000, 120000, ''/usr/sbin/libvirtd --timeout 120'')]\<rparr>]"

definition WINDOWS_CLASSES_1 :: "host_class list" where
  "WINDOWS_CLASSES_1 = [
   (host_class ''win-dc'' 2 ''windows'' ''Active Directory domain controller (Windows Server 2022)'')
    \<lparr>hc_first := Some 2,
     hc_parent := Some DC,
     hc_ncpu := Some 4,
     hc_mem_mb := Some 16384,
     hc_c_used := Some 0.48,
     hc_uptime_days := Some (30, 120),
     hc_services := [(''NTDS'', ''running/auto'', ''Active Directory Domain Services''),
       (''DNS'', ''running/auto'', ''DNS Server''),
       (''Netlogon'', ''running/auto'', ''Netlogon''),
       (''Kdc'', ''running/auto'', ''Kerberos Key Distribution Center''),
       (''ADWS'', ''running/auto'', ''Active Directory Web Services''),
       (''DFSR'', ''running/auto'', ''DFS Replication''),
       (''DHCPServer'', ''running/auto'', ''DHCP Server'')],
     hc_win_procs := [((nt_authority ''SYSTEM''), 232800, 58200, ''lsass.exe''),
       ((nt_authority ''NETWORK SERVICE''), 124800, 31200, ''dns.exe''),
       ((nt_authority ''SYSTEM''), 113600, 28400, ''Microsoft.ActiveDirectory.WebServices.exe''),
       ((nt_authority ''SYSTEM''), 79200, 19800, ''dfsrs.exe'')]\<rparr>,
   (host_class ''win-file'' 4 ''windows'' ''Windows file server'')
    \<lparr>hc_parent := Some DC,
     hc_ncpu := Some 4,
     hc_mem_mb := Some 16384,
     hc_c_used := Some 0.42,
     hc_d_drive := Some (2048, 0.63),
     hc_services := [(''Dfs'', ''running/auto'', ''DFS Namespace''),
       (''SearchIndexer'', ''running/auto'', ''Windows Search'')],
     hc_win_procs := [((nt_authority ''SYSTEM''), 98000, 32000, ''dfssvc.exe''),
       ((nt_authority ''SYSTEM''), 310000, 88000, ''SearchIndexer.exe'')]\<rparr>,
   (host_class ''win-print'' 1 ''windows'' ''Print server'')
    \<lparr>hc_parent := Some DC,
     hc_ncpu := Some 2,
     hc_mem_mb := Some 8192,
     hc_c_used := Some 0.39,
     hc_services := [(''Spooler'', ''running/auto'', ''Print Spooler'')],
     hc_win_procs := [((nt_authority ''SYSTEM''), 182000, 46000, ''spoolsv.exe'')]\<rparr>,
   (host_class ''win-rds'' 8 ''windows'' ''Remote Desktop session host'')
    \<lparr>hc_parent := Some DC,
     hc_ncpu := Some 8,
     hc_mem_mb := Some 32768,
     hc_c_used := Some 0.58,
     hc_uptime_days := Some (5, 40),
     hc_services := [(''UmRdpService'', ''running/demand'', ''Remote Desktop Services UserMode Port Redirector''),
       (''SessionEnv'', ''running/demand'', ''Remote Desktop Configuration'')],
     hc_win_procs := [((nt_authority ''SYSTEM''), 96000, 24000, ''svchost.exe''),
       (''MERIDIAN'' @ BS @ ''user1'', 480000, 220000, ''explorer.exe''),
       (''MERIDIAN'' @ BS @ ''user2'', 460000, 210000, ''explorer.exe''),
       (''MERIDIAN'' @ BS @ ''user1'', 890000, 410000, ''OUTLOOK.EXE''),
       (''MERIDIAN'' @ BS @ ''user3'', 1240000, 520000, ''EXCEL.EXE'')]\<rparr>,
   (host_class ''win-sql'' 5 ''databases'' ''Microsoft SQL Server 2022'')
    \<lparr>hc_parent := Some DC,
     hc_ncpu := Some 8,
     hc_mem_mb := Some 65536,
     hc_c_used := Some 0.45,
     hc_d_drive := Some (1024, 0.55),
     hc_services := [(''MSSQLSERVER'', ''running/auto'', ''SQL Server (MSSQLSERVER)''),
       (''SQLSERVERAGENT'', ''running/auto'', ''SQL Server Agent (MSSQLSERVER)''),
       (''SQLWriter'', ''running/auto'', ''SQL Server VSS Writer''),
       (''SQLBrowser'', ''stopped/demand'', ''SQL Server Browser'')],
     hc_win_procs := [((nt_authority ''SYSTEM''), 52000000, 48000000, ''sqlservr.exe''),
       ((nt_authority ''SYSTEM''), 210000, 62000, ''SQLAGENT.EXE'')]\<rparr>,
   (host_class ''win-app'' 22 ''applications'' ''Windows LOB application server (IIS)'')
    \<lparr>hc_parent := Some DC,
     hc_ncpu := Some 4,
     hc_mem_mb := Some 16384,
     hc_c_used := Some 0.51,
     hc_services := [(''W3SVC'', ''running/auto'', ''World Wide Web Publishing Service''),
       (''WAS'', ''running/auto'', ''Windows Process Activation Service'')],
     hc_win_procs := [((nt_authority ''SYSTEM''), 145000, 38000, ''inetinfo.exe''),
       (BS @ BS @ ''IIS APPPOOL'' @ BS @ ''MeridianApp'', 1450000, 620000, ''w3wp.exe''),
       (BS @ BS @ ''IIS APPPOOL'' @ BS @ ''MeridianApp'', 1380000, 580000, ''w3wp.exe'')]\<rparr>]"

definition WINDOWS_CLASSES_2 :: "host_class list" where
  "WINDOWS_CLASSES_2 = [
   (host_class ''win-nav'' 2 ''applications'' ''Dynamics 365 Business Central (ERP finance)'')
    \<lparr>hc_parent := Some DC,
     hc_ncpu := Some 8,
     hc_mem_mb := Some 32768,
     hc_c_used := Some 0.49,
     hc_services := [(''MicrosoftDynamicsNavServer$BC230'', ''running/auto'', ''Microsoft Dynamics 365 Business Central Server [BC230]'')],
     hc_win_procs := [((nt_authority ''NETWORK SERVICE''), 6800000, 4100000, ''Microsoft.Dynamics.Nav.Server.exe'')]\<rparr>,
   (host_class ''win-wsus'' 1 ''windows'' ''WSUS update server'')
    \<lparr>hc_parent := Some DC,
     hc_ncpu := Some 4,
     hc_mem_mb := Some 16384,
     hc_c_used := Some 0.44,
     hc_d_drive := Some (500, 0.72),
     hc_services := [(''WsusService'', ''running/auto'', ''WSUS Service''),
       (''W3SVC'', ''running/auto'', ''World Wide Web Publishing Service'')],
     hc_win_procs := [((nt_authority ''NETWORK SERVICE''), 890000, 340000, ''WsusService.exe''),
       (BS @ BS @ ''IIS APPPOOL'' @ BS @ ''WsusPool'', 1100000, 480000, ''w3wp.exe'')]\<rparr>,
   (host_class ''win-pki'' 1 ''windows'' ''Enterprise certificate authority'')
    \<lparr>hc_parent := Some DC,
     hc_ncpu := Some 2,
     hc_mem_mb := Some 8192,
     hc_c_used := Some 0.36,
     hc_uptime_days := Some (60, 200),
     hc_services := [(''CertSvc'', ''running/auto'', ''Active Directory Certificate Services'')],
     hc_win_procs := [((nt_authority ''SYSTEM''), 96000, 30000, ''certsrv.exe'')]\<rparr>,
   (host_class ''win-veeam'' 1 ''windows'' ''Veeam Backup & Replication server'')
    \<lparr>hc_parent := Some DC,
     hc_ncpu := Some 8,
     hc_mem_mb := Some 32768,
     hc_c_used := Some 0.47,
     hc_d_drive := Some (4096, 0.68),
     hc_vm := Some False,
     hc_services := [(''VeeamBackupSvc'', ''running/auto'', ''Veeam Backup Service''),
       (''VeeamBrokerSvc'', ''running/auto'', ''Veeam Broker Service''),
       (''VeeamCatalogSvc'', ''running/auto'', ''Veeam Guest Catalog Service''),
       (''VeeamTransportSvc'', ''running/auto'', ''Veeam Data Mover Service'')],
     hc_win_procs := [((nt_authority ''SYSTEM''), 2400000, 980000, ''Veeam.Backup.Service.exe''),
       ((nt_authority ''SYSTEM''), 1100000, 420000, ''VeeamAgent.exe'')]\<rparr>,
   (host_class ''wh1-win-wcs'' 1 ''applications'' ''Warehouse 1 control system (conveyor/sorter)'')
    \<lparr>hc_site := Some ''wh1'',
     hc_parent := Some WH1,
     hc_ncpu := Some 4,
     hc_mem_mb := Some 16384,
     hc_c_used := Some 0.41,
     hc_uptime_days := Some (60, 250),
     hc_services := [(''MeridianWCS'', ''running/auto'', ''Meridian Warehouse Control System'')],
     hc_win_procs := [((nt_authority ''SYSTEM''), 1900000, 850000, ''Meridian.WCS.Server.exe'')]\<rparr>,
   (host_class ''wh2-win-wcs'' 1 ''applications'' ''Warehouse 2 control system (conveyor/sorter)'')
    \<lparr>hc_site := Some ''wh2'',
     hc_parent := Some WH2,
     hc_ncpu := Some 4,
     hc_mem_mb := Some 16384,
     hc_c_used := Some 0.41,
     hc_uptime_days := Some (60, 250),
     hc_services := [(''MeridianWCS'', ''running/auto'', ''Meridian Warehouse Control System'')],
     hc_win_procs := [((nt_authority ''SYSTEM''), 1900000, 850000, ''Meridian.WCS.Server.exe'')]\<rparr>]"

definition WINDOWS_CLASSES :: "host_class list" where
  "WINDOWS_CLASSES = WINDOWS_CLASSES_1 @ WINDOWS_CLASSES_2"


section \<open>Defaults\<close>

text \<open>\<open>dict.setdefault\<close> on the two keys every class gets.\<close>

definition set_defaults :: "string \<Rightarrow> bool \<Rightarrow> host_class \<Rightarrow> host_class" where
  "set_defaults os vm c =
     c\<lparr>hc_os := (case hc_os c of None \<Rightarrow> Some os | Some x \<Rightarrow> Some x),
       hc_vm := (case hc_vm c of None \<Rightarrow> Some vm | Some x \<Rightarrow> Some x)\<rparr>"

definition all_classes :: "host_class list" where
  "all_classes =
     map (set_defaults ''linux'' True) LINUX_CLASSES @
     map (set_defaults ''linux'' False) KVM_CLASSES @
     map (set_defaults ''windows'' True) WINDOWS_CLASSES"

end
