(* ===== verification/Fleet_Roster.thy ===== *)
theory Fleet_Roster
  imports Fleet_Profiles Replay_Roster
begin

text \<open>
  \<open>expand_roster\<close> of \<open>fleet/serve.py\<close>: the instances of the selected classes, the round robin of each
  site's virtual machines over that site's hypervisors, and the upstream device of every host.  The
  dicts keep their insertion order; a host object is what the roster knows of it (its name, class,
  guests and parent), the fields its constructor draws are in \<open>Fleet_Linux\<close> and \<open>Fleet_Windows\<close>.

  The lemmas give the closed form of every phase and show, for every selection of classes, that the
  parents and the guests agree.
\<close>

section \<open>Reading a class\<close>

definition site_of :: "host_class \<Rightarrow> string" where
  "site_of c = (case hc_site c of None \<Rightarrow> ''dc'' | Some s \<Rightarrow> s)"

definition is_vm :: "host_class \<Rightarrow> bool" where
  "is_vm c = (case hc_vm c of None \<Rightarrow> True | Some b \<Rightarrow> b)"

text \<open>The selected prefixes: \<open>None\<close> when the variable names none.\<close>

definition fleet_wanted :: "string \<Rightarrow> string set option" where
  "fleet_wanted v = (let ps = filter (\<lambda>p. p \<noteq> []) (map strip (split_on (CHR '','') v))
     in if ps = [] then None else Some (set ps))"

definition select_classes :: "string set option \<Rightarrow> host_class list \<Rightarrow> host_class list" where
  "select_classes w cs = filter (\<lambda>c. case w of None \<Rightarrow> True | Some ps \<Rightarrow> hc_prefix c \<in> ps) cs"

text \<open>The names of one class, each with its class.\<close>

type_synonym inst = "string \<times> host_class"

definition instances :: "host_class \<Rightarrow> inst list" where
  "instances c = (let first = (case hc_first c of None \<Rightarrow> 1 | Some n \<Rightarrow> n)
     in map (\<lambda>n. (hc_prefix c @ ''-'' @ pad2 n, c)) [first..<first + hc_count c])"

section \<open>The roster\<close>

record fhost =
  fh_short :: string
  fh_cls :: host_class
  fh_parent :: "string option"
  fh_guests :: "inst list"

definition new_host :: "string \<Rightarrow> host_class \<Rightarrow> inst list \<Rightarrow> fhost" where
  "new_host short c gs = \<lparr>fh_short = short, fh_cls = c, fh_parent = None, fh_guests = gs\<rparr>"

definition DC_TOR :: "string list" where
  "DC_TOR = map (\<lambda>n. ''sw-dc-tor-'' @ pad2 n) [1..<9]"

definition WH_SWITCH :: "(string \<times> string) list" where
  "WH_SWITCH = [(''wh1'', ''wh1-sw-01''), (''wh2'', ''wh2-sw-01'')]"

text \<open>\<open>d.setdefault(k, []).append(v)\<close>\<close>

definition group_add :: "'k \<Rightarrow> 'v \<Rightarrow> ('k \<times> 'v list) list \<Rightarrow> ('k \<times> 'v list) list" where
  "group_add k v d = dict_put k ((case map_of d k of None \<Rightarrow> [] | Some l \<Rightarrow> l) @ [v]) d"

text \<open>First phase: hypervisors are set aside, every other host is built, the virtual machines are
  grouped by site.\<close>

record phase1 =
  p_hosts :: "(string \<times> fhost) list"
  p_vms :: "(string \<times> inst list) list"
  p_hvs :: "(string \<times> host_class \<times> string) list"

definition add_instance :: "inst \<Rightarrow> phase1 \<Rightarrow> phase1" where
  "add_instance i p = (case i of (short, c) \<Rightarrow>
     if hc_hypervisor c then p\<lparr>p_hvs := p_hvs p @ [(short, c, site_of c)]\<rparr>
     else (let p' = p\<lparr>p_hosts := dict_put short (new_host short c []) (p_hosts p)\<rparr>
           in if is_vm c then p'\<lparr>p_vms := group_add (site_of c) (short, c) (p_vms p')\<rparr> else p'))"

definition first_phase :: "inst list \<Rightarrow> phase1" where
  "first_phase is = fold add_instance is \<lparr>p_hosts = [], p_vms = [], p_hvs = []\<rparr>"

definition hv_by_site :: "(string \<times> host_class \<times> string) list \<Rightarrow> (string \<times> string list) list" where
  "hv_by_site hvs = fold (\<lambda>(short, _, site). group_add site short) hvs []"

text \<open>\<open>hv_by_site.get(site) or hv_by_site.get("dc") or []\<close>\<close>

definition pool_of :: "(string \<times> string list) list \<Rightarrow> string \<Rightarrow> string list" where
  "pool_of by_site site =
     (let get = \<lambda>s. case map_of by_site s of None \<Rightarrow> [] | Some l \<Rightarrow> l
      in if get site \<noteq> [] then get site else get ''dc'')"

text \<open>The inner loop: each virtual machine with the hypervisor it is given; nothing without a pool.\<close>

definition spread :: "string list \<Rightarrow> inst list \<Rightarrow> (inst \<times> string) list" where
  "spread pool vms = (if pool = [] then []
     else map (\<lambda>(i, vm). (vm, pool ! (i mod length pool))) (enumerate 0 vms))"

definition assignments :: "phase1 \<Rightarrow> (inst \<times> string) list" where
  "assignments p = concat (map (\<lambda>(site, vms). spread (pool_of (hv_by_site (p_hvs p)) site) vms) (p_vms p))"

text \<open>What one assignment does: the guest list grows, the machine's parent is set.\<close>

definition assign_vm :: "inst \<times> string \<Rightarrow> (string \<times> inst list) list \<times> (string \<times> fhost) list
    \<Rightarrow> (string \<times> inst list) list \<times> (string \<times> fhost) list" where
  "assign_vm a s = (case a of (vm, hv) \<Rightarrow> case s of (guests_of, hosts) \<Rightarrow>
     (map (\<lambda>(k, gs). if k = hv then (k, gs @ [vm]) else (k, gs)) guests_of,
      map (\<lambda>(k, h). if k = fst vm then (k, h\<lparr>fh_parent := Some hv\<rparr>) else (k, h)) hosts))"

text \<open>The switch of a physical host; the counter only moves for the data centre.\<close>

definition hang_off :: "string \<Rightarrow> nat \<Rightarrow> string \<times> nat" where
  "hang_off site dc_rr =
     (if site = ''dc'' then (DC_TOR ! (dc_rr mod length DC_TOR), Suc dc_rr)
      else ((case map_of WH_SWITCH site of Some s \<Rightarrow> s | None \<Rightarrow> DC_TOR ! 0), dc_rr))"

fun build_hypervisors :: "(string \<times> inst list) list \<Rightarrow> (string \<times> host_class \<times> string) list
    \<Rightarrow> (string \<times> fhost) list \<Rightarrow> nat \<Rightarrow> (string \<times> fhost) list \<times> nat" where
  "build_hypervisors guests_of [] hosts rr = (hosts, rr)"
| "build_hypervisors guests_of ((short, c, site) # hvs) hosts rr =
     (let gs = (case map_of guests_of short of None \<Rightarrow> [] | Some g \<Rightarrow> g);
          (sw, rr') = hang_off site rr
      in build_hypervisors guests_of hvs (dict_put short (new_host short c gs\<lparr>fh_parent := Some sw\<rparr>) hosts) rr')"

text \<open>The last loop: any host still without a parent.\<close>

fun hang_rest :: "(string \<times> fhost) list \<Rightarrow> nat \<Rightarrow> (string \<times> fhost) list" where
  "hang_rest [] rr = []"
| "hang_rest ((k, h) # hs) rr =
     (if fh_parent h \<noteq> None \<and> fh_parent h \<noteq> Some [] then (k, h) # hang_rest hs rr
      else (let (sw, rr') = hang_off (site_of (fh_cls h)) rr
            in (k, h\<lparr>fh_parent := Some sw\<rparr>) # hang_rest hs rr'))"

definition expand_classes :: "host_class list \<Rightarrow> (string \<times> fhost) list" where
  "expand_classes cs =
     (let p = first_phase (concat (map instances cs));
          (guests_of, hosts) = fold assign_vm (assignments p) (map (\<lambda>(s, _, _). (s, [])) (p_hvs p), p_hosts p);
          (hosts', rr) = build_hypervisors guests_of (p_hvs p) hosts 0
      in hang_rest hosts' rr)"

definition expand_roster :: "string \<Rightarrow> (string \<times> fhost) list" where
  "expand_roster fleet_classes = expand_classes (select_classes (fleet_wanted fleet_classes) all_classes)"

section \<open>Grouping\<close>

lemma group_fold:
  "map_of (fold (\<lambda>x. group_add (k x) (v x)) xs []) q
     = (let l = map v (filter (\<lambda>x. k x = q) xs) in if l = [] then None else Some l)
   \<and> distinct (map fst (fold (\<lambda>x. group_add (k x) (v x)) xs []))"
proof (induction xs rule: rev_induct)
  case (snoc x xs)
  then show ?case
    by (cases "k x = q") (auto simp: group_add_def map_of_dict_put Let_def intro: dict_put_distinct split: if_splits)
qed simp

definition plain :: "inst \<Rightarrow> bool" where
  "plain i \<longleftrightarrow> \<not> hc_hypervisor (snd i)"

definition guest_vm :: "inst \<Rightarrow> bool" where
  "guest_vm i \<longleftrightarrow> plain i \<and> is_vm (snd i)"

lemma dict_put_new: "k \<notin> fst ` set d \<Longrightarrow> dict_put k v d = d @ [(k, v)]"
  by (simp add: dict_put_def)

lemma first_phase_vms:
  "p_vms (first_phase is) = fold (\<lambda>i. group_add (site_of (snd i)) i) (filter guest_vm is) []"
  unfolding first_phase_def
  by (induction "is" rule: rev_induct)
     (auto simp: add_instance_def guest_vm_def plain_def Let_def split: prod.splits)

lemma first_phase_hvs:
  "p_hvs (first_phase is) = map (\<lambda>i. (fst i, snd i, site_of (snd i))) (filter (\<lambda>i. \<not> plain i) is)"
  unfolding first_phase_def
  by (induction "is" rule: rev_induct) (auto simp: add_instance_def plain_def Let_def split: prod.splits)

lemma first_phase_hosts:
  assumes "distinct (map fst is)"
  shows "p_hosts (first_phase is) = map (\<lambda>i. (fst i, new_host (fst i) (snd i) [])) (filter plain is)"
  using assms unfolding first_phase_def
proof (induction "is" rule: rev_induct)
  case (snoc i "is")
  let ?h = "map (\<lambda>i. (fst i, new_host (fst i) (snd i) [])) (filter plain is)"
  have "fst i \<notin> fst ` set ?h" using snoc.prems by force
  with snoc show ?case
    by (auto simp: add_instance_def plain_def Let_def dict_put_new split: prod.splits)
qed simp

section \<open>Assignments\<close>

lemma map_snd_enumerate_image: "map (f \<circ> snd) (enumerate n xs) = map f xs"
  by (metis map_map map_snd_enumerate)

lemma spread_vms: "map fst (spread pool vms) = (if pool = [] then [] else vms)"
  using map_snd_enumerate [of 0 vms] by (simp add: spread_def comp_def case_prod_beta)

lemma spread_pool: "(vm, hv) \<in> set (spread pool vms) \<Longrightarrow> hv \<in> set pool"
  by (auto simp: spread_def split: if_splits)

lemma first_phase_groups:
  "map_of (p_vms (first_phase is)) q
     = (let l = filter (\<lambda>i. site_of (snd i) = q) (filter guest_vm is) in if l = [] then None else Some l)"
  "distinct (map fst (p_vms (first_phase is)))"
  unfolding first_phase_vms using group_fold [of "\<lambda>i. site_of (snd i)" "\<lambda>i. i" "filter guest_vm is" q]
  by simp_all

lemma vms_entry:
  "(q, l) \<in> set (p_vms (first_phase is)) \<longleftrightarrow>
     l = filter (\<lambda>i. site_of (snd i) = q) (filter guest_vm is) \<and> l \<noteq> []"
proof -
  have "(q, l) \<in> set (p_vms (first_phase is)) \<longleftrightarrow> map_of (p_vms (first_phase is)) q = Some l"
    by (simp add: first_phase_groups(2))
  then show ?thesis unfolding first_phase_groups(1) by (auto simp: Let_def)
qed

definition pool_at :: "inst list \<Rightarrow> string \<Rightarrow> string list" where
  "pool_at is = pool_of (hv_by_site (p_hvs (first_phase is)))"

lemma assigned_mem:
  "vm \<in> fst ` set (assignments (first_phase is)) \<longleftrightarrow>
     vm \<in> set is \<and> guest_vm vm \<and> pool_at is (site_of (snd vm)) \<noteq> []"
proof -
  have "vm \<in> fst ` set (spread pool l) \<longleftrightarrow> pool \<noteq> [] \<and> vm \<in> set l" for pool l
    using arg_cong [OF spread_vms [of pool l], of set] by auto
  then show ?thesis
    by (auto simp: assignments_def image_Union image_image vms_entry pool_at_def case_prod_beta filter_empty_conv
             intro!: bexI [where x = "(site_of (snd vm), filter (\<lambda>i. site_of (snd i) = site_of (snd vm)) (filter guest_vm is))"])
qed

lemma concat_groups_distinct:
  assumes "distinct (map fst d)" and "\<And>q l. (q, l) \<in> set d \<Longrightarrow> distinct (map k l) \<and> (\<forall>x \<in> set l. P x \<and> f x = q)"
    and "\<And>x y. P x \<Longrightarrow> P y \<Longrightarrow> k x = k y \<Longrightarrow> f x = f y"
  shows "distinct (map k (concat (map (\<lambda>(q, l). if E q then [] else l) d)))"
  using assms(1,2)
proof (induction d)
  case (Cons a d)
  obtain q l where a: "a = (q, l)" by (cases a)
  have l: "distinct (map k l)" "\<forall>x \<in> set l. P x \<and> f x = q" using Cons.prems(2) a by auto
  have ih: "distinct (map k (concat (map (\<lambda>(q, l). if E q then [] else l) d)))"
    by (rule Cons.IH) (use Cons.prems in auto)
  have False if x: "x \<in> set l" and r: "(r, m) \<in> set d" and y: "y \<in> set m" and e: "k x = k y" for x r m y
  proof -
    have "P y \<and> f y = r" using Cons.prems(2) [of r m] r y by auto
    then have "q = r" using assms(3) [of x y] l(2) x e by auto
    with r Cons.prems(1) a show False by force
  qed
  then have "k ` set l \<inter> k ` set (concat (map (\<lambda>(q, l). if E q then [] else l) d)) = {}"
    by (fastforce split: if_splits)
  with l(1) ih a show ?case by (simp only: list.map concat.simps case_prod_conv map_append distinct_append set_map) auto
qed simp

lemma assignments_fst:
  "map fst (assignments (first_phase is))
     = concat (map (\<lambda>(q, l). if pool_at is q = [] then [] else l) (p_vms (first_phase is)))"
  unfolding assignments_def pool_at_def map_concat map_map
  by (rule arg_cong [where f = concat], rule map_cong) (auto simp: spread_vms)

lemma names_class:
  assumes "distinct (map fst is)" "x \<in> set is" "y \<in> set is" "fst x = fst y"
  shows "x = y"
  using assms by (metis distinct_map inj_onD)

lemma assignments_distinct:
  assumes d: "distinct (map fst is)"
  shows "distinct (map (fst \<circ> fst) (assignments (first_phase is)))"
proof -
  have "distinct (map fst (concat (map (\<lambda>(q, l). if pool_at is q = [] then [] else l) (p_vms (first_phase is)))))"
  proof (rule concat_groups_distinct [where P = "\<lambda>i. i \<in> set is" and f = "\<lambda>i. site_of (snd i)"])
    fix q l assume "(q, l) \<in> set (p_vms (first_phase is))"
    then show "distinct (map fst l) \<and> (\<forall>x \<in> set l. x \<in> set is \<and> site_of (snd x) = q)"
      using d by (auto simp: vms_entry distinct_map_filter)
  next
    fix x y assume "x \<in> set is" "y \<in> set is" "fst x = fst y"
    then have "x = y" by (rule names_class [OF d])
    then show "site_of (snd x) = site_of (snd y)" by simp
  qed (rule first_phase_groups(2))
  then show ?thesis unfolding assignments_fst [symmetric] by simp
qed

lemma pool_at_mem:
  assumes "hv \<in> set (pool_at is q)"
  shows "hv \<in> fst ` set (filter (\<lambda>i. \<not> plain i) is)"
proof -
  let ?hv = "p_hvs (first_phase is)"
  have g: "hv \<in> fst ` set ?hv" if "map_of (hv_by_site ?hv) s = Some l" "hv \<in> set l" for s l
  proof -
    have h: "hv_by_site ?hv = fold (\<lambda>x. group_add (snd (snd x)) (fst x)) ?hv []"
      unfolding hv_by_site_def by (rule arg_cong [where f = "\<lambda>f. fold f ?hv []"]) (auto simp: fun_eq_iff)
    show ?thesis using that group_fold [of "\<lambda>x. snd (snd x)" fst ?hv s] unfolding h
      by (auto simp: Let_def split: if_splits)
  qed
  have "hv \<in> fst ` set ?hv"
  proof -
    have "\<exists>s l. map_of (hv_by_site ?hv) s = Some l \<and> hv \<in> set l"
      using assms unfolding pool_at_def pool_of_def Let_def
      by (cases "map_of (hv_by_site ?hv) q"; cases "map_of (hv_by_site ?hv) ''dc''") (auto split: if_splits)
    then show ?thesis using g by blast
  qed
  then show ?thesis by (simp add: first_phase_hvs image_image)
qed

lemma assigned_hv:
  assumes "(vm, hv) \<in> set (assignments (first_phase is))"
  shows "hv \<in> fst ` set (filter (\<lambda>i. \<not> plain i) is)"
proof -
  obtain q vms where "(vm, hv) \<in> set (spread (pool_at is q) vms)"
    using assms unfolding assignments_def pool_at_def by auto
  then show ?thesis by (rule pool_at_mem [OF spread_pool])
qed

section \<open>The later phases\<close>

definition given :: "(inst \<times> string) list \<Rightarrow> string \<Rightarrow> string option" where
  "given as k = map_of (map (\<lambda>(vm, hv). (fst vm, hv)) as) k"

lemma given_mem:
  assumes "distinct (map (fst \<circ> fst) as)"
  shows "given as k = Some hv \<longleftrightarrow> (\<exists>c. ((k, c), hv) \<in> set as)"
proof -
  have "distinct (map fst (map (\<lambda>(vm, hv). (fst vm, hv)) as))"
    using assms by (simp add: comp_def case_prod_beta)
  from map_of_eq_Some_iff [OF this, of k hv] show ?thesis unfolding given_def by force
qed

lemma assign_vm_pair:
  "assign_vm (vm, hv) (gs, hs) =
     (map (\<lambda>(k, g). if k = hv then (k, g @ [vm]) else (k, g)) gs,
      map (\<lambda>(k, h). if k = fst vm then (k, h\<lparr>fh_parent := Some hv\<rparr>) else (k, h)) hs)"
  by (simp add: assign_vm_def)

lemma assign_guests:
  "fst (fold assign_vm as (gs, hs)) = map (\<lambda>(k, g). (k, g @ map fst (filter (\<lambda>a. snd a = k) as))) gs"
proof (induction as arbitrary: gs hs)
  case (Cons a as)
  obtain vm hv where a: "a = (vm, hv)" by (cases a)
  show ?case by (auto simp: a assign_vm_pair Cons.IH)
qed (simp add: case_prod_beta)

lemma assign_hosts:
  assumes "distinct (map (fst \<circ> fst) as)"
  shows "snd (fold assign_vm as (gs, hs)) =
    map (\<lambda>(k, h). (k, case given as k of None \<Rightarrow> h | Some hv \<Rightarrow> h\<lparr>fh_parent := Some hv\<rparr>)) hs"
  using assms
proof (induction as arbitrary: gs hs)
  case (Cons a as)
  obtain vm hv where a: "a = (vm, hv)" by (cases a)
  have "given as (fst vm) = None"
    using Cons.prems unfolding given_def map_of_eq_None_iff by (force simp: a)
  with Cons show ?case by (auto simp: a assign_vm_pair given_def)
qed (simp add: given_def case_prod_beta)

definition switches :: "string set" where
  "switches = set DC_TOR \<union> set (map snd WH_SWITCH)"

lemma DC_TOR_length: "length DC_TOR = 8"
  by (simp add: DC_TOR_def)

lemma hang_off_switch: "fst (hang_off s rr) \<in> switches"
proof -
  have t: "DC_TOR ! (i mod length DC_TOR) \<in> set DC_TOR" for i
    by (rule nth_mem) (simp add: DC_TOR_length)
  show ?thesis
    using t [of rr] t [of 0] by (auto simp: hang_off_def switches_def WH_SWITCH_def)
qed

lemma switches_ne: "[] \<notin> switches"
  by (auto simp: switches_def DC_TOR_def WH_SWITCH_def)

text \<open>A host the last loops leave as it is except for a parent out of the switches.\<close>

definition hung :: "fhost \<Rightarrow> fhost \<Rightarrow> bool" where
  "hung h h' \<longleftrightarrow> (if fh_parent h \<noteq> None \<and> fh_parent h \<noteq> Some [] then h' = h
                else (\<exists>sw \<in> switches. h' = h\<lparr>fh_parent := Some sw\<rparr>))"

lemma hang_rest_all: "list_all2 (\<lambda>a b. fst b = fst a \<and> hung (snd a) (snd b)) hs (hang_rest hs rr)"
proof (induction hs rr rule: hang_rest.induct)
  case (2 k h hs rr)
  obtain sw rr' where o: "hang_off (site_of (fh_cls h)) rr = (sw, rr')" by (cases "hang_off (site_of (fh_cls h)) rr")
  then have "sw \<in> switches" using hang_off_switch [of "site_of (fh_cls h)" rr] by simp
  with 2 o show ?case by (auto simp: hung_def)
qed simp

lemma build_hypervisors_hosts:
  assumes "distinct (map fst hvs)" "fst ` set hvs \<inter> fst ` set hosts = {}"
  shows "\<exists>sws rr'. set sws \<subseteq> switches \<and> length sws = length hvs \<and>
    build_hypervisors g hvs hosts rr =
      (hosts @ map (\<lambda>((s, c, _), sw). (s, new_host s c (case map_of g s of None \<Rightarrow> [] | Some l \<Rightarrow> l)\<lparr>fh_parent := Some sw\<rparr>)) (zip hvs sws), rr')"
  using assms
proof (induction g hvs hosts rr rule: build_hypervisors.induct)
  case (2 g s c site hvs hosts rr)
  let ?gs = "case map_of g s of None \<Rightarrow> [] | Some l \<Rightarrow> l"
  obtain sw rr1 where o: "hang_off site rr = (sw, rr1)" by (cases "hang_off site rr")
  then have sw: "sw \<in> switches" using hang_off_switch [of site rr] by simp
  let ?hosts = "dict_put s (new_host s c ?gs\<lparr>fh_parent := Some sw\<rparr>) hosts"
  have new: "?hosts = hosts @ [(s, new_host s c ?gs\<lparr>fh_parent := Some sw\<rparr>)]"
    by (rule dict_put_new) (use "2.prems"(2) in auto)
  have "\<exists>sws rr'. set sws \<subseteq> switches \<and> length sws = length hvs \<and>
    build_hypervisors g hvs ?hosts rr1 =
      (?hosts @ map (\<lambda>((s, c, _), sw). (s, new_host s c (case map_of g s of None \<Rightarrow> [] | Some l \<Rightarrow> l)\<lparr>fh_parent := Some sw\<rparr>)) (zip hvs sws), rr')"
    by (rule "2.IH" [OF refl o [symmetric] refl]) (use "2.prems" new in auto)
  then obtain sws rr' where *: "set sws \<subseteq> switches" "length sws = length hvs"
    "build_hypervisors g hvs ?hosts rr1 =
      (?hosts @ map (\<lambda>((s, c, _), sw). (s, new_host s c (case map_of g s of None \<Rightarrow> [] | Some l \<Rightarrow> l)\<lparr>fh_parent := Some sw\<rparr>)) (zip hvs sws), rr')"
    by blast
  have "build_hypervisors g ((s, c, site) # hvs) hosts rr = build_hypervisors g hvs ?hosts rr1"
    by (simp add: o)
  with * sw new show ?case by (intro exI [where x = "sw # sws"] exI [where x = rr']) simp
qed simp

section \<open>The roster entries\<close>

text \<open>What an entry of the expanded roster is, in terms of the instances.\<close>

definition entry_of :: "inst list \<Rightarrow> string \<times> fhost \<Rightarrow> inst \<Rightarrow> bool" where
  "entry_of is e i \<longleftrightarrow>
     (let as = assignments (first_phase is); h = snd e
      in fst e = fst i \<and> fh_short h = fst i \<and> fh_cls h = snd i \<and>
         fh_guests h = (if plain i then [] else map fst (filter (\<lambda>a. snd a = fst i) as)) \<and>
         (if plain i \<and> given as (fst i) \<noteq> None then fh_parent h = given as (fst i)
          else (\<exists>sw \<in> switches. fh_parent h = Some sw)))"

lemma hung_list:
  assumes "list_all2 (\<lambda>a b. fst b = fst a \<and> hung (snd a) (snd b)) hs hs'"
    and "list_all2 P hs is" and "\<And>a b i. P a i \<Longrightarrow> fst b = fst a \<Longrightarrow> hung (snd a) (snd b) \<Longrightarrow> Q b i"
  shows "list_all2 Q hs' is"
  using assms(1,2)
proof (induction hs hs' arbitrary: "is" rule: list_all2_induct)
  case (Cons a hs b hs')
  then obtain i l where i: "is = i # l" "P a i" "list_all2 P hs l" by (auto simp: list_all2_Cons1)
  have "Q b i" by (rule assms(3) [OF i(2)]) (use Cons.hyps in auto)
  with Cons.IH [OF i(3)] show ?case by (simp add: i(1))
qed simp

lemma expanded_entries:
  assumes d: "distinct (map fst (concat (map instances cs)))" and ne: "[] \<notin> fst ` set (concat (map instances cs))"
  shows "list_all2 (entry_of (concat (map instances cs))) (expand_classes cs)
           (filter plain (concat (map instances cs)) @ filter (\<lambda>i. \<not> plain i) (concat (map instances cs)))"
proof -
  define iss where "iss = concat (map instances cs)"
  let ?p = "first_phase iss" and ?P = "filter plain iss" and ?H = "filter (\<lambda>i. \<not> plain i) iss"
  let ?as = "assignments ?p"
  have di: "distinct (map fst iss)" using d by (simp add: iss_def)
  note da = assignments_distinct [OF di]
  let ?g0 = "map (\<lambda>(s, _, _). (s, [])) (p_hvs ?p) :: (string \<times> inst list) list"
  obtain g h1 where f: "fold assign_vm ?as (?g0, p_hosts ?p) = (g, h1)" by (cases "fold assign_vm ?as (?g0, p_hosts ?p)")
  have g: "g = map (\<lambda>i. (fst i, map fst (filter (\<lambda>a. snd a = fst i) ?as))) ?H"
    using assign_guests [of ?as ?g0 "p_hosts ?p"] unfolding f by (simp add: first_phase_hvs comp_def case_prod_beta)
  let ?h1 = "\<lambda>i. (fst i, case given ?as (fst i) of None \<Rightarrow> new_host (fst i) (snd i) [] | Some hv \<Rightarrow> new_host (fst i) (snd i) []\<lparr>fh_parent := Some hv\<rparr>)"
  have h1: "h1 = map ?h1 ?P"
    using assign_hosts [OF da, of ?g0 "p_hosts ?p"] unfolding f by (simp add: first_phase_hosts [OF di] comp_def)
  have hvs: "p_hvs ?p = map (\<lambda>i. (fst i, snd i, site_of (snd i))) ?H" by (rule first_phase_hvs)
  have dh: "distinct (map fst (p_hvs ?p))" unfolding hvs by (simp add: comp_def distinct_map_filter [OF di])
  have dj: "fst ` set (p_hvs ?p) \<inter> fst ` set h1 = {}"
    unfolding hvs h1 by (auto simp: image_image) (metis names_class [OF di] fst_conv prod.collapse)
  obtain sws rr where b: "set sws \<subseteq> switches" "length sws = length (p_hvs ?p)"
    "build_hypervisors g (p_hvs ?p) h1 0 = (h1 @ map (\<lambda>((s, c, _), sw). (s, new_host s c (case map_of g s of None \<Rightarrow> [] | Some l \<Rightarrow> l)\<lparr>fh_parent := Some sw\<rparr>)) (zip (p_hvs ?p) sws), rr)"
    using build_hypervisors_hosts [OF dh dj] by blast
  define E where "E = map (\<lambda>((s, c, _), sw). (s, new_host s c (case map_of g s of None \<Rightarrow> [] | Some l \<Rightarrow> l)\<lparr>fh_parent := Some sw\<rparr>)) (zip (p_hvs ?p) sws)"
  have R: "expand_classes cs = hang_rest (h1 @ E) rr"
    using f b(3) by (simp add: expand_classes_def Let_def iss_def [symmetric] E_def)
  have gof: "map_of g (fst i) = Some (map fst (filter (\<lambda>a. snd a = fst i) ?as))" if "i \<in> set ?H" for i
  proof -
    have "distinct (map fst g)" unfolding g by (simp add: comp_def distinct_map_filter [OF di])
    with that show ?thesis by (intro map_of_is_SomeI) (auto simp: g)
  qed
  let ?Q = "\<lambda>e i. fst e = fst i \<and> (if plain i then snd e = snd (?h1 i)
      else \<exists>sw \<in> switches. snd e = new_host (fst i) (snd i) (map fst (filter (\<lambda>a. snd a = fst i) ?as))\<lparr>fh_parent := Some sw\<rparr>)"
  have "list_all2 ?Q h1 ?P" unfolding h1 list_all2_map1 by (rule list.rel_refl_strong) simp
  moreover have "list_all2 ?Q E ?H"
    unfolding list_all2_conv_all_nth
  proof (intro conjI allI impI)
    show len: "length E = length ?H" using b(2) by (simp add: E_def hvs)
    fix n assume n: "n < length E"
    then have n': "n < length ?H" "n < length sws" using len b(2) by (simp_all add: hvs)
    then have i: "?H ! n \<in> set ?H" and sw: "sws ! n \<in> switches" using b(1) by (auto dest: nth_mem)
    have "E ! n = (fst (?H ! n), new_host (fst (?H ! n)) (snd (?H ! n)) (map fst (filter (\<lambda>a. snd a = fst (?H ! n)) ?as))\<lparr>fh_parent := Some (sws ! n)\<rparr>)"
      using n' gof [OF i] by (simp add: E_def hvs)
    with i sw show "fst (E ! n) = fst (?H ! n)"
      "if plain (?H ! n) then snd (E ! n) = snd (?h1 (?H ! n))
       else \<exists>sw \<in> switches. snd (E ! n) = new_host (fst (?H ! n)) (snd (?H ! n)) (map fst (filter (\<lambda>a. snd a = fst (?H ! n)) ?as))\<lparr>fh_parent := Some sw\<rparr>"
      by auto
  qed
  ultimately have Q: "list_all2 ?Q (h1 @ E) (?P @ ?H)" by (rule list_all2_appendI)
  have "list_all2 (entry_of iss) (hang_rest (h1 @ E) rr) (?P @ ?H)"
  proof (rule hung_list [OF hang_rest_all Q])
    fix a b i assume q: "?Q a i" and e: "fst b = fst a" and u: "hung (snd a) (snd b)"
    have hv: "hv \<noteq> []" if gv: "given ?as (fst i) = Some hv" for hv
    proof -
      obtain c where "((fst i, c), hv) \<in> set ?as" using gv unfolding given_mem [OF da] ..
      then have "hv \<in> fst ` set ?H" by (rule assigned_hv)
      then have "hv \<in> fst ` set iss" by auto
      with ne show ?thesis unfolding iss_def by blast
    qed
    show "entry_of iss b i"
      using q e u hv switches_ne
      by (cases "given ?as (fst i)")
         (auto simp: entry_of_def hung_def new_host_def Let_def split: if_splits)
  qed
  then show ?thesis by (simp add: R iss_def)
qed

text \<open>The names of the classes as shipped: no two alike under any selection, none of them a switch.\<close>

definition prefixes_ok :: "host_class list \<Rightarrow> bool" where
  "prefixes_ok cs \<longleftrightarrow> distinct (map hc_prefix cs) \<and>
     list_all (\<lambda>p. p \<notin> set [''sw-dc-tor'', ''wh1-sw'', ''wh2-sw'']) (map hc_prefix cs)"

lemma set_defaults_prefix [simp]: "hc_prefix (set_defaults os vm c) = hc_prefix c"
  by (simp add: set_defaults_def)

text \<open>The part of a class the roster depends on.\<close>

definition shape :: "host_class \<Rightarrow> string \<times> nat option \<times> nat \<times> string option \<times> string option \<times> bool option \<times> bool" where
  "shape c = (hc_prefix c, hc_first c, hc_count c, hc_os c, hc_site c, hc_vm c, hc_hypervisor c)"

lemma shapes_LINUX_CLASSES_1: "map shape LINUX_CLASSES_1 = [
     (''svc-catalog'', None, 4, None, None, None, False),
     (''svc-checkout'', None, 4, None, None, None, False),
     (''svc-order'', None, 4, None, None, None, False),
     (''svc-account'', None, 3, None, None, None, False),
     (''svc-inventory'', None, 3, None, None, None, False),
     (''api-gw'', None, 2, None, None, None, False)]"
  by (simp add: LINUX_CLASSES_1_def shape_def host_class_def)

lemma shapes_LINUX_CLASSES_2: "map shape LINUX_CLASSES_2 = [
     (''shop-search'', None, 3, None, None, None, False),
     (''shop-media'', None, 3, None, None, None, False),
     (''queue'', None, 3, None, None, None, False),
     (''cache'', None, 3, None, None, None, False),
     (''stg-web'', None, 3, None, None, None, False),
     (''stg-app'', None, 4, None, None, None, False),
     (''stg-db'', None, 1, None, None, None, False),
     (''erp-app'', None, 3, None, None, None, False)]"
  by (simp add: LINUX_CLASSES_2_def shape_def host_class_def)

lemma shapes_LINUX_CLASSES_3: "map shape LINUX_CLASSES_3 = [
     (''erp-db'', None, 2, None, None, None, False),
     (''bi-app'', None, 1, None, None, None, False),
     (''bi-db'', None, 1, None, None, None, False),
     (''wms-app'', None, 2, None, None, None, False),
     (''wms-db'', None, 2, None, None, None, False),
     (''k8s-ctl'', None, 3, None, None, None, False)]"
  by (simp add: LINUX_CLASSES_3_def shape_def host_class_def)

lemma shapes_LINUX_CLASSES_4: "map shape LINUX_CLASSES_4 = [
     (''k8s-node'', None, 18, None, None, None, False),
     (''git'', None, 1, None, None, None, False),
     (''ci-runner'', None, 6, None, None, None, False),
     (''registry'', None, 1, None, None, None, False),
     (''dev'', None, 4, None, None, None, False),
     (''dns'', None, 3, None, None, None, False),
     (''proxy'', None, 2, None, None, None, False)]"
  by (simp add: LINUX_CLASSES_4_def shape_def host_class_def)

lemma shapes_LINUX_CLASSES_5: "map shape LINUX_CLASSES_5 = [
     (''ldap'', None, 2, None, None, None, False),
     (''vpn'', None, 1, None, None, None, False),
     (''bastion'', None, 2, None, None, None, False),
     (''sftp'', None, 1, None, None, None, False),
     (''repo'', None, 1, None, None, None, False),
     (''log'', None, 4, None, None, None, False),
     (''monitoring'', None, 1, None, None, None, False),
     (''automation'', None, 1, None, None, None, False)]"
  by (simp add: LINUX_CLASSES_5_def shape_def host_class_def)

lemma shapes_LINUX_CLASSES_6: "map shape LINUX_CLASSES_6 = [
     (''vault'', None, 1, None, None, None, False),
     (''ntp'', None, 3, None, None, None, False),
     (''wh1-edge'', None, 3, None, Some ''wh1'', None, False),
     (''wh2-edge'', None, 3, None, Some ''wh2'', None, False)]"
  by (simp add: LINUX_CLASSES_6_def shape_def host_class_def)

lemma shapes_KVM_CLASSES: "map shape KVM_CLASSES = [
     (''kvm'', None, 12, Some ''linux'', Some ''dc'', Some False, True),
     (''wh1-kvm'', None, 1, Some ''linux'', Some ''wh1'', Some False, True),
     (''wh2-kvm'', None, 1, Some ''linux'', Some ''wh2'', Some False, True)]"
  by (simp add: KVM_CLASSES_def shape_def host_class_def)

lemma shapes_WINDOWS_CLASSES_1: "map shape WINDOWS_CLASSES_1 = [
     (''win-dc'', Some 2, 2, None, None, None, False),
     (''win-file'', None, 4, None, None, None, False),
     (''win-print'', None, 1, None, None, None, False),
     (''win-rds'', None, 8, None, None, None, False),
     (''win-sql'', None, 5, None, None, None, False),
     (''win-app'', None, 22, None, None, None, False)]"
  by (simp add: WINDOWS_CLASSES_1_def shape_def host_class_def)

lemma shapes_WINDOWS_CLASSES_2: "map shape WINDOWS_CLASSES_2 = [
     (''win-nav'', None, 2, None, None, None, False),
     (''win-wsus'', None, 1, None, None, None, False),
     (''win-pki'', None, 1, None, None, None, False),
     (''win-veeam'', None, 1, None, None, Some False, False),
     (''wh1-win-wcs'', None, 1, None, Some ''wh1'', None, False),
     (''wh2-win-wcs'', None, 1, None, Some ''wh2'', None, False)]"
  by (simp add: WINDOWS_CLASSES_2_def shape_def host_class_def)

lemmas shapes =
  shapes_LINUX_CLASSES_1 shapes_LINUX_CLASSES_2 shapes_LINUX_CLASSES_3 shapes_LINUX_CLASSES_4 shapes_LINUX_CLASSES_5 shapes_LINUX_CLASSES_6 shapes_KVM_CLASSES shapes_WINDOWS_CLASSES_1 shapes_WINDOWS_CLASSES_2

lemma prefix_shape: "map hc_prefix cs = map fst (map shape cs)"
  by (simp add: shape_def)

lemma shipped_prefixes: "prefixes_ok all_classes"
proof -
  have "map hc_prefix all_classes = map hc_prefix LINUX_CLASSES @ map hc_prefix KVM_CLASSES @ map hc_prefix WINDOWS_CLASSES"
    by (simp add: all_classes_def)
  then show ?thesis
    unfolding prefixes_ok_def by (simp add: prefix_shape LINUX_CLASSES_def WINDOWS_CLASSES_def shapes)
qed

lemma instance_name:
  "i \<in> set (instances c) \<Longrightarrow> snd i = c \<and> (\<exists>n. fst i = (hc_prefix c @ ''-'') @ pad2 n)"
  by (auto simp: instances_def Let_def)

lemma dash_name_inj:
  "(p @ ''-'') @ pad2 n = (q @ ''-'') @ pad2 m \<Longrightarrow> p = q \<and> n = m"
  using name_inj [of "p @ ''-''" "q @ ''-''" n m] by (simp add: digit_char_def)

lemma instances_distinct: "distinct (map fst (instances c))"
  using dash_name_inj [of "hc_prefix c" _ "hc_prefix c"]
  by (simp add: instances_def Let_def comp_def distinct_map inj_on_def)

lemma all_instances_distinct:
  "distinct (map hc_prefix cs) \<Longrightarrow> distinct (map fst (concat (map instances cs)))"
proof (induction cs)
  case (Cons c cs)
  have False if i: "i \<in> set (instances c)" and d: "d \<in> set cs" and j: "j \<in> set (instances d)" and e: "fst i = fst j" for i d j
  proof -
    obtain n m where "fst i = (hc_prefix c @ ''-'') @ pad2 n" "fst j = (hc_prefix d @ ''-'') @ pad2 m"
      using instance_name [OF i] instance_name [OF j] by blast
    then have "hc_prefix c = hc_prefix d" using e dash_name_inj by metis
    with d Cons.prems show False by force
  qed
  then have "fst ` set (instances c) \<inter> fst ` set (concat (map instances cs)) = {}" by fastforce
  with Cons instances_distinct [of c] show ?case by simp
qed simp

lemma pad2_1: "pad2 (Suc 0) = ''01''"
  by code_simp

lemma switch_names:
  "sw \<in> switches \<Longrightarrow> \<exists>p \<in> set [''sw-dc-tor'', ''wh1-sw'', ''wh2-sw'']. \<exists>n. sw = (p @ ''-'') @ pad2 n"
proof -
  assume "sw \<in> switches"
  then consider n where "sw = ''sw-dc-tor-'' @ pad2 n" | "sw = ''wh1-sw-01''" | "sw = ''wh2-sw-01''"
    by (auto simp: switches_def DC_TOR_def WH_SWITCH_def)
  then show ?thesis
  proof cases
    case 2
    then have "sw = (''wh1-sw'' @ ''-'') @ pad2 1" by (simp add: pad2_1)
    then show ?thesis by (intro bexI [where x = "''wh1-sw''"] exI) auto
  next
    case 3
    then have "sw = (''wh2-sw'' @ ''-'') @ pad2 1" by (simp add: pad2_1)
    then show ?thesis by (intro bexI [where x = "''wh2-sw''"] exI) auto
  qed auto
qed

lemma select_prefixes: "prefixes_ok cs \<Longrightarrow> prefixes_ok (select_classes w cs)"
  by (auto simp: prefixes_ok_def select_classes_def list_all_iff distinct_map inj_on_def)

lemma selected_names:
  assumes "prefixes_ok cs"
  shows "distinct (map fst (concat (map instances cs)))"
    and "[] \<notin> fst ` set (concat (map instances cs))"
    and "fst ` set (concat (map instances cs)) \<inter> switches = {}"
proof -
  show "distinct (map fst (concat (map instances cs)))"
    using assms by (intro all_instances_distinct) (simp add: prefixes_ok_def)
  show "[] \<notin> fst ` set (concat (map instances cs))" by (auto dest: instance_name)
  show "fst ` set (concat (map instances cs)) \<inter> switches = {}"
  proof (intro equals0I)
    fix k assume "k \<in> fst ` set (concat (map instances cs)) \<inter> switches"
    then obtain c i where c: "c \<in> set cs" "i \<in> set (instances c)" "fst i = k" and sw: "k \<in> switches" by auto
    obtain p n where p: "p \<in> set [''sw-dc-tor'', ''wh1-sw'', ''wh2-sw'']" "k = (p @ ''-'') @ pad2 n"
      using switch_names [OF sw] by blast
    obtain m where "k = (hc_prefix c @ ''-'') @ pad2 m" using instance_name [OF c(2)] c(3) by blast
    with p(2) have "hc_prefix c = p" using dash_name_inj by metis
    with p(1) c(1) assms show False by (auto simp: prefixes_ok_def list_all_iff)
  qed
qed

section \<open>Parents and guests agree\<close>

text \<open>What the roster promises about an entry, for any instances with names of their own.\<close>

lemma entry_parent:
  assumes d: "distinct (map fst is)" and e: "entry_of is (k, h) i" and i: "i \<in> set is"
  shows "fh_parent h = Some p \<and> p \<notin> switches \<longleftrightarrow> (i, p) \<in> set (assignments (first_phase is)) \<and> p \<notin> switches"
    and "\<exists>p. fh_parent h = Some p"
proof -
  let ?as = "assignments (first_phase is)"
  note da = assignments_distinct [OF d]
  have mem: "given ?as (fst i) = Some p \<longleftrightarrow> (i, p) \<in> set ?as" for p
  proof -
    have "((fst i, c), p) \<in> set ?as \<longleftrightarrow> c = snd i \<and> (i, p) \<in> set ?as" for c
    proof -
      have "(fst i, c) \<in> set is" if "((fst i, c), p) \<in> set ?as"
        using that assigned_mem [of "(fst i, c)" "is"] by force
      then have "((fst i, c), p) \<in> set ?as \<Longrightarrow> (fst i, c) = i" using names_class [OF d _ i] by force
      then show ?thesis by (metis prod.collapse snd_conv)
    qed
    then show ?thesis unfolding given_mem [OF da] by auto
  qed
  have pl: "plain i" if "(i, p) \<in> set ?as" for p
    using that assigned_mem [of i "is"] by (force simp: guest_vm_def)
  show "fh_parent h = Some p \<and> p \<notin> switches \<longleftrightarrow> (i, p) \<in> set ?as \<and> p \<notin> switches"
    using e mem [of p] pl [of p] by (auto simp: entry_of_def Let_def split: if_splits)
  show "\<exists>p. fh_parent h = Some p"
    using e by (auto simp: entry_of_def Let_def split: if_splits)
qed

lemma entry_guests:
  assumes d: "distinct (map fst is)" and e: "entry_of is (p, g) j" and j: "j \<in> set is"
  shows "v \<in> set (fh_guests g) \<longleftrightarrow> (v, p) \<in> set (assignments (first_phase is))"
    and "distinct (map fst (fh_guests g))"
proof -
  let ?as = "assignments (first_phase is)"
  have jp: "fst j = p" using e by (simp add: entry_of_def Let_def)
  have hv: "\<not> plain j" if "(v, p) \<in> set ?as" for v
  proof -
    have "p \<in> fst ` set (filter (\<lambda>i. \<not> plain i) is)" by (rule assigned_hv [OF that])
    then obtain j' where "j' \<in> set is" "\<not> plain j'" "fst j' = p" by auto
    with names_class [OF d this(1) j] jp show ?thesis by simp
  qed
  show "v \<in> set (fh_guests g) \<longleftrightarrow> (v, p) \<in> set ?as"
    using e hv [of v] by (force simp: entry_of_def Let_def split: if_splits)
  have "distinct (map fst (map fst (filter (\<lambda>a. snd a = p) ?as)))"
    using assignments_distinct [OF d] by (simp add: distinct_map_filter)
  then show "distinct (map fst (fh_guests g))"
    using e jp by (auto simp: entry_of_def Let_def split: if_splits)
qed

lemma expanded_lookup:
  assumes "prefixes_ok cs"
  shows "map fst (expand_classes cs) = map fst (filter plain (concat (map instances cs)) @ filter (\<lambda>i. \<not> plain i) (concat (map instances cs)))"
    and "e \<in> set (expand_classes cs) \<Longrightarrow> \<exists>i \<in> set (concat (map instances cs)). entry_of (concat (map instances cs)) e i"
proof -
  let ?is = "concat (map instances cs)"
  let ?l = "filter plain ?is @ filter (\<lambda>i. \<not> plain i) ?is"
  note L = expanded_entries [OF selected_names(1,2) [OF assms]]
  show "map fst (expand_classes cs) = map fst ?l"
    using L by (induction rule: list_all2_induct) (auto simp: entry_of_def Let_def)
  have "\<exists>i \<in> set ?l. entry_of ?is e i" if "e \<in> set (expand_classes cs)"
    using L that by (metis in_set_conv_nth list_all2_conv_all_nth)
  then show "e \<in> set (expand_classes cs) \<Longrightarrow> \<exists>i \<in> set ?is. entry_of ?is e i" by fastforce
qed

lemma split_distinct: "distinct (map fst xs) \<Longrightarrow> distinct (map fst (filter P xs @ filter (\<lambda>x. \<not> P x) xs))"
  by (auto simp: distinct_map_filter distinct_map inj_on_def)

lemma expanded_distinct: "prefixes_ok cs \<Longrightarrow> distinct (map fst (expand_classes cs))"
  unfolding expanded_lookup(1) by (intro split_distinct selected_names(1))

section \<open>Properties\<close>

lemma switches_known:
  "switches \<subseteq> rs_short ` set (build_replay_devices (\<lambda>m. Some m))"
proof -
  have "list_all (covered (ranges REPLAY_ROSTER Map.empty)) (DC_TOR @ map snd WH_SWITCH)"
    by code_simp
  then have "\<forall>sw \<in> switches. covered (ranges REPLAY_ROSTER Map.empty) sw"
    by (auto simp: switches_def list_all_iff)
  moreover have "sw \<notin> {''sw-core-01'', ''rt-wan-01''}" if "sw \<in> switches" for sw
    using that by (auto simp: switches_def DC_TOR_def WH_SWITCH_def)
  ultimately show ?thesis unfolding roster_names using covered_name by blast
qed

text \<open>C21. For every selection of classes, the fleet's topology is closed and its two views agree: every host has
  a parent, which is a switch of the network simulator's roster or a hypervisor of the fleet; and a
  host is listed among the guests of a fleet host (and so shows as a qemu process in its process
  list) exactly when that host is its parent, never twice.\<close>

theorem fleet_parents_agree:
  "let R = expand_roster sel in
     distinct (map fst R)
     \<and> (\<forall>(k, h) \<in> set R. \<exists>p. fh_parent h = Some p
          \<and> (p \<in> rs_short ` set (build_replay_devices (\<lambda>m. Some m))
             \<or> (\<exists>g. (p, g) \<in> set R \<and> hc_hypervisor (fh_cls g))))
     \<and> (\<forall>(k, h) \<in> set R. \<forall>(p, g) \<in> set R. (k, fh_cls h) \<in> set (fh_guests g) \<longleftrightarrow> fh_parent h = Some p)
     \<and> (\<forall>(p, g) \<in> set R. distinct (map fst (fh_guests g)))"
proof -
  define cs where "cs = select_classes (fleet_wanted sel) all_classes"
  let ?is = "concat (map instances cs)" and ?R = "expand_classes cs"
  let ?as = "assignments (first_phase ?is)"
  have ok: "prefixes_ok cs" unfolding cs_def by (rule select_prefixes [OF shipped_prefixes])
  note names = selected_names [OF ok]
  have ent: "\<exists>i \<in> set ?is. i = (k, fh_cls h) \<and> entry_of ?is (k, h) i" if "(k, h) \<in> set ?R" for k h
    using expanded_lookup(2) [OF ok that] by (force simp: entry_of_def Let_def)
  have nosw: "k \<notin> switches" if "(k, h) \<in> set ?R" for k h
    using ent [OF that] names(3) by force
  have agree: "(k, fh_cls h) \<in> set (fh_guests g) \<longleftrightarrow> fh_parent h = Some p"
    if "(k, h) \<in> set ?R" "(p, g) \<in> set ?R" for k h p g
    using ent [OF that(1)] ent [OF that(2)] nosw [OF that(2)]
      entry_guests(1) [OF names(1)] entry_parent(1) [OF names(1)] by metis
  have par: "\<exists>p. fh_parent h = Some p \<and> (p \<in> switches \<or> (\<exists>g. (p, g) \<in> set ?R \<and> hc_hypervisor (fh_cls g)))"
    if r: "(k, h) \<in> set ?R" for k h
  proof -
    from ent [OF r] obtain i where i: "i \<in> set ?is" "entry_of ?is (k, h) i" by blast
    obtain p where p: "fh_parent h = Some p" using entry_parent(2) [OF names(1) i(2,1)] ..
    have "\<exists>g. (p, g) \<in> set ?R \<and> hc_hypervisor (fh_cls g)" if ns: "p \<notin> switches"
    proof -
      have "(i, p) \<in> set ?as" using entry_parent(1) [OF names(1) i(2,1), of p] p ns by simp
      then have hv: "p \<in> fst ` set (filter (\<lambda>i. \<not> plain i) ?is)" by (rule assigned_hv)
      then obtain j where j: "j \<in> set ?is" "\<not> plain j" "fst j = p" by auto
      have "p \<in> set (map fst ?R)" using hv unfolding expanded_lookup(1) [OF ok] by auto
      then obtain g where g: "(p, g) \<in> set ?R" by auto
      from ent [OF this] names_class [OF names(1) j(1)] j(3) have "j = (p, fh_cls g)" by force
      with j(2) g show ?thesis by (auto simp: plain_def)
    qed
    with p show ?thesis by blast
  qed
  have gd: "distinct (map fst (fh_guests g))" if "(p, g) \<in> set ?R" for p g
    using ent [OF that] entry_guests(2) [OF names(1)] by blast
  have "\<exists>p. fh_parent h = Some p \<and> (p \<in> rs_short ` set (build_replay_devices (\<lambda>m. Some m))
      \<or> (\<exists>g. (p, g) \<in> set ?R \<and> hc_hypervisor (fh_cls g)))" if r: "(k, h) \<in> set ?R" for k h
    using par [OF r] switches_known by blast
  then have "\<forall>(k, h) \<in> set ?R. \<exists>p. fh_parent h = Some p \<and> (p \<in> rs_short ` set (build_replay_devices (\<lambda>m. Some m))
      \<or> (\<exists>g. (p, g) \<in> set ?R \<and> hc_hypervisor (fh_cls g)))" by blast
  moreover have "\<forall>(k, h) \<in> set ?R. \<forall>(p, g) \<in> set ?R. (k, fh_cls h) \<in> set (fh_guests g) \<longleftrightarrow> fh_parent h = Some p"
    using agree by blast
  moreover have "\<forall>(p, g) \<in> set ?R. distinct (map fst (fh_guests g))" using gd by blast
  ultimately show ?thesis
    unfolding expand_roster_def cs_def [symmetric] Let_def
    using expanded_distinct [OF ok] by (intro conjI)
qed

text \<open>The warehouse on its own: its three edge machines are children of its one hypervisor.\<close>

theorem fleet_parents_agree_witness:
  "distinct (map fst (expand_roster ''wh1-edge,wh1-kvm''))
   \<and> map (\<lambda>(k, h). (k, fh_parent h, map fst (fh_guests h))) (expand_roster ''wh1-edge,wh1-kvm'')
      = [(''wh1-edge-01'', Some ''wh1-kvm-01'', []), (''wh1-edge-02'', Some ''wh1-kvm-01'', []),
         (''wh1-edge-03'', Some ''wh1-kvm-01'', []),
         (''wh1-kvm-01'', Some ''wh1-sw-01'', [''wh1-edge-01'', ''wh1-edge-02'', ''wh1-edge-03''])]"
proof
  show "distinct (map fst (expand_roster ''wh1-edge,wh1-kvm''))"
    using fleet_parents_agree [of "''wh1-edge,wh1-kvm''"] by (simp add: Let_def)
qed code_simp

lemma instances_count:
  "length (filter (\<lambda>i. P (snd i)) (concat (map instances cs))) = sum_list (map (\<lambda>c. if P c then hc_count c else 0) cs)"
proof (induction cs)
  case (Cons c cs)
  have "filter (\<lambda>i. P (snd i)) (instances c) = (if P c then instances c else [])"
    using instance_name [of _ c] by (auto intro: filter_True filter_False)
  moreover have "length (instances c) = hc_count c" by (simp add: instances_def Let_def)
  ultimately show ?case using Cons by simp
qed simp

lemma filter_split_length: "length (filter Q (filter P xs @ filter (\<lambda>x. \<not> P x) xs)) = length (filter Q xs)"
  by (induction xs) auto

lemma expanded_count:
  assumes "prefixes_ok cs"
  shows "length (filter (\<lambda>(k, h). P (fh_cls h)) (expand_classes cs)) = sum_list (map (\<lambda>c. if P c then hc_count c else 0) cs)"
proof -
  note L = expanded_entries [OF selected_names(1,2) [OF assms]]
  have "length (filter (\<lambda>(k, h). P (fh_cls h)) hs) = length (filter (\<lambda>i. P (snd i)) l)"
    if "list_all2 (entry_of is) hs l" for "is" hs l
    using that by (induction rule: list_all2_induct) (auto simp: entry_of_def Let_def)
  from this [OF L] show ?thesis by (simp only: filter_split_length instances_count)
qed

definition fleet_counts :: "host_class list \<Rightarrow> nat \<times> nat \<times> nat \<times> nat" where
  "fleet_counts cs = (let tot = \<lambda>P. sum_list (map (\<lambda>c. if P c then hc_count c else 0) cs)
     in (tot (\<lambda>c. True), tot (\<lambda>c. hc_os c = Some ''linux''), tot (\<lambda>c. hc_os c = Some ''windows''), tot hc_hypervisor))"

lemma shipped_counts: "fleet_counts all_classes = (175, 126, 49, 14)"
  by code_simp

text \<open>The whole fleet has 175 hosts, 126 Linux and 49 Windows, of which 14 are hypervisors (FLEET.md
  says 173 with 124 Linux, the README 12 hypervisors): no two instances collapse into one entry.\<close>

theorem fleet_size:
  "length (expand_roster []) = 175
   \<and> length (filter (\<lambda>(k, h). hc_os (fh_cls h) = Some ''linux'') (expand_roster [])) = 126
   \<and> length (filter (\<lambda>(k, h). hc_os (fh_cls h) = Some ''windows'') (expand_roster [])) = 49
   \<and> length (filter (\<lambda>(k, h). hc_hypervisor (fh_cls h)) (expand_roster [])) = 14"
proof -
  have "split_on (CHR '','') [] = [[]]" "strip [] = []" by (simp_all add: strip_def strip_by_def)
  then have R: "expand_roster [] = expand_classes all_classes"
    by (simp add: expand_roster_def fleet_wanted_def select_classes_def)
  show ?thesis
    using shipped_counts expanded_count [OF shipped_prefixes, of "\<lambda>c. True"]
      expanded_count [OF shipped_prefixes, of "\<lambda>c. hc_os c = Some ''linux''"]
      expanded_count [OF shipped_prefixes, of "\<lambda>c. hc_os c = Some ''windows''"]
      expanded_count [OF shipped_prefixes, of hc_hypervisor]
    by (simp add: R fleet_counts_def)
qed

lemma mod_wrap: "r < m \<Longrightarrow> j < m \<Longrightarrow> (r + j) mod m = j \<longleftrightarrow> r = (0 :: nat)"
proof (cases "r + j < m")
  case False
  assume a: "r < m" "j < m"
  then have "(r + j) mod m = r + j - m" using False by (simp add: le_mod_geq)
  with a False show ?thesis by linarith
qed simp

text \<open>Round robin: over a site's pool of \<open>m\<close> different hypervisors, the \<open>j\<close>-th receives every \<open>m\<close>-th of the
  site's \<open>n\<close> virtual machines, the rounded-up share of what is left from \<open>j\<close> on; no two loads differ by
  more than one machine.\<close>

theorem spread_is_fair:
  assumes "distinct pool" and "j < length pool"
  shows "length (filter (\<lambda>a. snd a = pool ! j) (spread pool vms)) = (length vms + length pool - 1 - j) div length pool"
  using assms
proof (induction vms rule: rev_induct)
  case Nil
  then show ?case by (auto simp: spread_def)
next
  case (snoc v vms)
  let ?m = "length pool" and ?n = "length vms"
  have m: "0 < ?m" using snoc.prems by auto
  have idx: "pool ! (?n mod ?m) = pool ! j \<longleftrightarrow> ?n mod ?m = j"
    using snoc.prems m by (simp add: nth_eq_iff_index_eq)
  have step: "spread pool (vms @ [v]) = spread pool vms @ [(v, pool ! (?n mod ?m))]"
    using m by (auto simp: spread_def enumerate_append_eq)
  have div: "(?n + 1 + ?m - 1 - j) div ?m = (?n + ?m - 1 - j) div ?m + (if ?n mod ?m = j then 1 else 0)"
  proof -
    let ?x = "?n + ?m - 1 - j"
    have e: "?n + 1 + ?m - 1 - j = Suc ?x" using snoc.prems(2) by simp
    have "Suc ?x mod ?m = 0 \<longleftrightarrow> ?n mod ?m = j"
    proof -
      have "Suc ?x + j = ?n + ?m" using snoc.prems(2) by simp
      then have "(Suc ?x + j) mod ?m = (?n + ?m) mod ?m" by (simp only:)
      then have c: "(Suc ?x + j) mod ?m = ?n mod ?m" by (simp only: mod_add_self2)
      have "(Suc ?x mod ?m + j) mod ?m = ?n mod ?m" using c by (simp only: mod_add_left_eq)
      then show ?thesis using mod_wrap [OF _ snoc.prems(2), of "Suc ?x mod ?m"] m by simp
    qed
    then show ?thesis unfolding e by (simp add: div_Suc)
  qed
  show ?case using snoc idx step div by simp
qed

theorem spread_is_fair_witness:
  "map (\<lambda>j. length (filter (\<lambda>a. snd a = [''kvm-01'', ''kvm-02'', ''kvm-03''] ! j)
      (spread [''kvm-01'', ''kvm-02'', ''kvm-03''] (map (\<lambda>n. (pad2 n, host_class [] 0 [] [])) [0..<7])))) [0..<3] = [3, 2, 2]"
proof -
  have "distinct [''kvm-01'', ''kvm-02'', ''kvm-03'']" by simp
  note s = spread_is_fair [OF this, of _ "map (\<lambda>n. (pad2 n, host_class [] 0 [] [])) [0..<7]"]
  show ?thesis using s [of 0] s [of 1] s [of 2] by (simp add: upt_rec)
qed

end
