(* ===== verification/Fleet_Hosts.thy ===== *)
theory Fleet_Hosts
  imports Agent_Text Fleet_Roster
begin

text \<open>
  The constructors of the two host classes of \<open>fleet/serve.py\<close>.  A host's fields are drawn from
  \<open>random.Random\<close> generators seeded with its name: a generator is the stream of its outcomes as
  numbers in \<open>[0, 1)\<close> (\<open>stream_ok\<close>), so two builds of one host draw the same fields and every sequence of
  outcomes is covered.  A \<open>WindowsHost\<close> and a \<open>LinuxHost\<close> have different fields; a guest is what the
  process list of its hypervisor shows of it.
\<close>

section \<open>Seeded generators\<close>

type_synonym stream = "nat \<Rightarrow> real"

definition stream_ok :: "stream \<Rightarrow> bool" where
  "stream_ok r \<longleftrightarrow> (\<forall>k. 0 \<le> r k \<and> r k < 1)"

definition draw :: "(stream, real) state" where
  "draw = State (\<lambda>r. (r 0, \<lambda>k. r (Suc k)))"

definition uniform :: "real \<Rightarrow> real \<Rightarrow> (stream, real) state" where
  "uniform lo hi = do { r \<leftarrow> draw; State_Monad.return (lo + (hi - lo) * r) }"

definition randrange :: "nat \<Rightarrow> (stream, nat) state" where
  "randrange n = do { r \<leftarrow> draw; State_Monad.return (nat \<lfloor>r * real n\<rfloor>) }"

definition choice :: "'a list \<Rightarrow> (stream, 'a) state" where
  "choice xs = do { i \<leftarrow> randrange (length xs); State_Monad.return (xs ! i) }"

definition randint :: "nat \<Rightarrow> nat \<Rightarrow> (stream, nat) state" where
  "randint lo hi = do { i \<leftarrow> randrange (hi - lo + 1); State_Monad.return (lo + i) }"

text \<open>Four bytes are drawn, three are used.\<close>

definition byte_lower :: "nat \<Rightarrow> string" where
  "byte_lower b = [hex_lower (b div 16), hex_lower (b mod 16)]"

definition rnd_mac :: "string \<Rightarrow> (stream, string) state" where
  "rnd_mac oui = do { tail \<leftarrow> forM [0..<4] (\<lambda>_. randrange 256);
     State_Monad.return (oui @ '':'' @ join_with '':'' (map byte_lower (take 3 tail))) }"

definition rnd_uuid :: "(stream, string) state" where
  "rnd_uuid = do { h \<leftarrow> forM [0..<32] (\<lambda>_. choice ''0123456789abcdef'');
     State_Monad.return (take 8 h @ ''-'' @ take 4 (drop 8 h) @ ''-'' @ take 4 (drop 12 h) @ ''-'' @
       take 4 (drop 16 h) @ ''-'' @ drop 20 h) }"

definition rnd_serial :: "string \<Rightarrow> (stream, string) state" where
  "rnd_serial prefix = do { s \<leftarrow> forM [0..<12] (\<lambda>_. choice ''ABCDEFGHJKLMNPQRSTUVWXYZ0123456789'');
     State_Monad.return (prefix @ s) }"

definition DISK_MODELS :: "string list" where
  "DISK_MODELS = [''Samsung SSD 870 EVO 500GB'', ''Samsung SSD 883 DCT 960GB'', ''INTEL SSDSC2KB480G8'',
     ''Micron 5300 MTFDDAK480TDS'', ''WDC WDS500G1R0A-68A4W0'', ''KINGSTON SEDC500M480G'']"

section \<open>Linux hosts\<close>

record guest =
  gu_short :: string
  gu_mem_total :: int
  gu_mem_mb :: int

definition mem_mb_or :: "nat \<Rightarrow> host_class \<Rightarrow> int" where
  "mem_mb_or d c = (case hc_mem_mb c of None \<Rightarrow> int d | Some m \<Rightarrow> int m)"

definition guest_of :: "inst \<Rightarrow> guest" where
  "guest_of i = \<lparr>gu_short = fst i,
     gu_mem_total = mem_mb_or (if hc_os (snd i) = Some ''linux'' then 8192 else 16384) (snd i) * 1024,
     gu_mem_mb = mem_mb_or 8192 (snd i)\<rparr>"

record linux_host =
  lh_short :: string
  lh_cls :: host_class
  lh_guests :: "guest list"
  uptime_offset :: real
  jit :: real
  hphase :: real
  lh_mac :: string
  lh_uuid :: string
  ncpu :: int
  mem_total :: int
  load1 :: real
  rx_bps :: real
  tx_bps :: real
  disk_model :: string
  disk_gb :: int
  disk_serial :: string
  disk_hours :: int
  extra_fs :: "(string \<times> int \<times> real) list"
  data_serial :: string
  root_kb :: int
  root_used_frac :: real
  anon_f :: real
  cached_f :: real
  shmem_f :: real
  fs_phase :: real
  ntp_phase :: real
  disk_cycles :: int
  data_cycles :: int
  root_ino_base :: int

text \<open>\<open>__init__\<close> up to the counters, and the second seed stream at its end.\<close>

definition linux_init :: "string \<Rightarrow> host_class \<Rightarrow> guest list \<Rightarrow> stream \<Rightarrow> (stream, linux_host) state" where
  "linux_init short spec guests v2 =
     (let (lo, hi) = (case hc_uptime_days spec of None \<Rightarrow> (15, 120) | Some d \<Rightarrow> d);
          (rx, tx) = (case hc_net_mbs spec of None \<Rightarrow> (1, 1) | Some d \<Rightarrow> d);
          (anon, cached, shmem) = (case hc_mem_profile spec of None \<Rightarrow> (0.15, 0.35, 0.03) | Some p \<Rightarrow> p)
      in do {
       days \<leftarrow> uniform lo hi;
       j \<leftarrow> uniform 0.88 1.12;
       ph \<leftarrow> uniform 0 6.28;
       m \<leftarrow> rnd_mac (if is_vm spec then ''52:54:00'' else ''d0:94:66'');
       u \<leftarrow> rnd_uuid;
       disk \<leftarrow> (case hc_disk spec of Some d \<Rightarrow> State_Monad.return d
                  | None \<Rightarrow> do { model \<leftarrow> choice DISK_MODELS; State_Monad.return (model, 480) });
       ser \<leftarrow> rnd_serial ''S5'';
       hours \<leftarrow> uniform 4000 32000;
       fs \<leftarrow> forM (hc_fs spec) (\<lambda>(mount, gib, used). do {
          d \<leftarrow> uniform (- 0.04) 0.04;
          State_Monad.return (mount, int gib * 1048576, min 0.72 (used + d)) });
       dser \<leftarrow> rnd_serial ''S6'';
       rused \<leftarrow> uniform 0.26 0.38;
       let (fsp, ntp, cyc, dcyc, ino) = fst (run_state (do {
          fsp \<leftarrow> uniform 0 86400;
          ntp \<leftarrow> uniform 0 2048;
          cyc \<leftarrow> randint 5 40;
          dcyc \<leftarrow> randint 5 40;
          ino \<leftarrow> uniform 170000 260000;
          State_Monad.return (fsp, ntp, int cyc, int dcyc, py_trunc ino) }) v2);
       State_Monad.return \<lparr>lh_short = short, lh_cls = spec, lh_guests = guests,
         uptime_offset = days * 86400, jit = j, hphase = ph, lh_mac = m, lh_uuid = u,
         ncpu = (case hc_ncpu spec of None \<Rightarrow> 4 | Some n \<Rightarrow> int n),
         mem_total = mem_mb_or 8192 spec * 1024,
         load1 = (case hc_load1 spec of None \<Rightarrow> 0.3 | Some l \<Rightarrow> l) * j,
         rx_bps = rx * 1000000 * j, tx_bps = tx * 1000000 * j,
         disk_model = fst disk, disk_gb = int (snd disk), disk_serial = ser, disk_hours = py_trunc hours,
         extra_fs = fs, data_serial = dser, root_kb = 40 * 1048576, root_used_frac = rused,
         anon_f = anon, cached_f = cached, shmem_f = shmem,
         fs_phase = fsp, ntp_phase = ntp, disk_cycles = cyc, data_cycles = dcyc, root_ino_base = ino\<rparr> })"

text \<open>The rates: the split of the processor ticks, then every counter with its rate, phase and amplitude.\<close>

definition total_ticks :: "linux_host \<Rightarrow> real" where
  "total_ticks h = real_of_int (ncpu h) * 100"

definition util :: "linux_host \<Rightarrow> real" where
  "util h = max 0.02 (min 0.80 (load1 h / real_of_int (ncpu h) * 0.75))"

definition r_user :: "linux_host \<Rightarrow> real" where "r_user h = total_ticks h * util h * 0.72"
definition r_system :: "linux_host \<Rightarrow> real" where "r_system h = total_ticks h * util h * 0.22"
definition r_iowait :: "linux_host \<Rightarrow> real" where "r_iowait h = total_ticks h * 0.015"

definition r_idle :: "linux_host \<Rightarrow> real" where
  "r_idle h = max 5 (total_ticks h - r_user h - r_system h - r_iowait h)"

definition counter_specs :: "linux_host \<Rightarrow> (string \<times> real \<times> real \<times> real) list" where
  "counter_specs h = [
     (''cpu.user'', r_user h, 0.3, 0.30),
     (''cpu.system'', r_system h, 1.1, 0.30),
     (''cpu.iowait'', r_iowait h, 3.0, 0.30),
     (''cpu.idle'', r_idle h, 2.4, 0.02),
     (''kernel.ctxt'', 900 * real_of_int (ncpu h), 4.0, 0.30),
     (''kernel.processes'', 4, 4.7, 0.30),
     (''kernel.pgmajfault'', 0.2, 5.4, 0.25),
     (''sda.rd_ios'', 3, 0.0, 0.3),
     (''sda.rd_ticks'', 2, 0.2, 0.3),
     (''sda.wr_ios'', 14, 0.4, 0.3),
     (''sda.wr_ticks'', 9, 0.6, 0.3),
     (''sda.io_ticks'', 11, 0.8, 0.05)] @
     (if extra_fs h = [] then [] else [
     (''sdb.rd_ios'', 22, 1.0, 0.3),
     (''sdb.rd_ticks'', 14, 1.2, 0.3),
     (''sdb.wr_ios'', 35, 1.4, 0.3),
     (''sdb.wr_ticks'', 22, 1.6, 0.3),
     (''sdb.io_ticks'', 48, 1.8, 0.05)]) @ [
     (''net.rx_bytes'', rx_bps h, 1.6, 0.30),
     (''net.tx_bytes'', tx_bps h, 2.3, 0.30),
     (''net.rx_pkts'', rx_bps h / 900, 3.0, 0.30),
     (''net.tx_pkts'', tx_bps h / 900, 3.7, 0.30)]"

definition host_key :: "string \<Rightarrow> string \<Rightarrow> string" where
  "host_key short k = short @ ''.'' @ k"

primrec create_all :: "linux_host \<Rightarrow> (string \<times> real \<times> real \<times> real) list \<Rightarrow> (sim, unit) state" where
  "create_all h [] = State_Monad.return ()"
| "create_all h (c # cs) = (case c of (k, r, ph, amp) \<Rightarrow>
     do { new_counter (host_key (lh_short h) k) (hphase h + ph) amp (r * uptime_offset h); create_all h cs })"

definition linux_counters :: "linux_host \<Rightarrow> (sim, unit) state" where
  "linux_counters h = create_all h (counter_specs h)"

section \<open>Windows hosts\<close>

record windows_host =
  wh_short :: string
  wh_cls :: host_class
  w_uptime_offset :: real
  w_phase :: real
  wh_uuid :: string
  w_ncpu :: int
  w_mem_total :: int
  c_kb :: int
  c_used_frac :: real
  d_drive :: "(int \<times> real) option"

definition windows_init :: "string \<Rightarrow> host_class \<Rightarrow> (stream, windows_host) state" where
  "windows_init short spec =
     (let (lo, hi) = (case hc_uptime_days spec of None \<Rightarrow> (10, 60) | Some d \<Rightarrow> d)
      in do {
       days \<leftarrow> uniform lo hi;
       ph \<leftarrow> uniform 0 6.28;
       u \<leftarrow> rnd_uuid;
       cd \<leftarrow> uniform (- 0.04) 0.04;
       d \<leftarrow> (case hc_d_drive spec of None \<Rightarrow> State_Monad.return None
            | Some (gb, used) \<Rightarrow> do { dd \<leftarrow> uniform (- 0.04) 0.04;
                 State_Monad.return (Some (int gb * 1048576, min 0.75 (used + dd))) });
       State_Monad.return \<lparr>wh_short = short, wh_cls = spec, w_uptime_offset = days * 86400, w_phase = ph,
         wh_uuid = u, w_ncpu = (case hc_ncpu spec of None \<Rightarrow> 4 | Some n \<Rightarrow> int n),
         w_mem_total = mem_mb_or 16384 spec * 1024, c_kb = 120 * 1048576,
         c_used_frac = min 0.72 ((case hc_c_used spec of None \<Rightarrow> 0.45 | Some x \<Rightarrow> x) + cd),
         d_drive = d\<rparr> })"

end
