(* ===== verification/Fleet_Tables.thy ===== *)
theory Fleet_Tables
  imports Fleet_Hosts
begin

text \<open>
  The parts of \<open>fleet/serve.py\<close> both kinds of host share: the process configuration, the JSON of the
  agent controller and of a disk, and the base tables of processes, units and services.
\<close>

section \<open>Shared building blocks\<close>

record fleet_cfg =
  fc_domain :: string
  fc_version :: string
  fc_start :: real

definition fqdn :: "fleet_cfg \<Rightarrow> string \<Rightarrow> string" where
  "fqdn cfg short = short @ ''.'' @ fc_domain cfg"

definition ctl_status_json :: "string \<Rightarrow> string \<Rightarrow> int \<Rightarrow> string" where
  "ctl_status_json version uuid now =
     (let cert_to = strftime ''%a, %d %b %Y %H:%M:%S +0000'' (gmtime (now + 330 * 86400))
      in dumps (JObj [(''version'', JStr version),
         (''agent_socket_operational'', JBool True),
         (''ip_allowlist'', JArr []),
         (''allow_legacy_pull'', JBool False),
         (''connections'', JArr [JObj [(''site_id'', JStr ''monitoring/prod''),
         (''receiver_port'', JNum 8000),
         (''uuid'', JStr uuid),
         (''local'', JObj [(''connection_mode'', JStr ''pull-agent''), (''cert_info'', JObj [(''issuer'', JStr (''Site '' @ [CHR 0x27] @ ''prod'' @ [CHR 0x27] @ '' local CA'')),
         (''from'', JStr ''Tue, 03 Jun 2025 09:12:44 +0000''),
         (''to'', JStr cert_to)])]),
         (''remote'', JStr ''remote_query_disabled'')]])]))"

definition smart_json :: "string \<Rightarrow> string \<Rightarrow> string \<Rightarrow> int \<Rightarrow> int \<Rightarrow> int \<Rightarrow> int \<Rightarrow> string" where
  "smart_json dev model serial hours temp cycles wear_raw =
     dumps (JObj [(''device'', JObj [(''name'', JStr dev),
         (''type'', JStr ''sat''),
         (''protocol'', JStr ''ATA'')]),
         (''model_name'', JStr model),
         (''serial_number'', JStr serial),
         (''smart_status'', JObj [(''passed'', JBool True)]),
         (''power_on_time'', JObj [(''hours'', JNum hours)]),
         (''temperature'', JObj [(''current'', JNum temp)]),
         (''ata_smart_attributes'', JObj [(''table'', JArr [JObj [(''id'', JNum 5),
         (''name'', JStr ''Reallocated_Sector_Ct''),
         (''value'', JNum 100),
         (''thresh'', JNum 10),
         (''raw'', JObj [(''value'', JNum 0)])],
         JObj [(''id'', JNum 12),
         (''name'', JStr ''Power_Cycle_Count''),
         (''value'', JNum 100),
         (''thresh'', JNum 0),
         (''raw'', JObj [(''value'', JNum cycles)])],
         JObj [(''id'', JNum 187),
         (''name'', JStr ''Reported_Uncorrect''),
         (''value'', JNum 100),
         (''thresh'', JNum 0),
         (''raw'', JObj [(''value'', JNum 0)])],
         JObj [(''id'', JNum 197),
         (''name'', JStr ''Current_Pending_Sector''),
         (''value'', JNum 100),
         (''thresh'', JNum 0),
         (''raw'', JObj [(''value'', JNum 0)])],
         JObj [(''id'', JNum 199),
         (''name'', JStr ''UDMA_CRC_Error_Count''),
         (''value'', JNum 200),
         (''thresh'', JNum 0),
         (''raw'', JObj [(''value'', JNum 0)])],
         JObj [(''id'', JNum 177),
         (''name'', JStr ''Wear_Leveling_Count''),
         (''value'', JNum (max 85 (100 - wear_raw div 15))),
         (''thresh'', JNum 5),
         (''raw'', JObj [(''value'', JNum wear_raw)])],
         JObj [(''id'', JNum 179),
         (''name'', JStr ''Used_Rsvd_Blk_Cnt_Tot''),
         (''value'', JNum 100),
         (''thresh'', JNum 10),
         (''raw'', JObj [(''value'', JNum 0)])]])])])"

definition LNX_BASE_PROCS :: "(string \<times> string \<times> int \<times> int \<times> int \<times> string) list" where
  "LNX_BASE_PROCS = [
     (''init.scope'', ''root'', 168000, 12800, 1, ''/sbin/init''),
     (''system.slice/systemd-journald.service'', ''root'', 59100, 18600, 401, ''/usr/lib/systemd/systemd-journald''),
     (''system.slice/systemd-udevd.service'', ''root'', 25900, 7800, 437, ''/usr/lib/systemd/systemd-udevd''),
     (''system.slice/systemd-resolved.service'', ''systemd-resolve'', 26600, 13000, 488, ''/usr/lib/systemd/systemd-resolved''),
     (''system.slice/systemd-timesyncd.service'', ''systemd-timesync'', 91200, 7500, 502, ''/usr/lib/systemd/systemd-timesyncd''),
     (''system.slice/systemd-networkd.service'', ''systemd-network'', 22100, 8400, 495, ''/usr/lib/systemd/systemd-networkd''),
     (''system.slice/systemd-logind.service'', ''root'', 18400, 8100, 509, ''/usr/lib/systemd/systemd-logind''),
     (''system.slice/dbus.service'', ''messagebus'', 10200, 5000, 514, ''@dbus-daemon --system --address=systemd:''),
     (''system.slice/rsyslog.service'', ''syslog'', 222400, 6600, 611, ''/usr/sbin/rsyslogd -n -iNONE''),
     (''system.slice/ssh.service'', ''root'', 15400, 8900, 689, ''sshd: /usr/sbin/sshd -D [listener]''),
     (''system.slice/cron.service'', ''root'', 11500, 2400, 704, ''/usr/sbin/cron -f -P''),
     (''system.slice/irqbalance.service'', ''root'', 20600, 4100, 610, ''/usr/sbin/irqbalance --foreground''),
     (''system.slice/polkit.service'', ''root'', 236400, 9200, 617, ''/usr/lib/polkit-1/polkitd --no-debug''),
     (''system.slice/snapd.service'', ''root'', 1248000, 34500, 655, ''/usr/lib/snapd/snapd''),
     (''system.slice/unattended-upgrades.service'', ''root'', 108000, 21000, 720, ''/usr/bin/python3 /usr/share/unattended-upgrades/unattended-upgrade-shutdown --wait-for-signal''),
     (''system.slice/multipathd.service'', ''root'', 353600, 22300, 420, ''/sbin/multipathd -d -s''),
     (''system.slice/networkd-dispatcher.service'', ''root'', 32800, 20400, 618, ''/usr/bin/python3 /usr/bin/networkd-dispatcher --run-startup-triggers''),
     (''system.slice/udisks2.service'', ''root'', 396400, 12900, 641, ''/usr/libexec/udisks2/udisksd''),
     (''system.slice/system-getty.slice/getty@tty1.service'', ''root'', 6216, 1600, 801, ''/sbin/agetty -o -p -- '' @ BS @ ''u --noclear tty1 linux''),
     (''user.slice/user-1000.slice/user@1000.service'', ''ubuntu'', 20900, 11300, 950, ''/usr/lib/systemd/systemd --user'')]"

definition LNX_BASE_UNITS :: "(string \<times> string \<times> string \<times> string) list" where
  "LNX_BASE_UNITS = [
     (''ssh.service'', ''active'', ''running'', ''OpenBSD Secure Shell server''),
     (''cron.service'', ''active'', ''running'', ''Regular background program processing daemon''),
     (''dbus.service'', ''active'', ''running'', ''D-Bus System Message Bus''),
     (''getty@tty1.service'', ''active'', ''running'', ''Getty on tty1''),
     (''irqbalance.service'', ''active'', ''running'', ''irqbalance daemon''),
     (''multipathd.service'', ''active'', ''running'', ''Device-Mapper Multipath Device Controller''),
     (''networkd-dispatcher.service'', ''active'', ''running'', ''Dispatcher daemon for systemd-networkd''),
     (''polkit.service'', ''active'', ''running'', ''Authorization Manager''),
     (''rsyslog.service'', ''active'', ''running'', ''System Logging Service''),
     (''snapd.service'', ''active'', ''running'', ''Snap Daemon''),
     (''systemd-journald.service'', ''active'', ''running'', ''Journal Service''),
     (''systemd-logind.service'', ''active'', ''running'', ''User Login Management''),
     (''systemd-networkd.service'', ''active'', ''running'', ''Network Configuration''),
     (''systemd-resolved.service'', ''active'', ''running'', ''Network Name Resolution''),
     (''systemd-timesyncd.service'', ''active'', ''running'', ''Network Time Synchronization''),
     (''systemd-udevd.service'', ''active'', ''running'', ''Rule-based Manager for Device Events and Files''),
     (''udisks2.service'', ''active'', ''running'', ''Disk Manager''),
     (''unattended-upgrades.service'', ''active'', ''running'', ''Unattended Upgrades Shutdown''),
     (''user@1000.service'', ''active'', ''running'', ''User Manager for UID 1000''),
     (''apparmor.service'', ''active'', ''exited'', ''Load AppArmor profiles''),
     (''blk-availability.service'', ''active'', ''exited'', ''Availability of block devices''),
     (''console-setup.service'', ''active'', ''exited'', ''Set console font and keymap''),
     (''finalrd.service'', ''active'', ''exited'', ''Create final runtime dir for shutdown pivot root''),
     (''keyboard-setup.service'', ''active'', ''exited'', ''Set the console keyboard layout''),
     (''lvm2-monitor.service'', ''active'', ''exited'', ''Monitoring of LVM2 mirrors, snapshots etc. using dmeventd or progress polling''),
     (''setvtrgb.service'', ''active'', ''exited'', ''Set console scheme''),
     (''snapd.seeded.service'', ''active'', ''exited'', ''Wait until snapd is fully seeded''),
     (''systemd-user-sessions.service'', ''active'', ''exited'', ''Permit User Sessions'')]"

definition WIN_BASE_SERVICES :: "(string \<times> string \<times> string) list" where
  "WIN_BASE_SERVICES = [
     (''W32Time'', ''running/auto'', ''Windows Time''),
     (''Dnscache'', ''running/auto'', ''DNS Client''),
     (''LanmanServer'', ''running/auto'', ''Server''),
     (''LanmanWorkstation'', ''running/auto'', ''Workstation''),
     (''EventLog'', ''running/auto'', ''Windows Event Log''),
     (''Schedule'', ''running/auto'', ''Task Scheduler''),
     (''gpsvc'', ''running/auto'', ''Group Policy Client''),
     (''Dhcp'', ''running/auto'', ''DHCP Client''),
     (''RpcSs'', ''running/auto'', ''Remote Procedure Call (RPC)''),
     (''Power'', ''running/auto'', ''Power''),
     (''Winmgmt'', ''running/auto'', ''Windows Management Instrumentation''),
     (''BFE'', ''running/auto'', ''Base Filtering Engine''),
     (''mpssvc'', ''running/auto'', ''Windows Defender Firewall''),
     (''WinDefend'', ''running/auto'', ''Microsoft Defender Antivirus Service''),
     (''CheckMkService'', ''running/auto'', ''Checkmk Agent''),
     (''TermService'', ''running/auto'', ''Remote Desktop Services''),
     (''ProfSvc'', ''running/auto'', ''User Profile Service''),
     (''SamSs'', ''running/auto'', ''Security Accounts Manager''),
     (''LSM'', ''running/auto'', ''Local Session Manager''),
     (''AJRouter'', ''stopped/demand'', ''AllJoyn Router Service''),
     (''ALG'', ''stopped/demand'', ''Application Layer Gateway Service''),
     (''AppMgmt'', ''stopped/demand'', ''Application Management''),
     (''BTAGService'', ''stopped/demand'', ''Bluetooth Audio Gateway Service''),
     (''MapsBroker'', ''stopped/auto'', ''Downloaded Maps Manager''),
     (''TabletInputService'', ''stopped/demand'', ''Touch Keyboard and Handwriting Panel''),
     (''WbioSrvc'', ''stopped/demand'', ''Windows Biometric Service''),
     (''XblAuthManager'', ''stopped/demand'', ''Xbox Live Auth Manager''),
     (''wuauserv'', ''running/demand'', ''Windows Update'')]"

definition WIN_BASE_PROCS :: "(string \<times> int \<times> int \<times> int \<times> int \<times> string) list" where
  "WIN_BASE_PROCS = [
     (''SYSTEM'', 0, 8, 0, 2, ''System Idle Process''),
     (''SYSTEM'', 560, 140, 4, 113, ''System''),
     (''SYSTEM'', 1648, 412, 276, 2, ''smss.exe''),
     (''SYSTEM'', 23968, 5992, 588, 6, ''services.exe''),
     (BS @ BS @ ''NT AUTHORITY'' @ BS @ ''SYSTEM'', 86000, 21500, 608, 12, ''lsass.exe''),
     (BS @ BS @ ''NT AUTHORITY'' @ BS @ ''SYSTEM'', 204000, 51000, 940, 50, ''svchost.exe''),
     (BS @ BS @ ''NT AUTHORITY'' @ BS @ ''LOCAL SERVICE'', 58400, 14600, 1280, 9, ''svchost.exe''),
     (BS @ BS @ ''NT AUTHORITY'' @ BS @ ''SYSTEM'', 88400, 22100, 3120, 14, ''MsMpEng.exe''),
     (BS @ BS @ ''NT AUTHORITY'' @ BS @ ''SYSTEM'', 39200, 9800, 3480, 7, ''check_mk_agent.exe'')]"

end
