(* ===== verification/Fleet_Linux.thy ===== *)
theory Fleet_Linux
  imports Fleet_Tables
begin

text \<open>
  \<open>LinuxHost.build\<close> of \<open>fleet/serve.py\<close>, section by section: first the values one poll computes (gauges,
  counters, the memory model), then the lines of every section, then the payload.  A section that
  reads a gauge, a counter or the clock is in the state monad over \<open>sim\<close>; \<open>syn\<close> is the outcome of the
  one \<open>random.randint\<close>.  The order of the reads is the order of the code.
\<close>

section \<open>The values of one poll\<close>

record mem_vals =
  mv_anon :: int
  mv_cached :: int
  mv_shmem :: int
  mv_buffers :: int
  mv_sreclaim :: int
  mv_mem_free :: int
  mv_anon_lru :: int
  mv_file_lru :: int
  mv_mem_avail :: int
  mv_a_anon :: int
  mv_a_file :: int
  mv_sunreclaim :: int
  mv_threads :: int
  mv_dirty :: int
  mv_committed :: int

definition linux_memory :: "linux_host \<Rightarrow> (sim, mem_vals) state" where
  "linux_memory h =
     do {
       let mt = mem_total h;
       let anon_base = (if (lh_guests h) \<noteq> [] then (let anon_base = py_trunc (sum_list (map (\<lambda>g. real_of_int (gu_mem_total g) * 0.82) (lh_guests h)));
          anon_base = min anon_base (py_trunc (real_of_int mt * 0.85))
      in anon_base) else py_trunc (real_of_int mt * (anon_f h)));
       g1 \<leftarrow> gauge (lh_short h @ ''.mem.anon'') (real_of_int anon_base) None (Some 0.03) (hphase h + 1.5) 1400;
       let anon = py_trunc g1;
       g2 \<leftarrow> gauge (lh_short h @ ''.mem.cached'') (real_of_int mt * (cached_f h)) None (Some 0.03) (hphase h + 0.4) 1500;
       let cached = py_trunc g2;
       g3 \<leftarrow> gauge (lh_short h @ ''.mem.shmem'') (real_of_int mt * (shmem_f h)) None (Some 0.02) (hphase h + 0.8) 1600;
       let shmem = py_trunc g3;
       g4 \<leftarrow> gauge (lh_short h @ ''.mem.buffers'') (real_of_int mt * 0.02) None (Some 0.04) (hphase h + 1.2) 1100;
       let buffers = py_trunc g4;
       g5 \<leftarrow> gauge (lh_short h @ ''.mem.srec'') (real_of_int mt * 0.03) None (Some 0.03) (hphase h + 2.0) 1300;
       let sreclaim = py_trunc g5;
       let caches = cached + buffers + sreclaim;
       let mem_free = max (py_trunc (real_of_int mt * 0.03)) (mt - anon - shmem - caches);
       let anon_lru = anon + shmem;
       let file_lru = max 0 (buffers + cached - shmem);
       let mem_avail = mem_free + file_lru + sreclaim;
       let a_anon = py_trunc (real_of_int anon_lru * 0.62);
       let a_file = py_trunc (real_of_int file_lru * 0.38);
       let sunreclaim = py_trunc (real_of_int mt * 0.008);
       let threads = 220 + 30 * (int (length (hc_procs (lh_cls h)))) + 40 * (int (length (lh_guests h)));
       g6 \<leftarrow> gauge (lh_short h @ ''.mem.dirty'') (real_of_int mt * 0.001) None (Some 0.2) (hphase h + 2.2) 900;
       let dirty = max 4096 (py_trunc g6);
       let committed = py_trunc (min (real_of_int anon * 1.8) (real_of_int mt * 0.48));
       State_Monad.return (\<lparr>mv_anon = anon, mv_cached = cached, mv_shmem = shmem, mv_buffers = buffers, mv_sreclaim = sreclaim, mv_mem_free = mem_free, mv_anon_lru = anon_lru, mv_file_lru = file_lru, mv_mem_avail = mem_avail, mv_a_anon = a_anon, mv_a_file = a_file, mv_sunreclaim = sunreclaim, mv_threads = threads, mv_dirty = dirty, mv_committed = committed\<rparr>) }"

definition linux_load :: "linux_host \<Rightarrow> (sim, real \<times> real \<times> real) state" where
  "linux_load h =
     do {
       g7 \<leftarrow> gauge (lh_short h @ ''.load1'') 1.0 None (Some 0.3) (hphase h + 0.2) 300;
       let l1 = max 0.01 (round_dec 2 (load1 h * g7));
       g8 \<leftarrow> gauge (lh_short h @ ''.load5'') 1.0 None (Some 0.18) (hphase h + 1.1) 900;
       let l5 = max 0.01 (round_dec 2 (load1 h * 0.92 * g8));
       g9 \<leftarrow> gauge (lh_short h @ ''.load15'') 1.0 None (Some 0.1) (hphase h + 2.1) 2400;
       let l15 = max 0.01 (round_dec 2 (load1 h * 0.85 * g9));
       State_Monad.return ((l1, l5, l15)) }"

definition linux_ticks :: "linux_host \<Rightarrow> (sim, int \<times> int \<times> int \<times> int) state" where
  "linux_ticks h =
     do {
       user \<leftarrow> fsample (host_key (lh_short h) ''cpu.user'') (r_user h);
       system \<leftarrow> fsample (host_key (lh_short h) ''cpu.system'') (r_system h);
       idle \<leftarrow> fsample (host_key (lh_short h) ''cpu.idle'') (r_idle h);
       iowait \<leftarrow> fsample (host_key (lh_short h) ''cpu.iowait'') (r_iowait h);
       State_Monad.return ((user, system, idle, iowait)) }"

text \<open>The five counters of one disk, in the order of the dict.\<close>

definition disk_io :: "linux_host \<Rightarrow> string \<Rightarrow> real list \<Rightarrow> (sim, int list) state" where
  "disk_io h dev rates =
     forM (zip [''rd_ios'', ''rd_ticks'', ''wr_ios'', ''wr_ticks'', ''io_ticks''] rates)
       (\<lambda>(k, r). fsample (host_key (lh_short h) (dev @ ''.'' @ k)) r)"

definition linux_disks :: "linux_host \<Rightarrow> (sim, int list \<times> int list) state" where
  "linux_disks h = do {
       sda \<leftarrow> disk_io h ''sda'' [3, 2, 14, 9, 11];
       sdb \<leftarrow> (if extra_fs h \<noteq> [] then disk_io h ''sdb'' [22, 14, 35, 22, 48] else State_Monad.return []);
       State_Monad.return (sda, sdb) }"

definition linux_net :: "linux_host \<Rightarrow> (sim, int \<times> int \<times> int \<times> int) state" where
  "linux_net h =
     do {
       rx_b \<leftarrow> fsample (host_key (lh_short h) ''net.rx_bytes'') (rx_bps h);
       tx_b \<leftarrow> fsample (host_key (lh_short h) ''net.tx_bytes'') (tx_bps h);
       rx_p \<leftarrow> fsample (host_key (lh_short h) ''net.rx_pkts'') (rx_bps h / 900);
       tx_p \<leftarrow> fsample (host_key (lh_short h) ''net.tx_pkts'') (tx_bps h / 900);
       State_Monad.return ((rx_b, tx_b, rx_p, tx_p)) }"

definition linux_root_used :: "linux_host \<Rightarrow> int \<Rightarrow> (sim, int) state" where
  "linux_root_used h uptime =
     do {
       g18 \<leftarrow> gauge (lh_short h @ ''.fs.root'') 0 (Some 65536) None (hphase h) 1800;
       let root_used = py_trunc (real_of_int (root_kb h) * (root_used_frac h) + min (real_of_int (root_kb h) * 0.04) (real_of_int uptime * 0.03) + g18);
       State_Monad.return (root_used) }"

section \<open>The sections\<close>

definition linux_head :: "fleet_cfg \<Rightarrow> linux_host \<Rightarrow> (sim, string list) state" where
  "linux_head cfg h =
     do {
       t19 \<leftarrow> get_time;
       State_Monad.return ([
       ''<<<check_mk>>>'',
       ''Version: '' @ fc_version cfg,
       ''AgentOS: linux'',
       ''Hostname: '' @ fqdn cfg (lh_short h),
       ''InstallationDirectory: /opt/checkmk/agent/default'',
       ''PackageDirectory: /opt/checkmk/agent/default/package'',
       ''RuntimeDirectory: /opt/checkmk/agent/default/runtime'',
       ''OSType: linux'',
       ''OSName: Ubuntu'',
       ''OSVersion: 24.04'',
       ''OSPlatform: ubuntu'',
       ''FailedPythonReason: '',
       ''SSHClient: '',
       ''<<<cmk_agent_ctl_status:sep(0)>>>'',
       ctl_status_json (fc_version cfg) (lh_uuid h) (py_trunc t19),
       ''<<<checkmk_agent_plugins_lnx:sep(0)>>>'',
       ''pluginsdir /opt/checkmk/agent/default/package/plugins'',
       ''localdir /opt/checkmk/agent/default/package/local'',
       ''/opt/checkmk/agent/default/package/plugins/86400/mk_apt:CMK_VERSION='' @ [CHR 0x22] @ fc_version cfg @ [CHR 0x22]]) }"

definition linux_fs_used :: "linux_host \<Rightarrow> real \<Rightarrow> real \<Rightarrow> nat \<Rightarrow> string \<Rightarrow> int \<Rightarrow> real \<Rightarrow> (sim, int) state" where
  "linux_fs_used h nowf day n mount size_kb used_frac =
     do {
       g20 \<leftarrow> gauge (lh_short h @ ''.fs.'' @ mount) 0 (Some (real_of_int size_kb * 0.002)) None (hphase h + real n) 1600;
       let used = py_trunc (real_of_int size_kb * used_frac + real_of_int size_kb * 0.012 * (real_mod nowf day / day) + g20);
       State_Monad.return (used) }"

definition linux_df :: "linux_host \<Rightarrow> real \<Rightarrow> int \<Rightarrow> real \<Rightarrow> (sim, string list) state" where
  "linux_df h nowf root_used day =
     do {
       ls22 \<leftarrow> forM (enumerate 1 (extra_fs h)) (\<lambda>(n, (mount, size_kb, used_frac)). do {
         used \<leftarrow> linux_fs_used h nowf day n mount size_kb used_frac;
         State_Monad.return ([
       ''/dev/sdb'' @ nat_str n @ '' ext4 '' @ int_str size_kb @ '' '' @ int_str used @ '' '' @ int_str (size_kb - used) @ '' '' @ int_str (py_round (real_of_int used / (real_of_int size_kb) * 100)) @ ''% '' @ mount]) });
       State_Monad.return ([
       ''<<<df_v2>>>'',
       ''/dev/sda1 ext4 '' @ int_str (root_kb h) @ '' '' @ int_str root_used @ '' '' @ int_str (root_kb h - root_used) @ '' '' @ int_str (py_round (real_of_int root_used / (real_of_int (root_kb h)) * 100)) @ ''% /''] @
      concat ls22 @
      [
       ''[df_inodes_start]'',
       ''/dev/sda1 ext4 2621440 214380 '' @ int_str (2621440 - 214380) @ '' 8% /''] @
      concat (map (\<lambda>(n, (mount, size_kb, _)). (let ino = max 65536 (size_kb div 16)
      in [
       ''/dev/sdb'' @ nat_str n @ '' ext4 '' @ int_str ino @ '' '' @ int_str (ino div 40) @ '' '' @ int_str (ino - ino div 40) @ '' 3% '' @ mount])) (enumerate 1 (extra_fs h))) @
      [
       ''[df_inodes_end]'',
       ''<<<mounts>>>'',
       ''/dev/sda1 / ext4 rw,relatime,errors=remount-ro 0 0''] @
      concat (map (\<lambda>(n, (mount, _, _)). [
       ''/dev/sdb'' @ nat_str n @ '' '' @ mount @ '' ext4 rw,noatime 0 0'']) (enumerate 1 (extra_fs h)))) }"

definition linux_mem :: "linux_host \<Rightarrow> mem_vals \<Rightarrow> string list" where
  "linux_mem h m =
     [
       ''<<<mem>>>'',
       ''MemTotal:       '' @ int_str (mem_total h) @ '' kB'',
       ''MemFree:        '' @ int_str (mv_mem_free m) @ '' kB'',
       ''MemAvailable:   '' @ int_str (mv_mem_avail m) @ '' kB'',
       ''Buffers:        '' @ int_str (mv_buffers m) @ '' kB'',
       ''Cached:         '' @ int_str (mv_cached m) @ '' kB'',
       ''SwapCached:     0 kB'',
       ''Active:         '' @ int_str (mv_a_anon m + mv_a_file m) @ '' kB'',
       ''Inactive:       '' @ int_str (mv_anon_lru m - mv_a_anon m + mv_file_lru m - mv_a_file m) @ '' kB'',
       ''Active(anon):   '' @ int_str (mv_a_anon m) @ '' kB'',
       ''Inactive(anon): '' @ int_str (mv_anon_lru m - mv_a_anon m) @ '' kB'',
       ''Active(file):   '' @ int_str (mv_a_file m) @ '' kB'',
       ''Inactive(file): '' @ int_str (mv_file_lru m - mv_a_file m) @ '' kB'',
       ''Unevictable:    0 kB'',
       ''Mlocked:        0 kB'',
       ''SwapTotal:      0 kB'',
       ''SwapFree:       0 kB'',
       ''Zswap:          0 kB'',
       ''Zswapped:       0 kB'',
       ''Dirty:          '' @ int_str (mv_dirty m) @ '' kB'',
       ''Writeback:      0 kB'',
       ''AnonPages:      '' @ int_str (mv_anon m) @ '' kB'',
       ''Mapped:         '' @ int_str (py_trunc (real_of_int (mem_total h) * 0.02)) @ '' kB'',
       ''Shmem:          '' @ int_str (mv_shmem m) @ '' kB'',
       ''KReclaimable:   '' @ int_str (mv_sreclaim m) @ '' kB'',
       ''Slab:           '' @ int_str (mv_sreclaim m + mv_sunreclaim m) @ '' kB'',
       ''SReclaimable:   '' @ int_str (mv_sreclaim m) @ '' kB'',
       ''SUnreclaim:     '' @ int_str (mv_sunreclaim m) @ '' kB'',
       ''KernelStack:    '' @ int_str (mv_threads m * 16) @ '' kB'',
       ''PageTables:     '' @ int_str (py_trunc (real_of_int (mem_total h) * 0.004)) @ '' kB'',
       ''SecPageTables:  0 kB'',
       ''NFS_Unstable:   0 kB'',
       ''Bounce:         0 kB'',
       ''WritebackTmp:   0 kB'',
       ''CommitLimit:    '' @ int_str ((mem_total h) div 2) @ '' kB'',
       ''Committed_AS:   '' @ int_str (mv_committed m) @ '' kB'',
       ''VmallocTotal:   34359738367 kB'',
       ''VmallocUsed:    '' @ int_str (py_trunc (real_of_int (mem_total h) * 0.003)) @ '' kB'',
       ''VmallocChunk:   0 kB'',
       ''Percpu:         12288 kB'',
       ''HardwareCorrupted: 0 kB'',
       ''AnonHugePages:  0 kB'',
       ''ShmemHugePages: 0 kB'',
       ''ShmemPmdMapped: 0 kB'',
       ''FileHugePages:  0 kB'',
       ''FilePmdMapped:  0 kB'',
       ''CmaTotal:       0 kB'',
       ''CmaFree:        0 kB'',
       ''Unaccepted:     0 kB'',
       ''Balloon:        0 kB'',
       ''HugePages_Total:       0'',
       ''HugePages_Free:        0'',
       ''HugePages_Rsvd:        0'',
       ''HugePages_Surp:        0'',
       ''Hugepagesize:       2048 kB'',
       ''Hugetlb:        0 kB'',
       ''DirectMap4k:    '' @ int_str (py_trunc (real_of_int (mem_total h) * 0.015)) @ '' kB'',
       ''DirectMap2M:    '' @ int_str (py_trunc (real_of_int (mem_total h) * 0.37)) @ '' kB'',
       ''DirectMap1G:    '' @ int_str (py_trunc (real_of_int (mem_total h) * 0.62)) @ '' kB'']"

definition linux_cpu :: "linux_host \<Rightarrow> real \<Rightarrow> real \<Rightarrow> real \<Rightarrow> int \<Rightarrow> (sim, string list) state" where
  "linux_cpu h l1 l5 l15 uptime =
     do {
       let nproc = 180 + 12 * (int (length (hc_procs (lh_cls h)))) + 3 * (int (length (lh_guests h)));
       c23 \<leftarrow> fsample (host_key (lh_short h) ''kernel.processes'') 4;
       State_Monad.return ([
       ''<<<cpu>>>'',
       float_str 2 l1 @ '' '' @ float_str 2 l5 @ '' '' @ float_str 2 l15 @ '' 2/'' @ int_str nproc @ '' '' @ int_str (28000 + c23 mod 9999) @ '' '' @ int_str (ncpu h),
       ''<<<uptime>>>'',
       int_str uptime @ ''.00 '' @ int_str (py_trunc (real_of_int uptime * (real_of_int (ncpu h) * 0.85))) @ ''.00'']) }"

definition linux_timesync :: "fleet_cfg \<Rightarrow> linux_host \<Rightarrow> int \<Rightarrow> real \<Rightarrow> (sim, string list) state" where
  "linux_timesync cfg h now nowf =
     do {
       let last_sync = now - py_trunc (real_mod (nowf - fc_start cfg) 2048);
       let sync_str = strftime ''%a %Y-%m-%d %H:%M:%S UTC'' (gmtime last_sync);
       g24 \<leftarrow> gauge (lh_short h @ ''.ntp.offset'') 0 (Some 1200) None (hphase h + 1.3) 600;
       let offset_us = py_trunc g24;
       g25 \<leftarrow> gauge (lh_short h @ ''.ntp.jitter'') 1.8 (Some 0.6) None (hphase h + 0.7) 700;
       let jitter_ms = max 0.1 (round_dec 3 g25);
       State_Monad.return ([
       ''<<<timesyncd>>>'',
       ''       Server: 10.10.0.21 (ntp-01.corp.meridian-retail.com)'',
       ''Poll interval: 34min 8s (min: 32s; max 34min 8s)'',
       ''         Leap: normal'',
       ''      Version: 4'',
       ''      Stratum: 3'',
       ''    Reference: 0A0A0015'',
       ''    Precision: 1us (-25)'',
       ''Root distance: 12.104ms (max: 5s)'',
       ''       Offset: '' @ signed_str offset_us @ ''us'',
       ''        Delay: 1.207ms'',
       ''       Jitter: '' @ fixed_str 3 jitter_ms @ ''ms'',
       '' Packet count: '' @ int_str (420 + py_trunc ((nowf - fc_start cfg) / 2048)),
       ''    Frequency: +9.204ppm'',
       ''[[['' @ int_str last_sync @ '']]]'',
       ''<<<timesyncd_ntpmessage:sep(10)>>>'',
       ''NTPMessage={ Leap=0, Version=4, Mode=4, Stratum=3, Precision=-25, RootDelay=2.104ms, RootDispersion=0.847ms, Reference=0A0A0015, OriginateTimestamp='' @ sync_str @ '', ReceiveTimestamp='' @ sync_str @ '', TransmitTimestamp='' @ sync_str @ '', DestinationTimestamp='' @ sync_str @ '', Ignored=no, PacketCount=61, Jitter=0.984ms }'',
       ''Timezone=UTC'',
       ''<<<apt:sep(0)>>>'',
       ''No updates pending for installation'']) }"

definition linux_kernel :: "linux_host \<Rightarrow> int \<Rightarrow> int \<Rightarrow> int \<Rightarrow> int \<Rightarrow> int \<Rightarrow> (sim, string list) state" where
  "linux_kernel h now user system idle iowait =
     do {
       c26 \<leftarrow> fsample (host_key (lh_short h) ''kernel.ctxt'') (real_of_int (900 * (ncpu h)));
       c27 \<leftarrow> fsample (host_key (lh_short h) ''kernel.processes'') 4;
       c28 \<leftarrow> fsample (host_key (lh_short h) ''kernel.pgmajfault'') 0.2;
       State_Monad.return ([
       ''<<<kernel>>>'',
       int_str now,
       ''cpu '' @ int_str user @ '' 0 '' @ int_str system @ '' '' @ int_str idle @ '' '' @ int_str iowait @ '' 0 0 0 0 0'',
       ''ctxt '' @ int_str c26,
       ''processes '' @ int_str c27,
       ''pgmajfault '' @ int_str c28]) }"

definition linux_diskstat :: "int \<Rightarrow> int list \<Rightarrow> int list \<Rightarrow> string list" where
  "linux_diskstat now sda sdb =
     [
       ''<<<diskstat>>>'',
       int_str now,
       ''8 0 sda '' @ int_str (sda ! 0) @ '' 0 '' @ int_str (sda ! 0 * 16) @ '' '' @ int_str (sda ! 1) @ '' '' @ int_str (sda ! 2) @ '' 0 '' @ int_str (sda ! 2 * 32) @ '' '' @ int_str (sda ! 3) @ '' 0 '' @ int_str (sda ! 4) @ '' '' @ int_str (sda ! 4 * 2) @ '' 0 0 0 0''] @
      (if sdb \<noteq> [] then [
       ''8 16 sdb '' @ int_str (sdb ! 0) @ '' 0 '' @ int_str (sdb ! 0 * 24) @ '' '' @ int_str (sdb ! 1) @ '' '' @ int_str (sdb ! 2) @ '' 0 '' @ int_str (sdb ! 2 * 48) @ '' '' @ int_str (sdb ! 3) @ '' 0 '' @ int_str (sdb ! 4) @ '' '' @ int_str (sdb ! 4 * 2) @ '' 0 0 0 0''] else [])"

definition linux_if :: "linux_host \<Rightarrow> int \<Rightarrow> int \<Rightarrow> int \<Rightarrow> int \<Rightarrow> string list" where
  "linux_if h rx_b rx_p tx_b tx_p =
     [
       ''<<<lnx_if>>>'',
       ''[start_iplink]'',
       ''1: lo: <LOOPBACK,UP,LOWER_UP> mtu 65536 qdisc noqueue state UNKNOWN group default qlen 1000'',
       ''    link/loopback 00:00:00:00:00:00 brd 00:00:00:00:00:00'',
       ''2: eth0: <BROADCAST,MULTICAST,UP,LOWER_UP> mtu 1500 qdisc fq_codel state UP group default qlen 1000'',
       ''    link/ether '' @ lh_mac h @ '' brd ff:ff:ff:ff:ff:ff'',
       ''[end_iplink]'',
       ''<<<lnx_if:sep(58)>>>'',
       ''eth0: '' @ int_str rx_b @ '' '' @ int_str rx_p @ '' 0 0 0 0 0 0 '' @ int_str tx_b @ '' '' @ int_str tx_p @ '' 0 0 0 0 0 0'',
       ''[eth0]'',
       TAB @ ''Speed: 10000Mb/s'',
       TAB @ ''Duplex: Full'',
       TAB @ ''Auto-negotiation: on'',
       TAB @ ''Link detected: yes'',
       ''Address: '' @ lh_mac h]"

definition linux_tcp :: "linux_host \<Rightarrow> (nat \<Rightarrow> int) \<Rightarrow> (sim, string list) state" where
  "linux_tcp h syn =
     do {
       let estab_base = 18 + (rx_bps h + tx_bps h) / 250000;
       g29 \<leftarrow> gauge (lh_short h @ ''.tcp.estab'') estab_base None (Some 0.2) (hphase h + 0.9) 700;
       let estab = py_round g29;
       g30 \<leftarrow> gauge (lh_short h @ ''.tcp.tw'') (estab_base * 0.5) None (Some 0.3) (hphase h + 2.4) 500;
       let tw = py_round g30;
       State_Monad.return ([
       ''<<<tcp_conn_stats>>>'',
       ''01 '' @ int_str (max 4 estab),
       ''02 '' @ int_str (syn 0),
       ''06 '' @ int_str (max 2 tw),
       ''0A 9'']) }"

definition linux_smart :: "linux_host \<Rightarrow> int \<Rightarrow> (sim, string list) state" where
  "linux_smart h uptime =
     do {
       g31 \<leftarrow> gauge (lh_short h @ ''.smart.sda'') 27.0 (Some 1.3) None (hphase h + 2.1) 1100;
       let temp = py_round g31;
       let sda_hours = disk_hours h + py_trunc (real_of_int uptime / 3600);
       ls33 \<leftarrow> (if (extra_fs h) \<noteq> [] then do {
         g32 \<leftarrow> gauge (lh_short h @ ''.smart.sdb'') 29.0 (Some 1.3) None (hphase h + 3.3) 1300;
         let temp2 = py_round g32;
         State_Monad.return ([
       smart_json ''/dev/sdb'' ''Samsung SSD 883 DCT 1.92TB'' (data_serial h) sda_hours temp2 (data_cycles h) (sda_hours div 150)]) } else State_Monad.return ([]));
       State_Monad.return ([
       ''<<<smart_posix_all:sep(0)>>>'',
       smart_json ''/dev/sda'' (disk_model h) (disk_serial h) sda_hours temp (disk_cycles h) (sda_hours div 150)] @
      ls33) }"

text \<open>\<open>_procs\<close>: the base daemons, the role's processes three pids apart, the qemu processes seven apart.\<close>

definition role_unit :: "linux_host \<Rightarrow> string" where
  "role_unit h = (case hc_units (lh_cls h) of [] \<Rightarrow> ''app.service'' | u # _ \<Rightarrow> fst u)"

definition role_procs :: "linux_host \<Rightarrow> (string \<times> string \<times> int \<times> int \<times> int \<times> string) list" where
  "role_procs h =
     map (\<lambda>(i, (user, vsz, rss, cmd)). (''system.slice/'' @ role_unit h, user, int vsz, int rss, 1200 + 3 * int i, cmd))
       (enumerate 0 (hc_procs (lh_cls h)))"

definition qemu_cmd :: "guest \<Rightarrow> string" where
  "qemu_cmd g = ''/usr/bin/qemu-system-x86_64 -name guest='' @ gu_short g @
     '',debug-threads=on -machine pc-q35-8.2 -m '' @ int_str (gu_mem_mb g)"

definition qemu_procs :: "linux_host \<Rightarrow> (string \<times> string \<times> int \<times> int \<times> int \<times> string) list" where
  "qemu_procs h =
     map (\<lambda>(i, g). (''machine.slice/machine-qemu.scope'', ''libvirt-qemu'', gu_mem_total g + 2400000,
            py_trunc (real_of_int (gu_mem_total g) * 0.82),
            1200 + 3 * int (length (hc_procs (lh_cls h))) + 7 * int i, qemu_cmd g))
       (enumerate 0 (lh_guests h))"

definition linux_procs :: "linux_host \<Rightarrow> (string \<times> string \<times> int \<times> int \<times> int \<times> string) list" where
  "linux_procs h = LNX_BASE_PROCS @ role_procs h @ qemu_procs h"

definition linux_ps :: "linux_host \<Rightarrow> int \<Rightarrow> int \<Rightarrow> string list" where
  "linux_ps h now uptime =
     (let up_days = uptime div 86400;
          elapsed = int_str up_days @ ''-04:18:52''
      in [
       ''<<<ps_lnx>>>'',
       ''[time]'',
       int_str now,
       ''[processes]'',
       ''[header] CGROUP USER VSZ RSS TIME ELAPSED PID COMMAND''] @
      concat (map (\<lambda>(cg, usr, vsz, rss, pid, cmd). [
       ''0::/'' @ cg @ '' '' @ usr @ '' '' @ int_str vsz @ '' '' @ int_str rss @ '' 00:00:'' @ pad2 (nat (pid mod 50 + 2)) @ '' '' @ elapsed @ '' '' @ int_str pid @ '' '' @ cmd]) (linux_procs h)))"

definition linux_units :: "linux_host \<Rightarrow> string list" where
  "linux_units h =
     (let units = map (\<lambda>(n, d). (n, ''active'', ''running'', d)) (hc_units (lh_cls h));
          units = units @ LNX_BASE_UNITS
      in [
       ''<<<systemd_units>>>'',
       ''[list-unit-files]''] @
      concat (map (\<lambda>(nam, _, _, _). [
       nam @ '' enabled enabled'']) units) @
      [
       ''[status]'',
       ''[all]''] @
      concat (map (\<lambda>(nam, act, sub, descr). [
       nam @ '' loaded '' @ act @ '' '' @ sub @ '' '' @ descr]) units))"

section \<open>The payload\<close>

definition linux_build :: "fleet_cfg \<Rightarrow> (nat \<Rightarrow> int) \<Rightarrow> linux_host \<Rightarrow> (sim, string) state" where
  "linux_build cfg syn h = do {
       t \<leftarrow> get_time;
       let now = py_trunc t;
       nowf \<leftarrow> get_time;
       let uptime = py_trunc (nowf - fc_start cfg + uptime_offset h);
       m \<leftarrow> linux_memory h;
       (l1, l5, l15) \<leftarrow> linux_load h;
       (user, system, idle, iowait) \<leftarrow> linux_ticks h;
       (sda, sdb) \<leftarrow> linux_disks h;
       (rx_b, tx_b, rx_p, tx_p) \<leftarrow> linux_net h;
       root_used \<leftarrow> linux_root_used h uptime;
       head \<leftarrow> linux_head cfg h;
       df \<leftarrow> linux_df h nowf root_used 86400;
       cpu \<leftarrow> linux_cpu h l1 l5 l15 uptime;
       sync \<leftarrow> linux_timesync cfg h now nowf;
       kern \<leftarrow> linux_kernel h now user system idle iowait;
       tcp \<leftarrow> linux_tcp h syn;
       smart \<leftarrow> linux_smart h uptime;
       State_Monad.return (concat (map (\<lambda>l. l @ [CHR 0x0A])
         (head @ df @ linux_mem h m @ cpu @ sync @ kern @ linux_diskstat now sda sdb @ linux_if h rx_b rx_p tx_b tx_p @
          tcp @ smart @ linux_ps h now uptime @ linux_units h))) }"

end
