(* ===== verification/Fleet_Windows.thy ===== *)
theory Fleet_Windows
  imports Fleet_Tables
begin

text \<open>
  \<open>WindowsHost.build\<close> of \<open>fleet/serve.py\<close>, section by section, and the bounds of its drives.
\<close>

definition win_head :: "fleet_cfg \<Rightarrow> windows_host \<Rightarrow> int \<Rightarrow> (sim, string list) state" where
  "win_head cfg w now =
     do {
       t34 \<leftarrow> get_time;
       State_Monad.return ([
       ''<<<check_mk>>>'',
       ''Version: '' @ fc_version cfg,
       ''BuildDate: Apr  3 2026'',
       ''AgentOS: windows'',
       ''Hostname: '' @ fqdn cfg (wh_short w),
       ''Architecture: 64bit'',
       ''OSName: Microsoft Windows Server 2022 Datacenter'',
       ''OSVersion: 10.0.20348'',
       ''OSType: windows'',
       strftime ''Time: %Y-%m-%dT%H:%M:%S+0000'' (gmtime now),
       ''WorkingDirectory: C:'' @ BS @ ''Windows'' @ BS @ ''system32'',
       ''ConfigFile: C:'' @ BS @ ''Program Files (x86)'' @ BS @ ''checkmk'' @ BS @ ''service'' @ BS @ ''check_mk.yml'',
       ''LocalConfigFile: C:'' @ BS @ ''ProgramData'' @ BS @ ''checkmk'' @ BS @ ''agent'' @ BS @ ''check_mk.user.yml'',
       ''AgentDirectory: C:'' @ BS @ ''Program Files (x86)'' @ BS @ ''checkmk'' @ BS @ ''service'',
       ''PluginsDirectory: C:'' @ BS @ ''ProgramData'' @ BS @ ''checkmk'' @ BS @ ''agent'' @ BS @ ''plugins'',
       ''StateDirectory: C:'' @ BS @ ''ProgramData'' @ BS @ ''checkmk'' @ BS @ ''agent'' @ BS @ ''state'',
       ''ConfigDirectory: C:'' @ BS @ ''ProgramData'' @ BS @ ''checkmk'' @ BS @ ''agent'' @ BS @ ''config'',
       ''TempDirectory: C:'' @ BS @ ''ProgramData'' @ BS @ ''checkmk'' @ BS @ ''agent'' @ BS @ ''tmp'',
       ''LogDirectory: C:'' @ BS @ ''ProgramData'' @ BS @ ''checkmk'' @ BS @ ''agent'' @ BS @ ''log'',
       ''SpoolDirectory: C:'' @ BS @ ''ProgramData'' @ BS @ ''checkmk'' @ BS @ ''agent'' @ BS @ ''spool'',
       ''LocalDirectory: C:'' @ BS @ ''ProgramData'' @ BS @ ''checkmk'' @ BS @ ''agent'' @ BS @ ''local'',
       ''OnlyFrom:'',
       ''<<<cmk_agent_ctl_status:sep(0)>>>'',
       ctl_status_json (fc_version cfg) (wh_uuid w) (py_trunc t34)]) }"

definition win_cpu :: "windows_host \<Rightarrow> int \<Rightarrow> (sim, string list) state" where
  "win_cpu w uptime =
     do {
       g35 \<leftarrow> gauge (wh_short w @ ''.cpu.qlen'') (real_of_int (w_ncpu w) * 0.25) (Some 1.2) None (w_phase w + 0.3) 420;
       let qlen = max 0 (py_round g35);
       State_Monad.return ([
       ''<<<wmi_cpuload:sep(124)>>>'',
       ''[system_perf]'',
       ''Name|ProcessorQueueLength|Timestamp_PerfTime|Frequency_PerfTime|WMIStatus'',
       ''|'' @ int_str qlen @ ''|'' @ int_str (uptime * 10000000) @ ''|10000000|OK'',
       ''[computer_system]'',
       ''Name|NumberOfLogicalProcessors|NumberOfProcessors|WMIStatus'',
       upper (wh_short w) @ ''|'' @ int_str (w_ncpu w) @ ''|1|OK'',
       ''<<<uptime>>>'',
       int_str uptime]) }"

definition win_mem :: "windows_host \<Rightarrow> (sim, string list) state" where
  "win_mem w =
     do {
       let mt = w_mem_total w;
       g36 \<leftarrow> gauge (wh_short w @ ''.mem.free'') (real_of_int mt * 0.46) None (Some 0.04) (w_phase w + 0.6) 1500;
       let mem_free = py_trunc g36;
       let page_total = py_trunc (real_of_int mt * 1.45);
       g37 \<leftarrow> gauge (wh_short w @ ''.page.free'') (real_of_int page_total * 0.74) None (Some 0.02) (w_phase w + 1.4) 1700;
       let page_free = py_trunc g37;
       State_Monad.return ([
       ''<<<mem>>>'',
       ''MemTotal:      '' @ int_str mt @ '' kB'',
       ''MemFree:       '' @ int_str mem_free @ '' kB'',
       ''SwapTotal:     '' @ int_str (py_trunc (real_of_int mt * 0.45)) @ '' kB'',
       ''SwapFree:      '' @ int_str (py_trunc (real_of_int mt * 0.42)) @ '' kB'',
       ''PageTotal:     '' @ int_str page_total @ '' kB'',
       ''PageFree:      '' @ int_str page_free @ '' kB'',
       ''VirtualTotal:  137438953344 kB'',
       ''VirtualFree:   137431814144 kB'']) }"

definition win_c_used :: "windows_host \<Rightarrow> int \<Rightarrow> (sim, int) state" where
  "win_c_used w uptime =
     do {
       g38 \<leftarrow> gauge (wh_short w @ ''.c.used'') 0 (Some 90000) None (w_phase w) 1500;
       let c_used = py_trunc (real_of_int (c_kb w) * (c_used_frac w) + min (real_of_int (c_kb w) * 0.02) (real_of_int uptime * 0.02) + g38);
       State_Monad.return (c_used) }"

definition win_d_used :: "windows_host \<Rightarrow> int \<Rightarrow> real \<Rightarrow> (sim, int) state" where
  "win_d_used w d_kb d_used_frac =
     do {
       g39 \<leftarrow> gauge (wh_short w @ ''.d.used'') 0 (Some 400000) None (w_phase w + 1) 1800;
       let d_used = py_trunc (real_of_int d_kb * d_used_frac + g39);
       State_Monad.return (d_used) }"

definition win_df :: "windows_host \<Rightarrow> int \<Rightarrow> (sim, string list) state" where
  "win_df w c_used =
     do {
       d \<leftarrow> (case d_drive w of None \<Rightarrow> State_Monad.return []
             | Some (d_kb, d_used_frac) \<Rightarrow> do {
                 d_used \<leftarrow> win_d_used w d_kb d_used_frac;
                 State_Monad.return [join_with TAB [''D:'' @ BS, ''NTFS'', int_str d_kb, int_str d_used, int_str (d_kb - d_used), int_str (py_round (real_of_int d_used / (real_of_int d_kb) * 100)) @ ''%'', ''D:'' @ BS]] });
       State_Monad.return ([
       ''<<<df:sep(9)>>>'',
       join_with TAB [''C:'' @ BS, ''NTFS'', int_str (c_kb w), int_str c_used, int_str (c_kb w - c_used), int_str (py_round (real_of_int c_used / (real_of_int (c_kb w)) * 100)) @ ''%'', ''C:'' @ BS]] @ d) }"

definition win_services :: "fleet_cfg \<Rightarrow> windows_host \<Rightarrow> string list" where
  "win_services cfg w =
     [
       ''<<<services>>>''] @
      concat (map (\<lambda>(nam, status, descr). [
       nam @ '' '' @ status @ '' '' @ descr]) (hc_services (wh_cls w) @ WIN_BASE_SERVICES)) @
      [
       ''<<<checkmk_agent_plugins_win:sep(0)>>>'',
       ''pluginsdir C:'' @ BS @ ''ProgramData'' @ BS @ ''checkmk'' @ BS @ ''agent'' @ BS @ ''plugins'',
       ''localdir C:'' @ BS @ ''ProgramData'' @ BS @ ''checkmk'' @ BS @ ''agent'' @ BS @ ''local'',
       ''C:'' @ BS @ ''ProgramData'' @ BS @ ''checkmk'' @ BS @ ''agent'' @ BS @ ''plugins'' @ BS @ ''cmk_update_agent.checkmk.py:CMK_VERSION = '' @ [CHR 0x22] @ fc_version cfg @ [CHR 0x22],
       ''C:'' @ BS @ ''ProgramData'' @ BS @ ''checkmk'' @ BS @ ''agent'' @ BS @ ''plugins'' @ BS @ ''mk_inventory.vbs:CMK_VERSION = '' @ [CHR 0x22] @ fc_version cfg @ [CHR 0x22]]"

definition win_procs :: "windows_host \<Rightarrow> (string \<times> int \<times> int \<times> int \<times> int \<times> string) list" where
  "win_procs w = WIN_BASE_PROCS @
     map (\<lambda>(i, (usr, vsz, ws, exe)). (usr, int vsz, int ws, 2200 + 4 * int i, 16, exe))
       (enumerate 0 (hc_win_procs (wh_cls w)))"

definition win_ps :: "windows_host \<Rightarrow> int \<Rightarrow> int \<Rightarrow> string list" where
  "win_ps w now uptime =
     concat (map (\<lambda>(usr, vsz, ws, ppid, threads, nam). [
       ''('' @ usr @ '','' @ int_str vsz @ '','' @ int_str ws @ '',0,'' @ int_str ppid @ '','' @ int_str (threads * 2) @ '','' @ int_str (ppid * 156250) @ '','' @ int_str (ppid * 312500) @ '','' @ int_str (threads * 30) @ '','' @ int_str threads @ '','' @ int_str uptime @ '')'' @ TAB @ nam]) (win_procs w)) @
      [
       ''<<<systemtime>>>'',
       int_str now]"

section \<open>The payload\<close>

definition win_build :: "fleet_cfg \<Rightarrow> windows_host \<Rightarrow> (sim, string) state" where
  "win_build cfg w = do {
       t \<leftarrow> get_time;
       let now = py_trunc t;
       nowf \<leftarrow> get_time;
       let uptime = py_trunc (nowf - fc_start cfg + w_uptime_offset w);
       head \<leftarrow> win_head cfg w now;
       cpu \<leftarrow> win_cpu w uptime;
       mem \<leftarrow> win_mem w;
       c_used \<leftarrow> win_c_used w uptime;
       df \<leftarrow> win_df w c_used;
       State_Monad.return (concat (map (\<lambda>l. l @ [CHR 0x0D, CHR 0x0A])
         (head @ cpu @ mem @ df @ win_services cfg w @ [''<<<ps:sep(9)>>>''] @ win_ps w now uptime))) }"

end
