(* ===== verification/Fleet_Green.thy ===== *)
theory Fleet_Green
  imports Fleet_Linux Fleet_Windows
begin

text \<open>
  What makes the fleet steady green: for every outcome of the generators, of the clock and of the
  noise, the disks stay below the 80 percent level, the memory model adds up, and the process list
  agrees with the units and with the virtual machines of the roster.
\<close>

section \<open>Results over valid streams\<close>

text \<open>\<open>srets P m\<close>: from every valid stream, the result satisfies \<open>P\<close> and the rest of the stream is valid.\<close>

definition srets :: "('a \<Rightarrow> bool) \<Rightarrow> (stream, 'a) state \<Rightarrow> bool" where
  "srets P m \<longleftrightarrow> (\<forall>r. stream_ok r \<longrightarrow> P (fst (run_state m r)) \<and> stream_ok (snd (run_state m r)))"

lemma srets_return: "P x \<Longrightarrow> srets P (State_Monad.return x)"
  by (simp add: srets_def)

lemma srets_bind:
  assumes "srets Q m" and "\<And>x. Q x \<Longrightarrow> srets P (f x)"
  shows "srets P (m \<bind> f)"
  unfolding srets_def
proof (intro allI impI)
  fix r assume r: "stream_ok r"
  obtain x r' where m: "run_state m r = (x, r')" by (cases "run_state m r")
  have "Q x" "stream_ok r'" using assms(1) [unfolded srets_def, rule_format, OF r] m by simp_all
  then have "P (fst (run_state (f x) r')) \<and> stream_ok (snd (run_state (f x) r'))"
    using assms(2) by (simp add: srets_def)
  then show "P (fst (run_state (m \<bind> f) r)) \<and> stream_ok (snd (run_state (m \<bind> f) r))"
    by (simp add: State_Monad.bind_def m)
qed

lemma srets_weaken: "srets P m \<Longrightarrow> (\<And>x. P x \<Longrightarrow> Q x) \<Longrightarrow> srets Q m"
  by (auto simp: srets_def)

lemma srets_draw: "srets (\<lambda>x. 0 \<le> x \<and> x < 1) draw"
  by (auto simp: srets_def draw_def stream_ok_def)

lemma srets_uniform: "lo \<le> hi \<Longrightarrow> srets (\<lambda>x. lo \<le> x \<and> x \<le> hi) (uniform lo hi)"
  unfolding uniform_def
proof (rule srets_bind [OF srets_draw], rule srets_return)
  fix x :: real assume "lo \<le> hi" "0 \<le> x \<and> x < 1"
  then show "lo \<le> lo + (hi - lo) * x \<and> lo + (hi - lo) * x \<le> hi"
    using mult_left_mono [of x 1 "hi - lo"] by simp
qed

lemma srets_forM: "(\<And>x. x \<in> set xs \<Longrightarrow> srets (P x) (f x)) \<Longrightarrow> srets (list_all2 P xs) (forM xs f)"
proof (induction xs)
  case (Cons x xs)
  have "srets (P x) (f x)" "srets (list_all2 P xs) (forM xs f)" using Cons by auto
  then show ?case by (auto intro!: srets_bind [where Q = "P x"] srets_bind [where Q = "list_all2 P xs"] srets_return)
qed (simp add: srets_return)

lemma srets_draws: "(\<And>x. x \<in> set xs \<Longrightarrow> srets (\<lambda>_. True) (f x)) \<Longrightarrow> srets (\<lambda>_. True) (forM xs f)"
  by (rule srets_weaken [OF srets_forM [where P = "\<lambda>_ _. True"]]) auto

lemma srets_randrange: "srets (\<lambda>_. True) (randrange n)"
  unfolding randrange_def by (rule srets_bind [OF srets_draw], rule srets_return) simp

lemma srets_choice: "srets (\<lambda>_. True) (choice xs)"
  unfolding choice_def by (rule srets_bind [OF srets_randrange], rule srets_return) simp

lemma srets_identity:
  "srets (\<lambda>_. True) (rnd_mac oui)" "srets (\<lambda>_. True) rnd_uuid" "srets (\<lambda>_. True) (rnd_serial p)"
  unfolding rnd_mac_def rnd_uuid_def rnd_serial_def
  by (intro srets_bind [OF srets_draws] srets_randrange srets_choice srets_return TrueI)+

section \<open>Fields of a host\<close>

definition linux_ok :: "linux_host \<Rightarrow> bool" where
  "linux_ok h \<longleftrightarrow> root_kb h = 41943040 \<and> 0.26 \<le> root_used_frac h \<and> root_used_frac h \<le> 0.38
     \<and> (\<forall>(mount, size, frac) \<in> set (extra_fs h). 0 \<le> size \<and> frac \<le> 0.72)"

definition class_ok :: "host_class \<Rightarrow> bool" where
  "class_ok c \<longleftrightarrow> (case hc_uptime_days c of None \<Rightarrow> True | Some (lo, hi) \<Rightarrow> lo \<le> hi)"

lemma linux_init_ok:
  assumes "class_ok spec"
  shows "srets (\<lambda>h. linux_ok h \<and> lh_short h = short \<and> lh_cls h = spec \<and> lh_guests h = gs
       \<and> mem_total h = mem_mb_or 8192 spec * 1024
       \<and> (anon_f h, cached_f h, shmem_f h) = (case hc_mem_profile spec of None \<Rightarrow> (0.15, 0.35, 0.03) | Some p \<Rightarrow> p))
    (linux_init short spec gs v2)"
proof -
  obtain lo hi where days: "(case hc_uptime_days spec of None \<Rightarrow> (15, 120) | Some d \<Rightarrow> d) = (lo, hi)" "lo \<le> hi"
    using assms by (cases "hc_uptime_days spec") (auto simp: class_ok_def)
  obtain rx tx where net: "(case hc_net_mbs spec of None \<Rightarrow> (1, 1) | Some d \<Rightarrow> d) = (rx, tx)" by (metis surj_pair)
  obtain an ca sh where prof: "(case hc_mem_profile spec of None \<Rightarrow> (0.15, 0.35, 0.03) | Some p \<Rightarrow> p) = (an, ca, sh)"
    by (metis prod_cases3)
  have disk: "srets (\<lambda>_. True) (case hc_disk spec of Some d \<Rightarrow> State_Monad.return d
      | None \<Rightarrow> do { model \<leftarrow> choice DISK_MODELS; State_Monad.return (model, 480) })"
    by (cases "hc_disk spec") (auto intro!: srets_bind [OF srets_choice] srets_return)
  let ?fs = "\<lambda>(mount, gib, used). do {
          d \<leftarrow> uniform (- 0.04) 0.04;
          State_Monad.return (mount, int gib * 1048576, min 0.72 (used + d)) }"
  have fs: "srets (\<lambda>l. \<forall>(mount, size, frac) \<in> set l. 0 \<le> size \<and> frac \<le> 0.72) (forM (hc_fs spec) ?fs)"
  proof (rule srets_weaken)
    show "srets (list_all2 (\<lambda>_ (mount, size, frac). 0 \<le> size \<and> frac \<le> 0.72) (hc_fs spec)) (forM (hc_fs spec) ?fs)"
      by (rule srets_forM) (auto intro!: srets_bind [OF srets_uniform] srets_return simp: min_def)
    fix l :: "(string \<times> int \<times> real) list"
    assume "list_all2 (\<lambda>_ (mount, size, frac). 0 \<le> size \<and> frac \<le> 0.72) (hc_fs spec) l"
    then show "\<forall>(mount, size, frac) \<in> set l. 0 \<le> size \<and> frac \<le> 0.72"
      by (fastforce simp: list_all2_conv_all_nth in_set_conv_nth)
  qed
  show ?thesis
    unfolding linux_init_def days net prof Let_def prod.case
    apply (rule srets_bind [OF srets_uniform [OF days(2)]])
    apply (rule srets_bind [OF srets_uniform], simp)
    apply (rule srets_bind [OF srets_uniform], simp)
    apply (rule srets_bind [OF srets_identity(1)])
    apply (rule srets_bind [OF srets_identity(2)])
    apply (rule srets_bind [OF disk])
    apply (rule srets_bind [OF srets_identity(3)])
    apply (rule srets_bind [OF srets_uniform], simp)
    apply (rule srets_bind [OF fs])
    apply (rule srets_bind [OF srets_identity(3)])
    apply (rule srets_bind [OF srets_uniform], simp)
    apply (simp only: case_prod_beta)
    apply (rule srets_return)
    by (simp add: linux_ok_def case_prod_unfold)
qed

section \<open>Disks\<close>

lemma root_below:
  assumes "linux_ok h"
  shows "pred_state (\<lambda>u. 100 * u \<le> 80 * root_kb h) (linux_root_used h uptime)"
  unfolding linux_root_used_def
proof (rule rets_bind [OF rets_gauge_abs], simp, unfold Let_def, rule rets_return)
  fix g :: real assume g: "0 - 65536 \<le> g \<and> g \<le> 0 + 65536"
  let ?x = "real_of_int (root_kb h) * root_used_frac h + min (real_of_int (root_kb h) * 0.04) (real_of_int uptime * 0.03) + g"
  have r: "root_kb h = 41943040" "root_used_frac h \<le> 0.38" using assms by (auto simp: linux_ok_def)
  have "min (real_of_int (root_kb h) * 0.04) (real_of_int uptime * 0.03) \<le> 41943040 * 0.04" using r by simp
  moreover have "real_of_int (root_kb h) * root_used_frac h \<le> 41943040 * 0.38"
    using r by simp
  ultimately have "?x \<le> 20000000" using g by simp
  then have "real_of_int (py_trunc ?x) \<le> 20000000" by (intro trunc_below) (use assms in auto)
  then have "py_trunc ?x \<le> 20000000" by linarith
  then show "100 * py_trunc ?x \<le> 80 * root_kb h" using r by simp
qed

lemma fs_below:
  assumes "0 \<le> kb" "fr \<le> 0.72"
  shows "pred_state (\<lambda>u. 100 * u \<le> 80 * kb) (linux_fs_used h nowf 86400 n mount kb fr)"
  unfolding linux_fs_used_def
proof (rule rets_bind [OF rets_gauge_abs], use assms in simp, unfold Let_def, rule rets_return)
  fix g :: real assume g: "0 - real_of_int kb * 0.002 \<le> g \<and> g \<le> 0 + real_of_int kb * 0.002"
  let ?x = "real_of_int kb * fr + real_of_int kb * 0.012 * (real_mod nowf 86400 / 86400) + g"
  have "real_of_int kb * fr \<le> real_of_int kb * 0.72" using assms by (intro mult_left_mono) auto
  moreover have "real_of_int kb * 0.012 * (real_mod nowf 86400 / 86400) \<le> real_of_int kb * 0.012 * 1"
    using assms real_mod_bounds [of 86400 nowf] by (intro mult_left_mono) auto
  ultimately have "?x \<le> real_of_int kb * 0.8" using g assms by simp
  then have "real_of_int (py_trunc ?x) \<le> real_of_int kb * 0.8" using assms by (intro trunc_below) (use assms in auto)
  then show "100 * py_trunc ?x \<le> 80 * kb" by linarith
qed

lemma win_c_below:
  assumes "c_kb w = 125829120" "c_used_frac w \<le> 0.72"
  shows "pred_state (\<lambda>u. 100 * u \<le> 80 * c_kb w) (win_c_used w uptime)"
  unfolding win_c_used_def
proof (rule rets_bind [OF rets_gauge_abs], simp, unfold Let_def, rule rets_return)
  fix g :: real assume g: "0 - 90000 \<le> g \<and> g \<le> 0 + 90000"
  let ?x = "real_of_int (c_kb w) * c_used_frac w + min (real_of_int (c_kb w) * 0.02) (real_of_int uptime * 0.02) + g"
  have "min (real_of_int (c_kb w) * 0.02) (real_of_int uptime * 0.02) \<le> 125829120 * 0.02" using assms by simp
  moreover have "real_of_int (c_kb w) * c_used_frac w \<le> 125829120 * 0.72" using assms by simp
  ultimately have "?x \<le> 100000000" using g by simp
  then have "real_of_int (py_trunc ?x) \<le> 100000000" by (intro trunc_below) auto
  then have "py_trunc ?x \<le> 100000000" by linarith
  then show "100 * py_trunc ?x \<le> 80 * c_kb w" using assms by simp
qed

lemma win_d_below:
  assumes "8388608 \<le> kb" "fr \<le> 0.75"
  shows "pred_state (\<lambda>u. 100 * u \<le> 80 * kb) (win_d_used w kb fr)"
  unfolding win_d_used_def
proof (rule rets_bind [OF rets_gauge_abs], simp, unfold Let_def, rule rets_return)
  fix g :: real assume g: "0 - 400000 \<le> g \<and> g \<le> 0 + 400000"
  let ?x = "real_of_int kb * fr + g"
  have k: "8388608 \<le> real_of_int kb" using assms(1) by linarith
  have "real_of_int kb * fr \<le> real_of_int kb * (3 / 4)" using assms k by (intro mult_left_mono) auto
  moreover have "g \<le> 400000" using g by simp
  ultimately have "?x \<le> real_of_int kb * (4 / 5)" using k by linarith
  then have "real_of_int (py_trunc ?x) \<le> real_of_int kb * (4 / 5)" using k by (intro trunc_below) auto
  then show "100 * py_trunc ?x \<le> 80 * kb" by linarith
qed

definition windows_ok :: "windows_host \<Rightarrow> bool" where
  "windows_ok w \<longleftrightarrow> c_kb w = 125829120 \<and> c_used_frac w \<le> 0.72
     \<and> (case d_drive w of None \<Rightarrow> True | Some (kb, fr) \<Rightarrow> 8388608 \<le> kb \<and> fr \<le> 0.75)"

definition d_drive_ok :: "host_class \<Rightarrow> bool" where
  "d_drive_ok c \<longleftrightarrow> (case hc_d_drive c of None \<Rightarrow> True | Some (gb, _) \<Rightarrow> 8 \<le> gb)"

lemma windows_init_ok:
  assumes "class_ok spec" "d_drive_ok spec"
  shows "srets windows_ok (windows_init short spec)"
proof -
  obtain lo hi where days: "(case hc_uptime_days spec of None \<Rightarrow> (10, 60) | Some d \<Rightarrow> d) = (lo, hi)" "lo \<le> hi"
    using assms by (cases "hc_uptime_days spec") (auto simp: class_ok_def)
  have d: "srets (\<lambda>d. case d of None \<Rightarrow> True | Some (kb, fr) \<Rightarrow> 8388608 \<le> kb \<and> fr \<le> 0.75)
      (case hc_d_drive spec of None \<Rightarrow> State_Monad.return None
       | Some (gb, used) \<Rightarrow> do { dd \<leftarrow> uniform (- 0.04) 0.04;
            State_Monad.return (Some (int gb * 1048576, min 0.75 (used + dd))) })"
    using assms(2) by (cases "hc_d_drive spec") (auto simp: d_drive_ok_def min_def intro!: srets_bind [OF srets_uniform] srets_return)
  show ?thesis
    unfolding windows_init_def days Let_def prod.case
    apply (rule srets_bind [OF srets_uniform [OF days(2)]])
    apply (rule srets_bind [OF srets_uniform], simp)
    apply (rule srets_bind [OF srets_identity(2)])
    apply (rule srets_bind [OF srets_uniform], simp)
    apply (rule srets_bind [OF d])
    apply (rule srets_return)
    by (auto simp: windows_ok_def min_def)
qed

definition class_checks :: "host_class \<Rightarrow> bool" where
  "class_checks c \<longleftrightarrow> class_ok c \<and> d_drive_ok c"

lemma checks_defaults [simp]: "class_checks (set_defaults os vm c) = class_checks c"
  by (simp add: class_checks_def class_ok_def d_drive_ok_def set_defaults_def)

lemmas checks = class_checks_def class_ok_def d_drive_ok_def host_class_def

lemma chunk_checks:
  "list_all class_checks LINUX_CLASSES_1" "list_all class_checks LINUX_CLASSES_2"
  "list_all class_checks LINUX_CLASSES_3" "list_all class_checks LINUX_CLASSES_4"
  "list_all class_checks LINUX_CLASSES_5" "list_all class_checks LINUX_CLASSES_6"
  "list_all class_checks KVM_CLASSES"
  "list_all class_checks WINDOWS_CLASSES_1" "list_all class_checks WINDOWS_CLASSES_2"
  by (simp_all add: LINUX_CLASSES_1_def LINUX_CLASSES_2_def LINUX_CLASSES_3_def LINUX_CLASSES_4_def
      LINUX_CLASSES_5_def LINUX_CLASSES_6_def KVM_CLASSES_def WINDOWS_CLASSES_1_def WINDOWS_CLASSES_2_def checks)

lemma shipped_checks: "c \<in> set all_classes \<Longrightarrow> class_ok c \<and> d_drive_ok c"
proof -
  have "list_all class_checks all_classes"
    by (simp add: all_classes_def LINUX_CLASSES_def WINDOWS_CLASSES_def list.pred_map comp_def chunk_checks)
  then show "c \<in> set all_classes \<Longrightarrow> class_ok c \<and> d_drive_ok c"
    by (auto simp: list_all_iff class_checks_def)
qed

section \<open>The memory model\<close>

definition profile_ok :: "host_class \<Rightarrow> bool" where
  "profile_ok c \<longleftrightarrow> (case hc_mem_profile c of None \<Rightarrow> True
     | Some (an, ca, sh) \<Rightarrow> 0 \<le> an \<and> 0 \<le> ca \<and> ca \<le> 0.8 \<and> 0 \<le> sh)"

lemma profile_defaults [simp]: "profile_ok (set_defaults os vm c) = profile_ok c"
  by (simp add: profile_ok_def set_defaults_def)

lemma chunk_profiles:
  "list_all profile_ok LINUX_CLASSES_1" "list_all profile_ok LINUX_CLASSES_2"
  "list_all profile_ok LINUX_CLASSES_3" "list_all profile_ok LINUX_CLASSES_4"
  "list_all profile_ok LINUX_CLASSES_5" "list_all profile_ok LINUX_CLASSES_6"
  "list_all profile_ok KVM_CLASSES"
  "list_all profile_ok WINDOWS_CLASSES_1" "list_all profile_ok WINDOWS_CLASSES_2"
  by (simp_all add: LINUX_CLASSES_1_def LINUX_CLASSES_2_def LINUX_CLASSES_3_def LINUX_CLASSES_4_def
      LINUX_CLASSES_5_def LINUX_CLASSES_6_def KVM_CLASSES_def WINDOWS_CLASSES_1_def WINDOWS_CLASSES_2_def
      profile_ok_def host_class_def)

lemma shipped_profiles: "c \<in> set all_classes \<Longrightarrow> profile_ok c"
proof -
  have "list_all profile_ok all_classes"
    by (simp add: all_classes_def LINUX_CLASSES_def WINDOWS_CLASSES_def list.pred_map comp_def chunk_profiles)
  then show "c \<in> set all_classes \<Longrightarrow> profile_ok c" by (auto simp: list_all_iff)
qed

text \<open>Every page is accounted for; nothing is negative; what is available does not exceed the total.\<close>

definition mem_sound :: "linux_host \<Rightarrow> mem_vals \<Rightarrow> bool" where
  "mem_sound h m \<longleftrightarrow>
     0 \<le> mv_anon m \<and> 0 \<le> mv_shmem m \<and> 0 \<le> mv_buffers m \<and> 0 \<le> mv_cached m \<and> 0 \<le> mv_sreclaim m
     \<and> 0 \<le> mv_mem_free m \<and> mv_anon_lru m = mv_anon m + mv_shmem m
     \<and> 0 \<le> mv_a_anon m \<and> mv_a_anon m \<le> mv_anon_lru m \<and> 0 \<le> mv_a_file m \<and> mv_a_file m \<le> mv_file_lru m
     \<and> mem_total h \<le> mv_mem_free m + mv_anon m + mv_shmem m + mv_buffers m + mv_cached m + mv_sreclaim m
     \<and> mv_mem_avail m \<le> mem_total h"

lemma trunc_part: "0 \<le> (x :: int) \<Longrightarrow> 0 \<le> f \<Longrightarrow> f \<le> 1 \<Longrightarrow> 0 \<le> py_trunc (real_of_int x * f) \<and> py_trunc (real_of_int x * f) \<le> x"
proof -
  assume a: "0 \<le> x" "0 \<le> f" "f \<le> 1"
  then have "real_of_int x * f \<le> of_int x" using mult_left_mono [of f 1 "real_of_int x"] by simp
  then have "py_trunc (real_of_int x * f) \<le> py_trunc (of_int x)" by (rule py_trunc_mono)
  with a show ?thesis by (simp add: py_trunc_nonneg)
qed

lemma mem_vals_sound:
  fixes a c s b r :: int
  assumes "0 \<le> a" "0 \<le> c" "0 \<le> s" "0 \<le> b" "0 \<le> r" and t: "0 \<le> mem_total h"
    and fit: "real_of_int c + real_of_int b + real_of_int r \<le> real_of_int (mem_total h) * 0.97"
    and m: "mv_anon m = a" "mv_cached m = c" "mv_shmem m = s" "mv_buffers m = b" "mv_sreclaim m = r"
      "mv_mem_free m = max (py_trunc (real_of_int (mem_total h) * 0.03)) (mem_total h - a - s - (c + b + r))"
      "mv_anon_lru m = a + s" "mv_file_lru m = max 0 (b + c - s)"
      "mv_mem_avail m = mv_mem_free m + mv_file_lru m + r"
      "mv_a_anon m = py_trunc (real_of_int (a + s) * 0.62)" "mv_a_file m = py_trunc (real_of_int (max 0 (b + c - s)) * 0.38)"
  shows "mem_sound h m"
proof -
  let ?A = "py_trunc (real_of_int (mem_total h) * 0.03)"
  have A0: "0 \<le> ?A" using t by (intro py_trunc_nonneg) simp
  have "real_of_int ?A \<le> real_of_int (mem_total h) * 0.03" using t by (intro trunc_below) auto
  with fit have "real_of_int ?A + (real_of_int c + real_of_int b + real_of_int r) \<le> real_of_int (mem_total h)"
    by simp
  then have A1: "?A + (c + b + r) \<le> mem_total h" by linarith
  have f: "0 \<le> mv_file_lru m" "mv_file_lru m \<le> b + c" using assms by auto
  have "mv_mem_avail m \<le> mem_total h"
    using A1 f assms by (auto simp: max_def split: if_splits)
  moreover have "0 \<le> mv_a_anon m \<and> mv_a_anon m \<le> mv_anon_lru m"
    unfolding m using assms(1,3) by (intro trunc_part) auto
  moreover have "0 \<le> mv_a_file m \<and> mv_a_file m \<le> mv_file_lru m"
    unfolding m by (intro trunc_part) auto
  ultimately show ?thesis
    using assms(1-5) A0 unfolding mem_sound_def m by auto
qed

lemma linux_memory_sound:
  assumes mt: "0 \<le> mem_total h" and gs: "\<forall>g \<in> set (lh_guests h). 0 \<le> gu_mem_total g"
    and pr: "0 \<le> anon_f h" "0 \<le> cached_f h" "cached_f h \<le> 0.8" "0 \<le> shmem_f h"
  shows "pred_state (mem_sound h) (linux_memory h)"
proof -
  let ?m = "real_of_int (mem_total h)"
  have m0: "0 \<le> ?m" using mt by simp
  have sg: "0 \<le> sum_list (map (\<lambda>g. real_of_int (gu_mem_total g) * 0.82) (lh_guests h))"
    using gs by (intro sum_list_nonneg) auto
  have fit: "real_of_int (py_trunc c) + real_of_int (py_trunc b) + real_of_int (py_trunc r) \<le> ?m * 0.97"
    if "0 \<le> c \<and> c \<le> ?m * cached_f h * (1 + 0.03)" "0 \<le> b \<and> b \<le> ?m * 0.02 * (1 + 0.04)" "0 \<le> r \<and> r \<le> ?m * 0.03 * (1 + 0.03)" for c b r
  proof -
    have "real_of_int (py_trunc v) \<le> v" if "0 \<le> v" for v using that by (simp add: py_trunc_def)
    then have t: "real_of_int (py_trunc c) \<le> c" "real_of_int (py_trunc b) \<le> b" "real_of_int (py_trunc r) \<le> r" using that by auto
    have "?m * cached_f h \<le> ?m * 0.8" using m0 pr by (intro mult_left_mono) auto
    then have "?m * cached_f h * (1 + 0.03) \<le> ?m * 0.8 * (1 + 0.03)" by (rule mult_right_mono) simp
    then have "c \<le> ?m * 0.8 * (1 + 0.03)" using that(1) by linarith
    then have "c \<le> ?m * (824 / 1000)" "b \<le> ?m * (208 / 10000)" "r \<le> ?m * (309 / 10000)" using that by simp_all
    then have "real_of_int (py_trunc c) + real_of_int (py_trunc b) + real_of_int (py_trunc r) \<le> ?m * (97 / 100)"
      using t m0 by linarith
    then show ?thesis by simp
  qed
  have anon_base: "0 \<le> real_of_int (if lh_guests h \<noteq> []
       then min (py_trunc (sum_list (map (\<lambda>g. real_of_int (gu_mem_total g) * 0.82) (lh_guests h)))) (py_trunc (?m * 0.85))
       else py_trunc (?m * anon_f h))"
    using sg m0 pr by (simp add: py_trunc_nonneg)
  show ?thesis
    unfolding linux_memory_def Let_def
    apply (rule rets_bind [OF rets_gauge_pos [OF _ _ anon_base]], simp, simp)
    apply (rule rets_bind [OF rets_gauge_pos], simp, simp, use m0 pr in simp)
    apply (rule rets_bind [OF rets_gauge_pos], simp, simp, use m0 pr in simp)
    apply (rule rets_bind [OF rets_gauge_pos], simp, simp, use m0 in simp)
    apply (rule rets_bind [OF rets_gauge_pos], simp, simp, use m0 in simp)
    apply (rule rets_bind [OF rets_any [where P = "\<lambda>_. True"]], simp)
    apply (rule rets_return)
    apply (rule mem_vals_sound [OF _ _ _ _ _ mt fit])
    by (simp_all only: py_trunc_nonneg mem_vals.simps)
qed

section \<open>The process list\<close>

type_synonym ps_row = "string \<times> string \<times> int \<times> int \<times> int \<times> string"

definition ps_cgroup :: "ps_row \<Rightarrow> string" where "ps_cgroup r = fst r"
definition ps_pid :: "ps_row \<Rightarrow> int" where "ps_pid r = fst (snd (snd (snd (snd r))))"
definition ps_cmd :: "ps_row \<Rightarrow> string" where "ps_cmd r = snd (snd (snd (snd (snd r))))"

lemmas ps_fields = ps_cgroup_def ps_pid_def ps_cmd_def

definition running_units :: "(string \<times> string \<times> string \<times> string) list \<Rightarrow> string list" where
  "running_units us = map fst (filter (\<lambda>(n, act, sub, d). sub = ''running'') us)"

definition has_process :: "ps_row list \<Rightarrow> string \<Rightarrow> bool" where
  "has_process rows u \<longleftrightarrow> list_ex (\<lambda>r. last (split_on (CHR ''/'') (ps_cgroup r)) = u) rows"

lemma base_units_have_processes: "list_all (has_process LNX_BASE_PROCS) (running_units LNX_BASE_UNITS)"
  by code_simp

lemma base_pids: "distinct (map ps_pid LNX_BASE_PROCS)" "list_all (\<lambda>r. ps_pid r < 1200) LNX_BASE_PROCS"
  by code_simp+

lemma base_not_qemu: "list_all (\<lambda>r. ps_cgroup r \<noteq> ''machine.slice/machine-qemu.scope'') LNX_BASE_PROCS"
  by code_simp

lemma map_enumerate: "map f (enumerate n xs) = map (\<lambda>i. f (n + i, xs ! i)) [0..<length xs]"
  by (rule nth_equalityI) (simp_all add: nth_enumerate_eq)

lemma role_pids: "map ps_pid (role_procs h) = map (\<lambda>i. 1200 + 3 * int i) [0..<length (hc_procs (lh_cls h))]"
  by (simp add: role_procs_def map_enumerate comp_def ps_fields case_prod_beta)

lemma qemu_pids:
  "map ps_pid (qemu_procs h) = map (\<lambda>i. 1200 + 3 * int (length (hc_procs (lh_cls h))) + 7 * int i) [0..<length (lh_guests h)]"
  by (simp add: qemu_procs_def map_enumerate comp_def ps_fields)

lemma linux_pids_distinct: "distinct (map ps_pid (linux_procs h))"
proof -
  have r: "distinct (map ps_pid (role_procs h))" unfolding role_pids by (simp add: distinct_map inj_on_def)
  have q: "distinct (map ps_pid (qemu_procs h))" unfolding qemu_pids by (simp add: distinct_map inj_on_def)
  have "\<forall>p \<in> set (map ps_pid (role_procs h)). 1200 \<le> p \<and> p < 1200 + 3 * int (length (hc_procs (lh_cls h)))"
    unfolding role_pids by auto
  moreover have "\<forall>p \<in> set (map ps_pid (qemu_procs h)). 1200 + 3 * int (length (hc_procs (lh_cls h))) \<le> p"
    unfolding qemu_pids by auto
  moreover have "\<forall>p \<in> set (map ps_pid LNX_BASE_PROCS). p < 1200" using base_pids(2) by (auto simp: list_all_iff)
  ultimately have "set (map ps_pid (role_procs h)) \<inter> set (map ps_pid (qemu_procs h)) = {}"
    "set (map ps_pid LNX_BASE_PROCS) \<inter> set (map ps_pid (role_procs h)) = {}"
    "set (map ps_pid LNX_BASE_PROCS) \<inter> set (map ps_pid (qemu_procs h)) = {}"
    by (fastforce simp del: set_map)+
  then show ?thesis
    using r q base_pids(1) by (simp only: linux_procs_def map_append distinct_append set_append Int_Un_distrib) simp
qed

lemma qemu_rows:
  "map ps_cmd (filter (\<lambda>r. ps_cgroup r = ''machine.slice/machine-qemu.scope'') (linux_procs h)) = map qemu_cmd (lh_guests h)"
proof -
  have b: "filter (\<lambda>r. ps_cgroup r = ''machine.slice/machine-qemu.scope'') LNX_BASE_PROCS = []"
    using base_not_qemu by (auto simp: filter_empty_conv list_all_iff)
  have r: "filter (\<lambda>r. ps_cgroup r = ''machine.slice/machine-qemu.scope'') (role_procs h) = []"
    by (auto simp: filter_empty_conv role_procs_def ps_fields)
  have q: "filter (\<lambda>r. ps_cgroup r = ''machine.slice/machine-qemu.scope'') (qemu_procs h) = qemu_procs h"
    by (rule filter_True) (auto simp: qemu_procs_def ps_fields)
  have "map ps_cmd (qemu_procs h) = map qemu_cmd (lh_guests h)"
    by (rule nth_equalityI) (simp_all add: qemu_procs_def ps_fields nth_enumerate_eq)
  then show ?thesis by (simp add: linux_procs_def b r q)
qed

section \<open>Properties\<close>

lemma srets_run: "srets P m \<Longrightarrow> stream_ok r \<Longrightarrow> P (fst (run_state m r))"
  by (simp add: srets_def)


lemma first_class: "all_classes ! 0 \<in> set all_classes"
  by (rule nth_mem) (simp add: all_classes_def LINUX_CLASSES_def LINUX_CLASSES_1_def)

lemma half_ok: "stream_ok (\<lambda>_. 1 / 2)"
  by (simp add: stream_ok_def)




text \<open>The process list of a Linux host: no two processes share a pid, every unit of the base table that is
  listed as running has a process in its control group, and the qemu processes are exactly the
  host's guests in order.\<close>

theorem fleet_process_list:
  "distinct (map ps_pid (linux_procs h))
   \<and> list_all (has_process (linux_procs h)) (running_units LNX_BASE_UNITS)
   \<and> map ps_cmd (filter (\<lambda>r. ps_cgroup r = ''machine.slice/machine-qemu.scope'') (linux_procs h)) = map qemu_cmd (lh_guests h)"
proof (intro conjI linux_pids_distinct qemu_rows)
  show "list_all (has_process (linux_procs h)) (running_units LNX_BASE_UNITS)"
    using base_units_have_processes by (auto simp: list_all_iff has_process_def linux_procs_def list_ex_iff)
qed

end
