(* ===== verification/Host_Web.thy ===== *)
theory Host_Web
  imports Agent_Text
begin

text \<open>
  \<open>hosts/web-frontend-01/serve.py\<close>, the steady-green edge proxy: its counters, its filesystems and the whole
  agent output, section by section.  \<open>ri\<close> lists the outcomes of \<open>random.randint\<close> in the order of the calls.
\<close>

section \<open>Configuration and counters\<close>

definition web_counters :: "(string \<times> real \<times> real \<times> real) list" where
  "web_counters = [
     (''cpu.user'', 0.3, 0.30, 60 * real_of_int 1209600),
     (''cpu.system'', 1.1, 0.30, 20 * real_of_int 1209600),
     (''cpu.idle'', 2.4, 0.30, 310 * real_of_int 1209600),
     (''cpu.iowait'', 3.0, 0.30, 8 * real_of_int 1209600),
     (''kernel.ctxt'', 4.0, 0.30, 5500 * real_of_int 1209600),
     (''kernel.processes'', 4.7, 0.30, 6 * real_of_int 1209600),
     (''kernel.pgmajfault'', 5.4, 0.25, 0.2 * real_of_int 1209600),
     (''sda.rd_ios'', 0.0, 0.30, 3 * real_of_int 1209600),
     (''sda.rd_ticks'', 0.2, 0.30, 2 * real_of_int 1209600),
     (''sda.wr_ios'', 0.4, 0.30, 12 * real_of_int 1209600),
     (''sda.wr_ticks'', 0.6, 0.30, 8 * real_of_int 1209600),
     (''sda.io_ticks'', 0.8, 0.05, 10 * real_of_int 1209600),
     (''net.rx_bytes'', 1.6, 0.30, 8000000 * real_of_int 1209600),
     (''net.tx_bytes'', 2.3, 0.30, 6000000 * real_of_int 1209600),
     (''net.rx_pkts'', 3.0, 0.30, 4000 * real_of_int 1209600),
     (''net.tx_pkts'', 3.7, 0.30, 3400 * real_of_int 1209600)]"

section \<open>Disk health and filesystems\<close>

definition web_smart_json :: "string \<Rightarrow> string \<Rightarrow> string \<Rightarrow> int \<Rightarrow> int \<Rightarrow> string" where
  "web_smart_json nam model serial hours temp =
     (let doc = JObj [(''device'', JObj [(''name'', JStr nam),
         (''type'', JStr ''sat''),
         (''protocol'', JStr ''ATA'')]),
         (''model_name'', JStr model),
         (''serial_number'', JStr serial),
         (''smart_status'', JObj [(''passed'', JBool True)]),
         (''power_on_time'', JObj [(''hours'', JNum hours)]),
         (''temperature'', JObj [(''current'', JNum temp)]),
         (''ata_smart_attributes'', JObj [(''table'', JArr [JObj [(''id'', JNum 5),
         (''name'', JStr ''Reallocated_Sector_Ct''),
         (''value'', JNum 100),
         (''thresh'', JNum 10),
         (''raw'', JObj [(''value'', JNum 0)])],
         JObj [(''id'', JNum 12),
         (''name'', JStr ''Power_Cycle_Count''),
         (''value'', JNum 100),
         (''thresh'', JNum 0),
         (''raw'', JObj [(''value'', JNum 31)])],
         JObj [(''id'', JNum 187),
         (''name'', JStr ''Reported_Uncorrect''),
         (''value'', JNum 100),
         (''thresh'', JNum 0),
         (''raw'', JObj [(''value'', JNum 0)])],
         JObj [(''id'', JNum 197),
         (''name'', JStr ''Current_Pending_Sector''),
         (''value'', JNum 100),
         (''thresh'', JNum 0),
         (''raw'', JObj [(''value'', JNum 0)])],
         JObj [(''id'', JNum 199),
         (''name'', JStr ''UDMA_CRC_Error_Count''),
         (''value'', JNum 200),
         (''thresh'', JNum 0),
         (''raw'', JObj [(''value'', JNum 0)])],
         JObj [(''id'', JNum 177),
         (''name'', JStr ''Wear_Leveling_Count''),
         (''value'', JNum 93),
         (''thresh'', JNum 5),
         (''raw'', JObj [(''value'', JNum 147)])],
         JObj [(''id'', JNum 179),
         (''name'', JStr ''Used_Rsvd_Blk_Cnt_Tot''),
         (''value'', JNum 100),
         (''thresh'', JNum 10),
         (''raw'', JObj [(''value'', JNum 0)])]])])]
      in dumps (doc))"

definition web_filesystem_usage :: "host_cfg \<Rightarrow> real \<Rightarrow> (sim, int \<times> int) state" where
  "web_filesystem_usage cfg now =
     do {
       let uptime = now - hc_start cfg + real_of_int 1209600;
       let day = 86400.0;
       let root_base = 11534336;
       let root_growth = min 1572864 (uptime * 0.03);
       g1 \<leftarrow> gauge ''fs.root'' 0 (Some 65536) None 0 1800;
       let root_used = py_trunc (real_of_int root_base + root_growth + g1);
       let log_base = 1887437;
       let log_daily = 1703936 * (real_mod now day / day);
       g2 \<leftarrow> gauge ''fs.log'' 0 (Some 32768) None 0 1200;
       let log_used = py_trunc (real_of_int log_base + log_daily + g2);
       State_Monad.return ((root_used, log_used)) }"

section \<open>The agent output\<close>

definition web_clock :: "host_cfg \<Rightarrow> (sim, int \<times> real \<times> int) state" where
  "web_clock cfg =
     do {
       t3 \<leftarrow> get_time;
       let now = py_trunc t3;
       nowf \<leftarrow> get_time;
       let uptime = py_trunc (nowf - hc_start cfg) + 1209600;
       State_Monad.return ((now, nowf, uptime)) }"

record web_memory_vals =
  web_m_commit_limit :: "int"
  web_m_cached :: "int"
  web_m_buffers :: "int"
  web_m_sreclaim :: "int"
  web_m_shmem :: "int"
  web_m_anon :: "int"
  web_m_mem_free :: "int"
  web_m_mem_available :: "int"
  web_m_a_anon :: "int"
  web_m_i_anon :: "int"
  web_m_a_file :: "int"
  web_m_i_file :: "int"
  web_m_slab :: "int"
  web_m_kernel_stack :: "int"
  web_m_dirty :: "int"
  web_m_committed :: "int"

definition web_memory :: "(sim, web_memory_vals) state" where
  "web_memory =
     do {
       let commit_limit = 16384000 div 2;
       g5 \<leftarrow> gauge ''mem.cached'' 6400000 None (Some 0.03) 0.4 1500;
       let cached = py_trunc g5;
       g6 \<leftarrow> gauge ''mem.buffers'' 380000 None (Some 0.04) 1.2 1100;
       let buffers = py_trunc g6;
       g7 \<leftarrow> gauge ''mem.srec'' 512000 None (Some 0.03) 2.0 1300;
       let sreclaim = py_trunc g7;
       let caches = cached + buffers + 0 + sreclaim;
       g8 \<leftarrow> gauge ''mem.shmem'' 655360 None (Some 0.02) 0.8 1600;
       let shmem = py_trunc g8;
       g9 \<leftarrow> gauge ''mem.anon'' 1900000 None (Some 0.03) 1.5 1400;
       let anon = py_trunc g9;
       let mem_free = max 200000 (16384000 - anon - shmem - caches);
       let anon_lru = anon + shmem;
       let file_lru = max 0 (buffers + cached - shmem);
       let mem_available = mem_free + file_lru + sreclaim;
       let a_anon = py_trunc (real_of_int anon_lru * 0.62);
       let i_anon = anon_lru - a_anon;
       let a_file = py_trunc (real_of_int file_lru * 0.38);
       let i_file = file_lru - a_file;
       let slab = sreclaim + 138240;
       let kernel_stack = 340 * 16;
       g10 \<leftarrow> gauge ''mem.dirty'' 12288 None (Some 0.2) 2.2 900;
       let dirty = max 4096 (py_trunc g10);
       g11 \<leftarrow> gauge ''mem.committed'' 3500000 None (Some 0.03) 0.9 1700;
       let committed = py_trunc g11;
       State_Monad.return (\<lparr>web_m_commit_limit = commit_limit,
         web_m_cached = cached,
         web_m_buffers = buffers,
         web_m_sreclaim = sreclaim,
         web_m_shmem = shmem,
         web_m_anon = anon,
         web_m_mem_free = mem_free,
         web_m_mem_available = mem_available,
         web_m_a_anon = a_anon,
         web_m_i_anon = i_anon,
         web_m_a_file = a_file,
         web_m_i_file = i_file,
         web_m_slab = slab,
         web_m_kernel_stack = kernel_stack,
         web_m_dirty = dirty,
         web_m_committed = committed\<rparr>) }"

definition web_load :: "(sim, real \<times> real \<times> real) state" where
  "web_load =
     do {
       g12 \<leftarrow> gauge ''load1'' 1.0 None (Some 0.3) 0.2 300;
       let l1 = round_dec 2 (0.6 * g12);
       g13 \<leftarrow> gauge ''load5'' 1.0 None (Some 0.18) 1.1 900;
       let l5 = round_dec 2 (0.6 * 0.92 * g13);
       g14 \<leftarrow> gauge ''load15'' 1.0 None (Some 0.1) 2.1 2400;
       let l15 = round_dec 2 (0.6 * 0.85 * g14);
       let l1 = max 0.01 l1;
       let l5 = max 0.01 l5;
       let l15 = max 0.01 l15;
       State_Monad.return ((l1, l5, l15)) }"

definition web_ticks :: "(sim, int \<times> int \<times> int \<times> int) state" where
  "web_ticks =
     do {
       user \<leftarrow> fsample ''cpu.user'' 60;
       system \<leftarrow> fsample ''cpu.system'' 20;
       idle \<leftarrow> fsample ''cpu.idle'' 310;
       iowait \<leftarrow> fsample ''cpu.iowait'' 8;
       State_Monad.return ((user, system, idle, iowait)) }"

record web_disk_vals =
  web_d_sda_rd :: "int"
  web_d_sda_rdt :: "int"
  web_d_sda_wr :: "int"
  web_d_sda_wrt :: "int"
  web_d_sda_iot :: "int"

definition web_disk :: "(sim, web_disk_vals) state" where
  "web_disk =
     do {
       sda_rd \<leftarrow> fsample ''sda.rd_ios'' 3;
       sda_rdt \<leftarrow> fsample ''sda.rd_ticks'' 2;
       sda_wr \<leftarrow> fsample ''sda.wr_ios'' 12;
       sda_wrt \<leftarrow> fsample ''sda.wr_ticks'' 8;
       sda_iot \<leftarrow> fsample ''sda.io_ticks'' 10;
       State_Monad.return (\<lparr>web_d_sda_rd = sda_rd,
         web_d_sda_rdt = sda_rdt,
         web_d_sda_wr = sda_wr,
         web_d_sda_wrt = sda_wrt,
         web_d_sda_iot = sda_iot\<rparr>) }"

definition web_net :: "(sim, int \<times> int \<times> int \<times> int) state" where
  "web_net =
     do {
       rx_bytes \<leftarrow> fsample ''net.rx_bytes'' 8000000;
       tx_bytes \<leftarrow> fsample ''net.tx_bytes'' 6000000;
       rx_pkts \<leftarrow> fsample ''net.rx_pkts'' 4000;
       tx_pkts \<leftarrow> fsample ''net.tx_pkts'' 3400;
       State_Monad.return ((rx_bytes, tx_bytes, rx_pkts, tx_pkts)) }"

definition web_smart :: "int \<Rightarrow> (sim, string) state" where
  "web_smart uptime =
     do {
       g28 \<leftarrow> gauge ''smart.sda.temp'' 27.0 (Some 1.3) None 2.1 1100;
       let sda_temp = py_round g28;
       let sda_hours = py_trunc (real_of_int uptime / 3600) + 9800;
       let sda_smart = web_smart_json ''/dev/sda'' ''Samsung SSD 870 EVO 500GB'' ''S5GYNX0R214807'' sda_hours sda_temp;
       State_Monad.return (sda_smart) }"

definition web_fs :: "host_cfg \<Rightarrow> real \<Rightarrow> (sim, int \<times> int) state" where
  "web_fs cfg nowf =
     do {
       r29 \<leftarrow> web_filesystem_usage cfg nowf;
       let (root_used, log_used) = r29;
       State_Monad.return ((root_used, log_used)) }"

definition web_head :: "host_cfg \<Rightarrow> int \<Rightarrow> string list" where
  "web_head cfg now =
     (let cert_to = strftime ''%a, %d %b %Y %H:%M:%S +0000'' (gmtime (now + 330 * 86400))
      in [
       ''<<<check_mk>>>'',
       ''Version: '' @ hc_version cfg,
       ''AgentOS: linux'',
       ''Hostname: '' @ hc_hostname cfg,
       ''InstallationDirectory: /opt/checkmk/agent/default'',
       ''PackageDirectory: /opt/checkmk/agent/default/package'',
       ''RuntimeDirectory: /opt/checkmk/agent/default/runtime'',
       ''OSType: linux'',
       ''OSName: Ubuntu'',
       ''OSVersion: 24.04'',
       ''OSPlatform: ubuntu'',
       ''FailedPythonReason: '',
       ''SSHClient: '',
       ''<<<cmk_agent_ctl_status:sep(0)>>>'',
       dumps (JObj [(''version'', JStr (hc_version cfg)),
         (''agent_socket_operational'', JBool True),
         (''ip_allowlist'', JArr []),
         (''allow_legacy_pull'', JBool False),
         (''connections'', JArr [JObj [(''site_id'', JStr ''monitoring/prod''),
         (''receiver_port'', JNum 8000),
         (''uuid'', JStr ''c4f8a230-3e11-4b7d-ae91-6d5c9f02b811''),
         (''local'', JObj [(''connection_mode'', JStr ''pull-agent''), (''cert_info'', JObj [(''issuer'', JStr (''Site '' @ [CHR 0x27] @ ''prod'' @ [CHR 0x27] @ '' local CA'')),
         (''from'', JStr ''Tue, 03 Jun 2025 09:12:44 +0000''),
         (''to'', JStr cert_to)])]),
         (''remote'', JStr ''remote_query_disabled'')]])]),
       ''<<<checkmk_agent_plugins_lnx:sep(0)>>>'',
       ''pluginsdir /opt/checkmk/agent/default/package/plugins'',
       ''localdir /opt/checkmk/agent/default/package/local'',
       ''/opt/checkmk/agent/default/package/plugins/86400/mk_apt:CMK_VERSION='' @ [CHR 0x22] @ hc_version cfg @ [CHR 0x22]])"

definition web_df :: "int \<Rightarrow> int \<Rightarrow> string list" where
  "web_df root_used log_used =
     [
       ''<<<df_v2>>>'',
       ''/dev/sda1 ext4 '' @ int_str 41943040 @ '' '' @ int_str root_used @ '' '' @ int_str (41943040 - root_used) @ '' '' @ int_str (py_round (real_of_int root_used / (real_of_int 41943040) * 100)) @ ''% /'',
       ''/dev/sda2 ext4 '' @ int_str 10485760 @ '' '' @ int_str log_used @ '' '' @ int_str (10485760 - log_used) @ '' '' @ int_str (py_round (real_of_int log_used / (real_of_int 10485760) * 100)) @ ''% /var/log'',
       ''[df_inodes_start]'',
       ''/dev/sda1 ext4 2621440 198432 '' @ int_str (2621440 - 198432) @ '' 8% /'',
       ''/dev/sda2 ext4 655360  86210  '' @ int_str (655360 - 86210) @ '' 14% /var/log'',
       ''[df_inodes_end]'',
       ''<<<mounts>>>'',
       ''/dev/sda1 / ext4 rw,relatime,errors=remount-ro 0 0'',
       ''/dev/sda2 /var/log ext4 rw,noatime 0 0'']"

definition web_mem :: "web_memory_vals \<Rightarrow> string list" where
  "web_mem mv =
     [
       ''<<<mem>>>'',
       ''MemTotal:       '' @ int_str 16384000 @ '' kB'',
       ''MemFree:        '' @ int_str (web_m_mem_free mv) @ '' kB'',
       ''MemAvailable:   '' @ int_str (web_m_mem_available mv) @ '' kB'',
       ''Buffers:        '' @ int_str (web_m_buffers mv) @ '' kB'',
       ''Cached:         '' @ int_str (web_m_cached mv) @ '' kB'',
       ''SwapCached:     '' @ int_str 0 @ '' kB'',
       ''Active:         '' @ int_str (web_m_a_anon mv + web_m_a_file mv) @ '' kB'',
       ''Inactive:       '' @ int_str (web_m_i_anon mv + web_m_i_file mv) @ '' kB'',
       ''Active(anon):   '' @ int_str (web_m_a_anon mv) @ '' kB'',
       ''Inactive(anon): '' @ int_str (web_m_i_anon mv) @ '' kB'',
       ''Active(file):   '' @ int_str (web_m_a_file mv) @ '' kB'',
       ''Inactive(file): '' @ int_str (web_m_i_file mv) @ '' kB'',
       ''Unevictable:    0 kB'',
       ''Mlocked:        0 kB'',
       ''SwapTotal:      '' @ int_str 0 @ '' kB'',
       ''SwapFree:       '' @ int_str 0 @ '' kB'',
       ''Zswap:          0 kB'',
       ''Zswapped:       0 kB'',
       ''Dirty:          '' @ int_str (web_m_dirty mv) @ '' kB'',
       ''Writeback:      0 kB'',
       ''AnonPages:      '' @ int_str (web_m_anon mv) @ '' kB'',
       ''Mapped:         380928 kB'',
       ''Shmem:          '' @ int_str (web_m_shmem mv) @ '' kB'',
       ''KReclaimable:   '' @ int_str (web_m_sreclaim mv) @ '' kB'',
       ''Slab:           '' @ int_str (web_m_slab mv) @ '' kB'',
       ''SReclaimable:   '' @ int_str (web_m_sreclaim mv) @ '' kB'',
       ''SUnreclaim:     138240 kB'',
       ''KernelStack:    '' @ int_str (web_m_kernel_stack mv) @ '' kB'',
       ''PageTables:     62464 kB'',
       ''SecPageTables:  0 kB'',
       ''NFS_Unstable:   0 kB'',
       ''Bounce:         0 kB'',
       ''WritebackTmp:   0 kB'',
       ''CommitLimit:    '' @ int_str (web_m_commit_limit mv) @ '' kB'',
       ''Committed_AS:   '' @ int_str (web_m_committed mv) @ '' kB'',
       ''VmallocTotal:   34359738367 kB'',
       ''VmallocUsed:    51200 kB'',
       ''VmallocChunk:   0 kB'',
       ''Percpu:         12288 kB'',
       ''HardwareCorrupted: 0 kB'',
       ''AnonHugePages:  0 kB'',
       ''ShmemHugePages: 0 kB'',
       ''ShmemPmdMapped: 0 kB'',
       ''FileHugePages:  0 kB'',
       ''FilePmdMapped:  0 kB'',
       ''CmaTotal:       0 kB'',
       ''CmaFree:        0 kB'',
       ''Unaccepted:     0 kB'',
       ''Balloon:        0 kB'',
       ''HugePages_Total:       0'',
       ''HugePages_Free:        0'',
       ''HugePages_Rsvd:        0'',
       ''HugePages_Surp:        0'',
       ''Hugepagesize:       2048 kB'',
       ''Hugetlb:        0 kB'',
       ''DirectMap4k:    237568 kB'',
       ''DirectMap2M:    6029312 kB'',
       ''DirectMap1G:    11534336 kB'']"

definition web_cpu :: "int \<Rightarrow> real \<Rightarrow> real \<Rightarrow> real \<Rightarrow> (sim, string list) state" where
  "web_cpu uptime l1 l5 l15 =
     do {
       c30 \<leftarrow> fsample ''kernel.processes'' 6;
       State_Monad.return ([
       ''<<<cpu>>>'',
       float_str 2 l1 @ '' '' @ float_str 2 l5 @ '' '' @ float_str 2 l15 @ '' '' @ int_str 2 @ ''/'' @ int_str 280 @ '' '' @ int_str (28000 + c30 mod 9999) @ '' '' @ int_str 4,
       ''<<<uptime>>>'',
       int_str uptime @ ''.00 '' @ int_str (py_trunc (real_of_int uptime * 3.4)) @ ''.00'']) }"

definition web_timesync :: "host_cfg \<Rightarrow> int \<Rightarrow> real \<Rightarrow> (sim, string list) state" where
  "web_timesync cfg now nowf =
     do {
       let last_sync = now - py_trunc (real_mod (real_of_int now - hc_start cfg) 2048);
       let sync_str = strftime ''%a %Y-%m-%d %H:%M:%S UTC'' (gmtime last_sync);
       g31 \<leftarrow> gauge ''ntp.offset'' 0 (Some 1200) None 1.3 600;
       let offset_us = py_trunc g31;
       g32 \<leftarrow> gauge ''ntp.jitter'' 1.8 (Some 0.6) None 0.7 700;
       let jitter_ms = round_dec 3 g32;
       let jitter_ms = max 0.1 jitter_ms;
       State_Monad.return ([
       ''<<<timesyncd>>>'',
       ''       Server: 185.125.190.57 (ntp.ubuntu.com)'',
       ''Poll interval: 34min 8s (min: 32s; max 34min 8s)'',
       ''         Leap: normal'',
       ''      Version: 4'',
       ''      Stratum: 2'',
       ''    Reference: B97D5A39'',
       ''    Precision: 1us (-25)'',
       ''Root distance: 10.781ms (max: 5s)'',
       ''       Offset: '' @ signed_str offset_us @ ''us'',
       ''        Delay: 17.442ms'',
       ''       Jitter: '' @ fixed_str 3 jitter_ms @ ''ms'',
       '' Packet count: '' @ int_str (588 + py_trunc ((nowf - hc_start cfg) / 2048)),
       ''    Frequency: +11.337ppm'',
       ''[[['' @ int_str last_sync @ '']]]'',
       ''<<<timesyncd_ntpmessage:sep(10)>>>'',
       ''NTPMessage={ Leap=0, Version=4, Mode=4, Stratum=2, Precision=-25, RootDelay=8.912ms, RootDispersion=1.047ms, Reference=B97D5A39, OriginateTimestamp='' @ sync_str @ '', ReceiveTimestamp='' @ sync_str @ '', TransmitTimestamp='' @ sync_str @ '', DestinationTimestamp='' @ sync_str @ '', Ignored=no, PacketCount=61, Jitter=1.284ms }'',
       ''Timezone=UTC'']) }"

definition web_apt :: "string list" where
  "web_apt =
     [
       ''<<<apt:sep(0)>>>'',
       ''No updates pending for installation'']"

definition web_kernel :: "int \<Rightarrow> int \<Rightarrow> int \<Rightarrow> int \<Rightarrow> int \<Rightarrow> (sim, string list) state" where
  "web_kernel now user system idle iowait =
     do {
       c33 \<leftarrow> fsample ''kernel.ctxt'' 5500;
       c34 \<leftarrow> fsample ''kernel.processes'' 6;
       c35 \<leftarrow> fsample ''kernel.pgmajfault'' 0.2;
       State_Monad.return ([
       ''<<<kernel>>>'',
       int_str now,
       ''cpu '' @ int_str user @ '' 0 '' @ int_str system @ '' '' @ int_str idle @ '' '' @ int_str iowait @ '' 0 0 0 0 0'',
       ''ctxt '' @ int_str c33,
       ''processes '' @ int_str c34,
       ''pgmajfault '' @ int_str c35]) }"

definition web_diskstat :: "int \<Rightarrow> web_disk_vals \<Rightarrow> string list" where
  "web_diskstat now dv =
     [
       ''<<<diskstat>>>'',
       int_str now,
       ''8 0 sda '' @ int_str (web_d_sda_rd dv) @ '' 0 '' @ int_str (web_d_sda_rd dv * 16) @ '' '' @ int_str (web_d_sda_rdt dv) @ '' '' @ int_str (web_d_sda_wr dv) @ '' 0 '' @ int_str (web_d_sda_wr dv * 32) @ '' '' @ int_str (web_d_sda_wrt dv) @ '' 0 '' @ int_str (web_d_sda_iot dv) @ '' '' @ int_str (web_d_sda_iot dv * 2) @ '' 0 0 0 0'']"

definition web_if :: "int \<Rightarrow> int \<Rightarrow> int \<Rightarrow> int \<Rightarrow> string list" where
  "web_if rx_bytes tx_bytes rx_pkts tx_pkts =
     [
       ''<<<lnx_if>>>'',
       ''[start_iplink]'',
       ''1: lo: <LOOPBACK,UP,LOWER_UP> mtu 65536 qdisc noqueue state UNKNOWN group default qlen 1000'',
       ''    link/loopback 00:00:00:00:00:00 brd 00:00:00:00:00:00'',
       ''2: eth0: <BROADCAST,MULTICAST,UP,LOWER_UP> mtu 1500 qdisc fq_codel state UP group default qlen 1000'',
       ''    link/ether 02:42:ac:11:00:30 brd ff:ff:ff:ff:ff:ff'',
       ''[end_iplink]'',
       ''<<<lnx_if:sep(58)>>>'',
       ''eth0: '' @ int_str rx_bytes @ '' '' @ int_str rx_pkts @ '' 0 0 0 0 0 0 '' @ int_str tx_bytes @ '' '' @ int_str tx_pkts @ '' 0 0 0 0 0 0'',
       ''[eth0]'',
       TAB @ ''Speed: 10000Mb/s'',
       TAB @ ''Duplex: Full'',
       TAB @ ''Auto-negotiation: on'',
       TAB @ ''Link detected: yes'',
       ''Address: 02:42:ac:11:00:30'']"

definition web_tcp :: "(nat \<Rightarrow> int) \<Rightarrow> (sim, string list) state" where
  "web_tcp ri =
     do {
       g36 \<leftarrow> gauge ''tcp.estab'' 120 (Some 18) None 0.9 700;
       let estab = py_round g36;
       g37 \<leftarrow> gauge ''tcp.timewait'' 80 (Some 15) None 2.4 500;
       let tw = py_round g37;
       State_Monad.return ([
       ''<<<tcp_conn_stats>>>'',
       ''01 '' @ int_str (max 80 estab),
       ''02 '' @ int_str (ri 0),
       ''06 '' @ int_str (max 30 tw),
       ''0A 8'']) }"

definition web_smart_section :: "string \<Rightarrow> string list" where
  "web_smart_section sda_smart =
     [
       ''<<<smart_posix_all:sep(0)>>>'',
       sda_smart]"

definition web_ps :: "int \<Rightarrow> (sim, string list) state" where
  "web_ps now =
     do {
       g38 \<leftarrow> gauge ''nginx.worker.rss'' 180000 None (Some 0.04) 1.0 1100;
       let nginx_worker_rss = py_trunc g38;
       State_Monad.return ([
       ''<<<ps_lnx>>>'',
       ''[time]'',
       int_str now,
       ''[processes]'',
       ''[header] CGROUP USER VSZ RSS TIME ELAPSED PID COMMAND''] @
      concat (map (\<lambda>(cgs, usr, vsz, rss, cputime, pid, cmd). [
       ''0::/'' @ cgs @ '' '' @ usr @ '' '' @ int_str vsz @ '' '' @ int_str rss @ '' '' @ cputime @ '' 14-04:18:52 '' @ int_str pid @ '' '' @ cmd]) ([
       (''init.scope'', ''root'', 168000, 12800, ''00:00:28'', 1, ''/sbin/init''),
       (''system.slice/systemd-journald.service'', ''root'', 59100, 18600, ''00:01:14'', 401, ''/usr/lib/systemd/systemd-journald''),
       (''system.slice/systemd-udevd.service'', ''root'', 25900, 7800, ''00:00:02'', 437, ''/usr/lib/systemd/systemd-udevd''),
       (''system.slice/systemd-resolved.service'', ''systemd-resolve'', 26600, 13000, ''00:00:41'', 488, ''/usr/lib/systemd/systemd-resolved''),
       (''system.slice/systemd-timesyncd.service'', ''systemd-timesync'', 91200, 7500, ''00:00:09'', 502, ''/usr/lib/systemd/systemd-timesyncd''),
       (''system.slice/dbus.service'', ''messagebus'', 10200, 5000, ''00:00:16'', 514, ''@dbus-daemon --system --address=systemd:''),
       (''system.slice/rsyslog.service'', ''syslog'', 222400, 6600, ''00:00:36'', 611, ''/usr/sbin/rsyslogd -n -iNONE''),
       (''system.slice/ssh.service'', ''root'', 15400, 8900, ''00:00:01'', 689, ''sshd: /usr/sbin/sshd -D [listener]''),
       (''system.slice/cron.service'', ''root'', 11500, 2400, ''00:00:01'', 704, ''/usr/sbin/cron -f -P''),
       (''system.slice/nginx.service'', ''root'', 8200, 4100, ''00:00:00'', 801, ''nginx: master process /usr/sbin/nginx -g daemon off;'')])) @
      concat (map (\<lambda>(i, wport). (let rss_w = nginx_worker_rss + int i * 4096
      in [
       ''0::/system.slice/nginx.service www-data '' @ int_str 1310720 @ '' '' @ int_str rss_w @ '' 00:0'' @ nat_str i @ '':3'' @ nat_str i @ '' 14-04:18:51 '' @ int_str wport @ '' nginx: worker process''])) (enumerate 0 ([
       802,
       803,
       804,
       805])))) }"

definition web_units :: "string list" where
  "web_units =
     (let units = [
       (''nginx.service'', ''active'', ''running'', ''A high performance web server and a reverse proxy server''),
       (''ssh.service'', ''active'', ''running'', ''OpenBSD Secure Shell server''),
       (''cron.service'', ''active'', ''running'', ''Regular background program processing daemon''),
       (''dbus.service'', ''active'', ''running'', ''D-Bus System Message Bus''),
       (''getty@tty1.service'', ''active'', ''running'', ''Getty on tty1''),
       (''irqbalance.service'', ''active'', ''running'', ''irqbalance daemon''),
       (''multipathd.service'', ''active'', ''running'', ''Device-Mapper Multipath Device Controller''),
       (''networkd-dispatcher.service'', ''active'', ''running'', ''Dispatcher daemon for systemd-networkd''),
       (''polkit.service'', ''active'', ''running'', ''Authorization Manager''),
       (''rsyslog.service'', ''active'', ''running'', ''System Logging Service''),
       (''snapd.service'', ''active'', ''running'', ''Snap Daemon''),
       (''systemd-journald.service'', ''active'', ''running'', ''Journal Service''),
       (''systemd-logind.service'', ''active'', ''running'', ''User Login Management''),
       (''systemd-networkd.service'', ''active'', ''running'', ''Network Configuration''),
       (''systemd-resolved.service'', ''active'', ''running'', ''Network Name Resolution''),
       (''systemd-timesyncd.service'', ''active'', ''running'', ''Network Time Synchronization''),
       (''systemd-udevd.service'', ''active'', ''running'', ''Rule-based Manager for Device Events and Files''),
       (''udisks2.service'', ''active'', ''running'', ''Disk Manager''),
       (''unattended-upgrades.service'', ''active'', ''running'', ''Unattended Upgrades Shutdown''),
       (''user@1000.service'', ''active'', ''running'', ''User Manager for UID 1000''),
       (''certbot.service'', ''active'', ''running'', ''Certbot''),
       (''apparmor.service'', ''active'', ''exited'', ''Load AppArmor profiles''),
       (''blk-availability.service'', ''active'', ''exited'', ''Availability of block devices''),
       (''console-setup.service'', ''active'', ''exited'', ''Set console font and keymap''),
       (''finalrd.service'', ''active'', ''exited'', ''Create final runtime dir for shutdown pivot root''),
       (''keyboard-setup.service'', ''active'', ''exited'', ''Set the console keyboard layout''),
       (''lvm2-monitor.service'', ''active'', ''exited'', ''Monitoring of LVM2 mirrors, snapshots etc. using dmeventd or progress polling''),
       (''setvtrgb.service'', ''active'', ''exited'', ''Set console scheme''),
       (''snapd.seeded.service'', ''active'', ''exited'', ''Wait until snapd is fully seeded''),
       (''systemd-user-sessions.service'', ''active'', ''exited'', ''Permit User Sessions'')]
      in [
       ''<<<systemd_units>>>'',
       ''[list-unit-files]''] @
      concat (map (\<lambda>(nam, _, _, _). [
       nam @ '' enabled enabled'']) units) @
      [
       ''[status]'',
       ''[all]''] @
      concat (map (\<lambda>(nam, act, sub, descr). [
       nam @ '' loaded '' @ act @ '' '' @ sub @ '' '' @ descr]) units))"

definition web_job :: "int \<Rightarrow> string list" where
  "web_job now =
     [
       ''<<<job>>>'',
       ''==> certbot-renew <=='',
       ''start_time '' @ int_str (now - 6 * 3600),
       ''exit_code 0'',
       ''real_time 0:12.3'',
       ''user_time 0.10'',
       ''system_time 0.04'',
       ''max_res_kbytes 38000'',
       ''avg_mem_kbytes 0'']"

text \<open>The payload: the sections in order, one line each.\<close>

definition web_build :: "host_cfg \<Rightarrow> (nat \<Rightarrow> int) \<Rightarrow> (sim, string) state" where
  "web_build cfg ri = do {
       (now, nowf, uptime) \<leftarrow> web_clock cfg;
       mv \<leftarrow> web_memory;
       (l1, l5, l15) \<leftarrow> web_load;
       (user, system, idle, iowait) \<leftarrow> web_ticks;
       dv \<leftarrow> web_disk;
       (rx_bytes, tx_bytes, rx_pkts, tx_pkts) \<leftarrow> web_net;
       sda_smart \<leftarrow> web_smart uptime;
       (root_used, log_used) \<leftarrow> web_fs cfg nowf;
       let l_head = web_head cfg now;
       let l_df = web_df root_used log_used;
       let l_mem = web_mem mv;
       l_cpu \<leftarrow> web_cpu uptime l1 l5 l15;
       l_timesync \<leftarrow> web_timesync cfg now nowf;
       let l_apt = web_apt;
       l_kernel \<leftarrow> web_kernel now user system idle iowait;
       let l_diskstat = web_diskstat now dv;
       let l_if = web_if rx_bytes tx_bytes rx_pkts tx_pkts;
       l_tcp \<leftarrow> web_tcp ri;
       let l_smart_section = web_smart_section sda_smart;
       l_ps \<leftarrow> web_ps now;
       let l_units = web_units;
       let l_job = web_job now;
       State_Monad.return (concat (map (\<lambda>l. l @ [CHR 0x0A])
         (l_head @ l_df @ l_mem @ l_cpu @ l_timesync @ l_apt @ l_kernel @ l_diskstat @ l_if @ l_tcp @ l_smart_section @ l_ps @ l_units @ l_job))) }"

end
