(* ===== verification/Host_Incident.thy ===== *)
theory Host_Incident
  imports Agent_Text
begin

text \<open>
  The incident machinery of the demo hosts, as \<open>hosts/app-worker-01/serve.py\<close> has it; \<open>app-redis-01\<close>,
  \<open>db-postgres-02\<close>, \<open>fileserver-01\<close> and \<open>mail-relay-01\<close> repeat it word for word, \<open>db-postgres-01\<close> all but the state file
  and its readings in minutes, \<open>win-dc-01\<close> and \<open>payment-api\<close> have machines of their own: the three-state machine with its clock readings, the seconds and the ramp
  the story is driven by, the saved state, the admin routes and the automatic escalation.  The
  module-level variables are the record \<open>dstate\<close> of \<open>Physics\<close>; one render reads them while they do not
  change.
\<close>

section \<open>Configuration\<close>

record incident_cfg = host_cfg +
  ic_auto_break :: real
  ic_fill :: real
  ic_ramp :: real

definition host_states :: "string list" where
  "host_states = [HEALTHY, DEGRADED, BROKEN]"

definition host_boot :: "string \<Rightarrow> real \<Rightarrow> dstate" where
  "host_boot start_state start =
     (let s = (if start_state \<in> set host_states then start_state else HEALTHY)
      in \<lparr>st = s, st_since = start, degraded_since = (if s = HEALTHY then None else Some start),
          broken_since = (if s \<noteq> BROKEN then None else Some start)\<rparr>)"

section \<open>The state machine\<close>

definition host_set :: "string \<Rightarrow> dstate \<Rightarrow> (sim, dstate) state" where
  "host_set value d = do {
     d \<leftarrow> (if value \<noteq> st d then do { t \<leftarrow> get_time; State_Monad.return (d\<lparr>st_since := t\<rparr>) } else State_Monad.return d);
     let d = d\<lparr>st := value\<rparr>;
     d \<leftarrow> (if value = HEALTHY then State_Monad.return (d\<lparr>degraded_since := None\<rparr>)
          else if degraded_since d = None then do { t \<leftarrow> get_time; State_Monad.return (d\<lparr>degraded_since := Some t\<rparr>) }
          else State_Monad.return d);
     if value = BROKEN
     then (if broken_since d = None then do { t \<leftarrow> get_time; State_Monad.return (d\<lparr>broken_since := Some t\<rparr>) }
           else State_Monad.return d)
     else State_Monad.return (d\<lparr>broken_since := None\<rparr>) }"

definition state_since_seconds :: "dstate \<Rightarrow> (sim, real) state" where
  "state_since_seconds d = do { t \<leftarrow> get_time; State_Monad.return (t - st_since d) }"

definition degraded_seconds :: "dstate \<Rightarrow> (sim, real) state" where
  "degraded_seconds d = (case degraded_since d of None \<Rightarrow> State_Monad.return 0
     | Some s \<Rightarrow> do { t \<leftarrow> get_time; State_Monad.return (t - s) })"

definition host_broken_seconds :: "dstate \<Rightarrow> (sim, real) state" where
  "host_broken_seconds d = (case broken_since d of None \<Rightarrow> State_Monad.return 0
     | Some s \<Rightarrow> do { t \<leftarrow> get_time; State_Monad.return (t - s) })"

definition break_ramp :: "'a incident_cfg_scheme \<Rightarrow> dstate \<Rightarrow> real \<Rightarrow> (sim, real) state" where
  "break_ramp cfg d fr = do {
     bs \<leftarrow> host_broken_seconds d;
     State_Monad.return (if bs \<le> 0 then 0 else if ic_ramp cfg \<le> 0 then 1 else min 1 (bs / (ic_ramp cfg * 60 * fr))) }"

section \<open>Saved state\<close>

text \<open>The JSON file: the optional keys \<open>load_state\<close> reads with a default are options.\<close>

record host_snap =
  sn_start :: real
  sn_state :: "string option"
  sn_degraded :: "real option"
  sn_broken :: "real option"
  sn_since :: "real option"
  sn_counters :: "string \<rightharpoonup> real \<times> real"

record host_proc =
  hp_start :: real
  hp_inc :: dstate
  hp_counters :: "string \<rightharpoonup> counter"

definition host_save :: "host_proc \<Rightarrow> host_snap" where
  "host_save p = \<lparr>sn_start = hp_start p, sn_state = Some (st (hp_inc p)), sn_degraded = degraded_since (hp_inc p),
     sn_broken = broken_since (hp_inc p), sn_since = Some (st_since (hp_inc p)),
     sn_counters = (\<lambda>n. map_option (\<lambda>c. (acc c, clast c)) (hp_counters p n))\<rparr>"

text \<open>\<open>None\<close>: no file, or one that cannot be read or parsed.\<close>

definition host_load :: "host_snap option \<Rightarrow> real \<Rightarrow> host_proc \<Rightarrow> host_proc" where
  "host_load f now p = (case f of None \<Rightarrow> p | Some s \<Rightarrow>
     p\<lparr>hp_start := sn_start s,
       hp_inc := \<lparr>st = (case sn_state s of None \<Rightarrow> st (hp_inc p) | Some x \<Rightarrow> x),
                  st_since = (case sn_since s of None \<Rightarrow> now | Some t \<Rightarrow> t), degraded_since = sn_degraded s,
                  broken_since = sn_broken s\<rparr>,
       hp_counters := (\<lambda>n. case hp_counters p n of None \<Rightarrow> None
          | Some c \<Rightarrow> (case sn_counters s n of None \<Rightarrow> Some c | Some (a, l) \<Rightarrow> Some (c\<lparr>acc := a, clast := l\<rparr>)))\<rparr>)"

section \<open>Admin routes and escalation\<close>

datatype host_reply = AdminPage | AdminMeta | Redirected string | Toggled string | StatusJson

definition ACTION_TO_STATE :: "(string \<times> string) list" where
  "ACTION_TO_STATE = [(''heal'', HEALTHY), (''degrade'', DEGRADED), (''break'', BROKEN)]"

definition host_get :: "string \<Rightarrow> dstate \<Rightarrow> (sim, host_reply \<times> dstate) state" where
  "host_get url d =
     (let (path, query) = partition_at (CHR ''?'') url;
          path = rstrip_by (\<lambda>c. c = CHR ''/'') path;
          path = (if path = [] then ''/'' else path)
      in if path = ''/admin'' then State_Monad.return (AdminPage, d)
         else if path = ''/admin/meta'' then State_Monad.return (AdminMeta, d)
         else case (if startswith path ''/admin/'' then map_of ACTION_TO_STATE (drop 7 path) else None) of
           Some target \<Rightarrow> do {
             d' \<leftarrow> host_set target d;
             State_Monad.return (if contains ''ui=1'' query then Redirected target else Toggled target, d') }
         | None \<Rightarrow> State_Monad.return (StatusJson, d))"

text \<open>One round of \<open>_auto_break_watchdog\<close>, which only runs when the delay is positive.\<close>

definition watchdog_round :: "'a incident_cfg_scheme \<Rightarrow> dstate \<Rightarrow> (sim, dstate) state" where
  "watchdog_round cfg d =
     (if st d = DEGRADED
      then do { s \<leftarrow> state_since_seconds d;
                if s \<ge> ic_auto_break cfg * 60 then host_set BROKEN d else State_Monad.return d }
      else State_Monad.return d)"

end
