(* ===== verification/Host_Story.thy ===== *)
theory Host_Story
  imports Host_Incident
begin

text \<open>
  What holds of every run of a host's code whose clock readings satisfy a condition: the rules by which the
  stories of the incident hosts are proved, and the facts of the shared incident machinery.
\<close>

section \<open>Runs within a time span\<close>

text \<open>All readings still to come satisfy \<open>T\<close>: then so does the rest of them, and the result satisfies \<open>P\<close>.\<close>

definition clocked :: "(real \<Rightarrow> bool) \<Rightarrow> sim \<Rightarrow> bool" where
  "clocked T s \<longleftrightarrow> (\<forall>k. T (clock s k))"

definition timed :: "(real \<Rightarrow> bool) \<Rightarrow> ('a \<Rightarrow> bool) \<Rightarrow> (sim, 'a) state \<Rightarrow> bool" where
  "timed T P m \<longleftrightarrow> (\<forall>s. clocked T s \<longrightarrow> P (fst (run_state m s)) \<and> clocked T (snd (run_state m s)))"

named_theorems timed_rules
named_theorems timed_binds

lemma timed_return [timed_rules]: "P x \<Longrightarrow> timed T P (State_Monad.return x)"
  by (simp add: timed_def State_Monad.return_def)

lemma timed_bind: "timed T Q m \<Longrightarrow> (\<And>x. Q x \<Longrightarrow> timed T P (f x)) \<Longrightarrow> timed T P (m \<bind> f)"
  by (simp add: timed_def State_Monad.bind_def case_prod_unfold)

lemma timed_weaken: "timed T P m \<Longrightarrow> (\<And>x. P x \<Longrightarrow> Q x) \<Longrightarrow> timed T Q m"
  by (simp add: timed_def)

lemma timed_conj: "timed T P m \<Longrightarrow> timed T Q m \<Longrightarrow> timed T (\<lambda>x. P x \<and> Q x) m"
  by (simp add: timed_def)

lemma timed_if [timed_rules]: "(c \<Longrightarrow> timed T P m) \<Longrightarrow> (\<not> c \<Longrightarrow> timed T P n) \<Longrightarrow> timed T P (if c then m else n)"
  by simp

lemma timed_run: "timed T P m \<Longrightarrow> clocked T s \<Longrightarrow> P (fst (run_state m s))"
  by (simp add: timed_def)

lemma timed_every: "pred_state P m \<Longrightarrow> timed T (\<lambda>_. True) m \<Longrightarrow> timed T P m"
  by (auto simp: timed_def dest: pred_state_run_state)

lemma timed_always: "timed (\<lambda>_. True) P m \<Longrightarrow> pred_state P m"
  by (rule pred_stateI) (simp add: timed_def clocked_def, metis fst_conv)

lemma timed_get_time [timed_rules]: "(\<And>t. T t \<Longrightarrow> P t) \<Longrightarrow> timed T P get_time"
  by (simp add: timed_def clocked_def get_time_def)

lemma timed_get_gauss [timed_rules]: "(\<And>g. P g) \<Longrightarrow> timed T P get_gauss"
  by (simp add: timed_def clocked_def get_gauss_def)

lemma timed_step_gauge: "timed T (\<lambda>_. True) (step_gauge name phase period now g)"
  by (auto simp: timed_def clocked_def step_gauge_def Let_def case_prod_unfold)

lemma timed_gauge_any: "timed T (\<lambda>_. True) (gauge name base a f phase period)"
  unfolding gauge_def
  by (rule timed_bind [OF timed_get_time [where P = "\<lambda>_. True"]], simp,
      rule timed_bind [OF timed_get_gauss [where P = "\<lambda>_. True"]], simp,
      rule timed_bind [OF timed_step_gauge], rule timed_return, simp)

lemma timed_gauge_abs [timed_rules]:
  "0 \<le> a \<Longrightarrow> (\<And>v. base - a \<le> v \<Longrightarrow> v \<le> base + a \<Longrightarrow> P v) \<Longrightarrow> timed T P (gauge name base (Some a) f phase period)"
  by (rule timed_weaken [OF timed_every [OF rets_gauge_abs timed_gauge_any]]) auto

lemma timed_gauge_frac [timed_rules]:
  "0 \<le> f \<Longrightarrow> 0 \<le> base \<Longrightarrow> (\<And>v. base * (1 - f) \<le> v \<Longrightarrow> v \<le> base * (1 + f) \<Longrightarrow> P v)
    \<Longrightarrow> timed T P (gauge name base None (Some f) phase period)"
  by (rule timed_weaken [OF timed_every [OF rets_gauge_frac timed_gauge_any]]) auto

lemma timed_gauge_abs_bind [timed_binds]:
  assumes "0 \<le> a" "\<And>v. base - a \<le> v \<Longrightarrow> v \<le> base + a \<Longrightarrow> timed T P (k v)"
  shows "timed T P (gauge name base (Some a) f phase period \<bind> k)"
  by (rule timed_bind [where Q = "\<lambda>v. base - a \<le> v \<and> v \<le> base + a"]) (use assms in \<open>auto intro!: timed_gauge_abs\<close>)

lemma timed_gauge_frac_bind [timed_binds]:
  assumes "0 \<le> f" "0 \<le> base" "\<And>v. base * (1 - f) \<le> v \<Longrightarrow> v \<le> base * (1 + f) \<Longrightarrow> timed T P (k v)"
  shows "timed T P (gauge name base None (Some f) phase period \<bind> k)"
  by (rule timed_bind [where Q = "\<lambda>v. base * (1 - f) \<le> v \<and> v \<le> base * (1 + f)"]) (use assms in \<open>auto intro!: timed_gauge_frac\<close>)

lemma timed_get_time_bind [timed_binds]: "(\<And>t. T t \<Longrightarrow> timed T P (k t)) \<Longrightarrow> timed T P (get_time \<bind> k)"
  by (rule timed_bind [OF timed_get_time [where P = T]])

lemma timed_fsample [timed_rules]: "(\<And>n. P n) \<Longrightarrow> timed T P (fsample name rate)"
  by (auto simp: timed_def clocked_def fsample_def get_time_def get_gauss_def State_Monad.bind_def Let_def case_prod_unfold
      split: option.split)

lemma timed_fsample_bind [timed_binds]: "(\<And>n. timed T P (k n)) \<Longrightarrow> timed T P (fsample name rate \<bind> k)"
  by (rule timed_bind [OF timed_fsample [where P = "\<lambda>_. True"]]) auto

section \<open>The readings of the incident\<close>

lemma timed_degraded [timed_rules]:
  "(degraded_since d = None \<Longrightarrow> P 0) \<Longrightarrow> (\<And>s t. degraded_since d = Some s \<Longrightarrow> T t \<Longrightarrow> P (t - s)) \<Longrightarrow> timed T P (degraded_seconds d)"
  unfolding degraded_seconds_def
  by (auto split: option.split intro!: timed_return timed_bind [OF timed_get_time [where P = T]])

lemma timed_broken [timed_rules]:
  "(broken_since d = None \<Longrightarrow> P 0) \<Longrightarrow> (\<And>s t. broken_since d = Some s \<Longrightarrow> T t \<Longrightarrow> P (t - s)) \<Longrightarrow> timed T P (host_broken_seconds d)"
  unfolding host_broken_seconds_def
  by (auto split: option.split intro!: timed_return timed_bind [OF timed_get_time [where P = T]])

lemma timed_degraded_bind [timed_binds]:
  assumes "degraded_since d = None \<Longrightarrow> timed T P (k 0)"
    and "\<And>s t. degraded_since d = Some s \<Longrightarrow> T t \<Longrightarrow> timed T P (k (t - s))"
  shows "timed T P (degraded_seconds d \<bind> k)"
  by (rule timed_bind [where Q = "\<lambda>v. timed T P (k v)"]) (use assms in \<open>auto intro!: timed_degraded\<close>)

lemma timed_broken_bind [timed_binds]:
  assumes "broken_since d = None \<Longrightarrow> timed T P (k 0)"
    and "\<And>s t. broken_since d = Some s \<Longrightarrow> T t \<Longrightarrow> timed T P (k (t - s))"
  shows "timed T P (host_broken_seconds d \<bind> k)"
  by (rule timed_bind [where Q = "\<lambda>v. timed T P (k v)"]) (use assms in \<open>auto intro!: timed_broken\<close>)

lemma timed_break_ramp:
  assumes "0 < fr" and "broken_since d = None \<Longrightarrow> P 0"
    and "\<And>s t. broken_since d = Some s \<Longrightarrow> T t \<Longrightarrow>
      P (if t - s \<le> 0 then 0 else if ic_ramp cfg \<le> 0 then 1 else min 1 ((t - s) / (ic_ramp cfg * 60 * fr)))"
  shows "timed T P (break_ramp cfg d fr)"
  unfolding break_ramp_def
proof (rule timed_bind [where Q = "\<lambda>b. P (if b \<le> 0 then 0 else if ic_ramp cfg \<le> 0 then 1 else min 1 (b / (ic_ramp cfg * 60 * fr)))"])
  show "timed T (\<lambda>b. P (if b \<le> 0 then 0 else if ic_ramp cfg \<le> 0 then 1 else min 1 (b / (ic_ramp cfg * 60 * fr)))) (host_broken_seconds d)"
    by (rule timed_broken) (use assms in simp_all)
qed (rule timed_return)

lemma timed_break_ramp_unit [timed_rules]:
  "0 < fr \<Longrightarrow> (\<And>r. 0 \<le> r \<Longrightarrow> r \<le> 1 \<Longrightarrow> P r) \<Longrightarrow> timed T P (break_ramp cfg d fr)"
  by (rule timed_break_ramp) auto

lemma timed_break_ramp_full:
  assumes "0 < fr" "0 < ic_ramp cfg" "broken_since d = Some s" "\<And>t. T t \<Longrightarrow> ic_ramp cfg * 60 * fr \<le> t - s"
  shows "timed T (\<lambda>r. r = 1) (break_ramp cfg d fr)"
proof (rule timed_break_ramp)
  fix s' t assume "broken_since d = Some s'" "T t"
  then have "ic_ramp cfg * 60 * fr \<le> t - s'" using assms by simp
  moreover have "0 < ic_ramp cfg * 60 * fr" using assms by simp
  moreover from calculation have "0 < t - s'" by linarith
  ultimately show "(if t - s' \<le> 0 then 0 else if ic_ramp cfg \<le> 0 then 1 else min 1 ((t - s') / (ic_ramp cfg * 60 * fr))) = 1"
    using assms(2) by (simp add: min_def divide_le_eq le_divide_eq)
qed (use assms in auto)

section \<open>Pressure in two phases\<close>

text \<open>
  The driver several hosts share: it climbs to the plateau \<open>h\<close> while the host is degraded and from there to 1
  over the break ramp.
\<close>

definition two_phase :: "real \<Rightarrow> 'a incident_cfg_scheme \<Rightarrow> dstate \<Rightarrow> (sim, real) state" where
  "two_phase h cfg d = do {
     ds \<leftarrow> degraded_seconds d;
     let p = h * (if ds \<le> 0 then 0 else if ic_fill cfg \<le> 0 then 1 else min 1 (ds / (ic_fill cfg * 60)));
     b \<leftarrow> host_broken_seconds d;
     p \<leftarrow> (if b > 0 then do { r \<leftarrow> break_ramp cfg d 1; State_Monad.return (max p (h + (1 - h) * r)) } else State_Monad.return p);
     State_Monad.return (max 0 (min 1 p)) }"

definition fill_at :: "'a incident_cfg_scheme \<Rightarrow> real \<Rightarrow> real" where
  "fill_at cfg ds = (if ds \<le> 0 then 0 else if ic_fill cfg \<le> 0 then 1 else min 1 (ds / (ic_fill cfg * 60)))"

lemma fill_at_range: "0 \<le> fill_at cfg ds" "fill_at cfg ds \<le> 1"
  by (simp_all add: fill_at_def)

lemma fill_at_full: "0 < ic_fill cfg \<Longrightarrow> ic_fill cfg * 60 \<le> ds \<Longrightarrow> fill_at cfg ds = 1"
  by (simp add: fill_at_def min_def le_divide_eq)

definition clip :: "real \<Rightarrow> real" where
  "clip p = max 0 (min 1 p)"

lemma timed_two_phase:
  assumes D: "degraded_since d = None \<Longrightarrow> D 0" "\<And>s t. degraded_since d = Some s \<Longrightarrow> T t \<Longrightarrow> D (fill_at cfg (t - s))"
    and R: "timed T R (break_ramp cfg d 1)"
    and calm: "\<And>f. D f \<Longrightarrow> broken_since d = None \<or> (\<exists>s t. broken_since d = Some s \<and> T t \<and> t \<le> s) \<Longrightarrow> P (clip (h * f))"
    and broke: "\<And>f r. D f \<Longrightarrow> R r \<Longrightarrow> broken_since d \<noteq> None \<Longrightarrow> P (clip (max (h * f) (h + (1 - h) * r)))"
  shows "timed T P (two_phase h cfg d)"
  unfolding two_phase_def fill_at_def [symmetric] Let_def
proof (rule timed_bind [where Q = "\<lambda>ds. D (fill_at cfg ds)"])
  show "timed T (\<lambda>ds. D (fill_at cfg ds)) (degraded_seconds d)"
    by (rule timed_degraded) (use D in \<open>simp_all add: fill_at_def\<close>)
next
  fix ds assume f: "D (fill_at cfg ds)"
  let ?p = "h * fill_at cfg ds"
  show "timed T P (host_broken_seconds d \<bind> (\<lambda>b.
      (if b > 0 then break_ramp cfg d 1 \<bind> (\<lambda>r. State_Monad.return (max ?p (h + (1 - h) * r))) else State_Monad.return ?p)
        \<bind> (\<lambda>p. State_Monad.return (max 0 (min 1 p)))))"
  proof (rule timed_bind [where Q = "\<lambda>b. if b > 0 then broken_since d \<noteq> None
           else broken_since d = None \<or> (\<exists>s t. broken_since d = Some s \<and> T t \<and> t \<le> s)"])
    fix b assume b: "if b > 0 then broken_since d \<noteq> None
           else broken_since d = None \<or> (\<exists>s t. broken_since d = Some s \<and> T t \<and> t \<le> s)"
    show "timed T P ((if b > 0 then break_ramp cfg d 1 \<bind> (\<lambda>r. State_Monad.return (max ?p (h + (1 - h) * r))) else State_Monad.return ?p)
        \<bind> (\<lambda>p. State_Monad.return (max 0 (min 1 p))))"
    proof (rule timed_bind [where Q = "\<lambda>p. P (clip p)"])
      show "timed T (\<lambda>p. P (clip p)) (if b > 0 then break_ramp cfg d 1 \<bind> (\<lambda>r. State_Monad.return (max ?p (h + (1 - h) * r))) else State_Monad.return ?p)"
        using b by (auto intro!: timed_return timed_bind [OF R] calm [OF f] broke [OF f] split: if_splits)
    qed (simp add: timed_return clip_def)
  qed (auto simp: not_less intro!: timed_broken)
qed

lemma two_phase_healthy:
  "degraded_since d = None \<Longrightarrow> broken_since d = None \<Longrightarrow> timed T (\<lambda>p. p = 0) (two_phase h cfg d)"
  by (rule timed_two_phase [where D = "\<lambda>f. f = 0" and R = "\<lambda>_. True"]) (auto simp: clip_def intro: timed_break_ramp_unit)

lemma two_phase_degraded:
  assumes "broken_since d = None" "0 \<le> h" "h \<le> 1"
  shows "timed T (\<lambda>p. 0 \<le> p \<and> p \<le> h) (two_phase h cfg d)"
proof (rule timed_two_phase [where D = "\<lambda>f. 0 \<le> f \<and> f \<le> 1" and R = "\<lambda>_. True"])
  fix f :: real assume "0 \<le> f \<and> f \<le> 1"
  then have "0 \<le> h * f" "h * f \<le> h" using assms by (simp_all add: mult_left_le)
  then show "0 \<le> clip (h * f) \<and> clip (h * f) \<le> h" using assms by (simp add: clip_def)
qed (use assms in \<open>auto simp: fill_at_range intro: timed_break_ramp_unit\<close>)

lemma two_phase_plateau:
  assumes "broken_since d = None" "0 \<le> h" "h \<le> 1" "0 < ic_fill cfg"
    and "degraded_since d = Some s" "\<And>t. T t \<Longrightarrow> ic_fill cfg * 60 \<le> t - s"
  shows "timed T (\<lambda>p. p = h) (two_phase h cfg d)"
  by (rule timed_two_phase [where D = "\<lambda>f. f = 1" and R = "\<lambda>_. True"])
     (use assms in \<open>auto simp: clip_def fill_at_full intro: timed_break_ramp_unit\<close>)

lemma two_phase_full:
  assumes "0 \<le> h" "h \<le> 1" "0 < ic_ramp cfg"
    and "broken_since d = Some s" "\<And>t. T t \<Longrightarrow> ic_ramp cfg * 60 \<le> t - s"
  shows "timed T (\<lambda>p. p = 1) (two_phase h cfg d)"
proof (rule timed_two_phase [where D = "\<lambda>f. f \<le> 1" and R = "\<lambda>r. r = 1"])
  show "timed T (\<lambda>r. r = 1) (break_ramp cfg d 1)"
    by (rule timed_break_ramp_full) (use assms in simp_all)
  fix f assume f: "broken_since d = None \<or> (\<exists>s t. broken_since d = Some s \<and> T t \<and> t \<le> s)"
  then obtain t where "T t" "t \<le> s" using assms(4) by auto
  moreover have "0 < ic_ramp cfg * 60" using assms(3) by simp
  ultimately show "clip (h * f) = 1" using assms(5) [of t] by linarith
qed (use assms in \<open>auto simp: clip_def fill_at_range mult_le_one intro: order_trans\<close>)

end
