(* ===== verification/Host_Worker.thy ===== *)
theory Host_Worker
  imports Host_Story
begin

text \<open>
  \<open>hosts/app-worker-01/serve.py\<close>, the leaking order worker: its counters, the memory pressure that drives
  the incident, its filesystems and the agent output, section by section.  \<open>sta\<close> is the state the handler
  passes, \<open>d\<close> the incident record the story functions read, \<open>ri\<close> the outcomes of \<open>random.randint\<close> in the
  order of the calls.
\<close>

section \<open>Counters and the driver of the incident\<close>

definition worker_counters :: "(string \<times> real \<times> real \<times> real) list" where
  "worker_counters = [
     (''cpu.user'', 0.3, 0.30, 70 * real_of_int 777600),
     (''cpu.system'', 1.1, 0.30, 30 * real_of_int 777600),
     (''cpu.idle'', 2.4, 0.30, 280 * real_of_int 777600),
     (''cpu.iowait'', 3.0, 0.30, 10 * real_of_int 777600),
     (''kernel.ctxt'', 4.0, 0.30, 3400 * real_of_int 777600),
     (''kernel.processes'', 4.7, 0.30, 5 * real_of_int 777600),
     (''kernel.pgmajfault'', 5.4, 0.30, 1 * real_of_int 777600),
     (''sda.rd_ios'', 0.0, 0.30, 6 * real_of_int 777600),
     (''sda.rd_ticks'', 0.2, 0.30, 4 * real_of_int 777600),
     (''sda.wr_ios'', 0.4, 0.30, 20 * real_of_int 777600),
     (''sda.wr_ticks'', 0.6, 0.30, 15 * real_of_int 777600),
     (''sda.io_ticks'', 0.8, 0.05, 22 * real_of_int 777600),
     (''net.rx_bytes'', 1.6, 0.30, 180000 * real_of_int 777600),
     (''net.tx_bytes'', 2.3, 0.30, 140000 * real_of_int 777600),
     (''net.rx_pkts'', 3.0, 0.30, 620 * real_of_int 777600),
     (''net.tx_pkts'', 3.7, 0.30, 560 * real_of_int 777600),
     (''app.jobs_done'', 2.0, 0.30, 38 * real_of_int 777600)]"

definition worker_pressure :: "incident_cfg \<Rightarrow> dstate \<Rightarrow> (sim, real) state" where
  "worker_pressure cfg d =
     do {
       ds \<leftarrow> degraded_seconds d;
       let deg = (if ds \<le> 0 then 0.0 else (if ic_fill cfg \<le> 0 then 1.0 else min 1.0 (ds / (ic_fill cfg * 60.0))));
       let p = 0.78 * deg;
       r2 \<leftarrow> host_broken_seconds d;
       p \<leftarrow> (if r2 > 0 then do {
         r3 \<leftarrow> break_ramp cfg d 1.0;
         let p = max p (0.78 + 0.22 * r3);
         State_Monad.return (p) } else State_Monad.return (p));
       State_Monad.return (max 0.0 (min 1.0 p)) }"

definition worker_oom_kills :: "dstate \<Rightarrow> (sim, int) state" where
  "worker_oom_kills d =
     do {
       bs \<leftarrow> host_broken_seconds d;
       State_Monad.return ((if bs \<le> 0 then 0 else 1 + py_trunc (bs / 90.0))) }"

section \<open>Disk health and filesystems\<close>

definition worker_smart_json :: "string \<Rightarrow> string \<Rightarrow> string \<Rightarrow> int \<Rightarrow> int \<Rightarrow> string" where
  "worker_smart_json nam model serial hours temp =
     (let doc = JObj [(''device'', JObj [(''name'', JStr nam),
         (''type'', JStr ''sat''),
         (''protocol'', JStr ''ATA'')]),
         (''model_name'', JStr model),
         (''serial_number'', JStr serial),
         (''smart_status'', JObj [(''passed'', JBool True)]),
         (''power_on_time'', JObj [(''hours'', JNum hours)]),
         (''temperature'', JObj [(''current'', JNum temp)]),
         (''ata_smart_attributes'', JObj [(''table'', JArr [JObj [(''id'', JNum 5),
         (''name'', JStr ''Reallocated_Sector_Ct''),
         (''value'', JNum 100),
         (''thresh'', JNum 10),
         (''raw'', JObj [(''value'', JNum 0)])],
         JObj [(''id'', JNum 12),
         (''name'', JStr ''Power_Cycle_Count''),
         (''value'', JNum 100),
         (''thresh'', JNum 0),
         (''raw'', JObj [(''value'', JNum 23)])],
         JObj [(''id'', JNum 187),
         (''name'', JStr ''Reported_Uncorrect''),
         (''value'', JNum 100),
         (''thresh'', JNum 0),
         (''raw'', JObj [(''value'', JNum 0)])],
         JObj [(''id'', JNum 197),
         (''name'', JStr ''Current_Pending_Sector''),
         (''value'', JNum 100),
         (''thresh'', JNum 0),
         (''raw'', JObj [(''value'', JNum 0)])],
         JObj [(''id'', JNum 199),
         (''name'', JStr ''UDMA_CRC_Error_Count''),
         (''value'', JNum 200),
         (''thresh'', JNum 0),
         (''raw'', JObj [(''value'', JNum 0)])],
         JObj [(''id'', JNum 177),
         (''name'', JStr ''Wear_Leveling_Count''),
         (''value'', JNum 96),
         (''thresh'', JNum 5),
         (''raw'', JObj [(''value'', JNum 88)])]])])]
      in dumps (doc))"

definition worker_filesystem_usage :: "incident_cfg \<Rightarrow> real \<Rightarrow> (sim, int \<times> int) state" where
  "worker_filesystem_usage cfg now =
     do {
       let uptime = now - hc_start cfg + real_of_int 777600;
       let day = 86400.0;
       let root_base = 13631488;
       let root_logs = 1048576 * (real_mod now day / day);
       let root_growth = min 1572864 (uptime * 0.04);
       g5 \<leftarrow> gauge ''fs.root'' 0 (Some 80000) None 0 1500;
       let root_used = py_trunc (real_of_int root_base + root_logs + root_growth + g5);
       let opt_base = 28311552;
       let opt_spool = 2097152 * (real_mod now 1800.0 / 1800.0);
       let opt_growth = min 3145728 (uptime * 0.6);
       g6 \<leftarrow> gauge ''fs.opt'' 0 (Some 160000) None 0 900;
       let opt_used = py_trunc (real_of_int opt_base + opt_spool + opt_growth + g6);
       State_Monad.return ((root_used, opt_used)) }"

section \<open>The agent output\<close>

definition worker_clock :: "incident_cfg \<Rightarrow> string \<Rightarrow> dstate \<Rightarrow> (sim, int \<times> int \<times> bool \<times> real) state" where
  "worker_clock cfg sta d =
     do {
       t7 \<leftarrow> get_time;
       let now = py_trunc t7;
       t8 \<leftarrow> get_time;
       let uptime = py_trunc (t8 - hc_start cfg) + 777600;
       let broken = sta = ''broken'';
       p \<leftarrow> worker_pressure cfg d;
       State_Monad.return ((now, uptime, broken, p)) }"

record worker_memory_vals =
  worker_m_commit_limit :: "int"
  worker_m_cached :: "int"
  worker_m_buffers :: "int"
  worker_m_sreclaim :: "int"
  worker_m_swapcached :: "int"
  worker_m_mem_free :: "int"
  worker_m_swap_free :: "int"
  worker_m_committed :: "int"
  worker_m_anon :: "int"
  worker_m_mem_available :: "int"
  worker_m_a_anon :: "int"
  worker_m_i_anon :: "int"
  worker_m_a_file :: "int"
  worker_m_i_file :: "int"
  worker_m_slab :: "int"
  worker_m_kernel_stack :: "int"
  worker_m_dirty :: "int"

definition worker_memory :: "real \<Rightarrow> (sim, worker_memory_vals) state" where
  "worker_memory p =
     do {
       let commit_limit = 4194300 + 16384000 div 2;
       let mem_used_t = lerp 6500000 15200000 p;
       let swap_used_t = lerp 0 3950000 (max 0.0 (min 1.0 ((p - 0.35) / 0.65)));
       g10 \<leftarrow> gauge ''mem.cached'' (lerp 6000000 900000 p) None (Some 0.02) 0.4 1500;
       let cached = py_trunc g10;
       let buffers = py_trunc (lerp 180000 40000 p);
       let sreclaim = py_trunc (lerp 488256 144000 p);
       let swapcached = py_trunc (lerp 0 120000 (max 0.0 ((p - 0.35) / 0.65)));
       let caches = cached + buffers + swapcached + sreclaim;
       let mem_free = max 120000 (16384000 - py_trunc mem_used_t - caches);
       let swap_free = max 40000 (4194300 - py_trunc swap_used_t);
       g11 \<leftarrow> gauge ''mem.committed'' (lerp 7000000 16800000 p) None (Some 0.01) 1.2 1700;
       let committed = py_trunc g11;
       let anon = max 2000000 (16384000 - mem_free - caches - 700000);
       let anon_lru = anon + 49152;
       let file_lru = max 0 (buffers + cached - 49152);
       let mem_available = max mem_free (mem_free + file_lru + sreclaim);
       let a_anon = py_trunc (real_of_int anon_lru * 0.57);
       let i_anon = anon_lru - a_anon;
       let a_file = py_trunc (real_of_int file_lru * 0.31);
       let i_file = file_lru - a_file;
       let slab = sreclaim + 122880;
       let threads = py_trunc (lerp 360 540 p);
       let kernel_stack = threads * 16;
       g12 \<leftarrow> gauge ''mem.dirty'' 18432 None (Some 0.15) 2.0 800;
       let dirty = max 8192 (py_trunc g12);
       State_Monad.return (\<lparr>worker_m_commit_limit = commit_limit,
         worker_m_cached = cached,
         worker_m_buffers = buffers,
         worker_m_sreclaim = sreclaim,
         worker_m_swapcached = swapcached,
         worker_m_mem_free = mem_free,
         worker_m_swap_free = swap_free,
         worker_m_committed = committed,
         worker_m_anon = anon,
         worker_m_mem_available = mem_available,
         worker_m_a_anon = a_anon,
         worker_m_i_anon = i_anon,
         worker_m_a_file = a_file,
         worker_m_i_file = i_file,
         worker_m_slab = slab,
         worker_m_kernel_stack = kernel_stack,
         worker_m_dirty = dirty\<rparr>) }"

record worker_load_vals =
  worker_wo_l1 :: "real"
  worker_wo_l5 :: "real"
  worker_wo_l15 :: "real"
  worker_wo_runnable :: "int"
  worker_wo_total_procs :: "int"

definition worker_load :: "incident_cfg \<Rightarrow> dstate \<Rightarrow> real \<Rightarrow> (sim, worker_load_vals) state" where
  "worker_load cfg d p =
     do {
       r1 \<leftarrow> break_ramp cfg d 0.55;
       r5 \<leftarrow> break_ramp cfg d 0.75;
       r15 \<leftarrow> break_ramp cfg d 1.0;
       let base_l = lerp 0.7 7.5 p;
       g16 \<leftarrow> gauge ''load1'' 1.0 None (Some 0.25) 0.2 300;
       let l1 = round_dec 2 (base_l * g16);
       g17 \<leftarrow> gauge ''load5'' 1.0 None (Some 0.14) 1.0 900;
       let l5 = round_dec 2 (base_l * 0.92 * g17);
       g18 \<leftarrow> gauge ''load15'' 1.0 None (Some 0.07) 2.0 2400;
       let l15 = round_dec 2 (base_l * 0.84 * g18);
       let runnable = 1 + py_round (2 * p);
       let total_procs = py_round (lerp 322 470 p);
       State_Monad.return (\<lparr>worker_wo_l1 = l1,
         worker_wo_l5 = l5,
         worker_wo_l15 = l15,
         worker_wo_runnable = runnable,
         worker_wo_total_procs = total_procs\<rparr>) }"

record worker_ticks_vals =
  worker_wo_user :: "int"
  worker_wo_system :: "int"
  worker_wo_idle :: "int"
  worker_wo_iowait :: "int"
  worker_wo_pgmaj_rate :: "real"

definition worker_ticks :: "real \<Rightarrow> (sim, worker_ticks_vals) state" where
  "worker_ticks p =
     do {
       user \<leftarrow> fsample ''cpu.user'' (lerp 70 150 p);
       system \<leftarrow> fsample ''cpu.system'' (lerp 30 95 p);
       idle \<leftarrow> fsample ''cpu.idle'' (lerp 280 95 p);
       iowait \<leftarrow> fsample ''cpu.iowait'' (lerp 10 60 p);
       let pgmaj_rate = lerp 1 760 p;
       State_Monad.return (\<lparr>worker_wo_user = user,
         worker_wo_system = system,
         worker_wo_idle = idle,
         worker_wo_iowait = iowait,
         worker_wo_pgmaj_rate = pgmaj_rate\<rparr>) }"

record worker_disk_vals =
  worker_d_sda_rd :: "int"
  worker_d_sda_rdt :: "int"
  worker_d_sda_wr :: "int"
  worker_d_sda_wrt :: "int"
  worker_d_sda_iot :: "int"

definition worker_disk :: "real \<Rightarrow> (sim, worker_disk_vals) state" where
  "worker_disk p =
     do {
       sda_rd \<leftarrow> fsample ''sda.rd_ios'' (lerp 6 140 p);
       sda_rdt \<leftarrow> fsample ''sda.rd_ticks'' (lerp 4 90 p);
       sda_wr \<leftarrow> fsample ''sda.wr_ios'' (lerp 20 60 p);
       sda_wrt \<leftarrow> fsample ''sda.wr_ticks'' (lerp 15 70 p);
       sda_iot \<leftarrow> fsample ''sda.io_ticks'' (lerp 22 240 p);
       State_Monad.return (\<lparr>worker_d_sda_rd = sda_rd,
         worker_d_sda_rdt = sda_rdt,
         worker_d_sda_wr = sda_wr,
         worker_d_sda_wrt = sda_wrt,
         worker_d_sda_iot = sda_iot\<rparr>) }"

definition worker_net :: "real \<Rightarrow> (sim, int \<times> int \<times> int \<times> int) state" where
  "worker_net p =
     do {
       rx_bytes \<leftarrow> fsample ''net.rx_bytes'' 180000;
       tx_bytes \<leftarrow> fsample ''net.tx_bytes'' 140000;
       rx_pkts \<leftarrow> fsample ''net.rx_pkts'' 620;
       tx_pkts \<leftarrow> fsample ''net.tx_pkts'' 560;
       c32 \<leftarrow> fsample ''app.jobs_done'' (lerp 38 3 p);
       State_Monad.return ((rx_bytes, tx_bytes, rx_pkts, tx_pkts)) }"

definition worker_smart :: "int \<Rightarrow> (sim, string) state" where
  "worker_smart uptime =
     do {
       g33 \<leftarrow> gauge ''smart.sda.temp'' 31 (Some 1.2) None 2.1 1100;
       let sda_temp = py_round g33;
       let sda_smart = worker_smart_json ''/dev/sda'' ''SAMSUNG MZ7L3480HCHQ-00A07'' ''S6KSNX0T214518'' (py_trunc (real_of_int uptime / 3600) + 18000) sda_temp;
       State_Monad.return (sda_smart) }"

definition worker_head :: "incident_cfg \<Rightarrow> int \<Rightarrow> string list" where
  "worker_head cfg now =
     (let cert_to = strftime ''%a, %d %b %Y %H:%M:%S +0000'' (gmtime (now + 318 * 86400))
      in [
       ''<<<check_mk>>>'',
       ''Version: '' @ hc_version cfg,
       ''AgentOS: linux'',
       ''Hostname: '' @ hc_hostname cfg,
       ''InstallationDirectory: /opt/checkmk/agent/default'',
       ''PackageDirectory: /opt/checkmk/agent/default/package'',
       ''RuntimeDirectory: /opt/checkmk/agent/default/runtime'',
       ''OSType: linux'',
       ''OSName: Ubuntu'',
       ''OSVersion: 24.04'',
       ''OSPlatform: ubuntu'',
       ''FailedPythonReason: '',
       ''SSHClient: '',
       ''<<<cmk_agent_ctl_status:sep(0)>>>'',
       dumps (JObj [(''version'', JStr (hc_version cfg)),
         (''agent_socket_operational'', JBool True),
         (''ip_allowlist'', JArr []),
         (''allow_legacy_pull'', JBool False),
         (''connections'', JArr [JObj [(''site_id'', JStr ''monitoring/prod''),
         (''receiver_port'', JNum 8000),
         (''uuid'', JStr ''b21e7740-1f0c-4c2a-9d33-2a7c5e9b4d02''),
         (''local'', JObj [(''connection_mode'', JStr ''pull-agent''), (''cert_info'', JObj [(''issuer'', JStr (''Site '' @ [CHR 0x27] @ ''prod'' @ [CHR 0x27] @ '' local CA'')),
         (''from'', JStr ''Tue, 03 Jun 2025 09:12:44 +0000''),
         (''to'', JStr cert_to)])]),
         (''remote'', JStr ''remote_query_disabled'')]])]),
       ''<<<checkmk_agent_plugins_lnx:sep(0)>>>'',
       ''pluginsdir /opt/checkmk/agent/default/package/plugins'',
       ''localdir /opt/checkmk/agent/default/package/local'',
       ''/opt/checkmk/agent/default/package/plugins/86400/mk_apt:CMK_VERSION='' @ [CHR 0x22] @ hc_version cfg @ [CHR 0x22]])"

definition worker_df :: "incident_cfg \<Rightarrow> (sim, string list) state" where
  "worker_df cfg =
     do {
       t34 \<leftarrow> get_time;
       r35 \<leftarrow> worker_filesystem_usage cfg t34;
       let (root_used, opt_used) = r35;
       State_Monad.return ([
       ''<<<df_v2>>>'',
       ''/dev/sda1 ext4 '' @ int_str 41943040 @ '' '' @ int_str root_used @ '' '' @ int_str (41943040 - root_used) @ '' '' @ int_str (py_round (real_of_int root_used / (real_of_int 41943040) * 100)) @ ''% /'',
       ''/dev/sda2 ext4 '' @ int_str 83886080 @ '' '' @ int_str opt_used @ '' '' @ int_str (83886080 - opt_used) @ '' '' @ int_str (py_round (real_of_int opt_used / (real_of_int 83886080) * 100)) @ ''% /opt/orderworker'',
       ''[df_inodes_start]'',
       ''/dev/sda1 ext4 2621440 286331 '' @ int_str (2621440 - 286331) @ '' 11% /'',
       ''/dev/sda2 ext4 5242880 142887 '' @ int_str (5242880 - 142887) @ '' 3% /opt/orderworker'',
       ''[df_inodes_end]'',
       ''<<<mounts>>>'',
       ''/dev/sda1 / ext4 rw,relatime,errors=remount-ro 0 0'',
       ''/dev/sda2 /opt/orderworker ext4 rw,relatime 0 0'']) }"

definition worker_mem :: "worker_memory_vals \<Rightarrow> string list" where
  "worker_mem mv =
     [
       ''<<<mem>>>'',
       ''MemTotal:       '' @ int_str 16384000 @ '' kB'',
       ''MemFree:        '' @ int_str (worker_m_mem_free mv) @ '' kB'',
       ''MemAvailable:   '' @ int_str (worker_m_mem_available mv) @ '' kB'',
       ''Buffers:        '' @ int_str (worker_m_buffers mv) @ '' kB'',
       ''Cached:         '' @ int_str (worker_m_cached mv) @ '' kB'',
       ''SwapCached:     '' @ int_str (worker_m_swapcached mv) @ '' kB'',
       ''Active:         '' @ int_str (worker_m_a_anon mv + worker_m_a_file mv) @ '' kB'',
       ''Inactive:       '' @ int_str (worker_m_i_anon mv + worker_m_i_file mv) @ '' kB'',
       ''Active(anon):   '' @ int_str (worker_m_a_anon mv) @ '' kB'',
       ''Inactive(anon): '' @ int_str (worker_m_i_anon mv) @ '' kB'',
       ''Active(file):   '' @ int_str (worker_m_a_file mv) @ '' kB'',
       ''Inactive(file): '' @ int_str (worker_m_i_file mv) @ '' kB'',
       ''Unevictable:    0 kB'',
       ''Mlocked:        0 kB'',
       ''SwapTotal:      '' @ int_str 4194300 @ '' kB'',
       ''SwapFree:       '' @ int_str (worker_m_swap_free mv) @ '' kB'',
       ''Zswap:          0 kB'',
       ''Zswapped:       0 kB'',
       ''Dirty:          '' @ int_str (worker_m_dirty mv) @ '' kB'',
       ''Writeback:      0 kB'',
       ''AnonPages:      '' @ int_str (worker_m_anon mv) @ '' kB'',
       ''Mapped:         410624 kB'',
       ''Shmem:          '' @ int_str 49152 @ '' kB'',
       ''KReclaimable:   '' @ int_str (worker_m_sreclaim mv) @ '' kB'',
       ''Slab:           '' @ int_str (worker_m_slab mv) @ '' kB'',
       ''SReclaimable:   '' @ int_str (worker_m_sreclaim mv) @ '' kB'',
       ''SUnreclaim:     122880 kB'',
       ''KernelStack:    '' @ int_str (worker_m_kernel_stack mv) @ '' kB'',
       ''PageTables:     78848 kB'',
       ''SecPageTables:  0 kB'',
       ''NFS_Unstable:   0 kB'',
       ''Bounce:         0 kB'',
       ''WritebackTmp:   0 kB'',
       ''CommitLimit:    '' @ int_str (worker_m_commit_limit mv) @ '' kB'',
       ''Committed_AS:   '' @ int_str (worker_m_committed mv) @ '' kB'',
       ''VmallocTotal:   34359738367 kB'',
       ''VmallocUsed:    54272 kB'',
       ''VmallocChunk:   0 kB'',
       ''Percpu:         14336 kB'',
       ''HardwareCorrupted: 0 kB'',
       ''AnonHugePages:  0 kB'',
       ''ShmemHugePages: 0 kB'',
       ''ShmemPmdMapped: 0 kB'',
       ''FileHugePages:  0 kB'',
       ''FilePmdMapped:  0 kB'',
       ''CmaTotal:       0 kB'',
       ''CmaFree:        0 kB'',
       ''Unaccepted:     0 kB'',
       ''Balloon:        0 kB'',
       ''HugePages_Total:       0'',
       ''HugePages_Free:        0'',
       ''HugePages_Rsvd:        0'',
       ''HugePages_Surp:        0'',
       ''Hugepagesize:       2048 kB'',
       ''Hugetlb:        0 kB'',
       ''DirectMap4k:    284620 kB'',
       ''DirectMap2M:    6008832 kB'',
       ''DirectMap1G:    11534336 kB'']"

definition worker_cpu :: "int \<Rightarrow> worker_load_vals \<Rightarrow> (sim, string list) state" where
  "worker_cpu uptime lv =
     do {
       c36 \<leftarrow> fsample ''kernel.processes'' 5;
       State_Monad.return ([
       ''<<<cpu>>>'',
       float_str 2 (worker_wo_l1 lv) @ '' '' @ float_str 2 (worker_wo_l5 lv) @ '' '' @ float_str 2 (worker_wo_l15 lv) @ '' '' @ int_str (worker_wo_runnable lv) @ ''/'' @ int_str (worker_wo_total_procs lv) @ '' '' @ int_str (28000 + c36 mod 9999) @ '' '' @ int_str 4,
       ''<<<uptime>>>'',
       int_str uptime @ ''.00 '' @ int_str (py_trunc (real_of_int uptime * 3.2)) @ ''.00'']) }"

definition worker_timesync :: "incident_cfg \<Rightarrow> (nat \<Rightarrow> int) \<Rightarrow> int \<Rightarrow> (sim, string list) state" where
  "worker_timesync cfg ri now =
     do {
       let last_sync = now - py_trunc (real_mod (real_of_int now - hc_start cfg) 2048);
       let sync_str = strftime ''%a %Y-%m-%d %H:%M:%S UTC'' (gmtime last_sync);
       let offset_us = (ri 0);
       t37 \<leftarrow> get_time;
       State_Monad.return ([
       ''<<<timesyncd>>>'',
       ''       Server: 185.125.190.56 (ntp.ubuntu.com)'',
       ''Poll interval: 34min 8s (min: 32s; max 34min 8s)'',
       ''         Leap: normal'',
       ''      Version: 4'',
       ''      Stratum: 2'',
       ''    Reference: B97D5A38'',
       ''    Precision: 1us (-25)'',
       ''Root distance: 12.041ms (max: 5s)'',
       ''       Offset: '' @ signed_str offset_us @ ''us'',
       ''        Delay: 19.882ms'',
       ''       Jitter: '' @ fixed_str 3 (real_of_int (ri 1) / 1000) @ ''ms'',
       '' Packet count: '' @ int_str (610 + py_trunc ((t37 - hc_start cfg) / 2048)),
       ''    Frequency: +9.114ppm'',
       ''[[['' @ int_str last_sync @ '']]]'',
       ''<<<timesyncd_ntpmessage:sep(10)>>>'',
       ''NTPMessage={ Leap=0, Version=4, Mode=4, Stratum=2, Precision=-25, RootDelay=9.323ms, RootDispersion=1.221ms, Reference=B97D5A38, OriginateTimestamp='' @ sync_str @ '', ReceiveTimestamp='' @ sync_str @ '', TransmitTimestamp='' @ sync_str @ '', DestinationTimestamp='' @ sync_str @ '', Ignored=no, PacketCount=58, Jitter=1.118ms }'',
       ''Timezone=UTC'']) }"

definition worker_apt :: "string list" where
  "worker_apt =
     [
       ''<<<apt:sep(0)>>>'',
       ''No updates pending for installation'']"

definition worker_kernel :: "int \<Rightarrow> worker_ticks_vals \<Rightarrow> (sim, string list) state" where
  "worker_kernel now tv =
     do {
       c38 \<leftarrow> fsample ''kernel.ctxt'' 3400;
       c39 \<leftarrow> fsample ''kernel.processes'' 5;
       c40 \<leftarrow> fsample ''kernel.pgmajfault'' (worker_wo_pgmaj_rate tv);
       State_Monad.return ([
       ''<<<kernel>>>'',
       int_str now,
       ''cpu '' @ int_str (worker_wo_user tv) @ '' 0 '' @ int_str (worker_wo_system tv) @ '' '' @ int_str (worker_wo_idle tv) @ '' '' @ int_str (worker_wo_iowait tv) @ '' 0 0 0 0 0'',
       ''ctxt '' @ int_str c38,
       ''processes '' @ int_str c39,
       ''pgmajfault '' @ int_str c40]) }"

definition worker_diskstat :: "int \<Rightarrow> worker_disk_vals \<Rightarrow> string list" where
  "worker_diskstat now dv =
     [
       ''<<<diskstat>>>'',
       int_str now,
       ''8 0 sda '' @ int_str (worker_d_sda_rd dv) @ '' 0 '' @ int_str (worker_d_sda_rd dv * 24) @ '' '' @ int_str (worker_d_sda_rdt dv) @ '' '' @ int_str (worker_d_sda_wr dv) @ '' 0 '' @ int_str (worker_d_sda_wr dv * 40) @ '' '' @ int_str (worker_d_sda_wrt dv) @ '' 0 '' @ int_str (worker_d_sda_iot dv) @ '' '' @ int_str (worker_d_sda_iot dv * 2) @ '' 0 0 0 0'']"

definition worker_if :: "int \<Rightarrow> int \<Rightarrow> int \<Rightarrow> int \<Rightarrow> string list" where
  "worker_if rx_bytes tx_bytes rx_pkts tx_pkts =
     [
       ''<<<lnx_if>>>'',
       ''[start_iplink]'',
       ''1: lo: <LOOPBACK,UP,LOWER_UP> mtu 65536 qdisc noqueue state UNKNOWN group default qlen 1000'',
       ''    link/loopback 00:00:00:00:00:00 brd 00:00:00:00:00:00'',
       ''2: eth0: <BROADCAST,MULTICAST,UP,LOWER_UP> mtu 1500 qdisc fq_codel state UP group default qlen 1000'',
       ''    link/ether 02:42:ac:11:00:2a brd ff:ff:ff:ff:ff:ff'',
       ''[end_iplink]'',
       ''<<<lnx_if:sep(58)>>>'',
       ''eth0: '' @ int_str rx_bytes @ '' '' @ int_str rx_pkts @ '' 0 0 0 0 0 0 '' @ int_str tx_bytes @ '' '' @ int_str tx_pkts @ '' 0 0 0 0 0 0'',
       ''[eth0]'',
       TAB @ ''Speed: 10000Mb/s'',
       TAB @ ''Duplex: Full'',
       TAB @ ''Auto-negotiation: on'',
       TAB @ ''Link detected: yes'',
       ''Address: 02:42:ac:11:00:2a'']"

definition worker_tcp :: "(nat \<Rightarrow> int) \<Rightarrow> (sim, string list) state" where
  "worker_tcp ri =
     do {
       g41 \<leftarrow> gauge ''tcp.estab'' 22 (Some 5) None 0.9 700;
       g42 \<leftarrow> gauge ''tcp.timewait'' 9 (Some 3) None 2.4 500;
       State_Monad.return ([
       ''<<<tcp_conn_stats>>>'',
       ''01 '' @ int_str (py_round g41),
       ''02 '' @ int_str (ri 2),
       ''06 '' @ int_str (py_round g42),
       ''0A 3'']) }"

definition worker_smart_section :: "string \<Rightarrow> string list" where
  "worker_smart_section sda_smart =
     [
       ''<<<smart_posix_all:sep(0)>>>'',
       sda_smart]"

definition worker_ps :: "int \<Rightarrow> real \<Rightarrow> string list" where
  "worker_ps now p =
     (let java_rss = py_trunc (lerp 2500000 12800000 p);
          java_vsz = java_rss + 2600000
      in [
       ''<<<ps_lnx>>>'',
       ''[time]'',
       int_str now,
       ''[processes]'',
       ''[header] CGROUP USER VSZ RSS TIME ELAPSED PID COMMAND''] @
      concat (map (\<lambda>(cgs, usr, vsz, rss, cputime, pid, cmd). [
       ''0::/'' @ cgs @ '' '' @ usr @ '' '' @ int_str vsz @ '' '' @ int_str rss @ '' '' @ cputime @ '' 09-02:41:40 '' @ int_str pid @ '' '' @ cmd]) ([
       (''init.scope'', ''root'', 168000, 12800, ''00:00:31'', 1, ''/sbin/init''),
       (''system.slice/systemd-journald.service'', ''root'', 58300, 19400, ''00:01:21'', 401, ''/usr/lib/systemd/systemd-journald''),
       (''system.slice/systemd-udevd.service'', ''root'', 25900, 7900, ''00:00:03'', 438, ''/usr/lib/systemd/systemd-udevd''),
       (''system.slice/systemd-resolved.service'', ''systemd-resolve'', 26600, 13100, ''00:00:44'', 489, ''/usr/lib/systemd/systemd-resolved''),
       (''system.slice/systemd-timesyncd.service'', ''systemd-timesync'', 91000, 7600, ''00:00:10'', 503, ''/usr/lib/systemd/systemd-timesyncd''),
       (''system.slice/dbus.service'', ''messagebus'', 10200, 5100, ''00:00:18'', 515, ''@dbus-daemon --system --address=systemd:''),
       (''system.slice/rsyslog.service'', ''syslog'', 222400, 6700, ''00:00:39'', 612, ''/usr/sbin/rsyslogd -n -iNONE''),
       (''system.slice/ssh.service'', ''root'', 15400, 9000, ''00:00:01'', 690, ''sshd: /usr/sbin/sshd -D [listener]''),
       (''system.slice/cron.service'', ''root'', 11500, 2500, ''00:00:02'', 705, ''/usr/sbin/cron -f -P''),
       (''system.slice/containerd.service'', ''root'', 1810000, 41200, ''01:42:11'', 760, ''/usr/bin/containerd'')])) @
      [
       ''0::/system.slice/order-worker.service worker '' @ int_str java_vsz @ '' '' @ int_str java_rss @ '' 02:51:44 '' @ ''09-02:39:50'' @ '' 1180 /usr/bin/java -Xmx10g -XX:+UseG1GC -jar /opt/orderworker/order-worker.jar''])"

definition worker_units :: "bool \<Rightarrow> string list" where
  "worker_units broken =
     (let (worker_act, worker_sub) = (if broken then (''failed'', ''failed'') else (''active'', ''running''));
          units = [
       (''order-worker.service'', worker_act, worker_sub, ''Meridian order settlement worker''),
       (''ssh.service'', ''active'', ''running'', ''OpenBSD Secure Shell server''),
       (''cron.service'', ''active'', ''running'', ''Regular background program processing daemon''),
       (''containerd.service'', ''active'', ''running'', ''containerd container runtime''),
       (''dbus.service'', ''active'', ''running'', ''D-Bus System Message Bus''),
       (''getty@tty1.service'', ''active'', ''running'', ''Getty on tty1''),
       (''irqbalance.service'', ''active'', ''running'', ''irqbalance daemon''),
       (''multipathd.service'', ''active'', ''running'', ''Device-Mapper Multipath Device Controller''),
       (''networkd-dispatcher.service'', ''active'', ''running'', ''Dispatcher daemon for systemd-networkd''),
       (''polkit.service'', ''active'', ''running'', ''Authorization Manager''),
       (''rsyslog.service'', ''active'', ''running'', ''System Logging Service''),
       (''snapd.service'', ''active'', ''running'', ''Snap Daemon''),
       (''systemd-journald.service'', ''active'', ''running'', ''Journal Service''),
       (''systemd-logind.service'', ''active'', ''running'', ''User Login Management''),
       (''systemd-networkd.service'', ''active'', ''running'', ''Network Configuration''),
       (''systemd-resolved.service'', ''active'', ''running'', ''Network Name Resolution''),
       (''systemd-timesyncd.service'', ''active'', ''running'', ''Network Time Synchronization''),
       (''systemd-udevd.service'', ''active'', ''running'', ''Rule-based Manager for Device Events and Files''),
       (''udisks2.service'', ''active'', ''running'', ''Disk Manager''),
       (''unattended-upgrades.service'', ''active'', ''running'', ''Unattended Upgrades Shutdown''),
       (''user@1000.service'', ''active'', ''running'', ''User Manager for UID 1000''),
       (''apparmor.service'', ''active'', ''exited'', ''Load AppArmor profiles''),
       (''blk-availability.service'', ''active'', ''exited'', ''Availability of block devices''),
       (''console-setup.service'', ''active'', ''exited'', ''Set console font and keymap''),
       (''finalrd.service'', ''active'', ''exited'', ''Create final runtime dir for shutdown pivot root''),
       (''keyboard-setup.service'', ''active'', ''exited'', ''Set the console keyboard layout''),
       (''lvm2-monitor.service'', ''active'', ''exited'', ''Monitoring of LVM2 mirrors, snapshots etc. using dmeventd or progress polling''),
       (''setvtrgb.service'', ''active'', ''exited'', ''Set console scheme''),
       (''snapd.seeded.service'', ''active'', ''exited'', ''Wait until snapd is fully seeded''),
       (''systemd-user-sessions.service'', ''active'', ''exited'', ''Permit User Sessions'')]
      in [
       ''<<<systemd_units>>>'',
       ''[list-unit-files]''] @
      concat (map (\<lambda>(nam, _, _, _). [
       nam @ '' enabled enabled'']) units) @
      [
       ''[status]'',
       ''[all]''] @
      concat (map (\<lambda>(nam, act, sub, descr). [
       nam @ '' loaded '' @ act @ '' '' @ sub @ '' '' @ descr]) units))"

definition worker_job :: "int \<Rightarrow> string list" where
  "worker_job now =
     [
       ''<<<job>>>'',
       ''==> artifact-prune <=='',
       ''start_time '' @ int_str (now - 9 * 3600),
       ''exit_code 0'',
       ''real_time 1:48.7'',
       ''user_time 1.20'',
       ''system_time 0.60'',
       ''max_res_kbytes 88000'',
       ''avg_mem_kbytes 0'']"

text \<open>The payload, or the exception its construction ends with.\<close>

definition worker_build :: "incident_cfg \<Rightarrow> string \<Rightarrow> (nat \<Rightarrow> int) \<Rightarrow> dstate \<Rightarrow> (sim, string res) state" where
  "worker_build cfg sta ri d = do {
       (now, uptime, broken, p) \<leftarrow> worker_clock cfg sta d;
       mv \<leftarrow> worker_memory p;
       lv \<leftarrow> worker_load cfg d p;
       tv \<leftarrow> worker_ticks p;
       dv \<leftarrow> worker_disk p;
       (rx_bytes, tx_bytes, rx_pkts, tx_pkts) \<leftarrow> worker_net p;
       sda_smart \<leftarrow> worker_smart uptime;
       let l_head = worker_head cfg now;
       l_df \<leftarrow> worker_df cfg;
       let l_mem = worker_mem mv;
       l_cpu \<leftarrow> worker_cpu uptime lv;
       l_timesync \<leftarrow> worker_timesync cfg ri now;
       let l_apt = worker_apt;
       l_kernel \<leftarrow> worker_kernel now tv;
       let l_diskstat = worker_diskstat now dv;
       let l_if = worker_if rx_bytes tx_bytes rx_pkts tx_pkts;
       l_tcp \<leftarrow> worker_tcp ri;
       let l_smart_section = worker_smart_section sda_smart;
       if broken then do { _ \<leftarrow> host_broken_seconds d; State_Monad.return (Inl ValueError) }
       else do {
       let l_ps = worker_ps now p;
       let l_units = worker_units broken;
       let l_job = worker_job now;
       State_Monad.return (Inr (concat (map (\<lambda>l. l @ [CHR 0x0A])
         (l_head @ l_df @ l_mem @ l_cpu @ l_timesync @ l_apt @ l_kernel @ l_diskstat @ l_if @ l_tcp @ l_smart_section @ l_ps @ l_units @ l_job)))) } }"

text \<open>The model ends here.  The story the memory section tells: what Checkmk computes from it, against its default
  levels (80 and 90 percent of RAM plus swap, committed memory against the commit limit).\<close>

section \<open>The memory story\<close>

lemma worker_pressure_two_phase: "worker_pressure = two_phase (39 / 50)"
proof (intro ext)
  fix cfg d
  have e: "0.0 = (0 :: real)" "1.0 = (1 :: real)" "60.0 = (60 :: real)" "0.22 = 1 - (39 / 50 :: real)" "0.78 = (39 / 50 :: real)" by simp_all
  show "worker_pressure cfg d = two_phase (39 / 50) cfg d"
    unfolding worker_pressure_def two_phase_def Let_def e ..
qed

definition virtual_total :: int where
  "virtual_total = 16384000 + 4194300"

definition virtual_used :: "worker_memory_vals \<Rightarrow> int" where
  "virtual_used m =
     (16384000 - worker_m_mem_free m - (worker_m_cached m + worker_m_buffers m + worker_m_swapcached m + worker_m_sreclaim m))
     + (4194300 - worker_m_swap_free m)"

definition swap_pressure :: "real \<Rightarrow> real" where
  "swap_pressure p = max 0 ((p - 7 / 20) / (13 / 20))"

definition memory_facts :: "real \<Rightarrow> worker_memory_vals \<Rightarrow> bool" where
  "memory_facts p m \<longleftrightarrow> worker_m_commit_limit m = 12386300
     \<and> worker_m_cached m \<le> py_trunc (lerp 6000000 900000 p * (51 / 50))
     \<and> py_trunc (lerp 7000000 16800000 p * (99 / 100)) \<le> worker_m_committed m
     \<and> worker_m_committed m \<le> py_trunc (lerp 7000000 16800000 p * (101 / 100))
     \<and> worker_m_buffers m = py_trunc (lerp 180000 40000 p)
     \<and> worker_m_sreclaim m = py_trunc (lerp 488256 144000 p)
     \<and> worker_m_swapcached m = py_trunc (lerp 0 120000 (swap_pressure p))
     \<and> worker_m_mem_free m = max 120000 (16384000 - py_trunc (lerp 6500000 15200000 p)
          - (worker_m_cached m + worker_m_buffers m + worker_m_swapcached m + worker_m_sreclaim m))
     \<and> worker_m_swap_free m = max 40000 (4194300 - py_trunc (lerp 0 3950000 (min 1 (swap_pressure p))))"

lemma worker_memory_facts:
  assumes "0 \<le> p" "p \<le> 1"
  shows "timed T (memory_facts p) (worker_memory p)"
proof -
  have c: "0 \<le> lerp 6000000 900000 p" "0 \<le> lerp 7000000 16800000 p" using assms by (simp_all add: lerp_def)
  have e: "max 0.0 (min 1.0 x) = min 1 (max 0 x)" "(0.0 :: real) = 0" "(1 + 0.02 :: real) = 51 / 50" "(1 - 0.01 :: real) = 99 / 100"
    "(1 + 0.01 :: real) = 101 / 100" "(0.35 :: real) = 7 / 20" "(0.65 :: real) = 13 / 20" for x :: real by simp_all
  show ?thesis
    unfolding worker_memory_def Let_def e
    apply (rule timed_gauge_frac_bind, simp, rule c, rule timed_gauge_frac_bind, simp, rule c, rule timed_gauge_frac_bind, simp, simp)
    apply (rule timed_return)
    unfolding e memory_facts_def swap_pressure_def worker_memory_vals.select_convs
    by (intro conjI refl py_trunc_mono; (assumption | simp (no_asm)))
qed

text \<open>What the pressure does to the virtual memory in use.\<close>

lemma virtual_used_upper:
  assumes "memory_facts p m" "0 \<le> p" "p \<le> 1"
  shows "real_of_int (virtual_used m) \<le> lerp 6500000 15200000 p + lerp 0 3950000 (min 1 (swap_pressure p))"
proof -
  have "virtual_used m \<le> py_trunc (lerp 6500000 15200000 p) + py_trunc (lerp 0 3950000 (min 1 (swap_pressure p)))"
    using assms(1) by (auto simp: memory_facts_def virtual_used_def)
  moreover have "real_of_int (py_trunc (lerp 6500000 15200000 p)) \<le> lerp 6500000 15200000 p"
    "real_of_int (py_trunc (lerp 0 3950000 (min 1 (swap_pressure p)))) \<le> lerp 0 3950000 (min 1 (swap_pressure p))"
    by (intro trunc_below; use assms in \<open>simp add: lerp_def swap_pressure_def\<close>)+
  ultimately show ?thesis by linarith
qed

lemma virtual_used_full:
  assumes "memory_facts 1 m"
  shows "90 * virtual_total \<le> 100 * virtual_used m"
proof -
  have v: "py_trunc (lerp 6000000 900000 1 * (51 / 50)) = 918000" "py_trunc (lerp 180000 40000 1) = 40000"
    "py_trunc (lerp 488256 144000 1) = 144000" "py_trunc (lerp 0 120000 (swap_pressure 1)) = 120000"
    "py_trunc (lerp 6500000 15200000 1) = 15200000" "py_trunc (lerp 0 3950000 (min 1 (swap_pressure 1))) = 3950000"
    by (simp_all add: lerp_def swap_pressure_def py_trunc_def)
  have "worker_m_cached m \<le> 918000" "worker_m_buffers m = 40000" "worker_m_sreclaim m = 144000" "worker_m_swapcached m = 120000"
    "worker_m_mem_free m = max 120000 (16384000 - 15200000
       - (worker_m_cached m + worker_m_buffers m + worker_m_swapcached m + worker_m_sreclaim m))"
    "worker_m_swap_free m = max 40000 (4194300 - 3950000)"
    using assms unfolding memory_facts_def v by blast+
  then show ?thesis unfolding virtual_used_def virtual_total_def by (simp add: max_def split: if_splits)
qed

lemma worker_memory_run:
  assumes "timed T Q (two_phase (39 / 50) cfg d)" "\<And>p m. Q p \<Longrightarrow> memory_facts p m \<Longrightarrow> P m" "\<And>p. Q p \<Longrightarrow> 0 \<le> p \<and> p \<le> 1"
  shows "timed T P (worker_pressure cfg d \<bind> worker_memory)"
  unfolding worker_pressure_two_phase
  by (rule timed_bind [OF assms(1)], rule timed_weaken [OF worker_memory_facts]) (use assms in auto)

lemma virtual_below:
  assumes "memory_facts p m" "0 \<le> p" "p \<le> 1" "100 * (lerp 6500000 15200000 p + lerp 0 3950000 (min 1 (swap_pressure p))) < k * 20578300"
  shows "100 * virtual_used m < k * virtual_total"
proof -
  have "real_of_int (100 * virtual_used m) < k * 20578300" using virtual_used_upper [OF assms(1-3)] assms(4) by simp
  then have "real_of_int (100 * virtual_used m) < real_of_int (k * virtual_total)" by (simp add: virtual_total_def)
  then show ?thesis by (simp only: of_int_less_iff)
qed

text \<open>The memory story of the leaking worker, for every configuration, clock and noise: while it is healthy the
  virtual memory in use (RAM and swap, as Checkmk computes it) stays below 40 percent and the committed memory
  below the commit limit; before the break it stays below the 80 percent warning level; once the leak has had its
  fill time the committed memory is above the limit; and once the break ramp is over the virtual memory in use is
  above the 90 percent critical level.\<close>

theorem worker_memory_story:
  "(degraded_since d = None \<and> broken_since d = None \<longrightarrow>
      timed T (\<lambda>m. 100 * virtual_used m < 40 * virtual_total \<and> worker_m_committed m < worker_m_commit_limit m)
        (worker_pressure cfg d \<bind> worker_memory))
   \<and> (broken_since d = None \<longrightarrow>
      timed T (\<lambda>m. 100 * virtual_used m < 80 * virtual_total) (worker_pressure cfg d \<bind> worker_memory))
   \<and> (broken_since d = None \<and> 0 < ic_fill cfg \<and> (\<exists>s. degraded_since d = Some s \<and> (\<forall>t. T t \<longrightarrow> ic_fill cfg * 60 \<le> t - s)) \<longrightarrow>
      timed T (\<lambda>m. worker_m_commit_limit m < worker_m_committed m) (worker_pressure cfg d \<bind> worker_memory))
   \<and> (0 < ic_ramp cfg \<and> (\<exists>s. broken_since d = Some s \<and> (\<forall>t. T t \<longrightarrow> ic_ramp cfg * 60 \<le> t - s)) \<longrightarrow>
      timed T (\<lambda>m. 90 * virtual_total \<le> 100 * virtual_used m) (worker_pressure cfg d \<bind> worker_memory))"
proof (intro conjI impI)
  assume "degraded_since d = None \<and> broken_since d = None"
  then show "timed T (\<lambda>m. 100 * virtual_used m < 40 * virtual_total \<and> worker_m_committed m < worker_m_commit_limit m)
      (worker_pressure cfg d \<bind> worker_memory)"
  proof (intro worker_memory_run [OF two_phase_healthy])
    fix p m assume p: "p = (0 :: real)" and m: "memory_facts p m"
    have "lerp 6500000 15200000 0 = 6500000" "lerp 0 3950000 (min 1 (swap_pressure 0)) = 0" "py_trunc (lerp 7000000 16800000 0 * (101 / 100)) = 7070000"
      by (simp_all add: lerp_def swap_pressure_def py_trunc_def)
    then show "100 * virtual_used m < 40 * virtual_total \<and> worker_m_committed m < worker_m_commit_limit m"
      using virtual_below [OF m, of 40] m p by (simp add: memory_facts_def)
  qed simp_all
next
  assume "broken_since d = None"
  then show "timed T (\<lambda>m. 100 * virtual_used m < 80 * virtual_total) (worker_pressure cfg d \<bind> worker_memory)"
  proof (intro worker_memory_run [OF two_phase_degraded])
    fix p m assume p: "0 \<le> p \<and> p \<le> (39 / 50 :: real)" and m: "memory_facts p m"
    then have "100 * (lerp 6500000 15200000 p + lerp 0 3950000 (min 1 (swap_pressure p))) < real_of_int 80 * 20578300"
      by (cases "p \<le> 7 / 20") (simp_all add: lerp_def swap_pressure_def field_simps)
    then show "100 * virtual_used m < 80 * virtual_total" using p by (intro virtual_below [OF m]) auto
  qed auto
next
  assume "broken_since d = None \<and> 0 < ic_fill cfg \<and> (\<exists>s. degraded_since d = Some s \<and> (\<forall>t. T t \<longrightarrow> ic_fill cfg * 60 \<le> t - s))"
  then obtain s where "timed T (\<lambda>p. p = 39 / 50) (two_phase (39 / 50) cfg d)" using two_phase_plateau [of d "39 / 50" cfg _ T] by auto
  then show "timed T (\<lambda>m. worker_m_commit_limit m < worker_m_committed m) (worker_pressure cfg d \<bind> worker_memory)"
  proof (rule worker_memory_run)
    fix p m assume p: "p = (39 / 50 :: real)" and m: "memory_facts p m"
    have "py_trunc (lerp 7000000 16800000 (39 / 50) * (99 / 100)) = 14497560" by (simp add: lerp_def py_trunc_def)
    then show "worker_m_commit_limit m < worker_m_committed m" using m p by (simp add: memory_facts_def)
  qed simp
next
  assume "0 < ic_ramp cfg \<and> (\<exists>s. broken_since d = Some s \<and> (\<forall>t. T t \<longrightarrow> ic_ramp cfg * 60 \<le> t - s))"
  then obtain s where "timed T (\<lambda>p. p = 1) (two_phase (39 / 50) cfg d)" using two_phase_full [of "39 / 50" cfg d _ T] by auto
  then show "timed T (\<lambda>m. 90 * virtual_total \<le> 100 * virtual_used m) (worker_pressure cfg d \<bind> worker_memory)"
    by (rule worker_memory_run) (use virtual_used_full in simp_all)
qed

theorem worker_memory_story_witness:
  "timed (\<lambda>t. 2000 \<le> t) (\<lambda>m. 90 * virtual_total \<le> 100 * virtual_used m)
     (worker_pressure \<lparr>hc_hostname = ''w'', hc_version = ''2'', hc_start = 0, ic_auto_break = 18, ic_fill = 15, ic_ramp = 3\<rparr>
        \<lparr>st = BROKEN, st_since = 1000, degraded_since = Some 100, broken_since = Some 1000\<rparr> \<bind> worker_memory)"
  using worker_memory_story [of "\<lparr>st = BROKEN, st_since = 1000, degraded_since = Some 100, broken_since = Some 1000\<rparr>" "\<lambda>t. 2000 \<le> t"
    "\<lparr>hc_hostname = ''w'', hc_version = ''2'', hc_start = 0, ic_auto_break = 18, ic_fill = 15, ic_ramp = 3\<rparr>"] by simp

section \<open>The broken worker\<close>


end
