(* ===== verification/Host_Mail.thy ===== *)
theory Host_Mail
  imports Host_Story
begin

text \<open>
  \<open>hosts/mail-relay-01/serve.py\<close>, the mail relay whose deferred queue backs up: its counters, the queue
  length that drives the incident, its filesystems and the agent output, section by section.  \<open>sta\<close> is the
  state the handler passes, \<open>d\<close> the incident record the story functions read, \<open>ri\<close> the outcomes of
  \<open>random.randint\<close> in the order of the calls.
\<close>

section \<open>Counters and the deferred queue\<close>

definition mail_counters :: "(string \<times> real \<times> real \<times> real) list" where
  "mail_counters = [
     (''cpu.user'', 0.3, 0.30, 14 * real_of_int 1036800),
     (''cpu.system'', 1.1, 0.30, 7 * real_of_int 1036800),
     (''cpu.idle'', 2.4, 0.30, 176 * real_of_int 1036800),
     (''cpu.iowait'', 3.0, 0.30, 2 * real_of_int 1036800),
     (''kernel.ctxt'', 4.0, 0.30, 1800 * real_of_int 1036800),
     (''kernel.processes'', 4.7, 0.30, 3 * real_of_int 1036800),
     (''kernel.pgmajfault'', 5.4, 0.30, 0.3 * real_of_int 1036800),
     (''sda.rd_ios'', 0.0, 0.30, 4 * real_of_int 1036800),
     (''sda.rd_ticks'', 0.2, 0.30, 3 * real_of_int 1036800),
     (''sda.wr_ios'', 0.4, 0.30, 14 * real_of_int 1036800),
     (''sda.wr_ticks'', 0.6, 0.30, 11 * real_of_int 1036800),
     (''sda.io_ticks'', 0.8, 0.05, 16 * real_of_int 1036800),
     (''net.rx_bytes'', 1.6, 0.30, 90000 * real_of_int 1036800),
     (''net.tx_bytes'', 2.3, 0.30, 70000 * real_of_int 1036800),
     (''net.rx_pkts'', 3.0, 0.30, 310 * real_of_int 1036800),
     (''net.tx_pkts'', 3.7, 0.30, 280 * real_of_int 1036800)]"

definition mail_deferred_count :: "incident_cfg \<Rightarrow> dstate \<Rightarrow> (sim, int) state" where
  "mail_deferred_count cfg d =
     do {
       base \<leftarrow> gauge ''mailq.deferred_base'' 2.0 (Some 1.2) None 0.7 600;
       let base = max 0.0 base;
       ds \<leftarrow> degraded_seconds d;
       let deferred = base;
       let deferred = (if ds > 0 then (let climb = (if ic_fill cfg \<le> 0 then 1.0 else min 1.0 (ds / (ic_fill cfg * 60.0)));
          deferred = lerp base 18.0 climb
      in deferred) else deferred);
       bs \<leftarrow> host_broken_seconds d;
       deferred \<leftarrow> (if bs > 0 then do {
         r4 \<leftarrow> break_ramp cfg d 1.0;
         let deferred = max deferred (18.0 + 0.8 * bs * r4);
         State_Monad.return (deferred) } else State_Monad.return (deferred));
       State_Monad.return (py_round deferred) }"

definition mail_active_count :: "(sim, int) state" where
  "mail_active_count =
     do {
       g5 \<leftarrow> gauge ''mailq.active'' 4.0 (Some 2.0) None 2.1 420;
       State_Monad.return (max 0 (py_round g5)) }"

definition mail_deferred_bytes :: "int \<Rightarrow> (sim, int) state" where
  "mail_deferred_bytes cnt =
     do {
       g6 \<leftarrow> gauge ''mailq.avg_size'' 43000 None (Some 0.05) 1.3 900;
       State_Monad.return (py_trunc (real_of_int cnt * g6)) }"

section \<open>Disk health and filesystems\<close>

definition mail_smart_json :: "string \<Rightarrow> string \<Rightarrow> string \<Rightarrow> int \<Rightarrow> int \<Rightarrow> string" where
  "mail_smart_json nam model serial hours temp =
     (let doc = JObj [(''device'', JObj [(''name'', JStr nam),
         (''type'', JStr ''sat''),
         (''protocol'', JStr ''ATA'')]),
         (''model_name'', JStr model),
         (''serial_number'', JStr serial),
         (''smart_status'', JObj [(''passed'', JBool True)]),
         (''power_on_time'', JObj [(''hours'', JNum hours)]),
         (''temperature'', JObj [(''current'', JNum temp)]),
         (''ata_smart_attributes'', JObj [(''table'', JArr [JObj [(''id'', JNum 5),
         (''name'', JStr ''Reallocated_Sector_Ct''),
         (''value'', JNum 100),
         (''thresh'', JNum 10),
         (''raw'', JObj [(''value'', JNum 0)])],
         JObj [(''id'', JNum 12),
         (''name'', JStr ''Power_Cycle_Count''),
         (''value'', JNum 100),
         (''thresh'', JNum 0),
         (''raw'', JObj [(''value'', JNum 19)])],
         JObj [(''id'', JNum 187),
         (''name'', JStr ''Reported_Uncorrect''),
         (''value'', JNum 100),
         (''thresh'', JNum 0),
         (''raw'', JObj [(''value'', JNum 0)])],
         JObj [(''id'', JNum 197),
         (''name'', JStr ''Current_Pending_Sector''),
         (''value'', JNum 100),
         (''thresh'', JNum 0),
         (''raw'', JObj [(''value'', JNum 0)])],
         JObj [(''id'', JNum 199),
         (''name'', JStr ''UDMA_CRC_Error_Count''),
         (''value'', JNum 200),
         (''thresh'', JNum 0),
         (''raw'', JObj [(''value'', JNum 0)])],
         JObj [(''id'', JNum 177),
         (''name'', JStr ''Wear_Leveling_Count''),
         (''value'', JNum 97),
         (''thresh'', JNum 5),
         (''raw'', JObj [(''value'', JNum 71)])]])])]
      in dumps (doc))"

definition mail_filesystem_usage :: "incident_cfg \<Rightarrow> dstate \<Rightarrow> real \<Rightarrow> (sim, int \<times> int) state" where
  "mail_filesystem_usage cfg d now =
     do {
       let uptime = now - hc_start cfg + real_of_int 1036800;
       let day = 86400.0;
       let root_base = 11534336;
       let root_logs = 1048576 * (real_mod now day / day);
       let root_growth = min 1048576 (uptime * 0.03);
       g7 \<leftarrow> gauge ''fs.root'' 0 (Some 70000) None 0 1500;
       let root_used = py_trunc (real_of_int root_base + root_logs + root_growth + g7);
       let spool_base = 1572864;
       r8 \<leftarrow> mail_deferred_count cfg d;
       let spool_queue = r8 * 42;
       let spool_growth = min 262144 (uptime * 0.05);
       g9 \<leftarrow> gauge ''fs.spool'' 0 (Some 40000) None 0 900;
       let spool_used = py_trunc (real_of_int (spool_base + spool_queue) + spool_growth + g9);
       State_Monad.return ((root_used, spool_used)) }"

section \<open>The agent output\<close>

definition mail_clock :: "incident_cfg \<Rightarrow> string \<Rightarrow> (sim, int \<times> int \<times> bool) state" where
  "mail_clock cfg sta =
     do {
       t10 \<leftarrow> get_time;
       let now = py_trunc t10;
       t11 \<leftarrow> get_time;
       let uptime = py_trunc (t11 - hc_start cfg) + 1036800;
       let broken = sta = ''broken'';
       State_Monad.return ((now, uptime, broken)) }"

definition mail_queue :: "incident_cfg \<Rightarrow> dstate \<Rightarrow> (sim, int \<times> int \<times> int \<times> int) state" where
  "mail_queue cfg d =
     do {
       deferred \<leftarrow> mail_deferred_count cfg d;
       active \<leftarrow> mail_active_count;
       deferred_sz \<leftarrow> mail_deferred_bytes deferred;
       r15 \<leftarrow> mail_deferred_bytes active;
       let active_sz = r15 div 3;
       State_Monad.return ((deferred, active, deferred_sz, active_sz)) }"

record mail_memory_vals =
  mail_m_commit_limit :: "int"
  mail_m_cached :: "int"
  mail_m_buffers :: "int"
  mail_m_mem_free :: "int"
  mail_m_swap_free :: "int"
  mail_m_committed :: "int"
  mail_m_anon :: "int"
  mail_m_mem_available :: "int"
  mail_m_a_anon :: "int"
  mail_m_i_anon :: "int"
  mail_m_a_file :: "int"
  mail_m_i_file :: "int"
  mail_m_slab :: "int"
  mail_m_kernel_stack :: "int"
  mail_m_dirty :: "int"

definition mail_memory :: "(sim, mail_memory_vals) state" where
  "mail_memory =
     do {
       let commit_limit = 2097148 + 8175104 div 2;
       mem_used_t \<leftarrow> gauge ''mem.used'' 1750000 None (Some 0.03) 0.5 1700;
       g17 \<leftarrow> gauge ''mem.cached'' 3900000 None (Some 0.02) 0.4 1500;
       let cached = py_trunc g17;
       g18 \<leftarrow> gauge ''mem.buffers'' 210000 None (Some 0.03) 1.1 1300;
       let buffers = py_trunc g18;
       let caches = cached + buffers + 0 + 196608;
       let mem_free = max 160000 (8175104 - py_trunc mem_used_t - caches);
       let swap_free = 2097148;
       g19 \<leftarrow> gauge ''mem.committed'' 2700000 None (Some 0.01) 1.2 1700;
       let committed = py_trunc g19;
       let anon = max 900000 (8175104 - mem_free - caches - 360000);
       let anon_lru = anon + 24576;
       let file_lru = max 0 (buffers + cached - 24576);
       let mem_available = max mem_free (mem_free + file_lru + 196608);
       let a_anon = py_trunc (real_of_int anon_lru * 0.55);
       let i_anon = anon_lru - a_anon;
       let a_file = py_trunc (real_of_int file_lru * 0.33);
       let i_file = file_lru - a_file;
       let slab = 196608 + 78848;
       g20 \<leftarrow> gauge ''kernel.threads'' 210 (Some 8) None 2.0 1100;
       let threads = py_trunc g20;
       let kernel_stack = threads * 16;
       g21 \<leftarrow> gauge ''mem.dirty'' 6144 None (Some 0.15) 2.0 800;
       let dirty = max 2048 (py_trunc g21);
       State_Monad.return (\<lparr>mail_m_commit_limit = commit_limit,
         mail_m_cached = cached,
         mail_m_buffers = buffers,
         mail_m_mem_free = mem_free,
         mail_m_swap_free = swap_free,
         mail_m_committed = committed,
         mail_m_anon = anon,
         mail_m_mem_available = mem_available,
         mail_m_a_anon = a_anon,
         mail_m_i_anon = i_anon,
         mail_m_a_file = a_file,
         mail_m_i_file = i_file,
         mail_m_slab = slab,
         mail_m_kernel_stack = kernel_stack,
         mail_m_dirty = dirty\<rparr>) }"

definition mail_load :: "(sim, real \<times> real \<times> real \<times> int) state" where
  "mail_load =
     do {
       base_l \<leftarrow> gauge ''load.base'' 0.22 None (Some 0.3) 0.2 600;
       let base_l = max 0.05 base_l;
       g23 \<leftarrow> gauge ''load1'' 1.0 None (Some 0.25) 0.2 300;
       let l1 = round_dec 2 (base_l * g23);
       g24 \<leftarrow> gauge ''load5'' 1.0 None (Some 0.14) 1.0 900;
       let l5 = round_dec 2 (base_l * 0.95 * g24);
       g25 \<leftarrow> gauge ''load15'' 1.0 None (Some 0.07) 2.0 2400;
       let l15 = round_dec 2 (base_l * 0.9 * g25);
       g26 \<leftarrow> gauge ''procs.total'' 188 (Some 6) None 1.4 1500;
       let total_procs = py_round g26;
       State_Monad.return ((l1, l5, l15, total_procs)) }"

definition mail_ticks :: "(sim, int \<times> int \<times> int \<times> int) state" where
  "mail_ticks =
     do {
       user \<leftarrow> fsample ''cpu.user'' 14;
       system \<leftarrow> fsample ''cpu.system'' 7;
       idle \<leftarrow> fsample ''cpu.idle'' 176;
       iowait \<leftarrow> fsample ''cpu.iowait'' 2;
       State_Monad.return ((user, system, idle, iowait)) }"

record mail_disk_vals =
  mail_d_sda_rd :: "int"
  mail_d_sda_rdt :: "int"
  mail_d_sda_wr :: "int"
  mail_d_sda_wrt :: "int"
  mail_d_sda_iot :: "int"

definition mail_disk :: "bool \<Rightarrow> (sim, mail_disk_vals) state" where
  "mail_disk broken =
     do {
       sda_rd \<leftarrow> fsample ''sda.rd_ios'' 4;
       sda_rdt \<leftarrow> fsample ''sda.rd_ticks'' 3;
       sda_wr \<leftarrow> fsample ''sda.wr_ios'' (14 + (if broken then 8 else 0));
       sda_wrt \<leftarrow> fsample ''sda.wr_ticks'' (11 + (if broken then 6 else 0));
       sda_iot \<leftarrow> fsample ''sda.io_ticks'' (16 + (if broken then 10 else 0));
       State_Monad.return (\<lparr>mail_d_sda_rd = sda_rd,
         mail_d_sda_rdt = sda_rdt,
         mail_d_sda_wr = sda_wr,
         mail_d_sda_wrt = sda_wrt,
         mail_d_sda_iot = sda_iot\<rparr>) }"

definition mail_net :: "incident_cfg \<Rightarrow> dstate \<Rightarrow> (sim, int \<times> int \<times> int \<times> int) state" where
  "mail_net cfg d =
     do {
       r36 \<leftarrow> host_broken_seconds d;
       tx_rate \<leftarrow> (if r36 > 0 then do {
         r37 \<leftarrow> break_ramp cfg d 1.0;
         State_Monad.return (lerp 70000 9000 r37) } else State_Monad.return (70000));
       rx_bytes \<leftarrow> fsample ''net.rx_bytes'' 90000;
       tx_bytes \<leftarrow> fsample ''net.tx_bytes'' tx_rate;
       rx_pkts \<leftarrow> fsample ''net.rx_pkts'' 310;
       r42 \<leftarrow> host_broken_seconds d;
       v44 \<leftarrow> (if r42 > 0 then do {
         r43 \<leftarrow> break_ramp cfg d 1.0;
         State_Monad.return (lerp 280 60 r43) } else State_Monad.return (280));
       tx_pkts \<leftarrow> fsample ''net.tx_pkts'' v44;
       State_Monad.return ((rx_bytes, tx_bytes, rx_pkts, tx_pkts)) }"

definition mail_smart :: "int \<Rightarrow> (sim, string) state" where
  "mail_smart uptime =
     do {
       g46 \<leftarrow> gauge ''smart.sda.temp'' 29 (Some 1.2) None 2.1 1100;
       let sda_temp = py_round g46;
       let sda_smart = mail_smart_json ''/dev/sda'' ''INTEL SSDSC2KB240G8'' ''PHYF019300NT240AGN'' (py_trunc (real_of_int uptime / 3600) + 21000) sda_temp;
       State_Monad.return (sda_smart) }"

definition mail_head :: "incident_cfg \<Rightarrow> int \<Rightarrow> string list" where
  "mail_head cfg now =
     (let cert_to = strftime ''%a, %d %b %Y %H:%M:%S +0000'' (gmtime (now + 321 * 86400))
      in [
       ''<<<check_mk>>>'',
       ''Version: '' @ hc_version cfg,
       ''AgentOS: linux'',
       ''Hostname: '' @ hc_hostname cfg,
       ''InstallationDirectory: /opt/checkmk/agent/default'',
       ''PackageDirectory: /opt/checkmk/agent/default/package'',
       ''RuntimeDirectory: /opt/checkmk/agent/default/runtime'',
       ''OSType: linux'',
       ''OSName: Ubuntu'',
       ''OSVersion: 24.04'',
       ''OSPlatform: ubuntu'',
       ''FailedPythonReason: '',
       ''SSHClient: '',
       ''<<<cmk_agent_ctl_status:sep(0)>>>'',
       dumps (JObj [(''version'', JStr (hc_version cfg)),
         (''agent_socket_operational'', JBool True),
         (''ip_allowlist'', JArr []),
         (''allow_legacy_pull'', JBool False),
         (''connections'', JArr [JObj [(''site_id'', JStr ''monitoring/prod''),
         (''receiver_port'', JNum 8000),
         (''uuid'', JStr ''7c3a91e4-5b2d-4f18-a0c6-9e1d4a8b3f57''),
         (''local'', JObj [(''connection_mode'', JStr ''pull-agent''), (''cert_info'', JObj [(''issuer'', JStr (''Site '' @ [CHR 0x27] @ ''prod'' @ [CHR 0x27] @ '' local CA'')),
         (''from'', JStr ''Tue, 03 Jun 2025 09:12:44 +0000''),
         (''to'', JStr cert_to)])]),
         (''remote'', JStr ''remote_query_disabled'')]])]),
       ''<<<checkmk_agent_plugins_lnx:sep(0)>>>'',
       ''pluginsdir /opt/checkmk/agent/default/package/plugins'',
       ''localdir /opt/checkmk/agent/default/package/local'',
       ''/opt/checkmk/agent/default/package/plugins/86400/mk_apt:CMK_VERSION='' @ [CHR 0x22] @ hc_version cfg @ [CHR 0x22],
       ''/opt/checkmk/agent/default/package/plugins/mk_postfix:CMK_VERSION='' @ [CHR 0x22] @ hc_version cfg @ [CHR 0x22]])"

definition mail_df :: "incident_cfg \<Rightarrow> dstate \<Rightarrow> int \<Rightarrow> int \<Rightarrow> (sim, string list) state" where
  "mail_df cfg d deferred active =
     do {
       t47 \<leftarrow> get_time;
       r48 \<leftarrow> mail_filesystem_usage cfg d t47;
       let (root_used, spool_used) = r48;
       let spool_inodes_used = 38000 + deferred + active;
       State_Monad.return ([
       ''<<<df_v2>>>'',
       ''/dev/sda1 ext4 '' @ int_str 41943040 @ '' '' @ int_str root_used @ '' '' @ int_str (41943040 - root_used) @ '' '' @ int_str (py_round (real_of_int root_used / (real_of_int 41943040) * 100)) @ ''% /'',
       ''/dev/sda2 ext4 '' @ int_str 20971520 @ '' '' @ int_str spool_used @ '' '' @ int_str (20971520 - spool_used) @ '' '' @ int_str (py_round (real_of_int spool_used / (real_of_int 20971520) * 100)) @ ''% /var/spool/postfix'',
       ''[df_inodes_start]'',
       ''/dev/sda1 ext4 2621440 248114 '' @ int_str (2621440 - 248114) @ '' 10% /'',
       ''/dev/sda2 ext4 1310720 '' @ int_str spool_inodes_used @ '' '' @ int_str (1310720 - spool_inodes_used) @ '' '' @ int_str (max 1 (py_round (real_of_int spool_inodes_used / 1310720 * 100))) @ ''% /var/spool/postfix'',
       ''[df_inodes_end]'',
       ''<<<mounts>>>'',
       ''/dev/sda1 / ext4 rw,relatime,errors=remount-ro 0 0'',
       ''/dev/sda2 /var/spool/postfix ext4 rw,relatime,noatime 0 0'']) }"

definition mail_mem :: "mail_memory_vals \<Rightarrow> string list" where
  "mail_mem mv =
     [
       ''<<<mem>>>'',
       ''MemTotal:       '' @ int_str 8175104 @ '' kB'',
       ''MemFree:        '' @ int_str (mail_m_mem_free mv) @ '' kB'',
       ''MemAvailable:   '' @ int_str (mail_m_mem_available mv) @ '' kB'',
       ''Buffers:        '' @ int_str (mail_m_buffers mv) @ '' kB'',
       ''Cached:         '' @ int_str (mail_m_cached mv) @ '' kB'',
       ''SwapCached:     '' @ int_str 0 @ '' kB'',
       ''Active:         '' @ int_str (mail_m_a_anon mv + mail_m_a_file mv) @ '' kB'',
       ''Inactive:       '' @ int_str (mail_m_i_anon mv + mail_m_i_file mv) @ '' kB'',
       ''Active(anon):   '' @ int_str (mail_m_a_anon mv) @ '' kB'',
       ''Inactive(anon): '' @ int_str (mail_m_i_anon mv) @ '' kB'',
       ''Active(file):   '' @ int_str (mail_m_a_file mv) @ '' kB'',
       ''Inactive(file): '' @ int_str (mail_m_i_file mv) @ '' kB'',
       ''Unevictable:    0 kB'',
       ''Mlocked:        0 kB'',
       ''SwapTotal:      '' @ int_str 2097148 @ '' kB'',
       ''SwapFree:       '' @ int_str (mail_m_swap_free mv) @ '' kB'',
       ''Zswap:          0 kB'',
       ''Zswapped:       0 kB'',
       ''Dirty:          '' @ int_str (mail_m_dirty mv) @ '' kB'',
       ''Writeback:      0 kB'',
       ''AnonPages:      '' @ int_str (mail_m_anon mv) @ '' kB'',
       ''Mapped:         168320 kB'',
       ''Shmem:          '' @ int_str 24576 @ '' kB'',
       ''KReclaimable:   '' @ int_str 196608 @ '' kB'',
       ''Slab:           '' @ int_str (mail_m_slab mv) @ '' kB'',
       ''SReclaimable:   '' @ int_str 196608 @ '' kB'',
       ''SUnreclaim:     78848 kB'',
       ''KernelStack:    '' @ int_str (mail_m_kernel_stack mv) @ '' kB'',
       ''PageTables:     32768 kB'',
       ''SecPageTables:  0 kB'',
       ''NFS_Unstable:   0 kB'',
       ''Bounce:         0 kB'',
       ''WritebackTmp:   0 kB'',
       ''CommitLimit:    '' @ int_str (mail_m_commit_limit mv) @ '' kB'',
       ''Committed_AS:   '' @ int_str (mail_m_committed mv) @ '' kB'',
       ''VmallocTotal:   34359738367 kB'',
       ''VmallocUsed:    38912 kB'',
       ''VmallocChunk:   0 kB'',
       ''Percpu:         8192 kB'',
       ''HardwareCorrupted: 0 kB'',
       ''AnonHugePages:  0 kB'',
       ''ShmemHugePages: 0 kB'',
       ''ShmemPmdMapped: 0 kB'',
       ''FileHugePages:  0 kB'',
       ''FilePmdMapped:  0 kB'',
       ''CmaTotal:       0 kB'',
       ''CmaFree:        0 kB'',
       ''Unaccepted:     0 kB'',
       ''Balloon:        0 kB'',
       ''HugePages_Total:       0'',
       ''HugePages_Free:        0'',
       ''HugePages_Rsvd:        0'',
       ''HugePages_Surp:        0'',
       ''Hugepagesize:       2048 kB'',
       ''Hugetlb:        0 kB'',
       ''DirectMap4k:    178176 kB'',
       ''DirectMap2M:    4016128 kB'',
       ''DirectMap1G:    4194304 kB'']"

definition mail_cpu :: "int \<Rightarrow> real \<Rightarrow> real \<Rightarrow> real \<Rightarrow> int \<Rightarrow> (sim, string list) state" where
  "mail_cpu uptime l1 l5 l15 total_procs =
     do {
       c49 \<leftarrow> fsample ''kernel.processes'' 3;
       State_Monad.return ([
       ''<<<cpu>>>'',
       float_str 2 l1 @ '' '' @ float_str 2 l5 @ '' '' @ float_str 2 l15 @ '' '' @ int_str 1 @ ''/'' @ int_str total_procs @ '' '' @ int_str (18000 + c49 mod 9999) @ '' '' @ int_str 2,
       ''<<<uptime>>>'',
       int_str uptime @ ''.00 '' @ int_str (py_trunc (real_of_int uptime * 1.8)) @ ''.00'']) }"

definition mail_timesync :: "incident_cfg \<Rightarrow> (nat \<Rightarrow> int) \<Rightarrow> int \<Rightarrow> (sim, string list) state" where
  "mail_timesync cfg ri now =
     do {
       let last_sync = now - py_trunc (real_mod (real_of_int now - hc_start cfg) 2048);
       let sync_str = strftime ''%a %Y-%m-%d %H:%M:%S UTC'' (gmtime last_sync);
       let offset_us = (ri 0);
       t50 \<leftarrow> get_time;
       State_Monad.return ([
       ''<<<timesyncd>>>'',
       ''       Server: 185.125.190.56 (ntp.ubuntu.com)'',
       ''Poll interval: 34min 8s (min: 32s; max 34min 8s)'',
       ''         Leap: normal'',
       ''      Version: 4'',
       ''      Stratum: 2'',
       ''    Reference: B97D5A38'',
       ''    Precision: 1us (-25)'',
       ''Root distance: 11.402ms (max: 5s)'',
       ''       Offset: '' @ signed_str offset_us @ ''us'',
       ''        Delay: 18.221ms'',
       ''       Jitter: '' @ fixed_str 3 (real_of_int (ri 1) / 1000) @ ''ms'',
       '' Packet count: '' @ int_str (610 + py_trunc ((t50 - hc_start cfg) / 2048)),
       ''    Frequency: +7.842ppm'',
       ''[[['' @ int_str last_sync @ '']]]'',
       ''<<<timesyncd_ntpmessage:sep(10)>>>'',
       ''NTPMessage={ Leap=0, Version=4, Mode=4, Stratum=2, Precision=-25, RootDelay=9.323ms, RootDispersion=1.221ms, Reference=B97D5A38, OriginateTimestamp='' @ sync_str @ '', ReceiveTimestamp='' @ sync_str @ '', TransmitTimestamp='' @ sync_str @ '', DestinationTimestamp='' @ sync_str @ '', Ignored=no, PacketCount=58, Jitter=1.118ms }'',
       ''Timezone=UTC'']) }"

definition mail_apt :: "string list" where
  "mail_apt =
     [
       ''<<<apt:sep(0)>>>'',
       ''No updates pending for installation'']"

definition mail_kernel :: "int \<Rightarrow> int \<Rightarrow> int \<Rightarrow> int \<Rightarrow> int \<Rightarrow> (sim, string list) state" where
  "mail_kernel now user system idle iowait =
     do {
       c51 \<leftarrow> fsample ''kernel.ctxt'' 1800;
       c52 \<leftarrow> fsample ''kernel.processes'' 3;
       c53 \<leftarrow> fsample ''kernel.pgmajfault'' 0.3;
       State_Monad.return ([
       ''<<<kernel>>>'',
       int_str now,
       ''cpu '' @ int_str user @ '' 0 '' @ int_str system @ '' '' @ int_str idle @ '' '' @ int_str iowait @ '' 0 0 0 0 0'',
       ''ctxt '' @ int_str c51,
       ''processes '' @ int_str c52,
       ''pgmajfault '' @ int_str c53]) }"

definition mail_diskstat :: "int \<Rightarrow> mail_disk_vals \<Rightarrow> string list" where
  "mail_diskstat now dv =
     [
       ''<<<diskstat>>>'',
       int_str now,
       ''8 0 sda '' @ int_str (mail_d_sda_rd dv) @ '' 0 '' @ int_str (mail_d_sda_rd dv * 24) @ '' '' @ int_str (mail_d_sda_rdt dv) @ '' '' @ int_str (mail_d_sda_wr dv) @ '' 0 '' @ int_str (mail_d_sda_wr dv * 40) @ '' '' @ int_str (mail_d_sda_wrt dv) @ '' 0 '' @ int_str (mail_d_sda_iot dv) @ '' '' @ int_str (mail_d_sda_iot dv * 2) @ '' 0 0 0 0'']"

definition mail_if :: "int \<Rightarrow> int \<Rightarrow> int \<Rightarrow> int \<Rightarrow> string list" where
  "mail_if rx_bytes tx_bytes rx_pkts tx_pkts =
     [
       ''<<<lnx_if>>>'',
       ''[start_iplink]'',
       ''1: lo: <LOOPBACK,UP,LOWER_UP> mtu 65536 qdisc noqueue state UNKNOWN group default qlen 1000'',
       ''    link/loopback 00:00:00:00:00:00 brd 00:00:00:00:00:00'',
       ''2: eth0: <BROADCAST,MULTICAST,UP,LOWER_UP> mtu 1500 qdisc fq_codel state UP group default qlen 1000'',
       ''    link/ether 02:42:ac:11:00:34 brd ff:ff:ff:ff:ff:ff'',
       ''[end_iplink]'',
       ''<<<lnx_if:sep(58)>>>'',
       ''eth0: '' @ int_str rx_bytes @ '' '' @ int_str rx_pkts @ '' 0 0 0 0 0 0 '' @ int_str tx_bytes @ '' '' @ int_str tx_pkts @ '' 0 0 0 0 0 0'',
       ''[eth0]'',
       TAB @ ''Speed: 1000Mb/s'',
       TAB @ ''Duplex: Full'',
       TAB @ ''Auto-negotiation: on'',
       TAB @ ''Link detected: yes'',
       ''Address: 02:42:ac:11:00:34'']"

definition mail_tcp :: "bool \<Rightarrow> (sim, string list) state" where
  "mail_tcp broken =
     do {
       g54 \<leftarrow> gauge ''tcp.estab'' 14 (Some 4) None 0.9 700;
       g55 \<leftarrow> gauge ''tcp.synsent'' 0 (Some 1) None 1.5 400;
       let synsent = py_round g55;
       g56 \<leftarrow> gauge ''tcp.timewait'' 7 (Some 3) None 2.4 500;
       State_Monad.return ([
       ''<<<tcp_conn_stats>>>'',
       ''01 '' @ int_str (py_round g54),
       ''02 '' @ int_str (synsent + (if broken then 3 else 0)),
       ''06 '' @ int_str (py_round g56),
       ''0A 3'']) }"

definition mail_smart_section :: "string \<Rightarrow> string list" where
  "mail_smart_section sda_smart =
     [
       ''<<<smart_posix_all:sep(0)>>>'',
       sda_smart]"

definition mail_postfix :: "int \<Rightarrow> int \<Rightarrow> int \<Rightarrow> int \<Rightarrow> string list" where
  "mail_postfix deferred active deferred_sz active_sz =
     [
       ''<<<postfix_mailq>>>'',
       ''[[[default]]]'',
       ''QUEUE_deferred '' @ int_str deferred_sz @ '' '' @ int_str deferred,
       ''QUEUE_active '' @ int_str active_sz @ '' '' @ int_str active,
       ''<<<postfix_mailq_status:sep(58)>>>'',
       ''default:the Postfix mail system is running:PID:'' @ int_str 712]"

definition mail_ps :: "dstate \<Rightarrow> int \<Rightarrow> bool \<Rightarrow> (sim, string list) state" where
  "mail_ps d now broken =
     do {
       let procs = [
       (''init.scope'', ''root'', 167800, 11900, ''00:00:24'', 1, ''/sbin/init''),
       (''system.slice/systemd-journald.service'', ''root'', 56100, 16800, ''00:00:58'', 398, ''/usr/lib/systemd/systemd-journald''),
       (''system.slice/systemd-udevd.service'', ''root'', 25300, 7100, ''00:00:02'', 431, ''/usr/lib/systemd/systemd-udevd''),
       (''system.slice/systemd-resolved.service'', ''systemd-resolve'', 26400, 12700, ''00:00:31'', 472, ''/usr/lib/systemd/systemd-resolved''),
       (''system.slice/systemd-timesyncd.service'', ''systemd-timesync'', 90900, 7300, ''00:00:08'', 486, ''/usr/lib/systemd/systemd-timesyncd''),
       (''system.slice/dbus.service'', ''messagebus'', 9900, 4900, ''00:00:12'', 498, ''@dbus-daemon --system --address=systemd:''),
       (''system.slice/rsyslog.service'', ''syslog'', 221800, 6300, ''00:00:27'', 561, ''/usr/sbin/rsyslogd -n -iNONE''),
       (''system.slice/ssh.service'', ''root'', 15400, 8800, ''00:00:01'', 640, ''sshd: /usr/sbin/sshd -D [listener]''),
       (''system.slice/cron.service'', ''root'', 11500, 2400, ''00:00:02'', 655, ''/usr/sbin/cron -f -P''),
       (''system.slice/postfix@-.service'', ''root'', 44800, 6200, ''00:00:46'', 712, ''/usr/lib/postfix/sbin/master -w''),
       (''system.slice/postfix@-.service'', ''postfix'', 45100, 6600, ''00:00:33'', 712 + 4, ''qmgr -l -t unix -u''),
       (''system.slice/postfix@-.service'', ''postfix'', 44600, 5400, ''00:00:11'', 712 + 5, ''pickup -l -t unix -u''),
       (''system.slice/postfix@-.service'', ''postfix'', 45300, 6800, ''00:00:19'', 712 + 6, ''tlsmgr -l -t unix -u'')];
       v58 \<leftarrow> (if broken then State_Monad.return (4) else do {
         r57 \<leftarrow> degraded_seconds d;
         State_Monad.return ((if r57 > 0 then 2 else 0)) });
       let n_smtp = 1 + v58;
       State_Monad.return ([
       ''<<<ps_lnx>>>'',
       ''[time]'',
       int_str now,
       ''[processes]'',
       ''[header] CGROUP USER VSZ RSS TIME ELAPSED PID COMMAND''] @
      concat (map (\<lambda>(cgs, usr, vsz, rss, cputime, pid, cmd). [
       ''0::/'' @ cgs @ '' '' @ usr @ '' '' @ int_str vsz @ '' '' @ int_str rss @ '' '' @ cputime @ '' 12-00:31:40 '' @ int_str pid @ '' '' @ cmd]) procs) @
      concat (map (\<lambda>i. [
       ''0::/system.slice/postfix@-.service postfix 45200 6700 00:00:0'' @ int_str ((int i) mod 9) @ '' 0-00:0'' @ nat_str i @ '':1'' @ nat_str i @ '' '' @ int_str (712 + 20 + int i) @ '' smtp -t unix -u'']) ([0..<nat n_smtp]))) }"

definition mail_units :: "string list" where
  "mail_units =
     (let units = [
       (''postfix@-.service'', ''active'', ''running'', ''Postfix Mail Transport Agent (instance -)''),
       (''postfix.service'', ''active'', ''exited'', ''Postfix Mail Transport Agent''),
       (''ssh.service'', ''active'', ''running'', ''OpenBSD Secure Shell server''),
       (''cron.service'', ''active'', ''running'', ''Regular background program processing daemon''),
       (''dbus.service'', ''active'', ''running'', ''D-Bus System Message Bus''),
       (''getty@tty1.service'', ''active'', ''running'', ''Getty on tty1''),
       (''irqbalance.service'', ''active'', ''running'', ''irqbalance daemon''),
       (''multipathd.service'', ''active'', ''running'', ''Device-Mapper Multipath Device Controller''),
       (''networkd-dispatcher.service'', ''active'', ''running'', ''Dispatcher daemon for systemd-networkd''),
       (''polkit.service'', ''active'', ''running'', ''Authorization Manager''),
       (''rsyslog.service'', ''active'', ''running'', ''System Logging Service''),
       (''snapd.service'', ''active'', ''running'', ''Snap Daemon''),
       (''systemd-journald.service'', ''active'', ''running'', ''Journal Service''),
       (''systemd-logind.service'', ''active'', ''running'', ''User Login Management''),
       (''systemd-networkd.service'', ''active'', ''running'', ''Network Configuration''),
       (''systemd-resolved.service'', ''active'', ''running'', ''Network Name Resolution''),
       (''systemd-timesyncd.service'', ''active'', ''running'', ''Network Time Synchronization''),
       (''systemd-udevd.service'', ''active'', ''running'', ''Rule-based Manager for Device Events and Files''),
       (''udisks2.service'', ''active'', ''running'', ''Disk Manager''),
       (''unattended-upgrades.service'', ''active'', ''running'', ''Unattended Upgrades Shutdown''),
       (''user@1000.service'', ''active'', ''running'', ''User Manager for UID 1000''),
       (''apparmor.service'', ''active'', ''exited'', ''Load AppArmor profiles''),
       (''blk-availability.service'', ''active'', ''exited'', ''Availability of block devices''),
       (''console-setup.service'', ''active'', ''exited'', ''Set console font and keymap''),
       (''finalrd.service'', ''active'', ''exited'', ''Create final runtime dir for shutdown pivot root''),
       (''keyboard-setup.service'', ''active'', ''exited'', ''Set the console keyboard layout''),
       (''lvm2-monitor.service'', ''active'', ''exited'', ''Monitoring of LVM2 mirrors, snapshots etc. using dmeventd or progress polling''),
       (''setvtrgb.service'', ''active'', ''exited'', ''Set console scheme''),
       (''snapd.seeded.service'', ''active'', ''exited'', ''Wait until snapd is fully seeded''),
       (''systemd-user-sessions.service'', ''active'', ''exited'', ''Permit User Sessions'')]
      in [
       ''<<<systemd_units>>>'',
       ''[list-unit-files]''] @
      concat (map (\<lambda>(nam, _, _, _). [
       nam @ '' enabled enabled'']) units) @
      [
       ''[status]'',
       ''[all]''] @
      concat (map (\<lambda>(nam, act, sub, descr). [
       nam @ '' loaded '' @ act @ '' '' @ sub @ '' '' @ descr]) units))"

definition mail_job :: "int \<Rightarrow> string list" where
  "mail_job now =
     [
       ''<<<job>>>'',
       ''==> postfix-queue-report <=='',
       ''start_time '' @ int_str (now - 7 * 3600),
       ''exit_code 0'',
       ''real_time 0:21.4'',
       ''user_time 0.40'',
       ''system_time 0.18'',
       ''max_res_kbytes 24000'',
       ''avg_mem_kbytes 0'']"

text \<open>The payload: the sections in order, one line each.\<close>

definition mail_build :: "incident_cfg \<Rightarrow> string \<Rightarrow> (nat \<Rightarrow> int) \<Rightarrow> dstate \<Rightarrow> (sim, string) state" where
  "mail_build cfg sta ri d = do {
       (now, uptime, broken) \<leftarrow> mail_clock cfg sta;
       (deferred, active, deferred_sz, active_sz) \<leftarrow> mail_queue cfg d;
       mv \<leftarrow> mail_memory;
       (l1, l5, l15, total_procs) \<leftarrow> mail_load;
       (user, system, idle, iowait) \<leftarrow> mail_ticks;
       dv \<leftarrow> mail_disk broken;
       (rx_bytes, tx_bytes, rx_pkts, tx_pkts) \<leftarrow> mail_net cfg d;
       sda_smart \<leftarrow> mail_smart uptime;
       let l_head = mail_head cfg now;
       l_df \<leftarrow> mail_df cfg d deferred active;
       let l_mem = mail_mem mv;
       l_cpu \<leftarrow> mail_cpu uptime l1 l5 l15 total_procs;
       l_timesync \<leftarrow> mail_timesync cfg ri now;
       let l_apt = mail_apt;
       l_kernel \<leftarrow> mail_kernel now user system idle iowait;
       let l_diskstat = mail_diskstat now dv;
       let l_if = mail_if rx_bytes tx_bytes rx_pkts tx_pkts;
       l_tcp \<leftarrow> mail_tcp broken;
       let l_smart_section = mail_smart_section sda_smart;
       let l_postfix = mail_postfix deferred active deferred_sz active_sz;
       l_ps \<leftarrow> mail_ps d now broken;
       let l_units = mail_units;
       let l_job = mail_job now;
       State_Monad.return (concat (map (\<lambda>l. l @ [CHR 0x0A])
         (l_head @ l_df @ l_mem @ l_cpu @ l_timesync @ l_apt @ l_kernel @ l_diskstat @ l_if @ l_tcp @ l_smart_section @ l_postfix @ l_ps @ l_units @ l_job))) }"

text \<open>The model ends here.  The story the queue tells, against the default levels of the deferred queue
  (warning at 10, critical at 20 mails).\<close>

section \<open>The queue story\<close>

lemma py_round_range: "real_of_int a - 1 / 2 < x \<Longrightarrow> x < real_of_int b + 1 / 2 \<Longrightarrow> a \<le> py_round x \<and> py_round x \<le> b"
  using py_round_bounds [of x] by linarith

text \<open>The queue length once the base and the climb are known.\<close>

lemma mail_deferred_growth:
  assumes calm: "broken_since d = None \<or> (\<exists>s t. broken_since d = Some s \<and> T t \<and> t \<le> s) \<Longrightarrow> P (py_round x)"
    and ramp: "timed T R (break_ramp cfg d 1)"
    and grow: "\<And>s t r. broken_since d = Some s \<Longrightarrow> T t \<Longrightarrow> s < t \<Longrightarrow> R r \<Longrightarrow> P (py_round (max x (18 + 4 / 5 * (t - s) * r)))"
  shows "timed T P (host_broken_seconds d \<bind> (\<lambda>bs. (if 0 < bs then break_ramp cfg d 1 \<bind>
       (\<lambda>r. State_Monad.return (max x (18 + 4 / 5 * bs * r))) else State_Monad.return x)
     \<bind> (\<lambda>deferred. State_Monad.return (py_round deferred))))"
proof (rule timed_broken_bind)
  assume "broken_since d = None"
  then have "P (py_round x)" using calm by simp
  then show "timed T P ((if 0 < (0 :: real) then break_ramp cfg d 1 \<bind> (\<lambda>r. State_Monad.return (max x (18 + 4 / 5 * 0 * r)))
       else State_Monad.return x) \<bind> (\<lambda>deferred. State_Monad.return (py_round deferred)))"
    by (auto intro!: timed_bind [OF timed_return [of "\<lambda>y. y = x"]] timed_return)
next
  fix s t assume s: "broken_since d = Some s" "T t"
  show "timed T P ((if 0 < t - s then break_ramp cfg d 1 \<bind> (\<lambda>r. State_Monad.return (max x (18 + 4 / 5 * (t - s) * r)))
       else State_Monad.return x) \<bind> (\<lambda>deferred. State_Monad.return (py_round deferred)))"
  proof (rule timed_bind [where Q = "\<lambda>y. P (py_round y)"], rule timed_if)
    assume "0 < t - s"
    then show "timed T (\<lambda>y. P (py_round y)) (break_ramp cfg d 1 \<bind> (\<lambda>r. State_Monad.return (max x (18 + 4 / 5 * (t - s) * r))))"
      using grow [OF s] by (intro timed_bind [OF ramp] timed_return) simp
  next
    assume "\<not> 0 < t - s"
    then show "timed T (\<lambda>y. P (py_round y)) (State_Monad.return x)" using calm s by (intro timed_return) force
  qed (rule timed_return)
qed

lemma mail_deferred_run:
  assumes calm: "\<And>base c. 4 / 5 \<le> base \<Longrightarrow> base \<le> 16 / 5 \<Longrightarrow> 0 \<le> c \<Longrightarrow> c \<le> 1 \<Longrightarrow> (degraded_since d = None \<Longrightarrow> c = 0) \<Longrightarrow>
      (broken_since d = None \<or> (\<exists>s t. broken_since d = Some s \<and> T t \<and> t \<le> s)) \<Longrightarrow> P (py_round (lerp base 18 c))"
    and ramp: "timed T R (break_ramp cfg d 1)"
    and grow: "\<And>x s t r. broken_since d = Some s \<Longrightarrow> T t \<Longrightarrow> s < t \<Longrightarrow> R r \<Longrightarrow> P (py_round (max x (18 + 4 / 5 * (t - s) * r)))"
  shows "timed T P (mail_deferred_count cfg d)"
proof -
  have e: "(2.0 :: real) = 2" "(0.0 :: real) = 0" "(1.0 :: real) = 1" "(60.0 :: real) = 60" "(18.0 :: real) = 18" "(0.8 :: real) = 4 / 5" by simp_all
  have base: "timed T (\<lambda>v. 4 / 5 \<le> max 0 v \<and> max 0 v \<le> 16 / 5) (gauge ''mailq.deferred_base'' 2 (Some 1.2) None 0.7 600)"
    by (rule timed_gauge_abs) simp_all
  have climb: "(if ds > 0 then lerp b 18 (if ic_fill cfg \<le> 0 then 1 else min 1 (ds / (ic_fill cfg * 60))) else b)
      = lerp b 18 (if ds > 0 then (if ic_fill cfg \<le> 0 then 1 else min 1 (ds / (ic_fill cfg * 60))) else 0)" for ds b
    by (simp add: lerp_def)
  show ?thesis
    unfolding mail_deferred_count_def Let_def e climb
  proof (rule timed_bind [OF base], rule timed_bind [where Q = "\<lambda>ds. degraded_since d = None \<longrightarrow> ds = 0"],
      rule timed_degraded, simp, simp, rule mail_deferred_growth [OF _ ramp])
    fix v ds :: real assume v: "4 / 5 \<le> max 0 v \<and> max 0 v \<le> 16 / 5" and ds: "degraded_since d = None \<longrightarrow> ds = 0"
      and b: "broken_since d = None \<or> (\<exists>s t. broken_since d = Some s \<and> T t \<and> t \<le> s)"
    let ?c = "if ds > 0 then (if ic_fill cfg \<le> 0 then 1 else min 1 (ds / (ic_fill cfg * 60))) else 0"
    show "P (py_round (lerp (max 0 v) 18 ?c))" by (rule calm) (use v ds b in simp_all)
  qed (erule (3) grow)
qed

text \<open>C32. The deferred queue of the mail relay, for every configuration, clock and noise: one to three mails while
  it is healthy, never twenty before the break, and from the end of the break ramp on at least 0.8 mails for each
  second since the break on top of the plateau.\<close>

theorem mail_queue_story:
  "(degraded_since d = None \<and> broken_since d = None \<longrightarrow> timed T (\<lambda>n. 1 \<le> n \<and> n \<le> 3) (mail_deferred_count cfg d))
   \<and> (broken_since d = None \<longrightarrow> timed T (\<lambda>n. 1 \<le> n \<and> n \<le> 18) (mail_deferred_count cfg d))
   \<and> (0 < ic_ramp cfg \<and> 0 < age \<and> (\<exists>s. broken_since d = Some s \<and> (\<forall>t. T t \<longrightarrow> ic_ramp cfg * 60 \<le> t - s \<and> age \<le> t - s)) \<longrightarrow>
      timed T (\<lambda>n. 35 / 2 + 4 / 5 * age \<le> n) (mail_deferred_count cfg d))"
proof (intro conjI impI)
  assume "degraded_since d = None \<and> broken_since d = None"
  then show "timed T (\<lambda>n. 1 \<le> n \<and> n \<le> 3) (mail_deferred_count cfg d)"
    by (intro mail_deferred_run [where R = "\<lambda>_. True"] timed_break_ramp_unit py_round_range) (simp_all add: lerp_def)
next
  assume b: "broken_since d = None"
  show "timed T (\<lambda>n. 1 \<le> n \<and> n \<le> 18) (mail_deferred_count cfg d)"
  proof (intro mail_deferred_run [where R = "\<lambda>_. True"] timed_break_ramp_unit py_round_range)
    fix base c :: real assume h: "4 / 5 \<le> base" "base \<le> 16 / 5" "0 \<le> c" "c \<le> 1"
    then have "0 \<le> c * (18 - base)" "c * (18 - base) \<le> 1 * (18 - base)" by (auto intro: mult_nonneg_nonneg mult_right_mono)
    with h show "real_of_int 1 - 1 / 2 < lerp base 18 c" "lerp base 18 c < real_of_int 18 + 1 / 2" by (simp_all add: lerp_def algebra_simps)
  qed (simp_all add: b)
next
  assume h: "0 < ic_ramp cfg \<and> 0 < age \<and> (\<exists>s. broken_since d = Some s \<and> (\<forall>t. T t \<longrightarrow> ic_ramp cfg * 60 \<le> t - s \<and> age \<le> t - s))"
  then obtain s where s: "broken_since d = Some s" "\<And>t. T t \<Longrightarrow> ic_ramp cfg * 60 \<le> t - s" "\<And>t. T t \<Longrightarrow> age \<le> t - s" by auto
  show "timed T (\<lambda>n. 35 / 2 + 4 / 5 * age \<le> n) (mail_deferred_count cfg d)"
  proof (rule mail_deferred_run [where R = "\<lambda>r. r = 1"])
    show "timed T (\<lambda>r. r = 1) (break_ramp cfg d 1)" by (rule timed_break_ramp_full) (use h s in simp_all)
    fix x s' t r assume b: "broken_since d = Some s'" "T t" "s' < t" "r = (1 :: real)"
    let ?y = "max x (18 + 4 / 5 * (t - s') * r)"
    have "18 + 4 / 5 * age \<le> 18 + 4 / 5 * (t - s') * r" using b s(1) s(3) [of t] by simp
    also have "... \<le> ?y" by simp
    finally have "18 + 4 / 5 * age \<le> ?y" .
    then show "35 / 2 + 4 / 5 * age \<le> py_round ?y" using py_round_bounds [of ?y] by linarith
  next
    fix base c :: real assume "broken_since d = None \<or> (\<exists>s t. broken_since d = Some s \<and> T t \<and> t \<le> s)"
    then have False using s h by force
    then show "35 / 2 + 4 / 5 * age \<le> py_round (lerp base 18 c)" ..
  qed
qed

theorem mail_queue_story_witness:
  "timed (\<lambda>t. 2000 \<le> t) (\<lambda>n. 35 / 2 + 4 / 5 * 1000 \<le> n)
     (mail_deferred_count \<lparr>hc_hostname = ''m'', hc_version = ''2'', hc_start = 0, ic_auto_break = 18, ic_fill = 15, ic_ramp = 3\<rparr>
        \<lparr>st = BROKEN, st_since = 1000, degraded_since = Some 100, broken_since = Some 1000\<rparr>)"
  using mail_queue_story [of "\<lparr>st = BROKEN, st_since = 1000, degraded_since = Some 100, broken_since = Some 1000\<rparr>" "\<lambda>t. 2000 \<le> t"
    "\<lparr>hc_hostname = ''m'', hc_version = ''2'', hc_start = 0, ic_auto_break = 18, ic_fill = 15, ic_ramp = 3\<rparr>" 1000] by simp

end
