(* ===== verification/Host_Files.thy ===== *)
theory Host_Files
  imports Host_Story
begin

text \<open>
  \<open>hosts/fileserver-01/serve.py\<close>, the file server whose data volume fills: its counters, the pressure that
  drives the incident, its filesystems and the agent output, section by section.  \<open>sta\<close> is the state the
  handler passes, \<open>d\<close> the incident record the story functions read, \<open>ri\<close> the outcomes of
  \<open>random.randint\<close> in the order of the calls.
\<close>

section \<open>Counters and the driver of the incident\<close>

definition files_counters :: "(string \<times> real \<times> real \<times> real) list" where
  "files_counters = [
     (''cpu.user'', 0.3, 0.30, 28 * real_of_int 1036800),
     (''cpu.system'', 1.1, 0.30, 34 * real_of_int 1036800),
     (''cpu.idle'', 2.4, 0.30, 330 * real_of_int 1036800),
     (''cpu.iowait'', 3.0, 0.30, 8 * real_of_int 1036800),
     (''kernel.ctxt'', 4.0, 0.30, 2600 * real_of_int 1036800),
     (''kernel.processes'', 4.7, 0.30, 4 * real_of_int 1036800),
     (''kernel.pgmajfault'', 5.4, 0.30, 0.4 * real_of_int 1036800),
     (''sda.rd_ios'', 0.0, 0.30, 5 * real_of_int 1036800),
     (''sda.rd_ticks'', 0.2, 0.30, 3 * real_of_int 1036800),
     (''sda.wr_ios'', 0.4, 0.30, 14 * real_of_int 1036800),
     (''sda.wr_ticks'', 0.6, 0.30, 11 * real_of_int 1036800),
     (''sda.io_ticks'', 0.8, 0.05, 16 * real_of_int 1036800),
     (''sdb.rd_ios'', 1.0, 0.30, 40 * real_of_int 1036800),
     (''sdb.rd_ticks'', 1.2, 0.30, 180 * real_of_int 1036800),
     (''sdb.wr_ios'', 1.4, 0.30, 55 * real_of_int 1036800),
     (''sdb.wr_ticks'', 1.6, 0.30, 240 * real_of_int 1036800),
     (''sdb.io_ticks'', 1.8, 0.05, 120 * real_of_int 1036800),
     (''net.rx_bytes'', 1.6, 0.30, 420000 * real_of_int 1036800),
     (''net.tx_bytes'', 2.3, 0.30, 680000 * real_of_int 1036800),
     (''net.rx_pkts'', 3.0, 0.30, 1100 * real_of_int 1036800),
     (''net.tx_pkts'', 3.7, 0.30, 1300 * real_of_int 1036800)]"

definition files_pressure :: "incident_cfg \<Rightarrow> dstate \<Rightarrow> (sim, real) state" where
  "files_pressure cfg d =
     do {
       ds \<leftarrow> degraded_seconds d;
       let deg = (if ds \<le> 0 then 0.0 else (if ic_fill cfg \<le> 0 then 1.0 else min 1.0 (ds / (ic_fill cfg * 60.0))));
       let p = 0.74 * deg;
       r2 \<leftarrow> host_broken_seconds d;
       p \<leftarrow> (if r2 > 0 then do {
         r3 \<leftarrow> break_ramp cfg d 1.0;
         let p = max p (0.74 + 0.26 * r3);
         State_Monad.return (p) } else State_Monad.return (p));
       State_Monad.return (max 0.0 (min 1.0 p)) }"

section \<open>Disk health and filesystems\<close>

definition files_smart_json :: "string \<Rightarrow> string \<Rightarrow> string \<Rightarrow> int \<Rightarrow> int \<Rightarrow> string" where
  "files_smart_json nam model serial hours temp =
     (let doc = JObj [(''device'', JObj [(''name'', JStr nam),
         (''type'', JStr ''sat''),
         (''protocol'', JStr ''ATA'')]),
         (''model_name'', JStr model),
         (''serial_number'', JStr serial),
         (''smart_status'', JObj [(''passed'', JBool True)]),
         (''power_on_time'', JObj [(''hours'', JNum hours)]),
         (''temperature'', JObj [(''current'', JNum temp)]),
         (''ata_smart_attributes'', JObj [(''table'', JArr [JObj [(''id'', JNum 5),
         (''name'', JStr ''Reallocated_Sector_Ct''),
         (''value'', JNum 100),
         (''thresh'', JNum 10),
         (''raw'', JObj [(''value'', JNum 0)])],
         JObj [(''id'', JNum 12),
         (''name'', JStr ''Power_Cycle_Count''),
         (''value'', JNum 100),
         (''thresh'', JNum 0),
         (''raw'', JObj [(''value'', JNum 17)])],
         JObj [(''id'', JNum 187),
         (''name'', JStr ''Reported_Uncorrect''),
         (''value'', JNum 100),
         (''thresh'', JNum 0),
         (''raw'', JObj [(''value'', JNum 0)])],
         JObj [(''id'', JNum 197),
         (''name'', JStr ''Current_Pending_Sector''),
         (''value'', JNum 100),
         (''thresh'', JNum 0),
         (''raw'', JObj [(''value'', JNum 0)])],
         JObj [(''id'', JNum 199),
         (''name'', JStr ''UDMA_CRC_Error_Count''),
         (''value'', JNum 200),
         (''thresh'', JNum 0),
         (''raw'', JObj [(''value'', JNum 0)])],
         JObj [(''id'', JNum 177),
         (''name'', JStr ''Wear_Leveling_Count''),
         (''value'', JNum 97),
         (''thresh'', JNum 5),
         (''raw'', JObj [(''value'', JNum 71)])]])])]
      in dumps (doc))"

definition srv_used_kb :: "incident_cfg \<Rightarrow> dstate \<Rightarrow> real \<Rightarrow> (sim, int) state" where
  "srv_used_kb cfg d now =
     do {
       p \<leftarrow> files_pressure cfg d;
       let uptime = now - hc_start cfg + real_of_int 1036800;
       let base_frac = 0.55;
       let quiet = max 0.0 (1.0 - p / 0.3);
       let secular = min 0.012 (uptime * 0.00000001);
       let sawtooth = 0.01 * (1.0 - real_mod now 1800.0 / 1800.0) * quiet;
       g5 \<leftarrow> gauge ''fs.srv'' 0.0 (Some 0.0015) None 0 700;
       let wobble = g5 * quiet;
       let incident = (0.97 - base_frac) * p;
       let frac = base_frac + secular + sawtooth + wobble + incident;
       let frac = max 0.5 (min 0.995 frac);
       State_Monad.return (py_trunc (real_of_int 2147483648 * frac)) }"

definition root_used_kb :: "incident_cfg \<Rightarrow> real \<Rightarrow> (sim, int) state" where
  "root_used_kb cfg now =
     do {
       let uptime = now - hc_start cfg + real_of_int 1036800;
       let day = 86400.0;
       let base = 13107200;
       let logs = 1572864 * (real_mod now day / day);
       let growth = min 1048576 (uptime * 0.03);
       g6 \<leftarrow> gauge ''fs.root'' 0.0 (Some 70000) None 0 1500;
       State_Monad.return (py_trunc (real_of_int base + logs + growth + g6)) }"

definition home_used_kb :: "incident_cfg \<Rightarrow> real \<Rightarrow> (sim, int) state" where
  "home_used_kb cfg now =
     do {
       let uptime = now - hc_start cfg + real_of_int 1036800;
       let base = 246000000;
       let spool = 4194304 * (real_mod now 3600.0 / 3600.0);
       let growth = min 8388608 (uptime * 2.0);
       g7 \<leftarrow> gauge ''fs.home'' 0.0 (Some 300000) None 0 900;
       State_Monad.return (py_trunc (real_of_int base + spool + growth + g7)) }"

definition runaway_log_bytes :: "incident_cfg \<Rightarrow> dstate \<Rightarrow> real \<Rightarrow> (sim, int) state" where
  "runaway_log_bytes cfg d now =
     do {
       p \<leftarrow> files_pressure cfg d;
       let base = (6 * 1024) * 1024;
       let runaway = py_trunc (560000000000 * p);
       g9 \<leftarrow> gauge ''file.ingest'' 0.0 (Some 2000000) None 0 400;
       let jitter = py_trunc g9;
       State_Monad.return (max base (base + runaway + jitter)) }"

definition fill_rate_gb_per_h :: "incident_cfg \<Rightarrow> dstate \<Rightarrow> (sim, real) state" where
  "fill_rate_gb_per_h cfg d =
     (if ic_fill cfg \<le> 0 then State_Monad.return (0.0)
       else do {
         let span_kb = (0.97 - 0.55) * (real_of_int 2147483648);
         let per_min = span_kb / (ic_fill cfg);
         r10 \<leftarrow> degraded_seconds d;
         (if r10 \<le> 0 then State_Monad.return (0.0)
         else State_Monad.return (per_min * 60.0 / (1024.0 * 1024.0))) })"

definition fmt_elapsed :: "real \<Rightarrow> string" where
  "fmt_elapsed secs =
     (let s = py_trunc (max 0.0 secs);
        (d, s) = (s div 86400, s mod 86400);
        (h, s) = (s div 3600, s mod 3600);
        (m, s) = (s div 60, s mod 60)
      in (if d \<noteq> 0 then int_str d @ ''-'' @ int_pad2 h @ '':'' @ int_pad2 m @ '':'' @ int_pad2 s
       else int_pad2 h @ '':'' @ int_pad2 m @ '':'' @ int_pad2 s))"

section \<open>The agent output\<close>

definition files_clock :: "incident_cfg \<Rightarrow> dstate \<Rightarrow> (sim, int \<times> int \<times> real) state" where
  "files_clock cfg d =
     do {
       t11 \<leftarrow> get_time;
       let now = py_trunc t11;
       t12 \<leftarrow> get_time;
       let uptime = py_trunc (t12 - hc_start cfg) + 1036800;
       p \<leftarrow> files_pressure cfg d;
       State_Monad.return ((now, uptime, p)) }"

definition files_usage :: "incident_cfg \<Rightarrow> dstate \<Rightarrow> int \<Rightarrow> (sim, int \<times> int \<times> int) state" where
  "files_usage cfg d now =
     do {
       root_used \<leftarrow> root_used_kb cfg (real_of_int now);
       home_used \<leftarrow> home_used_kb cfg (real_of_int now);
       srv_used \<leftarrow> srv_used_kb cfg d (real_of_int now);
       _ \<leftarrow> runaway_log_bytes cfg d (real_of_int now);
       State_Monad.return ((root_used, home_used, srv_used)) }"

record files_memory_vals =
  files_m_commit_limit :: "int"
  files_m_cached :: "int"
  files_m_buffers :: "int"
  files_m_anon :: "int"
  files_m_mem_free :: "int"
  files_m_swap_free :: "int"
  files_m_committed :: "int"
  files_m_mem_available :: "int"
  files_m_a_anon :: "int"
  files_m_i_anon :: "int"
  files_m_a_file :: "int"
  files_m_i_file :: "int"
  files_m_slab :: "int"
  files_m_kernel_stack :: "int"
  files_m_dirty :: "int"

definition files_memory :: "real \<Rightarrow> (sim, files_memory_vals) state" where
  "files_memory p =
     do {
       let commit_limit = 4194300 + 16384000 div 2;
       g18 \<leftarrow> gauge ''mem.cached'' 9400000 None (Some 0.03) 0.4 1500;
       let cached = py_trunc g18;
       g19 \<leftarrow> gauge ''mem.buffers'' 540000 None (Some 0.05) 0.9 1100;
       let buffers = py_trunc g19;
       let caches = cached + buffers + 0 + 612352;
       g20 \<leftarrow> gauge ''mem.anon'' 2350000 None (Some 0.02) 1.3 1700;
       let anon = py_trunc g20;
       let mem_used_real = anon + 700000;
       let mem_free = max 180000 (16384000 - mem_used_real - caches);
       let swap_free = 4194300;
       g21 \<leftarrow> gauge ''mem.committed'' 4900000 None (Some 0.01) 1.2 1700;
       let committed = py_trunc g21;
       let anon_lru = anon + 65536;
       let file_lru = max 0 (buffers + cached - 65536);
       let mem_available = max mem_free (mem_free + file_lru + 612352);
       let a_anon = py_trunc (real_of_int anon_lru * 0.58);
       let i_anon = anon_lru - a_anon;
       let a_file = py_trunc (real_of_int file_lru * 0.46);
       let i_file = file_lru - a_file;
       let slab = 612352 + 138240;
       g22 \<leftarrow> gauge ''mem.threads'' 280 (Some 8) None 2.0 2000;
       let threads = py_trunc g22;
       let kernel_stack = threads * 16;
       g23 \<leftarrow> gauge ''mem.dirty'' (22000 + 30000 * p) None (Some 0.12) 2.0 800;
       let dirty = max 6144 (py_trunc g23);
       State_Monad.return (\<lparr>files_m_commit_limit = commit_limit,
         files_m_cached = cached,
         files_m_buffers = buffers,
         files_m_anon = anon,
         files_m_mem_free = mem_free,
         files_m_swap_free = swap_free,
         files_m_committed = committed,
         files_m_mem_available = mem_available,
         files_m_a_anon = a_anon,
         files_m_i_anon = i_anon,
         files_m_a_file = a_file,
         files_m_i_file = i_file,
         files_m_slab = slab,
         files_m_kernel_stack = kernel_stack,
         files_m_dirty = dirty\<rparr>) }"

record files_load_vals =
  files_fi_l1 :: "real"
  files_fi_l5 :: "real"
  files_fi_l15 :: "real"
  files_fi_runnable :: "int"
  files_fi_total_procs :: "int"

definition files_load :: "real \<Rightarrow> (sim, files_load_vals) state" where
  "files_load p =
     do {
       let base_l = lerp 0.5 1.8 p;
       g24 \<leftarrow> gauge ''load1'' 1.0 None (Some 0.3) 0.2 300;
       let l1 = round_dec 2 (base_l * g24);
       g25 \<leftarrow> gauge ''load5'' 1.0 None (Some 0.16) 1.0 900;
       let l5 = round_dec 2 (base_l * 0.9 * g25);
       g26 \<leftarrow> gauge ''load15'' 1.0 None (Some 0.08) 2.0 2400;
       let l15 = round_dec 2 (base_l * 0.82 * g26);
       let runnable = 1 + py_round p;
       let total_procs = py_round (lerp 248 262 p);
       State_Monad.return (\<lparr>files_fi_l1 = l1,
         files_fi_l5 = l5,
         files_fi_l15 = l15,
         files_fi_runnable = runnable,
         files_fi_total_procs = total_procs\<rparr>) }"

record files_ticks_vals =
  files_fi_user :: "int"
  files_fi_system :: "int"
  files_fi_idle :: "int"
  files_fi_iowait :: "int"
  files_fi_pgmaj_rate :: "real"

definition files_ticks :: "real \<Rightarrow> (sim, files_ticks_vals) state" where
  "files_ticks p =
     do {
       user \<leftarrow> fsample ''cpu.user'' (lerp 28 40 p);
       system \<leftarrow> fsample ''cpu.system'' (lerp 34 70 p);
       idle \<leftarrow> fsample ''cpu.idle'' (lerp 330 286 p);
       iowait \<leftarrow> fsample ''cpu.iowait'' (lerp 8 24 p);
       let pgmaj_rate = lerp 0.4 1.2 p;
       State_Monad.return (\<lparr>files_fi_user = user,
         files_fi_system = system,
         files_fi_idle = idle,
         files_fi_iowait = iowait,
         files_fi_pgmaj_rate = pgmaj_rate\<rparr>) }"

record files_disk_vals =
  files_d_sda_rd :: "int"
  files_d_sda_rdt :: "int"
  files_d_sda_wr :: "int"
  files_d_sda_wrt :: "int"
  files_d_sda_iot :: "int"
  files_d_sdb_rd :: "int"
  files_d_sdb_rdt :: "int"
  files_d_sdb_wr :: "int"
  files_d_sdb_wrt :: "int"
  files_d_sdb_iot :: "int"

definition files_disk :: "real \<Rightarrow> (sim, files_disk_vals) state" where
  "files_disk p =
     do {
       sda_rd \<leftarrow> fsample ''sda.rd_ios'' (lerp 5 7 p);
       sda_rdt \<leftarrow> fsample ''sda.rd_ticks'' (lerp 3 4 p);
       sda_wr \<leftarrow> fsample ''sda.wr_ios'' (lerp 14 18 p);
       sda_wrt \<leftarrow> fsample ''sda.wr_ticks'' (lerp 11 14 p);
       sda_iot \<leftarrow> fsample ''sda.io_ticks'' (lerp 16 22 p);
       sdb_rd \<leftarrow> fsample ''sdb.rd_ios'' (lerp 40 48 p);
       sdb_rdt \<leftarrow> fsample ''sdb.rd_ticks'' (lerp 180 210 p);
       sdb_wr \<leftarrow> fsample ''sdb.wr_ios'' (lerp 55 220 p);
       sdb_wrt \<leftarrow> fsample ''sdb.wr_ticks'' (lerp 240 520 p);
       sdb_iot \<leftarrow> fsample ''sdb.io_ticks'' (lerp 120 360 p);
       State_Monad.return (\<lparr>files_d_sda_rd = sda_rd,
         files_d_sda_rdt = sda_rdt,
         files_d_sda_wr = sda_wr,
         files_d_sda_wrt = sda_wrt,
         files_d_sda_iot = sda_iot,
         files_d_sdb_rd = sdb_rd,
         files_d_sdb_rdt = sdb_rdt,
         files_d_sdb_wr = sdb_wr,
         files_d_sdb_wrt = sdb_wrt,
         files_d_sdb_iot = sdb_iot\<rparr>) }"

definition files_net :: "(sim, int \<times> int \<times> int \<times> int) state" where
  "files_net =
     do {
       rx_bytes \<leftarrow> fsample ''net.rx_bytes'' 420000;
       tx_bytes \<leftarrow> fsample ''net.tx_bytes'' 680000;
       rx_pkts \<leftarrow> fsample ''net.rx_pkts'' 1100;
       tx_pkts \<leftarrow> fsample ''net.tx_pkts'' 1300;
       State_Monad.return ((rx_bytes, tx_bytes, rx_pkts, tx_pkts)) }"

definition files_smart :: "int \<Rightarrow> (sim, string \<times> string) state" where
  "files_smart uptime =
     do {
       g45 \<leftarrow> gauge ''smart.sda.temp'' 30 (Some 1.2) None 2.1 1100;
       let sda_temp = py_round g45;
       g46 \<leftarrow> gauge ''smart.sdb.temp'' 32 (Some 1.3) None 0.7 1300;
       let sdb_temp = py_round g46;
       let sda_smart = files_smart_json ''/dev/sda'' ''SAMSUNG MZ7L3480HCHQ-00A07'' ''S6KSNX0T301277'' (py_trunc (real_of_int uptime / 3600) + 22000) sda_temp;
       let sdb_smart = files_smart_json ''/dev/sdb'' ''INTEL SSDSC2KB038T8'' ''PHYF902300J53P8EGN'' (py_trunc (real_of_int uptime / 3600) + 26000) sdb_temp;
       State_Monad.return ((sda_smart, sdb_smart)) }"

definition files_head :: "incident_cfg \<Rightarrow> int \<Rightarrow> string list" where
  "files_head cfg now =
     (let cert_to = strftime ''%a, %d %b %Y %H:%M:%S +0000'' (gmtime (now + 318 * 86400))
      in [
       ''<<<check_mk>>>'',
       ''Version: '' @ hc_version cfg,
       ''AgentOS: linux'',
       ''Hostname: '' @ hc_hostname cfg,
       ''InstallationDirectory: /opt/checkmk/agent/default'',
       ''PackageDirectory: /opt/checkmk/agent/default/package'',
       ''RuntimeDirectory: /opt/checkmk/agent/default/runtime'',
       ''OSType: linux'',
       ''OSName: Ubuntu'',
       ''OSVersion: 24.04'',
       ''OSPlatform: ubuntu'',
       ''FailedPythonReason: '',
       ''SSHClient: '',
       ''<<<cmk_agent_ctl_status:sep(0)>>>'',
       dumps (JObj [(''version'', JStr (hc_version cfg)),
         (''agent_socket_operational'', JBool True),
         (''ip_allowlist'', JArr []),
         (''allow_legacy_pull'', JBool False),
         (''connections'', JArr [JObj [(''site_id'', JStr ''monitoring/prod''),
         (''receiver_port'', JNum 8000),
         (''uuid'', JStr ''7c44a9e2-0db1-4f5e-8a17-3e6c2b1d9f44''),
         (''local'', JObj [(''connection_mode'', JStr ''pull-agent''), (''cert_info'', JObj [(''issuer'', JStr (''Site '' @ [CHR 0x27] @ ''prod'' @ [CHR 0x27] @ '' local CA'')),
         (''from'', JStr ''Tue, 03 Jun 2025 09:12:44 +0000''),
         (''to'', JStr cert_to)])]),
         (''remote'', JStr ''remote_query_disabled'')]])]),
       ''<<<checkmk_agent_plugins_lnx:sep(0)>>>'',
       ''pluginsdir /opt/checkmk/agent/default/package/plugins'',
       ''localdir /opt/checkmk/agent/default/package/local'',
       ''/opt/checkmk/agent/default/package/plugins/86400/mk_apt:CMK_VERSION='' @ [CHR 0x22] @ hc_version cfg @ [CHR 0x22]])"

definition files_df :: "int \<Rightarrow> int \<Rightarrow> int \<Rightarrow> string list" where
  "files_df root_used home_used srv_used =
     [
       ''<<<df_v2>>>'',
       ''/dev/sda1 ext4 '' @ int_str 41943040 @ '' '' @ int_str root_used @ '' '' @ int_str (41943040 - root_used) @ '' '' @ int_str (py_round (real_of_int root_used / (real_of_int 41943040) * 100)) @ ''% /'',
       ''/dev/mapper/vghome-home ext4 '' @ int_str 524288000 @ '' '' @ int_str home_used @ '' '' @ int_str (524288000 - home_used) @ '' '' @ int_str (py_round (real_of_int home_used / (real_of_int 524288000) * 100)) @ ''% /home'',
       ''/dev/mapper/vgdata-shares xfs '' @ int_str 2147483648 @ '' '' @ int_str srv_used @ '' '' @ int_str (2147483648 - srv_used) @ '' '' @ int_str (py_round (real_of_int srv_used / (real_of_int 2147483648) * 100)) @ ''% /srv/shares'',
       ''[df_inodes_start]'',
       ''/dev/sda1 ext4 2621440 268331 '' @ int_str (2621440 - 268331) @ '' 11% /'',
       ''/dev/mapper/vghome-home ext4 32768000 4118233 '' @ int_str (32768000 - 4118233) @ '' 13% /home'',
       ''/dev/mapper/vgdata-shares xfs 134217728 9438211 '' @ int_str (134217728 - 9438211) @ '' 8% /srv/shares'',
       ''[df_inodes_end]'',
       ''<<<mounts>>>'',
       ''/dev/sda1 / ext4 rw,relatime,errors=remount-ro 0 0'',
       ''/dev/mapper/vghome-home /home ext4 rw,relatime 0 0'',
       ''/dev/mapper/vgdata-shares /srv/shares xfs rw,noatime,nodiratime,attr2,inode64 0 0'']"

definition files_mem :: "files_memory_vals \<Rightarrow> string list" where
  "files_mem mv =
     [
       ''<<<mem>>>'',
       ''MemTotal:       '' @ int_str 16384000 @ '' kB'',
       ''MemFree:        '' @ int_str (files_m_mem_free mv) @ '' kB'',
       ''MemAvailable:   '' @ int_str (files_m_mem_available mv) @ '' kB'',
       ''Buffers:        '' @ int_str (files_m_buffers mv) @ '' kB'',
       ''Cached:         '' @ int_str (files_m_cached mv) @ '' kB'',
       ''SwapCached:     '' @ int_str 0 @ '' kB'',
       ''Active:         '' @ int_str (files_m_a_anon mv + files_m_a_file mv) @ '' kB'',
       ''Inactive:       '' @ int_str (files_m_i_anon mv + files_m_i_file mv) @ '' kB'',
       ''Active(anon):   '' @ int_str (files_m_a_anon mv) @ '' kB'',
       ''Inactive(anon): '' @ int_str (files_m_i_anon mv) @ '' kB'',
       ''Active(file):   '' @ int_str (files_m_a_file mv) @ '' kB'',
       ''Inactive(file): '' @ int_str (files_m_i_file mv) @ '' kB'',
       ''Unevictable:    0 kB'',
       ''Mlocked:        0 kB'',
       ''SwapTotal:      '' @ int_str 4194300 @ '' kB'',
       ''SwapFree:       '' @ int_str (files_m_swap_free mv) @ '' kB'',
       ''Zswap:          0 kB'',
       ''Zswapped:       0 kB'',
       ''Dirty:          '' @ int_str (files_m_dirty mv) @ '' kB'',
       ''Writeback:      0 kB'',
       ''AnonPages:      '' @ int_str (files_m_anon mv) @ '' kB'',
       ''Mapped:         286720 kB'',
       ''Shmem:          '' @ int_str 65536 @ '' kB'',
       ''KReclaimable:   '' @ int_str 612352 @ '' kB'',
       ''Slab:           '' @ int_str (files_m_slab mv) @ '' kB'',
       ''SReclaimable:   '' @ int_str 612352 @ '' kB'',
       ''SUnreclaim:     138240 kB'',
       ''KernelStack:    '' @ int_str (files_m_kernel_stack mv) @ '' kB'',
       ''PageTables:     42240 kB'',
       ''SecPageTables:  0 kB'',
       ''NFS_Unstable:   0 kB'',
       ''Bounce:         0 kB'',
       ''WritebackTmp:   0 kB'',
       ''CommitLimit:    '' @ int_str (files_m_commit_limit mv) @ '' kB'',
       ''Committed_AS:   '' @ int_str (files_m_committed mv) @ '' kB'',
       ''VmallocTotal:   34359738367 kB'',
       ''VmallocUsed:    61440 kB'',
       ''VmallocChunk:   0 kB'',
       ''Percpu:         13312 kB'',
       ''HardwareCorrupted: 0 kB'',
       ''AnonHugePages:  0 kB'',
       ''ShmemHugePages: 0 kB'',
       ''ShmemPmdMapped: 0 kB'',
       ''FileHugePages:  0 kB'',
       ''FilePmdMapped:  0 kB'',
       ''CmaTotal:       0 kB'',
       ''CmaFree:        0 kB'',
       ''Unaccepted:     0 kB'',
       ''Balloon:        0 kB'',
       ''HugePages_Total:       0'',
       ''HugePages_Free:        0'',
       ''HugePages_Rsvd:        0'',
       ''HugePages_Surp:        0'',
       ''Hugepagesize:       2048 kB'',
       ''Hugetlb:        0 kB'',
       ''DirectMap4k:    243596 kB'',
       ''DirectMap2M:    6049792 kB'',
       ''DirectMap1G:    11534336 kB'']"

definition files_cpu :: "int \<Rightarrow> files_load_vals \<Rightarrow> (sim, string list) state" where
  "files_cpu uptime lv =
     do {
       c47 \<leftarrow> fsample ''kernel.processes'' 4;
       State_Monad.return ([
       ''<<<cpu>>>'',
       float_str 2 (files_fi_l1 lv) @ '' '' @ float_str 2 (files_fi_l5 lv) @ '' '' @ float_str 2 (files_fi_l15 lv) @ '' '' @ int_str (files_fi_runnable lv) @ ''/'' @ int_str (files_fi_total_procs lv) @ '' '' @ int_str (26000 + c47 mod 9999) @ '' '' @ int_str 4,
       ''<<<uptime>>>'',
       int_str uptime @ ''.00 '' @ int_str (py_trunc (real_of_int uptime * 3.4)) @ ''.00'']) }"

definition files_timesync :: "incident_cfg \<Rightarrow> (nat \<Rightarrow> int) \<Rightarrow> int \<Rightarrow> (sim, string list) state" where
  "files_timesync cfg ri now =
     do {
       let last_sync = now - py_trunc (real_mod (real_of_int now - hc_start cfg) 2048);
       let sync_str = strftime ''%a %Y-%m-%d %H:%M:%S UTC'' (gmtime last_sync);
       let offset_us = (ri 0);
       t48 \<leftarrow> get_time;
       State_Monad.return ([
       ''<<<timesyncd>>>'',
       ''       Server: 185.125.190.56 (ntp.ubuntu.com)'',
       ''Poll interval: 34min 8s (min: 32s; max 34min 8s)'',
       ''         Leap: normal'',
       ''      Version: 4'',
       ''      Stratum: 2'',
       ''    Reference: B97D5A38'',
       ''    Precision: 1us (-25)'',
       ''Root distance: 11.842ms (max: 5s)'',
       ''       Offset: '' @ signed_str offset_us @ ''us'',
       ''        Delay: 18.114ms'',
       ''       Jitter: '' @ fixed_str 3 (real_of_int (ri 1) / 1000) @ ''ms'',
       '' Packet count: '' @ int_str (640 + py_trunc ((t48 - hc_start cfg) / 2048)),
       ''    Frequency: +7.842ppm'',
       ''[[['' @ int_str last_sync @ '']]]'',
       ''<<<timesyncd_ntpmessage:sep(10)>>>'',
       ''NTPMessage={ Leap=0, Version=4, Mode=4, Stratum=2, Precision=-25, RootDelay=8.911ms, RootDispersion=1.144ms, Reference=B97D5A38, OriginateTimestamp='' @ sync_str @ '', ReceiveTimestamp='' @ sync_str @ '', TransmitTimestamp='' @ sync_str @ '', DestinationTimestamp='' @ sync_str @ '', Ignored=no, PacketCount=61, Jitter=1.041ms }'',
       ''Timezone=UTC'']) }"

definition files_apt :: "string list" where
  "files_apt =
     [
       ''<<<apt:sep(0)>>>'',
       ''No updates pending for installation'']"

definition files_kernel :: "int \<Rightarrow> files_ticks_vals \<Rightarrow> (sim, string list) state" where
  "files_kernel now tv =
     do {
       c49 \<leftarrow> fsample ''kernel.ctxt'' 2600;
       c50 \<leftarrow> fsample ''kernel.processes'' 4;
       c51 \<leftarrow> fsample ''kernel.pgmajfault'' (files_fi_pgmaj_rate tv);
       State_Monad.return ([
       ''<<<kernel>>>'',
       int_str now,
       ''cpu '' @ int_str (files_fi_user tv) @ '' 0 '' @ int_str (files_fi_system tv) @ '' '' @ int_str (files_fi_idle tv) @ '' '' @ int_str (files_fi_iowait tv) @ '' 0 0 0 0 0'',
       ''ctxt '' @ int_str c49,
       ''processes '' @ int_str c50,
       ''pgmajfault '' @ int_str c51]) }"

definition files_diskstat :: "int \<Rightarrow> files_disk_vals \<Rightarrow> string list" where
  "files_diskstat now dv =
     [
       ''<<<diskstat>>>'',
       int_str now,
       ''8 0 sda '' @ int_str (files_d_sda_rd dv) @ '' 0 '' @ int_str (files_d_sda_rd dv * 20) @ '' '' @ int_str (files_d_sda_rdt dv) @ '' '' @ int_str (files_d_sda_wr dv) @ '' 0 '' @ int_str (files_d_sda_wr dv * 32) @ '' '' @ int_str (files_d_sda_wrt dv) @ '' 0 '' @ int_str (files_d_sda_iot dv) @ '' '' @ int_str (files_d_sda_iot dv * 2) @ '' 0 0 0 0'',
       ''8 16 sdb '' @ int_str (files_d_sdb_rd dv) @ '' 0 '' @ int_str (files_d_sdb_rd dv * 64) @ '' '' @ int_str (files_d_sdb_rdt dv) @ '' '' @ int_str (files_d_sdb_wr dv) @ '' 0 '' @ int_str (files_d_sdb_wr dv * 80) @ '' '' @ int_str (files_d_sdb_wrt dv) @ '' 0 '' @ int_str (files_d_sdb_iot dv) @ '' '' @ int_str (files_d_sdb_iot dv * 2) @ '' 0 0 0 0'']"

definition files_if :: "int \<Rightarrow> int \<Rightarrow> int \<Rightarrow> int \<Rightarrow> string list" where
  "files_if rx_bytes tx_bytes rx_pkts tx_pkts =
     [
       ''<<<lnx_if>>>'',
       ''[start_iplink]'',
       ''1: lo: <LOOPBACK,UP,LOWER_UP> mtu 65536 qdisc noqueue state UNKNOWN group default qlen 1000'',
       ''    link/loopback 00:00:00:00:00:00 brd 00:00:00:00:00:00'',
       ''2: eth0: <BROADCAST,MULTICAST,UP,LOWER_UP> mtu 1500 qdisc fq_codel state UP group default qlen 1000'',
       ''    link/ether 02:42:ac:11:00:31 brd ff:ff:ff:ff:ff:ff'',
       ''[end_iplink]'',
       ''<<<lnx_if:sep(58)>>>'',
       ''eth0: '' @ int_str rx_bytes @ '' '' @ int_str rx_pkts @ '' 0 0 0 0 0 0 '' @ int_str tx_bytes @ '' '' @ int_str tx_pkts @ '' 0 0 0 0 0 0'',
       ''[eth0]'',
       TAB @ ''Speed: 10000Mb/s'',
       TAB @ ''Duplex: Full'',
       TAB @ ''Auto-negotiation: on'',
       TAB @ ''Link detected: yes'',
       ''Address: 02:42:ac:11:00:31'']"

definition files_tcp :: "(nat \<Rightarrow> int) \<Rightarrow> (sim, string list) state" where
  "files_tcp ri =
     do {
       g52 \<leftarrow> gauge ''tcp.estab'' 64 (Some 10) None 0.9 700;
       g53 \<leftarrow> gauge ''tcp.timewait'' 18 (Some 5) None 2.4 500;
       State_Monad.return ([
       ''<<<tcp_conn_stats>>>'',
       ''01 '' @ int_str (py_round g52),
       ''02 '' @ int_str (ri 2),
       ''06 '' @ int_str (py_round g53),
       ''0A 6'']) }"

definition files_smart_section :: "string \<Rightarrow> string \<Rightarrow> string list" where
  "files_smart_section sda_smart sdb_smart =
     [
       ''<<<smart_posix_all:sep(0)>>>'',
       sda_smart,
       sdb_smart]"

definition files_fileinfo :: "incident_cfg \<Rightarrow> (nat \<Rightarrow> int) \<Rightarrow> dstate \<Rightarrow> int \<Rightarrow> (sim, string list) state" where
  "files_fileinfo cfg ri d now =
     do {
       r54 \<leftarrow> runaway_log_bytes cfg d (real_of_int now);
       State_Monad.return ([
       ''<<<fileinfo>>>'',
       int_str now,
       ''/srv/shares/ingest/spool/import-batch.log'' @ TAB @ int_str r54 @ TAB @ int_str (now - 1),
       ''/srv/shares/ingest/spool/import-batch.log.1'' @ TAB @ int_str ((6 * 1024) * 1024) @ TAB @ int_str (now - 86400),
       ''/var/log/samba/log.smbd'' @ TAB @ int_str ((18 * 1024) * 1024 + (ri 3)) @ TAB @ int_str (now - 12)]) }"

definition files_ps :: "dstate \<Rightarrow> int \<Rightarrow> real \<Rightarrow> (sim, string list) state" where
  "files_ps d now p =
     do {
       r55 \<leftarrow> degraded_seconds d;
       r56 \<leftarrow> degraded_seconds d;
       r57 \<leftarrow> degraded_seconds d;
       let importer_cpu = int_pad2 (2 + py_trunc (real_of_int \<lfloor>r55 / 3600\<rfloor>)) @ '':'' @ int_pad2 (py_trunc (real_of_int \<lfloor>real_mod r56 3600 / 60\<rfloor>)) @ '':'' @ int_pad2 (py_trunc (real_mod r57 60));
       ls59 \<leftarrow> (if p > 0 then do {
         r58 \<leftarrow> degraded_seconds d;
         State_Monad.return ([
       ''0::/system.slice/ingest-importer.service ingest 198400 24600 '' @ importer_cpu @ '' '' @ fmt_elapsed r58 @ '' 1444 /usr/bin/python3 /opt/ingest/import_batch.py --watch /srv/shares/ingest/spool'']) } else State_Monad.return ([]));
       State_Monad.return ([
       ''<<<ps_lnx>>>'',
       ''[time]'',
       int_str now,
       ''[processes]'',
       ''[header] CGROUP USER VSZ RSS TIME ELAPSED PID COMMAND''] @
      concat (map (\<lambda>(cgs, usr, vsz, rss, cputime, pid, cmd). [
       ''0::/'' @ cgs @ '' '' @ usr @ '' '' @ int_str vsz @ '' '' @ int_str rss @ '' '' @ cputime @ '' 12-04:18:02 '' @ int_str pid @ '' '' @ cmd]) ([
       (''init.scope'', ''root'', 168000, 12600, ''00:00:41'', 1, ''/sbin/init''),
       (''system.slice/systemd-journald.service'', ''root'', 58300, 21100, ''00:01:48'', 401, ''/usr/lib/systemd/systemd-journald''),
       (''system.slice/systemd-udevd.service'', ''root'', 25900, 7600, ''00:00:04'', 438, ''/usr/lib/systemd/systemd-udevd''),
       (''system.slice/systemd-resolved.service'', ''systemd-resolve'', 26600, 13400, ''00:00:51'', 489, ''/usr/lib/systemd/systemd-resolved''),
       (''system.slice/systemd-timesyncd.service'', ''systemd-timesync'', 91000, 7400, ''00:00:12'', 503, ''/usr/lib/systemd/systemd-timesyncd''),
       (''system.slice/dbus.service'', ''messagebus'', 10200, 5300, ''00:00:22'', 515, ''@dbus-daemon --system --address=systemd:''),
       (''system.slice/rsyslog.service'', ''syslog'', 222400, 7100, ''00:00:48'', 612, ''/usr/sbin/rsyslogd -n -iNONE''),
       (''system.slice/ssh.service'', ''root'', 15400, 9200, ''00:00:01'', 690, ''sshd: /usr/sbin/sshd -D [listener]''),
       (''system.slice/cron.service'', ''root'', 11500, 2600, ''00:00:02'', 705, ''/usr/sbin/cron -f -P''),
       (''system.slice/nmbd.service'', ''root'', 88400, 8900, ''00:02:14'', 820, ''/usr/sbin/nmbd --foreground --no-process-group''),
       (''system.slice/smbd.service'', ''root'', 412600, 31800, ''00:41:53'', 842, ''/usr/sbin/smbd --foreground --no-process-group''),
       (''system.slice/smbd.service'', ''root'', 414900, 18400, ''00:08:21'', 901, ''/usr/sbin/smbd --foreground --no-process-group''),
       (''system.slice/nfs-server.service'', ''root'', 0, 0, ''00:12:38'', 870, ''[nfsd]'')])) @
      ls59) }"

definition files_units :: "string list" where
  "files_units =
     (let units = [
       (''smbd.service'', ''active'', ''running'', ''Samba SMB Daemon''),
       (''nmbd.service'', ''active'', ''running'', ''Samba NMB Daemon''),
       (''nfs-server.service'', ''active'', ''running'', ''NFS server and services''),
       (''rpcbind.service'', ''active'', ''running'', ''RPC bind portmap service''),
       (''rpc-statd.service'', ''active'', ''running'', ''NFS status monitor for NFSv2/3 locking''),
       (''ssh.service'', ''active'', ''running'', ''OpenBSD Secure Shell server''),
       (''cron.service'', ''active'', ''running'', ''Regular background program processing daemon''),
       (''dbus.service'', ''active'', ''running'', ''D-Bus System Message Bus''),
       (''getty@tty1.service'', ''active'', ''running'', ''Getty on tty1''),
       (''irqbalance.service'', ''active'', ''running'', ''irqbalance daemon''),
       (''multipathd.service'', ''active'', ''running'', ''Device-Mapper Multipath Device Controller''),
       (''networkd-dispatcher.service'', ''active'', ''running'', ''Dispatcher daemon for systemd-networkd''),
       (''polkit.service'', ''active'', ''running'', ''Authorization Manager''),
       (''rsyslog.service'', ''active'', ''running'', ''System Logging Service''),
       (''snapd.service'', ''active'', ''running'', ''Snap Daemon''),
       (''systemd-journald.service'', ''active'', ''running'', ''Journal Service''),
       (''systemd-logind.service'', ''active'', ''running'', ''User Login Management''),
       (''systemd-networkd.service'', ''active'', ''running'', ''Network Configuration''),
       (''systemd-resolved.service'', ''active'', ''running'', ''Network Name Resolution''),
       (''systemd-timesyncd.service'', ''active'', ''running'', ''Network Time Synchronization''),
       (''systemd-udevd.service'', ''active'', ''running'', ''Rule-based Manager for Device Events and Files''),
       (''udisks2.service'', ''active'', ''running'', ''Disk Manager''),
       (''unattended-upgrades.service'', ''active'', ''running'', ''Unattended Upgrades Shutdown''),
       (''user@1000.service'', ''active'', ''running'', ''User Manager for UID 1000''),
       (''apparmor.service'', ''active'', ''exited'', ''Load AppArmor profiles''),
       (''blk-availability.service'', ''active'', ''exited'', ''Availability of block devices''),
       (''console-setup.service'', ''active'', ''exited'', ''Set console font and keymap''),
       (''finalrd.service'', ''active'', ''exited'', ''Create final runtime dir for shutdown pivot root''),
       (''keyboard-setup.service'', ''active'', ''exited'', ''Set the console keyboard layout''),
       (''lvm2-monitor.service'', ''active'', ''exited'', ''Monitoring of LVM2 mirrors, snapshots etc. using dmeventd or progress polling''),
       (''setvtrgb.service'', ''active'', ''exited'', ''Set console scheme''),
       (''systemd-user-sessions.service'', ''active'', ''exited'', ''Permit User Sessions'')]
      in [
       ''<<<systemd_units>>>'',
       ''[list-unit-files]''] @
      concat (map (\<lambda>(nam, _, _, _). [
       nam @ '' enabled enabled'']) units) @
      [
       ''[status]'',
       ''[all]''] @
      concat (map (\<lambda>(nam, act, sub, descr). [
       nam @ '' loaded '' @ act @ '' '' @ sub @ '' '' @ descr]) units))"

definition files_job :: "int \<Rightarrow> string list" where
  "files_job now =
     [
       ''<<<job>>>'',
       ''==> share-retention-prune <=='',
       ''start_time '' @ int_str (now - 7 * 3600),
       ''exit_code 0'',
       ''real_time 3:22.4'',
       ''user_time 2.10'',
       ''system_time 4.80'',
       ''max_res_kbytes 64000'',
       ''avg_mem_kbytes 0'']"

text \<open>The payload: the sections in order, one line each.\<close>

definition files_build :: "incident_cfg \<Rightarrow> string \<Rightarrow> (nat \<Rightarrow> int) \<Rightarrow> dstate \<Rightarrow> (sim, string) state" where
  "files_build cfg sta ri d = do {
       (now, uptime, p) \<leftarrow> files_clock cfg d;
       (root_used, home_used, srv_used) \<leftarrow> files_usage cfg d now;
       mv \<leftarrow> files_memory p;
       lv \<leftarrow> files_load p;
       tv \<leftarrow> files_ticks p;
       dv \<leftarrow> files_disk p;
       (rx_bytes, tx_bytes, rx_pkts, tx_pkts) \<leftarrow> files_net;
       (sda_smart, sdb_smart) \<leftarrow> files_smart uptime;
       let l_head = files_head cfg now;
       let l_df = files_df root_used home_used srv_used;
       let l_mem = files_mem mv;
       l_cpu \<leftarrow> files_cpu uptime lv;
       l_timesync \<leftarrow> files_timesync cfg ri now;
       let l_apt = files_apt;
       l_kernel \<leftarrow> files_kernel now tv;
       let l_diskstat = files_diskstat now dv;
       let l_if = files_if rx_bytes tx_bytes rx_pkts tx_pkts;
       l_tcp \<leftarrow> files_tcp ri;
       let l_smart_section = files_smart_section sda_smart sdb_smart;
       l_fileinfo \<leftarrow> files_fileinfo cfg ri d now;
       l_ps \<leftarrow> files_ps d now p;
       let l_units = files_units;
       let l_job = files_job now;
       State_Monad.return (concat (map (\<lambda>l. l @ [CHR 0x0A])
         (l_head @ l_df @ l_mem @ l_cpu @ l_timesync @ l_apt @ l_kernel @ l_diskstat @ l_if @ l_tcp @ l_smart_section @ l_fileinfo @ l_ps @ l_units @ l_job))) }"

text \<open>The model ends here.  The story the data volume tells, against the default levels of a filesystem (warning at
  80, critical at 90 percent).\<close>

section \<open>The volume story\<close>

lemma files_pressure_two_phase: "files_pressure = two_phase (37 / 50)"
proof (intro ext)
  fix cfg d
  have e: "0.0 = (0 :: real)" "1.0 = (1 :: real)" "60.0 = (60 :: real)" "0.26 = 1 - (37 / 50 :: real)" "0.74 = (37 / 50 :: real)" by simp_all
  show "files_pressure cfg d = two_phase (37 / 50) cfg d"
    unfolding files_pressure_def two_phase_def Let_def e ..
qed

definition volume_kb :: int where
  "volume_kb = 2147483648"

text \<open>The fraction in use: the pressure adds up to 42 percent to the 55 of the quiet volume, the growth over the
  uptime, the cleanup sawtooth and the noise little; the latter two fade while the pressure rises.\<close>

definition volume_facts :: "real \<Rightarrow> int \<Rightarrow> bool" where
  "volume_facts p u \<longleftrightarrow> (\<exists>e. - 3 / 2000 * max 0 (1 - 10 / 3 * p) \<le> e \<and> e \<le> 3 / 250 + 23 / 2000 * max 0 (1 - 10 / 3 * p)
     \<and> u = py_trunc (2147483648 * max (1 / 2) (min (199 / 200) (11 / 20 + 21 / 50 * p + e))))"

lemma srv_used_run:
  assumes "timed T Q (two_phase (37 / 50) cfg d)" "\<And>p u. Q p \<Longrightarrow> volume_facts p u \<Longrightarrow> P u"
    and up: "hc_start cfg - 1036800 \<le> now"
  shows "timed T P (srv_used_kb cfg d now)"
proof -
  have e: "(0.012 :: real) = 3 / 250" "(0.01 :: real) = 1 / 100" "(1800.0 :: real) = 1800" "(1.0 :: real) = 1"
    "(0.0 :: real) = 0" "(0.0015 :: real) = 3 / 2000" "(0.97 :: real) = 97 / 100" "(0.55 :: real) = 11 / 20" "(0.5 :: real) = 1 / 2"
    "(0.995 :: real) = 199 / 200" "real_of_int 2147483648 = 2147483648" "real_of_int 1036800 = 1036800" "(0.00000001 :: real) = 1 / 100000000"
    by simp_all
  show ?thesis
    unfolding srv_used_kb_def Let_def e files_pressure_two_phase
  proof (rule timed_bind [OF assms(1)], rule timed_gauge_abs_bind, simp, rule timed_return, rule assms(2), assumption)
    fix p v :: real assume v: "0 - 3 / 2000 \<le> v" "v \<le> 0 + 3 / 2000"
    let ?q = "max 0 (1 - p / (3 / 10))" and ?s = "1 - real_mod now 1800 / 1800" and ?g = "min (3 / 250) ((now - hc_start cfg + 1036800) * (1 / 100000000))"
    have q: "?q = max 0 (1 - 10 / 3 * p)" by simp
    have m: "0 \<le> 1 / 100 * s * q" "1 / 100 * s * q \<le> 1 / 100 * q" "v * q \<le> 3 / 2000 * q" "- 3 / 2000 * q \<le> v * q"
      if "0 \<le> s" "s \<le> 1" "0 \<le> q" for s q :: real
      using that v mult_right_mono [of v "3 / 2000" q] mult_right_mono [of "- 3 / 2000" v q] mult_left_le_one_le [of q s] by auto
    have g: "0 \<le> ?g" "?g \<le> 3 / 250" and h: "0 \<le> ?s" "?s \<le> 1" "0 \<le> ?q"
      using up real_mod_bounds [of 1800 now] by auto
    note b = g m [OF h]
    have "- 3 / 2000 * ?q \<le> ?g + 1 / 100 * ?s * ?q + v * ?q" "?g + 1 / 100 * ?s * ?q + v * ?q \<le> 3 / 250 + 23 / 2000 * ?q"
      using b by linarith+
    moreover have "11 / 20 + ?g + 1 / 100 * ?s * ?q + v * ?q + (97 / 100 - 11 / 20) * p = 11 / 20 + 21 / 50 * p + (?g + 1 / 100 * ?s * ?q + v * ?q)" by simp
    ultimately show "volume_facts p (py_trunc (2147483648 * max (1 / 2) (min (199 / 200)
        (11 / 20 + ?g + 1 / 100 * ?s * ?q + v * ?q + (97 / 100 - 11 / 20) * p))))"
      unfolding volume_facts_def q [symmetric] by metis
  qed
qed

text \<open>Bounds on the fraction give bounds on the kilobytes, up to the truncation.\<close>

lemma volume_between:
  assumes "volume_facts p u"
    and "\<And>e. - 3 / 2000 * max 0 (1 - 10 / 3 * p) \<le> e \<Longrightarrow> e \<le> 3 / 250 + 23 / 2000 * max 0 (1 - 10 / 3 * p) \<Longrightarrow>
      lo \<le> max (1 / 2) (min (199 / 200) (11 / 20 + 21 / 50 * p + e)) \<and> max (1 / 2) (min (199 / 200) (11 / 20 + 21 / 50 * p + e)) \<le> hi"
  shows "lo * 2147483648 - 1 \<le> real_of_int u \<and> real_of_int u \<le> hi * 2147483648"
proof -
  obtain e where e: "- 3 / 2000 * max 0 (1 - 10 / 3 * p) \<le> e" "e \<le> 3 / 250 + 23 / 2000 * max 0 (1 - 10 / 3 * p)"
    and u: "u = py_trunc (2147483648 * max (1 / 2) (min (199 / 200) (11 / 20 + 21 / 50 * p + e)))"
    using assms(1) unfolding volume_facts_def by blast
  let ?f = "max (1 / 2) (min (199 / 200) (11 / 20 + 21 / 50 * p + e))"
  have "0 \<le> 2147483648 * ?f" by simp
  then have "2147483648 * ?f - 1 \<le> real_of_int u" "real_of_int u \<le> 2147483648 * ?f"
    using u by (simp_all add: py_trunc_def)
  moreover have "lo \<le> ?f" "?f \<le> hi" using assms(2) [OF e] by blast+
  moreover have "lo * 2147483648 - 1 \<le> v \<and> v \<le> hi * 2147483648"
    if "2147483648 * f - 1 \<le> v" "v \<le> 2147483648 * f" "lo \<le> f" "f \<le> hi" for f v :: real using that by simp
  ultimately show ?thesis by blast
qed

lemma volume_percent:
  assumes "volume_facts p u"
    and "\<And>e. - 3 / 2000 * max 0 (1 - 10 / 3 * p) \<le> e \<Longrightarrow> e \<le> 3 / 250 + 23 / 2000 * max 0 (1 - 10 / 3 * p) \<Longrightarrow>
      lo \<le> max (1 / 2) (min (199 / 200) (11 / 20 + 21 / 50 * p + e)) \<and> max (1 / 2) (min (199 / 200) (11 / 20 + 21 / 50 * p + e)) \<le> hi"
    and "real_of_int l * 2147483648 \<le> 100 * (lo * 2147483648 - 1)" "100 * hi \<le> real_of_int h"
  shows "l * volume_kb \<le> 100 * u \<and> 100 * u \<le> h * volume_kb"
proof -
  have "real_of_int (l * volume_kb) \<le> real_of_int (100 * u)" "real_of_int (100 * u) \<le> real_of_int (h * volume_kb)"
    using volume_between [OF assms(1,2)] assms(3,4) by (simp_all add: volume_kb_def)
  then show ?thesis by (simp only: of_int_le_iff)
qed

text \<open>C33. The data volume of the file server, for every configuration, clock and noise once it is up: healthy it is
  between 54 and 58 percent full, before the break below the critical 90 percent, but with the fill time over it stands above
  the 80 percent warning level, at 86 percent or more, and when the break ramp is over at 96 percent or more.\<close>

theorem files_volume_story:
  assumes "hc_start cfg - 1036800 \<le> now"
  shows "(degraded_since d = None \<and> broken_since d = None \<longrightarrow>
      timed T (\<lambda>u. 54 * volume_kb \<le> 100 * u \<and> 100 * u \<le> 58 * volume_kb) (srv_used_kb cfg d now))
   \<and> (broken_since d = None \<longrightarrow> timed T (\<lambda>u. 100 * u < 90 * volume_kb) (srv_used_kb cfg d now))
   \<and> (broken_since d = None \<and> 0 < ic_fill cfg \<and> (\<exists>s. degraded_since d = Some s \<and> (\<forall>t. T t \<longrightarrow> ic_fill cfg * 60 \<le> t - s)) \<longrightarrow>
      timed T (\<lambda>u. 86 * volume_kb \<le> 100 * u) (srv_used_kb cfg d now))
   \<and> (0 < ic_ramp cfg \<and> (\<exists>s. broken_since d = Some s \<and> (\<forall>t. T t \<longrightarrow> ic_ramp cfg * 60 \<le> t - s)) \<longrightarrow>
      timed T (\<lambda>u. 96 * volume_kb \<le> 100 * u) (srv_used_kb cfg d now))"
proof (intro conjI impI)
  assume "degraded_since d = None \<and> broken_since d = None"
  then show "timed T (\<lambda>u. 54 * volume_kb \<le> 100 * u \<and> 100 * u \<le> 58 * volume_kb) (srv_used_kb cfg d now)"
  proof (intro srv_used_run [OF two_phase_healthy _ assms])
    fix p u assume "p = (0 :: real)" and "volume_facts p u"
    then show "54 * volume_kb \<le> 100 * u \<and> 100 * u \<le> 58 * volume_kb"
      using volume_percent [of p u "541 / 1000" "58 / 100" 54 58] by simp
  qed simp_all
next
  assume b: "broken_since d = None"
  have "100 * u \<le> 89 * volume_kb" if p: "0 \<le> p \<and> p \<le> 37 / 50" "volume_facts p u" for p u
  proof (rule volume_percent [OF p(2), of "1 / 2" "89 / 100" 49, THEN conjunct2])
    fix e assume "e \<le> 3 / 250 + 23 / 2000 * max 0 (1 - 10 / 3 * p)"
    moreover have "3 / 250 + 23 / 2000 * max 0 (1 - 10 / 3 * p) \<le> 47 / 2000" using p by simp
    ultimately have "e \<le> 47 / 2000" by (rule order_trans)
    moreover have "p \<le> 37 / 50" using p by simp
    ultimately have "11 / 20 + 21 / 50 * p + e \<le> 89 / 100" by linarith
    then show "1 / 2 \<le> max (1 / 2) (min (199 / 200) (11 / 20 + 21 / 50 * p + e)) \<and> max (1 / 2) (min (199 / 200) (11 / 20 + 21 / 50 * p + e)) \<le> 89 / 100"
      by (intro conjI) (simp (no_asm), intro max.boundedI min.coboundedI2, simp)
  qed simp_all
  then show "timed T (\<lambda>u. 100 * u < 90 * volume_kb) (srv_used_kb cfg d now)"
    by (intro srv_used_run [OF two_phase_degraded [OF b] _ assms]) (fastforce simp: volume_kb_def)+
next
  assume "broken_since d = None \<and> 0 < ic_fill cfg \<and> (\<exists>s. degraded_since d = Some s \<and> (\<forall>t. T t \<longrightarrow> ic_fill cfg * 60 \<le> t - s))"
  then obtain s where "timed T (\<lambda>p. p = 37 / 50) (two_phase (37 / 50) cfg d)" using two_phase_plateau [of d "37 / 50" cfg _ T] by auto
  then show "timed T (\<lambda>u. 86 * volume_kb \<le> 100 * u) (srv_used_kb cfg d now)"
  proof (rule srv_used_run [OF _ _ assms])
    fix p u assume "p = (37 / 50 :: real)" and "volume_facts p u"
    then show "86 * volume_kb \<le> 100 * u" using volume_percent [of p u "8604 / 10000" 1 86 100] by simp
  qed
next
  assume "0 < ic_ramp cfg \<and> (\<exists>s. broken_since d = Some s \<and> (\<forall>t. T t \<longrightarrow> ic_ramp cfg * 60 \<le> t - s))"
  then obtain s where "timed T (\<lambda>p. p = 1) (two_phase (37 / 50) cfg d)" using two_phase_full [of "37 / 50" cfg d _ T] by auto
  then show "timed T (\<lambda>u. 96 * volume_kb \<le> 100 * u) (srv_used_kb cfg d now)"
  proof (rule srv_used_run [OF _ _ assms])
    fix p u assume "p = (1 :: real)" and "volume_facts p u"
    then show "96 * volume_kb \<le> 100 * u" using volume_percent [of p u "961 / 1000" 1 96 100] by simp
  qed
qed

theorem files_volume_story_witness:
  "timed (\<lambda>t. 1100 \<le> t \<and> t \<le> 1500) (\<lambda>u. 86 * volume_kb \<le> 100 * u)
     (srv_used_kb \<lparr>hc_hostname = ''f'', hc_version = ''2'', hc_start = 0, ic_auto_break = 18, ic_fill = 15, ic_ramp = 3\<rparr>
        \<lparr>st = DEGRADED, st_since = 100, degraded_since = Some 100, broken_since = None\<rparr> 1100)"
  using files_volume_story [of "\<lparr>hc_hostname = ''f'', hc_version = ''2'', hc_start = 0, ic_auto_break = 18, ic_fill = 15, ic_ramp = 3\<rparr>" 1100
    "\<lparr>st = DEGRADED, st_since = 100, degraded_since = Some 100, broken_since = None\<rparr>" "\<lambda>t. 1100 \<le> t \<and> t \<le> 1500"] by simp

end
