(* ===== verification/Host_Redis.thy ===== *)
theory Host_Redis
  imports Host_Story
begin

text \<open>
  \<open>hosts/app-redis-01/serve.py\<close>, the cache whose evictions storm: its counters, the pressure and the redis
  figures it drives, its filesystems and the agent output, section by section.  \<open>sta\<close> is the state the
  handler passes, \<open>d\<close> the incident record the story functions read, \<open>ri\<close> the outcomes of
  \<open>random.randint\<close> in the order of the calls.
\<close>

section \<open>Counters and the driver of the incident\<close>

definition redis_counters :: "(string \<times> real \<times> real \<times> real) list" where
  "redis_counters = [
     (''cpu.user'', 0.3, 0.30, 46 * real_of_int 950400),
     (''cpu.system'', 1.1, 0.30, 22 * real_of_int 950400),
     (''cpu.idle'', 2.4, 0.30, 322 * real_of_int 950400),
     (''cpu.iowait'', 3.0, 0.30, 4 * real_of_int 950400),
     (''kernel.ctxt'', 4.0, 0.30, 4800 * real_of_int 950400),
     (''kernel.processes'', 4.7, 0.30, 4 * real_of_int 950400),
     (''kernel.pgmajfault'', 5.4, 0.30, 0.4 * real_of_int 950400),
     (''sda.rd_ios'', 0.0, 0.30, 3 * real_of_int 950400),
     (''sda.rd_ticks'', 0.2, 0.30, 2 * real_of_int 950400),
     (''sda.wr_ios'', 0.4, 0.30, 28 * real_of_int 950400),
     (''sda.wr_ticks'', 0.6, 0.30, 20 * real_of_int 950400),
     (''sda.io_ticks'', 0.8, 0.05, 24 * real_of_int 950400),
     (''net.rx_bytes'', 1.6, 0.30, 2400000 * real_of_int 950400),
     (''net.tx_bytes'', 2.3, 0.30, 3100000 * real_of_int 950400),
     (''net.rx_pkts'', 3.0, 0.30, 9400 * real_of_int 950400),
     (''net.tx_pkts'', 3.7, 0.30, 9600 * real_of_int 950400),
     (''redis.total_commands'', 2.0, 0.30, 8000 * real_of_int 950400),
     (''redis.total_connections'', 2.6, 0.30, 6 * real_of_int 950400),
     (''redis.expired_keys'', 3.3, 0.30, 120 * real_of_int 950400),
     (''redis.keyspace_hits'', 1.2, 0.30, 7600 * real_of_int 950400),
     (''redis.keyspace_misses'', 4.4, 0.30, 80 * real_of_int 950400),
     (''redis.evicted_keys'', 5.0, 0.18, 0.0)]"

definition redis_pressure :: "incident_cfg \<Rightarrow> dstate \<Rightarrow> (sim, real) state" where
  "redis_pressure cfg d =
     do {
       ds \<leftarrow> degraded_seconds d;
       let deg = (if ds \<le> 0 then 0.0 else (if ic_fill cfg \<le> 0 then 1.0 else min 1.0 (ds / (ic_fill cfg * 60.0))));
       let p = 0.7 * deg;
       r2 \<leftarrow> host_broken_seconds d;
       p \<leftarrow> (if r2 > 0 then do {
         r3 \<leftarrow> break_ramp cfg d 1.0;
         let p = max p (0.7 + 0.3 * r3);
         State_Monad.return (p) } else State_Monad.return (p));
       State_Monad.return (max 0.0 (min 1.0 p)) }"

record redis_vals =
  rv_p :: "real"
  rv_used_memory :: "int"
  rv_hit_ratio :: "real"
  rv_evict_rate :: "real"
  rv_blocked :: "int"
  rv_connected :: "int"
  rv_mem_frag :: "real"

definition redis_derived :: "incident_cfg \<Rightarrow> dstate \<Rightarrow> (sim, redis_vals) state" where
  "redis_derived cfg d =
     do {
       p \<leftarrow> redis_pressure cfg d;
       let used_frac = lerp 0.4 1.0 p;
       g5 \<leftarrow> gauge ''redis.used'' 1.0 None (Some 0.01) 0 900;
       let used_memory = py_trunc (min (real_of_int 6442450944) (real_of_int 6442450944 * used_frac * g5));
       let hit_ratio = lerp 0.992 0.62 (p ^ 3);
       let evict_rate = (if p < 0.5 then 0.0 else lerp 0.0 5200.0 (((p - 0.5) / 0.5) ^ 2));
       r6 \<leftarrow> host_broken_seconds d;
       blocked \<leftarrow> (if r6 > 0 then do {
         r7 \<leftarrow> break_ramp cfg d 1.0;
         State_Monad.return (py_round (lerp 0 34 r7)) } else State_Monad.return (0));
       g9 \<leftarrow> gauge ''redis.conn'' (lerp 118 196 p) (Some 4) None 0.9 700;
       let connected = py_round g9;
       let mem_frag = round_dec 2 (lerp 1.18 1.02 p);
       State_Monad.return (\<lparr>rv_p = p, rv_used_memory = used_memory, rv_hit_ratio = hit_ratio, rv_evict_rate = evict_rate, rv_blocked = blocked, rv_connected = connected, rv_mem_frag = mem_frag\<rparr>) }"

section \<open>Disk health and filesystems\<close>

definition redis_smart_json :: "string \<Rightarrow> string \<Rightarrow> string \<Rightarrow> int \<Rightarrow> int \<Rightarrow> string" where
  "redis_smart_json nam model serial hours temp =
     (let doc = JObj [(''device'', JObj [(''name'', JStr nam),
         (''type'', JStr ''sat''),
         (''protocol'', JStr ''ATA'')]),
         (''model_name'', JStr model),
         (''serial_number'', JStr serial),
         (''smart_status'', JObj [(''passed'', JBool True)]),
         (''power_on_time'', JObj [(''hours'', JNum hours)]),
         (''temperature'', JObj [(''current'', JNum temp)]),
         (''ata_smart_attributes'', JObj [(''table'', JArr [JObj [(''id'', JNum 5),
         (''name'', JStr ''Reallocated_Sector_Ct''),
         (''value'', JNum 100),
         (''thresh'', JNum 10),
         (''raw'', JObj [(''value'', JNum 0)])],
         JObj [(''id'', JNum 12),
         (''name'', JStr ''Power_Cycle_Count''),
         (''value'', JNum 100),
         (''thresh'', JNum 0),
         (''raw'', JObj [(''value'', JNum 17)])],
         JObj [(''id'', JNum 187),
         (''name'', JStr ''Reported_Uncorrect''),
         (''value'', JNum 100),
         (''thresh'', JNum 0),
         (''raw'', JObj [(''value'', JNum 0)])],
         JObj [(''id'', JNum 197),
         (''name'', JStr ''Current_Pending_Sector''),
         (''value'', JNum 100),
         (''thresh'', JNum 0),
         (''raw'', JObj [(''value'', JNum 0)])],
         JObj [(''id'', JNum 199),
         (''name'', JStr ''UDMA_CRC_Error_Count''),
         (''value'', JNum 200),
         (''thresh'', JNum 0),
         (''raw'', JObj [(''value'', JNum 0)])],
         JObj [(''id'', JNum 177),
         (''name'', JStr ''Wear_Leveling_Count''),
         (''value'', JNum 97),
         (''thresh'', JNum 5),
         (''raw'', JObj [(''value'', JNum 71)])]])])]
      in dumps (doc))"

definition redis_filesystem_usage :: "incident_cfg \<Rightarrow> real \<Rightarrow> (sim, int \<times> int) state" where
  "redis_filesystem_usage cfg now =
     do {
       let uptime = now - hc_start cfg + real_of_int 950400;
       let day = 86400.0;
       let root_base = 11534336;
       let root_logs = 1048576 * (real_mod now day / day);
       let root_growth = min 1572864 (uptime * 0.04);
       g10 \<leftarrow> gauge ''fs.root'' 0 (Some 80000) None 0 1500;
       let root_used = py_trunc (real_of_int root_base + root_logs + root_growth + g10);
       let redis_base = 6291456;
       let redis_rdb = 1572864 * (real_mod now 720.0 / 720.0);
       let redis_growth = min 2097152 (uptime * 0.3);
       g11 \<leftarrow> gauge ''fs.redis'' 0 (Some 120000) None 0 900;
       let redis_used = py_trunc (real_of_int redis_base + redis_rdb + redis_growth + g11);
       State_Monad.return ((root_used, redis_used)) }"

section \<open>The agent output\<close>

record redis_clock_vals =
  redis_k_now :: "int"
  redis_k_uptime :: "int"
  redis_k_broken :: "bool"
  redis_k_p :: "real"
  redis_k_r :: "redis_vals"

definition redis_clock :: "incident_cfg \<Rightarrow> string \<Rightarrow> dstate \<Rightarrow> (sim, redis_clock_vals) state" where
  "redis_clock cfg sta d =
     do {
       t12 \<leftarrow> get_time;
       let now = py_trunc t12;
       t13 \<leftarrow> get_time;
       let uptime = py_trunc (t13 - hc_start cfg) + 950400;
       let broken = sta = ''broken'';
       p \<leftarrow> redis_pressure cfg d;
       r \<leftarrow> redis_derived cfg d;
       State_Monad.return (\<lparr>redis_k_now = now,
         redis_k_uptime = uptime,
         redis_k_broken = broken,
         redis_k_p = p,
         redis_k_r = r\<rparr>) }"

record redis_memory_vals =
  redis_m_commit_limit :: "int"
  redis_m_redis_rss_kb :: "int"
  redis_m_anon :: "int"
  redis_m_cached :: "int"
  redis_m_buffers :: "int"
  redis_m_mem_free :: "int"
  redis_m_swap_free :: "int"
  redis_m_committed :: "int"
  redis_m_mem_available :: "int"
  redis_m_a_anon :: "int"
  redis_m_i_anon :: "int"
  redis_m_a_file :: "int"
  redis_m_i_file :: "int"
  redis_m_slab :: "int"
  redis_m_kernel_stack :: "int"
  redis_m_dirty :: "int"

definition redis_memory :: "redis_clock_vals \<Rightarrow> (sim, redis_memory_vals) state" where
  "redis_memory kv =
     do {
       let commit_limit = 4194300 + 16384000 div 2;
       let redis_rss_kb = (rv_used_memory (redis_k_r kv)) div 1024 + 180000;
       let anon = redis_rss_kb + 1350000;
       g16 \<leftarrow> gauge ''mem.cached'' (lerp 6500000 2400000 (redis_k_p kv)) None (Some 0.02) 0.4 1500;
       let cached = py_trunc g16;
       g17 \<leftarrow> gauge ''mem.buffers'' 240000 None (Some 0.03) 1.3 1700;
       let buffers = py_trunc g17;
       let caches = cached + buffers + 0 + 412160;
       let mem_free = max 300000 (16384000 - anon - caches - 700000);
       let swap_free = 4194300 - 0;
       g18 \<leftarrow> gauge ''mem.committed'' (real_of_int (anon + caches + 1200000)) None (Some 0.01) 1.2 1700;
       let committed = py_trunc g18;
       let anon_lru = anon + 49152;
       let file_lru = max 0 (buffers + cached - 49152);
       let mem_available = max mem_free (mem_free + file_lru + 412160);
       let a_anon = py_trunc (real_of_int anon_lru * 0.62);
       let i_anon = anon_lru - a_anon;
       let a_file = py_trunc (real_of_int file_lru * 0.34);
       let i_file = file_lru - a_file;
       let slab = 412160 + 118784;
       let kernel_stack = 240 * 16;
       g19 \<leftarrow> gauge ''mem.dirty'' 9216 None (Some 0.18) 2.0 800;
       let dirty = max 4096 (py_trunc g19);
       State_Monad.return (\<lparr>redis_m_commit_limit = commit_limit,
         redis_m_redis_rss_kb = redis_rss_kb,
         redis_m_anon = anon,
         redis_m_cached = cached,
         redis_m_buffers = buffers,
         redis_m_mem_free = mem_free,
         redis_m_swap_free = swap_free,
         redis_m_committed = committed,
         redis_m_mem_available = mem_available,
         redis_m_a_anon = a_anon,
         redis_m_i_anon = i_anon,
         redis_m_a_file = a_file,
         redis_m_i_file = i_file,
         redis_m_slab = slab,
         redis_m_kernel_stack = kernel_stack,
         redis_m_dirty = dirty\<rparr>) }"

record redis_load_vals =
  redis_re_l1 :: "real"
  redis_re_l5 :: "real"
  redis_re_l15 :: "real"
  redis_re_runnable :: "int"
  redis_re_total_procs :: "int"

definition redis_load :: "redis_clock_vals \<Rightarrow> (sim, redis_load_vals) state" where
  "redis_load kv =
     do {
       let base_l = lerp 0.55 2.6 (redis_k_p kv);
       g20 \<leftarrow> gauge ''load1'' 1.0 None (Some 0.25) 0.2 300;
       let l1 = round_dec 2 (base_l * g20);
       g21 \<leftarrow> gauge ''load5'' 1.0 None (Some 0.14) 1.0 900;
       let l5 = round_dec 2 (base_l * 0.94 * g21);
       g22 \<leftarrow> gauge ''load15'' 1.0 None (Some 0.07) 2.0 2400;
       let l15 = round_dec 2 (base_l * 0.88 * g22);
       let runnable = 1 + py_round (redis_k_p kv);
       let total_procs = py_round (lerp 286 320 (redis_k_p kv));
       State_Monad.return (\<lparr>redis_re_l1 = l1,
         redis_re_l5 = l5,
         redis_re_l15 = l15,
         redis_re_runnable = runnable,
         redis_re_total_procs = total_procs\<rparr>) }"

record redis_ticks_vals =
  redis_re_user :: "int"
  redis_re_system :: "int"
  redis_re_idle :: "int"
  redis_re_iowait :: "int"
  redis_re_pgmaj_rate :: "real"

definition redis_ticks :: "redis_clock_vals \<Rightarrow> (sim, redis_ticks_vals) state" where
  "redis_ticks kv =
     do {
       user \<leftarrow> fsample ''cpu.user'' (lerp 46 92 (redis_k_p kv));
       system \<leftarrow> fsample ''cpu.system'' (lerp 22 50 (redis_k_p kv));
       idle \<leftarrow> fsample ''cpu.idle'' (lerp 322 252 (redis_k_p kv));
       iowait \<leftarrow> fsample ''cpu.iowait'' (lerp 4 9 (redis_k_p kv));
       let pgmaj_rate = lerp 0.4 2.0 (redis_k_p kv);
       State_Monad.return (\<lparr>redis_re_user = user,
         redis_re_system = system,
         redis_re_idle = idle,
         redis_re_iowait = iowait,
         redis_re_pgmaj_rate = pgmaj_rate\<rparr>) }"

record redis_disk_vals =
  redis_d_sda_rd :: "int"
  redis_d_sda_rdt :: "int"
  redis_d_sda_wr :: "int"
  redis_d_sda_wrt :: "int"
  redis_d_sda_iot :: "int"

definition redis_disk :: "redis_clock_vals \<Rightarrow> (sim, redis_disk_vals) state" where
  "redis_disk kv =
     do {
       sda_rd \<leftarrow> fsample ''sda.rd_ios'' (lerp 3 8 (redis_k_p kv));
       sda_rdt \<leftarrow> fsample ''sda.rd_ticks'' (lerp 2 6 (redis_k_p kv));
       sda_wr \<leftarrow> fsample ''sda.wr_ios'' (lerp 28 70 (redis_k_p kv));
       sda_wrt \<leftarrow> fsample ''sda.wr_ticks'' (lerp 20 60 (redis_k_p kv));
       sda_iot \<leftarrow> fsample ''sda.io_ticks'' (lerp 24 90 (redis_k_p kv));
       State_Monad.return (\<lparr>redis_d_sda_rd = sda_rd,
         redis_d_sda_rdt = sda_rdt,
         redis_d_sda_wr = sda_wr,
         redis_d_sda_wrt = sda_wrt,
         redis_d_sda_iot = sda_iot\<rparr>) }"

definition redis_net :: "redis_clock_vals \<Rightarrow> (sim, int \<times> int \<times> int \<times> int) state" where
  "redis_net kv =
     do {
       rx_bytes \<leftarrow> fsample ''net.rx_bytes'' (lerp 2400000 2900000 (redis_k_p kv));
       tx_bytes \<leftarrow> fsample ''net.tx_bytes'' (lerp 3100000 2200000 (redis_k_p kv));
       rx_pkts \<leftarrow> fsample ''net.rx_pkts'' 9400;
       tx_pkts \<leftarrow> fsample ''net.tx_pkts'' 9600;
       State_Monad.return ((rx_bytes, tx_bytes, rx_pkts, tx_pkts)) }"

record redis_commands_vals =
  redis_c_cmds :: "int"
  redis_c_conns :: "int"
  redis_c_expired :: "int"
  redis_c_hits :: "int"
  redis_c_misses :: "int"
  redis_c_evicted :: "int"
  redis_c_instantaneous_ops :: "int"

definition redis_commands :: "redis_clock_vals \<Rightarrow> (sim, redis_commands_vals) state" where
  "redis_commands kv =
     do {
       cmds \<leftarrow> fsample ''redis.total_commands'' (lerp 8000 6400 (redis_k_p kv));
       conns \<leftarrow> fsample ''redis.total_connections'' 6;
       expired \<leftarrow> fsample ''redis.expired_keys'' (lerp 120 150 (redis_k_p kv));
       hits \<leftarrow> fsample ''redis.keyspace_hits'' (lerp 7600 4100 (redis_k_p kv));
       misses \<leftarrow> fsample ''redis.keyspace_misses'' (lerp 80 2600 (redis_k_p kv));
       evicted \<leftarrow> fsample ''redis.evicted_keys'' (rv_evict_rate (redis_k_r kv));
       g42 \<leftarrow> gauge ''redis.iops'' (lerp 8000 6400 (redis_k_p kv)) None (Some 0.08) 2.2 600;
       let instantaneous_ops = py_round g42;
       State_Monad.return (\<lparr>redis_c_cmds = cmds,
         redis_c_conns = conns,
         redis_c_expired = expired,
         redis_c_hits = hits,
         redis_c_misses = misses,
         redis_c_evicted = evicted,
         redis_c_instantaneous_ops = instantaneous_ops\<rparr>) }"

definition redis_smart :: "redis_clock_vals \<Rightarrow> (sim, string) state" where
  "redis_smart kv =
     do {
       g43 \<leftarrow> gauge ''smart.sda.temp'' 30 (Some 1.2) None 2.1 1100;
       let sda_temp = py_round g43;
       let sda_smart = redis_smart_json ''/dev/sda'' ''SAMSUNG MZ7L3480HCHQ-00A07'' ''S6KSNX0T901244'' (py_trunc (real_of_int (redis_k_uptime kv) / 3600) + 21000) sda_temp;
       State_Monad.return (sda_smart) }"

definition redis_head :: "incident_cfg \<Rightarrow> redis_clock_vals \<Rightarrow> string list" where
  "redis_head cfg kv =
     (let cert_to = strftime ''%a, %d %b %Y %H:%M:%S +0000'' (gmtime (redis_k_now kv + 331 * 86400))
      in [
       ''<<<check_mk>>>'',
       ''Version: '' @ hc_version cfg,
       ''AgentOS: linux'',
       ''Hostname: '' @ hc_hostname cfg,
       ''InstallationDirectory: /opt/checkmk/agent/default'',
       ''PackageDirectory: /opt/checkmk/agent/default/package'',
       ''RuntimeDirectory: /opt/checkmk/agent/default/runtime'',
       ''OSType: linux'',
       ''OSName: Ubuntu'',
       ''OSVersion: 24.04'',
       ''OSPlatform: ubuntu'',
       ''FailedPythonReason: '',
       ''SSHClient: '',
       ''<<<cmk_agent_ctl_status:sep(0)>>>'',
       dumps (JObj [(''version'', JStr (hc_version cfg)),
         (''agent_socket_operational'', JBool True),
         (''ip_allowlist'', JArr []),
         (''allow_legacy_pull'', JBool False),
         (''connections'', JArr [JObj [(''site_id'', JStr ''monitoring/prod''),
         (''receiver_port'', JNum 8000),
         (''uuid'', JStr ''c47a9e21-3b58-4d10-8e6f-1a2b3c4d5e6f''),
         (''local'', JObj [(''connection_mode'', JStr ''pull-agent''), (''cert_info'', JObj [(''issuer'', JStr (''Site '' @ [CHR 0x27] @ ''prod'' @ [CHR 0x27] @ '' local CA'')),
         (''from'', JStr ''Mon, 02 Jun 2025 07:41:09 +0000''),
         (''to'', JStr cert_to)])]),
         (''remote'', JStr ''remote_query_disabled'')]])]),
       ''<<<checkmk_agent_plugins_lnx:sep(0)>>>'',
       ''pluginsdir /opt/checkmk/agent/default/package/plugins'',
       ''localdir /opt/checkmk/agent/default/package/local'',
       ''/opt/checkmk/agent/default/package/plugins/86400/mk_apt:CMK_VERSION='' @ [CHR 0x22] @ hc_version cfg @ [CHR 0x22],
       ''/opt/checkmk/agent/default/package/plugins/0/mk_redis:CMK_VERSION='' @ [CHR 0x22] @ hc_version cfg @ [CHR 0x22]])"

definition redis_df :: "incident_cfg \<Rightarrow> (sim, string list) state" where
  "redis_df cfg =
     do {
       t44 \<leftarrow> get_time;
       r45 \<leftarrow> redis_filesystem_usage cfg t44;
       let (root_used, redis_used) = r45;
       State_Monad.return ([
       ''<<<df_v2>>>'',
       ''/dev/sda1 ext4 '' @ int_str 41943040 @ '' '' @ int_str root_used @ '' '' @ int_str (41943040 - root_used) @ '' '' @ int_str (py_round (real_of_int root_used / (real_of_int 41943040) * 100)) @ ''% /'',
       ''/dev/sda2 ext4 '' @ int_str 41943040 @ '' '' @ int_str redis_used @ '' '' @ int_str (41943040 - redis_used) @ '' '' @ int_str (py_round (real_of_int redis_used / (real_of_int 41943040) * 100)) @ ''% /var/lib/redis'',
       ''[df_inodes_start]'',
       ''/dev/sda1 ext4 2621440 268914 '' @ int_str (2621440 - 268914) @ '' 11% /'',
       ''/dev/sda2 ext4 2621440 38 '' @ int_str (2621440 - 38) @ '' 1% /var/lib/redis'',
       ''[df_inodes_end]'',
       ''<<<mounts>>>'',
       ''/dev/sda1 / ext4 rw,relatime,errors=remount-ro 0 0'',
       ''/dev/sda2 /var/lib/redis ext4 rw,noatime 0 0'']) }"

definition redis_mem :: "redis_memory_vals \<Rightarrow> string list" where
  "redis_mem mv =
     [
       ''<<<mem>>>'',
       ''MemTotal:       '' @ int_str 16384000 @ '' kB'',
       ''MemFree:        '' @ int_str (redis_m_mem_free mv) @ '' kB'',
       ''MemAvailable:   '' @ int_str (redis_m_mem_available mv) @ '' kB'',
       ''Buffers:        '' @ int_str (redis_m_buffers mv) @ '' kB'',
       ''Cached:         '' @ int_str (redis_m_cached mv) @ '' kB'',
       ''SwapCached:     '' @ int_str 0 @ '' kB'',
       ''Active:         '' @ int_str (redis_m_a_anon mv + redis_m_a_file mv) @ '' kB'',
       ''Inactive:       '' @ int_str (redis_m_i_anon mv + redis_m_i_file mv) @ '' kB'',
       ''Active(anon):   '' @ int_str (redis_m_a_anon mv) @ '' kB'',
       ''Inactive(anon): '' @ int_str (redis_m_i_anon mv) @ '' kB'',
       ''Active(file):   '' @ int_str (redis_m_a_file mv) @ '' kB'',
       ''Inactive(file): '' @ int_str (redis_m_i_file mv) @ '' kB'',
       ''Unevictable:    0 kB'',
       ''Mlocked:        0 kB'',
       ''SwapTotal:      '' @ int_str 4194300 @ '' kB'',
       ''SwapFree:       '' @ int_str (redis_m_swap_free mv) @ '' kB'',
       ''Zswap:          0 kB'',
       ''Zswapped:       0 kB'',
       ''Dirty:          '' @ int_str (redis_m_dirty mv) @ '' kB'',
       ''Writeback:      0 kB'',
       ''AnonPages:      '' @ int_str (redis_m_anon mv) @ '' kB'',
       ''Mapped:         286720 kB'',
       ''Shmem:          '' @ int_str 49152 @ '' kB'',
       ''KReclaimable:   '' @ int_str 412160 @ '' kB'',
       ''Slab:           '' @ int_str (redis_m_slab mv) @ '' kB'',
       ''SReclaimable:   '' @ int_str 412160 @ '' kB'',
       ''SUnreclaim:     118784 kB'',
       ''KernelStack:    '' @ int_str (redis_m_kernel_stack mv) @ '' kB'',
       ''PageTables:     46080 kB'',
       ''SecPageTables:  0 kB'',
       ''NFS_Unstable:   0 kB'',
       ''Bounce:         0 kB'',
       ''WritebackTmp:   0 kB'',
       ''CommitLimit:    '' @ int_str (redis_m_commit_limit mv) @ '' kB'',
       ''Committed_AS:   '' @ int_str (redis_m_committed mv) @ '' kB'',
       ''VmallocTotal:   34359738367 kB'',
       ''VmallocUsed:    48128 kB'',
       ''VmallocChunk:   0 kB'',
       ''Percpu:         13312 kB'',
       ''HardwareCorrupted: 0 kB'',
       ''AnonHugePages:  0 kB'',
       ''ShmemHugePages: 0 kB'',
       ''ShmemPmdMapped: 0 kB'',
       ''FileHugePages:  0 kB'',
       ''FilePmdMapped:  0 kB'',
       ''CmaTotal:       0 kB'',
       ''CmaFree:        0 kB'',
       ''Unaccepted:     0 kB'',
       ''Balloon:        0 kB'',
       ''HugePages_Total:       0'',
       ''HugePages_Free:        0'',
       ''HugePages_Rsvd:        0'',
       ''HugePages_Surp:        0'',
       ''Hugepagesize:       2048 kB'',
       ''Hugetlb:        0 kB'',
       ''DirectMap4k:    253900 kB'',
       ''DirectMap2M:    6035456 kB'',
       ''DirectMap1G:    11534336 kB'']"

definition redis_cpu :: "redis_clock_vals \<Rightarrow> redis_load_vals \<Rightarrow> (sim, string list) state" where
  "redis_cpu kv lv =
     do {
       c46 \<leftarrow> fsample ''kernel.processes'' 4;
       State_Monad.return ([
       ''<<<cpu>>>'',
       float_str 2 (redis_re_l1 lv) @ '' '' @ float_str 2 (redis_re_l5 lv) @ '' '' @ float_str 2 (redis_re_l15 lv) @ '' '' @ int_str (redis_re_runnable lv) @ ''/'' @ int_str (redis_re_total_procs lv) @ '' '' @ int_str (31000 + c46 mod 9999) @ '' '' @ int_str 4,
       ''<<<uptime>>>'',
       int_str (redis_k_uptime kv) @ ''.00 '' @ int_str (py_trunc (real_of_int (redis_k_uptime kv) * 3.6)) @ ''.00'']) }"

definition redis_timesync :: "incident_cfg \<Rightarrow> (nat \<Rightarrow> int) \<Rightarrow> redis_clock_vals \<Rightarrow> (sim, string list) state" where
  "redis_timesync cfg ri kv =
     do {
       let last_sync = redis_k_now kv - py_trunc (real_mod (real_of_int (redis_k_now kv) - hc_start cfg) 2048);
       let sync_str = strftime ''%a %Y-%m-%d %H:%M:%S UTC'' (gmtime last_sync);
       let offset_us = (ri 0);
       t47 \<leftarrow> get_time;
       State_Monad.return ([
       ''<<<timesyncd>>>'',
       ''       Server: 185.125.190.57 (ntp.ubuntu.com)'',
       ''Poll interval: 34min 8s (min: 32s; max 34min 8s)'',
       ''         Leap: normal'',
       ''      Version: 4'',
       ''      Stratum: 2'',
       ''    Reference: C2A85B11'',
       ''    Precision: 1us (-25)'',
       ''Root distance: 11.482ms (max: 5s)'',
       ''       Offset: '' @ signed_str offset_us @ ''us'',
       ''        Delay: 17.221ms'',
       ''       Jitter: '' @ fixed_str 3 (real_of_int (ri 1) / 1000) @ ''ms'',
       '' Packet count: '' @ int_str (712 + py_trunc ((t47 - hc_start cfg) / 2048)),
       ''    Frequency: -4.227ppm'',
       ''[[['' @ int_str last_sync @ '']]]'',
       ''<<<timesyncd_ntpmessage:sep(10)>>>'',
       ''NTPMessage={ Leap=0, Version=4, Mode=4, Stratum=2, Precision=-25, RootDelay=8.118ms, RootDispersion=1.007ms, Reference=C2A85B11, OriginateTimestamp='' @ sync_str @ '', ReceiveTimestamp='' @ sync_str @ '', TransmitTimestamp='' @ sync_str @ '', DestinationTimestamp='' @ sync_str @ '', Ignored=no, PacketCount=61, Jitter=0.984ms }'',
       ''Timezone=UTC'']) }"

definition redis_apt :: "string list" where
  "redis_apt =
     [
       ''<<<apt:sep(0)>>>'',
       ''No updates pending for installation'']"

definition redis_kernel :: "redis_clock_vals \<Rightarrow> redis_ticks_vals \<Rightarrow> (sim, string list) state" where
  "redis_kernel kv tv =
     do {
       c48 \<leftarrow> fsample ''kernel.ctxt'' 4800;
       c49 \<leftarrow> fsample ''kernel.processes'' 4;
       c50 \<leftarrow> fsample ''kernel.pgmajfault'' (redis_re_pgmaj_rate tv);
       State_Monad.return ([
       ''<<<kernel>>>'',
       int_str (redis_k_now kv),
       ''cpu '' @ int_str (redis_re_user tv) @ '' 0 '' @ int_str (redis_re_system tv) @ '' '' @ int_str (redis_re_idle tv) @ '' '' @ int_str (redis_re_iowait tv) @ '' 0 0 0 0 0'',
       ''ctxt '' @ int_str c48,
       ''processes '' @ int_str c49,
       ''pgmajfault '' @ int_str c50]) }"

definition redis_diskstat :: "redis_clock_vals \<Rightarrow> redis_disk_vals \<Rightarrow> string list" where
  "redis_diskstat kv dv =
     [
       ''<<<diskstat>>>'',
       int_str (redis_k_now kv),
       ''8 0 sda '' @ int_str (redis_d_sda_rd dv) @ '' 0 '' @ int_str (redis_d_sda_rd dv * 24) @ '' '' @ int_str (redis_d_sda_rdt dv) @ '' '' @ int_str (redis_d_sda_wr dv) @ '' 0 '' @ int_str (redis_d_sda_wr dv * 40) @ '' '' @ int_str (redis_d_sda_wrt dv) @ '' 0 '' @ int_str (redis_d_sda_iot dv) @ '' '' @ int_str (redis_d_sda_iot dv * 2) @ '' 0 0 0 0'']"

definition redis_if :: "int \<Rightarrow> int \<Rightarrow> int \<Rightarrow> int \<Rightarrow> string list" where
  "redis_if rx_bytes tx_bytes rx_pkts tx_pkts =
     [
       ''<<<lnx_if>>>'',
       ''[start_iplink]'',
       ''1: lo: <LOOPBACK,UP,LOWER_UP> mtu 65536 qdisc noqueue state UNKNOWN group default qlen 1000'',
       ''    link/loopback 00:00:00:00:00:00 brd 00:00:00:00:00:00'',
       ''2: eth0: <BROADCAST,MULTICAST,UP,LOWER_UP> mtu 1500 qdisc fq_codel state UP group default qlen 1000'',
       ''    link/ether 02:42:ac:11:00:2c brd ff:ff:ff:ff:ff:ff'',
       ''[end_iplink]'',
       ''<<<lnx_if:sep(58)>>>'',
       ''eth0: '' @ int_str rx_bytes @ '' '' @ int_str rx_pkts @ '' 0 0 0 0 0 0 '' @ int_str tx_bytes @ '' '' @ int_str tx_pkts @ '' 0 0 0 0 0 0'',
       ''[eth0]'',
       TAB @ ''Speed: 10000Mb/s'',
       TAB @ ''Duplex: Full'',
       TAB @ ''Auto-negotiation: on'',
       TAB @ ''Link detected: yes'',
       ''Address: 02:42:ac:11:00:2c'']"

definition redis_tcp :: "(nat \<Rightarrow> int) \<Rightarrow> redis_clock_vals \<Rightarrow> (sim, string list) state" where
  "redis_tcp ri kv =
     do {
       g51 \<leftarrow> gauge ''tcp.estab'' (real_of_int (rv_connected (redis_k_r kv))) (Some 4) None 0.9 700;
       g52 \<leftarrow> gauge ''tcp.timewait'' 12 (Some 3) None 2.4 500;
       State_Monad.return ([
       ''<<<tcp_conn_stats>>>'',
       ''01 '' @ int_str (py_round g51),
       ''02 '' @ int_str (ri 2),
       ''06 '' @ int_str (py_round g52),
       ''0A 4'']) }"

definition redis_smart_section :: "string \<Rightarrow> string list" where
  "redis_smart_section sda_smart =
     [
       ''<<<smart_posix_all:sep(0)>>>'',
       sda_smart]"

definition redis_info :: "incident_cfg \<Rightarrow> dstate \<Rightarrow> redis_clock_vals \<Rightarrow> redis_ticks_vals \<Rightarrow> int \<Rightarrow> int \<Rightarrow> redis_commands_vals \<Rightarrow> (sim, string list) state" where
  "redis_info cfg d kv tv rx_bytes tx_bytes cv =
     do {
       b54 \<leftarrow> (if (redis_k_broken kv) then do {
         r53 \<leftarrow> break_ramp cfg d 1.0;
         State_Monad.return (r53 > 0.5) } else State_Monad.return False);
       let bgsave_ok = \<not> b54;
       let rdb_last_save = redis_k_now kv - (redis_k_now kv) mod 720 - (if bgsave_ok then 0 else 720);
       g55 \<leftarrow> gauge ''redis.rdbchanges'' (lerp 2400 18000 (redis_k_p kv)) None (Some 0.1) 3.1 600;
       let rdb_changes = py_trunc g55;
       g56 \<leftarrow> gauge ''redis.inkbps'' 480 None (Some 0.12) 0 600;
       g57 \<leftarrow> gauge ''redis.outkbps'' 1240 None (Some 0.12) 0 600;
       State_Monad.return ([
       ''<<<redis_info:sep(58)>>>'',
       ''[[['' @ ''MERIDIAN_CACHE'' @ ''|127.0.0.1|6379]]]'',
       ''# Server'',
       ''redis_version:7.0.15'',
       ''redis_git_sha1:00000000'',
       ''redis_git_dirty:0'',
       ''redis_build_id:b3f8c2a9d4e15067'',
       ''redis_mode:standalone'',
       ''os:Linux 6.8.0-48-generic x86_64'',
       ''arch_bits:64'',
       ''multiplexing_api:epoll'',
       ''atomicvar_api:c11-builtin'',
       ''gcc_version:13.2.0'',
       ''process_id:1142'',
       ''run_id:9f3c1d7b2a8e6405f1c9b3a7d2e84f60c5b1a9d3'',
       ''tcp_port:6379'',
       ''uptime_in_seconds:'' @ int_str (redis_k_uptime kv),
       ''uptime_in_days:'' @ int_str ((redis_k_uptime kv) div 86400),
       ''hz:10'',
       ''lru_clock:'' @ int_str ((redis_k_now kv) mod 16777216),
       ''executable:/usr/bin/redis-server'',
       ''config_file:/etc/redis/redis.conf'',
       ''# Clients'',
       ''connected_clients:'' @ int_str (rv_connected (redis_k_r kv)),
       ''cluster_connections:0'',
       ''maxclients:10000'',
       ''client_recent_max_input_buffer:20480'',
       ''client_recent_max_output_buffer:0'',
       ''blocked_clients:'' @ int_str (rv_blocked (redis_k_r kv)),
       ''tracking_clients:0'',
       ''clients_in_timeout_table:0'',
       ''# Memory'',
       ''used_memory:'' @ int_str (rv_used_memory (redis_k_r kv)),
       ''used_memory_human:'' @ fixed_str 2 (real_of_int (rv_used_memory (redis_k_r kv)) / 1024 / 1024 / 1024) @ ''G'',
       ''used_memory_rss:'' @ int_str (py_trunc (real_of_int (rv_used_memory (redis_k_r kv)) * 1.04)),
       ''used_memory_peak:'' @ int_str (max (rv_used_memory (redis_k_r kv)) (py_trunc (real_of_int 6442450944 * 0.42))),
       ''used_memory_lua:'' @ int_str 37888,
       ''maxmemory:'' @ int_str 6442450944,
       ''maxmemory_human:'' @ fixed_str 2 (real_of_int 6442450944 / 1024 / 1024 / 1024) @ ''G'',
       ''maxmemory_policy:allkeys-lru'',
       ''mem_fragmentation_ratio:'' @ float_str 2 (rv_mem_frag (redis_k_r kv)),
       ''mem_allocator:jemalloc-5.3.0'',
       ''# Persistence'',
       ''loading:0'',
       ''rdb_changes_since_last_save:'' @ int_str rdb_changes,
       ''rdb_bgsave_in_progress:0'',
       ''rdb_last_save_time:'' @ int_str rdb_last_save,
       ''rdb_last_bgsave_status:'' @ (if bgsave_ok then ''ok'' else ''err''),
       ''rdb_last_bgsave_time_sec:'' @ int_str (if bgsave_ok then 1 else (- 1)),
       ''rdb_current_bgsave_time_sec:-1'',
       ''rdb_last_cow_size:8388608'',
       ''aof_enabled:0'',
       ''aof_rewrite_in_progress:0'',
       ''aof_rewrite_scheduled:0'',
       ''aof_last_rewrite_time_sec:-1'',
       ''aof_current_rewrite_time_sec:-1'',
       ''aof_last_bgrewrite_status:ok'',
       ''aof_last_write_status:ok'',
       ''aof_last_cow_size:0'',
       ''# Stats'',
       ''total_connections_received:'' @ int_str (redis_c_conns cv),
       ''total_commands_processed:'' @ int_str (redis_c_cmds cv),
       ''instantaneous_ops_per_sec:'' @ int_str (redis_c_instantaneous_ops cv),
       ''total_net_input_bytes:'' @ int_str rx_bytes,
       ''total_net_output_bytes:'' @ int_str tx_bytes,
       ''expired_keys:'' @ int_str (redis_c_expired cv),
       ''evicted_keys:'' @ int_str (redis_c_evicted cv),
       ''keyspace_hits:'' @ int_str (redis_c_hits cv),
       ''keyspace_misses:'' @ int_str (redis_c_misses cv),
       ''pubsub_channels:6'',
       ''pubsub_patterns:0'',
       ''instantaneous_input_kbps:'' @ fixed_str 2 g56,
       ''instantaneous_output_kbps:'' @ fixed_str 2 g57,
       ''rejected_connections:0'',
       ''# Replication'',
       ''role:master'',
       ''connected_slaves:1'',
       ''master_failover_state:no-failover'',
       ''# CPU'',
       ''used_cpu_sys:'' @ fixed_str 2 (real_of_int (redis_re_system tv) / 100),
       ''used_cpu_user:'' @ fixed_str 2 (real_of_int (redis_re_user tv) / 100),
       ''# Keyspace'',
       ''db0:keys='' @ int_str (py_trunc (lerp 420000 1180000 (redis_k_p kv))) @ '',expires='' @ int_str (py_trunc (lerp 390000 410000 (redis_k_p kv))) @ '',avg_ttl='' @ int_str (py_trunc (lerp 540000 90 (redis_k_p kv)))]) }"

definition redis_ps :: "redis_clock_vals \<Rightarrow> redis_memory_vals \<Rightarrow> string list" where
  "redis_ps kv mv =
     (let redis_vsz = redis_m_redis_rss_kb mv + 220000
      in [
       ''<<<ps_lnx>>>'',
       ''[time]'',
       int_str (redis_k_now kv),
       ''[processes]'',
       ''[header] CGROUP USER VSZ RSS TIME ELAPSED PID COMMAND''] @
      concat (map (\<lambda>(cgs, usr, vsz, rss, cputime, pid, cmd). [
       ''0::/'' @ cgs @ '' '' @ usr @ '' '' @ int_str vsz @ '' '' @ int_str rss @ '' '' @ cputime @ '' 11-04:18:22 '' @ int_str pid @ '' '' @ cmd]) ([
       (''init.scope'', ''root'', 168000, 12400, ''00:00:28'', 1, ''/sbin/init''),
       (''system.slice/systemd-journald.service'', ''root'', 56700, 18900, ''00:01:11'', 398, ''/usr/lib/systemd/systemd-journald''),
       (''system.slice/systemd-udevd.service'', ''root'', 25400, 7700, ''00:00:02'', 431, ''/usr/lib/systemd/systemd-udevd''),
       (''system.slice/systemd-resolved.service'', ''systemd-resolve'', 26300, 12900, ''00:00:39'', 482, ''/usr/lib/systemd/systemd-resolved''),
       (''system.slice/systemd-timesyncd.service'', ''systemd-timesync'', 91000, 7500, ''00:00:09'', 497, ''/usr/lib/systemd/systemd-timesyncd''),
       (''system.slice/dbus.service'', ''messagebus'', 10100, 5000, ''00:00:15'', 509, ''@dbus-daemon --system --address=systemd:''),
       (''system.slice/rsyslog.service'', ''syslog'', 222400, 6500, ''00:00:33'', 604, ''/usr/sbin/rsyslogd -n -iNONE''),
       (''system.slice/ssh.service'', ''root'', 15400, 9000, ''00:00:01'', 681, ''sshd: /usr/sbin/sshd -D [listener]''),
       (''system.slice/cron.service'', ''root'', 11500, 2400, ''00:00:02'', 695, ''/usr/sbin/cron -f -P''),
       (''system.slice/containerd.service'', ''root'', 1810000, 39800, ''01:31:02'', 742, ''/usr/bin/containerd'')])) @
      [
       ''0::/system.slice/redis-server.service redis '' @ int_str redis_vsz @ '' '' @ int_str (redis_m_redis_rss_kb mv) @ '' 13:42:09 11-04:17:55 1142 /usr/bin/redis-server 127.0.0.1:6379''])"

definition redis_units :: "string list" where
  "redis_units =
     (let units = [
       (''redis-server.service'', ''active'', ''running'', ''Advanced key-value store''),
       (''ssh.service'', ''active'', ''running'', ''OpenBSD Secure Shell server''),
       (''cron.service'', ''active'', ''running'', ''Regular background program processing daemon''),
       (''containerd.service'', ''active'', ''running'', ''containerd container runtime''),
       (''dbus.service'', ''active'', ''running'', ''D-Bus System Message Bus''),
       (''getty@tty1.service'', ''active'', ''running'', ''Getty on tty1''),
       (''irqbalance.service'', ''active'', ''running'', ''irqbalance daemon''),
       (''multipathd.service'', ''active'', ''running'', ''Device-Mapper Multipath Device Controller''),
       (''networkd-dispatcher.service'', ''active'', ''running'', ''Dispatcher daemon for systemd-networkd''),
       (''polkit.service'', ''active'', ''running'', ''Authorization Manager''),
       (''rsyslog.service'', ''active'', ''running'', ''System Logging Service''),
       (''snapd.service'', ''active'', ''running'', ''Snap Daemon''),
       (''systemd-journald.service'', ''active'', ''running'', ''Journal Service''),
       (''systemd-logind.service'', ''active'', ''running'', ''User Login Management''),
       (''systemd-networkd.service'', ''active'', ''running'', ''Network Configuration''),
       (''systemd-resolved.service'', ''active'', ''running'', ''Network Name Resolution''),
       (''systemd-timesyncd.service'', ''active'', ''running'', ''Network Time Synchronization''),
       (''systemd-udevd.service'', ''active'', ''running'', ''Rule-based Manager for Device Events and Files''),
       (''udisks2.service'', ''active'', ''running'', ''Disk Manager''),
       (''unattended-upgrades.service'', ''active'', ''running'', ''Unattended Upgrades Shutdown''),
       (''user@1000.service'', ''active'', ''running'', ''User Manager for UID 1000''),
       (''apparmor.service'', ''active'', ''exited'', ''Load AppArmor profiles''),
       (''blk-availability.service'', ''active'', ''exited'', ''Availability of block devices''),
       (''console-setup.service'', ''active'', ''exited'', ''Set console font and keymap''),
       (''finalrd.service'', ''active'', ''exited'', ''Create final runtime dir for shutdown pivot root''),
       (''keyboard-setup.service'', ''active'', ''exited'', ''Set the console keyboard layout''),
       (''lvm2-monitor.service'', ''active'', ''exited'', ''Monitoring of LVM2 mirrors, snapshots etc. using dmeventd or progress polling''),
       (''setvtrgb.service'', ''active'', ''exited'', ''Set console scheme''),
       (''snapd.seeded.service'', ''active'', ''exited'', ''Wait until snapd is fully seeded''),
       (''systemd-user-sessions.service'', ''active'', ''exited'', ''Permit User Sessions'')]
      in [
       ''<<<systemd_units>>>'',
       ''[list-unit-files]''] @
      concat (map (\<lambda>(nam, _, _, _). [
       nam @ '' enabled enabled'']) units) @
      [
       ''[status]'',
       ''[all]''] @
      concat (map (\<lambda>(nam, act, sub, descr). [
       nam @ '' loaded '' @ act @ '' '' @ sub @ '' '' @ descr]) units))"

definition redis_job :: "redis_clock_vals \<Rightarrow> string list" where
  "redis_job kv =
     [
       ''<<<job>>>'',
       ''==> rdb-offload <=='',
       ''start_time '' @ int_str (redis_k_now kv - 8 * 3600),
       ''exit_code 0'',
       ''real_time 0:22.4'',
       ''user_time 0.40'',
       ''system_time 0.90'',
       ''max_res_kbytes 41000'',
       ''avg_mem_kbytes 0'']"

text \<open>The payload: the sections in order, one line each.\<close>

definition redis_build :: "incident_cfg \<Rightarrow> string \<Rightarrow> (nat \<Rightarrow> int) \<Rightarrow> dstate \<Rightarrow> (sim, string) state" where
  "redis_build cfg sta ri d = do {
       kv \<leftarrow> redis_clock cfg sta d;
       mv \<leftarrow> redis_memory kv;
       lv \<leftarrow> redis_load kv;
       tv \<leftarrow> redis_ticks kv;
       dv \<leftarrow> redis_disk kv;
       (rx_bytes, tx_bytes, rx_pkts, tx_pkts) \<leftarrow> redis_net kv;
       cv \<leftarrow> redis_commands kv;
       sda_smart \<leftarrow> redis_smart kv;
       let l_head = redis_head cfg kv;
       l_df \<leftarrow> redis_df cfg;
       let l_mem = redis_mem mv;
       l_cpu \<leftarrow> redis_cpu kv lv;
       l_timesync \<leftarrow> redis_timesync cfg ri kv;
       let l_apt = redis_apt;
       l_kernel \<leftarrow> redis_kernel kv tv;
       let l_diskstat = redis_diskstat kv dv;
       let l_if = redis_if rx_bytes tx_bytes rx_pkts tx_pkts;
       l_tcp \<leftarrow> redis_tcp ri kv;
       let l_smart_section = redis_smart_section sda_smart;
       l_info \<leftarrow> redis_info cfg d kv tv rx_bytes tx_bytes cv;
       let l_ps = redis_ps kv mv;
       let l_units = redis_units;
       let l_job = redis_job kv;
       State_Monad.return (concat (map (\<lambda>l. l @ [CHR 0x0A])
         (l_head @ l_df @ l_mem @ l_cpu @ l_timesync @ l_apt @ l_kernel @ l_diskstat @ l_if @ l_tcp @ l_smart_section @ l_info @ l_ps @ l_units @ l_job))) }"

text \<open>The model ends here.  The story the Redis figures tell.\<close>

section \<open>The eviction story\<close>

lemma redis_pressure_two_phase: "redis_pressure = two_phase (7 / 10)"
proof (intro ext)
  fix cfg d
  have e: "0.0 = (0 :: real)" "1.0 = (1 :: real)" "60.0 = (60 :: real)" "0.3 = 1 - (7 / 10 :: real)" by simp_all
  show "redis_pressure cfg d = two_phase (7 / 10) cfg d"
    unfolding redis_pressure_def two_phase_def Let_def e ..
qed

definition maxmemory :: int where
  "maxmemory = 6442450944"

definition redis_facts :: "real \<Rightarrow> int \<Rightarrow> redis_vals \<Rightarrow> bool" where
  "redis_facts p bl v \<longleftrightarrow> (\<exists>f. 99 / 100 \<le> f \<and> f \<le> 101 / 100
       \<and> rv_used_memory v = py_trunc (min 6442450944 (6442450944 * lerp (2 / 5) 1 p * f)))
     \<and> rv_hit_ratio v = lerp (124 / 125) (31 / 50) (p ^ 3)
     \<and> rv_evict_rate v = (if p < 1 / 2 then 0 else lerp 0 5200 (((p - 1 / 2) / (1 / 2)) ^ 2))
     \<and> rv_blocked v = bl
     \<and> real_of_int (rv_connected v) \<le> lerp 118 196 p + 9 / 2 \<and> lerp 118 196 p - 9 / 2 \<le> real_of_int (rv_connected v)"

lemma timed_bind_assoc:
  "timed T Q (m \<bind> k) \<Longrightarrow> (\<And>y. Q y \<Longrightarrow> timed T P (f y)) \<Longrightarrow> timed T P (m \<bind> (\<lambda>x. k x \<bind> f))"
  using timed_bind [of T Q "m \<bind> k" P f] by simp

lemma redis_run:
  assumes Q: "timed T Q (two_phase (7 / 10) cfg d)"
    and B: "broken_since d = None \<Longrightarrow> B 0" "\<And>s t. broken_since d = Some s \<Longrightarrow> T t \<Longrightarrow> t \<le> s \<Longrightarrow> B 0"
    and R: "timed T R (break_ramp cfg d 1)" "\<And>r s t. broken_since d = Some s \<Longrightarrow> T t \<Longrightarrow> s < t \<Longrightarrow> R r \<Longrightarrow> B (py_round (lerp 0 34 r))"
    and P: "\<And>p bl v. Q p \<Longrightarrow> B bl \<Longrightarrow> redis_facts p bl v \<Longrightarrow> P v"
  shows "timed T P (redis_derived cfg d)"
proof -
  have e: "(0.4 :: real) = 2 / 5" "(1.0 :: real) = 1" "(0.0 :: real) = 0" "(0.01 :: real) = 1 / 100" "(0.992 :: real) = 124 / 125"
    "(0.62 :: real) = 31 / 50" "(0.5 :: real) = 1 / 2" "(5200.0 :: real) = 5200" "real_of_int 6442450944 = 6442450944" by simp_all
  have ramp: "timed T B (host_broken_seconds d \<bind> (\<lambda>b. if 0 < b then break_ramp cfg d 1 \<bind> (\<lambda>r. State_Monad.return (py_round (lerp 0 34 r)))
      else State_Monad.return 0))"
  proof (rule timed_broken_bind)
    assume "broken_since d = None"
    then show "timed T B (if 0 < (0 :: real) then break_ramp cfg d 1 \<bind> (\<lambda>r. State_Monad.return (py_round (lerp 0 34 r))) else State_Monad.return 0)"
      by (auto intro!: timed_return B(1))
  next
    fix s t assume "broken_since d = Some s" "T t"
    then show "timed T B (if 0 < t - s then break_ramp cfg d 1 \<bind> (\<lambda>r. State_Monad.return (py_round (lerp 0 34 r))) else State_Monad.return 0)"
      by (auto intro!: timed_bind [OF R(1)] timed_return B(2) R(2) simp: not_less)
  qed
  show ?thesis
    unfolding redis_derived_def Let_def e redis_pressure_two_phase
  proof (rule timed_bind [OF Q], rule timed_gauge_frac_bind, simp, simp, rule timed_bind_assoc [OF ramp],
      rule timed_gauge_abs_bind, simp, rule timed_return)
    fix p f g :: real and bl :: int
    assume a: "Q p" "1 * (1 - 1 / 100) \<le> f" "f \<le> 1 * (1 + 1 / 100)" "B bl" "lerp 118 196 p - 4 \<le> g" "g \<le> lerp 118 196 p + 4"
    have b: "99 / 100 \<le> f" "f \<le> 101 / 100" using a(2,3) by simp_all
    have c: "real_of_int (py_round g) \<le> lerp 118 196 p + 9 / 2" "lerp 118 196 p - 9 / 2 \<le> real_of_int (py_round g)"
      using a(5,6) py_round_bounds [of g] by simp_all
    show "P \<lparr>rv_p = p, rv_used_memory = py_trunc (min 6442450944 (6442450944 * lerp (2 / 5) 1 p * f)),
       rv_hit_ratio = lerp (124 / 125) (31 / 50) (p ^ 3), rv_evict_rate = if p < 1 / 2 then 0 else lerp 0 5200 (((p - 1 / 2) / (1 / 2))\<^sup>2),
       rv_blocked = bl, rv_connected = py_round g, rv_mem_frag = round_dec 2 (lerp 1.18 1.02 p)\<rparr>"
    proof (rule P [OF a(1,4)])
      show "redis_facts p bl \<lparr>rv_p = p, rv_used_memory = py_trunc (min 6442450944 (6442450944 * lerp (2 / 5) 1 p * f)),
       rv_hit_ratio = lerp (124 / 125) (31 / 50) (p ^ 3), rv_evict_rate = if p < 1 / 2 then 0 else lerp 0 5200 (((p - 1 / 2) / (1 / 2))\<^sup>2),
       rv_blocked = bl, rv_connected = py_round g, rv_mem_frag = round_dec 2 (lerp 1.18 1.02 p)\<rparr>"
        unfolding redis_facts_def redis_vals.select_convs by (intro conjI exI [of _ f] refl b c)
    qed
  qed
qed

text \<open>C34. The Redis figures, for every configuration, clock and noise: never more memory than \<open>maxmemory\<close>; healthy, at most 41 percent
  of it, no eviction, no blocked client and the full hit ratio; before the break no blocked client and at most 832 evictions a
  second; and once the break ramp is over 98 percent or more of the memory, 5200 evictions a second, 34 blocked clients and
  a hit ratio of 62 percent.\<close>

theorem redis_eviction_story:
  "timed T (\<lambda>v. rv_used_memory v \<le> maxmemory) (redis_derived cfg d)
   \<and> (degraded_since d = None \<and> broken_since d = None \<longrightarrow> timed T (\<lambda>v. 100 * rv_used_memory v \<le> 41 * maxmemory
        \<and> rv_evict_rate v = 0 \<and> rv_blocked v = 0 \<and> rv_hit_ratio v = 124 / 125) (redis_derived cfg d))
   \<and> (broken_since d = None \<longrightarrow> timed T (\<lambda>v. rv_blocked v = 0 \<and> rv_evict_rate v \<le> 832) (redis_derived cfg d))
   \<and> (0 < ic_ramp cfg \<and> (\<exists>s. broken_since d = Some s \<and> (\<forall>t. T t \<longrightarrow> ic_ramp cfg * 60 \<le> t - s)) \<longrightarrow>
      timed T (\<lambda>v. 98 * maxmemory \<le> 100 * rv_used_memory v \<and> rv_evict_rate v = 5200 \<and> rv_blocked v = 34 \<and> rv_hit_ratio v = 31 / 50)
        (redis_derived cfg d))"
proof (intro conjI impI)
  have le: "py_trunc (min 6442450944 x) \<le> maxmemory" for x :: real
    using py_trunc_mono [of "min 6442450944 x" "real_of_int maxmemory"] unfolding py_trunc_of_int maxmemory_def by simp
  show "timed T (\<lambda>v. rv_used_memory v \<le> maxmemory) (redis_derived cfg d)"
    by (rule redis_run [where Q = "\<lambda>_. True" and R = "\<lambda>_. True" and B = "\<lambda>_. True"])
       (auto simp: redis_facts_def le intro!: timed_two_phase [where D = "\<lambda>_. True" and R = "\<lambda>_. True"] intro: timed_break_ramp_unit)
  show "timed T (\<lambda>v. 100 * rv_used_memory v \<le> 41 * maxmemory \<and> rv_evict_rate v = 0 \<and> rv_blocked v = 0 \<and> rv_hit_ratio v = 124 / 125) (redis_derived cfg d)"
    if h: "degraded_since d = None \<and> broken_since d = None"
  proof (rule redis_run [OF two_phase_healthy, where B = "\<lambda>b. b = 0" and R = "\<lambda>_. True"])
    fix p bl v assume p: "p = (0 :: real)" "bl = (0 :: int)" "redis_facts p bl v"
    then obtain f where f: "99 / 100 \<le> f" "f \<le> 101 / 100" "rv_used_memory v = py_trunc (min 6442450944 (6442450944 * (2 / 5) * f))"
      by (auto simp: redis_facts_def lerp_def)
    have "min 6442450944 (6442450944 * (2 / 5) * f) \<le> real_of_int 2602750182" using f by simp
    then have "rv_used_memory v \<le> 2602750182" using py_trunc_mono [of _ "real_of_int 2602750182"] unfolding f(3) py_trunc_of_int by blast
    then show "100 * rv_used_memory v \<le> 41 * maxmemory \<and> rv_evict_rate v = 0 \<and> rv_blocked v = 0 \<and> rv_hit_ratio v = 124 / 125"
      using p by (simp add: redis_facts_def maxmemory_def lerp_def)
  qed (use h in \<open>auto intro: timed_break_ramp_unit\<close>)
  show "timed T (\<lambda>v. rv_blocked v = 0 \<and> rv_evict_rate v \<le> 832) (redis_derived cfg d)" if b: "broken_since d = None"
  proof (rule redis_run [OF two_phase_degraded [OF b], where B = "\<lambda>b. b = 0" and R = "\<lambda>_. True"])
    fix p bl v assume p: "0 \<le> p \<and> p \<le> (7 / 10 :: real)" "bl = (0 :: int)" "redis_facts p bl v"
    have "((p - 1 / 2) / (1 / 2))\<^sup>2 \<le> (2 / 5)\<^sup>2" if "\<not> p < 1 / 2" using p that by (intro power_mono) auto
    then show "rv_blocked v = 0 \<and> rv_evict_rate v \<le> 832" using p by (auto simp: redis_facts_def lerp_def power2_eq_square)
  qed (use b in \<open>auto intro: timed_break_ramp_unit\<close>)
  show "timed T (\<lambda>v. 98 * maxmemory \<le> 100 * rv_used_memory v \<and> rv_evict_rate v = 5200 \<and> rv_blocked v = 34 \<and> rv_hit_ratio v = 31 / 50) (redis_derived cfg d)"
    if h: "0 < ic_ramp cfg \<and> (\<exists>s. broken_since d = Some s \<and> (\<forall>t. T t \<longrightarrow> ic_ramp cfg * 60 \<le> t - s))"
  proof -
    obtain s where s: "broken_since d = Some s" "\<And>t. T t \<Longrightarrow> ic_ramp cfg * 60 \<le> t - s" using h by auto
    have late: False if "T t" "t \<le> s" for t using s(2) [OF that(1)] that(2) h by auto
    have ramp: "timed T (\<lambda>r. r = 1) (break_ramp cfg d 1)" by (rule timed_break_ramp_full) (use h s in simp_all)
    have full: "timed T (\<lambda>p. p = 1) (two_phase (7 / 10) cfg d)" by (rule two_phase_full) (use h s in simp_all)
    have r34: "py_round (lerp 0 34 1) = 34" by (simp add: lerp_def py_round_def)
    show ?thesis
    proof (rule redis_run [OF full _ _ ramp, where B = "\<lambda>b. b = 34"])
      fix p bl v assume p: "p = (1 :: real)" "bl = (34 :: int)" "redis_facts p bl v"
      then obtain f where f: "99 / 100 \<le> f" "rv_used_memory v = py_trunc (min 6442450944 (6442450944 * f))"
        by (auto simp: redis_facts_def lerp_def)
      have "real_of_int 6378026434 \<le> min 6442450944 (6442450944 * f)" using f by simp
      then have "6378026434 \<le> rv_used_memory v" using py_trunc_mono [of "real_of_int 6378026434"] unfolding f(2) py_trunc_of_int by blast
      then show "98 * maxmemory \<le> 100 * rv_used_memory v \<and> rv_evict_rate v = 5200 \<and> rv_blocked v = 34 \<and> rv_hit_ratio v = 31 / 50"
        using p by (simp add: redis_facts_def maxmemory_def lerp_def)
    qed (use s late r34 in auto)
  qed
qed

theorem redis_eviction_story_witness:
  "timed (\<lambda>t. 2000 \<le> t) (\<lambda>v. 98 * maxmemory \<le> 100 * rv_used_memory v \<and> rv_evict_rate v = 5200 \<and> rv_blocked v = 34 \<and> rv_hit_ratio v = 31 / 50)
     (redis_derived \<lparr>hc_hostname = ''r'', hc_version = ''2'', hc_start = 0, ic_auto_break = 18, ic_fill = 15, ic_ramp = 3\<rparr>
        \<lparr>st = BROKEN, st_since = 1000, degraded_since = Some 100, broken_since = Some 1000\<rparr>)"
  using redis_eviction_story [of "\<lambda>t. 2000 \<le> t" "\<lparr>hc_hostname = ''r'', hc_version = ''2'', hc_start = 0, ic_auto_break = 18, ic_fill = 15, ic_ramp = 3\<rparr>"
    "\<lparr>st = BROKEN, st_since = 1000, degraded_since = Some 100, broken_since = Some 1000\<rparr>"] by simp

end
