(* ===== verification/Host_Backup.thy ===== *)
theory Host_Backup
  imports Agent_Text
begin

text \<open>
  \<open>hosts/backup-01/serve.py\<close>, the steady-green backup host: its counters, the clock of its nightly jobs, its
  filesystems and the agent output, section by section.  \<open>ri\<close> lists the outcomes of \<open>random.randint\<close> in the
  order of the calls.
\<close>

section \<open>Counters, job clock\<close>

definition backup_counters :: "(string \<times> real \<times> real \<times> real) list" where
  "backup_counters = [
     (''cpu.user'', 0.3, 0.30, 20 * real_of_int 1036800),
     (''cpu.system'', 1.1, 0.30, 8 * real_of_int 1036800),
     (''cpu.idle'', 2.4, 0.30, 360 * real_of_int 1036800),
     (''cpu.iowait'', 3.0, 0.30, 4 * real_of_int 1036800),
     (''kernel.ctxt'', 4.0, 0.30, 800 * real_of_int 1036800),
     (''kernel.processes'', 4.7, 0.30, 2 * real_of_int 1036800),
     (''kernel.pgmajfault'', 5.4, 0.30, 0.1 * real_of_int 1036800),
     (''sda.rd_ios'', 0.0, 0.30, 3 * real_of_int 1036800),
     (''sda.rd_ticks'', 0.2, 0.30, 2 * real_of_int 1036800),
     (''sda.wr_ios'', 0.4, 0.30, 8 * real_of_int 1036800),
     (''sda.wr_ticks'', 0.6, 0.30, 5 * real_of_int 1036800),
     (''sda.io_ticks'', 0.8, 0.05, 6 * real_of_int 1036800),
     (''sdb.rd_ios'', 1.0, 0.30, 12 * real_of_int 1036800),
     (''sdb.rd_ticks'', 1.2, 0.30, 8 * real_of_int 1036800),
     (''sdb.wr_ios'', 1.4, 0.30, 35 * real_of_int 1036800),
     (''sdb.wr_ticks'', 1.6, 0.30, 28 * real_of_int 1036800),
     (''sdb.io_ticks'', 1.8, 0.05, 32 * real_of_int 1036800),
     (''net.rx_bytes'', 1.6, 0.30, 90000 * real_of_int 1036800),
     (''net.tx_bytes'', 2.3, 0.30, 70000 * real_of_int 1036800),
     (''net.rx_pkts'', 3.0, 0.30, 220 * real_of_int 1036800),
     (''net.tx_pkts'', 3.7, 0.30, 180 * real_of_int 1036800)]"

definition last_daily :: "real \<Rightarrow> int \<Rightarrow> int \<Rightarrow> int" where
  "last_daily now hour minute =
     (let t = (py_trunc now) div 86400 * 86400 + hour * 3600 + minute * 60
      in (if real_of_int t \<le> now then t else t - 86400))"

section \<open>Disk health and filesystems\<close>

definition backup_smart_json :: "string \<Rightarrow> string \<Rightarrow> string \<Rightarrow> int \<Rightarrow> int \<Rightarrow> string" where
  "backup_smart_json nam model serial hours temp =
     (let doc = JObj [(''device'', JObj [(''name'', JStr nam),
         (''type'', JStr ''sat''),
         (''protocol'', JStr ''ATA'')]),
         (''model_name'', JStr model),
         (''serial_number'', JStr serial),
         (''smart_status'', JObj [(''passed'', JBool True)]),
         (''power_on_time'', JObj [(''hours'', JNum hours)]),
         (''temperature'', JObj [(''current'', JNum temp)]),
         (''ata_smart_attributes'', JObj [(''table'', JArr [JObj [(''id'', JNum 5),
         (''name'', JStr ''Reallocated_Sector_Ct''),
         (''value'', JNum 100),
         (''thresh'', JNum 10),
         (''raw'', JObj [(''value'', JNum 0)])],
         JObj [(''id'', JNum 9),
         (''name'', JStr ''Power_On_Hours''),
         (''value'', JNum 96),
         (''thresh'', JNum 0),
         (''raw'', JObj [(''value'', JNum hours)])],
         JObj [(''id'', JNum 12),
         (''name'', JStr ''Power_Cycle_Count''),
         (''value'', JNum 100),
         (''thresh'', JNum 0),
         (''raw'', JObj [(''value'', JNum 18)])],
         JObj [(''id'', JNum 177),
         (''name'', JStr ''Wear_Leveling_Count''),
         (''value'', JNum 94),
         (''thresh'', JNum 5),
         (''raw'', JObj [(''value'', JNum 92)])],
         JObj [(''id'', JNum 179),
         (''name'', JStr ''Used_Rsvd_Blk_Cnt_Tot''),
         (''value'', JNum 100),
         (''thresh'', JNum 10),
         (''raw'', JObj [(''value'', JNum 0)])],
         JObj [(''id'', JNum 187),
         (''name'', JStr ''Reported_Uncorrect''),
         (''value'', JNum 100),
         (''thresh'', JNum 0),
         (''raw'', JObj [(''value'', JNum 0)])],
         JObj [(''id'', JNum 197),
         (''name'', JStr ''Current_Pending_Sector''),
         (''value'', JNum 100),
         (''thresh'', JNum 0),
         (''raw'', JObj [(''value'', JNum 0)])],
         JObj [(''id'', JNum 199),
         (''name'', JStr ''UDMA_CRC_Error_Count''),
         (''value'', JNum 200),
         (''thresh'', JNum 0),
         (''raw'', JObj [(''value'', JNum 0)])]])])]
      in dumps (doc))"

definition backup_filesystem_usage :: "host_cfg \<Rightarrow> real \<Rightarrow> (sim, int \<times> int \<times> int \<times> int) state" where
  "backup_filesystem_usage cfg now =
     do {
       let uptime = now - hc_start cfg + real_of_int 1036800;
       let day = 86400.0;
       let midnight = (py_trunc now) div 86400 * 86400;
       let root_size = 41943040;
       let root_base = 10485760;
       let since_rotate = real_mod (now - real_of_int midnight - real_of_int 2820) day;
       let root_logs = 819200 * (since_rotate / day);
       let root_growth = min 524288 (uptime * 0.02);
       g1 \<leftarrow> gauge ''fs.root'' 0 (Some 40000) None 0 1600;
       let root_used = py_trunc (real_of_int root_base + root_logs + root_growth + g1);
       let bkp_size_kib = 4096 * 1048576;
       let bkp_base = py_trunc (0.695 * (real_of_int bkp_size_kib));
       let prune_reclaim_kib = 5 * 1048576;
       let since_reclaim = real_mod (now - real_of_int midnight - real_of_int 11700) day;
       let bkp_growth_daily = py_trunc (real_of_int prune_reclaim_kib * (since_reclaim / day));
       let bkp_forever = min (5 * 1048576) (py_trunc (uptime * 1.3));
       g2 \<leftarrow> gauge ''fs.bkp'' 0 (Some 100000) None 0 900;
       let bkp_used = py_trunc (real_of_int (bkp_base + bkp_growth_daily + bkp_forever) + g2);
       State_Monad.return ((root_used, bkp_used, root_size, bkp_size_kib)) }"

section \<open>The agent output\<close>

definition backup_clock :: "host_cfg \<Rightarrow> (sim, int \<times> int) state" where
  "backup_clock cfg =
     do {
       t3 \<leftarrow> get_time;
       let now = py_trunc t3;
       t4 \<leftarrow> get_time;
       let uptime = py_trunc (t4 - hc_start cfg) + 1036800;
       State_Monad.return ((now, uptime)) }"

definition backup_load :: "(sim, real \<times> real \<times> real) state" where
  "backup_load =
     do {
       g5 \<leftarrow> gauge ''load1'' 0.28 None (Some 0.3) 0.2 300;
       let l1 = round_dec 2 g5;
       g6 \<leftarrow> gauge ''load5'' 0.22 None (Some 0.16) 1.0 900;
       let l5 = round_dec 2 g6;
       g7 \<leftarrow> gauge ''load15'' 0.18 None (Some 0.08) 2.0 2400;
       let l15 = round_dec 2 g7;
       let l1 = max 0.01 l1;
       let l5 = max 0.01 l5;
       let l15 = max 0.01 l15;
       State_Monad.return ((l1, l5, l15)) }"

definition backup_ticks :: "(sim, int \<times> int \<times> int \<times> int) state" where
  "backup_ticks =
     do {
       user \<leftarrow> fsample ''cpu.user'' 20;
       system \<leftarrow> fsample ''cpu.system'' 8;
       idle \<leftarrow> fsample ''cpu.idle'' 360;
       iowait \<leftarrow> fsample ''cpu.iowait'' 4;
       State_Monad.return ((user, system, idle, iowait)) }"

record backup_disk_vals =
  backup_d_sda_rd :: "int"
  backup_d_sda_rdt :: "int"
  backup_d_sda_wr :: "int"
  backup_d_sda_wrt :: "int"
  backup_d_sda_iot :: "int"
  backup_d_sdb_rd :: "int"
  backup_d_sdb_rdt :: "int"
  backup_d_sdb_wr :: "int"
  backup_d_sdb_wrt :: "int"
  backup_d_sdb_iot :: "int"

definition backup_disk :: "(sim, backup_disk_vals) state" where
  "backup_disk =
     do {
       sda_rd \<leftarrow> fsample ''sda.rd_ios'' 3;
       sda_rdt \<leftarrow> fsample ''sda.rd_ticks'' 2;
       sda_wr \<leftarrow> fsample ''sda.wr_ios'' 8;
       sda_wrt \<leftarrow> fsample ''sda.wr_ticks'' 5;
       sda_iot \<leftarrow> fsample ''sda.io_ticks'' 6;
       sdb_rd \<leftarrow> fsample ''sdb.rd_ios'' 12;
       sdb_rdt \<leftarrow> fsample ''sdb.rd_ticks'' 8;
       sdb_wr \<leftarrow> fsample ''sdb.wr_ios'' 35;
       sdb_wrt \<leftarrow> fsample ''sdb.wr_ticks'' 28;
       sdb_iot \<leftarrow> fsample ''sdb.io_ticks'' 32;
       State_Monad.return (\<lparr>backup_d_sda_rd = sda_rd,
         backup_d_sda_rdt = sda_rdt,
         backup_d_sda_wr = sda_wr,
         backup_d_sda_wrt = sda_wrt,
         backup_d_sda_iot = sda_iot,
         backup_d_sdb_rd = sdb_rd,
         backup_d_sdb_rdt = sdb_rdt,
         backup_d_sdb_wr = sdb_wr,
         backup_d_sdb_wrt = sdb_wrt,
         backup_d_sdb_iot = sdb_iot\<rparr>) }"

definition backup_net :: "(sim, int \<times> int \<times> int \<times> int) state" where
  "backup_net =
     do {
       rx_bytes \<leftarrow> fsample ''net.rx_bytes'' 90000;
       tx_bytes \<leftarrow> fsample ''net.tx_bytes'' 70000;
       rx_pkts \<leftarrow> fsample ''net.rx_pkts'' 220;
       tx_pkts \<leftarrow> fsample ''net.tx_pkts'' 180;
       State_Monad.return ((rx_bytes, tx_bytes, rx_pkts, tx_pkts)) }"

definition backup_smart :: "int \<Rightarrow> (sim, string \<times> string) state" where
  "backup_smart uptime =
     do {
       g26 \<leftarrow> gauge ''smart.sda.temp'' 28 (Some 1.0) None 2.1 1100;
       let sda_temp = py_round g26;
       g27 \<leftarrow> gauge ''smart.sdb.temp'' 30 (Some 1.2) None 3.4 1300;
       let sdb_temp = py_round g27;
       let sda_smart = backup_smart_json ''/dev/sda'' ''SAMSUNG MZNLN512HAJQ-000H1'' ''S3EVNX0K271481'' (py_trunc (real_of_int uptime / 3600) + 10200) sda_temp;
       let sdb_smart = backup_smart_json ''/dev/sdb'' ''Samsung SSD 870 EVO 4TB'' ''S62DNX0T908311'' (py_trunc (real_of_int uptime / 3600) + 8700) sdb_temp;
       State_Monad.return ((sda_smart, sdb_smart)) }"

record backup_memory_vals =
  backup_m_commit_limit :: "int"
  backup_m_cached :: "int"
  backup_m_mem_free :: "int"
  backup_m_swap_free :: "int"
  backup_m_committed :: "int"
  backup_m_anon :: "int"
  backup_m_mem_available :: "int"
  backup_m_a_anon :: "int"
  backup_m_i_anon :: "int"
  backup_m_a_file :: "int"
  backup_m_i_file :: "int"
  backup_m_slab :: "int"
  backup_m_kernel_stack :: "int"
  backup_m_dirty :: "int"

definition backup_memory :: "(sim, backup_memory_vals) state" where
  "backup_memory =
     do {
       let commit_limit = 2097152 + 8388608 div 2;
       g28 \<leftarrow> gauge ''mem.cached'' 2200000 None (Some 0.02) 0.4 1500;
       let cached = py_trunc g28;
       let caches = cached + 180000 + 0 + 380000;
       let mem_free = max 200000 (8388608 - 3600000 - caches);
       let swap_free = 2097152;
       g29 \<leftarrow> gauge ''mem.committed'' 4100000 None (Some 0.01) 1.2 1700;
       let committed = py_trunc g29;
       let anon = max 1000000 (8388608 - mem_free - caches - 500000);
       let anon_lru = anon + 32768;
       let file_lru = max 0 (180000 + cached - 32768);
       let mem_available = max mem_free (mem_free + file_lru + 380000);
       let a_anon = py_trunc (real_of_int anon_lru * 0.55);
       let i_anon = anon_lru - a_anon;
       let a_file = py_trunc (real_of_int file_lru * 0.3);
       let i_file = file_lru - a_file;
       let slab = 380000 + 98304;
       let kernel_stack = 186 * 16;
       g30 \<leftarrow> gauge ''mem.dirty'' 12288 None (Some 0.12) 2.0 800;
       let dirty = max 4096 (py_trunc g30);
       State_Monad.return (\<lparr>backup_m_commit_limit = commit_limit,
         backup_m_cached = cached,
         backup_m_mem_free = mem_free,
         backup_m_swap_free = swap_free,
         backup_m_committed = committed,
         backup_m_anon = anon,
         backup_m_mem_available = mem_available,
         backup_m_a_anon = a_anon,
         backup_m_i_anon = i_anon,
         backup_m_a_file = a_file,
         backup_m_i_file = i_file,
         backup_m_slab = slab,
         backup_m_kernel_stack = kernel_stack,
         backup_m_dirty = dirty\<rparr>) }"

definition backup_fs :: "host_cfg \<Rightarrow> (sim, int \<times> int \<times> int \<times> int) state" where
  "backup_fs cfg =
     do {
       t31 \<leftarrow> get_time;
       r32 \<leftarrow> backup_filesystem_usage cfg t31;
       let (root_used, bkp_used, root_size, bkp_size) = r32;
       let bkp_used = max (py_trunc (0.67 * (real_of_int bkp_size))) (min (py_trunc (0.72 * (real_of_int bkp_size))) bkp_used);
       State_Monad.return ((root_used, bkp_used, root_size, bkp_size)) }"

definition backup_jobs :: "int \<Rightarrow> int \<times> int" where
  "backup_jobs now =
     (let bkp_start = last_daily (real_of_int now) 1 7;
          prune_start = last_daily (real_of_int now) 3 7
      in (bkp_start, prune_start))"

definition backup_dates :: "host_cfg \<Rightarrow> int \<Rightarrow> string \<times> int \<times> string" where
  "backup_dates cfg now =
     (let cert_to = strftime ''%a, %d %b %Y %H:%M:%S +0000'' (gmtime (now + 330 * 86400));
          last_sync = now - py_trunc (real_mod (real_of_int now - hc_start cfg) 2048);
          sync_str = strftime ''%a %Y-%m-%d %H:%M:%S UTC'' (gmtime last_sync)
      in (cert_to, last_sync, sync_str))"

definition backup_head :: "host_cfg \<Rightarrow> string \<Rightarrow> string list" where
  "backup_head cfg cert_to =
     [
       ''<<<check_mk>>>'',
       ''Version: '' @ hc_version cfg,
       ''AgentOS: linux'',
       ''Hostname: '' @ hc_hostname cfg,
       ''InstallationDirectory: /opt/checkmk/agent/default'',
       ''PackageDirectory: /opt/checkmk/agent/default/package'',
       ''RuntimeDirectory: /opt/checkmk/agent/default/runtime'',
       ''OSType: linux'',
       ''OSName: Ubuntu'',
       ''OSVersion: 24.04'',
       ''OSPlatform: ubuntu'',
       ''FailedPythonReason: '',
       ''SSHClient: '',
       ''<<<cmk_agent_ctl_status:sep(0)>>>'',
       dumps (JObj [(''version'', JStr (hc_version cfg)),
         (''agent_socket_operational'', JBool True),
         (''ip_allowlist'', JArr []),
         (''allow_legacy_pull'', JBool False),
         (''connections'', JArr [JObj [(''site_id'', JStr ''monitoring/prod''),
         (''receiver_port'', JNum 8000),
         (''uuid'', JStr ''c38a2b91-4d7e-11ef-9c12-0a7f3e5b8d04''),
         (''local'', JObj [(''connection_mode'', JStr ''pull-agent''), (''cert_info'', JObj [(''issuer'', JStr (''Site '' @ [CHR 0x27] @ ''prod'' @ [CHR 0x27] @ '' local CA'')),
         (''from'', JStr ''Tue, 03 Jun 2025 09:12:44 +0000''),
         (''to'', JStr cert_to)])]),
         (''remote'', JStr ''remote_query_disabled'')]])]),
       ''<<<checkmk_agent_plugins_lnx:sep(0)>>>'',
       ''pluginsdir /opt/checkmk/agent/default/package/plugins'',
       ''localdir /opt/checkmk/agent/default/package/local'',
       ''/opt/checkmk/agent/default/package/plugins/86400/mk_apt:CMK_VERSION='' @ [CHR 0x22] @ hc_version cfg @ [CHR 0x22],
       ''/opt/checkmk/agent/default/package/plugins/86400/mk_job:CMK_VERSION='' @ [CHR 0x22] @ hc_version cfg @ [CHR 0x22]]"

definition backup_df :: "int \<Rightarrow> int \<Rightarrow> int \<Rightarrow> int \<Rightarrow> string list" where
  "backup_df root_used bkp_used root_size bkp_size =
     [
       ''<<<df_v2>>>'',
       ''/dev/sda1 ext4 '' @ int_str root_size @ '' '' @ int_str root_used @ '' '' @ int_str (root_size - root_used) @ '' '' @ int_str (py_round (real_of_int root_used / (real_of_int root_size) * 100)) @ ''% /'',
       ''/dev/sdb1 ext4 '' @ int_str bkp_size @ '' '' @ int_str bkp_used @ '' '' @ int_str (bkp_size - bkp_used) @ '' '' @ int_str (py_round (real_of_int bkp_used / (real_of_int bkp_size) * 100)) @ ''% /srv/backup'',
       ''[df_inodes_start]'',
       ''/dev/sda1 ext4 2621440 312814 '' @ int_str (2621440 - 312814) @ '' 12% /'',
       ''/dev/sdb1 ext4 268435456 3142 '' @ int_str (268435456 - 3142) @ '' 1% /srv/backup'',
       ''[df_inodes_end]'',
       ''<<<mounts>>>'',
       ''/dev/sda1 / ext4 rw,relatime,errors=remount-ro 0 0'',
       ''/dev/sdb1 /srv/backup ext4 rw,noatime,data=ordered 0 0'']"

definition backup_mem :: "backup_memory_vals \<Rightarrow> string list" where
  "backup_mem mv =
     [
       ''<<<mem>>>'',
       ''MemTotal:       '' @ int_str 8388608 @ '' kB'',
       ''MemFree:        '' @ int_str (backup_m_mem_free mv) @ '' kB'',
       ''MemAvailable:   '' @ int_str (backup_m_mem_available mv) @ '' kB'',
       ''Buffers:        '' @ int_str 180000 @ '' kB'',
       ''Cached:         '' @ int_str (backup_m_cached mv) @ '' kB'',
       ''SwapCached:     '' @ int_str 0 @ '' kB'',
       ''Active:         '' @ int_str (backup_m_a_anon mv + backup_m_a_file mv) @ '' kB'',
       ''Inactive:       '' @ int_str (backup_m_i_anon mv + backup_m_i_file mv) @ '' kB'',
       ''Active(anon):   '' @ int_str (backup_m_a_anon mv) @ '' kB'',
       ''Inactive(anon): '' @ int_str (backup_m_i_anon mv) @ '' kB'',
       ''Active(file):   '' @ int_str (backup_m_a_file mv) @ '' kB'',
       ''Inactive(file): '' @ int_str (backup_m_i_file mv) @ '' kB'',
       ''Unevictable:    0 kB'',
       ''Mlocked:        0 kB'',
       ''SwapTotal:      '' @ int_str 2097152 @ '' kB'',
       ''SwapFree:       '' @ int_str (backup_m_swap_free mv) @ '' kB'',
       ''Zswap:          0 kB'',
       ''Zswapped:       0 kB'',
       ''Dirty:          '' @ int_str (backup_m_dirty mv) @ '' kB'',
       ''Writeback:      0 kB'',
       ''AnonPages:      '' @ int_str (backup_m_anon mv) @ '' kB'',
       ''Mapped:         220160 kB'',
       ''Shmem:          '' @ int_str 32768 @ '' kB'',
       ''KReclaimable:   '' @ int_str 380000 @ '' kB'',
       ''Slab:           '' @ int_str (backup_m_slab mv) @ '' kB'',
       ''SReclaimable:   '' @ int_str 380000 @ '' kB'',
       ''SUnreclaim:     98304 kB'',
       ''KernelStack:    '' @ int_str (backup_m_kernel_stack mv) @ '' kB'',
       ''PageTables:     32768 kB'',
       ''SecPageTables:  0 kB'',
       ''NFS_Unstable:   0 kB'',
       ''Bounce:         0 kB'',
       ''WritebackTmp:   0 kB'',
       ''CommitLimit:    '' @ int_str (backup_m_commit_limit mv) @ '' kB'',
       ''Committed_AS:   '' @ int_str (backup_m_committed mv) @ '' kB'',
       ''VmallocTotal:   34359738367 kB'',
       ''VmallocUsed:    38912 kB'',
       ''VmallocChunk:   0 kB'',
       ''Percpu:         9216 kB'',
       ''HardwareCorrupted: 0 kB'',
       ''AnonHugePages:  0 kB'',
       ''ShmemHugePages: 0 kB'',
       ''ShmemPmdMapped: 0 kB'',
       ''FileHugePages:  0 kB'',
       ''FilePmdMapped:  0 kB'',
       ''CmaTotal:       0 kB'',
       ''CmaFree:        0 kB'',
       ''Unaccepted:     0 kB'',
       ''Balloon:        0 kB'',
       ''HugePages_Total:       0'',
       ''HugePages_Free:        0'',
       ''HugePages_Rsvd:        0'',
       ''HugePages_Surp:        0'',
       ''Hugepagesize:       2048 kB'',
       ''Hugetlb:        0 kB'',
       ''DirectMap4k:    196608 kB'',
       ''DirectMap2M:    4980736 kB'',
       ''DirectMap1G:    3145728 kB'']"

definition backup_cpu :: "int \<Rightarrow> real \<Rightarrow> real \<Rightarrow> real \<Rightarrow> (sim, string list) state" where
  "backup_cpu uptime l1 l5 l15 =
     do {
       c33 \<leftarrow> fsample ''kernel.processes'' 2;
       State_Monad.return ([
       ''<<<cpu>>>'',
       float_str 2 l1 @ '' '' @ float_str 2 l5 @ '' '' @ float_str 2 l15 @ '' '' @ int_str 1 @ ''/'' @ int_str 298 @ '' '' @ int_str (20000 + c33 mod 4999) @ '' '' @ int_str 4,
       ''<<<uptime>>>'',
       int_str uptime @ ''.00 '' @ int_str (py_trunc (real_of_int uptime * 3.8)) @ ''.00'']) }"

definition backup_timesync :: "host_cfg \<Rightarrow> int \<Rightarrow> string \<Rightarrow> (sim, string list) state" where
  "backup_timesync cfg last_sync sync_str =
     do {
       g34 \<leftarrow> gauge ''ntp.offset'' 0 (Some 1200) None 0.7 2400;
       let offset_us = py_trunc g34;
       g35 \<leftarrow> gauge ''ntp.jitter'' 2.1 None (Some 0.3) 1.5 1800;
       let jitter_ms = round_dec 3 (max 0.1 g35);
       t36 \<leftarrow> get_time;
       State_Monad.return ([
       ''<<<timesyncd>>>'',
       ''       Server: 185.125.190.56 (ntp.ubuntu.com)'',
       ''Poll interval: 34min 8s (min: 32s; max 34min 8s)'',
       ''         Leap: normal'',
       ''      Version: 4'',
       ''      Stratum: 2'',
       ''    Reference: A297B12C'',
       ''    Precision: 1us (-25)'',
       ''Root distance: 10.221ms (max: 5s)'',
       ''       Offset: '' @ signed_str offset_us @ ''us'',
       ''        Delay: 18.441ms'',
       ''       Jitter: '' @ fixed_str 3 jitter_ms @ ''ms'',
       '' Packet count: '' @ int_str (420 + py_trunc ((t36 - hc_start cfg) / 2048)),
       ''    Frequency: +6.772ppm'',
       ''[[['' @ int_str last_sync @ '']]]'',
       ''<<<timesyncd_ntpmessage:sep(10)>>>'',
       ''NTPMessage={ Leap=0, Version=4, Mode=4, Stratum=2, Precision=-25, RootDelay=8.114ms, RootDispersion=1.009ms, Reference=A297B12C, OriginateTimestamp='' @ sync_str @ '', ReceiveTimestamp='' @ sync_str @ '', TransmitTimestamp='' @ sync_str @ '', DestinationTimestamp='' @ sync_str @ '', Ignored=no, PacketCount=42, Jitter=2.118ms }'',
       ''Timezone=UTC'']) }"

definition backup_apt :: "string list" where
  "backup_apt =
     [
       ''<<<apt:sep(0)>>>'',
       ''No updates pending for installation'']"

definition backup_kernel :: "int \<Rightarrow> int \<Rightarrow> int \<Rightarrow> int \<Rightarrow> int \<Rightarrow> (sim, string list) state" where
  "backup_kernel now user system idle iowait =
     do {
       c37 \<leftarrow> fsample ''kernel.ctxt'' 800;
       c38 \<leftarrow> fsample ''kernel.processes'' 2;
       c39 \<leftarrow> fsample ''kernel.pgmajfault'' 0.1;
       State_Monad.return ([
       ''<<<kernel>>>'',
       int_str now,
       ''cpu '' @ int_str user @ '' 0 '' @ int_str system @ '' '' @ int_str idle @ '' '' @ int_str iowait @ '' 0 0 0 0 0'',
       ''ctxt '' @ int_str c37,
       ''processes '' @ int_str c38,
       ''pgmajfault '' @ int_str c39]) }"

definition backup_diskstat :: "int \<Rightarrow> backup_disk_vals \<Rightarrow> string list" where
  "backup_diskstat now dv =
     [
       ''<<<diskstat>>>'',
       int_str now,
       ''8 0 sda '' @ int_str (backup_d_sda_rd dv) @ '' 0 '' @ int_str (backup_d_sda_rd dv * 16) @ '' '' @ int_str (backup_d_sda_rdt dv) @ '' '' @ int_str (backup_d_sda_wr dv) @ '' 0 '' @ int_str (backup_d_sda_wr dv * 24) @ '' '' @ int_str (backup_d_sda_wrt dv) @ '' 0 '' @ int_str (backup_d_sda_iot dv) @ '' '' @ int_str (backup_d_sda_iot dv * 2) @ '' 0 0 0 0'',
       ''8 16 sdb '' @ int_str (backup_d_sdb_rd dv) @ '' 0 '' @ int_str (backup_d_sdb_rd dv * 32) @ '' '' @ int_str (backup_d_sdb_rdt dv) @ '' '' @ int_str (backup_d_sdb_wr dv) @ '' 0 '' @ int_str (backup_d_sdb_wr dv * 48) @ '' '' @ int_str (backup_d_sdb_wrt dv) @ '' 0 '' @ int_str (backup_d_sdb_iot dv) @ '' '' @ int_str (backup_d_sdb_iot dv * 2) @ '' 0 0 0 0'']"

definition backup_if :: "int \<Rightarrow> int \<Rightarrow> int \<Rightarrow> int \<Rightarrow> string list" where
  "backup_if rx_bytes tx_bytes rx_pkts tx_pkts =
     [
       ''<<<lnx_if>>>'',
       ''[start_iplink]'',
       ''1: lo: <LOOPBACK,UP,LOWER_UP> mtu 65536 qdisc noqueue state UNKNOWN group default qlen 1000'',
       ''    link/loopback 00:00:00:00:00:00 brd 00:00:00:00:00:00'',
       ''2: eth0: <BROADCAST,MULTICAST,UP,LOWER_UP> mtu 1500 qdisc fq_codel state UP group default qlen 1000'',
       ''    link/ether 02:42:ac:11:00:3b brd ff:ff:ff:ff:ff:ff'',
       ''[end_iplink]'',
       ''<<<lnx_if:sep(58)>>>'',
       ''eth0: '' @ int_str rx_bytes @ '' '' @ int_str rx_pkts @ '' 0 0 0 0 0 0 '' @ int_str tx_bytes @ '' '' @ int_str tx_pkts @ '' 0 0 0 0 0 0'',
       ''[eth0]'',
       TAB @ ''Speed: 10000Mb/s'',
       TAB @ ''Duplex: Full'',
       TAB @ ''Auto-negotiation: on'',
       TAB @ ''Link detected: yes'',
       ''Address: 02:42:ac:11:00:3b'']"

definition backup_tcp :: "(sim, string list) state" where
  "backup_tcp =
     do {
       g40 \<leftarrow> gauge ''tcp.estab'' 8 (Some 3) None 0.9 700;
       g41 \<leftarrow> gauge ''tcp.timewait'' 4 (Some 2) None 2.4 500;
       State_Monad.return ([
       ''<<<tcp_conn_stats>>>'',
       ''01 '' @ int_str (py_round g40),
       ''06 '' @ int_str (py_round g41),
       ''0A 2'']) }"

definition backup_smart_section :: "string \<Rightarrow> string \<Rightarrow> string list" where
  "backup_smart_section sda_smart sdb_smart =
     [
       ''<<<smart_posix_all:sep(0)>>>'',
       sda_smart,
       sdb_smart]"

definition backup_ps :: "int \<Rightarrow> string list" where
  "backup_ps now =
     [
       ''<<<ps_lnx>>>'',
       ''[time]'',
       int_str now,
       ''[processes]'',
       ''[header] CGROUP USER VSZ RSS TIME ELAPSED PID COMMAND''] @
      concat (map (\<lambda>(cgs, usr, vsz, rss, cputime, elapsed, pid, cmd). [
       ''0::/'' @ cgs @ '' '' @ usr @ '' '' @ int_str vsz @ '' '' @ int_str rss @ '' '' @ cputime @ '' '' @ elapsed @ '' '' @ int_str pid @ '' '' @ cmd]) ([
       (''init.scope'', ''root'', 168000, 12800, ''00:00:14'', ''12-00:08:21'', 1, ''/sbin/init''),
       (''system.slice/systemd-journald.service'', ''root'', 58300, 19400, ''00:00:52'', ''12-00:07:54'', 401, ''/usr/lib/systemd/systemd-journald''),
       (''system.slice/systemd-udevd.service'', ''root'', 25900, 7900, ''00:00:01'', ''12-00:07:53'', 438, ''/usr/lib/systemd/systemd-udevd''),
       (''system.slice/systemd-resolved.service'', ''systemd-resolve'', 26600, 13100, ''00:00:28'', ''12-00:07:52'', 489, ''/usr/lib/systemd/systemd-resolved''),
       (''system.slice/systemd-timesyncd.service'', ''systemd-timesync'', 91000, 7600, ''00:00:08'', ''12-00:07:51'', 503, ''/usr/lib/systemd/systemd-timesyncd''),
       (''system.slice/dbus.service'', ''messagebus'', 10200, 5100, ''00:00:11'', ''12-00:07:51'', 515, ''@dbus-daemon --system --address=systemd:''),
       (''system.slice/rsyslog.service'', ''syslog'', 222400, 6700, ''00:00:22'', ''12-00:07:50'', 612, ''/usr/sbin/rsyslogd -n -iNONE''),
       (''system.slice/ssh.service'', ''root'', 15400, 9000, ''00:00:01'', ''12-00:07:48'', 690, ''sshd: /usr/sbin/sshd -D [listener]''),
       (''system.slice/cron.service'', ''root'', 11500, 2500, ''00:00:01'', ''12-00:07:47'', 705, ''/usr/sbin/cron -f -P''),
       (''system.slice/smartmontools.service'', ''root'', 12012, 5904, ''00:00:00'', ''12-00:07:45'', 820, ''/usr/sbin/smartd -n''),
       (''system.slice/atd.service'', ''daemon'', 9800, 2200, ''00:00:00'', ''12-00:07:43'', 834, ''/usr/sbin/atd -f''),
       (''system.slice/multipathd.service'', ''root'', 41200, 15400, ''00:00:04'', ''12-00:07:42'', 850, ''/sbin/multipathd -d -s''),
       (''system.slice/networkd-dispatcher.service'', ''root'', 31500, 11200, ''00:00:00'', ''12-00:07:41'', 890, ''/usr/bin/python3 /usr/bin/networkd-dispatcher --run-startup-triggers''),
       (''system.slice/polkit.service'', ''root'', 24200, 9800, ''00:00:02'', ''12-00:07:40'', 910, ''/usr/lib/polkit-1/polkitd --no-debug''),
       (''system.slice/systemd-logind.service'', ''root'', 30800, 9100, ''00:00:03'', ''12-00:07:40'', 930, ''/usr/lib/systemd/systemd-logind''),
       (''system.slice/systemd-networkd.service'', ''root'', 27400, 9600, ''00:00:12'', ''12-00:07:39'', 960, ''/usr/lib/systemd/systemd-networkd''),
       (''system.slice/udisks2.service'', ''root'', 32600, 12800, ''00:00:01'', ''12-00:07:38'', 980, ''/usr/lib/udisks2/udisksd''),
       (''system.slice/unattended-upgrades.service'', ''root'', 68000, 22400, ''00:00:00'', ''12-00:07:37'', 1002, ''/usr/bin/python3 /usr/share/unattended-upgrades/unattended-upgrade-shutdown --wait-for-signal''),
       (''user.slice/user-0.slice/session-1.scope'', ''root'', 15600, 9200, ''00:00:00'', ''00:02:14'', 8210, ''sshd: root@pts/0''),
       (''user.slice/user-0.slice/session-1.scope'', ''root'', 7800, 4100, ''00:00:00'', ''00:02:14'', 8211, ''-bash'')]))"

definition backup_units :: "string list" where
  "backup_units =
     (let units = [
       (''restic-backup.service'', ''active'', ''exited'', ''Restic nightly backup to offsite repo''),
       (''restic-prune.service'', ''active'', ''exited'', ''Restic repository prune and compact''),
       (''restic-backup.timer'', ''active'', ''waiting'', ''Timer: nightly restic backup''),
       (''restic-prune.timer'', ''active'', ''waiting'', ''Timer: nightly restic prune''),
       (''ssh.service'', ''active'', ''running'', ''OpenBSD Secure Shell server''),
       (''cron.service'', ''active'', ''running'', ''Regular background program processing daemon''),
       (''atd.service'', ''active'', ''running'', ''Deferred execution scheduler''),
       (''dbus.service'', ''active'', ''running'', ''D-Bus System Message Bus''),
       (''multipathd.service'', ''active'', ''running'', ''Device-Mapper Multipath Device Controller''),
       (''networkd-dispatcher.service'', ''active'', ''running'', ''Dispatcher daemon for systemd-networkd''),
       (''polkit.service'', ''active'', ''running'', ''Authorization Manager''),
       (''rsyslog.service'', ''active'', ''running'', ''System Logging Service''),
       (''smartmontools.service'', ''active'', ''running'', ''Self Monitoring and Reporting Technology (SMART) Daemon''),
       (''systemd-journald.service'', ''active'', ''running'', ''Journal Service''),
       (''systemd-logind.service'', ''active'', ''running'', ''User Login Management''),
       (''systemd-networkd.service'', ''active'', ''running'', ''Network Configuration''),
       (''systemd-resolved.service'', ''active'', ''running'', ''Network Name Resolution''),
       (''systemd-timesyncd.service'', ''active'', ''running'', ''Network Time Synchronization''),
       (''systemd-udevd.service'', ''active'', ''running'', ''Rule-based Manager for Device Events and Files''),
       (''udisks2.service'', ''active'', ''running'', ''Disk Manager''),
       (''unattended-upgrades.service'', ''active'', ''running'', ''Unattended Upgrades Shutdown''),
       (''user@0.service'', ''active'', ''running'', ''User Manager for UID 0''),
       (''getty@tty1.service'', ''active'', ''running'', ''Getty on tty1''),
       (''apparmor.service'', ''active'', ''exited'', ''Load AppArmor profiles''),
       (''blk-availability.service'', ''active'', ''exited'', ''Availability of block devices''),
       (''console-setup.service'', ''active'', ''exited'', ''Set console font and keymap''),
       (''finalrd.service'', ''active'', ''exited'', ''Create final runtime dir for shutdown pivot root''),
       (''keyboard-setup.service'', ''active'', ''exited'', ''Set the console keyboard layout''),
       (''lvm2-monitor.service'', ''active'', ''exited'', ''Monitoring of LVM2 mirrors, snapshots etc. using dmeventd or progress polling''),
       (''setvtrgb.service'', ''active'', ''exited'', ''Set console scheme''),
       (''systemd-user-sessions.service'', ''active'', ''exited'', ''Permit User Sessions'')]
      in [
       ''<<<systemd_units>>>'',
       ''[list-unit-files]''] @
      concat (map (\<lambda>(nam, _, _, _). [
       nam @ '' enabled enabled'']) units) @
      [
       ''[status]'',
       ''[all]''] @
      concat (map (\<lambda>(nam, act, sub, descr). [
       nam @ '' loaded '' @ act @ '' '' @ sub @ '' '' @ descr]) units))"

definition backup_job :: "int \<Rightarrow> int \<Rightarrow> string list" where
  "backup_job bkp_start prune_start =
     [
       ''<<<job>>>'',
       ''==> restic-backup <=='',
       ''start_time '' @ int_str bkp_start,
       ''exit_code 0'',
       ''real_time 48:12.4'',
       ''user_time 142.80'',
       ''system_time 38.20'',
       ''max_res_kbytes 524288'',
       ''avg_mem_kbytes 0'',
       ''==> restic-prune <=='',
       ''start_time '' @ int_str prune_start,
       ''exit_code 0'',
       ''real_time 8:03.7'',
       ''user_time 24.60'',
       ''system_time 8.10'',
       ''max_res_kbytes 204800'',
       ''avg_mem_kbytes 0'']"

text \<open>The payload: the sections in order, one line each.\<close>

definition backup_build :: "host_cfg \<Rightarrow> (nat \<Rightarrow> int) \<Rightarrow> (sim, string) state" where
  "backup_build cfg ri = do {
       (now, uptime) \<leftarrow> backup_clock cfg;
       (l1, l5, l15) \<leftarrow> backup_load;
       (user, system, idle, iowait) \<leftarrow> backup_ticks;
       dv \<leftarrow> backup_disk;
       (rx_bytes, tx_bytes, rx_pkts, tx_pkts) \<leftarrow> backup_net;
       (sda_smart, sdb_smart) \<leftarrow> backup_smart uptime;
       mv \<leftarrow> backup_memory;
       (root_used, bkp_used, root_size, bkp_size) \<leftarrow> backup_fs cfg;
       let (bkp_start, prune_start) = backup_jobs now;
       let (cert_to, last_sync, sync_str) = backup_dates cfg now;
       let l_head = backup_head cfg cert_to;
       let l_df = backup_df root_used bkp_used root_size bkp_size;
       let l_mem = backup_mem mv;
       l_cpu \<leftarrow> backup_cpu uptime l1 l5 l15;
       l_timesync \<leftarrow> backup_timesync cfg last_sync sync_str;
       let l_apt = backup_apt;
       l_kernel \<leftarrow> backup_kernel now user system idle iowait;
       let l_diskstat = backup_diskstat now dv;
       let l_if = backup_if rx_bytes tx_bytes rx_pkts tx_pkts;
       l_tcp \<leftarrow> backup_tcp;
       let l_smart_section = backup_smart_section sda_smart sdb_smart;
       let l_ps = backup_ps now;
       let l_units = backup_units;
       let l_job = backup_job bkp_start prune_start;
       State_Monad.return (concat (map (\<lambda>l. l @ [CHR 0x0A])
         (l_head @ l_df @ l_mem @ l_cpu @ l_timesync @ l_apt @ l_kernel @ l_diskstat @ l_if @ l_tcp @ l_smart_section @ l_ps @ l_units @ l_job))) }"

end
