(* ===== verification/Host_Replica.thy ===== *)
theory Host_Replica
  imports Host_Story
begin

text \<open>
  \<open>hosts/db-postgres-02/serve.py\<close>, the read replica whose connections leak: its counters, the connection
  counts that drive the incident, its filesystems and the agent output, section by section.  \<open>sta\<close> is the
  state the handler passes, \<open>d\<close> the incident record the story functions read, \<open>ri\<close> the outcomes of
  \<open>random.randint\<close> in the order of the calls.  \<open>MAX_CONNECTIONS\<close> is a field of the configuration; at the value
  96 the connect-time section of the program divides by zero, which the total division of the model hides.
\<close>

section \<open>Configuration, counters and the connection leak\<close>

record replica_cfg = incident_cfg +
  max_conn :: int

definition BROKEN_CAP :: "replica_cfg \<Rightarrow> int" where
  "BROKEN_CAP cfg = max_conn cfg - 6"

definition replica_counters :: "(string \<times> real \<times> real \<times> real) list" where
  "replica_counters = [
     (''cpu.user'', 0.3, 0.30, 48 * real_of_int 1036800),
     (''cpu.system'', 1.1, 0.30, 20 * real_of_int 1036800),
     (''cpu.idle'', 2.4, 0.30, 320 * real_of_int 1036800),
     (''cpu.iowait'', 3.0, 0.30, 8 * real_of_int 1036800),
     (''kernel.ctxt'', 4.0, 0.30, 2400 * real_of_int 1036800),
     (''kernel.processes'', 4.7, 0.30, 6 * real_of_int 1036800),
     (''kernel.pgmajfault'', 5.4, 0.30, 1 * real_of_int 1036800),
     (''sda.rd_ios'', 0.0, 0.30, 5 * real_of_int 1036800),
     (''sda.rd_ticks'', 0.2, 0.30, 3 * real_of_int 1036800),
     (''sda.wr_ios'', 0.4, 0.30, 10 * real_of_int 1036800),
     (''sda.wr_ticks'', 0.6, 0.30, 8 * real_of_int 1036800),
     (''sda.io_ticks'', 0.8, 0.05, 14 * real_of_int 1036800),
     (''sdb.rd_ios'', 1.0, 0.30, 60 * real_of_int 1036800),
     (''sdb.rd_ticks'', 1.2, 0.30, 25 * real_of_int 1036800),
     (''sdb.wr_ios'', 1.4, 0.30, 95 * real_of_int 1036800),
     (''sdb.wr_ticks'', 1.6, 0.30, 48 * real_of_int 1036800),
     (''sdb.io_ticks'', 1.8, 0.05, 70 * real_of_int 1036800),
     (''net.rx_bytes'', 1.6, 0.30, 520000 * real_of_int 1036800),
     (''net.tx_bytes'', 2.3, 0.30, 410000 * real_of_int 1036800),
     (''net.rx_pkts'', 3.0, 0.30, 1600 * real_of_int 1036800),
     (''net.tx_pkts'', 3.7, 0.30, 1500 * real_of_int 1036800),
     (''pg.analytics.xact_commit'', 0.5, 0.30, 85 * real_of_int 1036800),
     (''pg.analytics.xact_rollback'', 0.9, 0.30, 0.3 * real_of_int 1036800),
     (''pg.analytics.blks_read'', 1.3, 0.30, 120 * real_of_int 1036800),
     (''pg.analytics.blks_hit'', 1.7, 0.30, 16000 * real_of_int 1036800),
     (''pg.analytics.tup_returned'', 2.1, 0.30, 48000 * real_of_int 1036800),
     (''pg.analytics.tup_fetched'', 2.5, 0.30, 12000 * real_of_int 1036800),
     (''pg.analytics.tup_inserted'', 2.9, 0.30, 0 * real_of_int 1036800),
     (''pg.analytics.tup_updated'', 3.3, 0.30, 0 * real_of_int 1036800),
     (''pg.analytics.tup_deleted'', 3.7, 0.30, 0 * real_of_int 1036800),
     (''pg.postgres.xact_commit'', 0.4, 0.30, 0.5 * real_of_int 1036800),
     (''pg.postgres.blks_hit'', 1.0, 0.30, 22 * real_of_int 1036800),
     (''pg.postgres.tup_returned'', 1.4, 0.30, 28 * real_of_int 1036800)]"

definition connection_counts :: "replica_cfg \<Rightarrow> dstate \<Rightarrow> (sim, int \<times> int) state" where
  "connection_counts cfg d =
     do {
       ds \<leftarrow> degraded_seconds d;
       bs \<leftarrow> host_broken_seconds d;
       g3 \<leftarrow> gauge ''pg.active'' 4 (Some 1.5) None 0.7 400;
       let active = py_round g3;
       let active = max 1 active;
       (if ds \<le> 0 then do {
         g4 \<leftarrow> gauge ''pg.idle'' (real_of_int (30 - 4)) (Some 3) None 1.3 600;
         let idle = py_round g4;
         State_Monad.return ((max 1 idle, active)) }
       else do {
         let deg_frac = (if ic_fill cfg \<le> 0 then 1.0 else min 1.0 (ds / (ic_fill cfg * 60.0)));
         let idle_total = lerp 90 (real_of_int 150) deg_frac;
         let idle_total = (if bs > 0 then (let runaway = (if ic_ramp cfg > 0 then min 1.0 (bs / (ic_ramp cfg * 60.0)) else 1.0);
          creep = real_of_int (BROKEN_CAP cfg - 184) * (1.0 - exp ((- bs) / 240.0));
          idle_total = max idle_total (lerp (real_of_int 150) 184 runaway + creep)
      in idle_total) else idle_total);
         g5 \<leftarrow> gauge ''pg.idle'' 0 (Some 1.2) None 1.3 600;
         let idle = py_round (idle_total + g5);
         let idle = max 30 (min (BROKEN_CAP cfg - active) idle);
         State_Monad.return ((idle, active)) }) }"

section \<open>Disk health and filesystems\<close>

definition replica_smart_json :: "string \<Rightarrow> string \<Rightarrow> string \<Rightarrow> int \<Rightarrow> int \<Rightarrow> string" where
  "replica_smart_json nam model serial hours temp =
     (let doc = JObj [(''device'', JObj [(''name'', JStr nam),
         (''type'', JStr ''sat''),
         (''protocol'', JStr ''ATA'')]),
         (''model_name'', JStr model),
         (''serial_number'', JStr serial),
         (''smart_status'', JObj [(''passed'', JBool True)]),
         (''power_on_time'', JObj [(''hours'', JNum hours)]),
         (''temperature'', JObj [(''current'', JNum temp)]),
         (''ata_smart_attributes'', JObj [(''table'', JArr [JObj [(''id'', JNum 5),
         (''name'', JStr ''Reallocated_Sector_Ct''),
         (''value'', JNum 100),
         (''thresh'', JNum 10),
         (''raw'', JObj [(''value'', JNum 0)])],
         JObj [(''id'', JNum 12),
         (''name'', JStr ''Power_Cycle_Count''),
         (''value'', JNum 100),
         (''thresh'', JNum 0),
         (''raw'', JObj [(''value'', JNum 37)])],
         JObj [(''id'', JNum 187),
         (''name'', JStr ''Reported_Uncorrect''),
         (''value'', JNum 100),
         (''thresh'', JNum 0),
         (''raw'', JObj [(''value'', JNum 0)])],
         JObj [(''id'', JNum 197),
         (''name'', JStr ''Current_Pending_Sector''),
         (''value'', JNum 100),
         (''thresh'', JNum 0),
         (''raw'', JObj [(''value'', JNum 0)])],
         JObj [(''id'', JNum 199),
         (''name'', JStr ''UDMA_CRC_Error_Count''),
         (''value'', JNum 200),
         (''thresh'', JNum 0),
         (''raw'', JObj [(''value'', JNum 0)])],
         JObj [(''id'', JNum 177),
         (''name'', JStr ''Wear_Leveling_Count''),
         (''value'', JNum 94),
         (''thresh'', JNum 5),
         (''raw'', JObj [(''value'', JNum 118)])],
         JObj [(''id'', JNum 179),
         (''name'', JStr ''Used_Rsvd_Blk_Cnt_Tot''),
         (''value'', JNum 100),
         (''thresh'', JNum 10),
         (''raw'', JObj [(''value'', JNum 0)])]])])]
      in dumps (doc))"

definition mib_kb :: "real \<Rightarrow> int" where
  "mib_kb mib =
     py_trunc (mib * 1024)"

definition replica_filesystem_usage :: "replica_cfg \<Rightarrow> real \<Rightarrow> (sim, int \<times> int) state" where
  "replica_filesystem_usage cfg now =
     do {
       let uptime = now - hc_start cfg + real_of_int 1036800;
       let day = 86400.0;
       let root_base = 14680064;
       let root_logs = 1048576 * (real_mod now day / day);
       let root_growth = min 1572864 (uptime * 0.04);
       g6 \<leftarrow> gauge ''fs.root'' 0 (Some 90000) None 0 1500;
       let root_used = py_trunc (real_of_int root_base + root_logs + root_growth + g6);
       let data_base = 121634816;
       let wal = 1572864 * (real_mod now 720.0 / 720.0);
       let db_growth = min 6291456 (uptime * 2.0);
       g7 \<leftarrow> gauge ''fs.data'' 0 (Some 300000) None 0 900;
       let data_used = py_trunc (real_of_int data_base + wal + db_growth + g7);
       State_Monad.return ((root_used, data_used)) }"

section \<open>The agent output\<close>

definition rep_clock :: "replica_cfg \<Rightarrow> string \<Rightarrow> (sim, int \<times> int \<times> bool) state" where
  "rep_clock cfg sta =
     do {
       t8 \<leftarrow> get_time;
       let now = py_trunc t8;
       t9 \<leftarrow> get_time;
       let uptime = py_trunc (t9 - hc_start cfg) + 1036800;
       let broken = sta = ''broken'';
       State_Monad.return ((now, uptime, broken)) }"

definition rep_conns :: "replica_cfg \<Rightarrow> dstate \<Rightarrow> (sim, int \<times> int \<times> int) state" where
  "rep_conns cfg d =
     do {
       r10 \<leftarrow> connection_counts cfg d;
       let (idle_sess, run_sess) = r10;
       let total_conns = idle_sess + run_sess;
       State_Monad.return ((idle_sess, run_sess, total_conns)) }"

record rep_memory_vals =
  rep_m_commit_limit :: "int"
  rep_m_mem_free :: "int"
  rep_m_mem_available :: "int"
  rep_m_dirty :: "int"
  rep_m_committed :: "int"

definition rep_memory :: "int \<Rightarrow> (sim, rep_memory_vals) state" where
  "rep_memory total_conns =
     do {
       let commit_limit = 4194300 + 16384000 div 2;
       let backend_mem = total_conns * 2560;
       g11 \<leftarrow> gauge ''mem.free'' 3100000 None (Some 0.015) 0.4 1500;
       let mem_free = py_trunc g11 - backend_mem;
       let mem_free = max 1800000 mem_free;
       g12 \<leftarrow> gauge ''mem.avail'' 8200000 None (Some 0.012) 1.2 1700;
       let mem_available = py_trunc g12 - backend_mem;
       let mem_available = max 2500000 mem_available;
       g13 \<leftarrow> gauge ''mem.dirty'' 18432 None (Some 0.12) 2.0 800;
       let dirty = max 8192 (py_trunc g13);
       g14 \<leftarrow> gauge ''mem.committed'' (real_of_int (6900000 + backend_mem)) None (Some 0.01) 1.2 1700;
       let committed = py_trunc g14;
       State_Monad.return (\<lparr>rep_m_commit_limit = commit_limit,
         rep_m_mem_free = mem_free,
         rep_m_mem_available = mem_available,
         rep_m_dirty = dirty,
         rep_m_committed = committed\<rparr>) }"

record rep_load_vals =
  rep_re_l1 :: "real"
  rep_re_l5 :: "real"
  rep_re_l15 :: "real"
  rep_re_runnable :: "int"
  rep_re_total_procs :: "int"

definition rep_load :: "int \<Rightarrow> int \<Rightarrow> (sim, rep_load_vals) state" where
  "rep_load run_sess total_conns =
     do {
       let load_bump = min 2.5 (real_of_int total_conns / 90.0);
       g15 \<leftarrow> gauge ''load1'' (1.6 + load_bump) None (Some 0.22) 0.2 300;
       let l1 = round_dec 2 g15;
       g16 \<leftarrow> gauge ''load5'' (1.5 + load_bump * 0.9) None (Some 0.12) 1.0 900;
       let l5 = round_dec 2 g16;
       g17 \<leftarrow> gauge ''load15'' (1.4 + load_bump * 0.8) None (Some 0.06) 2.0 2400;
       let l15 = round_dec 2 g17;
       let runnable = 2 + py_round (real_of_int run_sess / 4);
       let total_procs = 300 + total_conns;
       State_Monad.return (\<lparr>rep_re_l1 = l1,
         rep_re_l5 = l5,
         rep_re_l15 = l15,
         rep_re_runnable = runnable,
         rep_re_total_procs = total_procs\<rparr>) }"

definition rep_ticks :: "int \<Rightarrow> (sim, int \<times> int \<times> int \<times> int) state" where
  "rep_ticks total_conns =
     do {
       user \<leftarrow> fsample ''cpu.user'' (48 + real_of_int total_conns * 0.05);
       system \<leftarrow> fsample ''cpu.system'' 20;
       idle \<leftarrow> fsample ''cpu.idle'' 320;
       iowait \<leftarrow> fsample ''cpu.iowait'' 8;
       State_Monad.return ((user, system, idle, iowait)) }"

record rep_disk_vals =
  rep_d_sda_rd :: "int"
  rep_d_sda_rdt :: "int"
  rep_d_sda_wr :: "int"
  rep_d_sda_wrt :: "int"
  rep_d_sda_iot :: "int"
  rep_d_sdb_rd :: "int"
  rep_d_sdb_rdt :: "int"
  rep_d_sdb_wr :: "int"
  rep_d_sdb_wrt :: "int"
  rep_d_sdb_iot :: "int"
  rep_d_sdb_queue :: "int"

definition rep_disk :: "(nat \<Rightarrow> int) \<Rightarrow> (sim, rep_disk_vals) state" where
  "rep_disk ri =
     do {
       sda_rd \<leftarrow> fsample ''sda.rd_ios'' 5;
       sda_rdt \<leftarrow> fsample ''sda.rd_ticks'' 3;
       sda_wr \<leftarrow> fsample ''sda.wr_ios'' 10;
       sda_wrt \<leftarrow> fsample ''sda.wr_ticks'' 8;
       sda_iot \<leftarrow> fsample ''sda.io_ticks'' 14;
       sdb_rd \<leftarrow> fsample ''sdb.rd_ios'' 60;
       sdb_rdt \<leftarrow> fsample ''sdb.rd_ticks'' 25;
       sdb_wr \<leftarrow> fsample ''sdb.wr_ios'' 95;
       sdb_wrt \<leftarrow> fsample ''sdb.wr_ticks'' 48;
       sdb_iot \<leftarrow> fsample ''sdb.io_ticks'' 70;
       let sdb_queue = (ri 0);
       State_Monad.return (\<lparr>rep_d_sda_rd = sda_rd,
         rep_d_sda_rdt = sda_rdt,
         rep_d_sda_wr = sda_wr,
         rep_d_sda_wrt = sda_wrt,
         rep_d_sda_iot = sda_iot,
         rep_d_sdb_rd = sdb_rd,
         rep_d_sdb_rdt = sdb_rdt,
         rep_d_sdb_wr = sdb_wr,
         rep_d_sdb_wrt = sdb_wrt,
         rep_d_sdb_iot = sdb_iot,
         rep_d_sdb_queue = sdb_queue\<rparr>) }"

definition rep_net :: "(sim, int \<times> int \<times> int \<times> int) state" where
  "rep_net =
     do {
       rx_bytes \<leftarrow> fsample ''net.rx_bytes'' 520000;
       tx_bytes \<leftarrow> fsample ''net.tx_bytes'' 410000;
       rx_pkts \<leftarrow> fsample ''net.rx_pkts'' 1600;
       tx_pkts \<leftarrow> fsample ''net.tx_pkts'' 1500;
       State_Monad.return ((rx_bytes, tx_bytes, rx_pkts, tx_pkts)) }"

definition rep_smart :: "int \<Rightarrow> (sim, string \<times> string) state" where
  "rep_smart uptime =
     do {
       g36 \<leftarrow> gauge ''smart.sda.temp'' 29 (Some 1.2) None 2.1 1100;
       let sda_temp = py_round g36;
       g37 \<leftarrow> gauge ''smart.sdb.temp'' 30 (Some 1.3) None 0.7 900;
       let sdb_temp = py_round g37;
       let sda_smart = replica_smart_json ''/dev/sda'' ''INTEL SSDSC2KB240G8'' ''PHYF108200KL240A'' (py_trunc (real_of_int uptime / 3600) + 22000) sda_temp;
       let sdb_smart = replica_smart_json ''/dev/sdb'' ''SAMSUNG MZ7L3480HCHQ-00A07'' ''S6KSNG0T618907'' (py_trunc (real_of_int uptime / 3600) + 26000) sdb_temp;
       State_Monad.return ((sda_smart, sdb_smart)) }"

definition rep_head :: "replica_cfg \<Rightarrow> int \<Rightarrow> string list" where
  "rep_head cfg now =
     (let cert_to = strftime ''%a, %d %b %Y %H:%M:%S +0000'' (gmtime (now + 324 * 86400))
      in [
       ''<<<check_mk>>>'',
       ''Version: '' @ hc_version cfg,
       ''AgentOS: linux'',
       ''Hostname: '' @ hc_hostname cfg,
       ''InstallationDirectory: /opt/checkmk/agent/default'',
       ''PackageDirectory: /opt/checkmk/agent/default/package'',
       ''RuntimeDirectory: /opt/checkmk/agent/default/runtime'',
       ''OSType: linux'',
       ''OSName: Ubuntu'',
       ''OSVersion: 24.04'',
       ''OSPlatform: ubuntu'',
       ''FailedPythonReason: '',
       ''SSHClient: '',
       ''<<<cmk_agent_ctl_status:sep(0)>>>'',
       dumps (JObj [(''version'', JStr (hc_version cfg)),
         (''agent_socket_operational'', JBool True),
         (''ip_allowlist'', JArr []),
         (''allow_legacy_pull'', JBool False),
         (''connections'', JArr [JObj [(''site_id'', JStr ''monitoring/prod''),
         (''receiver_port'', JNum 8000),
         (''uuid'', JStr ''7c9a1f02-3b8e-4d51-9a6c-1e4d2f8b7a55''),
         (''local'', JObj [(''connection_mode'', JStr ''pull-agent''), (''cert_info'', JObj [(''issuer'', JStr (''Site '' @ [CHR 0x27] @ ''prod'' @ [CHR 0x27] @ '' local CA'')),
         (''from'', JStr ''Tue, 03 Jun 2025 09:12:44 +0000''),
         (''to'', JStr cert_to)])]),
         (''remote'', JStr ''remote_query_disabled'')]])]),
       ''<<<checkmk_agent_plugins_lnx:sep(0)>>>'',
       ''pluginsdir /opt/checkmk/agent/default/package/plugins'',
       ''localdir /opt/checkmk/agent/default/package/local'',
       ''/opt/checkmk/agent/default/package/plugins/mk_postgres.py:CMK_VERSION='' @ [CHR 0x22] @ hc_version cfg @ [CHR 0x22],
       ''/opt/checkmk/agent/default/package/plugins/86400/mk_apt:CMK_VERSION='' @ [CHR 0x22] @ hc_version cfg @ [CHR 0x22]])"

definition rep_df :: "replica_cfg \<Rightarrow> (sim, string list) state" where
  "rep_df cfg =
     do {
       t38 \<leftarrow> get_time;
       r39 \<leftarrow> replica_filesystem_usage cfg t38;
       let (root_used, data_used) = r39;
       State_Monad.return ([
       ''<<<df_v2>>>'',
       ''/dev/sda1 ext4 '' @ int_str 41943040 @ '' '' @ int_str root_used @ '' '' @ int_str (41943040 - root_used) @ '' '' @ int_str (py_round (real_of_int root_used / (real_of_int 41943040) * 100)) @ ''% /'',
       ''/dev/sdb1 ext4 '' @ int_str 468713472 @ '' '' @ int_str data_used @ '' '' @ int_str (468713472 - data_used) @ '' '' @ int_str (py_round (real_of_int data_used / (real_of_int 468713472) * 100)) @ ''% /var/lib/postgresql'',
       ''[df_inodes_start]'',
       ''/dev/sda1 ext4 '' @ int_str 2621440 @ '' 301722 '' @ int_str (2621440 - 301722) @ '' 12% /'',
       ''/dev/sdb1 ext4 '' @ int_str 29302784 @ '' 46118 '' @ int_str (29302784 - 46118) @ '' 1% /var/lib/postgresql'',
       ''[df_inodes_end]'']) }"

definition rep_mem :: "int \<Rightarrow> rep_memory_vals \<Rightarrow> string list" where
  "rep_mem total_conns mv =
     [
       ''<<<mounts>>>'',
       ''/dev/sda1 / ext4 rw,relatime,errors=remount-ro 0 0'',
       ''/dev/sdb1 /var/lib/postgresql ext4 rw,noatime,errors=remount-ro 0 0'',
       ''<<<mem>>>'',
       ''MemTotal:       '' @ int_str 16384000 @ '' kB'',
       ''MemFree:        '' @ int_str (rep_m_mem_free mv) @ '' kB'',
       ''MemAvailable:   '' @ int_str (rep_m_mem_available mv) @ '' kB'',
       ''Buffers:        '' @ int_str (mib_kb 190) @ '' kB'',
       ''Cached:         '' @ int_str 6700000 @ '' kB'',
       ''SwapCached:     0 kB'',
       ''Active:         6024110 kB'',
       ''Inactive:       6390220 kB'',
       ''Active(anon):   4612300 kB'',
       ''Inactive(anon): 3402880 kB'',
       ''Active(file):   1411810 kB'',
       ''Inactive(file): 2987340 kB'',
       ''Unevictable:    0 kB'',
       ''Mlocked:        0 kB'',
       ''SwapTotal:      '' @ int_str 4194300 @ '' kB'',
       ''SwapFree:       '' @ int_str 4194300 @ '' kB'',
       ''Zswap:          0 kB'',
       ''Zswapped:       0 kB'',
       ''Dirty:          '' @ int_str (rep_m_dirty mv) @ '' kB'',
       ''Writeback:      0 kB'',
       ''AnonPages:      5388420 kB'',
       ''Mapped:         478208 kB'',
       ''Shmem:          '' @ int_str 2621440 @ '' kB'',
       ''KReclaimable:   511360 kB'',
       ''Slab:           632800 kB'',
       ''SReclaimable:   511360 kB'',
       ''SUnreclaim:     121440 kB'',
       ''KernelStack:    '' @ int_str (6000 + total_conns * 16) @ '' kB'',
       ''PageTables:     94208 kB'',
       ''SecPageTables:  0 kB'',
       ''NFS_Unstable:   0 kB'',
       ''Bounce:         0 kB'',
       ''WritebackTmp:   0 kB'',
       ''CommitLimit:    '' @ int_str (rep_m_commit_limit mv) @ '' kB'',
       ''Committed_AS:   '' @ int_str (rep_m_committed mv) @ '' kB'',
       ''VmallocTotal:   34359738367 kB'',
       ''VmallocUsed:    59392 kB'',
       ''VmallocChunk:   0 kB'',
       ''Percpu:         16384 kB'',
       ''HardwareCorrupted: 0 kB'',
       ''AnonHugePages:  0 kB'',
       ''ShmemHugePages: 0 kB'',
       ''ShmemPmdMapped: 0 kB'',
       ''FileHugePages:  0 kB'',
       ''FilePmdMapped:  0 kB'',
       ''CmaTotal:       0 kB'',
       ''CmaFree:        0 kB'',
       ''Unaccepted:     0 kB'',
       ''Balloon:        0 kB'',
       ''HugePages_Total:       0'',
       ''HugePages_Free:        0'',
       ''HugePages_Rsvd:        0'',
       ''HugePages_Surp:        0'',
       ''Hugepagesize:       2048 kB'',
       ''Hugetlb:        0 kB'',
       ''DirectMap4k:    321024 kB'',
       ''DirectMap2M:    6814720 kB'',
       ''DirectMap1G:    9437184 kB'']"

definition rep_cpu :: "int \<Rightarrow> rep_load_vals \<Rightarrow> (sim, string list) state" where
  "rep_cpu uptime lv =
     do {
       c40 \<leftarrow> fsample ''kernel.processes'' 6;
       State_Monad.return ([
       ''<<<cpu>>>'',
       float_str 2 (rep_re_l1 lv) @ '' '' @ float_str 2 (rep_re_l5 lv) @ '' '' @ float_str 2 (rep_re_l15 lv) @ '' '' @ int_str (rep_re_runnable lv) @ ''/'' @ int_str (rep_re_total_procs lv) @ '' '' @ int_str (31000 + c40 mod 9999) @ '' '' @ int_str 4,
       ''<<<uptime>>>'',
       int_str uptime @ ''.00 '' @ int_str (py_trunc (real_of_int uptime * 3.1)) @ ''.00'']) }"

definition rep_timesync :: "replica_cfg \<Rightarrow> (nat \<Rightarrow> int) \<Rightarrow> int \<Rightarrow> (sim, string list) state" where
  "rep_timesync cfg ri now =
     do {
       let last_sync = now - py_trunc (real_mod (real_of_int now - hc_start cfg) 2048);
       let sync_str = strftime ''%a %Y-%m-%d %H:%M:%S UTC'' (gmtime last_sync);
       let offset_us = (ri 1);
       t41 \<leftarrow> get_time;
       State_Monad.return ([
       ''<<<timesyncd>>>'',
       ''       Server: 185.125.190.56 (ntp.ubuntu.com)'',
       ''Poll interval: 34min 8s (min: 32s; max 34min 8s)'',
       ''         Leap: normal'',
       ''      Version: 4'',
       ''      Stratum: 2'',
       ''    Reference: B97D5A38'',
       ''    Precision: 1us (-25)'',
       ''Root distance: 10.942ms (max: 5s)'',
       ''       Offset: '' @ signed_str offset_us @ ''us'',
       ''        Delay: 20.114ms'',
       ''       Jitter: '' @ fixed_str 3 (real_of_int (ri 2) / 1000) @ ''ms'',
       '' Packet count: '' @ int_str (540 + py_trunc ((t41 - hc_start cfg) / 2048)),
       ''    Frequency: +11.602ppm'',
       ''[[['' @ int_str last_sync @ '']]]'',
       ''<<<timesyncd_ntpmessage:sep(10)>>>'',
       ''NTPMessage={ Leap=0, Version=4, Mode=4, Stratum=2, Precision=-25, RootDelay=10.118ms, RootDispersion=1.287ms, Reference=B97D5A38, OriginateTimestamp='' @ sync_str @ '', ReceiveTimestamp='' @ sync_str @ '', TransmitTimestamp='' @ sync_str @ '', DestinationTimestamp='' @ sync_str @ '', Ignored=no, PacketCount=61, Jitter=1.204ms }'',
       ''Timezone=UTC'']) }"

definition rep_apt :: "string list" where
  "rep_apt =
     [
       ''<<<apt:sep(0)>>>'',
       ''No updates pending for installation'']"

definition rep_kernel :: "int \<Rightarrow> int \<Rightarrow> int \<Rightarrow> int \<Rightarrow> int \<Rightarrow> (sim, string list) state" where
  "rep_kernel now user system idle iowait =
     do {
       c42 \<leftarrow> fsample ''kernel.ctxt'' 2400;
       c43 \<leftarrow> fsample ''kernel.processes'' 6;
       c44 \<leftarrow> fsample ''kernel.pgmajfault'' 1;
       State_Monad.return ([
       ''<<<kernel>>>'',
       int_str now,
       ''cpu '' @ int_str user @ '' 0 '' @ int_str system @ '' '' @ int_str idle @ '' '' @ int_str iowait @ '' 0 0 0 0 0'',
       ''ctxt '' @ int_str c42,
       ''processes '' @ int_str c43,
       ''pgmajfault '' @ int_str c44]) }"

definition rep_diskstat :: "int \<Rightarrow> rep_disk_vals \<Rightarrow> string list" where
  "rep_diskstat now dv =
     [
       ''<<<diskstat>>>'',
       int_str now,
       ''8 0 sda '' @ int_str (rep_d_sda_rd dv) @ '' 0 '' @ int_str (rep_d_sda_rd dv * 24) @ '' '' @ int_str (rep_d_sda_rdt dv) @ '' '' @ int_str (rep_d_sda_wr dv) @ '' 0 '' @ int_str (rep_d_sda_wr dv * 48) @ '' '' @ int_str (rep_d_sda_wrt dv) @ '' 0 '' @ int_str (rep_d_sda_iot dv) @ '' '' @ int_str (rep_d_sda_iot dv * 2) @ '' 0 0 0 0'',
       ''8 16 sdb '' @ int_str (rep_d_sdb_rd dv) @ '' 0 '' @ int_str (rep_d_sdb_rd dv * 64) @ '' '' @ int_str (rep_d_sdb_rdt dv) @ '' '' @ int_str (rep_d_sdb_wr dv) @ '' 0 '' @ int_str (rep_d_sdb_wr dv * 96) @ '' '' @ int_str (rep_d_sdb_wrt dv) @ '' '' @ int_str (rep_d_sdb_queue dv) @ '' '' @ int_str (rep_d_sdb_iot dv) @ '' '' @ int_str (rep_d_sdb_iot dv * 3) @ '' 0 0 0 0'']"

definition rep_if :: "int \<Rightarrow> int \<Rightarrow> int \<Rightarrow> int \<Rightarrow> string list" where
  "rep_if rx_bytes tx_bytes rx_pkts tx_pkts =
     [
       ''<<<lnx_if>>>'',
       ''[start_iplink]'',
       ''1: lo: <LOOPBACK,UP,LOWER_UP> mtu 65536 qdisc noqueue state UNKNOWN group default qlen 1000'',
       ''    link/loopback 00:00:00:00:00:00 brd 00:00:00:00:00:00'',
       ''2: eth0: <BROADCAST,MULTICAST,UP,LOWER_UP> mtu 1500 qdisc fq_codel state UP group default qlen 1000'',
       ''    link/ether 02:42:ac:11:00:41 brd ff:ff:ff:ff:ff:ff'',
       ''[end_iplink]'',
       ''<<<lnx_if:sep(58)>>>'',
       ''eth0: '' @ int_str rx_bytes @ '' '' @ int_str rx_pkts @ '' 0 0 0 0 0 0 '' @ int_str tx_bytes @ '' '' @ int_str tx_pkts @ '' 0 0 0 0 0 0'',
       ''[eth0]'',
       TAB @ ''Speed: 10000Mb/s'',
       TAB @ ''Duplex: Full'',
       TAB @ ''Auto-negotiation: on'',
       TAB @ ''Link detected: yes'',
       ''Address: 02:42:ac:11:00:41'']"

definition rep_tcp :: "(nat \<Rightarrow> int) \<Rightarrow> int \<Rightarrow> (sim, string list) state" where
  "rep_tcp ri total_conns =
     do {
       g45 \<leftarrow> gauge ''tcp.estab'' 6 (Some 4) None 0.9 700;
       g46 \<leftarrow> gauge ''tcp.timewait'' 11 (Some 4) None 2.4 500;
       State_Monad.return ([
       ''<<<tcp_conn_stats>>>'',
       ''01 '' @ int_str (total_conns + py_round g45),
       ''02 '' @ int_str (ri 3),
       ''06 '' @ int_str (py_round g46),
       ''0A 5'']) }"

definition rep_smart_section :: "string \<Rightarrow> string \<Rightarrow> string list" where
  "rep_smart_section sda_smart sdb_smart =
     [
       ''<<<smart_posix_all:sep(0)>>>'',
       sda_smart,
       sdb_smart]"

definition rep_ps :: "int \<Rightarrow> int \<Rightarrow> int \<Rightarrow> int \<Rightarrow> string list" where
  "rep_ps now idle_sess run_sess total_conns =
     (let cg = ''0::/system.slice/postgresql.service''
      in [
       ''<<<ps_lnx>>>'',
       ''[time]'',
       int_str now,
       ''[processes]'',
       ''[header] CGROUP USER VSZ RSS TIME ELAPSED PID COMMAND''] @
      concat (map (\<lambda>(cgs, usr, vsz, rss, cputime, pid, cmd). [
       ''0::/'' @ cgs @ '' '' @ usr @ '' '' @ int_str vsz @ '' '' @ int_str rss @ '' '' @ cputime @ '' 12-01:52:40 '' @ int_str pid @ '' '' @ cmd]) ([
       (''init.scope'', ''root'', 168000, 13000, ''00:00:36'', 1, ''/sbin/init''),
       (''system.slice/systemd-journald.service'', ''root'', 63800, 21400, ''00:01:33'', 410, ''/usr/lib/systemd/systemd-journald''),
       (''system.slice/systemd-udevd.service'', ''root'', 26100, 8100, ''00:00:04'', 447, ''/usr/lib/systemd/systemd-udevd''),
       (''system.slice/systemd-resolved.service'', ''systemd-resolve'', 26700, 13400, ''00:00:52'', 498, ''/usr/lib/systemd/systemd-resolved''),
       (''system.slice/systemd-timesyncd.service'', ''systemd-timesync'', 91000, 7700, ''00:00:11'', 516, ''/usr/lib/systemd/systemd-timesyncd''),
       (''system.slice/dbus.service'', ''messagebus'', 10300, 5100, ''00:00:19'', 528, ''@dbus-daemon --system --address=systemd:''),
       (''system.slice/rsyslog.service'', ''syslog'', 222400, 6800, ''00:00:43'', 636, ''/usr/sbin/rsyslogd -n -iNONE''),
       (''system.slice/smartmontools.service'', ''root'', 13100, 6200, ''00:00:08'', 650, ''/usr/sbin/smartd -n''),
       (''system.slice/ssh.service'', ''root'', 15400, 9000, ''00:00:01'', 705, ''sshd: /usr/sbin/sshd -D [listener]''),
       (''system.slice/cron.service'', ''root'', 11500, 2500, ''00:00:03'', 716, ''/usr/sbin/cron -f -P''),
       (''system.slice/pgbouncer.service'', ''postgres'', 18900, 7300, ''00:11:48'', 781, ''/usr/sbin/pgbouncer -d /etc/pgbouncer/pgbouncer.ini'')])) @
      [
       cg @ '' postgres '' @ int_str 2950000 @ '' 158000 00:52:11 12-01:52:08 802 /usr/lib/postgresql/16/bin/postgres -D /var/lib/postgresql/16/main''] @
      concat (map (\<lambda>(i, (helper, rss)). [
       cg @ '' postgres '' @ int_str 2950000 @ '' '' @ int_str rss @ '' 00:0'' @ nat_str i @ '':1'' @ nat_str i @ '' 12-01:52:05 '' @ int_str (805 + int i) @ '' postgres: 16/main: '' @ helper]) (enumerate 0 ([
       (''startup recovering 0000000100000A2F0000003C'', 1980000),
       (''walreceiver streaming A2F/3C418800'', 142000),
       (''checkpointer'', 2350000),
       (''background writer'', 1650000),
       (''autovacuum launcher'', 92000),
       (''logical replication launcher'', 84000)]))) @
      concat (map (\<lambda>i. (let verb = (if int i < run_sess then ''SELECT'' else (if int i < run_sess + max 0 (idle_sess - (idle_sess * 2) div 3) then ''idle'' else ''idle in transaction''));
          rss = 168000 + (int i * 41) mod 220 * 1000
      in [
       cg @ '' postgres '' @ int_str 2950000 @ '' '' @ int_str rss @ '' 00:0'' @ int_str ((int i) mod 9) @ '':'' @ pad2 (nat (10 + (int i) mod 50)) @ '' 0-00:'' @ pad2 (nat (10 + (int i) mod 48)) @ '':0'' @ int_str ((int i) mod 9) @ '' '' @ int_str (2200 + int i) @ '' postgres: 16/main: analytics bi_reporter 10.1.4.'' @ int_str (60 + (int i) mod 12) @ ''(5'' @ int_str (3200 + int i) @ '') '' @ verb])) ([0..<nat total_conns])))"

definition rep_units :: "string list" where
  "rep_units =
     (let units = [
       (''postgresql.service'', ''active'', ''running'', ''PostgreSQL RDBMS''),
       (''pgbouncer.service'', ''active'', ''running'', ''connection pooler for PostgreSQL''),
       (''ssh.service'', ''active'', ''running'', ''OpenBSD Secure Shell server''),
       (''cron.service'', ''active'', ''running'', ''Regular background program processing daemon''),
       (''dbus.service'', ''active'', ''running'', ''D-Bus System Message Bus''),
       (''getty@tty1.service'', ''active'', ''running'', ''Getty on tty1''),
       (''irqbalance.service'', ''active'', ''running'', ''irqbalance daemon''),
       (''multipathd.service'', ''active'', ''running'', ''Device-Mapper Multipath Device Controller''),
       (''networkd-dispatcher.service'', ''active'', ''running'', ''Dispatcher daemon for systemd-networkd''),
       (''polkit.service'', ''active'', ''running'', ''Authorization Manager''),
       (''rsyslog.service'', ''active'', ''running'', ''System Logging Service''),
       (''smartmontools.service'', ''active'', ''running'', ''Self Monitoring and Reporting Technology (SMART) Daemon''),
       (''snapd.service'', ''active'', ''running'', ''Snap Daemon''),
       (''systemd-journald.service'', ''active'', ''running'', ''Journal Service''),
       (''systemd-logind.service'', ''active'', ''running'', ''User Login Management''),
       (''systemd-networkd.service'', ''active'', ''running'', ''Network Configuration''),
       (''systemd-resolved.service'', ''active'', ''running'', ''Network Name Resolution''),
       (''systemd-timesyncd.service'', ''active'', ''running'', ''Network Time Synchronization''),
       (''systemd-udevd.service'', ''active'', ''running'', ''Rule-based Manager for Device Events and Files''),
       (''udisks2.service'', ''active'', ''running'', ''Disk Manager''),
       (''unattended-upgrades.service'', ''active'', ''running'', ''Unattended Upgrades Shutdown''),
       (''user@1000.service'', ''active'', ''running'', ''User Manager for UID 1000''),
       (''apparmor.service'', ''active'', ''exited'', ''Load AppArmor profiles''),
       (''blk-availability.service'', ''active'', ''exited'', ''Availability of block devices''),
       (''console-setup.service'', ''active'', ''exited'', ''Set console font and keymap''),
       (''finalrd.service'', ''active'', ''exited'', ''Create final runtime dir for shutdown pivot root''),
       (''keyboard-setup.service'', ''active'', ''exited'', ''Set the console keyboard layout''),
       (''lvm2-monitor.service'', ''active'', ''exited'', ''Monitoring of LVM2 mirrors, snapshots etc. using dmeventd or progress polling''),
       (''setvtrgb.service'', ''active'', ''exited'', ''Set console scheme''),
       (''snapd.seeded.service'', ''active'', ''exited'', ''Wait until snapd is fully seeded''),
       (''systemd-user-sessions.service'', ''active'', ''exited'', ''Permit User Sessions'')]
      in [
       ''<<<systemd_units>>>'',
       ''[list-unit-files]''] @
      concat (map (\<lambda>(nam, _, _, _). [
       nam @ '' enabled enabled'']) units) @
      [
       ''[status]'',
       ''[all]''] @
      concat (map (\<lambda>(nam, act, sub, descr). [
       nam @ '' loaded '' @ act @ '' '' @ sub @ '' '' @ descr]) units))"

definition rep_job :: "int \<Rightarrow> string list" where
  "rep_job now =
     [
       ''<<<job>>>'',
       ''==> nightly-report-export <=='',
       ''start_time '' @ int_str (now - 8 * 3600),
       ''exit_code 0'',
       ''real_time 9:14.7'',
       ''user_time 6.10'',
       ''system_time 2.40'',
       ''max_res_kbytes 184000'',
       ''avg_mem_kbytes 0'',
       ''==> vacuum-analyze-stats <=='',
       ''start_time '' @ int_str (now - 4 * 3600),
       ''exit_code 0'',
       ''real_time 2:31.5'',
       ''user_time 1.80'',
       ''system_time 0.50'',
       ''max_res_kbytes 72000'',
       ''avg_mem_kbytes 0'']"

definition rep_instance :: "string \<times> string list" where
  "rep_instance =
     (let db_list = ''[databases_start]'' @ [CHR 0x0A] @ ''postgres'' @ [CHR 0x0A] @ ''analytics'' @ [CHR 0x0A] @ ''[databases_end]''
      in (db_list, [
       ''<<<postgres_instances>>>'',
       ''[[[main]]]'',
       ''802 /usr/lib/postgresql/16/bin/postgres -D /var/lib/postgresql/16/main'',
       ''<<<postgres_version:sep(1)>>>'',
       ''[[[main]]]'',
       ''PostgreSQL 16.3 (Ubuntu 16.3-0ubuntu0.24.04.1) on x86_64-pc-linux-gnu, compiled by gcc (Ubuntu 13.2.0-23ubuntu4) 13.2.0, 64-bit'']))"

definition rep_sessions :: "int \<Rightarrow> int \<Rightarrow> string list" where
  "rep_sessions idle_sess run_sess =
     [
       ''<<<postgres_sessions>>>'',
       ''[[[main]]]'',
       ''t '' @ int_str idle_sess,
       ''f '' @ int_str run_sess]"

definition rep_stat_database :: "replica_cfg \<Rightarrow> int \<Rightarrow> (sim, string list) state" where
  "rep_stat_database cfg total_conns =
     do {
       ana_xact_commit \<leftarrow> fsample ''pg.analytics.xact_commit'' 85;
       ana_xact_rollback \<leftarrow> fsample ''pg.analytics.xact_rollback'' 0.3;
       ana_blks_read \<leftarrow> fsample ''pg.analytics.blks_read'' 120;
       ana_blks_hit \<leftarrow> fsample ''pg.analytics.blks_hit'' 16000;
       ana_tup_returned \<leftarrow> fsample ''pg.analytics.tup_returned'' 48000;
       ana_tup_fetched \<leftarrow> fsample ''pg.analytics.tup_fetched'' 12000;
       ana_tup_inserted \<leftarrow> fsample ''pg.analytics.tup_inserted'' 0;
       ana_tup_updated \<leftarrow> fsample ''pg.analytics.tup_updated'' 0;
       ana_tup_deleted \<leftarrow> fsample ''pg.analytics.tup_deleted'' 0;
       t56 \<leftarrow> get_time;
       let ana_size = 96512345678 + py_trunc ((t56 - hc_start cfg) * 2048);
       sys_commit \<leftarrow> fsample ''pg.postgres.xact_commit'' 0.5;
       sys_hit \<leftarrow> fsample ''pg.postgres.blks_hit'' 22;
       sys_ret \<leftarrow> fsample ''pg.postgres.tup_returned'' 28;
       State_Monad.return ([
       ''<<<postgres_stat_database:sep(59)>>>'',
       ''[[[main]]]'',
       ''datid;datname;numbackends;xact_commit;xact_rollback;blks_read;blks_hit;tup_returned;tup_fetched;tup_inserted;tup_updated;tup_deleted;datsize'',
       ''5;postgres;1;'' @ int_str sys_commit @ '';0;208;'' @ int_str sys_hit @ '';'' @ int_str sys_ret @ '';'' @ int_str (sys_ret div 2) @ '';0;0;0;7421056'',
       ''16401;analytics;'' @ int_str total_conns @ '';'' @ int_str ana_xact_commit @ '';'' @ int_str ana_xact_rollback @ '';'' @ int_str ana_blks_read @ '';'' @ int_str ana_blks_hit @ '';'' @ int_str ana_tup_returned @ '';'' @ int_str ana_tup_fetched @ '';'' @ int_str ana_tup_inserted @ '';'' @ int_str ana_tup_updated @ '';'' @ int_str ana_tup_deleted @ '';'' @ int_str ana_size]) }"

definition rep_connections :: "replica_cfg \<Rightarrow> int \<Rightarrow> int \<Rightarrow> string \<Rightarrow> string list" where
  "rep_connections cfg idle_sess run_sess db_list =
     [
       ''<<<postgres_connections:sep(59)>>>'',
       ''[[[main]]]'',
       db_list,
       ''datname;mc;idle;active'',
       ''postgres;'' @ int_str (max_conn cfg) @ '';1;0'',
       ''analytics;'' @ int_str (max_conn cfg) @ '';'' @ int_str idle_sess @ '';'' @ int_str run_sess]"

definition rep_query_duration :: "(nat \<Rightarrow> int) \<Rightarrow> dstate \<Rightarrow> bool \<Rightarrow> string \<Rightarrow> (sim, string list) state" where
  "rep_query_duration ri d broken db_list =
     do {
       ls61 \<leftarrow> (if broken then do {
         r60 \<leftarrow> host_broken_seconds d;
         let idle_age = 60 + py_trunc r60;
         State_Monad.return ([
       ''analytics;16401;bi_reporter;10.1.4.61;idle in transaction;'' @ int_str idle_age @ '';2261;BEGIN; SELECT * FROM orders WHERE settled = false'']) } else State_Monad.return ([]));
       State_Monad.return ([
       ''<<<postgres_query_duration:sep(59)>>>'',
       ''[[[main]]]'',
       db_list,
       ''datname;datid;usename;client_addr;state;seconds;pid;current_query'',
       ''analytics;16401;bi_reporter;10.1.4.60;active;'' @ int_str (ri 4) @ '';2207;SELECT date_trunc('' @ [CHR 0x27] @ ''day'' @ [CHR 0x27] @ '', o.created_at) d, sum(o.amount) FROM orders o GROUP BY 1 ORDER BY 1 DESC LIMIT 90''] @
      ls61 @
      [
       ''postgres;5;postgres;;active;0;802;SELECT 1'']) }"

definition rep_locks :: "int \<Rightarrow> int \<Rightarrow> string \<Rightarrow> string list" where
  "rep_locks idle_sess run_sess db_list =
     [
       ''<<<postgres_locks:sep(59)>>>'',
       ''[[[main]]]'',
       db_list,
       ''datname;granted;mode'',
       ''postgres;;''] @
      concat (map (\<lambda>_. [
       ''analytics;t;AccessShareLock'']) ([0..<nat (2 + run_sess + idle_sess div 8)]))"

definition rep_stats :: "int \<Rightarrow> string \<Rightarrow> string list" where
  "rep_stats now db_list =
     [
       ''<<<postgres_stats:sep(59)>>>'',
       ''[[[main]]]'',
       db_list,
       ''datname;sname;tname;vtime;atime'',
       ''postgres;pg_catalog;pg_statistic;-1;-1'',
       ''analytics;public;orders;'' @ int_str (now - 5 * 3600) @ '';'' @ int_str (now - 5 * 3600),
       ''analytics;public;transactions;'' @ int_str (now - 5 * 3600) @ '';'' @ int_str (now - 5 * 3600),
       ''analytics;public;daily_rollup;'' @ int_str (now - 26 * 3600) @ '';'' @ int_str (now - 26 * 3600)]"

definition rep_bloat :: "string \<Rightarrow> string list" where
  "rep_bloat db_list =
     [
       ''<<<postgres_bloat:sep(59)>>>'',
       ''[[[main]]]'',
       db_list,
       ''db;schemaname;tablename;tups;pages;otta;tbloat;wastedpages;wastedbytes;wastedsize;iname;itups;ipages;iotta;ibloat;wastedipages;wastedibytes;wastedisize;totalwastedbytes'',
       ''postgres;pg_catalog;pg_statistic;398;13;10;1.3;3;24576;24 kB;pg_statistic_relid_att_inh_index;398;6;4;1.5;2;16384;16 kB;40960'',
       ''analytics;public;orders;18412022;312480;271722;1.2;40758;333930496;318 MB;orders_pkey;18412022;91220;70169;1.3;21051;172449792;164 MB;506380288'',
       ''analytics;public;transactions;44820110;780122;709201;1.1;70921;580984832;554 MB;transactions_pkey;44820110;221080;138175;1.6;82905;679157760;648 MB;1260142592'',
       ''analytics;public;daily_rollup;1240882;28140;25102;1.1;3038;24887296;24 MB;daily_rollup_pkey;1240882;7012;5388;1.3;1624;13303808;13 MB;38191104'']"

definition rep_conn_time :: "replica_cfg \<Rightarrow> int \<Rightarrow> (sim, string list) state" where
  "rep_conn_time cfg total_conns =
     do {
       let sat = max 0.0 (min 1.0 (real_of_int (total_conns - 90) / (real_of_int (BROKEN_CAP cfg - 90))));
       g62 \<leftarrow> gauge ''pg.conn_time'' 1.0 None (Some 0.15) 1.5 350;
       let conn_t = round_dec 3 (lerp 0.012 1.6 sat * g62);
       State_Monad.return ([
       ''<<<postgres_conn_time>>>'',
       ''[[[main]]]'',
       float_str 3 conn_t]) }"

text \<open>The payload: the sections in order, one line each.\<close>

definition rep_build :: "replica_cfg \<Rightarrow> string \<Rightarrow> (nat \<Rightarrow> int) \<Rightarrow> dstate \<Rightarrow> (sim, string) state" where
  "rep_build cfg sta ri d = do {
       (now, uptime, broken) \<leftarrow> rep_clock cfg sta;
       (idle_sess, run_sess, total_conns) \<leftarrow> rep_conns cfg d;
       mv \<leftarrow> rep_memory total_conns;
       lv \<leftarrow> rep_load run_sess total_conns;
       (user, system, idle, iowait) \<leftarrow> rep_ticks total_conns;
       dv \<leftarrow> rep_disk ri;
       (rx_bytes, tx_bytes, rx_pkts, tx_pkts) \<leftarrow> rep_net;
       (sda_smart, sdb_smart) \<leftarrow> rep_smart uptime;
       let l_head = rep_head cfg now;
       l_df \<leftarrow> rep_df cfg;
       let l_mem = rep_mem total_conns mv;
       l_cpu \<leftarrow> rep_cpu uptime lv;
       l_timesync \<leftarrow> rep_timesync cfg ri now;
       let l_apt = rep_apt;
       l_kernel \<leftarrow> rep_kernel now user system idle iowait;
       let l_diskstat = rep_diskstat now dv;
       let l_if = rep_if rx_bytes tx_bytes rx_pkts tx_pkts;
       l_tcp \<leftarrow> rep_tcp ri total_conns;
       let l_smart_section = rep_smart_section sda_smart sdb_smart;
       let l_ps = rep_ps now idle_sess run_sess total_conns;
       let l_units = rep_units;
       let l_job = rep_job now;
       let (db_list, l_instance) = rep_instance;
       let l_sessions = rep_sessions idle_sess run_sess;
       l_stat_database \<leftarrow> rep_stat_database cfg total_conns;
       let l_connections = rep_connections cfg idle_sess run_sess db_list;
       l_query_duration \<leftarrow> rep_query_duration ri d broken db_list;
       let l_locks = rep_locks idle_sess run_sess db_list;
       let l_stats = rep_stats now db_list;
       let l_bloat = rep_bloat db_list;
       l_conn_time \<leftarrow> rep_conn_time cfg total_conns;
       State_Monad.return (concat (map (\<lambda>l. l @ [CHR 0x0A])
         (l_head @ l_df @ l_mem @ l_cpu @ l_timesync @ l_apt @ l_kernel @ l_diskstat @ l_if @ l_tcp @ l_smart_section @ l_ps @ l_units @ l_job @ l_instance @ l_sessions @ l_stat_database @ l_connections @ l_query_duration @ l_locks @ l_stats @ l_bloat @ l_conn_time))) }"

end
