(* ===== verification/Counter_Ops.thy ===== *)
theory Counter_Ops
  imports Agent_Text
begin

text \<open>
  The counter methods of the hosts whose tick counters share one budget: \<open>Counter.inst\<close> and \<open>Counter.add\<close> of
  \<open>hosts/db-postgres-01/serve.py\<close>, \<open>Counter.sample_exact\<close> and the direct use of \<open>wob.step\<close> of
  \<open>hosts/payment-api/serve.py\<close>.  Each names its counter in the process state; the counters of a host exist
  from the start, so the case of an unknown name does not arise in the program.
\<close>

section \<open>The wobble, the rate and the sum apart\<close>

definition counter_inst :: "string \<Rightarrow> real \<Rightarrow> real \<Rightarrow> (sim, real) state" where
  "counter_inst name rate now =
     do { g \<leftarrow> get_gauss;
          State (\<lambda>s. case counters s name of
            None \<Rightarrow> (0, s)
          | Some c \<Rightarrow> (let (d, wob) = wobble_step (cwob c) now g
                       in (rate * (1 + camp c * d), s\<lparr>counters := (counters s)(name \<mapsto> c\<lparr>cwob := wob\<rparr>)\<rparr>))) }"

definition counter_add :: "string \<Rightarrow> real \<Rightarrow> real \<Rightarrow> (sim, int) state" where
  "counter_add name inst now =
     State (\<lambda>s. case counters s name of
        None \<Rightarrow> (0, s)
      | Some c \<Rightarrow> (let dt = max 0 (now - clast c);
                       c' = c\<lparr>acc := acc c + inst * dt, clast := now\<rparr>
                   in (py_trunc (acc c'), s\<lparr>counters := (counters s)(name \<mapsto> c')\<rparr>)))"

definition counter_wobble :: "string \<Rightarrow> real \<Rightarrow> (sim, real) state" where
  "counter_wobble name now =
     do { g \<leftarrow> get_gauss;
          State (\<lambda>s. case counters s name of
            None \<Rightarrow> (0, s)
          | Some c \<Rightarrow> (let (d, wob) = wobble_step (cwob c) now g
                       in (d, s\<lparr>counters := (counters s)(name \<mapsto> c\<lparr>cwob := wob\<rparr>)\<rparr>))) }"

definition counter_exact :: "string \<Rightarrow> real \<Rightarrow> real \<Rightarrow> (sim, int) state" where
  "counter_exact name rate now =
     State (\<lambda>s. case counters s name of
        None \<Rightarrow> (0, s)
      | Some c \<Rightarrow> (let dt = max 0 (now - clast c);
                       c' = c\<lparr>acc := acc c + max 0 rate * dt, clast := now\<rparr>
                   in (py_trunc (acc c'), s\<lparr>counters := (counters s)(name \<mapsto> c')\<rparr>)))"

section \<open>What a step does to the counters\<close>

text \<open>\<open>runs P m Q\<close>: every run of \<open>m\<close> from a state with \<open>P\<close> ends with a result and a state related by \<open>Q\<close>.\<close>

definition runs :: "(sim \<Rightarrow> bool) \<Rightarrow> (sim, 'a) state \<Rightarrow> ('a \<Rightarrow> sim \<Rightarrow> bool) \<Rightarrow> bool" where
  "runs P m Q \<longleftrightarrow> (\<forall>s. P s \<longrightarrow> Q (fst (run_state m s)) (snd (run_state m s)))"

lemma runs_return: "(\<And>s. P s \<Longrightarrow> Q x s) \<Longrightarrow> runs P (State_Monad.return x) Q"
  by (simp add: runs_def State_Monad.return_def)

lemma runs_bind: "runs P m R \<Longrightarrow> (\<And>x. runs (R x) (f x) Q) \<Longrightarrow> runs P (m \<bind> f) Q"
  by (simp add: runs_def State_Monad.bind_def case_prod_unfold)

lemma runs_pure: "(b \<Longrightarrow> runs P m Q) \<Longrightarrow> runs (\<lambda>s. b \<and> P s) m Q"
  by (simp add: runs_def)

lemma runs_apply: "runs P m Q \<Longrightarrow> P s \<Longrightarrow> Q (fst (run_state m s)) (snd (run_state m s))"
  by (simp add: runs_def)

text \<open>\<open>standing f s\<close>: every counter in \<open>f\<close> exists, with an amplitude in the unit interval, the sum and the last
  reading \<open>f\<close> says.\<close>

definition standing :: "(string \<rightharpoonup> real \<times> real) \<Rightarrow> sim \<Rightarrow> bool" where
  "standing f s \<longleftrightarrow> (\<forall>n a l. f n = Some (a, l) \<longrightarrow>
     (\<exists>c. counters s n = Some c \<and> acc c = a \<and> clast c = l \<and> 0 \<le> camp c \<and> camp c \<le> 1))"

lemma standingD:
  "standing f s \<Longrightarrow> f n = Some (a, l) \<Longrightarrow> \<exists>c. counters s n = Some c \<and> acc c = a \<and> clast c = l \<and> 0 \<le> camp c \<and> camp c \<le> 1"
  by (simp add: standing_def)

lemma standing_upd:
  assumes "standing f s" "counters s' = (counters s)(n \<mapsto> c)"
    and "case f n of None \<Rightarrow> True | Some (a, l) \<Rightarrow> acc c = a \<and> clast c = l \<and> 0 \<le> camp c \<and> camp c \<le> 1"
  shows "standing f s'"
  using assms by (auto simp: standing_def split: option.splits)

lemma standing_cong: "counters s = counters s' \<Longrightarrow> standing f s \<Longrightarrow> standing f s'"
  by (simp add: standing_def)

lemma runs_get_time: "runs (standing f) get_time (\<lambda>_. standing f)"
  by (auto simp: runs_def get_time_def intro: standing_cong [rotated])

lemma runs_get_time_clock: "runs (\<lambda>s. s = s0) get_time (\<lambda>t s. t = clock s0 0 \<and> counters s = counters s0)"
  by (simp add: runs_def get_time_def)

lemma counter_wobble_run:
  "runs (standing f) (counter_wobble n now) (\<lambda>d s. (- 1 \<le> d \<and> d \<le> 1) \<and> standing f s)"
  unfolding runs_def
proof (intro allI impI)
  fix s assume s: "standing f s"
  show "(- 1 \<le> fst (run_state (counter_wobble n now) s) \<and> fst (run_state (counter_wobble n now) s) \<le> 1)
      \<and> standing f (snd (run_state (counter_wobble n now) s))"
  proof (cases "counters s n")
    case None
    then show ?thesis using standing_cong [OF _ s] by (simp add: counter_wobble_def get_gauss_def State_Monad.bind_def)
  next
    case (Some c)
    have "case f n of None \<Rightarrow> True | Some (a, l) \<Rightarrow> acc c = a \<and> clast c = l \<and> 0 \<le> camp c \<and> camp c \<le> 1"
      using Some standingD [OF s, of n] by (auto split: option.split)
    then show ?thesis using Some
      by (auto simp: counter_wobble_def get_gauss_def State_Monad.bind_def Let_def case_prod_unfold wobble_step_bounds
          split: option.splits intro!: standing_upd [OF s])
  qed
qed

lemma counter_inst_run:
  assumes "f n = Some (a, l)" "0 \<le> rate"
  shows "runs (standing f) (counter_inst n rate now) (\<lambda>x s. 0 \<le> x \<and> standing f s)"
  unfolding runs_def
proof (intro allI impI)
  fix s assume s: "standing f s"
  obtain c where c: "counters s n = Some c" "acc c = a" "clast c = l" "0 \<le> camp c" "camp c \<le> 1" using standingD [OF s assms(1)] by blast
  have "0 \<le> rate * (1 + camp c * fst (wobble_step (cwob c) now (noise s 0)))"
    by (rule wobbled_nonneg) (use c assms wobble_step_bounds in auto)
  then show "0 \<le> fst (run_state (counter_inst n rate now) s) \<and> standing f (snd (run_state (counter_inst n rate now) s))"
    using c assms by (auto simp: counter_inst_def get_gauss_def State_Monad.bind_def Let_def case_prod_unfold intro!: standing_upd [OF s])
qed

lemma standing_add:
  assumes "standing f s" "f n = Some (a, l)" "\<And>c. counters s n = Some c \<Longrightarrow> counters s' = (counters s)(n \<mapsto> c\<lparr>acc := acc c + y, clast := now\<rparr>)"
  shows "standing (f(n \<mapsto> (a + y, now))) s'"
proof -
  obtain c where c: "counters s n = Some c" "acc c = a" "clast c = l" "0 \<le> camp c" "camp c \<le> 1" using standingD [OF assms(1,2)] by blast
  show ?thesis using assms(1) c assms(3) [OF c(1)] by (auto simp: standing_def)
qed

section \<open>The counters that share a budget\<close>

locale tick_adder =
  fixes add :: "string \<Rightarrow> real \<Rightarrow> real \<Rightarrow> (sim, int) state"
  assumes add_run: "f n = Some (a, l) \<Longrightarrow> 0 \<le> r \<Longrightarrow>
    runs (standing f) (add n r now) (\<lambda>_. standing (f(n \<mapsto> (a + r * max 0 (now - l), now))))"
begin

lemma share_run:
  assumes "f u = Some (au, l)" "f v = Some (av, l)" "f w = Some (aw, l)" "f i = Some (ai, l)" "distinct [u, v, w, i]"
    and "0 \<le> ru" "0 \<le> rv" "0 \<le> rw" "0 \<le> ri"
    and k: "\<And>a b c e. runs (standing (f(u \<mapsto> (au + ru * max 0 (now - l), now), v \<mapsto> (av + rv * max 0 (now - l), now),
        w \<mapsto> (aw + rw * max 0 (now - l), now), i \<mapsto> (ai + ri * max 0 (now - l), now)))) (k a b c e) Q"
  shows "runs (standing f) (do { a \<leftarrow> add u ru now; b \<leftarrow> add v rv now; c \<leftarrow> add w rw now; e \<leftarrow> add i ri now; k a b c e }) Q"
  by (intro runs_bind [OF add_run] k) (use assms in auto)

end

interpretation added: tick_adder counter_add
proof
  fix f :: "string \<rightharpoonup> real \<times> real" and n and a l r now :: real assume f: "f n = Some (a, l)"
  show "runs (standing f) (counter_add n r now) (\<lambda>_. standing (f(n \<mapsto> (a + r * max 0 (now - l), now))))"
    unfolding runs_def
  proof (intro allI impI, rule standing_add, assumption, rule f)
    fix s c assume "standing f s" "counters s n = Some c"
    then show "counters (snd (run_state (counter_add n r now) s)) = (counters s)(n \<mapsto> c\<lparr>acc := acc c + r * max 0 (now - l), clast := now\<rparr>)"
      using f by (auto simp: counter_add_def Let_def dest: standingD)
  qed
qed

interpretation exact: tick_adder counter_exact
proof
  fix f :: "string \<rightharpoonup> real \<times> real" and n and a l r now :: real assume f: "f n = Some (a, l)" and r: "0 \<le> r"
  show "runs (standing f) (counter_exact n r now) (\<lambda>_. standing (f(n \<mapsto> (a + r * max 0 (now - l), now))))"
    unfolding runs_def
  proof (intro allI impI, rule standing_add, assumption, rule f)
    fix s c assume "standing f s" "counters s n = Some c"
    then show "counters (snd (run_state (counter_exact n r now) s)) = (counters s)(n \<mapsto> c\<lparr>acc := acc c + r * max 0 (now - l), clast := now\<rparr>)"
      using f r by (auto simp: counter_exact_def Let_def dest: standingD)
  qed
qed

definition reading :: "sim \<Rightarrow> string \<Rightarrow> real" where
  "reading s n = (case counters s n of None \<Rightarrow> 0 | Some c \<Rightarrow> acc c)"

definition tick_ready :: "string list \<Rightarrow> real \<Rightarrow> sim \<Rightarrow> bool" where
  "tick_ready ns l s \<longleftrightarrow> list_all (\<lambda>n. case counters s n of None \<Rightarrow> False
     | Some c \<Rightarrow> clast c = l \<and> 0 \<le> camp c \<and> camp c \<le> 1) ns"

lemma ready_standing: "tick_ready ns l s \<Longrightarrow> standing (\<lambda>n. if n \<in> set ns then Some (reading s n, l) else None) s"
  by (auto simp: tick_ready_def standing_def reading_def list_all_iff split: option.splits)

lemma standing_reading: "standing f s \<Longrightarrow> f n = Some (a, l) \<Longrightarrow> reading s n = a"
  by (auto simp: reading_def dest!: standingD)

lemma standing_ready:
  assumes "standing f s" "\<forall>n \<in> set ns. \<exists>a. f n = Some (a, l)"
  shows "tick_ready ns l s"
  unfolding tick_ready_def list_all_iff
proof
  fix n assume "n \<in> set ns"
  then show "case counters s n of None \<Rightarrow> False | Some c \<Rightarrow> clast c = l \<and> 0 \<le> camp c \<and> camp c \<le> 1"
    using assms standingD by fastforce
qed

end
