(* ===== verification/Crc32.thy ===== *)
theory Crc32
  imports "HOL-Library.Word"
begin

text \<open>
  \<open>zlib.crc32\<close> on 32-bit words (reflected polynomial \<open>0xEDB88320\<close>), from which
  \<open>hosts/db-postgres-01/serve.py\<close> takes the phase of its schedules.
\<close>

unbundle bit_operations_syntax

section \<open>The checksum\<close>

definition crc_bit :: "32 word \<Rightarrow> 32 word" where
  "crc_bit c = (if bit c 0 then 0xEDB88320 XOR drop_bit 1 c else drop_bit 1 c)"

definition crc_byte :: "32 word \<Rightarrow> char \<Rightarrow> 32 word" where
  "crc_byte c b = (crc_bit ^^ 8) (c XOR of_char b)"

definition crc32 :: "string \<Rightarrow> 32 word" where
  "crc32 s = foldl crc_byte 0xFFFFFFFF s XOR 0xFFFFFFFF"

lemma crc_byte_steps:
  "crc_byte c b = crc_bit (crc_bit (crc_bit (crc_bit (crc_bit (crc_bit (crc_bit (crc_bit (c XOR of_char b))))))))"
  by (simp add: crc_byte_def eval_nat_numeral)

text \<open>The check value of the checksum's definition.\<close>

lemma crc32_check: "crc32 ''123456789'' = 0xCBF43926"
  by (simp add: crc32_def crc_byte_steps crc_bit_def)

end
