(* ===== verification/Host_Primary.thy ===== *)
theory Host_Primary
  imports Host_Story Counter_Ops Crc32
begin

text \<open>
  \<open>hosts/db-postgres-01/serve.py\<close>, the database whose data disk dies: its counters, the SMART confession,
  its filesystems, job clock and process table, and the agent output, section by section.  \<open>sta\<close> is the
  state the handler passes, \<open>d\<close> the incident record the story functions read, \<open>ri\<close> the outcomes of
  \<open>random.randint\<close> in the order of the calls, \<open>roll m\<close> the first \<open>random()\<close> of \<open>random.Random(m)\<close>.
\<close>

section \<open>Configuration and counters\<close>

record primary_cfg = incident_cfg +
  confession :: real

definition HOST_PHASE :: "primary_cfg \<Rightarrow> int" where
  "HOST_PHASE cfg = uint (crc32 (hc_hostname cfg)) mod 86400"

definition PAY_ROWS0 :: int where
  "PAY_ROWS0 = py_trunc (120 * real_of_int 1036800)"

definition primary_counters :: "(string \<times> real \<times> real \<times> real) list" where
  "primary_counters = [
     (''cpu.user'', 0.3, 0.30, 60 * real_of_int 1036800),
     (''cpu.system'', 1.1, 0.30, 25 * real_of_int 1036800),
     (''cpu.idle'', 2.4, 0.30, 303 * real_of_int 1036800),
     (''cpu.iowait'', 3.0, 0.30, 12 * real_of_int 1036800),
     (''cpu.total_ticks'', 0, 0.30, 400 * real_of_int 1036800),
     (''kernel.ctxt'', 4.0, 0.30, 2800 * real_of_int 1036800),
     (''kernel.processes'', 4.7, 0.30, 7 * real_of_int 1036800),
     (''kernel.pgmajfault'', 5.4, 0.30, 1 * real_of_int 1036800),
     (''sda.rd_ios'', 0.0, 0.30, 4 * real_of_int 1036800),
     (''sda.rd_ticks'', 0.2, 0.30, 3 * real_of_int 1036800),
     (''sda.wr_ios'', 0.4, 0.30, 8 * real_of_int 1036800),
     (''sda.wr_ticks'', 0.6, 0.30, 7 * real_of_int 1036800),
     (''sda.io_ticks'', 0.8, 0.01, 10 * real_of_int 1036800),
     (''sdb.rd_ios'', 1.0, 0.30, 45 * real_of_int 1036800),
     (''sdb.rd_ticks'', 1.2, 0.30, 18 * real_of_int 1036800),
     (''sdb.wr_ios'', 1.4, 0.30, 120 * real_of_int 1036800),
     (''sdb.wr_ticks'', 1.6, 0.30, 60 * real_of_int 1036800),
     (''sdb.io_ticks'', 1.8, 0.01, 75 * real_of_int 1036800),
     (''net.rx_bytes'', 1.6, 0.30, 450000 * real_of_int 1036800),
     (''net.tx_bytes'', 2.3, 0.30, 380000 * real_of_int 1036800),
     (''net.rx_pkts'', 3.0, 0.30, 1400 * real_of_int 1036800),
     (''net.tx_pkts'', 3.7, 0.30, 1300 * real_of_int 1036800),
     (''pg.payments.xact_commit'', 0.5, 0.30, 380 * real_of_int 1036800),
     (''pg.payments.xact_rollback'', 0.9, 0.30, 0.2 * real_of_int 1036800),
     (''pg.payments.blks_read'', 1.3, 0.30, 40 * real_of_int 1036800),
     (''pg.payments.blks_hit'', 1.7, 0.30, 9000 * real_of_int 1036800),
     (''pg.payments.tup_returned'', 2.1, 0.30, 14000 * real_of_int 1036800),
     (''pg.payments.tup_fetched'', 2.5, 0.30, 5000 * real_of_int 1036800),
     (''pg.payments.tup_inserted'', 2.9, 0.30, 120 * real_of_int 1036800),
     (''pg.payments.tup_updated'', 3.3, 0.30, 90 * real_of_int 1036800),
     (''pg.payments.tup_deleted'', 3.7, 0.30, 2 * real_of_int 1036800),
     (''pg.postgres.xact_commit'', 0.4, 0.30, 0.5 * real_of_int 1036800),
     (''pg.postgres.blks_hit'', 1.0, 0.30, 25 * real_of_int 1036800),
     (''pg.postgres.tup_returned'', 1.4, 0.30, 30 * real_of_int 1036800)]"

definition pri_degraded_minutes :: "dstate \<Rightarrow> (sim, real) state" where
  "pri_degraded_minutes d = (case degraded_since d of None \<Rightarrow> State_Monad.return 0
     | Some s \<Rightarrow> do { t \<leftarrow> get_time; State_Monad.return ((t - s) / 60) })"

section \<open>Disk health and filesystems\<close>

definition smart_attrs :: "primary_cfg \<Rightarrow> dstate \<Rightarrow> (sim, int \<times> int \<times> int \<times> real) state" where
  "smart_attrs cfg d =
     do {
       m \<leftarrow> pri_degraded_minutes d;
       (if m \<le> 0 then State_Monad.return ((0, 0, 0, 30))
       else do {
         let temp = round_dec 1 (30.0 + min 8.0 (m * 1.4));
         r2 \<leftarrow> host_broken_seconds d;
         let c = r2 / 60.0 - confession cfg;
         (if c \<le> 0 then State_Monad.return ((0, 0, 0, temp))
         else do {
           let flagged = 4 + py_trunc (c / 3);
           let uncorrect = (if c < 5 then 0 else min 6 (1 + py_trunc ((c - 5) / 7)));
           let realloc = (if c < 10 then 0 else min 12 (py_trunc ((c - 10) * 1.5)));
           let pending = max 2 (min 24 (flagged - realloc div 3));
           State_Monad.return ((pending, realloc, uncorrect, temp)) }) }) }"

definition primary_smart_json :: "string \<Rightarrow> string \<Rightarrow> string \<Rightarrow> int \<Rightarrow> int \<Rightarrow> int \<Rightarrow> int \<Rightarrow> int \<Rightarrow> int \<Rightarrow> bool \<Rightarrow> string" where
  "primary_smart_json nam model serial hours temp realloc uncorrect pending crc healthy =
     (let doc = JObj [(''device'', JObj [(''name'', JStr nam),
         (''type'', JStr ''sat''),
         (''protocol'', JStr ''ATA'')]),
         (''model_name'', JStr model),
         (''serial_number'', JStr serial),
         (''smart_status'', JObj [(''passed'', JBool healthy)]),
         (''power_on_time'', JObj [(''hours'', JNum hours)]),
         (''temperature'', JObj [(''current'', JNum temp)]),
         (''ata_smart_attributes'', JObj [(''table'', JArr [JObj [(''id'', JNum 5),
         (''name'', JStr ''Reallocated_Sector_Ct''),
         (''value'', JNum (if realloc = 0 then 100 else 81)),
         (''thresh'', JNum 10),
         (''raw'', JObj [(''value'', JNum realloc)])],
         JObj [(''id'', JNum 12),
         (''name'', JStr ''Power_Cycle_Count''),
         (''value'', JNum 100),
         (''thresh'', JNum 0),
         (''raw'', JObj [(''value'', JNum 41)])],
         JObj [(''id'', JNum 187),
         (''name'', JStr ''Reported_Uncorrect''),
         (''value'', JNum (if uncorrect = 0 then 100 else 97)),
         (''thresh'', JNum 0),
         (''raw'', JObj [(''value'', JNum uncorrect)])],
         JObj [(''id'', JNum 197),
         (''name'', JStr ''Current_Pending_Sector''),
         (''value'', JNum (if pending = 0 then 100 else 92)),
         (''thresh'', JNum 0),
         (''raw'', JObj [(''value'', JNum pending)])],
         JObj [(''id'', JNum 199),
         (''name'', JStr ''UDMA_CRC_Error_Count''),
         (''value'', JNum 200),
         (''thresh'', JNum 0),
         (''raw'', JObj [(''value'', JNum crc)])],
         JObj [(''id'', JNum 177),
         (''name'', JStr ''Wear_Leveling_Count''),
         (''value'', JNum (if realloc = 0 then 93 else 91)),
         (''thresh'', JNum 5),
         (''raw'', JObj [(''value'', JNum (if realloc = 0 then 142 else 178))])],
         JObj [(''id'', JNum 179),
         (''name'', JStr ''Used_Rsvd_Blk_Cnt_Tot''),
         (''value'', JNum (if realloc = 0 then 100 else 96)),
         (''thresh'', JNum 10),
         (''raw'', JObj [(''value'', JNum (realloc * 2))])]])])]
      in dumps (doc))"

definition primary_kb :: "real \<Rightarrow> int" where
  "primary_kb mib =
     py_trunc (mib * 1024)"

definition primary_filesystem_usage :: "primary_cfg \<Rightarrow> real \<Rightarrow> (sim, int \<times> int) state" where
  "primary_filesystem_usage cfg now =
     do {
       let uptime = now - hc_start cfg + real_of_int 1036800;
       let day = 86400.0;
       let t = now - real_of_int (HOST_PHASE cfg);
       let root_base = 15204352;
       let root_logs = 1258291 * (real_mod t day / day);
       let root_growth = min 2097152 (uptime * 0.05);
       g3 \<leftarrow> gauge ''fs.root'' 0 (Some 120000) None 0 1500;
       let root_used = py_trunc (real_of_int root_base + root_logs + root_growth + g3);
       let data_base = 123731968;
       let wal = 1572864 * (real_mod t 720.0 / 720.0);
       let backup = 8388608 * (real_mod t day / day);
       let db_growth = min 6291456 (uptime * 2.0);
       g4 \<leftarrow> gauge ''fs.data'' 0 (Some 300000) None 0 900;
       let data_used = py_trunc (real_of_int data_base + wal + backup + db_growth + g4);
       State_Monad.return ((root_used, data_used)) }"

section \<open>Job clock and process table\<close>

definition last_scheduled :: "primary_cfg \<Rightarrow> real \<Rightarrow> int \<Rightarrow> int \<Rightarrow> int" where
  "last_scheduled cfg now hour minute =
     (let day = 86400;
        t = (py_trunc now) div day * day + hour * 3600 + minute * 60 + (HOST_PHASE cfg) mod 1740;
        t = (if real_of_int t > now then t - day else t)
      in t)"

definition cputime_str :: "real \<Rightarrow> string" where
  "cputime_str secs =
     (let s = py_trunc secs;
        (d, r) = (s div 86400, s mod 86400);
        hms = int_pad2 (r div 3600) @ '':'' @ pad2 (nat ((r mod 3600) div 60)) @ '':'' @ pad2 (nat (r mod 60))
      in (if d \<noteq> 0 then int_str d @ ''-'' @ hms else hms))"

definition elapsed_str :: "real \<Rightarrow> string" where
  "elapsed_str secs =
     (let s = max 0 (py_trunc secs);
        (d, r) = (s div 86400, s mod 86400)
      in int_str d @ ''-'' @ int_pad2 (r div 3600) @ '':'' @ pad2 (nat ((r mod 3600) div 60)) @ '':'' @ pad2 (nat (r mod 60)))"

definition PS_DAEMONS :: "(string \<times> string \<times> int \<times> int \<times> real \<times> int \<times> int \<times> string) list" where
  "PS_DAEMONS = [
       (''0::/init.scope'', ''root'', 168000, 13200, 0.00004, 2, 1, ''/sbin/init''),
       (''0::/system.slice/systemd-journald.service'', ''root'', 64400, 22100, 0.0001, 4, 412, ''/usr/lib/systemd/systemd-journald''),
       (''0::/system.slice/systemd-udevd.service'', ''root'', 26200, 8200, 0.000004, 5, 450, ''/usr/lib/systemd/systemd-udevd''),
       (''0::/system.slice/systemd-networkd.service'', ''systemd-network'', 21400, 7900, 0.000024, 7, 480, ''/usr/lib/systemd/systemd-networkd''),
       (''0::/system.slice/systemd-resolved.service'', ''systemd-resolve'', 26800, 13600, 0.000056, 8, 501, ''/usr/lib/systemd/systemd-resolved''),
       (''0::/system.slice/systemd-timesyncd.service'', ''systemd-timesync'', 91000, 7800, 0.000012, 8, 520, ''/usr/lib/systemd/systemd-timesyncd''),
       (''0::/system.slice/dbus.service'', ''messagebus'', 10400, 5200, 0.00002, 9, 530, ''@dbus-daemon --system --address=systemd:''),
       (''0::/system.slice/systemd-logind.service'', ''root'', 14800, 6900, 0.000014, 9, 545, ''/usr/lib/systemd/systemd-logind''),
       (''0::/system.slice/irqbalance.service'', ''root'', 16400, 4100, 0.000019, 10, 560, ''/usr/sbin/irqbalance --foreground''),
       (''0::/system.slice/multipathd.service'', ''root'', 353000, 21800, 0.000058, 10, 575, ''/sbin/multipathd -d -s''),
       (''0::/system.slice/polkit.service'', ''root'', 236000, 8400, 0.0000048, 11, 590, ''/usr/lib/polkit-1/polkitd --no-debug''),
       (''0::/system.slice/networkd-dispatcher.service'', ''root'', 32800, 17200, 0.0000077, 12, 605, ''/usr/bin/python3 /usr/bin/networkd-dispatcher --run-startup-triggers''),
       (''0::/system.slice/udisks2.service'', ''root'', 396000, 12600, 0.000017, 13, 620, ''/usr/libexec/udisks2/udisksd''),
       (''0::/system.slice/rsyslog.service'', ''syslog'', 222400, 6900, 0.000045, 14, 640, ''/usr/sbin/rsyslogd -n -iNONE''),
       (''0::/system.slice/smartmontools.service'', ''root'', 13100, 6300, 0.0000087, 14, 655, ''/usr/sbin/smartd -n''),
       (''0::/system.slice/snapd.service'', ''root'', 1248000, 34200, 0.00012, 15, 670, ''/usr/lib/snapd/snapd''),
       (''0::/system.slice/unattended-upgrades.service'', ''root'', 108000, 21900, 0.0000019, 16, 690, ''/usr/bin/python3 /usr/share/unattended-upgrades/unattended-upgrade-shutdown --wait-for-signal''),
       (''0::/system.slice/ssh.service'', ''root'', 15400, 9100, 0.000001, 17, 710, ''sshd: /usr/sbin/sshd -D [listener]''),
       (''0::/system.slice/cron.service'', ''root'', 11500, 2600, 0.0000029, 17, 720, ''/usr/sbin/cron -f -P''),
       (''0::/system.slice/getty@tty1.service'', ''root'', 6200, 1700, 0.000001, 18, 735, ''/sbin/agetty -o -p -- '' @ BS @ ''u --noclear tty1 linux''),
       (''0::/user.slice/user-1000.slice/user@1000.service'', ''ubuntu'', 20600, 11400, 0.0000029, 25, 760, ''/usr/lib/systemd/systemd --user''),
       (''0::/user.slice/user-1000.slice/user@1000.service'', ''ubuntu'', 21100, 2400, 0.0, 25, 761, ''(sd-pam)''),
       (''0::/system.slice/pgbouncer.service'', ''postgres'', 18900, 7400, 0.00084, 30, 790, ''/usr/sbin/pgbouncer -d /etc/pgbouncer/pgbouncer.ini'')]"

definition PS_KTHREADS :: "(int \<times> string \<times> real) list" where
  "PS_KTHREADS = [
       (2, ''kthreadd'', 0.000002),
       (15, ''rcu_preempt'', 0.00035),
       (16, ''migration/0'', 0.00006),
       (17, ''ksoftirqd/0'', 0.00024),
       (22, ''migration/1'', 0.00006),
       (23, ''ksoftirqd/1'', 0.00022),
       (28, ''migration/2'', 0.00006),
       (29, ''ksoftirqd/2'', 0.00021),
       (34, ''migration/3'', 0.00006),
       (35, ''ksoftirqd/3'', 0.00023),
       (38, ''kdevtmpfs'', 0.000001),
       (64, ''kswapd0'', 0.000011),
       (70, ''kcompactd0'', 0.000005),
       (92, ''khugepaged'', 0.000004),
       (93, ''oom_reaper'', 0.0),
       (95, ''watchdogd'', 0.0),
       (96, ''khungtaskd'', 0.000001),
       (118, ''scsi_eh_0'', 0.000002),
       (120, ''scsi_eh_1'', 0.000002),
       (233, ''jbd2/sda1-8'', 0.0014),
       (241, ''jbd2/sdb1-8'', 0.0031),
       (247, ''ext4-rsv-conver'', 0.0),
       (1401, ''kworker/0:1-events'', 0.0045),
       (1554, ''kworker/1:2-events'', 0.0041),
       (1688, ''kworker/2:0-mm_percpu_wq'', 0.0036),
       (1702, ''kworker/3:1-events'', 0.0039),
       (1750, ''kworker/u8:1-flush-8:16'', 0.009),
       (1762, ''kworker/u8:2-events_unbound'', 0.0052)]"

section \<open>The agent output\<close>

definition pri_clock :: "primary_cfg \<Rightarrow> string \<Rightarrow> (sim, int \<times> int \<times> bool \<times> bool) state" where
  "pri_clock cfg sta =
     do {
       t5 \<leftarrow> get_time;
       let now = py_trunc t5;
       t6 \<leftarrow> get_time;
       let uptime = py_trunc (t6 - hc_start cfg) + 1036800;
       let broken = sta = ''broken'';
       let disk_dying = sta \<in> set ([''degraded'', ''broken'']);
       State_Monad.return ((now, uptime, broken, disk_dying)) }"

record pri_memory_vals =
  pri_m_commit_limit :: "int"
  pri_m_mem_free :: "int"
  pri_m_mem_available :: "int"
  pri_m_dirty :: "int"
  pri_m_writeback :: "int"

definition pri_memory :: "primary_cfg \<Rightarrow> dstate \<Rightarrow> (sim, pri_memory_vals) state" where
  "pri_memory cfg d =
     do {
       let commit_limit = 4194300 + 16384000 div 2;
       r_mem \<leftarrow> break_ramp cfg d 0.5;
       g8 \<leftarrow> gauge ''mem.free'' (lerp 2867200 2457600 r_mem) None (Some 0.015) 0.4 1500;
       let mem_free = py_trunc g8;
       g9 \<leftarrow> gauge ''mem.avail'' (lerp 7864320 7600000 r_mem) None (Some 0.012) 1.2 1700;
       let mem_available = py_trunc g9;
       g10 \<leftarrow> gauge ''mem.dirty'' 20480 None (Some 0.12) 2.0 800;
       r11 \<leftarrow> host_broken_seconds d;
       let dirty = max 8192 (py_trunc g10 + min 901120 (py_trunc (r11 * 1500)));
       g12 \<leftarrow> gauge ''mem.writeback'' (196608 * r_mem) None (Some 0.1) 3.1 600;
       let writeback = max 0 (py_trunc g12);
       State_Monad.return (\<lparr>pri_m_commit_limit = commit_limit,
         pri_m_mem_free = mem_free,
         pri_m_mem_available = mem_available,
         pri_m_dirty = dirty,
         pri_m_writeback = writeback\<rparr>) }"

record pri_load_vals =
  pri_l_l1 :: "real"
  pri_l_l5 :: "real"
  pri_l_l15 :: "real"
  pri_l_runnable :: "int"
  pri_l_total_procs :: "int"

definition pri_load :: "primary_cfg \<Rightarrow> dstate \<Rightarrow> (sim, pri_load_vals) state" where
  "pri_load cfg d =
     do {
       r1 \<leftarrow> break_ramp cfg d 0.55;
       r5 \<leftarrow> break_ramp cfg d 0.75;
       r15 \<leftarrow> break_ramp cfg d 1.0;
       g16 \<leftarrow> gauge ''load1'' 1.0 None (Some 0.22) 0.2 300;
       let l1 = round_dec 2 (lerp 0.85 49.0 r1 * g16);
       g17 \<leftarrow> gauge ''load5'' 1.0 None (Some 0.12) 1.0 900;
       let l5 = round_dec 2 (lerp 0.85 46.5 r5 * g17);
       g18 \<leftarrow> gauge ''load15'' 1.0 None (Some 0.06) 2.0 2400;
       let l15 = round_dec 2 (lerp 0.85 44.0 r15 * g18);
       let runnable = 2 + py_round r1;
       let total_procs = py_round (lerp 396 612 r1);
       State_Monad.return (\<lparr>pri_l_l1 = l1,
         pri_l_l5 = l5,
         pri_l_l15 = l15,
         pri_l_runnable = runnable,
         pri_l_total_procs = total_procs\<rparr>) }"

definition pri_ticks :: "primary_cfg \<Rightarrow> dstate \<Rightarrow> (sim, int \<times> int \<times> int \<times> int) state" where
  "pri_ticks cfg d =
     do {
       r_cpu \<leftarrow> break_ramp cfg d 0.6;
       cpu_now \<leftarrow> get_time;
       let budget = real_of_int (4 * 100);
       user_r \<leftarrow> counter_inst ''cpu.user'' (lerp 60 25 r_cpu) cpu_now;
       system_r \<leftarrow> counter_inst ''cpu.system'' (lerp 25 18 r_cpu) cpu_now;
       iowait_r \<leftarrow> counter_inst ''cpu.iowait'' (lerp 12 315 r_cpu) cpu_now;
       let busy_cap = budget - 4.0;
       let busy = user_r + system_r + iowait_r;
       let (busy, iowait_r, system_r, user_r) = (if busy > busy_cap then (let scale = busy_cap / busy;
          user_r = user_r * scale;
          system_r = system_r * scale;
          iowait_r = iowait_r * scale;
          busy = busy_cap
      in (busy, iowait_r, system_r, user_r)) else (busy, iowait_r, system_r, user_r));
       user \<leftarrow> counter_add ''cpu.user'' user_r cpu_now;
       system \<leftarrow> counter_add ''cpu.system'' system_r cpu_now;
       iowait \<leftarrow> counter_add ''cpu.iowait'' iowait_r cpu_now;
       idle \<leftarrow> counter_add ''cpu.idle'' (budget - busy) cpu_now;
       c28 \<leftarrow> counter_add ''cpu.total_ticks'' budget cpu_now;
       State_Monad.return ((user, system, iowait, idle)) }"

record pri_disk_vals =
  pri_d_sda_rd :: "int"
  pri_d_sda_rdt :: "int"
  pri_d_sda_wr :: "int"
  pri_d_sda_wrt :: "int"
  pri_d_sda_iot :: "int"
  pri_d_sdb_rd :: "int"
  pri_d_sdb_rdt :: "int"
  pri_d_sdb_wr :: "int"
  pri_d_sdb_wrt :: "int"
  pri_d_sdb_iot :: "int"
  pri_d_sdb_queue :: "int"

definition pri_disk :: "primary_cfg \<Rightarrow> (nat \<Rightarrow> int) \<Rightarrow> (int \<Rightarrow> real) \<Rightarrow> dstate \<Rightarrow> int \<Rightarrow> bool \<Rightarrow> (sim, pri_disk_vals) state" where
  "pri_disk cfg ri roll d now disk_dying =
     do {
       sda_rd \<leftarrow> fsample ''sda.rd_ios'' 4;
       sda_rdt \<leftarrow> fsample ''sda.rd_ticks'' 3;
       sda_wr \<leftarrow> fsample ''sda.wr_ios'' 8;
       sda_wrt \<leftarrow> fsample ''sda.wr_ticks'' 7;
       sda_iot \<leftarrow> fsample ''sda.io_ticks'' 10;
       (sdb_iot, sdb_queue, sdb_rd, sdb_rdt, sdb_wr, sdb_wrt) \<leftarrow> (if disk_dying then do {
         let minute = now div 60;
         let storm = max (roll minute) (roll (minute - 1)) > 0.78;
         let base_rdt = (if storm then 360 else 55);
         let base_iot = (if storm then 420 else 130);
         r_disk \<leftarrow> break_ramp cfg d 0.5;
         sdb_rd \<leftarrow> fsample ''sdb.rd_ios'' (lerp 45 55 r_disk);
         sdb_rdt \<leftarrow> fsample ''sdb.rd_ticks'' (lerp (real_of_int base_rdt) 11000 r_disk);
         sdb_wr \<leftarrow> fsample ''sdb.wr_ios'' (lerp 120 30 r_disk);
         sdb_wrt \<leftarrow> fsample ''sdb.wr_ticks'' (lerp 70 2200 r_disk);
         sdb_iot \<leftarrow> fsample ''sdb.io_ticks'' (lerp (real_of_int base_iot) 990 r_disk);
         let sdb_queue = (ri 0) + (if storm then 3 else 0) + py_round (10 * r_disk);
         State_Monad.return ((sdb_iot, sdb_queue, sdb_rd, sdb_rdt, sdb_wr, sdb_wrt)) } else do {
         sdb_rd \<leftarrow> fsample ''sdb.rd_ios'' 45;
         sdb_rdt \<leftarrow> fsample ''sdb.rd_ticks'' 18;
         sdb_wr \<leftarrow> fsample ''sdb.wr_ios'' 120;
         sdb_wrt \<leftarrow> fsample ''sdb.wr_ticks'' 60;
         sdb_iot \<leftarrow> fsample ''sdb.io_ticks'' 75;
         let sdb_queue = (ri 1);
         State_Monad.return ((sdb_iot, sdb_queue, sdb_rd, sdb_rdt, sdb_wr, sdb_wrt)) });
       State_Monad.return (\<lparr>pri_d_sda_rd = sda_rd,
         pri_d_sda_rdt = sda_rdt,
         pri_d_sda_wr = sda_wr,
         pri_d_sda_wrt = sda_wrt,
         pri_d_sda_iot = sda_iot,
         pri_d_sdb_rd = sdb_rd,
         pri_d_sdb_rdt = sdb_rdt,
         pri_d_sdb_wr = sdb_wr,
         pri_d_sdb_wrt = sdb_wrt,
         pri_d_sdb_iot = sdb_iot,
         pri_d_sdb_queue = sdb_queue\<rparr>) }"

definition pri_net :: "(sim, int \<times> int \<times> int \<times> int) state" where
  "pri_net =
     do {
       rx_bytes \<leftarrow> fsample ''net.rx_bytes'' 450000;
       tx_bytes \<leftarrow> fsample ''net.tx_bytes'' 380000;
       rx_pkts \<leftarrow> fsample ''net.rx_pkts'' 1400;
       tx_pkts \<leftarrow> fsample ''net.tx_pkts'' 1300;
       State_Monad.return ((rx_bytes, tx_bytes, rx_pkts, tx_pkts)) }"

definition pri_smart :: "primary_cfg \<Rightarrow> dstate \<Rightarrow> int \<Rightarrow> (sim, string \<times> string) state" where
  "pri_smart cfg d uptime =
     do {
       r49 \<leftarrow> smart_attrs cfg d;
       let (pending, realloc, uncorrect, sdb_temp_base) = r49;
       g50 \<leftarrow> gauge ''smart.sdb.temp'' sdb_temp_base (Some 1.3) None 0.7 900;
       let sdb_temp = py_round g50;
       let sdb_smart = primary_smart_json ''/dev/sdb'' ''SAMSUNG MZ7L3480HCHQ-00A07'' ''S6KSNE0T502244'' (py_trunc (real_of_int uptime / 3600) + 29000) sdb_temp realloc uncorrect pending 0 True;
       g51 \<leftarrow> gauge ''smart.sda.temp'' 28 (Some 1.2) None 2.1 1100;
       let sda_smart = primary_smart_json ''/dev/sda'' ''INTEL SSDSC2KB240G8'' ''PHYF034700AB240A'' (py_trunc (real_of_int uptime / 3600) + 21000) (py_round g51) 0 0 0 0 True;
       State_Monad.return ((sdb_smart, sda_smart)) }"

definition pri_head :: "primary_cfg \<Rightarrow> int \<Rightarrow> string list" where
  "pri_head cfg now =
     (let cert_to = strftime ''%a, %d %b %Y %H:%M:%S +0000'' (gmtime (now + 330 * 86400))
      in [
       ''<<<check_mk>>>'',
       ''Version: '' @ hc_version cfg,
       ''AgentOS: linux'',
       ''Hostname: '' @ hc_hostname cfg,
       ''InstallationDirectory: /opt/checkmk/agent/default'',
       ''PackageDirectory: /opt/checkmk/agent/default/package'',
       ''RuntimeDirectory: /opt/checkmk/agent/default/runtime'',
       ''OSType: linux'',
       ''OSName: Ubuntu'',
       ''OSVersion: 24.04'',
       ''OSPlatform: ubuntu'',
       ''FailedPythonReason: '',
       ''SSHClient: '',
       ''<<<cmk_agent_ctl_status:sep(0)>>>'',
       dumps (JObj [(''version'', JStr (hc_version cfg)),
         (''agent_socket_operational'', JBool True),
         (''ip_allowlist'', JArr []),
         (''allow_legacy_pull'', JBool False),
         (''connections'', JArr [JObj [(''site_id'', JStr ''monitoring/prod''),
         (''receiver_port'', JNum 8000),
         (''uuid'', JStr ''3fcd1c3e-d24a-4d8b-a3c0-58f2a8b7c111''),
         (''local'', JObj [(''connection_mode'', JStr ''pull-agent''), (''cert_info'', JObj [(''issuer'', JStr (''Site '' @ [CHR 0x27] @ ''prod'' @ [CHR 0x27] @ '' local CA'')),
         (''from'', JStr ''Tue, 03 Jun 2025 09:12:44 +0000''),
         (''to'', JStr cert_to)])]),
         (''remote'', JStr ''remote_query_disabled'')]])]),
       ''<<<checkmk_agent_plugins_lnx:sep(0)>>>'',
       ''pluginsdir /opt/checkmk/agent/default/package/plugins'',
       ''localdir /opt/checkmk/agent/default/package/local'',
       ''/opt/checkmk/agent/default/package/plugins/mk_postgres.py:CMK_VERSION='' @ [CHR 0x22] @ hc_version cfg @ [CHR 0x22],
       ''/opt/checkmk/agent/default/package/plugins/86400/mk_apt:CMK_VERSION='' @ [CHR 0x22] @ hc_version cfg @ [CHR 0x22]])"

definition pri_df :: "primary_cfg \<Rightarrow> (sim, string list) state" where
  "pri_df cfg =
     do {
       t52 \<leftarrow> get_time;
       r53 \<leftarrow> primary_filesystem_usage cfg t52;
       let (root_used, data_used) = r53;
       State_Monad.return ([
       ''<<<df_v2>>>'',
       ''/dev/sda1 ext4 '' @ int_str 41943040 @ '' '' @ int_str root_used @ '' '' @ int_str (41943040 - root_used) @ '' '' @ int_str (py_round (real_of_int root_used / (real_of_int 41943040) * 100)) @ ''% /'',
       ''/dev/sdb1 ext4 '' @ int_str 468713472 @ '' '' @ int_str data_used @ '' '' @ int_str (468713472 - data_used) @ '' '' @ int_str (py_round (real_of_int data_used / (real_of_int 468713472) * 100)) @ ''% /var/lib/postgresql'',
       ''[df_inodes_start]'',
       ''/dev/sda1 ext4 '' @ int_str 2621440 @ '' 312844 '' @ int_str (2621440 - 312844) @ '' 12% /'',
       ''/dev/sdb1 ext4 '' @ int_str 29302784 @ '' 48213 '' @ int_str (29302784 - 48213) @ '' 1% /var/lib/postgresql'',
       ''[df_inodes_end]'']) }"

definition pri_mem :: "pri_memory_vals \<Rightarrow> string list" where
  "pri_mem mv =
     [
       ''<<<mounts>>>'',
       ''/dev/sda1 / ext4 rw,relatime,errors=remount-ro 0 0'',
       ''/dev/sdb1 /var/lib/postgresql ext4 rw,noatime,errors=remount-ro 0 0'',
       ''<<<mem>>>'',
       ''MemTotal:       '' @ int_str 16384000 @ '' kB'',
       ''MemFree:        '' @ int_str (pri_m_mem_free mv) @ '' kB'',
       ''MemAvailable:   '' @ int_str (pri_m_mem_available mv) @ '' kB'',
       ''Buffers:        '' @ int_str (primary_kb 180) @ '' kB'',
       ''Cached:         '' @ int_str 6963200 @ '' kB'',
       ''SwapCached:     0 kB'',
       ''Active:         6187420 kB'',
       ''Inactive:       6622410 kB'',
       ''Active(anon):   4771840 kB'',
       ''Inactive(anon): 3511910 kB'',
       ''Active(file):   1415580 kB'',
       ''Inactive(file): 3110500 kB'',
       ''Unevictable:    0 kB'',
       ''Mlocked:        0 kB'',
       ''SwapTotal:      '' @ int_str 4194300 @ '' kB'',
       ''SwapFree:       '' @ int_str 4194300 @ '' kB'',
       ''Zswap:          0 kB'',
       ''Zswapped:       0 kB'',
       ''Dirty:          '' @ int_str (pri_m_dirty mv) @ '' kB'',
       ''Writeback:      '' @ int_str (pri_m_writeback mv) @ '' kB'',
       ''AnonPages:      5662310 kB'',
       ''Mapped:         491520 kB'',
       ''Shmem:          2621440 kB'',
       ''KReclaimable:   532480 kB'',
       ''Slab:           655360 kB'',
       ''SReclaimable:   532480 kB'',
       ''SUnreclaim:     122880 kB'',
       ''KernelStack:    6144 kB'',
       ''PageTables:     90112 kB'',
       ''SecPageTables:  0 kB'',
       ''NFS_Unstable:   0 kB'',
       ''Bounce:         0 kB'',
       ''WritebackTmp:   0 kB'',
       ''CommitLimit:    '' @ int_str (pri_m_commit_limit mv) @ '' kB'',
       ''Committed_AS:   '' @ int_str 7028736 @ '' kB'',
       ''VmallocTotal:   34359738367 kB'',
       ''VmallocUsed:    61440 kB'',
       ''VmallocChunk:   0 kB'',
       ''Percpu:         16384 kB'',
       ''HardwareCorrupted: 0 kB'',
       ''AnonHugePages:  0 kB'',
       ''ShmemHugePages: 0 kB'',
       ''ShmemPmdMapped: 0 kB'',
       ''FileHugePages:  0 kB'',
       ''FilePmdMapped:  0 kB'',
       ''CmaTotal:       0 kB'',
       ''CmaFree:        0 kB'',
       ''Unaccepted:     0 kB'',
       ''Balloon:        0 kB'',
       ''HugePages_Total:       0'',
       ''HugePages_Free:        0'',
       ''HugePages_Rsvd:        0'',
       ''HugePages_Surp:        0'',
       ''Hugepagesize:       2048 kB'',
       ''Hugetlb:        0 kB'',
       ''DirectMap4k:    333004 kB'',
       ''DirectMap2M:    7028736 kB'',
       ''DirectMap1G:    9437184 kB'']"

definition pri_cpu :: "int \<Rightarrow> pri_load_vals \<Rightarrow> (sim, string list) state" where
  "pri_cpu uptime lv =
     do {
       c54 \<leftarrow> fsample ''kernel.processes'' 7;
       State_Monad.return ([
       ''<<<cpu>>>'',
       float_str 2 (pri_l_l1 lv) @ '' '' @ float_str 2 (pri_l_l5 lv) @ '' '' @ float_str 2 (pri_l_l15 lv) @ '' '' @ int_str (pri_l_runnable lv) @ ''/'' @ int_str (pri_l_total_procs lv) @ '' '' @ int_str (31000 + c54 mod 9999) @ '' '' @ int_str 4,
       ''<<<uptime>>>'',
       int_str uptime @ ''.00 '' @ int_str (py_trunc (real_of_int uptime * 3.1)) @ ''.00'']) }"

definition pri_timesync :: "primary_cfg \<Rightarrow> (nat \<Rightarrow> int) \<Rightarrow> int \<Rightarrow> (sim, string list) state" where
  "pri_timesync cfg ri now =
     do {
       let last_sync = now - py_trunc (real_mod (real_of_int now - hc_start cfg) 2048);
       let sync_str = strftime ''%a %Y-%m-%d %H:%M:%S UTC'' (gmtime last_sync);
       let offset_us = (ri 2);
       t55 \<leftarrow> get_time;
       State_Monad.return ([
       ''<<<timesyncd>>>'',
       ''       Server: 185.125.190.56 (ntp.ubuntu.com)'',
       ''Poll interval: 34min 8s (min: 32s; max 34min 8s)'',
       ''         Leap: normal'',
       ''      Version: 4'',
       ''      Stratum: 2'',
       ''    Reference: B97D5A38'',
       ''    Precision: 1us (-25)'',
       ''Root distance: 11.804ms (max: 5s)'',
       ''       Offset: '' @ signed_str offset_us @ ''us'',
       ''        Delay: 22.158ms'',
       ''       Jitter: '' @ fixed_str 3 (real_of_int (ri 3) / 1000) @ ''ms'',
       '' Packet count: '' @ int_str (520 + py_trunc ((t55 - hc_start cfg) / 2048)),
       ''    Frequency: +13.279ppm'',
       ''[[['' @ int_str last_sync @ '']]]'',
       ''<<<timesyncd_ntpmessage:sep(10)>>>'',
       ''NTPMessage={ Leap=0, Version=4, Mode=4, Stratum=2, Precision=-25, RootDelay=10.681ms, RootDispersion=1.331ms, Reference=B97D5A38, OriginateTimestamp='' @ sync_str @ '', ReceiveTimestamp='' @ sync_str @ '', TransmitTimestamp='' @ sync_str @ '', DestinationTimestamp='' @ sync_str @ '', Ignored=no, PacketCount=63, Jitter=1.342ms }'',
       ''Timezone=UTC'']) }"

definition pri_apt :: "string list" where
  "pri_apt =
     [
       ''<<<apt:sep(0)>>>'',
       ''No updates pending for installation'']"

definition pri_kernel :: "int \<Rightarrow> int \<Rightarrow> int \<Rightarrow> int \<Rightarrow> int \<Rightarrow> (sim, string list) state" where
  "pri_kernel now user system iowait idle =
     do {
       c56 \<leftarrow> fsample ''kernel.ctxt'' 2800;
       c57 \<leftarrow> fsample ''kernel.processes'' 7;
       c58 \<leftarrow> fsample ''kernel.pgmajfault'' 1;
       State_Monad.return ([
       ''<<<kernel>>>'',
       int_str now,
       ''cpu '' @ int_str user @ '' 0 '' @ int_str system @ '' '' @ int_str idle @ '' '' @ int_str iowait @ '' 0 0 0 0 0'',
       ''ctxt '' @ int_str c56,
       ''processes '' @ int_str c57,
       ''pgmajfault '' @ int_str c58]) }"

definition pri_diskstat :: "int \<Rightarrow> pri_disk_vals \<Rightarrow> string list" where
  "pri_diskstat now dv =
     [
       ''<<<diskstat>>>'',
       int_str now,
       ''8 0 sda '' @ int_str (pri_d_sda_rd dv) @ '' 0 '' @ int_str (pri_d_sda_rd dv * 24) @ '' '' @ int_str (pri_d_sda_rdt dv) @ '' '' @ int_str (pri_d_sda_wr dv) @ '' 0 '' @ int_str (pri_d_sda_wr dv * 48) @ '' '' @ int_str (pri_d_sda_wrt dv) @ '' 0 '' @ int_str (pri_d_sda_iot dv) @ '' '' @ int_str (pri_d_sda_iot dv * 2) @ '' 0 0 0 0'',
       ''8 16 sdb '' @ int_str (pri_d_sdb_rd dv) @ '' 0 '' @ int_str (pri_d_sdb_rd dv * 64) @ '' '' @ int_str (pri_d_sdb_rdt dv) @ '' '' @ int_str (pri_d_sdb_wr dv) @ '' 0 '' @ int_str (pri_d_sdb_wr dv * 96) @ '' '' @ int_str (pri_d_sdb_wrt dv) @ '' '' @ int_str (pri_d_sdb_queue dv) @ '' '' @ int_str (pri_d_sdb_iot dv) @ '' '' @ int_str (pri_d_sdb_iot dv * 3) @ '' 0 0 0 0'']"

definition pri_if :: "int \<Rightarrow> int \<Rightarrow> int \<Rightarrow> int \<Rightarrow> string list" where
  "pri_if rx_bytes tx_bytes rx_pkts tx_pkts =
     [
       ''<<<lnx_if>>>'',
       ''[start_iplink]'',
       ''1: lo: <LOOPBACK,UP,LOWER_UP> mtu 65536 qdisc noqueue state UNKNOWN group default qlen 1000'',
       ''    link/loopback 00:00:00:00:00:00 brd 00:00:00:00:00:00'',
       ''2: eth0: <BROADCAST,MULTICAST,UP,LOWER_UP> mtu 1500 qdisc fq_codel state UP group default qlen 1000'',
       ''    link/ether 02:42:ac:11:00:1c brd ff:ff:ff:ff:ff:ff'',
       ''[end_iplink]'',
       ''<<<lnx_if:sep(58)>>>'',
       ''eth0: '' @ int_str rx_bytes @ '' '' @ int_str rx_pkts @ '' 0 0 0 0 0 0 '' @ int_str tx_bytes @ '' '' @ int_str tx_pkts @ '' 0 0 0 0 0 0'',
       ''[eth0]'',
       TAB @ ''Speed: 10000Mb/s'',
       TAB @ ''Duplex: Full'',
       TAB @ ''Auto-negotiation: on'',
       TAB @ ''Link detected: yes'',
       ''Address: 02:42:ac:11:00:1c'']"

definition pri_tcp :: "(nat \<Rightarrow> int) \<Rightarrow> (sim, string list) state" where
  "pri_tcp ri =
     do {
       g59 \<leftarrow> gauge ''tcp.estab'' 45 (Some 6) None 0.9 700;
       g60 \<leftarrow> gauge ''tcp.timewait'' 13 (Some 4) None 2.4 500;
       State_Monad.return ([
       ''<<<tcp_conn_stats>>>'',
       ''01 '' @ int_str (py_round g59),
       ''02 '' @ int_str (ri 4),
       ''06 '' @ int_str (py_round g60),
       ''0A 4'']) }"

definition pri_smart_section :: "string \<Rightarrow> string \<Rightarrow> string list" where
  "pri_smart_section sdb_smart sda_smart =
     [
       ''<<<smart_posix_all:sep(0)>>>'',
       sda_smart,
       sdb_smart]"

definition pri_ps :: "primary_cfg \<Rightarrow> (nat \<Rightarrow> int) \<Rightarrow> dstate \<Rightarrow> int \<Rightarrow> int \<Rightarrow> (sim, real \<times> int \<times> int \<times> string list) state" where
  "pri_ps cfg ri d now uptime =
     do {
       r_sess \<leftarrow> break_ramp cfg d 0.75;
       let run_sess = py_round (lerp 2 24 r_sess);
       let idle_sess = py_round (lerp (real_of_int (6 + (ri 5))) 2 r_sess);
       let boot_epoch = now - uptime;
       let cg = ''0::/system.slice/postgresql.service'';
       State_Monad.return ((r_sess, run_sess, idle_sess, [
       ''<<<ps_lnx>>>'',
       ''[time]'',
       int_str now,
       ''[processes]'',
       ''[header] CGROUP USER VSZ RSS TIME ELAPSED PID COMMAND''] @
      concat (map (\<lambda>(cgroup, puser, vsz, rss, cpu_rate, boot_off, pid, cmd). (let age = max 0 (now - (boot_epoch + boot_off))
      in [
       cgroup @ '' '' @ puser @ '' '' @ int_str vsz @ '' '' @ int_str rss @ '' '' @ cputime_str (cpu_rate * (real_of_int age)) @ '' '' @ elapsed_str (real_of_int age) @ '' '' @ int_str pid @ '' '' @ cmd])) PS_DAEMONS) @
      concat (map (\<lambda>(pid, comm, cpu_rate). [
       ''0::/ root 0 0 '' @ cputime_str (cpu_rate * (real_of_int uptime)) @ '' '' @ elapsed_str (real_of_int uptime) @ '' '' @ int_str pid @ '' ['' @ comm @ '']'']) PS_KTHREADS) @
      [
       cg @ '' postgres '' @ int_str 2950000 @ '' 156000 01:12:33 12-04:11:08 812 /usr/lib/postgresql/16/bin/postgres -D /var/lib/postgresql/16/main''] @
      concat (map (\<lambda>(i, (helper, rss)). [
       cg @ '' postgres '' @ int_str 2950000 @ '' '' @ int_str rss @ '' 00:0'' @ nat_str i @ '':1'' @ nat_str i @ '' 12-04:11:05 '' @ int_str (815 + int i) @ '' postgres: 16/main: '' @ helper]) (enumerate 0 ([
       (''checkpointer'', 2350000),
       (''background writer'', 1650000),
       (''walwriter'', 112000),
       (''autovacuum launcher'', 92000),
       (''logical replication launcher'', 84000)]))) @
      concat (map (\<lambda>i. (let verb = (if int i < run_sess then ''SELECT'' else ''idle'');
          rss = 180000 + (int i * 37) mod 240 * 1000
      in [
       cg @ '' postgres '' @ int_str 2950000 @ '' '' @ int_str rss @ '' 00:02:'' @ pad2 (nat (10 + (int i) mod 50)) @ '' 0-01:'' @ pad2 (nat (12 + (int i) mod 40)) @ '':09 '' @ int_str (2200 + int i) @ '' postgres: 16/main: payments payments 10.1.2.'' @ int_str (40 + (int i) mod 8) @ ''(5'' @ int_str (3400 + int i) @ '') '' @ verb])) ([0..<nat (idle_sess + run_sess)])))) }"

definition pri_units :: "string list" where
  "pri_units =
     (let units = [
       (''postgresql.service'', ''active'', ''running'', ''PostgreSQL RDBMS''),
       (''pgbouncer.service'', ''active'', ''running'', ''connection pooler for PostgreSQL''),
       (''ssh.service'', ''active'', ''running'', ''OpenBSD Secure Shell server''),
       (''cron.service'', ''active'', ''running'', ''Regular background program processing daemon''),
       (''dbus.service'', ''active'', ''running'', ''D-Bus System Message Bus''),
       (''getty@tty1.service'', ''active'', ''running'', ''Getty on tty1''),
       (''irqbalance.service'', ''active'', ''running'', ''irqbalance daemon''),
       (''multipathd.service'', ''active'', ''running'', ''Device-Mapper Multipath Device Controller''),
       (''networkd-dispatcher.service'', ''active'', ''running'', ''Dispatcher daemon for systemd-networkd''),
       (''polkit.service'', ''active'', ''running'', ''Authorization Manager''),
       (''rsyslog.service'', ''active'', ''running'', ''System Logging Service''),
       (''smartmontools.service'', ''active'', ''running'', ''Self Monitoring and Reporting Technology (SMART) Daemon''),
       (''snapd.service'', ''active'', ''running'', ''Snap Daemon''),
       (''systemd-journald.service'', ''active'', ''running'', ''Journal Service''),
       (''systemd-logind.service'', ''active'', ''running'', ''User Login Management''),
       (''systemd-networkd.service'', ''active'', ''running'', ''Network Configuration''),
       (''systemd-resolved.service'', ''active'', ''running'', ''Network Name Resolution''),
       (''systemd-timesyncd.service'', ''active'', ''running'', ''Network Time Synchronization''),
       (''systemd-udevd.service'', ''active'', ''running'', ''Rule-based Manager for Device Events and Files''),
       (''udisks2.service'', ''active'', ''running'', ''Disk Manager''),
       (''unattended-upgrades.service'', ''active'', ''running'', ''Unattended Upgrades Shutdown''),
       (''user@1000.service'', ''active'', ''running'', ''User Manager for UID 1000''),
       (''apparmor.service'', ''active'', ''exited'', ''Load AppArmor profiles''),
       (''blk-availability.service'', ''active'', ''exited'', ''Availability of block devices''),
       (''console-setup.service'', ''active'', ''exited'', ''Set console font and keymap''),
       (''finalrd.service'', ''active'', ''exited'', ''Create final runtime dir for shutdown pivot root''),
       (''keyboard-setup.service'', ''active'', ''exited'', ''Set the console keyboard layout''),
       (''lvm2-monitor.service'', ''active'', ''exited'', ''Monitoring of LVM2 mirrors, snapshots etc. using dmeventd or progress polling''),
       (''setvtrgb.service'', ''active'', ''exited'', ''Set console scheme''),
       (''snapd.seeded.service'', ''active'', ''exited'', ''Wait until snapd is fully seeded''),
       (''systemd-user-sessions.service'', ''active'', ''exited'', ''Permit User Sessions'')]
      in [
       ''<<<systemd_units>>>'',
       ''[list-unit-files]''] @
      concat (map (\<lambda>(nam, _, _, _). [
       nam @ '' enabled enabled'']) units) @
      [
       ''[status]'',
       ''[all]''] @
      concat (map (\<lambda>(nam, act, sub, descr). [
       nam @ '' loaded '' @ act @ '' '' @ sub @ '' '' @ descr]) units))"

definition pri_job :: "primary_cfg \<Rightarrow> int \<Rightarrow> string list" where
  "pri_job cfg now =
     [
       ''<<<job>>>'',
       ''==> pg-basebackup <=='',
       ''start_time '' @ int_str (last_scheduled cfg (real_of_int now) 1 0),
       ''exit_code 0'',
       ''real_time 12:41.3'',
       ''user_time 8.40'',
       ''system_time 3.10'',
       ''max_res_kbytes 312000'',
       ''avg_mem_kbytes 0'',
       ''==> vacuum-analyze <=='',
       ''start_time '' @ int_str (last_scheduled cfg (real_of_int now) 3 0),
       ''exit_code 0'',
       ''real_time 6:02.1'',
       ''user_time 4.20'',
       ''system_time 1.10'',
       ''max_res_kbytes 98000'',
       ''avg_mem_kbytes 0'']"

definition pri_instance :: "string \<times> string list" where
  "pri_instance =
     (let db_list = ''[databases_start]'' @ [CHR 0x0A] @ ''postgres'' @ [CHR 0x0A] @ ''payments'' @ [CHR 0x0A] @ ''[databases_end]''
      in (db_list, [
       ''<<<postgres_instances>>>'',
       ''[[[main]]]'',
       ''812 /usr/lib/postgresql/16/bin/postgres -D /var/lib/postgresql/16/main'',
       ''<<<postgres_version:sep(1)>>>'',
       ''[[[main]]]'',
       ''PostgreSQL 16.3 (Ubuntu 16.3-0ubuntu0.24.04.1) on x86_64-pc-linux-gnu, compiled by gcc (Ubuntu 13.2.0-23ubuntu4) 13.2.0, 64-bit'']))"

definition pri_sessions :: "int \<Rightarrow> int \<Rightarrow> string list" where
  "pri_sessions run_sess idle_sess =
     [
       ''<<<postgres_sessions>>>'',
       ''[[[main]]]'',
       ''t '' @ int_str idle_sess,
       ''f '' @ int_str run_sess]"

definition pri_stat_database :: "primary_cfg \<Rightarrow> dstate \<Rightarrow> int \<Rightarrow> int \<Rightarrow> (sim, string list) state" where
  "pri_stat_database cfg d run_sess idle_sess =
     do {
       r_pg \<leftarrow> break_ramp cfg d 0.6;
       pay_xact_commit \<leftarrow> fsample ''pg.payments.xact_commit'' (lerp 380 35 r_pg);
       pay_xact_rollback \<leftarrow> fsample ''pg.payments.xact_rollback'' 0.2;
       pay_blks_read \<leftarrow> fsample ''pg.payments.blks_read'' (lerp 40 55 r_pg);
       pay_blks_hit \<leftarrow> fsample ''pg.payments.blks_hit'' (lerp 9000 700 r_pg);
       pay_tup_returned \<leftarrow> fsample ''pg.payments.tup_returned'' (lerp 14000 1100 r_pg);
       pay_tup_fetched \<leftarrow> fsample ''pg.payments.tup_fetched'' (lerp 5000 400 r_pg);
       pay_tup_inserted \<leftarrow> fsample ''pg.payments.tup_inserted'' (lerp 120 8 r_pg);
       pay_tup_updated \<leftarrow> fsample ''pg.payments.tup_updated'' (lerp 90 6 r_pg);
       pay_tup_deleted \<leftarrow> fsample ''pg.payments.tup_deleted'' (lerp 2 0.2 r_pg);
       let rows_since = max 0 (pay_tup_inserted - PAY_ROWS0);
       let pay_size = 84512345678 + rows_since * 640;
       sys_commit \<leftarrow> fsample ''pg.postgres.xact_commit'' 0.5;
       sys_hit \<leftarrow> fsample ''pg.postgres.blks_hit'' 25;
       sys_ret \<leftarrow> fsample ''pg.postgres.tup_returned'' 30;
       State_Monad.return ([
       ''<<<postgres_stat_database:sep(59)>>>'',
       ''[[[main]]]'',
       ''datid;datname;numbackends;xact_commit;xact_rollback;blks_read;blks_hit;tup_returned;tup_fetched;tup_inserted;tup_updated;tup_deleted;datsize'',
       ''5;postgres;1;'' @ int_str sys_commit @ '';0;312;'' @ int_str sys_hit @ '';'' @ int_str sys_ret @ '';'' @ int_str (sys_ret div 2) @ '';4;1;0;7654321'',
       ''16384;payments;'' @ int_str (idle_sess + run_sess) @ '';'' @ int_str pay_xact_commit @ '';'' @ int_str pay_xact_rollback @ '';'' @ int_str pay_blks_read @ '';'' @ int_str pay_blks_hit @ '';'' @ int_str pay_tup_returned @ '';'' @ int_str pay_tup_fetched @ '';'' @ int_str pay_tup_inserted @ '';'' @ int_str pay_tup_updated @ '';'' @ int_str pay_tup_deleted @ '';'' @ int_str pay_size]) }"

definition pri_connections :: "int \<Rightarrow> int \<Rightarrow> string \<Rightarrow> string list" where
  "pri_connections run_sess idle_sess db_list =
     [
       ''<<<postgres_connections:sep(59)>>>'',
       ''[[[main]]]'',
       db_list,
       ''datname;mc;idle;active'',
       ''postgres;100;1;0'',
       ''payments;100;'' @ int_str idle_sess @ '';'' @ int_str run_sess]"

definition pri_query_duration :: "(nat \<Rightarrow> int) \<Rightarrow> dstate \<Rightarrow> bool \<Rightarrow> string \<Rightarrow> (sim, string list) state" where
  "pri_query_duration ri d broken db_list =
     do {
       ls76 \<leftarrow> (if broken then do {
         r75 \<leftarrow> host_broken_seconds d;
         let stuck = 47 + py_trunc r75;
         State_Monad.return ([
       ''payments;16384;payments;10.1.2.44;active;'' @ int_str stuck @ '';2207;SELECT o.id, o.amount, t.status FROM orders o JOIN transactions t ON t.order_id = o.id WHERE o.settled = false'']) } else State_Monad.return ([
       ''payments;16384;payments;10.1.2.41;active;'' @ int_str (ri 6) @ '';2204;SELECT id, status FROM orders WHERE created_at > now() - interval '' @ [CHR 0x27] @ ''5 minutes'' @ [CHR 0x27]]));
       State_Monad.return ([
       ''<<<postgres_query_duration:sep(59)>>>'',
       ''[[[main]]]'',
       db_list,
       ''datname;datid;usename;client_addr;state;seconds;pid;current_query''] @
      ls76 @
      [
       ''postgres;5;postgres;;active;0;812;SELECT 1'']) }"

definition pri_locks :: "real \<Rightarrow> string \<Rightarrow> string list" where
  "pri_locks r_sess db_list =
     [
       ''<<<postgres_locks:sep(59)>>>'',
       ''[[[main]]]'',
       db_list,
       ''datname;granted;mode'',
       ''postgres;;''] @
      concat (map (\<lambda>_. [
       ''payments;t;AccessShareLock'']) ([0..<nat (3 + py_round (5 * r_sess))])) @
      concat (map (\<lambda>_. [
       ''payments;t;RowExclusiveLock'']) ([0..<nat (py_round (2 * r_sess))]))"

definition pri_stats :: "int \<Rightarrow> string \<Rightarrow> string list" where
  "pri_stats now db_list =
     [
       ''<<<postgres_stats:sep(59)>>>'',
       ''[[[main]]]'',
       db_list,
       ''datname;sname;tname;vtime;atime'',
       ''postgres;pg_catalog;pg_statistic;-1;-1'',
       ''payments;public;orders;'' @ int_str (now - 6 * 3600) @ '';'' @ int_str (now - 6 * 3600),
       ''payments;public;transactions;'' @ int_str (now - 6 * 3600) @ '';'' @ int_str (now - 6 * 3600),
       ''payments;public;audit_log;'' @ int_str (now - 30 * 3600) @ '';'' @ int_str (now - 30 * 3600)]"

definition pri_bloat :: "string \<Rightarrow> string list" where
  "pri_bloat db_list =
     [
       ''<<<postgres_bloat:sep(59)>>>'',
       ''[[[main]]]'',
       db_list,
       ''db;schemaname;tablename;tups;pages;otta;tbloat;wastedpages;wastedbytes;wastedsize;iname;itups;ipages;iotta;ibloat;wastedipages;wastedibytes;wastedisize;totalwastedbytes'',
       ''postgres;pg_catalog;pg_statistic;412;14;11;1.3;3;24576;24 kB;pg_statistic_relid_att_inh_index;412;6;4;1.5;2;16384;16 kB;40960'',
       ''payments;public;orders;18412022;312480;271722;1.2;40758;333930496;318 MB;orders_pkey;18412022;91220;70169;1.3;21051;172449792;164 MB;506380288'',
       ''payments;public;transactions;44820110;780122;709201;1.1;70921;580984832;554 MB;transactions_pkey;44820110;221080;138175;1.6;82905;679157760;648 MB;1260142592'',
       ''payments;public;audit_log;9210441;160233;145666;1.1;14567;119324672;114 MB;audit_log_pkey;9210441;40110;30852;1.3;9258;75841536;72 MB;195166208'']"

definition pri_conn_time :: "primary_cfg \<Rightarrow> dstate \<Rightarrow> (sim, string list) state" where
  "pri_conn_time cfg d =
     do {
       r77 \<leftarrow> break_ramp cfg d 0.75;
       g78 \<leftarrow> gauge ''pg.conn_time'' 1.0 None (Some 0.15) 1.5 350;
       let conn_t = round_dec 3 (lerp 0.012 1.9 r77 * g78);
       State_Monad.return ([
       ''<<<postgres_conn_time>>>'',
       ''[[[main]]]'',
       float_str 3 conn_t]) }"

text \<open>The payload: the sections in order, one line each.\<close>

definition pri_build :: "primary_cfg \<Rightarrow> string \<Rightarrow> (nat \<Rightarrow> int) \<Rightarrow> (int \<Rightarrow> real) \<Rightarrow> dstate \<Rightarrow> (sim, string) state" where
  "pri_build cfg sta ri roll d = do {
       (now, uptime, broken, disk_dying) \<leftarrow> pri_clock cfg sta;
       mv \<leftarrow> pri_memory cfg d;
       lv \<leftarrow> pri_load cfg d;
       (user, system, iowait, idle) \<leftarrow> pri_ticks cfg d;
       dv \<leftarrow> pri_disk cfg ri roll d now disk_dying;
       (rx_bytes, tx_bytes, rx_pkts, tx_pkts) \<leftarrow> pri_net;
       (sdb_smart, sda_smart) \<leftarrow> pri_smart cfg d uptime;
       let l_head = pri_head cfg now;
       l_df \<leftarrow> pri_df cfg;
       let l_mem = pri_mem mv;
       l_cpu \<leftarrow> pri_cpu uptime lv;
       l_timesync \<leftarrow> pri_timesync cfg ri now;
       let l_apt = pri_apt;
       l_kernel \<leftarrow> pri_kernel now user system iowait idle;
       let l_diskstat = pri_diskstat now dv;
       let l_if = pri_if rx_bytes tx_bytes rx_pkts tx_pkts;
       l_tcp \<leftarrow> pri_tcp ri;
       let l_smart_section = pri_smart_section sdb_smart sda_smart;
       (r_sess, run_sess, idle_sess, l_ps) \<leftarrow> pri_ps cfg ri d now uptime;
       let l_units = pri_units;
       let l_job = pri_job cfg now;
       let (db_list, l_instance) = pri_instance;
       let l_sessions = pri_sessions run_sess idle_sess;
       l_stat_database \<leftarrow> pri_stat_database cfg d run_sess idle_sess;
       let l_connections = pri_connections run_sess idle_sess db_list;
       l_query_duration \<leftarrow> pri_query_duration ri d broken db_list;
       let l_locks = pri_locks r_sess db_list;
       let l_stats = pri_stats now db_list;
       let l_bloat = pri_bloat db_list;
       l_conn_time \<leftarrow> pri_conn_time cfg d;
       State_Monad.return (concat (map (\<lambda>l. l @ [CHR 0x0A])
         (l_head @ l_df @ l_mem @ l_cpu @ l_timesync @ l_apt @ l_kernel @ l_diskstat @ l_if @ l_tcp @ l_smart_section @ l_ps @ l_units @ l_job @ l_instance @ l_sessions @ l_stat_database @ l_connections @ l_query_duration @ l_locks @ l_stats @ l_bloat @ l_conn_time))) }"

text \<open>The model ends here.  The tick counters: one budget, shared out without loss.\<close>

section \<open>The tick counters\<close>

definition pri_tick_names :: "string list" where
  "pri_tick_names = [''cpu.user'', ''cpu.system'', ''cpu.iowait'', ''cpu.idle'', ''cpu.total_ticks'']"

lemma runs_break_ramp: "0 < fr \<Longrightarrow> runs (standing f) (break_ramp cfg d fr) (\<lambda>r s. (0 \<le> r \<and> r \<le> 1) \<and> standing f s)"
  by (auto simp: runs_def break_ramp_def host_broken_seconds_def get_time_def State_Monad.bind_def State_Monad.return_def
      split: option.split intro: standing_cong [rotated])

text \<open>The scaling: what is left for idle is at least four ticks a second.\<close>

lemma busy_scaled:
  fixes u v w :: real
  assumes "0 \<le> u" "0 \<le> v" "0 \<le> w"
  shows "\<exists>b w' v' u'. (if u + v + w > 396 then (396, w * (396 / (u + v + w)), v * (396 / (u + v + w)), u * (396 / (u + v + w)))
       else (u + v + w, w, v, u)) = (b, w', v', u') \<and> b = u' + v' + w' \<and> b \<le> 396 \<and> 0 \<le> u' \<and> 0 \<le> v' \<and> 0 \<le> w'"
proof (cases "u + v + w > 396")
  case True
  have c: "x * (396 / x) = 396" if "x \<noteq> 0" for x :: real using that by simp
  have "u * (396 / (u + v + w)) + v * (396 / (u + v + w)) + w * (396 / (u + v + w)) = (u + v + w) * (396 / (u + v + w))"
    by (simp only: distrib_right)
  also have "... = 396" using c [of "u + v + w"] True by linarith
  finally have "u * (396 / (u + v + w)) + v * (396 / (u + v + w)) + w * (396 / (u + v + w)) = 396" .
  with True assms show ?thesis by simp
qed (use assms in simp)

text \<open>The four rates share the budget of 400 ticks a second, and each counter advances at its rate.\<close>

definition pri_shared :: "(string \<rightharpoonup> real \<times> real) \<Rightarrow> real \<Rightarrow> sim \<Rightarrow> bool" where
  "pri_shared f l s \<longleftrightarrow> (\<exists>now ru rv rw ri f'. 0 \<le> ru \<and> 0 \<le> rv \<and> 0 \<le> rw \<and> 4 \<le> ri \<and> ru + rv + rw + ri = 400 \<and> standing f' s
     \<and> (\<forall>(n, r) \<in> set (zip pri_tick_names [ru, rv, rw, ri, 400]). f' n = Some (fst (the (f n)) + r * max 0 (now - l), now)))"

lemma pri_ticks_run:
  assumes f: "\<forall>n \<in> set pri_tick_names. \<exists>a. f n = Some (a, l)"
  shows "runs (standing f) (pri_ticks cfg d) (\<lambda>_. pri_shared f l)"
proof -
  obtain au av aw ai at' where a: "f ''cpu.user'' = Some (au, l)" "f ''cpu.system'' = Some (av, l)" "f ''cpu.iowait'' = Some (aw, l)"
    "f ''cpu.idle'' = Some (ai, l)" "f ''cpu.total_ticks'' = Some (at', l)"
    using f by (auto simp: pri_tick_names_def)
  have e: "(4.0 :: real) = 4" "(0.6 :: real) = 3 / 5" "real_of_int (4 * 100) = 400" "400 - 4 = (396 :: real)" by simp_all
  show ?thesis
    unfolding pri_ticks_def Let_def e
  proof (rule runs_bind [OF runs_break_ramp], simp, rule runs_pure, rule runs_bind [OF runs_get_time],
      (rule runs_bind [OF counter_inst_run], rule a, simp add: lerp_def, rule runs_pure)+)
    fix r now u v w :: real assume h: "0 \<le> r \<and> r \<le> 1" "0 \<le> u" "0 \<le> v" "0 \<le> w"
    obtain b w' v' u' where s: "(if u + v + w > 396 then (396, w * (396 / (u + v + w)), v * (396 / (u + v + w)), u * (396 / (u + v + w)))
       else (u + v + w, w, v, u)) = (b, w', v', u')" "b = u' + v' + w'" "b \<le> 396" "0 \<le> u'" "0 \<le> v'" "0 \<le> w'"
      using busy_scaled [OF h(2-4)] by blast
    show "runs (standing f) (case if u + v + w > 396 then (396, w * (396 / (u + v + w)), v * (396 / (u + v + w)), u * (396 / (u + v + w)))
       else (u + v + w, w, v, u) of (busy, iowait_r, system_r, user_r) \<Rightarrow> do {
         user \<leftarrow> counter_add ''cpu.user'' user_r now;
         system \<leftarrow> counter_add ''cpu.system'' system_r now;
         iowait \<leftarrow> counter_add ''cpu.iowait'' iowait_r now;
         idle \<leftarrow> counter_add ''cpu.idle'' (400 - busy) now;
         c28 \<leftarrow> counter_add ''cpu.total_ticks'' 400 now;
         State_Monad.return (user, system, iowait, idle) }) (\<lambda>_. pri_shared f l)"
      unfolding s(1) case_prod_conv
    proof (rule added.share_run, rule a, rule a, rule a, rule a, simp, rule s, rule s, rule s, use s in simp, rule runs_bind [OF added.add_run], simp, rule a, simp, rule runs_return)
      fix sa assume "standing (f(''cpu.user'' \<mapsto> (au + u' * max 0 (now - l), now), ''cpu.system'' \<mapsto> (av + v' * max 0 (now - l), now),
        ''cpu.iowait'' \<mapsto> (aw + w' * max 0 (now - l), now), ''cpu.idle'' \<mapsto> (ai + (400 - b) * max 0 (now - l), now),
        ''cpu.total_ticks'' \<mapsto> (at' + 400 * max 0 (now - l), now))) sa"
      then show "pri_shared f l sa"
        unfolding pri_shared_def
        by (intro exI [of _ now] exI [of _ u'] exI [of _ v'] exI [of _ w'] exI [of _ "400 - b"] exI conjI)
           (rule s, rule s, rule s, use s in simp, use s in simp, assumption, simp add: pri_tick_names_def a)
    qed
  qed
qed

text \<open>C38. The CPU tick counters of the database host share one budget: from a state in which they were last read at
  the same moment \<open>l\<close>, one render (whatever the clock, the noise and the incident) moves user, system, iowait and
  idle together by exactly the 400 ticks a second that the total counter moves by, moves none of them backwards, gives
  idle at least one percent, and leaves all of them read at one moment again.\<close>

theorem primary_ticks_conserved:
  assumes "tick_ready pri_tick_names l s" and "s' = snd (run_state (pri_ticks cfg d) s)"
  shows "\<exists>now. tick_ready pri_tick_names now s'
    \<and> reading s' ''cpu.total_ticks'' = reading s ''cpu.total_ticks'' + 400 * max 0 (now - l)
    \<and> reading s' ''cpu.user'' + reading s' ''cpu.system'' + reading s' ''cpu.iowait'' + reading s' ''cpu.idle''
       = reading s ''cpu.user'' + reading s ''cpu.system'' + reading s ''cpu.iowait'' + reading s ''cpu.idle'' + 400 * max 0 (now - l)
    \<and> reading s ''cpu.idle'' + 4 * max 0 (now - l) \<le> reading s' ''cpu.idle''
    \<and> list_all (\<lambda>n. reading s n \<le> reading s' n) pri_tick_names"
proof -
  let ?f = "\<lambda>n. if n \<in> set pri_tick_names then Some (reading s n, l) else None"
  have "pri_shared ?f l s'"
    using runs_apply [OF pri_ticks_run [of ?f l cfg d] ready_standing [OF assms(1)]] assms(2) by simp
  then obtain now ru rv rw ri f' where r: "0 \<le> ru" "0 \<le> rv" "0 \<le> rw" "4 \<le> ri" "ru + rv + rw + ri = 400" and f': "standing f' s'"
    and g: "\<forall>(n, r) \<in> set (zip pri_tick_names [ru, rv, rw, ri, 400]). f' n = Some (fst (the (?f n)) + r * max 0 (now - l), now)"
    unfolding pri_shared_def by blast
  define dt where "dt = max 0 (now - l)"
  have v: "reading s' ''cpu.user'' = reading s ''cpu.user'' + ru * dt" "reading s' ''cpu.system'' = reading s ''cpu.system'' + rv * dt"
    "reading s' ''cpu.iowait'' = reading s ''cpu.iowait'' + rw * dt" "reading s' ''cpu.idle'' = reading s ''cpu.idle'' + ri * dt"
    "reading s' ''cpu.total_ticks'' = reading s ''cpu.total_ticks'' + 400 * dt"
    using g standing_reading [OF f'] by (auto simp: pri_tick_names_def dt_def)
  have m: "0 \<le> dt" "0 \<le> ru * dt" "0 \<le> rv * dt" "0 \<le> rw * dt" "4 * dt \<le> ri * dt"
    using r by (simp_all add: dt_def mult_right_mono)
  have "ru * dt + rv * dt + rw * dt + ri * dt = 400 * dt" using r(5) by (simp add: distrib_right [symmetric])
  moreover have "tick_ready pri_tick_names now s'"
    by (rule standing_ready [OF f']) (use g in \<open>auto simp: pri_tick_names_def\<close>)
  ultimately show ?thesis using v m by (intro exI [of _ now]) (simp add: dt_def [symmetric] pri_tick_names_def)
qed

theorem primary_ticks_conserved_witness:
  "tick_ready pri_tick_names 40 \<lparr>clock = (\<lambda>k. 100), noise = (\<lambda>k. 0), gauges = Map.empty,
      counters = (\<lambda>n. if n \<in> set pri_tick_names then Some (counter_init 0 (3 / 10) 1200 0 40) else None)\<rparr>
   \<and> (\<exists>now. tick_ready pri_tick_names now (snd (run_state
        (pri_ticks \<lparr>hc_hostname = ''db'', hc_version = ''2'', hc_start = 0, ic_auto_break = 18, ic_fill = 15, ic_ramp = 3, confession = 10\<rparr>
          \<lparr>st = BROKEN, st_since = 10, degraded_since = Some 10, broken_since = Some 10\<rparr>)
        \<lparr>clock = (\<lambda>k. 100), noise = (\<lambda>k. 0), gauges = Map.empty,
          counters = (\<lambda>n. if n \<in> set pri_tick_names then Some (counter_init 0 (3 / 10) 1200 0 40) else None)\<rparr>)))"
proof -
  have "tick_ready pri_tick_names 40 \<lparr>clock = (\<lambda>k. 100), noise = (\<lambda>k. 0), gauges = Map.empty,
      counters = (\<lambda>n. if n \<in> set pri_tick_names then Some (counter_init 0 (3 / 10) 1200 0 40) else None)\<rparr>"
    by (simp add: tick_ready_def list_all_iff counter_init_def)
  then show ?thesis using primary_ticks_conserved [OF _ refl] by blast
qed

section \<open>The confession of the dying disk\<close>

definition smart_zero :: "int \<times> int \<times> int \<times> real \<Rightarrow> bool" where
  "smart_zero a \<longleftrightarrow> (case a of (pending, realloc, uncorrect, temp) \<Rightarrow> pending = 0 \<and> realloc = 0 \<and> uncorrect = 0)"

definition smart_in_range :: "int \<times> int \<times> int \<times> real \<Rightarrow> bool" where
  "smart_in_range a \<longleftrightarrow> (case a of (pending, realloc, uncorrect, temp) \<Rightarrow>
     0 \<le> pending \<and> pending \<le> 24 \<and> 0 \<le> realloc \<and> realloc \<le> 12 \<and> 0 \<le> uncorrect \<and> uncorrect \<le> 6 \<and> temp \<le> 38)"

definition smart_confessed :: "int \<times> int \<times> int \<times> real \<Rightarrow> bool" where
  "smart_confessed a \<longleftrightarrow> (case a of (pending, realloc, uncorrect, temp) \<Rightarrow> 2 \<le> pending \<and> 3 \<le> realloc \<and> 1 \<le> uncorrect)"

text \<open>The attributes \<open>c\<close> minutes after the confession began.\<close>

definition smart_at :: "real \<Rightarrow> int \<times> int \<times> int" where
  "smart_at c =
     (let flagged = 4 + py_trunc (c / 3);
          uncorrect = (if c < 5 then 0 else min 6 (1 + py_trunc ((c - 5) / 7)));
          realloc = (if c < 10 then 0 else min 12 (py_trunc ((c - 10) * (3 / 2))));
          pending = max 2 (min 24 (flagged - realloc div 3))
      in (pending, realloc, uncorrect))"

definition with_temp :: "int \<times> int \<times> int \<Rightarrow> real \<Rightarrow> int \<times> int \<times> int \<times> real" where
  "with_temp a temp = (case a of (pending, realloc, uncorrect) \<Rightarrow> (pending, realloc, uncorrect, temp))"

lemma temp_below: "round_dec 1 (30 + min 8 x) \<le> 38"
proof -
  have "py_round ((30 + min 8 x) * 10) \<le> 380" using py_round_bounds [of "(30 + min 8 x) * 10"] by (simp add: min_def split: if_splits)
  then show ?thesis by (simp add: round_dec_def)
qed

lemma smart_run:
  assumes B: "timed T (\<lambda>b. C (b / 60 - confession cfg)) (host_broken_seconds d)"
    and M: "timed T M (pri_degraded_minutes d)" and calm: "\<And>m. M m \<Longrightarrow> m \<le> 0 \<Longrightarrow> P (0, 0, 0, 30)" and zero: "\<And>temp c. temp \<le> 38 \<Longrightarrow> C c \<Longrightarrow> c \<le> 0 \<Longrightarrow> P (0, 0, 0, temp)"
    and conf: "\<And>temp c. temp \<le> 38 \<Longrightarrow> C c \<Longrightarrow> 0 < c \<Longrightarrow> P (with_temp (smart_at c) temp)"
  shows "timed T P (smart_attrs cfg d)"
proof -
  have e: "(30.0 :: real) = 30" "(8.0 :: real) = 8" "(60.0 :: real) = 60" "(1.5 :: real) = 3 / 2" by simp_all
  show ?thesis
    unfolding smart_attrs_def Let_def e
  proof (rule timed_bind [OF M], rule timed_if)
    fix x assume x: "M x"
    show "timed T P (State_Monad.return (0, 0, 0, 30))" if "x \<le> 0" by (rule timed_return, rule calm [OF x that])
    show "timed T P (host_broken_seconds d \<bind> (\<lambda>r2. if r2 / 60 - confession cfg \<le> 0 then State_Monad.return (0, 0, 0, round_dec 1 (30 + min 8 (x * 1.4)))
      else State_Monad.return
        (max 2 (min 24 (4 + py_trunc ((r2 / 60 - confession cfg) / 3)
           - (if r2 / 60 - confession cfg < 10 then 0 else min 12 (py_trunc ((r2 / 60 - confession cfg - 10) * (3 / 2)))) div 3)),
         if r2 / 60 - confession cfg < 10 then 0 else min 12 (py_trunc ((r2 / 60 - confession cfg - 10) * (3 / 2))),
         if r2 / 60 - confession cfg < 5 then 0 else min 6 (1 + py_trunc ((r2 / 60 - confession cfg - 5) / 7)),
         round_dec 1 (30 + min 8 (x * 1.4)))))"
    proof (rule timed_bind [OF B], rule timed_if)
      fix b assume c: "C (b / 60 - confession cfg)"
      show "timed T P (State_Monad.return (0, 0, 0, round_dec 1 (30 + min 8 (x * 1.4))))" if "b / 60 - confession cfg \<le> 0"
        by (rule timed_return, rule zero [OF temp_below c that])
      show "timed T P (State_Monad.return
        (max 2 (min 24 (4 + py_trunc ((b / 60 - confession cfg) / 3)
           - (if b / 60 - confession cfg < 10 then 0 else min 12 (py_trunc ((b / 60 - confession cfg - 10) * (3 / 2)))) div 3)),
         if b / 60 - confession cfg < 10 then 0 else min 12 (py_trunc ((b / 60 - confession cfg - 10) * (3 / 2))),
         if b / 60 - confession cfg < 5 then 0 else min 6 (1 + py_trunc ((b / 60 - confession cfg - 5) / 7)),
         round_dec 1 (30 + min 8 (x * 1.4))))" if "\<not> b / 60 - confession cfg \<le> 0"
        using conf [OF temp_below c, of "x * 1.4"] that by (intro timed_return) (simp only: smart_at_def with_temp_def Let_def case_prod_conv not_le)
    qed
  qed
qed

lemma smart_at_range:
  assumes "0 < c" "temp \<le> 38"
  shows "smart_in_range (with_temp (smart_at c) temp)"
proof -
  have "0 \<le> py_trunc ((c - 10) * (3 / 2))" if "\<not> c < 10" using that by (intro py_trunc_nonneg) simp
  moreover have "0 \<le> py_trunc ((c - 5) / 7)" if "\<not> c < 5" using that by (intro py_trunc_nonneg) simp
  ultimately show ?thesis using assms(2) by (simp add: smart_in_range_def with_temp_def smart_at_def Let_def le_max_iff_disj)
qed

lemma smart_zero_range: "temp \<le> 38 \<Longrightarrow> smart_in_range (0, 0, 0, temp)"
  by (simp add: smart_in_range_def)

lemma smart_at_late:
  assumes "12 \<le> c"
  shows "smart_confessed (with_temp (smart_at c) temp)"
proof -
  have "py_trunc 3 \<le> py_trunc ((c - 10) * (3 / 2))" "py_trunc 1 \<le> py_trunc ((c - 5) / 7)" using assms by (intro py_trunc_mono; simp)+
  then show ?thesis using assms py_trunc_of_int [of 3] py_trunc_of_int [of 1]
    by (simp add: smart_confessed_def with_temp_def smart_at_def Let_def)
qed

lemma timed_minutes:
  "(degraded_since d = None \<Longrightarrow> M 0) \<Longrightarrow> (\<And>s t. degraded_since d = Some s \<Longrightarrow> T t \<Longrightarrow> M ((t - s) / 60)) \<Longrightarrow> timed T M (pri_degraded_minutes d)"
  unfolding pri_degraded_minutes_def
  by (auto intro!: timed_bind [OF timed_get_time [where P = T]] timed_return split: option.split)

text \<open>C35. The SMART attributes of the dying disk, for every configuration with a confession delay of zero or more, clock and
  noise: they stay in their range and the disk at 38 degrees or below; nothing is pending, reallocated or uncorrectable until the host
  has been broken for longer than the delay; and twelve minutes after that all three attributes have risen.\<close>

theorem smart_confession_story:
  assumes "0 \<le> confession cfg"
  shows "timed T smart_in_range (smart_attrs cfg d)
   \<and> ((\<forall>s t. broken_since d = Some s \<longrightarrow> T t \<longrightarrow> t - s \<le> confession cfg * 60) \<longrightarrow> timed T smart_zero (smart_attrs cfg d))
   \<and> ((\<exists>sd. degraded_since d = Some sd \<and> (\<forall>t. T t \<longrightarrow> sd < t)) \<and> (\<exists>s. broken_since d = Some s \<and> (\<forall>t. T t \<longrightarrow> (confession cfg + 12) * 60 \<le> t - s))
       \<longrightarrow> timed T smart_confessed (smart_attrs cfg d))"
proof (intro conjI impI)
  show "timed T smart_in_range (smart_attrs cfg d)"
    by (rule smart_run [where C = "\<lambda>_. True" and M = "\<lambda>_. True"])
       (auto intro: timed_minutes timed_broken smart_at_range smart_zero_range)
  show "timed T smart_zero (smart_attrs cfg d)" if "\<forall>s t. broken_since d = Some s \<longrightarrow> T t \<longrightarrow> t - s \<le> confession cfg * 60"
    by (rule smart_run [where C = "\<lambda>c. c \<le> 0" and M = "\<lambda>_. True"])
       (use that assms in \<open>auto intro!: timed_minutes timed_broken simp: smart_zero_def\<close>)
  show "timed T smart_confessed (smart_attrs cfg d)"
    if h: "(\<exists>sd. degraded_since d = Some sd \<and> (\<forall>t. T t \<longrightarrow> sd < t)) \<and> (\<exists>s. broken_since d = Some s \<and> (\<forall>t. T t \<longrightarrow> (confession cfg + 12) * 60 \<le> t - s))"
  proof (rule smart_run [where C = "\<lambda>c. 12 \<le> c" and M = "\<lambda>m. 0 < m"])
    show "timed T (\<lambda>b. 12 \<le> b / 60 - confession cfg) (host_broken_seconds d)"
    proof (rule timed_broken)
      fix s t assume "broken_since d = Some s" "T t"
      then have "(confession cfg + 12) * 60 \<le> t - s" using h by auto
      then show "12 \<le> (t - s) / 60 - confession cfg" by (simp add: field_simps)
    qed (use h in auto)
    show "timed T (\<lambda>m. 0 < m) (pri_degraded_minutes d)" by (rule timed_minutes) (use h in auto)
  qed (auto intro: smart_at_late)
qed

theorem smart_confession_story_witness:
  "timed (\<lambda>t. 3000 \<le> t) smart_confessed
     (smart_attrs \<lparr>hc_hostname = ''db'', hc_version = ''2'', hc_start = 0, ic_auto_break = 18, ic_fill = 15, ic_ramp = 3, confession = 10\<rparr>
        \<lparr>st = BROKEN, st_since = 1000, degraded_since = Some 100, broken_since = Some 1000\<rparr>)"
  using smart_confession_story [of "\<lparr>hc_hostname = ''db'', hc_version = ''2'', hc_start = 0, ic_auto_break = 18, ic_fill = 15, ic_ramp = 3, confession = 10\<rparr>"
    "\<lambda>t. 3000 \<le> t" "\<lparr>st = BROKEN, st_since = 1000, degraded_since = Some 100, broken_since = Some 1000\<rparr>"] by simp

end
