(* ===== verification/Host_Pay.thy ===== *)
theory Host_Pay
  imports Counter_Ops
begin

text \<open>
  \<open>hosts/payment-api/serve.py\<close>, the payment service behind a healthy-looking host: its counters, the two-state
  incident, its filesystems, the agent output, section by section, and the web server that is both the monitored
  endpoint and the control panel.  \<open>broken\<close> is the state the handler passes, \<open>b\<close> the incident record the
  story functions read, \<open>ri\<close> the outcomes of \<open>random.randint\<close> in the order of the calls.
\<close>

section \<open>Configuration and counters\<close>

record pay_cfg = host_cfg +
  delay_ms :: int

definition pay_counters :: "(string \<times> real \<times> real \<times> real) list" where
  "pay_counters = [
     (''cpu.user'', 0.3, 0.30, 35 * real_of_int 435600),
     (''cpu.system'', 1.1, 0.30, 12 * real_of_int 435600),
     (''cpu.idle'', 2.4, 0.30, 348 * real_of_int 435600),
     (''cpu.iowait'', 3.0, 0.30, 4 * real_of_int 435600),
     (''kernel.ctxt'', 4.0, 0.30, 2400 * real_of_int 435600),
     (''kernel.processes'', 4.7, 0.30, 6 * real_of_int 435600),
     (''kernel.pgmajfault'', 5.4, 0.30, 0.05 * real_of_int 435600),
     (''vda.rd_ios'', 0.0, 0.30, 3 * real_of_int 435600),
     (''vda.rd_ticks'', 0.2, 0.30, 1.2 * real_of_int 435600),
     (''vda.wr_ios'', 0.4, 0.30, 26 * real_of_int 435600),
     (''vda.wr_ticks'', 0.6, 0.30, 18 * real_of_int 435600),
     (''vda.io_ticks'', 0.8, 0.01, 22 * real_of_int 435600),
     (''vdb.rd_ios'', 1.0, 0.30, 6 * real_of_int 435600),
     (''vdb.rd_ticks'', 1.2, 0.30, 3 * real_of_int 435600),
     (''vdb.wr_ios'', 1.4, 0.30, 14 * real_of_int 435600),
     (''vdb.wr_ticks'', 1.6, 0.30, 10 * real_of_int 435600),
     (''vdb.io_ticks'', 1.8, 0.01, 14 * real_of_int 435600),
     (''net.rx_bytes'', 1.6, 0.30, 180000 * real_of_int 435600),
     (''net.tx_bytes'', 2.3, 0.30, 320000 * real_of_int 435600),
     (''net.rx_pkts'', 3.0, 0.30, 950 * real_of_int 435600),
     (''net.tx_pkts'', 3.7, 0.30, 900 * real_of_int 435600)]"

section \<open>The two-state incident\<close>

record pay_state =
  pb_broken :: bool
  pb_since :: real
  pb_broken_since :: "real option"

definition pay_boot :: "bool \<Rightarrow> real \<Rightarrow> pay_state" where
  "pay_boot start_broken start =
     \<lparr>pb_broken = start_broken, pb_since = start, pb_broken_since = (if start_broken then Some start else None)\<rparr>"

definition START_BROKEN :: "string option \<Rightarrow> bool" where
  "START_BROKEN env = ((case env of None \<Rightarrow> ''1'' | Some s \<Rightarrow> s) \<notin> set [''0'', ''false'', ''False'', []])"

definition set_broken :: "bool \<Rightarrow> pay_state \<Rightarrow> (sim, pay_state) state" where
  "set_broken val b = do {
     b \<leftarrow> (if val \<noteq> pb_broken b then do { t \<leftarrow> get_time; State_Monad.return (b\<lparr>pb_since := t\<rparr>) } else State_Monad.return b);
     let b = b\<lparr>pb_broken := val\<rparr>;
     if val
     then (if pb_broken_since b = None then do { t \<leftarrow> get_time; State_Monad.return (b\<lparr>pb_broken_since := Some t\<rparr>) }
           else State_Monad.return b)
     else State_Monad.return (b\<lparr>pb_broken_since := None\<rparr>) }"

definition pay_since_seconds :: "pay_state \<Rightarrow> (sim, real) state" where
  "pay_since_seconds b = do { t \<leftarrow> get_time; State_Monad.return (t - pb_since b) }"

definition pay_broken_seconds :: "pay_state \<Rightarrow> (sim, real) state" where
  "pay_broken_seconds b = (case pb_broken_since b of None \<Rightarrow> State_Monad.return 0
     | Some s \<Rightarrow> do { t \<leftarrow> get_time; State_Monad.return (t - s) })"

definition pay_ramp :: "pay_state \<Rightarrow> real \<Rightarrow> (sim, real) state" where
  "pay_ramp b secs =
     do {
       bs \<leftarrow> pay_broken_seconds b;
       State_Monad.return ((if bs \<le> 0 then 0.0 else min 1.0 (bs / secs))) }"

definition worker_leak_kb :: "pay_state \<Rightarrow> (sim, int) state" where
  "worker_leak_kb b =
     do {
       r2 \<leftarrow> pay_broken_seconds b;
       State_Monad.return (min 450000 (py_trunc (r2 * 110))) }"

section \<open>Filesystems\<close>

definition pay_filesystem_usage :: "pay_cfg \<Rightarrow> real \<Rightarrow> (sim, int \<times> int) state" where
  "pay_filesystem_usage cfg now =
     do {
       let uptime = now - hc_start cfg + real_of_int 435600;
       let day = 86400.0;
       let root_base = 7130000;
       let root_logs = 943718 * (real_mod now day / day);
       let root_growth = min 1572864 (uptime * 0.03);
       g3 \<leftarrow> gauge ''fs.root'' 0 (Some 60000) None 0 1500;
       let root_used = py_trunc (real_of_int root_base + root_logs + root_growth + g3);
       let data_base = 30408704;
       let spool = 524288 * (real_mod now 3600.0 / 3600.0);
       let exports = 2097152 * (real_mod now day / day);
       let archive = min 4194304 (uptime * 1.0);
       g4 \<leftarrow> gauge ''fs.data'' 0 (Some 150000) None 0 900;
       let data_used = py_trunc (real_of_int data_base + spool + exports + archive + g4);
       State_Monad.return ((root_used, data_used)) }"

section \<open>The agent output\<close>

record pay_clock_vals =
  pay_k_now :: "int"
  pay_k_uptime :: "int"
  pay_k_leak :: "int"
  pay_k_n_workers :: "int"
  pay_k_anon_shift :: "int"
  pay_k_r_net :: "real"

definition pay_clock :: "pay_cfg \<Rightarrow> bool \<Rightarrow> pay_state \<Rightarrow> (sim, pay_clock_vals) state" where
  "pay_clock cfg broken b =
     do {
       t5 \<leftarrow> get_time;
       let now = py_trunc t5;
       t6 \<leftarrow> get_time;
       let uptime = py_trunc (t6 - hc_start cfg) + 435600;
       leak \<leftarrow> (if broken then do {
         r7 \<leftarrow> worker_leak_kb b;
         State_Monad.return (r7) } else State_Monad.return (0));
       let n_workers = (if broken then 1 else 4);
       let anon_shift = (if broken then (- 720000) + leak else 0);
       r_net \<leftarrow> pay_ramp b 180;
       State_Monad.return (\<lparr>pay_k_now = now,
         pay_k_uptime = uptime,
         pay_k_leak = leak,
         pay_k_n_workers = n_workers,
         pay_k_anon_shift = anon_shift,
         pay_k_r_net = r_net\<rparr>) }"

record pay_memory_vals =
  pay_m_commit_limit :: "int"
  pay_m_anon_pages :: "int"
  pay_m_active_anon :: "int"
  pay_m_mem_free :: "int"
  pay_m_mem_available :: "int"
  pay_m_committed :: "int"
  pay_m_dirty :: "int"
  pay_m_writeback :: "int"

definition pay_memory :: "pay_clock_vals \<Rightarrow> (sim, pay_memory_vals) state" where
  "pay_memory kv =
     do {
       let commit_limit = 2097148 + 8028400 div 2;
       let anon_pages = 2350000 + pay_k_anon_shift kv;
       let active_anon = 1530000 + pay_k_anon_shift kv;
       g10 \<leftarrow> gauge ''mem.free'' (real_of_int (2650000 - pay_k_anon_shift kv)) None (Some 0.015) 0.4 1500;
       let mem_free = py_trunc g10;
       g11 \<leftarrow> gauge ''mem.avail'' (real_of_int (4870000 - pay_k_anon_shift kv)) None (Some 0.012) 1.2 1700;
       let mem_available = py_trunc g11;
       let committed = 3260000 + py_trunc (real_of_int (pay_k_anon_shift kv) * 1.15);
       g12 \<leftarrow> gauge ''mem.dirty'' 14500 None (Some 0.18) 2.0 800;
       let dirty = max 2048 (py_trunc g12);
       g13 \<leftarrow> gauge ''mem.writeback'' 220 (Some 220) None 3.1 600;
       let writeback = max 0 (py_trunc g13);
       State_Monad.return (\<lparr>pay_m_commit_limit = commit_limit,
         pay_m_anon_pages = anon_pages,
         pay_m_active_anon = active_anon,
         pay_m_mem_free = mem_free,
         pay_m_mem_available = mem_available,
         pay_m_committed = committed,
         pay_m_dirty = dirty,
         pay_m_writeback = writeback\<rparr>) }"

definition pay_load :: "bool \<Rightarrow> pay_clock_vals \<Rightarrow> (sim, real \<times> real \<times> real \<times> int) state" where
  "pay_load broken kv =
     do {
       let load_base = lerp 0.55 0.42 (pay_k_r_net kv);
       g14 \<leftarrow> gauge ''load1'' 1.0 None (Some 0.22) 0.2 300;
       let l1 = round_dec 2 (load_base * g14);
       g15 \<leftarrow> gauge ''load5'' 1.0 None (Some 0.12) 1.0 900;
       let l5 = round_dec 2 (load_base * g15);
       g16 \<leftarrow> gauge ''load15'' 1.0 None (Some 0.06) 2.0 2400;
       let l15 = round_dec 2 (load_base * g16);
       let total_procs = 248 - (if broken then 3 else 0);
       State_Monad.return ((l1, l5, l15, total_procs)) }"

definition pay_ticks :: "pay_clock_vals \<Rightarrow> (sim, int \<times> int \<times> int \<times> int) state" where
  "pay_ticks kv =
     do {
       cpu_now \<leftarrow> get_time;
       w18 \<leftarrow> counter_wobble ''cpu.user'' cpu_now;
       let u_wob = 1.0 + 0.30 * w18;
       w19 \<leftarrow> counter_wobble ''cpu.system'' cpu_now;
       let s_wob = 1.0 + 0.30 * w19;
       w20 \<leftarrow> counter_wobble ''cpu.iowait'' cpu_now;
       let io_wob = 1.0 + 0.30 * w20;
       let user_rate = max 0.0 (lerp 35 24 (pay_k_r_net kv) * u_wob);
       let system_rate = max 0.0 (lerp 12 10 (pay_k_r_net kv) * s_wob);
       let iowait_rate = max 0.0 (4.0 * io_wob);
       let idle_rate = real_of_int (4 * 100) - (user_rate + system_rate + iowait_rate);
       user \<leftarrow> counter_exact ''cpu.user'' user_rate cpu_now;
       system \<leftarrow> counter_exact ''cpu.system'' system_rate cpu_now;
       iowait \<leftarrow> counter_exact ''cpu.iowait'' iowait_rate cpu_now;
       idle \<leftarrow> counter_exact ''cpu.idle'' idle_rate cpu_now;
       State_Monad.return ((user, system, iowait, idle)) }"

record pay_disk_vals =
  pay_d_vda_rd :: "int"
  pay_d_vda_rdt :: "int"
  pay_d_vda_wr :: "int"
  pay_d_vda_wrt :: "int"
  pay_d_vda_iot :: "int"
  pay_d_vdb_rd :: "int"
  pay_d_vdb_rdt :: "int"
  pay_d_vdb_wr :: "int"
  pay_d_vdb_wrt :: "int"
  pay_d_vdb_iot :: "int"

definition pay_disk :: "pay_clock_vals \<Rightarrow> (sim, pay_disk_vals) state" where
  "pay_disk kv =
     do {
       vda_rd \<leftarrow> fsample ''vda.rd_ios'' 3;
       vda_rdt \<leftarrow> fsample ''vda.rd_ticks'' 1.2;
       vda_wr \<leftarrow> fsample ''vda.wr_ios'' (lerp 26 36 (pay_k_r_net kv));
       vda_wrt \<leftarrow> fsample ''vda.wr_ticks'' (lerp 18 26 (pay_k_r_net kv));
       vda_iot \<leftarrow> fsample ''vda.io_ticks'' (lerp 22 28 (pay_k_r_net kv));
       vdb_rd \<leftarrow> fsample ''vdb.rd_ios'' 6;
       vdb_rdt \<leftarrow> fsample ''vdb.rd_ticks'' 3;
       vdb_wr \<leftarrow> fsample ''vdb.wr_ios'' (lerp 14 4 (pay_k_r_net kv));
       vdb_wrt \<leftarrow> fsample ''vdb.wr_ticks'' (lerp 10 3 (pay_k_r_net kv));
       vdb_iot \<leftarrow> fsample ''vdb.io_ticks'' (lerp 14 6 (pay_k_r_net kv));
       State_Monad.return (\<lparr>pay_d_vda_rd = vda_rd,
         pay_d_vda_rdt = vda_rdt,
         pay_d_vda_wr = vda_wr,
         pay_d_vda_wrt = vda_wrt,
         pay_d_vda_iot = vda_iot,
         pay_d_vdb_rd = vdb_rd,
         pay_d_vdb_rdt = vdb_rdt,
         pay_d_vdb_wr = vdb_wr,
         pay_d_vdb_wrt = vdb_wrt,
         pay_d_vdb_iot = vdb_iot\<rparr>) }"

definition pay_net :: "pay_clock_vals \<Rightarrow> (sim, int \<times> int \<times> int \<times> int) state" where
  "pay_net kv =
     do {
       net_now \<leftarrow> get_time;
       w36 \<leftarrow> counter_wobble ''net.rx_pkts'' net_now;
       let rx_pps = max 1.0 (lerp 950 1150 (pay_k_r_net kv) * (1.0 + 0.30 * w36));
       w37 \<leftarrow> counter_wobble ''net.tx_pkts'' net_now;
       let tx_pps = max 1.0 (lerp 900 640 (pay_k_r_net kv) * (1.0 + 0.30 * w37));
       w38 \<leftarrow> counter_wobble ''net.rx_bytes'' net_now;
       let rx_frame = lerp 189.0 178.0 (pay_k_r_net kv) * (1.0 + 0.12 * w38);
       w39 \<leftarrow> counter_wobble ''net.tx_bytes'' net_now;
       let tx_frame = lerp 356.0 86.0 (pay_k_r_net kv) * (1.0 + 0.12 * w39);
       rx_pkts \<leftarrow> counter_exact ''net.rx_pkts'' rx_pps net_now;
       tx_pkts \<leftarrow> counter_exact ''net.tx_pkts'' tx_pps net_now;
       rx_bytes \<leftarrow> counter_exact ''net.rx_bytes'' (rx_pps * rx_frame) net_now;
       tx_bytes \<leftarrow> counter_exact ''net.tx_bytes'' (tx_pps * tx_frame) net_now;
       State_Monad.return ((rx_pkts, tx_pkts, rx_bytes, tx_bytes)) }"

definition pay_tcp :: "bool \<Rightarrow> pay_state \<Rightarrow> pay_clock_vals \<Rightarrow> (sim, int \<times> int \<times> int) state" where
  "pay_tcp broken b kv =
     do {
       g44 \<leftarrow> gauge ''tcp.estab'' (lerp 26 17 (pay_k_r_net kv)) (Some 4) None 0.9 700;
       let established = py_round g44;
       v46 \<leftarrow> (if broken then do {
         r45 \<leftarrow> pay_broken_seconds b;
         State_Monad.return (min 58.0 (r45 / 30.0)) } else State_Monad.return (0));
       g47 \<leftarrow> gauge ''tcp.timewait'' (34 + v46) (Some 5) None 2.4 500;
       let time_wait = py_round g47;
       g48 \<leftarrow> gauge ''tcp.synsent'' 0.4 (Some 0.8) None 3.3 400;
       let syn_sent = max 0 (py_round g48);
       State_Monad.return ((established, time_wait, syn_sent)) }"

definition pay_head :: "pay_cfg \<Rightarrow> pay_clock_vals \<Rightarrow> string list" where
  "pay_head cfg kv =
     (let cert_to = strftime ''%a, %d %b %Y %H:%M:%S +0000'' (gmtime (pay_k_now kv + 330 * 86400))
      in [
       ''<<<check_mk>>>'',
       ''Version: '' @ hc_version cfg,
       ''AgentOS: linux'',
       ''Hostname: '' @ hc_hostname cfg,
       ''InstallationDirectory: /opt/checkmk/agent/default'',
       ''PackageDirectory: /opt/checkmk/agent/default/package'',
       ''RuntimeDirectory: /opt/checkmk/agent/default/runtime'',
       ''OSType: linux'',
       ''OSName: Ubuntu'',
       ''OSVersion: 24.04'',
       ''OSPlatform: ubuntu'',
       ''FailedPythonReason: '',
       ''SSHClient: '',
       ''<<<cmk_agent_ctl_status:sep(0)>>>'',
       dumps (JObj [(''version'', JStr (hc_version cfg)),
         (''agent_socket_operational'', JBool True),
         (''ip_allowlist'', JArr []),
         (''allow_legacy_pull'', JBool False),
         (''connections'', JArr [JObj [(''site_id'', JStr ''monitoring/prod''),
         (''receiver_port'', JNum 8000),
         (''uuid'', JStr ''9b2c41da-77e1-4ac1-93f4-2d0e6b8a4f27''),
         (''local'', JObj [(''connection_mode'', JStr ''pull-agent''), (''cert_info'', JObj [(''issuer'', JStr (''Site '' @ [CHR 0x27] @ ''prod'' @ [CHR 0x27] @ '' local CA'')),
         (''from'', JStr ''Tue, 03 Jun 2025 09:12:44 +0000''),
         (''to'', JStr cert_to)])]),
         (''remote'', JStr ''remote_query_disabled'')]])]),
       ''<<<checkmk_agent_plugins_lnx:sep(0)>>>'',
       ''pluginsdir /opt/checkmk/agent/default/package/plugins'',
       ''localdir /opt/checkmk/agent/default/package/local'',
       ''/opt/checkmk/agent/default/package/plugins/86400/mk_apt:CMK_VERSION='' @ [CHR 0x22] @ hc_version cfg @ [CHR 0x22]])"

definition pay_df :: "pay_cfg \<Rightarrow> (sim, string list) state" where
  "pay_df cfg =
     do {
       t49 \<leftarrow> get_time;
       r50 \<leftarrow> pay_filesystem_usage cfg t49;
       let (root_used, data_used) = r50;
       State_Monad.return ([
       ''<<<df_v2>>>'',
       ''/dev/vda1 ext4 '' @ int_str 20961280 @ '' '' @ int_str root_used @ '' '' @ int_str (20961280 - root_used) @ '' '' @ int_str (py_round (real_of_int root_used / (real_of_int 20961280) * 100)) @ ''% /'',
       ''/dev/vdb1 ext4 '' @ int_str 52428800 @ '' '' @ int_str data_used @ '' '' @ int_str (52428800 - data_used) @ '' '' @ int_str (py_round (real_of_int data_used / (real_of_int 52428800) * 100)) @ ''% /data'',
       ''[df_inodes_start]'',
       ''/dev/vda1 ext4 '' @ int_str 1310720 @ '' 301244 '' @ int_str (1310720 - 301244) @ '' 23% /'',
       ''/dev/vdb1 ext4 '' @ int_str 3276800 @ '' 94312 '' @ int_str (3276800 - 94312) @ '' 3% /data'',
       ''[df_inodes_end]'']) }"

definition pay_mounts :: "string list" where
  "pay_mounts =
     [
       ''<<<labels:sep(0)>>>'',
       ''<<<nfsmounts_v2:sep(0)>>>'',
       ''<<<cifsmounts>>>'',
       ''<<<mounts>>>'',
       ''/dev/vda1 / ext4 rw,relatime,errors=remount-ro 0 0'',
       ''/dev/vdb1 /data ext4 rw,noatime 0 0'']"

definition pay_mem :: "pay_memory_vals \<Rightarrow> string list" where
  "pay_mem mv =
     [
       ''<<<mem>>>'',
       ''MemTotal:       '' @ int_str 8028400 @ '' kB'',
       ''MemFree:        '' @ int_str (pay_m_mem_free mv) @ '' kB'',
       ''MemAvailable:   '' @ int_str (pay_m_mem_available mv) @ '' kB'',
       ''Buffers:        '' @ int_str 182000 @ '' kB'',
       ''Cached:         '' @ int_str 1910000 @ '' kB'',
       ''SwapCached:     0 kB'',
       ''Active:         '' @ int_str (pay_m_active_anon mv + 642000) @ '' kB'',
       ''Inactive:       '' @ int_str (901920 + 1368080) @ '' kB'',
       ''Active(anon):   '' @ int_str (pay_m_active_anon mv) @ '' kB'',
       ''Inactive(anon): '' @ int_str 901920 @ '' kB'',
       ''Active(file):   '' @ int_str 642000 @ '' kB'',
       ''Inactive(file): '' @ int_str 1368080 @ '' kB'',
       ''Unevictable:    0 kB'',
       ''Mlocked:        0 kB'',
       ''SwapTotal:      '' @ int_str 2097148 @ '' kB'',
       ''SwapFree:       '' @ int_str 2097148 @ '' kB'',
       ''Zswap:          0 kB'',
       ''Zswapped:       0 kB'',
       ''Dirty:          '' @ int_str (pay_m_dirty mv) @ '' kB'',
       ''Writeback:      '' @ int_str (pay_m_writeback mv) @ '' kB'',
       ''AnonPages:      '' @ int_str (pay_m_anon_pages mv) @ '' kB'',
       ''Mapped:         286720 kB'',
       ''Shmem:          '' @ int_str 81920 @ '' kB'',
       ''KReclaimable:   '' @ int_str 224000 @ '' kB'',
       ''Slab:           310000 kB'',
       ''SReclaimable:   '' @ int_str 224000 @ '' kB'',
       ''SUnreclaim:     86000 kB'',
       ''KernelStack:    3968 kB'',
       ''PageTables:     38912 kB'',
       ''SecPageTables:  0 kB'',
       ''NFS_Unstable:   0 kB'',
       ''Bounce:         0 kB'',
       ''WritebackTmp:   0 kB'',
       ''CommitLimit:    '' @ int_str (pay_m_commit_limit mv) @ '' kB'',
       ''Committed_AS:   '' @ int_str (pay_m_committed mv) @ '' kB'',
       ''VmallocTotal:   34359738367 kB'',
       ''VmallocUsed:    38912 kB'',
       ''VmallocChunk:   0 kB'',
       ''Percpu:         8192 kB'',
       ''HardwareCorrupted: 0 kB'',
       ''AnonHugePages:  0 kB'',
       ''ShmemHugePages: 0 kB'',
       ''ShmemPmdMapped: 0 kB'',
       ''FileHugePages:  0 kB'',
       ''FilePmdMapped:  0 kB'',
       ''CmaTotal:       0 kB'',
       ''CmaFree:        0 kB'',
       ''Unaccepted:     0 kB'',
       ''Balloon:        0 kB'',
       ''HugePages_Total:       0'',
       ''HugePages_Free:        0'',
       ''HugePages_Rsvd:        0'',
       ''HugePages_Surp:        0'',
       ''Hugepagesize:       2048 kB'',
       ''Hugetlb:        0 kB'',
       ''DirectMap4k:    280556 kB'',
       ''DirectMap2M:    5961728 kB'',
       ''DirectMap1G:    2097152 kB'']"

definition pay_cpu :: "pay_clock_vals \<Rightarrow> real \<Rightarrow> real \<Rightarrow> real \<Rightarrow> int \<Rightarrow> (sim, string list) state" where
  "pay_cpu kv l1 l5 l15 total_procs =
     do {
       c51 \<leftarrow> fsample ''kernel.processes'' 6;
       State_Monad.return ([
       ''<<<cpu>>>'',
       float_str 2 l1 @ '' '' @ float_str 2 l5 @ '' '' @ float_str 2 l15 @ '' 1/'' @ int_str total_procs @ '' '' @ int_str (12000 + c51 mod 9999) @ '' '' @ int_str 4,
       ''<<<uptime>>>'',
       int_str (pay_k_uptime kv) @ ''.00 '' @ int_str (py_trunc (real_of_int (pay_k_uptime kv) * 3.7)) @ ''.00'']) }"

definition pay_timesync :: "pay_cfg \<Rightarrow> (nat \<Rightarrow> int) \<Rightarrow> pay_clock_vals \<Rightarrow> (sim, string list) state" where
  "pay_timesync cfg ri kv =
     do {
       let last_sync = pay_k_now kv - py_trunc (real_mod (real_of_int (pay_k_now kv) - hc_start cfg) 2048);
       let sync_str = strftime ''%a %Y-%m-%d %H:%M:%S UTC'' (gmtime last_sync);
       let offset_us = (ri 0);
       t52 \<leftarrow> get_time;
       State_Monad.return ([
       ''<<<timesyncd>>>'',
       ''       Server: 185.125.190.58 (ntp.ubuntu.com)'',
       ''Poll interval: 34min 8s (min: 32s; max 34min 8s)'',
       ''         Leap: normal'',
       ''      Version: 4'',
       ''      Stratum: 2'',
       ''    Reference: C0248F88'',
       ''    Precision: 1us (-24)'',
       ''Root distance: 9.112ms (max: 5s)'',
       ''       Offset: '' @ signed_str offset_us @ ''us'',
       ''        Delay: 18.402ms'',
       ''       Jitter: '' @ fixed_str 3 (real_of_int (ri 1) / 1000) @ ''ms'',
       '' Packet count: '' @ int_str (214 + py_trunc ((t52 - hc_start cfg) / 2048)),
       ''    Frequency: +9.412ppm'',
       ''[[['' @ int_str last_sync @ '']]]'',
       ''<<<timesyncd_ntpmessage:sep(10)>>>'',
       ''NTPMessage={ Leap=0, Version=4, Mode=4, Stratum=2, Precision=-24, RootDelay=8.234ms, RootDispersion=1.108ms, Reference=C0248F88, OriginateTimestamp='' @ sync_str @ '', ReceiveTimestamp='' @ sync_str @ '', TransmitTimestamp='' @ sync_str @ '', DestinationTimestamp='' @ sync_str @ '', Ignored=no, PacketCount=41, Jitter=1.221ms }'',
       ''Timezone=UTC'']) }"

definition pay_apt :: "string list" where
  "pay_apt =
     [
       ''<<<apt:sep(0)>>>'',
       ''No updates pending for installation'']"

definition pay_kernel :: "pay_clock_vals \<Rightarrow> int \<Rightarrow> int \<Rightarrow> int \<Rightarrow> int \<Rightarrow> (sim, string list) state" where
  "pay_kernel kv user system iowait idle =
     do {
       c53 \<leftarrow> fsample ''kernel.ctxt'' (lerp 2400 1700 (pay_k_r_net kv));
       c54 \<leftarrow> fsample ''kernel.processes'' 6;
       c55 \<leftarrow> fsample ''kernel.pgmajfault'' 0.05;
       State_Monad.return ([
       ''<<<kernel>>>'',
       int_str (pay_k_now kv),
       ''cpu '' @ int_str user @ '' 0 '' @ int_str system @ '' '' @ int_str idle @ '' '' @ int_str iowait @ '' 0 0 0 0 0'',
       ''ctxt '' @ int_str c53,
       ''processes '' @ int_str c54,
       ''pgmajfault '' @ int_str c55]) }"

definition pay_md :: "string list" where
  "pay_md =
     [
       ''<<<md>>>'',
       ''Personalities : '',
       ''unused devices: <none>'']"

definition pay_diskstat :: "pay_clock_vals \<Rightarrow> pay_disk_vals \<Rightarrow> string list" where
  "pay_diskstat kv dv =
     [
       ''<<<diskstat>>>'',
       int_str (pay_k_now kv),
       ''252 0 vda '' @ int_str (pay_d_vda_rd dv) @ '' 0 '' @ int_str (pay_d_vda_rd dv * 24) @ '' '' @ int_str (pay_d_vda_rdt dv) @ '' '' @ int_str (pay_d_vda_wr dv) @ '' 0 '' @ int_str (pay_d_vda_wr dv * 32) @ '' '' @ int_str (pay_d_vda_wrt dv) @ '' 0 '' @ int_str (pay_d_vda_iot dv) @ '' '' @ int_str (pay_d_vda_iot dv * 2) @ '' 0 0 0 0'',
       ''252 16 vdb '' @ int_str (pay_d_vdb_rd dv) @ '' 0 '' @ int_str (pay_d_vdb_rd dv * 40) @ '' '' @ int_str (pay_d_vdb_rdt dv) @ '' '' @ int_str (pay_d_vdb_wr dv) @ '' 0 '' @ int_str (pay_d_vdb_wr dv * 56) @ '' '' @ int_str (pay_d_vdb_wrt dv) @ '' 0 '' @ int_str (pay_d_vdb_iot dv) @ '' '' @ int_str (pay_d_vdb_iot dv * 2) @ '' 0 0 0 0'']"

definition pay_if :: "int \<Rightarrow> int \<Rightarrow> int \<Rightarrow> int \<Rightarrow> string list" where
  "pay_if rx_pkts tx_pkts rx_bytes tx_bytes =
     [
       ''<<<lnx_if>>>'',
       ''[start_iplink]'',
       ''1: lo: <LOOPBACK,UP,LOWER_UP> mtu 65536 qdisc noqueue state UNKNOWN group default qlen 1000'',
       ''    link/loopback 00:00:00:00:00:00 brd 00:00:00:00:00:00'',
       ''2: eth0: <BROADCAST,MULTICAST,UP,LOWER_UP> mtu 1500 qdisc fq_codel state UP group default qlen 1000'',
       ''    link/ether 02:42:ac:11:00:0a brd ff:ff:ff:ff:ff:ff'',
       ''[end_iplink]'',
       ''<<<lnx_if:sep(58)>>>'',
       ''eth0: '' @ int_str rx_bytes @ '' '' @ int_str rx_pkts @ '' 0 0 0 0 0 0 '' @ int_str tx_bytes @ '' '' @ int_str tx_pkts @ '' 0 0 0 0 0 0'',
       ''[eth0]'',
       TAB @ ''Speed: 1000Mb/s'',
       TAB @ ''Duplex: Full'',
       TAB @ ''Auto-negotiation: on'',
       TAB @ ''Link detected: yes'',
       ''Address: 02:42:ac:11:00:0a'']"

definition pay_tcp_section :: "int \<Rightarrow> int \<Rightarrow> int \<Rightarrow> string list" where
  "pay_tcp_section established time_wait syn_sent =
     [
       ''<<<tcp_conn_stats>>>'',
       ''01 '' @ int_str established,
       ''02 '' @ int_str syn_sent,
       ''06 '' @ int_str time_wait,
       ''0A 7'']"

definition pay_ps :: "bool \<Rightarrow> pay_clock_vals \<Rightarrow> string list" where
  "pay_ps broken kv =
     (let cg = ''0::/system.slice/payment-api.service''
      in [
       ''<<<ps_lnx>>>'',
       ''[time]'',
       int_str (pay_k_now kv),
       ''[processes]'',
       ''[header] CGROUP USER VSZ RSS TIME ELAPSED PID COMMAND''] @
      concat (map (\<lambda>(cgs, puser, vsz, rss, cputime, pid, cmd). [
       ''0::/'' @ cgs @ '' '' @ puser @ '' '' @ int_str vsz @ '' '' @ int_str rss @ '' '' @ cputime @ '' 5-01:11:40 '' @ int_str pid @ '' '' @ cmd]) ([
       (''init.scope'', ''root'', 168000, 13100, ''00:00:21'', 1, ''/sbin/init''),
       (''system.slice/systemd-journald.service'', ''root'', 64400, 21300, ''00:00:54'', 412, ''/usr/lib/systemd/systemd-journald''),
       (''system.slice/systemd-udevd.service'', ''root'', 26200, 8100, ''00:00:02'', 450, ''/usr/lib/systemd/systemd-udevd''),
       (''system.slice/systemd-networkd.service'', ''systemd-network'', 21500, 8900, ''00:00:11'', 480, ''/usr/lib/systemd/systemd-networkd''),
       (''system.slice/systemd-resolved.service'', ''systemd-resolve'', 26800, 13400, ''00:00:24'', 501, ''/usr/lib/systemd/systemd-resolved''),
       (''system.slice/systemd-timesyncd.service'', ''systemd-timesync'', 91000, 7700, ''00:00:05'', 520, ''/usr/lib/systemd/systemd-timesyncd''),
       (''system.slice/systemd-logind.service'', ''root'', 14900, 6800, ''00:00:03'', 525, ''/usr/lib/systemd/systemd-logind''),
       (''system.slice/dbus.service'', ''messagebus'', 10400, 5100, ''00:00:09'', 530, ''@dbus-daemon --system --address=systemd:''),
       (''system.slice/rsyslog.service'', ''syslog'', 222400, 6700, ''00:00:19'', 640, ''/usr/sbin/rsyslogd -n -iNONE''),
       (''system.slice/irqbalance.service'', ''root'', 16200, 4900, ''00:00:02'', 648, ''/usr/sbin/irqbalance --foreground''),
       (''system.slice/multipathd.service'', ''root'', 352000, 19800, ''00:00:07'', 652, ''/sbin/multipathd -d -s''),
       (''system.slice/networkd-dispatcher.service'', ''root'', 33400, 21500, ''00:00:01'', 660, ''/usr/bin/python3 /usr/bin/networkd-dispatcher --run-startup-triggers''),
       (''system.slice/polkit.service'', ''polkitd'', 308000, 9200, ''00:00:01'', 668, ''/usr/lib/polkit-1/polkitd --no-debug''),
       (''system.slice/snapd.service'', ''root'', 1248000, 38500, ''00:01:12'', 674, ''/usr/lib/snapd/snapd''),
       (''system.slice/udisks2.service'', ''root'', 402000, 12800, ''00:00:02'', 682, ''/usr/libexec/udisks2/udisksd''),
       (''system.slice/unattended-upgrades.service'', ''root'', 110500, 22100, ''00:00:00'', 690, ''/usr/bin/python3 /usr/share/unattended-upgrades/unattended-upgrade-shutdown --wait-for-signal''),
       (''system.slice/ssh.service'', ''root'', 15400, 8900, ''00:00:00'', 710, ''sshd: /usr/sbin/sshd -D [listener]''),
       (''system.slice/cron.service'', ''root'', 11500, 2500, ''00:00:01'', 720, ''/usr/sbin/cron -f -P''),
       (''system.slice/getty@.service/getty@tty1.service'', ''root'', 6200, 1700, ''00:00:00'', 728, ''/sbin/agetty -o -p -- '' @ BS @ ''u --noclear tty1 linux''),
       (''user.slice/user-1000.slice/user@1000.service'', ''deploy'', 20300, 11200, ''00:00:00'', 980, ''/usr/lib/systemd/systemd --user''),
       (''system.slice/redis-server.service'', ''redis'', 272000, 47800, ''00:08:41'', 802, ''/usr/bin/redis-server 127.0.0.1:6379''),
       (''system.slice/nginx.service'', ''root'', 55200, 11400, ''00:00:01'', 830, ''nginx: master process /usr/sbin/nginx -g daemon on; master_process on;''),
       (''system.slice/nginx.service'', ''www-data'', 58400, 14200, ''00:03:22'', 831, ''nginx: worker process''),
       (''system.slice/nginx.service'', ''www-data'', 58400, 14600, ''00:03:18'', 832, ''nginx: worker process'')])) @
      [
       cg @ '' payment 248000 96000 00:00:42 5-01:11:08 901 /usr/bin/python3 -m gunicorn --workers 4 payment_api.wsgi''] @
      concat (map (\<lambda>i. (let w_rss = 240000 + (int i * 37) mod 14 * 1000 + (if int i = 0 then pay_k_leak kv else 0);
          w_vsz = 620000 + (if int i = 0 then pay_k_leak kv else 0)
      in [
       cg @ '' payment '' @ int_str w_vsz @ '' '' @ int_str w_rss @ '' 00:39:1'' @ nat_str i @ '' 5-01:11:05 '' @ int_str (905 + int i) @ '' gunicorn: worker [payment-api]''])) ([0..<nat (pay_k_n_workers kv)])) @
      (if \<not> broken then [
       ''0::/system.slice/payment-worker.service payment 380000 168000 00:12:05 5-01:11:02 940 /usr/bin/python3 /opt/payment-api/worker.py''] else []))"

definition pay_units :: "bool \<Rightarrow> string list" where
  "pay_units broken =
     (let worker_state = (if broken then (''failed'', ''failed'') else (''active'', ''running''));
          units = [
       (''payment-api.service'', ''active'', ''running'', ''Payment API (gunicorn)''),
       (''payment-worker.service'', fst worker_state, snd worker_state, ''Payment settlement worker''),
       (''nginx.service'', ''active'', ''running'', ''A high performance web server and a reverse proxy server''),
       (''redis-server.service'', ''active'', ''running'', ''Advanced key-value store''),
       (''ssh.service'', ''active'', ''running'', ''OpenBSD Secure Shell server''),
       (''cron.service'', ''active'', ''running'', ''Regular background program processing daemon''),
       (''dbus.service'', ''active'', ''running'', ''D-Bus System Message Bus''),
       (''getty@tty1.service'', ''active'', ''running'', ''Getty on tty1''),
       (''irqbalance.service'', ''active'', ''running'', ''irqbalance daemon''),
       (''multipathd.service'', ''active'', ''running'', ''Device-Mapper Multipath Device Controller''),
       (''networkd-dispatcher.service'', ''active'', ''running'', ''Dispatcher daemon for systemd-networkd''),
       (''polkit.service'', ''active'', ''running'', ''Authorization Manager''),
       (''rsyslog.service'', ''active'', ''running'', ''System Logging Service''),
       (''snapd.service'', ''active'', ''running'', ''Snap Daemon''),
       (''systemd-journald.service'', ''active'', ''running'', ''Journal Service''),
       (''systemd-logind.service'', ''active'', ''running'', ''User Login Management''),
       (''systemd-networkd.service'', ''active'', ''running'', ''Network Configuration''),
       (''systemd-resolved.service'', ''active'', ''running'', ''Network Name Resolution''),
       (''systemd-timesyncd.service'', ''active'', ''running'', ''Network Time Synchronization''),
       (''systemd-udevd.service'', ''active'', ''running'', ''Rule-based Manager for Device Events and Files''),
       (''udisks2.service'', ''active'', ''running'', ''Disk Manager''),
       (''unattended-upgrades.service'', ''active'', ''running'', ''Unattended Upgrades Shutdown''),
       (''user@1000.service'', ''active'', ''running'', ''User Manager for UID 1000''),
       (''apparmor.service'', ''active'', ''exited'', ''Load AppArmor profiles''),
       (''blk-availability.service'', ''active'', ''exited'', ''Availability of block devices''),
       (''console-setup.service'', ''active'', ''exited'', ''Set console font and keymap''),
       (''finalrd.service'', ''active'', ''exited'', ''Create final runtime dir for shutdown pivot root''),
       (''keyboard-setup.service'', ''active'', ''exited'', ''Set the console keyboard layout''),
       (''lvm2-monitor.service'', ''active'', ''exited'', ''Monitoring of LVM2 mirrors, snapshots etc. using dmeventd or progress polling''),
       (''setvtrgb.service'', ''active'', ''exited'', ''Set console scheme''),
       (''snapd.seeded.service'', ''active'', ''exited'', ''Wait until snapd is fully seeded''),
       (''systemd-user-sessions.service'', ''active'', ''exited'', ''Permit User Sessions'')]
      in [
       ''<<<systemd_units>>>'',
       ''[list-unit-files]''] @
      concat (map (\<lambda>(nam, _, _, _). [
       nam @ '' enabled enabled'']) units) @
      [
       ''[status]'',
       ''[all]''] @
      concat (map (\<lambda>(nam, act, sub, descr). [
       nam @ '' loaded '' @ act @ '' '' @ sub @ '' '' @ descr]) units))"

definition pay_job :: "pay_clock_vals \<Rightarrow> string list" where
  "pay_job kv =
     [
       ''<<<job>>>'',
       ''==> settlement-batch <=='',
       ''start_time '' @ int_str (pay_k_now kv - 6 * 3600),
       ''exit_code 0'',
       ''real_time 4:12.8'',
       ''user_time 3.20'',
       ''system_time 0.90'',
       ''max_res_kbytes 285000'',
       ''avg_mem_kbytes 0'',
       ''==> log-archive <=='',
       ''start_time '' @ int_str (pay_k_now kv - 11 * 3600),
       ''exit_code 0'',
       ''real_time 1:02.4'',
       ''user_time 0.80'',
       ''system_time 0.30'',
       ''max_res_kbytes 41000'',
       ''avg_mem_kbytes 0'']"

definition pay_local :: "string list" where
  "pay_local =
     [
       ''<<<vbox_guest>>>'',
       ''<<<local:sep(0)>>>'']"

text \<open>The payload: the sections in order, one line each.\<close>

definition pay_build :: "pay_cfg \<Rightarrow> bool \<Rightarrow> (nat \<Rightarrow> int) \<Rightarrow> pay_state \<Rightarrow> (sim, string) state" where
  "pay_build cfg broken ri b = do {
       kv \<leftarrow> pay_clock cfg broken b;
       mv \<leftarrow> pay_memory kv;
       (l1, l5, l15, total_procs) \<leftarrow> pay_load broken kv;
       (user, system, iowait, idle) \<leftarrow> pay_ticks kv;
       dv \<leftarrow> pay_disk kv;
       (rx_pkts, tx_pkts, rx_bytes, tx_bytes) \<leftarrow> pay_net kv;
       (established, time_wait, syn_sent) \<leftarrow> pay_tcp broken b kv;
       let l_head = pay_head cfg kv;
       l_df \<leftarrow> pay_df cfg;
       let l_mounts = pay_mounts;
       let l_mem = pay_mem mv;
       l_cpu \<leftarrow> pay_cpu kv l1 l5 l15 total_procs;
       l_timesync \<leftarrow> pay_timesync cfg ri kv;
       let l_apt = pay_apt;
       l_kernel \<leftarrow> pay_kernel kv user system iowait idle;
       let l_md = pay_md;
       let l_diskstat = pay_diskstat kv dv;
       let l_if = pay_if rx_pkts tx_pkts rx_bytes tx_bytes;
       let l_tcp_section = pay_tcp_section established time_wait syn_sent;
       let l_ps = pay_ps broken kv;
       let l_units = pay_units broken;
       let l_job = pay_job kv;
       let l_local = pay_local;
       State_Monad.return (concat (map (\<lambda>l. l @ [CHR 0x0A])
         (l_head @ l_df @ l_mounts @ l_mem @ l_cpu @ l_timesync @ l_apt @ l_kernel @ l_md @ l_diskstat @ l_if @ l_tcp_section @ l_ps @ l_units @ l_job @ l_local))) }"

section \<open>The web server\<close>

text \<open>Replies of \<open>do_GET\<close>: the panel, its metadata (state and age), the status (state, age, broken age, the
  surviving worker's memory), the redirect and the confirmation of a toggle, and the monitored endpoint with the
  time it sleeps first: failing, or up with its uptime.\<close>

datatype pay_reply = PayPanel | PayMeta string real | PayStatus string real real "int option" | PayBack string | PayToggled string
  | Unavailable real | Healthy real int

definition PAY_ACTIONS :: "(string \<times> string) list" where
  "PAY_ACTIONS = [(''break'', ''broken''), (''heal'', ''healthy'')]"

definition pay_label :: "pay_state \<Rightarrow> string" where
  "pay_label b = (if pb_broken b then ''broken'' else ''healthy'')"

definition monitored :: "pay_cfg \<Rightarrow> pay_state \<Rightarrow> (sim, pay_reply) state" where
  "monitored cfg b =
     (if pb_broken b
      then do {
        slept \<leftarrow> (if delay_ms cfg > 0
            then do { g \<leftarrow> gauge ''http.delay'' 1.0 None (Some 0.30) 0.6 240;
                      State_Monad.return (max 0.05 (real_of_int (delay_ms cfg) / 1000.0 * g)) }
            else State_Monad.return 0);
        State_Monad.return (Unavailable slept) }
      else do {
        g \<leftarrow> gauge ''http.ok_delay'' 0.022 None (Some 0.5) 1.4 300;
        t \<leftarrow> get_time;
        State_Monad.return (Healthy (max 0.004 g) (py_trunc (t - hc_start cfg))) })"

definition pay_get :: "pay_cfg \<Rightarrow> string \<Rightarrow> pay_state \<Rightarrow> (sim, pay_reply \<times> pay_state) state" where
  "pay_get cfg url b =
     (let (path, query) = partition_at (CHR ''?'') url;
          path = rstrip_by (\<lambda>c. c = CHR ''/'') path;
          path = (if path = [] then ''/'' else path)
      in if path = ''/admin'' then State_Monad.return (PayPanel, b)
         else if path = ''/admin/meta''
         then do { s \<leftarrow> pay_since_seconds b; State_Monad.return (PayMeta (pay_label b) (round_dec 1 s), b) }
         else if path = ''/admin/status''
         then do {
           s \<leftarrow> pay_since_seconds b;
           k \<leftarrow> pay_broken_seconds b;
           m \<leftarrow> (if pb_broken b then do { l \<leftarrow> worker_leak_kb b; State_Monad.return (Some (234 + l div 1024)) }
                else State_Monad.return None);
           State_Monad.return (PayStatus (pay_label b) (round_dec 1 s) (round_dec 1 k) m, b) }
         else case (if startswith path ''/admin/'' then map_of PAY_ACTIONS (drop 7 path) else None) of
           Some target \<Rightarrow> do {
             b' \<leftarrow> set_broken (target = ''broken'') b;
             State_Monad.return (if contains ''ui=1'' query then PayBack target else PayToggled target, b') }
         | None \<Rightarrow> do { r \<leftarrow> monitored cfg b; State_Monad.return (r, b) })"

end
