(* ===== verification/Host_Win.thy ===== *)
theory Host_Win
  imports Host_Incident
begin

text \<open>
  \<open>hosts/win-dc-01/serve.py\<close>, the Windows domain controller whose system drive fills once its cleanup service
  is down: the incident with the pressure remembered at the break, the fill and the files that carry it, the
  performance counters and the agent output, section by section.  \<open>w\<close> is the incident record, \<open>roll m\<close> the
  first \<open>random()\<close> of \<open>random.Random(m)\<close>.
\<close>

section \<open>State and incident\<close>

record win_state =
  w_state :: string
  w_since :: real
  w_degraded :: "real option"
  w_broken :: "real option"
  p_break :: real
  backup_since :: real
  cleanup_ran :: real

definition win_boot :: "string \<Rightarrow> real \<Rightarrow> win_state" where
  "win_boot start_state start =
     (let s = (if start_state \<in> set host_states then start_state else HEALTHY)
      in \<lparr>w_state = s, w_since = start, w_degraded = (if s = HEALTHY then None else Some start),
          w_broken = (if s \<noteq> BROKEN then None else Some start), p_break = 0.78,
          backup_since = start - real_of_int 3542400, cleanup_ran = 0\<rparr>)"

definition since_or_zero :: "real \<Rightarrow> real option \<Rightarrow> real" where
  "since_or_zero now since = (case since of None \<Rightarrow> 0 | Some s \<Rightarrow> now - s)"

definition COMPUTERNAME :: "incident_cfg \<Rightarrow> string" where
  "COMPUTERNAME cfg = upper (hd (split_on (CHR ''.'') (hc_hostname cfg)))"

definition deg_pressure :: "incident_cfg \<Rightarrow> real \<Rightarrow> real" where
  "deg_pressure cfg ds =
     (if ds \<le> 0 then 0.0
       else (if ic_fill cfg \<le> 0 then 0.78
         else 0.78 * (min 1.0 (ds / (ic_fill cfg * 60.0)))))"

definition win_set :: "incident_cfg \<Rightarrow> string \<Rightarrow> win_state \<Rightarrow> (sim, win_state) state" where
  "win_set cfg new_state w = do {
     now \<leftarrow> get_time;
     let prev = w_state w;
     let w = (if new_state \<noteq> w_state w then w\<lparr>w_since := now\<rparr> else w);
     let w = w\<lparr>w_state := new_state\<rparr>;
     let w = (if new_state = HEALTHY
              then (let w = (if prev \<noteq> HEALTHY then w\<lparr>backup_since := now, cleanup_ran := now\<rparr> else w) in w\<lparr>w_degraded := None\<rparr>)
              else if w_degraded w = None then w\<lparr>w_degraded := Some now\<rparr> else w);
     let w = (if new_state = BROKEN
              then (if w_broken w = None
                    then w\<lparr>p_break := deg_pressure cfg (since_or_zero now (w_degraded w)), w_broken := Some now\<rparr> else w)
              else w\<lparr>w_broken := None\<rparr>);
     State_Monad.return w }"

definition win_since_seconds :: "win_state \<Rightarrow> (sim, real) state" where
  "win_since_seconds w = do { t \<leftarrow> get_time; State_Monad.return (t - w_since w) }"

text \<open>One round of \<open>_auto_break_watchdog\<close>.\<close>

definition win_watchdog_round :: "incident_cfg \<Rightarrow> win_state \<Rightarrow> (sim, win_state) state" where
  "win_watchdog_round cfg w =
     (if w_state w = DEGRADED
      then do { s \<leftarrow> win_since_seconds w;
                if s \<ge> ic_auto_break cfg * 60 then win_set cfg BROKEN w else State_Monad.return w }
      else State_Monad.return w)"

definition win_pressure :: "incident_cfg \<Rightarrow> win_state \<Rightarrow> (sim, real) state" where
  "win_pressure cfg w =
     do {
       now \<leftarrow> get_time;
       let ds = since_or_zero now (w_degraded w);
       let bs = since_or_zero now (w_broken w);
       let p0 = p_break w;
       let p = deg_pressure cfg ds;
       let p = (if bs > 0 then (let ramp = (if ic_ramp cfg \<le> 0 then 1.0 else min 1.0 (bs / (ic_ramp cfg * 60.0)));
          p = max p (lerp p0 1.0 ramp)
      in p) else p);
       State_Monad.return (max 0.0 (min 1.0 p)) }"

definition c_fill_rate_kb_s :: "incident_cfg \<Rightarrow> win_state \<Rightarrow> (sim, real) state" where
  "c_fill_rate_kb_s cfg w =
     do {
       now \<leftarrow> get_time;
       let ds = since_or_zero now (w_degraded w);
       let bs = since_or_zero now (w_broken w);
       let p0 = p_break w;
       (if bs > 0 then (if (ic_ramp cfg \<le> 0) \<or> (bs \<ge> ic_ramp cfg * 60.0) then State_Monad.return (0.0)
         else State_Monad.return (real_of_int 50100000 * (1.0 - p0) / (ic_ramp cfg * 60.0)))
       else (if (ds > 0) \<and> (ic_fill cfg > 0) \<and> (ds < ic_fill cfg * 60.0) then State_Monad.return (real_of_int 50100000 * 0.78 / (ic_fill cfg * 60.0))
         else State_Monad.return (0.0))) }"

definition disk_dying :: "win_state \<Rightarrow> bool" where
  "disk_dying w =
     ((w_state w) \<in> set ([''degraded'', ''broken'']))"

section \<open>The fill of the system drive\<close>

definition run_ticks :: "incident_cfg \<Rightarrow> real \<Rightarrow> real \<Rightarrow> real \<Rightarrow> real \<Rightarrow> real \<Rightarrow> int" where
  "run_ticks cfg rate now phase amp period =
     (let om = 2.0 * pi / period;
        t = now - (hc_start cfg - real_of_int 3542400);
        wob = (- (amp * 0.7 / om)) * (cos (om * now + phase)) - amp * 0.3 / (0.41 * om) * (cos (0.41 * om * now + 0.6 * phase))
      in py_trunc (rate * (t + wob)))"

definition c_fill_extra_kb :: "incident_cfg \<Rightarrow> win_state \<Rightarrow> (sim, int) state" where
  "c_fill_extra_kb cfg w =
     do {
       r3 \<leftarrow> win_pressure cfg w;
       State_Monad.return (py_trunc (real_of_int 50100000 * r3)) }"

definition c_drive_used_kb :: "incident_cfg \<Rightarrow> win_state \<Rightarrow> real \<Rightarrow> (sim, int) state" where
  "c_drive_used_kb cfg w now =
     do {
       let secular = min 1500000 ((now - hc_start cfg + real_of_int 3542400) * 0.02);
       r4 \<leftarrow> c_fill_extra_kb cfg w;
       g5 \<leftarrow> gauge ''c.used'' 0 (Some 90000) None 0 1500;
       State_Monad.return (py_trunc (real_of_int (66700000 + r4) + secular + g5)) }"

definition GROWING_FILES :: "(string \<times> int \<times> real) list" where
  "GROWING_FILES = [
       (''C:'' @ BS @ ''Windows'' @ BS @ ''SoftwareDistribution'' @ BS @ ''Download'' @ BS @ ''cache.cab'', 1180000000, 0.72),
       (''C:'' @ BS @ ''Windows'' @ BS @ ''SoftwareDistribution'' @ BS @ ''Download'' @ BS @ ''windows10.0-kb5062572-x64.psf'', 640000000, 0.14),
       (''C:'' @ BS @ ''Windows'' @ BS @ ''System32'' @ BS @ ''winevt'' @ BS @ ''Logs'' @ BS @ ''Security.evtx'', 268435456, 0.09),
       (''C:'' @ BS @ ''Windows'' @ BS @ ''NTDS'' @ BS @ ''edb.log'', 10485760, 0.05)]"

definition win_last_daily :: "real \<Rightarrow> int \<Rightarrow> int \<Rightarrow> int" where
  "win_last_daily now hour minute =
     (let midnight = py_trunc now - (py_trunc now) mod 86400;
        cand = midnight + hour * 3600 + minute * 60
      in (if real_of_int cand \<le> now then cand else cand - 86400))"

text \<open>\<open>random.Random(i).uniform(35, 155)\<close> is \<open>35 + 120 * roll i\<close>.\<close>

definition ntds_checkpoint :: "(int \<Rightarrow> real) \<Rightarrow> real \<Rightarrow> int" where
  "ntds_checkpoint roll now =
     (let idx = py_trunc now div 1800;
          cand = (\<lambda>i. i * 1800 + py_trunc (35 + (155 - 35) * roll i))
      in if real_of_int (cand idx) \<le> now then cand idx
         else if real_of_int (cand (idx - 1)) \<le> now then cand (idx - 1)
         else (idx - 1) * 1800)"

definition endswith :: "string \<Rightarrow> string \<Rightarrow> bool" where
  "endswith s suf \<longleftrightarrow> startswith (rev s) (rev suf)"

definition growing_files :: "incident_cfg \<Rightarrow> (int \<Rightarrow> real) \<Rightarrow> win_state \<Rightarrow> real \<Rightarrow> (sim, (string \<times> int \<times> int) list) state" where
  "growing_files cfg roll w now = do {
     extra_kb \<leftarrow> c_fill_extra_kb cfg w;
     let dying = disk_dying w;
     let anchor = max (py_trunc (cleanup_ran w)) (win_last_daily now 3 15);
     State_Monad.return (map (\<lambda>(i, (path, base, share)).
       (let (siz, mtime) =
              (if endswith path ''Security.evtx''
               then (base + py_trunc ((now - 1767225600) * 2500) mod 3200000000, py_trunc now - 2)
               else if endswith path ''edb.log'' then (base, py_trunc now - 1)
               else (py_trunc (real_of_int base * (1.0 + 0.06 * (roll (anchor + int i) * 2 - 1))), anchor));
            (siz, mtime) = (if dying then (siz + py_trunc (share * real_of_int extra_kb) * 1024, py_trunc now - 3) else (siz, mtime))
        in (path, siz, mtime))) (enumerate 0 GROWING_FILES)) }"

section \<open>Performance counters\<close>

text \<open>Name, phase, amplitude, period and start value.\<close>

definition CPU_SPREAD :: "real list" where
  "CPU_SPREAD = [1.18, 0.94, 1.06, 0.82]"


definition win_counters :: "(string \<times> real \<times> real \<times> real \<times> real) list" where
  "win_counters =
     map (\<lambda>i. (''cpu'' @ nat_str i @ ''.user'', 0.4 + 1.31 * real i, 0.25, 660 + 97 * real i,
              10000000.0 * 0.058 * CPU_SPREAD ! i * real_of_int 3542400)) [0..<4] @
     map (\<lambda>i. (''cpu'' @ nat_str i @ ''.priv'', 2.1 + 1.47 * real i, 0.25, 740 + 83 * real i,
              10000000.0 * 0.034 * CPU_SPREAD ! i * real_of_int 3542400)) [0..<4] @ [
     (''c.rd_ios'', 0.2, 0.12, 1150, 20 * real_of_int 3542400),
     (''c.wr_ios'', 0.9, 0.12, 1300, 35 * real_of_int 3542400),
     (''c.rd_bytes'', 1.6, 0.15, 1240, 560000 * real_of_int 3542400),
     (''c.wr_bytes'', 2.3, 0.15, 1420, 1050000 * real_of_int 3542400),
     (''c.rd_time'', 3.0, 0.12, 1180, 20 * 0.00035 * 10000000.0 * real_of_int 3542400),
     (''c.wr_time'', 3.7, 0.12, 1340, 35 * 0.00055 * 10000000.0 * real_of_int 3542400),
     (''c.idle'', 4.4, 0.0, 1500, 0.997 * 10000000.0 * real_of_int 3542400),
     (''d.rd_ios'', 5.1, 0.12, 1210, 12 * real_of_int 3542400),
     (''d.wr_ios'', 5.8, 0.12, 1370, 18 * real_of_int 3542400),
     (''d.rd_bytes'', 0.5, 0.15, 1290, 380000 * real_of_int 3542400),
     (''d.wr_bytes'', 1.2, 0.15, 1460, 610000 * real_of_int 3542400),
     (''d.rd_time'', 1.9, 0.12, 1230, 12 * 0.0004 * 10000000.0 * real_of_int 3542400),
     (''d.wr_time'', 2.6, 0.12, 1390, 18 * 0.0006 * 10000000.0 * real_of_int 3542400),
     (''d.idle'', 3.3, 0.0, 1550, 0.998 * 10000000.0 * real_of_int 3542400),
     (''if.in_oct'', 0.7, 0.3, 1260, 190000 * real_of_int 3542400),
     (''if.out_oct'', 1.9, 0.3, 1180, 310000 * real_of_int 3542400),
     (''if.in_ucast'', 3.1, 0.3, 1330, 430 * real_of_int 3542400),
     (''if.out_ucast'', 4.3, 0.3, 1410, 465 * real_of_int 3542400)]"

definition sample_cpu :: "real \<Rightarrow> (sim, int list \<times> int list \<times> int list) state" where
  "sample_cpu uptime = do {
     let elapsed = py_trunc (uptime * 10000000.0);
     user \<leftarrow> forM [0..<4] (\<lambda>i. fsample (''cpu'' @ nat_str i @ ''.user'') (10000000.0 * 0.058 * CPU_SPREAD ! i));
     priv \<leftarrow> forM [0..<4] (\<lambda>i. fsample (''cpu'' @ nat_str i @ ''.priv'') (10000000.0 * 0.034 * CPU_SPREAD ! i));
     let idle = map (\<lambda>(u, p). elapsed - u - p) (zip user priv);
     State_Monad.return (user, priv, idle) }"

record win_disk =
  rd_ios :: int
  wr_ios :: int
  rd_bytes :: int
  wr_bytes :: int
  rd_time :: int
  wr_time :: int
  idle :: int

text \<open>\<open>vol\<close> is the prefix of the drive's counter names.\<close>

definition sample_disk :: "string \<Rightarrow> real \<Rightarrow> real \<Rightarrow> real \<Rightarrow> real \<Rightarrow> real \<Rightarrow> real \<Rightarrow> (sim, win_disk) state" where
  "sample_disk vol r_iops r_lat w_iops w_lat r_bps w_bps = do {
     let busy = min 0.97 (r_iops * r_lat + w_iops * w_lat);
     ri \<leftarrow> fsample (vol @ ''.rd_ios'') r_iops;
     wi \<leftarrow> fsample (vol @ ''.wr_ios'') w_iops;
     rb \<leftarrow> fsample (vol @ ''.rd_bytes'') r_bps;
     wb \<leftarrow> fsample (vol @ ''.wr_bytes'') w_bps;
     rt \<leftarrow> fsample (vol @ ''.rd_time'') (r_iops * r_lat * 10000000.0);
     wt \<leftarrow> fsample (vol @ ''.wr_time'') (w_iops * w_lat * 10000000.0);
     id1 \<leftarrow> fsample (vol @ ''.idle'') ((1.0 - busy) * 10000000.0);
     State_Monad.return \<lparr>rd_ios = ri, wr_ios = wi, rd_bytes = rb, wr_bytes = wb, rd_time = rt, wr_time = wt, idle = id1\<rparr> }"

definition sample_disks :: "incident_cfg \<Rightarrow> win_state \<Rightarrow> (sim, win_disk list) state" where
  "sample_disks cfg w = do {
     fill \<leftarrow> c_fill_rate_kb_s cfg w;
     let w_iops = 35.0 + fill / 256.0;
     let w_lat = 0.00055 + 0.00075 * min 1.0 (fill / 36000.0);
     disk_c \<leftarrow> sample_disk ''c'' 20.0 0.00035 w_iops w_lat 560000.0 (1050000.0 + fill * 1024.0);
     disk_d \<leftarrow> sample_disk ''d'' 12.0 0.0004 18.0 0.0006 380000.0 610000.0;
     State_Monad.return [disk_c, disk_d] }"

section \<open>Services and processes\<close>

definition service_table :: "win_state \<Rightarrow> (string \<times> string \<times> string) list" where
  "service_table w =
     (let backup_state = (if disk_dying w then ''stopped/auto'' else ''running/auto'')
      in [
       (''MeridianBackupAgent'', backup_state, ''Meridian Backup & Disk Cleanup Agent''),
       (''ADWS'', ''running/auto'', ''Active Directory Web Services''),
       (''AJRouter'', ''stopped/demand'', ''AllJoyn Router Service''),
       (''ALG'', ''stopped/demand'', ''Application Layer Gateway Service''),
       (''AppIDSvc'', ''stopped/demand'', ''Application Identity''),
       (''Appinfo'', ''running/demand'', ''Application Information''),
       (''AppMgmt'', ''stopped/demand'', ''Application Management''),
       (''BFE'', ''running/auto'', ''Base Filtering Engine''),
       (''BITS'', ''running/demand'', ''Background Intelligent Transfer Service''),
       (''BrokerInfrastructure'', ''running/auto'', ''Background Tasks Infrastructure Service''),
       (''bthserv'', ''stopped/demand'', ''Bluetooth Support Service''),
       (''CertPropSvc'', ''stopped/demand'', ''Certificate Propagation''),
       (''CheckMkService'', ''running/auto'', ''Checkmk Agent''),
       (''COMSysApp'', ''stopped/demand'', ''COM+ System Application''),
       (''CoreMessagingRegistrar'', ''running/auto'', ''CoreMessaging''),
       (''CryptSvc'', ''running/auto'', ''Cryptographic Services''),
       (''DcomLaunch'', ''running/auto'', ''DCOM Server Process Launcher''),
       (''Dfs'', ''running/auto'', ''DFS Namespace''),
       (''DFSR'', ''running/auto'', ''DFS Replication''),
       (''Dhcp'', ''running/auto'', ''DHCP Client''),
       (''DiagTrack'', ''running/auto'', ''Connected User Experiences and Telemetry''),
       (''Dnscache'', ''running/auto'', ''DNS Client''),
       (''DNS'', ''running/auto'', ''DNS Server''),
       (''DPS'', ''running/auto'', ''Diagnostic Policy Service''),
       (''DsmSvc'', ''stopped/demand'', ''Device Setup Manager''),
       (''EventLog'', ''running/auto'', ''Windows Event Log''),
       (''EventSystem'', ''running/auto'', ''COM+ Event System''),
       (''FontCache'', ''running/auto'', ''Windows Font Cache Service''),
       (''gpsvc'', ''running/auto'', ''Group Policy Client''),
       (''iphlpsvc'', ''running/auto'', ''IP Helper''),
       (''IsmServ'', ''running/auto'', ''Intersite Messaging''),
       (''Kdc'', ''running/auto'', ''Kerberos Key Distribution Center''),
       (''KeyIso'', ''running/demand'', ''CNG Key Isolation''),
       (''LanmanServer'', ''running/auto'', ''Server''),
       (''LanmanWorkstation'', ''running/auto'', ''Workstation''),
       (''lmhosts'', ''running/demand'', ''TCP/IP NetBIOS Helper''),
       (''LSM'', ''running/auto'', ''Local Session Manager''),
       (''MapsBroker'', ''stopped/auto'', ''Downloaded Maps Manager''),
       (''mpssvc'', ''running/auto'', ''Windows Defender Firewall''),
       (''MSDTC'', ''running/auto'', ''Distributed Transaction Coordinator''),
       (''MSiSCSI'', ''stopped/demand'', ''Microsoft iSCSI Initiator Service''),
       (''NcbService'', ''stopped/demand'', ''Network Connection Broker''),
       (''Netlogon'', ''running/auto'', ''Netlogon''),
       (''netprofm'', ''running/demand'', ''Network List Service''),
       (''NlaSvc'', ''running/auto'', ''Network Location Awareness''),
       (''nsi'', ''running/auto'', ''Network Store Interface Service''),
       (''PerfHost'', ''stopped/demand'', ''Performance Counter DLL Host''),
       (''pla'', ''stopped/demand'', ''Performance Logs & Alerts''),
       (''PlugPlay'', ''running/auto'', ''Plug and Play''),
       (''PolicyAgent'', ''running/demand'', ''IPsec Policy Agent''),
       (''Power'', ''running/auto'', ''Power''),
       (''ProfSvc'', ''running/auto'', ''User Profile Service''),
       (''RasAuto'', ''stopped/demand'', ''Remote Access Auto Connection Manager''),
       (''RasMan'', ''stopped/demand'', ''Remote Access Connection Manager''),
       (''RemoteRegistry'', ''stopped/disabled'', ''Remote Registry''),
       (''RpcEptMapper'', ''running/auto'', ''RPC Endpoint Mapper''),
       (''RpcSs'', ''running/auto'', ''Remote Procedure Call (RPC)''),
       (''SamSs'', ''running/auto'', ''Security Accounts Manager''),
       (''Schedule'', ''running/auto'', ''Task Scheduler''),
       (''seclogon'', ''running/demand'', ''Secondary Logon''),
       (''SecurityHealthService'', ''running/demand'', ''Windows Security Service''),
       (''SENS'', ''running/auto'', ''System Event Notification Service''),
       (''SessionEnv'', ''running/demand'', ''Remote Desktop Configuration''),
       (''ShellHWDetection'', ''running/auto'', ''Shell Hardware Detection''),
       (''SNMPTRAP'', ''stopped/demand'', ''SNMP Trap''),
       (''Spooler'', ''stopped/disabled'', ''Print Spooler''),
       (''SstpSvc'', ''stopped/demand'', ''Secure Socket Tunneling Protocol Service''),
       (''StateRepository'', ''running/demand'', ''State Repository Service''),
       (''swprv'', ''stopped/demand'', ''Microsoft Software Shadow Copy Provider''),
       (''SystemEventsBroker'', ''running/auto'', ''System Events Broker''),
       (''TabletInputService'', ''stopped/demand'', ''Touch Keyboard and Handwriting Panel Service''),
       (''TermService'', ''running/demand'', ''Remote Desktop Services''),
       (''Themes'', ''running/auto'', ''Themes''),
       (''TimeBrokerSvc'', ''running/demand'', ''Time Broker''),
       (''TrkWks'', ''running/auto'', ''Distributed Link Tracking Client''),
       (''UALSVC'', ''running/auto'', ''User Access Logging Service''),
       (''UmRdpService'', ''running/demand'', ''Remote Desktop Services UserMode Port Redirector''),
       (''UserManager'', ''running/auto'', ''User Manager''),
       (''UsoSvc'', ''running/auto'', ''Update Orchestrator Service''),
       (''VaultSvc'', ''stopped/demand'', ''Credential Manager''),
       (''VSS'', ''stopped/demand'', ''Volume Shadow Copy''),
       (''W32Time'', ''running/auto'', ''Windows Time''),
       (''WaaSMedicSvc'', ''stopped/demand'', ''Windows Update Medic Service''),
       (''WbioSrvc'', ''stopped/demand'', ''Windows Biometric Service''),
       (''Wcmsvc'', ''running/auto'', ''Windows Connection Manager''),
       (''WdiServiceHost'', ''stopped/demand'', ''Diagnostic Service Host''),
       (''WdiSystemHost'', ''stopped/demand'', ''Diagnostic System Host''),
       (''WdNisSvc'', ''running/demand'', ''Microsoft Defender Antivirus Network Inspection Service''),
       (''Wecsvc'', ''stopped/demand'', ''Windows Event Collector''),
       (''WerSvc'', ''stopped/demand'', ''Windows Error Reporting Service''),
       (''WinDefend'', ''running/auto'', ''Microsoft Defender Antivirus Service''),
       (''WinHttpAutoProxySvc'', ''running/demand'', ''WinHTTP Web Proxy Auto-Discovery Service''),
       (''Winmgmt'', ''running/auto'', ''Windows Management Instrumentation''),
       (''WinRM'', ''running/auto'', ''Windows Remote Management (WS-Management)''),
       (''WpnService'', ''running/auto'', ''Windows Push Notifications System Service''),
       (''wuauserv'', ''running/demand'', ''Windows Update''),
       (''XblAuthManager'', ''stopped/demand'', ''Xbox Live Auth Manager'')])"

definition WIN_PROCS :: "(string \<times> int \<times> int \<times> int \<times> int \<times> real \<times> real \<times> int \<times> int \<times> int \<times> string) list" where
  "WIN_PROCS = [
       (''SYSTEM'', 56, 140, 4, 0, 0.0, 0.006, 1480, 112, 0, ''System''),
       (''SYSTEM'', 0, 64800, 96, 4, 0.0, 0.0002, 0, 4, 0, ''Registry''),
       (''SYSTEM'', 1648, 412, 348, 1, 0.0, 0.00002, 53, 2, 0, ''smss.exe''),
       (BS @ BS @ ''NT AUTHORITY'' @ BS @ ''SYSTEM'', 5240, 2140, 472, 2, 0.0002, 0.0009, 580, 10, 0, ''csrss.exe''),
       (BS @ BS @ ''NT AUTHORITY'' @ BS @ ''SYSTEM'', 5560, 1420, 556, 1, 0.0, 0.0001, 165, 1, 0, ''wininit.exe''),
       (BS @ BS @ ''NT AUTHORITY'' @ BS @ ''SYSTEM'', 5330, 1980, 568, 2, 0.0001, 0.0006, 330, 10, 0, ''csrss.exe''),
       (BS @ BS @ ''NT AUTHORITY'' @ BS @ ''SYSTEM'', 7420, 3010, 628, 3, 0.0001, 0.0002, 245, 3, 0, ''winlogon.exe''),
       (BS @ BS @ ''NT AUTHORITY'' @ BS @ ''SYSTEM'', 8100, 6480, 676, 5, 0.0016, 0.0021, 690, 7, 0, ''services.exe''),
       (BS @ BS @ ''NT AUTHORITY'' @ BS @ ''SYSTEM'', 3260000, 2540000, 692, 2480, 0.055, 0.032, 3450, 42, 0, ''lsass.exe''),
       (BS @ BS @ ''NT AUTHORITY'' @ BS @ ''SYSTEM'', 22000, 24600, 768, 12, 0.0008, 0.0009, 1120, 14, 0, ''svchost.exe''),
       (BS @ BS @ ''Font Driver Host'' @ BS @ ''UMFD-0'', 2230, 1660, 744, 1, 0.0001, 0.0001, 64, 5, 0, ''fontdrvhost.exe''),
       (BS @ BS @ ''Font Driver Host'' @ BS @ ''UMFD-1'', 1680, 2140, 752, 1, 0.0001, 0.0001, 64, 5, 0, ''fontdrvhost.exe''),
       (BS @ BS @ ''NT AUTHORITY'' @ BS @ ''NETWORK SERVICE'', 16800, 19300, 884, 9, 0.0011, 0.0013, 960, 11, 0, ''svchost.exe''),
       (BS @ BS @ ''NT AUTHORITY'' @ BS @ ''SYSTEM'', 12900, 14700, 916, 7, 0.0002, 0.0003, 420, 9, 0, ''svchost.exe''),
       (BS @ BS @ ''NT AUTHORITY'' @ BS @ ''LOCAL SERVICE'', 34000, 37800, 1004, 22, 0.004, 0.005, 780, 12, 0, ''svchost.exe''),
       (BS @ BS @ ''Window Manager'' @ BS @ ''DWM-1'', 68000, 52400, 1020, 39, 0.0019, 0.0028, 690, 15, 0, ''dwm.exe''),
       (BS @ BS @ ''NT AUTHORITY'' @ BS @ ''SYSTEM'', 74000, 86500, 1060, 48, 0.008, 0.006, 2350, 38, 0, ''svchost.exe''),
       (BS @ BS @ ''NT AUTHORITY'' @ BS @ ''SYSTEM'', 23200, 26400, 1112, 14, 0.0009, 0.0011, 640, 13, 0, ''svchost.exe''),
       (BS @ BS @ ''NT AUTHORITY'' @ BS @ ''NETWORK SERVICE'', 14600, 17200, 1180, 8, 0.0007, 0.0009, 410, 8, 0, ''svchost.exe''),
       (BS @ BS @ ''NT AUTHORITY'' @ BS @ ''LOCAL SERVICE'', 8400, 9800, 1232, 5, 0.0002, 0.0003, 280, 6, 0, ''svchost.exe''),
       (BS @ BS @ ''NT AUTHORITY'' @ BS @ ''SYSTEM'', 10900, 12500, 1296, 6, 0.0005, 0.0011, 380, 9, 0, ''svchost.exe''),
       (BS @ BS @ ''NT AUTHORITY'' @ BS @ ''NETWORK SERVICE'', 13400, 15700, 1352, 8, 0.0003, 0.0004, 460, 10, 0, ''svchost.exe''),
       (BS @ BS @ ''NT AUTHORITY'' @ BS @ ''SYSTEM'', 40500, 45800, 1420, 27, 0.01, 0.008, 1240, 21, 0, ''svchost.exe''),
       (BS @ BS @ ''NT AUTHORITY'' @ BS @ ''SYSTEM'', 55000, 61200, 1488, 39, 0.0012, 0.0009, 890, 17, 0, ''svchost.exe''),
       (BS @ BS @ ''NT AUTHORITY'' @ BS @ ''LOCAL SERVICE'', 20100, 22700, 1544, 12, 0.0007, 0.0012, 720, 12, 0, ''svchost.exe''),
       (BS @ BS @ ''NT AUTHORITY'' @ BS @ ''NETWORK SERVICE'', 25300, 28600, 1608, 16, 0.0009, 0.0008, 560, 12, 0, ''svchost.exe''),
       (BS @ BS @ ''NT AUTHORITY'' @ BS @ ''SYSTEM'', 29800, 32900, 1672, 19, 0.0014, 0.0011, 610, 14, 0, ''svchost.exe''),
       (BS @ BS @ ''NT AUTHORITY'' @ BS @ ''NETWORK SERVICE'', 18600, 21100, 1736, 11, 0.0003, 0.0005, 470, 10, 0, ''svchost.exe''),
       (''SYSTEM'', 122000, 148000, 2208, 0, 0.0, 0.0016, 0, 40, 0, ''Memory Compression''),
       (BS @ BS @ ''NT AUTHORITY'' @ BS @ ''NETWORK SERVICE'', 512000, 428000, 2320, 395, 0.024, 0.014, 640, 27, 0, ''dns.exe''),
       (BS @ BS @ ''NT AUTHORITY'' @ BS @ ''SYSTEM'', 132000, 97500, 2420, 88, 0.0028, 0.0017, 520, 22, 0, ''Microsoft.ActiveDirectory.WebServices.exe''),
       (BS @ BS @ ''NT AUTHORITY'' @ BS @ ''SYSTEM'', 84600, 67300, 2480, 55, 0.009, 0.007, 480, 18, 0, ''dfsrs.exe''),
       (BS @ BS @ ''NT AUTHORITY'' @ BS @ ''SYSTEM'', 7200, 5700, 2540, 4, 0.0001, 0.0001, 150, 5, 0, ''ismserv.exe''),
       (BS @ BS @ ''NT AUTHORITY'' @ BS @ ''SYSTEM'', 268000, 214000, 2680, 172, 0.028, 0.019, 1320, 31, 0, ''MsMpEng.exe''),
       (BS @ BS @ ''NT AUTHORITY'' @ BS @ ''LOCAL SERVICE'', 12300, 9400, 2790, 6, 0.0004, 0.0006, 210, 7, 0, ''NisSrv.exe''),
       (BS @ BS @ ''NT AUTHORITY'' @ BS @ ''NETWORK SERVICE'', 12100, 9900, 2980, 7, 0.0001, 0.0002, 200, 10, 0, ''msdtc.exe''),
       (BS @ BS @ ''NT AUTHORITY'' @ BS @ ''SYSTEM'', 104000, 86200, 3052, 71, 0.009, 0.006, 340, 12, 0, ''MeridianBackupAgent.exe''),
       (BS @ BS @ ''NT AUTHORITY'' @ BS @ ''SYSTEM'', 46800, 38400, 3140, 29, 0.006, 0.004, 290, 14, 0, ''check_mk_agent.exe''),
       (BS @ BS @ ''NT AUTHORITY'' @ BS @ ''SYSTEM'', 18200, 14600, 3168, 10, 0.0008, 0.0007, 120, 8, 0, ''cmk-agent-ctl.exe''),
       (BS @ BS @ ''NT AUTHORITY'' @ BS @ ''NETWORK SERVICE'', 28900, 23800, 3324, 17, 0.0021, 0.0016, 340, 11, 262000, ''WmiPrvSE.exe''),
       (BS @ BS @ ''NT AUTHORITY'' @ BS @ ''SYSTEM'', 19400, 15600, 3412, 11, 0.0012, 0.0009, 260, 9, 3400000, ''WmiPrvSE.exe''),
       (BS @ BS @ ''NT AUTHORITY'' @ BS @ ''SYSTEM'', 13800, 10900, 3548, 8, 0.0002, 0.0002, 190, 9, 0, ''dllhost.exe''),
       (BS @ BS @ ''NT AUTHORITY'' @ BS @ ''SYSTEM'', 14500, 11800, 3620, 8, 0.0002, 0.0003, 230, 7, 0, ''taskhostw.exe''),
       (BS @ BS @ ''NT AUTHORITY'' @ BS @ ''SYSTEM'', 12200, 9600, 3812, 7, 0.0001, 0.0001, 130, 5, 3500000, ''conhost.exe''),
       (BS @ BS @ ''NT AUTHORITY'' @ BS @ ''SYSTEM'', 16900, 13400, 3908, 10, 0.0003, 0.0004, 380, 9, 0, ''SecurityHealthService.exe'')]"

definition cpu_row :: "string \<Rightarrow> int list \<Rightarrow> string \<Rightarrow> int \<Rightarrow> string" where
  "cpu_row rid vals typ tot = rid @ '' '' @ join_with '' '' (map int_str vals) @ '' '' @ int_str tot @ '' '' @ typ"

definition dsk_row :: "string \<Rightarrow> int list \<Rightarrow> string \<Rightarrow> string" where
  "dsk_row rid vals typ = rid @ '' '' @ join_with '' '' (map int_str vals) @ '' '' @ int_str (sum_list vals) @ '' '' @ typ"

section \<open>The agent output\<close>

definition win_clock :: "incident_cfg \<Rightarrow> (sim, real \<times> int \<times> real \<times> int) state" where
  "win_clock cfg =
     do {
       now_f \<leftarrow> get_time;
       let now = py_trunc now_f;
       let uptime_f = now_f - hc_start cfg + real_of_int 3542400;
       let uptime = py_trunc uptime_f;
       State_Monad.return ((now_f, now, uptime_f, uptime)) }"

definition dc_head :: "incident_cfg \<Rightarrow> int \<Rightarrow> string list" where
  "dc_head cfg now =
     (let cert_to = strftime ''%a, %d %b %Y %H:%M:%S +0000'' (gmtime (now + 325 * 86400))
      in [
       ''<<<check_mk>>>'',
       ''Version: '' @ hc_version cfg,
       ''BuildDate: Apr  3 2026'',
       ''AgentOS: windows'',
       ''Hostname: '' @ hc_hostname cfg,
       ''Architecture: 64bit'',
       ''OSName: Microsoft Windows Server 2022 Datacenter'',
       ''OSVersion: 10.0.20348'',
       ''OSType: windows'',
       strftime ''Time: %Y-%m-%dT%H:%M:%S+0000'' (gmtime now),
       ''WorkingDirectory: C:'' @ BS @ ''Windows'' @ BS @ ''system32'',
       ''ConfigFile: C:'' @ BS @ ''Program Files (x86)'' @ BS @ ''checkmk'' @ BS @ ''service'' @ BS @ ''check_mk.yml'',
       ''LocalConfigFile: C:'' @ BS @ ''ProgramData'' @ BS @ ''checkmk'' @ BS @ ''agent'' @ BS @ ''check_mk.user.yml'',
       ''AgentDirectory: C:'' @ BS @ ''Program Files (x86)'' @ BS @ ''checkmk'' @ BS @ ''service'',
       ''PluginsDirectory: C:'' @ BS @ ''ProgramData'' @ BS @ ''checkmk'' @ BS @ ''agent'' @ BS @ ''plugins'',
       ''StateDirectory: C:'' @ BS @ ''ProgramData'' @ BS @ ''checkmk'' @ BS @ ''agent'' @ BS @ ''state'',
       ''ConfigDirectory: C:'' @ BS @ ''ProgramData'' @ BS @ ''checkmk'' @ BS @ ''agent'' @ BS @ ''config'',
       ''TempDirectory: C:'' @ BS @ ''ProgramData'' @ BS @ ''checkmk'' @ BS @ ''agent'' @ BS @ ''tmp'',
       ''LogDirectory: C:'' @ BS @ ''ProgramData'' @ BS @ ''checkmk'' @ BS @ ''agent'' @ BS @ ''log'',
       ''SpoolDirectory: C:'' @ BS @ ''ProgramData'' @ BS @ ''checkmk'' @ BS @ ''agent'' @ BS @ ''spool'',
       ''LocalDirectory: C:'' @ BS @ ''ProgramData'' @ BS @ ''checkmk'' @ BS @ ''agent'' @ BS @ ''local'',
       ''OnlyFrom:'',
       ''<<<cmk_agent_ctl_status:sep(0)>>>'',
       dumps (JObj [(''version'', JStr (hc_version cfg)),
         (''agent_socket_operational'', JBool True),
         (''ip_allowlist'', JArr []),
         (''allow_legacy_pull'', JBool False),
         (''connections'', JArr [JObj [(''site_id'', JStr ''monitoring/prod''),
         (''receiver_port'', JNum 8000),
         (''uuid'', JStr ''c47b1d92-7a30-4e1f-9c8a-1b6d4f2e8a55''),
         (''local'', JObj [(''connection_mode'', JStr ''pull-agent''), (''cert_info'', JObj [(''issuer'', JStr (''Site '' @ [CHR 0x27] @ ''prod'' @ [CHR 0x27] @ '' local CA'')),
         (''from'', JStr ''Tue, 03 Jun 2025 09:12:44 +0000''),
         (''to'', JStr cert_to)])]),
         (''remote'', JStr ''remote_query_disabled'')]])])])"

definition win_cpuload :: "incident_cfg \<Rightarrow> real \<Rightarrow> (sim, string list) state" where
  "win_cpuload cfg uptime_f =
     do {
       g7 \<leftarrow> gauge ''cpu.qlen'' 1.0 (Some 1.4) None 0.3 420;
       let qlen = max 0 (py_round g7);
       State_Monad.return ([
       ''<<<wmi_cpuload:sep(124)>>>'',
       ''[system_perf]'',
       ''Name|ProcessorQueueLength|Timestamp_PerfTime|Frequency_PerfTime|WMIStatus'',
       ''|'' @ int_str qlen @ ''|'' @ int_str (py_trunc (uptime_f * 10000000)) @ ''|10000000|OK'',
       ''[computer_system]'',
       ''Name|NumberOfLogicalProcessors|NumberOfProcessors|WMIStatus'',
       COMPUTERNAME cfg @ ''|'' @ int_str 4 @ ''|1|OK'']) }"

definition win_uptime :: "int \<Rightarrow> string list" where
  "win_uptime uptime =
     [
       ''<<<uptime>>>'',
       int_str uptime]"

definition dc_mem :: "(sim, string list) state" where
  "dc_mem =
     do {
       g8 \<leftarrow> gauge ''mem.free'' 9100000 None (Some 0.03) 0.6 1500;
       let mem_free = py_trunc g8;
       g9 \<leftarrow> gauge ''page.free'' 18900000 None (Some 0.02) 1.4 1700;
       let page_free = py_trunc g9;
       State_Monad.return ([
       ''<<<mem>>>'',
       ''MemTotal:      '' @ int_str 16768000 @ '' kB'',
       ''MemFree:       '' @ int_str mem_free @ '' kB'',
       ''SwapTotal:     7340032 kB'',
       ''SwapFree:      6815744 kB'',
       ''PageTotal:     '' @ int_str 24117248 @ '' kB'',
       ''PageFree:      '' @ int_str page_free @ '' kB'',
       ''VirtualTotal:  137438953344 kB'',
       ''VirtualFree:   137431814144 kB'']) }"

definition win_fileinfo :: "incident_cfg \<Rightarrow> (int \<Rightarrow> real) \<Rightarrow> win_state \<Rightarrow> real \<Rightarrow> int \<Rightarrow> (sim, string list) state" where
  "win_fileinfo cfg roll w now_f now =
     do {
       gf10 \<leftarrow> growing_files cfg roll w now_f;
       let ck = ntds_checkpoint roll now_f;
       let ntds_size = 4598000000 + (ck - 1700000000) * 2;
       State_Monad.return ([
       ''<<<fileinfo:sep(124)>>>'',
       int_str now] @
      concat (map (\<lambda>(path, size, mtime). [
       path @ ''|'' @ int_str size @ ''|'' @ int_str mtime]) gf10) @
      [
       ''C:'' @ BS @ ''Windows'' @ BS @ ''NTDS'' @ BS @ ''ntds.dit|'' @ int_str ntds_size @ ''|'' @ int_str ck]) }"

definition dc_df :: "incident_cfg \<Rightarrow> win_state \<Rightarrow> real \<Rightarrow> (sim, string list) state" where
  "dc_df cfg w now_f =
     do {
       c_used \<leftarrow> c_drive_used_kb cfg w now_f;
       let c_avail = 125827068 - c_used;
       let c_pct = py_round (real_of_int c_used / (real_of_int 125827068) * 100);
       g12 \<leftarrow> gauge ''d.used'' 171000000 (Some 400000) None 0 1800;
       let d_used = py_trunc g12;
       State_Monad.return ([
       ''<<<df:sep(9)>>>'',
       join_with TAB [''C:'' @ BS, ''NTFS'', int_str 125827068, int_str c_used, int_str c_avail, int_str c_pct @ ''%'', ''C:'' @ BS],
       join_with TAB [''D:'' @ BS, ''NTFS'', int_str 419430400, int_str d_used, int_str (419430400 - d_used), int_str (py_round (real_of_int d_used / (real_of_int 419430400) * 100)) @ ''%'', ''D:'' @ BS]]) }"

definition dc_services :: "win_state \<Rightarrow> string list" where
  "dc_services w =
     [
       ''<<<services>>>''] @
      concat (map (\<lambda>(nam, status, descr). [
       nam @ '' '' @ status @ '' '' @ descr]) (service_table w))"

definition win_plugins :: "incident_cfg \<Rightarrow> string list" where
  "win_plugins cfg =
     [
       ''<<<checkmk_agent_plugins_win:sep(0)>>>'',
       ''pluginsdir C:'' @ BS @ ''ProgramData'' @ BS @ ''checkmk'' @ BS @ ''agent'' @ BS @ ''plugins'',
       ''localdir C:'' @ BS @ ''ProgramData'' @ BS @ ''checkmk'' @ BS @ ''agent'' @ BS @ ''local'',
       ''C:'' @ BS @ ''ProgramData'' @ BS @ ''checkmk'' @ BS @ ''agent'' @ BS @ ''plugins'' @ BS @ ''cmk_update_agent.checkmk.py:CMK_VERSION = '' @ [CHR 0x22] @ hc_version cfg @ [CHR 0x22],
       ''C:'' @ BS @ ''ProgramData'' @ BS @ ''checkmk'' @ BS @ ''agent'' @ BS @ ''plugins'' @ BS @ ''mk_inventory.vbs:CMK_VERSION = '' @ [CHR 0x22] @ hc_version cfg @ [CHR 0x22]]"

definition dc_cpu :: "real \<Rightarrow> (sim, int list \<times> int list \<times> int list) state" where
  "dc_cpu uptime_f =
     do {
       sc13 \<leftarrow> sample_cpu uptime_f;
       let (cpu_user, cpu_priv, cpu_idle) = sc13;
       State_Monad.return ((cpu_user, cpu_priv, cpu_idle)) }"

text \<open>One row of the process table; \<open>None\<close> is the service that is down.\<close>

definition win_ps_row :: "incident_cfg \<Rightarrow> win_state \<Rightarrow> real \<Rightarrow> int \<Rightarrow> int \<Rightarrow>
    string \<times> int \<times> int \<times> int \<times> int \<times> real \<times> real \<times> int \<times> int \<times> int \<times> string \<Rightarrow> (sim, string option) state" where
  "win_ps_row cfg w now_f uptime backup_age = (\<lambda>(user, vsz, ws, pid, pf, uf, kf, handles, threads, age_off, nam).
     if nam = ''MeridianBackupAgent.exe'' \<and> disk_dying w then State_Monad.return None
     else do {
       let age = (if nam = ''MeridianBackupAgent.exe'' then min uptime backup_age else max 60 (uptime - age_off));
       g \<leftarrow> gauge (''ps.'' @ int_str pid @ ''.ws'') (real_of_int ws) None (Some 0.03) (real_of_int (pid mod 97) * 0.35)
              (real_of_int (800 + pid mod 13 * 110));
       let ws_now = py_trunc g;
       h_now \<leftarrow> (if handles < 100 then State_Monad.return handles
          else do { g \<leftarrow> gauge (''ps.'' @ int_str pid @ ''.h'') (real_of_int handles) None (Some 0.04) (real_of_int (pid mod 89) * 0.29)
                       (real_of_int (900 + pid mod 11 * 130));
                    State_Monad.return (py_trunc g) });
       let ut = (if uf > 0 then run_ticks cfg (uf * 10000000.0) now_f (real_of_int pid * 0.37) 0.25 900.0 else 0);
       let kt = (if kf > 0 then run_ticks cfg (kf * 10000000.0) now_f (real_of_int pid * 0.37 + 1.3) 0.25 900.0 else 0);
       State_Monad.return (Some (''('' @ user @ '','' @ int_str vsz @ '','' @ int_str ws_now @ '',0,'' @ int_str pid @ '','' @ int_str pf @
         '','' @ int_str ut @ '','' @ int_str kt @ '','' @ int_str h_now @ '','' @ int_str threads @ '','' @ int_str age @ '')'' @ TAB @ nam)) })"

definition dc_ps :: "incident_cfg \<Rightarrow> win_state \<Rightarrow> real \<Rightarrow> int \<Rightarrow> int list \<Rightarrow> (sim, string list) state" where
  "dc_ps cfg w now_f uptime cpu_idle = do {
     let backup_age = max 0 (py_trunc (now_f - backup_since w));
     rows \<leftarrow> forM WIN_PROCS (win_ps_row cfg w now_f uptime backup_age);
     State_Monad.return ([
       ''<<<ps:sep(9)>>>'',
       ''(SYSTEM,0,8,0,0,0,0,'' @ int_str (sum_list cpu_idle) @ '',0,4,'' @ int_str uptime @ '')'' @ TAB @ ''System Idle Process''] @
       List.map_filter id rows) }"

definition win_processor :: "incident_cfg \<Rightarrow> real \<Rightarrow> real \<Rightarrow> int list \<Rightarrow> int list \<Rightarrow> int list \<Rightarrow> string list" where
  "win_processor cfg now_f uptime_f cpu_user cpu_priv cpu_idle =
     (let intr = map (\<lambda>i. run_ticks cfg (900.0 + 55.0 * (real i)) now_f (0.9 * (real i)) 0.25 1100) ([0..<nat 4]);
          dpcs = map (\<lambda>i. run_ticks cfg (340.0 + 30.0 * (real i)) now_f (1.1 * (real i) + 0.5) 0.25 1300) ([0..<nat 4])
      in [
       ''<<<winperf_processor>>>'',
       fixed_str 2 uptime_f @ '' 238 10000000'',
       int_str (4 + 1) @ '' instances: '' @ join_with '' '' (map (\<lambda>i. nat_str i) ([0..<nat 4])) @ '' _Total'',
       cpu_row ''-232'' cpu_idle ''100nsec_timer_inv'' ((sum_list cpu_idle) div 4),
       cpu_row ''-96'' cpu_user ''100nsec_timer'' ((sum_list cpu_user) div 4),
       cpu_row ''-94'' cpu_priv ''100nsec_timer'' ((sum_list cpu_priv) div 4),
       cpu_row ''-90'' intr ''counter'' (sum_list intr),
       cpu_row ''1096'' dpcs ''counter'' (sum_list dpcs),
       cpu_row ''1098'' (replicate (nat 4) 0) ''rawcount'' 0])"

definition win_phydisk :: "incident_cfg \<Rightarrow> win_state \<Rightarrow> real \<Rightarrow> real \<Rightarrow> (sim, string list) state" where
  "win_phydisk cfg w now_f uptime_f =
     do {
       disks \<leftarrow> sample_disks cfg w;
       let ft = py_trunc ((now_f + 11644473600) * 10000000);
       let d_time = map (\<lambda>d. rd_time d + wr_time d) disks;
       let d_ios = map (\<lambda>d. rd_ios d + wr_ios d) disks;
       let d_bytes = map (\<lambda>d. rd_bytes d + wr_bytes d) disks;
       State_Monad.return ([
       ''<<<winperf_phydisk>>>'',
       fixed_str 2 uptime_f @ '' 234 10000000'',
       ''3 instances: 0_C: 1_D: _Total'',
       dsk_row ''-36'' (replicate (nat (int (length disks))) 0) ''rawcount'',
       dsk_row ''-34'' d_time ''type(542573824)'',
       ''-34 '' @ int_str ft @ '' '' @ int_str ft @ '' '' @ int_str ft @ '' type(1073939712)'',
       dsk_row ''1166'' d_time ''type(5571840)'',
       dsk_row ''-32'' (map (\<lambda>d. rd_time d) disks) ''type(542573824)'',
       ''-32 '' @ int_str ft @ '' '' @ int_str ft @ '' '' @ int_str ft @ '' type(1073939712)'',
       dsk_row ''1168'' (map (\<lambda>d. rd_time d) disks) ''type(5571840)'',
       dsk_row ''-30'' (map (\<lambda>d. wr_time d) disks) ''type(542573824)'',
       ''-30 '' @ int_str ft @ '' '' @ int_str ft @ '' '' @ int_str ft @ '' type(1073939712)'',
       dsk_row ''1170'' (map (\<lambda>d. wr_time d) disks) ''type(5571840)'',
       dsk_row ''-28'' d_time ''average_timer'',
       dsk_row ''-28'' d_ios ''average_base'',
       dsk_row ''-26'' (map (\<lambda>d. rd_time d) disks) ''average_timer'',
       dsk_row ''-26'' (map (\<lambda>d. rd_ios d) disks) ''average_base'',
       dsk_row ''-24'' (map (\<lambda>d. wr_time d) disks) ''average_timer'',
       dsk_row ''-24'' (map (\<lambda>d. wr_ios d) disks) ''average_base'',
       dsk_row ''-22'' d_ios ''counter'',
       dsk_row ''-20'' (map (\<lambda>d. rd_ios d) disks) ''counter'',
       dsk_row ''-18'' (map (\<lambda>d. wr_ios d) disks) ''counter'',
       dsk_row ''-16'' d_bytes ''bulk_count'',
       dsk_row ''-14'' (map (\<lambda>d. rd_bytes d) disks) ''bulk_count'',
       dsk_row ''-12'' (map (\<lambda>d. wr_bytes d) disks) ''bulk_count'',
       dsk_row ''-10'' d_bytes ''average_bulk'',
       dsk_row ''-10'' d_ios ''average_base'',
       dsk_row ''-8'' (map (\<lambda>d. rd_bytes d) disks) ''average_bulk'',
       dsk_row ''-8'' (map (\<lambda>d. rd_ios d) disks) ''average_base'',
       dsk_row ''-6'' (map (\<lambda>d. wr_bytes d) disks) ''average_bulk'',
       dsk_row ''-6'' (map (\<lambda>d. wr_ios d) disks) ''average_base'',
       dsk_row ''1248'' (map (\<lambda>d. idle d) disks) ''type(542573824)'',
       ''1248 '' @ int_str ft @ '' '' @ int_str ft @ '' '' @ int_str ft @ '' type(1073939712)'',
       dsk_row ''1250'' (map (\<lambda>i. run_ticks cfg (1.4 + 0.4 * (real i)) now_f (2.2 + real i) 0.25 1250) ([0..<nat (int (length disks))])) ''counter'']) }"

definition win_if :: "incident_cfg \<Rightarrow> real \<Rightarrow> real \<Rightarrow> (sim, string list) state" where
  "win_if cfg now_f uptime_f =
     do {
       net_in \<leftarrow> fsample ''if.in_oct'' 190000;
       net_out \<leftarrow> fsample ''if.out_oct'' 310000;
       net_in_u \<leftarrow> fsample ''if.in_ucast'' 430;
       net_out_u \<leftarrow> fsample ''if.out_ucast'' 465;
       let net_in_nu = run_ticks cfg 5.2 now_f 0.8 0.25 1150;
       let net_out_nu = run_ticks cfg 2.1 now_f 2.4 0.25 1350;
       State_Monad.return ([
       ''<<<winperf_if>>>'',
       fixed_str 2 uptime_f @ '' 510 10000000'',
       ''1 instances: '' @ ''Intel[R]_82574L_Gigabit_Network_Connection'',
       ''-122 '' @ int_str (net_in + net_out) @ '' bulk_count'',
       ''-110 '' @ int_str (net_in_u + net_in_nu + net_out_u + net_out_nu) @ '' bulk_count'',
       ''-244 '' @ int_str (net_in_u + net_in_nu) @ '' bulk_count'',
       ''-58 '' @ int_str (net_out_u + net_out_nu) @ '' bulk_count'',
       ''10 1000000000 large_rawcount'',
       ''-246 '' @ int_str net_in @ '' bulk_count'',
       ''14 '' @ int_str net_in_u @ '' bulk_count'',
       ''16 '' @ int_str net_in_nu @ '' bulk_count'',
       ''18 137 large_rawcount'',
       ''20 0 large_rawcount'',
       ''22 0 large_rawcount'',
       ''-4 '' @ int_str net_out @ '' bulk_count'',
       ''26 '' @ int_str net_out_u @ '' bulk_count'',
       ''28 '' @ int_str net_out_nu @ '' bulk_count'',
       ''30 0 large_rawcount'',
       ''32 0 large_rawcount'',
       ''34 0 large_rawcount'',
       ''1086 0 large_rawcount'',
       ''1088 0 large_rawcount'',
       ''1090 0 bulk_count'',
       ''1092 0 bulk_count'',
       ''1094 4211 large_rawcount'',
       ''2002 1 text'']) }"

definition win_systemtime :: "int \<Rightarrow> string list" where
  "win_systemtime now =
     [
       ''<<<systemtime>>>'',
       int_str now]"

text \<open>The payload: the sections in order, one line each.\<close>

definition dc_build :: "incident_cfg \<Rightarrow> (int \<Rightarrow> real) \<Rightarrow> win_state \<Rightarrow> (sim, string) state" where
  "dc_build cfg roll w = do {
       (now_f, now, uptime_f, uptime) \<leftarrow> win_clock cfg;
       let l_head = dc_head cfg now;
       l_cpuload \<leftarrow> win_cpuload cfg uptime_f;
       let l_uptime = win_uptime uptime;
       l_mem \<leftarrow> dc_mem;
       l_fileinfo \<leftarrow> win_fileinfo cfg roll w now_f now;
       l_df \<leftarrow> dc_df cfg w now_f;
       let l_services = dc_services w;
       let l_plugins = win_plugins cfg;
       (cpu_user, cpu_priv, cpu_idle) \<leftarrow> dc_cpu uptime_f;
       l_ps \<leftarrow> dc_ps cfg w now_f uptime cpu_idle;
       let l_processor = win_processor cfg now_f uptime_f cpu_user cpu_priv cpu_idle;
       l_phydisk \<leftarrow> win_phydisk cfg w now_f uptime_f;
       l_if \<leftarrow> win_if cfg now_f uptime_f;
       let l_systemtime = win_systemtime now;
       State_Monad.return (concat (map (\<lambda>l. l @ [CHR 0x0D, CHR 0x0A])
         (l_head @ l_cpuload @ l_uptime @ l_mem @ l_fileinfo @ l_df @ l_services @ l_plugins @ l_ps @ l_processor @ l_phydisk @ l_if @ l_systemtime))) }"

text \<open>The model ends here.  The fill of the system drive: its course through the break, and the files that carry it.\<close>

section \<open>The course of the fill\<close>

definition pressure_at :: "incident_cfg \<Rightarrow> win_state \<Rightarrow> real \<Rightarrow> real" where
  "pressure_at cfg w t = fst (run_state (win_pressure cfg w)
     \<lparr>clock = (\<lambda>k. t), noise = (\<lambda>k. 0), gauges = Map.empty, counters = Map.empty\<rparr>)"

lemma pressure_run:
  "fst (run_state (win_pressure cfg w) s) = max 0 (min 1 (let ds = since_or_zero (clock s 0) (w_degraded w);
      bs = since_or_zero (clock s 0) (w_broken w); p = deg_pressure cfg ds
     in if bs > 0 then max p (lerp (p_break w) 1 (if ic_ramp cfg \<le> 0 then 1 else min 1 (bs / (ic_ramp cfg * 60)))) else p))"
proof -
  have e: "(1.0 :: real) = 1" "(0.0 :: real) = 0" "(60.0 :: real) = 60" by simp_all
  show ?thesis
    unfolding win_pressure_def Let_def e
    by (simp add: get_time_def State_Monad.bind_def State_Monad.return_def Let_def)
qed

lemma pressure_any_run: "fst (run_state (win_pressure cfg w) s) = pressure_at cfg w (clock s 0)"
  by (simp add: pressure_at_def pressure_run)

lemmas pressure_formula = pressure_run [where s = "\<lparr>clock = (\<lambda>k. t), noise = (\<lambda>k. 0), gauges = Map.empty, counters = Map.empty\<rparr>" for t,
  folded pressure_at_def, simplified]

lemma deg_pressure_bounds: "0 \<le> deg_pressure cfg x \<and> deg_pressure cfg x \<le> 39 / 50"
proof -
  have e: "(0.78 :: real) = 39 / 50" "(1.0 :: real) = 1" "(0.0 :: real) = 0" "(60.0 :: real) = 60" by simp_all
  show ?thesis unfolding deg_pressure_def e by simp
qed

lemma deg_pressure_mono:
  assumes "x \<le> y"
  shows "deg_pressure cfg x \<le> deg_pressure cfg y"
proof (cases "0 < x \<and> 0 < ic_fill cfg")
  case True
  have e: "(0.78 :: real) = 39 / 50" "(1.0 :: real) = 1" "(0.0 :: real) = 0" "(60.0 :: real) = 60" by simp_all
  have "x / (ic_fill cfg * 60) \<le> y / (ic_fill cfg * 60)" using True assms by (intro divide_right_mono) auto
  then have "min 1 (x / (ic_fill cfg * 60)) \<le> min 1 (y / (ic_fill cfg * 60))" by (rule min.mono [OF order_refl])
  then show ?thesis using True assms unfolding deg_pressure_def e by simp
next
  case False
  have e: "(0.78 :: real) = 39 / 50" "(1.0 :: real) = 1" "(0.0 :: real) = 0" "(60.0 :: real) = 60" by simp_all
  show ?thesis
  proof (cases "0 < x")
    case True
    then show ?thesis using False assms unfolding deg_pressure_def e by simp
  next
    case x: False
    then have "deg_pressure cfg x = 0" unfolding deg_pressure_def e by simp
    then show ?thesis using deg_pressure_bounds [of cfg y] by simp
  qed
qed

lemma lerp_one_mono: "p \<le> 1 \<Longrightarrow> r \<le> r' \<Longrightarrow> lerp p 1 r \<le> lerp p 1 r'"
  by (simp add: lerp_def mult_left_mono)

lemma win_break_state:
  assumes "w_state w = DEGRADED" "w_degraded w = Some t0" "w_broken w = None" "w' = fst (run_state (win_set cfg BROKEN w) s)"
  shows "w_degraded w' = Some t0 \<and> w_broken w' = Some (clock s 0) \<and> p_break w' = deg_pressure cfg (clock s 0 - t0)"
  using assms by (auto simp: win_set_def get_time_def State_Monad.bind_def State_Monad.return_def Let_def since_or_zero_def)

text \<open>C36. Breaking the domain controller does not move the fill of its system drive at that moment: the pressure is what it
  was, it never falls while the incident lasts, it stays between 0 and 1, and when the break ramp is over it is 1; and what any render
  reads is this pressure at its reading of the clock.\<close>

theorem win_break_without_jump:
  assumes "w_state w = DEGRADED" "w_degraded w = Some t0" "w_broken w = None"
    and "w' = fst (run_state (win_set cfg BROKEN w) s)" "t = clock s 0"
  shows "pressure_at cfg w' t = pressure_at cfg w t
    \<and> (\<forall>u v. t \<le> u \<longrightarrow> u \<le> v \<longrightarrow> pressure_at cfg w' u \<le> pressure_at cfg w' v)
    \<and> (\<forall>u. 0 \<le> pressure_at cfg w' u \<and> pressure_at cfg w' u \<le> 1)
    \<and> (\<forall>u. t < u \<longrightarrow> t + ic_ramp cfg * 60 \<le> u \<longrightarrow> pressure_at cfg w' u = 1)
    \<and> (\<forall>s2. fst (run_state (win_pressure cfg w') s2) = pressure_at cfg w' (clock s2 0))"
proof (intro conjI allI impI)
  have f: "w_degraded w' = Some t0" "w_broken w' = Some t" "p_break w' = deg_pressure cfg (t - t0)"
    using win_break_state [OF assms(1-4)] assms(5) by auto
  let ?g = "\<lambda>u. if ic_ramp cfg \<le> 0 then 1 else min 1 ((u - t) / (ic_ramp cfg * 60))"
  have p: "pressure_at cfg w' u = max 0 (min 1 (if t < u then max (deg_pressure cfg (u - t0)) (lerp (deg_pressure cfg (t - t0)) 1 (?g u))
      else deg_pressure cfg (u - t0)))" for u
    using f by (simp add: pressure_formula Let_def since_or_zero_def)
  show "pressure_at cfg w' t = pressure_at cfg w t"
    unfolding p using assms(2,3) by (simp add: pressure_formula Let_def since_or_zero_def)
  show "pressure_at cfg w' u \<le> pressure_at cfg w' v" if uv: "t \<le> u" "u \<le> v" for u v
  proof -
    have d: "deg_pressure cfg (u - t0) \<le> deg_pressure cfg (v - t0)" using uv by (intro deg_pressure_mono) simp
    have "?g u \<le> ?g v"
    proof (cases "ic_ramp cfg \<le> 0")
      case False
      then have "(u - t) / (ic_ramp cfg * 60) \<le> (v - t) / (ic_ramp cfg * 60)" using uv by (intro divide_right_mono) auto
      from min.mono [OF order_refl this] False show ?thesis by (simp only: if_False)
    qed simp
    then have l: "lerp (deg_pressure cfg (t - t0)) 1 (?g u) \<le> lerp (deg_pressure cfg (t - t0)) 1 (?g v)"
      using deg_pressure_bounds [of cfg "t - t0"] by (intro lerp_one_mono) auto
    show ?thesis unfolding p by (intro max.mono min.mono order_refl) (use uv d l in \<open>auto simp: le_max_iff_disj\<close>)
  qed
  show "0 \<le> pressure_at cfg w' u" "pressure_at cfg w' u \<le> 1" for u unfolding p by simp_all
  show "pressure_at cfg w' u = 1" if "t < u" "t + ic_ramp cfg * 60 \<le> u" for u
  proof -
    have "?g u = 1" using that by (auto simp: min_def le_divide_eq)
    then have "lerp (deg_pressure cfg (t - t0)) 1 (?g u) = 1" by (simp add: lerp_def)
    then show ?thesis using that unfolding p by simp
  qed
qed (rule pressure_any_run)

theorem win_break_without_jump_witness:
  "pressure_at \<lparr>hc_hostname = ''dc'', hc_version = ''2'', hc_start = 0, ic_auto_break = 18, ic_fill = 15, ic_ramp = 3\<rparr>
     (fst (run_state (win_set \<lparr>hc_hostname = ''dc'', hc_version = ''2'', hc_start = 0, ic_auto_break = 18, ic_fill = 15, ic_ramp = 3\<rparr> BROKEN
        \<lparr>w_state = DEGRADED, w_since = 100, w_degraded = Some 100, w_broken = None, p_break = 0, backup_since = 0, cleanup_ran = 0\<rparr>)
       \<lparr>clock = (\<lambda>k. 400), noise = (\<lambda>k. 0), gauges = Map.empty, counters = Map.empty\<rparr>)) 600 = 1"
  using win_break_without_jump [of "\<lparr>w_state = DEGRADED, w_since = 100, w_degraded = Some 100, w_broken = None, p_break = 0, backup_since = 0, cleanup_ran = 0\<rparr>"
      100 _ "\<lparr>hc_hostname = ''dc'', hc_version = ''2'', hc_start = 0, ic_auto_break = 18, ic_fill = 15, ic_ramp = 3\<rparr>"
      "\<lparr>clock = (\<lambda>k. 400), noise = (\<lambda>k. 0), gauges = Map.empty, counters = Map.empty\<rparr>", OF _ _ _ refl refl] by simp

section \<open>The files that carry the fill\<close>

lemma shares_sum:
  assumes "0 \<le> (e :: int)"
  shows "\<exists>a b c d. map (\<lambda>(path, base, share). py_trunc (share * real_of_int e)) GROWING_FILES = [a, b, c, d]
     \<and> a + b + c + d \<le> e \<and> e < a + b + c + d + 4 \<and> 0 \<le> a \<and> 0 \<le> b \<and> 0 \<le> c \<and> 0 \<le> d"
proof -
  have v: "(0.72 :: real) = 72 / 100" "(0.14 :: real) = 14 / 100" "(0.09 :: real) = 9 / 100" "(0.05 :: real) = 5 / 100" by simp_all
  have "72 / 100 * real_of_int e + 14 / 100 * real_of_int e + 9 / 100 * real_of_int e + 5 / 100 * real_of_int e = e" by simp
  then show ?thesis
    using assms unfolding GROWING_FILES_def v by (simp add: py_trunc_def) linarith
qed

text \<open>The listing with the growth apart from the file's own size and time.\<close>

definition own_file :: "(int \<Rightarrow> real) \<Rightarrow> int \<Rightarrow> real \<Rightarrow> nat \<times> string \<times> int \<times> real \<Rightarrow> int \<times> int" where
  "own_file roll anchor now = (\<lambda>(i, path, base, share).
     if endswith path ''Security.evtx'' then (base + py_trunc ((now - 1767225600) * 2500) mod 3200000000, py_trunc now - 2)
     else if endswith path ''edb.log'' then (base, py_trunc now - 1)
     else (py_trunc (real_of_int base * (1.0 + 0.06 * (roll (anchor + int i) * 2 - 1))), anchor))"

lemma growing_files_run:
  "fst (run_state (growing_files cfg roll w now) s) =
     (let e = fst (run_state (c_fill_extra_kb cfg w) s); anchor = max (py_trunc (cleanup_ran w)) (win_last_daily now 3 15)
      in map (\<lambda>x. (fst (snd x), fst (own_file roll anchor now x) + (if disk_dying w then py_trunc (snd (snd (snd x)) * real_of_int e) * 1024 else 0),
            if disk_dying w then py_trunc now - 3 else snd (own_file roll anchor now x))) (enumerate 0 GROWING_FILES))"
  unfolding growing_files_def Let_def
  by (simp add: State_Monad.bind_def State_Monad.return_def case_prod_unfold) (auto simp: own_file_def)

lemma sum_apart: "sum_list (map (\<lambda>x. f x + g x) xs) - sum_list (map f xs) = sum_list (map g (xs :: 'a list) :: int list)"
  by (induction xs) auto

lemma extra_same: "fst (run_state (c_fill_extra_kb cfg (w\<lparr>w_state := v\<rparr>)) s) = fst (run_state (c_fill_extra_kb cfg w) s)"
proof -
  have "fst (run_state (win_pressure cfg (w\<lparr>w_state := v\<rparr>)) s) = fst (run_state (win_pressure cfg w) s)"
    unfolding pressure_run Let_def by simp
  then show ?thesis by (simp add: c_fill_extra_kb_def State_Monad.bind_def State_Monad.return_def case_prod_unfold)
qed

lemma extra_nonneg: "0 \<le> fst (run_state (c_fill_extra_kb cfg w) s)"
proof -
  have "0 \<le> fst (run_state (win_pressure cfg w) s)" unfolding pressure_run by simp
  then show ?thesis by (simp add: c_fill_extra_kb_def State_Monad.bind_def State_Monad.return_def case_prod_unfold py_trunc_nonneg)
qed



end
