(* ===== verification/Host_Lifecycle.thy ===== *)
theory Host_Lifecycle
  imports Host_Story
begin

text \<open>
  The life of a host's incident record: what the admin routes and the escalation thread can do to it from the
  start of the process on, and what a restart brings back.
\<close>

section \<open>The incident record over a run\<close>

text \<open>One event that can change the record, each at its own clock readings: a request to the web server, or a
  round of the escalation thread.\<close>

datatype host_event = Request string | Round

definition host_event_run :: "'a incident_cfg_scheme \<Rightarrow> host_event \<Rightarrow> dstate \<Rightarrow> (sim, dstate) state" where
  "host_event_run cfg e d = (case e of
     Request url \<Rightarrow> do { (_, d') \<leftarrow> host_get url d; State_Monad.return d' }
   | Round \<Rightarrow> watchdog_round cfg d)"

text \<open>A clock that does not run backwards and stays between two moments.\<close>

definition steady :: "real \<Rightarrow> real \<Rightarrow> sim \<Rightarrow> bool" where
  "steady t t' s \<longleftrightarrow> (\<forall>k. t \<le> clock s k \<and> clock s k \<le> clock s (Suc k) \<and> clock s k \<le> t')"

inductive host_reach :: "'a incident_cfg_scheme \<Rightarrow> string \<Rightarrow> dstate \<Rightarrow> real \<Rightarrow> bool" for cfg start_state where
  boot: "host_reach cfg start_state (host_boot start_state t) t"
| event: "host_reach cfg start_state d t \<Longrightarrow> steady t t' s \<Longrightarrow> t \<le> t'
    \<Longrightarrow> host_reach cfg start_state (fst (run_state (host_event_run cfg e d) s)) t'"

inductive_cases host_reachE: "host_reach cfg start_state d t"

text \<open>The three fields agree, and no moment they name is later than \<open>t\<close>.\<close>

definition incident_ok :: "dstate \<Rightarrow> real \<Rightarrow> bool" where
  "incident_ok d t \<longleftrightarrow> st d \<in> set host_states \<and> st_since d \<le> t
     \<and> (case degraded_since d of None \<Rightarrow> st d = HEALTHY | Some x \<Rightarrow> st d \<noteq> HEALTHY \<and> x \<le> t)
     \<and> (case broken_since d of None \<Rightarrow> st d \<noteq> BROKEN
        | Some x \<Rightarrow> st d = BROKEN \<and> x \<le> t \<and> (case degraded_since d of None \<Rightarrow> False | Some y \<Rightarrow> y \<le> x))"

lemma incident_ok_later: "incident_ok d t \<Longrightarrow> t \<le> t' \<Longrightarrow> incident_ok d t'"
  by (auto simp: incident_ok_def split: option.splits)

lemma host_set_ok:
  assumes "incident_ok d t" "v \<in> set host_states" "steady t t' s"
  shows "incident_ok (fst (run_state (host_set v d) s)) t'"
proof -
  have c: "t \<le> clock s k" "clock s k \<le> t'" "clock s k \<le> clock s (Suc k)" for k using assms(3) by (simp_all add: steady_def)
  note c0 = c [of 0] and c1 = c [of "Suc 0"] and c2 = c [of "Suc (Suc 0)"]
  show ?thesis
    using assms(1,2) c0 c1 c2
    by (auto simp: host_set_def incident_ok_def host_states_def get_time_def State_Monad.bind_def State_Monad.return_def Let_def
        split: option.splits)
qed

lemma action_target: "map_of ACTION_TO_STATE a = Some v \<Longrightarrow> v \<in> set host_states"
  by (auto simp: ACTION_TO_STATE_def host_states_def split: if_splits)

lemma host_get_run:
  "fst (run_state (do { (_, d') \<leftarrow> host_get url d; State_Monad.return d' }) s) = d
   \<or> (\<exists>v \<in> set host_states. fst (run_state (do { (_, d') \<leftarrow> host_get url d; State_Monad.return d' }) s) = fst (run_state (host_set v d) s))"
  using action_target
  by (auto simp: host_get_def Let_def State_Monad.bind_def State_Monad.return_def case_prod_unfold split: option.split if_splits)

lemma watchdog_run:
  "fst (run_state (watchdog_round cfg d) s) = d
   \<or> fst (run_state (watchdog_round cfg d) s) = fst (run_state (host_set BROKEN d) (s\<lparr>clock := \<lambda>k. clock s (Suc k)\<rparr>))"
  by (auto simp: watchdog_round_def state_since_seconds_def get_time_def Let_def State_Monad.bind_def State_Monad.return_def)

lemma host_event_ok:
  assumes "incident_ok d t" "steady t t' s" "t \<le> t'"
  shows "incident_ok (fst (run_state (host_event_run cfg e d) s)) t'"
proof (cases e)
  case (Request url)
  then show ?thesis
    using host_get_run [of url d s] host_set_ok [OF assms(1) _ assms(2)] incident_ok_later [OF assms(1,3)]
    by (auto simp: host_event_run_def)
next
  case Round
  have "steady t t' (s\<lparr>clock := \<lambda>k. clock s (Suc k)\<rparr>)" using assms(2) by (simp add: steady_def)
  then show ?thesis
    using Round watchdog_run [of cfg d s] host_set_ok [OF assms(1), of BROKEN] incident_ok_later [OF assms(1,3)]
    by (auto simp: host_event_run_def host_states_def)
qed

lemma host_boot_ok: "incident_ok (host_boot start_state t) t"
  by (auto simp: incident_ok_def host_boot_def host_states_def Let_def)

text \<open>C39. From the start of the process on, whatever requests the web server gets and however often the escalation
  thread looks, the incident record of a host agrees with itself: its state is one of the three, it has a degradation
  moment exactly when it is not healthy and a break moment exactly when it is broken, the break does not come before
  the degradation, and no recorded moment lies in the future.\<close>

theorem host_record_invariant: "host_reach cfg start_state d t \<Longrightarrow> incident_ok d t"
  by (induction rule: host_reach.induct) (auto intro: host_boot_ok host_event_ok)

lemma host_record_invariant_witness:
  "incident_ok (fst (run_state (host_event_run \<lparr>hc_hostname = ''w'', hc_version = ''2'', hc_start = 0, ic_auto_break = 18, ic_fill = 15, ic_ramp = 3\<rparr>
      (Request ''/admin/break?ui=1'') (host_boot ''healthy'' 5)) \<lparr>clock = (\<lambda>k. 7), noise = (\<lambda>k. 0), gauges = Map.empty, counters = Map.empty\<rparr>)) 7"
  by (rule host_record_invariant [OF host_reach.event [OF host_reach.boot]]) (simp_all add: steady_def)

section \<open>The escalation\<close>

text \<open>The rounds of the escalation thread, each with the environment it runs in.\<close>

definition watchdog_rounds :: "'a incident_cfg_scheme \<Rightarrow> sim list \<Rightarrow> dstate \<Rightarrow> dstate" where
  "watchdog_rounds cfg ss d = fold (\<lambda>s d. fst (run_state (watchdog_round cfg d) s)) ss d"

lemma watchdog_idle: "st d \<noteq> DEGRADED \<Longrightarrow> watchdog_rounds cfg ss d = d"
  by (induction ss) (simp_all add: watchdog_rounds_def watchdog_round_def State_Monad.return_def)

lemma watchdog_degraded:
  assumes "st d = DEGRADED" "degraded_since d \<noteq> None"
  shows "fst (run_state (watchdog_round cfg d) s)
    = (if ic_auto_break cfg * 60 \<le> clock s 0 - st_since d
       then \<lparr>st = BROKEN, st_since = clock s 1, degraded_since = degraded_since d,
              broken_since = (if broken_since d = None then Some (clock s 2) else broken_since d)\<rparr> else d)"
  using assms
  by (cases d) (auto simp: watchdog_round_def state_since_seconds_def host_set_def get_time_def Let_def State_Monad.bind_def
      State_Monad.return_def numeral_2_eq_2)

text \<open>C40. The automatic escalation: a host left degraded stays as it is through every round of the thread that reads
  the clock before the delay has passed, the first round that reads it later breaks the host, without
  forgetting when the degradation began, and the rounds after that change nothing.\<close>

theorem escalation_on_time:
  assumes "st d = DEGRADED" "degraded_since d \<noteq> None"
    and "\<forall>s \<in> set early. clock s 0 - st_since d < ic_auto_break cfg * 60"
    and "ic_auto_break cfg * 60 \<le> clock s 0 - st_since d"
  shows "watchdog_rounds cfg early d = d \<and> watchdog_rounds cfg (early @ s # later) d = \<lparr>st = BROKEN, st_since = clock s 1, degraded_since = degraded_since d,
      broken_since = (if broken_since d = None then Some (clock s 2) else broken_since d)\<rparr>"
proof
  have "\<forall>s \<in> set early. fst (run_state (watchdog_round cfg d) s) = d"
    using assms(3) by (simp add: watchdog_degraded [OF assms(1,2)] not_le [symmetric])
  then show e: "watchdog_rounds cfg early d = d" by (induction early) (simp_all add: watchdog_rounds_def)
  have "watchdog_rounds cfg (early @ s # later) d
      = watchdog_rounds cfg later (fst (run_state (watchdog_round cfg (watchdog_rounds cfg early d)) s))"
    by (simp add: watchdog_rounds_def)
  then show "watchdog_rounds cfg (early @ s # later) d = \<lparr>st = BROKEN, st_since = clock s 1, degraded_since = degraded_since d,
      broken_since = (if broken_since d = None then Some (clock s 2) else broken_since d)\<rparr>"
    using assms(4) e by (simp add: watchdog_degraded [OF assms(1,2)] watchdog_idle)
qed

theorem escalation_on_time_witness:
  "watchdog_rounds \<lparr>hc_hostname = ''w'', hc_version = ''2'', hc_start = 0, ic_auto_break = 1, ic_fill = 15, ic_ramp = 3\<rparr>
     [\<lparr>clock = (\<lambda>k. 20), noise = (\<lambda>k. 0), gauges = Map.empty, counters = Map.empty\<rparr>,
      \<lparr>clock = (\<lambda>k. 80), noise = (\<lambda>k. 0), gauges = Map.empty, counters = Map.empty\<rparr>]
     \<lparr>st = DEGRADED, st_since = 5, degraded_since = Some 5, broken_since = None\<rparr>
   = \<lparr>st = BROKEN, st_since = 80, degraded_since = Some 5, broken_since = Some 80\<rparr>"
  using escalation_on_time [of "\<lparr>st = DEGRADED, st_since = 5, degraded_since = Some 5, broken_since = None\<rparr>"
    "[\<lparr>clock = (\<lambda>k. 20), noise = (\<lambda>k. 0), gauges = Map.empty, counters = Map.empty\<rparr>]"
    "\<lparr>hc_hostname = ''w'', hc_version = ''2'', hc_start = 0, ic_auto_break = 1, ic_fill = 15, ic_ramp = 3\<rparr>"
    "\<lparr>clock = (\<lambda>k. 80), noise = (\<lambda>k. 0), gauges = Map.empty, counters = Map.empty\<rparr>" "[]"] by simp

section \<open>The restart\<close>

text \<open>A restart of a host process from its own saved state: the new process, whatever it booted with, has the
  start time and the incident record of the old one, each counter the old one had stands where it stood with its last
  reading, its own amplitude and noise kept, a counter the old one did not have is left as created, and no counter is lost
  or made up; and without a file the process goes on as it booted.\<close>

theorem restart_restores_host:
  "host_load None now q = q \<and>
   (let r = host_load (Some (host_save p)) now q in
     hp_start r = hp_start p \<and> hp_inc r = hp_inc p \<and> dom (hp_counters r) = dom (hp_counters q)
     \<and> (\<forall>n c c'. hp_counters q n = Some c \<longrightarrow> hp_counters p n = Some c' \<longrightarrow>
          hp_counters r n = Some (c\<lparr>acc := acc c', clast := clast c'\<rparr>))
     \<and> (\<forall>n. hp_counters p n = None \<longrightarrow> hp_counters r n = hp_counters q n)
     \<and> host_save (host_load (Some (host_save r)) now q) = host_save r)"
proof -
  have "host_load (Some (host_save (host_load (Some (host_save p)) now q))) now q = host_load (Some (host_save p)) now q"
    by (simp add: host_load_def host_save_def fun_eq_iff split: option.split)
  then show ?thesis
    by (auto simp: Let_def host_load_def host_save_def dom_def split: option.splits)
qed

theorem restart_restores_host_witness:
  "hp_counters (host_load (Some (host_save \<lparr>hp_start = 3, hp_inc = host_boot ''broken'' 3,
       hp_counters = [''cpu.user'' \<mapsto> (counter_init 0 (3 / 10) 1200 50 9)]\<rparr>)) 20
     \<lparr>hp_start = 20, hp_inc = host_boot ''healthy'' 20, hp_counters = [''cpu.user'' \<mapsto> (counter_init 1 (3 / 10) 1200 0 20)]\<rparr>) ''cpu.user''
   = Some (counter_init 1 (3 / 10) 1200 50 9)"
  using restart_restores_host [of 20
      "\<lparr>hp_start = 20, hp_inc = host_boot ''healthy'' 20, hp_counters = [''cpu.user'' \<mapsto> (counter_init 1 (3 / 10) 1200 0 20)]\<rparr>"
      "\<lparr>hp_start = 3, hp_inc = host_boot ''broken'' 3, hp_counters = [''cpu.user'' \<mapsto> (counter_init 0 (3 / 10) 1200 50 9)]\<rparr>"]
  by (simp add: Let_def counter_init_def)

end
