(* ===== verification/Host_Saved.thy ===== *)
theory Host_Saved
  imports Host_Incident Host_Primary Host_Pay Host_Win
begin

text \<open>
  The state files of the hosts whose saved form is not the one of \<open>Host_Incident\<close>: the two steady hosts
  (\<open>hosts/web-frontend-01\<close> and \<open>hosts/backup-01\<close>), \<open>hosts/db-postgres-01\<close> with the older files it still reads,
  \<open>hosts/payment-api\<close> with its flag, and \<open>hosts/win-dc-01\<close> with the fields of the fill.  \<open>None\<close> is no file, or one that cannot be read or
  parsed; the start time is in every file the programs write.
\<close>

section \<open>The counters of a file\<close>

definition dump_counters :: "(string \<rightharpoonup> counter) \<Rightarrow> string \<rightharpoonup> real \<times> real" where
  "dump_counters cs = (\<lambda>n. map_option (\<lambda>c. (acc c, clast c)) (cs n))"

definition load_counters :: "(string \<rightharpoonup> real \<times> real) \<Rightarrow> (string \<rightharpoonup> counter) \<Rightarrow> string \<rightharpoonup> counter" where
  "load_counters saved cs = (\<lambda>n. case cs n of None \<Rightarrow> None
     | Some c \<Rightarrow> (case saved n of None \<Rightarrow> Some c | Some (a, l) \<Rightarrow> Some (c\<lparr>acc := a, clast := l\<rparr>)))"

section \<open>The steady hosts\<close>

record steady_proc =
  sp_start :: real
  sp_since :: real
  sp_counters :: "string \<rightharpoonup> counter"

record steady_snap =
  ss_start :: real
  ss_since :: "real option"
  ss_counters :: "string \<rightharpoonup> real \<times> real"

definition web_save_state :: "steady_proc \<Rightarrow> steady_snap" where
  "web_save_state p = \<lparr>ss_start = sp_start p, ss_since = Some (sp_since p), ss_counters = dump_counters (sp_counters p)\<rparr>"

definition web_load_state :: "steady_snap option \<Rightarrow> real \<Rightarrow> steady_proc \<Rightarrow> steady_proc" where
  "web_load_state f now p = (case f of None \<Rightarrow> p | Some s \<Rightarrow>
     p\<lparr>sp_start := ss_start s, sp_since := (case ss_since s of None \<Rightarrow> now | Some t \<Rightarrow> t),
       sp_counters := load_counters (ss_counters s) (sp_counters p)\<rparr>)"

text \<open>\<open>backup-01\<close> has no state and no time of it.\<close>

definition backup_save_state :: "real \<times> (string \<rightharpoonup> counter) \<Rightarrow> real \<times> (string \<rightharpoonup> real \<times> real)" where
  "backup_save_state p = (fst p, dump_counters (snd p))"

definition backup_load_state :: "(real \<times> (string \<rightharpoonup> real \<times> real)) option \<Rightarrow> real \<times> (string \<rightharpoonup> counter) \<Rightarrow> real \<times> (string \<rightharpoonup> counter)" where
  "backup_load_state f p = (case f of None \<Rightarrow> p | Some (start, saved) \<Rightarrow> (start, load_counters saved (snd p)))"

section \<open>The primary database\<close>

text \<open>Files of the first version have the counters in the order of their creation.\<close>

datatype saved_counters = ByName "string \<rightharpoonup> real \<times> real" | ByPosition "(real \<times> real) list"

record primary_snap =
  pn_start :: real
  pn_state :: "string option"
  pn_degraded :: "real option"
  pn_broken :: "real option"
  pn_since :: "real option"
  pn_counters :: saved_counters

definition primary_save_state :: "host_proc \<Rightarrow> primary_snap" where
  "primary_save_state p = \<lparr>pn_start = hp_start p, pn_state = Some (st (hp_inc p)), pn_degraded = degraded_since (hp_inc p),
     pn_broken = broken_since (hp_inc p), pn_since = Some (st_since (hp_inc p)), pn_counters = ByName (dump_counters (hp_counters p))\<rparr>"

definition named_counters :: "string list \<Rightarrow> saved_counters \<Rightarrow> string \<rightharpoonup> real \<times> real" where
  "named_counters names saved = (case saved of ByName m \<Rightarrow> m
     | ByPosition xs \<Rightarrow> (if length xs = length names then map_of (zip names xs) else Map.empty))"

definition primary_load_state :: "string list \<Rightarrow> primary_snap option \<Rightarrow> real \<Rightarrow> host_proc \<Rightarrow> host_proc" where
  "primary_load_state names f now p = (case f of None \<Rightarrow> p | Some s \<Rightarrow>
     p\<lparr>hp_start := pn_start s,
       hp_inc := \<lparr>st = (case pn_state s of None \<Rightarrow> st (hp_inc p) | Some x \<Rightarrow> x),
                  st_since = (case pn_since s of None \<Rightarrow> now | Some t \<Rightarrow> t), degraded_since = pn_degraded s, broken_since = pn_broken s\<rparr>,
       hp_counters := load_counters (named_counters names (pn_counters s)) (hp_counters p)\<rparr>)"

section \<open>The payment host\<close>

record pay_proc =
  yp_start :: real
  yp_inc :: pay_state
  yp_counters :: "string \<rightharpoonup> counter"

record pay_snap =
  ys_start :: real
  ys_broken :: "bool option"
  ys_broken_since :: "real option"
  ys_since :: "real option"
  ys_counters :: "string \<rightharpoonup> real \<times> real"

definition pay_save_state :: "pay_proc \<Rightarrow> pay_snap" where
  "pay_save_state p = \<lparr>ys_start = yp_start p, ys_broken = Some (pb_broken (yp_inc p)), ys_broken_since = pb_broken_since (yp_inc p),
     ys_since = Some (pb_since (yp_inc p)), ys_counters = dump_counters (yp_counters p)\<rparr>"

definition pay_load_state :: "pay_snap option \<Rightarrow> real \<Rightarrow> pay_proc \<Rightarrow> pay_proc" where
  "pay_load_state f now p = (case f of None \<Rightarrow> p | Some s \<Rightarrow>
     p\<lparr>yp_start := ys_start s,
       yp_inc := \<lparr>pb_broken = (case ys_broken s of None \<Rightarrow> pb_broken (yp_inc p) | Some b \<Rightarrow> b),
                  pb_since = (case ys_since s of None \<Rightarrow> now | Some t \<Rightarrow> t), pb_broken_since = ys_broken_since s\<rparr>,
       yp_counters := load_counters (ys_counters s) (yp_counters p)\<rparr>)"

section \<open>The domain controller\<close>

record win_proc =
  wp_start :: real
  wp_inc :: win_state
  wp_counters :: "string \<rightharpoonup> counter"

record win_snap =
  ws_start :: real
  ws_state :: "string option"
  ws_degraded :: "real option"
  ws_broken :: "real option"
  ws_since :: "real option"
  ws_pressure :: "real option"
  ws_backup :: "real option"
  ws_cleanup :: "real option"
  ws_counters :: "string \<rightharpoonup> real \<times> real"

definition win_save_state :: "win_proc \<Rightarrow> win_snap" where
  "win_save_state p = (let w = wp_inc p in
     \<lparr>ws_start = wp_start p, ws_state = Some (w_state w), ws_degraded = w_degraded w, ws_broken = w_broken w, ws_since = Some (w_since w),
      ws_pressure = Some (p_break w), ws_backup = Some (backup_since w), ws_cleanup = Some (cleanup_ran w),
      ws_counters = dump_counters (wp_counters p)\<rparr>)"

definition win_load_state :: "win_snap option \<Rightarrow> real \<Rightarrow> win_proc \<Rightarrow> win_proc" where
  "win_load_state f now p = (case f of None \<Rightarrow> p | Some s \<Rightarrow>
     p\<lparr>wp_start := ws_start s,
       wp_inc := \<lparr>w_state = (case ws_state s of None \<Rightarrow> w_state (wp_inc p) | Some x \<Rightarrow> x),
                  w_since = (case ws_since s of None \<Rightarrow> now | Some t \<Rightarrow> t), w_degraded = ws_degraded s, w_broken = ws_broken s,
                  p_break = (case ws_pressure s of None \<Rightarrow> 0.78 | Some x \<Rightarrow> x),
                  backup_since = (case ws_backup s of None \<Rightarrow> ws_start s - real_of_int 3542400 | Some t \<Rightarrow> t),
                  cleanup_ran = (case ws_cleanup s of None \<Rightarrow> 0 | Some t \<Rightarrow> t)\<rparr>,
       wp_counters := load_counters (ws_counters s) (wp_counters p)\<rparr>)"

section \<open>What a restart brings back\<close>

text \<open>A counter of the new process stands where the one of that name stood, with its own amplitude and noise.\<close>

definition carried_over :: "(string \<rightharpoonup> counter) \<Rightarrow> (string \<rightharpoonup> counter) \<Rightarrow> (string \<rightharpoonup> counter) \<Rightarrow> bool" where
  "carried_over old fresh new \<longleftrightarrow> dom new = dom fresh
     \<and> (\<forall>n c. fresh n = Some c \<longrightarrow> new n = Some (case old n of None \<Rightarrow> c | Some c' \<Rightarrow> c\<lparr>acc := acc c', clast := clast c'\<rparr>))"

lemma load_dump: "carried_over cs cs' (load_counters (dump_counters cs) cs')"
  by (auto simp: carried_over_def load_counters_def dump_counters_def dom_def split: option.splits)

lemma dump_by_position:
  assumes "distinct names" "dom cs = set names" "xs = map (\<lambda>n. (acc (the (cs n)), clast (the (cs n)))) names"
  shows "named_counters names (ByPosition xs) = dump_counters cs"
proof
  fix n
  have "zip names xs = map (\<lambda>n. (n, (acc (the (cs n)), clast (the (cs n))))) names"
    unfolding assms(3) by (induction names) auto
  then have z: "named_counters names (ByPosition xs) n = map_of (map (\<lambda>n. (n, (acc (the (cs n)), clast (the (cs n))))) names) n"
    using assms(3) by (simp add: named_counters_def)
  show "named_counters names (ByPosition xs) n = dump_counters cs n"
  proof (cases "n \<in> set names")
    case True
    then have "cs n \<noteq> None" using assms(2) by blast
    then show ?thesis using z True map_of_map_restrict [of "\<lambda>n. (acc (the (cs n)), clast (the (cs n)))" names]
      by (auto simp: dump_counters_def)
  next
    case False
    then have "cs n = None" using assms(2) by blast
    then show ?thesis using z False map_of_map_restrict [of "\<lambda>n. (acc (the (cs n)), clast (the (cs n)))" names]
      by (simp add: dump_counters_def)
  qed
qed

text \<open>Restarts of the hosts with files of their own, from the file they saved: start time, incident and counters are
  what they were, for the steady hosts, the payment host, the domain controller and the primary database, whose older files by
  position are read to the same effect; and without a file a process stays as it booted.\<close>

lemma saved_states_restored:
  "(let r = web_load_state (Some (web_save_state p1)) now q1 in sp_start r = sp_start p1 \<and> sp_since r = sp_since p1
      \<and> carried_over (sp_counters p1) (sp_counters q1) (sp_counters r))
   \<and> (let r = backup_load_state (Some (backup_save_state p2)) q2 in fst r = fst p2 \<and> carried_over (snd p2) (snd q2) (snd r))
   \<and> (let r = pay_load_state (Some (pay_save_state p3)) now q3 in yp_start r = yp_start p3 \<and> yp_inc r = yp_inc p3
      \<and> carried_over (yp_counters p3) (yp_counters q3) (yp_counters r))
   \<and> (let r = win_load_state (Some (win_save_state p4)) now q4 in wp_start r = wp_start p4 \<and> wp_inc r = wp_inc p4
      \<and> carried_over (wp_counters p4) (wp_counters q4) (wp_counters r))
   \<and> (let r = primary_load_state names (Some (primary_save_state p5)) now q5 in hp_start r = hp_start p5 \<and> hp_inc r = hp_inc p5
      \<and> carried_over (hp_counters p5) (hp_counters q5) (hp_counters r)
      \<and> (distinct names \<longrightarrow> dom (hp_counters p5) = set names \<longrightarrow>
         primary_load_state names (Some ((primary_save_state p5)\<lparr>pn_counters := ByPosition (map (\<lambda>n. (acc (the (hp_counters p5 n)), clast (the (hp_counters p5 n)))) names)\<rparr>)) now q5 = r))
   \<and> web_load_state None now q1 = q1 \<and> backup_load_state None q2 = q2 \<and> pay_load_state None now q3 = q3 \<and> win_load_state None now q4 = q4 \<and> primary_load_state names None now q5 = q5"
proof -
  have "named_counters names (ByName m) = m" for m by (simp add: named_counters_def)
  then show ?thesis
    by (simp add: Let_def load_dump web_load_state_def web_save_state_def backup_load_state_def backup_save_state_def pay_load_state_def pay_save_state_def
        win_load_state_def win_save_state_def primary_load_state_def primary_save_state_def dump_by_position)
qed

end
