(* ===== verification/Host_Status.thy ===== *)
theory Host_Status
  imports Host_Worker Host_Mail Host_Files Host_Redis Host_Replica Host_Primary Host_Win Host_Backup Host_Web
begin

text \<open>
  What the web servers of the hosts answer: the metadata and the status bodies \<open>HttpHandler.do_GET\<close> computes in every
  \<open>hosts/*/serve.py\<close>, key by key in the order of the source with the readings in that order.  For the incident hosts they
  fill the replies \<open>AdminMeta\<close> and \<open>StatusJson\<close> of \<open>host_get\<close>, the routing they share; the domain controller and the two
  steady hosts have their handlers here.  The texts of \<open>STATE_META\<close> (labels and colours of the panel), the list of the
  toggles and the panel's path are constants of the pages and left out, as is the HTML of the panel.
\<close>

datatype status_value = VStr string | VInt int | VReal real | VNone

type_synonym status_body = "(string \<times> status_value) list"

section \<open>What the incident hosts share\<close>

text \<open>The values of the metadata, and the first two of every status body.\<close>

definition status_head :: "dstate \<Rightarrow> (sim, status_body) state" where
  "status_head d = do {
     s \<leftarrow> state_since_seconds d;
     State_Monad.return [(''state'', VStr (st d)), (''in_state_for_s'', VReal (round_dec 1 s))] }"

text \<open>The seconds until the automatic escalation; the clock is only read when one is due.\<close>

definition auto_break_in :: "'a incident_cfg_scheme \<Rightarrow> string \<Rightarrow> real \<Rightarrow> (sim, status_value) state" where
  "auto_break_in cfg state since =
     (if state = DEGRADED \<and> ic_auto_break cfg > 0
      then do { t \<leftarrow> get_time; State_Monad.return (VInt (py_round (max 0 (ic_auto_break cfg * 60 - (t - since))))) }
      else State_Monad.return VNone)"

section \<open>The incident hosts\<close>

definition worker_status :: "incident_cfg \<Rightarrow> dstate \<Rightarrow> (sim, status_body) state" where
  "worker_status cfg d = do {
     left \<leftarrow> auto_break_in cfg (st d) (st_since d);
     h \<leftarrow> status_head d;
     p \<leftarrow> worker_pressure cfg d;
     ds \<leftarrow> degraded_seconds d;
     k \<leftarrow> worker_oom_kills d;
     State_Monad.return (h @ [(''memory_pressure_pct'', VReal (round_dec 1 (p * 100))), (''leaking_for_s'', VReal (round_dec 1 ds)),
       (''oom_kills'', VInt k), (''auto_break_in_s'', left)]) }"

definition mail_status :: "incident_cfg \<Rightarrow> dstate \<Rightarrow> (sim, status_body) state" where
  "mail_status cfg d = do {
     left \<leftarrow> auto_break_in cfg (st d) (st_since d);
     h \<leftarrow> status_head d;
     n \<leftarrow> mail_deferred_count cfg d;
     m \<leftarrow> mail_active_count;
     ds \<leftarrow> degraded_seconds d;
     bs \<leftarrow> host_broken_seconds d;
     State_Monad.return (h @ [(''deferred_queue'', VInt n), (''active_queue'', VInt m), (''mx_flaky_for_s'', VReal (round_dec 1 ds)),
       (''mx_unreachable_for_s'', VReal (round_dec 1 bs)), (''auto_break_in_s'', left)]) }"

definition srv_pct :: "incident_cfg \<Rightarrow> dstate \<Rightarrow> (sim, real) state" where
  "srv_pct cfg d = do {
     t \<leftarrow> get_time;
     u \<leftarrow> srv_used_kb cfg d t;
     State_Monad.return (real_of_int u / real_of_int 2147483648 * 100.0) }"

definition hours_until_full :: "incident_cfg \<Rightarrow> dstate \<Rightarrow> (sim, real option) state" where
  "hours_until_full cfg d = do {
     rate \<leftarrow> fill_rate_gb_per_h cfg d;
     if rate \<le> 0 then State_Monad.return None
     else do {
       t \<leftarrow> get_time;
       u \<leftarrow> srv_used_kb cfg d t;
       let free_kb = max 0 (2147483648 - u);
       let free_gb = real_of_int free_kb / (1024.0 * 1024.0);
       State_Monad.return (Some (free_gb / rate)) } }"

definition files_status :: "incident_cfg \<Rightarrow> dstate \<Rightarrow> (sim, status_body) state" where
  "files_status cfg d = do {
     left \<leftarrow> auto_break_in cfg (st d) (st_since d);
     ttf \<leftarrow> hours_until_full cfg d;
     h \<leftarrow> status_head d;
     pct \<leftarrow> srv_pct cfg d;
     rate \<leftarrow> fill_rate_gb_per_h cfg d;
     t \<leftarrow> get_time;
     b \<leftarrow> runaway_log_bytes cfg d t;
     ds \<leftarrow> degraded_seconds d;
     State_Monad.return (h @ [(''srv_shares_used_pct'', VReal (round_dec 1 pct)), (''fill_rate_gb_per_h'', VReal (round_dec 1 rate)),
       (''hours_until_full'', (case ttf of None \<Rightarrow> VNone | Some x \<Rightarrow> VReal (round_dec 2 x))), (''runaway_log_bytes'', VInt b),
       (''filling_for_s'', VReal (round_dec 1 ds)), (''auto_break_in_s'', left)]) }"

definition redis_status :: "incident_cfg \<Rightarrow> dstate \<Rightarrow> (sim, status_body) state" where
  "redis_status cfg d = do {
     r \<leftarrow> redis_derived cfg d;
     left \<leftarrow> auto_break_in cfg (st d) (st_since d);
     h \<leftarrow> status_head d;
     ds \<leftarrow> degraded_seconds d;
     State_Monad.return (h @ [(''used_memory_pct_of_maxmemory'', VReal (round_dec 1 (rv_p r * 100))), (''used_memory_bytes'', VInt (rv_used_memory r)),
       (''maxmemory_bytes'', VInt 6442450944), (''hit_ratio_pct'', VReal (round_dec 1 (rv_hit_ratio r * 100))),
       (''evicted_keys_per_s'', VReal (round_dec 1 (rv_evict_rate r))), (''blocked_clients'', VInt (rv_blocked r)),
       (''deploy_live_for_s'', VReal (round_dec 1 ds)), (''auto_break_in_s'', left)]) }"

definition replica_status :: "replica_cfg \<Rightarrow> dstate \<Rightarrow> (sim, status_body) state" where
  "replica_status cfg d = do {
     (idle_sess, run_sess) \<leftarrow> connection_counts cfg d;
     left \<leftarrow> auto_break_in cfg (st d) (st_since d);
     h \<leftarrow> status_head d;
     ds \<leftarrow> degraded_seconds d;
     State_Monad.return (h @ [(''connections'', VInt (idle_sess + run_sess)), (''max_connections'', VInt (max_conn cfg)),
       (''connections_pct'', VReal (round_dec 1 (real_of_int (idle_sess + run_sess) / real_of_int (max_conn cfg) * 100))),
       (''idle_connections'', VInt idle_sess), (''active_connections'', VInt run_sess), (''leaking_for_s'', VReal (round_dec 1 ds)),
       (''auto_break_in_s'', left)]) }"

definition primary_status :: "primary_cfg \<Rightarrow> dstate \<Rightarrow> (sim, status_body) state" where
  "primary_status cfg d = do {
     left \<leftarrow> auto_break_in cfg (st d) (st_since d);
     h \<leftarrow> status_head d;
     m \<leftarrow> pri_degraded_minutes d;
     b \<leftarrow> host_broken_seconds d;
     q \<leftarrow> (if b \<noteq> 0 then do { b' \<leftarrow> host_broken_seconds d; State_Monad.return (py_round (b' + 47)) } else State_Monad.return 0);
     State_Monad.return (h @ [(''disk_dying_for_minutes'', VReal (round_dec 1 m)), (''stuck_query_seconds'', VInt q), (''auto_break_in_s'', left)]) }"

section \<open>The domain controller\<close>

text \<open>Its own \<open>set_state\<close> is behind the same routes.\<close>

definition win_get :: "incident_cfg \<Rightarrow> string \<Rightarrow> win_state \<Rightarrow> (sim, host_reply \<times> win_state) state" where
  "win_get cfg url w =
     (let (path, query) = partition_at (CHR ''?'') url;
          path = rstrip_by (\<lambda>c. c = CHR ''/'') path;
          path = (if path = [] then ''/'' else path)
      in if path = ''/admin'' then State_Monad.return (AdminPage, w)
         else if path = ''/admin/meta'' then State_Monad.return (AdminMeta, w)
         else case (if startswith path ''/admin/'' then map_of ACTION_TO_STATE (drop 7 path) else None) of
           Some target \<Rightarrow> do {
             w' \<leftarrow> win_set cfg target w;
             State_Monad.return (if contains ''ui=1'' query then Redirected target else Toggled target, w') }
         | None \<Rightarrow> State_Monad.return (StatusJson, w))"

definition win_status :: "incident_cfg \<Rightarrow> win_state \<Rightarrow> (sim, status_body) state" where
  "win_status cfg w = do {
     left \<leftarrow> auto_break_in cfg (w_state w) (w_since w);
     s \<leftarrow> win_since_seconds w;
     t \<leftarrow> get_time;
     u \<leftarrow> c_drive_used_kb cfg w t;
     State_Monad.return [(''state'', VStr (w_state w)), (''in_state_for_s'', VReal (round_dec 1 s)),
       (''c_drive_used_pct'', VReal (round_dec 1 (real_of_int u / real_of_int 125827068 * 100))),
       (''backup_agent'', VStr (if disk_dying w then ''stopped'' else ''running'')), (''auto_break_in_s'', left)] }"

section \<open>The steady hosts\<close>

definition steady_route :: "string \<Rightarrow> string" where
  "steady_route url = (let path = rstrip_by (\<lambda>c. c = CHR ''/'') (fst (partition_at (CHR ''?'') url)) in if path = [] then ''/'' else path)"

definition steady_meta :: "host_cfg \<Rightarrow> (sim, status_body) state" where
  "steady_meta cfg = do {
     t \<leftarrow> get_time;
     State_Monad.return [(''state'', VStr ''healthy''), (''in_state_for_s'', VReal (round_dec 1 (t - hc_start cfg)))] }"

text \<open>\<open>None\<close> is the panel.\<close>

definition web_get :: "host_cfg \<Rightarrow> string \<Rightarrow> (sim, status_body option) state" where
  "web_get cfg url =
     (if steady_route url = ''/admin'' then State_Monad.return None
      else if steady_route url = ''/admin/meta'' then do { b \<leftarrow> steady_meta cfg; State_Monad.return (Some b) }
      else do {
        t \<leftarrow> get_time;
        State_Monad.return (Some [(''host'', VStr (hc_hostname cfg)), (''role'', VStr ''nginx reverse proxy / TLS termination''),
          (''state'', VStr ''healthy''), (''uptime_s'', VInt (py_trunc (t - hc_start cfg) + 1209600))]) })"

definition backup_get :: "host_cfg \<Rightarrow> string \<Rightarrow> (sim, status_body option) state" where
  "backup_get cfg url =
     (if steady_route url = ''/admin'' then State_Monad.return None
      else if steady_route url = ''/admin/meta'' then do { b \<leftarrow> steady_meta cfg; State_Monad.return (Some b) }
      else do {
        t \<leftarrow> get_time;
        t1 \<leftarrow> get_time;
        t2 \<leftarrow> get_time;
        State_Monad.return (Some [(''host'', VStr (hc_hostname cfg)), (''role'', VStr ''restic backup host''),
          (''state'', VStr ''healthy''), (''uptime_s'', VInt (py_trunc (t - hc_start cfg) + 1036800)),
          (''last_backup_age_h'', VReal (round_dec 2 ((t1 - real_of_int (last_daily t2 1 7)) / 3600))), (''last_backup_exit_code'', VInt 0)]) })"

section \<open>The countdown and the toggles\<close>

text \<open>The countdown of a degraded host starts at the delay, is never negative, and shows zero at every clock reading at
  which the escalation thread would break the host.\<close>

lemma auto_break_in_range:
  assumes "st_since d \<le> clock s 0" "0 < ic_auto_break cfg" "st d = DEGRADED"
  obtains n where "fst (run_state (auto_break_in cfg (st d) (st_since d)) s) = VInt n" "0 \<le> n"
    "real_of_int n \<le> ic_auto_break cfg * 60 + 1 / 2"
proof -
  define x where "x = max 0 (ic_auto_break cfg * 60 - (clock s 0 - st_since d))"
  have "fst (run_state (auto_break_in cfg (st d) (st_since d)) s) = VInt (py_round x)"
    using assms by (simp add: auto_break_in_def get_time_def State_Monad.bind_def State_Monad.return_def x_def)
  moreover have "0 \<le> x" "x \<le> ic_auto_break cfg * 60" using assms by (auto simp: x_def)
  moreover have "- 1 < real_of_int (py_round x)" "real_of_int (py_round x) \<le> ic_auto_break cfg * 60 + 1 / 2"
    using py_round_bounds [of x] calculation(2,3) by linarith+
  ultimately show ?thesis using that by force
qed

lemma auto_break_in_due:
  assumes "0 < ic_auto_break cfg" "st d = DEGRADED" "ic_auto_break cfg * 60 \<le> clock s 0 - st_since d"
  shows "fst (run_state (auto_break_in cfg (st d) (st_since d)) s) = VInt 0"
    "st (fst (run_state (watchdog_round cfg d) s)) = BROKEN"
  using assms
  by (auto simp: auto_break_in_def watchdog_round_def state_since_seconds_def host_set_def get_time_def Let_def
      State_Monad.bind_def State_Monad.return_def max_def py_round_def split: option.split)

lemma auto_break_in_none:
  "st d \<noteq> DEGRADED \<or> ic_auto_break cfg \<le> 0 \<Longrightarrow> fst (run_state (auto_break_in cfg (st d) (st_since d)) s) = VNone"
  by (auto simp: auto_break_in_def State_Monad.return_def)

text \<open>A host that is not degraded has no time until it is full.\<close>

lemma hours_until_full_idle:
  "degraded_since d = None \<Longrightarrow> fst (run_state (hours_until_full cfg d) s) = None"
  by (simp add: hours_until_full_def fill_rate_gb_per_h_def degraded_seconds_def State_Monad.bind_def State_Monad.return_def Let_def)

text \<open>A request to the domain controller changes its record only by an action's \<open>set_state\<close>.\<close>

lemma win_get_changes:
  "snd (fst (run_state (win_get cfg url w) s)) = w
   \<or> (\<exists>v \<in> {HEALTHY, DEGRADED, BROKEN}. snd (fst (run_state (win_get cfg url w) s)) = fst (run_state (win_set cfg v w) s))"
  by (auto simp: win_get_def ACTION_TO_STATE_def Let_def State_Monad.bind_def State_Monad.return_def case_prod_unfold
      split: option.split if_splits)

end
