(* ===== verification/Py_Re.thy ===== *)
theory Py_Re
  imports Prelude
begin

text \<open>
  The part of Python's \<open>re\<close> the sources use: character classes, sequences, greedy repetition, one capturing group, word
  boundaries and one-character look-around, matched by backtracking.  A pattern yields all its matches at a position in the
  order in which the engine tries them; the match is the first of them.  Strings are code points below 256.
\<close>

section \<open>Patterns\<close>

datatype rx =
    Cls "char \<Rightarrow> bool"
  | Cat "rx list"
  | Rep nat "nat option" rx
  | Grp rx
  | WordBound
  | NotBehind "char \<Rightarrow> bool"
  | Ahead "char \<Rightarrow> bool"
  | NotAhead "char \<Rightarrow> bool"
  | AtEnd

definition ordc :: "char \<Rightarrow> nat" where
  "ordc c = of_char c"

definition word_char :: "char \<Rightarrow> bool" where
  "word_char c = (let n = ordc c in (48 \<le> n \<and> n \<le> 57) \<or> (65 \<le> n \<and> n \<le> 90) \<or> n = 95 \<or> (97 \<le> n \<and> n \<le> 122)
     \<or> n \<in> {170, 178, 179, 181, 185, 186, 188, 189, 190} \<or> (192 \<le> n \<and> n \<noteq> 215 \<and> n \<noteq> 247))"

definition between :: "char \<Rightarrow> char \<Rightarrow> char \<Rightarrow> bool" where
  "between a b c \<longleftrightarrow> ordc a \<le> ordc c \<and> ordc c \<le> ordc b"

definition alnum_char :: "char \<Rightarrow> bool" where
  "alnum_char c \<longleftrightarrow> between (CHR ''A'') (CHR ''Z'') c \<or> between (CHR ''a'') (CHR ''z'') c \<or> between (CHR ''0'') (CHR ''9'') c"

definition letter_char :: "char \<Rightarrow> bool" where
  "letter_char c \<longleftrightarrow> between (CHR ''A'') (CHR ''Z'') c \<or> between (CHR ''a'') (CHR ''z'') c"

text \<open>The lower case form that \<open>re.I\<close> compares by.\<close>

definition lower_code :: "char \<Rightarrow> nat" where
  "lower_code c = (let n = ordc c in if (65 \<le> n \<and> n \<le> 90) \<or> (192 \<le> n \<and> n \<le> 222 \<and> n \<noteq> 215) then n + 32 else n)"

definition lit :: "string \<Rightarrow> rx" where
  "lit s = Cat (map (\<lambda>c. Cls (\<lambda>x. x = c)) s)"

definition lit_nocase :: "string \<Rightarrow> rx" where
  "lit_nocase s = Cat (map (\<lambda>c. Cls (\<lambda>x. lower_code x = lower_code c)) s)"

definition optional :: "rx \<Rightarrow> rx" where
  "optional r = Rep 0 (Some 1) r"

section \<open>Matching\<close>

text \<open>A position and the span of the group, if it has taken part.\<close>

type_synonym mstate = "nat \<times> (nat \<times> nat) option"

text \<open>Up to \<open>n\<close> rounds, at least \<open>lo\<close>, as many as possible first.\<close>

primrec rounds :: "(mstate \<Rightarrow> mstate list) \<Rightarrow> nat \<Rightarrow> nat \<Rightarrow> mstate \<Rightarrow> mstate list" where
  "rounds f 0 lo m = (if lo = 0 then [m] else [])"
| "rounds f (Suc n) lo m = concat (map (rounds f n (lo - 1)) (f m)) @ (if lo = 0 then [m] else [])"

text \<open>A round of the patterns here consumes a character, so an open repetition ends with the string.\<close>

fun rx_ends :: "string \<Rightarrow> rx \<Rightarrow> mstate \<Rightarrow> mstate list" where
  "rx_ends s (Cls p) (i, g) = (if i < length s \<and> p (s ! i) then [(i + 1, g)] else [])"
| "rx_ends s (Cat []) m = [m]"
| "rx_ends s (Cat (r # rs)) m = concat (map (rx_ends s (Cat rs)) (rx_ends s r m))"
| "rx_ends s (Rep lo hi r) (i, g) = rounds (rx_ends s r) (case hi of None \<Rightarrow> lo + length s - i | Some h \<Rightarrow> h) lo (i, g)"
| "rx_ends s (Grp r) (i, g) = map (\<lambda>(j, _). (j, Some (i, j))) (rx_ends s r (i, g))"
| "rx_ends s WordBound (i, g) =
     (if (0 < i \<and> word_char (s ! (i - 1))) \<noteq> (i < length s \<and> word_char (s ! i)) then [(i, g)] else [])"
| "rx_ends s (NotBehind p) (i, g) = (if 0 < i \<and> p (s ! (i - 1)) then [] else [(i, g)])"
| "rx_ends s (Ahead p) (i, g) = (if i < length s \<and> p (s ! i) then [(i, g)] else [])"
| "rx_ends s (NotAhead p) (i, g) = (if i < length s \<and> p (s ! i) then [] else [(i, g)])"
| "rx_ends s AtEnd (i, g) = (if i = length s \<or> (i + 1 = length s \<and> s ! i = CHR 0x0A) then [(i, g)] else [])"

definition match_at :: "rx \<Rightarrow> string \<Rightarrow> nat \<Rightarrow> mstate option" where
  "match_at r s i = (case rx_ends s r (i, None) of [] \<Rightarrow> None | m # _ \<Rightarrow> Some m)"

definition re_search :: "rx \<Rightarrow> string \<Rightarrow> bool" where
  "re_search r s = list_ex (\<lambda>i. match_at r s i \<noteq> None) [0..<Suc (length s)]"

definition slice :: "string \<Rightarrow> nat \<Rightarrow> nat \<Rightarrow> string" where
  "slice s i j = take (j - i) (drop i s)"

text \<open>\<open>re.sub\<close>: the leftmost matches that do not overlap, from left to right; the replacement may depend on what was matched and
  on the group.  No pattern of the sources matches the empty string.\<close>

function sub_from :: "rx \<Rightarrow> (string \<Rightarrow> string \<Rightarrow> string) \<Rightarrow> string \<Rightarrow> nat \<Rightarrow> string" where
  "sub_from r f s i =
     (if i < length s
      then (case match_at r s i of
              Some (j, g) \<Rightarrow>
                (if i < j then f (slice s i j) (case g of None \<Rightarrow> [] | Some (a, b) \<Rightarrow> slice s a b) @ sub_from r f s j
                 else s ! i # sub_from r f s (i + 1))
            | None \<Rightarrow> s ! i # sub_from r f s (i + 1))
      else [])"
  by pat_completeness auto
termination by (relation "measure (\<lambda>(r, f, s, i). length s - i)") auto

declare sub_from.simps [simp del]

definition re_sub :: "rx \<Rightarrow> (string \<Rightarrow> string \<Rightarrow> string) \<Rightarrow> string \<Rightarrow> string" where
  "re_sub r f s = sub_from r f s 0"

section \<open>What a substitution can put into a string\<close>

lemma slice_chars: "c \<in> set (slice s i j) \<Longrightarrow> c \<in> set s"
  by (auto simp: slice_def dest: in_set_takeD in_set_dropD)

lemma sub_from_chars:
  assumes "\<And>c. c \<in> set s \<Longrightarrow> P c" and "\<And>m g c. c \<in> set (f m g) \<Longrightarrow> set m \<subseteq> set s \<Longrightarrow> set g \<subseteq> set s \<Longrightarrow> P c"
  shows "\<forall>c \<in> set (sub_from r f s i). P c"
proof (induction "length s - i" arbitrary: i rule: less_induct)
  case less
  have sl: "set (slice s a b) \<subseteq> set s" for a b using slice_chars by blast
  then have fm: "P c" if "c \<in> set (f (slice s a b) g)" "set g \<subseteq> set s" for a b g c using assms(2) that by blast
  have step: "\<forall>c \<in> set (sub_from r f s j). P c" if "i < length s" "i < j" for j using less [of j] that by simp
  show ?case
  proof (cases "i < length s")
    case True
    have one: "\<forall>c \<in> set (s ! i # sub_from r f s (i + 1)). P c" using step [of "i + 1"] True assms(1) by simp
    have more: "\<forall>c \<in> set (f (slice s i j) g @ sub_from r f s j). P c" if "i < j" "set g \<subseteq> set s" for j g
      using step [of j] fm [of _ i j g] that True by auto
    show ?thesis
    proof (cases "match_at r s i")
      case None
      then show ?thesis using one by (subst sub_from.simps) (simp add: True)
    next
      case (Some m)
      obtain j g where m: "m = (j, g)" by (cases m)
      have "set (case g of None \<Rightarrow> [] | Some (a, b) \<Rightarrow> slice s a b) \<subseteq> set s" using sl by (auto split: option.split)
      from more [OF _ this] one show ?thesis by (subst sub_from.simps) (simp add: True Some m)
    qed
  qed (simp add: sub_from.simps)
qed

lemma re_sub_chars:
  assumes "c \<in> set (re_sub r f s)" "\<And>c. c \<in> set s \<Longrightarrow> P c" "\<And>m g c. c \<in> set (f m g) \<Longrightarrow> set m \<subseteq> set s \<Longrightarrow> set g \<subseteq> set s \<Longrightarrow> P c"
  shows "P c"
  using sub_from_chars [of s P f r 0] assms unfolding re_sub_def by blast

text \<open>Without a match nothing changes.\<close>

lemma sub_from_no_match:
  "(\<And>j. i \<le> j \<Longrightarrow> j < length s \<Longrightarrow> match_at r s j = None) \<Longrightarrow> sub_from r f s i = drop i s"
proof (induction r f s i rule: sub_from.induct)
  case (1 r f s i)
  then show ?case
    by (subst sub_from.simps) (auto simp: Cons_nth_drop_Suc)
qed

lemma re_sub_no_match: "\<not> re_search r s \<Longrightarrow> re_sub r f s = s"
proof -
  assume n: "\<not> re_search r s"
  have "match_at r s j = None" if "j < length s" for j
  proof -
    have "j \<in> set [0..<Suc (length s)]" using that by simp
    then show ?thesis using n unfolding re_search_def list_ex_iff by blast
  qed
  then show ?thesis unfolding re_sub_def by (subst sub_from_no_match) simp_all
qed

end
