(* ===== verification/Sha256.thy ===== *)
theory Sha256
  imports Prelude
begin

text \<open>
  \<open>hashlib.sha256\<close> on 32-bit words, from which \<open>snmp/curate_walks.py\<close> derives the serial numbers, addresses and names
  it writes in place of recorded ones.
\<close>

section \<open>The constants\<close>

text \<open>The whole part of the \<open>k\<close>-th root of \<open>n\<close>, bit by bit from the highest, below \<open>r + 2 ^ b\<close>.\<close>

fun root_bits :: "nat \<Rightarrow> nat \<Rightarrow> nat \<Rightarrow> nat \<Rightarrow> nat" where
  "root_bits k n 0 r = r"
| "root_bits k n (Suc b) r = root_bits k n b (if (r + 2 ^ b) ^ k \<le> n then r + 2 ^ b else r)"

lemma root_bits_root:
  assumes "r ^ k \<le> n" "n < (r + 2 ^ b) ^ k"
  shows "root_bits k n b r ^ k \<le> n \<and> n < Suc (root_bits k n b r) ^ k"
  using assms by (induction k n b r rule: root_bits.induct) (simp_all add: mult_2 add.assoc)

definition small_primes :: "nat list" where
  "small_primes = filter (\<lambda>p. list_all (\<lambda>d. p mod d \<noteq> 0) [2..<p]) [2..<312]"

text \<open>The standard takes the first 32 bits behind the point of the cube roots of the first 64 primes for the rounds, and of the square roots of
  the first eight for the initial state.\<close>

definition root_fraction :: "nat \<Rightarrow> nat \<Rightarrow> 32 word" where
  "root_fraction k p = of_nat (root_bits k (p * 2 ^ (32 * k)) 37 0)"

lemma root_fraction_root:
  assumes "p < 2 ^ 10" "k \<in> {2, 3}"
  shows "\<exists>r. root_fraction k p = of_nat r \<and> r ^ k \<le> p * 2 ^ (32 * k) \<and> p * 2 ^ (32 * k) < Suc r ^ k"
proof (intro exI conjI)
  have "p * 2 ^ (32 * k) < 2 ^ 10 * 2 ^ (32 * k)" using assms(1) by simp
  also have "\<dots> \<le> (0 + 2 ^ 37) ^ k" using assms(2) by auto
  finally have b: "p * 2 ^ (32 * k) < (0 + 2 ^ 37) ^ k" .
  have z: "0 ^ k \<le> p * 2 ^ (32 * k)" using assms(2) by auto
  show "root_fraction k p = of_nat (root_bits k (p * 2 ^ (32 * k)) 37 0)" by (simp add: root_fraction_def)
  show "root_bits k (p * 2 ^ (32 * k)) 37 0 ^ k \<le> p * 2 ^ (32 * k)" "p * 2 ^ (32 * k) < Suc (root_bits k (p * 2 ^ (32 * k)) 37 0) ^ k"
    using root_bits_root [OF z b] by blast+
qed

definition round_constants :: "32 word list" where
  "round_constants = map (root_fraction 3) small_primes"

section \<open>The compression function\<close>

definition ror :: "nat \<Rightarrow> 32 word \<Rightarrow> 32 word" where
  "ror n x = drop_bit n x OR push_bit (32 - n) x"

type_synonym sha_state = "32 word \<times> 32 word \<times> 32 word \<times> 32 word \<times> 32 word \<times> 32 word \<times> 32 word \<times> 32 word"

definition sha_init :: sha_state where
  "sha_init = (case map (root_fraction 2) small_primes of
     a # b # c # d # e # f # g # h # _ \<Rightarrow> (a, b, c, d, e, f, g, h) | _ \<Rightarrow> (0, 0, 0, 0, 0, 0, 0, 0))"

definition sha_round :: "sha_state \<Rightarrow> 32 word \<times> 32 word \<Rightarrow> sha_state" where
  "sha_round s kw = (case s of (a, b, c, d, e, f, g, h) \<Rightarrow>
     (let t1 = h + (ror 6 e XOR ror 11 e XOR ror 25 e) + ((e AND f) XOR (NOT e AND g)) + fst kw + snd kw;
          t2 = (ror 2 a XOR ror 13 a XOR ror 22 a) + ((a AND b) XOR (a AND c) XOR (b AND c))
      in (t1 + t2, a, b, c, d + t1, e, f, g)))"

text \<open>The schedule, newest word first: sixteen words of the block and 48 derived ones.\<close>

definition sched_next :: "32 word list \<Rightarrow> 32 word list" where
  "sched_next ws = (let x = ws ! 14; y = ws ! 1
     in ((ws ! 15) + (ror 7 x XOR ror 18 x XOR drop_bit 3 x) + (ws ! 6) + (ror 17 y XOR ror 19 y XOR drop_bit 10 y)) # ws)"

definition schedule :: "32 word list \<Rightarrow> 32 word list" where
  "schedule block = rev ((sched_next ^^ 48) (rev block))"

definition sha_block :: "sha_state \<Rightarrow> 32 word list \<Rightarrow> sha_state" where
  "sha_block s block =
     (case (s, foldl sha_round s (zip round_constants (schedule block))) of
        ((a, b, c, d, e, f, g, h), (a', b', c', d', e', f', g', h')) \<Rightarrow>
          (a + a', b + b', c + c', d + d', e + e', f + f', g + g', h + h'))"

section \<open>The digest\<close>

definition be_bytes :: "nat \<Rightarrow> nat \<Rightarrow> nat list" where
  "be_bytes n x = map (\<lambda>k. x div 256 ^ k mod 256) (rev [0..<n])"

definition be_word :: "nat list \<Rightarrow> 32 word" where
  "be_word bs = of_nat (foldl (\<lambda>a b. 256 * a + b) 0 bs)"

definition sha_pad :: "nat list \<Rightarrow> nat list" where
  "sha_pad m = m @ 128 # replicate ((119 - length m mod 64) mod 64) 0 @ be_bytes 8 (8 * length m)"

definition sha_words :: "nat list \<Rightarrow> 32 word list" where
  "sha_words m = map (\<lambda>k. be_word (take 4 (drop (4 * k) m))) [0..<length m div 4]"

definition sha_blocks :: "nat list \<Rightarrow> 32 word list list" where
  "sha_blocks m = map (\<lambda>k. take 16 (drop (16 * k) (sha_words m))) [0..<length m div 64]"

definition sha256 :: "nat list \<Rightarrow> nat list" where
  "sha256 m = (case foldl sha_block sha_init (sha_blocks (sha_pad m)) of (a, b, c, d, e, f, g, h) \<Rightarrow>
     concat (map (\<lambda>w. be_bytes 4 (unat w)) [a, b, c, d, e, f, g, h]))"

lemma pad_whole:
  assumes "(r :: nat) < 64"
  shows "64 dvd 64 * q + r + 1 + (119 - r) mod 64 + 8"
proof -
  have "(119 - r) mod 64 = (if r \<le> 55 then 55 - r else 119 - r)"
  proof (cases "r \<le> 55")
    case True
    then have "119 - r = 64 + (55 - r)" by simp
    moreover have "(55 - r) mod 64 = 55 - r" by simp
    ultimately show ?thesis using True by (metis mod_add_self1)
  qed (use assms in simp)
  then have "64 * q + r + 1 + (119 - r) mod 64 + 8 = 64 * (q + (if r \<le> 55 then 1 else 2))"
    using assms by simp
  then show ?thesis by (metis dvd_triv_left)
qed

lemma sha_pad_whole: "64 dvd length (sha_pad m)"
  using pad_whole [of "length m mod 64" "length m div 64"] by (simp add: sha_pad_def be_bytes_def add_ac)

lemma be_bytes_range: "b \<in> set (be_bytes n x) \<Longrightarrow> b < 256"
  by (auto simp: be_bytes_def)

lemma sha256_length [simp]: "length (sha256 m) = 32"
  by (simp add: sha256_def be_bytes_def split: prod.split)

lemma sha256_bytes: "b \<in> set (sha256 m) \<Longrightarrow> b < 256"
  by (auto simp: sha256_def dest: be_bytes_range split: prod.splits)

section \<open>Text\<close>

text \<open>\<open>s.encode()\<close>: UTF-8, which has two bytes for the characters from 128 on.\<close>

definition utf8 :: "string \<Rightarrow> nat list" where
  "utf8 s = concat (map (\<lambda>c. let n = of_char c in if n < 128 then [n] else [192 + n div 64, 128 + n mod 64]) s)"

definition hex_up :: "nat \<Rightarrow> char" where
  "hex_up n = char_of (if n < 10 then 48 + n else 55 + n)"

definition hex2 :: "nat \<Rightarrow> string" where
  "hex2 b = [hex_up (b div 16), hex_up (b mod 16)]"

lemma hex_up_code: "n < 16 \<Longrightarrow> (of_char (hex_up n) :: nat) = (if n < 10 then 48 + n else 55 + n)"
  by (simp add: hex_up_def)

end
