(* ===== verification/Curate.thy ===== *)
theory Curate
  imports Py_Re Sha256 Snmp_Table
begin

text \<open>
  \<open>snmp/curate_walks.py\<close>: how a recorded SNMP walk becomes a file of \<open>snmp/walklib\<close>.  Identifying subtrees are dropped,
  identity values rewritten, the rest scrubbed by patterns.  The recorded files are the map \<open>sources\<close> from names to texts; a run
  goes from the state of the library directory to its next one.  The messages on the console are not modelled, but what the
  audit lists is (\<open>audit_values\<close>).
\<close>

section \<open>What is dropped and what is rewritten\<close>

definition GLOBAL_STRIP :: "string list" where
  "GLOBAL_STRIP = [
     ''.1.3.6.1.2.1.3.'',
     ''.1.3.6.1.2.1.4.'',
     ''.1.3.6.1.2.1.5.'',
     ''.1.3.6.1.2.1.6.'',
     ''.1.3.6.1.2.1.7.'',
     ''.1.3.6.1.2.1.10.'',
     ''.1.3.6.1.2.1.14.'',
     ''.1.3.6.1.2.1.15.'',
     ''.1.3.6.1.2.1.16.'',
     ''.1.3.6.1.2.1.17.'',
     ''.1.3.6.1.2.1.25.4.'',
     ''.1.3.6.1.2.1.25.5.'',
     ''.1.3.6.1.2.1.25.6.'',
     ''.1.3.6.1.2.1.26.'',
     ''.1.0.8802.'',
     ''.1.3.6.1.4.1.9.9.23.'',
     ''.1.3.6.1.4.1.9.9.43.'',
     ''.1.3.6.1.6.3.'']"

definition SYSNAME :: string where "SYSNAME = ''.1.3.6.1.2.1.1.5.0''"
definition SYSCONTACT :: string where "SYSCONTACT = ''.1.3.6.1.2.1.1.4.0''"
definition SYSLOCATION :: string where "SYSLOCATION = ''.1.3.6.1.2.1.1.6.0''"
definition IFALIAS :: string where "IFALIAS = ''.1.3.6.1.2.1.31.1.1.1.18.''"
definition IFPHYS :: string where "IFPHYS = ''.1.3.6.1.2.1.2.2.1.6.''"

definition SERIAL_PREFIXES :: "string list" where
  "SERIAL_PREFIXES = [
     ''.1.3.6.1.2.1.47.1.1.1.1.11.'',
     ''.1.3.6.1.2.1.47.1.1.1.1.14.'',
     ''.1.3.6.1.2.1.47.1.1.1.1.15.'',
     ''.1.3.6.1.2.1.43.5.1.1.17.'',
     ''.1.3.6.1.4.1.318.1.1.1.1.2.3.'',
     ''.1.3.6.1.4.1.318.1.4.1.4.'',
     ''.1.3.6.1.4.1.318.1.4.2.4.1.2.'',
     ''.1.3.6.1.4.1.12356.100.1.1.1.'',
     ''.1.3.6.1.4.1.6574.1.5.2.'',
     ''.1.3.6.1.4.1.674.10892.5.1.3.2.'',
     ''.1.3.6.1.4.1.674.10892.5.1.3.3.'',
     ''.1.3.6.1.4.1.674.10892.5.4.300.1.1.11.'']"

section \<open>Patterns\<close>

definition one_of :: "string \<Rightarrow> char \<Rightarrow> bool" where
  "one_of cs c \<longleftrightarrow> c \<in> set cs"

definition RE_EMAIL :: rx where
  "RE_EMAIL = Cat [Rep 1 None (Cls (\<lambda>c. alnum_char c \<or> one_of ''._%+-'' c)), lit ''@'',
     Rep 1 None (Cls (\<lambda>c. alnum_char c \<or> one_of ''.-'' c)), lit ''.'', Rep 2 None (Cls letter_char)]"

definition RE_SN :: rx where
  "RE_SN = Cat [WordBound, lit ''SN'', optional (lit '':''), optional (lit '' ''),
     Rep 4 None (Cls (\<lambda>c. alnum_char c \<or> c = CHR ''-''))]"

definition ip_char :: "char \<Rightarrow> bool" where
  "ip_char c \<longleftrightarrow> digit_char c \<or> c = CHR ''.''"

definition RE_IP :: rx where
  "RE_IP = Cat [NotBehind ip_char, Rep 3 (Some 3) (Grp (Cat [Rep 1 (Some 3) (Cls digit_char), lit ''.''])),
     Rep 1 (Some 3) (Cls digit_char), NotAhead ip_char]"

definition QT :: char where "QT = CHR 0x22"

definition RE_HEX :: rx where
  "RE_HEX = Cat [Cls (\<lambda>c. c = QT),
     Rep 0 None (Grp (Cat [Rep 2 (Some 2) (Cls (\<lambda>c. between (CHR ''0'') (CHR ''9'') c \<or> between (CHR ''A'') (CHR ''F'') c)), lit '' ''])),
     Cls (\<lambda>c. c = QT), AtEnd]"

section \<open>Invented values\<close>

definition map_ip :: "string \<Rightarrow> string" where
  "map_ip ip =
     (if startswith ip ''127.'' \<or> startswith ip ''0.'' \<or> startswith ip ''255.'' \<or> ip = ''0.0.0.0'' then ip
      else let h = sha256 (utf8 ip)
           in ''10.77.'' @ nat_str (h ! 0) @ ''.'' @ nat_str (if h ! 1 = 0 then 1 else h ! 1))"

definition fake_serial :: "string \<Rightarrow> string \<Rightarrow> string" where
  "fake_serial model oid = ''MR'' @ take 10 (concat (map hex2 (sha256 (utf8 (model @ '':'' @ oid)))))"

definition fake_mac :: "string \<Rightarrow> string \<Rightarrow> string" where
  "fake_mac model index =
     (let h = sha256 (utf8 (model @ '':'' @ index))
      in QT # ''00 1B 2C '' @ hex2 (h ! 0) @ '' '' @ hex2 (h ! 1) @ '' '' @ hex2 (h ! 2) @ '' '' @ [QT])"

section \<open>Strings written as hexadecimal bytes\<close>

text \<open>\<open>s.split()\<close>.\<close>

definition split_space :: "string \<Rightarrow> string list" where
  "split_space s = filter (\<lambda>w. w \<noteq> []) (split_on (CHR '' '') (map (\<lambda>c. if is_space c then CHR '' '' else c) s))"

definition hex_byte :: "string \<Rightarrow> nat" where
  "hex_byte b = foldl (\<lambda>a c. 16 * a + hex_val c) 0 b"

definition printable :: "char \<Rightarrow> bool" where
  "printable c \<longleftrightarrow> 32 \<le> ordc c \<and> ordc c \<le> 126"

definition decode_hex :: "string \<Rightarrow> string option" where
  "decode_hex value =
     (if match_at RE_HEX value 0 = None then None
      else let raw = map hex_byte (split_space (strip_by (\<lambda>c. c = QT) value))
           in if list_ex (\<lambda>b. 128 \<le> b) raw then None
              else let text = map char_of raw
                   in if list_all printable text \<or> CHR 0x0D \<in> set text \<or> CHR 0x0A \<in> set text then Some text else None)"

definition encode_hex :: "string \<Rightarrow> string" where
  "encode_hex text = QT # concat (map (\<lambda>c. hex2 (if ordc c < 128 then ordc c else 63) @ '' '') text) @ [QT]"

section \<open>Replacements\<close>

text \<open>A replacement string in its parts: the marker \<open>{h}\<close> is \<open>HashOf\<close>, the reference to the group \<open>Group1\<close>.\<close>

datatype piece = Lit string | HashOf | Group1

type_synonym sub = "rx \<times> piece list"

definition name_hash :: "string \<Rightarrow> nat" where
  "name_hash m = foldl (\<lambda>a b. 256 * a + b) 0 (sha256 (utf8 m)) mod 90 + 10"

definition fill :: "piece list \<Rightarrow> string \<Rightarrow> string \<Rightarrow> string" where
  "fill ps m g = concat (map (\<lambda>p. case p of Lit s \<Rightarrow> s | HashOf \<Rightarrow> nat_str (name_hash m) | Group1 \<Rightarrow> g) ps)"

definition apply_subs :: "string \<Rightarrow> sub list \<Rightarrow> string" where
  "apply_subs text subs = foldl (\<lambda>t (r, ps). re_sub r (fill ps) t) text subs"

definition scrub_text :: "string \<Rightarrow> string \<Rightarrow> sub list \<Rightarrow> string \<Rightarrow> string" where
  "scrub_text sysname model subs t =
     (let t = (if 3 \<le> length sysname then re_sub (lit_nocase sysname) (\<lambda>_ _. ''mr-'' @ model) t else t);
          t = re_sub RE_EMAIL (\<lambda>_ _. ''netops@meridian-retail.com'') t;
          t = re_sub RE_SN (\<lambda>_ _. ''SN:MR0000000000'') t;
          t = re_sub RE_IP (\<lambda>m _. map_ip m) t
      in apply_subs t subs)"

definition scrub_value :: "string \<Rightarrow> string \<Rightarrow> string \<Rightarrow> sub list \<Rightarrow> string" where
  "scrub_value value sysname model subs =
     (case decode_hex value of
        Some decoded \<Rightarrow>
          (let scrubbed = scrub_text sysname model subs decoded in if scrubbed = decoded then value else encode_hex scrubbed)
      | None \<Rightarrow> scrub_text sysname model subs value)"

section \<open>The models\<close>

record walk_cfg =
  w_src :: string
  w_cls :: string
  w_strip :: "string list"
  w_set :: "(string \<times> string) list"
  w_sub :: "sub list"

definition walk_cfg_of :: "string \<Rightarrow> string \<Rightarrow> string list \<Rightarrow> (string \<times> string) list \<Rightarrow> sub list \<Rightarrow> walk_cfg" where
  "walk_cfg_of src cls dropped forced subs = \<lparr>w_src = src, w_cls = cls, w_strip = dropped, w_set = forced, w_sub = subs\<rparr>"

definition name_char :: "char \<Rightarrow> bool" where
  "name_char c \<longleftrightarrow> alnum_char c \<or> c = CHR ''-''"

definition BM_SW :: "sub list" where
  "BM_SW = [(Cat [WordBound, lit_nocase ''bm-'', Rep 1 None (Cls name_char)], [Lit ''mr-sw-'', HashOf])]"

definition site_code :: rx where
  "site_code = Rep 2 (Some 8) (Cls (between (CHR ''A'') (CHR ''Z'')))"

definition HP_CPU :: string where "HP_CPU = ''.1.3.6.1.4.1.11.2.14.11.5.1.9.6.1.0''"

definition MODELS_1 :: "(string \<times> walk_cfg) list" where
  "MODELS_1 = [
     (''aruba-2930f'', walk_cfg_of ''Aruba-JL261A-2930F-24G-PoE-4SFP-Switch.txt'' ''switch'' []
       [(HP_CPU, ''20'')]
       BM_SW),
     (''aruba-6200f'', walk_cfg_of ''Aruba-JL725B-6200F-24G-CL4-4SFP-370W-Switch.txt'' ''switch'' [''.1.3.6.1.4.1.47196.4.1.1.3.17.'']
       []
       []),
     (''hp-2530'', walk_cfg_of ''HP-J9772A-2530-48G-PoEP-Switch.txt'' ''switch'' []
       [(HP_CPU, ''12'')]
       BM_SW),
     (''procurve-2510'', walk_cfg_of ''ProCurve-J9279A-Switch-2510G-24.txt'' ''switch'' []
       [(HP_CPU, ''9'')]
       [(Cat [WordBound, lit_nocase ''sw-'', Rep 3 None (Cls name_char)], [Lit ''mr-sw-'', HashOf])]),
     (''hp-5406r'', walk_cfg_of ''HP-J9850A-Switch-5406Rzl2.txt'' ''switch'' []
       [(HP_CPU, ''24''), (''.1.3.6.1.4.1.11.2.14.11.5.1.55.1.1.1.2.1'', ''3''), (''.1.3.6.1.4.1.11.2.14.11.5.1.55.1.1.1.2.2'', ''3'')]
       BM_SW),
     (''huawei-s6730'', walk_cfg_of ''HUAWEI-CloudEngine-S6730-H-V2.txt'' ''switch'' []
       []
       [])]"

definition MODELS_2 :: "(string \<times> walk_cfg) list" where
  "MODELS_2 = [
     (''lancom-router'', walk_cfg_of ''network-lancom-voip-router-lldp'' ''router'' []
       []
       []),
     (''fortigate'', walk_cfg_of ''Fortigate.txt'' ''firewall'' [''.1.3.6.1.4.1.12356.101.4.2.'']
       []
       [(Cat [lit ''Serial#:'', optional (lit '' ''), Rep 1 None (Cls word_char)], [Lit ''Serial#: MR0000000000'']),
        (Cat [WordBound, lit ''FGT80FTK'', Rep 1 None (Cls word_char)], [Lit ''MR0000000000'']),
        (lit ''FBIN'', [Lit ''MRHQ''])]),
     (''cisco-asa'', walk_cfg_of ''cisco-asa-9.16-no-name'' ''firewall'' []
       [(''.1.3.6.1.4.1.9.9.221.1.1.1.1.7.2.4'', ''120000000''), (''.1.3.6.1.4.1.9.9.221.1.1.1.1.18.2.4'', ''120000000''), (''.1.3.6.1.4.1.9.9.221.1.1.1.1.8.2.4'', ''192475648''), (''.1.3.6.1.4.1.9.9.221.1.1.1.1.20.2.4'', ''192475648''), (''.1.3.6.1.4.1.9.9.221.1.1.1.1.7.2.6'', ''9000000''), (''.1.3.6.1.4.1.9.9.221.1.1.1.1.18.2.6'', ''9000000''), (''.1.3.6.1.4.1.9.9.221.1.1.1.1.8.2.6'', ''15514560''), (''.1.3.6.1.4.1.9.9.221.1.1.1.1.20.2.6'', ''15514560'')]
       [(Cat [WordBound, lit ''ACYN'', Rep 0 None (Cls (\<lambda>c. c = CHR ''-'' \<or> word_char c))], [Lit ''mr-fw-dmz''])]),
     (''extreme-wlc'', walk_cfg_of ''network-extreme-wlc'' ''wlc'' []
       []
       [(Cat [lit ''AP-'', site_code, Rep 0 None (Grp (Cat [lit ''-'', site_code])), Ahead (\<lambda>c. c \<in> {CHR ''-'', CHR ''_''} \<or> digit_char c)], [Lit ''AP-S'', HashOf]),
        (Cat [WordBound, lit ''MMH-''], [Lit ''MR-''])]),
     (''kemp-lb'', walk_cfg_of ''loadbalancer-kemp-1'' ''loadbalancer'' []
       []
       [(Cat [WordBound, lit ''ITC'', Ahead (\<lambda>c. c \<in> {CHR '' '', CHR ''-''})], [Lit ''MR''])])]"

definition MODELS_3 :: "(string \<times> walk_cfg) list" where
  "MODELS_3 = [
     (''printer-ricoh'', walk_cfg_of ''printer-ricoh-c4000'' ''printer'' [''.1.3.6.1.2.1.43.18.'']
       [(''.1.3.6.1.4.1.367.3.2.1.2.24.1.1.5.1'', ''70''), (''.1.3.6.1.4.1.367.3.2.1.2.24.1.1.5.2'', ''80''), (''.1.3.6.1.4.1.367.3.2.1.2.24.1.1.5.3'', ''75''), (''.1.3.6.1.2.1.43.8.2.1.11.1.4'', ''0'')]
       []),
     (''printer-canon'', walk_cfg_of ''printer-canon-c5240-1'' ''printer'' [''.1.3.6.1.2.1.43.18.'']
       [(''.1.3.6.1.2.1.43.11.1.1.9.1.1'', ''62''), (''.1.3.6.1.2.1.43.11.1.1.9.1.2'', ''85''), (''.1.3.6.1.2.1.43.11.1.1.9.1.3'', ''71''), (''.1.3.6.1.2.1.43.11.1.1.9.1.4'', ''78'')]
       []),
     (''printer-zebra'', walk_cfg_of ''printer-zebra'' ''printer'' []
       []
       []),
     (''apc-symmetra'', walk_cfg_of ''usv-apc-symmetra-1'' ''ups'' [''.1.3.6.1.4.1.318.1.1.1.4.2.'']
       [(''.1.3.6.1.4.1.318.1.1.1.7.2.4.0'', ''01/01/2026'')]
       []),
     (''apc-pdu'', walk_cfg_of ''apc-netshelterpdu-advanced'' ''pdu'' []
       []
       []),
     (''gude-pdu'', walk_cfg_of ''gude-power-switch-1'' ''pdu'' []
       []
       [(lit ''eth_cf52235'', [Lit ''eth_001b2c0''])]),
     (''raritan-pdu'', walk_cfg_of ''pdu-raritan-1'' ''pdu'' []
       []
       []),
     (''akcp-sensor'', walk_cfg_of ''akcp-sensor-probe'' ''sensor'' []
       [(''.1.3.6.1.4.1.3854.1.2.2.1.18.1.3.0'', ''2'')]
       []),
     (''avtech-ra3s'', walk_cfg_of ''avtech-roomalert-3s'' ''sensor'' []
       []
       [])]"

definition MODELS_4 :: "(string \<times> walk_cfg) list" where
  "MODELS_4 = [
     (''synology-nas'', walk_cfg_of ''storage-synology-1'' ''nas'' []
       [(''.1.3.6.1.4.1.6574.1.5.4.0'', ''2'')]
       [(Cat [WordBound, lit ''mac'', Grp (Cls digit_char), lit ''='', Rep 12 (Some 12) (Cls hex_char)], [Lit ''mac'', Group1, Lit ''=001B2C00000'', Group1])]),
     (''brocade-fc'', walk_cfg_of ''fcswitch-brocade'' ''fcswitch'' [''.1.3.6.1.4.1.1588.2.1.1.1.8.'']
       []
       []),
     (''idrac'', walk_cfg_of ''idrac-dell-1'' ''mgmt'' []
       [(''.1.3.6.1.2.1.25.2.3.1.6.7'', ''30150000'')]
       []),
     (''meinberg-ntp'', walk_cfg_of ''meinberg-lantime-1'' ''appliance'' []
       [(''.1.3.6.1.4.1.5597.30.0.1.2.1.4.1'', ''1''), (''.1.3.6.1.4.1.5597.30.0.1.2.1.5.1'', ''1''), (''.1.3.6.1.4.1.5597.30.0.1.2.1.6.1'', ''9''), (''.1.3.6.1.2.1.25.2.3.1.6.37'', ''24000'')]
       [(lit ''Daniele Basile - ZID Basel'', [Lit ''NetOps - Meridian Retail'']),
        (Cat [lit ''GPS Position: '', Rep 1 None (Cls (\<lambda>c. c \<in> {CHR ''-'', CHR ''.'', CHR '' ''} \<or> digit_char c)), lit ''m''], [Lit ''GPS Position: 48.1374 11.5755 519m''])])]"

definition MODELS :: "(string \<times> walk_cfg) list" where
  "MODELS = MODELS_1 @ MODELS_2 @ MODELS_3 @ MODELS_4"

section \<open>Reading a walk\<close>

text \<open>Text mode turns every line end into a newline.\<close>

fun universal_newlines :: "string \<Rightarrow> string" where
  "universal_newlines [] = []"
| "universal_newlines (c # s) =
     (if c = CHR 0x0D
      then CHR 0x0A # (case s of [] \<Rightarrow> [] | d # s' \<Rightarrow> if d = CHR 0x0A then universal_newlines s' else universal_newlines s)
      else c # universal_newlines s)"

type_synonym walk_row = "string \<times> string"

definition parse_walk :: "string \<Rightarrow> walk_row list" where
  "parse_walk text = map (partition_at (CHR '' '')) (filter (\<lambda>l. startswith l ''.'') (split_on (CHR 0x0A) (universal_newlines text)))"

definition walk_key :: "string \<Rightarrow> int list res" where
  "walk_key oid = mapR py_int (split_on (CHR ''.'') (strip_by (\<lambda>c. c = CHR ''.'') oid))"

section \<open>Curating one walk\<close>

definition stripped :: "walk_cfg \<Rightarrow> string \<Rightarrow> bool" where
  "stripped cfg oid \<longleftrightarrow> list_ex (startswith oid) (GLOBAL_STRIP @ w_strip cfg)"

definition recorded_sysname :: "walk_row list \<Rightarrow> string" where
  "recorded_sysname rows =
     (let v = (case filter (\<lambda>r. fst r = SYSNAME) rows of [] \<Rightarrow> [] | (_, v) # _ \<Rightarrow> v)
      in if match_at RE_HEX v 0 \<noteq> None then (case decode_hex v of None \<Rightarrow> [] | Some t \<Rightarrow> t) else v)"

definition new_value :: "string \<Rightarrow> walk_cfg \<Rightarrow> string \<Rightarrow> walk_row \<Rightarrow> string" where
  "new_value model cfg sysname r = (case r of (oid, value) \<Rightarrow>
     (case map_of (w_set cfg) oid of Some v \<Rightarrow> v
      | None \<Rightarrow>
          if oid = SYSNAME then ''mr-'' @ model
          else if oid = SYSCONTACT then ''netops@meridian-retail.com''
          else if oid = SYSLOCATION then ''Meridian Retail''
          else if startswith oid IFALIAS then []
          else if startswith oid IFPHYS then fake_mac model (last (split_on (CHR ''.'') oid))
          else if list_ex (startswith oid) SERIAL_PREFIXES
               then (if strip_by (\<lambda>c. c = QT) (strip value) \<noteq> [] then fake_serial model oid else value)
          else scrub_value value sysname model (w_sub cfg)))"

definition curate_rows :: "string \<Rightarrow> walk_cfg \<Rightarrow> walk_row list \<Rightarrow> walk_row list" where
  "curate_rows model cfg rows =
     (let sysname = recorded_sysname rows
      in map (\<lambda>r. (fst r, new_value model cfg sysname r)) (filter (\<lambda>r. \<not> stripped cfg (fst r)) rows))"

text \<open>\<open>out.sort\<close> computes every key first.\<close>

definition sort_rows :: "walk_row list \<Rightarrow> walk_row list res" where
  "sort_rows out = bindR (mapR (\<lambda>r. bindR (walk_key (fst r)) (\<lambda>k. Inr (k, r))) out) (\<lambda>ks. Inr (map snd (sort_key fst ks)))"

definition render_rows :: "walk_row list \<Rightarrow> string" where
  "render_rows out = concat (map (\<lambda>(oid, value). oid @ '' '' @ value @ [CHR 0x0A]) out)"

record walk_meta =
  m_file :: string
  m_class :: string
  m_source :: string
  m_rows :: nat

definition walk_file :: "string \<Rightarrow> string" where
  "walk_file model = model @ ''.walk''"

text \<open>The sorted rows, or \<open>None\<close> when the recording is missing.\<close>

definition curated :: "(string \<rightharpoonup> string) \<Rightarrow> string \<Rightarrow> walk_cfg \<Rightarrow> walk_row list option res" where
  "curated sources model cfg =
     (case sources (w_src cfg) of None \<Rightarrow> Inr None
      | Some text \<Rightarrow> bindR (sort_rows (curate_rows model cfg (parse_walk text))) (\<lambda>out. Inr (Some out)))"

definition audit_values :: "walk_row list \<Rightarrow> string list" where
  "audit_values out =
     (let texts = map (\<lambda>(_, v). case decode_hex v of None \<Rightarrow> v | Some t \<Rightarrow> t) out
      in map (take 140) (sort (remdups (filter (re_search (Rep 3 None (Cls letter_char))) texts))))"

section \<open>A run\<close>

text \<open>The library directory: its walk files and the manifest, a dict of the models.\<close>

record walklib =
  l_walks :: "string \<rightharpoonup> string"
  l_manifest :: "(string \<times> walk_meta) list option"

definition curate_one :: "(string \<rightharpoonup> string) \<Rightarrow> string \<times> walk_cfg \<Rightarrow> walklib \<times> (string \<times> walk_meta) list
    \<Rightarrow> (walklib \<times> (string \<times> walk_meta) list) res" where
  "curate_one sources mc s =
     (case mc of (model, cfg) \<Rightarrow> case s of (lib, manifest) \<Rightarrow>
        bindR (curated sources model cfg) (\<lambda>r. case r of
          None \<Rightarrow> Inr s
        | Some out \<Rightarrow> Inr (lib\<lparr>l_walks := (l_walks lib)(walk_file model \<mapsto> render_rows out)\<rparr>,
            dict_put model \<lparr>m_file = walk_file model, m_class = w_cls cfg, m_source = w_src cfg, m_rows = length out\<rparr> manifest)))"

text \<open>A key that is no number ends the run there: the walks written so far stay, the manifest is not written.  It is
  written with sorted keys.\<close>

fun curate_all :: "(string \<rightharpoonup> string) \<Rightarrow> (string \<times> walk_cfg) list \<Rightarrow> walklib \<times> (string \<times> walk_meta) list \<Rightarrow> walklib \<times> pyerr option" where
  "curate_all sources [] (lib, manifest) = (lib\<lparr>l_manifest := Some (sort_key fst manifest)\<rparr>, None)"
| "curate_all sources (mc # mcs) s =
     (case curate_one sources mc s of Inl e \<Rightarrow> (fst s, Some e) | Inr s' \<Rightarrow> curate_all sources mcs s')"

definition curate_main :: "(string \<rightharpoonup> string) \<Rightarrow> string option \<Rightarrow> walklib \<Rightarrow> walklib \<times> pyerr option" where
  "curate_main sources only lib =
     (let manifest = (case l_manifest lib of None \<Rightarrow> [] | Some m \<Rightarrow> m)
      in case only of
           None \<Rightarrow> curate_all sources MODELS (lib, manifest)
         | Some m \<Rightarrow> (case map_of MODELS m of None \<Rightarrow> (lib, Some KeyError) | Some cfg \<Rightarrow> curate_all sources [(m, cfg)] (lib, manifest)))"

end
