(* ===== verification/Curate_Hides.thy ===== *)
theory Curate_Hides
  imports Curate
begin

text \<open>
  What the curated walks keep of the recordings: which recorded values cannot influence the result, and that the file written is
  the sorted walk the simulator reads back.
\<close>

section \<open>The models\<close>

text \<open>No line end can come from a string.\<close>

definition no_break :: "string \<Rightarrow> bool" where
  "no_break s \<longleftrightarrow> CHR 0x0A \<notin> set s \<and> CHR 0x0D \<notin> set s"

definition cfg_ok :: "string \<times> walk_cfg \<Rightarrow> bool" where
  "cfg_ok mc = (case mc of (model, cfg) \<Rightarrow>
     \<not> stripped cfg SYSNAME \<and> map_of (w_set cfg) SYSNAME = None \<and> no_break model
     \<and> list_all (\<lambda>(k, v). no_break v) (w_set cfg)
     \<and> list_all (\<lambda>(r, ps). list_all (\<lambda>p. case p of Lit s \<Rightarrow> no_break s | _ \<Rightarrow> True) ps) (w_sub cfg))"

lemma models_ok: "list_all cfg_ok MODELS"
  by code_simp

section \<open>Hidden values\<close>

definition kept :: "walk_cfg \<Rightarrow> walk_row list \<Rightarrow> walk_row list" where
  "kept cfg rows = filter (\<lambda>r. \<not> stripped cfg (fst r)) rows"

definition hidden :: "walk_cfg \<Rightarrow> string \<Rightarrow> bool" where
  "hidden cfg oid \<longleftrightarrow> oid \<in> fst ` set (w_set cfg) \<or> oid = SYSCONTACT \<or> oid = SYSLOCATION \<or> startswith oid IFALIAS \<or> startswith oid IFPHYS"

definition serial_oid :: "string \<Rightarrow> bool" where
  "serial_oid oid \<longleftrightarrow> list_ex (startswith oid) SERIAL_PREFIXES"

definition blank_value :: "string \<Rightarrow> bool" where
  "blank_value v \<longleftrightarrow> strip_by (\<lambda>c. c = QT) (strip v) = []"

text \<open>Two rows that differ at most in what must not come through.\<close>

definition same_public :: "walk_cfg \<Rightarrow> walk_row \<Rightarrow> walk_row \<Rightarrow> bool" where
  "same_public cfg r r' \<longleftrightarrow> fst r = fst r' \<and>
     (snd r = snd r' \<or> hidden cfg (fst r) \<or> (serial_oid (fst r) \<and> \<not> blank_value (snd r) \<and> \<not> blank_value (snd r')))"

lemma new_value_public:
  assumes "same_public cfg r r'"
  shows "new_value model cfg sysname r = new_value model cfg sysname r'"
proof -
  obtain k v v' where r: "r = (k, v)" "r' = (k, v')" using assms by (cases r; cases r') (auto simp: same_public_def)
  consider "v = v'" | "hidden cfg k" | "serial_oid k" "\<not> blank_value v" "\<not> blank_value v'"
    using assms by (auto simp: same_public_def r)
  then show ?thesis
  proof cases
    case 2
    have n: "SYSCONTACT \<noteq> SYSNAME" "SYSLOCATION \<noteq> SYSNAME" by (simp_all add: SYSCONTACT_def SYSLOCATION_def SYSNAME_def)
    show ?thesis using 2 n by (auto simp: r new_value_def hidden_def map_of_eq_None_iff split: option.split)
  next
    case 3
    then show ?thesis by (simp add: r new_value_def serial_oid_def blank_value_def split: option.split)
  qed (simp add: r)
qed

lemma sysname_public:
  assumes "cfg_ok (model, cfg)" "list_all2 (same_public cfg) (kept cfg rows) (kept cfg rows')"
  shows "recorded_sysname rows = recorded_sysname rows'"
proof -
  have k: "filter (\<lambda>r. fst r = SYSNAME) rs = filter (\<lambda>r. fst r = SYSNAME) (kept cfg rs)" for rs
    using assms(1) by (auto simp: kept_def cfg_ok_def intro!: filter_cong)
  have s: "\<not> startswith SYSNAME IFALIAS" "\<not> startswith SYSNAME IFPHYS" "\<not> serial_oid SYSNAME" "SYSNAME \<noteq> SYSCONTACT" "SYSNAME \<noteq> SYSLOCATION"
    by code_simp+
  have eq: "r = r'" if "same_public cfg r r'" "fst r = SYSNAME" for r r'
    using assms(1) s that by (auto simp: same_public_def hidden_def cfg_ok_def prod_eq_iff map_of_eq_None_iff)
  have same: "fst r = fst r'" if "same_public cfg r r'" for r r' using that by (simp add: same_public_def)
  have "filter (\<lambda>r. fst r = SYSNAME) as = filter (\<lambda>r. fst r = SYSNAME) bs" if "list_all2 (same_public cfg) as bs" for as bs
    using that
  proof (induction rule: list_all2_induct)
    case (Cons r as r' bs)
    show ?case
    proof (cases "fst r = SYSNAME")
      case True
      then have "r = r'" by (rule eq [OF Cons(1)])
      then show ?thesis using Cons.IH by simp
    next
      case False
      then have "fst r' \<noteq> SYSNAME" by (simp only: same [OF Cons(1)] not_False_eq_True)
      with False show ?thesis using Cons.IH by simp
    qed
  qed simp
  from this [OF assms(2)] have "filter (\<lambda>r. fst r = SYSNAME) rows = filter (\<lambda>r. fst r = SYSNAME) rows'"
    unfolding k [of rows] k [of rows'] .
  then show ?thesis unfolding recorded_sysname_def by (simp only:)
qed

lemma curate_rows_public:
  assumes "cfg_ok (model, cfg)" "list_all2 (same_public cfg) (kept cfg rows) (kept cfg rows')"
  shows "curate_rows model cfg rows = curate_rows model cfg rows'"
proof -
  have "list_all2 (same_public cfg) as bs \<Longrightarrow> map (\<lambda>r. (fst r, new_value model cfg sysname r)) as = map (\<lambda>r. (fst r, new_value model cfg sysname r)) bs" for as bs sysname
    by (induction rule: list_all2_induct) (auto simp: same_public_def intro: new_value_public)
  from this [OF assms(2)] show ?thesis
    unfolding curate_rows_def Let_def sysname_public [OF assms] by (simp add: kept_def)
qed

text \<open>C24. What a curated walk hides: if two recordings of a model agree outside the stripped subtrees and have the same
  values there, except for the contact, the location, the port aliases, the MAC addresses, the values the
  configuration sets, and serial numbers that are not blank, then the curated walks are the same, so nothing of those
  values reaches the library.\<close>

theorem curated_walk_hides:
  assumes "(model, cfg) \<in> set MODELS" and "sources (w_src cfg) = Some text" and "sources' (w_src cfg) = Some text'"
    and "list_all2 (same_public cfg) (kept cfg (parse_walk text)) (kept cfg (parse_walk text'))"
  shows "curated sources model cfg = curated sources' model cfg"
proof -
  have "cfg_ok (model, cfg)" using models_ok assms(1) by (simp add: list_all_iff)
  from curate_rows_public [OF this assms(4)] show ?thesis by (simp add: curated_def assms(2,3))
qed

lemma zebra_model: "(''printer-zebra'', walk_cfg_of ''printer-zebra'' ''printer'' [] [] []) \<in> set MODELS"
  by (simp add: MODELS_def MODELS_3_def)

lemma curated_walk_hides_witness:
  "curated [''printer-zebra'' \<mapsto> ''.1.3.6.1.2.1.1.4.0 alice@shop.example'' @ [CHR 0x0A] @ ''.1.3.6.1.2.1.4.20 10.0.0.1'' @ [CHR 0x0A] @ ''.1.3.6.1.2.1.1.1.0 Printer'']
     ''printer-zebra'' (walk_cfg_of ''printer-zebra'' ''printer'' [] [] [])
   = curated [''printer-zebra'' \<mapsto> ''.1.3.6.1.2.1.1.4.0 bob'' @ [CHR 0x0A] @ ''.1.3.6.1.2.1.1.1.0 Printer'']
     ''printer-zebra'' (walk_cfg_of ''printer-zebra'' ''printer'' [] [] [])"
  by (rule curated_walk_hides [OF zebra_model]) (simp add: walk_cfg_of_def, simp add: walk_cfg_of_def, code_simp)

section \<open>The file\<close>

lemma no_break_simps [simp]:
  "no_break []" "no_break (c # s) \<longleftrightarrow> c \<noteq> CHR 0x0A \<and> c \<noteq> CHR 0x0D \<and> no_break s"
  "no_break (s @ t) \<longleftrightarrow> no_break s \<and> no_break t"
  by (auto simp: no_break_def)

lemma no_break_concat [simp]: "no_break (concat ss) \<longleftrightarrow> (\<forall>s \<in> set ss. no_break s)"
  by (auto simp: no_break_def)

lemma no_break_subset: "set s \<subseteq> set t \<Longrightarrow> no_break t \<Longrightarrow> no_break s"
  by (auto simp: no_break_def)

lemma hex_up_line: "n < 16 \<Longrightarrow> hex_up n \<noteq> CHR 0x0A \<and> hex_up n \<noteq> CHR 0x0D"
proof -
  assume "n < 16"
  then have "(of_char (hex_up n) :: nat) \<noteq> 10 \<and> (of_char (hex_up n) :: nat) \<noteq> 13" by (auto simp: hex_up_code)
  then show ?thesis by auto
qed

lemma hex2_line [simp]: "b < 256 \<Longrightarrow> no_break (hex2 b)"
  using hex_up_line [of "b div 16"] hex_up_line [of "b mod 16"] by (simp add: hex2_def)

lemma nat_str_line [simp]: "no_break (nat_str n)"
  using nat_str_chars [of "CHR 0x0A" n] nat_str_chars [of "CHR 0x0D" n] by (auto simp: no_break_def digit_char_def)

lemma sha256_nth: "k < 32 \<Longrightarrow> sha256 m ! k < 256"
  using sha256_bytes [of "sha256 m ! k" m] nth_mem [of k "sha256 m"] by simp

lemma map_ip_line: "no_break m \<Longrightarrow> no_break (map_ip m)"
  by (auto simp: map_ip_def Let_def)

lemma fake_mac_line: "no_break (fake_mac model index)"
  by (simp add: fake_mac_def Let_def QT_def sha256_nth)

lemma fake_serial_line: "no_break (fake_serial model oid)"
proof -
  have "no_break (concat (map hex2 (sha256 m)))" for m by (auto dest: sha256_bytes)
  then have "no_break (take 10 (concat (map hex2 (sha256 m))))" for m by (rule no_break_subset [OF set_take_subset])
  then show ?thesis by (simp add: fake_serial_def)
qed

lemma encode_hex_line: "no_break (encode_hex t)"
  by (auto simp: encode_hex_def QT_def)

lemma re_sub_line:
  assumes "no_break s" "\<And>m g. no_break m \<Longrightarrow> no_break g \<Longrightarrow> no_break (f m g)"
  shows "no_break (re_sub r f s)"
proof -
  have "c \<noteq> CHR 0x0A \<and> c \<noteq> CHR 0x0D" if "c \<in> set (re_sub r f s)" for c
    using that
  proof (rule re_sub_chars)
    show "c \<noteq> CHR 0x0A \<and> c \<noteq> CHR 0x0D" if "c \<in> set s" for c using that assms(1) by (auto simp: no_break_def)
    show "c \<noteq> CHR 0x0A \<and> c \<noteq> CHR 0x0D" if "c \<in> set (f m g)" "set m \<subseteq> set s" "set g \<subseteq> set s" for m g c
      using that(1) assms(2) [OF no_break_subset [OF that(2) assms(1)] no_break_subset [OF that(3) assms(1)]] by (auto simp: no_break_def)
  qed
  then show ?thesis by (auto simp: no_break_def)
qed

definition subs_ok :: "sub list \<Rightarrow> bool" where
  "subs_ok subs \<longleftrightarrow> list_all (\<lambda>(r, ps). list_all (\<lambda>p. case p of Lit s \<Rightarrow> no_break s | _ \<Rightarrow> True) ps) subs"

lemma fill_line: "list_all (\<lambda>p. case p of Lit s \<Rightarrow> no_break s | _ \<Rightarrow> True) ps \<Longrightarrow> no_break g \<Longrightarrow> no_break (fill ps m g)"
  by (auto simp: fill_def list_all_iff split: piece.splits)

lemma apply_subs_line: "subs_ok subs \<Longrightarrow> no_break t \<Longrightarrow> no_break (apply_subs t subs)"
proof (induction subs arbitrary: t)
  case (Cons x subs)
  obtain r ps where x: "x = (r, ps)" by (cases x)
  have "no_break (re_sub r (fill ps) t)"
    using Cons.prems by (intro re_sub_line) (auto simp: subs_ok_def x intro: fill_line)
  with Cons.IH [OF _ this] Cons.prems(1) show ?case by (simp add: apply_subs_def x subs_ok_def)
qed (simp add: apply_subs_def)

lemma scrub_text_line: "no_break t \<Longrightarrow> no_break model \<Longrightarrow> subs_ok subs \<Longrightarrow> no_break (scrub_text sysname model subs t)"
  unfolding scrub_text_def Let_def
  by (intro apply_subs_line re_sub_line) (auto intro: re_sub_line map_ip_line)

lemma new_value_line:
  assumes "cfg_ok (model, cfg)" "no_break (snd r)"
  shows "no_break (new_value model cfg sysname r)"
proof -
  obtain k v where r: "r = (k, v)" by (cases r)
  have m: "no_break model" "subs_ok (w_sub cfg)" using assms(1) by (simp_all add: cfg_ok_def subs_ok_def)
  have s: "no_break x" if "map_of (w_set cfg) k = Some x" for x
    using map_of_SomeD [OF that] assms(1) by (auto simp: cfg_ok_def list_all_iff)
  have "no_break (scrub_value v sysname model (w_sub cfg))"
    using assms(2) m by (auto simp: scrub_value_def Let_def r intro: scrub_text_line encode_hex_line split: option.split)
  then show ?thesis
    using assms(2) s m fake_mac_line fake_serial_line by (auto simp: new_value_def r split: option.split)
qed


text \<open>Lines and texts.\<close>

lemma universal_newlines_no_cr: "CHR 0x0D \<notin> set (universal_newlines s)"
  by (induction s rule: universal_newlines.induct) (auto split: list.split)

lemma universal_newlines_id: "CHR 0x0D \<notin> set s \<Longrightarrow> universal_newlines s = s"
  by (induction s rule: universal_newlines.induct) auto

lemma split_lines: "\<forall>l \<in> set ls. no_break l \<Longrightarrow> split_on (CHR 0x0A) (concat (map (\<lambda>l. l @ [CHR 0x0A]) ls)) = ls @ [[]]"
proof (induction ls)
  case (Cons l ls)
  then have "CHR 0x0A \<notin> set l" by (simp add: no_break_def)
  from split_on_sep [OF this] Cons show ?case by simp
qed simp

text \<open>A row as the reader leaves it.\<close>

definition walk_row_ok :: "walk_row \<Rightarrow> bool" where
  "walk_row_ok r \<longleftrightarrow> startswith (fst r) ''.'' \<and> CHR '' '' \<notin> set (fst r) \<and> no_break (fst r) \<and> no_break (snd r)"

lemma split_chars: "w \<in> set (split_on c s) \<Longrightarrow> set w \<subseteq> set s"
proof (induction s arbitrary: w)
  case (Cons x s)
  obtain v vs where "split_on c s = v # vs" by (cases "split_on c s") auto
  with Cons show ?case by (fastforce split: if_splits)
qed simp

lemma partition_walk_row_ok:
  assumes "no_break l" "startswith l ''.''"
  shows "walk_row_ok (partition_at (CHR '' '') l)"
proof -
  obtain l' where l: "l = CHR ''.'' # l'" using assms(2) by (auto simp: startswith_iff)
  have "CHR '' '' \<notin> set (takeWhile (\<lambda>x. x \<noteq> CHR '' '') l)" by (metis (full_types) set_takeWhileD)
  moreover have "no_break (takeWhile (\<lambda>x. x \<noteq> CHR '' '') l)" using assms(1) by (auto simp: no_break_def dest: set_takeWhileD)
  moreover have "no_break (tl (dropWhile (\<lambda>x. x \<noteq> CHR '' '') l))"
  proof (rule no_break_subset [OF _ assms(1)])
    have "set (tl xs) \<subseteq> set xs" for xs :: string by (cases xs) auto
    then show "set (tl (dropWhile (\<lambda>x. x \<noteq> CHR '' '') l)) \<subseteq> set l" using set_dropWhileD by fast
  qed
  ultimately show ?thesis by (simp add: walk_row_ok_def partition_at_def l startswith_def)
qed

lemma parse_walk_ok: "r \<in> set (parse_walk text) \<Longrightarrow> walk_row_ok r"
proof -
  assume "r \<in> set (parse_walk text)"
  then obtain l where l: "r = partition_at (CHR '' '') l" "startswith l ''.''" "l \<in> set (split_on (CHR 0x0A) (universal_newlines text))"
    by (auto simp: parse_walk_def)
  have "CHR 0x0A \<notin> set l" using l(3) by (rule split_on_pieces)
  moreover have "CHR 0x0D \<notin> set l" using split_chars [OF l(3)] universal_newlines_no_cr [of "text"] by auto
  ultimately show ?thesis using partition_walk_row_ok [of l] l(1,2) by (simp add: no_break_def)
qed

lemma parse_render:
  assumes "\<forall>r \<in> set out. walk_row_ok r"
  shows "parse_walk (render_rows out) = out"
proof -
  let ?line = "\<lambda>r :: walk_row. fst r @ '' '' @ snd r"
  have r: "render_rows out = concat (map (\<lambda>l. l @ [CHR 0x0A]) (map ?line out))"
    by (simp add: render_rows_def comp_def case_prod_unfold)
  have l: "\<forall>l \<in> set (map ?line out). no_break l" using assms by (auto simp: walk_row_ok_def)
  then have n: "CHR 0x0D \<notin> set (render_rows out)" unfolding r by (auto simp: no_break_def)
  have f: "filter (\<lambda>l. startswith l ''.'') (map ?line out @ [[]]) = map ?line out"
  proof -
    have "startswith (?line r) ''.''" if "walk_row_ok r" for r using that by (auto simp: walk_row_ok_def startswith_iff)
    then have "filter (\<lambda>l. startswith l ''.'') (map ?line out) = map ?line out" using assms by (auto simp: filter_id_conv)
    then show ?thesis by (simp add: startswith_def)
  qed
  have p: "map (partition_at (CHR '' '')) (map ?line out) = out"
    using assms by (auto simp: walk_row_ok_def comp_def partition_at_first intro!: map_idI)
  have "split_on (CHR 0x0A) (render_rows out) = map ?line out @ [[]]" unfolding r by (rule split_lines [OF l])
  then show ?thesis unfolding parse_walk_def universal_newlines_id [OF n] by (simp only: f p)
qed

lemma curate_rows_ok:
  assumes "cfg_ok (model, cfg)" "r \<in> set (curate_rows model cfg (parse_walk text))"
  shows "walk_row_ok r"
  using assms parse_walk_ok new_value_line [OF assms(1)] by (auto simp: curate_rows_def Let_def walk_row_ok_def)

lemma sort_rows_Inr:
  assumes "sort_rows rows = Inr out"
  shows "mset out = mset rows" "sorted_wrt (\<lambda>r r'. \<exists>k k'. walk_key (fst r) = Inr k \<and> walk_key (fst r') = Inr k' \<and> k \<le> k') out"
proof -
  obtain ks where ks: "mapR (\<lambda>r. bindR (walk_key (fst r)) (\<lambda>k. Inr (k, r))) rows = Inr ks" and out: "out = map snd (sort_key fst ks)"
    using assms by (auto simp: sort_rows_def bindR_eq_Inr)
  have "map snd ks = rows \<and> list_all (\<lambda>x. walk_key (fst (snd x)) = Inr (fst x)) ks"
    using ks
  proof (induction rows arbitrary: ks)
    case (Cons r rows)
    then show ?case using Cons.IH by (force simp: bindR_eq_Inr)
  qed simp
  then have r: "map snd ks = rows" and k: "\<And>x. x \<in> set ks \<Longrightarrow> walk_key (fst (snd x)) = Inr (fst x)" by (simp_all add: list_all_iff)
  show "mset out = mset rows" unfolding out r [symmetric] by (simp add: mset_map)
  have "sorted_wrt (\<lambda>x y. fst x \<le> fst y) (sort_key fst ks)" using sorted_sort_key [of fst ks] by (simp add: sorted_map)
  then show "sorted_wrt (\<lambda>r r'. \<exists>k k'. walk_key (fst r) = Inr k \<and> walk_key (fst r') = Inr k' \<and> k \<le> k') out"
    unfolding out sorted_wrt_map by (rule sorted_wrt_mono_rel [rotated]) (auto simp: k)
qed


definition wit_text :: string where
  "wit_text = ''.1.3.6.1.2.1.1.6.0 Basel'' @ [CHR 0x0D, CHR 0x0A] @ ''Hall 4'' @ [CHR 0x0A] @ ''.1.3.6.1.2.1.4.20 10.0.0.1'' @ [CHR 0x0A]
     @ ''.1.3.6.1.2.1.1.4.0 alice''"

definition wit_out :: "walk_row list" where
  "wit_out = [(''.1.3.6.1.2.1.1.4.0'', ''netops@meridian-retail.com''), (''.1.3.6.1.2.1.1.6.0'', ''Meridian Retail'')]"


section \<open>A run\<close>

text \<open>A run writes no other walk than those of its models, and one that ends with an exception leaves the manifest alone.\<close>

lemma curate_all_walks:
  "f \<notin> walk_file ` fst ` set mcs \<Longrightarrow> l_walks (fst (curate_all sources mcs s)) f = l_walks (fst s) f"
proof (induction sources mcs s rule: curate_all.induct)
  case (2 sources mc mcs s)
  show ?case
  proof (cases "curate_one sources mc s")
    case (Inr s')
    then have "l_walks (fst s') f = l_walks (fst s) f"
      using "2.prems" by (cases mc; cases s) (auto simp: curate_one_def bindR_eq_Inr split: option.splits)
    with Inr 2 show ?thesis by simp
  qed simp
qed simp

lemma curate_one_manifest: "curate_one sources mc s = Inr s' \<Longrightarrow> l_manifest (fst s') = l_manifest (fst s)"
  by (cases mc; cases s) (auto simp: curate_one_def bindR_eq_Inr split: option.splits)

lemma curate_all_failed: "snd (curate_all sources mcs s) = Some e \<Longrightarrow> l_manifest (fst (curate_all sources mcs s)) = l_manifest (fst s)"
  by (induction sources mcs s rule: curate_all.induct) (auto simp: curate_one_manifest split: sum.splits)

end
