(* ===== verification/Estate.thy ===== *)
theory Estate
  imports Sha256 Py_Json
begin

text \<open>
  \<open>estate.py\<close>, the command that brings the whole estate up and down.  What the command does to its surroundings is a list of
  acts: commands executed, processes spawned, files written and removed, signals, requests to the panels and the run of
  \<open>deploy/cmk_setup.py\<close>.  The surroundings themselves are the parameter \<open>os\<close> over a state of their own: which engines are
  installed, what commands and the setup return, what the panels answer, which processes exist, how many polls fit before
  each deadline.  The messages on the console are not modelled, except the lines of the status.
\<close>

section \<open>The surroundings\<close>

datatype est_act =
    Exec "string list" string "(string \<times> string) list"
  | Spawn "string list" "(string \<times> string) list"
  | MkDir string
  | ChMod string nat
  | WriteFile string string
  | RemoveFile string
  | Signal int int
  | Visit string
  | Setup "string list"

record 's os =
  o_json :: "string \<Rightarrow> 's \<Rightarrow> json option \<times> 's"
  o_exec :: "string list \<Rightarrow> 's \<Rightarrow> int \<times> 's"
  o_which :: "string \<Rightarrow> bool"
  o_spawn :: "string list \<Rightarrow> 's \<Rightarrow> int \<times> 's"
  o_signal :: "int \<Rightarrow> int \<Rightarrow> 's \<Rightarrow> bool \<times> 's"
  o_visit :: "string \<Rightarrow> 's \<Rightarrow> bool \<times> 's"
  o_setup :: "string list \<Rightarrow> 's \<Rightarrow> unit res \<times> 's"
  o_code :: "string \<Rightarrow> nat list option"
  o_python :: string
  o_repo :: string
  o_shell_polls :: nat
  o_child_polls :: nat
  o_netsim_polls :: nat
  o_stop_polls :: nat

record 's machine =
  outside :: 's
  tmp :: "string \<rightharpoonup> string"
  acts :: "est_act list"

type_synonym ('s, 'a) cmd = "'s machine \<Rightarrow> 'a res \<times> 's machine"

definition done_with :: "'a \<Rightarrow> ('s, 'a) cmd" where
  "done_with x m = (Inr x, m)"

definition sys_exit :: "('s, 'a) cmd" where
  "sys_exit m = (Inl SystemExit, m)"

definition and_then :: "('s, 'a) cmd \<Rightarrow> ('a \<Rightarrow> ('s, 'b) cmd) \<Rightarrow> ('s, 'b) cmd" where
  "and_then c f m = (case c m of (Inr x, m') \<Rightarrow> f x m' | (Inl e, m') \<Rightarrow> (Inl e, m'))"

definition record_act :: "est_act \<Rightarrow> ('s, unit) cmd" where
  "record_act a m = (Inr (), m\<lparr>acts := acts m @ [a]\<rparr>)"

definition ask :: "('s \<Rightarrow> 'a \<times> 's) \<Rightarrow> ('s, 'a) cmd" where
  "ask q m = (case q (outside m) of (x, s) \<Rightarrow> (Inr x, m\<lparr>outside := s\<rparr>))"

definition get_json :: "'s os \<Rightarrow> string \<Rightarrow> ('s, json option) cmd" where
  "get_json os url = ask (o_json os url)"

definition read_file :: "string \<Rightarrow> ('s, string option) cmd" where
  "read_file path m = (Inr (tmp m path), m)"

definition write_file_act :: "string \<Rightarrow> string \<Rightarrow> ('s, unit) cmd" where
  "write_file_act path s m = (Inr (), m\<lparr>tmp := (tmp m)(path \<mapsto> s), acts := acts m @ [WriteFile path s]\<rparr>)"

definition remove_file :: "string \<Rightarrow> ('s, unit) cmd" where
  "remove_file path m =
     (Inr (), if tmp m path = None then m else m\<lparr>tmp := (tmp m)(path := None), acts := acts m @ [RemoveFile path]\<rparr>)"

definition sh :: "'s os \<Rightarrow> string list \<Rightarrow> string \<Rightarrow> (string \<times> string) list \<Rightarrow> ('s, int) cmd" where
  "sh os argv cwd env = and_then (record_act (Exec argv cwd env)) (\<lambda>_. ask (o_exec os argv))"

definition urlopen :: "'s os \<Rightarrow> string \<Rightarrow> ('s, bool) cmd" where
  "urlopen os url = and_then (record_act (Visit url)) (\<lambda>_. ask (o_visit os url))"

section \<open>Configuration\<close>

definition PANEL :: string where "PANEL = ''http://localhost:8099''"
definition SNMP_PANEL :: string where "SNMP_PANEL = ''http://localhost:8101''"
definition PIDFILE_SHELL :: string where "PIDFILE_SHELL = ''/var/tmp/cmk-demo-estate-shell.pid''"
definition PIDFILE_NETSIM :: string where "PIDFILE_NETSIM = ''/var/tmp/cmk-demo-estate-netsim.pid''"
definition AGENT_FILES_DIR :: string where "AGENT_FILES_DIR = ''/var/tmp/cmk-demo-agent-output''"
definition NETSIM_SIGFILE :: string where "NETSIM_SIGFILE = ''/var/tmp/cmk-demo-netsim.sig''"
definition GATEWAY_IMAGE :: string where "GATEWAY_IMAGE = ''cmk-demo-estate:latest''"
definition NETSIM_CONTAINER :: string where "NETSIM_CONTAINER = ''cmk-demo-netsim''"
definition NETSIM_STATE_DIR :: string where "NETSIM_STATE_DIR = ''/var/tmp/cmk-demo-netsim-state''"
definition NETSIM_SNMP_PORT :: nat where "NETSIM_SNMP_PORT = 1161"

definition delivery_for :: "string \<Rightarrow> string" where
  "delivery_for mode = (if mode = ''self-hosted'' then ''datasource'' else ''piggyback'')"

record scale_cfg =
  sc_hosts :: string
  sc_snmp :: bool
  sc_fleet :: bool

definition SCALES :: "(string \<times> scale_cfg) list" where
  "SCALES = [
     (''minimal'', \<lparr>sc_hosts = ''payment-api,db-postgres-01'', sc_snmp = False, sc_fleet = False\<rparr>),
     (''standard'', \<lparr>sc_hosts = [], sc_snmp = False, sc_fleet = False\<rparr>),
     (''full'', \<lparr>sc_hosts = [], sc_snmp = True, sc_fleet = False\<rparr>),
     (''company'', \<lparr>sc_hosts = [], sc_snmp = True, sc_fleet = True\<rparr>)]"

text \<open>The parsed arguments.  \<open>down\<close> has only those of the runtime and the site; the fields of \<open>up\<close> it lacks are in a record of
  their own.\<close>

record up_opts =
  u_mode :: string
  u_scale :: scale_cfg
  u_replicas :: int
  u_no_snmp :: bool
  u_force :: bool

record est_args =
  g_runtime :: string
  g_site :: "string option"
  g_site_url :: "string option"
  g_user :: "string option"
  g_secret :: "string option"
  g_force_foreign :: bool
  g_no_checkmk :: bool

definition falsy_opt :: "string option \<Rightarrow> bool" where
  "falsy_opt x \<longleftrightarrow> x = None \<or> x = Some []"

definition COMPOSE_ENGINES :: "string list" where
  "COMPOSE_ENGINES = [''docker'', ''podman'']"

definition compose_engine :: "string \<Rightarrow> string option" where
  "compose_engine runtime = (if runtime \<in> set COMPOSE_ENGINES then Some runtime else None)"

definition in_repo :: "'s os \<Rightarrow> string list \<Rightarrow> string" where
  "in_repo os parts = join_with ''/'' (o_repo os # parts)"

section \<open>Waiting\<close>

fun jfield :: "json \<Rightarrow> string \<Rightarrow> json option" where
  "jfield (JObj kvs) k = map_of kvs k"
| "jfield _ k = None"

fun jlist :: "json option \<Rightarrow> json list" where
  "jlist (Some (JArr xs)) = xs"
| "jlist _ = []"

fun wait_for :: "'s os \<Rightarrow> nat \<Rightarrow> string \<Rightarrow> ('s, json) cmd" where
  "wait_for os 0 url = sys_exit"
| "wait_for os (Suc n) url = and_then (get_json os url) (\<lambda>d. case d of Some j \<Rightarrow> done_with j | None \<Rightarrow> wait_for os n url)"

definition has_state :: "json \<Rightarrow> bool" where
  "has_state h \<longleftrightarrow> jfield h ''state'' \<notin> {None, Some JNull}"

text \<open>The panel answers before its children do; without an answer the dict is empty.\<close>

fun wait_for_children :: "'s os \<Rightarrow> nat \<Rightarrow> json \<Rightarrow> ('s, json) cmd" where
  "wait_for_children os 0 info = done_with info"
| "wait_for_children os (Suc n) info = and_then (get_json os (PANEL @ ''/'')) (\<lambda>d.
     (let info = (case d of None \<Rightarrow> JObj [] | Some j \<Rightarrow> j); hosts = jlist (jfield info ''carried_hosts'')
      in if hosts \<noteq> [] \<and> list_all has_state hosts then done_with info else wait_for_children os n info))"

section \<open>Processes\<close>

text \<open>The number in a pid file, \<open>None\<close> where reading it raises.\<close>

definition pid_of :: "string option \<Rightarrow> int option" where
  "pid_of s = (case s of None \<Rightarrow> None | Some t \<Rightarrow> (case py_int (strip t) of Inl _ \<Rightarrow> None | Inr n \<Rightarrow> Some n))"

definition pid_alive :: "'s os \<Rightarrow> string \<Rightarrow> ('s, bool) cmd" where
  "pid_alive os pidfile = and_then (read_file pidfile) (\<lambda>s. case pid_of s of
     None \<Rightarrow> done_with False | Some pid \<Rightarrow> ask (o_signal os pid 0))"

definition pid_kill :: "'s os \<Rightarrow> string \<Rightarrow> ('s, unit) cmd" where
  "pid_kill os pidfile = and_then (read_file pidfile) (\<lambda>s.
     and_then (case pid_of s of None \<Rightarrow> done_with False
               | Some pid \<Rightarrow> and_then (record_act (Signal pid 15)) (\<lambda>_. ask (o_signal os pid 15))) (\<lambda>_.
     remove_file pidfile))"

section \<open>The delivery shell\<close>

definition shell_env_vars :: "up_opts \<Rightarrow> (string \<times> string) list" where
  "shell_env_vars u = [(''ESTATE_HOSTS'', sc_hosts (u_scale u)), (''ESTATE_REPLICAS'', int_str (u_replicas u)),
     (''ESTATE_FLEET'', if sc_fleet (u_scale u) then ''1'' else ''0''), (''DELIVERY_MODE'', delivery_for (u_mode u))]"

definition ensure_output_dir :: "('s, unit) cmd" where
  "ensure_output_dir = and_then (record_act (MkDir AGENT_FILES_DIR)) (\<lambda>_. record_act (ChMod AGENT_FILES_DIR 493))"

definition shell_up :: "'s os \<Rightarrow> est_args \<Rightarrow> up_opts \<Rightarrow> ('s, unit) cmd" where
  "shell_up os g u =
     (let datasource = (delivery_for (u_mode u) = ''datasource'')
      in and_then (if datasource then ensure_output_dir else done_with ()) (\<lambda>_.
         case compose_engine (g_runtime g) of
           Some engine \<Rightarrow>
             if \<not> o_which os engine then sys_exit
             else and_then (sh os ([engine, ''compose'', ''up'', ''--build'', ''-d''] @ (if engine = ''podman'' then [''--force-recreate''] else []))
                    (in_repo os [''deploy'', ''piggyback''])
                    (shell_env_vars u @ (if datasource then [(''ESTATE_AGENT_OUTPUT_DIR'', AGENT_FILES_DIR)] else []))) (\<lambda>rc.
                  if rc \<noteq> 0 then sys_exit else done_with ())
         | None \<Rightarrow>
             and_then (pid_alive os PIDFILE_SHELL) (\<lambda>up.
               if up then done_with ()
               else (let argv = [o_python os, ''-u'', in_repo os [''deploy'', ''piggyback'', ''serve.py'']]
                     in and_then (record_act (Spawn argv (shell_env_vars u @ [(''AGENT_PORT'', ''6559''), (''HTTP_PORT'', ''8099'')]
                          @ (if datasource then [(''AGENT_OUTPUT_DIR'', AGENT_FILES_DIR)] else [])))) (\<lambda>_.
                        and_then (ask (o_spawn os argv)) (\<lambda>pid. write_file_act PIDFILE_SHELL (int_str pid)))))))"

fun each_cmd :: "('a \<Rightarrow> ('s, unit) cmd) \<Rightarrow> 'a list \<Rightarrow> ('s, unit) cmd" where
  "each_cmd f [] = done_with ()"
| "each_cmd f (x # xs) = and_then (f x) (\<lambda>_. each_cmd f xs)"

definition shell_down :: "'s os \<Rightarrow> est_args \<Rightarrow> ('s, unit) cmd" where
  "shell_down os g =
     and_then (if g_runtime g \<noteq> ''native''
               then each_cmd (\<lambda>engine. if o_which os engine
                      then and_then (sh os [engine, ''compose'', ''down''] (in_repo os [''deploy'', ''piggyback'']) []) (\<lambda>_. done_with ())
                      else done_with ()) COMPOSE_ENGINES
               else done_with ()) (\<lambda>_. pid_kill os PIDFILE_SHELL)"

section \<open>The network simulator\<close>

text \<open>The digest of the simulator's code; a file that cannot be read is left out.\<close>

definition hexdigest :: "nat list \<Rightarrow> string" where
  "hexdigest bs = concat (map (\<lambda>b. [hex_lower (b div 16), hex_lower (b mod 16)]) bs)"

definition netsim_sig :: "'s os \<Rightarrow> string" where
  "netsim_sig os = hexdigest (sha256 (concat (map (\<lambda>f. case o_code os f of None \<Rightarrow> [] | Some bs \<Rightarrow> bs) [''netsim.py'', ''snmpserver.py''])))"

definition netsim_down :: "'s os \<Rightarrow> est_args option \<Rightarrow> ('s, unit) cmd" where
  "netsim_down os g =
     (let engine = (case g of None \<Rightarrow> None | Some a \<Rightarrow> compose_engine (g_runtime a))
      in and_then (case engine of
             Some e \<Rightarrow> if o_which os e then and_then (sh os [e, ''rm'', ''-f'', NETSIM_CONTAINER] [] []) (\<lambda>_. done_with ()) else done_with ()
           | None \<Rightarrow> done_with ()) (\<lambda>_.
         and_then (pid_kill os PIDFILE_NETSIM) (\<lambda>_.
         and_then (get_json os (SNMP_PANEL @ ''/'')) (\<lambda>up. case up of
             None \<Rightarrow> done_with ()
           | Some _ \<Rightarrow> and_then (urlopen os (SNMP_PANEL @ ''/admin/shutdown'')) (\<lambda>_. done_with ())))))"

definition netsim_argv :: "up_opts \<Rightarrow> string \<Rightarrow> string list" where
  "netsim_argv u bind_to = [''--transport'', ''snmp'', ''--bind'', bind_to, ''--http-port'', ''8101'', ''--snmp-port'', nat_str NETSIM_SNMP_PORT,
     ''--access-switches'', int_str (u_replicas u)]"

definition netsim_up_container :: "'s os \<Rightarrow> string \<Rightarrow> bool \<Rightarrow> up_opts \<Rightarrow> ('s, bool) cmd" where
  "netsim_up_container os engine fleet u =
     (if \<not> o_which os engine then sys_exit
      else and_then (sh os [engine, ''rm'', ''-f'', NETSIM_CONTAINER] [] []) (\<lambda>_.
           and_then (record_act (MkDir NETSIM_STATE_DIR)) (\<lambda>_.
           and_then (record_act (ChMod NETSIM_STATE_DIR 511)) (\<lambda>_.
           and_then (sh os ([engine, ''run'', ''-d'', ''--name'', NETSIM_CONTAINER, ''--restart'', ''unless-stopped'', ''-p'', ''127.0.0.1:8101:8101'',
               ''-p'', ''127.0.0.1:'' @ nat_str NETSIM_SNMP_PORT @ '':'' @ nat_str NETSIM_SNMP_PORT @ ''/udp'', ''-v'', NETSIM_STATE_DIR @ '':/state'',
               ''-e'', ''STATE_FILE=/state/netsim-state.json'', ''--entrypoint'', ''python3'', GATEWAY_IMAGE, ''-u'', ''snmp/netsim.py'']
             @ netsim_argv u ''0.0.0.0'' @ (if fleet then [''--fleet'', ''--walklib'', ''snmp/walklib''] else [])) [] []) (\<lambda>rc.
           if rc \<noteq> 0 then sys_exit else done_with False)))))"

definition running_fleet :: "json \<Rightarrow> bool" where
  "running_fleet j = (case jfield j ''devices'' of Some (JObj ds) \<Rightarrow> list_ex (\<lambda>d. startswith (fst d) ''sw-dc-tor'') ds | _ \<Rightarrow> False)"

fun wait_gone :: "'s os \<Rightarrow> nat \<Rightarrow> string \<Rightarrow> ('s, unit) cmd" where
  "wait_gone os 0 url = done_with ()"
| "wait_gone os (Suc n) url = and_then (get_json os url) (\<lambda>d. if d = None then done_with () else wait_gone os n url)"

definition netsim_spawn :: "'s os \<Rightarrow> bool \<Rightarrow> up_opts \<Rightarrow> string \<Rightarrow> ('s, bool) cmd" where
  "netsim_spawn os fleet u sig =
     (let argv = [o_python os, ''-u'', in_repo os [''snmp'', ''netsim.py'']] @ netsim_argv u ''127.0.0.1''
            @ (if fleet then [''--fleet'', ''--walklib'', in_repo os [''snmp'', ''walklib'']] else [])
      in and_then (record_act (Spawn argv [])) (\<lambda>_.
         and_then (ask (o_spawn os argv)) (\<lambda>pid.
         and_then (write_file_act PIDFILE_NETSIM (int_str pid)) (\<lambda>_.
         and_then (write_file_act NETSIM_SIGFILE sig) (\<lambda>_. done_with False)))))"

definition netsim_up_native :: "'s os \<Rightarrow> bool \<Rightarrow> est_args \<Rightarrow> up_opts \<Rightarrow> ('s, bool) cmd" where
  "netsim_up_native os fleet g u =
     (let sig = netsim_sig os
      in and_then (get_json os (SNMP_PANEL @ ''/'')) (\<lambda>running. case running of
           None \<Rightarrow> netsim_spawn os fleet u sig
         | Some j \<Rightarrow> and_then (read_file NETSIM_SIGFILE) (\<lambda>f.
             (let stale = (case f of None \<Rightarrow> True | Some t \<Rightarrow> strip t \<noteq> sig)
              in if running_fleet j = fleet \<and> \<not> u_force u \<and> \<not> stale then done_with True
                 else and_then (netsim_down os (Some g)) (\<lambda>_.
                      and_then (wait_gone os (o_stop_polls os) (SNMP_PANEL @ ''/'')) (\<lambda>_. netsim_spawn os fleet u sig))))))"

definition netsim_up :: "'s os \<Rightarrow> est_args \<Rightarrow> up_opts \<Rightarrow> ('s, unit) cmd" where
  "netsim_up os g u =
     (let fleet = sc_fleet (u_scale u)
      in and_then (case compose_engine (g_runtime g) of
             Some engine \<Rightarrow> netsim_up_container os engine fleet u
           | None \<Rightarrow> netsim_up_native os fleet g u) (\<lambda>reused.
         if reused then done_with ()
         else and_then (wait_for os (o_netsim_polls os) (SNMP_PANEL @ ''/'')) (\<lambda>_. done_with ())))"

section \<open>The setup script\<close>

definition cmk_args :: "est_args \<Rightarrow> up_opts option \<Rightarrow> string list \<Rightarrow> string list" where
  "cmk_args g u extra = extra
     @ (if \<not> falsy_opt (g_site_url g)
        then [''--site-url'', the (g_site_url g)]
          @ (if falsy_opt (g_user g) then [] else [''--user'', the (g_user g)])
          @ (if falsy_opt (g_secret g) then [] else [''--secret'', the (g_secret g)])
        else ''--site'' # (if g_site g \<in> {None, Some ''auto''} then [] else [the (g_site g)]))
     @ (if g_force_foreign g then [''--force-foreign''] else [])
     @ (case u of None \<Rightarrow> [] | Some o' \<Rightarrow> (if u_force o' then [''--force''] else []) @ (if u_mode o' = [] then [] else [''--mode'', u_mode o']))"

definition run_setup :: "'s os \<Rightarrow> string list \<Rightarrow> ('s, unit) cmd" where
  "run_setup os argv = and_then (record_act (Setup argv)) (\<lambda>_ m. case o_setup os argv (outside m) of (r, s) \<Rightarrow> (r, m\<lparr>outside := s\<rparr>))"

section \<open>The commands\<close>

definition snmp_layer :: "est_args \<Rightarrow> up_opts \<Rightarrow> bool" where
  "snmp_layer g u = (sc_snmp (u_scale u) \<and> \<not> u_no_snmp u \<and> u_mode u \<noteq> ''cloud'')"

text \<open>The console line about the carried hosts reads two keys of the panel's answer.\<close>

definition carried_line :: "json \<Rightarrow> ('s, unit) cmd" where
  "carried_line info m = (if jfield info ''delivery_host'' = None \<or> jfield info ''carried_hosts'' = None then (Inl KeyError, m) else (Inr (), m))"

definition cmd_up :: "'s os \<Rightarrow> est_args \<Rightarrow> up_opts \<Rightarrow> ('s, unit) cmd" where
  "cmd_up os g u =
     (let snmp = snmp_layer g u
      in and_then (shell_up os g u) (\<lambda>_.
         and_then (wait_for os (o_shell_polls os) (PANEL @ ''/'')) (\<lambda>_.
         and_then (wait_for_children os (o_child_polls os) (JObj [])) (\<lambda>info.
         and_then (carried_line info) (\<lambda>_.
         and_then (if snmp then netsim_up os g u else done_with ()) (\<lambda>_.
         if g_no_checkmk g then done_with ()
         else run_setup os (cmk_args g (Some u) [''--snmp'', if snmp then ''on'' else ''off'', ''--agent-output-dir'', AGENT_FILES_DIR])))))))"

text \<open>\<open>down\<close> on its own has no options of \<open>up\<close>.\<close>

definition cmd_down :: "'s os \<Rightarrow> est_args \<Rightarrow> up_opts option \<Rightarrow> ('s, unit) cmd" where
  "cmd_down os g u =
     and_then (if \<not> g_no_checkmk g \<and> (\<not> falsy_opt (g_site g) \<or> \<not> falsy_opt (g_site_url g))
               then (\<lambda>m. case run_setup os (cmk_args g u [''--remove'']) m of
                        (Inl SystemExit, m') \<Rightarrow> (Inr (), m') | r \<Rightarrow> r)
               else done_with ()) (\<lambda>_.
     and_then (netsim_down os (Some g)) (\<lambda>_. shell_down os g))"

definition cmd_replace :: "'s os \<Rightarrow> est_args \<Rightarrow> up_opts \<Rightarrow> ('s, unit) cmd" where
  "cmd_replace os g u = and_then (cmd_down os g (Some u)) (\<lambda>_. cmd_up os g u)"

text \<open>The lines of the status for the hosts of one panel.\<close>

definition rpad :: "nat \<Rightarrow> string \<Rightarrow> string" where
  "rpad n s = s @ replicate (n - length s) (CHR '' '')"

definition not_green :: string where "not_green = ''   <== not green''"

definition status_lines :: "(string \<times> string option) list \<Rightarrow> string list" where
  "status_lines items =
     (let unhealthy = filter (\<lambda>(_, s). s \<notin> {Some ''healthy'', None, Some ''n/a''}) items
      in if length items \<le> 20
         then map (\<lambda>(nm, s). ''  '' @ rpad 22 nm @ '' '' @ (if falsy_opt s then ''n/a'' else the s) @ (if s = Some ''healthy'' then [] else not_green)) items
         else (''  '' @ nat_str (length items - length unhealthy) @ '' healthy''
               @ (if unhealthy \<noteq> [] then '', '' @ nat_str (length unhealthy) @ '' NOT green:'' else '', all green''))
            # map (\<lambda>(nm, s). ''  '' @ rpad 22 nm @ '' '' @ (case s of None \<Rightarrow> [] | Some x \<Rightarrow> x) @ not_green) unhealthy)"

definition jname :: "json \<Rightarrow> string \<Rightarrow> string" where
  "jname h k = (case jfield h k of Some (JStr s) \<Rightarrow> s | _ \<Rightarrow> [])"

definition panel_devices :: "json option \<Rightarrow> string list" where
  "panel_devices net = (case net of Some j \<Rightarrow> (case jfield j ''devices'' of Some (JObj ds) \<Rightarrow> map fst ds | _ \<Rightarrow> []) | None \<Rightarrow> [])"

definition panel_hosts :: "json option \<Rightarrow> string list" where
  "panel_hosts shell = (case shell of Some j \<Rightarrow> map (\<lambda>h. jname h ''name'') (jlist (jfield j ''carried_hosts'')) | None \<Rightarrow> [])"

definition open_or_exit :: "'s os \<Rightarrow> string \<Rightarrow> ('s, unit) cmd" where
  "open_or_exit os url = and_then (urlopen os url) (\<lambda>good. if good then done_with () else sys_exit)"

definition cmd_toggle :: "'s os \<Rightarrow> string \<Rightarrow> string \<Rightarrow> ('s, unit) cmd" where
  "cmd_toggle os action host =
     and_then (get_json os (PANEL @ ''/'')) (\<lambda>shell.
     and_then (get_json os (SNMP_PANEL @ ''/'')) (\<lambda>net.
       if host \<in> set (panel_hosts shell) then open_or_exit os (PANEL @ ''/admin/'' @ host @ ''/'' @ action)
       else if host \<in> set (panel_devices net) then open_or_exit os (SNMP_PANEL @ ''/admin/'' @ host @ ''/'' @ action)
       else sys_exit))"

text \<open>Arming and stopping; the printing of the timeline (\<open>status\<close>) is not modelled.\<close>

definition cmd_cascade :: "'s os \<Rightarrow> string option \<Rightarrow> ('s, unit) cmd" where
  "cmd_cascade os action_arg =
     (let action = (if falsy_opt action_arg then ''start'' else the action_arg)
      in if action \<notin> {''start'', ''heal'', ''stop''} then sys_exit
         else open_or_exit os (PANEL @ ''/admin/cascade/'' @ (if action \<in> {''heal'', ''stop''} then ''heal'' else ''start'')))"

end
