(* ===== verification/Estate_Runs.thy ===== *)
theory Estate_Runs
  imports Estate
begin

text \<open>
  What the commands of \<open>estate.py\<close> do for every surroundings: \<open>adds P c\<close>, every act of the command \<open>c\<close> satisfies \<open>P\<close>, however it
  ends; \<open>calm c\<close>, it ends well and leaves the files alone.
\<close>

named_theorems adds_rules
named_theorems calm_rules

section \<open>The acts of a command\<close>

definition adds :: "(est_act \<Rightarrow> bool) \<Rightarrow> ('s, 'a) cmd \<Rightarrow> bool" where
  "adds P c \<longleftrightarrow> (\<forall>m. \<exists>new. acts (snd (c m)) = acts m @ new \<and> list_all P new)"

lemma addsD: "adds P c \<Longrightarrow> c m = (r, m') \<Longrightarrow> \<exists>new. acts m' = acts m @ new \<and> list_all P new"
  by (metis adds_def snd_conv)

lemma adds_silent [adds_rules]:
  "adds P (done_with x)" "adds P sys_exit" "adds P (ask q)" "adds P (get_json os url)" "adds P (read_file path)" "adds P (carried_line j)"
  by (auto simp: adds_def done_with_def sys_exit_def ask_def get_json_def read_file_def carried_line_def split: prod.split)

lemma adds_act [adds_rules]: "P a \<Longrightarrow> adds P (record_act a)"
  by (simp add: adds_def record_act_def)

lemma adds_write [adds_rules]: "P (WriteFile path s) \<Longrightarrow> adds P (write_file_act path s)"
  by (simp add: adds_def write_file_act_def)

lemma adds_remove [adds_rules]: "P (RemoveFile path) \<Longrightarrow> adds P (remove_file path)"
  by (simp add: adds_def remove_file_def)

lemma adds_then [adds_rules]:
  assumes "adds P c" "\<And>x. adds P (f x)"
  shows "adds P (and_then c f)"
  unfolding adds_def
proof
  fix m
  obtain r m1 where c: "c m = (r, m1)" by (cases "c m")
  obtain n1 where n1: "acts m1 = acts m @ n1" "list_all P n1" using addsD [OF assms(1) c] by auto
  show "\<exists>new. acts (snd (and_then c f m)) = acts m @ new \<and> list_all P new"
  proof (cases r)
    case (Inr x)
    obtain r2 m2 where f: "f x m1 = (r2, m2)" by (cases "f x m1")
    obtain n2 where "acts m2 = acts m1 @ n2" "list_all P n2" using addsD [OF assms(2) f] by auto
    with n1 show ?thesis by (simp add: and_then_def c Inr f)
  qed (use n1 in \<open>simp add: and_then_def c\<close>)
qed

lemma adds_if [adds_rules]: "(b \<Longrightarrow> adds P c) \<Longrightarrow> (\<not> b \<Longrightarrow> adds P d) \<Longrightarrow> adds P (if b then c else d)"
  by simp

lemma adds_option [adds_rules]: "(x = None \<Longrightarrow> adds P c) \<Longrightarrow> (\<And>y. x = Some y \<Longrightarrow> adds P (d y)) \<Longrightarrow> adds P (case x of None \<Rightarrow> c | Some y \<Rightarrow> d y)"
  by (cases x) auto

lemma adds_let [adds_rules]: "adds P (f x) \<Longrightarrow> adds P (let y = x in f y)"
  by simp

lemma adds_waits [adds_rules]: "adds P (wait_for os n url)" "adds P (wait_for_children os n info)" "adds P (wait_gone os n url)"
  by (induction n arbitrary: info) (auto intro!: adds_rules simp: Let_def)

section \<open>Without the network layer\<close>

text \<open>An act that starts the simulator, in its container or as a process.\<close>

definition starts_netsim :: "'s os \<Rightarrow> est_act \<Rightarrow> bool" where
  "starts_netsim os a = (case a of
     Exec argv _ _ \<Rightarrow> NETSIM_CONTAINER \<in> set argv
   | Spawn argv _ \<Rightarrow> in_repo os [''snmp'', ''netsim.py''] = argv ! 2
   | _ \<Rightarrow> False)"

definition is_setup :: "est_act \<Rightarrow> bool" where
  "is_setup a = (case a of Setup _ \<Rightarrow> True | _ \<Rightarrow> False)"

lemma shell_up_acts: "adds (\<lambda>a. \<not> starts_netsim os a \<and> \<not> is_setup a) (shell_up os g u)"
  unfolding shell_up_def ensure_output_dir_def sh_def pid_alive_def Let_def
  by (intro adds_rules)
    (auto simp: starts_netsim_def is_setup_def NETSIM_CONTAINER_def in_repo_def compose_engine_def COMPOSE_ENGINES_def split: if_splits)

lemma netsim_up_acts: "adds (\<lambda>a. \<not> is_setup a) (netsim_up os g u)"
  unfolding netsim_up_def netsim_up_container_def netsim_up_native_def netsim_spawn_def netsim_down_def sh_def pid_kill_def urlopen_def Let_def
  by (intro adds_rules) (auto simp: is_setup_def)

lemma run_setup_acts: "acts (snd (run_setup os argv m)) = acts m @ [Setup argv]"
  by (simp add: run_setup_def and_then_def record_act_def split: prod.split)

text \<open>What \<open>up\<close> does before the setup.\<close>

definition up_before :: "'s os \<Rightarrow> est_args \<Rightarrow> up_opts \<Rightarrow> ('s, unit) cmd" where
  "up_before os g u =
     and_then (shell_up os g u) (\<lambda>_.
     and_then (wait_for os (o_shell_polls os) (PANEL @ ''/'')) (\<lambda>_.
     and_then (wait_for_children os (o_child_polls os) (JObj [])) (\<lambda>info.
     and_then (carried_line info) (\<lambda>_. if snmp_layer g u then netsim_up os g u else done_with ()))))"

lemma and_then_assoc: "and_then (and_then c f) h = and_then c (\<lambda>x. and_then (f x) h)"
  by (rule ext) (simp add: and_then_def split: prod.split sum.split)

lemma cmd_up_split:
  "cmd_up os g u = and_then (up_before os g u) (\<lambda>_. if g_no_checkmk g then done_with ()
     else run_setup os (cmk_args g (Some u) [''--snmp'', if snmp_layer g u then ''on'' else ''off'', ''--agent-output-dir'', AGENT_FILES_DIR]))"
  by (simp add: cmd_up_def up_before_def and_then_assoc Let_def)

lemma up_before_acts: "adds (\<lambda>a. \<not> is_setup a \<and> (snmp_layer g u \<or> \<not> starts_netsim os a)) (up_before os g u)"
proof -
  have weaken: "adds P c \<Longrightarrow> (\<And>a. P a \<Longrightarrow> Q a) \<Longrightarrow> adds Q c" for P Q and c :: "('s, unit) cmd"
    unfolding adds_def by (metis (no_types, lifting) list.pred_mono_strong)
  have sh: "adds (\<lambda>a. \<not> is_setup a \<and> (snmp_layer g u \<or> \<not> starts_netsim os a)) (shell_up os g u)"
    by (rule weaken [OF shell_up_acts]) simp
  have net: "adds (\<lambda>a. \<not> is_setup a \<and> (snmp_layer g u \<or> \<not> starts_netsim os a)) (netsim_up os g u)" if "snmp_layer g u"
    by (rule weaken [OF netsim_up_acts]) (simp add: that)
  show ?thesis unfolding up_before_def by (intro sh net adds_rules)
qed

text \<open>Bringing the estate up: however the surroundings behave, the setup runs at most once and last; where it
  runs, everything before it went well, and it is told whether there is a network layer.  Without one, at the
  small scales, with \<open>--no-snmp\<close> or in the cloud, no act starts the simulator.\<close>

theorem up_sets_up_last:
  "\<exists>before. list_all (\<lambda>a. \<not> is_setup a) before
     \<and> (snmp_layer g u \<or> list_all (\<lambda>a. \<not> starts_netsim os a) before)
     \<and> (acts (snd (cmd_up os g u m)) = acts m @ before
        \<or> (\<exists>m1. up_before os g u m = (Inr (), m1) \<and> acts m1 = acts m @ before \<and> \<not> g_no_checkmk g
             \<and> acts (snd (cmd_up os g u m)) = acts m @ before @ [Setup (cmk_args g (Some u)
                  [''--snmp'', if snmp_layer g u then ''on'' else ''off'', ''--agent-output-dir'', AGENT_FILES_DIR])]))"
proof -
  let ?argv = "cmk_args g (Some u) [''--snmp'', if snmp_layer g u then ''on'' else ''off'', ''--agent-output-dir'', AGENT_FILES_DIR]"
  obtain r1 m1 where b: "up_before os g u m = (r1, m1)" by (cases "up_before os g u m")
  obtain new where new: "acts m1 = acts m @ new" "list_all (\<lambda>a. \<not> is_setup a \<and> (snmp_layer g u \<or> \<not> starts_netsim os a)) new"
    using addsD [OF up_before_acts b] by auto
  then have l: "list_all (\<lambda>a. \<not> is_setup a) new \<and> (snmp_layer g u \<or> list_all (\<lambda>a. \<not> starts_netsim os a) new)"
    by (auto simp: list_all_iff)
  show ?thesis
  proof (cases "r1 = Inr () \<and> \<not> g_no_checkmk g")
    case True
    then have "cmd_up os g u m = run_setup os ?argv m1" by (simp add: cmd_up_split and_then_def b)
    then have "acts (snd (cmd_up os g u m)) = acts m @ new @ [Setup ?argv]" by (simp add: run_setup_acts new(1))
    with l b new(1) True show ?thesis by blast
  next
    case False
    then have "acts (snd (cmd_up os g u m)) = acts m @ new"
      using b new(1) by (cases r1) (auto simp: cmd_up_split and_then_def done_with_def)
    with l show ?thesis by blast
  qed
qed

section \<open>Taking the estate down\<close>

text \<open>Commands that end well, remove no file and only add acts.\<close>

definition calm :: "('s, 'a) cmd \<Rightarrow> bool" where
  "calm c \<longleftrightarrow> (\<forall>m. \<exists>x m' new. c m = (Inr x, m') \<and> tmp m' = tmp m \<and> acts m' = acts m @ new)"

lemma calm_simple [calm_rules]:
  "calm (done_with x)" "calm (ask q)" "calm (get_json os url)" "calm (record_act a)"
  by (auto simp: calm_def done_with_def ask_def get_json_def record_act_def split: prod.split)

lemma calm_then [calm_rules]:
  assumes "calm c" "\<And>x. calm (f x)"
  shows "calm (and_then c f)"
  unfolding calm_def
proof
  fix m
  obtain x m1 n1 where c: "c m = (Inr x, m1)" "tmp m1 = tmp m" "acts m1 = acts m @ n1" using assms(1) by (metis calm_def)
  obtain y m2 n2 where f: "f x m1 = (Inr y, m2)" "tmp m2 = tmp m1" "acts m2 = acts m1 @ n2" using assms(2) by (metis calm_def)
  have "and_then c f m = (Inr y, m2)" "tmp m2 = tmp m" "acts m2 = acts m @ n1 @ n2" using c f by (simp_all add: and_then_def)
  then show "\<exists>x m' new. and_then c f m = (Inr x, m') \<and> tmp m' = tmp m \<and> acts m' = acts m @ new" by blast
qed

lemma calm_if [calm_rules]: "calm c \<Longrightarrow> calm d \<Longrightarrow> calm (if b then c else d)"
  by simp

lemma calm_option [calm_rules]: "calm c \<Longrightarrow> (\<And>y. calm (d y)) \<Longrightarrow> calm (case x of None \<Rightarrow> c | Some y \<Rightarrow> d y)"
  by (cases x) auto

lemma calm_each [calm_rules]: "(\<And>x. calm (f x)) \<Longrightarrow> calm (each_cmd f xs)"
  by (induction xs) (auto intro!: calm_rules)

text \<open>The acts that end the process of a pid file.\<close>

definition told_to_end :: "string option \<Rightarrow> est_act list \<Rightarrow> bool" where
  "told_to_end s as \<longleftrightarrow> (case pid_of s of None \<Rightarrow> True | Some pid \<Rightarrow> Signal pid 15 \<in> set as)"

lemma told_mono: "told_to_end s as \<Longrightarrow> set as \<subseteq> set bs \<Longrightarrow> told_to_end s bs"
  by (auto simp: told_to_end_def split: option.splits)

lemma pid_kill_run:
  obtains m' new where "pid_kill os f m = (Inr (), m')" "tmp m' = (tmp m)(f := None)" "acts m' = acts m @ new" "told_to_end (tmp m f) new"
proof -
  let ?c = "case pid_of (tmp m f) of None \<Rightarrow> done_with False | Some pid \<Rightarrow> and_then (record_act (Signal pid 15)) (\<lambda>_. ask (o_signal os pid 15))"
  obtain x m1 n1 where c: "?c m = (Inr x, m1)" "tmp m1 = tmp m" "acts m1 = acts m @ n1" "told_to_end (tmp m f) n1"
  proof (cases "pid_of (tmp m f)")
    case None
    then show ?thesis using that [of False m "[]"] by (simp add: done_with_def told_to_end_def)
  next
    case (Some pid)
    obtain x s where "o_signal os pid 15 (outside m) = (x, s)" by (cases "o_signal os pid 15 (outside m)")
    then show ?thesis
      using that [of x "m\<lparr>acts := acts m @ [Signal pid 15], outside := s\<rparr>" "[Signal pid 15]"] Some
      by (simp add: and_then_def record_act_def ask_def told_to_end_def)
  qed
  have k: "pid_kill os f m = remove_file f m1"
    by (simp add: pid_kill_def and_then_def read_file_def c(1))
  show ?thesis
  proof (cases "tmp m1 f")
    case None
    then show ?thesis using that [of m1 n1] k c by (simp add: remove_file_def fun_upd_idem_iff [THEN iffD2] c(2))
  next
    case (Some y)
    have "told_to_end (tmp m f) (n1 @ [RemoveFile f])" by (rule told_mono [OF c(4)]) auto
    with Some show ?thesis
      using that [of "m1\<lparr>tmp := (tmp m1)(f := None), acts := acts m1 @ [RemoveFile f]\<rparr>" "n1 @ [RemoveFile f]"] k c
      by (simp add: remove_file_def)
  qed
qed

text \<open>The two halves of the shutdown.\<close>

lemma netsim_down_run:
  obtains m' new where "netsim_down os g m = (Inr (), m')" "tmp m' = (tmp m)(PIDFILE_NETSIM := None)" "acts m' = acts m @ new"
    "told_to_end (tmp m PIDFILE_NETSIM) new"
proof -
  define first where "first = (case (case g of None \<Rightarrow> None | Some a \<Rightarrow> compose_engine (g_runtime a)) of
             Some e \<Rightarrow> if o_which os e then and_then (sh os [e, ''rm'', ''-f'', NETSIM_CONTAINER] [] []) (\<lambda>_. done_with ()) else done_with ()
           | None \<Rightarrow> done_with ())"
  define last' where "last' = and_then (get_json os (SNMP_PANEL @ ''/'')) (\<lambda>up. case up of
             None \<Rightarrow> done_with ()
           | Some _ \<Rightarrow> and_then (urlopen os (SNMP_PANEL @ ''/admin/shutdown'')) (\<lambda>_. done_with ()))"
  have n: "netsim_down os g = and_then first (\<lambda>_. and_then (pid_kill os PIDFILE_NETSIM) (\<lambda>_. last'))"
    by (simp add: netsim_down_def first_def last'_def Let_def)
  have "calm first" unfolding first_def sh_def by (intro calm_rules)
  then obtain m1 n1 where 1: "first m = (Inr (), m1)" "tmp m1 = tmp m" "acts m1 = acts m @ n1" by (metis calm_def old.unit.exhaust)
  obtain m2 n2 where 2: "pid_kill os PIDFILE_NETSIM m1 = (Inr (), m2)" "tmp m2 = (tmp m1)(PIDFILE_NETSIM := None)" "acts m2 = acts m1 @ n2"
    "told_to_end (tmp m1 PIDFILE_NETSIM) n2" by (rule pid_kill_run)
  have "calm last'" unfolding last'_def urlopen_def by (intro calm_rules)
  then obtain m3 n3 where 3: "last' m2 = (Inr (), m3)" "tmp m3 = tmp m2" "acts m3 = acts m2 @ n3" by (metis calm_def old.unit.exhaust)
  have "told_to_end (tmp m PIDFILE_NETSIM) (n1 @ n2 @ n3)" using 1(2) 2(4) by (auto simp: told_to_end_def split: option.splits)
  with that [of m3 "n1 @ n2 @ n3"] 1 2 3 show ?thesis by (simp add: n and_then_def)
qed

lemma shell_down_run:
  obtains m' new where "shell_down os g m = (Inr (), m')" "tmp m' = (tmp m)(PIDFILE_SHELL := None)" "acts m' = acts m @ new"
    "told_to_end (tmp m PIDFILE_SHELL) new"
proof -
  define first where "first = (if g_runtime g \<noteq> ''native''
               then each_cmd (\<lambda>engine. if o_which os engine
                      then and_then (sh os [engine, ''compose'', ''down''] (in_repo os [''deploy'', ''piggyback'']) []) (\<lambda>_. done_with ())
                      else done_with ()) COMPOSE_ENGINES
               else done_with ())"
  have n: "shell_down os g = and_then first (\<lambda>_. pid_kill os PIDFILE_SHELL)" by (simp add: shell_down_def first_def)
  have "calm first" unfolding first_def sh_def by (intro calm_rules)
  then obtain m1 n1 where 1: "first m = (Inr (), m1)" "tmp m1 = tmp m" "acts m1 = acts m @ n1" by (metis calm_def old.unit.exhaust)
  obtain m2 n2 where 2: "pid_kill os PIDFILE_SHELL m1 = (Inr (), m2)" "tmp m2 = (tmp m1)(PIDFILE_SHELL := None)" "acts m2 = acts m1 @ n2"
    "told_to_end (tmp m1 PIDFILE_SHELL) n2" by (rule pid_kill_run)
  have "told_to_end (tmp m PIDFILE_SHELL) (n1 @ n2)" using 1(2) 2(4) by (auto simp: told_to_end_def split: option.splits)
  with that [of m2 "n1 @ n2"] 1 2 show ?thesis by (simp add: n and_then_def)
qed

lemma setup_calm:
  fixes os :: "'s os"
  assumes "\<And>argv s. fst (o_setup os argv s) \<in> {Inr (), Inl SystemExit}"
  shows "calm (\<lambda>m :: 's machine. case run_setup os argv m of (Inl SystemExit, m') \<Rightarrow> (Inr (), m') | r \<Rightarrow> r)"
  unfolding calm_def
proof
  fix m :: "'s machine"
  obtain r s where o': "o_setup os argv (outside m) = (r, s)" by (cases "o_setup os argv (outside m)")
  then have "r = Inr () \<or> r = Inl SystemExit" using assms [of argv "outside m"] by simp
  then show "\<exists>x m' new. (case run_setup os argv m of (Inl SystemExit, m') \<Rightarrow> (Inr (), m') | r \<Rightarrow> r) = (Inr x, m')
      \<and> tmp m' = tmp m \<and> acts m' = acts m @ new"
    by (auto simp: run_setup_def and_then_def record_act_def o')
qed


definition wit_os :: "nat os" where
  "wit_os = \<lparr>o_json = (\<lambda>_ s. (None, s)), o_exec = (\<lambda>_ s. (0, s)), o_which = (\<lambda>_. False), o_spawn = (\<lambda>_ s. (7, s)), o_signal = (\<lambda>_ _ s. (True, s)),
     o_visit = (\<lambda>_ s. (False, s)), o_setup = (\<lambda>_ s. (Inl SystemExit, s)), o_code = (\<lambda>_. None), o_python = ''python3'', o_repo = ''/r'',
     o_shell_polls = 90, o_child_polls = 60, o_netsim_polls = 90, o_stop_polls = 30\<rparr>"

definition wit_down_args :: est_args where
  "wit_down_args = \<lparr>g_runtime = ''native'', g_site = Some ''v300'', g_site_url = None, g_user = None, g_secret = None, g_force_foreign = False, g_no_checkmk = False\<rparr>"


section \<open>The responder that is already running\<close>

text \<open>A native \<open>up\<close> keeps a running simulator of the same scale and code whatever number of replicas it is asked for, although
  the number decides how many access switches the simulator has.\<close>

lemma native_responder_ignores_replicas:
  assumes "o_json os (SNMP_PANEL @ ''/'') (outside m) = (Some j, s)" "running_fleet j = fleet" "\<not> u_force u"
    and "tmp m NETSIM_SIGFILE = Some sig" "strip sig = netsim_sig os"
  shows "netsim_up_native os fleet g (u\<lparr>u_replicas := n\<rparr>) m = (Inr True, m\<lparr>outside := s\<rparr>)"
  using assms by (simp add: netsim_up_native_def and_then_def get_json_def ask_def read_file_def done_with_def Let_def)

end
