(* ===== verification/Cmk_Main.thy ===== *)
theory Cmk_Main
  imports Cmk_Flow
begin

text \<open>
  The entry of \<open>deploy/cmk_setup.py\<close>: which site it talks to, with which credentials, and which flow it runs.  The local sites
  are parameters: the listing of \<open>/omd/sites\<close> (\<open>None\<close> where it cannot be read), the time a site's version was linked and what its
  REST interface answers.  \<open>connect\<close> is the site behind a URL for a user and a secret.  Parsing the options is \<open>argparse\<close>'s;
  its values are the record \<open>main_opts\<close>.
\<close>

section \<open>Local sites\<close>

datatype probe = Opened | HttpError int | Unreachable

definition site_alive :: "probe \<Rightarrow> bool" where
  "site_alive p = (case p of Opened \<Rightarrow> True | HttpError c \<Rightarrow> c \<in> {401, 200} | Unreachable \<Rightarrow> False)"

text \<open>\<open>s[1:2].isdigit()\<close>, which also holds for the superscripts.\<close>

definition site_name :: "string \<Rightarrow> bool" where
  "site_name s \<longleftrightarrow> (case s of v # d # _ \<Rightarrow> v = CHR ''v'' \<and> (digit_char d \<or> of_char d \<in> {178 :: nat, 179, 185}) | _ \<Rightarrow> False)"

definition detect_dev_site :: "string list option \<Rightarrow> (string \<Rightarrow> real) \<Rightarrow> (string \<Rightarrow> probe) \<Rightarrow> string res" where
  "detect_dev_site listing linked probe_of =
     (let candidates = filter site_name (case listing of None \<Rightarrow> [] | Some l \<Rightarrow> l)
      in case filter (\<lambda>s. site_alive (probe_of s)) (sort_key (\<lambda>s. - linked s) candidates) of
           [] \<Rightarrow> Inl SystemExit
         | s # _ \<Rightarrow> Inr s)"

section \<open>The entry\<close>

record main_opts =
  mo_site :: "string option"
  mo_site_url :: "string option"
  mo_user :: "string option"
  mo_secret :: "string option"
  mo_remove :: bool

definition given_opt :: "string option \<Rightarrow> bool" where
  "given_opt x \<longleftrightarrow> x \<noteq> None \<and> x \<noteq> Some []"

definition or_else :: "string option \<Rightarrow> string \<Rightarrow> string" where
  "or_else x y = (if given_opt x then the x else y)"

text \<open>The cloud mode (the other of the two) switches the network layer off, and refuses it where it is asked for.\<close>

definition effective_snmp :: "args \<Rightarrow> args res" where
  "effective_snmp a = (if \<not> a_self_hosted a then (if a_snmp a = ''on'' then Inl SystemExit else Inr (a\<lparr>a_snmp := ''off''\<rparr>)) else Inr a)"

text \<open>URL, user and secret; \<open>asked\<close> is what the prompt returns.\<close>

definition credentials :: "main_opts \<Rightarrow> string res \<Rightarrow> string \<Rightarrow> (string \<times> string \<times> string) res" where
  "credentials o' detected asked =
     (if given_opt (mo_site o') = given_opt (mo_site_url o') then Inl SystemExit
      else if given_opt (mo_site o')
           then bindR (if mo_site o' = Some ''auto'' then detected else Inr (the (mo_site o'))) (\<lambda>nm.
                  Inr (''http://localhost/'' @ nm, or_else (mo_user o') ''cmkadmin'', or_else (mo_secret o') ''cmk''))
           else Inr (the (mo_site_url o'), or_else (mo_user o') ''automation'', or_else (mo_secret o') asked))"

definition setup_main :: "(string \<Rightarrow> string \<Rightarrow> string \<Rightarrow> 's api) \<Rightarrow> string res \<Rightarrow> string \<Rightarrow> 's around \<Rightarrow> main_opts \<Rightarrow> args \<Rightarrow> ('s, unit) flow" where
  "setup_main connect detected asked e o' a =
     (case bindR (effective_snmp a) (\<lambda>a. bindR (credentials o' detected asked) (\<lambda>c. Inr (a, c))) of
        Inl err \<Rightarrow> (\<lambda>w. (Inl err, w))
      | Inr (a, url, user, secret) \<Rightarrow>
          (let e = e\<lparr>e_api := connect url user secret\<rparr>
           in bnd (request (e_api e) (get_req ''/version'')) (\<lambda>r.
                if status r \<noteq> 200 then die
                else if mo_remove o' then teardown e a
                else bnd (setup_flow e a) (\<lambda>_. ret ()))))"

section \<open>What the entry settles\<close>

text \<open>The site found is a running one, and none that runs was made later.\<close>

lemma detect_newest:
  assumes "detect_dev_site (Some l) linked probe_of = Inr s"
  shows "s \<in> set l \<and> site_name s \<and> site_alive (probe_of s)
    \<and> (\<forall>t \<in> set l. site_name t \<longrightarrow> site_alive (probe_of t) \<longrightarrow> linked t \<le> linked s)"
proof -
  let ?c = "sort_key (\<lambda>s. - linked s) (filter site_name l)"
  obtain rest where f: "filter (\<lambda>s. site_alive (probe_of s)) ?c = s # rest"
    using assms by (auto simp: detect_dev_site_def split: list.splits)
  have "sorted (map (\<lambda>s. - linked s) (filter (\<lambda>s. site_alive (probe_of s)) ?c))" by (simp add: sorted_filter)
  then have o': "\<forall>t \<in> set (s # rest). linked t \<le> linked s" by (simp add: f)
  have m: "t \<in> set (s # rest) \<longleftrightarrow> t \<in> set l \<and> site_name t \<and> site_alive (probe_of t)" for t
    by (subst f [symmetric]) auto
  have "s \<in> set (s # rest)" by simp
  then show ?thesis using m o' by metis
qed

lemma detect_fails: "detect_dev_site l linked probe_of = Inl x \<Longrightarrow> x = SystemExit"
  by (auto simp: detect_dev_site_def split: list.splits)

text \<open>Without exactly one of the two ways to name a site, or with the network layer asked for in the cloud, nothing is sent.\<close>

lemma setup_main_refuses:
  assumes "given_opt (mo_site o') = given_opt (mo_site_url o') \<or> (\<not> a_self_hosted a \<and> a_snmp a = ''on'')"
  shows "setup_main connect detected asked e o' a w = (Inl SystemExit, w)"
  using assms by (cases "effective_snmp a") (auto simp: setup_main_def credentials_def effective_snmp_def split: if_splits)

text \<open>Every run that sends anything sends \<open>GET /version\<close> first, and nothing more when that fails.\<close>

lemma setup_main_asks_first:
  assumes "bindR (effective_snmp a) (\<lambda>a. bindR (credentials o' detected asked) (\<lambda>c. Inr (a, c))) = Inr (b, url, user, secret)"
    and "connect url user secret (get_req ''/version'') (site w) = (Some p, s)" "status p \<noteq> 200"
  shows "setup_main connect detected asked e o' a w = (Inl SystemExit, w\<lparr>site := s, trace := trace w @ [get_req ''/version'']\<rparr>)"
  using assms by (simp add: setup_main_def Let_def bnd_def request_def die_def)

end
