(* ===== verification/Fleet_Panel.thy ===== *)
theory Fleet_Panel
  imports Fleet_Tables Fleet_Hosts Shell Host_Saved
begin

text \<open>
  The fleet process as the delivery shell sees it: its state file, its web server and the hosts the shell makes of the
  listing (\<open>fleet/serve.py\<close>, and the classes \<open>FleetManager\<close> and \<open>FleetHost\<close> of \<open>deploy/piggyback/serve.py\<close>).
\<close>

section \<open>The state file\<close>

definition fleet_save_state :: "real \<times> (string \<rightharpoonup> counter) \<Rightarrow> real option \<times> (string \<rightharpoonup> real \<times> real)" where
  "fleet_save_state p = (Some (fst p), dump_counters (snd p))"

definition fleet_load_state :: "(real option \<times> (string \<rightharpoonup> real \<times> real)) option \<Rightarrow> real \<times> (string \<rightharpoonup> counter) \<Rightarrow> real \<times> (string \<rightharpoonup> counter)" where
  "fleet_load_state f p = (case f of None \<Rightarrow> p
     | Some (start, saved) \<Rightarrow> ((case start of None \<Rightarrow> fst p | Some t \<Rightarrow> t), load_counters saved (snd p)))"

lemma fleet_state_restored:
  "let r = fleet_load_state (Some (fleet_save_state p)) q in fst r = fst p \<and> carried_over (snd p) (snd q) (snd r)"
  by (simp add: Let_def fleet_load_state_def fleet_save_state_def load_dump)

section \<open>The web server\<close>

record fleet_entry =
  fe_name :: string
  fe_fqdn :: string
  fe_os :: string
  fe_role :: string
  fe_descr :: string
  fe_parent :: "string option"
  fe_site :: string

definition fleet_entry_of :: "fleet_cfg \<Rightarrow> fhost \<Rightarrow> fleet_entry" where
  "fleet_entry_of cfg h =
     \<lparr>fe_name = fh_short h, fe_fqdn = fqdn cfg (fh_short h), fe_os = (if hc_os (fh_cls h) = Some ''windows'' then ''windows'' else ''linux''),
      fe_role = hc_role (fh_cls h), fe_descr = hc_descr (fh_cls h), fe_parent = fh_parent h,
      fe_site = (case hc_site (fh_cls h) of None \<Rightarrow> ''dc'' | Some s \<Rightarrow> s)\<rparr>"

datatype fleet_reply = AgentOf fhost | NoSuchHost | Listing "fleet_entry list"

definition fleet_get :: "fleet_cfg \<Rightarrow> (string \<times> fhost) list \<Rightarrow> string \<Rightarrow> fleet_reply" where
  "fleet_get cfg hosts url =
     (let path = rstrip_by (\<lambda>c. c = CHR ''/'') (fst (partition_at (CHR ''?'') url));
          path = (if path = [] then ''/'' else path)
      in if startswith path ''/agent/''
         then (case map_of hosts (drop 7 path) of None \<Rightarrow> NoSuchHost | Some h \<Rightarrow> AgentOf h)
         else Listing (map (\<lambda>(_, h). fleet_entry_of cfg h) hosts))"

section \<open>The shell's side\<close>

text \<open>\<open>FleetHost.__init__\<close> of an entry.\<close>

definition fleet_host_of :: "fleet_entry \<Rightarrow> fleet_host" where
  "fleet_host_of i = \<lparr>f_name = fe_name i, f_fqdn = fe_fqdn i, f_parent = fe_parent i, f_role = Some (fe_role i), f_os = Some (fe_os i),
     f_descr = fe_descr i\<rparr>"

text \<open>\<open>FleetManager.roster\<close>: the answers to its tries, \<open>None\<close> where one fails; past the deadline the fleet is left out.\<close>

fun fleet_roster :: "fleet_entry list option list \<Rightarrow> fleet_entry list" where
  "fleet_roster [] = []"
| "fleet_roster (None # tries) = fleet_roster tries"
| "fleet_roster (Some es # tries) = es"

definition fleet_agent_url :: "string \<Rightarrow> string" where
  "fleet_agent_url short = ''/agent/'' @ short"

section \<open>The two sides agree\<close>

lemma entry_name: "fe_name (fleet_entry_of cfg h) = fh_short h"
  by (simp add: fleet_entry_of_def)

text \<open>The output the shell fetches for a host of the listing is that host's.\<close>

lemma fleet_fetch_own:
  assumes "distinct (map fst hosts)" "(k, h) \<in> set hosts" "k = fh_short h"
    and "CHR ''?'' \<notin> set k" "k \<noteq> []" "last k \<noteq> CHR ''/''"
  shows "fleet_get cfg hosts (fleet_agent_url (f_name (fleet_host_of (fleet_entry_of cfg h)))) = AgentOf h"
proof -
  have u: "fleet_agent_url (f_name (fleet_host_of (fleet_entry_of cfg h))) = ''/agent/'' @ k"
    by (simp add: fleet_agent_url_def fleet_host_of_def entry_name assms(3))
  have p: "partition_at (CHR ''?'') (''/agent/'' @ k) = (''/agent/'' @ k, [])" using assms(4) by (intro partition_at_none) auto
  have "rev k \<noteq> []" "hd (rev k) \<noteq> CHR ''/''" using assms(5,6) by (simp_all add: hd_rev)
  then have "dropWhile (\<lambda>c. c = CHR ''/'') (rev (''/agent/'' @ k)) = rev (''/agent/'' @ k)"
    by (cases "rev k") auto
  then have r: "rstrip_by (\<lambda>c. c = CHR ''/'') (''/agent/'' @ k) = ''/agent/'' @ k" unfolding rstrip_by_def by simp
  have "map_of hosts k = Some h" using assms(1,2) by simp
  then show ?thesis unfolding fleet_get_def u p fst_conv r Let_def by (simp add: startswith_def)
qed

text \<open>What the panel shows of the fleet's hosts: names and roles of the listing, never an incident or an action, and the
  parents in the shell's own domain.\<close>

lemma fleet_on_panel:
  "carried_hosts env get (map (\<lambda>e. Fleet (fleet_host_of e)) es) = map (\<lambda>e.
     \<lparr>ci_name = fe_name e, ci_fqdn = fe_fqdn e, ci_state = Some ''healthy'', ci_actions = [],
      ci_parent = (case fe_parent e of None \<Rightarrow> None | Some p \<Rightarrow> if p = [] then None else Some (p @ ''.'' @ ESTATE_DOMAIN env)),
      ci_role = Some (fe_role e), ci_os = Some (fe_os e)\<rparr>) es"
  by (simp add: carried_hosts_def fleet_host_of_def child_state_def)

end
