(* ===== verification/Spec2Isabelle.thy ===== *)
theory Spec2Isabelle
  imports Netsim_Process Shell_Delivery Cascade Cmk_Stamp Fleet_Green Host_Web Host_Worker Host_Mail Host_Files Host_Redis
    Host_Backup Host_Replica Host_Primary Host_Pay Host_Win Host_Lifecycle Host_Saved Host_Status
    Curate_Hides Estate_Runs Cmk_Main Fleet_Panel
begin

text \<open>
  This library models the demo estate of the repository: a set of Python programs that play a data centre for a
  Checkmk site.  It says what the programs compute, function by function, and proves what the estate relies on.

  \<^bold>\<open>The program.\<close>  Three kinds of process feed one Checkmk site, and a script configures it.
  The network simulator (\<open>snmp/netsim.py\<close>, with the responder \<open>snmp/snmpserver.py\<close>) answers SNMP for
  four synthetic and 116 replayed devices.  The delivery shell (\<open>deploy/piggyback/serve.py\<close>) starts the ten
  host programs (\<open>hosts/*/serve.py\<close>) as children, collects their agent outputs, hands them on as a piggyback stream or as
  files, and runs the cross-host cascade.  The fleet (\<open>fleet/serve.py\<close> over \<open>fleet/profiles.py\<close>) produces the
  agent outputs of 175 hosts that are always green.  \<open>deploy/cmk_setup.py\<close> asks the shell and the simulator what they
  carry and creates hosts, rules, business intelligence and labels over the REST interface of the site.  \<open>estate.py\<close> starts
  and stops all of it, and \<open>snmp/curate_walks.py\<close> prepares the recorded walks the simulator replays.

  \<^bold>\<open>Theories.\<close>
  \<^item> \<open>Prelude\<close>: Python values, strings, numbers, rounding, the result type \<open>res\<close> (an exception or a value);
    \<open>Py_Json\<close>: JSON values and their compact text.
  \<^item> \<open>Ber\<close>, \<open>Snmp_Table\<close>, \<open>Snmp_Pdu\<close> (\<open>snmp/snmpserver.py\<close>): the codec with the locale \<open>tlv_codec\<close>, the
    class \<open>Table\<close> with the locale \<open>oid_view\<close>, and the handling of one datagram.  Lemmas: round trips, bounds of
    the reader, every request answered, walks complete and stable under refresh.
  \<^item> \<open>Physics\<close>, \<open>Netsim_Devices\<close>, \<open>Replay\<close>, \<open>Replay_Roster\<close>, \<open>Netsim_Ctl\<close>, \<open>Netsim_Process\<close> (\<open>snmp/netsim.py\<close>):
    wobbles, gauges, counters (locale \<open>sampler\<close>) and the incident record; the device classes; the replayed walks; the
    roster; the table cache (locale \<open>table_feed\<close>, interpreted on both kinds of device), the state file, the walk writer and the control URLs.  Lemmas: counters never
    fall and respect the line rate, a refreshed table keeps its OIDs, serial numbers keep their format,
    names are unique, a restart is invisible, a walk file is never torn.
  \<^item> \<open>Shell\<close>, \<open>Shell_Delivery\<close>, \<open>Cascade\<close> (\<open>deploy/piggyback/serve.py\<close>): configuration and roster, the stream and
    the files with every system call and failure, the cascade as single steps and interleaved.  Lemmas: the scheduler refines
    the timeline, healing is final unless it races with a tick, a reader never finds a torn file.
  \<^item> \<open>Cmk_Client\<close>, \<open>Cmk_Setup\<close>, \<open>Cmk_Order\<close>, \<open>Cmk_Flow\<close>, \<open>Cmk_Trace\<close>, \<open>Cmk_Stamp\<close>, \<open>Cmk_Main\<close> (\<open>deploy/cmk_setup.py\<close>): every flow
    of the script over an arbitrary site, a function from requests to responses, and the entry that settles the site and the credentials.  Lemmas: what a flow can send, that polling ends,
    that setup run twice asks one question, that the preview is what setup does.
  \<^item> \<open>Fleet_Profiles\<close>, \<open>Fleet_Roster\<close>, \<open>Fleet_Hosts\<close>, \<open>Fleet_Tables\<close>, \<open>Fleet_Linux\<close>, \<open>Fleet_Windows\<close>,
    \<open>Fleet_Green\<close> (\<open>fleet/\<close>): the host classes, the roster with guests and hypervisors, the constructors, and the agent outputs
    section by section, with the standard library they are written with in \<open>Agent_Text\<close>.  \<open>Fleet_Panel\<close> has the
    state file and the web server of the fleet as the shell uses them.  Lemmas: the topology
    is closed, disks and memory stay green, processes agree with units.
  \<^item> \<open>Host_Incident\<close>, \<open>Host_Story\<close>, \<open>Host_Lifecycle\<close>: the incident machinery as
    \<open>hosts/app-worker-01/serve.py\<close> has it and four more hosts repeat it word for word; the rules for runs whose clock readings lie in a time span (\<open>timed\<close>); and
    the life of the record under requests, escalation and restarts.  \<open>Counter_Ops\<close> (locale \<open>tick_adder\<close>) and \<open>Crc32\<close> hold
    what only some hosts use.  \<open>Host_Saved\<close> has the state files of the other five hosts, \<open>Host_Status\<close> what the web
    servers answer.  Lemmas: a restart is invisible, the countdown to the escalation ends when the thread acts.
  \<^item> \<open>Host_Web\<close>, \<open>Host_Worker\<close>, \<open>Host_Mail\<close>, \<open>Host_Files\<close>, \<open>Host_Redis\<close>, \<open>Host_Backup\<close>, \<open>Host_Replica\<close>,
    \<open>Host_Primary\<close>, \<open>Host_Pay\<close>, \<open>Host_Win\<close>: one theory per host program: its counters and story functions and
    \<open>build_agent_output\<close>, one definition per block of the function, in its order, composed by \<open>*_build\<close>.  Local variables one block
    leaves to later ones are the components of a record or a tuple.  Lemmas: where the figures
    stand in each phase of the incident against Checkmk's default levels.

  \<^item> \<open>Sha256\<close>, \<open>Py_Re\<close>, \<open>Curate\<close>, \<open>Curate_Hides\<close> (\<open>snmp/curate_walks.py\<close>): the offline script that turns recorded walks into
    the library's files, with the digest and the regular expressions it uses.  Lemmas: recorded identities do not influence a
    curated walk, the file is sorted and read back as written.
  \<^item> \<open>Estate\<close>, \<open>Estate_Runs\<close> (\<open>estate.py\<close>): the command that starts and stops everything, as the list of its acts over
    arbitrary surroundings.  Lemmas: the setup runs last, taking down always reaches both processes.

  \<^bold>\<open>State and effects.\<close>  A render runs in the record \<open>sim\<close>: the clock readings still to come, the Gaussian
  samples still to come, the gauge registry and the counters by name.  Every call of \<open>time.time\<close>
  and of the generator takes the next reading, in the order of the code, so a theorem for every \<open>sim\<close> is one for every clock and
  noise.  The outcomes of \<open>random.randint\<close> come as a stream \<open>ri\<close> and those of seeded generators as functions of the
  seed (\<open>roll\<close>, \<open>draw\<close>).  Module variables that an incident changes are records of their own (\<open>dstate\<close>, \<open>win_state\<close>).
  Exceptions are values of \<open>res\<close>; handlers that catch them are branches.

  \<^bold>\<open>Numbers.\<close>  Python integers are \<open>int\<close>, bytes are \<open>8 word\<close>, CRC-32 is on \<open>32 word\<close>.  Floats are real numbers: rounding
  errors of the machine are outside the model, \<open>int()\<close>, \<open>round()\<close> and formatting are written out.

  \<^bold>\<open>Bounds.\<close>  Loops over input are structural or have a measure (the parser of variable bindings: the bytes left; the creation
  order: the devices left; bisection: the interval).  The polling loops of the setup, which the code ends by a deadline, have as fuel the number \<open>polls\<close> of
  requests that fit before it, and running out of fuel is what the code does at the deadline.  No other fuel is used.

  \<^bold>\<open>Not modelled.\<close>  Sockets, threads, HTTP servers, command lines and the HTML pages: I/O and display around the
  modelled handlers.  The shell scripts only install.  The recorded walks are data: a
  walk is a parameter, and so are a Checkmk site, the file system's failures and the seeded generators of Python.
\<close>

end
